(* ===== verification/Litmus_Prelude.thy ===== *)
theory Litmus_Prelude
  imports Main "HOL-Library.Multiset" "HOL-Library.Sublist" "HOL-Library.AList"
    "HOL-Library.Char_ord" "HOL-Library.List_Lexorder"
begin

text \<open>
  Shared vocabulary of the development: how Go values, panics and maps are written in the
  component theories, and the generic lemmas on lists, multisets and association lists that
  the components use.

  \<^item> A Go \<^verbatim>\<open>string\<close> is a byte sequence, \<^typ>\<open>string\<close>; a \<^verbatim>\<open>*string\<close> is an option.
  \<^item> A run-time panic is a value of \<^verbatim>\<open>go_panic\<close>; a computation that may panic has the sum
    type \<^verbatim>\<open>go_panic + 'a\<close>.
  \<^item> \<^verbatim>\<open>FatalExit\<close> among the panics is \<^verbatim>\<open>logrus.Fatal\<close>: the process ends, no recovery takes place;
    \<^verbatim>\<open>ExplicitPanic\<close> is a call of \<^verbatim>\<open>panic\<close>, as by \<^verbatim>\<open>logrus.Panic\<close>.
  \<^item> A Go \<^verbatim>\<open>int\<close> or \<^verbatim>\<open>int64\<close> is an \<^typ>\<open>int\<close>; where an operation can leave the 64-bit
    range the wrap-around is written with \<^verbatim>\<open>wrap64\<close>.
  \<^item> A Go map that is iterated over is an association list with distinct keys whose order is
    the (arbitrary) iteration order; a map that is only looked up is a function into an option.
\<close>

named_theorems go_simps \<open>evaluation rules of the model's small helpers\<close>

datatype go_panic = IndexOutOfRange | SliceBounds | NilDereference | NilMapWrite | UncomparableType | TypeAssertion | ClosedChannel | FatalExit | ExplicitPanic

type_synonym 'a go = "go_panic + 'a"

section \<open>64-bit integers\<close>

definition in_int64 :: "int \<Rightarrow> bool" where
  "in_int64 i \<longleftrightarrow> - (2 ^ 63) \<le> i \<and> i < 2 ^ 63"

definition wrap64 :: "int \<Rightarrow> int" where
  "wrap64 i = (i + 2 ^ 63) mod 2 ^ 64 - 2 ^ 63"

lemma wrap64_id [simp]: "in_int64 i \<Longrightarrow> wrap64 i = i"
  by (simp add: in_int64_def wrap64_def)

lemma wrap64_range: "in_int64 (wrap64 i)"
  using pos_mod_bound [of "2 ^ 64" "i + 2 ^ 63"] pos_mod_sign [of "2 ^ 64" "i + 2 ^ 63"]
  by (simp add: in_int64_def wrap64_def)

section \<open>Lists\<close>

text \<open>The index of the first element that satisfies a predicate, as the loops of the code find it.\<close>

fun find_index :: "('a \<Rightarrow> bool) \<Rightarrow> 'a list \<Rightarrow> nat option" where
  "find_index P [] = None"
| "find_index P (x # xs) = (if P x then Some 0 else map_option Suc (find_index P xs))"

lemma find_index_None: "find_index P xs = None \<longleftrightarrow> (\<forall>x\<in>set xs. \<not> P x)"
  by (induction xs) auto

lemma find_index_Some:
  "find_index P xs = Some i \<Longrightarrow> i < length xs \<and> P (xs ! i) \<and> (\<forall>j<i. \<not> P (xs ! j))"
proof (induction xs arbitrary: i)
  case (Cons x xs)
  then show ?case
    by (cases "P x") (auto simp: less_Suc_eq_0_disj)
qed simp

lemma find_index_eqI:
  "i < length xs \<Longrightarrow> P (xs ! i) \<Longrightarrow> (\<And>j. j < i \<Longrightarrow> \<not> P (xs ! j)) \<Longrightarrow> find_index P xs = Some i"
proof (induction xs arbitrary: i)
  case (Cons x xs)
  show ?case
  proof (cases i)
    case 0
    with Cons.prems show ?thesis by simp
  next
    case (Suc k)
    with Cons.prems(3) [of 0] have "\<not> P x" by simp
    moreover have "find_index P xs = Some k"
    proof (rule Cons.IH)
      show "k < length xs" "P (xs ! k)" using Cons.prems Suc by auto
      show "\<not> P (xs ! j)" if "j < k" for j
        using Cons.prems(3) [of "Suc j"] that Suc by simp
    qed
    ultimately show ?thesis using Suc by simp
  qed
qed simp

lemma sort_mset_cong: "mset xs = mset ys \<Longrightarrow> sort xs = sort ys"
  by (metis mset_sort properties_for_sort sorted_sort)

section \<open>Outcomes\<close>

text \<open>Handlers yield a pair or triple; an evaluation determines the outer components.\<close>

lemma pairI: "fst r = a \<Longrightarrow> r = (a, snd r)"
  by (cases r) simp

lemma tripleI: "fst r = a \<Longrightarrow> snd (snd r) = b \<Longrightarrow> r = (a, fst (snd r), b)"
  by (cases r) simp

section \<open>Multisets\<close>

text \<open>Replacing one element, the effect of a single-document update.\<close>

definition replace_mset :: "'a \<Rightarrow> 'a \<Rightarrow> 'a multiset \<Rightarrow> 'a multiset" where
  "replace_mset x y M = add_mset y (M - {#x#})"

lemma in_replace_mset: "x \<in># M \<Longrightarrow> z \<in># replace_mset x y M \<Longrightarrow> z = y \<or> z \<in># M"
  by (auto simp: replace_mset_def dest: in_diffD)

lemma replace_mset_new [simp]: "y \<in># replace_mset x y M"
  by (simp add: replace_mset_def)

lemma replace_mset_other: "z \<in># M \<Longrightarrow> z \<noteq> x \<Longrightarrow> z \<in># replace_mset x y M"
  by (auto simp: replace_mset_def in_diff_count)

lemma size_replace_mset: "x \<in># M \<Longrightarrow> size (replace_mset x y M) = size M"
  by (metis insert_DiffM replace_mset_def size_add_mset)

lemma image_replace_mset:
  "x \<in># M \<Longrightarrow> f y = f x \<Longrightarrow> image_mset f (replace_mset x y M) = image_mset f M"
  by (simp add: replace_mset_def image_mset_Diff)

text \<open>At most one element per key, what a unique index guarantees.\<close>

definition unique_by :: "('a \<Rightarrow> 'k) \<Rightarrow> 'a multiset \<Rightarrow> bool" where
  "unique_by k P \<longleftrightarrow> (\<forall>i. count (image_mset k P) i \<le> 1)"

lemma unique_byD:
  assumes "unique_by k P" "p \<in># P" "q \<in># P" "k p = k q"
  shows "p = q"
proof (rule ccontr)
  assume "p \<noteq> q"
  then have "q \<in># P - {#p#}" using assms(3) by (simp add: in_diff_count)
  then obtain R where "P = add_mset p (add_mset q R)"
    using assms(2) by (metis insert_DiffM)
  moreover have "count (image_mset k P) (k q) \<le> 1"
    using assms(1) by (simp only: unique_by_def)
  ultimately show False using assms(4) by simp
qed

lemma unique_by_mset [simp]: "unique_by k (mset ps) \<longleftrightarrow> distinct (map k ps)"
proof -
  have "unique_by k (mset ps) \<longleftrightarrow> (\<forall>i. count (mset (map k ps)) i \<le> 1)"
    by (simp add: unique_by_def)
  also have "\<dots> \<longleftrightarrow> distinct (map k ps)"
  proof
    assume l: "\<forall>i. count (mset (map k ps)) i \<le> 1"
    show "distinct (map k ps)"
      unfolding distinct_count_atmost_1
    proof
      fix a
      show "count (mset (map k ps)) a = (if a \<in> set (map k ps) then 1 else 0)"
        using l [rule_format, of a] count_mset_0_iff [of "map k ps" a]
        by (cases "a \<in> set (map k ps)") (auto simp: le_Suc_eq)
    qed
  qed (simp add: distinct_count_atmost_1)
  finally show ?thesis .
qed

lemma unique_by_add: "unique_by k P \<Longrightarrow> \<forall>q\<in>#P. k q \<noteq> k p \<Longrightarrow> unique_by k (add_mset p P)"
  by (auto simp: unique_by_def count_eq_zero_iff)

lemma unique_by_remove: "unique_by k P \<Longrightarrow> unique_by k (P - {#p#})"
  unfolding unique_by_def
  by (meson image_mset_subseteq_mono mset_subset_eq_count diff_subset_eq_self order_trans)

lemma in_replace_mset_cases: "q \<in># replace_mset p p' P \<Longrightarrow> q = p' \<or> q \<in># P"
  by (auto simp: replace_mset_def dest: in_diffD)

lemma unique_by_replace: "x \<in># P \<Longrightarrow> k y = k x \<Longrightarrow> unique_by k (replace_mset x y P) \<longleftrightarrow> unique_by k P"
  by (simp add: unique_by_def image_replace_mset)

lemma unique_by_replaced:
  assumes "unique_by k P" "x \<in># P" "k y = k x" "z \<in># replace_mset x y P" "k z = k x"
  shows "z = y"
  using unique_byD [of k "replace_mset x y P" z y] assms by (simp add: unique_by_replace)

end
