(* ===== verification/Go_Base64.thy ===== *)
theory Go_Base64
  imports Litmus_Prelude
begin

text \<open>
  Go's \<^verbatim>\<open>encoding/base64\<close>: encoding with padding over a given alphabet (\<^verbatim>\<open>StdEncoding\<close> and
  \<^verbatim>\<open>URLEncoding\<close>) and the decoder.
\<close>

text \<open>Sextets of a byte string; \<^verbatim>\<open>None\<close> is padding.\<close>

fun sextets :: "nat list \<Rightarrow> nat option list" where
  "sextets [] = []"
| "sextets [a] = [Some (a div 4), Some (a mod 4 * 16), None, None]"
| "sextets [a, b] = [Some (a div 4), Some (a mod 4 * 16 + b div 16), Some (b mod 16 * 4), None]"
| "sextets (a # b # c # r) =
     Some (a div 4) # Some (a mod 4 * 16 + b div 16) # Some (b mod 16 * 4 + c div 64) # Some (c mod 64) # sextets r"

definition alphanum :: string where
  "alphanum = ''ABCDEFGHIJKLMNOPQRSTUVWXYZabcdefghijklmnopqrstuvwxyz0123456789''"

definition std_alphabet :: string where "std_alphabet = alphanum @ ''+/''"
definition url_alphabet :: string where "url_alphabet = alphanum @ ''-_''"

definition bytes :: "string \<Rightarrow> nat list" where "bytes s = map of_char s"

definition encode_sextet :: "string \<Rightarrow> nat option \<Rightarrow> char" where
  "encode_sextet alph x = (case x of None \<Rightarrow> CHR ''='' | Some i \<Rightarrow> alph ! i)"

definition base64_encode :: "string \<Rightarrow> string \<Rightarrow> string" where
  "base64_encode alph s = map (encode_sextet alph) (sextets (bytes s))"

definition sextet_of :: "string \<Rightarrow> char \<Rightarrow> nat option" where
  "sextet_of alph c = find_index (\<lambda>x. x = c) alph"

text \<open>
  Decoding with padding; \<^verbatim>\<open>None\<close> is a corrupt input. Line breaks are skipped. Trailing bits of the
  last sextet are not checked, as the decoder is not strict.
\<close>

fun decode_quanta :: "string \<Rightarrow> string \<Rightarrow> nat list option" where
  "decode_quanta alph [] = Some []"
| "decode_quanta alph (a # b # c # d # r) =
     (case (sextet_of alph a, sextet_of alph b) of
        (Some x, Some y) \<Rightarrow>
          (if c = CHR ''='' then if d = CHR ''='' \<and> r = [] then Some [x * 4 + y div 16] else None
           else case sextet_of alph c of
             None \<Rightarrow> None
           | Some z \<Rightarrow>
               if d = CHR ''='' then if r = [] then Some [x * 4 + y div 16, y mod 16 * 16 + z div 4] else None
               else case sextet_of alph d of
                 None \<Rightarrow> None
               | Some w \<Rightarrow> map_option (\<lambda>bs. (x * 4 + y div 16) # (y mod 16 * 16 + z div 4) # (z mod 4 * 64 + w) # bs)
                              (decode_quanta alph r))
      | _ \<Rightarrow> None)"
| "decode_quanta alph _ = None"

definition base64_decode :: "string \<Rightarrow> string \<Rightarrow> string option" where
  "base64_decode alph s =
     map_option (map char_of) (decode_quanta alph (filter (\<lambda>c. c \<noteq> CHR 0x0A \<and> c \<noteq> CHR 0x0D) s))"

text \<open>The raw encodings have no padding: it is restored before decoding, and is not accepted in the input.\<close>

definition base64_raw_decode :: "string \<Rightarrow> string \<Rightarrow> string option" where
  "base64_raw_decode alph s =
     (let t = filter (\<lambda>c. c \<noteq> CHR 0x0A \<and> c \<noteq> CHR 0x0D) s
      in if CHR ''='' \<in> set t then None
         else map_option (map char_of) (decode_quanta alph (t @ replicate ((4 - length t mod 4) mod 4) (CHR ''=''))))"

end
