(* ===== verification/Go_Strings.thy ===== *)
theory Go_Strings
  imports Litmus_Prelude
begin

text \<open>
  The functions of Go's \<^verbatim>\<open>strings\<close> and \<^verbatim>\<open>strconv\<close> packages that the modelled code calls:
  \<^verbatim>\<open>Itoa\<close>/\<^verbatim>\<open>FormatInt(_, 10)\<close>, \<^verbatim>\<open>Atoi\<close>, \<^verbatim>\<open>Split\<close>, \<^verbatim>\<open>Contains\<close>, \<^verbatim>\<open>ToLower\<close>, \<^verbatim>\<open>TrimSpace\<close>,
  \<^verbatim>\<open>Join\<close>, \<^verbatim>\<open>Replace\<close>. They are executable; the lemmas give the round trip
  between printing and reading an integer and how splitting undoes concatenation.
\<close>

section \<open>Decimal integers\<close>

definition is_digit :: "char \<Rightarrow> bool" where
  "is_digit c \<longleftrightarrow> 48 \<le> (of_char c :: nat) \<and> (of_char c :: nat) \<le> 57"

definition digit_char :: "nat \<Rightarrow> char" where
  "digit_char d = char_of (48 + d)"

definition digit_val :: "char \<Rightarrow> nat" where
  "digit_val c = of_char c - 48"

fun nat_digits :: "nat \<Rightarrow> string" where
  "nat_digits n = (if n < 10 then [digit_char n] else nat_digits (n div 10) @ [digit_char (n mod 10)])"

declare nat_digits.simps [simp del]

definition nat_of_digits :: "string \<Rightarrow> nat" where
  "nat_of_digits ds = foldl (\<lambda>n c. 10 * n + digit_val c) 0 ds"

definition itoa :: "int \<Rightarrow> string" where
  "itoa i = (if i < 0 then CHR ''-'' # nat_digits (nat (- i)) else nat_digits (nat i))"

text \<open>\<^verbatim>\<open>None\<close> is the error return, for a syntax error or a value outside 64 bits.\<close>

definition atoi :: "string \<Rightarrow> int option" where
  "atoi s =
     (let (neg, ds) = (case s of [] \<Rightarrow> (False, [])
                       | c # cs \<Rightarrow> if c = CHR ''-'' then (True, cs)
                                 else if c = CHR ''+'' then (False, cs) else (False, s));
          v = (if neg then - int (nat_of_digits ds) else int (nat_of_digits ds))
      in if ds = [] \<or> \<not> list_all is_digit ds \<or> \<not> in_int64 v then None else Some v)"

lemma of_char_digit: "d < 10 \<Longrightarrow> (of_char (digit_char d) :: nat) = 48 + d"
  by (simp add: digit_char_def of_char_of)

lemma digit_char_simps:
  "d < 10 \<Longrightarrow> is_digit (digit_char d)" "d < 10 \<Longrightarrow> digit_val (digit_char d) = d"
  by (simp_all add: is_digit_def digit_val_def of_char_digit)

lemma is_digit_neq:
  "is_digit c \<Longrightarrow> c \<noteq> CHR ''-''" "is_digit c \<Longrightarrow> c \<noteq> CHR ''+''" "is_digit c \<Longrightarrow> c \<noteq> CHR ''.''"
  "is_digit c \<Longrightarrow> c \<noteq> CHR ''b''"
  by (auto simp: is_digit_def)

lemma nat_digits_ne [simp]: "nat_digits n \<noteq> []"
  by (subst nat_digits.simps) simp

lemma nat_digits_digits: "list_all is_digit (nat_digits n)"
proof (induction n rule: nat_digits.induct)
  case (1 n)
  then show ?case
    by (subst nat_digits.simps) (simp add: digit_char_simps)
qed

lemma nat_of_digits_snoc: "nat_of_digits (ds @ [c]) = 10 * nat_of_digits ds + digit_val c"
  by (simp add: nat_of_digits_def)

lemma nat_of_digits_nat_digits [simp]: "nat_of_digits (nat_digits n) = n"
proof (induction n rule: nat_digits.induct)
  case (1 n)
  show ?case
  proof (cases "n < 10")
    case True
    then show ?thesis
      by (subst nat_digits.simps) (simp add: nat_of_digits_def digit_char_simps)
  next
    case False
    with 1 show ?thesis
      by (subst nat_digits.simps) (simp add: nat_of_digits_snoc digit_char_simps)
  qed
qed

lemma hd_nat_digits: "is_digit (hd (nat_digits n))"
  using nat_digits_digits [of n] by (cases "nat_digits n") auto

lemma atoi_itoa [simp]: "in_int64 i \<Longrightarrow> atoi (itoa i) = Some i"
proof (cases "i < 0")
  case True
  assume "in_int64 i"
  with True show ?thesis
    by (simp add: atoi_def itoa_def nat_digits_digits)
next
  case False
  assume i: "in_int64 i"
  obtain c cs where c: "nat_digits (nat i) = c # cs"
    by (cases "nat_digits (nat i)") simp_all
  then have "is_digit c"
    using hd_nat_digits [of "nat i"] by simp
  then have "c \<noteq> CHR ''-''" "c \<noteq> CHR ''+''"
    by (auto dest: is_digit_neq)
  moreover have "list_all is_digit (c # cs)" "nat_of_digits (c # cs) = nat i"
    using nat_digits_digits [of "nat i"] nat_of_digits_nat_digits [of "nat i"] c by simp_all
  ultimately show ?thesis
    using i False by (simp add: atoi_def itoa_def c)
qed

lemma itoa_chars: "c \<in> set (itoa i) \<Longrightarrow> is_digit c \<or> c = CHR ''-''"
  using nat_digits_digits by (auto simp: itoa_def list_all_iff split: if_splits)

lemma itoa_inject: "in_int64 i \<Longrightarrow> in_int64 j \<Longrightarrow> itoa i = itoa j \<longleftrightarrow> i = j"
  by (metis atoi_itoa option.inject)

section \<open>Substrings and splitting\<close>

definition contains :: "string \<Rightarrow> string \<Rightarrow> bool" where
  "contains s sub \<longleftrightarrow> sublist sub s"

text \<open>\<^verbatim>\<open>strings.Split\<close> with a non-empty separator; \<^verbatim>\<open>acc\<close> is the current piece, reversed.\<close>

fun split_on :: "string \<Rightarrow> string \<Rightarrow> string \<Rightarrow> string list" where
  "split_on sep acc [] = [rev acc]"
| "split_on sep acc (c # cs) =
     (if prefix sep (c # cs) then rev acc # split_on sep [] (drop (length sep - 1) cs)
      else split_on sep (c # acc) cs)"

definition go_split :: "string \<Rightarrow> string \<Rightarrow> string list" where
  "go_split s sep = split_on sep [] s"

lemma split_on_nosep:
  "d \<in> set sep \<Longrightarrow> d \<notin> set s \<Longrightarrow> split_on sep acc s = [rev acc @ s]"
proof (induction s arbitrary: acc)
  case (Cons c cs)
  then have "\<not> prefix sep (c # cs)"
    by (metis set_mono_prefix subsetD)
  with Cons show ?case by simp
qed simp

text \<open>
  If the first byte of the separator does not occur in \<^verbatim>\<open>s\<close>, the piece in front of a
  separator is \<^verbatim>\<open>s\<close>.
\<close>

lemma split_on_append:
  "sep = d # ds \<Longrightarrow> d \<notin> set s \<Longrightarrow>
   split_on sep acc (s @ sep @ t) = (rev acc @ s) # split_on sep [] t"
proof (induction s arbitrary: acc)
  case (Cons c cs)
  then have "\<not> prefix sep (c # cs @ sep @ t)" by simp
  with Cons show ?case by simp
qed simp

lemma split_on_append_gen:
  assumes "sep = d # ds" and "e \<in> set ds" and "e \<notin> set s" and "d \<noteq> e" and "d \<notin> set ds"
  shows "split_on sep acc (s @ sep @ t) = (rev acc @ s) # split_on sep [] t"
  using assms
proof (induction s arbitrary: acc)
  case (Cons c cs)
  have "\<not> prefix sep (c # cs @ sep @ t)"
  proof
    assume "prefix sep (c # cs @ sep @ t)"
    with Cons.prems(1) have p: "prefix ds (cs @ (d # ds) @ t)" by auto
    show False
    proof (cases "length ds \<le> length cs")
      case True
      with p have "prefix ds cs"
        by (metis prefix_append prefix_length_prefix prefix_order.order_refl)
      with Cons.prems show False by (meson list.set_intros(2) set_mono_prefix subsetD)
    next
      case False
      with p have "ds ! length cs = d"
        by (metis append_Cons nat_le_linear not_less nth_append_length prefix_def nth_append le_less)
      with False Cons.prems(5) show False
        by (metis not_le nth_mem)
    qed
  qed
  with Cons show ?case by simp
qed simp

section \<open>Case folding and trimming\<close>

text \<open>
  \<^verbatim>\<open>strings.ToLower\<close> on ASCII bytes. The code compares its result with ASCII words that hold
  neither \<^verbatim>\<open>i\<close> nor \<^verbatim>\<open>k\<close>, the only letters another code point folds to, so the
  comparison is the same for every string.
\<close>

definition lower_char :: "char \<Rightarrow> char" where
  "lower_char c = (let n = (of_char c :: nat) in if 65 \<le> n \<and> n \<le> 90 then char_of (n + 32) else c)"

definition toLower :: "string \<Rightarrow> string" where
  "toLower s = map lower_char s"

text \<open>The UTF-8 encodings of the code points \<^verbatim>\<open>unicode.IsSpace\<close> accepts.\<close>

definition spaces :: "string list" where
  "spaces = [[CHR 0x09], [CHR 0x0A], [CHR 0x0B], [CHR 0x0C], [CHR 0x0D], [CHR 0x20], [CHR 0xC2, CHR 0x85],
     [CHR 0xC2, CHR 0xA0], [CHR 0xE1, CHR 0x9A, CHR 0x80], [CHR 0xE2, CHR 0x80, CHR 0x80],
     [CHR 0xE2, CHR 0x80, CHR 0x81], [CHR 0xE2, CHR 0x80, CHR 0x82], [CHR 0xE2, CHR 0x80, CHR 0x83],
     [CHR 0xE2, CHR 0x80, CHR 0x84], [CHR 0xE2, CHR 0x80, CHR 0x85], [CHR 0xE2, CHR 0x80, CHR 0x86],
     [CHR 0xE2, CHR 0x80, CHR 0x87], [CHR 0xE2, CHR 0x80, CHR 0x88], [CHR 0xE2, CHR 0x80, CHR 0x89],
     [CHR 0xE2, CHR 0x80, CHR 0x8A], [CHR 0xE2, CHR 0x80, CHR 0xA8], [CHR 0xE2, CHR 0x80, CHR 0xA9],
     [CHR 0xE2, CHR 0x80, CHR 0xAF], [CHR 0xE2, CHR 0x81, CHR 0x9F], [CHR 0xE3, CHR 0x80, CHR 0x80]]"

text \<open>Drops any number of the given byte sequences from the front.\<close>

function drop_runes :: "string list \<Rightarrow> string \<Rightarrow> string" where
  "drop_runes rs s =
     (case List.find (\<lambda>r. r \<noteq> [] \<and> prefix r s) rs of
        None \<Rightarrow> s | Some r \<Rightarrow> drop_runes rs (drop (length r) s))"
  by pat_completeness auto
termination
proof (relation "measure (\<lambda>(rs, s). length s)")
  fix rs :: "string list" and s r
  assume "List.find (\<lambda>r. r \<noteq> [] \<and> prefix r s) rs = Some r"
  then have "r \<noteq> []" "prefix r s" by (auto simp: find_Some_iff)
  then show "((rs, drop (length r) s), (rs, s)) \<in> measure (\<lambda>(rs, s). length s)"
    by (cases s) (auto dest: prefix_length_le)
qed simp

declare drop_runes.simps [simp del]

definition trimSpace :: "string \<Rightarrow> string" where
  "trimSpace s = rev (drop_runes (map rev spaces) (rev (drop_runes spaces s)))"

text \<open>\<^verbatim>\<open>strings.Replace(s, c, "", -1)\<close> for a one-byte \<^verbatim>\<open>c\<close>.\<close>

definition remove_byte :: "char \<Rightarrow> string \<Rightarrow> string" where
  "remove_byte c s = filter (\<lambda>x. x \<noteq> c) s"

section \<open>Joining and replacing\<close>

fun go_join :: "string \<Rightarrow> string list \<Rightarrow> string" where
  "go_join sep [] = []"
| "go_join sep [x] = x"
| "go_join sep (x # y # ys) = x @ sep @ go_join sep (y # ys)"

text \<open>\<^verbatim>\<open>strings.Replace(s, old, new, -1)\<close> with a non-empty \<^verbatim>\<open>old\<close>: the pieces between the occurrences, left to right.\<close>

definition replace_all :: "string \<Rightarrow> string \<Rightarrow> string \<Rightarrow> string" where
  "replace_all s old new = go_join new (go_split s old)"

definition trimRight :: "char \<Rightarrow> string \<Rightarrow> string" where
  "trimRight c s = rev (dropWhile (\<lambda>x. x = c) (rev s))"

text \<open>
  \<^verbatim>\<open>strings.ToLower\<close> where the result is compared with an ASCII word: the two other code points that fold
  to ASCII letters (U+0130 and U+212A) are folded as well.
\<close>

definition foldLower :: "string \<Rightarrow> string" where
  "foldLower s = toLower (replace_all (replace_all s [CHR 0xC4, CHR 0xB0] ''i'') [CHR 0xE2, CHR 0x84, CHR 0xAA] ''k'')"

end
