(* ===== verification/Mongo.thy ===== *)
theory Mongo
  imports Litmus_Prelude
begin

text \<open>
  The MongoDB driver is not part of the repository: it is a parameter of the model. A
  collection handle is a record of the driver's operations on an abstract database state
  \<^verbatim>\<open>'s\<close> with documents of type \<^verbatim>\<open>'d\<close>. The filter and update documents the code builds are
  written as the predicate and the function on documents they denote; a pipeline is a list of
  stages. What the code relies on is the locale \<^verbatim>\<open>mongo_collection\<close>: the documented effect of
  each operation on the multiset of stored documents.

  A request sees a database that only its own writes change (requests are modelled one at a
  time), so reads are functions of the state; every operation may also fail.
\<close>

datatype mongo_error = ErrNoDocuments | DuplicateKeyError string | DriverError string

text \<open>
  Aggregation stages. \<^verbatim>\<open>EmptyStage\<close> is a stage document with no field, which the server rejects.
  \<^verbatim>\<open>Facet ss sub\<close> is a pipeline that ends in the \<^verbatim>\<open>$facet\<close> stage the code builds: a facet
  with a \<^verbatim>\<open>$count\<close> of the documents \<^verbatim>\<open>ss\<close> yields (no document at all when there is none) and
  a facet that runs \<^verbatim>\<open>sub\<close> on them. \<^verbatim>\<open>GroupCounts\<close> is a \<^verbatim>\<open>$facet\<close> in which every facet matches the same documents
  and groups them by a boolean field with a count; a group without documents has no result. \<^verbatim>\<open>GroupBy\<close> is the pipeline
  of a \<^verbatim>\<open>$match\<close> and a \<^verbatim>\<open>$group\<close> by a string field with a count.
\<close>

datatype 'd stage =
    Match "'d \<Rightarrow> bool"
  | Project "'d \<Rightarrow> 'd"
  | Sort "'d \<Rightarrow> 'd \<Rightarrow> bool"
  | Skip int
  | Limit int
  | EmptyStage

record ('s, 'd) collection =
  FindOne :: "('d \<Rightarrow> bool) \<Rightarrow> 's \<Rightarrow> mongo_error + 'd"
  Find :: "('d \<Rightarrow> bool) \<Rightarrow> 's \<Rightarrow> mongo_error + 'd list"
  Aggregate :: "'d stage list \<Rightarrow> 's \<Rightarrow> mongo_error + 'd list"
  Facet :: "'d stage list \<Rightarrow> 'd stage list \<Rightarrow> 's \<Rightarrow> mongo_error + (nat option \<times> 'd list)"
  InsertOne :: "'d \<Rightarrow> 's \<Rightarrow> mongo_error option \<times> 's"
  UpdateOne :: "('d \<Rightarrow> bool) \<Rightarrow> ('d \<Rightarrow> 'd) option \<Rightarrow> 's \<Rightarrow> (mongo_error + nat) \<times> 's"
  UpdateMany :: "('d \<Rightarrow> bool) \<Rightarrow> ('d \<Rightarrow> 'd) \<Rightarrow> 's \<Rightarrow> (mongo_error + nat) \<times> 's"
  DeleteOne :: "('d \<Rightarrow> bool) \<Rightarrow> 's \<Rightarrow> (mongo_error + nat) \<times> 's"
  GroupCounts :: "('d \<Rightarrow> bool) \<Rightarrow> ('d \<Rightarrow> bool) list \<Rightarrow> 's \<Rightarrow> mongo_error + (bool \<times> nat) list list"
  CountDocuments :: "('d \<Rightarrow> bool) \<Rightarrow> 's \<Rightarrow> mongo_error + nat"
  GroupBy :: "('d \<Rightarrow> bool) \<Rightarrow> ('d \<Rightarrow> string) \<Rightarrow> 's \<Rightarrow> mongo_error + (string \<times> nat) list"

section \<open>Documented effects\<close>

text \<open>One document that satisfies the filter is replaced by its updated form.\<close>

definition updated_one :: "('d \<Rightarrow> bool) \<Rightarrow> ('d \<Rightarrow> 'd) \<Rightarrow> 'd multiset \<Rightarrow> 'd multiset \<Rightarrow> bool" where
  "updated_one P f M M' \<longleftrightarrow> (\<exists>d. d \<in># M \<and> P d \<and> M' = replace_mset d (f d) M)"

lemma updated_one_all:
  assumes "updated_one P f M M'" "\<forall>d\<in>#M. Q d" "\<And>d. Q d \<Longrightarrow> Q (f d)"
  shows "\<forall>d\<in>#M'. Q d"
proof -
  obtain d where "d \<in># M" "M' = replace_mset d (f d) M" using assms(1) by (auto simp: updated_one_def)
  then show ?thesis using assms(2,3) by (auto dest: in_replace_mset_cases)
qed

text \<open>Some of the documents that satisfy the filter are updated, as after an interrupted bulk write.\<close>

definition partly_updated :: "('d \<Rightarrow> bool) \<Rightarrow> ('d \<Rightarrow> 'd) \<Rightarrow> 'd multiset \<Rightarrow> 'd multiset \<Rightarrow> bool" where
  "partly_updated P f M M' \<longleftrightarrow>
     (\<exists>A B. M = A + B \<and> (\<forall>d\<in>#A. P d) \<and> M' = image_mset f A + B)"

definition updated_all :: "('d \<Rightarrow> bool) \<Rightarrow> ('d \<Rightarrow> 'd) \<Rightarrow> 'd multiset \<Rightarrow> 'd multiset" where
  "updated_all P f M = image_mset (\<lambda>d. if P d then f d else d) M"

lemma updated_all_other:
  assumes "\<And>d. P d \<Longrightarrow> \<not> Q d \<and> \<not> Q (f d)"
  shows "filter_mset Q (updated_all P f M) = filter_mset Q M"
  using assms by (induction M) (auto simp: updated_all_def)

lemma updated_allE:
  assumes "e \<in># updated_all P f M"
  obtains d where "d \<in># M" "e = (if P d then f d else d)"
  using assms unfolding updated_all_def set_image_mset by (rule imageE)

lemma partly_updated_other:
  assumes "partly_updated P f M M'" "\<And>d. P d \<Longrightarrow> \<not> Q d \<and> \<not> Q (f d)"
  shows "filter_mset Q M' = filter_mset Q M"
proof -
  obtain A B where A: "M = A + B" "\<forall>d\<in>#A. P d" "M' = image_mset f A + B"
    using assms(1) by (auto simp: partly_updated_def)
  have "filter_mset Q A = {#}" "filter_mset Q (image_mset f A) = {#}"
    using A(2) assms(2) by auto
  then show ?thesis unfolding A by (simp only: filter_union_mset)
qed

text \<open>
  What a pipeline yields on the documents in some order. A skip or limit outside its range and an
  empty stage make the server reject the pipeline.
\<close>

fun stage_ok :: "'d stage \<Rightarrow> bool" where
  "stage_ok (Skip n) = (0 \<le> n)"
| "stage_ok (Limit n) = (0 < n)"
| "stage_ok EmptyStage = False"
| "stage_ok _ = True"

inductive pipeline :: "'d stage list \<Rightarrow> 'd list \<Rightarrow> 'd list \<Rightarrow> bool" where
  pipe_done: "pipeline [] ds ds"
| pipe_match: "pipeline ss (filter P ds) rs \<Longrightarrow> pipeline (Match P # ss) ds rs"
| pipe_project: "pipeline ss (map f ds) rs \<Longrightarrow> pipeline (Project f # ss) ds rs"
| pipe_sort: "mset es = mset ds \<Longrightarrow> sorted_wrt le es \<Longrightarrow> pipeline ss es rs \<Longrightarrow> pipeline (Sort le # ss) ds rs"
| pipe_skip: "pipeline ss (drop (nat n) ds) rs \<Longrightarrow> pipeline (Skip n # ss) ds rs"
| pipe_limit: "pipeline ss (take (nat n) ds) rs \<Longrightarrow> pipeline (Limit n # ss) ds rs"

inductive_cases pipeline_NilE [elim!]: "pipeline [] ds rs"
inductive_cases pipeline_MatchE [elim!]: "pipeline (Match P # ss) ds rs"
inductive_cases pipeline_ProjectE [elim!]: "pipeline (Project f # ss) ds rs"
inductive_cases pipeline_SortE: "pipeline (Sort le # ss) ds rs"
inductive_cases pipeline_SkipE [elim!]: "pipeline (Skip n # ss) ds rs"
inductive_cases pipeline_LimitE [elim!]: "pipeline (Limit n # ss) ds rs"
inductive_cases pipeline_EmptyE [elim!]: "pipeline (EmptyStage # ss) ds rs"

inductive_simps pipeline_Nil [simp]: "pipeline [] ds rs"
inductive_simps pipeline_Match [simp]: "pipeline (Match P # ss) ds rs"
inductive_simps pipeline_Project [simp]: "pipeline (Project f # ss) ds rs"
inductive_simps pipeline_Skip [simp]: "pipeline (Skip n # ss) ds rs"
inductive_simps pipeline_Limit [simp]: "pipeline (Limit n # ss) ds rs"

lemma pipeline_append: "pipeline (xs @ ys) ds rs \<longleftrightarrow> (\<exists>ms. pipeline xs ds ms \<and> pipeline ys ms rs)"
proof (induction xs arbitrary: ds)
  case (Cons x xs)
  show ?case
  proof (cases x)
    case (Sort le)
    with Cons show ?thesis by (force elim: pipeline_SortE intro: pipe_sort)
  next
    case EmptyStage
    then show ?thesis by auto
  qed (use Cons in auto)
qed auto

lemma pipeline_matches: "pipeline (map Match Ps) ds rs \<longleftrightarrow> rs = filter (\<lambda>d. \<forall>P\<in>set Ps. P d) ds"
  by (induction Ps arbitrary: ds) (auto simp: conj_commute)

text \<open>
  The interface. \<^verbatim>\<open>docs\<close> gives the stored documents, \<^verbatim>\<open>conflict\<close> the pairs of documents the
  unique indexes exclude, \<^verbatim>\<open>rest\<close> the part of the database outside the collection. A failed
  write of one document either had no effect or took effect before the error was reported.
\<close>

locale mongo_collection =
  fixes c :: "('s, 'd) collection"
    and docs :: "'s \<Rightarrow> 'd multiset"
    and conflict :: "'d \<Rightarrow> 'd \<Rightarrow> bool"
    and rest :: "'s \<Rightarrow> 'r"
  assumes FindOne_ok: "FindOne c P s = Inr d \<Longrightarrow> d \<in># docs s \<and> P d"
    and FindOne_none: "FindOne c P s = Inl ErrNoDocuments \<Longrightarrow> \<forall>d\<in>#docs s. \<not> P d"
    and Find_ok: "Find c P s = Inr ds \<Longrightarrow> mset ds = filter_mset P (docs s)"
    and Aggregate_ok: "Aggregate c ss s = Inr rs \<Longrightarrow>
      list_all stage_ok ss \<and> (\<exists>ds. mset ds = docs s \<and> pipeline ss ds rs)"
    and Facet_ok: "Facet c ss sub s = Inr (cnt, rs) \<Longrightarrow>
      list_all stage_ok ss \<and> list_all stage_ok sub \<and>
      (\<exists>ds ms. mset ds = docs s \<and> pipeline ss ds ms \<and> pipeline sub ms rs \<and>
         cnt = (if ms = [] then None else Some (length ms)))"
    and InsertOne_ok: "InsertOne c d s = (None, s') \<Longrightarrow>
      docs s' = add_mset d (docs s) \<and> (\<forall>x\<in>#docs s. \<not> conflict x d)"
    and InsertOne_dup: "InsertOne c d s = (Some (DuplicateKeyError t), s') \<Longrightarrow>
      docs s' = docs s \<and> (\<exists>x\<in>#docs s. conflict x d)"
    and InsertOne_err: "InsertOne c d s = (Some e, s') \<Longrightarrow>
      docs s' = docs s \<or> docs s' = add_mset d (docs s) \<and> (\<forall>x\<in>#docs s. \<not> conflict x d)"
    and UpdateOne_ok: "UpdateOne c P (Some f) s = (Inr n, s') \<Longrightarrow>
      n = 0 \<and> docs s' = docs s \<and> (\<forall>d\<in>#docs s. \<not> P d) \<or> n = 1 \<and> updated_one P f (docs s) (docs s')"
    and UpdateOne_err: "UpdateOne c P (Some f) s = (Inl e, s') \<Longrightarrow>
      docs s' = docs s \<or> updated_one P f (docs s) (docs s')"
    and UpdateOne_nil: "UpdateOne c P None s = (r, s') \<Longrightarrow> (\<exists>e. r = Inl e) \<and> docs s' = docs s"
    and UpdateMany_ok: "UpdateMany c P f s = (Inr n, s') \<Longrightarrow> docs s' = updated_all P f (docs s)"
    and UpdateMany_err: "UpdateMany c P f s = (Inl e, s') \<Longrightarrow> partly_updated P f (docs s) (docs s')"
    and DeleteOne_ok: "DeleteOne c P s = (Inr n, s') \<Longrightarrow>
      n = 0 \<and> docs s' = docs s \<and> (\<forall>d\<in>#docs s. \<not> P d) \<or>
      n = 1 \<and> (\<exists>d. d \<in># docs s \<and> P d \<and> docs s' = docs s - {#d#})"
    and DeleteOne_err: "DeleteOne c P s = (Inl e, s') \<Longrightarrow>
      docs s' = docs s \<or> (\<exists>d. d \<in># docs s \<and> P d \<and> docs s' = docs s - {#d#})"
    and GroupCounts_ok: "GroupCounts c P keys s = Inr rss \<Longrightarrow>
      list_all2 (\<lambda>k rs. distinct (map fst rs) \<and>
        (\<forall>b. map_of rs b = (case size (filter_mset (\<lambda>d. P d \<and> k d = b) (docs s)) of 0 \<Rightarrow> None | Suc n \<Rightarrow> Some (Suc n)))) keys rss"
    and CountDocuments_ok: "CountDocuments c P s = Inr n \<Longrightarrow> n = size (filter_mset P (docs s))"
    and GroupBy_ok: "GroupBy c P key s = Inr gs \<Longrightarrow> distinct (map fst gs) \<and>
        (\<forall>k. map_of gs k = (case size (filter_mset (\<lambda>d. P d \<and> key d = k) (docs s)) of 0 \<Rightarrow> None | Suc n \<Rightarrow> Some (Suc n)))"
    and InsertOne_rest: "rest (snd (InsertOne c d s)) = rest s"
    and UpdateOne_rest: "rest (snd (UpdateOne c P u s)) = rest s"
    and UpdateMany_rest: "rest (snd (UpdateMany c P f s)) = rest s"
    and DeleteOne_rest: "rest (snd (DeleteOne c P s)) = rest s"
begin

lemmas rest_simps = InsertOne_rest UpdateOne_rest UpdateMany_rest DeleteOne_rest

lemma UpdateOne_cases:
  assumes "UpdateOne c P (Some f) s = (r, s')"
  shows "docs s' = docs s \<or> updated_one P f (docs s) (docs s')"
  using assms UpdateOne_ok UpdateOne_err by (cases r) blast+

lemma DeleteOne_cases:
  assumes "DeleteOne c P s = (r, s')"
  shows "docs s' = docs s \<or> (\<exists>d. d \<in># docs s \<and> P d \<and> docs s' = docs s - {#d#})"
  using assms DeleteOne_ok DeleteOne_err by (cases r) blast+

lemma InsertOne_cases:
  assumes "InsertOne c d s = (r, s')"
  shows "docs s' = docs s \<or> docs s' = add_mset d (docs s) \<and> (\<forall>x\<in>#docs s. \<not> conflict x d)"
  using assms InsertOne_ok InsertOne_err by (cases r) blast+

end

lemma mset_slice: "mset (take b (drop a xs)) \<subseteq># mset xs"
proof -
  have "mset xs = mset (take a xs) + mset (take b (drop a xs)) + mset (drop b (drop a xs))"
    by (metis append_take_drop_id mset_append union_assoc)
  then show ?thesis by simp
qed

section \<open>An executable collection\<close>

text \<open>
  A collection kept as a list of documents inside a state, with a getter and a setter: the
  database the witnesses run on. It never reports a driver failure, so its errors are the ones
  the interface prescribes.
\<close>

fun insort_by :: "('d \<Rightarrow> 'd \<Rightarrow> bool) \<Rightarrow> 'd \<Rightarrow> 'd list \<Rightarrow> 'd list" where
  "insort_by le x [] = [x]"
| "insort_by le x (y # ys) = (if le x y then x # y # ys else y # insort_by le x ys)"

fun run_stages :: "'d stage list \<Rightarrow> 'd list \<Rightarrow> 'd list option" where
  "run_stages [] ds = Some ds"
| "run_stages (Match P # ss) ds = run_stages ss (filter P ds)"
| "run_stages (Project f # ss) ds = run_stages ss (map f ds)"
| "run_stages (Sort le # ss) ds =
     (let es = foldr (insort_by le) ds [] in if sorted_wrt le es then run_stages ss es else None)"
| "run_stages (Skip n # ss) ds = (if 0 \<le> n then run_stages ss (drop (nat n) ds) else None)"
| "run_stages (Limit n # ss) ds = (if 0 < n then run_stages ss (take (nat n) ds) else None)"
| "run_stages (EmptyStage # ss) ds = None"

fun update_first :: "('d \<Rightarrow> bool) \<Rightarrow> ('d \<Rightarrow> 'd) \<Rightarrow> 'd list \<Rightarrow> 'd list" where
  "update_first P f [] = []"
| "update_first P f (d # ds) = (if P d then f d # ds else d # update_first P f ds)"

fun delete_first :: "('d \<Rightarrow> bool) \<Rightarrow> 'd list \<Rightarrow> 'd list" where
  "delete_first P [] = []"
| "delete_first P (d # ds) = (if P d then ds else d # delete_first P ds)"

definition group_counts :: "('d \<Rightarrow> bool) \<Rightarrow> 'd list \<Rightarrow> (bool \<times> nat) list" where
  "group_counts k ds = filter (\<lambda>(b, n). n > 0) (map (\<lambda>b. (b, length (filter (\<lambda>d. k d = b) ds))) [False, True])"

definition group_by :: "('d \<Rightarrow> string) \<Rightarrow> 'd list \<Rightarrow> (string \<times> nat) list" where
  "group_by key ds = map (\<lambda>k. (k, length (filter (\<lambda>d. key d = k) ds))) (remdups (map key ds))"

definition mem_collection :: "('s \<Rightarrow> 'd list) \<Rightarrow> ('d list \<Rightarrow> 's \<Rightarrow> 's) \<Rightarrow> ('d \<Rightarrow> 'd \<Rightarrow> bool)
    \<Rightarrow> ('s, 'd) collection" where
  "mem_collection get put conflict =
     \<lparr>FindOne = (\<lambda>P s. case List.find P (get s) of None \<Rightarrow> Inl ErrNoDocuments | Some d \<Rightarrow> Inr d),
      Find = (\<lambda>P s. Inr (filter P (get s))),
      Aggregate = (\<lambda>ss s. case run_stages ss (get s) of None \<Rightarrow> Inl (DriverError ''invalid pipeline'')
                          | Some rs \<Rightarrow> Inr rs),
      Facet = (\<lambda>ss sub s. case run_stages ss (get s) of None \<Rightarrow> Inl (DriverError ''invalid pipeline'')
                | Some ms \<Rightarrow> (case run_stages sub ms of None \<Rightarrow> Inl (DriverError ''invalid pipeline'')
                    | Some rs \<Rightarrow> Inr (if ms = [] then None else Some (length ms), rs))),
      InsertOne = (\<lambda>d s. if list_ex (\<lambda>x. conflict x d) (get s) then (Some (DuplicateKeyError ''E11000 duplicate key''), s)
                         else (None, put (get s @ [d]) s)),
      UpdateOne = (\<lambda>P u s. case u of None \<Rightarrow> (Inl (DriverError ''empty update''), s)
                   | Some f \<Rightarrow> if list_ex P (get s) then (Inr 1, put (update_first P f (get s)) s) else (Inr 0, s)),
      UpdateMany = (\<lambda>P f s. (Inr (length (filter P (get s))), put (map (\<lambda>d. if P d then f d else d) (get s)) s)),
      DeleteOne = (\<lambda>P s. if list_ex P (get s) then (Inr 1, put (delete_first P (get s)) s) else (Inr 0, s)),
      GroupCounts = (\<lambda>P keys s. Inr (map (\<lambda>k. group_counts k (filter P (get s))) keys)),
      CountDocuments = (\<lambda>P s. Inr (length (filter P (get s)))),
      GroupBy = (\<lambda>P key s. Inr (group_by key (filter P (get s))))\<rparr>"

lemma mset_update_first:
  "list_ex P ds \<Longrightarrow> updated_one P f (mset ds) (mset (update_first P f ds))"
proof (induction ds)
  case (Cons d ds)
  show ?case
  proof (cases "P d")
    case True
    then show ?thesis
      by (auto simp: updated_one_def replace_mset_def intro!: exI [of _ d])
  next
    case False
    with Cons obtain x where x: "x \<in># mset ds" "P x" "mset (update_first P f ds) = replace_mset x (f x) (mset ds)"
      by (auto simp: updated_one_def)
    then have "x \<noteq> d" using False by auto
    with x False show ?thesis
      by (auto simp: updated_one_def replace_mset_def intro!: exI [of _ x])
  qed
qed simp

lemma mset_delete_first:
  "list_ex P ds \<Longrightarrow> \<exists>d. d \<in># mset ds \<and> P d \<and> mset (delete_first P ds) = mset ds - {#d#}"
proof (induction ds)
  case (Cons d ds)
  show ?case
  proof (cases "P d")
    case True
    then show ?thesis by (intro exI [of _ d]) simp
  next
    case False
    with Cons obtain x where "x \<in># mset ds" "P x" "mset (delete_first P ds) = mset ds - {#x#}"
      by auto
    with False show ?thesis
      by (intro exI [of _ x]) auto
  qed
qed simp

lemma mset_insort_by: "mset (insort_by le x ys) = add_mset x (mset ys)"
  by (induction ys) auto

lemma mset_sort_by: "mset (foldr (insort_by le) ds []) = mset ds"
  by (induction ds) (simp_all add: mset_insort_by)

lemma pipeline_run_stages:
  "run_stages ss ds = Some rs \<Longrightarrow> list_all stage_ok ss \<and> pipeline ss ds rs"
proof (induction ss ds rule: run_stages.induct)
  case (4 le ss ds)
  then show ?case
    by (auto simp: Let_def mset_sort_by split: if_splits intro: pipe_sort [OF mset_sort_by])
qed (auto split: if_splits)

lemma group_counts_distinct: "distinct (map fst (group_counts k ds))"
  by (simp add: group_counts_def)

lemma group_counts_of:
  "map_of (group_counts k ds) b = (case length (filter (\<lambda>d. k d = b) ds) of 0 \<Rightarrow> None | Suc n \<Rightarrow> Some (Suc n))"
  by (cases b) (simp_all add: group_counts_def split: nat.split)

lemma group_counts_filter:
  "map_of (group_counts k (filter P ds)) b =
     (case size (filter_mset (\<lambda>d. P d \<and> k d = b) (mset ds)) of 0 \<Rightarrow> None | Suc n \<Rightarrow> Some (Suc n))"
  by (simp only: group_counts_of filter_filter size_mset [symmetric] mset_filter [symmetric] conj_commute)

lemma group_by_distinct: "distinct (map fst (group_by key ds))"
  by (simp add: group_by_def comp_def)

lemma map_of_graph: "map_of (map (\<lambda>k. (k, f k)) ks) k = (if k \<in> set ks then Some (f k) else None)"
  by (induction ks) auto

lemma group_by_of:
  "map_of (group_by key (filter P ds)) k =
     (case size (filter_mset (\<lambda>d. P d \<and> key d = k) (mset ds)) of 0 \<Rightarrow> None | Suc n \<Rightarrow> Some (Suc n))"
proof -
  have "size (filter_mset (\<lambda>d. P d \<and> key d = k) (mset ds)) = length (filter (\<lambda>d. P d \<and> key d = k) ds)"
    by (simp only: mset_filter [symmetric] size_mset)
  moreover have "k \<in> key ` set (filter P ds) \<longleftrightarrow> length (filter (\<lambda>d. P d \<and> key d = k) ds) \<noteq> 0"
    by (auto simp: filter_empty_conv)
  ultimately show ?thesis
    by (auto simp: group_by_def map_of_graph conj_commute split: nat.split)
qed

lemma mem_collection_ok:
  assumes gp: "\<And>ds s. get (put ds s) = ds" and r: "\<And>ds s. rest (put ds s) = rest s"
  shows "mongo_collection (mem_collection get put conflict) (\<lambda>s. mset (get s)) conflict rest"
proof (unfold_locales, goal_cases)
  case (1 P s d)
  then show ?case by (auto simp: mem_collection_def find_Some_iff split: option.splits)
next
  case (2 P s)
  then show ?case by (auto simp: mem_collection_def find_None_iff split: option.splits)
next
  case (4 ss s rs)
  then show ?case
    by (auto simp: mem_collection_def dest: pipeline_run_stages split: option.splits)
next
  case (5 ss sub s cnt rs)
  then obtain ms where "run_stages ss (get s) = Some ms" "run_stages sub ms = Some rs"
    "cnt = (if ms = [] then None else Some (length ms))"
    by (auto simp: mem_collection_def split: option.splits)
  then show ?case
    using pipeline_run_stages by (intro conjI exI [of _ "get s"] exI [of _ ms]) blast+
next
  case (9 P f s n s')
  then show ?case
    using mset_update_first [of P "get s" f]
    by (auto simp: mem_collection_def gp list_ex_iff split: if_splits)
next
  case (10 P f s e s')
  then show ?case by (auto simp: mem_collection_def split: if_splits)
next
  case (14 P s n s')
  then show ?case
    using mset_delete_first [of P "get s"]
    by (auto simp: mem_collection_def gp list_ex_iff split: if_splits)
next
  case (16 P keys s rss)
  then have "rss = map (\<lambda>k. group_counts k (filter P (get s))) keys" by (simp add: mem_collection_def)
  then show ?case by (simp add: list_all2_map2 list_all2_same group_counts_distinct group_counts_filter)
next
  case (17 P s n)
  then have "n = length (filter P (get s))" by (simp add: mem_collection_def)
  then show ?case by (simp only: mset_filter [symmetric] size_mset)
next
  case (18 P key s rs)
  then have "rs = group_by key (filter P (get s))" by (simp add: mem_collection_def)
  then show ?case by (simp only: group_by_distinct group_by_of simp_thms)
qed (auto simp: mem_collection_def gp r list_ex_iff updated_all_def split: if_splits option.splits)

end
