(* ===== verification/Auth_Entities.thy ===== *)
theory Auth_Entities
  imports Go_Strings Mongo
begin

text \<open>
  The data of the authentication server (\<^verbatim>\<open>chaoscenter/authentication\<close>): the documents of its
  collections (\<^verbatim>\<open>pkg/entities\<close>), the error values with their status codes and descriptions
  (\<^verbatim>\<open>pkg/utils/errors.go\<close>), and what a REST handler answers (\<^verbatim>\<open>api/presenter\<close>,
  \<^verbatim>\<open>api/handlers/doc.go\<close>). The string types \<^verbatim>\<open>Role\<close>, \<^verbatim>\<open>MemberRole\<close> and \<^verbatim>\<open>Invitation\<close> stay
  strings, as any string can reach them from a request body. A \<^verbatim>\<open>null\<close> stored where a string is
  expected decodes to the empty string.
\<close>

section \<open>Documents\<close>

record user_detail =
  ud_user_id :: string
  ud_username :: string
  ud_email :: string

record audit =
  UpdatedAt :: int
  CreatedAt :: int
  CreatedBy :: user_detail
  UpdatedBy :: user_detail
  IsRemoved :: bool

record user =
  u_audit :: audit
  u_id :: string
  u_username :: string
  u_password :: string
  u_salt :: string
  u_email :: string
  u_name :: string
  u_role :: string
  u_deactivated_at :: "int option"
  u_is_initial_login :: bool

record member =
  m_user_id :: string
  m_username :: string
  m_email :: string
  m_name :: string
  m_role :: string
  m_invitation :: string
  m_joined_at :: int
  m_deactivated_at :: "int option"

record project =
  p_audit :: audit
  p_id :: string
  p_name :: string
  p_members :: "member list"
  p_state :: "string option"
  p_tags :: "string option list"
  p_description :: "string option"

record revoked_token =
  rt_token :: string
  rt_expires_at :: int
  rt_created_at :: int

record api_token =
  at_user_id :: string
  at_name :: string
  at_token :: string
  at_expires_at :: int
  at_created_at :: int

record auth_config =
  ac_key :: string
  ac_value :: string

definition empty_user_detail :: user_detail where
  "empty_user_detail = \<lparr>ud_user_id = [], ud_username = [], ud_email = []\<rparr>"

definition empty_audit :: audit where
  "empty_audit = \<lparr>UpdatedAt = 0, CreatedAt = 0, CreatedBy = empty_user_detail,
     UpdatedBy = empty_user_detail, IsRemoved = False\<rparr>"

definition empty_member :: member where
  "empty_member = \<lparr>m_user_id = [], m_username = [], m_email = [], m_name = [], m_role = [],
     m_invitation = [], m_joined_at = 0, m_deactivated_at = None\<rparr>"

text \<open>Named string values.\<close>

definition RoleAdmin :: string where "RoleAdmin = ''admin''"
definition RoleUser :: string where "RoleUser = ''user''"

definition RoleOwner :: string where "RoleOwner = ''Owner''"
definition RoleEditor :: string where "RoleEditor = ''Editor''"
definition RoleExecutor :: string where "RoleExecutor = ''Executor''"
definition RoleViewer :: string where "RoleViewer = ''Viewer''"

definition PendingInvitation :: string where "PendingInvitation = ''Pending''"
definition AcceptedInvitation :: string where "AcceptedInvitation = ''Accepted''"
definition DeclinedInvitation :: string where "DeclinedInvitation = ''Declined''"
definition ExitedProject :: string where "ExitedProject = ''Exited''"

lemmas role_defs = RoleOwner_def RoleEditor_def RoleExecutor_def RoleViewer_def
lemmas invitation_defs = PendingInvitation_def AcceptedInvitation_def DeclinedInvitation_def ExitedProject_def

lemma invitations_distinct [simp]:
  "PendingInvitation \<noteq> AcceptedInvitation" "AcceptedInvitation \<noteq> PendingInvitation"
  "DeclinedInvitation \<noteq> AcceptedInvitation" "AcceptedInvitation \<noteq> DeclinedInvitation"
  "ExitedProject \<noteq> AcceptedInvitation" "AcceptedInvitation \<noteq> ExitedProject"
  "DeclinedInvitation \<noteq> PendingInvitation" "PendingInvitation \<noteq> DeclinedInvitation"
  "ExitedProject \<noteq> PendingInvitation" "PendingInvitation \<noteq> ExitedProject"
  "ExitedProject \<noteq> DeclinedInvitation" "DeclinedInvitation \<noteq> ExitedProject"
  "PendingInvitation \<noteq> []" "AcceptedInvitation \<noteq> []" "DeclinedInvitation \<noteq> []" "ExitedProject \<noteq> []"
  "[] \<noteq> PendingInvitation" "[] \<noteq> AcceptedInvitation" "[] \<noteq> DeclinedInvitation" "[] \<noteq> ExitedProject"
  by (simp_all add: invitation_defs)

section \<open>Views of documents\<close>

definition SanitizedUser :: "user \<Rightarrow> user" where
  "SanitizedUser u = u\<lparr>u_password := []\<rparr>"

definition GetMemberOutput :: "member \<Rightarrow> member" where
  "GetMemberOutput m = empty_member\<lparr>m_user_id := m_user_id m, m_role := m_role m,
     m_invitation := m_invitation m, m_joined_at := m_joined_at m\<rparr>"

definition ProjectMemberOutput :: "project \<Rightarrow> member list" where
  "ProjectMemberOutput p = map GetMemberOutput (p_members p)"

definition GetProjectOutput :: "project \<Rightarrow> project" where
  "GetProjectOutput p =
     \<lparr>p_audit = \<lparr>UpdatedAt = UpdatedAt (p_audit p), CreatedAt = CreatedAt (p_audit p),
                 CreatedBy = UpdatedBy (p_audit p), UpdatedBy = UpdatedBy (p_audit p),
                 IsRemoved = IsRemoved (p_audit p)\<rparr>,
      p_id = p_id p, p_name = p_name p, p_members = ProjectMemberOutput p, p_state = p_state p,
      p_tags = [], p_description = None\<rparr>"

lemma SanitizedUser_simps [simp]:
  "u_password (SanitizedUser u) = []" "u_id (SanitizedUser u) = u_id u"
  "u_username (SanitizedUser u) = u_username u" "u_role (SanitizedUser u) = u_role u"
  "u_deactivated_at (SanitizedUser u) = u_deactivated_at u" "u_email (SanitizedUser u) = u_email u"
  "u_name (SanitizedUser u) = u_name u" "u_is_initial_login (SanitizedUser u) = u_is_initial_login u"
  by (simp_all add: SanitizedUser_def)

section \<open>Errors\<close>

datatype app_error =
    ErrInvalidCredentials | ErrServerError | ErrInvalidRequest | ErrStrictPasswordPolicyViolation
  | ErrStrictUsernamePolicyViolation | ErrUnauthorized | ErrUserExists | ErrUserNotFound
  | ErrProjectNotFound | ErrWrongPassword | ErrUpdatingAdmin | ErrUserDeactivated
  | ErrUserAlreadyDeactivated | ErrEmptyProjectName | ErrInvalidRole | ErrInvalidEmail
  | ErrPasswordNotUpdated | ErrOldPassword

text \<open>A Go \<^verbatim>\<open>error\<close> value: one of the package variables, a driver error, or another error by its text.\<close>

datatype go_error = App app_error | Driver mongo_error | Text string

fun app_error_text :: "app_error \<Rightarrow> string" where
  "app_error_text ErrInvalidCredentials = ''invalid_credentials''"
| "app_error_text ErrServerError = ''server_error''"
| "app_error_text ErrInvalidRequest = ''invalid_request''"
| "app_error_text ErrStrictPasswordPolicyViolation = ''password_policy_violation''"
| "app_error_text ErrStrictUsernamePolicyViolation = ''username_policy_violation''"
| "app_error_text ErrUnauthorized = ''unauthorized''"
| "app_error_text ErrUserExists = ''user_exists''"
| "app_error_text ErrUserNotFound = ''user does not exist''"
| "app_error_text ErrProjectNotFound = ''project does not exist''"
| "app_error_text ErrWrongPassword = ''password doesn'' @ [CHR 0x27] @ ''t match''"
| "app_error_text ErrUpdatingAdmin = ''cannot remove admin''"
| "app_error_text ErrUserDeactivated = ''your account has been deactivated''"
| "app_error_text ErrUserAlreadyDeactivated = ''user already deactivated''"
| "app_error_text ErrEmptyProjectName = ''invalid project name''"
| "app_error_text ErrInvalidRole = ''invalid role''"
| "app_error_text ErrInvalidEmail = ''invalid email''"
| "app_error_text ErrPasswordNotUpdated = ''default password not updated''"
| "app_error_text ErrOldPassword = ''old and new passwords can'' @ [CHR 0x27] @ ''t be same''"

fun error_text :: "go_error \<Rightarrow> string" where
  "error_text (App e) = app_error_text e"
| "error_text (Driver ErrNoDocuments) = ''mongo: no documents in result''"
| "error_text (Driver (DuplicateKeyError t)) = t"
| "error_text (Driver (DriverError t)) = t"
| "error_text (Text t) = t"

text \<open>The two maps; a key that is missing reads as the zero value.\<close>

fun ErrorStatusCodes :: "go_error \<Rightarrow> nat" where
  "ErrorStatusCodes (App ErrInvalidRequest) = 400"
| "ErrorStatusCodes (App ErrInvalidCredentials) = 401"
| "ErrorStatusCodes (App ErrServerError) = 500"
| "ErrorStatusCodes (App ErrUnauthorized) = 401"
| "ErrorStatusCodes (App ErrUserExists) = 401"
| "ErrorStatusCodes (App ErrStrictPasswordPolicyViolation) = 401"
| "ErrorStatusCodes (App ErrStrictUsernamePolicyViolation) = 401"
| "ErrorStatusCodes (App ErrUserNotFound) = 400"
| "ErrorStatusCodes (App ErrProjectNotFound) = 400"
| "ErrorStatusCodes (App ErrUpdatingAdmin) = 400"
| "ErrorStatusCodes (App ErrUserDeactivated) = 400"
| "ErrorStatusCodes (App ErrUserAlreadyDeactivated) = 400"
| "ErrorStatusCodes (App ErrEmptyProjectName) = 400"
| "ErrorStatusCodes (App ErrInvalidRole) = 400"
| "ErrorStatusCodes (App ErrInvalidEmail) = 400"
| "ErrorStatusCodes (App ErrPasswordNotUpdated) = 401"
| "ErrorStatusCodes (App ErrOldPassword) = 400"
| "ErrorStatusCodes _ = 0"

fun ErrorDescriptions :: "go_error \<Rightarrow> string" where
  "ErrorDescriptions (App ErrServerError) = ''The authorization server encountered an unexpected condition that prevented it from fulfilling the request''"
| "ErrorDescriptions (App ErrInvalidCredentials) = ''Invalid Credentials''"
| "ErrorDescriptions (App ErrInvalidRequest) = ''The request is missing a required parameter, includes an invalid parameter value, includes a parameter more than once, or is otherwise malformed''"
| "ErrorDescriptions (App ErrUnauthorized) = ''The user does not have requested authorization to access this resource''"
| "ErrorDescriptions (App ErrUserExists) = ''This username is already assigned to another user''"
| "ErrorDescriptions (App ErrStrictPasswordPolicyViolation) = ''Please ensure the password is atleast 8 characters long and atmost 16 characters long and has atleast 1 digit, 1 lowercase alphabet, 1 uppercase alphabet and 1 special character''"
| "ErrorDescriptions (App ErrStrictUsernamePolicyViolation) = ''The username should be at least 3 characters long and at most 254 characters long, must start with a letter or digit, and can only contain letters, digits, and the characters . _ - @ +''"
| "ErrorDescriptions (App ErrEmptyProjectName) = ''Project name can'' @ [CHR 0x27] @ ''t be empty''"
| "ErrorDescriptions (App ErrInvalidRole) = ''Role is invalid''"
| "ErrorDescriptions (App ErrProjectNotFound) = ''This project does not exist''"
| "ErrorDescriptions (App ErrInvalidEmail) = ''Email address is invalid''"
| "ErrorDescriptions (App ErrPasswordNotUpdated) = ''Please update your default password''"
| "ErrorDescriptions (App ErrOldPassword) = ''old and new passwords can'' @ [CHR 0x27] @ ''t be same''"
| "ErrorDescriptions _ = []"

declare app_error_text.simps [simp del]
declare ErrorDescriptions.simps [simp del]

record error_response =
  er_error :: string
  er_description :: string

definition CreateErrorResponse :: "go_error \<Rightarrow> error_response" where
  "CreateErrorResponse e = \<lparr>er_error = error_text e, er_description = ErrorDescriptions e\<rparr>"

section \<open>Responses\<close>

record owner_stat =
  os_user_id :: string
  os_username :: string

record project_stats =
  ps_name :: string
  ps_id :: string
  ps_owners :: "owner_stat list"
  ps_total :: nat

record list_invitation_response =
  li_project_id :: string
  li_project_name :: string
  li_project_owner :: member
  li_invitation_role :: string

record list_project_response =
  lp_projects :: "project list"
  lp_total :: nat

record user_with_project =
  uwp_id :: string
  uwp_username :: string
  uwp_email :: string
  uwp_name :: string
  uwp_projects :: "project list"

record login_response =
  lr_access_token :: string
  lr_project_id :: string
  lr_project_role :: string
  lr_expires_in :: int

text \<open>
  The body a handler writes. \<^verbatim>\<open>NoBody\<close> is a handler that returns without writing anything, which
  the framework turns into an empty response with status 200. \<^verbatim>\<open>MessageBody\<close> is a document with a
  \<^verbatim>\<open>message\<close> field, \<^verbatim>\<open>ErrorField\<close> one with an \<^verbatim>\<open>error\<close> field.
\<close>

datatype body =
    NoBody
  | ErrorBody error_response
  | ErrorField string
  | MessageBody string
  | MemberBody member
  | MembersBody "member list"
  | ProjectBody project
  | ProjectsBody "project list"
  | ListProjectsBody list_project_response
  | StatsBody "project_stats list"
  | InvitationsBody "list_invitation_response list"
  | RoleBody string
  | UserBody user
  | UsersBody "user list"
  | UserProjectBody user_with_project
  | LoginBody login_response
  | TokenBody string
  | TokensBody "api_token list"
  | ProjectIDBody string string
  | StatusBody string
  | ReadinessBody string string
  | CapabilitiesBody bool
  | RedirectTo string

text \<open>The status code handed to the framework and the body.\<close>

type_synonym response = "nat \<times> body"

definition error_json :: "app_error \<Rightarrow> app_error \<Rightarrow> response" where
  "error_json status e = (ErrorStatusCodes (App status), ErrorBody (CreateErrorResponse (App e)))"

abbreviation fails :: "app_error \<Rightarrow> response" where
  "fails e \<equiv> error_json e e"

text \<open>Success is an answer with status 200 that was written.\<close>

definition http_ok :: "response \<Rightarrow> bool" where
  "http_ok r \<longleftrightarrow> fst r = 200 \<and> snd r \<noteq> NoBody"

lemma http_ok_pair [simp]: "http_ok (n, b) \<longleftrightarrow> n = 200 \<and> b \<noteq> NoBody"
  by (simp add: http_ok_def)

lemma error_json_not_ok [simp]: "\<not> http_ok (error_json a e)"
  by (cases a) (simp_all add: error_json_def http_ok_def)

lemma error_json_neq [simp]:
  "error_json a e \<noteq> (200, b)" "(200, b) \<noteq> error_json a e"
  by (cases a; simp add: error_json_def)+

end
