(* ===== verification/Auth_Db.thy ===== *)
theory Auth_Db
  imports Auth_Entities
begin

text \<open>
  What the authentication server is built on: the five collections of its database with
  transactions (\<^verbatim>\<open>api/main.go\<close>, \<^verbatim>\<open>pkg/services/application_service.go\<close>) and the third-party
  functions it calls. Both are parameters of the model. The locale \<^verbatim>\<open>auth_db\<close> is what the code
  relies on: five MongoDB collections that do not share documents, with the unique indexes
  \<^verbatim>\<open>main\<close> creates. It is interpreted on an executable in-memory database.
\<close>

section \<open>The database handle\<close>

text \<open>
  \<^verbatim>\<open>StartSession\<close> covers \<^verbatim>\<open>StartSession\<close> and \<^verbatim>\<open>StartTransaction\<close>. Writes of a transaction are
  made on a tentative state; \<^verbatim>\<open>CommitTransaction\<close> takes the state before the transaction and the
  tentative one. A transaction that is never committed leaves the state as it was.
\<close>

record 's db =
  users :: "('s, user) collection"
  projects :: "('s, project) collection"
  revoked_tokens :: "('s, revoked_token) collection"
  api_tokens :: "('s, api_token) collection"
  auth_configs :: "('s, auth_config) collection"
  StartSession :: "'s \<Rightarrow> mongo_error option"
  CommitTransaction :: "'s \<Rightarrow> 's \<Rightarrow> mongo_error option \<times> 's"
  ListDatabaseNames :: "'s \<Rightarrow> mongo_error + string list"
  ListCollectionNames :: "'s \<Rightarrow> mongo_error + string list"

text \<open>The claims of a token; a claim is absent, a string or another JSON value.\<close>

datatype claim = StringClaim string | NumberClaim int | OtherClaim

type_synonym claims = "(string \<times> claim) list"

text \<open>
  The other libraries. \<^verbatim>\<open>now_ms\<close> and \<^verbatim>\<open>new_uuid\<close> give the values of the successive calls of one
  request; \<^verbatim>\<open>jwt_decode\<close> reads a token without verifying it (whether it is signed with an HMAC
  method, and its claims), \<^verbatim>\<open>jwt_verify\<close> checks its signature with a key and its time claims.
  Where a sum is returned the left side is the text of an error.
\<close>

record env =
  now_ms :: "nat \<Rightarrow> int"
  new_uuid :: "nat \<Rightarrow> string"
  bcrypt_generate :: "string \<Rightarrow> string + string"
  bcrypt_matches :: "string \<Rightarrow> string \<Rightarrow> bool"
  mail_parses :: "string \<Rightarrow> bool"
  regex_matches :: "string \<Rightarrow> string \<Rightarrow> bool"
  jwt_sign :: "claims \<Rightarrow> string \<Rightarrow> string + string"
  jwt_decode :: "string \<Rightarrow> (bool \<times> claims) option"
  jwt_verify :: "string \<Rightarrow> string \<Rightarrow> bool"
  random_bytes :: "nat \<Rightarrow> string + string"
  JWTExpiryDuration :: int
  OAuthEnabled :: bool

text \<open>Who calls: the values \<^verbatim>\<open>JwtMiddleware\<close> stores in the request context.\<close>

record ctx =
  uid :: string
  username :: string
  role :: string

section \<open>Unique indexes\<close>

definition user_conflict :: "user \<Rightarrow> user \<Rightarrow> bool" where
  "user_conflict a b \<longleftrightarrow> u_id a = u_id b \<or> u_username a = u_username b"

definition project_conflict :: "project \<Rightarrow> project \<Rightarrow> bool" where
  "project_conflict a b \<longleftrightarrow> p_id a = p_id b"

definition no_conflict :: "'d \<Rightarrow> 'd \<Rightarrow> bool" where
  "no_conflict a b \<longleftrightarrow> False"

section \<open>The interface the server relies on\<close>

locale auth_db =
  users: mongo_collection "users db" udocs user_conflict "\<lambda>s. (pdocs s, rdocs s, adocs s, cdocs s)" +
  projects: mongo_collection "projects db" pdocs project_conflict "\<lambda>s. (udocs s, rdocs s, adocs s, cdocs s)" +
  revoked: mongo_collection "revoked_tokens db" rdocs no_conflict "\<lambda>s. (udocs s, pdocs s, adocs s, cdocs s)" +
  tokens: mongo_collection "api_tokens db" adocs no_conflict "\<lambda>s. (udocs s, pdocs s, rdocs s, cdocs s)" +
  configs: mongo_collection "auth_configs db" cdocs no_conflict "\<lambda>s. (udocs s, pdocs s, rdocs s, adocs s)"
  for db :: "'s db"
    and udocs :: "'s \<Rightarrow> user multiset"
    and pdocs :: "'s \<Rightarrow> project multiset"
    and rdocs :: "'s \<Rightarrow> revoked_token multiset"
    and adocs :: "'s \<Rightarrow> api_token multiset"
    and cdocs :: "'s \<Rightarrow> auth_config multiset" +
  assumes commit_ok: "CommitTransaction db s0 s1 = (None, s2) \<Longrightarrow> s2 = s1"
    and commit_err: "CommitTransaction db s0 s1 = (Some e, s2) \<Longrightarrow> s2 = s0 \<or> s2 = s1"
begin

lemma users_frame:
  assumes "UpdateOne (users db) P u s = (r, s') \<or> UpdateMany (users db) P f s = (r, s')"
  shows "pdocs s' = pdocs s" "rdocs s' = rdocs s" "adocs s' = adocs s" "cdocs s' = cdocs s"
  using assms users.UpdateOne_rest [of P u s] users.UpdateMany_rest [of P f s] by auto

lemma users_insert_frame:
  assumes "InsertOne (users db) d s = (r, s')"
  shows "pdocs s' = pdocs s" "rdocs s' = rdocs s" "adocs s' = adocs s" "cdocs s' = cdocs s"
  using assms users.InsertOne_rest [of d s] by auto

lemma projects_update_frame:
  assumes "UpdateOne (projects db) P u s = (r, s')"
  shows "udocs s' = udocs s" "rdocs s' = rdocs s" "adocs s' = adocs s" "cdocs s' = cdocs s"
  using assms projects.UpdateOne_rest [of P u s] by auto

lemma projects_updates_frame:
  assumes "UpdateMany (projects db) P f s = (r, s')"
  shows "udocs s' = udocs s" "rdocs s' = rdocs s" "adocs s' = adocs s" "cdocs s' = cdocs s"
  using assms projects.UpdateMany_rest [of P f s] by auto

lemma projects_insert_frame:
  assumes "InsertOne (projects db) d s = (r, s')"
  shows "udocs s' = udocs s" "rdocs s' = rdocs s" "adocs s' = adocs s" "cdocs s' = cdocs s"
  using assms projects.InsertOne_rest [of d s] by auto

lemma projects_delete_frame:
  assumes "DeleteOne (projects db) P s = (r, s')"
  shows "udocs s' = udocs s" "rdocs s' = rdocs s" "adocs s' = adocs s" "cdocs s' = cdocs s"
  using assms projects.DeleteOne_rest [of P s] by auto

lemma revoked_insert_frame:
  assumes "InsertOne (revoked_tokens db) d s = (r, s')"
  shows "udocs s' = udocs s" "pdocs s' = pdocs s" "adocs s' = adocs s" "cdocs s' = cdocs s"
  using assms revoked.InsertOne_rest [of d s] by auto

lemma tokens_insert_frame:
  assumes "InsertOne (api_tokens db) d s = (r, s')"
  shows "udocs s' = udocs s" "pdocs s' = pdocs s" "rdocs s' = rdocs s" "cdocs s' = cdocs s"
  using assms tokens.InsertOne_rest [of d s] by auto

lemma tokens_delete_frame:
  assumes "DeleteOne (api_tokens db) P s = (r, s')"
  shows "udocs s' = udocs s" "pdocs s' = pdocs s" "rdocs s' = rdocs s" "cdocs s' = cdocs s"
  using assms tokens.DeleteOne_rest [of P s] by auto

lemma configs_insert_frame:
  assumes "InsertOne (auth_configs db) d s = (r, s')"
  shows "udocs s' = udocs s" "pdocs s' = pdocs s" "rdocs s' = rdocs s" "adocs s' = adocs s"
  using assms configs.InsertOne_rest [of d s] by auto

end

section \<open>An executable database\<close>

record mem_state =
  st_users :: "user list"
  st_projects :: "project list"
  st_revoked :: "revoked_token list"
  st_tokens :: "api_token list"
  st_configs :: "auth_config list"

definition mem_db :: "mem_state db" where
  "mem_db =
     \<lparr>users = mem_collection st_users (\<lambda>x s. s\<lparr>st_users := x\<rparr>) user_conflict,
      projects = mem_collection st_projects (\<lambda>x s. s\<lparr>st_projects := x\<rparr>) project_conflict,
      revoked_tokens = mem_collection st_revoked (\<lambda>x s. s\<lparr>st_revoked := x\<rparr>) no_conflict,
      api_tokens = mem_collection st_tokens (\<lambda>x s. s\<lparr>st_tokens := x\<rparr>) no_conflict,
      auth_configs = mem_collection st_configs (\<lambda>x s. s\<lparr>st_configs := x\<rparr>) no_conflict,
      StartSession = (\<lambda>s. None), CommitTransaction = (\<lambda>s s'. (None, s')),
      ListDatabaseNames = (\<lambda>s. Inr [''auth'']),
      ListCollectionNames = (\<lambda>s. Inr [''users'', ''project'', ''auth-config'', ''revoked-token'', ''api-token''])\<rparr>"

abbreviation mem_users :: "mem_state \<Rightarrow> user multiset" where "mem_users s \<equiv> mset (st_users s)"
abbreviation mem_projects :: "mem_state \<Rightarrow> project multiset" where "mem_projects s \<equiv> mset (st_projects s)"
abbreviation mem_revoked :: "mem_state \<Rightarrow> revoked_token multiset" where "mem_revoked s \<equiv> mset (st_revoked s)"
abbreviation mem_tokens :: "mem_state \<Rightarrow> api_token multiset" where "mem_tokens s \<equiv> mset (st_tokens s)"
abbreviation mem_configs :: "mem_state \<Rightarrow> auth_config multiset" where "mem_configs s \<equiv> mset (st_configs s)"

interpretation mem: auth_db mem_db mem_users mem_projects mem_revoked mem_tokens mem_configs
  by (intro auth_db.intro auth_db_axioms.intro) (auto simp: mem_db_def intro!: mem_collection_ok)

lemmas mem_auth_db = mem.auth_db_axioms

lemmas mem_eval = mem_db_def mem_collection_def

section \<open>A sample deployment\<close>

text \<open>
  Concrete libraries and users for the witnesses: a hash that tags the password, tokens that
  carry their key, and clocks and identifiers that count.
\<close>

definition sample_env :: env where
  "sample_env =
     \<lparr>now_ms = (\<lambda>k. 1000 + int k), new_uuid = (\<lambda>k. ''new''), bcrypt_generate = (\<lambda>p. Inr (''h-'' @ p)),
      bcrypt_matches = (\<lambda>h p. h = ''h-'' @ p), mail_parses = (\<lambda>a. CHR ''@'' \<in> set a),
      regex_matches = (\<lambda>re n. sublist re n), jwt_sign = (\<lambda>cl k. Inr (''t-'' @ k)),
      jwt_decode = (\<lambda>t. Some (True, [(''uid'', StringClaim ''u1''), (''role'', StringClaim ''admin''),
        (''username'', StringClaim ''ann''), (''exp'', NumberClaim 2000)])),
      jwt_verify = (\<lambda>t k. t = ''t-'' @ k), random_bytes = (\<lambda>n. Inr (replicate n CHR ''A'')),
      JWTExpiryDuration = 1440, OAuthEnabled = False\<rparr>"

definition sample_user :: "string \<Rightarrow> string \<Rightarrow> user" where
  "sample_user i n = \<lparr>u_audit = empty_audit, u_id = i, u_username = n, u_password = ''h-pw'', u_salt = [],
     u_email = [], u_name = n, u_role = RoleUser, u_deactivated_at = None, u_is_initial_login = False\<rparr>"

definition sample_member :: "string \<Rightarrow> string \<Rightarrow> string \<Rightarrow> member" where
  "sample_member i r st = empty_member\<lparr>m_user_id := i, m_role := r, m_invitation := st\<rparr>"

definition sample_project :: "string \<Rightarrow> string \<Rightarrow> member list \<Rightarrow> project" where
  "sample_project i n ms = \<lparr>p_audit = empty_audit, p_id = i, p_name = n, p_members = ms,
     p_state = Some ''active'', p_tags = [], p_description = None\<rparr>"

text \<open>Ann owns project \<^verbatim>\<open>p1\<close>, Bob is invited to it, Cid is not part of it.\<close>

definition sample_state :: mem_state where
  "sample_state =
     \<lparr>st_users = [sample_user ''u1'' ''ann'', sample_user ''u2'' ''bob'', sample_user ''u3'' ''cid''],
      st_projects = [sample_project ''p1'' ''alpha''
        [sample_member ''u1'' RoleOwner AcceptedInvitation, sample_member ''u2'' RoleViewer PendingInvitation]],
      st_revoked = [], st_tokens = [], st_configs = [\<lparr>ac_key = ''salt'', ac_value = ''QUJD''\<rparr>]\<rparr>"

definition caller :: "string \<Rightarrow> string \<Rightarrow> string \<Rightarrow> ctx" where
  "caller i n r = \<lparr>uid = i, username = n, role = r\<rparr>"

end
