(* ===== verification/Auth_Project_Repo.thy ===== *)
theory Auth_Project_Repo
  imports Auth_Db
begin

text \<open>
  The project repository (\<^verbatim>\<open>pkg/project/repository.go\<close>, whose operations
  \<^verbatim>\<open>pkg/services/project_service.go\<close> forwards to) and the query stages of
  \<^verbatim>\<open>api/utils/project_utils.go\<close>. An operation \<^verbatim>\<open>X\<close> of the repository is \<^verbatim>\<open>repo_X\<close>. The lemmas
  inside \<^verbatim>\<open>auth_db\<close> give the effect of every write on the stored projects and what every read
  returns of them.
\<close>

section \<open>Driver results\<close>

definition driver_result :: "mongo_error + 'a \<Rightarrow> go_error + 'a" where
  "driver_result r = map_sum Driver id r"

text \<open>The error of a single-document write, ignoring the matched count.\<close>

fun write_error :: "(mongo_error + nat) \<times> 's \<Rightarrow> go_error option \<times> 's" where
  "write_error (Inl e, s) = (Some (Driver e), s)"
| "write_error (Inr n, s) = (None, s)"

text \<open>The same, with an error of its own when nothing matched.\<close>

fun match_error :: "string \<Rightarrow> (mongo_error + nat) \<times> 's \<Rightarrow> go_error option \<times> 's" where
  "match_error t (Inl e, s) = (Some (Driver e), s)"
| "match_error t (Inr n, s) = (if n = 0 then Some (Text t) else None, s)"

lemma driver_result_simps [simp]:
  "driver_result (Inl e) = Inl (Driver e)" "driver_result (Inr x) = Inr x"
  "driver_result r = Inr x \<longleftrightarrow> r = Inr x"
  "driver_result r = Inl (Driver e) \<longleftrightarrow> r = Inl e"
  "driver_result r \<noteq> Inl (App a)" "driver_result r \<noteq> Inl (Text t)"
  by (cases r; auto simp: driver_result_def)+

lemma write_error_eq: "write_error x = (e, s') \<longleftrightarrow> s' = snd x \<and> e = (case fst x of Inl m \<Rightarrow> Some (Driver m) | Inr n \<Rightarrow> None)"
  by (cases x rule: write_error.cases) auto

lemma match_error_eq: "match_error t x = (e, s') \<longleftrightarrow> s' = snd x \<and>
    e = (case fst x of Inl m \<Rightarrow> Some (Driver m) | Inr n \<Rightarrow> if n = 0 then Some (Text t) else None)"
  by (cases x) (auto split: sum.splits)

section \<open>Reads\<close>

definition has_id :: "string \<Rightarrow> project \<Rightarrow> bool" where
  "has_id pid p \<longleftrightarrow> p_id p = pid"

definition GetProjectByProjectID :: "'s db \<Rightarrow> string \<Rightarrow> 's \<Rightarrow> go_error + project" where
  "GetProjectByProjectID db pid s = driver_result (FindOne (projects db) (has_id pid) s)"

definition GetProjects :: "'s db \<Rightarrow> (project \<Rightarrow> bool) \<Rightarrow> 's \<Rightarrow> go_error + project list" where
  "GetProjects db query s = driver_result (Find (projects db) query s)"

definition project_stats_of :: "project \<Rightarrow> project_stats" where
  "project_stats_of p =
     \<lparr>ps_name = p_name p, ps_id = p_id p,
      ps_owners = map (\<lambda>m. \<lparr>os_user_id = m_user_id m, os_username = m_username m\<rparr>)
                    (filter (\<lambda>m. m_role m = RoleOwner) (p_members p)),
      ps_total = length (filter (\<lambda>m. m_invitation m = AcceptedInvitation) (p_members p))\<rparr>"

definition repo_GetProjectStats :: "'s db \<Rightarrow> 's \<Rightarrow> go_error + project_stats list" where
  "repo_GetProjectStats db s = map_sum id (map project_stats_of) (driver_result (Aggregate (projects db) [] s))"

definition owner_entry :: "string \<Rightarrow> member \<Rightarrow> bool" where
  "owner_entry u m \<longleftrightarrow> m_user_id m = u \<and> m_role m = RoleOwner"

definition accepted_only :: "project \<Rightarrow> project" where
  "accepted_only p = p\<lparr>p_members := filter (\<lambda>m. m_invitation m = AcceptedInvitation) (p_members p),
     p_tags := [], p_description := None\<rparr>"

definition repo_GetOwnerProjects :: "'s db \<Rightarrow> string \<Rightarrow> 's \<Rightarrow> go_error + project list" where
  "repo_GetOwnerProjects db u s =
     driver_result (Aggregate (projects db)
       [Match (\<lambda>p. list_ex (owner_entry u) (p_members p)), Project accepted_only] s)"

definition accepted_owner :: "member \<Rightarrow> bool" where
  "accepted_owner m \<longleftrightarrow> m_role m = RoleOwner \<and> m_invitation m = AcceptedInvitation"

definition repo_GetProjectOwners :: "'s db \<Rightarrow> string \<Rightarrow> 's \<Rightarrow> go_error + member list" where
  "repo_GetProjectOwners db pid s =
     map_sum id (\<lambda>p. filter accepted_owner (p_members p))
       (driver_result (FindOne (projects db) (has_id pid) s))"

text \<open>The projection keeps the first member that matches, so the answer has at most one.\<close>

definition repo_GetProjectRole :: "'s db \<Rightarrow> string \<Rightarrow> string \<Rightarrow> 's \<Rightarrow> go_error + string option" where
  "repo_GetProjectRole db pid u s =
     map_sum id (\<lambda>p. map_option m_role
         (List.find (\<lambda>m. m_user_id m = u \<and> m_invitation m = AcceptedInvitation) (p_members p)))
       (driver_result (FindOne (projects db) (has_id pid) s))"

definition member_filter :: "string \<Rightarrow> member \<Rightarrow> bool" where
  "member_filter state m =
     (if state = ''accepted'' then m_invitation m = AcceptedInvitation
      else if state = ''not_accepted'' then m_invitation m \<noteq> AcceptedInvitation
      else True)"

definition GetProjectMembers :: "'s db \<Rightarrow> string \<Rightarrow> string \<Rightarrow> 's \<Rightarrow> go_error + member list" where
  "GetProjectMembers db pid state s =
     (case driver_result (Aggregate (projects db) [Match (has_id pid)] s) of
        Inl e \<Rightarrow> Inl e
      | Inr [] \<Rightarrow> Inr []
      | Inr (p # ps) \<Rightarrow> Inr (filter (member_filter state) (p_members p)))"

definition invitation_view :: "string \<Rightarrow> string \<Rightarrow> project \<Rightarrow> project" where
  "invitation_view u invitation p =
     \<lparr>p_audit = empty_audit, p_id = p_id p, p_name = p_name p,
      p_members = filter (\<lambda>m. m_invitation m = invitation \<and> m_user_id m = u \<or> m_role m = RoleOwner) (p_members p),
      p_state = None, p_tags = [], p_description = None\<rparr>"

definition repo_ListInvitations :: "'s db \<Rightarrow> string \<Rightarrow> string \<Rightarrow> 's \<Rightarrow> go_error + project list" where
  "repo_ListInvitations db u invitation s =
     (let flt = (if invitation = PendingInvitation then
                   Match (\<lambda>p. list_ex (\<lambda>m. m_user_id m = u \<and> m_invitation m = invitation) (p_members p))
                 else if invitation = AcceptedInvitation then
                   Match (\<lambda>p. list_ex (\<lambda>m. m_user_id m = u \<and> m_role m \<noteq> RoleOwner \<and> m_invitation m = invitation) (p_members p))
                 else EmptyStage)
      in driver_result (Aggregate (projects db) [flt, Project (invitation_view u invitation)] s))"

section \<open>Writes\<close>

definition repo_CreateProject :: "'s db \<Rightarrow> project \<Rightarrow> 's \<Rightarrow> go_error option \<times> 's" where
  "repo_CreateProject db p s =
     (case InsertOne (projects db) p s of
        (None, s') \<Rightarrow> (None, s')
      | (Some (DuplicateKeyError t), s') \<Rightarrow> (Some (App ErrUserExists), s')
      | (Some e, s') \<Rightarrow> (Some (Driver e), s'))"

definition no_project :: string where
  "no_project = ''could not find matching projectID in database''"

definition AddMember :: "'s db \<Rightarrow> string \<Rightarrow> member \<Rightarrow> 's \<Rightarrow> go_error option \<times> 's" where
  "AddMember db pid m s =
     match_error no_project (UpdateOne (projects db) (has_id pid)
       (Some (\<lambda>p. p\<lparr>p_members := p_members p @ [m]\<rparr>)) s)"

definition pull_member :: "string \<Rightarrow> project \<Rightarrow> project" where
  "pull_member u p = p\<lparr>p_members := filter (\<lambda>m. m_user_id m \<noteq> u) (p_members p)\<rparr>"

definition repo_RemoveInvitation :: "'s db \<Rightarrow> string \<Rightarrow> string \<Rightarrow> string \<Rightarrow> 's \<Rightarrow> go_error option \<times> 's" where
  "repo_RemoveInvitation db pid u invitation s =
     match_error no_project (UpdateOne (projects db) (has_id pid) (Some (pull_member u)) s)"

text \<open>\<^verbatim>\<open>$set\<close> on \<^verbatim>\<open>members.$[elem]\<close> with the array filter \<^verbatim>\<open>elem.user_id = u\<close>.\<close>

definition set_member :: "string \<Rightarrow> (member \<Rightarrow> member) \<Rightarrow> project \<Rightarrow> project" where
  "set_member u f p = p\<lparr>p_members := map (\<lambda>m. if m_user_id m = u then f m else m) (p_members p)\<rparr>"

definition role_value :: "string option \<Rightarrow> string" where
  "role_value r = (case r of None \<Rightarrow> [] | Some x \<Rightarrow> x)"

definition invite_update :: "env \<Rightarrow> string \<Rightarrow> string \<Rightarrow> string option \<Rightarrow> (project \<Rightarrow> project) option" where
  "invite_update env u invitation r =
     (if invitation = PendingInvitation then Some (set_member u (\<lambda>m. m\<lparr>m_invitation := invitation, m_role := role_value r\<rparr>))
      else if invitation = DeclinedInvitation then Some (set_member u (\<lambda>m. m\<lparr>m_invitation := invitation\<rparr>))
      else if invitation = AcceptedInvitation then
        Some (set_member u (\<lambda>m. m\<lparr>m_invitation := invitation, m_joined_at := now_ms env 0\<rparr>))
      else if invitation = ExitedProject then Some (set_member u (\<lambda>m. m\<lparr>m_invitation := invitation\<rparr>))
      else None)"

definition UpdateInvite :: "'s db \<Rightarrow> env \<Rightarrow> string \<Rightarrow> string \<Rightarrow> string \<Rightarrow> string option \<Rightarrow> 's \<Rightarrow> go_error option \<times> 's" where
  "UpdateInvite db env pid u invitation r s =
     match_error no_project (UpdateOne (projects db) (has_id pid) (invite_update env u invitation r) s)"

definition repo_UpdateProjectName :: "'s db \<Rightarrow> string \<Rightarrow> string \<Rightarrow> 's \<Rightarrow> go_error option \<times> 's" where
  "repo_UpdateProjectName db pid n s =
     write_error (UpdateOne (projects db) (has_id pid) (Some (\<lambda>p. p\<lparr>p_name := n\<rparr>)) s)"

definition repo_UpdateMemberRole :: "'s db \<Rightarrow> string \<Rightarrow> string \<Rightarrow> string option \<Rightarrow> 's \<Rightarrow> go_error option \<times> 's" where
  "repo_UpdateMemberRole db pid u r s =
     write_error (UpdateOne (projects db) (has_id pid) (Some (set_member u (\<lambda>m. m\<lparr>m_role := role_value r\<rparr>))) s)"

definition UpdateProjectState :: "'s db \<Rightarrow> string \<Rightarrow> int \<Rightarrow> bool \<Rightarrow> 's \<Rightarrow> go_error option \<times> 's" where
  "UpdateProjectState db u t isDeactivate s =
     (case UpdateMany (projects db) (\<lambda>p. True) (set_member u (\<lambda>m. m\<lparr>m_deactivated_at := Some t\<rparr>)) s of
        (Inl e, s1) \<Rightarrow> (Some (Driver e), s1)
      | (Inr n, s1) \<Rightarrow>
          write_error (UpdateMany (projects db) (\<lambda>p. list_ex (owner_entry u) (p_members p))
            (\<lambda>p. p\<lparr>p_audit := (p_audit p)\<lparr>IsRemoved := isDeactivate\<rparr>\<rparr>) s1))"

definition repo_DeleteProject :: "'s db \<Rightarrow> string \<Rightarrow> 's \<Rightarrow> go_error option \<times> 's" where
  "repo_DeleteProject db pid s =
     match_error ''no project found with the given projectID'' (DeleteOne (projects db) (has_id pid) s)"

section \<open>Listing a user's projects\<close>

record list_filter =
  lf_project_name :: "string option"
  lf_created_by_me :: "bool option"

record sort_input =
  si_field :: "string option"
  si_ascending :: "bool option"

record pagination =
  pg_page :: int
  pg_limit :: int

record list_request =
  rq_user_id :: string
  rq_sort :: "sort_input option"
  rq_filter :: "list_filter option"
  rq_pagination :: "pagination option"

definition CreateMatchStage :: "string \<Rightarrow> project stage" where
  "CreateMatchStage u =
     Match (\<lambda>p. \<not> IsRemoved (p_audit p) \<and>
       list_ex (\<lambda>m. m_user_id m = u \<and>
         m_invitation m \<notin> {PendingInvitation, DeclinedInvitation, ExitedProject}) (p_members p))"

definition CreateFilterStages :: "env \<Rightarrow> list_filter option \<Rightarrow> string \<Rightarrow> project stage list" where
  "CreateFilterStages env flt u =
     (case flt of None \<Rightarrow> [] | Some f \<Rightarrow>
        (case lf_created_by_me f of None \<Rightarrow> []
         | Some True \<Rightarrow> [Match (\<lambda>p. ud_user_id (CreatedBy (p_audit p)) = u)]
         | Some False \<Rightarrow> [Match (\<lambda>p. ud_user_id (CreatedBy (p_audit p)) \<noteq> u)]) @
        (case lf_project_name f of None \<Rightarrow> []
         | Some n \<Rightarrow> [Match (\<lambda>p. regex_matches env n (p_name p))]))"

text \<open>\<^verbatim>\<open>None\<close> is the empty document, which the caller does not append.\<close>

definition CreateSortStage :: "sort_input option \<Rightarrow> project stage option" where
  "CreateSortStage srt =
     (case srt of None \<Rightarrow> None | Some si \<Rightarrow>
       (case si_field si of None \<Rightarrow> None | Some fld \<Rightarrow>
          Some (Sort (\<lambda>a b.
            let (x, y) = (if si_ascending si = Some True then (a, b) else (b, a))
            in if fld = ''NAME'' then p_name x \<le> p_name y else UpdatedAt (p_audit x) \<le> UpdatedAt (p_audit y)))))"

definition CreatePaginationStage :: "pagination option \<Rightarrow> project stage list" where
  "CreatePaginationStage pg =
     (case pg of None \<Rightarrow> [Limit 10]
      | Some p \<Rightarrow> let limit = (if pg_limit p > 50 then 50 else pg_limit p)
                 in [Skip (wrap64 (pg_page p * limit)), Limit limit])"

definition list_stages :: "env \<Rightarrow> list_request \<Rightarrow> project stage list" where
  "list_stages env rq =
     CreateMatchStage (rq_user_id rq) # CreateFilterStages env (rq_filter rq) (rq_user_id rq) @
     (case CreateSortStage (rq_sort rq) of None \<Rightarrow> [] | Some st \<Rightarrow> [st])"

definition repo_GetProjectsByUserID :: "'s db \<Rightarrow> env \<Rightarrow> list_request \<Rightarrow> 's \<Rightarrow> go_error + list_project_response" where
  "repo_GetProjectsByUserID db env rq s =
     (case driver_result (Facet (projects db) (list_stages env rq) (CreatePaginationStage (rq_pagination rq)) s) of
        Inl e \<Rightarrow> Inl e
      | Inr (None, ps) \<Rightarrow> Inr \<lparr>lp_projects = [], lp_total = 0\<rparr>
      | Inr (Some n, ps) \<Rightarrow> Inr \<lparr>lp_projects = ps, lp_total = n\<rparr>)"

definition parse_bool :: "string \<Rightarrow> bool option" where
  "parse_bool s =
     (if s \<in> {''1'', ''t'', ''T'', ''TRUE'', ''true'', ''True''} then Some True
      else if s \<in> {''0'', ''f'', ''F'', ''FALSE'', ''false'', ''False''} then Some False else None)"

text \<open>
  The query parameters of a request, the empty string for an absent one. The error text quotes the
  value; escapes inside the quotes are not modelled.
\<close>

definition query_error :: "string \<Rightarrow> string \<Rightarrow> string" where
  "query_error name v = ''invalid value for '' @ name @ '': strconv.ParseBool: parsing '' @
     [CHR 0x22] @ v @ [CHR 0x22] @ '': invalid syntax''"

definition GetProjectFilters :: "string option \<Rightarrow> (string \<Rightarrow> string) \<Rightarrow> go_error + list_request" where
  "GetProjectFilters u query =
     (let byMe = query ''createdByMe''; name = query ''projectName'';
          asc = query ''sortAscending'';
          field = (if query ''sortField'' = ''name'' then ''NAME'' else ''TIME'');
          page = (case atoi (query ''page'') of Some n \<Rightarrow> n | None \<Rightarrow> 0);
          limit = (case atoi (query ''limit'') of Some n \<Rightarrow> n | None \<Rightarrow> 15)
      in if byMe \<noteq> [] \<and> parse_bool byMe = None then Inl (Text (query_error ''createdByMe'' byMe))
         else if asc \<noteq> [] \<and> parse_bool asc = None then Inl (Text (query_error ''sortAscending'' asc))
         else Inr \<lparr>rq_user_id = (case u of None \<Rightarrow> [] | Some x \<Rightarrow> x),
                   rq_sort = Some \<lparr>si_field = Some field,
                     si_ascending = (if asc = [] then None else parse_bool asc)\<rparr>,
                   rq_filter = Some \<lparr>lf_project_name = (if name = [] then None else Some name),
                     lf_created_by_me = (if byMe = [] then None else parse_bool byMe)\<rparr>,
                   rq_pagination = Some \<lparr>pg_page = page, pg_limit = limit\<rparr>\<rparr>)"

end
