(* ===== verification/Auth_User_Repo.thy ===== *)
theory Auth_User_Repo
  imports Auth_Project_Repo
begin

text \<open>
  The user repository (\<^verbatim>\<open>pkg/user/repository.go\<close>, forwarded to by
  \<^verbatim>\<open>pkg/services/user_service.go\<close>), the transaction that deactivates and reactivates a user
  (\<^verbatim>\<open>pkg/services/transaction_service.go\<close>), the initial-login check and the access-control check
  (\<^verbatim>\<open>pkg/validations\<close>). An operation \<^verbatim>\<open>X\<close> that shares its name with a handler is \<^verbatim>\<open>repo_X\<close>.
\<close>

section \<open>Reads\<close>

definition GetUser :: "'s db \<Rightarrow> string \<Rightarrow> 's \<Rightarrow> go_error + user" where
  "GetUser db i s = map_sum id SanitizedUser (driver_result (FindOne (users db) (\<lambda>u. u_id u = i) s))"

definition GetUsers :: "'s db \<Rightarrow> 's \<Rightarrow> go_error + user list" where
  "GetUsers db s = map_sum id (map SanitizedUser) (driver_result (Find (users db) (\<lambda>u. True) s))"

text \<open>A nil slice is sent as \<^verbatim>\<open>null\<close>, which the server refuses as the operand of \<^verbatim>\<open>$in\<close> and \<^verbatim>\<open>$nin\<close>.\<close>

definition nil_operand :: mongo_error where
  "nil_operand = DriverError ''$in/$nin needs an array''"

definition repo_InviteUsers :: "'s db \<Rightarrow> string list \<Rightarrow> 's \<Rightarrow> go_error + user list" where
  "repo_InviteUsers db invitedUsers s =
     (if invitedUsers = [] then Inl (Driver nil_operand) else map_sum id (map SanitizedUser)
       (driver_result (Find (users db) (\<lambda>u. u_id u \<notin> set invitedUsers \<and> u_deactivated_at u = None) s)))"

definition FindUsersByUID :: "'s db \<Rightarrow> string list \<Rightarrow> 's \<Rightarrow> go_error + user list" where
  "FindUsersByUID db uids s =
     (if uids = [] then Inl (Driver nil_operand)
      else map_sum id (map SanitizedUser) (driver_result (Find (users db) (\<lambda>u. u_id u \<in> set uids) s)))"

definition FindUserByUsername :: "'s db \<Rightarrow> string \<Rightarrow> 's \<Rightarrow> go_error + user" where
  "FindUserByUsername db n s = driver_result (FindOne (users db) (\<lambda>u. u_username u = n) s)"

definition CheckPasswordHash :: "env \<Rightarrow> string \<Rightarrow> string \<Rightarrow> go_error option" where
  "CheckPasswordHash env hash password =
     (if bcrypt_matches env hash password then None else Some (App ErrWrongPassword))"

definition IsAdministrator :: "'s db \<Rightarrow> string \<Rightarrow> string \<Rightarrow> 's \<Rightarrow> go_error option" where
  "IsAdministrator db i n s =
     (case FindOne (users db) (\<lambda>u. u_id u = i \<and> u_username u = n) s of
        Inl e \<Rightarrow> Some (Driver e)
      | Inr u \<Rightarrow> if u_role u \<noteq> RoleAdmin then Some (App ErrInvalidCredentials) else None)"

section \<open>Writes\<close>

text \<open>\<^verbatim>\<open>LoginUser\<close> of the repository, used by the OAuth callback; it also answers the user it inserts.\<close>

definition repo_LoginUser :: "'s db \<Rightarrow> env \<Rightarrow> user \<Rightarrow> 's \<Rightarrow> (go_error + user) \<times> 's" where
  "repo_LoginUser db env u s =
     (case bcrypt_generate env (u_password u) of
        Inl t \<Rightarrow> (Inl (Text t), s)
      | Inr h \<Rightarrow>
          let u' = u\<lparr>u_id := new_uuid env 0, u_password := h\<rparr> in
          (case InsertOne (users db) u' s of
             (None, s') \<Rightarrow> (Inr (SanitizedUser u'), s')
           | (Some (DuplicateKeyError t), s') \<Rightarrow>
               (driver_result (FindOne (users db) (\<lambda>x. u_username x = u_username u) s'), s')
           | (Some e, s') \<Rightarrow> (Inl (Driver e), s')))"

record user_password =
  up_username :: string
  up_old :: string
  up_new :: string

text \<open>A failed hash leaves the empty string in \<^verbatim>\<open>newHashedPassword\<close>; the error is not looked at.\<close>

definition repo_UpdatePassword :: "'s db \<Rightarrow> env \<Rightarrow> user_password \<Rightarrow> bool \<Rightarrow> 's \<Rightarrow> go_error option \<times> 's" where
  "repo_UpdatePassword db env up isAdminBeingReset s =
     (case FindOne (users db) (\<lambda>u. u_username u = up_username up) s of
        Inl e \<Rightarrow> (Some (Driver e), s)
      | Inr result \<Rightarrow>
          let h = (case bcrypt_generate env (up_new up) of Inl t \<Rightarrow> [] | Inr x \<Rightarrow> x);
              write = (\<lambda>f. match_error ''could not find matching username in database''
                        (UpdateOne (users db) (\<lambda>u. u_username u = u_username result) (Some f) s))
          in if isAdminBeingReset then
               if \<not> bcrypt_matches env (u_password result) (up_old up) then (Some (Text ''invalid credentials''), s)
               else if bcrypt_matches env (u_password result) (up_new up)
                 then (Some (Text (''old and new passwords can'' @ [CHR 0x27] @ ''t be same'')), s)
               else write (\<lambda>u. u\<lparr>u_password := h, u_is_initial_login := False\<rparr>)
             else write (\<lambda>u. u\<lparr>u_password := h\<rparr>))"

definition repo_CreateUser :: "'s db \<Rightarrow> user \<Rightarrow> 's \<Rightarrow> (go_error + user) \<times> 's" where
  "repo_CreateUser db u s =
     (case InsertOne (users db) u s of
        (None, s') \<Rightarrow> (Inr (SanitizedUser u), s')
      | (Some (DuplicateKeyError t), s') \<Rightarrow> (Inl (App ErrUserExists), s')
      | (Some e, s') \<Rightarrow> (Inl (Driver e), s'))"

record user_details =
  de_id :: string
  de_email :: string
  de_name :: string

text \<open>Empty fields are left out of the update document; its \<^verbatim>\<open>id\<close> field is not one the code reads.\<close>

definition repo_UpdateUser :: "'s db \<Rightarrow> user_details \<Rightarrow> 's \<Rightarrow> go_error option \<times> 's" where
  "repo_UpdateUser db d s =
     write_error (UpdateMany (users db) (\<lambda>u. u_id u = de_id d)
       (\<lambda>u. u\<lparr>u_email := (if de_email d = [] then u_email u else de_email d),
              u_name := (if de_name d = [] then u_name u else de_name d)\<rparr>) s)"

definition repo_UpdateUserState :: "'s db \<Rightarrow> string \<Rightarrow> bool \<Rightarrow> int \<Rightarrow> 's \<Rightarrow> go_error option \<times> 's" where
  "repo_UpdateUserState db n isDeactivate t s =
     write_error (UpdateOne (users db) (\<lambda>u. u_username u = n)
       (Some (if isDeactivate
              then (\<lambda>u. u\<lparr>u_deactivated_at := Some t, u_audit := (u_audit u)\<lparr>IsRemoved := True\<rparr>\<rparr>)
              else (\<lambda>u. u\<lparr>u_deactivated_at := None, u_audit := (u_audit u)\<lparr>IsRemoved := False\<rparr>\<rparr>))) s)"

text \<open>
  The transaction. The user is read outside of it; a return before the commit leaves the
  transaction to be aborted.
\<close>

definition UpdateStateTransaction :: "'s db \<Rightarrow> env \<Rightarrow> string \<Rightarrow> bool \<Rightarrow> 's \<Rightarrow> go_error option \<times> 's" where
  "UpdateStateTransaction db env n isDeactivate s =
     (case StartSession db s of
        Some e \<Rightarrow> (Some (Driver e), s)
      | None \<Rightarrow>
          (case FindUserByUsername db n s of
             Inl e \<Rightarrow> (Some (App ErrUserNotFound), s)
           | Inr u \<Rightarrow>
               if u_role u = RoleAdmin then (Some (App ErrUpdatingAdmin), s)
               else if isDeactivate \<and> u_deactivated_at u \<noteq> None then (Some (App ErrUserAlreadyDeactivated), s)
               else
                 let t = (if isDeactivate then now_ms env 0 else 0) in
                 (case repo_UpdateUserState db n isDeactivate t s of
                    (Some e, s1) \<Rightarrow> (Some (App ErrServerError), s)
                  | (None, s1) \<Rightarrow>
                      (case UpdateProjectState db (u_id u) t isDeactivate s1 of
                         (Some e, s2) \<Rightarrow> (Some (App ErrServerError), s)
                       | (None, s2) \<Rightarrow>
                           (case CommitTransaction db s s2 of
                              (None, s3) \<Rightarrow> (None, s3)
                            | (Some e, s3) \<Rightarrow> (Some (Driver e), s3))))))"

section \<open>Checks\<close>

definition CheckInitialLogin :: "'s db \<Rightarrow> string \<Rightarrow> 's \<Rightarrow> go_error + bool" where
  "CheckInitialLogin db i s = map_sum id u_is_initial_login (GetUser db i s)"

definition MutationRbacRules :: "string \<Rightarrow> string list" where
  "MutationRbacRules name =
     (if name \<in> {''sendInvitation'', ''removeInvitation'', ''updateProjectName'', ''updateMemberRole'',
                 ''deleteProject'', ''getActiveProjectMembers''} then [RoleOwner]
      else if name \<in> {''acceptInvitation'', ''declineInvitation'', ''leaveProject'', ''getProject''}
        then [RoleOwner, RoleViewer, RoleExecutor, RoleEditor]
      else [])"

definition holds_role :: "string \<Rightarrow> string list \<Rightarrow> string \<Rightarrow> member \<Rightarrow> bool" where
  "holds_role u roles invitation m \<longleftrightarrow>
     m_user_id m = u \<and> m_role m \<in> set roles \<and> m_invitation m = invitation"

definition RbacValidator :: "'s db \<Rightarrow> string \<Rightarrow> string \<Rightarrow> string list \<Rightarrow> string \<Rightarrow> 's \<Rightarrow> go_error option" where
  "RbacValidator db u pid requiredRoles invitation s =
     (case GetUser db u s of
        Inl e \<Rightarrow> Some e
      | Inr usr \<Rightarrow>
          if u_deactivated_at usr \<noteq> None then Some (Text ''auth gRPC - Deactivated User'')
          else if requiredRoles = [] then Some (Driver nil_operand)
          else (case GetProjects db (\<lambda>p. p_id p = pid \<and>
                       list_ex (holds_role u requiredRoles invitation) (p_members p)) s of
                  Inl e \<Rightarrow> Some e
                | Inr ps \<Rightarrow> if length ps = 0 then Some (Text ''auth gRPC - Unauthorized'') else None))"

section \<open>What reads return and writes do\<close>

lemma MutationRbacRules_simps [simp]:
  "MutationRbacRules ''sendInvitation'' = [RoleOwner]"
  "MutationRbacRules ''removeInvitation'' = [RoleOwner]"
  "MutationRbacRules ''updateProjectName'' = [RoleOwner]"
  "MutationRbacRules ''updateMemberRole'' = [RoleOwner]"
  "MutationRbacRules ''deleteProject'' = [RoleOwner]"
  "MutationRbacRules ''getActiveProjectMembers'' = [RoleOwner]"
  "MutationRbacRules ''acceptInvitation'' = [RoleOwner, RoleViewer, RoleExecutor, RoleEditor]"
  "MutationRbacRules ''declineInvitation'' = [RoleOwner, RoleViewer, RoleExecutor, RoleEditor]"
  "MutationRbacRules ''leaveProject'' = [RoleOwner, RoleViewer, RoleExecutor, RoleEditor]"
  "MutationRbacRules ''getProject'' = [RoleOwner, RoleViewer, RoleExecutor, RoleEditor]"
  by (simp_all add: MutationRbacRules_def)

text \<open>
  What the access check promises: an active user with an entry in the project that has one of the
  roles and the invitation state.
\<close>

definition permitted :: "user multiset \<Rightarrow> project multiset \<Rightarrow> string \<Rightarrow> string \<Rightarrow> string list \<Rightarrow> string \<Rightarrow> bool" where
  "permitted U P u pid roles invitation \<longleftrightarrow>
     (\<exists>usr\<in>#U. u_id usr = u \<and> u_deactivated_at usr = None) \<and>
     (\<exists>p\<in>#P. p_id p = pid \<and> (\<exists>m\<in>set (p_members p). holds_role u roles invitation m))"

context auth_db
begin

lemma GetUser_ok: "GetUser db i s = Inr u \<Longrightarrow> \<exists>d\<in>#udocs s. u_id d = i \<and> u = SanitizedUser d"
  by (auto simp: GetUser_def map_sum_def split: sum.splits dest: users.FindOne_ok)

lemma GetProjects_ok:
  assumes "GetProjects db q s = Inr ps"
  shows "p \<in> set ps \<longleftrightarrow> p \<in># pdocs s \<and> q p"
proof -
  have "mset ps = filter_mset q (pdocs s)"
    using assms by (auto simp: GetProjects_def dest: projects.Find_ok)
  then have "set_mset (mset ps) = set_mset (filter_mset q (pdocs s))" by simp
  then show ?thesis by auto
qed

lemma RbacValidator_sound:
  assumes "RbacValidator db u pid roles invitation s = None"
  shows "permitted (udocs s) (pdocs s) u pid roles invitation"
proof -
  from assms obtain usr ps where u: "GetUser db u s = Inr usr" "u_deactivated_at usr = None"
    and ps: "GetProjects db (\<lambda>p. p_id p = pid \<and> list_ex (holds_role u roles invitation) (p_members p)) s = Inr ps" "ps \<noteq> []"
    by (auto simp: RbacValidator_def split: sum.splits if_splits)
  then have "hd ps \<in> set ps" by simp
  then have "hd ps \<in># pdocs s \<and> p_id (hd ps) = pid \<and> list_ex (holds_role u roles invitation) (p_members (hd ps))"
    using GetProjects_ok [OF ps(1)] by blast
  moreover obtain d where "d \<in># udocs s" "u_id d = u" "u_deactivated_at d = None"
    using GetUser_ok [OF u(1)] u(2) by auto
  ultimately show ?thesis
    unfolding permitted_def list_ex_iff by blast
qed

lemma RbacValidator_complete:
  assumes "permitted (udocs s) (pdocs s) u pid roles invitation"
    and "GetUser db u s = Inr usr" "u_deactivated_at usr = None"
    and ps: "GetProjects db (\<lambda>p. p_id p = pid \<and> list_ex (holds_role u roles invitation) (p_members p)) s = Inr ps"
  shows "RbacValidator db u pid roles invitation s = None"
proof -
  obtain p where "p \<in># pdocs s" "p_id p = pid" "list_ex (holds_role u roles invitation) (p_members p)"
    using assms(1) unfolding permitted_def list_ex_iff by blast
  then have "ps \<noteq> []" using GetProjects_ok [OF ps, of p] by auto
  moreover have "roles \<noteq> []" using assms(1) by (auto simp: permitted_def holds_role_def)
  ultimately show ?thesis using assms by (simp add: RbacValidator_def)
qed

lemma project_write:
  assumes "UpdateOne (projects db) (has_id pid) (Some f) s = (r, s')"
  shows "udocs s' = udocs s" "rdocs s' = rdocs s" "adocs s' = adocs s" "cdocs s' = cdocs s"
    and "pdocs s' = pdocs s \<or> updated_one (has_id pid) f (pdocs s) (pdocs s')"
  using projects_update_frame [OF assms] projects.UpdateOne_cases [OF assms] by auto

lemma match_update:
  assumes "match_error t (UpdateOne (projects db) (has_id pid) (Some f) s) = (e, s')"
  shows "udocs s' = udocs s" "rdocs s' = rdocs s" "adocs s' = adocs s" "cdocs s' = cdocs s"
    and "pdocs s' = pdocs s \<or> updated_one (has_id pid) f (pdocs s) (pdocs s')"
    and "e = None \<Longrightarrow> updated_one (has_id pid) f (pdocs s) (pdocs s')"
proof -
  obtain r where r: "UpdateOne (projects db) (has_id pid) (Some f) s = (r, s')"
    using assms by (cases "UpdateOne (projects db) (has_id pid) (Some f) s") (auto simp: match_error_eq)
  show "udocs s' = udocs s" "rdocs s' = rdocs s" "adocs s' = adocs s" "cdocs s' = cdocs s"
    and "pdocs s' = pdocs s \<or> updated_one (has_id pid) f (pdocs s) (pdocs s')"
    by (rule project_write [OF r])+
  show "updated_one (has_id pid) f (pdocs s) (pdocs s')" if "e = None"
    using assms r that projects.UpdateOne_ok [of "has_id pid" f s _ s']
    by (auto simp: match_error_eq split: sum.splits if_splits)
qed

lemma write_update:
  assumes "write_error (UpdateOne (projects db) (has_id pid) (Some f) s) = (e, s')"
  shows "udocs s' = udocs s" "rdocs s' = rdocs s" "adocs s' = adocs s" "cdocs s' = cdocs s"
    and "pdocs s' = pdocs s \<or> updated_one (has_id pid) f (pdocs s) (pdocs s')"
    and "e = None \<Longrightarrow> p \<in># pdocs s \<Longrightarrow> p_id p = pid \<Longrightarrow> updated_one (has_id pid) f (pdocs s) (pdocs s')"
proof -
  obtain r where r: "UpdateOne (projects db) (has_id pid) (Some f) s = (r, s')"
    using assms by (cases "UpdateOne (projects db) (has_id pid) (Some f) s") (auto simp: write_error_eq)
  show "udocs s' = udocs s" "rdocs s' = rdocs s" "adocs s' = adocs s" "cdocs s' = cdocs s"
    and "pdocs s' = pdocs s \<or> updated_one (has_id pid) f (pdocs s) (pdocs s')"
    by (rule project_write [OF r])+
  show "updated_one (has_id pid) f (pdocs s) (pdocs s')" if "e = None" "p \<in># pdocs s" "p_id p = pid"
    using assms r that projects.UpdateOne_ok [of "has_id pid" f s _ s']
    by (auto simp: write_error_eq has_id_def split: sum.splits if_splits)
qed

end

end
