(* ===== verification/Auth_Sanitizers.thy ===== *)
theory Auth_Sanitizers
  imports Go_Base64 Auth_User_Repo
begin

text \<open>
  Input checks (\<^verbatim>\<open>pkg/utils/sanitizers.go\<close>) and the salt: how \<^verbatim>\<open>RandomString\<close> and \<^verbatim>\<open>AddSalt\<close>
  (\<^verbatim>\<open>api/handlers/salt.go\<close>) write it and how the configuration repository (\<^verbatim>\<open>pkg/authConfig\<close>) reads
  it back. The base-64 encodings are those of Go's \<^verbatim>\<open>encoding/base64\<close>.
\<close>

section \<open>Passwords and user names\<close>

definition SanitizeString :: "string \<Rightarrow> string" where
  "SanitizeString s = trimSpace s"

definition is_lower :: "char \<Rightarrow> bool" where
  "is_lower c \<longleftrightarrow> 97 \<le> (of_char c :: nat) \<and> (of_char c :: nat) \<le> 122"

definition is_upper :: "char \<Rightarrow> bool" where
  "is_upper c \<longleftrightarrow> 65 \<le> (of_char c :: nat) \<and> (of_char c :: nat) \<le> 90"

text \<open>\<^verbatim>\<open>None\<close> is the nil error.\<close>

definition ValidateStrictPassword :: "string \<Rightarrow> string option" where
  "ValidateStrictPassword input =
     (if length input < 8 then Some ''password length is less than 8 characters''
      else if length input > 16 then Some ''password length is more than 16 characters''
      else if \<not> list_ex is_digit input then Some ''password does not contain digits''
      else if \<not> list_ex is_lower input then Some ''password does not contain lowercase alphabets''
      else if \<not> list_ex is_upper input then Some ''password does not contain uppercase alphabets''
      else if \<not> list_ex (\<lambda>c. c \<in> set ''@$!%*?_&#'') input then Some ''password does not contain special characters''
      else None)"

definition user_char :: "char \<Rightarrow> bool" where
  "user_char c \<longleftrightarrow> is_lower c \<or> is_upper c \<or> is_digit c"

definition username_error :: string where
  "username_error = ''username should be at least 3 characters long and at most 254 characters long, must start with a letter or digit, and can only contain letters, digits, and the characters . _ - @ +''"

text \<open>The match of \<^verbatim>\<open>^[a-zA-Z0-9][a-zA-Z0-9._@+-]{2,253}$\<close>.\<close>

fun matches_username :: "string \<Rightarrow> bool" where
  "matches_username [] = False"
| "matches_username (c # cs) =
     (user_char c \<and> list_all (\<lambda>x. user_char x \<or> x \<in> set ''._@+-'') cs \<and> 2 \<le> length cs \<and> length cs \<le> 253)"

definition ValidateStrictUsername :: "string \<Rightarrow> string option" where
  "ValidateStrictUsername s = (if matches_username s then None else Some username_error)"

section \<open>The salt\<close>

definition RandomString :: "env \<Rightarrow> nat \<Rightarrow> go_error + string" where
  "RandomString env n =
     (if n > 0 then
        (case random_bytes env n of Inl t \<Rightarrow> Inl (Text t) | Inr b \<Rightarrow> Inr (base64_encode url_alphabet b))
      else Inl (Text ''length should be greater than 0''))"

definition CreateConfig :: "'s db \<Rightarrow> auth_config \<Rightarrow> 's \<Rightarrow> go_error option \<times> 's" where
  "CreateConfig db cfg s =
     (case InsertOne (auth_configs db) cfg s of (None, s') \<Rightarrow> (None, s') | (Some e, s') \<Rightarrow> (Some (Driver e), s'))"

definition GetConfig :: "'s db \<Rightarrow> string \<Rightarrow> 's \<Rightarrow> go_error + auth_config" where
  "GetConfig db key s =
     (case FindOne (auth_configs db) (\<lambda>cfg. ac_key cfg = key) s of
        Inl e \<Rightarrow> Inl (Driver e)
      | Inr cfg \<Rightarrow> (case base64_decode url_alphabet (ac_value cfg) of
                      None \<Rightarrow> Inl (Text ''illegal base64 data'')
                    | Some v \<Rightarrow> Inr (cfg\<lparr>ac_value := v\<rparr>)))"

definition UpdateConfig :: "'s db \<Rightarrow> string \<Rightarrow> string \<Rightarrow> 's \<Rightarrow> go_error option \<times> 's" where
  "UpdateConfig db key v s =
     write_error (UpdateOne (auth_configs db) (\<lambda>cfg. ac_key cfg = key) (Some (\<lambda>cfg. cfg\<lparr>ac_value := v\<rparr>)) s)"

definition AddSalt :: "'s db \<Rightarrow> env \<Rightarrow> 's \<Rightarrow> go_error option \<times> 's" where
  "AddSalt db env s =
     (case GetConfig db ''salt'' s of
        Inr cfg \<Rightarrow> (None, s)
      | Inl e \<Rightarrow>
          if e \<noteq> Driver ErrNoDocuments then (Some e, s)
          else case RandomString env 32 of
            Inl e \<Rightarrow> (Some e, s)
          | Inr salt \<Rightarrow> CreateConfig db \<lparr>ac_key = ''salt'', ac_value = base64_encode std_alphabet salt\<rparr> s)"

section \<open>The password policy\<close>

lemma ValidateStrictPassword_iff:
  "ValidateStrictPassword p = None \<longleftrightarrow>
     8 \<le> length p \<and> length p \<le> 16 \<and> (\<exists>c\<in>set p. is_digit c) \<and> (\<exists>c\<in>set p. is_lower c) \<and>
     (\<exists>c\<in>set p. is_upper c) \<and> (\<exists>c\<in>set p. c \<in> set ''@$!%*?_&#'')"
  by (auto simp: ValidateStrictPassword_def list_ex_iff)

section \<open>Reading the salt back\<close>

lemma alphanum_char_checks:
  "list_all (\<lambda>c. (of_char c :: nat) < 128 \<and> (of_char c :: nat) mod 64 < 62) (url_alphabet @ ''='')"
  by code_simp

lemma url_lookup: "i < 62 \<Longrightarrow> sextet_of url_alphabet (std_alphabet ! i) = Some i"
proof -
  have "list_all (\<lambda>i. sextet_of url_alphabet (std_alphabet ! i) = Some i) [0..<62]" by code_simp
  then show "i < 62 \<Longrightarrow> ?thesis" by (simp add: list_all_iff)
qed

lemma std_not_special:
  "i < 62 \<Longrightarrow> std_alphabet ! i \<noteq> CHR ''=''" "i < 62 \<Longrightarrow> std_alphabet ! i \<noteq> CHR 0x0A" "i < 62 \<Longrightarrow> std_alphabet ! i \<noteq> CHR 0x0D"
proof -
  have "list_all (\<lambda>i. std_alphabet ! i \<noteq> CHR ''='' \<and> std_alphabet ! i \<noteq> CHR 0x0A \<and> std_alphabet ! i \<noteq> CHR 0x0D) [0..<62]"
    by code_simp
  then show "i < 62 \<Longrightarrow> std_alphabet ! i \<noteq> CHR ''=''" "i < 62 \<Longrightarrow> std_alphabet ! i \<noteq> CHR 0x0A"
    "i < 62 \<Longrightarrow> std_alphabet ! i \<noteq> CHR 0x0D"
    by (simp_all add: list_all_iff)
qed

text \<open>
  The bytes of an encoded string are ASCII and none of them is 62 or 63 modulo 64, so no sextet of
  its second encoding is 62 or 63, the two values on which the alphabets differ.
\<close>

definition tame :: "nat \<Rightarrow> bool" where
  "tame b \<longleftrightarrow> b < 128 \<and> b mod 64 < 62"

lemma tame_sextets:
  assumes "tame a" "tame b" "tame c"
  shows "a div 4 < 62" "a mod 4 * 16 < 62" "a mod 4 * 16 + b div 16 < 62" "b mod 16 * 4 < 62"
    "b mod 16 * 4 + c div 64 < 62" "c mod 64 < 62"
  using assms by (auto simp: tame_def)

lemma decode_sextets:
  "list_all tame bs \<Longrightarrow> decode_quanta url_alphabet (map (encode_sextet std_alphabet) (sextets bs)) = Some bs"
proof (induction bs rule: sextets.induct)
  case (2 a)
  then have "a div 4 < 62" "a mod 4 * 16 < 62" using tame_sextets [of a a a] by auto
  then show ?case using url_lookup by (simp add: encode_sextet_def)
next
  case (3 a b)
  then have "a div 4 < 62" "a mod 4 * 16 + b div 16 < 62" "b mod 16 * 4 < 62" "b < 128"
    using tame_sextets [of a b b] by (auto simp: tame_def)
  then show ?case using url_lookup std_not_special by (simp add: encode_sextet_def)
next
  case (4 a b c r)
  then have "a div 4 < 62" "a mod 4 * 16 + b div 16 < 62" "b mod 16 * 4 + c div 64 < 62" "c mod 64 < 62"
    "b < 128" "c < 128"
    using tame_sextets [of a b c] by (auto simp: tame_def)
  then show ?case using 4 url_lookup std_not_special by (simp add: encode_sextet_def)
qed simp

lemma sextets_range: "list_all (\<lambda>b. b < 256) bs \<Longrightarrow> Some i \<in> set (sextets bs) \<Longrightarrow> i < 64"
  by (induction bs rule: sextets.induct) auto

lemma encode_url_tame: "list_all tame (bytes (base64_encode url_alphabet s))"
proof -
  have "list_all (\<lambda>b. b < 256) (bytes s)"
    by (simp add: bytes_def list_all_iff)
  moreover have "length url_alphabet = 64" by code_simp
  ultimately have "x \<in> set (sextets (bytes s)) \<Longrightarrow> encode_sextet url_alphabet x \<in> set (url_alphabet @ ''='')" for x
    using sextets_range [of "bytes s"] by (cases x) (auto simp: encode_sextet_def)
  moreover have "c \<in> set (url_alphabet @ ''='') \<Longrightarrow> tame (of_char c)" for c
    using alphanum_char_checks unfolding list_all_iff tame_def by blast
  ultimately show ?thesis
    unfolding base64_encode_def bytes_def [of "map _ _"] list_all_iff by auto
qed

lemma encode_no_breaks:
  assumes "list_all tame bs"
  shows "filter (\<lambda>c. c \<noteq> CHR 0x0A \<and> c \<noteq> CHR 0x0D) (map (encode_sextet std_alphabet) (sextets bs)) =
    map (encode_sextet std_alphabet) (sextets bs)"
proof -
  have "Some i \<in> set (sextets bs) \<Longrightarrow> i < 62" for i
    using assms
  proof (induction bs rule: sextets.induct)
    case (4 a b c r)
    then show ?case using tame_sextets [of a b c] by auto
  qed (use tame_sextets in auto)
  then show ?thesis
    by (auto simp: filter_id_conv encode_sextet_def std_not_special split: option.splits)
qed

lemma salt_decodes: "base64_decode url_alphabet (base64_encode std_alphabet (base64_encode url_alphabet b)) =
    Some (base64_encode url_alphabet b)"
  unfolding base64_decode_def base64_encode_def [of std_alphabet] encode_no_breaks [OF encode_url_tame]
    decode_sextets [OF encode_url_tame]
  by (simp add: bytes_def o_def)

section \<open>Properties\<close>

text \<open>
  A password is accepted exactly if it has 8 to 16 bytes and a digit, a lower-case letter, an upper-case
  letter and one of the listed special characters.
\<close>

theorem password_policy:
  "ValidateStrictPassword p = None \<longleftrightarrow>
     8 \<le> length p \<and> length p \<le> 16 \<and> (\<exists>c\<in>set p. is_digit c) \<and> (\<exists>c\<in>set p. is_lower c) \<and>
     (\<exists>c\<in>set p. is_upper c) \<and> (\<exists>c\<in>set p. c \<in> set ''@$!%*?_&#'')"
  by (rule ValidateStrictPassword_iff)

text \<open>
  The salt survives the two encodings. When \<^verbatim>\<open>AddSalt\<close> stores a first salt and the database answers
  the next read with a stored document, \<^verbatim>\<open>GetConfig\<close> returns exactly the random string that was
  generated, although it is written with the standard and read with the URL alphabet.
\<close>

theorem AddSalt_read_back:
  assumes "auth_db db udocs pdocs rdocs adocs cdocs" and "AddSalt db env s = (None, s')"
    and "\<forall>cfg\<in>#cdocs s. ac_key cfg \<noteq> ''salt''" and "GetConfig db ''salt'' s = Inl (Driver ErrNoDocuments)"
    and "FindOne (auth_configs db) (\<lambda>cfg. ac_key cfg = ''salt'') s' = Inr cfg"
  shows "\<exists>salt. RandomString env 32 = Inr salt \<and> GetConfig db ''salt'' s' = Inr \<lparr>ac_key = ''salt'', ac_value = salt\<rparr>"
proof -
  obtain salt where salt: "RandomString env 32 = Inr salt"
    and ins: "InsertOne (auth_configs db) \<lparr>ac_key = ''salt'', ac_value = base64_encode std_alphabet salt\<rparr> s = (None, s')"
    using assms(2,4) by (auto simp: AddSalt_def CreateConfig_def split: sum.splits prod.splits option.splits)
  obtain b where b: "salt = base64_encode url_alphabet b"
    using salt by (auto simp: RandomString_def split: sum.splits)
  have "cdocs s' = add_mset \<lparr>ac_key = ''salt'', ac_value = base64_encode std_alphabet salt\<rparr> (cdocs s)"
    using mongo_collection.InsertOne_ok [OF auth_db.axioms(5) [OF assms(1)] ins] by simp
  moreover have "cfg \<in># cdocs s' \<and> ac_key cfg = ''salt''"
    by (rule mongo_collection.FindOne_ok [OF auth_db.axioms(5) [OF assms(1)] assms(5)])
  ultimately have "cfg = \<lparr>ac_key = ''salt'', ac_value = base64_encode std_alphabet salt\<rparr>"
    using assms(3) by auto
  with salt assms(5) b show ?thesis by (simp add: GetConfig_def salt_decodes)
qed

theorem AddSalt_read_back_witness:
  "\<exists>salt. RandomString sample_env 32 = Inr salt \<and>
     GetConfig mem_db ''salt'' (snd (AddSalt mem_db sample_env (sample_state\<lparr>st_configs := []\<rparr>)))
       = Inr \<lparr>ac_key = ''salt'', ac_value = salt\<rparr>"
proof -
  let ?s = "sample_state\<lparr>st_configs := []\<rparr>"
  let ?s' = "snd (AddSalt mem_db sample_env ?s)"
  have a: "AddSalt mem_db sample_env ?s = (None, ?s')"
    by (subst prod.collapse [symmetric], unfold prod.inject, code_simp)
  have g: "GetConfig mem_db ''salt'' ?s = Inl (Driver ErrNoDocuments)" by code_simp
  have f: "FindOne (auth_configs mem_db) (\<lambda>cfg. ac_key cfg = ''salt'') ?s' = Inr (hd (st_configs ?s'))" by code_simp
  show ?thesis by (rule AddSalt_read_back [OF mem_auth_db a _ g f]) simp
qed

end
