(* ===== verification/Auth_Session.thy ===== *)
theory Auth_Session
  imports Auth_Sanitizers
begin

text \<open>
  Sessions: signing, parsing, revoking and validating tokens (\<^verbatim>\<open>pkg/services/session_service.go\<close>,
  \<^verbatim>\<open>pkg/session\<close>), the middleware that guards the routes (\<^verbatim>\<open>api/middleware/jwt_middlware.go\<close>) and
  the gRPC endpoint that validates a request for the other servers (\<^verbatim>\<open>api/handlers/grpc\<close>). A run-time
  panic is a \<^verbatim>\<open>go_panic\<close>; in a handler the framework's recovery turns it into an empty answer with
  status 500.
\<close>

section \<open>Repositories\<close>

definition repo_RevokeToken :: "'s db \<Rightarrow> revoked_token \<Rightarrow> 's \<Rightarrow> go_error option \<times> 's" where
  "repo_RevokeToken db t s =
     (case InsertOne (revoked_tokens db) t s of (None, s') \<Rightarrow> (None, s') | (Some e, s') \<Rightarrow> (Some (Driver e), s'))"

text \<open>Every error counts as not revoked.\<close>

definition IsTokenRevoked :: "'s db \<Rightarrow> string \<Rightarrow> 's \<Rightarrow> bool" where
  "IsTokenRevoked db t s =
     (case FindOne (revoked_tokens db) (\<lambda>d. rt_token d = t) s of Inl e \<Rightarrow> False | Inr d \<Rightarrow> True)"

definition repo_CreateApiToken :: "'s db \<Rightarrow> api_token \<Rightarrow> 's \<Rightarrow> go_error option \<times> 's" where
  "repo_CreateApiToken db t s =
     (case InsertOne (api_tokens db) t s of (None, s') \<Rightarrow> (None, s') | (Some e, s') \<Rightarrow> (Some (Driver e), s'))"

definition GetApiTokensByUserID :: "'s db \<Rightarrow> string \<Rightarrow> 's \<Rightarrow> go_error + api_token list" where
  "GetApiTokensByUserID db u s = driver_result (Find (api_tokens db) (\<lambda>t. at_user_id t = u) s)"

definition repo_DeleteApiToken :: "'s db \<Rightarrow> string \<Rightarrow> 's \<Rightarrow> go_error option \<times> 's" where
  "repo_DeleteApiToken db t s = write_error (DeleteOne (api_tokens db) (\<lambda>d. at_token d = t) s)"

section \<open>Tokens\<close>

record token =
  tk_raw :: string
  tk_claims :: claims
  tk_valid :: bool

definition claim_of :: "string \<Rightarrow> claims \<Rightarrow> claim option" where
  "claim_of k cl = map_of cl k"

definition parseToken :: "'s db \<Rightarrow> env \<Rightarrow> string \<Rightarrow> 's \<Rightarrow> go_error + token" where
  "parseToken db env t s =
     (case jwt_decode env t of
        None \<Rightarrow> Inl (Text ''token is malformed'')
      | Some (hmac, cl) \<Rightarrow>
          if \<not> hmac then Inl (Text ''invalid token'')
          else case GetConfig db ''salt'' s of
            Inl e \<Rightarrow> Inl (Text (''couldn'' @ [CHR 0x27] @ ''t fetch jwt secret''))
          | Inr salt \<Rightarrow>
              if jwt_verify env t (ac_value salt) then Inr \<lparr>tk_raw = t, tk_claims = cl, tk_valid = True\<rparr>
              else Inl (Text ''token is invalid''))"

definition ValidateToken :: "'s db \<Rightarrow> env \<Rightarrow> string \<Rightarrow> 's \<Rightarrow> go_error + token" where
  "ValidateToken db env t s =
     (case parseToken db env t s of
        Inl e \<Rightarrow> Inl e
      | Inr tok \<Rightarrow> if IsTokenRevoked db (tk_raw tok) s then Inl (Text ''token revoked'') else Inr tok)"

text \<open>The expiry claim is asserted to be a number.\<close>

definition RevokeToken :: "'s db \<Rightarrow> env \<Rightarrow> string \<Rightarrow> 's \<Rightarrow> go_error option go \<times> 's" where
  "RevokeToken db env t s =
     (case parseToken db env t s of
        Inl e \<Rightarrow> (Inr (Some e), s)
      | Inr tok \<Rightarrow>
          (case claim_of ''exp'' (tk_claims tok) of
             Some (NumberClaim x) \<Rightarrow>
               (case repo_RevokeToken db \<lparr>rt_token = t, rt_expires_at = x, rt_created_at = now_ms env 0\<rparr> s of
                  (e, s') \<Rightarrow> (Inr e, s'))
           | _ \<Rightarrow> (Inl TypeAssertion, s)))"

definition user_claims :: "user \<Rightarrow> int \<Rightarrow> claims" where
  "user_claims u x = [(''uid'', StringClaim (u_id u)), (''role'', StringClaim (u_role u)),
     (''username'', StringClaim (u_username u)), (''exp'', NumberClaim x)]"

text \<open>\<^verbatim>\<open>k\<close> is the number of the clock call. Durations are 64-bit counts of nanoseconds; the clock of the model has milliseconds.\<close>

definition after_minutes :: "int \<Rightarrow> int \<Rightarrow> int" where
  "after_minutes ms d = (ms * 1000000 + wrap64 (60000000000 * d)) div 1000000000"

definition GetSignedJWT :: "env \<Rightarrow> nat \<Rightarrow> user \<Rightarrow> string \<Rightarrow> go_error + string" where
  "GetSignedJWT env k u key =
     (case jwt_sign env (user_claims u (after_minutes (now_ms env k) (JWTExpiryDuration env))) key of
        Inl t \<Rightarrow> Inl (Text t) | Inr t \<Rightarrow> Inr t)"

record api_token_input =
  ai_user_id :: string
  ai_name :: string
  ai_days :: int

text \<open>\<^verbatim>\<open>AddDate(0, 0, days)\<close> on a clock without daylight saving.\<close>

definition CreateApiTokenService :: "'s db \<Rightarrow> env \<Rightarrow> user \<Rightarrow> api_token_input \<Rightarrow> 's \<Rightarrow> (go_error + string) \<times> 's" where
  "CreateApiTokenService db env u rq s =
     (let expiresAt = now_ms env 0 div 1000 + 86400 * ai_days rq in
      case GetConfig db ''salt'' s of
        Inl e \<Rightarrow> (Inl (Text (''couldn'' @ [CHR 0x27] @ ''t fetch jwt secret'')), s)
      | Inr salt \<Rightarrow>
          (case jwt_sign env (user_claims u expiresAt) (ac_value salt) of
             Inl t \<Rightarrow> (Inl (Text t), s)
           | Inr t \<Rightarrow>
               (case repo_CreateApiToken db \<lparr>at_user_id = u_id u, at_name = ai_name rq, at_token = t,
                        at_expires_at = expiresAt, at_created_at = now_ms env 1\<rparr> s of
                  (Some e, s') \<Rightarrow> (Inl e, s')
                | (None, s') \<Rightarrow> (Inr t, s'))))"

section \<open>The middleware\<close>

text \<open>
  The middleware ends the request with a response, panics on a header shorter than its schema, or
  hands the claims on. The handlers assert that the three claims are strings; \<^verbatim>\<open>request_ctx\<close> is that
  assertion.
\<close>

definition BearerSchema :: string where
  "BearerSchema = ''Bearer ''"

lemma length_BearerSchema [simp]: "length BearerSchema = 7"
  by (simp add: BearerSchema_def)

datatype gate = Aborted response | Panicked go_panic | Admitted claims

definition JwtMiddleware :: "'s db \<Rightarrow> env \<Rightarrow> string \<Rightarrow> 's \<Rightarrow> gate" where
  "JwtMiddleware db env header s =
     (if header = [] then Aborted (fails ErrUnauthorized)
      else if length header < length BearerSchema then Panicked SliceBounds
      else case ValidateToken db env (drop (length BearerSchema) header) s of
        Inl e \<Rightarrow> Aborted (fails ErrUnauthorized)
      | Inr tok \<Rightarrow> if tk_valid tok then Admitted (tk_claims tok) else Aborted (fails ErrUnauthorized))"

definition string_claim :: "string \<Rightarrow> claims \<Rightarrow> string go" where
  "string_claim k cl = (case claim_of k cl of Some (StringClaim x) \<Rightarrow> Inr x | _ \<Rightarrow> Inl TypeAssertion)"

definition request_ctx :: "claims \<Rightarrow> ctx go" where
  "request_ctx cl =
     (case (string_claim ''uid'' cl, string_claim ''username'' cl, string_claim ''role'' cl) of
        (Inr i, Inr n, Inr r) \<Rightarrow> Inr \<lparr>uid = i, username = n, role = r\<rparr>
      | _ \<Rightarrow> Inl TypeAssertion)"

definition guarded :: "'s db \<Rightarrow> env \<Rightarrow> string \<Rightarrow> (ctx \<Rightarrow> 's \<Rightarrow> response \<times> 's) \<Rightarrow> 's \<Rightarrow> response \<times> 's" where
  "guarded db env header handler s =
     (case JwtMiddleware db env header s of
        Aborted r \<Rightarrow> (r, s)
      | Panicked p \<Rightarrow> ((500, NoBody), s)
      | Admitted cl \<Rightarrow> (case request_ctx cl of Inl p \<Rightarrow> ((500, NoBody), s) | Inr c \<Rightarrow> handler c s))"

section \<open>The gRPC endpoint\<close>

text \<open>The response has an error text and a validity flag; the call may also return an error.\<close>

definition ValidateRequest :: "'s db \<Rightarrow> env \<Rightarrow> string \<Rightarrow> string \<Rightarrow> string list \<Rightarrow> string \<Rightarrow> 's
    \<Rightarrow> ((string \<times> bool) \<times> go_error option) go" where
  "ValidateRequest db env jwt pid requiredRoles invitation s =
     (case ValidateToken db env jwt s of
        Inl e \<Rightarrow> Inr ((error_text e, False), Some e)
      | Inr tok \<Rightarrow>
          (case claim_of ''uid'' (tk_claims tok) of
             None \<Rightarrow> Inr ((''token is invalid'', False), None)
           | Some (StringClaim u) \<Rightarrow>
               (case RbacValidator db u pid requiredRoles invitation s of
                  Some e \<Rightarrow> Inr ((error_text e, False), Some e)
                | None \<Rightarrow> Inr (([], True), None))
           | Some _ \<Rightarrow> Inl TypeAssertion))"

record project_member_view =
  pm_email :: string
  pm_username :: string
  pm_invitation :: string
  pm_uid :: string
  pm_joined_at :: string

record project_view =
  pv_id :: string
  pv_name :: string
  pv_members :: "project_member_view list"
  pv_state :: string
  pv_created_at :: string
  pv_updated_at :: string

text \<open>A later user with the same identifier overwrites an earlier one; a missing one reads as zero values.\<close>

definition member_view :: "user list \<Rightarrow> member \<Rightarrow> project_member_view" where
  "member_view us m =
     (let u = List.find (\<lambda>u. u_id u = m_user_id m) (rev us) in
      \<lparr>pm_email = (case u of None \<Rightarrow> [] | Some x \<Rightarrow> u_email x),
       pm_username = (case u of None \<Rightarrow> [] | Some x \<Rightarrow> u_username x),
       pm_invitation = m_invitation m, pm_uid = m_user_id m, pm_joined_at = itoa (m_joined_at m)\<rparr>)"

definition GetProjectById :: "'s db \<Rightarrow> string \<Rightarrow> 's \<Rightarrow> go_error + project_view" where
  "GetProjectById db pid s =
     (case GetProjectByProjectID db pid s of
        Inl e \<Rightarrow> Inl e
      | Inr p \<Rightarrow>
          (case FindUsersByUID db (map m_user_id (p_members p)) s of
             Inl e \<Rightarrow> Inl e
           | Inr us \<Rightarrow>
               Inr \<lparr>pv_id = p_id p, pv_name = p_name p, pv_members = map (member_view us) (p_members p), pv_state = [],
                    pv_created_at = itoa (CreatedAt (p_audit p)), pv_updated_at = itoa (UpdatedAt (p_audit p))\<rparr>))"

record user_view =
  uv_id :: string
  uv_name :: string
  uv_username :: string
  uv_created_at :: string
  uv_updated_at :: string
  uv_deactivated_at :: string
  uv_role :: string
  uv_email :: string

definition GetUserById :: "'s db \<Rightarrow> string \<Rightarrow> 's \<Rightarrow> go_error + user_view" where
  "GetUserById db i s =
     map_sum id (\<lambda>u. \<lparr>uv_id = u_id u, uv_name = u_name u, uv_username = u_username u,
       uv_created_at = itoa (CreatedAt (u_audit u)), uv_updated_at = itoa (UpdatedAt (u_audit u)),
       uv_deactivated_at = (case u_deactivated_at u of None \<Rightarrow> [] | Some t \<Rightarrow> itoa t),
       uv_role = u_role u, uv_email = u_email u\<rparr>) (GetUser db i s)"

end
