(* ===== verification/Go_Outcome.thy ===== *)
theory Go_Outcome
  imports Litmus_Prelude
begin

text \<open>
  Operations that may fail: the result of a Go function that returns a value and an error and may panic, together with the state it
  leaves. \<^verbatim>\<open>obind\<close> is the sequence of two calls with an early return on an error; \<^verbatim>\<open>oends\<close> states a property of the state that is
  left on every path.
\<close>

type_synonym ('s, 'a) outcome = "(string + 'a) go \<times> 's"

definition obind :: "('s, 'a) outcome \<Rightarrow> ('a \<Rightarrow> 's \<Rightarrow> ('s, 'b) outcome) \<Rightarrow> ('s, 'b) outcome" where
  "obind r k = (case r of (Inl p, s) \<Rightarrow> (Inl p, s) | (Inr (Inl e), s) \<Rightarrow> (Inr (Inl e), s) | (Inr (Inr v), s) \<Rightarrow> k v s)"

definition lift_go :: "(string + 'a) go \<Rightarrow> 's \<Rightarrow> ('s, 'a) outcome" where
  "lift_go r s = (r, s)"

definition of_error :: "string option \<times> 's \<Rightarrow> ('s, unit) outcome" where
  "of_error r = (case r of (None, s) \<Rightarrow> (Inr (Inr ()), s) | (Some e, s) \<Rightarrow> (Inr (Inl e), s))"

text \<open>An error with a text in front of it.\<close>

definition with_text :: "string \<Rightarrow> ('s, 'a) outcome \<Rightarrow> ('s, 'a) outcome" where
  "with_text t r = apfst (map_sum id (map_sum ((@) t) id)) r"

definition oends :: "('s \<Rightarrow> bool) \<Rightarrow> ('s, 'a) outcome \<Rightarrow> bool" where
  "oends I r \<longleftrightarrow> I (snd r)"

named_theorems ends_intros

lemma oends_obind [ends_intros]:
  assumes "oends I r" "\<And>v s. r = (Inr (Inr v), s) \<Longrightarrow> I s \<Longrightarrow> oends I (k v s)"
  shows "oends I (obind r k)"
  using assms by (auto simp: oends_def obind_def split: prod.splits sum.splits)

lemma oends_pair [simp]: "oends I (v, s) \<longleftrightarrow> I s"
  by (simp add: oends_def)

lemma oends_lift [simp]: "oends I (lift_go r s) \<longleftrightarrow> I s"
  by (simp add: lift_go_def)

lemma oends_of_error [simp]: "oends I (of_error r) \<longleftrightarrow> I (snd r)"
  by (auto simp: of_error_def oends_def split: prod.splits option.splits)

lemma oends_with_text [simp]: "oends I (with_text t r) \<longleftrightarrow> oends I r"
  by (simp add: oends_def with_text_def)

lemma oendsI: "oends I r \<Longrightarrow> r = (v, s) \<Longrightarrow> I s"
  by (simp add: oends_def)

lemma obind_ok [simp]: "obind r k = (Inr (Inr v), s') \<longleftrightarrow> (\<exists>u s1. r = (Inr (Inr u), s1) \<and> k u s1 = (Inr (Inr v), s'))"
  by (auto simp: obind_def split: prod.splits sum.splits)

lemma lift_ok [simp]: "lift_go r s = (v, s') \<longleftrightarrow> r = v \<and> s' = s"
  by (auto simp: lift_go_def)

text \<open>When an operation that reports an error or nothing has succeeded.\<close>

lemma of_error_ok: "of_error r = (Inr (Inr u), s) \<longleftrightarrow> r = (None, s)"
  by (auto simp: of_error_def split: prod.splits option.splits)

lemma sum_map_Inr: "map_sum f g x = Inr y \<longleftrightarrow> (\<exists>z. x = Inr z \<and> y = g z)"
  by (cases x) auto

end
