(* ===== verification/Gql_Base.thy ===== *)
theory Gql_Base
  imports Auth_Session Go_Outcome
begin

text \<open>
  What the GraphQL server (\<^verbatim>\<open>chaoscenter/graphql/server\<close>) is built on: its database, which it shares with the
  authentication server, the libraries it calls, and the authorization of a request
  (\<^verbatim>\<open>pkg/authorization\<close>, \<^verbatim>\<open>pkg/grpc\<close>). The role check goes to the gRPC endpoint of the authentication
  server, so it is the definition of that component applied to the shared database.

  Errors are their texts. A panic of a resolver is a \<^verbatim>\<open>go_panic\<close>; gqlgen's recovery turns it into
  an error response.
\<close>

section \<open>Documents\<close>

text \<open>\<^verbatim>\<open>mongodb.Audit\<close> and \<^verbatim>\<open>ResourceDetails\<close> are inlined; only the user name of the user details is ever set.\<close>

record environment =
  e_EnvironmentID :: string
  e_Name :: string
  e_Description :: string
  e_Tags :: "string option list"
  e_ProjectID :: string
  e_Type :: string
  e_InfraIDs :: "string list"
  e_CreatedAt :: int
  e_UpdatedAt :: int
  e_CreatedBy :: string
  e_UpdatedBy :: string
  e_IsRemoved :: bool

record toleration =
  t_Key :: "string option"
  t_Operator :: "string option"
  t_Effect :: "string option"
  t_Value :: "string option"
  t_TolerationSeconds :: "int option"

record chaos_infra =
  i_InfraID :: string
  i_Name :: string
  i_Description :: string
  i_Tags :: "string list"
  i_ProjectID :: string
  i_CreatedAt :: int
  i_UpdatedAt :: int
  i_CreatedBy :: string
  i_UpdatedBy :: string
  i_IsRemoved :: bool
  i_InfraNamespace :: "string option"
  i_PlatformName :: string
  i_ServiceAccount :: "string option"
  i_InfraScope :: string
  i_InfraNsExists :: "bool option"
  i_EnvironmentID :: string
  i_InfraSaExists :: "bool option"
  i_AccessKey :: string
  i_InfraType :: string
  i_IsRegistered :: bool
  i_IsInfraConfirmed :: bool
  i_IsActive :: bool
  i_Token :: string
  i_SkipSSL :: "bool option"
  i_NodeSelector :: "string option"
  i_Tolerations :: "toleration list option"
  i_StartTime :: string
  i_Version :: string

section \<open>The database and the libraries\<close>

text \<open>\<^verbatim>\<open>auth_handle\<close> is the database \<^verbatim>\<open>auth\<close> of the authentication server.\<close>

record 's gql_db =
  infras :: "('s, chaos_infra) collection"
  environments :: "('s, environment) collection"
  auth_handle :: "'s db"

text \<open>
  \<^verbatim>\<open>g_auth\<close> holds the clock, the identifiers, the random source and the token library; \<^verbatim>\<open>g_grpc\<close> is the
  transport error of a gRPC call, if it fails; \<^verbatim>\<open>g_regex\<close> a regular expression match with the
  options \<^verbatim>\<open>mix\<close>; \<^verbatim>\<open>g_parse_url\<close> gives scheme and host; \<^verbatim>\<open>g_manifests\<close> the files of a manifest directory, or the
  error of opening (\<^verbatim>\<open>True\<close>) or reading it; \<^verbatim>\<open>g_selector_yaml\<close> and \<^verbatim>\<open>g_tolerations_yaml\<close> the YAML encoder;
  \<^verbatim>\<open>g_copy_tolerations\<close> the \<^verbatim>\<open>copier\<close> package. The other
  fields are the server's configuration.
\<close>

record gql_env =
  g_auth :: env
  g_grpc :: "string option"
  g_regex :: "string \<Rightarrow> string \<Rightarrow> bool"
  g_parse_url :: "string \<Rightarrow> string + (string \<times> string)"
  g_manifests :: "string \<Rightarrow> (bool \<times> string) + (string \<times> (string + string)) list"
  g_selector_yaml :: "(string \<rightharpoonup> string) \<Rightarrow> string + string"
  g_tolerations_yaml :: "toleration list \<Rightarrow> string + string"
  g_copy_tolerations :: "toleration list option \<Rightarrow> string + toleration list option"
  g_Version :: string
  g_ChaosGraphQLEndpoint :: string
  g_TlsCertB64 :: string
  g_images :: "string \<Rightarrow> string"
  g_InfraCompatibleVersions :: "string + string list"

text \<open>The request context: the token the middleware found and the referer header.\<close>

record gctx =
  gc_token :: string
  gc_referer :: "string option"
  gc_actor :: "string option"
  gc_claims :: "claims option"

text \<open>The unique indexes of \<^verbatim>\<open>database/mongodb/init.go\<close>; that on environments covers those not removed.\<close>

definition infra_conflict :: "chaos_infra \<Rightarrow> chaos_infra \<Rightarrow> bool" where
  "infra_conflict a b \<longleftrightarrow> i_InfraID a = i_InfraID b"

definition env_conflict :: "environment \<Rightarrow> environment \<Rightarrow> bool" where
  "env_conflict a b \<longleftrightarrow> \<not> e_IsRemoved a \<and> \<not> e_IsRemoved b \<and> e_EnvironmentID a = e_EnvironmentID b"

locale gql_db =
  auth: auth_db "auth_handle g" udocs pdocs rdocs adocs cdocs +
  infras: mongo_collection "infras g" idocs infra_conflict "\<lambda>s. (edocs s, udocs s, pdocs s, rdocs s, adocs s, cdocs s)" +
  envs: mongo_collection "environments g" edocs env_conflict "\<lambda>s. (idocs s, udocs s, pdocs s, rdocs s, adocs s, cdocs s)"
  for g :: "'s gql_db"
    and idocs :: "'s \<Rightarrow> chaos_infra multiset"
    and edocs :: "'s \<Rightarrow> environment multiset"
    and udocs :: "'s \<Rightarrow> user multiset"
    and pdocs :: "'s \<Rightarrow> project multiset"
    and rdocs :: "'s \<Rightarrow> revoked_token multiset"
    and adocs :: "'s \<Rightarrow> api_token multiset"
    and cdocs :: "'s \<Rightarrow> auth_config multiset"
begin

lemma infras_frame:
  "edocs (snd (InsertOne (infras g) d s)) = edocs s" "edocs (snd (UpdateMany (infras g) P f s)) = edocs s"
  using infras.InsertOne_rest [of d s] infras.UpdateMany_rest [of P f s] by auto

lemma envs_frame:
  "idocs (snd (InsertOne (environments g) e s)) = idocs s" "idocs (snd (UpdateMany (environments g) P f s)) = idocs s"
  using envs.InsertOne_rest [of e s] envs.UpdateMany_rest [of P f s] by auto

end

section \<open>Authorization\<close>

text \<open>\<^verbatim>\<open>MutationRbacRules\<close> of \<^verbatim>\<open>roles.go\<close> by the value of the \<^verbatim>\<open>RoleQuery\<close> constant.\<close>

definition rbac_table :: "(string \<times> string list) list" where
  "rbac_table =
    [(''userInfrastructureReg'', [RoleOwner]), (''CreateChaosExperiment'', [RoleOwner, RoleEditor]),
     (''ReRunChaosExperiment'', [RoleOwner, RoleExecutor, RoleEditor]), (''DeleteChaosEnvironment'', [RoleOwner, RoleEditor]),
     (''StopChaosExperiment'', [RoleOwner, RoleExecutor, RoleEditor]), (''AddChaosHub'', [RoleOwner]),
     (''UpdateChaosExperiment'', [RoleOwner, RoleEditor]), (''DeleteInfrastructures'', [RoleOwner]),
     (''UpdateChaosHub'', [RoleOwner]), (''DeleteChaosHub'', [RoleOwner]), (''EnableGitOps'', [RoleOwner]),
     (''DisableGitOps'', [RoleOwner]), (''UpdateGitOps'', [RoleOwner]),
     (''ListWorkflowRuns'', [RoleOwner, RoleExecutor, RoleViewer, RoleEditor]),
     (''GetWorkflowRun'', [RoleOwner, RoleExecutor, RoleViewer, RoleEditor]),
     (''ListInfrastructures'', [RoleOwner, RoleExecutor, RoleViewer, RoleEditor]),
     (''GetInfrastructure '', [RoleOwner, RoleExecutor, RoleViewer, RoleEditor]),
     (''GetManifest'', [RoleOwner, RoleExecutor, RoleEditor]), (''GetInfraDetails'', [RoleOwner, RoleExecutor, RoleEditor]),
     (''ListCharts'', [RoleOwner, RoleExecutor, RoleViewer, RoleEditor]),
     (''ListExperiment'', [RoleOwner, RoleExecutor, RoleViewer, RoleEditor]), (''SaveChaosHub'', [RoleOwner]),
     (''CreateImageRegistry'', [RoleOwner]), (''UpdateImageRegistry'', [RoleOwner]), (''DeleteImageRegistry'', [RoleOwner]),
     (''GetGitOpsDetails'', [RoleOwner]), (''ListImageRegistry'', [RoleOwner]), (''GetImageRegistry'', [RoleOwner, RoleEditor]),
     (''CreateEnvironment'', [RoleOwner]), (''UpdateEnvironment'', [RoleOwner]), (''DeleteEnvironment'', [RoleOwner]),
     (''GetEnvironment'', [RoleOwner, RoleExecutor, RoleViewer, RoleEditor]),
     (''ListEnvironments'', [RoleOwner, RoleExecutor, RoleViewer, RoleEditor]), (''AddProbe'', [RoleOwner, RoleEditor]),
     (''UpdateProbe'', [RoleOwner, RoleEditor]), (''GetProbe'', [RoleOwner, RoleExecutor, RoleViewer, RoleEditor]),
     (''ListProbes'', [RoleOwner, RoleExecutor, RoleViewer, RoleEditor]), (''DeleteProbe'', [RoleOwner, RoleEditor])]"

definition gql_rules :: "string \<Rightarrow> string list" where
  "gql_rules q = (case map_of rbac_table q of None \<Rightarrow> [] | Some rs \<Rightarrow> rs)"

text \<open>A server that panics while it handles the call drops the connection.\<close>

definition ValidatorGRPCRequest ::
  "'s gql_db \<Rightarrow> gql_env \<Rightarrow> string \<Rightarrow> string \<Rightarrow> string list \<Rightarrow> string \<Rightarrow> 's \<Rightarrow> string option" where
  "ValidatorGRPCRequest g env jwt projectID requiredRoles invitation s =
     (case g_grpc env of
        Some err \<Rightarrow> Some err
      | None \<Rightarrow>
          (case ValidateRequest (auth_handle g) (g_auth env) jwt projectID requiredRoles invitation s of
             Inl p \<Rightarrow> Some ''rpc error: connection closed''
           | Inr (resp, Some e) \<Rightarrow> Some (''rpc error: code = Unknown desc = '' @ error_text e)
           | Inr ((err, isValid), None) \<Rightarrow> if err \<noteq> '''' \<or> \<not> isValid then Some err else None))"

definition ValidateRole :: "'s gql_db \<Rightarrow> gql_env \<Rightarrow> gctx \<Rightarrow> string \<Rightarrow> string list \<Rightarrow> string \<Rightarrow> 's \<Rightarrow> string option" where
  "ValidateRole g env c projectID requiredRoles invitation s =
     (case ValidatorGRPCRequest g env (gc_token c) projectID requiredRoles invitation s of
        None \<Rightarrow> None
      | Some err \<Rightarrow> Some (''permission_denied: '' @ err))"

text \<open>\<^verbatim>\<open>GetAuthConfig\<close> reads the salt the authentication server stores.\<close>

definition GetAuthConfig :: "'s gql_db \<Rightarrow> 's \<Rightarrow> string + string" where
  "GetAuthConfig g s =
     (case FindOne (auth_configs (auth_handle g)) (\<lambda>cfg. ac_key cfg = ''salt'') s of
        Inl e \<Rightarrow> Inl (error_text (Driver e))
      | Inr cfg \<Rightarrow> (case base64_decode url_alphabet (ac_value cfg) of
                      None \<Rightarrow> Inl ''illegal base64 data''
                    | Some v \<Rightarrow> Inr v))"

text \<open>The key function of \<^verbatim>\<open>GetUsername\<close> does not look at the signing method; the claim is asserted to be a string.\<close>

definition GetUsername :: "'s gql_db \<Rightarrow> gql_env \<Rightarrow> string \<Rightarrow> 's \<Rightarrow> (string + string) go" where
  "GetUsername g env token s =
     (case GetAuthConfig g s of
        Inl e \<Rightarrow> Inr (Inl e)
      | Inr salt \<Rightarrow>
          (case jwt_decode (g_auth env) token of
             None \<Rightarrow> Inr (Inl ''invalid Token'')
           | Some (hmac, cl) \<Rightarrow>
               if jwt_verify (g_auth env) token salt then
                 (case claim_of ''username'' cl of Some (StringClaim u) \<Rightarrow> Inr (Inr u) | _ \<Rightarrow> Inl TypeAssertion)
               else Inr (Inl ''invalid Token'')))"

text \<open>A call without a token acts as the system actor of its context, which only the gitops service sets.\<close>

definition GetUsernameFromContext :: "'s gql_db \<Rightarrow> gql_env \<Rightarrow> gctx \<Rightarrow> 's \<Rightarrow> (string + string) go" where
  "GetUsernameFromContext g env c s =
     (if gc_token c \<noteq> '''' then GetUsername g env (gc_token c) s
      else (case gc_actor c of
          None \<Rightarrow> Inr (Inl ''JWT token not found'')
        | Some a \<Rightarrow> Inr (if a = '''' then Inl ''JWT token not found'' else Inr a)))"

text \<open>
  The middleware of the server: \<^verbatim>\<open>None\<close> means that the request ends with status 401, otherwise the token is
  put into the context.
\<close>

definition IsRevokedToken :: "'s gql_db \<Rightarrow> string \<Rightarrow> 's \<Rightarrow> bool" where
  "IsRevokedToken g token s =
     (case FindOne (revoked_tokens (auth_handle g)) (\<lambda>d. rt_token d = token) s of Inl e \<Rightarrow> False | Inr d \<Rightarrow> True)"

definition Middleware :: "'s gql_db \<Rightarrow> string \<Rightarrow> string option \<Rightarrow> 's \<Rightarrow> gctx option" where
  "Middleware g header referer s =
     (let jwt = (if prefix BearerSchema header then drop (length BearerSchema) header else header)
      in if IsRevokedToken g jwt s then None else Some \<lparr>gc_token = jwt, gc_referer = referer, gc_actor = None, gc_claims = None\<rparr>)"

text \<open>The directive of the fields that need a session: the claims of the token are put into the context.\<close>

definition UserValidateJWT :: "gql_env \<Rightarrow> string \<Rightarrow> string \<Rightarrow> string + claims" where
  "UserValidateJWT env token salt =
     (case jwt_decode (g_auth env) token of
        None \<Rightarrow> Inl ''invalid Token''
      | Some (hmac, cl) \<Rightarrow> if hmac \<and> jwt_verify (g_auth env) token salt then Inr cl else Inl ''invalid Token'')"

definition Authorized :: "'s gql_db \<Rightarrow> gql_env \<Rightarrow> gctx \<Rightarrow> 's \<Rightarrow> string + gctx" where
  "Authorized g env c s =
     (case GetAuthConfig g s of
        Inl e \<Rightarrow> Inl e
      | Inr salt \<Rightarrow> map_sum id (\<lambda>cl. c\<lparr>gc_claims := Some cl\<rparr>) (UserValidateJWT env (gc_token c) salt))"

text \<open>
  The shape of the guarded resolvers: the role check, then the user name, then the service.
\<close>

definition with_role :: "'s gql_db \<Rightarrow> gql_env \<Rightarrow> gctx \<Rightarrow> string \<Rightarrow> string \<Rightarrow> ('s \<Rightarrow> ('s, 'a) outcome) \<Rightarrow> 's \<Rightarrow> ('s, 'a) outcome" where
  "with_role g env c projectID query k s =
     (case ValidateRole g env c projectID (gql_rules query) AcceptedInvitation s of
        Some err \<Rightarrow> (Inr (Inl err), s)
      | None \<Rightarrow> k s)"

definition with_user :: "'s gql_db \<Rightarrow> gql_env \<Rightarrow> gctx \<Rightarrow> (string \<Rightarrow> 's \<Rightarrow> ('s, 'a) outcome) \<Rightarrow> 's \<Rightarrow> ('s, 'a) outcome" where
  "with_user g env c k s =
     (case GetUsername g env (gc_token c) s of
        Inl p \<Rightarrow> (Inl p, s)
      | Inr (Inl err) \<Rightarrow> (Inr (Inl err), s)
      | Inr (Inr u) \<Rightarrow> k u s)"

section \<open>What the role check means\<close>

text \<open>The token verifies with the stored salt, is not known to be revoked and names a user.\<close>

definition token_user :: "'s gql_db \<Rightarrow> gql_env \<Rightarrow> string \<Rightarrow> 's \<Rightarrow> string option" where
  "token_user g env t s =
     (case ValidateToken (auth_handle g) (g_auth env) t s of
        Inl e \<Rightarrow> None
      | Inr tok \<Rightarrow> (case claim_of ''uid'' (tk_claims tok) of Some (StringClaim u) \<Rightarrow> Some u | _ \<Rightarrow> None))"

context gql_db
begin

lemma ValidateRole_sound:
  assumes "ValidateRole g env c projectID roles invitation s = None"
  shows "\<exists>u. token_user g env (gc_token c) s = Some u \<and> permitted (udocs s) (pdocs s) u projectID roles invitation"
proof -
  from assms obtain r where r: "ValidateRequest (auth_handle g) (g_auth env) (gc_token c) projectID roles invitation s = Inr (([], True), None)"
    by (auto simp: ValidateRole_def ValidatorGRPCRequest_def split: option.splits sum.splits prod.splits if_splits)
  then obtain tok u where t: "ValidateToken (auth_handle g) (g_auth env) (gc_token c) s = Inr tok"
    "claim_of ''uid'' (tk_claims tok) = Some (StringClaim u)" "RbacValidator (auth_handle g) u projectID roles invitation s = None"
    by (auto simp: ValidateRequest_def split: sum.splits option.splits claim.splits)
  then show ?thesis
    using auth.RbacValidator_sound by (auto simp: token_user_def)
qed

lemma with_role_ok:
  assumes "with_role g env c projectID q k s = (Inr (Inr x), s')"
  shows "k s = (Inr (Inr x), s') \<and>
    (\<exists>u. token_user g env (gc_token c) s = Some u \<and> permitted (udocs s) (pdocs s) u projectID (gql_rules q) AcceptedInvitation)"
  using assms ValidateRole_sound by (auto simp: with_role_def split: option.splits)

end

lemma with_role_cases:
  "with_role g env c projectID q k s = (r, s') \<Longrightarrow> s' = s \<or> k s = (r, s')"
  by (auto simp: with_role_def split: option.splits)

lemma with_user_cases:
  "with_user g env c k s = (r, s') \<Longrightarrow> s' = s \<or> (\<exists>u. GetUsername g env (gc_token c) s = Inr (Inr u) \<and> k u s = (r, s'))"
  by (auto simp: with_user_def split: sum.splits)

lemma with_user_ok:
  "with_user g env c k s = (Inr (Inr x), s') \<Longrightarrow> \<exists>u. GetUsername g env (gc_token c) s = Inr (Inr u) \<and> k u s = (Inr (Inr x), s')"
  by (auto simp: with_user_def split: sum.splits)

text \<open>The answer of an outcome, for evaluation on concrete data.\<close>

definition succeeded :: "('s, 'a) outcome \<Rightarrow> bool" where
  "succeeded p = (case fst p of Inr (Inr v) \<Rightarrow> True | _ \<Rightarrow> False)"

lemma succeededE: "succeeded p \<Longrightarrow> \<exists>v. p = (Inr (Inr v), snd p)"
  by (cases p) (auto simp: succeeded_def split: sum.splits)

section \<open>An executable deployment\<close>

record gql_state = mem_state +
  st_infras :: "chaos_infra list"
  st_environments :: "environment list"

definition gql_auth :: "gql_state db" where
  "gql_auth =
     \<lparr>users = mem_collection st_users (\<lambda>x s. s\<lparr>st_users := x\<rparr>) user_conflict,
      projects = mem_collection st_projects (\<lambda>x s. s\<lparr>st_projects := x\<rparr>) project_conflict,
      revoked_tokens = mem_collection st_revoked (\<lambda>x s. s\<lparr>st_revoked := x\<rparr>) no_conflict,
      api_tokens = mem_collection st_tokens (\<lambda>x s. s\<lparr>st_tokens := x\<rparr>) no_conflict,
      auth_configs = mem_collection st_configs (\<lambda>x s. s\<lparr>st_configs := x\<rparr>) no_conflict,
      StartSession = (\<lambda>s. None), CommitTransaction = (\<lambda>s s'. (None, s')),
      ListDatabaseNames = (\<lambda>s. Inr [''auth'']), ListCollectionNames = (\<lambda>s. Inr [])\<rparr>"

definition mem_gql :: "gql_state gql_db" where
  "mem_gql =
     \<lparr>infras = mem_collection st_infras (\<lambda>x s. s\<lparr>st_infras := x\<rparr>) infra_conflict,
      environments = mem_collection st_environments (\<lambda>x s. s\<lparr>st_environments := x\<rparr>) env_conflict,
      auth_handle = gql_auth\<rparr>"

interpretation mem_gql: gql_db mem_gql "\<lambda>s. mset (st_infras s)" "\<lambda>s. mset (st_environments s)"
  "\<lambda>s. mset (st_users s)" "\<lambda>s. mset (st_projects s)" "\<lambda>s. mset (st_revoked s)" "\<lambda>s. mset (st_tokens s)"
  "\<lambda>s. mset (st_configs s)"
  by (intro gql_db.intro auth_db.intro auth_db_axioms.intro)
    (auto simp: mem_gql_def gql_auth_def intro!: mem_collection_ok)

lemmas mem_gql_db = mem_gql.gql_db_axioms

definition sample_gql_env :: gql_env where
  "sample_gql_env =
     \<lparr>g_auth = sample_env, g_grpc = None, g_regex = (\<lambda>re n. sublist re n), g_parse_url = (\<lambda>u. Inr (''http'', ''litmus'')),
      g_manifests = (\<lambda>d. Inr [(''a.yaml'', Inr ''id: #{INFRA_ID} key: #{ACCESS_KEY}'')]), g_selector_yaml = (\<lambda>kvs. Inr ''sel''),
      g_tolerations_yaml = (\<lambda>ts. Inr ''tol''), g_copy_tolerations = Inr, g_Version = ''3.9.0'', g_ChaosGraphQLEndpoint = '''', g_TlsCertB64 = '''',
      g_images = (\<lambda>k. ''img''), g_InfraCompatibleVersions = Inr [''3.9.0'']\<rparr>"

definition sample_environment :: "string \<Rightarrow> string \<Rightarrow> environment" where
  "sample_environment i p = \<lparr>e_EnvironmentID = i, e_Name = i, e_Description = '''', e_Tags = [], e_ProjectID = p, e_Type = ''PROD'',
     e_InfraIDs = [], e_CreatedAt = 1, e_UpdatedAt = 1, e_CreatedBy = ''ann'', e_UpdatedBy = ''ann'', e_IsRemoved = False\<rparr>"

definition sample_infra_doc :: "string \<Rightarrow> string \<Rightarrow> chaos_infra" where
  "sample_infra_doc i p = \<lparr>i_InfraID = i, i_Name = ''k8s'', i_Description = '''', i_Tags = [], i_ProjectID = p, i_CreatedAt = 1,
     i_UpdatedAt = 1, i_CreatedBy = ''ann'', i_UpdatedBy = ''ann'', i_IsRemoved = False, i_InfraNamespace = Some ''litmus'',
     i_PlatformName = ''GKE'', i_ServiceAccount = None, i_InfraScope = ''cluster'', i_InfraNsExists = None, i_EnvironmentID = ''env1'',
     i_InfraSaExists = None, i_AccessKey = ''key'', i_InfraType = ''Kubernetes'', i_IsRegistered = False, i_IsInfraConfirmed = False,
     i_IsActive = False, i_Token = ''tok'', i_SkipSSL = None, i_NodeSelector = None, i_Tolerations = None, i_StartTime = ''1'', i_Version = ''''\<rparr>"

text \<open>Ann owns project \<^verbatim>\<open>p1\<close> with an environment; an infrastructure of another project exists.\<close>

definition sample_gql_state :: gql_state where
  "sample_gql_state =
     \<lparr>st_users = st_users sample_state, st_projects = st_projects sample_state, st_revoked = [], st_tokens = [],
      st_configs = st_configs sample_state,
      st_infras = [sample_infra_doc ''infra9'' ''p9'', sample_infra_doc ''infra1'' ''p1''],
      st_environments = [(sample_environment ''env1'' ''p1'')\<lparr>e_InfraIDs := [''infra1'']\<rparr>]\<rparr>"

definition sample_gctx :: gctx where
  "sample_gctx = \<lparr>gc_token = ''t-ABC'', gc_referer = Some ''http://litmus/'', gc_actor = None, gc_claims = None\<rparr>"

lemma sample_role_ok:
  "ValidateRole mem_gql sample_gql_env sample_gctx ''p1'' [RoleOwner] AcceptedInvitation sample_gql_state = None"
  by code_simp

end
