(* ===== verification/Gql_Environment.thy ===== *)
theory Gql_Environment
  imports Gql_Base
begin

text \<open>
  Environments: the handler (\<^verbatim>\<open>pkg/environment/handler\<close>), its database operations
  (\<^verbatim>\<open>pkg/database/mongodb/environments\<close>) and the resolvers (\<^verbatim>\<open>graph/environment.resolvers.go\<close>) that check
  the caller's role first. An update document with several \<^verbatim>\<open>$set\<close> entries applies all of them.
\<close>

section \<open>Requests and responses\<close>

record create_environment_request =
  ce_env_EnvironmentID :: string
  ce_env_Name :: string
  ce_env_Type :: string
  ce_env_Description :: "string option"
  ce_env_Tags :: "string list"

record update_environment_request =
  ue_EnvironmentID :: string
  ue_Name :: "string option"
  ue_Description :: "string option"
  ue_Tags :: "string option list option"
  ue_Type :: "string option"

record environment_filter =
  ef_Name :: "string option"
  ef_Description :: "string option"
  ef_Type :: "string option"
  ef_Tags :: "string list"

record list_environment_request =
  le_EnvironmentIDs :: "string list"
  le_Pagination :: "(int \<times> int) option"
  le_Filter :: "environment_filter option"
  le_Sort :: "(string \<times> bool option) option"

record environment_view =
  ev_EnvironmentID :: string
  ev_ProjectID :: string
  ev_Name :: string
  ev_Description :: "string option"
  ev_Tags :: "string list"
  ev_Type :: string
  ev_CreatedAt :: string
  ev_UpdatedAt :: string
  ev_CreatedBy :: "string option"
  ev_UpdatedBy :: "string option"
  ev_InfraIDs :: "string list"
  ev_IsRemoved :: "bool option"

definition environment_out :: "environment \<Rightarrow> environment_view" where
  "environment_out e =
     \<lparr>ev_EnvironmentID = e_EnvironmentID e, ev_ProjectID = e_ProjectID e, ev_Name = e_Name e,
      ev_Description = Some (e_Description e), ev_Tags = map (\<lambda>t. case t of None \<Rightarrow> '''' | Some x \<Rightarrow> x) (e_Tags e),
      ev_Type = e_Type e, ev_CreatedAt = itoa (e_CreatedAt e), ev_UpdatedAt = itoa (e_UpdatedAt e),
      ev_CreatedBy = Some (e_CreatedBy e), ev_UpdatedBy = Some (e_UpdatedBy e), ev_InfraIDs = e_InfraIDs e,
      ev_IsRemoved = Some (e_IsRemoved e)\<rparr>"

section \<open>Database operations\<close>

definition driver_text :: "mongo_error \<Rightarrow> string" where
  "driver_text e = error_text (Driver e)"

definition InsertEnvironment :: "'s gql_db \<Rightarrow> environment \<Rightarrow> 's \<Rightarrow> string option \<times> 's" where
  "InsertEnvironment g e s =
     (case InsertOne (environments g) e s of (None, s') \<Rightarrow> (None, s') | (Some err, s') \<Rightarrow> (Some (driver_text err), s'))"

definition op_GetEnvironment :: "'s gql_db \<Rightarrow> (environment \<Rightarrow> bool) \<Rightarrow> 's \<Rightarrow> string + environment" where
  "op_GetEnvironment g query s = map_sum driver_text id (FindOne (environments g) query s)"

definition GetEnvironmentDetails :: "'s gql_db \<Rightarrow> string \<Rightarrow> string \<Rightarrow> 's \<Rightarrow> string + environment" where
  "GetEnvironmentDetails g environmentID projectID s =
     map_sum driver_text id (FindOne (environments g) (\<lambda>e. e_ProjectID e = projectID \<and> e_EnvironmentID e = environmentID) s)"

definition op_UpdateEnvironment :: "'s gql_db \<Rightarrow> (environment \<Rightarrow> bool) \<Rightarrow> (environment \<Rightarrow> environment) \<Rightarrow> 's \<Rightarrow> string option \<times> 's" where
  "op_UpdateEnvironment g query update s =
     (case UpdateMany (environments g) query update s of (Inr n, s') \<Rightarrow> (None, s') | (Inl err, s') \<Rightarrow> (Some (driver_text err), s'))"

definition GetEnvironments :: "'s gql_db \<Rightarrow> (environment \<Rightarrow> bool) \<Rightarrow> 's \<Rightarrow> string + environment list" where
  "GetEnvironments g query s = map_sum driver_text id (Find (environments g) query s)"

section \<open>The handler\<close>

definition live_environment :: "string \<Rightarrow> string \<Rightarrow> environment \<Rightarrow> bool" where
  "live_environment projectID environmentID e \<longleftrightarrow>
     e_EnvironmentID e = environmentID \<and> e_ProjectID e = projectID \<and> \<not> e_IsRemoved e"

definition new_environment :: "gql_env \<Rightarrow> string \<Rightarrow> create_environment_request \<Rightarrow> string \<Rightarrow> environment" where
  "new_environment env projectID input uname =
     (let now = now_ms (g_auth env) 0 in
      \<lparr>e_EnvironmentID = ce_env_EnvironmentID input, e_Name = ce_env_Name input,
       e_Description = (case ce_env_Description input of None \<Rightarrow> '''' | Some d \<Rightarrow> d),
       e_Tags = map Some (ce_env_Tags input), e_ProjectID = projectID, e_Type = ce_env_Type input, e_InfraIDs = [],
       e_CreatedAt = now, e_UpdatedAt = now, e_CreatedBy = uname, e_UpdatedBy = uname, e_IsRemoved = False\<rparr>)"

definition CreateEnvironment :: "'s gql_db \<Rightarrow> gql_env \<Rightarrow> string \<Rightarrow> create_environment_request \<Rightarrow> string \<Rightarrow> 's
    \<Rightarrow> ('s, environment_view) outcome" where
  "CreateEnvironment g env projectID input uname s =
     (case InsertEnvironment g (new_environment env projectID input uname) s of
        (Some err, s') \<Rightarrow> (Inr (Inl err), s')
      | (None, s') \<Rightarrow>
          (Inr (Inr \<lparr>ev_EnvironmentID = ce_env_EnvironmentID input, ev_ProjectID = projectID, ev_Name = ce_env_Name input,
             ev_Description = ce_env_Description input, ev_Tags = ce_env_Tags input, ev_Type = ce_env_Type input,
             ev_CreatedAt = '''', ev_UpdatedAt = '''', ev_CreatedBy = None, ev_UpdatedBy = None, ev_InfraIDs = [],
             ev_IsRemoved = None\<rparr>), s'))"

definition set_opt :: "('a \<Rightarrow> 'd \<Rightarrow> 'd) \<Rightarrow> 'a option \<Rightarrow> 'd \<Rightarrow> 'd" where
  "set_opt f x d = (case x of None \<Rightarrow> d | Some v \<Rightarrow> f v d)"

definition update_of :: "gql_env \<Rightarrow> update_environment_request \<Rightarrow> string \<Rightarrow> environment \<Rightarrow> environment" where
  "update_of env request uname e =
     set_opt (\<lambda>v e. e\<lparr>e_Type := v\<rparr>) (ue_Type request)
       (set_opt (\<lambda>v e. e\<lparr>e_Tags := v\<rparr>) (ue_Tags request)
         (set_opt (\<lambda>v e. e\<lparr>e_Description := v\<rparr>) (ue_Description request)
           (set_opt (\<lambda>v e. e\<lparr>e_Name := v\<rparr>) (ue_Name request)
             (e\<lparr>e_UpdatedAt := now_ms (g_auth env) 0, e_UpdatedBy := uname\<rparr>))))"

definition UpdateEnvironment :: "'s gql_db \<Rightarrow> gql_env \<Rightarrow> string \<Rightarrow> update_environment_request \<Rightarrow> string \<Rightarrow> 's
    \<Rightarrow> ('s, string) outcome" where
  "UpdateEnvironment g env projectID request uname s =
     (case GetEnvironments g (live_environment projectID (ue_EnvironmentID request)) s of
        Inl err \<Rightarrow> (Inr (Inl err), s)
      | Inr envs \<Rightarrow>
          (case op_UpdateEnvironment g (live_environment projectID (ue_EnvironmentID request)) (update_of env request uname) s of
             (Some err, s') \<Rightarrow> (Inr (Inl err), s')
           | (None, s') \<Rightarrow> (Inr (Inr ''environment updated successfully''), s')))"

definition DeleteEnvironment :: "'s gql_db \<Rightarrow> gql_env \<Rightarrow> string \<Rightarrow> string \<Rightarrow> string \<Rightarrow> 's \<Rightarrow> ('s, string) outcome" where
  "DeleteEnvironment g env projectID environmentID uname s =
     (case op_GetEnvironment g (live_environment projectID environmentID) s of
        Inl err \<Rightarrow> (Inr (Inl err), s)
      | Inr e \<Rightarrow>
          (case op_UpdateEnvironment g (live_environment projectID environmentID)
                  (\<lambda>e. e\<lparr>e_IsRemoved := True, e_UpdatedAt := now_ms (g_auth env) 0, e_UpdatedBy := uname\<rparr>) s of
             (Some err, s') \<Rightarrow> (Inr (Inl err), s')
           | (None, s') \<Rightarrow> (Inr (Inr ''successfully deleted environment''), s')))"

definition GetEnvironment :: "'s gql_db \<Rightarrow> string \<Rightarrow> string \<Rightarrow> 's \<Rightarrow> ('s, environment_view) outcome" where
  "GetEnvironment g projectID environmentID s =
     (case op_GetEnvironment g (live_environment projectID environmentID) s of
        Inl err \<Rightarrow> (Inr (Inl err), s) | Inr e \<Rightarrow> (Inr (Inr (environment_out e)), s))"

definition nonempty_filter :: "string option \<Rightarrow> (string \<Rightarrow> environment \<Rightarrow> bool) \<Rightarrow> (environment \<Rightarrow> bool) list" where
  "nonempty_filter x f = (case x of None \<Rightarrow> [] | Some v \<Rightarrow> if v = '''' then [] else [f v])"

definition environment_filters :: "gql_env \<Rightarrow> string \<Rightarrow> list_environment_request option \<Rightarrow> (environment \<Rightarrow> bool) list" where
  "environment_filters env projectID request =
     [\<lambda>e. e_ProjectID e = projectID \<and> \<not> e_IsRemoved e] @
     (case request of
        None \<Rightarrow> []
      | Some r \<Rightarrow>
          (if le_EnvironmentIDs r \<noteq> [] then [\<lambda>e. e_EnvironmentID e \<in> set (le_EnvironmentIDs r)] else []) @
          (case le_Filter r of
             None \<Rightarrow> []
           | Some f \<Rightarrow>
               nonempty_filter (ef_Name f) (\<lambda>v e. g_regex env v (e_Name e)) @
               nonempty_filter (ef_Description f) (\<lambda>v e. g_regex env v (e_Description e)) @
               nonempty_filter (ef_Type f) (\<lambda>v e. e_Type e = v) @
               (if ef_Tags f \<noteq> [] then [\<lambda>e. Some ` set (ef_Tags f) \<subseteq> set (e_Tags e)] else [])))"

definition environment_order :: "list_environment_request option \<Rightarrow> environment \<Rightarrow> environment \<Rightarrow> bool" where
  "environment_order request =
     (case Option.bind request le_Sort of
        None \<Rightarrow> (\<lambda>a b. e_CreatedAt a \<ge> e_CreatedAt b)
      | Some (field, asc) \<Rightarrow>
          if field = ''TIME'' then (if asc = Some True then (\<lambda>a b. e_CreatedAt a \<le> e_CreatedAt b) else (\<lambda>a b. e_CreatedAt a \<ge> e_CreatedAt b))
          else if field = ''NAME'' then (if asc = Some True then (\<lambda>a b. e_Name a \<le> e_Name b) else (\<lambda>a b. e_Name a \<ge> e_Name b))
          else (\<lambda>a b. e_CreatedAt a \<ge> e_CreatedAt b))"

definition page_stages :: "(int \<times> int) option \<Rightarrow> 'd stage list" where
  "page_stages pg = (case pg of None \<Rightarrow> [Limit 15] | Some (page, limit) \<Rightarrow> [Skip (wrap64 (page * limit)), Limit limit])"

definition ListEnvironments :: "'s gql_db \<Rightarrow> gql_env \<Rightarrow> string \<Rightarrow> list_environment_request option \<Rightarrow> 's
    \<Rightarrow> ('s, nat \<times> environment_view list) outcome" where
  "ListEnvironments g env projectID request s =
     (case Facet (environments g) (map Match (environment_filters env projectID request))
             (Sort (environment_order request) # page_stages (Option.bind request le_Pagination)) s of
        Inl err \<Rightarrow> (Inr (Inl (driver_text err)), s)
      | Inr (cnt, es) \<Rightarrow>
          (Inr (Inr (if es = [] then 0 else case cnt of None \<Rightarrow> 0 | Some n \<Rightarrow> n, map environment_out es)), s))"

section \<open>The resolvers\<close>

definition r_CreateEnvironment where
  "r_CreateEnvironment g env c projectID request =
     with_role g env c projectID ''CreateEnvironment'' (with_user g env c (CreateEnvironment g env projectID request))"

definition r_UpdateEnvironment where
  "r_UpdateEnvironment g env c projectID request =
     with_role g env c projectID ''UpdateEnvironment'' (with_user g env c (UpdateEnvironment g env projectID request))"

definition r_DeleteEnvironment where
  "r_DeleteEnvironment g env c projectID environmentID =
     with_role g env c projectID ''DeleteEnvironment'' (with_user g env c (DeleteEnvironment g env projectID environmentID))"

definition r_GetEnvironment where
  "r_GetEnvironment g env c projectID environmentID =
     with_role g env c projectID ''GetEnvironment'' (GetEnvironment g projectID environmentID)"

definition r_ListEnvironments where
  "r_ListEnvironments g env c projectID request =
     with_role g env c projectID ''ListEnvironments'' (ListEnvironments g env projectID request)"

end
