(* ===== verification/Gql_Infra.thy ===== *)
theory Gql_Infra
  imports Gql_Environment
begin

text \<open>
  Chaos infrastructures: \<^verbatim>\<open>pkg/chaos_infrastructure\<close> (\<^verbatim>\<open>service.go\<close>, \<^verbatim>\<open>infra_utils.go\<close>, \<^verbatim>\<open>cluster_jwt.go\<close>), the database
  operations of \<^verbatim>\<open>pkg/database/mongodb/chaos_infrastructure\<close>, \<^verbatim>\<open>utils/misc.go\<close> and the resolvers of
  \<^verbatim>\<open>graph/chaos_infrastructure.resolvers.go\<close>.

  Besides the answer and the database, a handler yields the signals it sends: events to the
  listeners of a project and requests to the subscriber of an infrastructure.
\<close>

section \<open>Requests and responses\<close>

record register_infra_request =
  ri_Name :: string
  ri_EnvironmentID :: string
  ri_InfrastructureType :: string
  ri_Description :: "string option"
  ri_PlatformName :: string
  ri_InfraNamespace :: "string option"
  ri_ServiceAccount :: "string option"
  ri_InfraScope :: string
  ri_InfraNsExists :: "bool option"
  ri_InfraSaExists :: "bool option"
  ri_SkipSsl :: "bool option"
  ri_NodeSelector :: "string option"
  ri_Tolerations :: "toleration list option"
  ri_Tags :: "string list"

record register_infra_response =
  rr_Token :: string
  rr_InfraID :: string
  rr_Name :: string
  rr_Manifest :: string

record infra_identity =
  id_InfraID :: string
  id_AccessKey :: string
  id_Version :: string

record confirm_response =
  cr_IsInfraConfirmed :: bool
  cr_NewAccessKey :: "string option"
  cr_InfraID :: "string option"

record infra_stats =
  st_TotalInfrastructures :: int
  st_TotalActive :: int
  st_TotalInactive :: int
  st_TotalConfirmed :: int
  st_TotalNonConfirmed :: int

record subscriber_request =
  sr_K8sManifest :: string
  sr_RequestType :: string
  sr_ProjectID :: string
  sr_InfraID :: string
  sr_Namespace :: string
  sr_Username :: "string option"
  sr_ExternalData :: "string option"

datatype signal =
    InfraEvent string string string chaos_infra
  | SubscriberRequest subscriber_request

type_synonym ('s, 'a) infra_outcome = "(string + 'a) go \<times> 's \<times> signal list"

section \<open>Database operations\<close>

definition InsertInfra :: "'s gql_db \<Rightarrow> chaos_infra \<Rightarrow> 's \<Rightarrow> string option \<times> 's" where
  "InsertInfra g i s = (case InsertOne (infras g) i s of (None, s') \<Rightarrow> (None, s') | (Some err, s') \<Rightarrow> (Some (driver_text err), s'))"

definition op_GetInfra :: "'s gql_db \<Rightarrow> string \<Rightarrow> 's \<Rightarrow> string + chaos_infra" where
  "op_GetInfra g infraID s = map_sum driver_text id (FindOne (infras g) (\<lambda>i. i_InfraID i = infraID) s)"

definition op_GetInfraDetails :: "'s gql_db \<Rightarrow> string \<Rightarrow> string \<Rightarrow> 's \<Rightarrow> string + chaos_infra" where
  "op_GetInfraDetails g infraID projectID s =
     map_sum driver_text id (FindOne (infras g) (\<lambda>i. i_ProjectID i = projectID \<and> i_InfraID i = infraID) s)"

definition op_UpdateInfra :: "'s gql_db \<Rightarrow> (chaos_infra \<Rightarrow> bool) \<Rightarrow> (chaos_infra \<Rightarrow> chaos_infra) \<Rightarrow> 's \<Rightarrow> string option \<times> 's" where
  "op_UpdateInfra g query update s =
     (case UpdateMany (infras g) query update s of (Inr n, s') \<Rightarrow> (None, s') | (Inl err, s') \<Rightarrow> (Some (driver_text err), s'))"

definition GetInfras :: "'s gql_db \<Rightarrow> (chaos_infra \<Rightarrow> bool) \<Rightarrow> 's \<Rightarrow> string + chaos_infra list" where
  "GetInfras g query s = map_sum driver_text id (Find (infras g) query s)"

section \<open>Keys, tokens and versions\<close>

definition GenerateAccessKey :: "gql_env \<Rightarrow> nat \<Rightarrow> string + string" where
  "GenerateAccessKey env len = map_sum id (base64_encode url_alphabet) (random_bytes (g_auth env) len)"

definition InfraCreateJWT :: "'s gql_db \<Rightarrow> gql_env \<Rightarrow> string \<Rightarrow> 's \<Rightarrow> string + string" where
  "InfraCreateJWT g env infraID s =
     (case GetAuthConfig g s of
        Inl e \<Rightarrow> Inl e
      | Inr key \<Rightarrow> jwt_sign (g_auth env) [(''chaos_infra_id'', StringClaim infraID)] key)"

definition InfraValidateJWT :: "'s gql_db \<Rightarrow> gql_env \<Rightarrow> string \<Rightarrow> 's \<Rightarrow> (string + string) go" where
  "InfraValidateJWT g env token s =
     (case jwt_decode (g_auth env) token of
        None \<Rightarrow> Inr (Inl ''token is malformed'')
      | Some (hmac, cl) \<Rightarrow>
          if \<not> hmac then Inr (Inl ''unexpected signing method'')
          else (case GetAuthConfig g s of
             Inl e \<Rightarrow> Inr (Inl e)
           | Inr key \<Rightarrow>
               if jwt_verify (g_auth env) token key then
                 (case claim_of ''chaos_infra_id'' cl of Some (StringClaim i) \<Rightarrow> Inr (Inr i) | _ \<Rightarrow> Inl TypeAssertion)
               else Inr (Inl ''signature is invalid'')))"

definition CIVersion :: string where "CIVersion = ''ci''"

text \<open>\<^verbatim>\<open>int(math.Pow(10, float64(2-i)))\<close>: the truncated power is 0 from the fourth component on.\<close>

definition pow10 :: "nat \<Rightarrow> int" where
  "pow10 i = (if i \<le> 2 then 10 ^ (2 - i) else 0)"

fun version_sum :: "nat \<Rightarrow> int \<Rightarrow> string list \<Rightarrow> int option" where
  "version_sum i v [] = Some v"
| "version_sum i v (x # xs) = (case atoi x of None \<Rightarrow> None | Some n \<Rightarrow> version_sum (Suc i) (wrap64 (v + wrap64 (n * pow10 i))) xs)"

definition updateVersionFormat :: "string \<Rightarrow> int option" where
  "updateVersionFormat str = (if str = CIVersion then Some 0 else version_sum 0 0 (go_split str ''.''))"

text \<open>The keys of the map in some order; the map itself is searched from the latest entry.\<close>

definition fetchLatestVersion :: "int list \<Rightarrow> int" where
  "fetchLatestVersion ks = foldl (\<lambda>latest k. if k > latest then k else latest) 0 ks"

fun compatible_map :: "string list \<Rightarrow> (int \<times> string) list \<Rightarrow> string + (int \<times> string) list" where
  "compatible_map [] m = Inr m"
| "compatible_map (v # vs) m =
     (case updateVersionFormat v of None \<Rightarrow> Inl ''invalid syntax'' | Some k \<Rightarrow> compatible_map vs ((k, v) # m))"

definition GetVersionDetails :: "gql_env \<Rightarrow> string + (string \<times> string list)" where
  "GetVersionDetails env =
     (case g_InfraCompatibleVersions env of
        Inl e \<Rightarrow> Inl (''failed to parse InfraCompatibleVersions config: '' @ e)
      | Inr compatible \<Rightarrow>
          (case compatible_map compatible [] of
             Inl e \<Rightarrow> Inl e
           | Inr m \<Rightarrow> Inr (case map_of m (fetchLatestVersion (map fst m)) of None \<Rightarrow> '''' | Some v \<Rightarrow> v, compatible)))"

section \<open>Installation manifests\<close>

definition GetEndpoint :: "gql_env \<Rightarrow> string \<Rightarrow> string" where
  "GetEndpoint env host =
     (if g_ChaosGraphQLEndpoint env \<noteq> '''' then trimRight (CHR ''/'') (g_ChaosGraphQLEndpoint env) @ ''/query''
      else trimRight (CHR ''/'') host @ ''/query'')"

definition newline :: string where "newline = [CHR 0x0A]"

definition AddRootIndent :: "string \<Rightarrow> nat \<Rightarrow> string" where
  "AddRootIndent b n = replace_all b newline (newline @ replicate n (CHR '' ''))"

text \<open>\<^verbatim>\<open>selectorList[kv[0]] = kv[1]\<close> over the comma-separated entries; a missing \<^verbatim>\<open>=\<close> is an index out of range.\<close>

fun selector_list :: "(string \<rightharpoonup> string) \<Rightarrow> string list \<Rightarrow> (string \<rightharpoonup> string) go" where
  "selector_list m [] = Inr m"
| "selector_list m (el # els) =
     (let kv = go_split el ''='' in
      if length kv < 2 then Inl IndexOutOfRange else selector_list (m(kv ! 0 \<mapsto> kv ! 1)) els)"

definition node_selector_text :: "gql_env \<Rightarrow> chaos_infra \<Rightarrow> (string + string) go" where
  "node_selector_text env infra =
     (case i_NodeSelector infra of
        None \<Rightarrow> Inr (Inr '''')
      | Some sel \<Rightarrow>
          (case selector_list Map.empty (go_split sel '','') of
             Inl p \<Rightarrow> Inl p
           | Inr m \<Rightarrow> (case g_selector_yaml env m of
                         Inl e \<Rightarrow> Inr (Inl (''failed to marshal the node selector '' @ e))
                       | Inr byt \<Rightarrow> Inr (Inr (AddRootIndent byt 6)))))"

definition tolerations_text :: "gql_env \<Rightarrow> chaos_infra \<Rightarrow> string + string" where
  "tolerations_text env infra =
     (case i_Tolerations infra of
        None \<Rightarrow> Inr ''''
      | Some ts \<Rightarrow> (case g_tolerations_yaml env ts of
                      Inl e \<Rightarrow> Inl (''failed to marshal the tolerations '' @ e)
                    | Inr byt \<Rightarrow> Inr (AddRootIndent byt 6)))"

definition or_default :: "string option \<Rightarrow> string \<Rightarrow> string" where
  "or_default x d = (case x of None \<Rightarrow> d | Some v \<Rightarrow> if v \<noteq> '''' then v else d)"

definition bool_text :: "bool \<Rightarrow> string" where
  "bool_text b = (if b then ''true'' else ''false'')"

definition quoted :: "string \<Rightarrow> string" where
  "quoted s = [CHR 0x22] @ s @ [CHR 0x22]"

text \<open>The placeholders and their values, in the order they are replaced.\<close>

definition substitutions :: "gql_env \<Rightarrow> chaos_infra \<Rightarrow> string \<Rightarrow> string \<Rightarrow> string \<Rightarrow> (string \<times> string) list" where
  "substitutions env infra endpoint nodeSelector tolerations =
    [(''#{TOLERATIONS}'', tolerations), (''#{INFRA_ID}'', i_InfraID infra), (''#{ACCESS_KEY}'', i_AccessKey infra),
     (''#{SERVER_ADDR}'', endpoint), (''#{SUBSCRIBER_IMAGE}'', g_images env ''SubscriberImage''),
     (''#{EVENT_TRACKER_IMAGE}'', g_images env ''EventTrackerImage''),
     (''#{INFRA_NAMESPACE}'', or_default (i_InfraNamespace infra) ''litmus''),
     (''#{INFRA_SERVICE_ACCOUNT}'', or_default (i_ServiceAccount infra) ''litmus''), (''#{INFRA_SCOPE}'', i_InfraScope infra),
     (''#{ARGO_WORKFLOW_CONTROLLER}'', g_images env ''ArgoWorkflowControllerImage''),
     (''#{LITMUS_CHAOS_OPERATOR}'', g_images env ''LitmusChaosOperatorImage''),
     (''#{ARGO_WORKFLOW_EXECUTOR}'', g_images env ''ArgoWorkflowExecutorImage''),
     (''#{LITMUS_CHAOS_RUNNER}'', g_images env ''LitmusChaosRunnerImage''),
     (''#{LITMUS_CHAOS_EXPORTER}'', g_images env ''LitmusChaosExporterImage''),
     (''#{ARGO_CONTAINER_RUNTIME_EXECUTOR}'', g_images env ''ContainerRuntimeExecutor''),
     (''#{INFRA_DEPLOYMENTS}'', g_images env ''InfraDeployments''), (''#{VERSION}'', g_Version env),
     (''#{SKIP_SSL_VERIFY}'', bool_text (i_SkipSSL infra = Some True)), (''#{CUSTOM_TLS_CERT}'', g_TlsCertB64 env),
     (''#{START_TIME}'', quoted (i_StartTime infra)), (''#{IS_INFRA_CONFIRMED}'', quoted (bool_text (i_IsInfraConfirmed infra)))] @
    (if i_NodeSelector infra \<noteq> None then [(''#{NODE_SELECTOR}'', nodeSelector)] else [])"

definition substitute :: "(string \<times> string) list \<Rightarrow> string \<Rightarrow> string" where
  "substitute sub content = foldl (\<lambda>c (old, new). replace_all c old new) content sub"

fun render_files :: "(string \<times> string) list \<Rightarrow> (string \<times> (string + string)) list \<Rightarrow> string + string list" where
  "render_files sub [] = Inr []"
| "render_files sub ((name, Inl e) # fs) = Inl (''failed to read the file '' @ e)"
| "render_files sub ((name, Inr content) # fs) = map_sum id (\<lambda>ys. substitute sub content # ys) (render_files sub fs)"

definition preamble :: "chaos_infra \<Rightarrow> string list" where
  "preamble infra =
     (let ns = or_default (i_InfraNamespace infra) ''litmus''; sa = or_default (i_ServiceAccount infra) ''litmus'' in
      (if i_InfraNsExists infra \<noteq> Some True \<and> i_InfraScope infra \<noteq> ''namespace''
       then [go_join newline [''---'', ''apiVersion: v1'', ''kind: Namespace'', ''metadata:'', ''  name: '' @ ns, '''']] else []) @
      (if i_InfraSaExists infra \<noteq> Some True
       then [go_join newline [''---'', ''apiVersion: v1'', ''kind: ServiceAccount'', ''metadata:'', ''  name: '' @ sa, ''  namespace: '' @ ns, '''']]
       else []))"

definition ManifestParser :: "gql_env \<Rightarrow> chaos_infra \<Rightarrow> string \<Rightarrow> string \<Rightarrow> (string + string) go" where
  "ManifestParser env infra rootPath endpoint =
     (case g_manifests env rootPath of
        Inl (True, e) \<Rightarrow> Inr (Inl (''failed to open the file '' @ e))
      | Inl (False, e) \<Rightarrow> Inr (Inl (''failed to read the file '' @ e))
      | Inr files \<Rightarrow>
          (case node_selector_text env infra of
             Inl p \<Rightarrow> Inl p
           | Inr (Inl e) \<Rightarrow> Inr (Inl e)
           | Inr (Inr nodeSelector) \<Rightarrow>
               (case tolerations_text env infra of
                  Inl e \<Rightarrow> Inr (Inl e)
                | Inr tolerations \<Rightarrow>
                    (case render_files (substitutions env infra endpoint nodeSelector tolerations) files of
                       Inl e \<Rightarrow> Inr (Inl e)
                     | Inr ys \<Rightarrow> Inr (Inr (go_join newline (preamble infra @ ys)))))))"

definition GetK8sInfraYaml :: "gql_env \<Rightarrow> string \<Rightarrow> chaos_infra \<Rightarrow> (string + string) go" where
  "GetK8sInfraYaml env host infra =
     (if i_InfraScope infra = ''cluster'' then ManifestParser env infra ''manifests/cluster'' (GetEndpoint env host)
      else if i_InfraScope infra = ''namespace'' then ManifestParser env infra ''manifests/namespace'' (GetEndpoint env host)
      else Inr (Inr ''''))"

section \<open>The service\<close>

text \<open>The documents have a field \<^verbatim>\<open>name\<close> and none called \<^verbatim>\<open>infra_name\<close>.\<close>

definition infra_name_field :: "chaos_infra \<Rightarrow> string option" where
  "infra_name_field i = None"

fun selector_errors :: "string list \<Rightarrow> string option" where
  "selector_errors [] = None"
| "selector_errors (el # els) =
     (let kv = go_split el ''='' in
      if length kv \<noteq> 2 then Some ''node selector environment variable is not correct. Correct format: \"key1=value2,key2=value2\"''
      else if contains (kv ! 0) [CHR 0x22] \<or> contains (kv ! 1) [CHR 0x22]
      then Some ''node selector environment variable contains escape character(s). Correct format: \"key1=value2,key2=value2\"''
      else selector_errors els)"

definition selector_error :: "string option \<Rightarrow> string option" where
  "selector_error sel = (case sel of None \<Rightarrow> None | Some x \<Rightarrow> selector_errors (go_split x '',''))"

definition new_infra ::
  "gql_env \<Rightarrow> string \<Rightarrow> register_infra_request \<Rightarrow> string \<Rightarrow> string \<Rightarrow> string \<Rightarrow> string \<Rightarrow> toleration list option \<Rightarrow> chaos_infra" where
  "new_infra env projectID input descr uname token accessKey tolerations =
     (let now = now_ms (g_auth env) 0 in
      \<lparr>i_InfraID = new_uuid (g_auth env) 0, i_Name = ri_Name input, i_Description = descr, i_Tags = ri_Tags input,
       i_ProjectID = projectID, i_CreatedAt = now, i_UpdatedAt = now, i_CreatedBy = uname, i_UpdatedBy = uname, i_IsRemoved = False,
       i_InfraNamespace = ri_InfraNamespace input, i_PlatformName = ri_PlatformName input, i_ServiceAccount = ri_ServiceAccount input,
       i_InfraScope = ri_InfraScope input, i_InfraNsExists = ri_InfraNsExists input, i_EnvironmentID = ri_EnvironmentID input,
       i_InfraSaExists = ri_InfraSaExists input, i_AccessKey = accessKey, i_InfraType = ri_InfrastructureType input,
       i_IsRegistered = False, i_IsInfraConfirmed = False, i_IsActive = False, i_Token = token, i_SkipSSL = ri_SkipSsl input,
       i_NodeSelector = ri_NodeSelector input, i_Tolerations = tolerations, i_StartTime = itoa now, i_Version = ''''\<rparr>)"

text \<open>\<^verbatim>\<open>omitempty\<close>: an empty list of tolerations is not stored.\<close>

definition stored_infra :: "chaos_infra \<Rightarrow> chaos_infra" where
  "stored_infra i = (if i_Tolerations i = Some [] then i\<lparr>i_Tolerations := None\<rparr> else i)"

text \<open>The host of the referer header, as the resolvers read it.\<close>

definition referer_host :: "gql_env \<Rightarrow> gctx \<Rightarrow> string + string" where
  "referer_host env c =
     (case gc_referer c of
        None \<Rightarrow> Inl ''unable to parse request header''
      | Some r \<Rightarrow>
          if r = '''' then Inl ''unable to parse referer header''
          else map_sum id (\<lambda>(scheme, host). scheme @ ''://'' @ host) (g_parse_url env r))"

text \<open>
  \<^verbatim>\<open>RegisterInfra\<close> up to the document it stores: what it rejects, and the panics of
  \<^verbatim>\<open>*input.InfraNsExists\<close> and \<^verbatim>\<open>*input.Description\<close>.
\<close>

definition prepare_infra :: "'s gql_db \<Rightarrow> gql_env \<Rightarrow> gctx \<Rightarrow> string \<Rightarrow> register_infra_request \<Rightarrow> 's \<Rightarrow> (string + chaos_infra) go" where
  "prepare_infra g env c projectID input s =
     (case GetInfras g (\<lambda>i. infra_name_field i = Some (ri_Name input) \<and> \<not> i_IsRemoved i \<and> i_ProjectID i = projectID) s of
        Inl e \<Rightarrow> Inr (Inl e)
      | Inr ds \<Rightarrow>
      if ds \<noteq> [] then Inr (Inl ''infra already exists in this project with the same name'')
      else case GetEnvironmentDetails g (ri_EnvironmentID input) projectID s of
        Inl e \<Rightarrow> Inr (Inl ''Invalid EnvironmentID'')
      | Inr en \<Rightarrow>
      (case ri_InfraNsExists input of
        None \<Rightarrow> Inl NilDereference
      | Some nsExists \<Rightarrow>
      if nsExists \<and> (ri_InfraNamespace input = None \<or> ri_InfraNamespace input = Some '''')
      then Inr (Inl ''InfraNamespace parameter is required if InfraNsExists is true'')
      else case GetUsername g env (gc_token c) s of
        Inl p \<Rightarrow> Inl p
      | Inr (Inl e) \<Rightarrow> Inr (Inl e)
      | Inr (Inr uname) \<Rightarrow>
      (case InfraCreateJWT g env (new_uuid (g_auth env) 0) s of
        Inl e \<Rightarrow> Inr (Inl e)
      | Inr token \<Rightarrow>
      (case GenerateAccessKey env 32 of
        Inl e \<Rightarrow> Inr (Inl e)
      | Inr accessKey \<Rightarrow>
      (case selector_error (ri_NodeSelector input) of
        Some e \<Rightarrow> Inr (Inl e)
      | None \<Rightarrow>
      (case g_copy_tolerations env (ri_Tolerations input) of
        Inl e \<Rightarrow> Inr (Inl e)
      | Inr tolerations \<Rightarrow>
      (case ri_Description input of
        None \<Rightarrow> Inl NilDereference
      | Some descr \<Rightarrow> Inr (Inr (new_infra env projectID input descr uname token accessKey tolerations)))))))))"

definition RegisterInfra :: "'s gql_db \<Rightarrow> gql_env \<Rightarrow> gctx \<Rightarrow> string \<Rightarrow> register_infra_request \<Rightarrow> 's
    \<Rightarrow> ('s, register_infra_response) infra_outcome" where
  "RegisterInfra g env c projectID input s =
     (case prepare_infra g env c projectID input s of
        Inl p \<Rightarrow> (Inl p, s, [])
      | Inr (Inl e) \<Rightarrow> (Inr (Inl e), s, [])
      | Inr (Inr infra) \<Rightarrow>
      (case InsertInfra g (stored_infra infra) s of
        (Some e, s1) \<Rightarrow> (Inr (Inl e), s1, [])
      | (None, s1) \<Rightarrow>
      (case op_UpdateEnvironment g (\<lambda>e. e_ProjectID e = projectID \<and> e_EnvironmentID e = ri_EnvironmentID input)
              (\<lambda>e. e\<lparr>e_InfraIDs := e_InfraIDs e @ [i_InfraID infra]\<rparr>) s1 of
        (Some e, s2) \<Rightarrow> (Inr (Inl e), s2, [])
      | (None, s2) \<Rightarrow>
      (case referer_host env c of
        Inl e \<Rightarrow> (Inr (Inl e), s2, [])
      | Inr host \<Rightarrow>
      (case GetK8sInfraYaml env host infra of
        Inl p \<Rightarrow> (Inl p, s2, [])
      | Inr (Inl e) \<Rightarrow> (Inr (Inl e), s2, [])
      | Inr (Inr yaml) \<Rightarrow>
          (Inr (Inr \<lparr>rr_Token = i_Token infra, rr_InfraID = i_InfraID infra, rr_Name = i_Name infra, rr_Manifest = yaml\<rparr>), s2, []))))))"

definition tabs :: "nat \<Rightarrow> string" where
  "tabs n = replicate n (CHR 0x09)"

definition delete_requests :: "string \<Rightarrow> string list" where
  "delete_requests ns =
     [go_join newline
       [''{'',
        tabs 2 @ ''   '' @ tabs 2 @ ''\"apiVersion\": \"v1\",'',
        tabs 2 @ ''   '' @ tabs 2 @ ''\"kind\": \"ConfigMap\",'',
        tabs 2 @ ''   '' @ tabs 2 @ ''\"metadata\": {'',
        tabs 5 @ ''\"name\": \"subscriber-config\",'',
        tabs 5 @ ''\"namespace\": '' @ ns,
        tabs 2 @ ''   '' @ tabs 2 @ ''}'',
        tabs 3 @ ''}''],
      go_join newline
       [''{'',
        tabs 4 @ ''\"apiVersion\": \"apps/v1\",'',
        tabs 4 @ ''\"kind\": \"Deployment\",'',
        tabs 4 @ ''\"metadata\": {'',
        tabs 5 @ ''\"labels\": {'',
        tabs 1 @ ''                  \"app\": \"subscriber\",'',
        tabs 1 @ ''               },'',
        tabs 5 @ ''\"namespace\": '' @ ns,
        tabs 4 @ ''}'',
        tabs 3 @ ''}'']]"

definition DeleteInfra :: "'s gql_db \<Rightarrow> gql_env \<Rightarrow> gctx \<Rightarrow> string \<Rightarrow> string \<Rightarrow> 's \<Rightarrow> ('s, string) infra_outcome" where
  "DeleteInfra g env c projectID infraId s =
     (case GetUsername g env (gc_token c) s of
        Inl p \<Rightarrow> (Inl p, s, [])
      | Inr (Inl e) \<Rightarrow> (Inr (Inl e), s, [])
      | Inr (Inr uname) \<Rightarrow>
      (case op_GetInfra g infraId s of
        Inl e \<Rightarrow> (Inr (Inl e), s, [])
      | Inr infra \<Rightarrow>
      (case op_UpdateInfra g (\<lambda>i. i_InfraID i = infraId \<and> i_ProjectID i = projectID \<and> \<not> i_IsRemoved i)
              (\<lambda>i. i\<lparr>i_IsRemoved := True, i_UpdatedAt := now_ms (g_auth env) 0, i_UpdatedBy := uname\<rparr>) s of
        (Some e, s1) \<Rightarrow> (Inr (Inl e), s1, [])
      | (None, s1) \<Rightarrow>
      (case op_UpdateEnvironment g (\<lambda>e. e_ProjectID e = projectID \<and> e_EnvironmentID e = i_EnvironmentID infra)
              (\<lambda>e. e\<lparr>e_InfraIDs := removeAll (i_InfraID infra) (e_InfraIDs e)\<rparr>) s1 of
        (Some e, s2) \<Rightarrow> (Inr (Inl e), s2, [])
      | (None, s2) \<Rightarrow>
      (case i_InfraNamespace infra of
        None \<Rightarrow> (Inl NilDereference, s2, [])
      | Some ns \<Rightarrow>
          (Inr (Inr ''infra deleted successfully''), s2,
           map (\<lambda>m. SubscriberRequest \<lparr>sr_K8sManifest = m, sr_RequestType = ''delete'', sr_ProjectID = i_ProjectID infra,
                  sr_InfraID = i_InfraID infra, sr_Namespace = ns, sr_Username = Some uname, sr_ExternalData = None\<rparr>)
             (delete_requests ns)))))))"

definition GetInfraDetails :: "'s gql_db \<Rightarrow> string \<Rightarrow> string \<Rightarrow> 's \<Rightarrow> string + chaos_infra" where
  "GetInfraDetails g infraID projectID s = op_GetInfraDetails g infraID projectID s"

definition group_value :: "(bool \<times> nat) list \<Rightarrow> bool \<Rightarrow> int" where
  "group_value rs b = (case map_of rs b of None \<Rightarrow> 0 | Some n \<Rightarrow> int n)"

definition GetInfraStats :: "'s gql_db \<Rightarrow> string \<Rightarrow> 's \<Rightarrow> string + infra_stats" where
  "GetInfraStats g projectID s =
     (case GroupCounts (infras g) (\<lambda>i. i_ProjectID i = projectID \<and> \<not> i_IsRemoved i) [i_IsActive, i_IsInfraConfirmed] s of
        Inl e \<Rightarrow> Inl (driver_text e)
      | Inr rss \<Rightarrow>
          (let state = group_value (rss ! 0); confirmed = group_value (rss ! 1) in
           Inr \<lparr>st_TotalInfrastructures = wrap64 (confirmed True + confirmed False), st_TotalActive = state True,
                st_TotalInactive = state False, st_TotalConfirmed = confirmed True, st_TotalNonConfirmed = confirmed False\<rparr>))"

definition ConfirmInfraRegistration :: "'s gql_db \<Rightarrow> gql_env \<Rightarrow> infra_identity \<Rightarrow> 's \<Rightarrow> ('s, confirm_response) infra_outcome" where
  "ConfirmInfraRegistration g env request s =
     (let refused = \<lparr>cr_IsInfraConfirmed = False, cr_NewAccessKey = None, cr_InfraID = None\<rparr> in
      if g_Version env \<noteq> id_Version request
      then (Inr (Inl (''ERROR: INFRA VERSION MISMATCH (need '' @ g_Version env @ '' got '' @ id_Version request @ '')'')), s, [])
      else case op_GetInfra g (id_InfraID request) s of
        Inl e \<Rightarrow> (Inr (Inl e), s, [])
      | Inr infra \<Rightarrow>
          if i_AccessKey infra = id_AccessKey request then
            (case GenerateAccessKey env 32 of
               Inl e \<Rightarrow> (Inr (Inl e), s, [])
             | Inr newKey \<Rightarrow>
                 (case op_UpdateInfra g (\<lambda>i. i_InfraID i = id_InfraID request)
                         (\<lambda>i. i\<lparr>i_Token := '''', i_AccessKey := newKey, i_IsRegistered := True, i_IsInfraConfirmed := True,
                               i_UpdatedAt := now_ms (g_auth env) 0\<rparr>) s of
                    (Some e, s1) \<Rightarrow> (Inr (Inl e), s1, [])
                  | (None, s1) \<Rightarrow>
                      (Inr (Inr \<lparr>cr_IsInfraConfirmed = True, cr_NewAccessKey = Some newKey, cr_InfraID = Some (i_InfraID infra)\<rparr>), s1,
                       [InfraEvent ''infra-registration'' ''New Infra'' ''New Infra registration''
                          (infra\<lparr>i_IsRegistered := True, i_AccessKey := ''''\<rparr>)])))
          else (Inr (Inr refused), s, []))"

definition VerifyInfra :: "'s gql_db \<Rightarrow> gql_env \<Rightarrow> infra_identity \<Rightarrow> 's \<Rightarrow> string + chaos_infra" where
  "VerifyInfra g env identity s =
     (let cur = g_Version env; parts = go_split (id_Version identity) ''.'';
          mismatch = (if contains (toLower cur) CIVersion
                      then if cur \<noteq> id_Version identity then Some cur else None
                      else if length parts \<noteq> 3 \<or> hd parts \<noteq> hd (go_split cur ''.'')
                      then Some (hd (go_split cur ''.'') @ ''.x.x'') else None)
      in case mismatch of
           Some need \<Rightarrow> Inl (''ERROR: infra VERSION MISMATCH (need '' @ need @ '' got '' @ id_Version identity @ '')'')
         | None \<Rightarrow>
             (case op_GetInfra g (id_InfraID identity) s of
                Inl e \<Rightarrow> Inl e
              | Inr infra \<Rightarrow> if \<not> (i_AccessKey infra = id_AccessKey identity \<and> i_IsRegistered infra)
                           then Inl ''ERROR:  accessID MISMATCH'' else Inr infra))"

definition GetManifestWithInfraID :: "'s gql_db \<Rightarrow> gql_env \<Rightarrow> string \<Rightarrow> string \<Rightarrow> string \<Rightarrow> 's \<Rightarrow> (string + string) go" where
  "GetManifestWithInfraID g env host infraID accessKey s =
     (case op_GetInfra g infraID s of
        Inl e \<Rightarrow> Inr (Inl (''failed to retrieve the infra '' @ e))
      | Inr infra \<Rightarrow>
          if i_AccessKey infra \<noteq> accessKey then Inr (Inl ''ACCESS_KEY is invalid'')
          else map_sum id (map_sum (\<lambda>e. ''failed to parse the manifest '' @ e) id) (GetK8sInfraYaml env host infra))"

text \<open>One tick of \<^verbatim>\<open>RecordInfraMetrics\<close>: the gauges connected, disconnected and total of each project with an infrastructure.\<close>

definition project_counts :: "chaos_infra list \<Rightarrow> (string \<rightharpoonup> int \<times> int)" where
  "project_counts ds =
     foldl (\<lambda>m i. let (connected, cnt) = (case m (i_ProjectID i) of None \<Rightarrow> (0, 0) | Some p \<Rightarrow> p)
                 in m(i_ProjectID i \<mapsto> (if i_IsActive i then wrap64 (connected + 1) else connected, wrap64 (cnt + 1)))) Map.empty ds"

definition RecordInfraMetrics :: "'s gql_db \<Rightarrow> 's \<Rightarrow> (string \<rightharpoonup> int \<times> int \<times> int)" where
  "RecordInfraMetrics g s =
     (case GetInfras g (\<lambda>i. \<not> i_IsRemoved i) s of
        Inl e \<Rightarrow> Map.empty
      | Inr ds \<Rightarrow> (\<lambda>p. map_option (\<lambda>(connected, cnt). (connected, wrap64 (cnt - connected), cnt)) (project_counts ds p)))"

section \<open>The resolvers\<close>

definition guarded :: "'s gql_db \<Rightarrow> gql_env \<Rightarrow> gctx \<Rightarrow> string \<Rightarrow> string \<Rightarrow> ('s \<Rightarrow> ('s, 'a) infra_outcome) \<Rightarrow> 's \<Rightarrow> ('s, 'a) infra_outcome" where
  "guarded g env c projectID query k s =
     (case ValidateRole g env c projectID (gql_rules query) AcceptedInvitation s of
        Some err \<Rightarrow> (Inr (Inl err), s, [])
      | None \<Rightarrow> k s)"

definition r_RegisterInfra where
  "r_RegisterInfra g env c projectID request = guarded g env c projectID ''userInfrastructureReg'' (RegisterInfra g env c projectID request)"

definition r_ConfirmInfraRegistration where
  "r_ConfirmInfraRegistration g env request = ConfirmInfraRegistration g env request"

definition r_DeleteInfra where
  "r_DeleteInfra g env c projectID infraID = guarded g env c projectID ''DeleteInfrastructures'' (DeleteInfra g env c projectID infraID)"

definition r_GetManifestWithInfraID where
  "r_GetManifestWithInfraID g env c infraID accessKey s =
     (case referer_host env c of
        Inl e \<Rightarrow> Inr (Inl e)
      | Inr host \<Rightarrow> GetManifestWithInfraID g env host infraID accessKey s)"

definition r_GetInfraDetails where
  "r_GetInfraDetails g env c infraID projectID s =
     (case ValidateRole g env c projectID (gql_rules ''GetInfraDetails'') AcceptedInvitation s of
        Some err \<Rightarrow> Inl err
      | None \<Rightarrow> GetInfraDetails g infraID projectID s)"

definition r_GetInfraManifest where
  "r_GetInfraManifest g env c infraID projectID s =
     (case referer_host env c of
        Inl e \<Rightarrow> Inr (Inl e)
      | Inr host \<Rightarrow>
          (case ValidateRole g env c projectID (gql_rules ''GetManifest'') AcceptedInvitation s of
             Some err \<Rightarrow> Inr (Inl err)
           | None \<Rightarrow>
               (case op_GetInfra g infraID s of
                  Inl e \<Rightarrow> Inr (Inl e)
                | Inr infra \<Rightarrow> GetK8sInfraYaml env host infra)))"

definition r_GetInfraStats where
  "r_GetInfraStats g env c projectID s =
     (case ValidateRole g env c projectID (gql_rules ''GetInfraDetails'') AcceptedInvitation s of
        Some err \<Rightarrow> Inl err
      | None \<Rightarrow> GetInfraStats g projectID s)"

end
