(* ===== verification/Go_Float.thy ===== *)
theory Go_Float
  imports Complex_Main Litmus_Prelude
begin

text \<open>
  The \<^verbatim>\<open>float64\<close> arithmetic of Go, as far as the server uses it: conversions from integers, multiplication, division
  and conversion to \<^verbatim>\<open>int\<close>. A finite value is the rational number it denotes. Each operation is the exact
  one followed by rounding to 53 significant bits, to nearest with ties to even. The exponent is unbounded: every value
  the server computes is zero or has a magnitude between \<^verbatim>\<open>2^-70\<close> and \<^verbatim>\<open>2^80\<close>, far inside the range of the normal numbers.
\<close>

type_synonym float64 = rat

definition round_even :: "rat \<Rightarrow> int" where
  "round_even x =
     (let r = \<lfloor>x\<rfloor>; d = x - of_int r in if d < 1 / 2 \<or> d = 1 / 2 \<and> even r then r else r + 1)"

function bits :: "int \<Rightarrow> nat" where
  "bits a = (if a \<le> 0 then 0 else Suc (bits (a div 2)))"
  by auto
termination by (relation "measure nat") auto

declare bits.simps [simp del]

text \<open>The exponent of a positive value: the lengths of numerator and denominator determine it up to one.\<close>

definition exponent :: "rat \<Rightarrow> int" where
  "exponent q =
     (let (a, b) = quotient_of q; e = int (bits a) - int (bits b) in if 2 powi e \<le> q then e else e - 1)"

definition ulp :: "rat \<Rightarrow> rat" where
  "ulp q = 2 powi (exponent q - 52)"

definition round53 :: "rat \<Rightarrow> float64" where
  "round53 q =
     (if q = 0 then 0
      else if q > 0 then of_int (round_even (q / ulp q)) * ulp q
      else - (of_int (round_even (- q / ulp (- q))) * ulp (- q)))"

definition float_of_int :: "int \<Rightarrow> float64" where "float_of_int i = round53 (of_int i)"

definition float_mult :: "float64 \<Rightarrow> float64 \<Rightarrow> float64" where "float_mult x y = round53 (x * y)"

definition float_div :: "float64 \<Rightarrow> float64 \<Rightarrow> float64" where "float_div x y = round53 (x / y)"

text \<open>Conversion to \<^verbatim>\<open>int\<close> drops the fraction; out of range Go leaves the value to the implementation (here that of amd64).\<close>

definition int_of_float :: "float64 \<Rightarrow> int" where
  "int_of_float x = (let i = (if x \<ge> 0 then \<lfloor>x\<rfloor> else \<lceil>x\<rceil>) in if in_int64 i then i else - (2 ^ 63))"

section \<open>Rounding\<close>

lemma round_even_error: "\<bar>of_int (round_even x) - x\<bar> \<le> 1 / 2"
  unfolding round_even_def Let_def using floor_correct [of x] by (auto simp: abs_le_iff)

lemma round_even_le: "x \<le> of_int n \<Longrightarrow> round_even x \<le> n"
  unfolding round_even_def Let_def using floor_correct [of x] by (auto simp: floor_le_iff not_less)

lemma round_even_ge: "of_int n \<le> x \<Longrightarrow> n \<le> round_even x"
  unfolding round_even_def Let_def using le_floor_iff [of n x] by auto

lemma bits_bounds: "a > 0 \<Longrightarrow> 2 ^ bits a \<le> 2 * a \<and> a < 2 ^ bits a"
proof (induction a rule: bits.induct)
  case (1 a)
  then have s: "bits a = Suc (bits (a div 2))" by (simp add: bits.simps [of a])
  show ?case
  proof (cases "a = 1")
    case True
    then show ?thesis using s by (simp add: bits.simps [of 0])
  next
    case False
    with 1 have "2 ^ bits (a div 2) \<le> 2 * (a div 2) \<and> a div 2 < 2 ^ bits (a div 2)" by auto
    then show ?thesis unfolding s power_Suc by presburger
  qed
qed

lemma exponent_le:
  assumes "q > 0"
  shows "2 powi exponent q \<le> q"
proof -
  obtain a b where ab: "quotient_of q = (a, b)" by fastforce
  then have b: "b > 0" and q: "q = of_int a / of_int b"
    using quotient_of_denom_pos quotient_of_div by blast+
  with assms have a: "a > 0" by (simp add: zero_less_divide_iff)
  have "of_int (2 ^ bits a) \<le> (of_int (2 * a) :: rat)" "(of_int b :: rat) \<le> of_int (2 ^ bits b)"
    unfolding of_int_le_iff using bits_bounds [OF a] bits_bounds [OF b] by auto
  then have "2 ^ bits a \<le> 2 * (of_int a :: rat)" "(of_int b :: rat) \<le> 2 ^ bits b" by simp_all
  then have "2 ^ bits a / 2 ^ bits b \<le> 2 * of_int a / (of_int b :: rat)"
    using a b by (intro frac_le) auto
  then have "2 powi (int (bits a) - int (bits b) - 1) \<le> q"
    by (simp add: power_int_diff q)
  then show ?thesis by (simp add: exponent_def ab Let_def)
qed

lemma ulp_pos: "ulp q > 0"
  by (simp add: ulp_def)

lemma ulp_le: "q > 0 \<Longrightarrow> ulp q \<le> q * 2 powi - 52"
  using exponent_le [of q] by (simp add: ulp_def power_int_diff power_int_minus divide_simps)

lemma round53_error:
  assumes "q \<ge> 0"
  shows "\<bar>round53 q - q\<bar> \<le> q * 2 powi - 53"
proof (cases "q = 0")
  case False
  with assms have q: "q > 0" by simp
  let ?u = "ulp q"
  have "round53 q - q = (of_int (round_even (q / ?u)) - q / ?u) * ?u"
    using q ulp_pos [of q] by (simp add: round53_def field_simps)
  then have "\<bar>round53 q - q\<bar> = \<bar>of_int (round_even (q / ?u)) - q / ?u\<bar> * ?u"
    using ulp_pos [of q] by (simp add: abs_mult)
  also have "\<dots> \<le> 1 / 2 * ?u"
    using round_even_error ulp_pos [of q] by (intro mult_right_mono) auto
  also have "\<dots> \<le> 1 / 2 * (q * 2 powi - 52)"
    using ulp_le [OF q] by simp
  also have "\<dots> = q * 2 powi - 53" by (simp add: power_int_minus power_int_numeral divide_simps)
  finally show ?thesis .
qed (simp add: round53_def)

lemma round53_nonneg: "q \<ge> 0 \<Longrightarrow> round53 q \<ge> 0"
  using round_even_ge [of 0 "q / ulp q"] ulp_pos [of q] by (auto simp: round53_def)

text \<open>Integers below \<^verbatim>\<open>2^53\<close> are values; rounding does not cross them.\<close>

lemma exponent_int:
  assumes "q > 0" "q \<le> of_int n" "n < 2 ^ 53"
  shows "exponent q \<le> 52"
proof (rule ccontr)
  assume "\<not> exponent q \<le> 52"
  then have "(2::rat) powi 53 \<le> 2 powi exponent q" by (intro power_int_increasing) auto
  also have "\<dots> \<le> of_int n" using exponent_le [OF assms(1)] assms(2) by simp
  finally have "of_int (2 ^ 53) \<le> (of_int n :: rat)" by (simp add: power_int_numeral)
  then show False using assms(3) unfolding of_int_le_iff by simp
qed

lemma int_multiple_ulp:
  assumes "q > 0" "q \<le> of_int m" "m < 2 ^ 53"
  shows "\<exists>k. (of_int n :: rat) / ulp q = of_int k"
proof (intro exI)
  let ?e = "nat (52 - exponent q)"
  have e: "52 - exponent q \<ge> 0" using exponent_int [OF assms] by simp
  have "ulp q = 1 / 2 powi (52 - exponent q)"
    unfolding ulp_def by (simp add: power_int_minus [symmetric] inverse_eq_divide [symmetric])
  then have "(of_int n :: rat) / ulp q = of_int n * 2 ^ ?e" using e by (simp add: power_int_def)
  then show "(of_int n :: rat) / ulp q = of_int (n * 2 ^ ?e)" by simp
qed

lemma round53_le_int:
  assumes "q \<ge> 0" "q \<le> of_int n" "n < 2 ^ 53"
  shows "round53 q \<le> of_int n"
proof (cases "q = 0")
  case True
  with assms show ?thesis by (simp add: round53_def)
next
  case False
  with assms have q: "q > 0" by simp
  obtain k where k: "(of_int n :: rat) / ulp q = of_int k" using int_multiple_ulp [OF q assms(2,3)] by blast
  have "q / ulp q \<le> of_int k" unfolding k [symmetric] using assms(2) ulp_pos [of q] by (simp add: divide_right_mono)
  then have "round_even (q / ulp q) \<le> k" by (rule round_even_le)
  then have "of_int (round_even (q / ulp q)) * ulp q \<le> of_int k * ulp q" using ulp_pos [of q] by simp
  also have "\<dots> = of_int n" using ulp_pos [of q] by (simp flip: k)
  finally show ?thesis using q by (simp add: round53_def)
qed

lemma round53_int:
  assumes "0 \<le> n" "n < 2 ^ 53"
  shows "round53 (of_int n) = of_int n"
proof (cases "n = 0")
  case False
  with assms have q: "(of_int n :: rat) > 0" by simp
  obtain k where k: "(of_int n :: rat) / ulp (of_int n) = of_int k"
    using int_multiple_ulp [OF q order_refl assms(2)] by blast
  have "round_even (of_int k) = k" by (intro antisym round_even_le round_even_ge) simp_all
  moreover have "of_int k * ulp (of_int n) = (of_int n :: rat)" using ulp_pos [of "of_int n"] by (simp flip: k)
  ultimately show ?thesis using q by (simp add: round53_def k)
qed (simp add: round53_def)

lemma float_of_int_exact: "0 \<le> n \<Longrightarrow> n < 2 ^ 53 \<Longrightarrow> float_of_int n = of_int n"
  by (simp add: float_of_int_def round53_int)

end
