(* ===== verification/Run_Score.thy ===== *)
theory Run_Score
  imports Go_Float Go_Strings
begin

text \<open>
  The resiliency score of a finished run: the computation of \<^verbatim>\<open>ProcessCompletedExperimentRun\<close>
  (\<^verbatim>\<open>pkg/chaos_experiment_run/service.go\<close>) on the revisions of the experiment and the execution data the subscriber
  sends, with \<^verbatim>\<open>utils.Truncate\<close>. The parsed \<^verbatim>\<open>ChaosResult\<close> of a node is never read and is left out.

  The iteration order of a Go map is arbitrary and differs between loops: \<^verbatim>\<open>ord k\<close> is the order of
  the \<^verbatim>\<open>k\<close>-th loop over the weights, any function that permutes the keys.
\<close>

section \<open>Data\<close>

record weightages_input =
  w_FaultName :: string
  w_Weightage :: int

record experiment_probes =
  pr_FaultName :: string
  pr_ProbeNames :: "string list"

record experiment_revision =
  rv_RevisionID :: string
  rv_ExperimentManifest :: string
  rv_UpdatedAt :: int
  rv_Weightages :: "weightages_input option list"
  rv_Probes :: "experiment_probes list"

record chaos_data =
  cd_EngineUID :: string
  cd_EngineContext :: string
  cd_EngineName :: string
  cd_Namespace :: string
  cd_ExperimentName :: string
  cd_ExperimentStatus :: string
  cd_LastUpdatedAt :: string
  cd_ExperimentVerdict :: string
  cd_ExperimentPod :: string
  cd_RunnerPod :: string
  cd_ProbeSuccessPercentage :: string
  cd_FailStep :: string

record exec_node =
  n_Name :: string
  n_Phase :: string
  n_Message :: string
  n_StartedAt :: string
  n_FinishedAt :: string
  n_Children :: "string list"
  n_Type :: string
  n_ChaosExp :: "chaos_data option"

record execution_data =
  x_ExperimentType :: string
  x_ExperimentID :: string
  x_EventType :: string
  x_RevisionID :: string
  x_UID :: string
  x_Namespace :: string
  x_Name :: string
  x_CreationTimestamp :: string
  x_Phase :: string
  x_Message :: string
  x_StartedAt :: string
  x_FinishedAt :: string
  x_Nodes :: "(string \<times> exec_node) list"

record run_metrics =
  ResiliencyScore :: float64
  ExperimentsPassed :: int
  ExperimentsFailed :: int
  ExperimentsAwaited :: int
  ExperimentsStopped :: int
  ExperimentsNA :: int
  TotalExperiments :: int

definition zero_metrics :: run_metrics where
  "zero_metrics = \<lparr>ResiliencyScore = 0, ExperimentsPassed = 0, ExperimentsFailed = 0, ExperimentsAwaited = 0,
     ExperimentsStopped = 0, ExperimentsNA = 0, TotalExperiments = 0\<rparr>"

section \<open>The computation\<close>

text \<open>
  The value \<^verbatim>\<open>strconv.Atoi\<close> returns beside its error: 0 for a syntax error, the nearest bound for a number out of range.
  Digits are read in order, so an overflow hides a later syntax error.
\<close>

fun parse_uint :: "int \<Rightarrow> string \<Rightarrow> int option" where
  "parse_uint n [] = Some n"
| "parse_uint n (c # cs) =
     (if \<not> is_digit c then None
      else if 10 * n + int (digit_val c) \<ge> 2 ^ 64 then Some (2 ^ 64 - 1)
      else parse_uint (10 * n + int (digit_val c)) cs)"

definition atoi_value :: "string \<Rightarrow> int" where
  "atoi_value s =
     (let (neg, ds) = (case s of [] \<Rightarrow> (False, [])
                       | c # cs \<Rightarrow> if c = CHR ''-'' then (True, cs)
                                 else if c = CHR ''+'' then (False, cs) else (False, s))
      in if ds = [] then 0
         else (case parse_uint 0 ds of
             None \<Rightarrow> 0
           | Some u \<Rightarrow> if neg then (if u > 2 ^ 63 then - (2 ^ 63) else - u)
                       else (if u \<ge> 2 ^ 63 then 2 ^ 63 - 1 else u)))"

definition Truncate :: "float64 \<Rightarrow> float64" where
  "Truncate num = float_div (float_of_int (int_of_float (float_mult num 100))) 100"

text \<open>The weights as a map and their sum; an entry of the list may be a nil pointer.\<close>

fun add_weights :: "weightages_input option list \<Rightarrow> (string \<times> int) list \<times> int \<Rightarrow> ((string \<times> int) list \<times> int) go" where
  "add_weights [] acc = Inr acc"
| "add_weights (None # ws) acc = Inl NilDereference"
| "add_weights (Some w # ws) (m, tot) =
     add_weights ws (AList.update (w_FaultName w) (w_Weightage w) m, wrap64 (tot + w_Weightage w))"

fun add_revisions :: "string \<Rightarrow> experiment_revision list \<Rightarrow> (string \<times> int) list \<times> int \<Rightarrow> ((string \<times> int) list \<times> int) go" where
  "add_revisions revID [] acc = Inr acc"
| "add_revisions revID (r # rs) acc =
     (if rv_RevisionID r = revID
      then (case add_weights (rv_Weightages r) acc of Inl p \<Rightarrow> Inl p | Inr acc' \<Rightarrow> add_revisions revID rs acc')
      else add_revisions revID rs acc)"

text \<open>The last key in iteration order that the engine name contains.\<close>

definition match_fault :: "string list \<Rightarrow> string \<Rightarrow> string" where
  "match_fault ks engine = foldl (\<lambda>found k. if contains engine k then k else found) '''' ks"

definition add_verdict :: "string \<Rightarrow> run_metrics \<Rightarrow> run_metrics" where
  "add_verdict v r =
     (if v = ''Pass'' then r\<lparr>ExperimentsPassed := ExperimentsPassed r + 1\<rparr>
      else if v = ''Fail'' then r\<lparr>ExperimentsFailed := ExperimentsFailed r + 1\<rparr>
      else if v = ''Awaited'' then r\<lparr>ExperimentsAwaited := ExperimentsAwaited r + 1\<rparr>
      else if v = ''Stopped'' then r\<lparr>ExperimentsStopped := ExperimentsStopped r + 1\<rparr>
      else if v = ''N/A'' \<or> v = '''' then r\<lparr>ExperimentsNA := ExperimentsNA r + 1\<rparr>
      else r)"

fun add_nodes :: "(nat \<Rightarrow> string list \<Rightarrow> string list) \<Rightarrow> (string \<times> int) list \<Rightarrow> nat \<Rightarrow> exec_node list \<Rightarrow> int \<times> run_metrics
    \<Rightarrow> int \<times> run_metrics" where
  "add_nodes ord m k [] acc = acc"
| "add_nodes ord m k (n # ns) (tot, r) =
     (if n_Type n \<noteq> ''ChaosEngine'' then add_nodes ord m k ns (tot, r)
      else (case n_ChaosExp n of
          None \<Rightarrow> add_nodes ord m k ns (tot, r)
        | Some d \<Rightarrow>
            add_nodes ord m (Suc k) ns
              (case map_of m (match_fault (ord k (map fst m)) (cd_EngineName d)) of
                 None \<Rightarrow> tot
               | Some w \<Rightarrow> wrap64 (tot + wrap64 (w * atoi_value (cd_ProbeSuccessPercentage d))),
               add_verdict (cd_ExperimentVerdict d) r)))"

definition compute_metrics ::
  "(nat \<Rightarrow> string list \<Rightarrow> string list) \<Rightarrow> experiment_revision list \<Rightarrow> execution_data \<Rightarrow> run_metrics go" where
  "compute_metrics ord revs execData =
     (case add_revisions (x_RevisionID execData) revs ([], 0) of
        Inl p \<Rightarrow> Inl p
      | Inr (m, weightSum) \<Rightarrow>
          (let (totalTestResult, r) =
                 add_nodes ord m 0 (map snd (x_Nodes execData)) (0, zero_metrics\<lparr>TotalExperiments := int (length m)\<rparr>)
           in Inr (if weightSum \<noteq> 0
                   then r\<lparr>ResiliencyScore := Truncate (float_div (float_of_int totalTestResult) (float_of_int weightSum))\<rparr>
                   else r)))"

section \<open>The score without the arithmetic of the machine\<close>

text \<open>The engine nodes with chaos data; what each adds for a fault map.\<close>

fun engine_data :: "exec_node list \<Rightarrow> chaos_data list" where
  "engine_data [] = []"
| "engine_data (n # ns) =
     (if n_Type n \<noteq> ''ChaosEngine'' then engine_data ns
      else case n_ChaosExp n of None \<Rightarrow> engine_data ns | Some d \<Rightarrow> d # engine_data ns)"

text \<open>No engine name contains two of the fault names.\<close>

definition unambiguous :: "string list \<Rightarrow> chaos_data list \<Rightarrow> bool" where
  "unambiguous ks ds \<longleftrightarrow>
     (\<forall>d\<in>set ds. \<forall>a\<in>set ks. \<forall>b\<in>set ks. contains (cd_EngineName d) a \<longrightarrow> contains (cd_EngineName d) b \<longrightarrow> a = b)"

definition fault_of :: "string list \<Rightarrow> chaos_data \<Rightarrow> string option" where
  "fault_of ks d = find (contains (cd_EngineName d)) ks"

definition contribution :: "(string \<times> int) list \<Rightarrow> chaos_data \<Rightarrow> int" where
  "contribution m d =
     (case fault_of (map fst m) d of
        None \<Rightarrow> 0
      | Some f \<Rightarrow> (case map_of m f of None \<Rightarrow> 0 | Some w \<Rightarrow> w * atoi_value (cd_ProbeSuccessPercentage d)))"

lemma match_fault_last:
  "foldl (\<lambda>found k. if P k then k else found) z ks = (if \<exists>k\<in>set ks. P k then last (filter P ks) else z)"
  by (induction ks arbitrary: z) (auto simp: filter_empty_conv)

lemma match_fault_unique:
  assumes "set ks' = set ks" and u: "unambiguous ks [d]"
  shows "match_fault ks' (cd_EngineName d) = (case fault_of ks d of None \<Rightarrow> '''' | Some f \<Rightarrow> f)"
proof (cases "fault_of ks d")
  case None
  then have "\<forall>k\<in>set ks'. \<not> contains (cd_EngineName d) k" using assms(1) by (auto simp: fault_of_def find_None_iff)
  then show ?thesis using None by (simp add: match_fault_def match_fault_last)
next
  case (Some f)
  let ?c = "contains (cd_EngineName d)"
  from Some have f: "f \<in> set ks" "?c f" by (auto simp: fault_of_def find_Some_iff)
  then have "filter ?c ks' \<noteq> []" using assms(1) by (auto simp: filter_empty_conv)
  then have "last (filter ?c ks') \<in> set (filter ?c ks')" by (rule last_in_set)
  then have "last (filter ?c ks') = f" using u f assms(1) by (auto simp: unambiguous_def)
  then show ?thesis using Some f assms(1) by (auto simp: match_fault_def match_fault_last)
qed

text \<open>A fault with the empty name is contained in every engine name.\<close>

lemma contains_nil [simp]: "contains s []"
  by (simp add: contains_def)

lemma match_fault_weight:
  assumes "set ks' = set (map fst m)" "unambiguous (map fst m) [d]"
  shows "(case map_of m (match_fault ks' (cd_EngineName d)) of None \<Rightarrow> tot
           | Some w \<Rightarrow> wrap64 (tot + wrap64 (w * atoi_value (cd_ProbeSuccessPercentage d)))) =
         (if fault_of (map fst m) d = None then tot else wrap64 (tot + wrap64 (contribution m d)))"
proof (cases "fault_of (map fst m) d")
  case None
  then have "'''' \<notin> set (map fst m)" unfolding fault_of_def find_None_iff using contains_nil by blast
  then have "map_of m '''' = None" by (simp add: map_of_eq_None_iff)
  then show ?thesis using None match_fault_unique [OF assms] by simp
next
  case (Some f)
  then have "f \<in> set (map fst m)" unfolding fault_of_def find_Some_iff by auto
  then obtain w where "map_of m f = Some w" by (cases "map_of m f") (auto simp: map_of_eq_None_iff)
  then show ?thesis using Some match_fault_unique [OF assms] by (simp add: contribution_def)
qed

text \<open>What the loop over the nodes computes, written without an iteration order.\<close>

definition sum_nodes :: "(string \<times> int) list \<Rightarrow> chaos_data list \<Rightarrow> int \<times> run_metrics \<Rightarrow> int \<times> run_metrics" where
  "sum_nodes m ds acc =
     fold (\<lambda>d (tot, r). (if fault_of (map fst m) d = None then tot else wrap64 (tot + wrap64 (contribution m d)),
                       add_verdict (cd_ExperimentVerdict d) r)) ds acc"

lemma add_nodes_eq:
  assumes "\<And>k ks. set (ord k ks) = set ks" "unambiguous (map fst m) (engine_data ns)"
  shows "add_nodes ord m k ns acc = sum_nodes m (engine_data ns) acc"
  using assms(2)
proof (induction ns arbitrary: k acc)
  case (Cons n ns)
  obtain tot r where acc: "acc = (tot, r)" by (cases acc)
  show ?case
  proof (cases "n_Type n = ''ChaosEngine'' \<and> n_ChaosExp n \<noteq> None")
    case False
    with Cons show ?thesis by (auto simp: acc)
  next
    case True
    then obtain d where d: "n_ChaosExp n = Some d" by blast
    with True Cons.prems have u: "unambiguous (map fst m) [d]" "unambiguous (map fst m) (engine_data ns)"
      by (auto simp: unambiguous_def)
    show ?thesis using True d Cons.IH [OF u(2)] match_fault_weight [OF assms(1) u(1)] by (simp add: acc sum_nodes_def)
  qed
qed (simp add: sum_nodes_def)

section \<open>Bounds\<close>

lemma sum_nodes_metrics: "snd (sum_nodes m ds acc) = fold (\<lambda>d. add_verdict (cd_ExperimentVerdict d)) ds (snd acc)"
  by (induction ds arbitrary: acc) (auto simp: sum_nodes_def split: prod.splits)

lemma sum_nodes_total:
  assumes "\<forall>d\<in>set ds. contribution m d \<ge> 0" "tot \<ge> 0" "tot + (\<Sum>d\<leftarrow>ds. contribution m d) < 2 ^ 63"
  shows "fst (sum_nodes m ds (tot, r)) = tot + (\<Sum>d\<leftarrow>ds. contribution m d)"
  using assms
proof (induction ds arbitrary: tot r)
  case (Cons d ds)
  have nn: "(\<Sum>d\<leftarrow>ds. contribution m d) \<ge> 0" "contribution m d \<ge> 0"
    using Cons.prems(1) by (auto intro!: sum_list_nonneg)
  have "in_int64 (contribution m d)" "in_int64 (tot + contribution m d)"
    using nn Cons.prems(2,3) by (auto simp: in_int64_def)
  moreover have "contribution m d = 0" if "fault_of (map fst m) d = None" using that by (simp add: contribution_def)
  ultimately have step: "(if fault_of (map fst m) d = None then tot else wrap64 (tot + wrap64 (contribution m d))) = tot + contribution m d"
    by simp
  have "fst (sum_nodes m ds (tot + contribution m d, add_verdict (cd_ExperimentVerdict d) r)) =
      tot + contribution m d + (\<Sum>d\<leftarrow>ds. contribution m d)"
    using Cons.prems nn by (intro Cons.IH) (auto simp: add.assoc)
  then show ?case using step by (simp add: sum_nodes_def add.assoc)
qed (simp add: sum_nodes_def)

text \<open>The weights of the revision, and the map the code builds of them.\<close>

definition revision_weights :: "string \<Rightarrow> experiment_revision list \<Rightarrow> weightages_input option list" where
  "revision_weights revID revs = concat (map rv_Weightages (filter (\<lambda>r. rv_RevisionID r = revID) revs))"

definition weight_map :: "weightages_input list \<Rightarrow> (string \<times> int) list \<Rightarrow> (string \<times> int) list" where
  "weight_map ws m = fold (\<lambda>w. AList.update (w_FaultName w) (w_Weightage w)) ws m"

lemma add_weights_append:
  "add_weights (ws @ ws') acc = (case add_weights ws acc of Inl p \<Rightarrow> Inl p | Inr acc' \<Rightarrow> add_weights ws' acc')"
  by (induction ws acc rule: add_weights.induct) auto

lemma add_revisions_weights: "add_revisions revID revs acc = add_weights (revision_weights revID revs) acc"
  by (induction revs arbitrary: acc) (auto simp: revision_weights_def add_weights_append split: sum.splits)

lemma add_weights_Some:
  assumes "\<forall>w\<in>set ws. w_Weightage w \<ge> 0" "tot \<ge> 0" "tot + (\<Sum>w\<leftarrow>ws. w_Weightage w) < 2 ^ 63"
  shows "add_weights (map Some ws) (m, tot) = Inr (weight_map ws m, tot + (\<Sum>w\<leftarrow>ws. w_Weightage w))"
  using assms
proof (induction ws arbitrary: m tot)
  case (Cons w ws)
  have nn: "(\<Sum>w\<leftarrow>ws. w_Weightage w) \<ge> 0" "w_Weightage w \<ge> 0" using Cons.prems(1) by (auto intro!: sum_list_nonneg)
  then have "wrap64 (tot + w_Weightage w) = tot + w_Weightage w" using Cons.prems by (simp add: in_int64_def)
  moreover have "add_weights (map Some ws) (AList.update (w_FaultName w) (w_Weightage w) m, tot + w_Weightage w) =
      Inr (weight_map ws (AList.update (w_FaultName w) (w_Weightage w) m), tot + w_Weightage w + (\<Sum>w\<leftarrow>ws. w_Weightage w))"
    using Cons.prems nn by (intro Cons.IH) (auto simp: add.assoc)
  ultimately show ?case by (simp add: weight_map_def add.assoc)
qed (simp add: weight_map_def)

lemma update_sum:
  "\<forall>p\<in>set m. snd p \<ge> 0 \<Longrightarrow> (\<Sum>p\<leftarrow>AList.update k v m. snd p) \<le> (\<Sum>p\<leftarrow>m. snd p) + (v :: int)"
  by (induction m) auto

lemma update_nonneg: "\<forall>p\<in>set m. snd p \<ge> 0 \<Longrightarrow> v \<ge> 0 \<Longrightarrow> \<forall>p\<in>set (AList.update k v m). snd p \<ge> (0 :: int)"
  by (induction m) auto

lemma weight_map_sum:
  assumes "\<forall>w\<in>set ws. w_Weightage w \<ge> 0" "\<forall>p\<in>set m. snd p \<ge> 0" "distinct (map fst m)"
  shows "(\<Sum>p\<leftarrow>weight_map ws m. snd p) \<le> (\<Sum>p\<leftarrow>m. snd p) + (\<Sum>w\<leftarrow>ws. w_Weightage w) \<and>
    (\<forall>p\<in>set (weight_map ws m). snd p \<ge> 0) \<and> distinct (map fst (weight_map ws m))"
  using assms
proof (induction ws arbitrary: m)
  case (Cons w ws)
  let ?m = "AList.update (w_FaultName w) (w_Weightage w) m"
  have "distinct (map fst ?m)" using Cons.prems(3) by (rule distinct_update)
  then have "(\<Sum>p\<leftarrow>weight_map ws ?m. snd p) \<le> (\<Sum>p\<leftarrow>?m. snd p) + (\<Sum>w\<leftarrow>ws. w_Weightage w) \<and>
      (\<forall>p\<in>set (weight_map ws ?m). snd p \<ge> 0) \<and> distinct (map fst (weight_map ws ?m))"
    using Cons.prems(1,2) update_nonneg [OF Cons.prems(2), of "w_Weightage w" "w_FaultName w"] by (intro Cons.IH) auto
  then show ?case using update_sum [OF Cons.prems(2), of "w_FaultName w" "w_Weightage w"] by (simp add: weight_map_def)
qed (simp add: weight_map_def)

text \<open>Engines of different faults with percentages add at most 100 times the weights.\<close>

definition percentages :: "chaos_data list \<Rightarrow> bool" where
  "percentages ds \<longleftrightarrow> (\<forall>d\<in>set ds. 0 \<le> atoi_value (cd_ProbeSuccessPercentage d) \<and> atoi_value (cd_ProbeSuccessPercentage d) \<le> 100)"

definition weight_of :: "(string \<times> int) list \<Rightarrow> string \<Rightarrow> int" where
  "weight_of m f = (case map_of m f of None \<Rightarrow> 0 | Some w \<Rightarrow> w)"

lemma weight_of_nonneg: "\<forall>p\<in>set m. snd p \<ge> 0 \<Longrightarrow> weight_of m f \<ge> 0"
  by (auto simp: weight_of_def split: option.splits dest!: map_of_SomeD)

lemma contribution_weight:
  "contribution m d = (case fault_of (map fst m) d of None \<Rightarrow> 0 | Some f \<Rightarrow> weight_of m f * atoi_value (cd_ProbeSuccessPercentage d))"
  by (auto simp: contribution_def weight_of_def split: option.splits)

lemma contributions_faults:
  assumes "percentages ds" "\<forall>p\<in>set m. snd p \<ge> 0"
  shows "(\<Sum>d\<leftarrow>ds. contribution m d) \<le> 100 * (\<Sum>f\<leftarrow>List.map_filter (fault_of (map fst m)) ds. weight_of m f)"
    and "\<forall>d\<in>set ds. contribution m d \<ge> 0"
proof -
  show "\<forall>d\<in>set ds. contribution m d \<ge> 0"
    using assms weight_of_nonneg by (auto simp: contribution_weight percentages_def split: option.splits)
  show "(\<Sum>d\<leftarrow>ds. contribution m d) \<le> 100 * (\<Sum>f\<leftarrow>List.map_filter (fault_of (map fst m)) ds. weight_of m f)"
    using assms(1)
  proof (induction ds)
    case (Cons d ds)
    then have ih: "(\<Sum>d\<leftarrow>ds. contribution m d) \<le> 100 * (\<Sum>f\<leftarrow>List.map_filter (fault_of (map fst m)) ds. weight_of m f)"
      by (simp add: percentages_def)
    have "weight_of m f * atoi_value (cd_ProbeSuccessPercentage d) \<le> weight_of m f * 100" for f
      using Cons.prems weight_of_nonneg [OF assms(2)] by (intro mult_left_mono) (auto simp: percentages_def)
    then show ?case using ih by (auto simp: List.map_filter_simps contribution_weight algebra_simps split: option.splits) (smt (verit))
  qed (simp add: List.map_filter_simps)
qed

lemma faults_weight:
  assumes "distinct (map fst m)" "\<forall>p\<in>set m. snd p \<ge> 0" "distinct fs" "set fs \<subseteq> set (map fst m)"
  shows "(\<Sum>f\<leftarrow>fs. weight_of m f) \<le> (\<Sum>p\<leftarrow>m. snd p)"
proof -
  have "(\<Sum>f\<leftarrow>fs. weight_of m f) = sum (weight_of m) (set fs)" using assms(3) by (rule sum_list_distinct_conv_sum_set)
  also have "\<dots> \<le> sum (weight_of m) (set (map fst m))"
    using assms(2,4) weight_of_nonneg by (intro sum_mono2) auto
  also have "\<dots> = (\<Sum>f\<leftarrow>map fst m. weight_of m f)" using assms(1) by (rule sum_list_distinct_conv_sum_set [symmetric])
  also have "\<dots> = (\<Sum>p\<leftarrow>m. snd p)"
    unfolding map_map by (intro arg_cong [of _ _ sum_list] map_cong) (use assms(1) in \<open>auto simp: weight_of_def\<close>)
  finally show ?thesis .
qed

lemma map_filter_faults: "set (List.map_filter (fault_of ks) ds) \<subseteq> set ks"
proof
  fix f
  assume "f \<in> set (List.map_filter (fault_of ks) ds)"
  then obtain d where "fault_of ks d = Some f" by (auto simp: List.map_filter_def)
  then show "f \<in> set ks" by (auto simp: fault_of_def find_Some_iff)
qed

section \<open>Truncation\<close>

lemma Truncate_bounds:
  assumes "0 \<le> T" "T \<le> 100 * W" "0 < W" "100 * W < 2 ^ 53"
  defines "q \<equiv> of_int T / of_int W :: rat"
  defines "score \<equiv> Truncate (float_div (float_of_int T) (float_of_int W))"
  shows "0 \<le> score" "score \<le> 100" "\<bar>score - q\<bar> \<le> 1 / 100 + 1 / 2 ^ 40" "T = 100 * W \<Longrightarrow> score = 100"
proof -
  define f where "f = round53 q"
  define p where "p = round53 (f * 100)"
  define k where "k = \<lfloor>p\<rfloor>"
  have q: "0 \<le> q" "q \<le> of_int 100"
    using assms(1-3) by (auto simp: q_def divide_simps)
  have f: "0 \<le> f" "f \<le> of_int 100" using round53_nonneg [OF q(1)] round53_le_int [OF q] by (auto simp: f_def)
  then have p: "0 \<le> p" "p \<le> of_int 10000" using round53_nonneg round53_le_int [of "f * 100" 10000] by (auto simp: p_def)
  then have k: "0 \<le> k" "k \<le> 10000" by (auto simp: k_def floor_le_iff)
  have score: "score = round53 (of_int k / 100)"
    using p k assms(1-4) by (simp add: score_def Truncate_def float_div_def float_mult_def int_of_float_def float_of_int_exact
      in_int64_def flip: q_def f_def p_def k_def)
  have k100: "0 \<le> (of_int k / 100 :: rat)" "(of_int k / 100 :: rat) \<le> of_int 100" using k by auto
  then show "0 \<le> score" "score \<le> 100" using round53_nonneg round53_le_int [of "of_int k / 100" 100] by (auto simp: score)
  have e: "\<bar>f - q\<bar> \<le> 100 * 2 powi - 53" "\<bar>p - f * 100\<bar> \<le> 10000 * 2 powi - 53" "\<bar>score - of_int k / 100\<bar> \<le> 100 * 2 powi - 53"
    using round53_error [OF q(1)] round53_error [of "f * 100"] round53_error [OF k100(1)] q f k100
    by (auto simp: score f_def p_def power_int_minus power_int_numeral divide_simps)
  have "of_int k \<le> p" "p < of_int k + 1" unfolding k_def using floor_correct [of p] by auto
  moreover have "(2::rat) powi - 53 = 1 / 9007199254740992" by (simp add: power_int_minus power_int_numeral)
  moreover have "(2::rat) ^ 40 = 1099511627776" by simp
  ultimately show "\<bar>score - q\<bar> \<le> 1 / 100 + 1 / 2 ^ 40" using e by (simp only:)
  show "score = 100" if "T = 100 * W"
  proof -
    have "q = of_int 100" using that assms(3) by (simp add: q_def)
    then have "f = of_int 100" using round53_int [of 100] unfolding f_def by simp
    then have "p = of_int 10000" using round53_int [of 10000] by (simp add: p_def)
    then show ?thesis using round53_int [of 100] by (simp add: score k_def)
  qed
qed

section \<open>Properties\<close>

text \<open>
  When no engine name contains two of the weighted fault names, the metrics of a run do not depend on the
  order in which Go iterates over the weight map: any two orders give the same score and counts.
\<close>

theorem metrics_order_free:
  assumes "\<And>k ks. set (ord k ks) = set ks" "\<And>k ks. set (ord' k ks) = set ks"
    and "\<And>m t. add_weights (revision_weights (x_RevisionID x) revs) ([], 0) = Inr (m, t) \<Longrightarrow>
      unambiguous (map fst m) (engine_data (map snd (x_Nodes x)))"
  shows "compute_metrics ord revs x = compute_metrics ord' revs x"
proof (cases "add_weights (revision_weights (x_RevisionID x) revs) ([], 0)")
  case (Inr mt)
  obtain m t where mt: "mt = (m, t)" by (cases mt)
  with Inr assms(3) have "unambiguous (map fst m) (engine_data (map snd (x_Nodes x)))" by blast
  then show ?thesis using add_nodes_eq [OF assms(1)] add_nodes_eq [OF assms(2)]
    by (simp add: compute_metrics_def add_revisions_weights Inr mt)
qed (simp add: compute_metrics_def add_revisions_weights)

text \<open>
  C20: The resiliency score of a run, under five conditions: the weights of the revision are not negative, their sum is positive and below
  \<^verbatim>\<open>2^53 / 100\<close>, the probe success percentages are between 0 and 100, the name of every engine contains the name of at most one fault of the revision,
  and no two engines belong to the same fault. Then the metrics are computed, the score lies between 0 and 100, differs from the exact
  weighted mean by at most a hundredth (and \<^verbatim>\<open>2^-40\<close> for the rounding of \<^verbatim>\<open>float64\<close>) and is exactly 100 when the mean is. The last two conditions
  are needed: see \<^verbatim>\<open>score_depends_on_order\<close>, \<^verbatim>\<open>score_above_100\<close> and \<^verbatim>\<open>score_above_100_prefix\<close>.
\<close>

theorem resiliency_score_bounds:
  fixes ws :: "weightages_input list"
  defines "m \<equiv> weight_map ws []" and "W \<equiv> (\<Sum>w\<leftarrow>ws. w_Weightage w)"
  assumes "\<And>k ks. set (ord k ks) = set ks"
    and "revision_weights (x_RevisionID x) revs = map Some ws"
    and "\<forall>w\<in>set ws. w_Weightage w \<ge> 0" and "0 < W" "100 * W < 2 ^ 53"
    and "ds = engine_data (map snd (x_Nodes x))" and "percentages ds" "unambiguous (map fst m) ds"
    and "distinct (List.map_filter (fault_of (map fst m)) ds)"
  shows "\<exists>r. compute_metrics ord revs x = Inr r \<and> 0 \<le> ResiliencyScore r \<and> ResiliencyScore r \<le> 100 \<and>
    \<bar>ResiliencyScore r - of_int (\<Sum>d\<leftarrow>ds. contribution m d) / of_int W\<bar> \<le> 1 / 100 + 1 / 2 ^ 40 \<and>
    ((\<Sum>d\<leftarrow>ds. contribution m d) = 100 * W \<longrightarrow> ResiliencyScore r = 100)"
proof -
  let ?T = "\<Sum>d\<leftarrow>ds. contribution m d"
  have m: "(\<Sum>p\<leftarrow>m. snd p) \<le> W" "\<forall>p\<in>set m. snd p \<ge> 0" "distinct (map fst m)"
    using weight_map_sum [of ws "[]"] assms(5) by (auto simp: m_def W_def)
  have nn: "\<forall>d\<in>set ds. contribution m d \<ge> 0" by (rule contributions_faults(2)) (use assms m in auto)
  have "?T \<le> 100 * (\<Sum>f\<leftarrow>List.map_filter (fault_of (map fst m)) ds. weight_of m f)"
    by (rule contributions_faults(1)) (use assms m in auto)
  also have "\<dots> \<le> 100 * (\<Sum>p\<leftarrow>m. snd p)" using faults_weight [OF m(3,2) assms(11) map_filter_faults] by simp
  finally have T: "?T \<le> 100 * W" using m(1) by simp
  have T0: "0 \<le> ?T" using nn by (auto intro!: sum_list_nonneg)
  let ?z = "zero_metrics\<lparr>TotalExperiments := int (length m)\<rparr>"
  have "add_weights (map Some ws) ([], 0) = Inr (m, W)"
    using add_weights_Some [OF assms(5), of 0 "[]"] assms(6,7) by (simp add: m_def W_def)
  moreover have "fst (sum_nodes m ds (0, ?z)) = ?T"
    using sum_nodes_total [OF nn, of 0 ?z] T T0 assms(7) by simp
  ultimately have "compute_metrics ord revs x =
      Inr ((snd (sum_nodes m ds (0, ?z)))\<lparr>ResiliencyScore := Truncate (float_div (float_of_int ?T) (float_of_int W))\<rparr>)"
    using assms(4,6,8,10) add_nodes_eq [OF assms(3), of m "map snd (x_Nodes x)"]
    by (simp add: compute_metrics_def add_revisions_weights case_prod_unfold)
  then show ?thesis using Truncate_bounds [OF T0 T assms(6,7)] by simp
qed

section \<open>A sample run\<close>

definition sample_weight :: "string \<Rightarrow> int \<Rightarrow> weightages_input" where
  "sample_weight f w = \<lparr>w_FaultName = f, w_Weightage = w\<rparr>"

definition sample_revision :: "weightages_input list \<Rightarrow> experiment_revision" where
  "sample_revision ws = \<lparr>rv_RevisionID = ''r1'', rv_ExperimentManifest = ''m'', rv_UpdatedAt = 1, rv_Weightages = map Some ws, rv_Probes = []\<rparr>"

definition sample_engine :: "string \<Rightarrow> string \<Rightarrow> string \<Rightarrow> exec_node" where
  "sample_engine e pct v = \<lparr>n_Name = e, n_Phase = '''', n_Message = '''', n_StartedAt = '''', n_FinishedAt = '''', n_Children = [],
     n_Type = ''ChaosEngine'', n_ChaosExp = Some \<lparr>cd_EngineUID = '''', cd_EngineContext = '''', cd_EngineName = e, cd_Namespace = '''',
       cd_ExperimentName = '''', cd_ExperimentStatus = '''', cd_LastUpdatedAt = '''', cd_ExperimentVerdict = v, cd_ExperimentPod = '''',
       cd_RunnerPod = '''', cd_ProbeSuccessPercentage = pct, cd_FailStep = ''''\<rparr>\<rparr>"

definition sample_exec :: "exec_node list \<Rightarrow> execution_data" where
  "sample_exec ns = \<lparr>x_ExperimentType = '''', x_ExperimentID = ''e1'', x_EventType = '''', x_RevisionID = ''r1'', x_UID = '''', x_Namespace = '''',
     x_Name = '''', x_CreationTimestamp = '''', x_Phase = ''Completed'', x_Message = '''', x_StartedAt = '''', x_FinishedAt = '''',
     x_Nodes = map (\<lambda>n. (n_Name n, n)) ns\<rparr>"

abbreviation two_faults :: "weightages_input list" where
  "two_faults \<equiv> [sample_weight ''pod-delete'' 10, sample_weight ''pod-cpu-hog'' 5]"

abbreviation two_engines :: execution_data where
  "two_engines \<equiv> sample_exec [sample_engine ''pod-delete-x'' ''100'' ''Pass'', sample_engine ''pod-cpu-hog-y'' ''50'' ''Fail'']"

theorem metrics_order_free_witness:
  "compute_metrics (\<lambda>k ks. ks) [sample_revision two_faults] two_engines =
   compute_metrics (\<lambda>k ks. rev ks) [sample_revision two_faults] two_engines"
proof (rule metrics_order_free)
  fix m t
  assume "add_weights (revision_weights (x_RevisionID two_engines) [sample_revision two_faults]) ([], 0) = Inr (m, t)"
  moreover have "add_weights (revision_weights (x_RevisionID two_engines) [sample_revision two_faults]) ([], 0) =
      Inr ([(''pod-delete'', 10), (''pod-cpu-hog'', 5)], 15)" by code_simp
  ultimately have "m = [(''pod-delete'', 10), (''pod-cpu-hog'', 5)]" by simp
  moreover have "unambiguous (map fst [(''pod-delete'', 10::int), (''pod-cpu-hog'', 5)]) (engine_data (map snd (x_Nodes two_engines)))"
    by code_simp
  ultimately show "unambiguous (map fst m) (engine_data (map snd (x_Nodes two_engines)))" by simp
qed simp_all

theorem resiliency_score_bounds_witness:
  "\<exists>r. compute_metrics (\<lambda>k ks. ks) [sample_revision two_faults] two_engines = Inr r \<and> ResiliencyScore r \<le> 100"
proof -
  have "revision_weights (x_RevisionID two_engines) [sample_revision two_faults] = map Some two_faults" by code_simp
  moreover have "\<forall>w\<in>set two_faults. w_Weightage w \<ge> 0" "0 < (\<Sum>w\<leftarrow>two_faults. w_Weightage w)"
    "100 * (\<Sum>w\<leftarrow>two_faults. w_Weightage w) < 2 ^ 53" by code_simp+
  moreover have "percentages (engine_data (map snd (x_Nodes two_engines)))"
    "unambiguous (map fst (weight_map two_faults [])) (engine_data (map snd (x_Nodes two_engines)))"
    "distinct (List.map_filter (fault_of (map fst (weight_map two_faults []))) (engine_data (map snd (x_Nodes two_engines))))"
    by code_simp+
  ultimately show ?thesis
    using resiliency_score_bounds [of "\<lambda>k ks. ks" two_engines "[sample_revision two_faults]" two_faults, OF _ _ _ _ _ refl]
    by blast
qed

section \<open>Limits of the computation\<close>

text \<open>
  A fault whose name is contained in another one (\<^verbatim>\<open>pod-cpu-hog\<close> and \<^verbatim>\<open>pod-cpu-hog-exec\<close>) takes part in the match of the
  other's engine: the score then depends on the iteration order of the map.
\<close>

lemma score_depends_on_order:
  "map_sum id ResiliencyScore (compute_metrics (\<lambda>k ks. ks) [sample_revision [sample_weight ''pod-cpu-hog'' 10, sample_weight ''pod-cpu-hog-exec'' 2]]
     (sample_exec [sample_engine ''pod-cpu-hog-exec-x'' ''100'' ''Pass''])) = Inr (float_div 1666 100)"
  "map_sum id ResiliencyScore (compute_metrics (\<lambda>k ks. rev ks) [sample_revision [sample_weight ''pod-cpu-hog'' 10, sample_weight ''pod-cpu-hog-exec'' 2]]
     (sample_exec [sample_engine ''pod-cpu-hog-exec-x'' ''100'' ''Pass''])) = Inr (float_div 8333 100)"
  by code_simp+

text \<open>Two engines of one fault both count with its weight: the score passes 100.\<close>

lemma score_above_100:
  "map_sum id ResiliencyScore (compute_metrics (\<lambda>k ks. ks) [sample_revision [sample_weight ''pod-delete'' 10]]
     (sample_exec [sample_engine ''pod-delete-a'' ''100'' ''Pass'', sample_engine ''pod-delete-b'' ''100'' ''Pass''])) = Inr 200"
  by code_simp

lemma score_above_100_prefix:
  "map_sum id ResiliencyScore (compute_metrics (\<lambda>k ks. rev ks) [sample_revision [sample_weight ''pod-cpu-hog'' 10, sample_weight ''pod-cpu-hog-exec'' 2]]
     (sample_exec [sample_engine ''pod-cpu-hog-x'' ''100'' ''Pass'', sample_engine ''pod-cpu-hog-exec-x'' ''100'' ''Pass''])) = Inr (float_div 16666 100)"
  by code_simp

text \<open>A mean with two decimals can lose a hundredth: 1.15 is truncated to 1.14.\<close>

lemma truncate_loses_hundredth:
  "Truncate (float_div (float_of_int 115) (float_of_int 100)) = float_div 114 100"
  by code_simp

end
