(* ===== verification/Go_Sort.thy ===== *)
theory Go_Sort
  imports Litmus_Prelude
begin

text \<open>
  \<^verbatim>\<open>sort.Slice\<close> of Go's standard library. Up to twelve elements it is an insertion sort: element by element, the new one is swapped with its
  left neighbour as long as it is less. Longer slices are sorted by another algorithm, which is not stable: elements of which neither is less
  are then in an order that is not specified, where the definition below keeps the order they had.
\<close>

text \<open>One element goes into the sorted elements left of it, of which the list has the last one first.\<close>

fun sift :: "('a \<Rightarrow> 'a \<Rightarrow> bool) \<Rightarrow> 'a \<Rightarrow> 'a list \<Rightarrow> 'a list" where
  "sift lt x [] = [x]"
| "sift lt x (y # ys) = (if lt x y then y # sift lt x ys else x # y # ys)"

definition sort_slice :: "('a \<Rightarrow> 'a \<Rightarrow> bool) \<Rightarrow> 'a list \<Rightarrow> 'a list" where
  "sort_slice lt xs = rev (fold (sift lt) xs [])"

lemma mset_sift [simp]: "mset (sift lt x ys) = add_mset x (mset ys)"
  by (induction ys) auto

lemma mset_fold_sift: "mset (fold (sift lt) xs ys) = mset xs + mset ys"
  by (induction xs arbitrary: ys) simp_all

lemma mset_sort_slice [simp]: "mset (sort_slice lt xs) = mset xs"
  by (simp add: sort_slice_def mset_fold_sift)

lemma set_sort_slice [simp]: "set (sort_slice lt xs) = set xs"
  by (metis mset_sort_slice set_mset_mset)

lemma sort_slice_empty [simp]: "sort_slice lt xs = [] \<longleftrightarrow> xs = []"
  by (metis set_sort_slice set_empty)

text \<open>With a comparison of keys no element of the result is less than one to its left.\<close>

lemma set_sift [simp]: "set (sift lt x ys) = insert x (set ys)"
  by (metis mset_sift set_mset_add_mset_insert set_mset_mset)

lemma sift_sorted:
  fixes k :: "'a \<Rightarrow> 'b::linorder"
  assumes "sorted_wrt (\<lambda>a b. k a \<le> k b) ys"
  shows "sorted_wrt (\<lambda>a b. k a \<le> k b) (sift (\<lambda>a b. k a > k b) x ys)"
  using assms by (induction ys) auto

lemma fold_sift_sorted:
  fixes k :: "'a \<Rightarrow> 'b::linorder"
  shows "sorted_wrt (\<lambda>a b. k a \<le> k b) ys \<Longrightarrow> sorted_wrt (\<lambda>a b. k a \<le> k b) (fold (sift (\<lambda>a b. k a > k b)) xs ys)"
  by (induction xs arbitrary: ys) (simp_all add: sift_sorted)

lemma sort_slice_sorted:
  fixes k :: "'a \<Rightarrow> 'b::linorder"
  shows "sorted_wrt (\<lambda>a b. k a \<ge> k b) (sort_slice (\<lambda>a b. k a > k b) xs)"
  using fold_sift_sorted [of k "[]" xs] by (simp add: sort_slice_def sorted_wrt_rev)

lemma sort_slice_hd:
  fixes k :: "'a \<Rightarrow> 'b::linorder"
  assumes "xs \<noteq> []"
  shows "hd (sort_slice (\<lambda>a b. k a > k b) xs) \<in> set xs" "\<forall>x\<in>set xs. k x \<le> k (hd (sort_slice (\<lambda>a b. k a > k b) xs))"
proof -
  obtain y ys where y: "sort_slice (\<lambda>a b. k a > k b) xs = y # ys" using assms by (cases "sort_slice (\<lambda>a b. k a > k b) xs") auto
  then have s: "set xs = insert y (set ys)" by (metis set_sort_slice list.set(2))
  then show "hd (sort_slice (\<lambda>a b. k a > k b) xs) \<in> set xs" by (simp add: y)
  show "\<forall>x\<in>set xs. k x \<le> k (hd (sort_slice (\<lambda>a b. k a > k b) xs))"
    using sort_slice_sorted [of k xs] s by (simp add: y)
qed

end
