(* ===== verification/Gql_Exp_Base.thy ===== *)
theory Gql_Exp_Base
  imports Gql_Infra Run_Score Go_Sort
begin

text \<open>
  The data of experiments, runs and probes: the documents of \<^verbatim>\<open>pkg/database/mongodb/chaos_experiment\<close>,
  \<^verbatim>\<open>chaos_experiment_run\<close> and \<^verbatim>\<open>probe\<close>, their database operations, and the manifests (Argo workflows with chaos
  engines) as far as the server reads or changes them. The structures of Argo, Kubernetes and the chaos operator are
  third-party types: a record holds the fields the server uses and the rest as an uninterpreted text; decoding and
  encoding are parameters. A map of Go is an association list in iteration order, a nil map is \<^verbatim>\<open>None\<close>.
\<close>

section \<open>Experiments and runs\<close>

record experiment_run_detail =
  rd_UpdatedAt :: int
  rd_CreatedAt :: int
  rd_CreatedBy :: string
  rd_UpdatedBy :: string
  rd_IsRemoved :: bool
  rd_ProjectID :: string
  rd_ExperimentRunID :: string
  rd_Phase :: string
  rd_NotifyID :: "string option"
  rd_ResiliencyScore :: "float64 option"
  rd_Completed :: bool
  rd_RunSequence :: int
  rd_Probe :: "experiment_probes list"

record chaos_experiment =
  ex_Name :: string
  ex_Description :: string
  ex_Tags :: "string list"
  ex_UpdatedAt :: int
  ex_CreatedAt :: int
  ex_CreatedBy :: string
  ex_UpdatedBy :: string
  ex_IsRemoved :: bool
  ex_ProjectID :: string
  ex_ExperimentID :: string
  ex_CronSyntax :: string
  ex_InfraID :: string
  ex_ExperimentType :: string
  ex_Revision :: "experiment_revision list"
  ex_IsCustomExperiment :: bool
  ex_RecentExperimentRunDetails :: "experiment_run_detail list"
  ex_TotalExperimentRuns :: int

record experiment_run =
  er_ProjectID :: string
  er_UpdatedAt :: int
  er_CreatedAt :: int
  er_CreatedBy :: string
  er_UpdatedBy :: string
  er_IsRemoved :: bool
  er_InfraID :: string
  er_ExperimentRunID :: string
  er_ExperimentID :: string
  er_ExperimentName :: string
  er_Phase :: string
  er_Probes :: "experiment_probes list"
  er_ExecutionData :: string
  er_RevisionID :: string
  er_NotifyID :: "string option"
  er_ResiliencyScore :: "float64 option"
  er_FaultsPassed :: "int option"
  er_FaultsFailed :: "int option"
  er_FaultsAwaited :: "int option"
  er_FaultsStopped :: "int option"
  er_FaultsNA :: "int option"
  er_TotalFaults :: "int option"
  er_RunSequence :: int
  er_Completed :: bool

section \<open>Probes\<close>

record comparator =
  cmp_Type :: string
  cmp_Value :: string
  cmp_Criteria :: string

record get_method =
  gm_Criteria :: string
  gm_ResponseCode :: string

record post_method =
  pm_ContentType :: "string option"
  pm_Body :: "string option"
  pm_BodyPath :: "string option"
  pm_Criteria :: string
  pm_ResponseCode :: string

record common_properties =
  cp_ProbeTimeout :: string
  cp_Interval :: string
  cp_PollingInterval :: "string option"
  cp_InitialDelay :: "string option"
  cp_EvaluationTimeout :: "string option"
  cp_Retry :: "int option"
  cp_Attempt :: "int option"
  cp_StopOnFailure :: "bool option"

record http_probe = common_properties +
  hp_URL :: string
  hp_GET :: "get_method option"
  hp_POST :: "post_method option"
  hp_InsecureSkipVerify :: "bool option"

record prom_probe = common_properties +
  pp_Endpoint :: string
  pp_Query :: "string option"
  pp_QueryPath :: "string option"
  pp_Comparator :: comparator

text \<open>A command probe's source: the fields the server copies, and the other fields of the type.\<close>

record source_details =
  sd_copied :: string
  sd_other :: string

record cmd_probe = common_properties +
  kp_Command :: string
  kp_Comparator :: comparator
  kp_Source :: "source_details option"

record k8s_probe = common_properties +
  k8_Group :: "string option"
  k8_Version :: string
  k8_Resource :: string
  k8_ResourceNames :: "string option"
  k8_Namespace :: "string option"
  k8_FieldSelector :: "string option"
  k8_LabelSelector :: "string option"
  k8_Operation :: string

record probe_doc =
  pb_ProjectID :: string
  pb_Name :: string
  pb_Description :: string
  pb_Tags :: "string list"
  pb_UpdatedAt :: int
  pb_CreatedAt :: int
  pb_CreatedBy :: string
  pb_UpdatedBy :: string
  pb_IsRemoved :: bool
  pb_Type :: string
  pb_InfrastructureType :: string
  pb_HTTP :: "http_probe option"
  pb_CMD :: "cmd_probe option"
  pb_PROM :: "prom_probe option"
  pb_K8S :: "k8s_probe option"

section \<open>Manifests\<close>

type_synonym labels = "(string \<times> string) list"

record run_property =
  rp_ProbeTimeout :: string
  rp_Interval :: string
  rp_Retry :: int
  rp_Attempt :: int
  rp_ProbePollingInterval :: string
  rp_InitialDelaySeconds :: int
  rp_InitialDelay :: string
  rp_EvaluationTimeout :: string
  rp_StopOnFailure :: bool

record post_input =
  pi_ContentType :: string
  pi_Body :: string
  pi_BodyPath :: string
  pi_Criteria :: string
  pi_ResponseCode :: string

record http_inputs =
  hi_URL :: string
  hi_InsecureSkipVerify :: bool
  hi_Get :: "get_method option"
  hi_Post :: "post_input option"

record cmd_inputs =
  ci_Command :: string
  ci_Comparator :: comparator
  ci_Source :: "source_details option"

record prom_inputs =
  pri_Endpoint :: string
  pri_Query :: string
  pri_QueryPath :: string
  pri_Comparator :: comparator

record k8s_inputs =
  ki_Group :: string
  ki_Version :: string
  ki_Resource :: string
  ki_ResourceNames :: string
  ki_Namespace :: string
  ki_FieldSelector :: string
  ki_LabelSelector :: string
  ki_Operation :: string

record probe_attributes =
  pa_Name :: string
  pa_Type :: string
  pa_HTTP :: "http_inputs option"
  pa_K8s :: "k8s_inputs option"
  pa_Cmd :: "cmd_inputs option"
  pa_Prom :: "prom_inputs option"
  pa_RunProperties :: run_property
  pa_Mode :: string
  pa_Data :: string

record engine_experiment =
  ee_Name :: string
  ee_Probe :: "probe_attributes list option"
  ee_rest :: string

record chaos_engine =
  ce_Kind :: string
  ce_Name :: string
  ce_GenerateName :: string
  ce_Labels :: "labels option"
  ce_Annotations :: "labels option"
  ce_Experiments :: "engine_experiment list"
  ce_rest :: string

record artifact =
  af_Name :: string
  af_Raw :: "string option"

record workflow_template =
  tp_Artifacts :: "artifact list"
  tp_Labels :: "labels option"
  tp_rest :: string

record workflow =
  wf_Name :: string
  wf_Labels :: "labels option"
  wf_Templates :: "workflow_template list"
  wf_rest :: string

text \<open>\<^verbatim>\<open>cw_Metadata\<close>: the metadata of the workflows the cron workflow starts, if there are any, with their labels.\<close>

record cron_workflow =
  cw_Name :: string
  cw_Labels :: "labels option"
  cw_Schedule :: string
  cw_Suspend :: bool
  cw_Metadata :: "labels option option"
  cw_Templates :: "workflow_template list"
  cw_rest :: string

text \<open>A decoded YAML value without a type.\<close>

datatype yaml = YNull | YMap "(string \<times> yaml) list" | YString string | YOther string

record probe_annotation =
  an_Name :: string
  an_Mode :: string

section \<open>The libraries\<close>

text \<open>
  The decoders give the text of an error or the decoded value. \<^verbatim>\<open>x_order\<close> is the iteration order of the
  loops over the weights, \<^verbatim>\<open>x_position\<close> the array index the server uses for a positional update, \<^verbatim>\<open>x_exec\<close> decodes
  execution data, \<^verbatim>\<open>x_encode_exec\<close> is the encoding of the execution data of a new run (name, phase and experiment), \<^verbatim>\<open>x_namespace\<close> the
  namespace of a decoded object, \<^verbatim>\<open>x_gjson\<close> looks a path up in a JSON text, \<^verbatim>\<open>x_sjson\<close> writes a value to a path, \<^verbatim>\<open>x_object\<close> decodes the
  name and the kind of an object. A chaos schedule is read like an engine: its experiments are those of the engine template.
\<close>

record exp_env =
  x_gql :: gql_env
  x_order :: "nat \<Rightarrow> string list \<Rightarrow> string list"
  x_position :: "(experiment_run_detail \<Rightarrow> bool) list \<Rightarrow> experiment_run_detail list \<Rightarrow> nat"
  x_exec :: "string \<Rightarrow> string + execution_data"
  x_encode_exec :: "string \<times> string \<times> string \<Rightarrow> string + string"
  x_namespace :: "string \<Rightarrow> string + string"
  x_gjson :: "string \<Rightarrow> string \<Rightarrow> string"
  x_sjson :: "string \<Rightarrow> string \<Rightarrow> string \<Rightarrow> string + string"
  x_object :: "string \<Rightarrow> string + (string \<times> string)"
  x_workflow :: "string \<Rightarrow> string + workflow"
  x_workflow_json :: "workflow \<Rightarrow> string + string"
  x_workflow_yaml :: "workflow \<Rightarrow> string + string"
  x_cron :: "string \<Rightarrow> string + cron_workflow"
  x_cron_json :: "cron_workflow \<Rightarrow> string + string"
  x_cron_yaml :: "cron_workflow \<Rightarrow> string + string"
  x_engine :: "string \<Rightarrow> string + chaos_engine"
  x_engine_yaml :: "chaos_engine \<Rightarrow> string + string"
  x_annotations :: "string \<Rightarrow> string + probe_annotation list"
  x_source :: "string \<Rightarrow> string + source_details option"
  x_source_json :: "source_details \<Rightarrow> string"
  x_probe_json :: "probe_attributes \<Rightarrow> string + string"
  x_probe :: "string \<Rightarrow> string + probe_attributes"
  x_unit_regex :: "string \<Rightarrow> bool"
  x_engine_object :: "string \<Rightarrow> string + chaos_engine"
  x_engine_json :: "chaos_engine \<Rightarrow> string + string"
  x_schedule :: "string \<Rightarrow> string + chaos_engine"
  x_schedule_json :: "chaos_engine \<Rightarrow> string + string"
  x_refs_json :: "probe_annotation list \<Rightarrow> string"
  x_yaml :: "string \<Rightarrow> string + yaml"
  x_yaml_text :: "yaml \<Rightarrow> string + string"

section \<open>The database\<close>

record 's exp_db =
  experiments :: "('s, chaos_experiment) collection"
  exp_runs :: "('s, experiment_run) collection"
  probes :: "('s, probe_doc) collection"
  gql_handle :: "'s gql_db"

text \<open>The unique indexes; that on probes covers those not removed. Runs have none.\<close>

definition experiment_conflict :: "chaos_experiment \<Rightarrow> chaos_experiment \<Rightarrow> bool" where
  "experiment_conflict a b \<longleftrightarrow> ex_ExperimentID a = ex_ExperimentID b"

definition probe_conflict :: "probe_doc \<Rightarrow> probe_doc \<Rightarrow> bool" where
  "probe_conflict a b \<longleftrightarrow>
     \<not> pb_IsRemoved a \<and> \<not> pb_IsRemoved b \<and> pb_Name a = pb_Name b \<and> pb_ProjectID a = pb_ProjectID b"

locale exp_db =
  gql: gql_db "gql_handle x" idocs edocs udocs pdocs rdocs adocs cdocs +
  experiments: mongo_collection "experiments x" xdocs experiment_conflict "\<lambda>s. (rundocs s, pbdocs s, idocs s, edocs s, udocs s, pdocs s)" +
  runs: mongo_collection "exp_runs x" rundocs no_conflict "\<lambda>s. (xdocs s, pbdocs s, idocs s, edocs s, udocs s, pdocs s)" +
  probes: mongo_collection "probes x" pbdocs probe_conflict "\<lambda>s. (xdocs s, rundocs s, idocs s, edocs s, udocs s, pdocs s)"
  for x :: "'s exp_db"
    and xdocs :: "'s \<Rightarrow> chaos_experiment multiset"
    and rundocs :: "'s \<Rightarrow> experiment_run multiset"
    and pbdocs :: "'s \<Rightarrow> probe_doc multiset"
    and idocs :: "'s \<Rightarrow> chaos_infra multiset"
    and edocs :: "'s \<Rightarrow> environment multiset"
    and udocs :: "'s \<Rightarrow> user multiset"
    and pdocs :: "'s \<Rightarrow> project multiset"
    and rdocs :: "'s \<Rightarrow> revoked_token multiset"
    and adocs :: "'s \<Rightarrow> api_token multiset"
    and cdocs :: "'s \<Rightarrow> auth_config multiset"
begin

lemma experiments_frame:
  assumes "UpdateOne (experiments x) P u s = (r, s')"
  shows "rundocs s' = rundocs s" "pbdocs s' = pbdocs s" "idocs s' = idocs s"
  using assms experiments.UpdateOne_rest [of P u s] by auto

lemma experiments_insert_frame:
  assumes "InsertOne (experiments x) e s = (r, s')"
  shows "rundocs s' = rundocs s" "pbdocs s' = pbdocs s" "idocs s' = idocs s"
  using assms experiments.InsertOne_rest [of e s] by auto

lemma runs_frame:
  assumes "UpdateOne (exp_runs x) P u s = (r, s')"
  shows "xdocs s' = xdocs s" "pbdocs s' = pbdocs s" "idocs s' = idocs s"
  using assms runs.UpdateOne_rest [of P u s] by auto

lemma runs_many_frame:
  assumes "UpdateMany (exp_runs x) P f s = (r, s')"
  shows "xdocs s' = xdocs s" "pbdocs s' = pbdocs s" "idocs s' = idocs s"
  using assms runs.UpdateMany_rest [of P f s] by auto

lemma runs_insert_frame:
  assumes "InsertOne (exp_runs x) d s = (r, s')"
  shows "xdocs s' = xdocs s" "pbdocs s' = pbdocs s" "idocs s' = idocs s"
  using assms runs.InsertOne_rest [of d s] by auto

lemma probes_frame:
  assumes "UpdateOne (probes x) P u s = (r, s')"
  shows "xdocs s' = xdocs s" "rundocs s' = rundocs s"
  using assms probes.UpdateOne_rest [of P u s] by auto

lemma probes_insert_frame:
  assumes "InsertOne (probes x) d s = (r, s')"
  shows "xdocs s' = xdocs s" "rundocs s' = rundocs s"
  using assms probes.InsertOne_rest [of d s] by auto

end

text \<open>Positional updates: one of the conditions on the array determines the element, by its first match.\<close>

definition positional :: "((experiment_run_detail \<Rightarrow> bool) list \<Rightarrow> experiment_run_detail list \<Rightarrow> nat) \<Rightarrow> bool" where
  "positional pos \<longleftrightarrow>
     (\<forall>conds ds. conds \<noteq> [] \<and> (\<forall>c\<in>set conds. \<exists>d\<in>set ds. c d) \<longrightarrow> (\<exists>c\<in>set conds. find_index c ds = Some (pos conds ds)))"

definition update_position :: "exp_env \<Rightarrow> (experiment_run_detail \<Rightarrow> bool) list \<Rightarrow> (experiment_run_detail \<Rightarrow> experiment_run_detail)
    \<Rightarrow> chaos_experiment \<Rightarrow> chaos_experiment" where
  "update_position env conds f e =
     (let ds = ex_RecentExperimentRunDetails e; i = x_position env conds ds
      in e\<lparr>ex_RecentExperimentRunDetails := ds[i := f (ds ! i)]\<rparr>)"

definition some_detail :: "(experiment_run_detail \<Rightarrow> bool) list \<Rightarrow> chaos_experiment \<Rightarrow> bool" where
  "some_detail conds e \<longleftrightarrow> (\<forall>c\<in>set conds. \<exists>d\<in>set (ex_RecentExperimentRunDetails e). c d)"

section \<open>Database operations\<close>

text \<open>\<^verbatim>\<open>chaos_experiment/operations.go\<close>; an update changes one document.\<close>

definition op_GetExperiment :: "'s exp_db \<Rightarrow> (chaos_experiment \<Rightarrow> bool) \<Rightarrow> 's \<Rightarrow> mongo_error + chaos_experiment" where
  "op_GetExperiment x query s = FindOne (experiments x) query s"

definition op_GetExperiments :: "'s exp_db \<Rightarrow> (chaos_experiment \<Rightarrow> bool) \<Rightarrow> 's \<Rightarrow> string + chaos_experiment list" where
  "op_GetExperiments x query s = map_sum driver_text id (Find (experiments x) query s)"

definition GetExperimentsByInfraID :: "'s exp_db \<Rightarrow> string \<Rightarrow> 's \<Rightarrow> string + chaos_experiment list" where
  "GetExperimentsByInfraID x infraID s = map_sum driver_text id (Find (experiments x) (\<lambda>e. ex_InfraID e = infraID) s)"

definition InsertChaosExperiment :: "'s exp_db \<Rightarrow> chaos_experiment \<Rightarrow> 's \<Rightarrow> string option \<times> 's" where
  "InsertChaosExperiment x e s =
     (case InsertOne (experiments x) e s of (None, s') \<Rightarrow> (None, s') | (Some err, s') \<Rightarrow> (Some (driver_text err), s'))"

definition op_UpdateChaosExperiment :: "'s exp_db \<Rightarrow> (chaos_experiment \<Rightarrow> bool) \<Rightarrow> (chaos_experiment \<Rightarrow> chaos_experiment) \<Rightarrow> 's
    \<Rightarrow> string option \<times> 's" where
  "op_UpdateChaosExperiment x query update s =
     (case UpdateOne (experiments x) query (Some update) s of (Inr n, s') \<Rightarrow> (None, s') | (Inl err, s') \<Rightarrow> (Some (driver_text err), s'))"

definition CountChaosExperiments :: "'s exp_db \<Rightarrow> (chaos_experiment \<Rightarrow> bool) \<Rightarrow> 's \<Rightarrow> string + nat" where
  "CountChaosExperiments x query s = map_sum driver_text id (CountDocuments (experiments x) query s)"

text \<open>\<^verbatim>\<open>chaos_experiment_run/operations.go\<close>.\<close>

definition CreateExperimentRun :: "'s exp_db \<Rightarrow> experiment_run \<Rightarrow> 's \<Rightarrow> string option \<times> 's" where
  "CreateExperimentRun x d s =
     (case InsertOne (exp_runs x) d s of (None, s') \<Rightarrow> (None, s') | (Some err, s') \<Rightarrow> (Some (driver_text err), s'))"

definition GetExperimentRuns :: "'s exp_db \<Rightarrow> (experiment_run \<Rightarrow> bool) \<Rightarrow> 's \<Rightarrow> string + experiment_run list" where
  "GetExperimentRuns x query s = map_sum driver_text id (Find (exp_runs x) query s)"

definition CountExperimentRuns :: "'s exp_db \<Rightarrow> (experiment_run \<Rightarrow> bool) \<Rightarrow> 's \<Rightarrow> string + nat" where
  "CountExperimentRuns x query s = map_sum driver_text id (CountDocuments (exp_runs x) query s)"

definition op_GetExperimentRun :: "'s exp_db \<Rightarrow> (experiment_run \<Rightarrow> bool) \<Rightarrow> 's \<Rightarrow> string + experiment_run" where
  "op_GetExperimentRun x query s = map_sum driver_text id (FindOne (exp_runs x) query s)"

definition UpdateExperimentRunWithQuery :: "'s exp_db \<Rightarrow> (experiment_run \<Rightarrow> bool) \<Rightarrow> (experiment_run \<Rightarrow> experiment_run) \<Rightarrow> 's
    \<Rightarrow> string option \<times> 's" where
  "UpdateExperimentRunWithQuery x query update s =
     (case UpdateOne (exp_runs x) query (Some update) s of (Inr n, s') \<Rightarrow> (None, s') | (Inl err, s') \<Rightarrow> (Some (driver_text err), s'))"

definition UpdateExperimentRunsWithQuery :: "'s exp_db \<Rightarrow> (experiment_run \<Rightarrow> bool) \<Rightarrow> (experiment_run \<Rightarrow> experiment_run) \<Rightarrow> 's
    \<Rightarrow> string option \<times> 's" where
  "UpdateExperimentRunsWithQuery x query update s =
     (case UpdateMany (exp_runs x) query update s of (Inr n, s') \<Rightarrow> (None, s') | (Inl err, s') \<Rightarrow> (Some (driver_text err), s'))"

text \<open>The run an event is about: by its notify identifier if there is one, otherwise by its run identifier.\<close>

definition same_run :: "string \<Rightarrow> string \<Rightarrow> string option \<Rightarrow> experiment_run \<Rightarrow> bool" where
  "same_run experimentID runID notifyID d \<longleftrightarrow> er_ExperimentID d = experimentID \<and>
     (case notifyID of None \<Rightarrow> er_ExperimentRunID d = runID | Some n \<Rightarrow> er_NotifyID d = Some n)"

definition run_update :: "experiment_run \<Rightarrow> experiment_run \<Rightarrow> experiment_run" where
  "run_update wfRun d = d\<lparr>er_ExperimentRunID := er_ExperimentRunID wfRun, er_Phase := er_Phase wfRun,
     er_ResiliencyScore := er_ResiliencyScore wfRun, er_FaultsPassed := er_FaultsPassed wfRun, er_FaultsFailed := er_FaultsFailed wfRun,
     er_FaultsAwaited := er_FaultsAwaited wfRun, er_FaultsStopped := er_FaultsStopped wfRun, er_FaultsNA := er_FaultsNA wfRun,
     er_TotalFaults := er_TotalFaults wfRun, er_ExecutionData := er_ExecutionData wfRun, er_Completed := er_Completed wfRun,
     er_UpdatedBy := er_UpdatedBy wfRun, er_UpdatedAt := er_UpdatedAt wfRun, er_IsRemoved := er_IsRemoved wfRun\<rparr>"

text \<open>The number it yields is that of matched documents, but 1 when there was none or more than one before.\<close>

definition op_UpdateExperimentRun :: "'s exp_db \<Rightarrow> exp_env \<Rightarrow> experiment_run \<Rightarrow> 's \<Rightarrow> (string + nat) \<times> 's" where
  "op_UpdateExperimentRun x env wfRun s =
     (let same = same_run (er_ExperimentID wfRun) (er_ExperimentRunID wfRun) (er_NotifyID wfRun) in
      case CountDocuments (exp_runs x) same s of
        Inl e \<Rightarrow> (Inl (driver_text e), s)
      | Inr n \<Rightarrow>
          if n = 0 then
            (case InsertOne (exp_runs x) (wfRun\<lparr>er_CreatedAt := now_ms (g_auth (x_gql env)) 4\<rparr>) s of
               (None, s') \<Rightarrow> (Inr 1, s') | (Some e, s') \<Rightarrow> (Inl (driver_text e), s'))
          else if n = 1 then
            (case UpdateOne (exp_runs x) (\<lambda>d. same d \<and> \<not> er_Completed d) (Some (run_update wfRun)) s of
               (Inl e, s') \<Rightarrow> (Inl (driver_text e), s') | (Inr k, s') \<Rightarrow> (Inr k, s'))
          else (Inr 1, s))"

text \<open>\<^verbatim>\<open>probe/operations.go\<close>.\<close>

definition CreateProbe :: "'s exp_db \<Rightarrow> probe_doc \<Rightarrow> 's \<Rightarrow> string option \<times> 's" where
  "CreateProbe x d s =
     (case InsertOne (probes x) d s of (None, s') \<Rightarrow> (None, s') | (Some err, s') \<Rightarrow> (Some (driver_text err), s'))"

definition IsProbeUnique :: "'s exp_db \<Rightarrow> (probe_doc \<Rightarrow> bool) \<Rightarrow> 's \<Rightarrow> string + bool" where
  "IsProbeUnique x query s = map_sum driver_text (\<lambda>n. n = 0) (CountDocuments (probes x) query s)"

definition op_UpdateProbe :: "'s exp_db \<Rightarrow> (probe_doc \<Rightarrow> bool) \<Rightarrow> (probe_doc \<Rightarrow> probe_doc) \<Rightarrow> 's \<Rightarrow> string option \<times> 's" where
  "op_UpdateProbe x query update s =
     (case UpdateOne (probes x) query (Some update) s of
        (Inl err, s') \<Rightarrow> (Some (driver_text err), s')
      | (Inr n, s') \<Rightarrow> (if n = 0 then Some ''no matching documents found'' else None, s'))"

definition live_probe :: "string \<Rightarrow> string \<Rightarrow> probe_doc \<Rightarrow> bool" where
  "live_probe projectID probeName p \<longleftrightarrow> pb_Name p = probeName \<and> pb_ProjectID p = projectID \<and> \<not> pb_IsRemoved p"

definition GetProbeByName :: "'s exp_db \<Rightarrow> string \<Rightarrow> string \<Rightarrow> 's \<Rightarrow> string + probe_doc" where
  "GetProbeByName x probeName projectID s = map_sum driver_text id (FindOne (probes x) (live_probe projectID probeName) s)"

section \<open>An executable deployment\<close>

record exp_state = gql_state +
  st_experiments :: "chaos_experiment list"
  st_runs :: "experiment_run list"
  st_probes :: "probe_doc list"

definition exp_auth :: "'a exp_state_scheme db" where
  "exp_auth =
     \<lparr>users = mem_collection st_users (\<lambda>x s. s\<lparr>st_users := x\<rparr>) user_conflict,
      projects = mem_collection st_projects (\<lambda>x s. s\<lparr>st_projects := x\<rparr>) project_conflict,
      revoked_tokens = mem_collection st_revoked (\<lambda>x s. s\<lparr>st_revoked := x\<rparr>) no_conflict,
      api_tokens = mem_collection st_tokens (\<lambda>x s. s\<lparr>st_tokens := x\<rparr>) no_conflict,
      auth_configs = mem_collection st_configs (\<lambda>x s. s\<lparr>st_configs := x\<rparr>) no_conflict,
      StartSession = (\<lambda>s. None), CommitTransaction = (\<lambda>s s'. (None, s')),
      ListDatabaseNames = (\<lambda>s. Inr [''auth'']), ListCollectionNames = (\<lambda>s. Inr [])\<rparr>"

definition mem_exp :: "'a exp_state_scheme exp_db" where
  "mem_exp =
     \<lparr>experiments = mem_collection st_experiments (\<lambda>x s. s\<lparr>st_experiments := x\<rparr>) experiment_conflict,
      exp_runs = mem_collection st_runs (\<lambda>x s. s\<lparr>st_runs := x\<rparr>) no_conflict,
      probes = mem_collection st_probes (\<lambda>x s. s\<lparr>st_probes := x\<rparr>) probe_conflict,
      gql_handle =
        \<lparr>infras = mem_collection st_infras (\<lambda>x s. s\<lparr>st_infras := x\<rparr>) infra_conflict,
         environments = mem_collection st_environments (\<lambda>x s. s\<lparr>st_environments := x\<rparr>) env_conflict,
         auth_handle = exp_auth\<rparr>\<rparr>"

interpretation mem_exp: exp_db mem_exp "\<lambda>s. mset (st_experiments s)" "\<lambda>s. mset (st_runs s)" "\<lambda>s. mset (st_probes s)"
  "\<lambda>s. mset (st_infras s)" "\<lambda>s. mset (st_environments s)" "\<lambda>s. mset (st_users s)" "\<lambda>s. mset (st_projects s)"
  "\<lambda>s. mset (st_revoked s)" "\<lambda>s. mset (st_tokens s)" "\<lambda>s. mset (st_configs s)"
  by (intro exp_db.intro gql_db.intro auth_db.intro auth_db_axioms.intro)
    (auto simp: mem_exp_def exp_auth_def intro!: mem_collection_ok)

lemmas mem_exp_db = mem_exp.exp_db_axioms

text \<open>
  Decoders for the witnesses: every manifest holds a workflow with one engine of the fault \<^verbatim>\<open>pod-delete\<close> that refers to
  the probe \<^verbatim>\<open>check\<close>; execution data is its own phase.
\<close>

definition sample_engine_doc :: chaos_engine where
  "sample_engine_doc = \<lparr>ce_Kind = ''ChaosEngine'', ce_Name = ''e'', ce_GenerateName = ''pod-delete'', ce_Labels = None,
     ce_Annotations = Some [(''probeRef'', ''check'')],
     ce_Experiments = [\<lparr>ee_Name = ''pod-delete'', ee_Probe = None, ee_rest = ''''\<rparr>], ce_rest = ''''\<rparr>"

definition sample_template :: workflow_template where
  "sample_template = \<lparr>tp_Artifacts = [\<lparr>af_Name = ''pod-delete'', af_Raw = Some ''engine''\<rparr>], tp_Labels = None, tp_rest = ''''\<rparr>"

definition sample_workflow :: workflow where
  "sample_workflow = \<lparr>wf_Name = ''exp'', wf_Labels = Some [(''infra_id'', ''infra1'')], wf_Templates = [sample_template], wf_rest = ''''\<rparr>"

definition sample_exp_env :: exp_env where
  "sample_exp_env =
     \<lparr>x_gql = sample_gql_env, x_order = (\<lambda>k ks. ks),
      x_position = (\<lambda>conds ds. case conds of [] \<Rightarrow> 0 | c # cs \<Rightarrow> (case find_index c ds of None \<Rightarrow> 0 | Some i \<Rightarrow> i)),
      x_exec = (\<lambda>d. Inr ((sample_exec [sample_engine ''pod-delete-x'' ''100'' ''Pass''])\<lparr>x_Phase := d\<rparr>)),
      x_encode_exec = (\<lambda>(n, p, i). Inr p), x_namespace = (\<lambda>m. Inr ''litmus''), x_gjson = (\<lambda>m p. if p = ''kind'' then ''Workflow'' else ''x''), x_sjson = (\<lambda>m p v. Inr m),
      x_object = (\<lambda>m. Inr (''exp'', ''Workflow'')),
      x_workflow = (\<lambda>m. Inr sample_workflow), x_workflow_json = (\<lambda>w. Inr (wf_Name w)), x_workflow_yaml = (\<lambda>w. Inr (wf_Name w)),
      x_cron = (\<lambda>m. Inl ''not a cron workflow''), x_cron_json = (\<lambda>w. Inr (cw_Name w)), x_cron_yaml = (\<lambda>w. Inr (cw_Name w)),
      x_engine = (\<lambda>d. Inr sample_engine_doc), x_engine_yaml = (\<lambda>e. Inr ''engine''),
      x_annotations = (\<lambda>a. Inr [\<lparr>an_Name = a, an_Mode = ''SOT''\<rparr>]), x_source = (\<lambda>t. Inr (Some \<lparr>sd_copied = t, sd_other = ''''\<rparr>)),
      x_source_json = sd_copied, x_probe_json = (\<lambda>a. Inr (pa_Name a)), x_probe = (\<lambda>t. Inl ''no probe''),
      x_unit_regex = (\<lambda>v. False), x_engine_object = (\<lambda>m. Inl ''not an engine''), x_engine_json = (\<lambda>e. Inr (ce_Name e)),
      x_schedule = (\<lambda>m. Inl ''not a schedule''), x_schedule_json = (\<lambda>e. Inr (ce_Name e)), x_refs_json = (\<lambda>rs. ''refs''),
      x_yaml = (\<lambda>t. Inr (YMap [])), x_yaml_text = (\<lambda>y. Inr ''yaml'')\<rparr>"

definition sample_detail :: "string \<Rightarrow> bool \<Rightarrow> experiment_run_detail" where
  "sample_detail i c = \<lparr>rd_UpdatedAt = 1, rd_CreatedAt = 1, rd_CreatedBy = ''ann'', rd_UpdatedBy = ''ann'', rd_IsRemoved = False, rd_ProjectID = ''p1'',
     rd_ExperimentRunID = i, rd_Phase = ''Running'', rd_NotifyID = None, rd_ResiliencyScore = None, rd_Completed = c, rd_RunSequence = 1, rd_Probe = []\<rparr>"

definition sample_experiment :: "string \<Rightarrow> experiment_run_detail list \<Rightarrow> chaos_experiment" where
  "sample_experiment i ds = \<lparr>ex_Name = i, ex_Description = '''', ex_Tags = [], ex_UpdatedAt = 1, ex_CreatedAt = 1, ex_CreatedBy = ''ann'',
     ex_UpdatedBy = ''ann'', ex_IsRemoved = False, ex_ProjectID = ''p1'', ex_ExperimentID = i, ex_CronSyntax = '''', ex_InfraID = ''infra1'',
     ex_ExperimentType = ''experiment'', ex_Revision = [sample_revision [sample_weight ''pod-delete'' 10]], ex_IsCustomExperiment = False,
     ex_RecentExperimentRunDetails = ds, ex_TotalExperimentRuns = int (length ds)\<rparr>"

definition sample_run :: "string \<Rightarrow> string \<Rightarrow> bool \<Rightarrow> experiment_run" where
  "sample_run i r c = \<lparr>er_ProjectID = ''p1'', er_UpdatedAt = 1, er_CreatedAt = 1, er_CreatedBy = ''ann'', er_UpdatedBy = ''ann'', er_IsRemoved = False,
     er_InfraID = ''infra1'', er_ExperimentRunID = r, er_ExperimentID = i, er_ExperimentName = i, er_Phase = ''Running'', er_Probes = [],
     er_ExecutionData = '''', er_RevisionID = ''r1'', er_NotifyID = None, er_ResiliencyScore = None, er_FaultsPassed = None, er_FaultsFailed = None,
     er_FaultsAwaited = None, er_FaultsStopped = None, er_FaultsNA = None, er_TotalFaults = None, er_RunSequence = 1, er_Completed = c\<rparr>"

text \<open>Experiment \<^verbatim>\<open>e1\<close> of project \<^verbatim>\<open>p1\<close> with given run details, and runs.\<close>

definition sample_exp_state :: "experiment_run_detail list \<Rightarrow> experiment_run list \<Rightarrow> probe_doc list \<Rightarrow> exp_state" where
  "sample_exp_state ds rs ps =
     \<lparr>st_users = st_users sample_state, st_projects = st_projects sample_state, st_revoked = [], st_tokens = [],
      st_configs = st_configs sample_state,
      st_infras = [(sample_infra_doc ''infra1'' ''p1'')\<lparr>i_IsActive := True\<rparr>],
      st_environments = st_environments sample_gql_state,
      st_experiments = [sample_experiment ''e1'' ds], st_runs = rs, st_probes = ps\<rparr>"

lemma sample_positional: "positional (x_position sample_exp_env)"
proof -
  have "find_index c ds = Some (case find_index c ds of None \<Rightarrow> 0 | Some i \<Rightarrow> i)" if "d \<in> set ds" "c d" for c ds and d :: experiment_run_detail
    using that by (cases "find_index c ds") (auto simp: find_index_None)
  then show ?thesis
    unfolding positional_def sample_exp_env_def by (auto simp: neq_Nil_conv split: list.splits)
qed

end
