(* ===== verification/Gql_Runs.thy ===== *)
theory Gql_Runs
  imports Gql_Exp_Base
begin

text \<open>
  Experiment runs: the events the subscribers report (\<^verbatim>\<open>ChaosExperimentRunEvent\<close> of \<^verbatim>\<open>pkg/chaos_experiment_run/handler\<close>), the
  run service (\<^verbatim>\<open>pkg/chaos_experiment_run/service.go\<close>), stopping runs (\<^verbatim>\<open>StopExperimentRuns\<close> of \<^verbatim>\<open>pkg/chaos_experiment/handler\<close>),
  the run statistics and their resolvers. Metrics and log lines are left out.

  A transaction works on a tentative state; when its function returns an error, it is aborted and the state is the one before. An
  error of the abort itself only replaces the text of the error.
\<close>

section \<open>Probes of a manifest\<close>

fun annotation_names :: "exp_env \<Rightarrow> labels \<Rightarrow> string + string list" where
  "annotation_names env [] = Inr []"
| "annotation_names env ((k, v) # as) =
     (case x_annotations env v of
        Inl e \<Rightarrow> Inl e
      | Inr ms \<Rightarrow> map_sum id (\<lambda>ns. map an_Name ms @ ns) (annotation_names env as))"

text \<open>The engine an artifact of a template holds: its first artifact, if it has non-empty raw data.\<close>

definition raw_data :: "workflow_template \<Rightarrow> (string \<times> string) option" where
  "raw_data t = (case tp_Artifacts t of
       [] \<Rightarrow> None
     | a # as \<Rightarrow> (case af_Raw a of None \<Rightarrow> None | Some d \<Rightarrow> if d = '''' then None else Some (af_Name a, d)))"

fun template_probes :: "exp_env \<Rightarrow> workflow_template list \<Rightarrow> string + experiment_probes list" where
  "template_probes env [] = Inr []"
| "template_probes env (t # ts) =
     (case raw_data t of
        None \<Rightarrow> template_probes env ts
      | Some (name, data) \<Rightarrow>
          (case x_engine env data of
             Inl e \<Rightarrow> Inl (''failed to unmarshal chaosengine, error: '' @ e)
           | Inr meta \<Rightarrow>
               if foldLower (ce_Kind meta) \<noteq> ''chaosengine'' then template_probes env ts
               else (case annotation_names env (case ce_Annotations meta of None \<Rightarrow> [] | Some as \<Rightarrow> as) of
                   Inl e \<Rightarrow> Inl (''failed to unmarshal experiment annotation object, error: '' @ e)
                 | Inr names \<Rightarrow>
                     map_sum id (\<lambda>ps. \<lparr>pr_FaultName = name, pr_ProbeNames = names\<rparr> # ps) (template_probes env ts))))"

definition ParseProbesFromManifestForRuns :: "exp_env \<Rightarrow> string \<Rightarrow> string \<Rightarrow> string + experiment_probes list" where
  "ParseProbesFromManifestForRuns env wfType manifest =
     (case (if wfType = ''cronexperiment'' then map_sum id cw_Templates (x_cron env manifest)
            else map_sum id wf_Templates (x_workflow env manifest)) of
        Inl e \<Rightarrow> Inl (''failed to unmarshal experiment manifest, error: '' @ e)
      | Inr ts \<Rightarrow> template_probes env ts)"

section \<open>Events of the subscribers\<close>

record experiment_run_request =
  rq_ExperimentID :: string
  rq_NotifyID :: "string option"
  rq_ExperimentRunID :: string
  rq_ExperimentName :: string
  rq_ExecutionData :: string
  rq_InfraID :: infra_identity
  rq_RevisionID :: string
  rq_Completed :: bool
  rq_IsRemoved :: "bool option"
  rq_UpdatedBy :: string

definition zero_exec :: execution_data where
  "zero_exec = \<lparr>x_ExperimentType = '''', x_ExperimentID = '''', x_EventType = '''', x_RevisionID = '''', x_UID = '''', x_Namespace = '''',
     x_Name = '''', x_CreationTimestamp = '''', x_Phase = '''', x_Message = '''', x_StartedAt = '''', x_FinishedAt = '''', x_Nodes = []\<rparr>"

definition ProcessCompletedExperimentRun :: "'s exp_db \<Rightarrow> exp_env \<Rightarrow> execution_data \<Rightarrow> string \<Rightarrow> 's \<Rightarrow> (string + run_metrics) go" where
  "ProcessCompletedExperimentRun x env execData wfID s =
     (case op_GetExperiment x (\<lambda>e. ex_ExperimentID e = wfID) s of
        Inl e \<Rightarrow> Inr (Inl (''failed to get experiment from db on complete, error: '' @ driver_text e))
      | Inr wkf \<Rightarrow> (case compute_metrics (x_order env) (ex_Revision wkf) execData of Inl p \<Rightarrow> Inl p | Inr r \<Rightarrow> Inr (Inr r)))"

text \<open>Execution data that is not base64 is replaced by the experiment's identifier before it is decoded.\<close>

definition execution_of :: "exp_env \<Rightarrow> experiment_run_request \<Rightarrow> string + (string \<times> execution_data)" where
  "execution_of env event =
     (if rq_ExecutionData event = '''' then Inr ('''', zero_exec)
      else let exeData = (case base64_decode std_alphabet (rq_ExecutionData event) of Some d \<Rightarrow> d | None \<Rightarrow> rq_ExperimentID event)
           in map_sum id (\<lambda>v. (exeData, v)) (x_exec env exeData))"

definition event_detail :: "exp_env \<Rightarrow> experiment_run_request \<Rightarrow> chaos_experiment \<Rightarrow> execution_data \<Rightarrow> run_metrics \<Rightarrow> string
    \<Rightarrow> experiment_run_detail" where
  "event_detail env event experiment exec r updatedBy =
     \<lparr>rd_UpdatedAt = now_ms (g_auth (x_gql env)) 2, rd_CreatedAt = now_ms (g_auth (x_gql env)) 1, rd_CreatedBy = '''',
      rd_UpdatedBy = updatedBy, rd_IsRemoved = False, rd_ProjectID = '''', rd_ExperimentRunID = rq_ExperimentRunID event,
      rd_Phase = x_Phase exec, rd_NotifyID = None, rd_ResiliencyScore = Some (ResiliencyScore r), rd_Completed = False,
      rd_RunSequence = wrap64 (ex_TotalExperimentRuns experiment + 1), rd_Probe = []\<rparr>"

text \<open>\<^verbatim>\<open>$push\<close> with \<^verbatim>\<open>$position\<close> 0 and \<^verbatim>\<open>$slice\<close> 10; the counter is the one read before, plus one.\<close>

definition push_detail :: "int \<Rightarrow> chaos_experiment \<Rightarrow> experiment_run_detail \<Rightarrow> chaos_experiment \<Rightarrow> chaos_experiment" where
  "push_detail now experiment d e =
     e\<lparr>ex_UpdatedAt := now, ex_TotalExperimentRuns := wrap64 (ex_TotalExperimentRuns experiment + 1),
       ex_RecentExperimentRunDetails := take 10 (d # ex_RecentExperimentRunDetails e)\<rparr>"

definition event_conds :: "experiment_run_request \<Rightarrow> (experiment_run_detail \<Rightarrow> bool) list" where
  "event_conds event =
     (case rq_NotifyID event of
        None \<Rightarrow> [\<lambda>d. rd_ExperimentRunID d = rq_ExperimentRunID event, \<lambda>d. \<not> rd_Completed d]
      | Some n \<Rightarrow> [\<lambda>d. \<not> rd_Completed d, \<lambda>d. rd_NotifyID d = Some n])"

definition event_run :: "exp_env \<Rightarrow> experiment_run_request \<Rightarrow> chaos_experiment \<Rightarrow> experiment_probes list \<Rightarrow> string \<Rightarrow> execution_data
    \<Rightarrow> run_metrics \<Rightarrow> string \<Rightarrow> experiment_run" where
  "event_run env event experiment prbs exeData exec r updatedBy =
     \<lparr>er_ProjectID = ex_ProjectID experiment, er_UpdatedAt = now_ms (g_auth (x_gql env)) 0, er_CreatedAt = 0, er_CreatedBy = updatedBy,
      er_UpdatedBy = updatedBy, er_IsRemoved = False, er_InfraID = id_InfraID (rq_InfraID event),
      er_ExperimentRunID = rq_ExperimentRunID event, er_ExperimentID = rq_ExperimentID event, er_ExperimentName = '''',
      er_Phase = x_Phase exec, er_Probes = prbs, er_ExecutionData = exeData, er_RevisionID = rq_RevisionID event,
      er_NotifyID = rq_NotifyID event, er_ResiliencyScore = Some (ResiliencyScore r), er_FaultsPassed = Some (ExperimentsPassed r),
      er_FaultsFailed = Some (ExperimentsFailed r), er_FaultsAwaited = Some (ExperimentsAwaited r),
      er_FaultsStopped = Some (ExperimentsStopped r), er_FaultsNA = Some (ExperimentsNA r), er_TotalFaults = Some (TotalExperiments r),
      er_RunSequence = wrap64 (ex_TotalExperimentRuns experiment + 1), er_Completed = rq_Completed event\<rparr>"

text \<open>The writes of the transaction; the second component is the tentative state.\<close>

definition event_writes :: "'s exp_db \<Rightarrow> exp_env \<Rightarrow> experiment_run_request \<Rightarrow> chaos_experiment \<Rightarrow> experiment_probes list \<Rightarrow> string
    \<Rightarrow> execution_data \<Rightarrow> run_metrics \<Rightarrow> string \<Rightarrow> nat \<Rightarrow> 's \<Rightarrow> string option \<times> 's" where
  "event_writes x env event experiment prbs exeData exec r updatedBy n s =
     (let (err, s1) =
        (if n = 0
         then op_UpdateChaosExperiment x (\<lambda>e. ex_ExperimentID e = rq_ExperimentID event)
                (push_detail (now_ms (g_auth (x_gql env)) 3) experiment (event_detail env event experiment exec r updatedBy)) s
         else op_UpdateChaosExperiment x
                (\<lambda>e. ex_ExperimentID e = rq_ExperimentID event \<and> some_detail (event_conds event) e)
                (update_position env (event_conds event)
                   (\<lambda>d. d\<lparr>rd_Phase := x_Phase exec, rd_Completed := rq_Completed event, rd_ExperimentRunID := rq_ExperimentRunID event,
                          rd_Probe := prbs, rd_ResiliencyScore := Some (ResiliencyScore r),
                          rd_UpdatedAt := now_ms (g_auth (x_gql env)) 0, rd_UpdatedBy := updatedBy\<rparr>)) s)
      in case err of
           Some e \<Rightarrow> (Some e, s1)
         | None \<Rightarrow>
             (case op_UpdateExperimentRun x env (event_run env event experiment prbs exeData exec r updatedBy) s1 of
                (Inl e, s2) \<Rightarrow> (Some e, s2)
              | (Inr k, s2) \<Rightarrow>
                  (if k = 0 then Some (''experiment run has been discarded due the duplicate event, workflowId: '' @ rq_ExperimentID event
                                         @ '', workflowRunId: '' @ rq_ExperimentRunID event)
                   else None, s2)))"

definition event_transaction :: "'s exp_db \<Rightarrow> exp_env \<Rightarrow> experiment_run_request \<Rightarrow> chaos_experiment \<Rightarrow> experiment_probes list
    \<Rightarrow> string \<Rightarrow> execution_data \<Rightarrow> run_metrics \<Rightarrow> 's \<Rightarrow> ('s, unit) outcome" where
  "event_transaction x env event experiment prbs exeData exec r s =
     (case CountExperimentRuns x (same_run (rq_ExperimentID event) (rq_ExperimentRunID event) (rq_NotifyID event)) s of
        Inl e \<Rightarrow> (Inr (Inl e), s)
      | Inr n \<Rightarrow>
          (case base64_raw_decode url_alphabet (rq_UpdatedBy event) of
             None \<Rightarrow> (Inl FatalExit, s)
           | Some updatedBy \<Rightarrow>
               (case event_writes x env event experiment prbs exeData exec r updatedBy n s of
                  (Some e, s1) \<Rightarrow> (Inr (Inl e), s)
                | (None, s1) \<Rightarrow>
                    (case CommitTransaction (auth_handle (gql_handle x)) s s1 of
                       (Some e, s2) \<Rightarrow> (Inr (Inl (driver_text e)), s2)
                     | (None, s2) \<Rightarrow> (Inr (Inr ()), s2)))))"

definition ChaosExperimentRunEvent :: "'s exp_db \<Rightarrow> exp_env \<Rightarrow> experiment_run_request \<Rightarrow> 's \<Rightarrow> ('s, string) outcome" where
  "ChaosExperimentRunEvent x env event s =
     (case op_GetExperiment x (\<lambda>e. ex_ExperimentID e = rq_ExperimentID event \<and> \<not> ex_IsRemoved e) s of
        Inl ErrNoDocuments \<Rightarrow>
          (Inr (Inr (''no experiment found with experimentID: '' @ rq_ExperimentID event @ '', experiment run discarded: ''
             @ rq_ExperimentRunID event)), s)
      | Inl e \<Rightarrow> (Inr (Inl (driver_text e)), s)
      | Inr experiment \<Rightarrow>
          if ex_Revision experiment = [] then (Inl IndexOutOfRange, s)
          else (case ParseProbesFromManifestForRuns env (ex_ExperimentType experiment) (rv_ExperimentManifest (last (ex_Revision experiment))) of
              Inl e \<Rightarrow> (Inr (Inl (''unable to parse probes '' @ e)), s)
            | Inr prbs \<Rightarrow>
                (case execution_of env event of
                   Inl e \<Rightarrow> (Inr (Inl e), s)
                 | Inr (exeData, exec) \<Rightarrow>
                     (case (if rq_Completed event then ProcessCompletedExperimentRun x env exec (rq_ExperimentID event) s
                            else Inr (Inr zero_metrics)) of
                        Inl p \<Rightarrow> (Inl p, s)
                      | Inr (Inl e) \<Rightarrow> (Inr (Inl e), s)
                      | Inr (Inr r) \<Rightarrow>
                          (case StartSession (auth_handle (gql_handle x)) s of
                             Some e \<Rightarrow> (Inr (Inl (driver_text e)), s)
                           | None \<Rightarrow>
                               (case event_transaction x env event experiment prbs exeData exec r s of
                                  (Inl p, s') \<Rightarrow> (Inl p, s')
                                | (Inr (Inl e), s') \<Rightarrow> (Inr (Inl e), s')
                                | (Inr (Inr u), s') \<Rightarrow>
                                    (Inr (Inr (''Experiment run received for for ExperimentID: '' @ rq_ExperimentID event
                                       @ '', ExperimentRunID: '' @ rq_ExperimentRunID event)), s')))))))"

text \<open>The resolver passes the event on as it is.\<close>

definition r_ChaosExperimentRun where
  "r_ChaosExperimentRun x env c request = ChaosExperimentRunEvent x env request"

section \<open>Stopping and deleting runs\<close>

definition SendExperimentToSubscriber :: "exp_env \<Rightarrow> string \<Rightarrow> string \<Rightarrow> string \<Rightarrow> string option \<Rightarrow> string option \<Rightarrow> string \<Rightarrow> signal list" where
  "SendExperimentToSubscriber env projectID manifest infraID uname externalData reqType =
     (case x_namespace env manifest of
        Inl e \<Rightarrow> []
      | Inr ns \<Rightarrow> [SubscriberRequest \<lparr>sr_K8sManifest = manifest, sr_RequestType = reqType, sr_ProjectID = projectID, sr_InfraID = infraID,
                     sr_Namespace = ns, sr_Username = uname, sr_ExternalData = externalData\<rparr>])"

definition ProcessExperimentRunDelete :: "'s exp_db \<Rightarrow> exp_env \<Rightarrow> (experiment_run \<Rightarrow> bool) \<Rightarrow> string option \<Rightarrow> experiment_run
    \<Rightarrow> chaos_experiment \<Rightarrow> string \<Rightarrow> 's \<Rightarrow> string option \<times> 's \<times> signal list" where
  "ProcessExperimentRunDelete x env query workflowRunID experimentRun wkf uname s =
     (case UpdateExperimentRunWithQuery x query
             (\<lambda>d. d\<lparr>er_IsRemoved := er_IsRemoved experimentRun, er_UpdatedAt := now_ms (g_auth (x_gql env)) 0, er_UpdatedBy := uname\<rparr>) s of
        (Some e, s') \<Rightarrow> (Some e, s', [])
      | (None, s') \<Rightarrow>
          (None, s', SendExperimentToSubscriber env (er_ProjectID experimentRun) '''' (ex_InfraID wkf) (Some uname) workflowRunID
             ''workflow_run_delete''))"

definition stopped_detail :: "exp_env \<Rightarrow> string \<Rightarrow> experiment_run_detail \<Rightarrow> experiment_run_detail" where
  "stopped_detail env uname d =
     d\<lparr>rd_Phase := ''Stopped'', rd_Completed := True, rd_UpdatedAt := now_ms (g_auth (x_gql env)) 1, rd_UpdatedBy := uname\<rparr>"

definition stopped_run :: "exp_env \<Rightarrow> string \<Rightarrow> experiment_run \<Rightarrow> experiment_run" where
  "stopped_run env uname d =
     d\<lparr>er_Phase := ''Stopped'', er_Completed := True, er_UpdatedAt := now_ms (g_auth (x_gql env)) 0, er_UpdatedBy := uname\<rparr>"

definition ProcessExperimentRunStop :: "'s exp_db \<Rightarrow> exp_env \<Rightarrow> (experiment_run \<Rightarrow> bool) \<Rightarrow> string \<Rightarrow> string option
    \<Rightarrow> chaos_experiment \<Rightarrow> string \<Rightarrow> string \<Rightarrow> 's \<Rightarrow> string option \<times> 's \<times> signal list" where
  "ProcessExperimentRunStop x env query experimentRunID notifyID experiment uname projectID s =
     (case UpdateExperimentRunWithQuery x query (stopped_run env uname) s of
        (Some e, s1) \<Rightarrow> (Some e, s1, [])
      | (None, s1) \<Rightarrow>
          (let mark = (\<lambda>cond. op_UpdateChaosExperiment x
                 (\<lambda>e. ex_ExperimentID e = ex_ExperimentID experiment \<and> ex_ProjectID e = projectID \<and> some_detail [cond] e)
                 (update_position env [cond] (stopped_detail env uname)) s1);
               (err, s2) =
                 (if experimentRunID \<noteq> '''' then
                    (case mark (\<lambda>d. rd_ExperimentRunID d = experimentRunID) of
                       (Some e, s2) \<Rightarrow> (Some (''failed to update experiment collection recent run details: '' @ e), s2)
                     | (None, s2) \<Rightarrow> (None, s2))
                  else (case notifyID of
                      None \<Rightarrow> (None, s1)
                    | Some nid \<Rightarrow>
                        (case mark (\<lambda>d. rd_NotifyID d = Some nid) of
                           (Some e, s2) \<Rightarrow> (Some (''failed to update experiment collection recent run details by notify_id: '' @ e), s2)
                         | (None, s2) \<Rightarrow> (None, s2))))
           in case err of
                Some e \<Rightarrow> (Some e, s2, [])
              | None \<Rightarrow>
                  (None, s2, if experimentRunID \<noteq> ''''
                     then SendExperimentToSubscriber env projectID '''' (ex_InfraID experiment) (Some uname) (Some experimentRunID) ''workflow_run_stop''
                     else [])))"

text \<open>The runs to stop, by their two identifiers.\<close>

fun stop_runs :: "'s exp_db \<Rightarrow> exp_env \<Rightarrow> chaos_experiment \<Rightarrow> string \<Rightarrow> string \<Rightarrow> string \<Rightarrow> (string \<times> string option) list \<Rightarrow> 's
    \<Rightarrow> ('s, bool) infra_outcome" where
  "stop_runs x env experiment projectID experimentID uname [] s = (Inr (Inr True), s, [])"
| "stop_runs x env experiment projectID experimentID uname ((runID, notifyID) # rs) s =
     (if runID = '''' \<and> notifyID = None
      then (Inr (Inl ''missing experiment_run_id and notify_id for experiment run stop''), s, [])
      else (case ProcessExperimentRunStop x env
              (\<lambda>d. er_ExperimentID d = experimentID \<and> er_ProjectID d = projectID \<and> \<not> er_IsRemoved d \<and>
                   (if runID \<noteq> '''' then er_ExperimentRunID d = runID else er_NotifyID d = notifyID))
              runID notifyID experiment uname projectID s of
          (Some e, s', sg) \<Rightarrow> (Inr (Inl e), s', sg)
        | (None, s', sg) \<Rightarrow>
            (let (r, s'', sg') = stop_runs x env experiment projectID experimentID uname rs s' in (r, s'', sg @ sg'))))"

definition nonempty_id :: "string option \<Rightarrow> string option" where
  "nonempty_id i = (case i of Some v \<Rightarrow> if v = '''' then None else Some v | None \<Rightarrow> None)"

definition StopExperimentRuns :: "'s exp_db \<Rightarrow> exp_env \<Rightarrow> string \<Rightarrow> string \<Rightarrow> string option \<Rightarrow> string option \<Rightarrow> string \<Rightarrow> 's
    \<Rightarrow> ('s, bool) infra_outcome" where
  "StopExperimentRuns x env projectID experimentID experimentRunID notifyID uname s =
     (case op_GetExperiment x (\<lambda>e. ex_ExperimentID e = experimentID \<and> ex_ProjectID e = projectID \<and> \<not> ex_IsRemoved e) s of
        Inl e \<Rightarrow> (Inr (Inl (driver_text e)), s, [])
      | Inr experiment \<Rightarrow>
          (case (nonempty_id experimentRunID, nonempty_id notifyID) of
             (Some runID, _) \<Rightarrow> stop_runs x env experiment projectID experimentID uname [(runID, None)] s
           | (None, Some nid) \<Rightarrow> stop_runs x env experiment projectID experimentID uname [('''', Some nid)] s
           | (None, None) \<Rightarrow>
               (case GetExperimentRuns x (\<lambda>d. er_ExperimentID d = experimentID \<and> er_ProjectID d = projectID \<and> \<not> er_IsRemoved d) s of
                  Inl e \<Rightarrow> (Inr (Inl e), s, [])
                | Inr ds \<Rightarrow>
                    (let rs = filter (\<lambda>d. er_Phase d \<in> {''Running'', ''Timeout'', ''Queued''} \<and> \<not> er_Completed d) ds
                     in if rs = [] \<and> ex_CronSyntax experiment = ''''
                        then (Inr (Inl ''no running, timeout, or queued experiments found''), s, [])
                        else stop_runs x env experiment projectID experimentID uname
                               (map (\<lambda>d. (er_ExperimentRunID d, er_NotifyID d)) rs) s))))"

text \<open>Guarded resolvers whose service also yields signals; the stop resolver passes an empty user name.\<close>

definition with_role_sig :: "'s gql_db \<Rightarrow> gql_env \<Rightarrow> gctx \<Rightarrow> string \<Rightarrow> string \<Rightarrow> ('s \<Rightarrow> ('s, 'a) infra_outcome) \<Rightarrow> 's \<Rightarrow> ('s, 'a) infra_outcome" where
  "with_role_sig g env c projectID query k s =
     (case ValidateRole g env c projectID (gql_rules query) AcceptedInvitation s of
        Some err \<Rightarrow> (Inr (Inl err), s, [])
      | None \<Rightarrow> k s)"

definition r_StopExperimentRuns where
  "r_StopExperimentRuns x env c projectID experimentID experimentRunID notifyID =
     with_role_sig (gql_handle x) (x_gql env) c projectID ''StopChaosExperiment''
       (StopExperimentRuns x env projectID experimentID experimentRunID notifyID '''')"

section \<open>Statistics\<close>

record run_stats =
  rs_Total :: int
  rs_Completed :: int
  rs_Terminated :: int
  rs_Running :: int
  rs_Stopped :: int
  rs_Errored :: int

definition GetExperimentRunStats :: "'s exp_db \<Rightarrow> string \<Rightarrow> 's \<Rightarrow> string + run_stats" where
  "GetExperimentRunStats x projectID s =
     (case GroupBy (exp_runs x) (\<lambda>d. er_ProjectID d = projectID) er_Phase s of
        Inl e \<Rightarrow> Inl (driver_text e)
      | Inr gs \<Rightarrow>
          (let cnt = (\<lambda>p. case map_of gs p of None \<Rightarrow> 0 | Some n \<Rightarrow> int n) in
           Inr \<lparr>rs_Total = foldl (\<lambda>t (p, n). t + int n) 0 gs, rs_Completed = cnt ''Completed'', rs_Terminated = cnt ''Terminated'',
                rs_Running = cnt ''Running'', rs_Stopped = cnt ''Stopped'', rs_Errored = cnt ''Error''\<rparr>))"

definition r_GetExperimentRunStats where
  "r_GetExperimentRunStats x env c projectID s =
     with_role (gql_handle x) (x_gql env) c projectID ''ListWorkflowRuns'' (\<lambda>s. (Inr (GetExperimentRunStats x projectID s), s)) s"

end
