(* ===== verification/Gql_Probes.thy ===== *)
theory Gql_Probes
  imports Gql_Runs
begin

text \<open>
  Resilience probes: the service of \<^verbatim>\<open>pkg/probe/handler\<close> (creation, update, deletion, reading), the property helpers of
  \<^verbatim>\<open>pkg/probe/utils\<close>, \<^verbatim>\<open>GetOutputProbe\<close> of the probe schema, the manifest of a probe and its insertion into the chaos engines of a
  workflow or cron workflow, and the resolvers. Requests, documents and answers share the property records; only the source of a
  command probe is a text outside the database. The four attribute structs of the handler are the parts of one record
  of attributes. Two fields of a probe document that nothing but their zero value is ever written to are left out.
\<close>

section \<open>Requests and answers\<close>

record cmd_request = common_properties +
  kr_Command :: string
  kr_Comparator :: comparator
  kr_Source :: "string option"

record probe_request =
  pq_Name :: string
  pq_Description :: "string option"
  pq_Tags :: "string list"
  pq_Type :: string
  pq_InfrastructureType :: string
  pq_HTTP :: "http_probe option"
  pq_CMD :: "cmd_request option"
  pq_PROM :: "prom_probe option"
  pq_K8S :: "k8s_probe option"

record probe_view =
  pv_ProjectID :: string
  pv_Name :: string
  pv_Description :: string
  pv_Tags :: "string list"
  pv_CreatedAt :: string
  pv_UpdatedAt :: string
  pv_Type :: string
  pv_InfrastructureType :: string
  pv_CreatedBy :: string
  pv_UpdatedBy :: string
  pv_HTTP :: "http_probe option"
  pv_CMD :: "cmd_request option"
  pv_PROM :: "prom_probe option"
  pv_K8S :: "k8s_probe option"

section \<open>Properties of the four types\<close>

definition AddKubernetesHTTPProbeProperties :: "probe_doc \<Rightarrow> probe_request \<Rightarrow> probe_doc go" where
  "AddKubernetesHTTPProbeProperties newProbe request =
     (case pq_HTTP request of
        None \<Rightarrow> Inl NilDereference
      | Some p \<Rightarrow> Inr (newProbe\<lparr>pb_HTTP := Some
          \<lparr>cp_ProbeTimeout = cp_ProbeTimeout p, cp_Interval = cp_Interval p, cp_PollingInterval = cp_PollingInterval p,
           cp_InitialDelay = cp_InitialDelay p, cp_EvaluationTimeout = cp_EvaluationTimeout p, cp_Retry = cp_Retry p,
           cp_Attempt = cp_Attempt p, cp_StopOnFailure = cp_StopOnFailure p, hp_URL = hp_URL p, hp_GET = hp_GET p,
           hp_POST = (if hp_GET p \<noteq> None then None else hp_POST p), hp_InsecureSkipVerify = hp_InsecureSkipVerify p\<rparr>\<rparr>))"

text \<open>The source is decoded; a JSON null gives no source. Fields of the type that are not copied have their zero value.\<close>

definition AddKubernetesCMDProbeProperties :: "exp_env \<Rightarrow> probe_doc \<Rightarrow> probe_request \<Rightarrow> (string + probe_doc) go" where
  "AddKubernetesCMDProbeProperties env newProbe request =
     (case pq_CMD request of
        None \<Rightarrow> Inl NilDereference
      | Some p \<Rightarrow>
          let stored = (\<lambda>src. newProbe\<lparr>pb_CMD := Some
                \<lparr>cp_ProbeTimeout = cp_ProbeTimeout p, cp_Interval = cp_Interval p, cp_PollingInterval = cp_PollingInterval p,
                 cp_InitialDelay = cp_InitialDelay p, cp_EvaluationTimeout = cp_EvaluationTimeout p, cp_Retry = cp_Retry p,
                 cp_Attempt = cp_Attempt p, cp_StopOnFailure = cp_StopOnFailure p, kp_Command = kr_Command p,
                 kp_Comparator = kr_Comparator p, kp_Source = src\<rparr>\<rparr>)
          in case kr_Source p of
               None \<Rightarrow> Inr (Inr (stored None))
             | Some t \<Rightarrow>
                 (case x_source env t of
                    Inl e \<Rightarrow> Inr (Inl e)
                  | Inr src \<Rightarrow> Inr (Inr (stored (map_option (\<lambda>d. d\<lparr>sd_other := ''''\<rparr>) src)))))"

definition AddPROMProbeProperties :: "probe_doc \<Rightarrow> probe_request \<Rightarrow> probe_doc go" where
  "AddPROMProbeProperties newProbe request =
     (case pq_PROM request of
        None \<Rightarrow> Inl NilDereference
      | Some p \<Rightarrow> Inr (newProbe\<lparr>pb_PROM := Some
          \<lparr>cp_ProbeTimeout = cp_ProbeTimeout p, cp_Interval = cp_Interval p, cp_PollingInterval = cp_PollingInterval p,
           cp_InitialDelay = cp_InitialDelay p, cp_EvaluationTimeout = cp_EvaluationTimeout p, cp_Retry = cp_Retry p,
           cp_Attempt = cp_Attempt p, cp_StopOnFailure = cp_StopOnFailure p, pp_Endpoint = pp_Endpoint p, pp_Query = pp_Query p,
           pp_QueryPath = pp_QueryPath p, pp_Comparator = pp_Comparator p\<rparr>\<rparr>))"

definition AddK8SProbeProperties :: "probe_doc \<Rightarrow> probe_request \<Rightarrow> probe_doc go" where
  "AddK8SProbeProperties newProbe request =
     (case pq_K8S request of
        None \<Rightarrow> Inl NilDereference
      | Some p \<Rightarrow> Inr (newProbe\<lparr>pb_K8S := Some
          \<lparr>cp_ProbeTimeout = cp_ProbeTimeout p, cp_Interval = cp_Interval p, cp_PollingInterval = cp_PollingInterval p,
           cp_InitialDelay = None, cp_EvaluationTimeout = cp_EvaluationTimeout p, cp_Retry = cp_Retry p,
           cp_Attempt = cp_Attempt p, cp_StopOnFailure = cp_StopOnFailure p, k8_Group = k8_Group p, k8_Version = k8_Version p,
           k8_Resource = k8_Resource p, k8_ResourceNames = k8_ResourceNames p, k8_Namespace = k8_Namespace p,
           k8_FieldSelector = k8_FieldSelector p, k8_LabelSelector = k8_LabelSelector p, k8_Operation = k8_Operation p\<rparr>\<rparr>))"

section \<open>Answers\<close>

text \<open>
  The content type, body and path of a POST are copied only if the answer under construction already has them, which it
  never does.
\<close>

definition out_post :: "post_method \<Rightarrow> post_method" where
  "out_post q = (let r = \<lparr>pm_ContentType = None, pm_Body = None, pm_BodyPath = None, pm_Criteria = pm_Criteria q, pm_ResponseCode = pm_ResponseCode q\<rparr> in
     r\<lparr>pm_ContentType := (if pm_ContentType r \<noteq> None then pm_ContentType q else None),
       pm_Body := (if pm_Body r \<noteq> None then pm_Body q else None),
       pm_BodyPath := (if pm_BodyPath r \<noteq> None then pm_BodyPath q else None)\<rparr>)"

definition out_http :: "http_probe \<Rightarrow> http_probe" where
  "out_http p =
     \<lparr>cp_ProbeTimeout = cp_ProbeTimeout p, cp_Interval = cp_Interval p, cp_PollingInterval = cp_PollingInterval p,
      cp_InitialDelay = cp_InitialDelay p, cp_EvaluationTimeout = cp_EvaluationTimeout p, cp_Retry = cp_Retry p,
      cp_Attempt = cp_Attempt p, cp_StopOnFailure = cp_StopOnFailure p, hp_URL = hp_URL p, hp_GET = hp_GET p,
      hp_POST = (if hp_GET p \<noteq> None then None else map_option out_post (hp_POST p)), hp_InsecureSkipVerify = hp_InsecureSkipVerify p\<rparr>"

definition out_cmd :: "exp_env \<Rightarrow> cmd_probe \<Rightarrow> cmd_request" where
  "out_cmd env p =
     \<lparr>cp_ProbeTimeout = cp_ProbeTimeout p, cp_Interval = cp_Interval p, cp_PollingInterval = cp_PollingInterval p,
      cp_InitialDelay = cp_InitialDelay p, cp_EvaluationTimeout = cp_EvaluationTimeout p, cp_Retry = cp_Retry p,
      cp_Attempt = cp_Attempt p, cp_StopOnFailure = cp_StopOnFailure p, kr_Command = kp_Command p,
      kr_Comparator = kp_Comparator p, kr_Source = map_option (x_source_json env) (kp_Source p)\<rparr>"

definition out_common :: "probe_doc \<Rightarrow> probe_view" where
  "out_common d =
     \<lparr>pv_ProjectID = pb_ProjectID d, pv_Name = pb_Name d, pv_Description = pb_Description d, pv_Tags = pb_Tags d,
      pv_CreatedAt = itoa (pb_CreatedAt d), pv_UpdatedAt = itoa (pb_UpdatedAt d), pv_Type = pb_Type d,
      pv_InfrastructureType = pb_InfrastructureType d, pv_CreatedBy = pb_CreatedBy d, pv_UpdatedBy = pb_UpdatedBy d,
      pv_HTTP = None, pv_CMD = None, pv_PROM = None, pv_K8S = None\<rparr>"

definition GetOutputProbe :: "exp_env \<Rightarrow> probe_doc \<Rightarrow> probe_view go" where
  "GetOutputProbe env d =
     (let r = out_common d in
      if pb_InfrastructureType d \<noteq> ''Kubernetes'' then Inr r
      else if pb_Type d = ''httpProbe'' then
        (case pb_HTTP d of None \<Rightarrow> Inl NilDereference | Some p \<Rightarrow> Inr (r\<lparr>pv_HTTP := Some (out_http p)\<rparr>))
      else if pb_Type d = ''cmdProbe'' then
        (case pb_CMD d of None \<Rightarrow> Inl NilDereference | Some p \<Rightarrow> Inr (r\<lparr>pv_CMD := Some (out_cmd env p)\<rparr>))
      else if pb_Type d = ''promProbe'' then
        (case pb_PROM d of None \<Rightarrow> Inl NilDereference | Some p \<Rightarrow> Inr (r\<lparr>pv_PROM := Some p\<rparr>))
      else if pb_Type d = ''k8sProbe'' then
        (case pb_K8S d of None \<Rightarrow> Inl NilDereference | Some p \<Rightarrow> Inr (r\<lparr>pv_K8S := Some p\<rparr>))
      else Inr r)"

section \<open>The service\<close>

definition ValidateUniqueProbe :: "'s exp_db \<Rightarrow> string \<Rightarrow> string \<Rightarrow> 's \<Rightarrow> string + bool" where
  "ValidateUniqueProbe x probeName projectID s = IsProbeUnique x (live_probe projectID probeName) s"

definition new_probe :: "exp_env \<Rightarrow> probe_request \<Rightarrow> string \<Rightarrow> string \<Rightarrow> probe_doc" where
  "new_probe env request projectID uname =
     \<lparr>pb_ProjectID = projectID, pb_Name = pq_Name request,
      pb_Description = (case pq_Description request of None \<Rightarrow> '''' | Some t \<Rightarrow> t), pb_Tags = pq_Tags request,
      pb_UpdatedAt = now_ms (g_auth (x_gql env)) 0, pb_CreatedAt = now_ms (g_auth (x_gql env)) 0, pb_CreatedBy = uname,
      pb_UpdatedBy = uname, pb_IsRemoved = False, pb_Type = pq_Type request,
      pb_InfrastructureType = pq_InfrastructureType request, pb_HTTP = None, pb_CMD = None, pb_PROM = None, pb_K8S = None\<rparr>"

text \<open>The chain of conditions on the type and the properties of a request.\<close>

definition add_properties :: "exp_env \<Rightarrow> probe_doc \<Rightarrow> probe_request \<Rightarrow> (string + probe_doc) go" where
  "add_properties env newProbe request =
     (if pq_Type request = ''httpProbe'' \<and> pq_HTTP request \<noteq> None then
        map_sum id Inr (AddKubernetesHTTPProbeProperties newProbe request)
      else if pq_Type request = ''cmdProbe'' \<and> pq_CMD request \<noteq> None then
        map_sum id (map_sum (\<lambda>e. ''error adding cmd probe properties: '' @ e) id) (AddKubernetesCMDProbeProperties env newProbe request)
      else if pq_Type request = ''promProbe'' \<and> pq_PROM request \<noteq> None then
        map_sum id Inr (AddPROMProbeProperties newProbe request)
      else if pq_Type request = ''k8sProbe'' \<and> pq_K8S request \<noteq> None then
        map_sum id Inr (AddK8SProbeProperties newProbe request)
      else if pq_Type request = ''httpProbe'' then Inr (Inl (''http probe type'' @ [CHR 0x27] @ ''s properties are empty''))
      else if pq_Type request = ''cmdProbe'' then Inr (Inl (''cmd probe type'' @ [CHR 0x27] @ ''s properties are empty''))
      else if pq_Type request = ''promProbe'' then Inr (Inl (''prom probe type'' @ [CHR 0x27] @ ''s properties are empty''))
      else if pq_Type request = ''k8sProbe'' then Inr (Inl (''k8s probe type'' @ [CHR 0x27] @ ''s properties are empty''))
      else Inr (Inr newProbe))"

definition AddProbe :: "'s exp_db \<Rightarrow> exp_env \<Rightarrow> gctx \<Rightarrow> probe_request \<Rightarrow> string \<Rightarrow> 's \<Rightarrow> ('s, probe_view) outcome" where
  "AddProbe x env c probe projectID s =
     (case ValidateUniqueProbe x (pq_Name probe) projectID s of
        Inl e \<Rightarrow> (Inr (Inl e), s)
      | Inr isUnique \<Rightarrow>
          if \<not> isUnique then (Inr (Inl ''probe already exists''), s)
          else (case GetUsernameFromContext (gql_handle x) (x_gql env) c s of
              Inl p \<Rightarrow> (Inl p, s)
            | Inr (Inl e) \<Rightarrow> (Inr (Inl e), s)
            | Inr (Inr uname) \<Rightarrow>
                (case add_properties env (new_probe env probe projectID uname) probe of
                   Inl p \<Rightarrow> (Inl p, s)
                 | Inr (Inl e) \<Rightarrow> (Inr (Inl e), s)
                 | Inr (Inr newProbe) \<Rightarrow>
                     (case CreateProbe x newProbe s of
                        (Some e, s') \<Rightarrow> (Inr (Inl e), s')
                      | (None, s') \<Rightarrow> (map_sum id Inr (GetOutputProbe env newProbe), s')))))"

text \<open>An update keeps type, infrastructure type and creation of the stored probe; the properties of its type come from the request.\<close>

definition updated_probe :: "exp_env \<Rightarrow> probe_request \<Rightarrow> string \<Rightarrow> string \<Rightarrow> probe_doc \<Rightarrow> probe_doc" where
  "updated_probe env request projectID uname pr =
     (new_probe env request projectID uname)\<lparr>pb_CreatedAt := pb_CreatedAt pr, pb_CreatedBy := pb_CreatedBy pr,
        pb_Type := pb_Type pr, pb_InfrastructureType := pb_InfrastructureType pr\<rparr>"

definition update_properties :: "exp_env \<Rightarrow> probe_doc \<Rightarrow> probe_request \<Rightarrow> (string + probe_doc) go" where
  "update_properties env newProbe request =
     (if pb_InfrastructureType newProbe \<noteq> ''Kubernetes'' then Inr (Inr newProbe)
      else if pb_Type newProbe = ''httpProbe'' then map_sum id Inr (AddKubernetesHTTPProbeProperties newProbe request)
      else if pb_Type newProbe = ''cmdProbe'' then AddKubernetesCMDProbeProperties env newProbe request
      else if pb_Type newProbe = ''promProbe'' then map_sum id Inr (AddPROMProbeProperties newProbe request)
      else if pb_Type newProbe = ''k8sProbe'' then map_sum id Inr (AddK8SProbeProperties newProbe request)
      else Inr (Inr newProbe))"

definition missing_properties :: "probe_request \<Rightarrow> string option" where
  "missing_properties request =
     (if pq_Type request = ''httpProbe'' \<and> pq_HTTP request = None then Some (''http probe type'' @ [CHR 0x27] @ ''s properties are empty'')
      else if pq_Type request = ''cmdProbe'' \<and> pq_CMD request = None then Some (''cmd probe type'' @ [CHR 0x27] @ ''s properties are empty'')
      else if pq_Type request = ''promProbe'' \<and> pq_PROM request = None then Some (''prom probe type'' @ [CHR 0x27] @ ''s properties are empty'')
      else if pq_Type request = ''k8sProbe'' \<and> pq_K8S request = None then Some (''k8s probe type'' @ [CHR 0x27] @ ''s properties are empty'')
      else None)"

text \<open>\<^verbatim>\<open>$set\<close> of a document: properties that are nil are omitted and keep what is stored.\<close>

definition set_probe :: "probe_doc \<Rightarrow> probe_doc \<Rightarrow> probe_doc" where
  "set_probe new old = new\<lparr>pb_HTTP := (if pb_HTTP new = None then pb_HTTP old else pb_HTTP new),
     pb_CMD := (if pb_CMD new = None then pb_CMD old else pb_CMD new),
     pb_PROM := (if pb_PROM new = None then pb_PROM old else pb_PROM new),
     pb_K8S := (if pb_K8S new = None then pb_K8S old else pb_K8S new)\<rparr>"

definition UpdateProbe :: "'s exp_db \<Rightarrow> exp_env \<Rightarrow> gctx \<Rightarrow> probe_request \<Rightarrow> string \<Rightarrow> 's \<Rightarrow> ('s, string) outcome" where
  "UpdateProbe x env c request projectID s =
     (case GetUsernameFromContext (gql_handle x) (x_gql env) c s of
        Inl p \<Rightarrow> (Inl p, s)
      | Inr (Inl e) \<Rightarrow> (Inr (Inl e), s)
      | Inr (Inr uname) \<Rightarrow>
          (case GetProbeByName x (pq_Name request) projectID s of
             Inl e \<Rightarrow> (Inr (Inl e), s)
           | Inr pr \<Rightarrow>
               (case update_properties env (updated_probe env request projectID uname pr) request of
                  Inl p \<Rightarrow> (Inl p, s)
                | Inr (Inl e) \<Rightarrow> (Inr (Inl e), s)
                | Inr (Inr newProbe) \<Rightarrow>
                    (case missing_properties request of
                       Some e \<Rightarrow> (Inr (Inl e), s)
                     | None \<Rightarrow>
                         (case op_UpdateProbe x (live_probe projectID (pq_Name request)) (set_probe newProbe) s of
                            (Some e, s') \<Rightarrow> (Inr (Inl e), s')
                          | (None, s') \<Rightarrow> (Inr (Inr ''Updated successfully''), s'))))))"

definition GetProbe :: "'s exp_db \<Rightarrow> exp_env \<Rightarrow> string \<Rightarrow> string \<Rightarrow> 's \<Rightarrow> (string + probe_view) go" where
  "GetProbe x env probeName projectID s =
     (case GetProbeByName x probeName projectID s of
        Inl e \<Rightarrow> Inr (Inl e)
      | Inr probe \<Rightarrow> map_sum id Inr (GetOutputProbe env probe))"

text \<open>The error of \<^verbatim>\<open>GetUsername\<close> is not looked at: the update is then recorded without a name.\<close>

definition removed_probe :: "exp_env \<Rightarrow> string \<Rightarrow> probe_doc \<Rightarrow> probe_doc" where
  "removed_probe env uname d = d\<lparr>pb_IsRemoved := True, pb_UpdatedAt := now_ms (g_auth (x_gql env)) 0, pb_UpdatedBy := uname\<rparr>"

definition DeleteProbe :: "'s exp_db \<Rightarrow> exp_env \<Rightarrow> gctx \<Rightarrow> string \<Rightarrow> string \<Rightarrow> 's \<Rightarrow> ('s, bool) outcome" where
  "DeleteProbe x env c probeName projectID s =
     (case GetProbeByName x probeName projectID s of
        Inl e \<Rightarrow> (Inr (Inl e), s)
      | Inr d \<Rightarrow>
          (case GetUsername (gql_handle x) (x_gql env) (gc_token c) s of
             Inl p \<Rightarrow> (Inl p, s)
           | Inr u \<Rightarrow>
               (case op_UpdateProbe x (live_probe projectID probeName) (removed_probe env (case u of Inl e \<Rightarrow> '''' | Inr n \<Rightarrow> n)) s of
                  (Some e, s') \<Rightarrow> (Inr (Inl e), s')
                | (None, s') \<Rightarrow> (Inr (Inr True), s'))))"

section \<open>The manifest of a probe\<close>

definition deref :: "'a \<Rightarrow> 'a option \<Rightarrow> 'a" where
  "deref z v = (case v of None \<Rightarrow> z | Some w \<Rightarrow> w)"

definition run_properties :: "'a common_properties_scheme \<Rightarrow> string \<Rightarrow> run_property" where
  "run_properties p delay =
     \<lparr>rp_ProbeTimeout = cp_ProbeTimeout p, rp_Interval = cp_Interval p, rp_Retry = deref 0 (cp_Retry p), rp_Attempt = deref 0 (cp_Attempt p),
      rp_ProbePollingInterval = deref '''' (cp_PollingInterval p), rp_InitialDelaySeconds = 0, rp_InitialDelay = delay,
      rp_EvaluationTimeout = deref '''' (cp_EvaluationTimeout p), rp_StopOnFailure = deref False (cp_StopOnFailure p)\<rparr>"

definition zero_http :: http_inputs where
  "zero_http = \<lparr>hi_URL = '''', hi_InsecureSkipVerify = False, hi_Get = None, hi_Post = None\<rparr>"

definition post_inputs :: "post_method \<Rightarrow> post_input" where
  "post_inputs q = \<lparr>pi_ContentType = deref '''' (pm_ContentType q), pi_Body = deref '''' (pm_Body q),
     pi_BodyPath = deref '''' (pm_BodyPath q), pi_Criteria = pm_Criteria q, pi_ResponseCode = pm_ResponseCode q\<rparr>"

text \<open>The inputs are assigned anew for the method, after the flag was set.\<close>

definition http_probe_inputs :: "http_probe \<Rightarrow> http_inputs" where
  "http_probe_inputs p =
     (let i = (case hp_InsecureSkipVerify p of None \<Rightarrow> zero_http | Some b \<Rightarrow> zero_http\<lparr>hi_InsecureSkipVerify := b\<rparr>) in
      case hp_GET p of
        Some q \<Rightarrow> zero_http\<lparr>hi_URL := hp_URL p, hi_Get := Some q\<rparr>
      | None \<Rightarrow> (case hp_POST p of
            Some q \<Rightarrow> zero_http\<lparr>hi_URL := hp_URL p, hi_Post := Some (post_inputs q)\<rparr>
          | None \<Rightarrow> i))"

text \<open>A source that cannot be decoded is replaced by an empty one.\<close>

definition cmd_source :: "exp_env \<Rightarrow> string \<Rightarrow> source_details" where
  "cmd_source env t = (case x_source env t of Inr (Some d) \<Rightarrow> d | _ \<Rightarrow> \<lparr>sd_copied = '''', sd_other = ''''\<rparr>)"

definition k8s_probe_inputs :: "k8s_probe \<Rightarrow> k8s_inputs" where
  "k8s_probe_inputs p = \<lparr>ki_Group = deref '''' (k8_Group p), ki_Version = k8_Version p, ki_Resource = k8_Resource p,
     ki_ResourceNames = '''', ki_Namespace = deref '''' (k8_Namespace p), ki_FieldSelector = deref '''' (k8_FieldSelector p),
     ki_LabelSelector = deref '''' (k8_LabelSelector p), ki_Operation = k8_Operation p\<rparr>"

definition attributes :: "probe_view \<Rightarrow> string \<Rightarrow> run_property \<Rightarrow> probe_attributes" where
  "attributes v mode rp = \<lparr>pa_Name = pv_Name v, pa_Type = pv_Type v, pa_HTTP = None, pa_K8s = None, pa_Cmd = None, pa_Prom = None,
     pa_RunProperties = rp, pa_Mode = mode, pa_Data = ''''\<rparr>"

text \<open>\<^verbatim>\<open>None\<close>: the type is none of the four, and the manifest is empty.\<close>

definition probe_attributes_of :: "exp_env \<Rightarrow> probe_view \<Rightarrow> string \<Rightarrow> probe_attributes option go" where
  "probe_attributes_of env v mode =
     (if pv_Type v = ''httpProbe'' then
        (case pv_HTTP v of
           None \<Rightarrow> Inl NilDereference
         | Some p \<Rightarrow> Inr (Some ((attributes v mode (run_properties p ''''))\<lparr>pa_HTTP := Some (http_probe_inputs p)\<rparr>)))
      else if pv_Type v = ''cmdProbe'' then
        (case pv_CMD v of
           None \<Rightarrow> Inl NilDereference
         | Some p \<Rightarrow> Inr (Some ((attributes v mode (run_properties p (deref '''' (cp_InitialDelay p))))\<lparr>pa_Cmd := Some
             \<lparr>ci_Command = kr_Command p, ci_Comparator = kr_Comparator p, ci_Source = map_option (cmd_source env) (kr_Source p)\<rparr>\<rparr>)))
      else if pv_Type v = ''promProbe'' then
        (case pv_PROM v of
           None \<Rightarrow> Inl NilDereference
         | Some p \<Rightarrow> Inr (Some ((attributes v mode (run_properties p (deref '''' (cp_InitialDelay p))))\<lparr>pa_Prom := Some
             \<lparr>pri_Endpoint = pp_Endpoint p, pri_Query = deref '''' (pp_Query p), pri_QueryPath = deref '''' (pp_QueryPath p),
              pri_Comparator = pp_Comparator p\<rparr>\<rparr>)))
      else if pv_Type v = ''k8sProbe'' then
        (case pv_K8S v of
           None \<Rightarrow> Inl NilDereference
         | Some p \<Rightarrow> Inr (Some ((attributes v mode (run_properties p (deref '''' (cp_InitialDelay p))))\<lparr>pa_K8s := Some (k8s_probe_inputs p)\<rparr>)))
      else Inr None)"

definition GenerateProbeManifest :: "exp_env \<Rightarrow> probe_view \<Rightarrow> string \<Rightarrow> (string + string) go" where
  "GenerateProbeManifest env v mode =
     (case probe_attributes_of env v mode of
        Inl p \<Rightarrow> Inl p
      | Inr None \<Rightarrow> Inr (Inr '''')
      | Inr (Some a) \<Rightarrow> Inr (x_probe_json env a))"

definition GetProbeYAMLData :: "'s exp_db \<Rightarrow> exp_env \<Rightarrow> string \<Rightarrow> string \<Rightarrow> string \<Rightarrow> 's \<Rightarrow> (string + string) go" where
  "GetProbeYAMLData x env probeName mode projectID s =
     (case GetProbeByName x probeName projectID s of
        Inl e \<Rightarrow> Inr (Inl e)
      | Inr probe \<Rightarrow> (case GetOutputProbe env probe of Inl p \<Rightarrow> Inl p | Inr v \<Rightarrow> GenerateProbeManifest env v mode))"

section \<open>Probes in the manifest of an experiment\<close>

text \<open>The attributes appended for a decoded manifest of a probe of a type.\<close>

definition copy_http :: "http_inputs option \<Rightarrow> http_inputs" where
  "copy_http i = deref zero_http i"

definition appended :: "string \<Rightarrow> probe_attributes \<Rightarrow> probe_attributes" where
  "appended ty a =
     (let b = \<lparr>pa_Name = pa_Name a, pa_Type = pa_Type a, pa_HTTP = None, pa_K8s = None, pa_Cmd = None, pa_Prom = None,
               pa_RunProperties = pa_RunProperties a, pa_Mode = pa_Mode a, pa_Data = ''''\<rparr>;
          noCmp = \<lparr>cmp_Type = '''', cmp_Value = '''', cmp_Criteria = ''''\<rparr> in
      if ty = ''httpProbe'' then b\<lparr>pa_HTTP := Some (copy_http (pa_HTTP a))\<rparr>
      else if ty = ''cmdProbe'' then b\<lparr>pa_Cmd := Some (deref \<lparr>ci_Command = '''', ci_Comparator = noCmp, ci_Source = None\<rparr> (pa_Cmd a))\<rparr>
      else if ty = ''promProbe'' then b\<lparr>pa_Prom := Some (deref \<lparr>pri_Endpoint = '''', pri_Query = '''', pri_QueryPath = '''', pri_Comparator = noCmp\<rparr> (pa_Prom a))\<rparr>
      else b\<lparr>pa_K8s := Some (deref \<lparr>ki_Group = '''', ki_Version = '''', ki_Resource = '''', ki_ResourceNames = '''', ki_Namespace = '''',
              ki_FieldSelector = '''', ki_LabelSelector = '''', ki_Operation = ''''\<rparr> (pa_K8s a))\<rparr>)"

definition probe_kind :: "string \<Rightarrow> string" where
  "probe_kind ty = (if ty = ''httpProbe'' then ''http'' else if ty = ''cmdProbe'' then ''cmd'' else if ty = ''promProbe'' then ''prom'' else ''k8s'')"

definition append_probe :: "probe_attributes list option \<Rightarrow> probe_attributes \<Rightarrow> probe_attributes list option" where
  "append_probe ps a = Some (deref [] ps @ [a])"

text \<open>
  One annotated probe. The cron variant does not look at the error of the manifest and decodes the empty text it comes with.
\<close>

definition reference_probe :: "'s exp_db \<Rightarrow> exp_env \<Rightarrow> bool \<Rightarrow> string \<Rightarrow> probe_annotation \<Rightarrow> probe_attributes list option \<Rightarrow> 's
    \<Rightarrow> (string + probe_attributes list option) go" where
  "reference_probe x env cron projectID a ps s =
     (case GetProbeByName x (an_Name a) projectID s of
        Inl e \<Rightarrow> Inr (Inl (''failed to fetch probe details, error: '' @ e))
      | Inr probe \<Rightarrow>
          (case GetOutputProbe env probe of
             Inl p \<Rightarrow> Inl p
           | Inr v \<Rightarrow>
               (case GenerateProbeManifest env v (an_Mode a) of
                  Inl p \<Rightarrow> Inl p
                | Inr r \<Rightarrow>
                    (case (case r of Inl e \<Rightarrow> if cron then Inr '''' else Inl e | Inr t \<Rightarrow> Inr t) of
                       Inl e \<Rightarrow> Inr (Inl (''failed to generate probe manifest, error: '' @ e))
                     | Inr t \<Rightarrow>
                         if pb_Type probe \<notin> {''httpProbe'', ''cmdProbe'', ''promProbe'', ''k8sProbe''} then Inr (Inr ps)
                         else (case x_probe env t of
                             Inl e \<Rightarrow> Inr (Inl (''failed to unmarshal '' @ probe_kind (pb_Type probe) @ '' probe, error: '' @ e))
                           | Inr pa \<Rightarrow> Inr (Inr (append_probe ps (appended (pb_Type probe) pa))))))))"

fun reference_probes :: "'s exp_db \<Rightarrow> exp_env \<Rightarrow> bool \<Rightarrow> string \<Rightarrow> probe_annotation list \<Rightarrow> probe_attributes list option \<Rightarrow> 's
    \<Rightarrow> (string + probe_attributes list option) go" where
  "reference_probes x env cron projectID [] ps s = Inr (Inr ps)"
| "reference_probes x env cron projectID (a # as) ps s =
     (case reference_probe x env cron projectID a ps s of
        Inl p \<Rightarrow> Inl p
      | Inr (Inl e) \<Rightarrow> Inr (Inl e)
      | Inr (Inr ps') \<Rightarrow> reference_probes x env cron projectID as ps' s)"

text \<open>Only the variant for single runs skips annotations that do not look like probe references.\<close>

fun annotated_probes :: "'s exp_db \<Rightarrow> exp_env \<Rightarrow> bool \<Rightarrow> string \<Rightarrow> labels \<Rightarrow> probe_attributes list option \<Rightarrow> 's
    \<Rightarrow> (string + probe_attributes list option) go" where
  "annotated_probes x env cron projectID [] ps s = Inr (Inr ps)"
| "annotated_probes x env cron projectID ((k, v) # as) ps s =
     (if \<not> cron \<and> \<not> prefix (''[{'' @ [CHR 0x22] @ ''name'' @ [CHR 0x22]) v then annotated_probes x env cron projectID as ps s
      else (case x_annotations env v of
          Inl e \<Rightarrow> Inr (Inl (''failed to unmarshal experiment annotation object, error: '' @ e))
        | Inr refs \<Rightarrow>
            (case reference_probes x env cron projectID refs ps s of
               Inl p \<Rightarrow> Inl p
             | Inr (Inl e) \<Rightarrow> Inr (Inl e)
             | Inr (Inr ps') \<Rightarrow> annotated_probes x env cron projectID as ps' s)))"

definition engine_with_probes :: "'s exp_db \<Rightarrow> exp_env \<Rightarrow> bool \<Rightarrow> string \<Rightarrow> chaos_engine \<Rightarrow> 's \<Rightarrow> (string + chaos_engine) go" where
  "engine_with_probes x env cron projectID meta s =
     (case ce_Experiments meta of
        [] \<Rightarrow> Inl IndexOutOfRange
      | e # es \<Rightarrow>
          (case annotated_probes x env cron projectID (deref [] (ce_Annotations meta)) (ee_Probe e) s of
             Inl p \<Rightarrow> Inl p
           | Inr (Inl err) \<Rightarrow> Inr (Inl err)
           | Inr (Inr ps) \<Rightarrow> Inr (Inr (meta\<lparr>ce_Experiments := e\<lparr>ee_Probe := ps\<rparr> # es\<rparr>))))"

definition set_raw :: "string \<Rightarrow> workflow_template \<Rightarrow> workflow_template" where
  "set_raw res t = (case tp_Artifacts t of [] \<Rightarrow> t | a # as \<Rightarrow> t\<lparr>tp_Artifacts := a\<lparr>af_Raw := Some res\<rparr> # as\<rparr>)"

fun templates_with_probes :: "'s exp_db \<Rightarrow> exp_env \<Rightarrow> bool \<Rightarrow> string \<Rightarrow> workflow_template list \<Rightarrow> 's
    \<Rightarrow> (string + workflow_template list) go" where
  "templates_with_probes x env cron projectID [] s = Inr (Inr [])"
| "templates_with_probes x env cron projectID (t # ts) s =
     (let more = (\<lambda>t'. map_sum id (map_sum id ((#) t')) (templates_with_probes x env cron projectID ts s)) in
      case raw_data t of
        None \<Rightarrow> more t
      | Some (name, data) \<Rightarrow>
          (case x_engine env data of
             Inl e \<Rightarrow> Inr (Inl (''failed to unmarshal chaosengine, error: '' @ e))
           | Inr meta \<Rightarrow>
               if foldLower (ce_Kind meta) \<noteq> ''chaosengine'' then more t
               else (case engine_with_probes x env cron projectID meta s of
                   Inl p \<Rightarrow> Inl p
                 | Inr (Inl e) \<Rightarrow> Inr (Inl e)
                 | Inr (Inr meta') \<Rightarrow>
                     (case x_engine_yaml env meta' of
                        Inl e \<Rightarrow> Inr (Inl (if cron then ''failed to marshal chaosengine, error: '' @ e else ''failed to marshal chaosengine''))
                      | Inr res \<Rightarrow> more (set_raw res t)))))"

definition GenerateExperimentManifestWithProbes :: "'s exp_db \<Rightarrow> exp_env \<Rightarrow> string \<Rightarrow> string \<Rightarrow> 's \<Rightarrow> (string + workflow) go" where
  "GenerateExperimentManifestWithProbes x env manifest projectID s =
     (case x_workflow env manifest of
        Inl e \<Rightarrow> Inr (Inl (''failed to unmarshal experiment manifest, error: '' @ e))
      | Inr w \<Rightarrow> map_sum id (map_sum id (\<lambda>ts. w\<lparr>wf_Templates := ts\<rparr>)) (templates_with_probes x env False projectID (wf_Templates w) s))"

definition GenerateCronExperimentManifestWithProbes :: "'s exp_db \<Rightarrow> exp_env \<Rightarrow> string \<Rightarrow> string \<Rightarrow> 's \<Rightarrow> (string + cron_workflow) go" where
  "GenerateCronExperimentManifestWithProbes x env manifest projectID s =
     (case x_cron env manifest of
        Inl e \<Rightarrow> Inr (Inl (''failed to unmarshal experiment manifest, error: '' @ e))
      | Inr w \<Rightarrow> map_sum id (map_sum id (\<lambda>ts. w\<lparr>cw_Templates := ts\<rparr>)) (templates_with_probes x env True projectID (cw_Templates w) s))"

section \<open>Resolvers\<close>

definition mismatch :: "string \<Rightarrow> string" where
  "mismatch k = ''probe type and properties don'' @ [CHR 0x27] @ ''t match, selected '' @ k @ '' Probe but '' @ k @ '' properties are empty''"

definition r_AddProbe where
  "r_AddProbe x env c request projectID =
     with_role (gql_handle x) (x_gql env) c projectID ''AddProbe'' (\<lambda>s.
       if pq_Type request = ''httpProbe'' \<and> pq_HTTP request = None then (Inr (Inl (mismatch ''http'')), s)
       else if pq_Type request = ''promProbe'' \<and> pq_PROM request = None then (Inr (Inl (mismatch ''prom'')), s)
       else if pq_Type request = ''cmdProbe'' \<and> pq_CMD request = None then (Inr (Inl (mismatch ''cmd'')), s)
       else if pq_Type request = ''k8sProbe'' \<and> pq_K8S request = None then (Inr (Inl (mismatch ''k8s'')), s)
       else AddProbe x env c request projectID s)"

definition r_UpdateProbe where
  "r_UpdateProbe x env c request projectID =
     with_role (gql_handle x) (x_gql env) c projectID ''UpdateProbe'' (UpdateProbe x env c request projectID)"

definition r_DeleteProbe where
  "r_DeleteProbe x env c probeName projectID =
     with_role (gql_handle x) (x_gql env) c projectID ''DeleteProbe'' (DeleteProbe x env c probeName projectID)"

definition r_GetProbe where
  "r_GetProbe x env c projectID probeName =
     with_role (gql_handle x) (x_gql env) c projectID ''GetProbe'' (\<lambda>s. (GetProbe x env probeName projectID s, s))"

definition r_GetProbeYaml where
  "r_GetProbeYaml x env c projectID probeName mode =
     with_role (gql_handle x) (x_gql env) c projectID ''GetProbe'' (\<lambda>s. (GetProbeYAMLData x env probeName mode projectID s, s))"

definition r_ValidateUniqueProbe where
  "r_ValidateUniqueProbe x env c projectID probeName =
     with_role (gql_handle x) (x_gql env) c projectID ''GetProbe'' (\<lambda>s. (Inr (ValidateUniqueProbe x probeName projectID s), s))"

end
