(* ===== verification/Gql_Exp_Ops.thy ===== *)
theory Gql_Exp_Ops
  imports Gql_Probes
begin

text \<open>
  The experiment service, \<^verbatim>\<open>pkg/chaos_experiment/ops/service.go\<close>: what a submitted manifest is turned into (labels, weights, stored
  probes for inline ones), and the creation, update and deletion of experiments; with the helpers it calls from
  \<^verbatim>\<open>pkg/probe/utils\<close> and \<^verbatim>\<open>utils\<close>. Log lines and metrics are left out. The clock and the identifiers of a request are
  numbered; a nested call gets them shifted by \<^verbatim>\<open>later\<close>.
\<close>

section \<open>Steps that can fail and send signals\<close>

definition sbind :: "('s, 'a) infra_outcome \<Rightarrow> ('a \<Rightarrow> 's \<Rightarrow> ('s, 'b) infra_outcome) \<Rightarrow> ('s, 'b) infra_outcome" where
  "sbind r k = (case r of
       (Inl p, s, sg) \<Rightarrow> (Inl p, s, sg)
     | (Inr (Inl e), s, sg) \<Rightarrow> (Inr (Inl e), s, sg)
     | (Inr (Inr v), s, sg) \<Rightarrow> (case k v s of (r', s', sg') \<Rightarrow> (r', s', sg @ sg')))"

definition quiet :: "('s, 'a) outcome \<Rightarrow> ('s, 'a) infra_outcome" where
  "quiet r = (case r of (v, s) \<Rightarrow> (v, s, []))"

definition later :: "nat \<Rightarrow> exp_env \<Rightarrow> exp_env" where
  "later k env = env\<lparr>x_gql := (x_gql env)\<lparr>g_auth := (g_auth (x_gql env))\<lparr>now_ms := (\<lambda>i. now_ms (g_auth (x_gql env)) (k + i)),
     new_uuid := (\<lambda>i. new_uuid (g_auth (x_gql env)) (k + i))\<rparr>\<rparr>\<rparr>"

section \<open>Requests\<close>

record experiment_request =
  rx_ExperimentID :: "string option"
  rx_RunExperiment :: "bool option"
  rx_ExperimentManifest :: string
  rx_ExperimentType :: "string option"
  rx_CronSyntax :: string
  rx_ExperimentName :: string
  rx_ExperimentDescription :: string
  rx_Weightages :: "weightages_input list"
  rx_IsCustomExperiment :: bool
  rx_InfraID :: string
  rx_Tags :: "string list"

section \<open>Inline probes\<close>

definition nonempty :: "string \<Rightarrow> string option" where
  "nonempty v = (if v = '''' then None else Some v)"

text \<open>The request for a probe of a manifest; \<^verbatim>\<open>uid\<close> is the identifier appended to its name.\<close>

definition ProbeInputsToProbeRequestConverter :: "exp_env \<Rightarrow> string \<Rightarrow> probe_attributes \<Rightarrow> (string + probe_request) go" where
  "ProbeInputsToProbeRequestConverter env i inp =
     (let rp = pa_RunProperties inp;
          request = \<lparr>pq_Name = pa_Name inp @ ''-'' @ i, pq_Description = None, pq_Tags = [], pq_Type = pa_Type inp,
            pq_InfrastructureType = ''Kubernetes'', pq_HTTP = None, pq_CMD = None, pq_PROM = None, pq_K8S = None\<rparr> in
      if rp_ProbeTimeout rp = '''' \<or> rp_Interval rp = '''' then Inr (Inl ''values for ProbeTimeout and Interval are required'')
      else if pa_Type inp = ''httpProbe'' then
        (case pa_HTTP inp of
           None \<Rightarrow> Inl NilDereference
         | Some h \<Rightarrow>
             if hi_Get h = None \<and> hi_Post h = None then Inr (Inl ''GET/POST method not specified'')
             else if hi_URL h = '''' then Inr (Inl ''URL not specified'')
             else Inr (Inr (request\<lparr>pq_HTTP := Some
               \<lparr>cp_ProbeTimeout = rp_ProbeTimeout rp, cp_Interval = rp_Interval rp, cp_PollingInterval = nonempty (rp_ProbePollingInterval rp),
                cp_InitialDelay = nonempty (rp_InitialDelay rp), cp_EvaluationTimeout = nonempty (rp_EvaluationTimeout rp),
                cp_Retry = Some (rp_Retry rp), cp_Attempt = Some (rp_Attempt rp), cp_StopOnFailure = Some (rp_StopOnFailure rp),
                hp_URL = hi_URL h, hp_GET = hi_Get h,
                hp_POST = (if hi_Get h \<noteq> None then None
                           else map_option (\<lambda>q. \<lparr>pm_ContentType = Some (pi_ContentType q), pm_Body = Some (pi_Body q),
                                  pm_BodyPath = Some (pi_BodyPath q), pm_Criteria = pi_Criteria q, pm_ResponseCode = pi_ResponseCode q\<rparr>) (hi_Post h)),
                hp_InsecureSkipVerify = Some (hi_InsecureSkipVerify h)\<rparr>\<rparr>)))
      else if pa_Type inp = ''promProbe'' then
        (case pa_Prom inp of
           None \<Rightarrow> Inl NilDereference
         | Some h \<Rightarrow>
             if pri_Endpoint h = '''' then Inr (Inl ''endpoint not specified'')
             else Inr (Inr (request\<lparr>pq_PROM := Some
               \<lparr>cp_ProbeTimeout = rp_ProbeTimeout rp, cp_Interval = rp_Interval rp, cp_PollingInterval = Some (rp_ProbePollingInterval rp),
                cp_InitialDelay = Some (rp_InitialDelay rp), cp_EvaluationTimeout = Some (rp_EvaluationTimeout rp),
                cp_Retry = Some (rp_Retry rp), cp_Attempt = Some (rp_Attempt rp), cp_StopOnFailure = Some (rp_StopOnFailure rp),
                pp_Endpoint = pri_Endpoint h, pp_Query = Some (pri_Query h), pp_QueryPath = Some (pri_QueryPath h),
                pp_Comparator = pri_Comparator h\<rparr>\<rparr>)))
      else if pa_Type inp = ''k8sProbe'' then
        (case pa_K8s inp of
           None \<Rightarrow> Inl NilDereference
         | Some h \<Rightarrow>
             if ki_Resource h = '''' \<or> ki_Operation h = '''' \<or> ki_Version h = '''' then Inr (Inl ''resource, operation and version are required'')
             else Inr (Inr (request\<lparr>pq_K8S := Some
               \<lparr>cp_ProbeTimeout = rp_ProbeTimeout rp, cp_Interval = rp_Interval rp, cp_PollingInterval = Some (rp_ProbePollingInterval rp),
                cp_InitialDelay = None, cp_EvaluationTimeout = Some (rp_EvaluationTimeout rp),
                cp_Retry = Some (rp_Retry rp), cp_Attempt = Some (rp_Attempt rp), cp_StopOnFailure = Some (rp_StopOnFailure rp),
                k8_Group = Some (ki_Group h), k8_Version = ki_Version h, k8_Resource = ki_Resource h, k8_ResourceNames = Some (ki_ResourceNames h),
                k8_Namespace = Some (ki_Namespace h), k8_FieldSelector = Some (ki_FieldSelector h), k8_LabelSelector = Some (ki_LabelSelector h),
                k8_Operation = ki_Operation h\<rparr>\<rparr>)))
      else if pa_Type inp = ''cmdProbe'' then
        (case pa_Cmd inp of
           None \<Rightarrow> Inl NilDereference
         | Some h \<Rightarrow>
             Inr (Inr (request\<lparr>pq_CMD := Some
               \<lparr>cp_ProbeTimeout = rp_ProbeTimeout rp, cp_Interval = rp_Interval rp, cp_PollingInterval = Some (rp_ProbePollingInterval rp),
                cp_InitialDelay = Some (rp_InitialDelay rp), cp_EvaluationTimeout = None,
                cp_Retry = Some (rp_Retry rp), cp_Attempt = Some (rp_Attempt rp), cp_StopOnFailure = Some (rp_StopOnFailure rp),
                kr_Command = ci_Command h, kr_Comparator = ci_Comparator h,
                kr_Source = Some (case ci_Source h of None \<Rightarrow> ''null'' | Some d \<Rightarrow> x_source_json env d)\<rparr>\<rparr>)))
      else Inr (Inr request))"

definition InsertProbeRefAnnotation :: "exp_env \<Rightarrow> string \<Rightarrow> string \<Rightarrow> (string + string) go" where
  "InsertProbeRefAnnotation env rawYaml val =
     (case x_yaml env rawYaml of
        Inl e \<Rightarrow> Inr (Inl e)
      | Inr (YMap m) \<Rightarrow>
          (case map_of m ''metadata'' of
             None \<Rightarrow> Inr (Inl ''metadata not found'')
           | Some YNull \<Rightarrow> Inr (Inl ''metadata not found'')
           | Some (YMap md) \<Rightarrow>
               (let put = (\<lambda>as. Inr (x_yaml_text env (YMap (AList.update ''metadata''
                      (YMap (AList.update ''annotations'' (YMap (AList.update ''probeRef'' (YString val) as)) md)) m)))) in
                case map_of md ''annotations'' of
                  None \<Rightarrow> put []
                | Some YNull \<Rightarrow> put []
                | Some (YMap as) \<Rightarrow> put as
                | Some _ \<Rightarrow> Inl TypeAssertion)
           | Some _ \<Rightarrow> Inl TypeAssertion)
      | Inr _ \<Rightarrow> Inl TypeAssertion)"

text \<open>Every inline probe is stored as a probe of the project; the counter numbers the calls to the clock and for identifiers.\<close>

fun create_probes :: "'s exp_db \<Rightarrow> exp_env \<Rightarrow> gctx \<Rightarrow> string \<Rightarrow> nat \<Rightarrow> probe_attributes list \<Rightarrow> 's
    \<Rightarrow> ('s, probe_annotation list \<times> nat) outcome" where
  "create_probes x env c projectID k [] s = (Inr (Inr ([], k)), s)"
| "create_probes x env c projectID k (p # ps) s =
     obind (lift_go (ProbeInputsToProbeRequestConverter env (new_uuid (g_auth (x_gql env)) k) p) s) (\<lambda>request s.
     obind (AddProbe x (later k env) c request projectID s) (\<lambda>res s.
     obind (create_probes x env c projectID (Suc k) ps s) (\<lambda>(refs, k') s.
       (Inr (Inr (\<lparr>an_Name = pv_Name res, an_Mode = pa_Mode p\<rparr> # refs, k')), s))))"

text \<open>Without a \<^verbatim>\<open>probeRef\<close> annotation an engine must have inline probes, which are stored; the result is the new annotation, if one is needed.\<close>

definition ensure_refs :: "'s exp_db \<Rightarrow> exp_env \<Rightarrow> gctx \<Rightarrow> string \<Rightarrow> nat \<Rightarrow> chaos_engine \<Rightarrow> probe_attributes list option \<Rightarrow> 's
    \<Rightarrow> ('s, string option \<times> nat) outcome" where
  "ensure_refs x env c projectID k meta ps s =
     (if map_of (deref [] (ce_Annotations meta)) ''probeRef'' \<noteq> None then (Inr (Inr (None, k)), s)
      else (case ps of
          None \<Rightarrow> (Inr (Inl (''no probes specified in chaosengine - '' @ ce_Name meta)), s)
        | Some qs \<Rightarrow> obind (create_probes x env c projectID k qs s) (\<lambda>(refs, k') s. (Inr (Inr (Some (x_refs_json env refs), k')), s))))"

section \<open>Manifests\<close>

definition set_labels :: "labels \<Rightarrow> labels option \<Rightarrow> labels" where
  "set_labels kvs m = fold (\<lambda>(k, v). AList.update k v) kvs (deref [] m)"

definition id_labels :: "string \<Rightarrow> string \<Rightarrow> string \<Rightarrow> labels" where
  "id_labels expID infraID revID = [(''workflow_id'', expID), (''infra_id'', infraID),
     (''workflows.argoproj.io/controller-instanceid'', infraID), (''revision_id'', revID)]"

definition engine_labels :: "string \<Rightarrow> string \<Rightarrow> string \<Rightarrow> labels" where
  "engine_labels expID infraID revID = [(''workflow_id'', expID), (''infra_id'', infraID), (''type'', ''standalone_workflow''), (''revision_id'', revID)]"

text \<open>The weight of a fault: from the request, otherwise from the label, otherwise ten. The second component is appended to the weights of the request.\<close>

definition fault_weight :: "(string \<times> int) list \<Rightarrow> string \<Rightarrow> labels option \<Rightarrow> string + (string option \<times> weightages_input list)" where
  "fault_weight weights exprname lbls =
     (case map_of weights exprname of
        Some v \<Rightarrow> Inr (Some (itoa v), [])
      | None \<Rightarrow>
          (case map_of (deref [] lbls) ''weight'' of
             Some val \<Rightarrow> (case atoi val of None \<Rightarrow> Inl ''failed to convert'' | Some n \<Rightarrow> Inr (None, [\<lparr>w_FaultName = exprname, w_Weightage = n\<rparr>]))
           | None \<Rightarrow> Inr (Some ''10'', [\<lparr>w_FaultName = exprname, w_Weightage = 10\<rparr>])))"

definition engine_name :: "chaos_engine \<Rightarrow> string + string" where
  "engine_name meta =
     (if ce_Experiments meta = [] then Inl (''no experiments specified in chaosengine - '' @ ce_Name meta)
      else if ce_GenerateName meta = '''' then Inl ''empty chaos experiment name''
      else Inr (ce_GenerateName meta))"

definition process_engine :: "'s exp_db \<Rightarrow> exp_env \<Rightarrow> gctx \<Rightarrow> string \<Rightarrow> (string \<times> int) list \<Rightarrow> nat \<Rightarrow> workflow_template \<Rightarrow> string \<Rightarrow> chaos_engine \<Rightarrow> 's
    \<Rightarrow> ('s, workflow_template \<times> weightages_input list \<times> nat) outcome" where
  "process_engine x env c projectID weights k t data meta s =
     obind (lift_go (Inr (engine_name meta)) s) (\<lambda>exprname s.
     obind (ensure_refs x env c projectID k meta (ee_Probe (hd (ce_Experiments meta))) s) (\<lambda>(refs, k') s.
     obind (lift_go (case refs of None \<Rightarrow> Inr (Inr t) | Some v \<Rightarrow> map_sum id (map_sum id (\<lambda>y. set_raw y t)) (InsertProbeRefAnnotation env data v)) s) (\<lambda>t' s.
     obind (lift_go (Inr (fault_weight weights exprname (tp_Labels t'))) s) (\<lambda>(lb, ws) s.
       (Inr (Inr (case lb of None \<Rightarrow> t' | Some w \<Rightarrow> t'\<lparr>tp_Labels := Some [(''weight'', w)]\<rparr>, ws, k')), s)))))"

text \<open>Template brackets of the workflow language are dropped before the engine is decoded.\<close>

definition strip_brackets :: "string \<Rightarrow> string" where
  "strip_brackets d = replace_all (replace_all d ''{{'' '''') ''}}'' ''''"

definition process_template :: "'s exp_db \<Rightarrow> exp_env \<Rightarrow> gctx \<Rightarrow> string \<Rightarrow> (string \<times> int) list \<Rightarrow> nat \<Rightarrow> workflow_template \<Rightarrow> 's
    \<Rightarrow> ('s, workflow_template \<times> weightages_input list \<times> nat) outcome" where
  "process_template x env c projectID weights k t s =
     (case raw_data t of
        None \<Rightarrow> (Inr (Inr (t, [], k)), s)
      | Some (name, data) \<Rightarrow>
          (case x_engine env (strip_brackets data) of
             Inl e \<Rightarrow> (Inr (Inl ''failed to unmarshal chaosengine''), s)
           | Inr meta \<Rightarrow>
               if foldLower (ce_Kind meta) \<noteq> ''chaosengine'' then (Inr (Inr (t, [], k)), s)
               else process_engine x env c projectID weights k t data meta s))"

fun process_templates :: "'s exp_db \<Rightarrow> exp_env \<Rightarrow> gctx \<Rightarrow> string \<Rightarrow> (string \<times> int) list \<Rightarrow> nat \<Rightarrow> workflow_template list \<Rightarrow> 's
    \<Rightarrow> ('s, workflow_template list \<times> weightages_input list \<times> nat) outcome" where
  "process_templates x env c projectID weights k [] s = (Inr (Inr ([], [], k)), s)"
| "process_templates x env c projectID weights k (t # ts) s =
     obind (process_template x env c projectID weights k t s) (\<lambda>(t', ws, k') s.
     obind (process_templates x env c projectID weights k' ts s) (\<lambda>(ts', ws', k'') s. (Inr (Inr (t' # ts', ws @ ws', k'')), s)))"

definition with_error :: "string \<Rightarrow> string + 'a \<Rightarrow> (string + 'a) go" where
  "with_error m r = Inr (map_sum (\<lambda>_. m) id r)"

definition processExperimentManifest :: "'s exp_db \<Rightarrow> exp_env \<Rightarrow> gctx \<Rightarrow> experiment_request \<Rightarrow> string \<Rightarrow> (string \<times> int) list \<Rightarrow> string \<Rightarrow> string \<Rightarrow> nat \<Rightarrow> 's
    \<Rightarrow> ('s, experiment_request \<times> nat) outcome" where
  "processExperimentManifest x env c rq expID weights revID projectID k s =
     obind (lift_go (with_error ''failed to unmarshal workflow manifest'' (x_workflow env (rx_ExperimentManifest rq))) s) (\<lambda>w s.
     obind (process_templates x env c projectID weights k (wf_Templates w) s) (\<lambda>(ts, ws, k') s.
     obind (lift_go (Inr (x_workflow_json env (w\<lparr>wf_Labels := Some (set_labels (id_labels expID (rx_InfraID rq) revID) (wf_Labels w)), wf_Templates := ts\<rparr>))) s) (\<lambda>out s.
       (Inr (Inr (rq\<lparr>rx_Weightages := rx_Weightages rq @ ws, rx_ExperimentManifest := out\<rparr>, k')), s))))"

definition processCronExperimentManifest :: "'s exp_db \<Rightarrow> exp_env \<Rightarrow> gctx \<Rightarrow> experiment_request \<Rightarrow> string \<Rightarrow> (string \<times> int) list \<Rightarrow> string \<Rightarrow> string \<Rightarrow> nat \<Rightarrow> 's
    \<Rightarrow> ('s, experiment_request \<times> nat) outcome" where
  "processCronExperimentManifest x env c rq expID weights revID projectID k s =
     obind (lift_go (with_error ''failed to unmarshal workflow manifest'' (x_cron env (rx_ExperimentManifest rq))) s) (\<lambda>w s.
       if trimSpace (cw_Schedule w) = '''' then (Inr (Inl ''failed to process cron workflow, cron syntax not provided in manifest''), s)
       else
         (let ids = id_labels expID (rx_InfraID rq) revID in
          obind (process_templates x env c projectID weights k (cw_Templates w) s) (\<lambda>(ts, ws, k') s.
          obind (lift_go (Inr (x_cron_json env (w\<lparr>cw_Labels := Some (set_labels ids (cw_Labels w)),
                   cw_Metadata := Some (Some (set_labels ids (deref None (cw_Metadata w)))), cw_Templates := ts\<rparr>))) s) (\<lambda>out s.
            (Inr (Inr (rq\<lparr>rx_Weightages := rx_Weightages rq @ ws, rx_ExperimentManifest := out, rx_CronSyntax := cw_Schedule w\<rparr>, k')), s)))))"

text \<open>Stand-alone engines and schedules; \<^verbatim>\<open>missing\<close> is the text for an object without experiments.\<close>

definition process_object :: "'s exp_db \<Rightarrow> exp_env \<Rightarrow> gctx \<Rightarrow> (string \<Rightarrow> string + chaos_engine) \<Rightarrow> (chaos_engine \<Rightarrow> string + string) \<Rightarrow> string \<Rightarrow> experiment_request
    \<Rightarrow> string \<Rightarrow> (string \<times> int) list \<Rightarrow> string \<Rightarrow> string \<Rightarrow> nat \<Rightarrow> 's \<Rightarrow> ('s, experiment_request \<times> nat) outcome" where
  "process_object x env c decode encode missing rq expID weights revID projectID k s =
     obind (lift_go (with_error ''failed to unmarshal workflow manifest'' (decode (rx_ExperimentManifest rq))) s) (\<lambda>m s.
       case ce_Experiments m of
         [] \<Rightarrow> (Inr (Inl (missing @ ce_Name m)), s)
       | e # es \<Rightarrow>
           if ee_Name e = '''' then (Inr (Inl ''empty chaos experiment name''), s)
           else
             (let lbls = set_labels (engine_labels expID (rx_InfraID rq) revID) (ce_Labels m) in
              obind (ensure_refs x env c projectID k m (ee_Probe e) s) (\<lambda>(refs, k') s.
              obind (lift_go (Inr (fault_weight weights (ee_Name e) (Some lbls))) s) (\<lambda>(lb, ws) s.
              obind (lift_go (Inr (encode (m\<lparr>ce_Labels := Some (case lb of None \<Rightarrow> lbls | Some w \<Rightarrow> AList.update ''weight'' w lbls),
                       ce_Annotations := (case refs of None \<Rightarrow> ce_Annotations m
                                          | Some v \<Rightarrow> Some (AList.update ''probeRef'' v (deref [] (ce_Annotations m))))\<rparr>))) s) (\<lambda>out s.
                (Inr (Inr (rq\<lparr>rx_Weightages := rx_Weightages rq @ ws, rx_ExperimentManifest := out\<rparr>, k')), s))))))"

definition processChaosEngineManifest where
  "processChaosEngineManifest x env c = process_object x env c (x_engine_object env) (x_engine_json env) ''no experiments specified in chaosengine - ''"

definition processChaosScheduleManifest where
  "processChaosScheduleManifest x env c = process_object x env c (x_schedule env) (x_schedule_json env) ''no experiments specified in chaos engine - ''"

section \<open>The service\<close>

text \<open>The result is the request with the processed manifest, the type of the experiment and the number of the next identifier; \<^verbatim>\<open>k\<close> numbers the first.\<close>

definition ProcessExperiment :: "'s exp_db \<Rightarrow> exp_env \<Rightarrow> gctx \<Rightarrow> experiment_request \<Rightarrow> string \<Rightarrow> string \<Rightarrow> nat \<Rightarrow> 's
    \<Rightarrow> ('s, experiment_request \<times> string \<times> nat) outcome" where
  "ProcessExperiment x env c wkf projectID revID k s =
     (case op_GetInfra (gql_handle x) (rx_InfraID wkf) s of
        Inl e \<Rightarrow> (Inr (Inl (''failed to get infra details: '' @ e)), s)
      | Inr infra \<Rightarrow>
          if \<not> i_IsActive infra then (Inr (Inl ''experiment scheduling failed due to inactive infra''), s)
          else if i_ProjectID infra \<noteq> projectID then
            (Inr (Inl (''ProjectID doesn'' @ [CHR 0x27] @ ''t match with the chaos_infra identifiers'')), s)
          else
            (let weights = fold (\<lambda>w. AList.update (w_FaultName w) (w_Weightage w)) (rx_Weightages wkf) [];
                 expID = (case rx_ExperimentID wkf of
                     None \<Rightarrow> new_uuid (g_auth (x_gql env)) k
                   | Some i \<Rightarrow> if i = '''' then new_uuid (g_auth (x_gql env)) k else i);
                 rq = wkf\<lparr>rx_ExperimentID := Some expID\<rparr> in
             case x_object env (rx_ExperimentManifest rq) of
               Inl e \<Rightarrow> (Inr (Inl ''failed to unmarshal workflow manifest1''), s)
             | Inr (name, kind) \<Rightarrow>
                 if rx_ExperimentName rq \<noteq> name then (Inr (Inl (kind @ '' name doesn'' @ [CHR 0x27] @ ''t match'')), s)
                 else if foldLower kind = ''workflow'' then
                   obind (processExperimentManifest x env c rq expID weights revID projectID (Suc k) s) (\<lambda>(r, k') s. (Inr (Inr (r, ''experiment'', k')), s))
                 else if foldLower kind = ''cronworkflow'' then
                   obind (processCronExperimentManifest x env c rq expID weights revID projectID (Suc k) s) (\<lambda>(r, k') s. (Inr (Inr (r, ''cronexperiment'', k')), s))
                 else if foldLower kind = ''chaosengine'' then
                   obind (processChaosEngineManifest x env c rq expID weights revID projectID (Suc k) s) (\<lambda>(r, k') s. (Inr (Inr (r, ''chaosengine'', k')), s))
                 else if foldLower kind = ''chaosschedule'' then
                   obind (processChaosScheduleManifest x env c rq expID weights revID projectID (Suc k) s) (\<lambda>(r, k') s. (Inr (Inr (r, ''chaosengine'', k')), s))
                 else (Inr (Inl ''not a valid object, only workflows/cron workflows/chaos engines supported''), s)))"

definition revision_of :: "experiment_request \<Rightarrow> string \<Rightarrow> int \<Rightarrow> experiment_revision" where
  "revision_of rq revisionID now = \<lparr>rv_RevisionID = revisionID, rv_ExperimentManifest = rx_ExperimentManifest rq, rv_UpdatedAt = now,
     rv_Weightages = map Some (rx_Weightages rq), rv_Probes = []\<rparr>"

definition new_experiment :: "exp_env \<Rightarrow> experiment_request \<Rightarrow> string \<Rightarrow> string \<Rightarrow> string \<Rightarrow> string \<Rightarrow> string \<Rightarrow> chaos_experiment" where
  "new_experiment env rq expID uname projectID wfType revisionID =
     (let now = now_ms (g_auth (x_gql env)) 0 in
      \<lparr>ex_Name = rx_ExperimentName rq, ex_Description = rx_ExperimentDescription rq, ex_Tags = rx_Tags rq, ex_UpdatedAt = now, ex_CreatedAt = now,
       ex_CreatedBy = uname, ex_UpdatedBy = uname, ex_IsRemoved = False, ex_ProjectID = projectID, ex_ExperimentID = expID,
       ex_CronSyntax = rx_CronSyntax rq, ex_InfraID = rx_InfraID rq, ex_ExperimentType = wfType,
       ex_Revision = [revision_of rq revisionID now], ex_IsCustomExperiment = rx_IsCustomExperiment rq,
       ex_RecentExperimentRunDetails = [], ex_TotalExperimentRuns = 0\<rparr>)"

text \<open>\<^verbatim>\<open>notify\<close>: whether the caller passes the store of connections.\<close>

definition send_experiment :: "exp_env \<Rightarrow> bool \<Rightarrow> string \<Rightarrow> experiment_request \<Rightarrow> string \<Rightarrow> string \<Rightarrow> signal list" where
  "send_experiment env notify projectID rq uname reqType =
     (if notify then SendExperimentToSubscriber env projectID (rx_ExperimentManifest rq) (rx_InfraID rq) (Some uname) None reqType else [])"

definition ProcessExperimentCreation :: "'s exp_db \<Rightarrow> exp_env \<Rightarrow> experiment_request \<Rightarrow> string \<Rightarrow> string \<Rightarrow> string \<Rightarrow> string \<Rightarrow> bool \<Rightarrow> 's \<Rightarrow> ('s, unit) infra_outcome" where
  "ProcessExperimentCreation x env rq uname projectID wfType revisionID notify s =
     (case rx_ExperimentID rq of
        None \<Rightarrow> (Inl NilDereference, s, [])
      | Some expID \<Rightarrow>
          (case InsertChaosExperiment x (new_experiment env rq expID uname projectID wfType revisionID) s of
             (Some e, s') \<Rightarrow> (Inr (Inl e), s', [])
           | (None, s') \<Rightarrow> (Inr (Inr ()), s', send_experiment env notify projectID rq uname ''create'')))"

definition updated_experiment :: "exp_env \<Rightarrow> experiment_request \<Rightarrow> string \<Rightarrow> string \<Rightarrow> string \<Rightarrow> chaos_experiment \<Rightarrow> chaos_experiment" where
  "updated_experiment env rq uname wfType revisionID e =
     e\<lparr>ex_ExperimentType := wfType, ex_CronSyntax := rx_CronSyntax rq, ex_Name := rx_ExperimentName rq, ex_Tags := rx_Tags rq,
       ex_InfraID := rx_InfraID rq, ex_Description := rx_ExperimentDescription rq, ex_IsCustomExperiment := rx_IsCustomExperiment rq,
       ex_UpdatedAt := now_ms (g_auth (x_gql env)) 1, ex_UpdatedBy := uname,
       ex_Revision := ex_Revision e @ [revision_of rq revisionID (now_ms (g_auth (x_gql env)) 0)]\<rparr>"

text \<open>With \<^verbatim>\<open>updateRevision\<close> the first revision with the identifier is changed in place.\<close>

fun update_revision :: "string \<Rightarrow> (experiment_revision \<Rightarrow> experiment_revision) \<Rightarrow> experiment_revision list \<Rightarrow> experiment_revision list" where
  "update_revision i f [] = []"
| "update_revision i f (r # rs) = (if rv_RevisionID r = i then f r # rs else r # update_revision i f rs)"

definition revised_experiment :: "exp_env \<Rightarrow> experiment_request \<Rightarrow> string \<Rightarrow> string \<Rightarrow> chaos_experiment \<Rightarrow> chaos_experiment" where
  "revised_experiment env rq uname revisionID e =
     e\<lparr>ex_UpdatedAt := now_ms (g_auth (x_gql env)) 2, ex_UpdatedBy := uname,
       ex_Revision := update_revision revisionID
         (\<lambda>r. r\<lparr>rv_UpdatedAt := now_ms (g_auth (x_gql env)) 3, rv_ExperimentManifest := rx_ExperimentManifest rq\<rparr>) (ex_Revision e)\<rparr>"

definition ProcessExperimentUpdate :: "'s exp_db \<Rightarrow> exp_env \<Rightarrow> experiment_request \<Rightarrow> string \<Rightarrow> string \<Rightarrow> string \<Rightarrow> bool \<Rightarrow> string \<Rightarrow> bool \<Rightarrow> 's \<Rightarrow> ('s, unit) infra_outcome" where
  "ProcessExperimentUpdate x env rq uname wfType revisionID updateRevision projectID notify s =
     (case (if updateRevision
            then op_UpdateChaosExperiment x (\<lambda>e. Some (ex_ExperimentID e) = rx_ExperimentID rq \<and> ex_ProjectID e = projectID \<and>
                   revisionID \<in> rv_RevisionID ` set (ex_Revision e)) (revised_experiment env rq uname revisionID) s
            else op_UpdateChaosExperiment x (\<lambda>e. Some (ex_ExperimentID e) = rx_ExperimentID rq \<and> ex_ProjectID e = projectID)
                   (updated_experiment env rq uname wfType revisionID) s) of
        (Some e, s') \<Rightarrow> (Inr (Inl e), s', [])
      | (None, s') \<Rightarrow>
          (case x_object env (rx_ExperimentManifest rq) of
             Inl e \<Rightarrow> (Inr (Inl ''failed to unmarshal workflow manifest''), s', [])
           | Inr nk \<Rightarrow> (Inr (Inr ()), s', send_experiment env notify projectID rq uname ''update'')))"

definition delete_writes :: "'s exp_db \<Rightarrow> exp_env \<Rightarrow> (chaos_experiment \<Rightarrow> bool) \<Rightarrow> string \<Rightarrow> string \<Rightarrow> 's \<Rightarrow> string option \<times> 's" where
  "delete_writes x env query experimentID uname s =
     (let now = now_ms (g_auth (x_gql env)) 0 in
      case op_UpdateChaosExperiment x query (\<lambda>e. e\<lparr>ex_IsRemoved := True, ex_UpdatedBy := uname, ex_UpdatedAt := now\<rparr>) s of
        (Some e, s1) \<Rightarrow> (Some e, s1)
      | (None, s1) \<Rightarrow>
          UpdateExperimentRunsWithQuery x (\<lambda>d. er_ExperimentID d = experimentID)
            (\<lambda>d. d\<lparr>er_IsRemoved := True, er_UpdatedBy := uname, er_UpdatedAt := now\<rparr>) s1)"

definition ProcessExperimentDelete :: "'s exp_db \<Rightarrow> exp_env \<Rightarrow> (chaos_experiment \<Rightarrow> bool) \<Rightarrow> chaos_experiment \<Rightarrow> string \<Rightarrow> 's \<Rightarrow> ('s, unit) infra_outcome" where
  "ProcessExperimentDelete x env query wkf uname s =
     (case StartSession (auth_handle (gql_handle x)) s of
        Some e \<Rightarrow> (Inr (Inl (driver_text e)), s, [])
      | None \<Rightarrow>
          (case delete_writes x env query (ex_ExperimentID wkf) uname s of
             (Some e, s1) \<Rightarrow> (Inr (Inl e), s, [])
           | (None, s1) \<Rightarrow>
               (case CommitTransaction (auth_handle (gql_handle x)) s s1 of
                  (Some e, s2) \<Rightarrow> (Inr (Inl (driver_text e)), s2, [])
                | (None, s2) \<Rightarrow>
                    (Inr (Inr ()), s2, SendExperimentToSubscriber env (ex_ProjectID wkf) '''' (ex_InfraID wkf) (Some uname)
                       (Some (ex_ExperimentID wkf)) ''workflow_delete''))))"

section \<open>Runtime configuration\<close>

definition validateUnits :: "exp_env \<Rightarrow> string \<Rightarrow> string \<Rightarrow> string" where
  "validateUnits env v unit = (if v = '''' then '''' else if x_unit_regex env v then v else v @ unit)"

definition transform_probe :: "exp_env \<Rightarrow> probe_attributes \<Rightarrow> probe_attributes" where
  "transform_probe env p =
     (let rp = pa_RunProperties p; u = (\<lambda>v. validateUnits env v ''s'');
          rp1 = \<lparr>rp_ProbeTimeout = u (rp_ProbeTimeout rp), rp_Interval = u (rp_Interval rp), rp_Retry = rp_Retry rp, rp_Attempt = rp_Attempt rp,
                 rp_ProbePollingInterval = u (rp_ProbePollingInterval rp), rp_InitialDelaySeconds = 0, rp_InitialDelay = u (rp_InitialDelay rp),
                 rp_EvaluationTimeout = u (rp_EvaluationTimeout rp), rp_StopOnFailure = rp_StopOnFailure rp\<rparr>;
          rp2 = (if rp_InitialDelaySeconds rp \<noteq> 0 then rp1\<lparr>rp_InitialDelay := u (itoa (rp_InitialDelaySeconds rp))\<rparr> else rp1);
          q = \<lparr>pa_Name = pa_Name p, pa_Type = pa_Type p, pa_HTTP = None, pa_K8s = None, pa_Cmd = None, pa_Prom = None,
               pa_RunProperties = rp2, pa_Mode = pa_Mode p, pa_Data = pa_Data p\<rparr> in
      if pa_Type p = ''httpProbe'' then
        q\<lparr>pa_HTTP := pa_HTTP p, pa_RunProperties := rp2\<lparr>rp_ProbeTimeout := validateUnits env (rp_ProbeTimeout rp) ''ms''\<rparr>\<rparr>
      else if pa_Type p = ''cmdProbe'' then q\<lparr>pa_Cmd := pa_Cmd p\<rparr>
      else if pa_Type p = ''k8sProbe'' then q\<lparr>pa_K8s := pa_K8s p\<rparr>
      else if pa_Type p = ''promProbe'' then q\<lparr>pa_Prom := pa_Prom p\<rparr>
      else q)"

definition TransformProbe :: "exp_env \<Rightarrow> probe_attributes list \<Rightarrow> probe_attributes list" where
  "TransformProbe env ps = map (transform_probe env) ps"

text \<open>The engine of a run: annotations are never nil, the labels name infrastructure, pod and run, and units are added to the probes.\<close>

definition run_labels :: "string \<Rightarrow> labels" where
  "run_labels infraID = [(''infra_id'', infraID), (''step_pod_name'', ''{{pod.name}}''), (''workflow_run_id'', ''{{workflow.uid}}'')]"

definition runtime_engine :: "exp_env \<Rightarrow> string \<Rightarrow> chaos_engine \<Rightarrow> chaos_engine go" where
  "runtime_engine env infraID meta =
     (case ce_Experiments meta of
        [] \<Rightarrow> Inl IndexOutOfRange
      | e # es \<Rightarrow> Inr (meta\<lparr>ce_Annotations := Some (deref [] (ce_Annotations meta)), ce_Labels := Some (set_labels (run_labels infraID) (ce_Labels meta)),
          ce_Experiments := (if deref [] (ee_Probe e) \<noteq> [] then e\<lparr>ee_Probe := Some (TransformProbe env (deref [] (ee_Probe e)))\<rparr> else e) # es\<rparr>))"

text \<open>\<^verbatim>\<open>strict\<close>: whether every annotation must be a list of probe references. The second component collects fault names and their probes.\<close>

fun runtime_templates :: "exp_env \<Rightarrow> bool \<Rightarrow> string \<Rightarrow> workflow_template list \<Rightarrow> (string + (workflow_template list \<times> (string \<times> experiment_probes) list)) go" where
  "runtime_templates env strict infraID [] = Inr (Inr ([], []))"
| "runtime_templates env strict infraID (t # ts) =
     (let more = (\<lambda>t' fs. map_sum id (map_sum id (map_prod ((#) t') ((@) fs))) (runtime_templates env strict infraID ts)) in
      case raw_data t of
        None \<Rightarrow> more t []
      | Some (name, data) \<Rightarrow>
          (case x_engine env data of
             Inl e \<Rightarrow> Inr (Inl ''failed to unmarshal chaosengine'')
           | Inr meta \<Rightarrow>
               if foldLower (ce_Kind meta) \<noteq> ''chaosengine'' then more t []
               else (case (if strict then annotation_names env (deref [] (ce_Annotations meta)) else Inr []) of
                   Inl e \<Rightarrow> Inr (Inl ''failed to unmarshal experiment annotation object'')
                 | Inr names \<Rightarrow>
                     (case runtime_engine env infraID meta of
                        Inl p \<Rightarrow> Inl p
                      | Inr meta' \<Rightarrow>
                          (case x_engine_yaml env meta' of
                             Inl e \<Rightarrow> Inr (Inl ''failed to marshal chaosengine'')
                           | Inr res \<Rightarrow> more (set_raw res t) [(ce_GenerateName meta, \<lparr>pr_FaultName = name, pr_ProbeNames = names\<rparr>)])))))"

definition UpdateRuntimeCronWorkflowConfiguration :: "exp_env \<Rightarrow> cron_workflow \<Rightarrow> chaos_experiment \<Rightarrow> (string + (cron_workflow \<times> string list)) go" where
  "UpdateRuntimeCronWorkflowConfiguration env w experiment =
     map_sum id (map_sum id (\<lambda>(ts, fs). (w\<lparr>cw_Templates := ts\<rparr>, map fst fs))) (runtime_templates env True (ex_InfraID experiment) (cw_Templates w))"

end
