(* ===== verification/Gql_Experiments.thy ===== *)
theory Gql_Experiments
  imports Gql_Exp_Ops
begin

text \<open>
  Experiments: the handlers that save, create, update, delete and suspend them (\<^verbatim>\<open>pkg/chaos_experiment/handler\<close>), the handlers that
  run them (\<^verbatim>\<open>RunChaosWorkFlow\<close> and \<^verbatim>\<open>RunCronExperiment\<close> of \<^verbatim>\<open>pkg/chaos_experiment_run/handler\<close>), and their resolvers. The git service is
  an interface of the handler: a record of its two operations.
\<close>

record 's git_service =
  UpsertExperimentToGit :: "gctx \<Rightarrow> string \<Rightarrow> experiment_request \<Rightarrow> 's \<Rightarrow> ('s, unit) infra_outcome"
  DeleteExperimentFromGit :: "gctx \<Rightarrow> string \<Rightarrow> experiment_request \<Rightarrow> 's \<Rightarrow> ('s, unit) infra_outcome"

section \<open>Saving and creating\<close>

definition validateDuplicateExperimentName :: "'s exp_db \<Rightarrow> string \<Rightarrow> string \<Rightarrow> 's \<Rightarrow> string + unit" where
  "validateDuplicateExperimentName x projectID name s =
     (case CountChaosExperiments x (\<lambda>e. ex_ProjectID e = projectID \<and> ex_Name e = name \<and> \<not> ex_IsRemoved e) s of
        Inl e \<Rightarrow> Inl e
      | Inr n \<Rightarrow> if n > 0 then Inl (''experiment name should be unique, duplicate experiment found with name: '' @ name) else Inr ())"

record save_experiment_request =
  sv_ID :: string
  sv_Type :: "string option"
  sv_Name :: string
  sv_Description :: string
  sv_Manifest :: string
  sv_InfraID :: string
  sv_Tags :: "string list"

definition save_request :: "save_experiment_request \<Rightarrow> experiment_request" where
  "save_request request =
     \<lparr>rx_ExperimentID = Some (sv_ID request), rx_RunExperiment = None, rx_ExperimentManifest = sv_Manifest request,
      rx_ExperimentType = sv_Type request, rx_CronSyntax = '''', rx_ExperimentName = sv_Name request,
      rx_ExperimentDescription = sv_Description request, rx_Weightages = [], rx_IsCustomExperiment = False,
      rx_InfraID = sv_InfraID request, rx_Tags = sv_Tags request\<rparr>"

text \<open>After the manifest is processed: an update when the identifier is that of the experiment found, otherwise a creation.\<close>

definition save_processed :: "'s exp_db \<Rightarrow> exp_env \<Rightarrow> 's git_service \<Rightarrow> gctx \<Rightarrow> save_experiment_request \<Rightarrow> string \<Rightarrow> string \<Rightarrow> string \<Rightarrow> string \<Rightarrow> string
    \<Rightarrow> experiment_request \<times> string \<times> nat \<Rightarrow> 's \<Rightarrow> ('s, string) infra_outcome" where
  "save_processed x env gs c request projectID uname revID detID detName = (\<lambda>(newRequest, wfType, k) s.
     if detID = sv_ID request then
       sbind (quiet (lift_go (Inr (if detName \<noteq> sv_Name request then validateDuplicateExperimentName x projectID (sv_Name request) s else Inr ())) s)) (\<lambda>_ s.
       sbind (UpsertExperimentToGit gs c projectID newRequest s) (\<lambda>_ s.
       sbind (ProcessExperimentUpdate x (later k env) newRequest uname wfType revID False projectID True s) (\<lambda>_ s.
         (Inr (Inr (''experiment updated successfully with ID '' @ detID)), s, []))))
     else
       sbind (quiet (lift_go (Inr (validateDuplicateExperimentName x projectID (sv_Name request) s)) s)) (\<lambda>_ s.
       sbind (UpsertExperimentToGit gs c projectID newRequest s) (\<lambda>_ s.
       sbind (ProcessExperimentCreation x (later k env) newRequest uname projectID wfType revID False s) (\<lambda>_ s.
         (Inr (Inr (''experiment saved successfully with ID '' @ detID)), s, [])))))"

text \<open>When no experiment is found the details are the zero value, with empty identifier and name.\<close>

definition SaveChaosExperiment :: "'s exp_db \<Rightarrow> exp_env \<Rightarrow> 's git_service \<Rightarrow> gctx \<Rightarrow> save_experiment_request \<Rightarrow> string \<Rightarrow> string \<Rightarrow> 's
    \<Rightarrow> ('s, string) infra_outcome" where
  "SaveChaosExperiment x env gs c request projectID uname s =
     (case op_GetExperiment x (\<lambda>e. ex_ExperimentID e = sv_ID request \<and> ex_ProjectID e = projectID \<and> \<not> ex_IsRemoved e) s of
        Inl (DuplicateKeyError t) \<Rightarrow> (Inr (Inl (driver_text (DuplicateKeyError t))), s, [])
      | Inl (DriverError t) \<Rightarrow> (Inr (Inl (driver_text (DriverError t))), s, [])
      | found \<Rightarrow>
          (let (detID, detName) = (case found of Inr e \<Rightarrow> (ex_ExperimentID e, ex_Name e) | Inl _ \<Rightarrow> ('''', ''''));
               revID = new_uuid (g_auth (x_gql env)) 0 in
           sbind (quiet (ProcessExperiment x env c (save_request request) projectID revID 1 s))
             (save_processed x env gs c request projectID uname revID detID detName)))"

record experiment_response =
  xr_ExperimentID :: string
  xr_CronSyntax :: string
  xr_ExperimentName :: string
  xr_ExperimentDescription :: string
  xr_IsCustomExperiment :: bool

definition response_of :: "experiment_request \<Rightarrow> experiment_response" where
  "response_of rq = \<lparr>xr_ExperimentID = deref '''' (rx_ExperimentID rq), xr_CronSyntax = rx_CronSyntax rq, xr_ExperimentName = rx_ExperimentName rq,
     xr_ExperimentDescription = rx_ExperimentDescription rq, xr_IsCustomExperiment = rx_IsCustomExperiment rq\<rparr>"

text \<open>The name check of a creation, and the request with its identifier.\<close>

definition creation_check :: "'s exp_db \<Rightarrow> exp_env \<Rightarrow> experiment_request \<Rightarrow> string \<Rightarrow> 's \<Rightarrow> string + experiment_request" where
  "creation_check x env request projectID s =
     (case rx_ExperimentID request of
        None \<Rightarrow>
          map_sum id (\<lambda>_. request\<lparr>rx_ExperimentID := Some (new_uuid (g_auth (x_gql env)) 1)\<rparr>)
            (validateDuplicateExperimentName x projectID (rx_ExperimentName request) s)
      | Some i \<Rightarrow>
          (case op_GetExperiment x (\<lambda>e. ex_ExperimentID e = i \<and> ex_ProjectID e = projectID \<and> \<not> ex_IsRemoved e) s of
             Inl e \<Rightarrow> Inl (driver_text e)
           | Inr existing \<Rightarrow>
               if ex_Name existing \<noteq> rx_ExperimentName request
               then map_sum id (\<lambda>_. request) (validateDuplicateExperimentName x projectID (rx_ExperimentName request) s)
               else Inr request))"

definition CreateChaosExperiment :: "'s exp_db \<Rightarrow> exp_env \<Rightarrow> 's git_service \<Rightarrow> gctx \<Rightarrow> experiment_request \<Rightarrow> string \<Rightarrow> string \<Rightarrow> 's
    \<Rightarrow> ('s, experiment_response) infra_outcome" where
  "CreateChaosExperiment x env gs c request projectID uname s =
     (let revID = new_uuid (g_auth (x_gql env)) 0 in
      sbind (quiet (lift_go (Inr (creation_check x env request projectID s)) s)) (\<lambda>rq s.
      sbind (quiet (ProcessExperiment x env c rq projectID revID 2 s)) (\<lambda>(newRequest, wfType, k) s.
      sbind (UpsertExperimentToGit gs c projectID newRequest s) (\<lambda>u s.
      sbind (ProcessExperimentCreation x (later k env) newRequest uname projectID wfType revID False s) (\<lambda>u s.
        (Inr (Inr (response_of newRequest)), s, []))))))"

section \<open>Updating\<close>

fun other_experiment :: "string option \<Rightarrow> chaos_experiment list \<Rightarrow> bool go" where
  "other_experiment i [] = Inr False"
| "other_experiment i (e # es) =
     (case i of None \<Rightarrow> Inl NilDereference | Some v \<Rightarrow> if ex_ExperimentID e \<noteq> v then Inr True else other_experiment i es)"

definition UpdateChaosExperiment :: "'s exp_db \<Rightarrow> exp_env \<Rightarrow> 's git_service \<Rightarrow> gctx \<Rightarrow> experiment_request \<Rightarrow> string \<Rightarrow> string \<Rightarrow> 's
    \<Rightarrow> ('s, experiment_response) infra_outcome" where
  "UpdateChaosExperiment x env gs c request projectID uname s =
     (let revID = new_uuid (g_auth (x_gql env)) 0 in
      case op_GetExperiments x (\<lambda>e. ex_ProjectID e = projectID \<and> ex_Name e = rx_ExperimentName request \<and> \<not> ex_IsRemoved e) s of
        Inl e \<Rightarrow> (Inr (Inl e), s, [])
      | Inr es \<Rightarrow>
          (case other_experiment (rx_ExperimentID request) es of
             Inl p \<Rightarrow> (Inl p, s, [])
           | Inr True \<Rightarrow> (Inr (Inl (''experiment name should be unique, duplicate experiment found with name: '' @ rx_ExperimentName request)), s, [])
           | Inr False \<Rightarrow>
               sbind (quiet (ProcessExperiment x env c request projectID revID 1 s)) (\<lambda>(newRequest, wfType, k) s.
               sbind (UpsertExperimentToGit gs c projectID newRequest s) (\<lambda>u s.
               sbind (ProcessExperimentUpdate x (later k env) newRequest uname wfType revID False projectID True s) (\<lambda>u s.
                 (Inr (Inr (response_of newRequest)), s, []))))))"

section \<open>Deleting and suspending\<close>

fun present_weights :: "weightages_input option list \<Rightarrow> weightages_input list go" where
  "present_weights [] = Inr []"
| "present_weights (None # ws) = Inl NilDereference"
| "present_weights (Some w # ws) = map_sum id ((#) w) (present_weights ws)"

definition DisableCronExperiment :: "'s exp_db \<Rightarrow> exp_env \<Rightarrow> string \<Rightarrow> chaos_experiment \<Rightarrow> string \<Rightarrow> 's \<Rightarrow> ('s, unit) infra_outcome" where
  "DisableCronExperiment x env uname experiment projectID s =
     (if ex_Revision experiment = [] then (Inr (Inl ''revision array is empty''), s, [])
      else
        (let rev = last (ex_Revision experiment) in
         case x_sjson env (rv_ExperimentManifest rev) ''spec.suspend'' ''true'' of
           Inl e \<Rightarrow> (Inr (Inl e), s, [])
         | Inr manifest \<Rightarrow>
             (case present_weights (rv_Weightages rev) of
                Inl p \<Rightarrow> (Inl p, s, [])
              | Inr ws \<Rightarrow>
                  ProcessExperimentUpdate x env
                    \<lparr>rx_ExperimentID = Some (ex_ExperimentID experiment), rx_RunExperiment = None, rx_ExperimentManifest = manifest, rx_ExperimentType = None,
                     rx_CronSyntax = ex_CronSyntax experiment, rx_ExperimentName = ex_Name experiment,
                     rx_ExperimentDescription = ex_Description experiment, rx_Weightages = ws,
                     rx_IsCustomExperiment = ex_IsCustomExperiment experiment, rx_InfraID = ex_InfraID experiment, rx_Tags = []\<rparr>
                    uname (ex_ExperimentType experiment) (if ws = [] then '''' else rv_RevisionID rev) True projectID True s)))"

definition name_request :: "chaos_experiment \<Rightarrow> experiment_request" where
  "name_request e =
     \<lparr>rx_ExperimentID = Some (ex_ExperimentID e), rx_RunExperiment = None, rx_ExperimentManifest = '''', rx_ExperimentType = None,
      rx_CronSyntax = '''', rx_ExperimentName = ex_Name e, rx_ExperimentDescription = '''', rx_Weightages = [],
      rx_IsCustomExperiment = False, rx_InfraID = '''', rx_Tags = []\<rparr>"

definition DeleteChaosExperiment :: "'s exp_db \<Rightarrow> exp_env \<Rightarrow> 's git_service \<Rightarrow> gctx \<Rightarrow> string \<Rightarrow> string \<Rightarrow> string option \<Rightarrow> string \<Rightarrow> 's
    \<Rightarrow> ('s, bool) infra_outcome" where
  "DeleteChaosExperiment x env gs c projectID workflowID workflowRunID uname s =
     (let query = (\<lambda>e. ex_ExperimentID e = workflowID \<and> ex_ProjectID e = projectID) in
      case op_GetExperiment x query s of
        Inl e \<Rightarrow> (Inr (Inl (driver_text e)), s, [])
      | Inr wkf \<Rightarrow>
          if ex_IsRemoved wkf then (Inr (Inl (''chaos experiment already deleted: '' @ workflowID)), s, [])
          else (case workflowRunID of
              None \<Rightarrow>
                sbind (if ex_CronSyntax wkf \<noteq> '''' then DisableCronExperiment x env uname wkf projectID s else (Inr (Inr ()), s, [])) (\<lambda>u s.
                sbind (DeleteExperimentFromGit gs c projectID (name_request wkf) s) (\<lambda>u s.
                sbind (ProcessExperimentDelete x (later 4 env) query wkf uname s) (\<lambda>u s. (Inr (Inr True), s, []))))
            | Some runID \<Rightarrow>
                if runID = '''' then (Inr (Inr True), s, [])
                else
                  (let rquery = (\<lambda>d. er_ExperimentID d = workflowID \<and> er_ExperimentRunID d = runID) in
                   case op_GetExperimentRun x rquery s of
                     Inl e \<Rightarrow> (Inr (Inl e), s, [])
                   | Inr run \<Rightarrow>
                       (case ProcessExperimentRunDelete x env rquery (Some runID) (run\<lparr>er_IsRemoved := True\<rparr>) wkf uname s of
                          (Some e, s', sg) \<Rightarrow> (Inr (Inl e), s', sg)
                        | (None, s', sg) \<Rightarrow> (Inr (Inr True), s', sg)))))"

text \<open>The latest revision; the order of revisions with the same time is that of the unstable sort.\<close>

text \<open>The revisions as they are sorted before the latest one is taken.\<close>

definition by_time :: "experiment_revision list \<Rightarrow> experiment_revision list" where
  "by_time revs = sort_slice (\<lambda>a b. rv_UpdatedAt a > rv_UpdatedAt b) revs"

definition UpdateCronExperimentState :: "'s exp_db \<Rightarrow> exp_env \<Rightarrow> string \<Rightarrow> bool \<Rightarrow> string \<Rightarrow> string \<Rightarrow> 's \<Rightarrow> ('s, bool) infra_outcome" where
  "UpdateCronExperimentState x env workflowID disable projectID uname s =
     (case op_GetExperiment x (\<lambda>e. ex_ProjectID e = projectID \<and> ex_ExperimentID e = workflowID \<and> \<not> ex_IsRemoved e) s of
        Inl e \<Rightarrow> (Inr (Inl (''could not get experiment run, error: '' @ driver_text e)), s, [])
      | Inr experiment \<Rightarrow>
          (case op_GetInfra (gql_handle x) (ex_InfraID experiment) s of
             Inl e \<Rightarrow> (Inr (Inl (''failed to get infra for infraID: '' @ ex_InfraID experiment @ '', error: '' @ e)), s, [])
           | Inr infra \<Rightarrow>
               if \<not> i_IsActive infra then (Inr (Inl ''cron experiement updation failed due to inactive infra, err: <nil>''), s, [])
               else if ex_Revision experiment = [] then (Inr (Inl ''no revisions found''), s, [])
               else
                 (let rev = hd (by_time (ex_Revision experiment));
                      rq = (\<lambda>m infraID. \<lparr>rx_ExperimentID = Some workflowID, rx_RunExperiment = None, rx_ExperimentManifest = m, rx_ExperimentType = None,
                              rx_CronSyntax = '''', rx_ExperimentName = ex_Name experiment, rx_ExperimentDescription = '''', rx_Weightages = [],
                              rx_IsCustomExperiment = False, rx_InfraID = infraID, rx_Tags = []\<rparr>) in
                  case x_cron env (rv_ExperimentManifest rev) of
                    Inl e \<Rightarrow> (Inr (Inl (''failed to unmarshal experiment manifest, error: '' @ e)), s, [])
                  | Inr w0 \<Rightarrow>
                      (let w = w0\<lparr>cw_Suspend := disable\<rparr> in
                       case x_cron_json env w of
                         Inl e \<Rightarrow> (Inr (Inl (''failed to marshal workflow manifest, error: '' @ e)), s, [])
                       | Inr m1 \<Rightarrow>
                           sbind (ProcessExperimentUpdate x env (rq m1 '''') uname (ex_ExperimentType experiment) (rv_RevisionID rev) True (ex_ProjectID experiment) False s) (\<lambda>u s.
                           sbind (quiet (lift_go (UpdateRuntimeCronWorkflowConfiguration env w experiment) s)) (\<lambda>(w1, faults) s.
                           sbind (quiet (lift_go (with_error ''failed to marshal workflow manifest'' (x_cron_json env w1)) s)) (\<lambda>m2 s.
                           sbind (quiet (lift_go (map_sum id (map_sum (\<lambda>e. ''failed to unmarshal experiment manifest, error: '' @ e) id)
                                    (GenerateCronExperimentManifestWithProbes x env m2 (ex_ProjectID experiment) s)) s)) (\<lambda>w2 s.
                           sbind (quiet (lift_go (with_error ''failed to marshal workflow manifest'' (x_cron_json env w2)) s)) (\<lambda>m3 s.
                             (Inr (Inr True), s, send_experiment env True projectID (rq m3 (ex_InfraID experiment)) uname ''update''))))))))))"

section \<open>Running\<close>

definition with_name :: "'s exp_db \<Rightarrow> exp_env \<Rightarrow> gctx \<Rightarrow> 's \<Rightarrow> ('s, string) infra_outcome" where
  "with_name x env c s = (GetUsername (gql_handle x) (x_gql env) (gc_token c) s, s, [])"

definition manifest_request :: "chaos_experiment \<Rightarrow> string \<Rightarrow> experiment_request" where
  "manifest_request wkf m =
     \<lparr>rx_ExperimentID = Some (ex_ExperimentID wkf), rx_RunExperiment = None, rx_ExperimentManifest = m, rx_ExperimentType = None,
      rx_CronSyntax = '''', rx_ExperimentName = '''', rx_ExperimentDescription = '''', rx_Weightages = [],
      rx_IsCustomExperiment = False, rx_InfraID = ex_InfraID wkf, rx_Tags = []\<rparr>"

definition RunCronExperiment :: "'s exp_db \<Rightarrow> exp_env \<Rightarrow> gctx \<Rightarrow> string \<Rightarrow> chaos_experiment \<Rightarrow> 's \<Rightarrow> ('s, unit) infra_outcome" where
  "RunCronExperiment x env c projectID wkf s =
     (if ex_Revision wkf = [] then (Inr (Inl ''no revisions found''), s, [])
      else
        sbind (quiet (lift_go (map_sum id (map_sum (\<lambda>e. ''failed to unmarshal experiment manifest'') id)
                 (GenerateCronExperimentManifestWithProbes x env (rv_ExperimentManifest (hd (by_time (ex_Revision wkf)))) (ex_ProjectID wkf) s)) s)) (\<lambda>w s.
        sbind (quiet (lift_go (runtime_templates env False (ex_InfraID wkf) (cw_Templates w)) s)) (\<lambda>(ts, fs) s.
        sbind (quiet (lift_go (Inr (x_cron_yaml env (w\<lparr>cw_Templates := ts\<rparr>))) s)) (\<lambda>m s.
        sbind (with_name x env c s) (\<lambda>uname s.
          (Inr (Inr ()), s, send_experiment env True projectID (manifest_request wkf m) uname ''create''))))))"

definition queued_detail :: "chaos_experiment \<Rightarrow> string \<Rightarrow> string \<Rightarrow> string \<Rightarrow> int \<Rightarrow> experiment_run_detail" where
  "queued_detail wkf projectID notifyID uname now =
     \<lparr>rd_UpdatedAt = now, rd_CreatedAt = now, rd_CreatedBy = uname, rd_UpdatedBy = uname, rd_IsRemoved = False, rd_ProjectID = projectID,
      rd_ExperimentRunID = '''', rd_Phase = ''Queued'', rd_NotifyID = Some notifyID, rd_ResiliencyScore = None, rd_Completed = False,
      rd_RunSequence = wrap64 (ex_TotalExperimentRuns wkf + 1), rd_Probe = []\<rparr>"

definition queued_run :: "chaos_experiment \<Rightarrow> string \<Rightarrow> string \<Rightarrow> string \<Rightarrow> string \<Rightarrow> experiment_probes list \<Rightarrow> string \<Rightarrow> int \<Rightarrow> experiment_run" where
  "queued_run wkf projectID revisionID notifyID uname prbs parsedData now =
     \<lparr>er_ProjectID = projectID, er_UpdatedAt = now, er_CreatedAt = now, er_CreatedBy = uname, er_UpdatedBy = uname, er_IsRemoved = False,
      er_InfraID = ex_InfraID wkf, er_ExperimentRunID = '''', er_ExperimentID = ex_ExperimentID wkf, er_ExperimentName = '''', er_Phase = ''Queued'',
      er_Probes = prbs, er_ExecutionData = parsedData, er_RevisionID = revisionID, er_NotifyID = Some notifyID, er_ResiliencyScore = Some 0,
      er_FaultsPassed = None, er_FaultsFailed = None, er_FaultsAwaited = None, er_FaultsStopped = None, er_FaultsNA = None, er_TotalFaults = None,
      er_RunSequence = wrap64 (ex_TotalExperimentRuns wkf + 1), er_Completed = False\<rparr>"

text \<open>The transaction: an error of the first update is only logged.\<close>

definition run_writes :: "'s exp_db \<Rightarrow> chaos_experiment \<Rightarrow> experiment_run_detail \<Rightarrow> experiment_run \<Rightarrow> int \<Rightarrow> 's \<Rightarrow> string option \<times> 's" where
  "run_writes x wkf d r now s =
     (case op_UpdateChaosExperiment x (\<lambda>e. ex_ExperimentID e = ex_ExperimentID wkf) (push_detail now wkf d) s of
        (e, s1) \<Rightarrow> CreateExperimentRun x r s1)"

definition run_transaction :: "'s exp_db \<Rightarrow> chaos_experiment \<Rightarrow> experiment_run_detail \<Rightarrow> experiment_run \<Rightarrow> int \<Rightarrow> 's \<Rightarrow> ('s, unit) infra_outcome" where
  "run_transaction x wkf d r now s =
     (case StartSession (auth_handle (gql_handle x)) s of
        Some e \<Rightarrow> (Inr (Inl (driver_text e)), s, [])
      | None \<Rightarrow>
          (case run_writes x wkf d r now s of
             (Some e, s1) \<Rightarrow> (Inr (Inl e), s, [])
           | (None, s1) \<Rightarrow>
               (case CommitTransaction (auth_handle (gql_handle x)) s s1 of
                  (Some e, s2) \<Rightarrow> (Inr (Inl (driver_text e)), s2, [])
                | (None, s2) \<Rightarrow> (Inr (Inr ()), s2, []))))"

text \<open>What is computed before the first write: the workflow of the run and its probes.\<close>

definition run_workflow :: "exp_env \<Rightarrow> chaos_experiment \<Rightarrow> string \<Rightarrow> int \<Rightarrow> string \<Rightarrow> (string + (workflow \<times> experiment_probes list)) go" where
  "run_workflow env wkf manifest now notifyID =
     (case x_workflow env manifest of
        Inl e \<Rightarrow> Inr (Inl ''failed to unmarshal workflow manifest'')
      | Inr w \<Rightarrow>
          if map_of (deref [] (wf_Labels w)) ''infra_id'' = None then
            Inr (Inl ''failed to rerun the chaos experiment due to invalid metadata/labels. Check the troubleshooting guide or contact support'')
          else map_sum id (map_sum id (\<lambda>(ts, fs).
                 (w\<lparr>wf_Labels := Some (AList.update ''notify_id'' notifyID (deref [] (wf_Labels w))), wf_Name := wf_Name w @ ''-'' @ itoa now,
                    wf_Templates := ts\<rparr>, map snd fs)))
                 (runtime_templates env True (ex_InfraID wkf) (wf_Templates w)))"

definition RunChaosWorkFlow :: "'s exp_db \<Rightarrow> exp_env \<Rightarrow> gctx \<Rightarrow> string \<Rightarrow> chaos_experiment \<Rightarrow> 's \<Rightarrow> ('s, string) infra_outcome" where
  "RunChaosWorkFlow x env c projectID wkf s =
     (case op_GetInfra (gql_handle x) (ex_InfraID wkf) s of
        Inl e \<Rightarrow> (Inr (Inl e), s, [])
      | Inr infra \<Rightarrow>
          if \<not> i_IsActive infra then (Inr (Inl ''experiment re-run failed due to inactive infra''), s, [])
          else if ex_Revision wkf = [] then (Inr (Inl ''no revisions found''), s, [])
          else
            (let now = now_ms (g_auth (x_gql env)) 0; rev = hd (by_time (ex_Revision wkf)); notifyID = new_uuid (g_auth (x_gql env)) 0 in
             if foldLower (x_gjson env (rv_ExperimentManifest rev) ''kind'') = ''cronworkflow'' then
               sbind (RunCronExperiment x env c projectID wkf s) (\<lambda>u s. (Inr (Inr ''''), s, []))
             else
               sbind (quiet (lift_go (run_workflow env wkf (rv_ExperimentManifest rev) now notifyID) s)) (\<lambda>(w, prbs) s.
               sbind (quiet (of_error (op_UpdateChaosExperiment x (\<lambda>e. ex_ExperimentID e = ex_ExperimentID wkf) (\<lambda>e. e\<lparr>ex_UpdatedAt := now\<rparr>) s))) (\<lambda>u s.
               sbind (quiet (lift_go (Inr (x_encode_exec env (wf_Name w, ''Queued'', ex_ExperimentID wkf))) s)) (\<lambda>parsedData s.
               sbind (with_name x env c s) (\<lambda>uname s.
               sbind (run_transaction x wkf (queued_detail wkf projectID notifyID uname now)
                        (queued_run wkf projectID (rv_RevisionID rev) notifyID uname prbs parsedData now) now s) (\<lambda>u s.
               sbind (quiet (lift_go (Inr (map_sum (\<lambda>e. ''failed to marshal experiment manifest, err: '' @ e) id (x_workflow_json env w))) s)) (\<lambda>m s.
               sbind (quiet (lift_go (map_sum id (map_sum (\<lambda>e. ''failed to generate probes in workflow manifest, err: '' @ e) id)
                        (GenerateExperimentManifestWithProbes x env m projectID s)) s)) (\<lambda>w' s.
               sbind (quiet (lift_go (Inr (x_workflow_yaml env w')) s)) (\<lambda>y s.
                 (Inr (Inr notifyID), s, send_experiment env True projectID (manifest_request wkf y) uname ''create'')))))))))))"

section \<open>Resolvers\<close>

definition with_user_sig :: "'s exp_db \<Rightarrow> exp_env \<Rightarrow> gctx \<Rightarrow> (string \<Rightarrow> 's \<Rightarrow> ('s, 'a) infra_outcome) \<Rightarrow> 's \<Rightarrow> ('s, 'a) infra_outcome" where
  "with_user_sig x env c k s = sbind (with_name x env c s) k"

definition live_experiment :: "'s exp_db \<Rightarrow> string \<Rightarrow> 's \<Rightarrow> ('s, chaos_experiment) infra_outcome" where
  "live_experiment x experimentID s =
     (case op_GetExperiment x (\<lambda>e. ex_ExperimentID e = experimentID \<and> \<not> ex_IsRemoved e) s of
        Inl e \<Rightarrow> (Inr (Inl (''could not get experiment run, error: '' @ driver_text e)), s, [])
      | Inr e \<Rightarrow> (Inr (Inr e), s, []))"

definition map_err :: "(string \<Rightarrow> string) \<Rightarrow> ('s, 'a) infra_outcome \<Rightarrow> ('s, 'a) infra_outcome" where
  "map_err f r = apfst (map_sum id (map_sum f id)) r"

text \<open>
  Creation is guarded by the rule for environments, update by the rule for runs. \<^verbatim>\<open>env'\<close> has the clock and the identifiers of the run
  that follows a creation.
\<close>

definition r_CreateChaosExperiment where
  "r_CreateChaosExperiment x env env' gs c request projectID =
     with_role_sig (gql_handle x) (x_gql env) c projectID ''CreateEnvironment'' (with_user_sig x env c (\<lambda>uname s.
       sbind (map_err (\<lambda>e. ''could not create experiment, error: '' @ e) (CreateChaosExperiment x env gs c request projectID uname s)) (\<lambda>res s.
         if rx_RunExperiment request = Some True then
           sbind (live_experiment x (xr_ExperimentID res) s) (\<lambda>experiment s.
             if ex_CronSyntax experiment \<noteq> '''' then sbind (RunCronExperiment x env' c projectID experiment s) (\<lambda>u s. (Inr (Inr res), s, []))
             else sbind (RunChaosWorkFlow x env' c projectID experiment s) (\<lambda>u s. (Inr (Inr res), s, [])))
         else (Inr (Inr res), s, []))))"

definition r_SaveChaosExperiment where
  "r_SaveChaosExperiment x env gs c request projectID =
     with_role_sig (gql_handle x) (x_gql env) c projectID ''CreateChaosExperiment''
       (with_user_sig x env c (SaveChaosExperiment x env gs c request projectID))"

definition r_UpdateChaosExperiment where
  "r_UpdateChaosExperiment x env gs c request projectID =
     with_role_sig (gql_handle x) (x_gql env) c projectID ''ReRunChaosExperiment''
       (with_user_sig x env c (UpdateChaosExperiment x env gs c request projectID))"

definition r_DeleteChaosExperiment where
  "r_DeleteChaosExperiment x env gs c experimentID experimentRunID projectID =
     with_role_sig (gql_handle x) (x_gql env) c projectID ''DeleteChaosEnvironment''
       (with_user_sig x env c (DeleteChaosExperiment x env gs c projectID experimentID experimentRunID))"

definition r_UpdateCronExperimentState where
  "r_UpdateCronExperimentState x env c experimentID disable projectID =
     with_role_sig (gql_handle x) (x_gql env) c projectID ''UpdateChaosExperiment''
       (with_user_sig x env c (UpdateCronExperimentState x env experimentID disable projectID))"

text \<open>The experiment to run is looked up in all projects.\<close>

definition r_RunChaosExperiment where
  "r_RunChaosExperiment x env c experimentID projectID =
     with_role_sig (gql_handle x) (x_gql env) c projectID ''ReRunChaosExperiment'' (\<lambda>s.
       sbind (live_experiment x experimentID s) (RunChaosWorkFlow x env c projectID))"

end
