(* ===== verification/Gql_GitOps.thy ===== *)
theory Gql_GitOps
  imports Gql_Experiments
begin

text \<open>
  GitOps, \<^verbatim>\<open>pkg/gitops\<close>: the configuration of a project's repository, the synchronisation of stored experiments with the files of
  the repository, and the two operations the experiment handlers call. The git library, the file system and the YAML and JSON codecs
  are a parameter, \<^verbatim>\<open>git_world\<close>. Every operation holds the lock of its project, and then that of its repository, from start to end, so
  operations on one project are run one after the other. Log lines are left out.
\<close>

section \<open>Data\<close>

record git_config_db =
  gd_ProjectID :: string
  gd_RepositoryURL :: string
  gd_Branch :: string
  gd_LatestCommit :: string
  gd_AuthType :: string
  gd_UserName :: "string option"
  gd_Password :: "string option"
  gd_Token :: "string option"
  gd_SSHPrivateKey :: "string option"

record git_config_input =
  gn_Branch :: string
  gn_RepoURL :: string
  gn_AuthType :: string
  gn_Token :: "string option"
  gn_UserName :: "string option"
  gn_Password :: "string option"
  gn_SSHPrivateKey :: "string option"

record git_config =
  gf_ProjectID :: string
  gf_RepositoryURL :: string
  gf_LocalPath :: string
  gf_RemoteName :: string
  gf_Branch :: string
  gf_LatestCommit :: string
  gf_UserName :: "string option"
  gf_Password :: "string option"
  gf_AuthType :: string
  gf_Token :: "string option"
  gf_SSHPrivateKey :: "string option"

record git_user =
  gu_username :: string
  gu_email :: string

definition GetGitConfigDB :: "string \<Rightarrow> git_config_input \<Rightarrow> git_config_db" where
  "GetGitConfigDB projectID config =
     \<lparr>gd_ProjectID = projectID, gd_RepositoryURL = gn_RepoURL config, gd_Branch = gn_Branch config, gd_LatestCommit = '''',
      gd_AuthType = gn_AuthType config, gd_UserName = gn_UserName config, gd_Password = gn_Password config, gd_Token = gn_Token config,
      gd_SSHPrivateKey = gn_SSHPrivateKey config\<rparr>"

definition GetGitOpsConfig :: "git_config_db \<Rightarrow> git_config" where
  "GetGitOpsConfig d =
     \<lparr>gf_ProjectID = gd_ProjectID d, gf_RepositoryURL = gd_RepositoryURL d, gf_LocalPath = ''/tmp/gitops/'' @ gd_ProjectID d, gf_RemoteName = ''origin'',
      gf_Branch = gd_Branch d, gf_LatestCommit = gd_LatestCommit d, gf_UserName = gd_UserName d, gf_Password = gd_Password d,
      gf_AuthType = gd_AuthType d, gf_Token = gd_Token d, gf_SSHPrivateKey = gd_SSHPrivateKey d\<rparr>"

definition GitUserFromContext :: "gctx \<Rightarrow> git_user go" where
  "GitUserFromContext c =
     (case gc_claims c of
        None \<Rightarrow> Inr \<lparr>gu_username = ''gitops@litmus-chaos'', gu_email = ''gitops@litmus.chaos''\<rparr>
      | Some cl \<Rightarrow>
          (case string_claim ''username'' cl of
             Inl p \<Rightarrow> Inl p
           | Inr u \<Rightarrow>
               (case claim_of ''email'' cl of
                  None \<Rightarrow> Inr \<lparr>gu_username = u @ ''@litmus-chaos'', gu_email = u @ ''@litmus-chaos''\<rparr>
                | Some e \<Rightarrow> (case string_claim ''email'' cl of Inl p \<Rightarrow> Inl p | Inr m \<Rightarrow> Inr \<lparr>gu_username = u @ ''@litmus-chaos'', gu_email = m\<rparr>))))"

text \<open>The key of a lock: a slice of the last two parts of the repository's address, which panics when there is one part only.\<close>

fun split_parts :: "string \<Rightarrow> string \<Rightarrow> string list" where
  "split_parts acc [] = [rev acc]"
| "split_parts acc (ch # cs) = (if ch \<in> set '':/'' then rev acc # split_parts [] cs else split_parts (ch # acc) cs)"

definition trim_chars :: "string \<Rightarrow> string \<Rightarrow> string" where
  "trim_chars cutset v = rev (dropWhile (\<lambda>ch. ch \<in> set cutset) (rev (dropWhile (\<lambda>ch. ch \<in> set cutset) v)))"

definition getKey :: "string \<Rightarrow> string option \<Rightarrow> string go" where
  "getKey repo branch =
     (case branch of
        None \<Rightarrow> Inr repo
      | Some b \<Rightarrow>
          (let parts = split_parts [] (trim_chars ''.git'' repo) in
           if length parts < 2 then Inl SliceBounds else Inr (go_join ''/'' (drop (length parts - 2) parts) @ ''/'' @ b)))"

section \<open>The git library and the file system\<close>

datatype git_auth = NoAuth | BasicAuth string string | SshAuth string

datatype git_error = AlreadyUpToDate | GitError string

datatype file_error = NotExist | FileError string

text \<open>A commit of the log: the initial one with its files, another with the old and the new path of every changed file.\<close>

datatype commit_content = InitialCommit "string + string list" | ChangeCommit "string + (string option \<times> string option) list"

record git_commit =
  gm_Hash :: string
  gm_Content :: commit_content

record 's git_world =
  git_configs :: "('s, git_config_db) collection"
  w_stat :: "string \<Rightarrow> 's \<Rightarrow> file_error option"
  w_read :: "string \<Rightarrow> 's \<Rightarrow> string + string"
  w_write :: "string \<Rightarrow> string \<Rightarrow> 's \<Rightarrow> string option \<times> 's"
  w_remove_all :: "string \<Rightarrow> 's \<Rightarrow> string option \<times> 's"
  w_rename :: "string \<Rightarrow> string \<Rightarrow> 's \<Rightarrow> string option \<times> 's"
  w_mkdir :: "string \<Rightarrow> 's \<Rightarrow> string option \<times> 's"
  w_clone :: "string \<Rightarrow> git_auth \<Rightarrow> string \<Rightarrow> string \<Rightarrow> 's \<Rightarrow> string option \<times> 's"
  w_open :: "string \<Rightarrow> 's \<Rightarrow> string option"
  w_fetch :: "string \<Rightarrow> git_auth \<Rightarrow> string \<Rightarrow> 's \<Rightarrow> git_error option \<times> 's"
  w_remote :: "string \<Rightarrow> string \<Rightarrow> string \<Rightarrow> 's \<Rightarrow> string + string"
  w_reset :: "string \<Rightarrow> string \<Rightarrow> 's \<Rightarrow> string option \<times> 's"
  w_push :: "string \<Rightarrow> git_auth \<Rightarrow> string \<Rightarrow> 's \<Rightarrow> git_error option \<times> 's"
  w_add :: "string \<Rightarrow> string \<Rightarrow> 's \<Rightarrow> string option \<times> 's"
  w_remove :: "string \<Rightarrow> string \<Rightarrow> 's \<Rightarrow> string option \<times> 's"
  w_commit :: "string \<Rightarrow> string \<Rightarrow> git_user \<Rightarrow> 's \<Rightarrow> (string + string) \<times> 's"
  w_head :: "string \<Rightarrow> 's \<Rightarrow> string + string"
  w_log :: "string \<Rightarrow> 's \<Rightarrow> string + (string + git_commit) list"
  w_latest :: "string \<Rightarrow> (string \<Rightarrow> bool) \<Rightarrow> 's \<Rightarrow> string + (string + string)"
  w_order :: "string list \<Rightarrow> string list"
  w_yaml_json :: "string \<Rightarrow> string + string"
  w_json_yaml :: "string \<Rightarrow> string + string"
  w_info :: "string \<Rightarrow> string + labels option"
  w_info_json :: "labels \<Rightarrow> string + string"
  w_ssh :: "string \<Rightarrow> string + unit"
  w_git_username :: string

section \<open>Configurations in the database\<close>

definition AddGitConfig :: "'s git_world \<Rightarrow> git_config_db \<Rightarrow> 's \<Rightarrow> string option \<times> 's" where
  "AddGitConfig w config s = apfst (map_option driver_text) (InsertOne (git_configs w) config s)"

definition GetGitConfig :: "'s git_world \<Rightarrow> string \<Rightarrow> 's \<Rightarrow> string + git_config_db option" where
  "GetGitConfig w projectID s =
     (case FindOne (git_configs w) (\<lambda>d. gd_ProjectID d = projectID) s of
        Inl ErrNoDocuments \<Rightarrow> Inr None
      | Inl e \<Rightarrow> Inl (driver_text e)
      | Inr d \<Rightarrow> Inr (Some d))"

definition GetAllGitConfig :: "'s git_world \<Rightarrow> 's \<Rightarrow> string + git_config_db list" where
  "GetAllGitConfig w s = map_sum driver_text id (Find (git_configs w) (\<lambda>_. True) s)"

definition UpdateGitConfig :: "'s git_world \<Rightarrow> (git_config_db \<Rightarrow> bool) \<Rightarrow> (git_config_db \<Rightarrow> git_config_db) \<Rightarrow> 's \<Rightarrow> string option \<times> 's" where
  "UpdateGitConfig w query update s =
     (case UpdateOne (git_configs w) query (Some update) s of
        (Inl e, s') \<Rightarrow> (Some (driver_text e), s')
      | (Inr n, s') \<Rightarrow> (if n = 0 then Some ''No matching git config found'' else None, s'))"

text \<open>A replacement is an update by a constant; with the option \<^verbatim>\<open>upsert\<close> the document is inserted when none matches.\<close>

definition ReplaceGitConfig :: "'s git_world \<Rightarrow> (git_config_db \<Rightarrow> bool) \<Rightarrow> git_config_db \<Rightarrow> 's \<Rightarrow> string option \<times> 's" where
  "ReplaceGitConfig w query config s =
     (case UpdateOne (git_configs w) query (Some (\<lambda>_. config)) s of
        (Inl e, s') \<Rightarrow> (Some (driver_text e), s')
      | (Inr n, s') \<Rightarrow>
          if n = 0 then (case InsertOne (git_configs w) config s' of
              (Some e, s2) \<Rightarrow> (Some (driver_text e), s2)
            | (None, s2) \<Rightarrow> (Some ''No matching git config found'', s2))
          else (None, s'))"

definition DeleteGitConfig :: "'s git_world \<Rightarrow> string \<Rightarrow> 's \<Rightarrow> string option \<times> 's" where
  "DeleteGitConfig w projectID s =
     (case DeleteOne (git_configs w) (\<lambda>d. gd_ProjectID d = projectID) s of
        (Inl e, s') \<Rightarrow> (Some (driver_text e), s')
      | (Inr n, s') \<Rightarrow> (None, s'))"

section \<open>Git operations\<close>

definition PathExists :: "'s git_world \<Rightarrow> string \<Rightarrow> 's \<Rightarrow> string + bool" where
  "PathExists w path s = (case w_stat w path s of None \<Rightarrow> Inr True | Some NotExist \<Rightarrow> Inr False | Some (FileError e) \<Rightarrow> Inl e)"

definition getAuthMethod :: "'s git_world \<Rightarrow> git_config \<Rightarrow> (string + git_auth) go" where
  "getAuthMethod w c =
     (if gf_AuthType c = ''TOKEN'' then
        (case gf_Token c of None \<Rightarrow> Inl NilDereference | Some t \<Rightarrow> Inr (Inr (BasicAuth (w_git_username w) t)))
      else if gf_AuthType c = ''BASIC'' then
        (case (gf_UserName c, gf_Password c) of (Some u, Some p) \<Rightarrow> Inr (Inr (BasicAuth u p)) | _ \<Rightarrow> Inl NilDereference)
      else if gf_AuthType c = ''SSH'' then
        (case gf_SSHPrivateKey c of
           None \<Rightarrow> Inl NilDereference
         | Some k \<Rightarrow> Inr (case w_ssh w k of Inl e \<Rightarrow> Inl e | Inr u \<Rightarrow> Inr (SshAuth k)))
      else if gf_AuthType c = ''NONE'' then Inr (Inr NoAuth)
      else Inr (Inl ''no Matching Auth Type Found''))"

definition open_repository :: "'s git_world \<Rightarrow> git_config \<Rightarrow> 's \<Rightarrow> ('s, unit) outcome" where
  "open_repository w c s = of_error (w_open w (gf_LocalPath c) s, s)"

definition GitClone :: "'s git_world \<Rightarrow> git_config \<Rightarrow> 's \<Rightarrow> ('s, unit) outcome" where
  "GitClone w c s =
     obind (of_error (w_remove_all w (gf_LocalPath c) s)) (\<lambda>_ s.
     obind (lift_go (getAuthMethod w c) s) (\<lambda>auth s.
       of_error (w_clone w (gf_LocalPath c) auth (gf_RepositoryURL c) (gf_Branch c) s)))"

text \<open>\<^verbatim>\<open>git.NoErrAlreadyUpToDate\<close> is not an error.\<close>

definition git_done :: "git_error option \<times> 's \<Rightarrow> ('s, unit) outcome" where
  "git_done r = (case r of (Some (GitError e), s) \<Rightarrow> (Inr (Inl e), s) | (_, s) \<Rightarrow> (Inr (Inr ()), s))"

definition GitPull :: "'s git_world \<Rightarrow> git_config \<Rightarrow> 's \<Rightarrow> ('s, unit) outcome" where
  "GitPull w c s =
     obind (open_repository w c s) (\<lambda>_ s.
     obind (lift_go (getAuthMethod w c) s) (\<lambda>auth s.
     obind (git_done (w_fetch w (gf_LocalPath c) auth (gf_RemoteName c) s)) (\<lambda>_ s.
     obind (lift_go (Inr (w_remote w (gf_LocalPath c) (gf_RemoteName c) (gf_Branch c) s)) s) (\<lambda>hash s.
       of_error (w_reset w (gf_LocalPath c) hash s)))))"

definition GitPush :: "'s git_world \<Rightarrow> git_config \<Rightarrow> 's \<Rightarrow> ('s, unit) outcome" where
  "GitPush w c s =
     (if gf_AuthType c = ''NONE'' then (Inr (Inl ''cannot write/push without credentials, auth type = none''), s)
      else
        obind (open_repository w c s) (\<lambda>_ s.
        obind (lift_go (getAuthMethod w c) s) (\<lambda>auth s.
          git_done (w_push w (gf_LocalPath c) auth (gf_RemoteName c) s))))"

definition GitCommit :: "'s git_world \<Rightarrow> git_config \<Rightarrow> git_user \<Rightarrow> string \<Rightarrow> string option \<Rightarrow> 's \<Rightarrow> ('s, string) outcome" where
  "GitCommit w c user message deleteFile s =
     obind (open_repository w c s) (\<lambda>_ s.
     obind (of_error (case deleteFile of
         None \<Rightarrow> w_add w (gf_LocalPath c) (''./litmus/'' @ gf_ProjectID c @ ''/'') s
       | Some f \<Rightarrow> w_remove w (gf_LocalPath c) f s)) (\<lambda>_ s.
       apfst Inr (w_commit w (gf_LocalPath c) message user s)))"

text \<open>The changed files, each with the number of times it was met, since the known commit.\<close>

definition visit :: "string \<Rightarrow> string \<Rightarrow> (string \<times> nat) list \<Rightarrow> (string \<times> nat) list" where
  "visit path f visited =
     (if prefix path f then AList.update f (Suc (case map_of visited f of None \<Rightarrow> 0 | Some n \<Rightarrow> n)) visited else visited)"

definition content_files :: "commit_content \<Rightarrow> string + string list" where
  "content_files k =
     (case k of
        InitialCommit r \<Rightarrow> r
      | ChangeCommit r \<Rightarrow> map_sum id (\<lambda>ps. concat (map (\<lambda>(a, b). (case a of None \<Rightarrow> [] | Some f \<Rightarrow> [f]) @ (case b of None \<Rightarrow> [] | Some f \<Rightarrow> [f])) ps)) r)"

fun walk_log :: "string \<Rightarrow> string \<Rightarrow> (string \<times> nat) list \<Rightarrow> (string + git_commit) list \<Rightarrow> string + (string \<times> nat) list" where
  "walk_log known path visited [] = Inr visited"
| "walk_log known path visited (Inl e # cs) = Inl e"
| "walk_log known path visited (Inr cm # cs) =
     (if known \<noteq> '''' \<and> gm_Hash cm = known then Inr visited
      else (case content_files (gm_Content cm) of
          Inl e \<Rightarrow> Inl e
        | Inr fs \<Rightarrow> walk_log known path (fold (visit path) fs visited) cs))"

definition GetChanges :: "'s git_world \<Rightarrow> git_config \<Rightarrow> 's \<Rightarrow> string + (string \<times> (string \<times> nat) list)" where
  "GetChanges w c s =
     (case w_open w (gf_LocalPath c) s of
        Some e \<Rightarrow> Inl e
      | None \<Rightarrow>
          (case w_head w (gf_LocalPath c) s of
             Inl e \<Rightarrow> Inl e
           | Inr head \<Rightarrow>
               (case w_log w (gf_LocalPath c) s of
                  Inl e \<Rightarrow> Inl (''failed to get commit iterator: '' @ e)
                | Inr cs \<Rightarrow> map_sum id (Pair head) (walk_log (gf_LatestCommit c) (''litmus/'' @ gf_ProjectID c @ ''/'') [] cs))))"

definition GetLatestCommitHash :: "'s git_world \<Rightarrow> git_config \<Rightarrow> 's \<Rightarrow> string + string" where
  "GetLatestCommitHash w c s =
     (case w_open w (gf_LocalPath c) s of
        Some e \<Rightarrow> Inl e
      | None \<Rightarrow>
          (case w_latest w (gf_LocalPath c) (\<lambda>f. prefix (''litmus/'' @ gf_ProjectID c @ ''/'') f) s of
             Inl e \<Rightarrow> Inl (''failed to get latest commit hash :'' @ e)
           | Inr (Inl e) \<Rightarrow> Inl (''failed to get latest commit hash:'' @ e)
           | Inr (Inr h) \<Rightarrow> Inr h))"

text \<open>The information file: its revision is one higher when the project is in the repository already.\<close>

definition next_info :: "'s git_world \<Rightarrow> string \<Rightarrow> string \<Rightarrow> 's \<Rightarrow> string + labels" where
  "next_info w projectID file s =
     (case w_read w file s of
        Inl e \<Rightarrow> Inl (''can'' @ [CHR 0x27] @ ''t read existing git info file '' @ e)
      | Inr data \<Rightarrow>
          (case w_info w data of
             Inl e \<Rightarrow> Inl (''can'' @ [CHR 0x27] @ ''t read existing git info file '' @ e)
           | Inr d \<Rightarrow>
               (let info = (case d of None \<Rightarrow> [] | Some kvs \<Rightarrow> fold (\<lambda>(k, v). AList.update k v) kvs [(''projectID'', projectID), (''revision'', ''1'')]) in
                case atoi (deref '''' (map_of info ''revision'')) of
                  None \<Rightarrow> Inl (''can'' @ [CHR 0x27] @ ''t read existing git info file[failed to parse revision] '')
                | Some n \<Rightarrow> Inr (AList.update ''revision'' (itoa (wrap64 (n + 1))) info))))"

definition setupGitRepo :: "'s git_world \<Rightarrow> git_config \<Rightarrow> git_user \<Rightarrow> 's \<Rightarrow> ('s, unit) outcome" where
  "setupGitRepo w c user s =
     (let projectPath = gf_LocalPath c @ ''/litmus/'' @ gf_ProjectID c in
      obind (GitClone w c s) (\<lambda>_ s.
      obind (lift_go (Inr (PathExists w (projectPath @ ''/.info'') s)) s) (\<lambda>exists s.
      obind (if exists then lift_go (Inr (next_info w (gf_ProjectID c) (projectPath @ ''/.info'') s)) s
             else obind (of_error (w_mkdir w projectPath s)) (\<lambda>_ s. (Inr (Inr [(''projectID'', gf_ProjectID c), (''revision'', ''1'')]), s))) (\<lambda>info s.
      obind (lift_go (Inr (w_info_json w info)) s) (\<lambda>data s.
      obind (of_error (w_write w (projectPath @ ''/.info'') data s)) (\<lambda>_ s.
      obind (GitCommit w c user (''Setup Litmus Chaos GitOps for Project :'' @ gf_ProjectID c) None s) (\<lambda>_ s.
        GitPush w c s)))))))"

definition SetupGitOps :: "'s git_world \<Rightarrow> git_user \<Rightarrow> git_config \<Rightarrow> 's \<Rightarrow> ('s, string) outcome" where
  "SetupGitOps w user c s = obind (setupGitRepo w c user s) (\<lambda>_ s. lift_go (Inr (GetLatestCommitHash w c s)) s)"

section \<open>Synchronisation\<close>

text \<open>\<^verbatim>\<open>filepath.Split\<close> and the removal of the suffix.\<close>

definition file_name :: "string \<Rightarrow> string" where
  "file_name file = replace_all (rev (takeWhile (\<lambda>ch. ch \<noteq> CHR ''/'') (rev file))) ''.yaml'' ''''"

definition createExperiment :: "'s exp_db \<Rightarrow> 's git_world \<Rightarrow> exp_env \<Rightarrow> gctx \<Rightarrow> string \<Rightarrow> string \<Rightarrow> git_config \<Rightarrow> 's \<Rightarrow> ('s, bool) infra_outcome" where
  "createExperiment x w env c data file config s =
     (let wfName = x_gjson env data ''metadata.name''; infraID = x_gjson env data ''metadata.labels.infra_id'' in
      if wfName = '''' \<or> infraID = '''' then (Inr (Inr False), s, [])
      else if file_name file \<noteq> wfName then (Inr (Inl (''file name doesn'' @ [CHR 0x27] @ ''t match experiment name'')), s, [])
      else
        sbind (quiet (ProcessExperiment x env c
            \<lparr>rx_ExperimentID = None, rx_RunExperiment = None, rx_ExperimentManifest = data, rx_ExperimentType = None, rx_CronSyntax = '''',
             rx_ExperimentName = wfName, rx_ExperimentDescription = '''', rx_Weightages = [], rx_IsCustomExperiment = True, rx_InfraID = infraID,
             rx_Tags = []\<rparr> (gf_ProjectID config) '''' 0 s)) (\<lambda>(input, wfType, k) s.
        sbind (ProcessExperimentCreation x (later k env) input ''git-ops'' (gf_ProjectID config) wfType '''' True s) (\<lambda>_ s.
        sbind (quiet (lift_go (Inr (map_sum (\<lambda>e. ''Cannot convert manifest to yaml : '' @ e) id (w_json_yaml w (rx_ExperimentManifest input)))) s)) (\<lambda>yaml s.
        sbind (quiet (of_error (apfst (map_option (\<lambda>e. ''Cannot write experiment to git : '' @ e)) (w_write w (gf_LocalPath config @ ''/'' @ file) yaml s)))) (\<lambda>_ s.
          (Inr (Inr True), s, []))))))"

text \<open>An error of the lookup is not looked at: the list is empty then.\<close>

definition updateExperiment :: "'s exp_db \<Rightarrow> exp_env \<Rightarrow> gctx \<Rightarrow> string \<Rightarrow> string \<Rightarrow> string \<Rightarrow> git_config \<Rightarrow> 's \<Rightarrow> ('s, unit) infra_outcome" where
  "updateExperiment x env c data wfID file config s =
     (let wfName = x_gjson env data ''metadata.name''; infraID = x_gjson env data ''metadata.labels.infra_id'' in
      if wfName = '''' \<or> infraID = '''' then (Inr (Inr ()), s, [])
      else if file_name file \<noteq> wfName then (Inr (Inl (''file name doesn'' @ [CHR 0x27] @ ''t match experiment name'')), s, [])
      else (case op_GetExperiments x (\<lambda>e. ex_ExperimentID e = wfID \<and> ex_ProjectID e = gf_ProjectID config \<and> \<not> ex_IsRemoved e) s of
          Inl e \<Rightarrow> (Inr (Inl (''No such experiment found : '' @ wfID)), s, [])
        | Inr [] \<Rightarrow> (Inr (Inl (''No such experiment found : '' @ wfID)), s, [])
        | Inr (e # es) \<Rightarrow>
            if infraID \<noteq> ex_InfraID e then (Inr (Inr ()), s, [])
            else
              sbind (quiet (ProcessExperiment x env c
                  \<lparr>rx_ExperimentID = Some (ex_ExperimentID e), rx_RunExperiment = None, rx_ExperimentManifest = data, rx_ExperimentType = None,
                   rx_CronSyntax = ex_CronSyntax e, rx_ExperimentName = wfName, rx_ExperimentDescription = ex_Description e, rx_Weightages = [],
                   rx_IsCustomExperiment = ex_IsCustomExperiment e, rx_InfraID = ex_InfraID e, rx_Tags = []\<rparr> (gf_ProjectID config) '''' 0 s))
                (\<lambda>(input, wfType, k) s.
                  ProcessExperimentUpdate x (later k env) input ''git-ops'' wfType '''' False (gf_ProjectID config) True s)))"

text \<open>The filter names a field \<^verbatim>\<open>experiment_name\<close>, which no stored experiment has: it matches none.\<close>

definition deleteExperiment :: "'s exp_db \<Rightarrow> exp_env \<Rightarrow> string \<Rightarrow> git_config \<Rightarrow> 's \<Rightarrow> ('s, unit) infra_outcome" where
  "deleteExperiment x env file config s =
     (case op_GetExperiment x (\<lambda>e. False) s of
        Inl e \<Rightarrow> (Inr (Inl (driver_text e)), s, [])
      | Inr e \<Rightarrow> ProcessExperimentDelete x env (\<lambda>e. False) e ''git-ops'' s)"

text \<open>
  One changed file: whether an experiment was added. Errors of a file are logged and the next file is taken; only a failing check of the
  file's existence ends the synchronisation.
\<close>

definition logged :: "'a \<Rightarrow> ('s, 'a) infra_outcome \<Rightarrow> ('s, 'a) infra_outcome" where
  "logged d r = (case r of (Inr (Inl e), s, sg) \<Rightarrow> (Inr (Inr d), s, sg) | _ \<Rightarrow> r)"

definition sync_file :: "'s exp_db \<Rightarrow> 's git_world \<Rightarrow> exp_env \<Rightarrow> gctx \<Rightarrow> git_config \<Rightarrow> string \<Rightarrow> 's \<Rightarrow> ('s, bool) infra_outcome" where
  "sync_file x w env c config file s =
     (if \<not> suffix ''.yaml'' file then (Inr (Inr False), s, [])
      else (case PathExists w (gf_LocalPath config @ ''/'' @ file) s of
          Inl e \<Rightarrow> (Inr (Inl (''Error checking file in local repo : '' @ file @ '' | '' @ e)), s, [])
        | Inr False \<Rightarrow> logged False (sbind (deleteExperiment x env file config s) (\<lambda>_ s. (Inr (Inr False), s, [])))
        | Inr True \<Rightarrow>
            (case w_read w (gf_LocalPath config @ ''/'' @ file) s of
               Inl e \<Rightarrow> (Inr (Inr False), s, [])
             | Inr text \<Rightarrow>
                 (case w_yaml_json w text of
                    Inl e \<Rightarrow> (Inr (Inr False), s, [])
                  | Inr data \<Rightarrow>
                      (let wfID = x_gjson env data ''metadata.labels.workflow_id''; kind = foldLower (x_gjson env data ''kind'') in
                       if kind \<notin> {''cronexperiment'', ''experiment'', ''chaosengine'', ''workflow''} then (Inr (Inr False), s, [])
                       else if wfID = '''' then logged False (createExperiment x w env c data file config s)
                       else logged False (sbind (updateExperiment x env c data wfID file config s) (\<lambda>_ s. (Inr (Inr False), s, []))))))))"

text \<open>The files in the order of the loop; \<^verbatim>\<open>envs\<close> has the clock and the identifiers of each.\<close>

fun sync_files :: "'s exp_db \<Rightarrow> 's git_world \<Rightarrow> (nat \<Rightarrow> exp_env) \<Rightarrow> gctx \<Rightarrow> git_config \<Rightarrow> bool \<Rightarrow> string list \<Rightarrow> 's \<Rightarrow> ('s, bool) infra_outcome" where
  "sync_files x w envs c config added [] s = (Inr (Inr added), s, [])"
| "sync_files x w envs c config added (f # fs) s =
     sbind (sync_file x w (envs 0) c config f s) (\<lambda>b s. sync_files x w (\<lambda>i. envs (Suc i)) c config (added \<or> b) fs s)"

text \<open>An error of the set-up of a missing repository is overwritten.\<close>

definition fetch_repository :: "'s git_world \<Rightarrow> gctx \<Rightarrow> git_config \<Rightarrow> 's \<Rightarrow> ('s, unit) infra_outcome" where
  "fetch_repository w c config s =
     (case PathExists w (gf_LocalPath config) s of
        Inl e \<Rightarrow> (Inr (Inl (''Error while checking repo exists, err: '' @ e)), s, [])
      | Inr False \<Rightarrow>
          (case GitUserFromContext c of
             Inl p \<Rightarrow> (Inl p, s, [])
           | Inr user \<Rightarrow> logged () (quiet (setupGitRepo w config user s)))
      | Inr True \<Rightarrow> map_err (\<lambda>e. ''Error syncing DB : '' @ e) (quiet (GitPull w config s)))"

definition commit_and_push :: "'s git_world \<Rightarrow> gctx \<Rightarrow> git_config \<Rightarrow> string \<Rightarrow> string option \<Rightarrow> string \<Rightarrow> 's \<Rightarrow> ('s, string) infra_outcome" where
  "commit_and_push w c config message deleteFile what s =
     (case GitUserFromContext c of
        Inl p \<Rightarrow> (Inl p, s, [])
      | Inr user \<Rightarrow>
          sbind (map_err (\<lambda>e. ''Cannot commit '' @ what @ '' to git : '' @ e) (quiet (GitCommit w config user message deleteFile s))) (\<lambda>hash s.
          sbind (map_err (\<lambda>e. ''Cannot push '' @ what @ '' to git : '' @ e) (quiet (GitPush w config s))) (\<lambda>_ s. (Inr (Inr hash), s, []))))"

definition set_latest :: "'s git_world \<Rightarrow> git_config \<Rightarrow> string \<Rightarrow> 's \<Rightarrow> ('s, unit) infra_outcome" where
  "set_latest w config commit s =
     map_err (\<lambda>e. ''Failed to update git config : '' @ e)
       (quiet (of_error (UpdateGitConfig w (\<lambda>d. gd_ProjectID d = gf_ProjectID config) (\<lambda>d. d\<lparr>gd_LatestCommit := commit\<rparr>) s)))"

definition SyncDBToGit :: "'s exp_db \<Rightarrow> 's git_world \<Rightarrow> (nat \<Rightarrow> exp_env) \<Rightarrow> gctx \<Rightarrow> git_config \<Rightarrow> 's \<Rightarrow> ('s, unit) infra_outcome" where
  "SyncDBToGit x w envs c config s =
     sbind (fetch_repository w c config s) (\<lambda>_ s.
     sbind (quiet (lift_go (Inr (map_sum (\<lambda>e. ''Error Getting File Changes : '' @ e) id (GetChanges w config s))) s)) (\<lambda>(latestCommit, files) s.
       if latestCommit = gf_LatestCommit config then (Inr (Inr ()), s, [])
       else
         sbind (sync_files x w envs c config False (w_order w (map fst files)) s) (\<lambda>added s.
         sbind (if added then commit_and_push w c config ''Updated New Experiments'' None ''experiments'' s else (Inr (Inr latestCommit), s, [])) (\<lambda>commit s.
           set_latest w config commit s))))"

section \<open>The operations of the experiment handlers\<close>

text \<open>The configuration of a project; without one GitOps is disabled.\<close>

definition git_config_of :: "'s git_world \<Rightarrow> string \<Rightarrow> 's \<Rightarrow> ('s, git_config_db option) infra_outcome" where
  "git_config_of w projectID s = map_err (\<lambda>e. ''Cannot get Git Config from DB : '' @ e) (quiet (lift_go (Inr (GetGitConfig w projectID s)) s))"

definition lock_repository :: "string \<Rightarrow> string \<Rightarrow> 's \<Rightarrow> ('s, unit) infra_outcome" where
  "lock_repository url branch s = quiet (lift_go (map_sum id (\<lambda>_. Inr ()) (getKey url (Some branch))) s)"

definition git_UpsertExperimentToGit :: "'s exp_db \<Rightarrow> 's git_world \<Rightarrow> (nat \<Rightarrow> exp_env) \<Rightarrow> gctx \<Rightarrow> string \<Rightarrow> experiment_request \<Rightarrow> 's \<Rightarrow> ('s, unit) infra_outcome" where
  "git_UpsertExperimentToGit x w envs c projectID experiment s =
     sbind (git_config_of w projectID s) (\<lambda>found s.
       case found of
         None \<Rightarrow> (Inr (Inr ()), s, [])
       | Some d \<Rightarrow>
           sbind (lock_repository (gd_RepositoryURL d) (gd_Branch d) s) (\<lambda>_ s.
           (let config = GetGitOpsConfig d in
            sbind (map_err (\<lambda>e. ''Sync Error | '' @ e) (SyncDBToGit x w envs c config s)) (\<lambda>_ s.
            sbind (quiet (lift_go (Inr (map_sum (\<lambda>e. ''Cannot convert manifest to yaml : '' @ e) id (w_json_yaml w (rx_ExperimentManifest experiment)))) s)) (\<lambda>yaml s.
            sbind (map_err (\<lambda>e. ''Cannot write experiment to git : '' @ e) (quiet (of_error (w_write w
                (gf_LocalPath config @ ''/litmus/'' @ gf_ProjectID config @ ''/'' @ rx_ExperimentName experiment @ ''.yaml'') yaml s)))) (\<lambda>_ s.
            sbind (commit_and_push w c config (''Updated Experiment : '' @ rx_ExperimentName experiment) None ''experiment'' s) (\<lambda>commit s.
              set_latest w config commit s)))))))"

definition git_DeleteExperimentFromGit :: "'s exp_db \<Rightarrow> 's git_world \<Rightarrow> (nat \<Rightarrow> exp_env) \<Rightarrow> gctx \<Rightarrow> string \<Rightarrow> experiment_request \<Rightarrow> 's \<Rightarrow> ('s, unit) infra_outcome" where
  "git_DeleteExperimentFromGit x w envs c projectID experiment s =
     sbind (git_config_of w projectID s) (\<lambda>found s.
       case found of
         None \<Rightarrow> (Inr (Inr ()), s, [])
       | Some d \<Rightarrow>
           sbind (lock_repository (gd_RepositoryURL d) (gd_Branch d) s) (\<lambda>_ s.
           (let config = GetGitOpsConfig d; path = ''litmus/'' @ gf_ProjectID config @ ''/'' @ rx_ExperimentName experiment @ ''.yaml'' in
            sbind (map_err (\<lambda>e. ''Sync Error | '' @ e) (SyncDBToGit x w envs c config s)) (\<lambda>_ s.
            sbind (map_err (\<lambda>e. ''Cannot delete experiment from git : '' @ e) (quiet (lift_go (Inr (PathExists w (gf_LocalPath config @ ''/'' @ path) s)) s))) (\<lambda>exists s.
              if \<not> exists then (Inr (Inr ()), s, [])
              else
                sbind (map_err (\<lambda>e. ''Cannot delete experiment from git : '' @ e) (quiet (of_error (w_remove_all w (gf_LocalPath config @ ''/'' @ path) s)))) (\<lambda>_ s.
                sbind (commit_and_push w c config (''Deleted Experiment : '' @ rx_ExperimentName experiment) (Some path) ''experiment[delete]'' s) (\<lambda>commit s.
                  set_latest w config commit s)))))))"

definition git_service_of :: "'s exp_db \<Rightarrow> 's git_world \<Rightarrow> (nat \<Rightarrow> exp_env) \<Rightarrow> 's git_service" where
  "git_service_of x w envs =
     \<lparr>UpsertExperimentToGit = git_UpsertExperimentToGit x w envs, DeleteExperimentFromGit = git_DeleteExperimentFromGit x w envs\<rparr>"

section \<open>Handlers\<close>

definition backgroundContext :: gctx where
  "backgroundContext = \<lparr>gc_token = '''', gc_referer = None, gc_actor = Some ''git-ops'', gc_claims = None\<rparr>"

definition gitSyncHelper :: "'s exp_db \<Rightarrow> 's git_world \<Rightarrow> (nat \<Rightarrow> exp_env) \<Rightarrow> git_config_db \<Rightarrow> 's \<Rightarrow> ('s, unit) infra_outcome" where
  "gitSyncHelper x w envs config s =
     sbind (lock_repository (gd_RepositoryURL config) (gd_Branch config) s) (\<lambda>_ s.
       case GetGitConfig w (gd_ProjectID config) s of
         Inl e \<Rightarrow> (Inr (Inr ()), s, [])
       | Inr None \<Rightarrow> (Inr (Inr ()), s, [])
       | Inr (Some d) \<Rightarrow> logged () (SyncDBToGit x w envs backgroundContext (GetGitOpsConfig d) s))"

text \<open>
  One round of the handler: the configurations from the last to the first, in groups of ten that run at the same time; here they run one
  after the other, in the order in which they are started.
\<close>

fun sync_all :: "'s exp_db \<Rightarrow> 's git_world \<Rightarrow> (nat \<Rightarrow> nat \<Rightarrow> exp_env) \<Rightarrow> git_config_db list \<Rightarrow> 's \<Rightarrow> ('s, unit) infra_outcome" where
  "sync_all x w envs [] s = (Inr (Inr ()), s, [])"
| "sync_all x w envs (d # ds) s = sbind (gitSyncHelper x w (envs 0) d s) (\<lambda>_ s. sync_all x w (\<lambda>i. envs (Suc i)) ds s)"

definition GitOpsSyncHandler :: "'s exp_db \<Rightarrow> 's git_world \<Rightarrow> (nat \<Rightarrow> nat \<Rightarrow> exp_env) \<Rightarrow> 's \<Rightarrow> ('s, unit) infra_outcome" where
  "GitOpsSyncHandler x w envs s =
     (case GetAllGitConfig w s of
        Inl e \<Rightarrow> (Inr (Inr ()), s, [])
      | Inr configs \<Rightarrow> sync_all x w envs (rev configs) s)"

definition GitOpsNotificationHandler :: "'s exp_db \<Rightarrow> 's git_world \<Rightarrow> exp_env \<Rightarrow> chaos_infra \<Rightarrow> string \<Rightarrow> 's \<Rightarrow> ('s, string) infra_outcome" where
  "GitOpsNotificationHandler x w env infra experimentID s =
     sbind (git_config_of w (i_ProjectID infra) s) (\<lambda>found s.
       case found of
         None \<Rightarrow> (Inr (Inr ''GitOps Disabled''), s, [])
       | Some d \<Rightarrow>
           (case op_GetExperiments x (\<lambda>e. ex_InfraID e = i_InfraID infra \<and> ex_ExperimentID e = experimentID \<and> \<not> ex_IsRemoved e) s of
              Inl e \<Rightarrow> (Inr (Inl e), s, [])
            | Inr [] \<Rightarrow> (Inr (Inl ''no such experiment found''), s, [])
            | Inr (e # es) \<Rightarrow>
                if ex_Revision e = [] then (Inl IndexOutOfRange, s, [])
                else
                  (let manifest = rv_ExperimentManifest (last (ex_Revision e)) in
                   if foldLower (x_gjson env manifest ''kind'') = ''cronexperiment'' then
                     (Inr (Inr (''Request Acknowledged for experimentID: '' @ experimentID)), s, [])
                   else (case x_sjson env manifest ''metadata.name'' (ex_Name e @ ''-'' @ itoa (now_ms (g_auth (x_gql env)) 0)) of
                       Inl err \<Rightarrow> (Inr (Inl (''Failed to updated experiment name '' @ err)), s, [])
                     | Inr m \<Rightarrow>
                         (Inr (Inr (''Request Acknowledged for experimentID: '' @ experimentID)), s,
                          SendExperimentToSubscriber env (ex_ProjectID e) m (ex_InfraID e) (Some ''git-ops'') None ''create'')))))"

text \<open>The check that the project exists is a call to the authentication server.\<close>

definition project_exists :: "'s exp_db \<Rightarrow> exp_env \<Rightarrow> string \<Rightarrow> 's \<Rightarrow> string option" where
  "project_exists x env projectID s =
     (case g_grpc (x_gql env) of
        Some err \<Rightarrow> Some err
      | None \<Rightarrow>
          (case GetProjectById (auth_handle (gql_handle x)) projectID s of
             Inl e \<Rightarrow> Some (''rpc error: code = Unknown desc = '' @ error_text e)
           | Inr p \<Rightarrow> None))"

definition setup_git :: "'s git_world \<Rightarrow> gctx \<Rightarrow> git_config \<Rightarrow> 's \<Rightarrow> ('s, string) infra_outcome" where
  "setup_git w c config s =
     (case GitUserFromContext c of
        Inl p \<Rightarrow> (Inl p, s, [])
      | Inr user \<Rightarrow> map_err (\<lambda>e. ''Failed to setup GitOps : '' @ e) (quiet (SetupGitOps w user config s)))"

definition EnableGitOpsHandler :: "'s exp_db \<Rightarrow> 's git_world \<Rightarrow> exp_env \<Rightarrow> gctx \<Rightarrow> string \<Rightarrow> git_config_input \<Rightarrow> 's \<Rightarrow> ('s, bool) infra_outcome" where
  "EnableGitOpsHandler x w env c projectID config s =
     sbind (lock_repository (gn_RepoURL config) (gn_Branch config) s) (\<lambda>_ s.
       case project_exists x env projectID s of
         Some e \<Rightarrow> (Inr (Inl (''Failed to setup GitOps : '' @ e)), s, [])
       | None \<Rightarrow>
           (let gitDB = GetGitConfigDB projectID config in
            sbind (setup_git w c (GetGitOpsConfig gitDB) s) (\<lambda>commit s.
            sbind (map_err (\<lambda>e. ''Failed to enable GitOps in DB : '' @ e) (quiet (of_error (AddGitConfig w (gitDB\<lparr>gd_LatestCommit := commit\<rparr>) s)))) (\<lambda>_ s.
              (Inr (Inr True), s, [])))))"

definition DisableGitOpsHandler :: "'s git_world \<Rightarrow> string \<Rightarrow> 's \<Rightarrow> ('s, bool) infra_outcome" where
  "DisableGitOpsHandler w projectID s =
     sbind (map_err (\<lambda>e. ''Failed to delete git config from DB : '' @ e) (quiet (of_error (DeleteGitConfig w projectID s)))) (\<lambda>_ s.
     sbind (map_err (\<lambda>e. ''Failed to delete git repo from disk : '' @ e) (quiet (of_error (w_remove_all w (''/tmp/gitops/'' @ projectID) s)))) (\<lambda>_ s.
       (Inr (Inr True), s, [])))"

definition UpdateGitOpsDetailsHandler :: "'s git_world \<Rightarrow> gctx \<Rightarrow> string \<Rightarrow> git_config_input \<Rightarrow> 's \<Rightarrow> ('s, bool) infra_outcome" where
  "UpdateGitOpsDetailsHandler w c projectID config s =
     sbind (lock_repository (gn_RepoURL config) (gn_Branch config) s) (\<lambda>_ s.
     sbind (git_config_of w projectID s) (\<lambda>found s.
       case found of
         None \<Rightarrow> (Inr (Inl ''GitOps Disabled ''), s, [])
       | Some d \<Rightarrow>
           (let gitDB = GetGitConfigDB projectID config; gitConfig = GetGitOpsConfig gitDB;
                temp = gitConfig\<lparr>gf_LocalPath := ''/tmp/gitops_test/'' @ gf_ProjectID gitConfig\<rparr> in
            sbind (setup_git w c temp s) (\<lambda>commit s.
            sbind (map_err (\<lambda>e. ''Failed to enable GitOps in DB : '' @ e)
                (quiet (of_error (ReplaceGitConfig w (\<lambda>d. gd_ProjectID d = projectID) (gitDB\<lparr>gd_LatestCommit := commit\<rparr>) s)))) (\<lambda>_ s.
            sbind (map_err (\<lambda>e. ''Cannot remove existing repo : '' @ e) (quiet (of_error (w_remove_all w (gf_LocalPath gitConfig) s)))) (\<lambda>_ s.
            sbind (map_err (\<lambda>e. ''Cannot copy new repo : '' @ e) (quiet (of_error (w_rename w (gf_LocalPath temp) (gf_LocalPath gitConfig) s)))) (\<lambda>_ s.
              (Inr (Inr True), s, []))))))))"

record git_config_response =
  gr_Enabled :: bool
  gr_ProjectID :: string
  gr_Branch :: "string option"
  gr_RepoURL :: "string option"
  gr_AuthType :: "string option"
  gr_Token :: "string option"
  gr_UserName :: "string option"
  gr_Password :: "string option"
  gr_SSHPrivateKey :: "string option"

definition git_details :: "git_config_db \<Rightarrow> git_config_response" where
  "git_details d =
     (let resp = \<lparr>gr_Enabled = True, gr_ProjectID = gd_ProjectID d, gr_Branch = Some (gd_Branch d), gr_RepoURL = Some (gd_RepositoryURL d),
            gr_AuthType = Some (gd_AuthType d), gr_Token = None, gr_UserName = None, gr_Password = None, gr_SSHPrivateKey = None\<rparr> in
      if gd_AuthType d = ''TOKEN'' then resp\<lparr>gr_Token := gd_Token d\<rparr>
      else if gd_AuthType d = ''BASIC'' then resp\<lparr>gr_UserName := gd_UserName d, gr_Password := gd_Password d\<rparr>
      else if gd_AuthType d = ''SSH'' then resp\<lparr>gr_SSHPrivateKey := gd_SSHPrivateKey d\<rparr>
      else resp)"

definition GetGitOpsDetails :: "'s git_world \<Rightarrow> string \<Rightarrow> 's \<Rightarrow> string + git_config_response" where
  "GetGitOpsDetails w projectID s =
     (case GetGitConfig w projectID s of
        Inl e \<Rightarrow> Inl (''Cannot get Git Config from DB : '' @ e)
      | Inr None \<Rightarrow> Inr \<lparr>gr_Enabled = False, gr_ProjectID = projectID, gr_Branch = None, gr_RepoURL = None, gr_AuthType = None, gr_Token = None,
                        gr_UserName = None, gr_Password = None, gr_SSHPrivateKey = None\<rparr>
      | Inr (Some d) \<Rightarrow> Inr (git_details d))"

section \<open>Resolvers\<close>

definition r_GitopsNotifier where
  "r_GitopsNotifier x w env identity experimentID s =
     (case VerifyInfra (gql_handle x) (x_gql env) identity s of
        Inl e \<Rightarrow> (Inr (Inl e), s, [])
      | Inr infra \<Rightarrow> GitOpsNotificationHandler x w env infra experimentID s)"

definition r_EnableGitOps where
  "r_EnableGitOps x w env c projectID config =
     with_role_sig (gql_handle x) (x_gql env) c projectID ''EnableGitOps'' (EnableGitOpsHandler x w env c projectID config)"

definition r_DisableGitOps where
  "r_DisableGitOps x w env c projectID =
     with_role_sig (gql_handle x) (x_gql env) c projectID ''DisableGitOps'' (DisableGitOpsHandler w projectID)"

definition r_UpdateGitOps where
  "r_UpdateGitOps x w env c projectID config =
     with_role_sig (gql_handle x) (x_gql env) c projectID ''UpdateGitOps'' (UpdateGitOpsDetailsHandler w c projectID config)"

definition r_GetGitOpsDetails where
  "r_GetGitOpsDetails x w env c projectID =
     with_role_sig (gql_handle x) (x_gql env) c projectID ''GetGitOpsDetails'' (\<lambda>s. quiet (lift_go (Inr (GetGitOpsDetails w projectID s)) s))"

end
