(* ===== verification/Gql_Probes_Props.thy ===== *)
theory Gql_Probes_Props
  imports Gql_Probes
begin

text \<open>
  Correctness of probes: stored probes stay readable and their names unique, who may change them, their life from
  creation to deletion, what of a request reaches the manifest of a probe, and which probes a chaos engine gets.
\<close>

section \<open>Stored probes\<close>

lemma map_sum_Inr_iff [simp]:
  "map_sum f g z = Inr y \<longleftrightarrow> (\<exists>v. z = Inr v \<and> y = g v)" "Inr y = map_sum f g z \<longleftrightarrow> (\<exists>v. z = Inr v \<and> y = g v)"
  by (cases z; auto)+

lemma list_all2_ex:
  "(\<exists>zs. list_all2 P (y # ys) zs \<and> Q zs) \<longleftrightarrow> (\<exists>z zs. P y z \<and> list_all2 P ys zs \<and> Q (z # zs))"
  "(\<exists>zs. list_all2 P (xs @ ys) zs \<and> Q zs) \<longleftrightarrow> (\<exists>us vs. list_all2 P xs us \<and> list_all2 P ys vs \<and> Q (us @ vs))"
  by (force simp: list_all2_Cons1) (metis list_all2_append1 list_all2_appendI)

definition probe_types :: "string set" where
  "probe_types = {''httpProbe'', ''cmdProbe'', ''promProbe'', ''k8sProbe''}"

text \<open>The values the GraphQL schema allows for the two enumerations of a request.\<close>

definition valid_request :: "probe_request \<Rightarrow> bool" where
  "valid_request rq \<longleftrightarrow> pq_Type rq \<in> probe_types \<and> pq_InfrastructureType rq = ''Kubernetes''"

definition has_properties :: "probe_doc \<Rightarrow> bool" where
  "has_properties d \<longleftrightarrow>
     (pb_Type d = ''httpProbe'' \<longrightarrow> pb_HTTP d \<noteq> None) \<and> (pb_Type d = ''cmdProbe'' \<longrightarrow> pb_CMD d \<noteq> None) \<and>
     (pb_Type d = ''promProbe'' \<longrightarrow> pb_PROM d \<noteq> None) \<and> (pb_Type d = ''k8sProbe'' \<longrightarrow> pb_K8S d \<noteq> None)"

definition probe_ok :: "probe_doc \<Rightarrow> bool" where
  "probe_ok d \<longleftrightarrow> pb_Type d \<in> probe_types \<and> pb_InfrastructureType d = ''Kubernetes'' \<and> has_properties d"

definition live_unique :: "probe_doc multiset \<Rightarrow> bool" where
  "live_unique M \<longleftrightarrow> (\<forall>pid n. size (filter_mset (live_probe pid n) M) \<le> 1)"

lemmas add_defs = AddKubernetesHTTPProbeProperties_def AddKubernetesCMDProbeProperties_def AddPROMProbeProperties_def AddK8SProbeProperties_def

lemma add_properties_ok:
  assumes "add_properties env d rq = Inr (Inr d')"
  shows "pb_Name d' = pb_Name d" "pb_ProjectID d' = pb_ProjectID d" "pb_IsRemoved d' = pb_IsRemoved d" "pb_Type d' = pb_Type d"
    "pb_InfrastructureType d' = pb_InfrastructureType d" "pb_Type d = pq_Type rq \<Longrightarrow> has_properties d'"
  using assms by (auto simp: add_properties_def add_defs has_properties_def Let_def split: if_splits option.splits sum.splits)

lemma add_properties_total: "add_properties env d rq \<noteq> Inl p"
  by (auto simp: add_properties_def add_defs Let_def split: option.splits sum.splits)

lemma update_properties_ok:
  assumes "update_properties env d rq = Inr (Inr d')"
  shows "pb_Name d' = pb_Name d" "pb_ProjectID d' = pb_ProjectID d" "pb_IsRemoved d' = pb_IsRemoved d" "pb_Type d' = pb_Type d"
    "pb_InfrastructureType d' = pb_InfrastructureType d" "pb_InfrastructureType d = ''Kubernetes'' \<Longrightarrow> has_properties d'"
  using assms by (auto simp: update_properties_def add_defs has_properties_def Let_def split: if_splits option.splits sum.splits)

lemma set_probe_simps [simp]:
  "pb_Name (set_probe n d) = pb_Name n" "pb_ProjectID (set_probe n d) = pb_ProjectID n" "pb_IsRemoved (set_probe n d) = pb_IsRemoved n"
  "pb_Type (set_probe n d) = pb_Type n" "pb_InfrastructureType (set_probe n d) = pb_InfrastructureType n"
  by (simp_all add: set_probe_def)

lemma set_probe_ok: "probe_ok n \<Longrightarrow> probe_ok (set_probe n d)"
  by (auto simp: probe_ok_def has_properties_def set_probe_def)

lemma new_probe_simps [simp]:
  "pb_Name (new_probe env rq pid u) = pq_Name rq" "pb_ProjectID (new_probe env rq pid u) = pid" "\<not> pb_IsRemoved (new_probe env rq pid u)"
  "pb_Type (new_probe env rq pid u) = pq_Type rq" "pb_InfrastructureType (new_probe env rq pid u) = pq_InfrastructureType rq"
  by (simp_all add: new_probe_def)

lemma updated_probe_simps [simp]:
  "pb_Name (updated_probe env rq pid u d) = pq_Name rq" "pb_ProjectID (updated_probe env rq pid u d) = pid"
  "\<not> pb_IsRemoved (updated_probe env rq pid u d)" "pb_Type (updated_probe env rq pid u d) = pb_Type d"
  "pb_InfrastructureType (updated_probe env rq pid u d) = pb_InfrastructureType d"
  by (simp_all add: updated_probe_def)

lemma removed_probe_simps [simp]:
  "pb_IsRemoved (removed_probe env u d)" "pb_Name (removed_probe env u d) = pb_Name d" "pb_ProjectID (removed_probe env u d) = pb_ProjectID d"
  "probe_ok (removed_probe env u d) = probe_ok d"
  by (simp_all add: removed_probe_def probe_ok_def has_properties_def)

lemma probe_ok_cases:
  assumes "probe_ok d"
  obtains (http) p where "pb_Type d = ''httpProbe''" "pb_HTTP d = Some p" | (cmd) p where "pb_Type d = ''cmdProbe''" "pb_CMD d = Some p"
  | (prom) p where "pb_Type d = ''promProbe''" "pb_PROM d = Some p" | (k8s) p where "pb_Type d = ''k8sProbe''" "pb_K8S d = Some p"
  using assms unfolding probe_ok_def probe_types_def has_properties_def by blast

lemma GetOutputProbe_ok:
  assumes "pb_InfrastructureType d = ''Kubernetes''"
  shows "pb_Type d = ''httpProbe'' \<Longrightarrow> pb_HTTP d = Some hp \<Longrightarrow> GetOutputProbe env d = Inr ((out_common d)\<lparr>pv_HTTP := Some (out_http hp)\<rparr>)"
    "pb_Type d = ''cmdProbe'' \<Longrightarrow> pb_CMD d = Some kp \<Longrightarrow> GetOutputProbe env d = Inr ((out_common d)\<lparr>pv_CMD := Some (out_cmd env kp)\<rparr>)"
    "pb_Type d = ''promProbe'' \<Longrightarrow> pb_PROM d = Some pp \<Longrightarrow> GetOutputProbe env d = Inr ((out_common d)\<lparr>pv_PROM := Some pp\<rparr>)"
    "pb_Type d = ''k8sProbe'' \<Longrightarrow> pb_K8S d = Some k8 \<Longrightarrow> GetOutputProbe env d = Inr ((out_common d)\<lparr>pv_K8S := Some k8\<rparr>)"
  using assms by (simp_all add: GetOutputProbe_def)

lemma out_common_type [simp]: "pv_Type (out_common d) = pb_Type d" "pv_Name (out_common d) = pb_Name d"
  by (simp_all add: out_common_def)

lemma probe_output:
  assumes "probe_ok d"
  shows "\<exists>v a. GetOutputProbe env d = Inr v \<and> pv_Name v = pb_Name d \<and> probe_attributes_of env v mode = Inr (Some a)"
proof -
  have k: "pb_InfrastructureType d = ''Kubernetes''" using assms by (simp add: probe_ok_def)
  from assms show ?thesis
  proof (cases rule: probe_ok_cases)
    case (http p)
    then show ?thesis using GetOutputProbe_ok(1) [OF k http] by (simp add: probe_attributes_of_def)
  next
    case (cmd p)
    then show ?thesis using GetOutputProbe_ok(2) [OF k cmd] by (simp add: probe_attributes_of_def)
  next
    case (prom p)
    then show ?thesis using GetOutputProbe_ok(3) [OF k prom] by (simp add: probe_attributes_of_def)
  next
    case (k8s p)
    then show ?thesis using GetOutputProbe_ok(4) [OF k k8s] by (simp add: probe_attributes_of_def)
  qed
qed

lemma size_filter_replace:
  assumes "d \<in># M" "Q d' \<Longrightarrow> Q d"
  shows "size (filter_mset Q (replace_mset d d' M)) \<le> size (filter_mset Q M)"
proof -
  obtain N where "M = add_mset d N" using assms(1) by (metis mset_add)
  then show ?thesis using assms(2) by (auto simp: replace_mset_def)
qed

section \<open>What the handlers write\<close>

definition probe_written :: "string \<Rightarrow> probe_doc multiset \<Rightarrow> probe_doc multiset \<Rightarrow> bool" where
  "probe_written pid M M' \<longleftrightarrow> M' = M \<or>
     (\<exists>d. M' = add_mset d M \<and> probe_ok d \<and> pb_ProjectID d = pid \<and> (\<forall>e\<in>#M. \<not> probe_conflict e d)) \<or>
     (\<exists>d d'. d \<in># M \<and> M' = replace_mset d d' M \<and> \<not> pb_IsRemoved d \<and> pb_ProjectID d = pid \<and> pb_ProjectID d' = pid \<and> pb_Name d' = pb_Name d \<and>
        (probe_ok d \<longrightarrow> probe_ok d'))"

lemma probe_written_ok:
  assumes "probe_written pid M M'" "\<forall>d\<in>#M. probe_ok d"
  shows "\<forall>d\<in>#M'. probe_ok d"
  using assms by (auto simp: probe_written_def dest: in_replace_mset_cases)

lemma probe_written_unique:
  assumes "probe_written pid M M'" "live_unique M"
  shows "live_unique M'"
  unfolding live_unique_def
proof (intro allI)
  fix q n
  have le: "size (filter_mset (live_probe q n) M) \<le> 1" using assms(2) by (simp add: live_unique_def)
  have keep: "live_probe q n d' \<longrightarrow> live_probe q n d" if "\<not> pb_IsRemoved d" "pb_ProjectID d' = pb_ProjectID d" "pb_Name d' = pb_Name d" for d d'
    using that by (auto simp: live_probe_def)
  from assms(1) consider "M' = M" | d where "M' = add_mset d M" "\<forall>e\<in>#M. \<not> probe_conflict e d"
    | d d' where "d \<in># M" "M' = replace_mset d d' M" "live_probe q n d' \<longrightarrow> live_probe q n d"
    unfolding probe_written_def using keep by metis
  then show "size (filter_mset (live_probe q n) M') \<le> 1"
  proof cases
    case 1
    with le show ?thesis by simp
  next
    case (2 d)
    have "filter_mset (live_probe q n) M = {#}" if "live_probe q n d"
      using that 2(2) by (auto simp: live_probe_def probe_conflict_def)
    with 2(1) le show ?thesis by auto
  next
    case (3 d d')
    with size_filter_replace [of d M "live_probe q n" d'] le show ?thesis by auto
  qed
qed

lemma probe_written_other:
  assumes "probe_written pid M M'"
  shows "filter_mset (\<lambda>d. pb_ProjectID d \<noteq> pid) M' = filter_mset (\<lambda>d. pb_ProjectID d \<noteq> pid) M"
  using assms by (auto simp: probe_written_def replace_mset_def)

context exp_db
begin

lemma CreateProbe_cases:
  assumes "CreateProbe x d s = (r, s')"
  shows "pbdocs s' = pbdocs s \<or> pbdocs s' = add_mset d (pbdocs s) \<and> (\<forall>e\<in>#pbdocs s. \<not> probe_conflict e d)"
    "xdocs s' = xdocs s" "rundocs s' = rundocs s"
proof -
  obtain q where q: "InsertOne (probes x) d s = (q, s')"
    using assms by (auto simp: CreateProbe_def split: prod.splits option.splits)
  from probes.InsertOne_cases [OF q] show "pbdocs s' = pbdocs s \<or> pbdocs s' = add_mset d (pbdocs s) \<and> (\<forall>e\<in>#pbdocs s. \<not> probe_conflict e d)" .
  from probes_insert_frame [OF q] show "xdocs s' = xdocs s" "rundocs s' = rundocs s" by auto
qed

lemma op_UpdateProbe_cases:
  assumes "op_UpdateProbe x P f s = (r, s')"
  shows "pbdocs s' = pbdocs s \<and> r \<noteq> None \<or> updated_one P f (pbdocs s) (pbdocs s')" "xdocs s' = xdocs s" "rundocs s' = rundocs s"
proof -
  obtain q where q: "UpdateOne (probes x) P (Some f) s = (q, s')" "r = None \<Longrightarrow> \<exists>n. q = Inr n \<and> n \<noteq> 0"
    using assms by (auto simp: op_UpdateProbe_def split: prod.splits sum.splits if_splits)
  from probes_frame [OF q(1)] show "xdocs s' = xdocs s" "rundocs s' = rundocs s" by auto
  show "pbdocs s' = pbdocs s \<and> r \<noteq> None \<or> updated_one P f (pbdocs s) (pbdocs s')"
  proof (cases "r = None")
    case True
    with q obtain n where "UpdateOne (probes x) P (Some f) s = (Inr n, s')" "n \<noteq> 0" by auto
    from probes.UpdateOne_ok [OF this(1)] this(2) show ?thesis by auto
  next
    case False
    with probes.UpdateOne_cases [OF q(1)] show ?thesis by auto
  qed
qed

lemma AddProbe_written:
  assumes "AddProbe x env c rq pid s = (r, s')" "valid_request rq"
  shows "probe_written pid (pbdocs s) (pbdocs s')" "xdocs s' = xdocs s" "rundocs s' = rundocs s"
proof -
  from assms(1) consider "s' = s" | u d q where "add_properties env (new_probe env rq pid u) rq = Inr (Inr d)" "CreateProbe x d s = (q, s')"
    by (auto simp: AddProbe_def split: sum.splits prod.splits option.splits if_splits)
  then have "probe_written pid (pbdocs s) (pbdocs s') \<and> xdocs s' = xdocs s \<and> rundocs s' = rundocs s"
  proof cases
    case 1
    then show ?thesis by (simp add: probe_written_def)
  next
    case (2 u d q)
    have "probe_ok d" "pb_ProjectID d = pid"
      using add_properties_ok [OF 2(1)] assms(2) by (auto simp: probe_ok_def valid_request_def)
    with CreateProbe_cases [OF 2(2)] show ?thesis by (auto simp: probe_written_def)
  qed
  then show "probe_written pid (pbdocs s) (pbdocs s')" "xdocs s' = xdocs s" "rundocs s' = rundocs s" by auto
qed

lemma update_written:
  assumes "op_UpdateProbe x (live_probe pid n) f s = (r, s')"
    and "\<And>d. live_probe pid n d \<Longrightarrow> pb_ProjectID (f d) = pid \<and> pb_Name (f d) = n \<and> (probe_ok d \<longrightarrow> probe_ok (f d))"
  shows "probe_written pid (pbdocs s) (pbdocs s')"
  using op_UpdateProbe_cases(1) [OF assms(1)]
proof
  assume "updated_one (live_probe pid n) f (pbdocs s) (pbdocs s')"
  then obtain d where "d \<in># pbdocs s" "live_probe pid n d" "pbdocs s' = replace_mset d (f d) (pbdocs s)" by (auto simp: updated_one_def)
  with assms(2) show ?thesis by (auto simp: probe_written_def live_probe_def)
qed (simp add: probe_written_def)

lemma GetProbeByName_ok: "GetProbeByName x n pid s = Inr d \<Longrightarrow> d \<in># pbdocs s \<and> live_probe pid n d"
  using probes.FindOne_ok [of "live_probe pid n" s] by (cases "FindOne (probes x) (live_probe pid n) s") (auto simp: GetProbeByName_def)

lemma UpdateProbe_written:
  assumes "UpdateProbe x env c rq pid s = (r, s')" "\<forall>d\<in>#pbdocs s. probe_ok d"
  shows "probe_written pid (pbdocs s) (pbdocs s')"
proof -
  from assms(1) consider "s' = s" | u pr d q where "GetProbeByName x (pq_Name rq) pid s = Inr pr"
      "update_properties env (updated_probe env rq pid u pr) rq = Inr (Inr d)"
      "op_UpdateProbe x (live_probe pid (pq_Name rq)) (set_probe d) s = (q, s')"
    by (auto simp: UpdateProbe_def split: sum.splits prod.splits option.splits)
  then show ?thesis
  proof cases
    case 1
    then show ?thesis by (simp add: probe_written_def)
  next
    case (2 u pr d q)
    have "probe_ok pr" using GetProbeByName_ok [OF 2(1)] assms(2) by blast
    with update_properties_ok [OF 2(2)] have "probe_ok d" "pb_ProjectID d = pid" "pb_Name d = pq_Name rq"
      by (auto simp: probe_ok_def)
    then show ?thesis by (intro update_written [OF 2(3)]) (auto intro: set_probe_ok)
  qed
qed

lemma DeleteProbe_written:
  assumes "DeleteProbe x env c n pid s = (r, s')"
  shows "probe_written pid (pbdocs s) (pbdocs s')"
proof -
  from assms consider "s' = s" | u q where "op_UpdateProbe x (live_probe pid n) (removed_probe env u) s = (q, s')"
    by (auto simp: DeleteProbe_def split: sum.splits prod.splits option.splits)
  then show ?thesis
    by cases (simp add: probe_written_def, erule update_written, simp add: live_probe_def)
qed

end

section \<open>Requests that write\<close>

datatype probe_change = AddChange probe_request | UpdateChange probe_request | DeleteChange string

fun probe_router :: "'s exp_db \<Rightarrow> exp_env \<Rightarrow> gctx \<Rightarrow> string \<Rightarrow> probe_change \<Rightarrow> 's \<Rightarrow> (string + unit) go \<times> 's" where
  "probe_router x env c pid (AddChange rq) s = apfst (map_sum id (map_sum id (\<lambda>_. ()))) (r_AddProbe x env c rq pid s)"
| "probe_router x env c pid (UpdateChange rq) s = apfst (map_sum id (map_sum id (\<lambda>_. ()))) (r_UpdateProbe x env c rq pid s)"
| "probe_router x env c pid (DeleteChange n) s = apfst (map_sum id (map_sum id (\<lambda>_. ()))) (r_DeleteProbe x env c n pid s)"

fun valid_change :: "probe_change \<Rightarrow> bool" where
  "valid_change (AddChange rq) = valid_request rq"
| "valid_change _ = True"

text \<open>The states the requests of users lead to, at any time and in any order.\<close>

inductive probe_reachable :: "'s exp_db \<Rightarrow> 's \<Rightarrow> 's \<Rightarrow> bool" for x :: "'s exp_db" and s0 :: 's where
  start: "probe_reachable x s0 s0"
| step: "probe_reachable x s0 s \<Longrightarrow> valid_change rq \<Longrightarrow> probe_router x env c pid rq s = (r, s') \<Longrightarrow> probe_reachable x s0 s'"

lemma probe_rules: "gql_rules ''AddProbe'' = [RoleOwner, RoleEditor]" "gql_rules ''UpdateProbe'' = [RoleOwner, RoleEditor]"
  "gql_rules ''DeleteProbe'' = [RoleOwner, RoleEditor]"
  by (simp_all add: gql_rules_def rbac_table_def)

context exp_db
begin

lemma guarded_probe:
  assumes "with_role (gql_handle x) genv c pid q k s = (r, s')"
    and "k s = (r, s') \<Longrightarrow> I"
  shows "s' = s \<or> I \<and> (\<exists>u. token_user (gql_handle x) genv (gc_token c) s = Some u \<and> permitted (udocs s) (pdocs s) u pid (gql_rules q) AcceptedInvitation)"
  using assms gql.ValidateRole_sound by (auto simp: with_role_def split: option.splits)

lemma probe_router_written:
  assumes "probe_router x env c pid rq s = (r, s')" "valid_change rq" "\<forall>d\<in>#pbdocs s. probe_ok d"
  shows "s' = s \<or> probe_written pid (pbdocs s) (pbdocs s') \<and>
    (\<exists>u. token_user (gql_handle x) (x_gql env) (gc_token c) s = Some u \<and>
       permitted (udocs s) (pdocs s) u pid [RoleOwner, RoleEditor] AcceptedInvitation)"
proof (cases rq)
  case (AddChange q)
  with assms(1) obtain r' where "r_AddProbe x env c q pid s = (r', s')" by (auto simp: apfst_def map_prod_def split: prod.splits)
  note w = guarded_probe [OF this [unfolded r_AddProbe_def], of "probe_written pid (pbdocs s) (pbdocs s')", unfolded probe_rules]
  show ?thesis
    by (rule w) (use assms(2) AddChange AddProbe_written(1) in \<open>auto simp: probe_written_def split: if_splits\<close>)
next
  case (UpdateChange q)
  with assms(1) obtain r' where "r_UpdateProbe x env c q pid s = (r', s')" by (auto simp: apfst_def map_prod_def split: prod.splits)
  note w = guarded_probe [OF this [unfolded r_UpdateProbe_def], of "probe_written pid (pbdocs s) (pbdocs s')", unfolded probe_rules]
  show ?thesis by (rule w) (use assms(3) UpdateProbe_written in blast)
next
  case (DeleteChange n)
  with assms(1) obtain r' where "r_DeleteProbe x env c n pid s = (r', s')" by (auto simp: apfst_def map_prod_def split: prod.splits)
  note w = guarded_probe [OF this [unfolded r_DeleteProbe_def], of "probe_written pid (pbdocs s) (pbdocs s')", unfolded probe_rules]
  show ?thesis by (rule w) (rule DeleteProbe_written)
qed

lemma probe_reachable_ok:
  assumes "probe_reachable x s0 s" "\<forall>d\<in>#pbdocs s0. probe_ok d" "live_unique (pbdocs s0)"
  shows "(\<forall>d\<in>#pbdocs s. probe_ok d) \<and> live_unique (pbdocs s)"
  using assms
proof (induction rule: probe_reachable.induct)
  case (step s rq env c pid r s')
  then show ?case
    using probe_router_written [of env c pid rq s r s'] probe_written_ok probe_written_unique by blast
qed simp

lemma readable:
  assumes "\<forall>d\<in>#pbdocs s. probe_ok d"
  shows "GetProbe x env n pid s \<noteq> Inl p" "GetProbeYAMLData x env n mode pid s \<noteq> Inl p"
proof -
  have ok: "\<exists>v a. GetOutputProbe env d = Inr v \<and> probe_attributes_of env v mode = Inr (Some a)" if "GetProbeByName x n pid s = Inr d" for d
    using GetProbeByName_ok [OF that] assms probe_output by meson
  show "GetProbe x env n pid s \<noteq> Inl p" using ok by (auto simp: GetProbe_def split: sum.splits)
  show "GetProbeYAMLData x env n mode pid s \<noteq> Inl p"
    using ok by (fastforce simp: GetProbeYAMLData_def GenerateProbeManifest_def split: sum.splits)
qed

end

text \<open>
  C23: Whatever requests users send, in any order and with any outcome of the driver, every stored probe has the properties of its
  type and the names of the probes that are not removed are unique in their project; so reading a probe and
  its manifest never dereferences missing properties.
\<close>

theorem probes_stay_readable:
  assumes "exp_db x xdocs rundocs pbdocs idocs edocs udocs pdocs rdocs adocs cdocs"
    and "probe_reachable x s0 s" "\<forall>d\<in>#pbdocs s0. probe_ok d" "live_unique (pbdocs s0)"
  shows "(\<forall>d\<in>#pbdocs s. probe_ok d) \<and> live_unique (pbdocs s) \<and>
    (\<forall>env n pid p. GetProbe x env n pid s \<noteq> Inl p) \<and> (\<forall>env n mode pid p. GetProbeYAMLData x env n mode pid s \<noteq> Inl p)"
  using exp_db.probe_reachable_ok [OF assms] exp_db.readable [OF assms(1), of s] by blast

definition sample_http :: http_probe where
  "sample_http = \<lparr>cp_ProbeTimeout = ''1s'', cp_Interval = ''2s'', cp_PollingInterval = None, cp_InitialDelay = None, cp_EvaluationTimeout = None,
     cp_Retry = Some 3, cp_Attempt = None, cp_StopOnFailure = Some True, hp_URL = ''http://shop/'',
     hp_GET = Some \<lparr>gm_Criteria = ''=='', gm_ResponseCode = ''200''\<rparr>, hp_POST = None, hp_InsecureSkipVerify = None\<rparr>"

definition sample_probe_request :: probe_request where
  "sample_probe_request = \<lparr>pq_Name = ''check'', pq_Description = None, pq_Tags = [], pq_Type = ''httpProbe'', pq_InfrastructureType = ''Kubernetes'',
     pq_HTTP = Some sample_http, pq_CMD = None, pq_PROM = None, pq_K8S = None\<rparr>"

definition sample_probe :: probe_doc where
  "sample_probe = (new_probe sample_exp_env sample_probe_request ''p1'' ''ann'')\<lparr>pb_HTTP := Some sample_http\<rparr>"

lemma sample_valid: "valid_request sample_probe_request"
  by (simp add: valid_request_def sample_probe_request_def probe_types_def)

theorem probes_stay_readable_witness:
  "GetProbe mem_exp sample_exp_env ''check'' ''p1''
     (snd (probe_router mem_exp sample_exp_env sample_gctx ''p1'' (AddChange sample_probe_request) (sample_exp_state [] [] []))) \<noteq> Inl NilDereference"
proof -
  have "valid_change (AddChange sample_probe_request)" using sample_valid by simp
  from probe_reachable.step [OF probe_reachable.start this surjective_pairing]
  have r: "probe_reachable mem_exp (sample_exp_state [] [] [])
      (snd (probe_router mem_exp sample_exp_env sample_gctx ''p1'' (AddChange sample_probe_request) (sample_exp_state [] [] [])))" .
  have "\<forall>d\<in>#mset (st_probes (sample_exp_state [] [] [])). probe_ok d" "live_unique (mset (st_probes (sample_exp_state [] [] [])))"
    by (simp_all add: sample_exp_state_def live_unique_def)
  from probes_stay_readable [OF mem_exp_db r this] show ?thesis by blast
qed

text \<open>
  A request that creates, updates or deletes a probe changes the database only if its token verifies and names
  an active, accepted owner or editor of the project; even then the probes of other projects stay as they are.
\<close>

theorem probes_changed_by_editors:
  assumes "exp_db x xdocs rundocs pbdocs idocs edocs udocs pdocs rdocs adocs cdocs"
    and "probe_router x env c pid rq s = (r, s')" "valid_change rq" "\<forall>d\<in>#pbdocs s. probe_ok d" "s' \<noteq> s"
  shows "(\<exists>u. token_user (gql_handle x) (x_gql env) (gc_token c) s = Some u \<and>
      permitted (udocs s) (pdocs s) u pid [RoleOwner, RoleEditor] AcceptedInvitation) \<and>
    filter_mset (\<lambda>d. pb_ProjectID d \<noteq> pid) (pbdocs s') = filter_mset (\<lambda>d. pb_ProjectID d \<noteq> pid) (pbdocs s)"
  using exp_db.probe_router_written [OF assms(1-4)] assms(5) probe_written_other by blast

theorem probes_changed_by_editors_witness:
  "\<exists>u. token_user (gql_handle mem_exp) (x_gql sample_exp_env) ''t-ABC'' (sample_exp_state [] [] []) = Some u"
proof -
  have changed: "snd (probe_router mem_exp sample_exp_env sample_gctx ''p1'' (AddChange sample_probe_request) (sample_exp_state [] [] [])) \<noteq> sample_exp_state [] [] []"
    by code_simp
  have "\<forall>d\<in>#mset (st_probes (sample_exp_state [] [] [])). probe_ok d" by (simp add: sample_exp_state_def)
  from probes_changed_by_editors [OF mem_exp_db surjective_pairing _ this changed] sample_valid show ?thesis
    by (auto simp: sample_gctx_def)
qed

section \<open>The life of a probe\<close>

lemma GetOutputProbe_common:
  assumes "GetOutputProbe env d = Inr v"
  shows "pv_Name v = pb_Name d" "pv_ProjectID v = pb_ProjectID d" "pv_Type v = pb_Type d"
  using assms by (auto simp: GetOutputProbe_def out_common_def Let_def split: if_splits option.splits)

lemma live_the_only:
  assumes "live_unique M" "d \<in># M" "d' \<in># M" "live_probe pid n d" "live_probe pid n d'"
  shows "d = d'"
proof (rule ccontr)
  assume "d \<noteq> d'"
  with assms have "{#d, d'#} \<subseteq># filter_mset (live_probe pid n) M"
    by (auto simp: subseteq_mset_def count_filter_mset Suc_le_eq)
  from size_mset_mono [OF this] have "2 \<le> size (filter_mset (live_probe pid n) M)" by simp
  moreover have "size (filter_mset (live_probe pid n) M) \<le> 1" using assms(1) by (simp add: live_unique_def)
  ultimately show False by simp
qed

context exp_db
begin

lemma AddProbe_stored:
  assumes "AddProbe x env c rq pid s = (Inr (Inr v), s')"
  obtains u d where "GetUsernameFromContext (gql_handle x) (x_gql env) c s = Inr (Inr u)"
    "add_properties env (new_probe env rq pid u) rq = Inr (Inr d)" "GetOutputProbe env d = Inr v" "pbdocs s' = add_mset d (pbdocs s)"
    "\<forall>e\<in>#pbdocs s. \<not> probe_conflict e d"
proof -
  from assms obtain u d where "GetUsernameFromContext (gql_handle x) (x_gql env) c s = Inr (Inr u)"
    "add_properties env (new_probe env rq pid u) rq = Inr (Inr d)" "CreateProbe x d s = (None, s')" "GetOutputProbe env d = Inr v"
    by (auto simp: AddProbe_def split: sum.splits prod.splits option.splits if_splits)
  moreover from this(3) have "InsertOne (probes x) d s = (None, s')" by (auto simp: CreateProbe_def split: prod.splits option.splits)
  ultimately show ?thesis using that probes.InsertOne_ok by blast
qed

lemma AddProbe_refuses:
  assumes "AddProbe x env c rq pid s = (Inr (Inr v), s')" "d \<in># pbdocs s" "live_probe pid (pq_Name rq) d"
  shows False
proof -
  obtain u d' where "add_properties env (new_probe env rq pid u) rq = Inr (Inr d')" "\<forall>e\<in>#pbdocs s. \<not> probe_conflict e d'"
    using AddProbe_stored [OF assms(1)] .
  with assms(2,3) add_properties_ok [OF this(1)] show False by (auto simp: probe_conflict_def live_probe_def)
qed

lemma delete_removes:
  assumes "DeleteProbe x env c n pid s = (Inr (Inr True), s')" "live_unique (pbdocs s)" "d \<in># pbdocs s'"
  shows "\<not> live_probe pid n d"
proof -
  from assms(1) obtain u where "op_UpdateProbe x (live_probe pid n) (removed_probe env u) s = (None, s')"
    by (auto simp: DeleteProbe_def split: sum.splits prod.splits option.splits)
  from op_UpdateProbe_cases(1) [OF this] obtain e where e: "e \<in># pbdocs s" "live_probe pid n e"
    "pbdocs s' = replace_mset e (removed_probe env u e) (pbdocs s)" by (auto simp: updated_one_def)
  have "size (filter_mset (live_probe pid n) (pbdocs s')) = 0"
  proof -
    obtain N where N: "pbdocs s = add_mset e N" using e(1) by (metis mset_add)
    moreover have "size (filter_mset (live_probe pid n) (pbdocs s)) \<le> 1" using assms(2) by (simp add: live_unique_def)
    ultimately have "filter_mset (live_probe pid n) N = {#}" using e(2) by simp
    then show ?thesis using N e(3) by (auto simp: replace_mset_def live_probe_def)
  qed
  then show ?thesis using assms(3) by auto
qed

lemma GetProbe_live:
  assumes "GetProbe x env n pid s = Inr (Inr v)"
  shows "\<exists>d. d \<in># pbdocs s \<and> live_probe pid n d \<and> GetOutputProbe env d = Inr v"
proof -
  from assms obtain d where d: "GetProbeByName x n pid s = Inr d" "GetOutputProbe env d = Inr v"
    by (auto simp: GetProbe_def split: sum.splits)
  with GetProbeByName_ok [OF d(1)] show ?thesis by blast
qed

end

text \<open>
  A created probe is read back as the answer to its creation; while it exists its name cannot be used again in the project, and after
  a successful deletion it cannot be read any more.
\<close>

theorem probe_life:
  assumes "exp_db x xdocs rundocs pbdocs idocs edocs udocs pdocs rdocs adocs cdocs"
    and "AddProbe x env c rq pid s = (Inr (Inr v), s')" "valid_request rq" "\<forall>d\<in>#pbdocs s. probe_ok d" "live_unique (pbdocs s)"
  shows "(\<forall>w. GetProbe x env (pq_Name rq) pid s' = Inr (Inr w) \<longrightarrow> w = v) \<and> pv_Name v = pq_Name rq \<and> pv_ProjectID v = pid \<and>
    (\<forall>env' c' rq' w s2. pq_Name rq' = pq_Name rq \<longrightarrow> AddProbe x env' c' rq' pid s' \<noteq> (Inr (Inr w), s2)) \<and>
    (\<forall>env' c' s2 w. DeleteProbe x env' c' (pq_Name rq) pid s' = (Inr (Inr True), s2) \<longrightarrow> GetProbe x env' (pq_Name rq) pid s2 \<noteq> Inr (Inr w))"
proof (intro conjI allI impI)
  note db = assms(1)
  obtain u d where d: "add_properties env (new_probe env rq pid u) rq = Inr (Inr d)" "GetOutputProbe env d = Inr v" "pbdocs s' = add_mset d (pbdocs s)"
    using exp_db.AddProbe_stored [OF assms(1,2)] .
  have live: "live_probe pid (pq_Name rq) d" "d \<in># pbdocs s'"
    using add_properties_ok [OF d(1)] d(3) by (auto simp: live_probe_def)
  have uniq: "live_unique (pbdocs s')"
    using exp_db.AddProbe_written(1) [OF assms(1-3)] assms(5) by (rule probe_written_unique)
  show "w = v" if g: "GetProbe x env (pq_Name rq) pid s' = Inr (Inr w)" for w
  proof -
    obtain e where e: "e \<in># pbdocs s'" "live_probe pid (pq_Name rq) e" "GetOutputProbe env e = Inr w" using exp_db.GetProbe_live [OF db g] by blast
    with live_the_only [OF uniq live(2) e(1) live(1) e(2)] d(2) show ?thesis by simp
  qed
  show "pv_Name v = pq_Name rq" "pv_ProjectID v = pid"
    using GetOutputProbe_common [OF d(2)] live(1) by (auto simp: live_probe_def)
  show "AddProbe x env' c' rq' pid s' \<noteq> (Inr (Inr w), s2)" if "pq_Name rq' = pq_Name rq" for env' c' rq' w s2
    using exp_db.AddProbe_refuses [OF db, of env' c' rq' pid s' w s2 d] live that by auto
  show "GetProbe x env' (pq_Name rq) pid s2 \<noteq> Inr (Inr w)" if "DeleteProbe x env' c' (pq_Name rq) pid s' = (Inr (Inr True), s2)" for env' c' s2 w
    using exp_db.delete_removes [OF db that uniq] exp_db.GetProbe_live [OF db] by blast
qed

theorem probe_life_witness:
  "pv_Name (projr (projr (fst (AddProbe mem_exp sample_exp_env sample_gctx sample_probe_request ''p1'' (sample_exp_state [] [] []))))) = ''check''"
proof -
  let ?r = "AddProbe mem_exp sample_exp_env sample_gctx sample_probe_request ''p1'' (sample_exp_state [] [] [])"
  have ok: "isl (fst ?r) = False" "isl (projr (fst ?r)) = False" by code_simp+
  then have "?r = (Inr (Inr (projr (projr (fst ?r)))), snd ?r)" by (metis prod.collapse sum.collapse(2))
  from probe_life [OF mem_exp_db this sample_valid] show ?thesis
    by (simp add: sample_exp_state_def live_unique_def sample_probe_request_def)
qed

section \<open>From a request to the manifest\<close>

text \<open>The attributes a request asks for: every field of its properties, with the zero value where it has none.\<close>

definition intended_source :: "exp_env \<Rightarrow> string option \<Rightarrow> source_details option" where
  "intended_source env t = (case t of None \<Rightarrow> None | Some u \<Rightarrow> (case x_source env u of Inr d \<Rightarrow> d | Inl e \<Rightarrow> None))"

definition intended_http :: "http_probe \<Rightarrow> http_inputs" where
  "intended_http p = \<lparr>hi_URL = hp_URL p, hi_InsecureSkipVerify = deref False (hp_InsecureSkipVerify p), hi_Get = hp_GET p,
     hi_Post = (if hp_GET p \<noteq> None then None else map_option post_inputs (hp_POST p))\<rparr>"

definition base_attributes :: "probe_request \<Rightarrow> string \<Rightarrow> 'a common_properties_scheme \<Rightarrow> probe_attributes" where
  "base_attributes rq mode p = \<lparr>pa_Name = pq_Name rq, pa_Type = pq_Type rq, pa_HTTP = None, pa_K8s = None, pa_Cmd = None, pa_Prom = None,
     pa_RunProperties = run_properties p (deref '''' (cp_InitialDelay p)), pa_Mode = mode, pa_Data = ''''\<rparr>"

definition intended :: "exp_env \<Rightarrow> probe_request \<Rightarrow> string \<Rightarrow> probe_attributes option" where
  "intended env rq mode =
     (if pq_Type rq = ''httpProbe'' then map_option (\<lambda>p. (base_attributes rq mode p)\<lparr>pa_HTTP := Some (intended_http p)\<rparr>) (pq_HTTP rq)
      else if pq_Type rq = ''cmdProbe'' then map_option (\<lambda>p. (base_attributes rq mode p)\<lparr>pa_Cmd := Some
        \<lparr>ci_Command = kr_Command p, ci_Comparator = kr_Comparator p, ci_Source = intended_source env (kr_Source p)\<rparr>\<rparr>) (pq_CMD rq)
      else if pq_Type rq = ''promProbe'' then map_option (\<lambda>p. (base_attributes rq mode p)\<lparr>pa_Prom := Some
        \<lparr>pri_Endpoint = pp_Endpoint p, pri_Query = deref '''' (pp_Query p), pri_QueryPath = deref '''' (pp_QueryPath p), pri_Comparator = pp_Comparator p\<rparr>\<rparr>) (pq_PROM rq)
      else map_option (\<lambda>p. (base_attributes rq mode p)\<lparr>pa_K8s := Some
        \<lparr>ki_Group = deref '''' (k8_Group p), ki_Version = k8_Version p, ki_Resource = k8_Resource p, ki_ResourceNames = deref '''' (k8_ResourceNames p),
         ki_Namespace = deref '''' (k8_Namespace p), ki_FieldSelector = deref '''' (k8_FieldSelector p),
         ki_LabelSelector = deref '''' (k8_LabelSelector p), ki_Operation = k8_Operation p\<rparr>\<rparr>) (pq_K8S rq))"

text \<open>What a request must not use for nothing to be lost.\<close>

definition no_payload :: "post_method \<Rightarrow> bool" where
  "no_payload q \<longleftrightarrow> deref '''' (pm_ContentType q) = '''' \<and> deref '''' (pm_Body q) = '''' \<and> deref '''' (pm_BodyPath q) = ''''"

definition lossless_http :: "http_probe \<Rightarrow> bool" where
  "lossless_http p \<longleftrightarrow> \<not> deref False (hp_InsecureSkipVerify p) \<and> deref '''' (cp_InitialDelay p) = '''' \<and>
     (hp_GET p = None \<longrightarrow> (\<forall>q. hp_POST p = Some q \<longrightarrow> no_payload q))"

definition lossless_k8s :: "k8s_probe \<Rightarrow> bool" where
  "lossless_k8s p \<longleftrightarrow> deref '''' (cp_InitialDelay p) = '''' \<and> deref '''' (k8_ResourceNames p) = ''''"

definition lossless :: "exp_env \<Rightarrow> probe_request \<Rightarrow> bool" where
  "lossless env rq \<longleftrightarrow>
     (pq_Type rq = ''httpProbe'' \<longrightarrow> (\<forall>p. pq_HTTP rq = Some p \<longrightarrow> lossless_http p)) \<and>
     (pq_Type rq = ''cmdProbe'' \<longrightarrow> (\<forall>p d. pq_CMD rq = Some p \<and> intended_source env (kr_Source p) = Some d \<longrightarrow> sd_other d = '''')) \<and>
     (pq_Type rq = ''k8sProbe'' \<longrightarrow> (\<forall>p. pq_K8S rq = Some p \<longrightarrow> lossless_k8s p))"

definition method_given :: "probe_request \<Rightarrow> bool" where
  "method_given rq \<longleftrightarrow> (\<forall>p. pq_HTTP rq = Some p \<longrightarrow> hp_GET p \<noteq> None \<or> hp_POST p \<noteq> None)"

definition source_codec :: "exp_env \<Rightarrow> bool" where
  "source_codec env \<longleftrightarrow> (\<forall>d. sd_other d = '''' \<longrightarrow> x_source env (x_source_json env d) = Inr (Some d))"

lemma deref_simps [simp]: "deref z None = z" "deref z (Some y) = y"
  by (simp_all add: deref_def)

lemma out_post_inputs: "post_inputs (out_post q) = post_inputs q \<longleftrightarrow> no_payload q"
  by (auto simp: post_inputs_def out_post_def no_payload_def Let_def)

lemma http_manifest_exact:
  assumes "pq_Type rq = ''httpProbe''" "pq_HTTP rq = Some p" "hp_GET p \<noteq> None \<or> hp_POST p \<noteq> None"
    and "add_properties env (new_probe env rq pid u) rq = Inr (Inr d)" "pq_InfrastructureType rq = ''Kubernetes''"
  shows "\<exists>v a. GetOutputProbe env d = Inr v \<and> probe_attributes_of env v mode = Inr (Some a) \<and> (intended env rq mode = Some a \<longleftrightarrow> lossless_http p)"
proof -
  obtain p' where p': "pb_HTTP d = Some p'" "cp_InitialDelay p' = cp_InitialDelay p" "run_properties p' = run_properties p" "hp_URL p' = hp_URL p"
    "hp_GET p' = hp_GET p" "hp_POST p' = (if hp_GET p \<noteq> None then None else hp_POST p)" "hp_InsecureSkipVerify p' = hp_InsecureSkipVerify p"
    using assms(1,2,4) by (auto simp: add_properties_def add_defs run_properties_def fun_eq_iff)
  have t: "pb_Type d = ''httpProbe''" "pb_InfrastructureType d = ''Kubernetes''" "pb_Name d = pq_Name rq"
    using add_properties_ok [OF assms(4)] assms(1,5) by auto
  have o: "run_properties (out_http p') = run_properties p" "http_probe_inputs (out_http p') =
      (case hp_GET p of Some q \<Rightarrow> zero_http\<lparr>hi_URL := hp_URL p, hi_Get := Some q\<rparr>
       | None \<Rightarrow> zero_http\<lparr>hi_URL := hp_URL p, hi_Post := map_option (post_inputs \<circ> out_post) (hp_POST p)\<rparr>)"
    using p' assms(3) by (auto simp: out_http_def run_properties_def fun_eq_iff http_probe_inputs_def zero_http_def Let_def split: option.splits)
  have r: "run_properties p '''' = run_properties p (deref '''' (cp_InitialDelay p)) \<longleftrightarrow> deref '''' (cp_InitialDelay p) = ''''"
    by (auto simp: run_properties_def)
  have "http_probe_inputs (out_http p') = intended_http p \<longleftrightarrow> \<not> deref False (hp_InsecureSkipVerify p) \<and> (hp_GET p = None \<longrightarrow> (\<forall>q. hp_POST p = Some q \<longrightarrow> no_payload q))"
    unfolding o using assms(3) by (auto simp: intended_http_def zero_http_def out_post_inputs [symmetric] split: option.splits)
  then show ?thesis
    using GetOutputProbe_ok(1) [OF t(2,1) p'(1), of env] assms(1,2) t(3) r o(1)
    by (auto simp: probe_attributes_of_def attributes_def intended_def base_attributes_def lossless_http_def t)
qed

lemma cmd_manifest_exact:
  assumes "pq_Type rq = ''cmdProbe''" "pq_CMD rq = Some p" "source_codec env"
    and "add_properties env (new_probe env rq pid u) rq = Inr (Inr d)" "pq_InfrastructureType rq = ''Kubernetes''"
  shows "\<exists>v a. GetOutputProbe env d = Inr v \<and> probe_attributes_of env v mode = Inr (Some a) \<and>
    (intended env rq mode = Some a \<longleftrightarrow> (\<forall>e. intended_source env (kr_Source p) = Some e \<longrightarrow> sd_other e = ''''))"
proof -
  obtain p' where p': "pb_CMD d = Some p'" "cp_InitialDelay p' = cp_InitialDelay p" "run_properties p' = run_properties p"
    "kp_Command p' = kr_Command p" "kp_Comparator p' = kr_Comparator p"
    "kp_Source p' = map_option (\<lambda>e. e\<lparr>sd_other := ''''\<rparr>) (intended_source env (kr_Source p))"
    using assms(1,2,4) by (auto simp: add_properties_def add_defs run_properties_def fun_eq_iff intended_source_def Let_def split: option.splits sum.splits)
  have t: "pb_Type d = ''cmdProbe''" "pb_InfrastructureType d = ''Kubernetes''" "pb_Name d = pq_Name rq"
    using add_properties_ok [OF assms(4)] assms(1,5) by auto
  have o: "run_properties (out_cmd env p') = run_properties p" "cp_InitialDelay (out_cmd env p') = cp_InitialDelay p"
    "kr_Command (out_cmd env p') = kr_Command p" "kr_Comparator (out_cmd env p') = kr_Comparator p"
    "map_option (cmd_source env) (kr_Source (out_cmd env p')) = map_option (\<lambda>e. e\<lparr>sd_other := ''''\<rparr>) (intended_source env (kr_Source p))"
    using p' assms(3) by (auto simp: out_cmd_def run_properties_def fun_eq_iff cmd_source_def source_codec_def option.map_comp o_def split: option.splits)
  have z: "e\<lparr>sd_other := ''''\<rparr> = e \<longleftrightarrow> sd_other e = ''''" for e :: source_details by (cases e) auto
  have "m = map_option (\<lambda>e. e\<lparr>sd_other := ''''\<rparr>) m \<longleftrightarrow> (\<forall>e. m = Some e \<longrightarrow> sd_other e = '''')" for m :: "source_details option"
    by (cases m) (simp_all add: z eq_commute [of _ "_\<lparr>sd_other := ''''\<rparr>"])
  then show ?thesis
    using GetOutputProbe_ok(2) [OF t(2,1) p'(1), of env] assms(1,2) t(3) o
    by (simp add: probe_attributes_of_def attributes_def intended_def base_attributes_def t)
qed

lemma prom_manifest_exact:
  assumes "pq_Type rq = ''promProbe''" "pq_PROM rq = Some p"
    and "add_properties env (new_probe env rq pid u) rq = Inr (Inr d)" "pq_InfrastructureType rq = ''Kubernetes''"
  shows "\<exists>v a. GetOutputProbe env d = Inr v \<and> probe_attributes_of env v mode = Inr (Some a) \<and> intended env rq mode = Some a"
proof -
  have p': "pb_PROM d = Some p"
    using assms(1-3) by (cases p) (auto simp: add_properties_def add_defs)
  have t: "pb_Type d = ''promProbe''" "pb_InfrastructureType d = ''Kubernetes''" "pb_Name d = pq_Name rq"
    using add_properties_ok [OF assms(3)] assms(1,4) by auto
  show ?thesis
    using GetOutputProbe_ok(3) [OF t(2,1) p', of env] assms(1,2) t(3)
    by (auto simp: probe_attributes_of_def attributes_def intended_def base_attributes_def t)
qed

lemma k8s_manifest_exact:
  assumes "pq_Type rq = ''k8sProbe''" "pq_K8S rq = Some p"
    and "add_properties env (new_probe env rq pid u) rq = Inr (Inr d)" "pq_InfrastructureType rq = ''Kubernetes''"
  shows "\<exists>v a. GetOutputProbe env d = Inr v \<and> probe_attributes_of env v mode = Inr (Some a) \<and> (intended env rq mode = Some a \<longleftrightarrow> lossless_k8s p)"
proof -
  obtain p' where p': "pb_K8S d = Some p'" "p' = p\<lparr>cp_InitialDelay := None\<rparr>"
    using assms(1-3) by (cases p) (auto simp: add_properties_def add_defs)
  have t: "pb_Type d = ''k8sProbe''" "pb_InfrastructureType d = ''Kubernetes''" "pb_Name d = pq_Name rq"
    using add_properties_ok [OF assms(3)] assms(1,4) by auto
  have r: "run_properties p' '''' = run_properties p (deref '''' (cp_InitialDelay p)) \<longleftrightarrow> deref '''' (cp_InitialDelay p) = ''''"
    using p'(2) by (auto simp: run_properties_def)
  show ?thesis
    using GetOutputProbe_ok(4) [OF t(2,1) p'(1), of env] assms(1,2) t(3) r p'(2)
    by (auto simp: probe_attributes_of_def attributes_def intended_def base_attributes_def t lossless_k8s_def k8s_probe_inputs_def)
qed


definition sample_post_request :: probe_request where
  "sample_post_request = sample_probe_request\<lparr>pq_HTTP := Some (sample_http\<lparr>hp_GET := None, hp_POST := Some
     \<lparr>pm_ContentType = Some ''application/json'', pm_Body = Some ''ping'', pm_BodyPath = None, pm_Criteria = ''=='', pm_ResponseCode = ''200''\<rparr>\<rparr>)\<rparr>"

lemma sample_source_codec: "source_codec sample_exp_env"
  by (auto simp: source_codec_def sample_exp_env_def)


section \<open>The probes of a chaos engine\<close>

text \<open>The probe references of the annotations; the manifest of a cron workflow may have no other annotations.\<close>

fun probe_refs :: "exp_env \<Rightarrow> bool \<Rightarrow> labels \<Rightarrow> string + probe_annotation list" where
  "probe_refs env cron [] = Inr []"
| "probe_refs env cron ((k, v) # as) =
     (if \<not> cron \<and> \<not> prefix (''[{'' @ [CHR 0x22] @ ''name'' @ [CHR 0x22]) v then probe_refs env cron as
      else (case x_annotations env v of Inl e \<Rightarrow> Inl e | Inr refs \<Rightarrow> map_sum id ((@) refs) (probe_refs env cron as)))"

definition ref_attributes :: "'s exp_db \<Rightarrow> exp_env \<Rightarrow> string \<Rightarrow> 's \<Rightarrow> probe_annotation \<Rightarrow> probe_attributes \<Rightarrow> bool" where
  "ref_attributes x env pid s a pa \<longleftrightarrow>
     (\<exists>d v t. GetProbeByName x (an_Name a) pid s = Inr d \<and> GetOutputProbe env d = Inr v \<and> probe_attributes_of env v (an_Mode a) = Inr (Some pa) \<and>
        x_probe_json env pa = Inr t)"

definition extended :: "probe_attributes list option \<Rightarrow> probe_annotation list \<Rightarrow> probe_attributes list \<Rightarrow> probe_attributes list option" where
  "extended ps refs pas = (if refs = [] then ps else Some (deref [] ps @ pas))"

definition engine_result :: "'s exp_db \<Rightarrow> exp_env \<Rightarrow> bool \<Rightarrow> string \<Rightarrow> 's \<Rightarrow> chaos_engine \<Rightarrow> chaos_engine \<Rightarrow> bool" where
  "engine_result x env cron pid s m m' \<longleftrightarrow>
     (\<exists>e es refs pas. ce_Experiments m = e # es \<and> probe_refs env cron (deref [] (ce_Annotations m)) = Inr refs \<and>
        list_all2 (ref_attributes x env pid s) refs pas \<and> m' = m\<lparr>ce_Experiments := e\<lparr>ee_Probe := extended (ee_Probe e) refs pas\<rparr> # es\<rparr>)"

definition template_result :: "'s exp_db \<Rightarrow> exp_env \<Rightarrow> bool \<Rightarrow> string \<Rightarrow> 's \<Rightarrow> workflow_template \<Rightarrow> workflow_template \<Rightarrow> bool" where
  "template_result x env cron pid s t t' \<longleftrightarrow>
     (case raw_data t of
        None \<Rightarrow> t' = t
      | Some (name, data) \<Rightarrow>
          (\<exists>m. x_engine env data = Inr m \<and>
             (if foldLower (ce_Kind m) \<noteq> ''chaosengine'' then t' = t
              else (\<exists>m' res. engine_result x env cron pid s m m' \<and> x_engine_yaml env m' = Inr res \<and> t' = set_raw res t))))"

text \<open>JSON coding of probe attributes: what is encoded is decoded again, and the empty text is no JSON value.\<close>

definition probe_codec :: "exp_env \<Rightarrow> bool" where
  "probe_codec env \<longleftrightarrow> (\<forall>a t. x_probe_json env a = Inr t \<longrightarrow> x_probe env t = Inr a) \<and> isl (x_probe env '''')"

lemma appended_same:
  assumes "probe_attributes_of env v mode = Inr (Some a)"
  shows "appended (pv_Type v) a = a" "pv_Type v \<in> probe_types"
  using assms by (auto simp: probe_attributes_of_def appended_def attributes_def copy_http_def Let_def probe_types_def split: if_splits option.splits)

lemma foldl_append_probe: "foldl append_probe ps pas = (if pas = [] then ps else Some (deref [] ps @ pas))"
  by (induction pas arbitrary: ps) (auto simp: append_probe_def)

context exp_db
begin

lemma reference_probe_iff:
  assumes "\<forall>d\<in>#pbdocs s. probe_ok d" "probe_codec env"
  shows "reference_probe x env cron pid a ps s = Inr (Inr ps') \<longleftrightarrow> (\<exists>pa. ref_attributes x env pid s a pa \<and> ps' = append_probe ps pa)"
proof (cases "GetProbeByName x (an_Name a) pid s")
  case (Inl e)
  then show ?thesis by (simp add: reference_probe_def ref_attributes_def)
next
  case (Inr d)
  with GetProbeByName_ok [OF Inr] assms(1) have "probe_ok d" by blast
  with probe_output obtain v pa where v: "GetOutputProbe env d = Inr v" "probe_attributes_of env v (an_Mode a) = Inr (Some pa)" by blast
  have ty: "pb_Type d = pv_Type v" "pv_Type v \<in> probe_types" "appended (pv_Type v) pa = pa"
    using GetOutputProbe_common(3) [OF v(1)] appended_same [OF v(2)] by auto
  have bad: "\<exists>e. x_probe env '''' = Inl e" using assms(2) by (auto simp: probe_codec_def isl_def)
  show ?thesis
  proof (cases "x_probe_json env pa")
    case (Inl e)
    then show ?thesis using Inr v bad ty by (auto simp: reference_probe_def ref_attributes_def GenerateProbeManifest_def probe_types_def)
  next
    case t: (Inr t)
    then have "x_probe env t = Inr pa" using assms(2) by (simp add: probe_codec_def)
    with t Inr v ty show ?thesis by (auto simp: reference_probe_def ref_attributes_def GenerateProbeManifest_def probe_types_def)
  qed
qed

lemma reference_probes_iff:
  assumes "\<forall>d\<in>#pbdocs s. probe_ok d" "probe_codec env"
  shows "reference_probes x env cron pid refs ps s = Inr (Inr ps') \<longleftrightarrow>
    (\<exists>pas. list_all2 (ref_attributes x env pid s) refs pas \<and> ps' = foldl append_probe ps pas)"
proof (induction refs arbitrary: ps)
  case (Cons a refs)
  have "reference_probes x env cron pid (a # refs) ps s = Inr (Inr ps') \<longleftrightarrow>
      (\<exists>ps1. reference_probe x env cron pid a ps s = Inr (Inr ps1) \<and> reference_probes x env cron pid refs ps1 s = Inr (Inr ps'))"
    by (auto split: sum.splits)
  then show ?case
    unfolding list_all2_ex by (auto simp: Cons.IH reference_probe_iff [OF assms])
qed auto

lemma annotated_probes_iff:
  assumes "\<forall>d\<in>#pbdocs s. probe_ok d" "probe_codec env"
  shows "annotated_probes x env cron pid as ps s = Inr (Inr ps') \<longleftrightarrow>
    (\<exists>refs pas. probe_refs env cron as = Inr refs \<and> list_all2 (ref_attributes x env pid s) refs pas \<and> ps' = foldl append_probe ps pas)"
proof (induction as arbitrary: ps)
  case (Cons kv as)
  obtain k v where kv: "kv = (k, v)" by force
  show ?case
  proof (cases "\<not> cron \<and> \<not> prefix (''[{'' @ [CHR 0x22] @ ''name'' @ [CHR 0x22]) v")
    case True
    then have "annotated_probes x env cron pid (kv # as) ps s = annotated_probes x env cron pid as ps s" "probe_refs env cron (kv # as) = probe_refs env cron as"
      by (simp_all add: kv)
    then show ?thesis by (simp only: Cons.IH)
  next
    case False
    show ?thesis
    proof (cases "x_annotations env v")
      case (Inl e)
      with False show ?thesis by (auto simp: kv)
    next
      case (Inr refs)
      have "annotated_probes x env cron pid (kv # as) ps s = Inr (Inr ps') \<longleftrightarrow>
          (\<exists>ps1. reference_probes x env cron pid refs ps s = Inr (Inr ps1) \<and> annotated_probes x env cron pid as ps1 s = Inr (Inr ps'))"
        using False Inr by (auto simp: kv split: sum.splits)
      moreover have "probe_refs env cron (kv # as) = map_sum id ((@) refs) (probe_refs env cron as)" using False Inr by (auto simp: kv)
      moreover have "(\<exists>refs' pas. map_sum id ((@) refs) (probe_refs env cron as) = Inr refs' \<and> list_all2 (ref_attributes x env pid s) refs' pas \<and> ps' = foldl append_probe ps pas) \<longleftrightarrow>
          (\<exists>rs. probe_refs env cron as = Inr rs \<and> (\<exists>pas. list_all2 (ref_attributes x env pid s) (refs @ rs) pas \<and> ps' = foldl append_probe ps pas))"
        by auto
      ultimately show ?thesis
        unfolding list_all2_ex by (auto simp: Cons.IH reference_probes_iff [OF assms])
    qed
  qed
qed auto

lemma annotated_probes_result:
  assumes "\<forall>d\<in>#pbdocs s. probe_ok d" "probe_codec env"
  shows "annotated_probes x env cron pid as ps s = Inr (Inr ps') \<longleftrightarrow>
    (\<exists>refs pas. probe_refs env cron as = Inr refs \<and> list_all2 (ref_attributes x env pid s) refs pas \<and>
       ps' = extended ps refs pas)"
proof -
  have "foldl append_probe ps pas = extended ps refs pas" if "list_all2 (ref_attributes x env pid s) refs pas" for refs pas
    using that by (auto simp: foldl_append_probe extended_def)
  then show ?thesis unfolding annotated_probes_iff [OF assms] by metis
qed

lemma templates_with_probes_iff:
  assumes "\<forall>d\<in>#pbdocs s. probe_ok d" "probe_codec env"
  shows "templates_with_probes x env cron pid ts s = Inr (Inr ts') \<longleftrightarrow> list_all2 (template_result x env cron pid s) ts ts'"
proof (induction ts arbitrary: ts')
  case (Cons t ts)
  have engine: "engine_with_probes x env cron pid m s = Inr (Inr m') \<longleftrightarrow> engine_result x env cron pid s m m'" for m m'
  proof (cases "ce_Experiments m")
    case (Cons e es)
    have "engine_with_probes x env cron pid m s = Inr (Inr m') \<longleftrightarrow>
        (\<exists>ps. annotated_probes x env cron pid (deref [] (ce_Annotations m)) (ee_Probe e) s = Inr (Inr ps) \<and> m' = m\<lparr>ce_Experiments := e\<lparr>ee_Probe := ps\<rparr> # es\<rparr>)"
      by (auto simp: engine_with_probes_def Cons split: sum.splits)
    then show ?thesis unfolding annotated_probes_result [OF assms] Cons list.inject engine_result_def by blast
  qed (simp add: engine_with_probes_def engine_result_def)
  have "templates_with_probes x env cron pid (t # ts) s = Inr (Inr ts') \<longleftrightarrow>
      (\<exists>t1 ts1. ts' = t1 # ts1 \<and> template_result x env cron pid s t t1 \<and> templates_with_probes x env cron pid ts s = Inr (Inr ts1))"
  proof (cases "raw_data t")
    case None
    then show ?thesis by (auto simp: template_result_def)
  next
    case (Some nd)
    then obtain n dat where nd: "raw_data t = Some (n, dat)" by (cases nd) auto
    show ?thesis
    proof (cases "x_engine env dat")
      case (Inl e)
      with nd show ?thesis by (simp add: template_result_def)
    next
      case m: (Inr m)
      show ?thesis
      proof (cases "foldLower (ce_Kind m) \<noteq> ''chaosengine''")
        case True
        with nd m show ?thesis by (auto simp: template_result_def)
      next
        case False
        have "templates_with_probes x env cron pid (t # ts) s = Inr (Inr ts') \<longleftrightarrow>
            (\<exists>m' res ts1. engine_with_probes x env cron pid m s = Inr (Inr m') \<and> x_engine_yaml env m' = Inr res \<and>
               templates_with_probes x env cron pid ts s = Inr (Inr ts1) \<and> ts' = set_raw res t # ts1)"
          using nd m False by (auto split: sum.splits)
        moreover have "template_result x env cron pid s t t1 \<longleftrightarrow>
            (\<exists>m' res. engine_result x env cron pid s m m' \<and> x_engine_yaml env m' = Inr res \<and> t1 = set_raw res t)" for t1
          using nd m False by (simp add: template_result_def)
        ultimately show ?thesis unfolding engine by blast
      qed
    qed
  qed
  then show ?case by (simp only: Cons.IH list_all2_Cons1)
qed auto

end

text \<open>
  C22: Generating the manifest of an experiment, for a single run or for a schedule, succeeds exactly when every engine can be decoded, has an
  experiment, refers only to stored probes and can be encoded again. The result differs from the stored manifest only in the engines:
  each has its own probes followed by the manifests of the probes it refers to, in their order.
\<close>

theorem engines_get_their_probes:
  assumes "exp_db x xdocs rundocs pbdocs idocs edocs udocs pdocs rdocs adocs cdocs"
    and "\<forall>d\<in>#pbdocs s. probe_ok d" "probe_codec env"
  shows "(GenerateExperimentManifestWithProbes x env manifest pid s = Inr (Inr w') \<longleftrightarrow>
      (\<exists>w ts. x_workflow env manifest = Inr w \<and> list_all2 (template_result x env False pid s) (wf_Templates w) ts \<and> w' = w\<lparr>wf_Templates := ts\<rparr>)) \<and>
    (GenerateCronExperimentManifestWithProbes x env manifest pid s = Inr (Inr c') \<longleftrightarrow>
      (\<exists>w ts. x_cron env manifest = Inr w \<and> list_all2 (template_result x env True pid s) (cw_Templates w) ts \<and> c' = w\<lparr>cw_Templates := ts\<rparr>))"
proof -
  have n: "map_sum id (map_sum id f) z = Inr (Inr y) \<longleftrightarrow> (\<exists>v. z = Inr (Inr v) \<and> y = f v)" for f :: "'b \<Rightarrow> 'c" and z :: "(string + 'b) go" and y
    by (cases z) auto
  show ?thesis
    using exp_db.templates_with_probes_iff [OF assms]
    by (auto simp: GenerateExperimentManifestWithProbes_def GenerateCronExperimentManifestWithProbes_def n simp del: map_sum_Inr_iff split: sum.splits)
qed

definition sample_attributes :: probe_attributes where
  "sample_attributes = (attributes (out_common sample_probe) ''SOT'' (run_properties sample_http ''''))\<lparr>pa_HTTP := Some (http_probe_inputs sample_http)\<rparr>"

definition probe_env :: exp_env where
  "probe_env = sample_exp_env\<lparr>x_engine := (\<lambda>d. Inr (sample_engine_doc\<lparr>ce_Annotations := Some [(''probeRef'', ''[{'' @ [CHR 0x22] @ ''name'' @ [CHR 0x22])]\<rparr>)),
     x_annotations := (\<lambda>v. Inr [\<lparr>an_Name = ''check'', an_Mode = ''SOT''\<rparr>]),
     x_engine_yaml := (\<lambda>e. Inr (if ce_Experiments e = [] then ''none'' else ''some'')),
     x_probe_json := (\<lambda>a. if a = sample_attributes then Inr ''probe'' else Inl ''other''), x_probe := (\<lambda>t. if t = ''probe'' then Inr sample_attributes else Inl ''no JSON'')\<rparr>"

theorem engines_get_their_probes_witness:
  "\<exists>w'. GenerateExperimentManifestWithProbes mem_exp probe_env ''m'' ''p1'' (sample_exp_state [] [] [sample_probe]) = Inr (Inr w') \<and>
     list_all2 (template_result mem_exp probe_env False ''p1'' (sample_exp_state [] [] [sample_probe])) [sample_template] (wf_Templates w')"
proof -
  let ?s = "sample_exp_state [] [] [sample_probe]"
  let ?r = "GenerateExperimentManifestWithProbes mem_exp probe_env ''m'' ''p1'' ?s"
  have "\<not> isl ?r" "\<not> isl (projr ?r)" by code_simp+
  then obtain w' where w': "?r = Inr (Inr w')" by (metis sum.collapse(2))
  have ok: "\<forall>d\<in>#mset (st_probes ?s). probe_ok d"
    by (simp add: sample_exp_state_def sample_probe_def probe_ok_def has_properties_def probe_types_def sample_probe_request_def new_probe_def)
  have codec: "probe_codec probe_env" by (auto simp: probe_codec_def probe_env_def)
  have wf: "x_workflow probe_env ''m'' = Inr sample_workflow" by (simp add: probe_env_def sample_exp_env_def)
  from engines_get_their_probes [OF mem_exp_db ok codec, of "''m''" "''p1''" w', THEN conjunct1] w' wf show ?thesis
    by (auto simp: sample_workflow_def)
qed

section \<open>Findings\<close>

text \<open>Updating a stored HTTP probe with a request that has no HTTP properties panics, whatever type the request names.\<close>

lemma update_panics:
  assumes "GetUsernameFromContext (gql_handle x) (x_gql env) c s = Inr (Inr u)" "GetProbeByName x (pq_Name rq) pid s = Inr d"
    and "pb_Type d = ''httpProbe''" "pb_InfrastructureType d = ''Kubernetes''" "pq_HTTP rq = None"
  shows "UpdateProbe x env c rq pid s = (Inl NilDereference, s)"
  using assms by (simp add: UpdateProbe_def update_properties_def add_defs)

end
