(* ===== verification/Gql_Runs_Props.thy ===== *)
theory Gql_Runs_Props
  imports Gql_Runs
begin

text \<open>
  Correctness of experiment runs: what an event of a subscriber changes, that finished and stopped runs are final, that an
  experiment keeps at most ten run details, and what the statistics count.
\<close>

section \<open>What an accepted event writes\<close>

text \<open>Everything the handler reads and computes before it writes.\<close>

definition event_read :: "'s exp_db \<Rightarrow> exp_env \<Rightarrow> experiment_run_request \<Rightarrow> 's \<Rightarrow> chaos_experiment \<Rightarrow> experiment_probes list \<Rightarrow> string
    \<Rightarrow> execution_data \<Rightarrow> run_metrics \<Rightarrow> string \<Rightarrow> nat \<Rightarrow> bool" where
  "event_read x env event s experiment prbs exeData exec r updatedBy n \<longleftrightarrow>
     op_GetExperiment x (\<lambda>e. ex_ExperimentID e = rq_ExperimentID event \<and> \<not> ex_IsRemoved e) s = Inr experiment \<and>
     execution_of env event = Inr (exeData, exec) \<and>
     (if rq_Completed event then ProcessCompletedExperimentRun x env exec (rq_ExperimentID event) s else Inr (Inr zero_metrics)) = Inr (Inr r) \<and>
     CountExperimentRuns x (same_run (rq_ExperimentID event) (rq_ExperimentRunID event) (rq_NotifyID event)) s = Inr n \<and>
     base64_raw_decode url_alphabet (rq_UpdatedBy event) = Some updatedBy"

definition received :: "experiment_run_request \<Rightarrow> string" where
  "received event = ''Experiment run received for for ExperimentID: '' @ rq_ExperimentID event @ '', ExperimentRunID: '' @ rq_ExperimentRunID event"

text \<open>A run as an event reports it.\<close>

definition reported :: "experiment_run_request \<Rightarrow> string \<Rightarrow> execution_data \<Rightarrow> run_metrics \<Rightarrow> experiment_run \<Rightarrow> bool" where
  "reported event xd exec r d \<longleftrightarrow> er_ExperimentID d = rq_ExperimentID event \<and> er_ExperimentRunID d = rq_ExperimentRunID event \<and>
     er_Phase d = x_Phase exec \<and> er_ExecutionData d = xd \<and> er_Completed d = rq_Completed event \<and>
     er_ResiliencyScore d = Some (ResiliencyScore r) \<and> \<not> er_IsRemoved d"

text \<open>The runs a request to stop with an identifier is about: those with the run identifier, or without one those with the notification identifier.\<close>

definition stop_target :: "string \<Rightarrow> string \<Rightarrow> string option \<Rightarrow> string option \<Rightarrow> experiment_run \<Rightarrow> bool" where
  "stop_target projectID experimentID runID notifyID d \<longleftrightarrow> er_ExperimentID d = experimentID \<and> er_ProjectID d = projectID \<and> \<not> er_IsRemoved d \<and>
     (case nonempty_id runID of Some r \<Rightarrow> er_ExperimentRunID d = r | None \<Rightarrow> er_NotifyID d = nonempty_id notifyID)"

definition after_events :: "'s exp_db \<Rightarrow> (exp_env \<times> experiment_run_request) list \<Rightarrow> 's \<Rightarrow> 's" where
  "after_events x evs s = foldl (\<lambda>s (env, event). snd (ChaosExperimentRunEvent x env event s)) s evs"

text \<open>An experiment keeps the details of at most ten runs.\<close>

definition recent_ok :: "chaos_experiment \<Rightarrow> bool" where
  "recent_ok e \<longleftrightarrow> length (ex_RecentExperimentRunDetails e) \<le> 10"

lemma recent_ok_simps [simp]:
  "recent_ok (push_detail now e d e')" "recent_ok (update_position env conds f e) = recent_ok e"
  by (simp_all add: recent_ok_def push_detail_def update_position_def Let_def)

context exp_db
begin

lemma event_transaction_cases:
  assumes "event_transaction x env event e prbs xd exec r s = (res, s')"
  shows "(s' = s \<and> res \<noteq> Inr (Inr ())) \<or>
    (\<exists>n u s1. CountExperimentRuns x (same_run (rq_ExperimentID event) (rq_ExperimentRunID event) (rq_NotifyID event)) s = Inr n \<and>
       base64_raw_decode url_alphabet (rq_UpdatedBy event) = Some u \<and>
       event_writes x env event e prbs xd exec r u n s = (None, s1) \<and> s' = s1)"
proof (cases "CountExperimentRuns x (same_run (rq_ExperimentID event) (rq_ExperimentRunID event) (rq_NotifyID event)) s")
  case (Inl e)
  then show ?thesis using assms by (auto simp: event_transaction_def)
next
  case n: (Inr n)
  show ?thesis
  proof (cases "base64_raw_decode url_alphabet (rq_UpdatedBy event)")
    case None
    then show ?thesis using assms n by (auto simp: event_transaction_def)
  next
    case u: (Some u)
    obtain err s1 where w: "event_writes x env event e prbs xd exec r u n s = (err, s1)" by fastforce
    obtain c s2 where c: "CommitTransaction (auth_handle (gql_handle x)) s s1 = (c, s2)" by fastforce
    show ?thesis
    proof (cases err)
      case None
      then show ?thesis using assms n u w c gql.auth.commit_ok [of s s1 s2] gql.auth.commit_err [of s s1 _ s2]
        by (cases c) (auto simp: event_transaction_def)
    next
      case (Some e)
      then show ?thesis using assms n u w by (auto simp: event_transaction_def)
    qed
  qed
qed

lemma event_cases:
  assumes "ChaosExperimentRunEvent x env event s = (res, s')"
  shows "(s' = s \<and> res \<noteq> Inr (Inr (received event))) \<or>
    (\<exists>e prbs xd exec r u n. event_read x env event s e prbs xd exec r u n \<and> event_writes x env event e prbs xd exec r u n s = (None, s'))"
proof -
  have ne: "(CHR ''n'' # y = received event) = False" for y
    by (simp add: received_def)
  from assms show ?thesis
    unfolding ChaosExperimentRunEvent_def
    by (auto simp: ne received_def [symmetric] event_read_def
      split: sum.splits mongo_error.splits if_splits option.splits prod.splits dest!: event_transaction_cases)
qed

text \<open>The update of the run, by the number of runs that match.\<close>

lemma CountExperimentRuns_size:
  "CountExperimentRuns x P s = Inr n \<Longrightarrow> n = size (filter_mset P (rundocs s))"
  using runs.CountDocuments_ok [of P s] by (cases "CountDocuments (exp_runs x) P s") (auto simp: CountExperimentRuns_def)

lemma experiment_update:
  assumes "op_UpdateChaosExperiment x P f s = (err, s')"
  shows "rundocs s' = rundocs s" "pbdocs s' = pbdocs s" "xdocs s' = xdocs s \<or> updated_one P f (xdocs s) (xdocs s')"
proof -
  obtain r where r: "UpdateOne (experiments x) P (Some f) s = (r, s')"
    using assms by (auto simp: op_UpdateChaosExperiment_def split: prod.splits sum.splits)
  show "rundocs s' = rundocs s" "pbdocs s' = pbdocs s" using experiments_frame [OF r] by auto
  show "xdocs s' = xdocs s \<or> updated_one P f (xdocs s) (xdocs s')" using experiments.UpdateOne_cases [OF r] .
qed

lemma experiment_updated:
  assumes "op_UpdateChaosExperiment x P f s = (None, s')" "e \<in># xdocs s" "P e"
  shows "updated_one P f (xdocs s) (xdocs s')"
proof -
  obtain n where "UpdateOne (experiments x) P (Some f) s = (Inr n, s')"
    using assms(1) by (auto simp: op_UpdateChaosExperiment_def split: prod.splits sum.splits)
  then show ?thesis using experiments.UpdateOne_ok [of P f s n s'] assms(2,3) by blast
qed

lemma run_updated:
  assumes "op_UpdateExperimentRun x env d s = (Inr k, s')" "k > 0"
  defines "same \<equiv> same_run (er_ExperimentID d) (er_ExperimentRunID d) (er_NotifyID d)"
  shows "xdocs s' = xdocs s \<and>
    (let n = size (filter_mset same (rundocs s)) in
     if n = 0 then rundocs s' = add_mset (d\<lparr>er_CreatedAt := now_ms (g_auth (x_gql env)) 4\<rparr>) (rundocs s)
     else if n = 1 then updated_one (\<lambda>d. same d \<and> \<not> er_Completed d) (run_update d) (rundocs s) (rundocs s')
     else rundocs s' = rundocs s)"
proof (cases "CountDocuments (exp_runs x) same s")
  case (Inl e)
  then show ?thesis using assms(1) by (simp add: op_UpdateExperimentRun_def same_def [symmetric])
next
  case (Inr n)
  then have n: "n = size (filter_mset same (rundocs s))" using runs.CountDocuments_ok by blast
  show ?thesis
  proof (cases "n = 0 \<or> n = 1")
    case False
    then show ?thesis unfolding Let_def n [symmetric] using assms(1) Inr
      by (auto simp: op_UpdateExperimentRun_def same_def [symmetric])
  next
    case True
    then show ?thesis
    proof
      assume "n = 0"
      then show ?thesis unfolding Let_def n [symmetric] using assms(1) Inr runs.InsertOne_ok runs_insert_frame
        by (auto simp: op_UpdateExperimentRun_def same_def [symmetric] split: prod.splits option.splits)
    next
      assume "n = 1"
      then have "UpdateOne (exp_runs x) (\<lambda>d. same d \<and> \<not> er_Completed d) (Some (run_update d)) s = (Inr k, s')"
        using assms(1) Inr by (auto simp: op_UpdateExperimentRun_def same_def [symmetric] split: prod.splits sum.splits)
      from runs.UpdateOne_ok [OF this] runs_frame(1) [OF this] assms(2) show ?thesis
        unfolding Let_def n [symmetric] using \<open>n = 1\<close> by auto
    qed
  qed
qed

lemma event_writes_run:
  assumes "event_writes x env event e prbs xd exec r u n s = (None, s')"
  obtains s1 k where "rundocs s1 = rundocs s" "xdocs s' = xdocs s1" "k > 0"
    "op_UpdateExperimentRun x env (event_run env event e prbs xd exec r u) s1 = (Inr k, s')"
    "n = 0 \<Longrightarrow> op_UpdateChaosExperiment x (\<lambda>e. ex_ExperimentID e = rq_ExperimentID event)
        (push_detail (now_ms (g_auth (x_gql env)) 3) e (event_detail env event e exec r u)) s = (None, s1)"
    "n > 0 \<Longrightarrow> \<exists>f. op_UpdateChaosExperiment x (\<lambda>e. ex_ExperimentID e = rq_ExperimentID event \<and> some_detail (event_conds event) e)
        (update_position env (event_conds event) f) s = (None, s1)"
proof -
  obtain err s1 where w: "(if n = 0
         then op_UpdateChaosExperiment x (\<lambda>e. ex_ExperimentID e = rq_ExperimentID event)
                (push_detail (now_ms (g_auth (x_gql env)) 3) e (event_detail env event e exec r u)) s
         else op_UpdateChaosExperiment x
                (\<lambda>e. ex_ExperimentID e = rq_ExperimentID event \<and> some_detail (event_conds event) e)
                (update_position env (event_conds event)
                   (\<lambda>d. d\<lparr>rd_Phase := x_Phase exec, rd_Completed := rq_Completed event, rd_ExperimentRunID := rq_ExperimentRunID event,
                          rd_Probe := prbs, rd_ResiliencyScore := Some (ResiliencyScore r),
                          rd_UpdatedAt := now_ms (g_auth (x_gql env)) 0, rd_UpdatedBy := u\<rparr>)) s) = (err, s1)"
    by fastforce
  obtain q s2 where q: "op_UpdateExperimentRun x env (event_run env event e prbs xd exec r u) s1 = (q, s2)" by fastforce
  from assms have err: "err = None" and k: "\<exists>k. q = Inr k \<and> k > 0 \<and> s2 = s'"
    unfolding event_writes_def w by (auto simp: q split: option.splits sum.splits if_splits)
  then obtain k where k: "q = Inr k" "k > 0" "s2 = s'" by blast
  have "rundocs s1 = rundocs s" using w experiment_update(1) by (auto split: if_splits)
  moreover have "xdocs s' = xdocs s1" using run_updated [of env _ s1 k s'] q k by auto
  moreover have "n > 0 \<Longrightarrow> \<exists>f. op_UpdateChaosExperiment x (\<lambda>e. ex_ExperimentID e = rq_ExperimentID event \<and> some_detail (event_conds event) e)
        (update_position env (event_conds event) f) s = (None, s1)"
    using w err by auto
  moreover have "n = 0 \<Longrightarrow> op_UpdateChaosExperiment x (\<lambda>e. ex_ExperimentID e = rq_ExperimentID event)
        (push_detail (now_ms (g_auth (x_gql env)) 3) e (event_detail env event e exec r u)) s = (None, s1)"
    using w err by auto
  moreover have "op_UpdateExperimentRun x env (event_run env event e prbs xd exec r u) s1 = (Inr k, s')" using q k by simp
  ultimately show thesis using k(2) by (intro that) blast+
qed

lemma event_writes_run_update:
  assumes "event_writes x env event e prbs xd exec r u n s = (None, s')"
  obtains s1 k where "rundocs s1 = rundocs s" "k > 0"
    "op_UpdateExperimentRun x env (event_run env event e prbs xd exec r u) s1 = (Inr k, s')"
  by (rule event_writes_run [OF assms])

lemma event_writes_first:
  assumes "event_writes x env event e prbs xd exec r u 0 s = (None, s')"
  obtains s1 k where "rundocs s1 = rundocs s" "xdocs s' = xdocs s1" "k > 0"
    "op_UpdateExperimentRun x env (event_run env event e prbs xd exec r u) s1 = (Inr k, s')"
    "op_UpdateChaosExperiment x (\<lambda>e. ex_ExperimentID e = rq_ExperimentID event)
        (push_detail (now_ms (g_auth (x_gql env)) 3) e (event_detail env event e exec r u)) s = (None, s1)"
  by (rule event_writes_run [OF assms]) (rule that, simp_all)

section \<open>Finished runs\<close>

text \<open>An event for a run that is finished is rolled back.\<close>

lemma event_finished:
  assumes "size (filter_mset (same_run (rq_ExperimentID event) (rq_ExperimentRunID event) (rq_NotifyID event)) (rundocs s)) = 1"
    and "\<forall>d\<in>#rundocs s. same_run (rq_ExperimentID event) (rq_ExperimentRunID event) (rq_NotifyID event) d \<longrightarrow> er_Completed d"
  shows "snd (ChaosExperimentRunEvent x env event s) = s \<and> fst (ChaosExperimentRunEvent x env event s) \<noteq> Inr (Inr (received event))"
proof -
  let ?same = "same_run (rq_ExperimentID event) (rq_ExperimentRunID event) (rq_NotifyID event)"
  obtain res s' where ev: "ChaosExperimentRunEvent x env event s = (res, s')" by fastforce
  have False if w: "event_writes x env event e prbs xd exec r u n s = (None, s')" for e prbs xd exec r u n
  proof -
    obtain s1 k where k: "rundocs s1 = rundocs s" "k > 0" "op_UpdateExperimentRun x env (event_run env event e prbs xd exec r u) s1 = (Inr k, s')"
      by (rule event_writes_run_update [OF w])
    have "updated_one (\<lambda>d. ?same d \<and> \<not> er_Completed d) (run_update (event_run env event e prbs xd exec r u)) (rundocs s1) (rundocs s')"
      using run_updated [OF k(3,2)] assms(1) k(1) by (simp add: event_run_def)
    then show False using assms(2) k(1) by (auto simp: updated_one_def)
  qed
  then have "s' = s \<and> res \<noteq> Inr (Inr (received event))" using event_cases [OF ev] by metis
  then show ?thesis using ev by simp
qed

lemma event_stored:
  assumes ev: "ChaosExperimentRunEvent x env event s = (Inr (Inr (received event)), s')"
    and le: "size (filter_mset (same_run (rq_ExperimentID event) (rq_ExperimentRunID event) (rq_NotifyID event)) (rundocs s)) \<le> 1"
  shows "\<exists>e prbs xd exec r u n d. event_read x env event s e prbs xd exec r u n \<and> d \<in># rundocs s' \<and> reported event xd exec r d"
proof -
  let ?same = "same_run (rq_ExperimentID event) (rq_ExperimentRunID event) (rq_NotifyID event)"
  obtain e prbs xd exec r u n where rd: "event_read x env event s e prbs xd exec r u n"
    and w: "event_writes x env event e prbs xd exec r u n s = (None, s')"
    using event_cases [OF ev] by auto
  obtain s1 k where k: "rundocs s1 = rundocs s" "k > 0" "op_UpdateExperimentRun x env (event_run env event e prbs xd exec r u) s1 = (Inr k, s')"
    by (rule event_writes_run_update [OF w])
  have "\<exists>d. d \<in># rundocs s' \<and> reported event xd exec r d"
  proof (cases "size (filter_mset ?same (rundocs s)) = 0")
    case True
    then have "rundocs s' = add_mset ((event_run env event e prbs xd exec r u)\<lparr>er_CreatedAt := now_ms (g_auth (x_gql env)) 4\<rparr>) (rundocs s)"
      using run_updated [OF k(3,2)] k(1) by (simp add: event_run_def)
    moreover have "reported event xd exec r ((event_run env event e prbs xd exec r u)\<lparr>er_CreatedAt := now_ms (g_auth (x_gql env)) 4\<rparr>)"
      by (simp add: reported_def event_run_def)
    ultimately show ?thesis by (intro exI [of _ "(event_run env event e prbs xd exec r u)\<lparr>er_CreatedAt := now_ms (g_auth (x_gql env)) 4\<rparr>"]) simp
  next
    case False
    with le have "size (filter_mset ?same (rundocs s)) = 1" by linarith
    then have "updated_one (\<lambda>d. ?same d \<and> \<not> er_Completed d) (run_update (event_run env event e prbs xd exec r u)) (rundocs s) (rundocs s')"
      using run_updated [OF k(3,2)] k(1) by (simp add: event_run_def)
    then obtain d where "?same d" "rundocs s' = replace_mset d (run_update (event_run env event e prbs xd exec r u) d) (rundocs s)"
      by (auto simp: updated_one_def)
    then show ?thesis
      by (intro exI [of _ "run_update (event_run env event e prbs xd exec r u) d"])
        (simp add: reported_def run_update_def event_run_def same_run_def)
  qed
  then show ?thesis using rd by blast
qed

text \<open>The first event of a run adds it to its experiment.\<close>

lemma event_first:
  assumes ev: "ChaosExperimentRunEvent x env event s = (Inr (Inr (received event)), s')"
    and zero: "\<forall>d\<in>#rundocs s. \<not> same_run (rq_ExperimentID event) (rq_ExperimentRunID event) (rq_NotifyID event) d"
    and uniq: "unique_by ex_ExperimentID (xdocs s)"
  shows "\<exists>e prbs xd exec r u d. event_read x env event s e prbs xd exec r u 0 \<and> e \<in># xdocs s \<and>
    rundocs s' = add_mset d (rundocs s) \<and> reported event xd exec r d \<and>
    xdocs s' = replace_mset e (push_detail (now_ms (g_auth (x_gql env)) 3) e (event_detail env event e exec r u) e) (xdocs s)"
proof -
  obtain e prbs xd exec r u n where rd: "event_read x env event s e prbs xd exec r u n"
    and w: "event_writes x env event e prbs xd exec r u n s = (None, s')"
    using event_cases [OF ev] by auto
  have "CountExperimentRuns x (same_run (rq_ExperimentID event) (rq_ExperimentRunID event) (rq_NotifyID event)) s = Inr n"
    using rd by (simp add: event_read_def)
  from CountExperimentRuns_size [OF this] have n: "n = 0" using zero by simp
  obtain s1 k where k: "rundocs s1 = rundocs s" "xdocs s' = xdocs s1" "k > 0"
    "op_UpdateExperimentRun x env (event_run env event e prbs xd exec r u) s1 = (Inr k, s')"
    and p: "op_UpdateChaosExperiment x (\<lambda>e. ex_ExperimentID e = rq_ExperimentID event)
        (push_detail (now_ms (g_auth (x_gql env)) 3) e (event_detail env event e exec r u)) s = (None, s1)"
    by (rule event_writes_first [OF w [unfolded n]])
  have e: "e \<in># xdocs s" "ex_ExperimentID e = rq_ExperimentID event"
    using rd experiments.FindOne_ok by (auto simp: event_read_def op_GetExperiment_def)
  obtain e' where e': "e' \<in># xdocs s" "ex_ExperimentID e' = rq_ExperimentID event"
    "xdocs s1 = replace_mset e' (push_detail (now_ms (g_auth (x_gql env)) 3) e (event_detail env event e exec r u) e') (xdocs s)"
    using experiment_updated [OF p e] unfolding updated_one_def by blast
  have "e' = e" using unique_byD [OF uniq e'(1) e(1)] e'(2) e(2) by simp
  then have "xdocs s' = replace_mset e (push_detail (now_ms (g_auth (x_gql env)) 3) e (event_detail env event e exec r u) e) (xdocs s)"
    using e'(3) k(2) by simp
  moreover have "rundocs s' = add_mset ((event_run env event e prbs xd exec r u)\<lparr>er_CreatedAt := now_ms (g_auth (x_gql env)) 4\<rparr>) (rundocs s)"
    using run_updated [OF k(4,3)] k(1) zero by (simp add: event_run_def)
  moreover have "reported event xd exec r ((event_run env event e prbs xd exec r u)\<lparr>er_CreatedAt := now_ms (g_auth (x_gql env)) 4\<rparr>)"
    by (simp add: reported_def event_run_def)
  ultimately show ?thesis using rd n e by blast
qed

section \<open>Stopping\<close>

lemma stop_process:
  assumes "ProcessExperimentRunStop x env query rid nid e u p s = (res, s', sg)"
  shows "(rundocs s' = rundocs s \<or> updated_one query (stopped_run env u) (rundocs s) (rundocs s')) \<and>
    (xdocs s' = xdocs s \<or> (\<exists>P cond f. updated_one P (update_position env [cond] f) (xdocs s) (xdocs s')))"
    and "res = None \<Longrightarrow> d \<in># rundocs s \<Longrightarrow> query d \<Longrightarrow> updated_one query (stopped_run env u) (rundocs s) (rundocs s')"
proof -
  obtain err s1 where s1: "UpdateExperimentRunWithQuery x query (stopped_run env u) s = (err, s1)" by fastforce
  then obtain r where r: "UpdateOne (exp_runs x) query (Some (stopped_run env u)) s = (r, s1)" "err = None \<longleftrightarrow> (\<exists>n. r = Inr n)"
    by (auto simp: UpdateExperimentRunWithQuery_def split: prod.splits sum.splits)
  have s2: "rundocs s' = rundocs s1 \<and> (xdocs s' = xdocs s1 \<or> (\<exists>P cond f. updated_one P (update_position env [cond] f) (xdocs s1) (xdocs s')))"
    using assms experiment_update unfolding ProcessExperimentRunStop_def s1 Let_def
    by (auto split: option.splits if_splits prod.splits) blast+
  have one: "rundocs s1 = rundocs s \<or> updated_one query (stopped_run env u) (rundocs s) (rundocs s1)" "xdocs s1 = xdocs s"
    using runs.UpdateOne_cases [OF r(1)] runs_frame(1) [OF r(1)] by auto
  show "(rundocs s' = rundocs s \<or> updated_one query (stopped_run env u) (rundocs s) (rundocs s')) \<and>
    (xdocs s' = xdocs s \<or> (\<exists>P cond f. updated_one P (update_position env [cond] f) (xdocs s) (xdocs s')))"
    using s2 one by simp
  assume "res = None" "d \<in># rundocs s" "query d"
  then have "err = None" using assms unfolding ProcessExperimentRunStop_def s1 by (cases err) auto
  then obtain n where "r = Inr n" using r(2) by blast
  then have "updated_one query (stopped_run env u) (rundocs s) (rundocs s1)"
    using runs.UpdateOne_ok [of query "stopped_run env u" s n s1] r(1) \<open>d \<in># rundocs s\<close> \<open>query d\<close> by blast
  then show "updated_one query (stopped_run env u) (rundocs s) (rundocs s')" using s2 by simp
qed

lemma stop_by_id:
  assumes "StopExperimentRuns x env p eid rid nid u s = (Inr (Inr b), s', sg)" "nonempty_id rid \<noteq> None \<or> nonempty_id nid \<noteq> None"
  obtains e r n where "ProcessExperimentRunStop x env (stop_target p eid rid nid) r n e u p s = (None, s', sg)"
    "r = (case nonempty_id rid of None \<Rightarrow> '''' | Some r \<Rightarrow> r)"
proof (cases "nonempty_id rid")
  case (Some r)
  then have "r \<noteq> ''''" by (auto simp: nonempty_id_def split: option.splits if_splits)
  moreover have "stop_target p eid rid nid = (\<lambda>d. er_ExperimentID d = eid \<and> er_ProjectID d = p \<and> \<not> er_IsRemoved d \<and> er_ExperimentRunID d = r)"
    by (simp add: stop_target_def Some fun_eq_iff)
  ultimately obtain e where "ProcessExperimentRunStop x env (stop_target p eid rid nid) r None e u p s = (None, s', sg)"
    using assms(1) Some by (auto simp: StopExperimentRuns_def split: sum.splits prod.splits option.splits)
  then show thesis using that Some by simp
next
  case None
  then obtain n where n: "nonempty_id nid = Some n" using assms(2) by auto
  have "stop_target p eid rid nid = (\<lambda>d. er_ExperimentID d = eid \<and> er_ProjectID d = p \<and> \<not> er_IsRemoved d \<and> er_NotifyID d = Some n)"
    by (simp add: stop_target_def None n fun_eq_iff)
  then obtain e where "ProcessExperimentRunStop x env (stop_target p eid rid nid) '''' (Some n) e u p s = (None, s', sg)"
    using assms(1) None n by (auto simp: StopExperimentRuns_def split: sum.splits prod.splits option.splits)
  then show thesis using that None by simp
qed

lemma stopped_by_id:
  assumes stop: "StopExperimentRuns x env p eid rid nid u s = (Inr (Inr b), s', sg)" "nonempty_id rid \<noteq> None \<or> nonempty_id nid \<noteq> None"
    and one: "filter_mset (stop_target p eid rid nid) (rundocs s) = {#d#}"
  shows "rundocs s' = replace_mset d (stopped_run env u d) (rundocs s)"
proof -
  obtain e r n where e: "ProcessExperimentRunStop x env (stop_target p eid rid nid) r n e u p s = (None, s', sg)"
    by (rule stop_by_id [OF stop])
  have "d \<in># filter_mset (stop_target p eid rid nid) (rundocs s)" unfolding one by simp
  then obtain d' where d': "d' \<in># rundocs s" "stop_target p eid rid nid d'" "rundocs s' = replace_mset d' (stopped_run env u d') (rundocs s)"
    using stop_process(2) [OF e refl, of d] by (auto simp: updated_one_def)
  then have "d' \<in># filter_mset (stop_target p eid rid nid) (rundocs s)" by simp
  then have "d' = d" unfolding one by simp
  with d' show ?thesis by simp
qed

text \<open>No event changes a run that is completed.\<close>

lemma event_keeps_completed:
  assumes "d \<in># rundocs s" "er_Completed d"
  shows "d \<in># rundocs (snd (ChaosExperimentRunEvent x env event s))"
proof -
  let ?same = "same_run (rq_ExperimentID event) (rq_ExperimentRunID event) (rq_NotifyID event)"
  obtain res s' where ev: "ChaosExperimentRunEvent x env event s = (res, s')" by fastforce
  have "d \<in># rundocs s'" if w: "event_writes x env event e prbs xd exec r u n s = (None, s')" for e prbs xd exec r u n
  proof -
    obtain s1 k where k: "rundocs s1 = rundocs s" "k > 0" "op_UpdateExperimentRun x env (event_run env event e prbs xd exec r u) s1 = (Inr k, s')"
      by (rule event_writes_run_update [OF w])
    let ?f = "run_update (event_run env event e prbs xd exec r u)"
    consider d0 where "rundocs s' = add_mset d0 (rundocs s)" | "updated_one (\<lambda>d. ?same d \<and> \<not> er_Completed d) ?f (rundocs s) (rundocs s')"
      | "rundocs s' = rundocs s"
      using run_updated [OF k(3,2)] k(1) by (auto simp: event_run_def Let_def split: if_splits)
    then show ?thesis
    proof cases
      case 2
      then obtain d2 where d2: "\<not> er_Completed d2" "rundocs s' = replace_mset d2 (?f d2) (rundocs s)" by (auto simp: updated_one_def)
      then have "d2 \<noteq> d" using assms(2) by auto
      then show ?thesis using assms(1) d2(2) by (simp add: replace_mset_def in_diff_count)
    qed (use assms(1) in simp_all)
  qed
  then show ?thesis using event_cases [OF ev] assms(1) ev by auto
qed

lemma events_keep_completed: "d \<in># rundocs s \<Longrightarrow> er_Completed d \<Longrightarrow> d \<in># rundocs (after_events x evs s)"
proof (induction evs arbitrary: s)
  case (Cons ev evs)
  then show ?case using Cons.IH [OF event_keeps_completed [OF Cons.prems, of "fst ev" "snd ev"]] by (simp add: after_events_def case_prod_unfold)
qed (simp add: after_events_def)

end

section \<open>Changes of experiments\<close>

text \<open>Events and stops change the run details and the counter of an experiment only, one experiment at a time.\<close>

definition details_only :: "chaos_experiment \<Rightarrow> chaos_experiment \<Rightarrow> bool" where
  "details_only e e' \<longleftrightarrow> ex_ExperimentID e' = ex_ExperimentID e \<and> ex_ProjectID e' = ex_ProjectID e \<and> ex_Name e' = ex_Name e \<and>
     ex_IsRemoved e' = ex_IsRemoved e \<and> ex_Revision e' = ex_Revision e \<and> (recent_ok e \<longrightarrow> recent_ok e')"

lemma details_only_simps [simp]:
  "details_only e (push_detail now e0 d e)" "details_only e (update_position env conds f e)"
  by (simp_all add: details_only_def) (simp_all add: push_detail_def update_position_def Let_def)

definition details_step :: "chaos_experiment multiset \<Rightarrow> chaos_experiment multiset \<Rightarrow> bool" where
  "details_step M M' \<longleftrightarrow> (\<exists>e e'. e \<in># M \<and> M' = replace_mset e e' M \<and> details_only e e')"

lemma details_stepI: "updated_one P f M M' \<Longrightarrow> (\<And>e. details_only e (f e)) \<Longrightarrow> details_step M M'"
  by (auto simp: updated_one_def details_step_def)

context exp_db
begin

lemma details_update:
  assumes "op_UpdateChaosExperiment x P f s = (err, s')" "\<And>e. details_only e (f e)"
  shows "details_step\<^sup>*\<^sup>* (xdocs s) (xdocs s')"
  using experiment_update(3) [OF assms(1)] by (auto intro: details_stepI assms(2))

lemma event_details:
  assumes "ChaosExperimentRunEvent x env event s = (res, s')"
  shows "details_step\<^sup>*\<^sup>* (xdocs s) (xdocs s')"
  using event_cases [OF assms(1)]
proof (elim disjE exE conjE)
  fix e prbs xd exec r u n
  assume w: "event_writes x env event e prbs xd exec r u n s = (None, s')"
  obtain s1 where "xdocs s' = xdocs s1" and
    s1: "n = 0 \<Longrightarrow> op_UpdateChaosExperiment x (\<lambda>e. ex_ExperimentID e = rq_ExperimentID event)
        (push_detail (now_ms (g_auth (x_gql env)) 3) e (event_detail env event e exec r u)) s = (None, s1)"
    "n > 0 \<Longrightarrow> \<exists>f. op_UpdateChaosExperiment x (\<lambda>e. ex_ExperimentID e = rq_ExperimentID event \<and> some_detail (event_conds event) e)
        (update_position env (event_conds event) f) s = (None, s1)"
    by (rule event_writes_run [OF w], rule that) (assumption | blast)+
  moreover have "details_step\<^sup>*\<^sup>* (xdocs s) (xdocs s1)"
  proof (cases "n = 0")
    case True
    then show ?thesis by (intro details_update [OF s1(1)]) simp_all
  next
    case False
    then obtain f where "op_UpdateChaosExperiment x (\<lambda>e. ex_ExperimentID e = rq_ExperimentID event \<and> some_detail (event_conds event) e)
        (update_position env (event_conds event) f) s = (None, s1)" using s1(2) by blast
    then show ?thesis by (rule details_update) simp
  qed
  ultimately show ?thesis by simp
qed simp

lemma stop_process_details:
  assumes "ProcessExperimentRunStop x env query rid nid e u p s = (res, s', sg)"
  shows "details_step\<^sup>*\<^sup>* (xdocs s) (xdocs s')"
proof -
  from stop_process(1) [OF assms(1)] consider "xdocs s' = xdocs s"
    | P cond f where "updated_one P (update_position env [cond] f) (xdocs s) (xdocs s')" by blast
  then show ?thesis
  proof cases
    case 2
    then have "details_step (xdocs s) (xdocs s')" by (rule details_stepI) simp
    then show ?thesis ..
  qed simp
qed

lemma stop_runs_details: "stop_runs x env e p eid u rs s = (res, s', sg) \<Longrightarrow> details_step\<^sup>*\<^sup>* (xdocs s) (xdocs s')"
proof (induction rs arbitrary: s res s' sg)
  case (Cons r rs)
  obtain rid nid where r: "r = (rid, nid)" by (cases r)
  let ?q = "\<lambda>d. er_ExperimentID d = eid \<and> er_ProjectID d = p \<and> \<not> er_IsRemoved d \<and>
             (if rid \<noteq> '''' then er_ExperimentRunID d = rid else er_NotifyID d = nid)"
  obtain err s1 sg1 where s1: "ProcessExperimentRunStop x env ?q rid nid e u p s = (err, s1, sg1)" by (rule prod_cases3)
  obtain res' s2 sg2 where s2: "stop_runs x env e p eid u rs s1 = (res', s2, sg2)" by (rule prod_cases3)
  have ok: "details_step\<^sup>*\<^sup>* (xdocs s) (xdocs s1)" by (rule stop_process_details [OF s1])
  have "s' = s \<or> s' = s1 \<or> s' = s2" using Cons.prems(1) unfolding r stop_runs.simps s1 by (auto simp: s2 split: if_splits option.splits)
  then show ?case using ok rtranclp_trans [OF ok Cons.IH [OF s2]] by (elim disjE) simp_all
qed simp

lemma stop_details:
  assumes "StopExperimentRuns x env p eid rid nid u s = (res, s', sg)"
  shows "details_step\<^sup>*\<^sup>* (xdocs s) (xdocs s')"
proof -
  have "s' = s \<or> (\<exists>e rs r sg'. stop_runs x env e p eid u rs s = (r, s', sg'))"
    using assms(1) unfolding StopExperimentRuns_def
    by (auto simp del: stop_runs.simps simp: Let_def split: sum.splits prod.splits option.splits if_splits)
  then show ?thesis using stop_runs_details by (elim disjE exE) simp_all
qed

end

section \<open>Properties\<close>

text \<open>
  C18: A finished run is final. When the run an event refers to is stored once and is completed, the event changes nothing at
  all and is not acknowledged: the tentative change of the experiment is rolled back with the rest of the transaction.
\<close>

theorem completed_run_final:
  assumes "exp_db x xdocs rundocs pbdocs idocs edocs udocs pdocs rdocs adocs cdocs"
    and "size (filter_mset (same_run (rq_ExperimentID event) (rq_ExperimentRunID event) (rq_NotifyID event)) (rundocs s)) = 1"
    and "\<forall>d\<in>#rundocs s. same_run (rq_ExperimentID event) (rq_ExperimentRunID event) (rq_NotifyID event) d \<longrightarrow> er_Completed d"
  shows "snd (ChaosExperimentRunEvent x env event s) = s \<and> fst (ChaosExperimentRunEvent x env event s) \<noteq> Inr (Inr (received event))"
  using exp_db.event_finished [OF assms] .

text \<open>
  An acknowledged event about a run that is stored at most once leaves the run stored as reported: with the phase,
  the execution data and the completion of the event and with the resiliency score computed from the execution data (zero before the end).
\<close>

theorem acknowledged_event_stored:
  assumes "exp_db x xdocs rundocs pbdocs idocs edocs udocs pdocs rdocs adocs cdocs"
    and "ChaosExperimentRunEvent x env event s = (Inr (Inr (received event)), s')"
    and "size (filter_mset (same_run (rq_ExperimentID event) (rq_ExperimentRunID event) (rq_NotifyID event)) (rundocs s)) \<le> 1"
  shows "\<exists>xd exec r d. d \<in># rundocs s' \<and> er_ExperimentID d = rq_ExperimentID event \<and> er_ExperimentRunID d = rq_ExperimentRunID event \<and>
    er_Phase d = x_Phase exec \<and> er_ExecutionData d = xd \<and> er_Completed d = rq_Completed event \<and>
    er_ResiliencyScore d = Some (ResiliencyScore r) \<and> execution_of env event = Inr (xd, exec) \<and>
    (if rq_Completed event then ProcessCompletedExperimentRun x env exec (rq_ExperimentID event) s = Inr (Inr r) else r = zero_metrics)"
proof -
  obtain e prbs xd exec r u n d where "event_read x env event s e prbs xd exec r u n" "d \<in># rundocs s'" "reported event xd exec r d"
    using exp_db.event_stored [OF assms] by blast
  then show ?thesis
    by (intro exI [of _ xd] exI [of _ exec] exI [of _ r] exI [of _ d]) (auto simp: event_read_def reported_def split: if_splits)
qed

text \<open>
  The first event of a run, once acknowledged, has added exactly one run and changed exactly its experiment: the run is
  the first of the recent ones, of which at most ten are kept, and the counter of runs is one higher.
\<close>

theorem first_event_counted:
  assumes "exp_db x xdocs rundocs pbdocs idocs edocs udocs pdocs rdocs adocs cdocs"
    and "ChaosExperimentRunEvent x env event s = (Inr (Inr (received event)), s')"
    and "\<forall>d\<in>#rundocs s. \<not> same_run (rq_ExperimentID event) (rq_ExperimentRunID event) (rq_NotifyID event) d"
    and "unique_by ex_ExperimentID (xdocs s)"
  shows "\<exists>e e' d det. rundocs s' = add_mset d (rundocs s) \<and> e \<in># xdocs s \<and> ex_ExperimentID e = rq_ExperimentID event \<and>
    xdocs s' = replace_mset e e' (xdocs s) \<and> ex_TotalExperimentRuns e' = wrap64 (ex_TotalExperimentRuns e + 1) \<and>
    ex_RecentExperimentRunDetails e' = det # take 9 (ex_RecentExperimentRunDetails e) \<and>
    rd_ExperimentRunID det = rq_ExperimentRunID event \<and> rd_Phase det = er_Phase d \<and> er_ExperimentRunID d = rq_ExperimentRunID event"
proof -
  obtain e prbs xd exec r u d where rd: "event_read x env event s e prbs xd exec r u 0" and e: "e \<in># xdocs s"
    and d: "rundocs s' = add_mset d (rundocs s)" "reported event xd exec r d"
    and xs: "xdocs s' = replace_mset e (push_detail (now_ms (g_auth (x_gql env)) 3) e (event_detail env event e exec r u) e) (xdocs s)"
    using exp_db.event_first [OF assms] by blast
  let ?det = "event_detail env event e exec r u"
  let ?e = "push_detail (now_ms (g_auth (x_gql env)) 3) e ?det e"
  have "ex_ExperimentID e = rq_ExperimentID event"
    using rd mongo_collection.FindOne_ok [OF exp_db.axioms(2) [OF assms(1)]] by (auto simp: event_read_def op_GetExperiment_def)
  moreover have "ex_TotalExperimentRuns ?e = wrap64 (ex_TotalExperimentRuns e + 1)"
    "ex_RecentExperimentRunDetails ?e = ?det # take 9 (ex_RecentExperimentRunDetails e)"
    by (simp_all add: push_detail_def)
  moreover have "rd_ExperimentRunID ?det = rq_ExperimentRunID event" "rd_Phase ?det = er_Phase d" "er_ExperimentRunID d = rq_ExperimentRunID event"
    using d(2) by (simp_all add: event_detail_def reported_def)
  ultimately show ?thesis using e d(1) xs by blast
qed

text \<open>
  C19: Stopping a run is final. A request to stop, by a run identifier or by a notification identifier, that succeeds and that is about exactly one stored
  run changes exactly that run: it is completed with the phase Stopped. Whatever events of subscribers follow, the run stays as it is stored,
  and an event that is about this run alone, by its run identifier or its notification identifier, changes nothing at all and is not acknowledged.
\<close>

theorem stopped_run_stays_stopped:
  assumes "exp_db x xdocs rundocs pbdocs idocs edocs udocs pdocs rdocs adocs cdocs"
    and "StopExperimentRuns x env projectID experimentID runID notifyID u s = (Inr (Inr b), s', sg)"
    and "nonempty_id runID \<noteq> None \<or> nonempty_id notifyID \<noteq> None"
    and "filter_mset (stop_target projectID experimentID runID notifyID) (rundocs s) = {#d#}"
    and "d' = d\<lparr>er_Phase := ''Stopped'', er_Completed := True, er_UpdatedAt := now_ms (g_auth (x_gql env)) 0, er_UpdatedBy := u\<rparr>"
  shows "rundocs s' = replace_mset d d' (rundocs s) \<and>
    (\<forall>evs. d' \<in># rundocs (after_events x evs s') \<and>
      (\<forall>env' event. filter_mset (same_run (rq_ExperimentID event) (rq_ExperimentRunID event) (rq_NotifyID event)) (rundocs (after_events x evs s')) = {#d'#} \<longrightarrow>
         snd (ChaosExperimentRunEvent x env' event (after_events x evs s')) = after_events x evs s' \<and>
         fst (ChaosExperimentRunEvent x env' event (after_events x evs s')) \<noteq> Inr (Inr (received event))))"
proof (intro conjI allI impI)
  show r: "rundocs s' = replace_mset d d' (rundocs s)"
    using exp_db.stopped_by_id [OF assms(1-4)] by (simp add: assms(5) stopped_run_def)
  fix evs
  have c: "er_Completed d'" by (simp add: assms(5))
  show "d' \<in># rundocs (after_events x evs s')"
    by (rule exp_db.events_keep_completed [OF assms(1) _ c]) (simp add: r replace_mset_def)
  fix env' and event :: experiment_run_request
  let ?s = "after_events x evs s'"
  let ?same = "same_run (rq_ExperimentID event) (rq_ExperimentRunID event) (rq_NotifyID event)"
  assume one: "filter_mset ?same (rundocs ?s) = {#d'#}"
  have "er_Completed a" if "a \<in># rundocs ?s" "?same a" for a
  proof -
    have "a \<in># filter_mset ?same (rundocs ?s)" using that by simp
    then show ?thesis unfolding one using c by simp
  qed
  then have f: "snd (ChaosExperimentRunEvent x env' event ?s) = ?s \<and> fst (ChaosExperimentRunEvent x env' event ?s) \<noteq> Inr (Inr (received event))"
    by (intro exp_db.event_finished [OF assms(1)]) (simp_all add: one)
  show "snd (ChaosExperimentRunEvent x env' event ?s) = ?s" "fst (ChaosExperimentRunEvent x env' event ?s) \<noteq> Inr (Inr (received event))" using f by auto
qed

section \<open>Witnesses\<close>

definition sample_event :: "string \<Rightarrow> bool \<Rightarrow> experiment_run_request" where
  "sample_event rid c = \<lparr>rq_ExperimentID = ''e1'', rq_NotifyID = None, rq_ExperimentRunID = rid, rq_ExperimentName = ''e1'', rq_ExecutionData = ''UnVubmluZw=='',
     rq_InfraID = \<lparr>id_InfraID = ''infra1'', id_AccessKey = ''wrong'', id_Version = ''''\<rparr>, rq_RevisionID = ''r1'', rq_Completed = c,
     rq_IsRemoved = None, rq_UpdatedBy = ''YW5u''\<rparr>"

definition one_run_state :: "bool \<Rightarrow> exp_state" where
  "one_run_state c = sample_exp_state [sample_detail ''run1'' c] [sample_run ''e1'' ''run1'' c] []"

theorem completed_run_final_witness:
  "snd (ChaosExperimentRunEvent mem_exp sample_exp_env (sample_event ''run1'' True) (one_run_state True)) = one_run_state True"
proof -
  have "size (filter_mset (same_run ''e1'' ''run1'' None) (mset (st_runs (one_run_state True)))) = 1"
    "\<forall>d\<in>#mset (st_runs (one_run_state True)). same_run ''e1'' ''run1'' None d \<longrightarrow> er_Completed d"
    by (simp_all add: one_run_state_def sample_exp_state_def sample_run_def same_run_def)
  then show ?thesis using completed_run_final [OF mem_exp_db, of "sample_event ''run1'' True" "one_run_state True"]
    by (simp add: sample_event_def)
qed

lemma first_sample_received:
  "fst (ChaosExperimentRunEvent mem_exp sample_exp_env (sample_event ''run2'' True) (one_run_state True)) =
     Inr (Inr (received (sample_event ''run2'' True)))"
  by code_simp

theorem acknowledged_event_stored_witness:
  "\<exists>d. d \<in># mset (st_runs (snd (ChaosExperimentRunEvent mem_exp sample_exp_env (sample_event ''run2'' True) (one_run_state True)))) \<and>
     er_ExperimentRunID d = ''run2'' \<and> er_Completed d"
proof -
  have le: "size (filter_mset (same_run (rq_ExperimentID (sample_event ''run2'' True)) (rq_ExperimentRunID (sample_event ''run2'' True))
      (rq_NotifyID (sample_event ''run2'' True))) (mset (st_runs (one_run_state True)))) \<le> 1"
    by (simp add: one_run_state_def sample_exp_state_def sample_run_def same_run_def sample_event_def)
  from acknowledged_event_stored [OF mem_exp_db pairI [OF first_sample_received] le] show ?thesis
    by (auto simp: sample_event_def)
qed

theorem first_event_counted_witness:
  "\<exists>d. mset (st_runs (snd (ChaosExperimentRunEvent mem_exp sample_exp_env (sample_event ''run2'' True) (one_run_state True)))) =
     add_mset d (mset (st_runs (one_run_state True))) \<and> er_ExperimentRunID d = ''run2''"
proof -
  have no: "\<forall>d\<in>#mset (st_runs (one_run_state True)). \<not> same_run (rq_ExperimentID (sample_event ''run2'' True))
      (rq_ExperimentRunID (sample_event ''run2'' True)) (rq_NotifyID (sample_event ''run2'' True)) d"
    by (simp add: one_run_state_def sample_exp_state_def sample_run_def same_run_def sample_event_def)
  have un: "unique_by ex_ExperimentID (mset (st_experiments (one_run_state True)))"
    by (simp add: one_run_state_def sample_exp_state_def unique_by_def)
  have "rq_ExperimentRunID (sample_event ''run2'' True) = ''run2''" by (simp add: sample_event_def)
  with first_event_counted [OF mem_exp_db pairI [OF first_sample_received] no un] show ?thesis by auto
qed

text \<open>A queued run is stopped by its notification identifier before the subscriber has reported it; its first event is then refused.\<close>

definition queued_sample :: exp_state where
  "queued_sample = sample_exp_state [sample_detail '''' False] [(sample_run ''e1'' '''' False)\<lparr>er_NotifyID := Some ''n1''\<rparr>] []"

definition first_report :: experiment_run_request where
  "first_report = (sample_event ''run1'' False)\<lparr>rq_NotifyID := Some ''n1''\<rparr>"

theorem stopped_run_stays_stopped_witness:
  "\<exists>s' sg. StopExperimentRuns mem_exp sample_exp_env ''p1'' ''e1'' None (Some ''n1'') '''' queued_sample = (Inr (Inr True), s', sg) \<and>
     map (\<lambda>d. (er_Phase d, er_Completed d)) (st_runs s') = [(''Stopped'', True)] \<and>
     snd (ChaosExperimentRunEvent mem_exp sample_exp_env first_report s') = s'"
proof -
  let ?r = "StopExperimentRuns mem_exp sample_exp_env ''p1'' ''e1'' None (Some ''n1'') '''' queued_sample"
  obtain s' sg where r: "?r = (fst ?r, s', sg)" by (metis prod.collapse)
  have "fst ?r = Inr (Inr True)" by code_simp
  with r have r: "?r = (Inr (Inr True), s', sg)" by simp
  let ?d = "(sample_run ''e1'' '''' False)\<lparr>er_NotifyID := Some ''n1''\<rparr>"
  have one: "filter_mset (stop_target ''p1'' ''e1'' None (Some ''n1'')) (mset (st_runs queued_sample)) = {#?d#}"
    by (simp add: queued_sample_def sample_exp_state_def sample_run_def stop_target_def nonempty_id_def)
  have id: "nonempty_id None \<noteq> None \<or> nonempty_id (Some ''n1'') \<noteq> None" by (simp add: nonempty_id_def)
  note f = stopped_run_stays_stopped [OF mem_exp_db r id one refl]
  have s: "st_runs queued_sample = [?d]" by (simp add: queued_sample_def sample_exp_state_def)
  have m: "mset (st_runs s') = {#?d\<lparr>er_Phase := ''Stopped'', er_Completed := True, er_UpdatedAt := now_ms (g_auth (x_gql sample_exp_env)) 0, er_UpdatedBy := ''''\<rparr>#}"
    using f [THEN conjunct1] by (simp add: s replace_mset_def)
  then have "st_runs s' = [?d\<lparr>er_Phase := ''Stopped'', er_Completed := True, er_UpdatedAt := now_ms (g_auth (x_gql sample_exp_env)) 0, er_UpdatedBy := ''''\<rparr>]"
    by simp
  moreover have "snd (ChaosExperimentRunEvent mem_exp sample_exp_env first_report s') = s'"
    using f [THEN conjunct2, THEN spec, of "[]", THEN conjunct2, THEN spec, of sample_exp_env, THEN spec, of first_report] m
    by (simp add: after_events_def first_report_def sample_event_def same_run_def sample_run_def)
  ultimately show ?thesis using r by simp
qed

section \<open>Weaknesses\<close>

text \<open>The sender of an event is not identified: the access key of the samples is not that of the infrastructure.\<close>

lemma event_not_authenticated:
  "rq_InfraID (sample_event ''run1'' True) = \<lparr>id_InfraID = ''infra1'', id_AccessKey = ''wrong'', id_Version = ''''\<rparr>"
  "map i_AccessKey (st_infras (one_run_state False)) = [''key'']"
  "map er_Completed (st_runs (snd (r_ChaosExperimentRun mem_exp sample_exp_env c (sample_event ''run1'' True) (one_run_state False)))) = [True]"
proof -
  have "map er_Completed (st_runs (snd (ChaosExperimentRunEvent mem_exp sample_exp_env (sample_event ''run1'' True) (one_run_state False)))) = [True]"
    by code_simp
  then show "map er_Completed (st_runs (snd (r_ChaosExperimentRun mem_exp sample_exp_env c (sample_event ''run1'' True) (one_run_state False)))) = [True]"
    by (simp add: r_ChaosExperimentRun_def)
qed (simp_all add: sample_event_def one_run_state_def sample_exp_state_def sample_infra_doc_def)

text \<open>A user name that is not base64 ends the server.\<close>

lemma event_ends_server:
  "fst (ChaosExperimentRunEvent mem_exp sample_exp_env ((sample_event ''run1'' False)\<lparr>rq_UpdatedBy := ''ann@x''\<rparr>) (one_run_state False)) = Inl FatalExit"
  by code_simp

text \<open>A run that reports its end in its first event keeps an unfinished entry among the recent runs.\<close>

lemma first_event_completed_detail:
  "map (map rd_Completed \<circ> ex_RecentExperimentRunDetails) (st_experiments
     (snd (ChaosExperimentRunEvent mem_exp sample_exp_env (sample_event ''run2'' True) (one_run_state True)))) = [[False, True]]"
  by code_simp

text \<open>
  The filter of the positional update does not tie its two conditions to one entry. If the second condition determines
  the position, the event of one run overwrites the entry of another.
\<close>

definition second_position :: "(experiment_run_detail \<Rightarrow> bool) list \<Rightarrow> experiment_run_detail list \<Rightarrow> nat" where
  "second_position conds ds =
     (case conds of [] \<Rightarrow> 0 | c # cs \<Rightarrow> (case find_index (last conds) ds of None \<Rightarrow> 0 | Some i \<Rightarrow> i))"

lemma event_overwrites_other_entry:
  "map (map rd_ExperimentRunID \<circ> ex_RecentExperimentRunDetails) (st_experiments
     (snd (ChaosExperimentRunEvent mem_exp (sample_exp_env\<lparr>x_position := second_position\<rparr>) (sample_event ''run1'' False)
       (sample_exp_state [sample_detail ''run2'' False, sample_detail ''run1'' False]
          [sample_run ''e1'' ''run2'' False, sample_run ''e1'' ''run1'' False] [])))) = [[''run1'', ''run1'']]"
  by code_simp

text \<open>Stopping a run that has finished replaces its result.\<close>

lemma stop_replaces_result:
  "map er_Phase (st_runs (fst (snd (StopExperimentRuns mem_exp sample_exp_env ''p1'' ''e1'' (Some ''run1'') None ''''
     (one_run_state True\<lparr>st_runs := [(sample_run ''e1'' ''run1'' True)\<lparr>er_Phase := ''Completed''\<rparr>]\<rparr>))))) = [''Stopped'']"
  by code_simp

end
