(* ===== verification/Gql_Exp_Laws.thy ===== *)
theory Gql_Exp_Laws
  imports Gql_Exp_Ops Gql_Probes_Props Gql_Runs_Props
begin

text \<open>
  Laws of the experiment service: how steps that can fail compose, what each operation of the service leaves of the stored experiments and
  runs, and the invariant of the stored experiments.
\<close>

section \<open>Composition\<close>

text \<open>A property of the final state, whether the steps succeed or not.\<close>

definition ends :: "('s \<Rightarrow> bool) \<Rightarrow> ('s, 'a) infra_outcome \<Rightarrow> bool" where
  "ends I r \<longleftrightarrow> I (fst (snd r))"

lemma ends_sbind [ends_intros]:
  assumes "ends I r" "\<And>v s sg. r = (Inr (Inr v), s, sg) \<Longrightarrow> I s \<Longrightarrow> ends I (k v s)"
  shows "ends I (sbind r k)"
  using assms by (auto simp: ends_def sbind_def split: prod.splits sum.splits)

lemma ends_quiet [ends_intros]: "oends I r \<Longrightarrow> ends I (quiet r)"
  by (cases r) (simp add: ends_def oends_def quiet_def)

lemma ends_pair [simp]: "ends I (v, s, sg) \<longleftrightarrow> I s" "oends I (v, s) \<longleftrightarrow> I s"
  by (simp_all add: ends_def oends_def)

lemma endsI: "ends I r \<Longrightarrow> r = (v, s, sg) \<Longrightarrow> I s"
  by (simp add: ends_def)

lemma sbind_ok [simp]:
  "sbind r k = (Inr (Inr v), s', sg) \<longleftrightarrow> (\<exists>u s1 sg1 sg2. r = (Inr (Inr u), s1, sg1) \<and> k u s1 = (Inr (Inr v), s', sg2) \<and> sg = sg1 @ sg2)"
  by (auto simp: sbind_def split: prod.splits sum.splits)

lemma quiet_ok [simp]: "quiet r = (v, s, sg) \<longleftrightarrow> r = (v, s) \<and> sg = []"
  by (cases r) (auto simp: quiet_def)

section \<open>Processing writes probes only\<close>

text \<open>A property that storing a probe keeps is kept by the whole processing of a request.\<close>

definition probe_closed :: "'s exp_db \<Rightarrow> ('s \<Rightarrow> bool) \<Rightarrow> bool" where
  "probe_closed x I \<longleftrightarrow> (\<forall>env c rq pid s. I s \<longrightarrow> oends I (AddProbe x env c rq pid s))"

lemma probe_closedD: "probe_closed x I \<Longrightarrow> I s \<Longrightarrow> oends I (AddProbe x env c rq pid s)"
  by (simp add: probe_closed_def)

lemma create_probes_keeps: "probe_closed x I \<Longrightarrow> I s \<Longrightarrow> oends I (create_probes x env c pid k ps s)"
  by (induction ps arbitrary: k s) (auto intro!: oends_obind intro: probe_closedD split: prod.splits)

lemma ensure_refs_keeps: "probe_closed x I \<Longrightarrow> I s \<Longrightarrow> oends I (ensure_refs x env c pid k meta ps s)"
  by (auto simp: ensure_refs_def intro!: oends_obind create_probes_keeps split: option.splits prod.splits)

lemma process_template_keeps: "probe_closed x I \<Longrightarrow> I s \<Longrightarrow> oends I (process_template x env c pid ws k t s)"
  by (auto simp: process_template_def process_engine_def intro!: oends_obind ensure_refs_keeps split: option.splits prod.splits sum.splits)

lemma process_templates_keeps: "probe_closed x I \<Longrightarrow> I s \<Longrightarrow> oends I (process_templates x env c pid ws k ts s)"
  by (induction ts arbitrary: k s) (auto intro!: oends_obind process_template_keeps split: prod.splits)

lemma process_object_keeps: "probe_closed x I \<Longrightarrow> I s \<Longrightarrow> oends I (process_object x env c dec enc m rq i ws r pid k s)"
  by (auto simp: process_object_def Let_def intro!: oends_obind ensure_refs_keeps split: list.splits prod.splits)

lemma ProcessExperiment_keeps: "probe_closed x I \<Longrightarrow> I s \<Longrightarrow> oends I (ProcessExperiment x env c rq pid revID k s)"
  unfolding ProcessExperiment_def processExperimentManifest_def processCronExperimentManifest_def processChaosEngineManifest_def
    processChaosScheduleManifest_def Let_def
  by (auto intro!: oends_obind process_templates_keeps process_object_keeps split: sum.splits prod.splits)

context exp_db
begin

lemma AddProbe_cases:
  assumes "AddProbe x env c rq pid s = (r, s')"
  obtains "s' = s" | d q where "InsertOne (probes x) d s = (q, s')"
proof -
  from assms consider "s' = s" | d q where "CreateProbe x d s = (q, s')"
    by (auto simp: AddProbe_def split: sum.splits prod.splits option.splits if_splits)
  then show thesis
  proof cases
    case (2 d q)
    obtain v where "InsertOne (probes x) d s = (v, s')"
      using 2 by (auto simp: CreateProbe_def split: prod.splits option.splits)
    then show thesis by (rule that(2))
  qed (rule that(1))
qed

lemma probe_closedI:
  assumes "\<And>d s. I s \<Longrightarrow> I (snd (InsertOne (probes x) d s))"
  shows "probe_closed x I"
  unfolding probe_closed_def
proof (intro allI impI)
  fix env c rq pid s
  assume "I s"
  obtain r s' where a: "AddProbe x env c rq pid s = (r, s')" by fastforce
  then show "oends I (AddProbe x env c rq pid s)"
    by (rule AddProbe_cases) (use assms [of s] \<open>I s\<close> a in \<open>simp, metis ends_pair(2) snd_conv\<close>)
qed

lemma ProcessExperiment_same:
  assumes "ProcessExperiment x env c rq pid revID k s = (r, s')"
  shows "xdocs s' = xdocs s" "rundocs s' = rundocs s"
proof -
  have "probe_closed x (\<lambda>s'. xdocs s' = xdocs s \<and> rundocs s' = rundocs s)"
    by (rule probe_closedI) (use probes_insert_frame in \<open>metis prod.collapse\<close>)
  then have "oends (\<lambda>s'. xdocs s' = xdocs s \<and> rundocs s' = rundocs s) (ProcessExperiment x env c rq pid revID k s)"
    by (rule ProcessExperiment_keeps) simp
  then show "xdocs s' = xdocs s" "rundocs s' = rundocs s" using assms by (simp_all add: oends_def)
qed

end

text \<open>What processing keeps of a request: the name, and the identifier when there is one.\<close>

lemma process_object_request:
  assumes "process_object x env c dec enc m rq i ws r pid k s = (Inr (Inr (rq', k')), s')"
  shows "rx_ExperimentID rq' = rx_ExperimentID rq \<and> rx_ExperimentName rq' = rx_ExperimentName rq \<and> rx_InfraID rq' = rx_InfraID rq"
proof -
  obtain d where d: "dec (rx_ExperimentManifest rq) = Inr d"
    using assms by (cases "dec (rx_ExperimentManifest rq)") (auto simp: process_object_def with_error_def)
  then obtain e es where "ce_Experiments d = e # es"
    using assms by (cases "ce_Experiments d") (auto simp: process_object_def with_error_def)
  with d assms show ?thesis
    by (auto simp: process_object_def with_error_def Let_def split: prod.splits if_splits)
qed

lemma process_manifest_request:
  "processExperimentManifest x env c rq i ws r pid k s = (Inr (Inr (rq', k')), s') \<Longrightarrow>
     rx_ExperimentID rq' = rx_ExperimentID rq \<and> rx_ExperimentName rq' = rx_ExperimentName rq \<and> rx_InfraID rq' = rx_InfraID rq"
  "processCronExperimentManifest x env c rq i ws r pid k s = (Inr (Inr (rq', k')), s') \<Longrightarrow>
     rx_ExperimentID rq' = rx_ExperimentID rq \<and> rx_ExperimentName rq' = rx_ExperimentName rq \<and> rx_InfraID rq' = rx_InfraID rq"
  by (auto simp: processExperimentManifest_def processCronExperimentManifest_def Let_def split: prod.splits if_splits)

lemma ProcessExperiment_request:
  assumes "ProcessExperiment x env c rq pid revID k s = (Inr (Inr (rq', wfType, k')), s')"
  shows "rx_ExperimentName rq' = rx_ExperimentName rq" "rx_InfraID rq' = rx_InfraID rq"
    "rx_ExperimentID rq' = Some (case rx_ExperimentID rq of None \<Rightarrow> new_uuid (g_auth (x_gql env)) k
       | Some i \<Rightarrow> if i = '''' then new_uuid (g_auth (x_gql env)) k else i)"
proof -
  let ?i = "case rx_ExperimentID rq of None \<Rightarrow> new_uuid (g_auth (x_gql env)) k
       | Some i \<Rightarrow> if i = '''' then new_uuid (g_auth (x_gql env)) k else i"
  have "rx_ExperimentID rq' = Some ?i \<and> rx_ExperimentName rq' = rx_ExperimentName rq \<and> rx_InfraID rq' = rx_InfraID rq"
    using assms unfolding ProcessExperiment_def processChaosEngineManifest_def processChaosScheduleManifest_def Let_def
    by (auto split: sum.splits prod.splits if_splits dest!: process_manifest_request process_object_request)
  then show "rx_ExperimentName rq' = rx_ExperimentName rq" "rx_InfraID rq' = rx_InfraID rq" "rx_ExperimentID rq' = Some ?i" by blast+
qed

section \<open>The invariant of the stored experiments\<close>

text \<open>Every experiment has a revision, weights that are present, and at most ten run details.\<close>

definition experiment_ok :: "chaos_experiment \<Rightarrow> bool" where
  "experiment_ok e \<longleftrightarrow> ex_Revision e \<noteq> [] \<and> (\<forall>r\<in>set (ex_Revision e). None \<notin> set (rv_Weightages r)) \<and> recent_ok e"

definition live_named :: "string \<Rightarrow> string \<Rightarrow> chaos_experiment \<Rightarrow> bool" where
  "live_named pid n e \<longleftrightarrow> ex_ProjectID e = pid \<and> ex_Name e = n \<and> \<not> ex_IsRemoved e"

definition names_unique :: "chaos_experiment multiset \<Rightarrow> bool" where
  "names_unique M \<longleftrightarrow> (\<forall>pid n. size (filter_mset (live_named pid n) M) \<le> 1)"

definition stored_ok :: "chaos_experiment multiset \<Rightarrow> bool" where
  "stored_ok M \<longleftrightarrow> unique_by ex_ExperimentID M \<and> (\<forall>e\<in>#M. experiment_ok e)"

text \<open>An experiment is added, or changed without changing its identifier and project.\<close>

lemma stored_ok_insert:
  "stored_ok M \<Longrightarrow> experiment_ok e \<Longrightarrow> \<forall>d\<in>#M. \<not> experiment_conflict d e \<Longrightarrow> stored_ok (add_mset e M)"
  by (auto simp: stored_ok_def experiment_conflict_def intro: unique_by_add)

lemma stored_ok_replace:
  "stored_ok M \<Longrightarrow> e \<in># M \<Longrightarrow> ex_ExperimentID e' = ex_ExperimentID e \<Longrightarrow> (experiment_ok e \<Longrightarrow> experiment_ok e') \<Longrightarrow> stored_ok (replace_mset e e' M)"
  by (auto simp: stored_ok_def unique_by_replace dest: in_replace_mset_cases)

lemma stored_ok_update:
  assumes "stored_ok M" "M' = M \<or> updated_one P f M M'"
    and "\<And>e. ex_ExperimentID (f e) = ex_ExperimentID e" "\<And>e. experiment_ok e \<Longrightarrow> experiment_ok (f e)"
  shows "stored_ok M'"
  using assms(2) by (auto simp: updated_one_def intro: assms(1) stored_ok_replace assms(3,4))

lemma names_uniqueD:
  assumes "names_unique M" "d \<in># M" "e \<in># M" "live_named pid n d" "live_named pid n e"
  shows "d = e"
proof (rule ccontr)
  assume "d \<noteq> e"
  obtain N where N: "M = add_mset d N" using assms(2) by (metis mset_add)
  with assms(3) \<open>d \<noteq> e\<close> have "e \<in># N" by simp
  then obtain N' where "N = add_mset e N'" by (metis mset_add)
  with N assms(4,5) have "size (filter_mset (live_named pid n) M) \<ge> 2" by simp
  moreover have "size (filter_mset (live_named pid n) M) \<le> 1" using assms(1) by (simp add: names_unique_def)
  ultimately show False by simp
qed

lemma names_unique_insert:
  assumes "names_unique M" "\<forall>d\<in>#M. \<not> live_named (ex_ProjectID e) (ex_Name e) d"
  shows "names_unique (add_mset e M)"
  unfolding names_unique_def
proof (intro allI)
  fix pid n
  have "filter_mset (live_named pid n) M = {#}" if "live_named pid n e"
    using that assms(2) by (auto simp: live_named_def)
  then show "size (filter_mset (live_named pid n) (add_mset e M)) \<le> 1"
    using assms(1) by (auto simp: names_unique_def)
qed

lemma names_unique_replace:
  assumes "names_unique M" "e \<in># M"
    and "\<And>pid n. live_named pid n e' \<Longrightarrow> live_named pid n e \<or> (\<forall>d\<in>#M. \<not> live_named pid n d)"
  shows "names_unique (replace_mset e e' M)"
  unfolding names_unique_def
proof (intro allI)
  fix pid n
  have le: "size (filter_mset (live_named pid n) M) \<le> 1" using assms(1) by (simp add: names_unique_def)
  show "size (filter_mset (live_named pid n) (replace_mset e e' M)) \<le> 1"
  proof (cases "live_named pid n e' \<and> \<not> live_named pid n e")
    case True
    then have "filter_mset (live_named pid n) (M - {#e#}) = {#}" using assms(3) by (fastforce dest: in_diffD)
    then show ?thesis using True by (simp add: replace_mset_def)
  next
    case False
    then show ?thesis using size_filter_replace [of e M "live_named pid n" e'] assms(2) le by auto
  qed
qed

text \<open>The name of a request belongs to the experiment it is about, if to any.\<close>

definition own_name :: "chaos_experiment multiset \<Rightarrow> string \<Rightarrow> experiment_request \<Rightarrow> bool" where
  "own_name M pid rq \<longleftrightarrow> (\<forall>e\<in>#M. \<forall>d\<in>#M. Some (ex_ExperimentID e) = rx_ExperimentID rq \<longrightarrow> live_named pid (rx_ExperimentName rq) d \<longrightarrow>
     ex_ExperimentID d = ex_ExperimentID e)"

lemma details_step_ok:
  assumes "details_step\<^sup>*\<^sup>* M M'"
  shows "stored_ok M \<Longrightarrow> stored_ok M'" "names_unique M \<Longrightarrow> names_unique M'"
proof -
  have "(stored_ok M \<longrightarrow> stored_ok M') \<and> (names_unique M \<longrightarrow> names_unique M')"
    using assms
  proof (induction rule: rtranclp_induct)
    case (step N N')
    from step.hyps(2) obtain e e' where e: "e \<in># N" "N' = replace_mset e e' N" "details_only e e'" by (auto simp: details_step_def)
    have "stored_ok N \<longrightarrow> stored_ok N'" unfolding e(2) using e(1,3) by (auto intro!: stored_ok_replace simp: details_only_def experiment_ok_def)
    moreover have "names_unique N \<longrightarrow> names_unique N'"
      unfolding e(2) using e(1,3) by (auto intro!: names_unique_replace simp: details_only_def live_named_def)
    ultimately show ?case using step.IH by blast
  qed simp
  then show "stored_ok M \<Longrightarrow> stored_ok M'" "names_unique M \<Longrightarrow> names_unique M'" by blast+
qed

lemma new_experiment_ok [simp]: "experiment_ok (new_experiment env rq i u pid t r)"
  by (auto simp: new_experiment_def experiment_ok_def revision_of_def recent_ok_def Let_def)

lemma experiment_ids [simp]:
  "ex_ExperimentID (new_experiment env rq i u pid t r) = i" "ex_ExperimentID (updated_experiment env rq u t r e) = ex_ExperimentID e"
  "ex_ExperimentID (revised_experiment env rq u r e) = ex_ExperimentID e"
  by (simp_all add: new_experiment_def updated_experiment_def revised_experiment_def Let_def)

lemma updated_experiment_ok: "experiment_ok e \<Longrightarrow> experiment_ok (updated_experiment env rq u t r e)"
  by (auto simp: updated_experiment_def experiment_ok_def revision_of_def recent_ok_def)

lemma update_revision_Nil [simp]: "update_revision i f rs = [] \<longleftrightarrow> rs = []"
  by (cases rs) auto

lemma update_revision_weights:
  "(\<And>r. rv_Weightages (f r) = rv_Weightages r) \<Longrightarrow> map rv_Weightages (update_revision i f rs) = map rv_Weightages rs"
  by (induction rs) auto

lemma weights_present_map: "(\<forall>r\<in>set rs. None \<notin> set (rv_Weightages r)) \<longleftrightarrow> (\<forall>w\<in>set (map rv_Weightages rs). None \<notin> set w)"
  by simp

lemma revised_experiment_ok: "experiment_ok e \<Longrightarrow> experiment_ok (revised_experiment env rq u r e)"
  unfolding experiment_ok_def weights_present_map revised_experiment_def
  by (simp add: update_revision_weights recent_ok_def)


section \<open>The operations of the service\<close>

context exp_db
begin

lemma creation_cases:
  assumes "ProcessExperimentCreation x env rq u pid t r nt s = (res, s', sg)"
  shows "rundocs s' = rundocs s"
    "xdocs s' = xdocs s \<and> res \<noteq> Inr (Inr ()) \<or> (\<exists>i. rx_ExperimentID rq = Some i \<and>
       xdocs s' = add_mset (new_experiment env rq i u pid t r) (xdocs s) \<and> (\<forall>d\<in>#xdocs s. ex_ExperimentID d \<noteq> i))"
proof -
  have "rundocs s' = rundocs s \<and> (xdocs s' = xdocs s \<and> res \<noteq> Inr (Inr ()) \<or> (\<exists>i. rx_ExperimentID rq = Some i \<and>
       xdocs s' = add_mset (new_experiment env rq i u pid t r) (xdocs s) \<and> (\<forall>d\<in>#xdocs s. ex_ExperimentID d \<noteq> i)))"
  proof (cases "rx_ExperimentID rq")
    case None
    then show ?thesis using assms by (auto simp: ProcessExperimentCreation_def)
  next
    case (Some i)
    let ?e = "new_experiment env rq i u pid t r"
    obtain q s1 where q: "InsertOne (experiments x) ?e s = (q, s1)" by fastforce
    have s1: "s' = s1" "q = None \<or> res \<noteq> Inr (Inr ())"
      using assms Some q by (auto simp: ProcessExperimentCreation_def InsertChaosExperiment_def split: option.splits)
    show ?thesis using experiments.InsertOne_cases [OF q] experiments.InsertOne_ok [of ?e s s1] q s1 experiments_insert_frame [OF q] Some
      by (auto simp: experiment_conflict_def)
  qed
  then show "rundocs s' = rundocs s"
    "xdocs s' = xdocs s \<and> res \<noteq> Inr (Inr ()) \<or> (\<exists>i. rx_ExperimentID rq = Some i \<and>
       xdocs s' = add_mset (new_experiment env rq i u pid t r) (xdocs s) \<and> (\<forall>d\<in>#xdocs s. ex_ExperimentID d \<noteq> i))" by blast+
qed

lemma creation_stored: "stored_ok (xdocs s) \<Longrightarrow> ends (\<lambda>s. stored_ok (xdocs s)) (ProcessExperimentCreation x env rq u pid t r nt s)"
proof -
  assume ok: "stored_ok (xdocs s)"
  obtain res s' sg where c: "ProcessExperimentCreation x env rq u pid t r nt s = (res, s', sg)" by (rule prod_cases3)
  have "stored_ok (add_mset (new_experiment env rq i u pid t r) (xdocs s))" if "\<forall>d\<in>#xdocs s. ex_ExperimentID d \<noteq> i" for i
    using ok that by (intro stored_ok_insert) (auto simp: experiment_conflict_def)
  then show ?thesis using creation_cases(2) [OF c] ok by (auto simp: c)
qed

lemma creation_names:
  assumes "names_unique (xdocs s)" "\<forall>d\<in>#xdocs s. \<not> live_named pid (rx_ExperimentName rq) d"
  shows "ends (\<lambda>s. names_unique (xdocs s)) (ProcessExperimentCreation x env rq u pid t r nt s)"
proof -
  obtain res s' sg where c: "ProcessExperimentCreation x env rq u pid t r nt s = (res, s', sg)" by (rule prod_cases3)
  have "names_unique (add_mset (new_experiment env rq i u pid t r) (xdocs s))" for i
    using assms by (intro names_unique_insert) (simp_all add: new_experiment_def Let_def)
  then show ?thesis using creation_cases(2) [OF c] assms(1) by (auto simp: c)
qed

lemma update_cases:
  assumes "ProcessExperimentUpdate x env rq u t r ur pid nt s = (res, s', sg)"
  shows "rundocs s' = rundocs s"
    "xdocs s' = xdocs s \<or> (if ur
       then updated_one (\<lambda>e. Some (ex_ExperimentID e) = rx_ExperimentID rq \<and> ex_ProjectID e = pid \<and> r \<in> rv_RevisionID ` set (ex_Revision e))
              (revised_experiment env rq u r) (xdocs s) (xdocs s')
       else updated_one (\<lambda>e. Some (ex_ExperimentID e) = rx_ExperimentID rq \<and> ex_ProjectID e = pid)
              (updated_experiment env rq u t r) (xdocs s) (xdocs s'))"
proof -
  define up where "up = (if ur
            then op_UpdateChaosExperiment x (\<lambda>e. Some (ex_ExperimentID e) = rx_ExperimentID rq \<and> ex_ProjectID e = pid \<and>
                   r \<in> rv_RevisionID ` set (ex_Revision e)) (revised_experiment env rq u r) s
            else op_UpdateChaosExperiment x (\<lambda>e. Some (ex_ExperimentID e) = rx_ExperimentID rq \<and> ex_ProjectID e = pid)
                   (updated_experiment env rq u t r) s)"
  obtain err s1 where s1: "up = (err, s1)" by fastforce
  have "s' = s1"
    using assms unfolding ProcessExperimentUpdate_def up_def [symmetric] s1 by (auto split: option.splits sum.splits)
  then have "up = (err, s')" using s1 by simp
  then show "rundocs s' = rundocs s"
    "xdocs s' = xdocs s \<or> (if ur
       then updated_one (\<lambda>e. Some (ex_ExperimentID e) = rx_ExperimentID rq \<and> ex_ProjectID e = pid \<and> r \<in> rv_RevisionID ` set (ex_Revision e))
              (revised_experiment env rq u r) (xdocs s) (xdocs s')
       else updated_one (\<lambda>e. Some (ex_ExperimentID e) = rx_ExperimentID rq \<and> ex_ProjectID e = pid)
              (updated_experiment env rq u t r) (xdocs s) (xdocs s'))"
    unfolding up_def by (auto split: if_splits dest: experiment_update)
qed

definition ids :: "'s \<Rightarrow> string multiset" where
  "ids s = image_mset ex_ExperimentID (xdocs s)"

lemma ids_updated:
  assumes "xdocs s' = xdocs s \<or> updated_one P f (xdocs s) (xdocs s')" "\<And>e. ex_ExperimentID (f e) = ex_ExperimentID e"
  shows "ids s' = ids s"
  using assms by (auto simp: ids_def updated_one_def image_replace_mset)

lemma update_ids:
  assumes "ProcessExperimentUpdate x env rq u t r ur pid nt s = (res, s', sg)"
  shows "ids s' = ids s"
proof (cases ur)
  case True
  with update_cases(2) [OF assms] show ?thesis by (auto intro!: ids_updated [where f = "revised_experiment env rq u r"])
next
  case False
  with update_cases(2) [OF assms] show ?thesis by (auto intro!: ids_updated [where f = "updated_experiment env rq u t r"])
qed

lemma update_stored: "stored_ok (xdocs s) \<Longrightarrow> ends (\<lambda>s. stored_ok (xdocs s)) (ProcessExperimentUpdate x env rq u t r ur pid nt s)"
proof -
  assume ok: "stored_ok (xdocs s)"
  obtain res s' sg where c: "ProcessExperimentUpdate x env rq u t r ur pid nt s = (res, s', sg)" by (rule prod_cases3)
  have "stored_ok (xdocs s')"
  proof (cases ur)
    case True
    with update_cases(2) [OF c] show ?thesis
      by (intro stored_ok_update [OF ok, of _ _ "revised_experiment env rq u r"]) (auto simp: revised_experiment_ok)
  next
    case False
    with update_cases(2) [OF c] show ?thesis
      by (intro stored_ok_update [OF ok, of _ _ "updated_experiment env rq u t r"]) (auto simp: updated_experiment_ok)
  qed
  then show ?thesis by (simp add: c)
qed

lemma revision_names: "names_unique (xdocs s) \<Longrightarrow> ends (\<lambda>s. names_unique (xdocs s)) (ProcessExperimentUpdate x env rq u t r True pid nt s)"
proof -
  assume ok: "names_unique (xdocs s)"
  obtain res s' sg where c: "ProcessExperimentUpdate x env rq u t r True pid nt s = (res, s', sg)" by (rule prod_cases3)
  have "names_unique (xdocs s')"
    using update_cases(2) [OF c] ok
    by (auto simp: updated_one_def revised_experiment_def live_named_def intro!: names_unique_replace)
  then show ?thesis by (simp add: c)
qed

lemma update_names:
  assumes "names_unique (xdocs s)" "stored_ok (xdocs s)"
    and own: "own_name (xdocs s) pid rq"
  shows "ends (\<lambda>s. names_unique (xdocs s)) (ProcessExperimentUpdate x env rq u t r False pid nt s)"
proof -
  obtain res s' sg where c: "ProcessExperimentUpdate x env rq u t r False pid nt s = (res, s', sg)" by (rule prod_cases3)
  have "names_unique (replace_mset e (updated_experiment env rq u t r e) (xdocs s))"
    if e: "e \<in># xdocs s" "Some (ex_ExperimentID e) = rx_ExperimentID rq" "ex_ProjectID e = pid" for e
  proof (rule names_unique_replace [OF assms(1) e(1)])
    fix q n
    assume "live_named q n (updated_experiment env rq u t r e)"
    then have q: "q = pid" "n = rx_ExperimentName rq" using e(3) by (auto simp: live_named_def updated_experiment_def)
    have "d = e" if d: "d \<in># xdocs s" "live_named q n d" for d
    proof (rule unique_byD)
      show "unique_by ex_ExperimentID (xdocs s)" using assms(2) by (simp add: stored_ok_def)
      show "ex_ExperimentID d = ex_ExperimentID e" using own e(1,2) d q unfolding own_name_def by blast
    qed (use d e in auto)
    then show "live_named q n e \<or> (\<forall>d\<in>#xdocs s. \<not> live_named q n d)" by blast
  qed
  then show ?thesis using update_cases(2) [OF c] assms(1) by (auto simp: c updated_one_def)
qed

lemma delete_cases:
  assumes "ProcessExperimentDelete x env query wkf u s = (res, s', sg)"
  shows "xdocs s' = xdocs s \<or>
    updated_one query (\<lambda>e. e\<lparr>ex_IsRemoved := True, ex_UpdatedBy := u, ex_UpdatedAt := now_ms (g_auth (x_gql env)) 0\<rparr>) (xdocs s) (xdocs s')"
proof -
  let ?f = "\<lambda>e. e\<lparr>ex_IsRemoved := True, ex_UpdatedBy := u, ex_UpdatedAt := now_ms (g_auth (x_gql env)) 0\<rparr>"
  obtain err s1 where s1: "op_UpdateChaosExperiment x query ?f s = (err, s1)" by fastforce
  obtain err2 s2 where w: "delete_writes x env query (ex_ExperimentID wkf) u s = (err2, s2)" by fastforce
  have "xdocs s2 = xdocs s1"
    using w s1 runs_many_frame(1) by (auto simp: delete_writes_def UpdateExperimentRunsWithQuery_def Let_def split: option.splits prod.splits sum.splits)
  moreover have "s' = s \<or> s' = s2"
    using assms w gql.auth.commit_ok [of s s2 s'] gql.auth.commit_err [of s s2 _ s']
    by (auto simp: ProcessExperimentDelete_def split: option.splits prod.splits)
  ultimately show ?thesis using experiment_update(3) [OF s1] by auto
qed

lemma delete_ids: "ProcessExperimentDelete x env query wkf u s = (res, s', sg) \<Longrightarrow> ids s' = ids s"
  by (rule ids_updated [OF delete_cases]) simp_all

lemma details_ids: "details_step\<^sup>*\<^sup>* (xdocs s) (xdocs s') \<Longrightarrow> ids s' = ids s"
  unfolding ids_def
  by (induction rule: rtranclp_induct) (auto simp: details_step_def details_only_def image_replace_mset)

lemma delete_stored: "stored_ok (xdocs s) \<Longrightarrow> ends (\<lambda>s. stored_ok (xdocs s)) (ProcessExperimentDelete x env query wkf u s)"
proof -
  assume ok: "stored_ok (xdocs s)"
  obtain res s' sg where c: "ProcessExperimentDelete x env query wkf u s = (res, s', sg)" by (rule prod_cases3)
  have "stored_ok (xdocs s')"
    by (rule stored_ok_update [OF ok delete_cases [OF c]]) (simp_all add: experiment_ok_def recent_ok_def)
  then show ?thesis by (simp add: c)
qed

lemma delete_names: "names_unique (xdocs s) \<Longrightarrow> ends (\<lambda>s. names_unique (xdocs s)) (ProcessExperimentDelete x env query wkf u s)"
proof -
  assume ok: "names_unique (xdocs s)"
  obtain res s' sg where c: "ProcessExperimentDelete x env query wkf u s = (res, s', sg)" by (rule prod_cases3)
  have "names_unique (xdocs s')"
    using delete_cases [OF c] ok by (auto simp: updated_one_def live_named_def intro!: names_unique_replace)
  then show ?thesis by (simp add: c)
qed

end

end
