(* ===== verification/Gql_GitOps_Props.thy ===== *)
theory Gql_GitOps_Props
  imports Gql_GitOps Gql_Exp_Laws
begin

text \<open>
  The database with the configurations of GitOps, and what a synchronisation leaves of the stored experiments. The invariant has two
  strengths: with \<^verbatim>\<open>b\<close> no project has GitOps enabled and the names of the experiments of a project are unique.
\<close>

section \<open>The database and the repositories\<close>

definition git_conflict :: "git_config_db \<Rightarrow> git_config_db \<Rightarrow> bool" where
  "git_conflict a b \<longleftrightarrow> gd_ProjectID a = gd_ProjectID b"

text \<open>Files and repositories are not part of the database.\<close>

locale git_db =
  exp_db x xdocs rundocs pbdocs idocs edocs udocs pdocs rdocs adocs cdocs +
  configs: mongo_collection "git_configs w" gdocs git_conflict "\<lambda>s. (xdocs s, rundocs s, pbdocs s)" +
  xg: mongo_collection "experiments x" xdocs experiment_conflict gdocs +
  rg: mongo_collection "exp_runs x" rundocs no_conflict gdocs +
  pg: mongo_collection "probes x" pbdocs probe_conflict gdocs
  for x :: "'s exp_db" and xdocs rundocs pbdocs idocs edocs udocs pdocs rdocs adocs cdocs
    and w :: "'s git_world" and gdocs :: "'s \<Rightarrow> git_config_db multiset" +
  assumes write_frame: "(xdocs (snd (w_write w p t s)), gdocs (snd (w_write w p t s))) = (xdocs s, gdocs s)"
    and remove_all_frame: "(xdocs (snd (w_remove_all w p s)), gdocs (snd (w_remove_all w p s))) = (xdocs s, gdocs s)"
    and rename_frame: "(xdocs (snd (w_rename w p q s)), gdocs (snd (w_rename w p q s))) = (xdocs s, gdocs s)"
    and mkdir_frame: "(xdocs (snd (w_mkdir w p s)), gdocs (snd (w_mkdir w p s))) = (xdocs s, gdocs s)"
    and clone_frame: "(xdocs (snd (w_clone w p a u b s)), gdocs (snd (w_clone w p a u b s))) = (xdocs s, gdocs s)"
    and fetch_frame: "(xdocs (snd (w_fetch w p a r s)), gdocs (snd (w_fetch w p a r s))) = (xdocs s, gdocs s)"
    and reset_frame: "(xdocs (snd (w_reset w p h s)), gdocs (snd (w_reset w p h s))) = (xdocs s, gdocs s)"
    and push_frame: "(xdocs (snd (w_push w p a r s)), gdocs (snd (w_push w p a r s))) = (xdocs s, gdocs s)"
    and add_frame: "(xdocs (snd (w_add w p f s)), gdocs (snd (w_add w p f s))) = (xdocs s, gdocs s)"
    and remove_frame: "(xdocs (snd (w_remove w p f s)), gdocs (snd (w_remove w p f s))) = (xdocs s, gdocs s)"
    and commit_frame: "(xdocs (snd (w_commit w p m v s)), gdocs (snd (w_commit w p m v s))) = (xdocs s, gdocs s)"
begin

lemmas world_frames = write_frame remove_all_frame rename_frame mkdir_frame clone_frame fetch_frame reset_frame push_frame add_frame
  remove_frame commit_frame

text \<open>Outside the synchronised files nothing is written to the experiments.\<close>

lemma git_done_ends: "I (snd r) \<Longrightarrow> oends I (git_done r)"
  by (auto simp: git_done_def oends_def split: prod.splits option.splits git_error.splits)

definition stored_as :: "'s \<Rightarrow> 's \<Rightarrow> bool" where
  "stored_as s0 s \<longleftrightarrow> xdocs s = xdocs s0 \<and> gdocs s = gdocs s0"

lemma stored_as_refl [simp]: "stored_as s s"
  by (simp add: stored_as_def)

lemma world_stored:
  assumes "stored_as s0 s"
  shows "stored_as s0 (snd (w_write w p t s))" "stored_as s0 (snd (w_remove_all w p s))" "stored_as s0 (snd (w_rename w p q s))"
    "stored_as s0 (snd (w_mkdir w p s))" "stored_as s0 (snd (w_clone w p a u b s))" "stored_as s0 (snd (w_fetch w p a r s))"
    "stored_as s0 (snd (w_reset w p h s))" "stored_as s0 (snd (w_push w p a r s))" "stored_as s0 (snd (w_add w p f s))"
    "stored_as s0 (snd (w_remove w p f s))" "stored_as s0 (snd (w_commit w p m v s))"
  using assms world_frames by (simp_all add: stored_as_def)

lemmas git_steps = oends_obind git_done_ends world_stored

lemma ends_simps [simp]:
  "ends I (quiet r) = oends I r" "ends I (logged d r') = ends I r'" "ends I (map_err f r') = ends I r'" "oends I (apfst h r'') = I (snd r'')"
  by (auto simp: ends_def oends_def quiet_def logged_def map_err_def split: prod.splits sum.splits)

lemma GitClone_stored: "stored_as s0 s \<Longrightarrow> oends (stored_as s0) (GitClone w c s)"
  unfolding GitClone_def by (auto intro!: git_steps)

lemma GitPull_stored: "stored_as s0 s \<Longrightarrow> oends (stored_as s0) (GitPull w c s)"
  unfolding GitPull_def open_repository_def by (auto intro!: git_steps)

lemma GitPush_stored: "stored_as s0 s \<Longrightarrow> oends (stored_as s0) (GitPush w c s)"
  unfolding GitPush_def open_repository_def by (auto intro!: git_steps)

lemma GitCommit_stored: "stored_as s0 s \<Longrightarrow> oends (stored_as s0) (GitCommit w c u m d s)"
  unfolding GitCommit_def open_repository_def
  by (auto intro!: git_steps split: option.splits)

lemma setupGitRepo_stored: "stored_as s0 s \<Longrightarrow> oends (stored_as s0) (setupGitRepo w c u s)"
  unfolding setupGitRepo_def Let_def by (auto intro!: git_steps GitClone_stored GitCommit_stored GitPush_stored)

lemma fetch_repository_stored: "stored_as s0 s \<Longrightarrow> ends (stored_as s0) (fetch_repository w c config s)"
  unfolding fetch_repository_def by (auto simp: setupGitRepo_stored GitPull_stored split: sum.splits bool.splits)

lemma commit_and_push_stored: "stored_as s0 s \<Longrightarrow> ends (stored_as s0) (commit_and_push w c config m d t s)"
  unfolding commit_and_push_def by (auto simp: GitCommit_stored GitPush_stored intro!: ends_sbind split: sum.splits)

section \<open>The invariant\<close>

definition inv :: "bool \<Rightarrow> 's \<Rightarrow> bool" where
  "inv b s \<longleftrightarrow> stored_ok (xdocs s) \<and> (b \<longrightarrow> names_unique (xdocs s) \<and> '''' \<notin># ids s \<and> gdocs s = {#})"

lemma inv_stored: "stored_as s s' \<Longrightarrow> inv b s \<Longrightarrow> inv b s'"
  by (simp add: inv_def stored_as_def ids_def)

lemma ends_stored: "ends (stored_as s) r \<Longrightarrow> inv b s \<Longrightarrow> ends (inv b) r"
  by (auto simp: ends_def intro: inv_stored)

lemma oends_stored: "oends (stored_as s) r \<Longrightarrow> inv b s \<Longrightarrow> oends (inv b) r"
  by (auto simp: oends_def intro: inv_stored)

lemma world_inv: "inv b s \<Longrightarrow> inv b (snd (w_write w p t s))" "inv b s \<Longrightarrow> inv b (snd (w_remove_all w p s))" "inv b s \<Longrightarrow> inv b (snd (w_rename w p q s))"
  by (rule inv_stored [OF world_stored(1)], simp_all) (rule inv_stored [OF world_stored(2)], simp_all, rule inv_stored [OF world_stored(3)], simp_all)

lemma closed_inv: "probe_closed x (inv b)"
proof (rule probe_closedI)
  fix d s
  assume "inv b s"
  then show "inv b (snd (InsertOne (probes x) d s))"
    using probes_insert_frame(1) [of d s] pg.InsertOne_rest [of d s] by (cases "InsertOne (probes x) d s") (simp add: inv_def ids_def)
qed

lemma creation_inv:
  assumes "inv b s"
    and "b \<Longrightarrow> rx_ExperimentID rq \<noteq> Some ''''"
    and name: "b \<Longrightarrow> (\<forall>d\<in>#xdocs s. \<not> live_named pid (rx_ExperimentName rq) d) \<or> (\<exists>d\<in>#xdocs s. Some (ex_ExperimentID d) = rx_ExperimentID rq)"
  shows "ends (inv b) (ProcessExperimentCreation x env rq u pid t r nt s)"
proof -
  obtain res s' sg where c: "ProcessExperimentCreation x env rq u pid t r nt s = (res, s', sg)" by (rule prod_cases3)
  have g: "gdocs s' = gdocs s"
    using c xg.InsertOne_rest by (auto simp: ProcessExperimentCreation_def InsertChaosExperiment_def split: option.splits prod.splits)
      (metis snd_conv)+
  have st: "stored_ok (xdocs s')" using creation_stored [of s env rq u pid t r nt] assms(1) by (simp add: c inv_def)
  show ?thesis
  proof (cases "xdocs s' = xdocs s")
    case True
    then show ?thesis using assms(1) g by (simp add: c inv_def ids_def)
  next
    case False
    then obtain i where i: "rx_ExperimentID rq = Some i" "xdocs s' = add_mset (new_experiment env rq i u pid t r) (xdocs s)"
      "\<forall>d\<in>#xdocs s. ex_ExperimentID d \<noteq> i"
      using creation_cases(2) [OF c] by auto
    then have "b \<Longrightarrow> names_unique (xdocs s')"
      using creation_names [of s pid rq env u t r nt] name assms(1) by (auto simp: c inv_def)
    moreover have "b \<Longrightarrow> '''' \<notin># ids s'" using assms(1,2) i by (auto simp: inv_def ids_def)
    ultimately show ?thesis using assms(1) st g by (simp add: c inv_def)
  qed
qed

lemma update_gdocs: "op_UpdateChaosExperiment x P f s = (err, s') \<Longrightarrow> gdocs s' = gdocs s"
  using xg.UpdateOne_rest [of P "Some f" s] by (auto simp: op_UpdateChaosExperiment_def split: prod.splits sum.splits)

lemma process_update_gdocs: "gdocs (fst (snd (ProcessExperimentUpdate x env rq u t r ur pid nt s))) = gdocs s"
  by (auto simp: ProcessExperimentUpdate_def split: prod.splits option.splits sum.splits if_splits dest: update_gdocs)

lemma process_update_ids: "ids (fst (snd (ProcessExperimentUpdate x env rq u t r ur pid nt s))) = ids s"
  by (metis prod.collapse update_ids)

lemma revision_inv: "inv b s \<Longrightarrow> ends (inv b) (ProcessExperimentUpdate x env rq u t r True pid nt s)"
  using process_update_gdocs [of env rq u t r True pid nt s] update_stored [of s env rq u t r True pid nt]
    revision_names [of s env rq u t r pid nt] process_update_ids [of env rq u t r True pid nt s]
  by (simp add: inv_def ends_def)

lemma update_inv:
  assumes "inv b s" "b \<Longrightarrow> own_name (xdocs s) pid rq"
  shows "ends (inv b) (ProcessExperimentUpdate x env rq u t r False pid nt s)"
  using assms process_update_gdocs [of env rq u t r False pid nt s] update_stored [of s env rq u t r False pid nt]
    update_names [of s pid rq env u t r nt] process_update_ids [of env rq u t r False pid nt s]
  by (simp add: inv_def ends_def)

lemma delete_inv:
  assumes "inv b s"
  shows "ends (inv b) (ProcessExperimentDelete x env query wkf u s)"
proof -
  obtain err2 s2 where w: "delete_writes x env query (ex_ExperimentID wkf) u s = (err2, s2)" by fastforce
  have "gdocs s2 = gdocs s"
    using w rg.UpdateMany_rest update_gdocs
    by (auto simp: delete_writes_def UpdateExperimentRunsWithQuery_def Let_def split: option.splits prod.splits sum.splits) (metis snd_conv)+
  moreover obtain res s' sg where d: "ProcessExperimentDelete x env query wkf u s = (res, s', sg)" by (rule prod_cases3)
  moreover have "s' = s \<or> s' = s2"
    using d w gql.auth.commit_ok [of s s2 s'] gql.auth.commit_err [of s s2 _ s']
    by (auto simp: ProcessExperimentDelete_def split: option.splits prod.splits)
  ultimately show ?thesis
    using assms delete_stored [of s env query wkf u] delete_names [of s env query wkf u] delete_ids [OF d] by (auto simp: inv_def)
qed

section \<open>Synchronisation\<close>

lemma process_inv: "inv b s \<Longrightarrow> oends (inv b) (ProcessExperiment x env c rq pid revID k s)"
  by (rule ProcessExperiment_keeps [OF closed_inv])

lemma createExperiment_inv: "inv False s \<Longrightarrow> ends (inv False) (createExperiment x w env c data file config s)"
  unfolding createExperiment_def Let_def
  by (auto intro!: ends_sbind process_inv creation_inv world_inv split: prod.splits)

lemma updateExperiment_inv: "inv False s \<Longrightarrow> ends (inv False) (updateExperiment x env c data wfID file config s)"
  unfolding updateExperiment_def Let_def
  by (auto intro!: ends_sbind process_inv update_inv split: prod.splits sum.splits list.splits)

lemma deleteExperiment_inv: "inv b s \<Longrightarrow> ends (inv b) (deleteExperiment x env file config s)"
  unfolding deleteExperiment_def by (auto intro!: delete_inv split: sum.splits)

lemma sync_file_inv: "inv False s \<Longrightarrow> ends (inv False) (sync_file x w env c config f s)"
  unfolding sync_file_def Let_def
  by (auto intro!: ends_sbind createExperiment_inv updateExperiment_inv deleteExperiment_inv split: sum.splits bool.splits)

lemma sync_files_inv: "inv False s \<Longrightarrow> ends (inv False) (sync_files x w envs c config added fs s)"
  by (induction fs arbitrary: s envs added) (auto intro!: ends_sbind sync_file_inv)

lemma set_latest_inv: "inv False s \<Longrightarrow> ends (inv False) (set_latest w config commit s)"
proof -
  assume "inv False s"
  moreover have "xdocs (snd (UpdateGitConfig w P f s)) = xdocs s" for P f
    using configs.UpdateOne_rest [of P "Some f" s] by (auto simp: UpdateGitConfig_def split: prod.splits sum.splits)
  ultimately show ?thesis by (simp add: set_latest_def inv_def)
qed

lemma fetch_repository_inv: "inv b s \<Longrightarrow> ends (inv b) (fetch_repository w c config s)"
  by (rule ends_stored [OF fetch_repository_stored [OF stored_as_refl]])

lemma commit_and_push_inv: "inv b s \<Longrightarrow> ends (inv b) (commit_and_push w c config m d t s)"
  by (rule ends_stored [OF commit_and_push_stored [OF stored_as_refl]])

lemma SyncDBToGit_inv: "inv False s \<Longrightarrow> ends (inv False) (SyncDBToGit x w envs c config s)"
  unfolding SyncDBToGit_def
  by (auto intro!: ends_sbind sync_files_inv set_latest_inv fetch_repository_inv commit_and_push_inv split: prod.splits)

lemma disabled: "gdocs s = {#} \<Longrightarrow> GetGitConfig w pid s = Inr found \<Longrightarrow> found = None"
  using configs.FindOne_ok [of "\<lambda>d. gd_ProjectID d = pid" s] by (auto simp: GetGitConfig_def split: sum.splits mongo_error.splits)

text \<open>An operation that reads the configuration first: nothing is left to show when GitOps is disabled.\<close>

lemma git_config_inv:
  assumes "inv b s" "\<And>d. inv False s \<Longrightarrow> ends (inv False) (k (Some d) s)" "ends (inv b) (k None s)"
  shows "ends (inv b) (sbind (git_config_of w pid s) k)"
proof (rule ends_sbind)
  show "ends (inv b) (git_config_of w pid s)" using assms(1) by (simp add: git_config_of_def)
  fix found s' sg
  assume "git_config_of w pid s = (Inr (Inr found), s', sg)"
  then have s': "s' = s" and found: "GetGitConfig w pid s = Inr found"
    by (cases "GetGitConfig w pid s"; auto simp: git_config_of_def map_err_def quiet_def lift_go_def)+
  show "ends (inv b) (k found s')"
  proof (cases found)
    case None
    then show ?thesis using assms(3) s' by simp
  next
    case (Some d)
    then have "\<not> b" using found assms(1) disabled by (auto simp: inv_def)
    then show ?thesis using assms(1) assms(2) [of d] s' Some by simp
  qed
qed

lemma lock_repository_inv: "inv b s \<Longrightarrow> ends (inv b) (lock_repository url br s)"
  by (simp add: lock_repository_def)

lemma upsert_inv: "inv b s \<Longrightarrow> ends (inv b) (git_UpsertExperimentToGit x w envs c pid rq s)"
  unfolding git_UpsertExperimentToGit_def Let_def
  by (rule git_config_inv) (auto intro!: ends_sbind lock_repository_inv SyncDBToGit_inv world_inv commit_and_push_inv set_latest_inv)

lemma delete_from_git_inv: "inv b s \<Longrightarrow> ends (inv b) (git_DeleteExperimentFromGit x w envs c pid rq s)"
  unfolding git_DeleteExperimentFromGit_def Let_def
  by (rule git_config_inv) (auto intro!: ends_sbind lock_repository_inv SyncDBToGit_inv world_inv commit_and_push_inv set_latest_inv)

lemma gitSyncHelper_inv: "inv b s \<Longrightarrow> ends (inv b) (gitSyncHelper x w envs d s)"
  unfolding gitSyncHelper_def
proof (rule ends_sbind, rule lock_repository_inv, assumption)
  fix u s' sg
  assume "inv b s'"
  then show "ends (inv b) (case GetGitConfig w (gd_ProjectID d) s' of Inl e \<Rightarrow> (Inr (Inr ()), s', []) | Inr None \<Rightarrow> (Inr (Inr ()), s', [])
       | Inr (Some d) \<Rightarrow> logged () (SyncDBToGit x w envs backgroundContext (GetGitOpsConfig d) s'))"
    using disabled [of s'] SyncDBToGit_inv [of s'] by (cases b) (auto simp: inv_def split: sum.splits option.splits)
qed

lemma sync_all_inv: "inv b s \<Longrightarrow> ends (inv b) (sync_all x w envs ds s)"
  by (induction ds arbitrary: s envs) (auto intro!: ends_sbind gitSyncHelper_inv)

lemma GitOpsSyncHandler_inv: "inv b s \<Longrightarrow> ends (inv b) (GitOpsSyncHandler x w envs s)"
  unfolding GitOpsSyncHandler_def by (auto intro!: sync_all_inv split: sum.splits)

text \<open>With GitOps disabled the two operations do nothing.\<close>

lemma upsert_disabled:
  assumes "gdocs s = {#}"
  shows "fst (snd (git_UpsertExperimentToGit x w envs c pid rq s)) = s" "fst (snd (git_DeleteExperimentFromGit x w envs c pid rq s)) = s"
proof -
  show "fst (snd (git_UpsertExperimentToGit x w envs c pid rq s)) = s"
    using disabled [OF assms, of pid]
    by (cases "GetGitConfig w pid s") (simp_all add: git_UpsertExperimentToGit_def git_config_of_def map_err_def quiet_def lift_go_def sbind_def)
  show "fst (snd (git_DeleteExperimentFromGit x w envs c pid rq s)) = s"
    using disabled [OF assms, of pid]
    by (cases "GetGitConfig w pid s") (simp_all add: git_DeleteExperimentFromGit_def git_config_of_def map_err_def quiet_def lift_go_def sbind_def)
qed

end

section \<open>An executable deployment\<close>

text \<open>One working copy; its log and its head are part of the state, and a commit becomes the head.\<close>

record git_state = exp_state +
  st_gconfigs :: "git_config_db list"
  st_files :: "(string \<times> string) list"
  st_head :: string
  st_log :: "git_commit list"

definition mem_git :: "git_state git_world" where
  "mem_git =
     \<lparr>git_configs = mem_collection st_gconfigs (\<lambda>v s. s\<lparr>st_gconfigs := v\<rparr>) git_conflict,
      w_stat = (\<lambda>p s. if (\<exists>f\<in>set (st_files s). prefix p (fst f)) then None else Some NotExist),
      w_read = (\<lambda>p s. case map_of (st_files s) p of None \<Rightarrow> Inl ''no such file'' | Some t \<Rightarrow> Inr t),
      w_write = (\<lambda>p t s. (None, s\<lparr>st_files := AList.update p t (st_files s)\<rparr>)),
      w_remove_all = (\<lambda>p s. (None, s\<lparr>st_files := filter (\<lambda>f. \<not> prefix p (fst f)) (st_files s)\<rparr>)),
      w_rename = (\<lambda>p q s. (None, s\<lparr>st_files := map (\<lambda>(f, t). (if prefix p f then q @ drop (length p) f else f, t)) (st_files s)\<rparr>)),
      w_mkdir = (\<lambda>p s. (None, s)), w_clone = (\<lambda>p a u b s. (None, s)), w_open = (\<lambda>p s. None), w_fetch = (\<lambda>p a r s. (Some AlreadyUpToDate, s)),
      w_remote = (\<lambda>p r b s. Inr (st_head s)), w_reset = (\<lambda>p h s. (None, s)), w_push = (\<lambda>p a r s. (None, s)), w_add = (\<lambda>p f s. (None, s)),
      w_remove = (\<lambda>p f s. (None, s)),
      w_commit = (\<lambda>p m u s. (Inr (''c'' @ m), s\<lparr>st_head := ''c'' @ m\<rparr>)),
      w_head = (\<lambda>p s. Inr (st_head s)), w_log = (\<lambda>p s. Inr (map Inr (st_log s))), w_latest = (\<lambda>p P s. Inr (Inr (st_head s))),
      w_order = (\<lambda>fs. fs), w_yaml_json = Inr, w_json_yaml = Inr, w_info = (\<lambda>d. Inr None), w_info_json = (\<lambda>l. Inr ''info''),
      w_ssh = (\<lambda>k. Inr ()), w_git_username = ''litmus''\<rparr>"

interpretation mem_git: git_db mem_exp "\<lambda>s. mset (st_experiments s)" "\<lambda>s. mset (st_runs s)" "\<lambda>s. mset (st_probes s)"
  "\<lambda>s. mset (st_infras s)" "\<lambda>s. mset (st_environments s)" "\<lambda>s. mset (st_users s)" "\<lambda>s. mset (st_projects s)"
  "\<lambda>s. mset (st_revoked s)" "\<lambda>s. mset (st_tokens s)" "\<lambda>s. mset (st_configs s)" mem_git "\<lambda>s. mset (st_gconfigs s)"
  by (intro git_db.intro mem_exp_db git_db_axioms.intro) (auto simp: mem_exp_def mem_git_def intro!: mem_collection_ok)

lemmas mem_git_db = mem_git.git_db_axioms

end
