(* ===== verification/Gql_Experiments_Props.thy ===== *)
theory Gql_Experiments_Props
  imports Gql_GitOps_Props
begin

text \<open>
  Correctness of the experiment handlers: what requests of any kind, events and synchronisations leave of the stored experiments, what a
  run of an experiment stores and sends, and which weights a processed manifest has.
\<close>

section \<open>The transaction of a run\<close>

context exp_db
begin

lemma created_run:
  assumes "CreateExperimentRun x d s = (err, s')"
  shows "xdocs s' = xdocs s" "rundocs s' = rundocs s \<and> err \<noteq> None \<or> rundocs s' = add_mset d (rundocs s)"
proof -
  obtain q where q: "InsertOne (exp_runs x) d s = (q, s')" "q = None \<longleftrightarrow> err = None"
    using assms by (auto simp: CreateExperimentRun_def split: prod.splits option.splits)
  show "xdocs s' = xdocs s" using runs_insert_frame(1) [OF q(1)] .
  show "rundocs s' = rundocs s \<and> err \<noteq> None \<or> rundocs s' = add_mset d (rundocs s)"
    using runs.InsertOne_cases [OF q(1)] runs.InsertOne_ok [of d s s'] q by auto
qed

lemma run_transaction_cases:
  assumes "run_transaction x wkf d r now s = (res, s', sg)"
  obtains "s' = s" "res \<noteq> Inr (Inr ())" "sg = []" | "run_writes x wkf d r now s = (None, s')" "sg = []"
proof -
  obtain err s1 where w: "run_writes x wkf d r now s = (err, s1)" by fastforce
  obtain e2 s2 where c: "CommitTransaction (auth_handle (gql_handle x)) s s1 = (e2, s2)" by fastforce
  have "s' = s \<and> res \<noteq> Inr (Inr ()) \<and> sg = [] \<or> s' = s1 \<and> err = None \<and> sg = []"
    using assms w c gql.auth.commit_ok [of s s1 s2] gql.auth.commit_err [of s s1 _ s2]
    by (auto simp: run_transaction_def split: option.splits prod.splits)
  then show thesis using w that by blast
qed

lemma run_writes_runs:
  assumes "run_writes x wkf d r now s = (None, s')"
  shows "rundocs s' = add_mset r (rundocs s)" "details_step\<^sup>*\<^sup>* (xdocs s) (xdocs s')"
proof -
  obtain err s1 where u: "op_UpdateChaosExperiment x (\<lambda>e. ex_ExperimentID e = ex_ExperimentID wkf) (push_detail now wkf d) s = (err, s1)" by fastforce
  then have c: "CreateExperimentRun x r s1 = (None, s')" using assms by (simp add: run_writes_def)
  show "rundocs s' = add_mset r (rundocs s)" using created_run(2) [OF c] experiment_update(1) [OF u] by simp
  show "details_step\<^sup>*\<^sup>* (xdocs s) (xdocs s')" using details_update [OF u] created_run(1) [OF c] by simp
qed

lemma ends_with_name [simp]: "ends I (with_name x env c s) \<longleftrightarrow> I s"
  by (simp add: with_name_def)

lemma with_name_state: "with_name x env c s = (v, s', sg) \<longleftrightarrow> v = GetUsername (gql_handle x) (x_gql env) (gc_token c) s \<and> s' = s \<and> sg = []"
  by (auto simp: with_name_def)

lemma cron_run_same: "I s \<Longrightarrow> ends I (RunCronExperiment x env c pid wkf s)"
  unfolding RunCronExperiment_def by (auto intro!: ends_sbind split: prod.splits)

end

section \<open>Handlers keep the invariant\<close>

lemma add_weights_present: "None \<notin> set ws \<Longrightarrow> \<exists>acc'. add_weights ws acc = Inr acc'"
  by (induction ws acc rule: add_weights.induct) auto

context git_db
begin

text \<open>Identifiers are new: not empty and not in use.\<close>

definition fresh :: "exp_env \<Rightarrow> 's \<Rightarrow> bool" where
  "fresh env s \<longleftrightarrow> (\<forall>i. new_uuid (g_auth (x_gql env)) i \<noteq> '''' \<and> new_uuid (g_auth (x_gql env)) i \<notin># ids s)"

lemma validate_ok:
  assumes "validateDuplicateExperimentName x pid n s = Inr u"
  shows "\<forall>d\<in>#xdocs s. \<not> live_named pid n d"
proof -
  let ?q = "\<lambda>e. ex_ProjectID e = pid \<and> ex_Name e = n \<and> \<not> ex_IsRemoved e"
  obtain m where m: "CountDocuments (experiments x) ?q s = Inr m" "m = 0"
    using assms by (cases "CountDocuments (experiments x) ?q s") (auto simp: validateDuplicateExperimentName_def CountChaosExperiments_def split: if_splits)
  then have "filter_mset ?q (xdocs s) = {#}" using experiments.CountDocuments_ok [OF m(1)] by simp
  then have "d \<notin># filter_mset ?q (xdocs s)" for d by simp
  then show ?thesis by (auto simp: live_named_def)
qed

lemma upsert_same:
  assumes "inv True s" "UpsertExperimentToGit (git_service_of x w envs) c pid rq s = (v, s', sg)"
  shows "s' = s"
  using assms upsert_disabled(1) [of s envs c pid rq] by (simp add: inv_def git_service_of_def)

lemma update_tail:
  assumes "inv b s" "b \<Longrightarrow> own_name (xdocs s) pid rq"
  shows "ends (inv b) (sbind (UpsertExperimentToGit (git_service_of x w envs) c pid rq s) (\<lambda>_ s.
    sbind (ProcessExperimentUpdate x env rq u t r False pid nt s) (\<lambda>_ s. (Inr (Inr v), s, []))))"
proof (intro ends_sbind)
  show "ends (inv b) (UpsertExperimentToGit (git_service_of x w envs) c pid rq s)"
    using upsert_inv [OF assms(1)] by (simp add: git_service_of_def)
  fix v' s' sg
  assume up: "UpsertExperimentToGit (git_service_of x w envs) c pid rq s = (Inr (Inr v'), s', sg)" "inv b s'"
  have "b \<Longrightarrow> s' = s" using upsert_same [OF _ up(1)] assms(1) by simp
  then show "ends (inv b) (ProcessExperimentUpdate x env rq u t r False pid nt s')"
    using update_inv [OF up(2)] assms(2) by simp
qed simp

text \<open>A request that cannot give a second experiment of the same name: the name is free, or the identifier is taken.\<close>

definition creatable :: "'s \<Rightarrow> string \<Rightarrow> experiment_request \<Rightarrow> bool" where
  "creatable s pid rq \<longleftrightarrow> rx_ExperimentID rq \<noteq> Some '''' \<and>
     ((\<forall>d\<in>#xdocs s. \<not> live_named pid (rx_ExperimentName rq) d) \<or> (\<exists>d\<in>#xdocs s. Some (ex_ExperimentID d) = rx_ExperimentID rq))"

lemma creation_tail:
  assumes "inv b s" "b \<Longrightarrow> creatable s pid rq"
  shows "ends (inv b) (sbind (UpsertExperimentToGit (git_service_of x w envs) c pid rq s) (\<lambda>_ s.
    sbind (ProcessExperimentCreation x env rq u pid t r nt s) (\<lambda>_ s. (Inr (Inr v), s, []))))"
proof (intro ends_sbind)
  show "ends (inv b) (UpsertExperimentToGit (git_service_of x w envs) c pid rq s)"
    using upsert_inv [OF assms(1)] by (simp add: git_service_of_def)
  fix v' s' sg
  assume up: "UpsertExperimentToGit (git_service_of x w envs) c pid rq s = (Inr (Inr v'), s', sg)" "inv b s'"
  have "b \<Longrightarrow> s' = s" using upsert_same [OF _ up(1)] assms(1) by simp
  then show "ends (inv b) (ProcessExperimentCreation x env rq u pid t r nt s')"
    using creation_inv [OF up(2)] assms(2) by (simp add: creatable_def)
qed simp

text \<open>The request that is processed, and the identifier it gets.\<close>

lemma processed:
  assumes "ProcessExperiment x env c rq pid revID k s = (Inr (Inr (rq', t, k')), s')"
  shows "xdocs s' = xdocs s" "ids s' = ids s" "rx_ExperimentName rq' = rx_ExperimentName rq"
    "rx_ExperimentID rq = Some i \<Longrightarrow> i \<noteq> '''' \<Longrightarrow> rx_ExperimentID rq' = Some i"
    "rx_ExperimentID rq = None \<or> rx_ExperimentID rq = Some '''' \<Longrightarrow> rx_ExperimentID rq' = Some (new_uuid (g_auth (x_gql env)) k)"
  using ProcessExperiment_request [OF assms] ProcessExperiment_same [OF assms] by (auto simp: ids_def)

lemma own_name_free: "\<forall>d\<in>#xdocs s. \<not> live_named pid (rx_ExperimentName rq) d \<Longrightarrow> own_name (xdocs s) pid rq"
  by (auto simp: own_name_def)

lemma own_name_unknown: "rx_ExperimentID rq = Some i \<Longrightarrow> i \<notin># ids s \<Longrightarrow> own_name (xdocs s) pid rq"
  by (auto simp: own_name_def ids_def)

lemma own_name_found:
  assumes "inv True s" "e \<in># xdocs s" "live_named pid (rx_ExperimentName rq) e" "rx_ExperimentID rq = Some (ex_ExperimentID e)"
  shows "own_name (xdocs s) pid rq"
  unfolding own_name_def
proof (intro ballI impI)
  fix a d
  assume "Some (ex_ExperimentID a) = rx_ExperimentID rq" "d \<in># xdocs s" "live_named pid (rx_ExperimentName rq) d"
  moreover from this have "d = e" using assms names_uniqueD [of "xdocs s" d e pid "rx_ExperimentName rq"] by (simp add: inv_def)
  ultimately show "ex_ExperimentID d = ex_ExperimentID a" using assms(4) by simp
qed

lemma found_id: "inv True s \<Longrightarrow> op_GetExperiment x P s = Inr e \<Longrightarrow> e \<in># xdocs s \<and> P e \<and> ex_ExperimentID e \<noteq> ''''"
  using experiments.FindOne_ok [of P s e] by (auto simp: op_GetExperiment_def inv_def ids_def) (metis image_eqI)

text \<open>What the experiment found says about the request of a save.\<close>

definition found_for :: "'s \<Rightarrow> string \<Rightarrow> save_experiment_request \<Rightarrow> string \<Rightarrow> string \<Rightarrow> bool" where
  "found_for s pid rq detID detName \<longleftrightarrow>
     (detID = sv_ID rq \<longrightarrow> detID = '''' \<or> (\<exists>e\<in>#xdocs s. live_named pid detName e \<and> ex_ExperimentID e = detID))"

lemma save_own_name:
  assumes I: "inv True s" and "fresh env s" "found_for s pid rq detID detName" "detID = sv_ID rq"
    and pr: "ProcessExperiment x env c (save_request rq) pid r 1 s = (Inr (Inr (rq', t, k)), s1)"
    and val: "detName \<noteq> sv_Name rq \<Longrightarrow> validateDuplicateExperimentName x pid (sv_Name rq) s1 = Inr ()"
  shows "own_name (xdocs s1) pid rq'"
proof -
  note p = processed [OF pr]
  have name: "rx_ExperimentName rq' = sv_Name rq" using p(3) by (simp add: save_request_def)
  consider "detName \<noteq> sv_Name rq" | "sv_ID rq = ''''" | "detName = sv_Name rq" "sv_ID rq \<noteq> ''''" by blast
  then show ?thesis
  proof cases
    case 1
    then show ?thesis using validate_ok [OF val] name by (intro own_name_free) simp
  next
    case 2
    then have "rx_ExperimentID rq' = Some (new_uuid (g_auth (x_gql env)) 1)" using p(5) by (simp add: save_request_def)
    then show ?thesis using assms(2) p(2) by (intro own_name_unknown) (auto simp: fresh_def)
  next
    case 3
    then obtain e where "e \<in># xdocs s" "live_named pid detName e" "ex_ExperimentID e = sv_ID rq" using assms(3,4) by (auto simp: found_for_def)
    moreover have "rx_ExperimentID rq' = Some (sv_ID rq)" using p(4) 3 by (simp add: save_request_def)
    ultimately show ?thesis using I 3 name own_name_found [of s e pid rq'] p(1) by simp
  qed
qed

lemma save_processed_inv:
  assumes I: "inv b s" and fr: "b \<Longrightarrow> fresh env s \<and> found_for s pid rq detID detName"
    and pr: "ProcessExperiment x env c (save_request rq) pid r 1 s = (Inr (Inr (rq', t, k)), s1)" and I1: "inv b s1"
  shows "ends (inv b) (save_processed x env (git_service_of x w envs) c rq pid u r detID detName (rq', t, k) s1)"
proof (cases "detID = sv_ID rq")
  case True
  have "own_name (xdocs s1) pid rq'" if b "detName \<noteq> sv_Name rq \<Longrightarrow> validateDuplicateExperimentName x pid (sv_Name rq) s1 = Inr ()"
    using fr I \<open>b\<close> by (intro save_own_name [OF _ _ _ True pr that(2)]) auto
  then show ?thesis
    unfolding save_processed_def split_conv if_P [OF True]
    by (intro ends_sbind [OF _ update_tail]) (use I1 in \<open>auto split: if_splits\<close>)
next
  case False
  have "rx_ExperimentName rq' = sv_Name rq" using processed(3) [OF pr] by (simp add: save_request_def)
  moreover have "rx_ExperimentID rq' \<noteq> Some ''''" if b
    using fr [OF that] processed(4,5) [OF pr] by (cases "sv_ID rq = ''''") (auto simp: fresh_def save_request_def)
  ultimately show ?thesis
    unfolding save_processed_def split_conv if_not_P [OF False]
    by (intro ends_sbind [OF _ creation_tail]) (use I1 validate_ok in \<open>auto simp: creatable_def\<close>)
qed

lemma save_inv:
  assumes I: "inv b s" and fr: "b \<Longrightarrow> fresh env s"
  shows "ends (inv b) (SaveChaosExperiment x env (git_service_of x w envs) c rq pid u s)"
proof -
  let ?q = "\<lambda>e. ex_ExperimentID e = sv_ID rq \<and> ex_ProjectID e = pid \<and> \<not> ex_IsRemoved e"
  have main: "ends (inv b) (sbind (quiet (ProcessExperiment x env c (save_request rq) pid r 1 s))
      (save_processed x env (git_service_of x w envs) c rq pid u r detID detName))" if "b \<Longrightarrow> found_for s pid rq detID detName" for r detID detName
    by (rule ends_sbind) (use that fr save_processed_inv [OF I] process_inv [OF I] in auto)
  show ?thesis
  proof (cases "op_GetExperiment x ?q s")
    case (Inr e)
    then have "e \<in># xdocs s \<and> ?q e" using experiments.FindOne_ok [of ?q s e] by (simp add: op_GetExperiment_def)
    then have "found_for s pid rq (ex_ExperimentID e) (ex_Name e)" by (auto simp: found_for_def live_named_def)
    then show ?thesis using main Inr by (simp add: SaveChaosExperiment_def Let_def)
  next
    case (Inl err)
    have "found_for s pid rq '''' ''''" by (simp add: found_for_def)
    then show ?thesis using I main Inl by (cases err) (simp_all add: SaveChaosExperiment_def Let_def)
  qed
qed

lemma creation_check_ok:
  assumes "creation_check x env rq pid s = Inr rq1" "inv True s" "fresh env s"
  shows "rx_ExperimentName rq1 = rx_ExperimentName rq"
    "(\<exists>i. rx_ExperimentID rq1 = Some i \<and> i \<noteq> '''' \<and>
       ((\<forall>d\<in>#xdocs s. \<not> live_named pid (rx_ExperimentName rq) d) \<or> (\<exists>d\<in>#xdocs s. ex_ExperimentID d = i)))"
proof -
  show "rx_ExperimentName rq1 = rx_ExperimentName rq"
    using assms(1) by (auto simp: creation_check_def split: option.splits sum.splits if_splits)
  show "(\<exists>i. rx_ExperimentID rq1 = Some i \<and> i \<noteq> '''' \<and>
       ((\<forall>d\<in>#xdocs s. \<not> live_named pid (rx_ExperimentName rq) d) \<or> (\<exists>d\<in>#xdocs s. ex_ExperimentID d = i)))"
  proof (cases "rx_ExperimentID rq")
    case None
    then have "rx_ExperimentID rq1 = Some (new_uuid (g_auth (x_gql env)) 1)" "validateDuplicateExperimentName x pid (rx_ExperimentName rq) s = Inr ()"
      using assms(1) by (auto simp: creation_check_def)
    then show ?thesis using validate_ok assms(3) by (auto simp: fresh_def)
  next
    case (Some i)
    let ?q = "\<lambda>e. ex_ExperimentID e = i \<and> ex_ProjectID e = pid \<and> \<not> ex_IsRemoved e"
    obtain e where e: "op_GetExperiment x ?q s = Inr e" and "rq1 = rq"
      using assms(1) Some by (auto simp: creation_check_def split: sum.splits if_splits)
    with found_id [OF assms(2) e] Some show ?thesis by auto
  qed
qed

lemma create_inv:
  assumes I: "inv b s" and fr: "b \<Longrightarrow> fresh env s"
  shows "ends (inv b) (CreateChaosExperiment x env (git_service_of x w envs) c rq pid u s)"
  unfolding CreateChaosExperiment_def Let_def
proof (rule ends_sbind)
  show "ends (inv b) (quiet (lift_go (Inr (creation_check x env rq pid s)) s))" using I by simp
  fix rq1 s1 sg
  assume "quiet (lift_go (Inr (creation_check x env rq pid s)) s) = (Inr (Inr rq1), s1, sg)"
  then have c: "creation_check x env rq pid s = Inr rq1" and s1: "s1 = s" by auto
  have "creatable s2 pid rq2"
    if "ProcessExperiment x env c rq1 pid r 2 s = (Inr (Inr (rq2, t, k)), s2)" b for rq2 r t k s2
    using creation_check_ok [OF c] I fr processed(1,3,4) [OF that(1)] \<open>b\<close> by (auto simp: creatable_def)
  then show "ends (inv b) (sbind (quiet (ProcessExperiment x env c rq1 pid (new_uuid (g_auth (x_gql env)) 0) 2 s1))
      (\<lambda>(newRequest, wfType, k) s. sbind (UpsertExperimentToGit (git_service_of x w envs) c pid newRequest s)
         (\<lambda>_ s. sbind (ProcessExperimentCreation x (later k env) newRequest u pid wfType (new_uuid (g_auth (x_gql env)) 0) False s)
           (\<lambda>_ s. (Inr (Inr (response_of newRequest)), s, [])))))"
    unfolding s1 by (intro ends_sbind) (use process_inv [OF I] in \<open>auto intro!: creation_tail\<close>)
qed

lemma other_experiment_none:
  "other_experiment i es = Inr False \<Longrightarrow> e \<in> set es \<Longrightarrow> i = Some (ex_ExperimentID e)"
  by (induction es) (auto split: option.splits if_splits)

lemma update_handler_inv:
  assumes I: "inv b s" and fr: "b \<Longrightarrow> fresh env s"
  shows "ends (inv b) (UpdateChaosExperiment x env (git_service_of x w envs) c rq pid u s)"
proof -
  let ?q = "\<lambda>e. ex_ProjectID e = pid \<and> ex_Name e = rx_ExperimentName rq \<and> \<not> ex_IsRemoved e"
  have own: "own_name (xdocs s1) pid rq1"
    if b: b and es: "op_GetExperiments x ?q s = Inr es" "other_experiment (rx_ExperimentID rq) es = Inr False"
      and pr: "ProcessExperiment x env c rq pid r 1 s = (Inr (Inr (rq1, t, k)), s1)" for es r rq1 t k s1
  proof (cases "rx_ExperimentID rq = None \<or> rx_ExperimentID rq = Some ''''")
    case True
    then show ?thesis using processed(2,5) [OF pr] fr [OF b] by (intro own_name_unknown) (auto simp: fresh_def)
  next
    case False
    then obtain i where i: "rx_ExperimentID rq = Some i" "rx_ExperimentID rq1 = Some i" using processed(4) [OF pr] by auto
    have "mset es = filter_mset ?q (xdocs s)"
      using es(1) experiments.Find_ok [of ?q s es] by (auto simp: op_GetExperiments_def)
    then have "d \<in> set es" if "d \<in># xdocs s" "live_named pid (rx_ExperimentName rq) d" for d
      using that by (metis (mono_tags, lifting) live_named_def mem_Collect_eq set_mset_filter set_mset_mset)
    then have "ex_ExperimentID d = i" if "d \<in># xdocs s" "live_named pid (rx_ExperimentName rq) d" for d
      using other_experiment_none [OF es(2)] that i(1) by fastforce
    then show ?thesis using i(2) processed(1,3) [OF pr] by (auto simp: own_name_def)
  qed
  show ?thesis
    unfolding UpdateChaosExperiment_def Let_def
    by (auto split: sum.splits bool.splits intro!: ends_sbind I update_tail simp: process_inv [OF I] own)
qed

lemma disable_inv: "inv b s \<Longrightarrow> ends (inv b) (DisableCronExperiment x env u e pid s)"
  unfolding DisableCronExperiment_def by (auto simp: Let_def intro!: revision_inv split: sum.splits)

lemma run_query_inv:
  assumes "inv b s" "UpdateExperimentRunWithQuery x P f s = (err, s')"
  shows "inv b s'"
proof -
  obtain r where r: "UpdateOne (exp_runs x) P (Some f) s = (r, s')"
    using assms(2) by (auto simp: UpdateExperimentRunWithQuery_def split: prod.splits sum.splits)
  then show ?thesis using assms(1) runs_frame(1) [OF r] rg.UpdateOne_rest [of P "Some f" s] by (simp add: inv_def ids_def)
qed

lemma run_delete_inv: "inv b s \<Longrightarrow> ProcessExperimentRunDelete x env P r d e u s = (err, s', sg) \<Longrightarrow> inv b s'"
  using run_query_inv by (auto simp: ProcessExperimentRunDelete_def split: prod.splits option.splits)

lemma delete_handler_inv: "inv b s \<Longrightarrow> ends (inv b) (DeleteChaosExperiment x env (git_service_of x w envs) c pid i r u s)"
  unfolding DeleteChaosExperiment_def Let_def
  by (auto simp: git_service_of_def split: sum.splits option.splits prod.splits intro!: ends_sbind disable_inv delete_from_git_inv delete_inv
    dest: run_delete_inv)

lemma cron_state_inv: "inv b s \<Longrightarrow> ends (inv b) (UpdateCronExperimentState x env i d pid u s)"
  unfolding UpdateCronExperimentState_def Let_def
  by (auto split: sum.splits prod.splits intro!: ends_sbind revision_inv)

section \<open>Runs\<close>

lemma details_inv:
  assumes "inv b s" "details_step\<^sup>*\<^sup>* (xdocs s) (xdocs s')" "gdocs s' = gdocs s"
  shows "inv b s'"
  using assms details_step_ok [OF assms(2)] details_ids [OF assms(2)] by (simp add: inv_def)

lemma details_update_inv:
  assumes "inv b s" "\<And>e. details_only e (f e)"
  shows "inv b (snd (op_UpdateChaosExperiment x P f s))"
proof -
  obtain err s' where u: "op_UpdateChaosExperiment x P f s = (err, s')" by fastforce
  have "inv b s'" by (rule details_inv [OF assms(1) details_update [OF u assms(2)] update_gdocs [OF u]])
  then show ?thesis by (simp add: u)
qed

lemma touched [simp]: "details_only e (e\<lparr>ex_UpdatedAt := n\<rparr>)"
  by (simp add: details_only_def recent_ok_def)

lemma run_writes_inv:
  assumes "run_writes x wkf d r now s = (None, s')" "inv b s"
  shows "inv b s'"
proof (rule details_inv [OF assms(2) run_writes_runs(2) [OF assms(1)]])
  obtain err s1 where u: "op_UpdateChaosExperiment x (\<lambda>e. ex_ExperimentID e = ex_ExperimentID wkf) (push_detail now wkf d) s = (err, s1)" by fastforce
  then have "CreateExperimentRun x r s1 = (None, s')" using assms(1) by (simp add: run_writes_def)
  then obtain q where "InsertOne (exp_runs x) r s1 = (q, s')" by (auto simp: CreateExperimentRun_def split: prod.splits option.splits)
  then show "gdocs s' = gdocs s" using rg.InsertOne_rest [of r s1] update_gdocs [OF u] by simp
qed

lemma transaction_inv: "inv b s \<Longrightarrow> ends (inv b) (run_transaction x wkf d r now s)"
proof -
  assume I: "inv b s"
  obtain res s' sg where t: "run_transaction x wkf d r now s = (res, s', sg)" by (rule prod_cases3)
  then show ?thesis by (rule run_transaction_cases) (use I run_writes_inv in \<open>auto simp: t\<close>)
qed

lemma run_inv: "inv b s \<Longrightarrow> ends (inv b) (RunChaosWorkFlow x env c pid wkf s)"
  unfolding RunChaosWorkFlow_def Let_def
  by (auto intro!: ends_sbind cron_run_same details_update_inv transaction_inv split: sum.splits prod.splits)

lemma event_inv:
  assumes "inv b s" "ChaosExperimentRunEvent x env event s = (res, s')"
  shows "inv b s'"
proof (rule details_inv [OF assms(1) event_details [OF assms(2)]])
  have ins: "InsertOne (exp_runs x) d s1 = (r, s2) \<Longrightarrow> gdocs s2 = gdocs s1" for d s1 r s2
    using rg.InsertOne_rest [of d s1] by simp
  have one: "UpdateOne (exp_runs x) P f s1 = (r, s2) \<Longrightarrow> gdocs s2 = gdocs s1" for P f s1 r s2
    using rg.UpdateOne_rest [of P f s1] by simp
  have upd: "op_UpdateExperimentRun x env d s1 = (r, s2) \<Longrightarrow> gdocs s2 = gdocs s1" for d s1 r s2
    by (auto simp: op_UpdateExperimentRun_def Let_def split: sum.splits prod.splits option.splits if_splits dest: ins one)
  have "event_writes x env event e prbs xd exec r u n s = (None, s') \<Longrightarrow> gdocs s' = gdocs s" for e prbs xd exec r u n
    by (auto simp: event_writes_def split: if_splits prod.splits option.splits sum.splits dest!: update_gdocs upd)
  then show "gdocs s' = gdocs s" using event_cases [OF assms(2)] by blast
qed

lemma stop_process_gdocs:
  "ProcessExperimentRunStop x env P r n e u p s = (res, s', sg) \<Longrightarrow> gdocs s' = gdocs s"
proof -
  assume a: "ProcessExperimentRunStop x env P r n e u p s = (res, s', sg)"
  obtain err s1 where s1: "UpdateExperimentRunWithQuery x P (stopped_run env u) s = (err, s1)" by fastforce
  then have "gdocs s1 = gdocs s" using rg.UpdateOne_rest [of P "Some (stopped_run env u)" s]
    by (auto simp: UpdateExperimentRunWithQuery_def split: prod.splits sum.splits)
  then show ?thesis using a unfolding ProcessExperimentRunStop_def s1
    by (auto simp: Let_def split: option.splits if_splits prod.splits dest!: update_gdocs)
qed

lemma stop_inv: "inv b s \<Longrightarrow> StopExperimentRuns x env p eid rid nid u s = (res, s', sg) \<Longrightarrow> inv b s'"
proof (rule details_inv, assumption, erule stop_details)
  have runs: "stop_runs x env e p eid u rs s = (r, s', sg') \<Longrightarrow> gdocs s' = gdocs s" for e rs s r s' sg'
    by (induction rs arbitrary: s r s' sg') (auto split: if_splits prod.splits option.splits dest!: stop_process_gdocs)
  assume "StopExperimentRuns x env p eid rid nid u s = (res, s', sg)"
  then have "s' = s \<or> (\<exists>e rs r sg'. stop_runs x env e p eid u rs s = (r, s', sg'))"
    unfolding StopExperimentRuns_def
    by (auto simp del: stop_runs.simps simp: Let_def split: sum.splits prod.splits option.splits if_splits)
  then show "gdocs s' = gdocs s" using runs by blast
qed

text \<open>Where every experiment is well-formed, an event or a notification does not run into an experiment without revisions or weights.\<close>

lemma score_safe:
  assumes "stored_ok (xdocs s)"
  shows "ProcessCompletedExperimentRun x env exec i s \<noteq> Inl p"
proof (cases "op_GetExperiment x (\<lambda>e. ex_ExperimentID e = i) s")
  case (Inr e)
  then have "e \<in># xdocs s" using experiments.FindOne_ok [of "\<lambda>e. ex_ExperimentID e = i" s e] by (simp add: op_GetExperiment_def)
  then have "experiment_ok e" using assms by (simp add: stored_ok_def)
  then have "None \<notin> set (revision_weights r (ex_Revision e))" for r by (auto simp: experiment_ok_def revision_weights_def)
  then obtain acc where "add_revisions (x_RevisionID exec) (ex_Revision e) ([], 0) = Inr acc"
    using add_weights_present add_revisions_weights by metis
  then show ?thesis using Inr by (simp add: ProcessCompletedExperimentRun_def compute_metrics_def split: prod.splits)
qed (simp add: ProcessCompletedExperimentRun_def)

lemma event_safe:
  assumes "stored_ok (xdocs s)" "fst (ChaosExperimentRunEvent x env event s) = Inl p"
  shows "p = FatalExit"
proof -
  have rev: "ex_Revision e \<noteq> []" if "op_GetExperiment x P s = Inr e" for P e
    using that assms(1) experiments.FindOne_ok [of P s e] by (auto simp: op_GetExperiment_def stored_ok_def experiment_ok_def)
  have tx: "event_transaction x env event e prbs xd exec r s = (Inl q, s') \<Longrightarrow> q = FatalExit" for e prbs xd exec r q s'
    by (auto simp: event_transaction_def split: sum.splits option.splits prod.splits)
  show ?thesis using assms(2) unfolding ChaosExperimentRunEvent_def
    by (auto simp: rev score_safe [OF assms(1)] split: sum.splits mongo_error.splits if_splits option.splits prod.splits dest: tx)
qed

lemma notification_safe:
  assumes "stored_ok (xdocs s)"
  shows "fst (GitOpsNotificationHandler x w env infra i s) \<noteq> Inl p"
proof -
  have "ex_Revision e \<noteq> []" if "op_GetExperiments x P s = Inr (e # es)" for P e es
  proof -
    have "mset (e # es) = filter_mset P (xdocs s)" using that experiments.Find_ok [of P s "e # es"] by (auto simp: op_GetExperiments_def)
    then have "e \<in># xdocs s" by (metis list.set_intros(1) multiset_partition set_mset_mset union_iff)
    then show ?thesis using assms by (simp add: stored_ok_def experiment_ok_def)
  qed
  then show ?thesis
    by (auto simp: GitOpsNotificationHandler_def git_config_of_def map_err_def quiet_def lift_go_def sbind_def Let_def
      split: sum.splits option.splits list.splits if_splits)
qed

end

section \<open>Requests, events and synchronisations\<close>

datatype experiment_change =
    SaveExperiment save_experiment_request
  | CreateExperiment experiment_request
  | ChangeExperiment experiment_request
  | DeleteExperiment string "string option"
  | SuspendExperiment string bool
  | RunExperiment string
  | StopRuns string "string option" "string option"
  | RunEvent experiment_run_request
  | Synchronise

text \<open>
  The state after a request of a user for a project, an event of a subscriber or a round of synchronisation. \<^verbatim>\<open>env\<close> has the clock and the identifiers of the
  request, \<^verbatim>\<open>env'\<close> those of the run that may follow a creation, \<^verbatim>\<open>envs\<close> those of the files that are synchronised on the way.
\<close>

fun experiment_step :: "'s exp_db \<Rightarrow> 's git_world \<Rightarrow> exp_env \<Rightarrow> exp_env \<Rightarrow> (nat \<Rightarrow> nat \<Rightarrow> exp_env) \<Rightarrow> gctx \<Rightarrow> string \<Rightarrow> experiment_change \<Rightarrow> 's \<Rightarrow> 's" where
  "experiment_step x w env env' envs c pid (SaveExperiment rq) s = fst (snd (r_SaveChaosExperiment x env (git_service_of x w (envs 0)) c rq pid s))"
| "experiment_step x w env env' envs c pid (CreateExperiment rq) s = fst (snd (r_CreateChaosExperiment x env env' (git_service_of x w (envs 0)) c rq pid s))"
| "experiment_step x w env env' envs c pid (ChangeExperiment rq) s = fst (snd (r_UpdateChaosExperiment x env (git_service_of x w (envs 0)) c rq pid s))"
| "experiment_step x w env env' envs c pid (DeleteExperiment i r) s = fst (snd (r_DeleteChaosExperiment x env (git_service_of x w (envs 0)) c i r pid s))"
| "experiment_step x w env env' envs c pid (SuspendExperiment i b) s = fst (snd (r_UpdateCronExperimentState x env c i b pid s))"
| "experiment_step x w env env' envs c pid (RunExperiment i) s = fst (snd (r_RunChaosExperiment x env c i pid s))"
| "experiment_step x w env env' envs c pid (StopRuns i r n) s = fst (snd (r_StopExperimentRuns x env c pid i r n s))"
| "experiment_step x w env env' envs c pid (RunEvent ev) s = snd (r_ChaosExperimentRun x env c ev s)"
| "experiment_step x w env env' envs c pid Synchronise s = fst (snd (GitOpsSyncHandler x w envs s))"

text \<open>The states they lead to, in any order; \<^verbatim>\<open>ok\<close> says which clocks and identifiers a request may get.\<close>

inductive experiments_reachable :: "'s exp_db \<Rightarrow> 's git_world \<Rightarrow> (exp_env \<Rightarrow> 's \<Rightarrow> bool) \<Rightarrow> 's \<Rightarrow> 's \<Rightarrow> bool"
  for x :: "'s exp_db" and w :: "'s git_world" and ok and s0 :: 's where
  start: "experiments_reachable x w ok s0 s0"
| step: "experiments_reachable x w ok s0 s \<Longrightarrow> ok env s \<Longrightarrow> experiments_reachable x w ok s0 (experiment_step x w env env' envs c pid rq s)"

text \<open>Identifiers that are new: not empty and not those of stored experiments.\<close>

definition new_ids :: "exp_env \<Rightarrow> chaos_experiment multiset \<Rightarrow> bool" where
  "new_ids env M \<longleftrightarrow> (\<forall>i. new_uuid (g_auth (x_gql env)) i \<noteq> '''' \<and> (\<forall>e\<in>#M. new_uuid (g_auth (x_gql env)) i \<noteq> ex_ExperimentID e))"

lemma ends_with_role: "I s \<Longrightarrow> (\<And>s. I s \<Longrightarrow> ends I (k s)) \<Longrightarrow> ends I (with_role_sig g genv c pid q k s)"
  by (auto simp: with_role_sig_def split: option.splits)

lemma ends_live_experiment: "I s \<Longrightarrow> ends I (live_experiment x i s)"
  by (auto simp: live_experiment_def split: sum.splits)

context git_db
begin

lemma fresh_iff: "fresh env s \<longleftrightarrow> new_ids env (xdocs s)"
  unfolding fresh_def new_ids_def ids_def by (simp add: image_iff)

lemma run_resolver_inv: "inv b s \<Longrightarrow> ends (inv b) (r_RunChaosExperiment x env c i pid s)"
  unfolding r_RunChaosExperiment_def by (auto intro!: ends_with_role ends_sbind ends_live_experiment run_inv)

lemma step_inv:
  assumes I: "inv b s" and fr: "b \<Longrightarrow> new_ids env (xdocs s)"
  shows "inv b (experiment_step x w env env' envs c pid rq s)"
proof -
  have role: "inv b (fst (snd (with_role_sig g genv c pid q k s)))" if "ends (inv b) (k s)" for g genv c pid q and k :: "'s \<Rightarrow> ('s, 'a) infra_outcome"
    using that I by (auto simp: with_role_sig_def ends_def split: option.splits)
  have user: "ends (inv b) (with_user_sig x env c k s)" if "\<And>u. ends (inv b) (k u s)" for c and k :: "string \<Rightarrow> 's \<Rightarrow> ('s, 'a) infra_outcome"
    unfolding with_user_sig_def by (rule ends_sbind) (use I that in \<open>auto simp: with_name_state\<close>)
  note keep = save_inv [OF I] create_inv [OF I] update_handler_inv [OF I] delete_handler_inv [OF I] cron_state_inv [OF I]
  show ?thesis
  proof (cases rq)
    case (CreateExperiment r)
    have "ends (inv b) (CreateChaosExperiment x env (git_service_of x w (envs 0)) c r pid u s)" for u using keep(2) fr fresh_iff by blast
    then show ?thesis unfolding CreateExperiment experiment_step.simps r_CreateChaosExperiment_def
      by (intro role user ends_sbind) (auto intro!: ends_sbind ends_live_experiment cron_run_same run_inv)
  next
    case (RunEvent ev)
    then show ?thesis using event_inv [OF I] by (simp add: r_ChaosExperimentRun_def) (metis prod.collapse)
  next
    case (StopRuns i r n)
    then show ?thesis using stop_inv [OF I] unfolding StopRuns experiment_step.simps r_StopExperimentRuns_def
      by (intro role) (metis ends_def prod.collapse)
  next
    case (RunExperiment i)
    then show ?thesis using run_resolver_inv [OF I] by (simp add: ends_def)
  next
    case Synchronise
    then show ?thesis using GitOpsSyncHandler_inv [OF I] by (simp add: ends_def)
  qed (use keep fr fresh_iff in \<open>auto simp: r_SaveChaosExperiment_def r_UpdateChaosExperiment_def r_DeleteChaosExperiment_def
    r_UpdateCronExperimentState_def intro!: role user\<close>)
qed

lemma reachable_inv:
  assumes "experiments_reachable x w ok s0 s" "inv b s0" "\<And>env s. b \<Longrightarrow> ok env s \<Longrightarrow> new_ids env (xdocs s)"
  shows "inv b s"
  using assms(1,2)
proof (induction rule: experiments_reachable.induct)
  case (step s env env' envs c pid rq)
  then show ?case using step_inv [of b s env] assms(3) by blast
qed

lemma reachable_stored: "experiments_reachable x w ok s0 s \<Longrightarrow> stored_ok (xdocs s0) \<Longrightarrow> stored_ok (xdocs s)"
  using reachable_inv [of ok s0 s False] by (simp add: inv_def)

lemma reachable_names:
  assumes "experiments_reachable x w ok s0 s" "stored_ok (xdocs s0)" "names_unique (xdocs s0)" "\<forall>e\<in>#xdocs s0. ex_ExperimentID e \<noteq> ''''"
    "gdocs s0 = {#}" "\<And>env s. ok env s \<Longrightarrow> new_ids env (xdocs s)"
  shows "names_unique (xdocs s)"
proof -
  have "inv True s0" using assms by (auto simp: inv_def ids_def)
  then show ?thesis using reachable_inv [OF assms(1), of True] assms(6) by (simp add: inv_def)
qed

end

section \<open>Properties\<close>

text \<open>
  C24: Whatever users, subscribers and GitOps do, in any order and with any clock, every stored experiment keeps a revision, weights that are present and at most
  ten run details, and its identifier stays unique. So neither an event of a subscriber nor a GitOps notification ever runs into an
  index or nil-pointer panic; the only abort left is the one the code asks for (a fatal log entry).
\<close>

theorem experiments_stay_well_formed:
  assumes "git_db x xdocs rundocs pbdocs idocs edocs udocs pdocs rdocs adocs cdocs w gdocs"
    and "experiments_reachable x w ok s0 s"
    and "unique_by ex_ExperimentID (xdocs s0)"
    and "\<forall>e\<in>#xdocs s0. ex_Revision e \<noteq> [] \<and> (\<forall>r\<in>set (ex_Revision e). None \<notin> set (rv_Weightages r)) \<and> length (ex_RecentExperimentRunDetails e) \<le> 10"
  shows "unique_by ex_ExperimentID (xdocs s) \<and>
    (\<forall>e\<in>#xdocs s. ex_Revision e \<noteq> [] \<and> (\<forall>r\<in>set (ex_Revision e). None \<notin> set (rv_Weightages r)) \<and> length (ex_RecentExperimentRunDetails e) \<le> 10) \<and>
    (\<forall>env event p. fst (ChaosExperimentRunEvent x env event s) = Inl p \<longrightarrow> p = FatalExit) \<and>
    (\<forall>env infra i p. fst (GitOpsNotificationHandler x w env infra i s) \<noteq> Inl p)"
proof -
  have "stored_ok (xdocs s0)" using assms(3,4) by (simp add: stored_ok_def experiment_ok_def recent_ok_def)
  then have ok: "stored_ok (xdocs s)" by (rule git_db.reachable_stored [OF assms(1,2)])
  note safe = git_db.event_safe [OF assms(1) ok] git_db.notification_safe [OF assms(1) ok]
  from ok safe show ?thesis by (simp add: stored_ok_def experiment_ok_def recent_ok_def)
qed

text \<open>
  C25: Where no project has GitOps enabled and new identifiers are new, the experiments of a project that are not removed keep different
  names, whatever is saved, created, updated, renamed, deleted, run or reported in whatever order.
\<close>

theorem experiment_names_stay_unique:
  assumes "git_db x xdocs rundocs pbdocs idocs edocs udocs pdocs rdocs adocs cdocs w gdocs"
    and "experiments_reachable x w ok s0 s" "gdocs s0 = {#}"
    and "\<And>env s. ok env s \<Longrightarrow> new_ids env (xdocs s)"
    and "unique_by ex_ExperimentID (xdocs s0)" "\<forall>e\<in>#xdocs s0. ex_ExperimentID e \<noteq> ''''" "\<forall>e\<in>#xdocs s0. experiment_ok e"
    and "\<forall>pid n. size (filter_mset (\<lambda>e. ex_ProjectID e = pid \<and> ex_Name e = n \<and> \<not> ex_IsRemoved e) (xdocs s0)) \<le> 1"
  shows "\<forall>pid n. size (filter_mset (\<lambda>e. ex_ProjectID e = pid \<and> ex_Name e = n \<and> \<not> ex_IsRemoved e) (xdocs s)) \<le> 1"
proof -
  have l: "live_named pid n = (\<lambda>e. ex_ProjectID e = pid \<and> ex_Name e = n \<and> \<not> ex_IsRemoved e)" for pid n by (auto simp: live_named_def)
  have "stored_ok (xdocs s0)" "names_unique (xdocs s0)" using assms(5,7,8) by (simp_all add: stored_ok_def names_unique_def l)
  from git_db.reachable_names [OF assms(1,2) this assms(6,3,4)] show ?thesis by (simp add: names_unique_def l)
qed

section \<open>Witnesses\<close>

definition git_sample :: "git_config_db list \<Rightarrow> (string \<times> string) list \<Rightarrow> git_state" where
  "git_sample gs fs = exp_state.extend (sample_exp_state [] [] [sample_probe]) (git_state.fields gs fs ''c0'' [])"

definition sample_save :: "string \<Rightarrow> string \<Rightarrow> experiment_change" where
  "sample_save i n = SaveExperiment \<lparr>sv_ID = i, sv_Type = None, sv_Name = n, sv_Description = '''', sv_Manifest = ''m'', sv_InfraID = ''infra1'', sv_Tags = []\<rparr>"

text \<open>Experiment \<^verbatim>\<open>e2\<close> is saved under a new name, and then once more by another identifier under the same name, which is refused.\<close>

definition sample_steps :: "git_state \<Rightarrow> git_state" where
  "sample_steps s =
     experiment_step mem_exp mem_git sample_exp_env sample_exp_env (\<lambda>i j. sample_exp_env) sample_gctx ''p1'' (sample_save ''e3'' ''exp'')
       (experiment_step mem_exp mem_git sample_exp_env sample_exp_env (\<lambda>i j. sample_exp_env) sample_gctx ''p1'' (sample_save ''e2'' ''exp'') s)"

lemma sample_saved: "map ex_ExperimentID (st_experiments (sample_steps (git_sample [] []))) = [''e1'', ''e2'']"
  by code_simp

lemma git_sample_experiments:
  "st_experiments (git_sample gs fs) = [sample_experiment ''e1'' []]" "st_gconfigs (git_sample gs fs) = gs"
  by (simp_all add: git_sample_def exp_state.defs git_state.defs sample_exp_state_def)

lemma sample_experiment_fields:
  "ex_Revision (sample_experiment i []) \<noteq> []" "\<forall>r\<in>set (ex_Revision (sample_experiment i [])). None \<notin> set (rv_Weightages r)"
  "ex_RecentExperimentRunDetails (sample_experiment i []) = []" "ex_ExperimentID (sample_experiment i []) = i"
  by (simp_all add: sample_experiment_def sample_revision_def sample_weight_def)

lemma unique_by_single [simp]: "unique_by k {#a#}"
  by (simp add: unique_by_def)

lemma sample_saves_reachable:
  assumes "\<And>s. ok sample_exp_env s"
  shows "experiments_reachable mem_exp mem_git ok s (sample_steps s)"
  unfolding sample_steps_def by (intro step start assms)

theorem experiments_stay_well_formed_witness:
  "list_all (\<lambda>e. ex_Revision e \<noteq> [] \<and> length (ex_RecentExperimentRunDetails e) \<le> 10) (st_experiments (sample_steps (git_sample [] []))) \<and>
   map ex_ExperimentID (st_experiments (sample_steps (git_sample [] []))) = [''e1'', ''e2'']"
proof -
  have "experiments_reachable mem_exp mem_git (\<lambda>env s. True) (git_sample [] []) (sample_steps (git_sample [] []))" by (rule sample_saves_reachable) simp
  from experiments_stay_well_formed [OF mem_git_db this] sample_saved show ?thesis
    by (simp add: git_sample_experiments sample_experiment_fields list_all_iff)
qed

text \<open>Requests get identifiers that are new as long as no stored experiment is called \<^verbatim>\<open>new\<close>.\<close>

theorem experiment_names_stay_unique_witness:
  "\<forall>pid n. size (filter_mset (\<lambda>e. ex_ProjectID e = pid \<and> ex_Name e = n \<and> \<not> ex_IsRemoved e) (mset (st_experiments (sample_steps (git_sample [] []))))) \<le> 1"
proof (rule experiment_names_stay_unique [OF mem_git_db, where ok = "\<lambda>env s. new_ids env (mset (st_experiments s))"])
  let ?ok = "\<lambda>env s. new_ids env (mset (st_experiments s))"
  let ?s = "experiment_step mem_exp mem_git sample_exp_env sample_exp_env (\<lambda>i j. sample_exp_env) sample_gctx ''p1'' (sample_save ''e2'' ''exp'') (git_sample [] [])"
  have "map ex_ExperimentID (st_experiments ?s) = [''e1'', ''e2'']" by code_simp
  then have "ex_ExperimentID ` set (st_experiments ?s) = {''e1'', ''e2''}" by (metis list.set_map list.simps(15) set_empty2 list.set(1))
  then have "new_uuid (g_auth (x_gql sample_exp_env)) i \<notin> ex_ExperimentID ` set (st_experiments ?s)" for i
    by (simp add: sample_exp_env_def sample_gql_env_def sample_env_def)
  then have ok: "?ok sample_exp_env ?s" "?ok sample_exp_env (git_sample [] [])"
    by (auto simp: new_ids_def git_sample_experiments sample_experiment_fields sample_exp_env_def sample_gql_env_def sample_env_def)
  then show "experiments_reachable mem_exp mem_git ?ok (git_sample [] []) (sample_steps (git_sample [] []))"
    unfolding sample_steps_def by (intro step start)
qed (auto simp: git_sample_experiments sample_experiment_fields experiment_ok_def recent_ok_def)

end
