(* ===== verification/Gql_Launch_Props.thy ===== *)
theory Gql_Launch_Props
  imports Gql_Experiments_Props
begin

text \<open>
  Running an experiment: what is stored and sent when it succeeds, what is left behind when it fails, and how the first event of the
  subscriber finds the queued run; the weights of a processed manifest; which files a synchronisation looks at.
\<close>

declare of_error_ok [simp]

section \<open>Signals of a failed operation\<close>

definition mute :: "('s, 'a) infra_outcome \<Rightarrow> bool" where
  "mute r \<longleftrightarrow> snd (snd r) = []"

text \<open>An operation that sends nothing unless it succeeds.\<close>

definition careful :: "('s, 'a) infra_outcome \<Rightarrow> bool" where
  "careful r \<longleftrightarrow> (\<forall>v. fst r \<noteq> Inr (Inr v)) \<longrightarrow> snd (snd r) = []"

lemma careful_sbind: "mute r \<Longrightarrow> (\<And>v s. r = (Inr (Inr v), s, []) \<Longrightarrow> careful (k v s)) \<Longrightarrow> careful (sbind r k)"
  by (auto simp: mute_def careful_def sbind_def split: prod.splits sum.splits)

lemma mute_simps [simp]: "mute (quiet r)" "mute (v, s, []) = True" "careful (Inr (Inr u), s, sg)" "careful (v', s, [])"
  by (auto simp: mute_def careful_def quiet_def split: prod.splits)

section \<open>What a run stores\<close>

text \<open>The run that is queued, from what was computed before.\<close>

definition queued :: "exp_env \<Rightarrow> chaos_experiment \<Rightarrow> string \<Rightarrow> experiment_run \<Rightarrow> bool" where
  "queued env wkf pid r \<longleftrightarrow> (\<exists>rv u prbs xd. r = queued_run wkf pid rv (new_uuid (g_auth (x_gql env)) 0) u prbs xd (now_ms (g_auth (x_gql env)) 0))"

lemma queued_fields:
  "er_ExperimentID (queued_run wkf pid rv n u prbs xd now) = ex_ExperimentID wkf" "er_NotifyID (queued_run wkf pid rv n u prbs xd now) = Some n"
  "\<not> er_Completed (queued_run wkf pid rv n u prbs xd now)" "er_Phase (queued_run wkf pid rv n u prbs xd now) = ''Queued''"
  "er_ProjectID (queued_run wkf pid rv n u prbs xd now) = pid" "er_InfraID (queued_run wkf pid rv n u prbs xd now) = ex_InfraID wkf"
  "er_RevisionID (queued_run wkf pid rv n u prbs xd now) = rv"
  by (simp_all add: queued_run_def)

context exp_db
begin

lemma found_infra: "op_GetInfra (gql_handle x) i s = Inr infra \<Longrightarrow> infra \<in># idocs s \<and> i_InfraID infra = i"
  using gql.infras.FindOne_ok [of "\<lambda>d. i_InfraID d = i" s infra] by (auto simp: op_GetInfra_def)

lemma with_name_mute [simp]: "mute (with_name x env c s)"
  by (simp add: with_name_def)

lemma transaction_mute: "mute (run_transaction x wkf d r now s)"
  by (auto simp: mute_def run_transaction_def split: option.splits prod.splits)

lemma cron_careful: "careful (RunCronExperiment x env c pid wkf s)"
  unfolding RunCronExperiment_def by (auto intro!: careful_sbind split: prod.splits)

lemma sbind_careful_done: "careful r \<Longrightarrow> careful (sbind r (\<lambda>u s. (Inr (Inr (f u)), s, [])))"
  by (auto simp: careful_def sbind_def split: prod.splits sum.splits)

lemma run_careful: "careful (RunChaosWorkFlow x env c pid wkf s)"
  unfolding RunChaosWorkFlow_def Let_def
  by (auto intro!: careful_sbind sbind_careful_done [OF cron_careful] transaction_mute split: sum.splits prod.splits)

text \<open>Whatever the outcome, either no run is stored or one queued run is.\<close>

definition at_most_queued :: "exp_env \<Rightarrow> chaos_experiment \<Rightarrow> string \<Rightarrow> 's \<Rightarrow> 's \<Rightarrow> bool" where
  "at_most_queued env wkf pid s s' \<longleftrightarrow> rundocs s' = rundocs s \<or> (\<exists>r. queued env wkf pid r \<and> rundocs s' = add_mset r (rundocs s))"

lemma touch_runs: "rundocs s1 = rundocs s \<Longrightarrow> rundocs (snd (op_UpdateChaosExperiment x P f s1)) = rundocs s"
  using experiment_update(1) [of P f s1] by (metis prod.collapse)

lemma transaction_runs:
  assumes "rundocs s1 = rundocs s" "queued env wkf pid r"
  shows "ends (at_most_queued env wkf pid s) (run_transaction x wkf d r now s1)"
proof -
  obtain res s' sg where t: "run_transaction x wkf d r now s1 = (res, s', sg)" by (rule prod_cases3)
  then show ?thesis by (rule run_transaction_cases) (use assms run_writes_runs(1) in \<open>auto simp: t at_most_queued_def\<close>)
qed

lemma run_runs: "ends (at_most_queued env wkf pid s) (RunChaosWorkFlow x env c pid wkf s)"
proof -
  have q: "queued env wkf pid (queued_run wkf pid rv (new_uuid (g_auth (x_gql env)) 0) u prbs xd (now_ms (g_auth (x_gql env)) 0))" for rv u prbs xd
    by (auto simp: queued_def)
  have refl: "rundocs s1 = rundocs s \<Longrightarrow> at_most_queued env wkf pid s s1" for s1 by (simp add: at_most_queued_def)
  show ?thesis
    unfolding RunChaosWorkFlow_def Let_def
    by (auto intro!: ends_sbind cron_run_same transaction_runs q touch_runs refl simp: with_name_state of_error_ok
      dest: experiment_update(1) split: sum.splits prod.splits)
qed

lemma run_queued:
  assumes "RunChaosWorkFlow x env c pid wkf s = (Inr (Inr nid), s', sg)"
    and "foldLower (x_gjson env (rv_ExperimentManifest (hd (by_time (ex_Revision wkf)))) ''kind'') \<noteq> ''cronworkflow''"
  obtains infra wf u prbs xd m y w' s1 where "op_GetInfra (gql_handle x) (ex_InfraID wkf) s = Inr infra" "i_IsActive infra" "nid = new_uuid (g_auth (x_gql env)) 0"
    "run_workflow env wkf (rv_ExperimentManifest (hd (by_time (ex_Revision wkf)))) (now_ms (g_auth (x_gql env)) 0) nid = Inr (Inr (wf, prbs))"
    "rundocs s' = add_mset (queued_run wkf pid (rv_RevisionID (hd (by_time (ex_Revision wkf)))) nid u prbs xd (now_ms (g_auth (x_gql env)) 0)) (rundocs s)"
    "x_workflow_json env wf = Inr m" "GenerateExperimentManifestWithProbes x env m pid s' = Inr (Inr w')" "x_workflow_yaml env w' = Inr y"
    "sg = SendExperimentToSubscriber env pid y (ex_InfraID wkf) (Some u) None ''create''"
proof -
  obtain infra where i: "op_GetInfra (gql_handle x) (ex_InfraID wkf) s = Inr infra" "i_IsActive infra" "ex_Revision wkf \<noteq> []"
    using assms(1) by (auto simp: RunChaosWorkFlow_def split: sum.splits if_splits)
  let ?rev = "hd (by_time (ex_Revision wkf))"
  let ?now = "now_ms (g_auth (x_gql env)) 0"
  obtain wf prbs s1 xd u s2 m w' y where
    wf: "run_workflow env wkf (rv_ExperimentManifest ?rev) ?now nid = Inr (Inr (wf, prbs))"
    and s1: "op_UpdateChaosExperiment x (\<lambda>e. ex_ExperimentID e = ex_ExperimentID wkf) (\<lambda>e. e\<lparr>ex_UpdatedAt := ?now\<rparr>) s = (None, s1)"
    and t: "run_transaction x wkf (queued_detail wkf pid nid u ?now) (queued_run wkf pid (rv_RevisionID ?rev) nid u prbs xd ?now) ?now s1 = (Inr (Inr ()), s', s2)"
    and m: "x_workflow_json env wf = Inr m" "GenerateExperimentManifestWithProbes x env m pid s' = Inr (Inr w')" "x_workflow_yaml env w' = Inr y"
    and sg: "sg = s2 @ send_experiment env True pid (manifest_request wkf y) u ''create''" and nid: "nid = new_uuid (g_auth (x_gql env)) 0"
    using assms i unfolding RunChaosWorkFlow_def Let_def by (auto simp: with_name_state of_error_ok map_sum_Inr_iff)
  have "rundocs s' = add_mset (queued_run wkf pid (rv_RevisionID ?rev) nid u prbs xd ?now) (rundocs s) \<and> s2 = []"
    using t by (rule run_transaction_cases) (use run_writes_runs(1) experiment_update(1) [OF s1] in auto)
  then show thesis using that i wf m sg nid by (simp add: send_experiment_def manifest_request_def)
qed

text \<open>The first event of the subscriber: exactly the queued run is replaced by the one reported.\<close>

lemma queued_reported:
  assumes ev: "ChaosExperimentRunEvent x env event s = (Inr (Inr (received event)), s')"
    and q: "filter_mset (same_run (rq_ExperimentID event) (rq_ExperimentRunID event) (rq_NotifyID event)) (rundocs s) = {#q#}" "\<not> er_Completed q"
  shows "\<exists>e prbs xd exec r u n. event_read x env event s e prbs xd exec r u n \<and>
    rundocs s' = replace_mset q (run_update (event_run env event e prbs xd exec r u) q) (rundocs s) \<and>
    reported event xd exec r (run_update (event_run env event e prbs xd exec r u) q)"
proof -
  let ?same = "same_run (rq_ExperimentID event) (rq_ExperimentRunID event) (rq_NotifyID event)"
  obtain e prbs xd exec r u n where rd: "event_read x env event s e prbs xd exec r u n"
    and w: "event_writes x env event e prbs xd exec r u n s = (None, s')"
    using event_cases [OF ev] by auto
  obtain s1 k where k: "rundocs s1 = rundocs s" "k > 0" "op_UpdateExperimentRun x env (event_run env event e prbs xd exec r u) s1 = (Inr k, s')"
    by (rule event_writes_run_update [OF w])
  let ?f = "run_update (event_run env event e prbs xd exec r u)"
  have "updated_one (\<lambda>d. ?same d \<and> \<not> er_Completed d) ?f (rundocs s) (rundocs s')"
    using run_updated [OF k(3,2)] k(1) q(1) by (simp add: event_run_def)
  then obtain d where d: "d \<in># rundocs s" "?same d" "rundocs s' = replace_mset d (?f d) (rundocs s)" by (auto simp: updated_one_def)
  then have "d \<in># filter_mset ?same (rundocs s)" by simp
  then have "d = q" unfolding q(1) by simp
  have "q \<in># filter_mset ?same (rundocs s)" unfolding q(1) by simp
  then have "?same q" by simp
  then have "reported event xd exec r (?f q)" by (simp add: reported_def run_update_def event_run_def same_run_def)
  with rd d(3) \<open>d = q\<close> show ?thesis by blast
qed

lemma queued_alone:
  assumes "rundocs s' = add_mset (queued_run wkf pid rv n u prbs xd now) (rundocs s)" "\<forall>d\<in>#rundocs s. er_NotifyID d \<noteq> Some n"
    "rq_ExperimentID event = ex_ExperimentID wkf" "rq_NotifyID event = Some n"
  shows "filter_mset (same_run (rq_ExperimentID event) (rq_ExperimentRunID event) (rq_NotifyID event)) (rundocs s') =
    {#queued_run wkf pid rv n u prbs xd now#}"
proof -
  have "filter_mset (same_run (rq_ExperimentID event) (rq_ExperimentRunID event) (rq_NotifyID event)) (rundocs s) = {#}"
    using assms(2,4) by (auto simp: same_run_def)
  then show ?thesis using assms(1,3,4) by (simp add: same_run_def queued_fields)
qed

end

section \<open>Weights\<close>

lemma weight_map_keys: "fst ` set (weight_map ws m) = fst ` set m \<union> w_FaultName ` set ws"
proof (induction ws arbitrary: m)
  case (Cons w ws)
  have "fst ` set (AList.update (w_FaultName w) (w_Weightage w) m) = insert (w_FaultName w) (fst ` set m)"
    by (simp add: AList.dom_update)
  with Cons.IH [of "AList.update (w_FaultName w) (w_Weightage w) m"] show ?case by (auto simp: weight_map_def)
qed (simp add: weight_map_def)

text \<open>The engines of a workflow, as the service decodes them.\<close>

definition engine_of :: "exp_env \<Rightarrow> workflow_template \<Rightarrow> chaos_engine \<Rightarrow> bool" where
  "engine_of env t meta \<longleftrightarrow> (\<exists>name d. raw_data t = Some (name, d) \<and> x_engine env (strip_brackets d) = Inr meta \<and> foldLower (ce_Kind meta) = ''chaosengine'')"

lemma fault_weight_known: "fault_weight weights n l = Inr (lb, ws) \<Longrightarrow> n \<in> fst ` set weights \<union> w_FaultName ` set ws"
  by (auto simp: fault_weight_def split: option.splits dest: map_of_SomeD intro: rev_image_eqI)

lemma process_template_weight:
  assumes "process_template x env c pid weights k t s = (Inr (Inr (t', ws, k')), s')" "engine_of env t meta"
  shows "ce_GenerateName meta \<in> fst ` set weights \<union> w_FaultName ` set ws"
proof -
  obtain name d where d: "raw_data t = Some (name, d)" "x_engine env (strip_brackets d) = Inr meta" "foldLower (ce_Kind meta) = ''chaosengine''"
    using assms(2) by (auto simp: engine_of_def)
  then obtain l lb where "fault_weight weights (ce_GenerateName meta) l = Inr (lb, ws)"
    using assms(1) by (auto simp: process_template_def process_engine_def engine_name_def split: if_splits)
  then show ?thesis by (rule fault_weight_known)
qed

lemma process_templates_weights:
  assumes "process_templates x env c pid weights k ts s = (Inr (Inr (ts', ws, k')), s')" "t \<in> set ts" "engine_of env t meta"
  shows "ce_GenerateName meta \<in> fst ` set weights \<union> w_FaultName ` set ws"
  using assms
proof (induction ts arbitrary: k s ts' ws k' s')
  case (Cons a ts)
  obtain a' ws1 k1 s1 ts1 ws2 k2 s2 where a: "process_template x env c pid weights k a s = (Inr (Inr (a', ws1, k1)), s1)"
    "process_templates x env c pid weights k1 ts s1 = (Inr (Inr (ts1, ws2, k2)), s2)" "ws = ws1 @ ws2"
    using Cons.prems(1) by auto
  from Cons.prems(2) consider "t = a" | "t \<in> set ts" by auto
  then show ?case
  proof cases
    case 1
    then show ?thesis using process_template_weight [OF a(1)] Cons.prems(3) a(3) by auto
  next
    case 2
    then show ?thesis using Cons.IH [OF a(2)] Cons.prems(3) a(3) by auto
  qed
qed simp

text \<open>The templates of a workflow or a cron workflow.\<close>

definition templates_of :: "exp_env \<Rightarrow> string \<Rightarrow> workflow_template list \<Rightarrow> bool" where
  "templates_of env manifest ts \<longleftrightarrow> (\<exists>name kind. x_object env manifest = Inr (name, kind) \<and>
     (foldLower kind = ''workflow'' \<and> (\<exists>w. x_workflow env manifest = Inr w \<and> ts = wf_Templates w) \<or>
      foldLower kind = ''cronworkflow'' \<and> (\<exists>w. x_cron env manifest = Inr w \<and> ts = cw_Templates w)))"

lemma ProcessExperiment_weights:
  assumes "ProcessExperiment x env c rq pid revID k s = (Inr (Inr (rq', t, k')), s')" "templates_of env (rx_ExperimentManifest rq) ts"
    "u \<in> set ts" "engine_of env u meta"
  shows "ce_GenerateName meta \<in> w_FaultName ` set (rx_Weightages rq')"
proof -
  let ?W = "fold (\<lambda>w. AList.update (w_FaultName w) (w_Weightage w)) (rx_Weightages rq) []"
  have W: "fst ` set ?W = w_FaultName ` set (rx_Weightages rq)" using weight_map_keys [of "rx_Weightages rq" "[]"] by (simp add: weight_map_def)
  obtain k1 s1 ts' ws k2 s2 where p: "process_templates x env c pid ?W k1 ts s1 = (Inr (Inr (ts', ws, k2)), s2)" "rx_Weightages rq' = rx_Weightages rq @ ws"
    using assms(1,2) unfolding ProcessExperiment_def templates_of_def
    by (auto simp: Let_def processExperimentManifest_def processCronExperimentManifest_def with_error_def split: sum.splits if_splits)
  from process_templates_weights [OF p(1) assms(3,4)] show ?thesis unfolding W using p(2) by auto
qed

section \<open>Changed files\<close>

lemma visit_keys: "distinct (map fst v) \<Longrightarrow> distinct (map fst (visit path f v)) \<and> fst ` set (visit path f v) = fst ` set v \<union> (if prefix path f then {f} else {})"
  by (auto simp: visit_def AList.distinct_update AList.dom_update)

lemma visits_keys:
  "distinct (map fst v) \<Longrightarrow> distinct (map fst (fold (visit path) fs v)) \<and> fst ` set (fold (visit path) fs v) = fst ` set v \<union> {f \<in> set fs. prefix path f}"
proof (induction fs arbitrary: v)
  case (Cons f fs)
  then show ?case using Cons.IH [of "visit path f v"] visit_keys [OF Cons.prems, of path f] by auto
qed simp

text \<open>The commits after the known one.\<close>

definition newer :: "string \<Rightarrow> (string + git_commit) list \<Rightarrow> (string + git_commit) list" where
  "newer known items = takeWhile (\<lambda>i. case i of Inl e \<Rightarrow> True | Inr cm \<Rightarrow> known = '''' \<or> gm_Hash cm \<noteq> known) items"

lemma walk_log_keys:
  assumes "walk_log known path v items = Inr v'" "distinct (map fst v)"
  shows "distinct (map fst v') \<and> fst ` set v' = fst ` set v \<union>
    {f. prefix path f \<and> (\<exists>cm fs. Inr cm \<in> set (newer known items) \<and> content_files (gm_Content cm) = Inr fs \<and> f \<in> set fs)}"
  using assms
proof (induction known path v items rule: walk_log.induct)
  case (3 known path v cm cs)
  show ?case
  proof (cases "known \<noteq> '''' \<and> gm_Hash cm = known")
    case True
    then show ?thesis using 3 by (simp add: newer_def)
  next
    case False
    then obtain fs where fs: "content_files (gm_Content cm) = Inr fs" "walk_log known path (fold (visit path) fs v) cs = Inr v'"
      using 3(2) by (auto split: sum.splits)
    have nw: "newer known (Inr cm # cs) = Inr cm # newer known cs" using False by (simp add: newer_def)
    show ?thesis using 3(1) [OF False fs] visits_keys [OF 3(3), of path fs] fs(1) unfolding nw by auto
  qed
qed (auto simp: newer_def)

text \<open>The paths a commit touches.\<close>

definition touches :: "git_commit \<Rightarrow> string \<Rightarrow> bool" where
  "touches cm f \<longleftrightarrow> (case gm_Content cm of
     InitialCommit r \<Rightarrow> (\<exists>fs. r = Inr fs \<and> f \<in> set fs)
   | ChangeCommit r \<Rightarrow> (\<exists>ps old new. r = Inr ps \<and> (old, new) \<in> set ps \<and> (old = Some f \<or> new = Some f)))"

lemma touches_files: "(\<exists>fs. content_files (gm_Content cm) = Inr fs \<and> f \<in> set fs) \<longleftrightarrow> touches cm f"
proof (cases "gm_Content cm")
  case (ChangeCommit r)
  then show ?thesis
    by (cases r) (force simp: touches_def content_files_def split: option.splits)+
qed (simp add: touches_def content_files_def)

section \<open>Properties\<close>

text \<open>
  C26: A run of a workflow that succeeds returns a new notification identifier, and exactly one run is stored for it: queued, of the experiment and of a
  revision than which none is newer. The infrastructure was active. What is sent to it is one request to create the workflow of that revision, labelled with the
  identifier and completed by the probes it refers to, provided a namespace can be read from the completed manifest; otherwise nothing is sent, although the
  run is stored. (Cron workflows are run by \<^verbatim>\<open>RunCronExperiment\<close> and excluded.)
\<close>

theorem experiment_run_queued:
  assumes "exp_db x xdocs rundocs pbdocs idocs edocs udocs pdocs rdocs adocs cdocs"
    and "RunChaosWorkFlow x env c projectID wkf s = (Inr (Inr notifyID), s', sg)"
    and "foldLower (x_gjson env (rv_ExperimentManifest (hd (by_time (ex_Revision wkf)))) ''kind'') \<noteq> ''cronworkflow''"
  shows "notifyID = new_uuid (g_auth (x_gql env)) 0 \<and>
    (hd (by_time (ex_Revision wkf)) \<in> set (ex_Revision wkf) \<and> (\<forall>r\<in>set (ex_Revision wkf). rv_UpdatedAt r \<le> rv_UpdatedAt (hd (by_time (ex_Revision wkf))))) \<and>
    (\<exists>infra. infra \<in># idocs s \<and> i_InfraID infra = ex_InfraID wkf \<and> i_IsActive infra) \<and>
    (\<exists>r. rundocs s' = add_mset r (rundocs s) \<and> er_Phase r = ''Queued'' \<and> \<not> er_Completed r \<and> er_NotifyID r = Some notifyID \<and>
       er_ExperimentID r = ex_ExperimentID wkf \<and> er_ProjectID r = projectID \<and> er_InfraID r = ex_InfraID wkf \<and>
       er_RevisionID r = rv_RevisionID (hd (by_time (ex_Revision wkf)))) \<and>
    (\<exists>w prbs m w' y u.
       run_workflow env wkf (rv_ExperimentManifest (hd (by_time (ex_Revision wkf)))) (now_ms (g_auth (x_gql env)) 0) notifyID = Inr (Inr (w, prbs)) \<and>
       x_workflow_json env w = Inr m \<and> map_of (deref [] (wf_Labels w)) ''notify_id'' = Some notifyID \<and>
       GenerateExperimentManifestWithProbes x env m projectID s' = Inr (Inr w') \<and> x_workflow_yaml env w' = Inr y \<and>
       sg = (case x_namespace env y of
          Inl e \<Rightarrow> []
        | Inr ns \<Rightarrow> [SubscriberRequest \<lparr>sr_K8sManifest = y, sr_RequestType = ''create'', sr_ProjectID = projectID, sr_InfraID = ex_InfraID wkf,
                       sr_Namespace = ns, sr_Username = Some u, sr_ExternalData = None\<rparr>]))"
proof -
  obtain infra wf u prbs xd m y w' where i: "op_GetInfra (gql_handle x) (ex_InfraID wkf) s = Inr infra" "i_IsActive infra"
    and nid: "notifyID = new_uuid (g_auth (x_gql env)) 0"
    and wf: "run_workflow env wkf (rv_ExperimentManifest (hd (by_time (ex_Revision wkf)))) (now_ms (g_auth (x_gql env)) 0) notifyID = Inr (Inr (wf, prbs))"
    and r: "rundocs s' = add_mset (queued_run wkf projectID (rv_RevisionID (hd (by_time (ex_Revision wkf)))) notifyID u prbs xd (now_ms (g_auth (x_gql env)) 0)) (rundocs s)"
    and m: "x_workflow_json env wf = Inr m" "GenerateExperimentManifestWithProbes x env m projectID s' = Inr (Inr w')" "x_workflow_yaml env w' = Inr y"
    and sg: "sg = SendExperimentToSubscriber env projectID y (ex_InfraID wkf) (Some u) None ''create''"
    by (rule exp_db.run_queued [OF assms])
  have lbl: "map_of (deref [] (wf_Labels wf)) ''notify_id'' = Some notifyID"
    using wf by (auto simp: run_workflow_def AList.update_Some_unfold split: sum.splits if_splits)
  have "infra \<in># idocs s \<and> i_InfraID infra = ex_InfraID wkf"
    using exp_db.found_infra [OF assms(1) i(1)] .
  then have "\<exists>infra. infra \<in># idocs s \<and> i_InfraID infra = ex_InfraID wkf \<and> i_IsActive infra" using i(2) by blast
  moreover have "\<exists>r. rundocs s' = add_mset r (rundocs s) \<and> er_Phase r = ''Queued'' \<and> \<not> er_Completed r \<and> er_NotifyID r = Some notifyID \<and>
       er_ExperimentID r = ex_ExperimentID wkf \<and> er_ProjectID r = projectID \<and> er_InfraID r = ex_InfraID wkf \<and>
       er_RevisionID r = rv_RevisionID (hd (by_time (ex_Revision wkf)))"
    by (rule exI, rule conjI, rule r) (simp add: queued_fields)
  moreover have "ex_Revision wkf \<noteq> []" using assms(2) by (auto simp: RunChaosWorkFlow_def split: sum.splits if_splits)
  note latest = sort_slice_hd [of _ rv_UpdatedAt, OF this, folded by_time_def]
  ultimately show ?thesis using nid
    by (intro conjI) (assumption, rule latest, rule latest, assumption, assumption, rule exI [of _ wf], rule exI [of _ prbs], rule exI [of _ m], rule exI [of _ w'], rule exI [of _ y], rule exI [of _ u],
      simp add: wf [unfolded nid] m lbl [unfolded nid] sg SendExperimentToSubscriber_def)
qed

text \<open>
  C27: A queued run is found again. When the subscriber's first event for it names the notification identifier and is acknowledged, no run
  is added: exactly the queued run becomes the reported one, with the run identifier, the phase and the completion of the event and the
  score computed from it.
\<close>

theorem queued_run_reported:
  assumes "exp_db x xdocs rundocs pbdocs idocs edocs udocs pdocs rdocs adocs cdocs"
    and "RunChaosWorkFlow x env c projectID wkf s = (Inr (Inr notifyID), s', sg)"
    and "foldLower (x_gjson env (rv_ExperimentManifest (hd (by_time (ex_Revision wkf)))) ''kind'') \<noteq> ''cronworkflow''"
    and "\<forall>d\<in>#rundocs s. er_NotifyID d \<noteq> Some notifyID"
    and "rq_ExperimentID event = ex_ExperimentID wkf" "rq_NotifyID event = Some notifyID"
    and "ChaosExperimentRunEvent x env' event s' = (Inr (Inr (received event)), s'')"
  shows "\<exists>r xd exec. rundocs s'' = add_mset r (rundocs s) \<and> er_ExperimentID r = ex_ExperimentID wkf \<and> er_ExperimentRunID r = rq_ExperimentRunID event \<and>
    er_NotifyID r = Some notifyID \<and> execution_of env' event = Inr (xd, exec) \<and> er_Phase r = x_Phase exec \<and> er_Completed r = rq_Completed event"
proof -
  obtain infra wf u prbs xd m y w' where
    q: "rundocs s' = add_mset (queued_run wkf projectID (rv_RevisionID (hd (by_time (ex_Revision wkf)))) notifyID u prbs xd (now_ms (g_auth (x_gql env)) 0)) (rundocs s)"
    by (rule exp_db.run_queued [OF assms(1-3)])
  let ?q = "queued_run wkf projectID (rv_RevisionID (hd (by_time (ex_Revision wkf)))) notifyID u prbs xd (now_ms (g_auth (x_gql env)) 0)"
  obtain e prbs xd exec r u n where rd: "event_read x env' event s' e prbs xd exec r u n"
    and r: "rundocs s'' = replace_mset ?q (run_update (event_run env' event e prbs xd exec r u) ?q) (rundocs s')"
    and rep: "reported event xd exec r (run_update (event_run env' event e prbs xd exec r u) ?q)"
    using exp_db.queued_reported [OF assms(1,7) exp_db.queued_alone [OF assms(1) q assms(4-6)]] by (auto simp: queued_fields)
  have "rundocs s'' = add_mset (run_update (event_run env' event e prbs xd exec r u) ?q) (rundocs s)" using r q by (simp add: replace_mset_def)
  moreover have "er_NotifyID (run_update (event_run env' event e prbs xd exec r u) ?q) = Some notifyID"
    using assms(6) by (simp add: run_update_def event_run_def queued_fields)
  ultimately show ?thesis using rep rd assms(5)
    by (intro exI [of _ "run_update (event_run env' event e prbs xd exec r u) ?q"] exI [of _ xd] exI [of _ exec]) (simp add: reported_def event_read_def)
qed

text \<open>
  C28: A run that fails sends nothing to the infrastructure and stores at most one run, which is then left queued: the transaction may be
  committed before the manifest is completed, for example when a probe the workflow refers to does not exist any more.
\<close>

theorem failed_run_sends_nothing:
  assumes "exp_db x xdocs rundocs pbdocs idocs edocs udocs pdocs rdocs adocs cdocs"
    and "RunChaosWorkFlow x env c projectID wkf s = (Inr (Inl err), s', sg)"
  shows "sg = [] \<and> (rundocs s' = rundocs s \<or> (\<exists>r. rundocs s' = add_mset r (rundocs s) \<and> er_Phase r = ''Queued'' \<and> \<not> er_Completed r \<and>
    er_ExperimentID r = ex_ExperimentID wkf \<and> er_NotifyID r = Some (new_uuid (g_auth (x_gql env)) 0)))"
proof -
  have "sg = []" using exp_db.run_careful [OF assms(1), of env c projectID wkf s] assms(2) by (simp add: careful_def)
  moreover have "rundocs s' = rundocs s \<or> (\<exists>r. queued env wkf projectID r \<and> rundocs s' = add_mset r (rundocs s))"
    using exp_db.run_runs [OF assms(1), of env wkf projectID s c] assms(2) exp_db.at_most_queued_def [OF assms(1)] by simp
  ultimately show ?thesis by (auto simp: queued_def queued_fields)
qed

text \<open>
  C29: Every fault of a workflow counts. When a workflow or a cron workflow is processed, the weights of the request that is stored name every
  engine of the manifest, whether the request gave a weight, the label of the template did, or neither.
\<close>

theorem every_fault_weighted:
  assumes "ProcessExperiment x env c request projectID revID k s = (Inr (Inr (newRequest, wfType, k')), s')"
    and "templates_of env (rx_ExperimentManifest request) ts" "t \<in> set ts" "engine_of env t meta"
  shows "\<exists>w\<in>set (rx_Weightages newRequest). w_FaultName w = ce_GenerateName meta"
  using ProcessExperiment_weights [OF assms] by auto

text \<open>
  C30: The changes \<^verbatim>\<open>GetChanges\<close> computes, from which a synchronisation starts: together with the head they are, each once, exactly the files
  under the project's directory that a commit before the known one in the log touches (any commit of the log if none is known or the known one is not in it): for a commit without parent the files it contains, for any
  other the old and the new path of every file it changes.
\<close>

theorem changed_files_exact:
  assumes "GetChanges w config s = Inr (latest, files)" "w_log w (gf_LocalPath config) s = Inr items"
  shows "distinct (map fst files) \<and> w_head w (gf_LocalPath config) s = Inr latest \<and>
    fst ` set files = {f. prefix (''litmus/'' @ gf_ProjectID config @ ''/'') f \<and>
      (\<exists>cm. Inr cm \<in> set (newer (gf_LatestCommit config) items) \<and> touches cm f)}"
proof -
  have "walk_log (gf_LatestCommit config) (''litmus/'' @ gf_ProjectID config @ ''/'') [] items = Inr files" "w_head w (gf_LocalPath config) s = Inr latest"
    using assms by (auto simp: GetChanges_def split: option.splits sum.splits)
  then show ?thesis using walk_log_keys [of "gf_LatestCommit config" _ "[]" items files] unfolding touches_files [symmetric] by auto
qed

section \<open>Witnesses\<close>

text \<open>Experiment \<^verbatim>\<open>e1\<close> is run with its probe stored, and with the probe missing.\<close>

definition launch :: "probe_doc list \<Rightarrow> (string + string) go \<times> exp_state \<times> signal list" where
  "launch ps = RunChaosWorkFlow mem_exp probe_env sample_gctx ''p1'' (sample_experiment ''e1'' []) (sample_exp_state [] [] ps)"

lemma launched: "launch [sample_probe] = (Inr (Inr ''new''), fst (snd (launch [sample_probe])), snd (snd (launch [sample_probe])))"
proof -
  have "(case fst (launch [sample_probe]) of Inr (Inr n) \<Rightarrow> n = ''new'' | _ \<Rightarrow> False)" by code_simp
  then have "fst (launch [sample_probe]) = Inr (Inr ''new'')" by (auto split: sum.splits)
  then show ?thesis by (metis prod.collapse)
qed

lemma launch_not_cron: "foldLower (x_gjson probe_env (rv_ExperimentManifest (hd (by_time (ex_Revision (sample_experiment ''e1'' []))))) ''kind'') \<noteq> ''cronworkflow''"
  by code_simp

theorem experiment_run_queued_witness:
  "(\<exists>r. mset (st_runs (fst (snd (launch [sample_probe])))) = {#r#} \<and> er_Phase r = ''Queued'' \<and> er_NotifyID r = Some ''new'' \<and> er_ExperimentID r = ''e1'') \<and>
   length (snd (snd (launch [sample_probe]))) = 1"
proof
  note q = experiment_run_queued [OF mem_exp_db launched [unfolded launch_def] launch_not_cron]
  show "\<exists>r. mset (st_runs (fst (snd (launch [sample_probe])))) = {#r#} \<and> er_Phase r = ''Queued'' \<and> er_NotifyID r = Some ''new'' \<and> er_ExperimentID r = ''e1''"
    using q [THEN conjunct2, THEN conjunct2, THEN conjunct2, THEN conjunct1]
    by (simp add: launch_def [symmetric]) (auto simp: sample_exp_state_def sample_experiment_def)
  show "length (snd (snd (launch [sample_probe]))) = 1" by code_simp
qed

definition launch_event :: experiment_run_request where
  "launch_event = (sample_event ''run1'' False)\<lparr>rq_NotifyID := Some ''new''\<rparr>"

lemma launch_event_received:
  "ChaosExperimentRunEvent mem_exp probe_env launch_event (fst (snd (launch [sample_probe]))) =
     (Inr (Inr (received launch_event)), snd (ChaosExperimentRunEvent mem_exp probe_env launch_event (fst (snd (launch [sample_probe])))))"
proof -
  have "(case fst (ChaosExperimentRunEvent mem_exp probe_env launch_event (fst (snd (launch [sample_probe])))) of
      Inr (Inr n) \<Rightarrow> n = received launch_event | _ \<Rightarrow> False)" by code_simp
  then have "fst (ChaosExperimentRunEvent mem_exp probe_env launch_event (fst (snd (launch [sample_probe])))) = Inr (Inr (received launch_event))"
    by (auto split: sum.splits)
  then show ?thesis by (metis prod.collapse)
qed

theorem queued_run_reported_witness:
  "\<exists>r. mset (st_runs (snd (ChaosExperimentRunEvent mem_exp probe_env launch_event (fst (snd (launch [sample_probe])))))) = {#r#} \<and>
     er_ExperimentRunID r = ''run1'' \<and> er_NotifyID r = Some ''new''"
proof -
  have e: "rq_ExperimentID launch_event = ex_ExperimentID (sample_experiment ''e1'' [])" "rq_NotifyID launch_event = Some ''new''"
    "rq_ExperimentRunID launch_event = ''run1''"
    by (simp_all add: launch_event_def sample_event_def sample_experiment_def)
  have "\<forall>d\<in>#mset (st_runs (sample_exp_state [] [] [sample_probe])). er_NotifyID d \<noteq> Some ''new''" by (simp add: sample_exp_state_def)
  from queued_run_reported [OF mem_exp_db launched [unfolded launch_def] launch_not_cron this e(1,2) launch_event_received [unfolded launch_def]] e(3)
  show ?thesis unfolding launch_def by (auto simp: sample_exp_state_def)
qed

theorem failed_run_sends_nothing_witness:
  "(\<exists>e. fst (launch []) = Inr (Inl e)) \<and> snd (snd (launch [])) = [] \<and> map er_Phase (st_runs (fst (snd (launch [])))) = [''Queued'']"
proof -
  have "(case fst (launch []) of Inr (Inl e) \<Rightarrow> True | _ \<Rightarrow> False)" by code_simp
  then obtain e where e: "fst (launch []) = Inr (Inl e)" by (auto split: sum.splits)
  then have "launch [] = (Inr (Inl e), fst (snd (launch [])), snd (snd (launch [])))" by (metis prod.collapse)
  from failed_run_sends_nothing [OF mem_exp_db this [unfolded launch_def]] have "snd (snd (launch [])) = []" by (simp add: launch_def)
  moreover have "map er_Phase (st_runs (fst (snd (launch [])))) = [''Queued'']" by code_simp
  ultimately show ?thesis using e by blast
qed

definition weighted_request :: experiment_request where
  "weighted_request = save_request \<lparr>sv_ID = ''e2'', sv_Type = None, sv_Name = ''exp'', sv_Description = '''', sv_Manifest = ''m'', sv_InfraID = ''infra1'', sv_Tags = []\<rparr>"

theorem every_fault_weighted_witness:
  "\<exists>rq. fst (ProcessExperiment mem_exp sample_exp_env sample_gctx weighted_request ''p1'' ''r'' 1 (sample_exp_state [] [] [sample_probe])) = Inr (Inr rq) \<and>
     (\<exists>w\<in>set (rx_Weightages (fst rq)). w_FaultName w = ''pod-delete'')"
proof -
  let ?r = "ProcessExperiment mem_exp sample_exp_env sample_gctx weighted_request ''p1'' ''r'' 1 (sample_exp_state [] [] [sample_probe])"
  have "(case fst ?r of Inr (Inr rq) \<Rightarrow> True | _ \<Rightarrow> False)" by code_simp
  then obtain rq where rq: "fst ?r = Inr (Inr rq)" by (auto split: sum.splits)
  then have r: "?r = (Inr (Inr (fst rq, fst (snd rq), snd (snd rq))), snd ?r)" by (metis prod.collapse)
  have t: "templates_of sample_exp_env (rx_ExperimentManifest weighted_request) [sample_template]"
    by (simp add: templates_of_def sample_exp_env_def sample_workflow_def) code_simp
  have e: "engine_of sample_exp_env sample_template sample_engine_doc"
    by (simp add: engine_of_def sample_exp_env_def sample_template_def raw_data_def) code_simp
  from every_fault_weighted [OF r t _ e] rq show ?thesis by (simp add: sample_engine_doc_def)
qed

definition git_sample_config :: git_config where
  "git_sample_config = GetGitOpsConfig \<lparr>gd_ProjectID = ''p1'', gd_RepositoryURL = ''http://git/a/b'', gd_Branch = ''main'', gd_LatestCommit = ''c0'',
     gd_AuthType = ''TOKEN'', gd_UserName = None, gd_Password = None, gd_Token = Some ''t'', gd_SSHPrivateKey = None\<rparr>"

definition git_sample_log :: "git_commit list" where
  "git_sample_log = [\<lparr>gm_Hash = ''c2'', gm_Content = ChangeCommit (Inr [(Some ''litmus/p1/a.yaml'', Some ''litmus/p1/b.yaml''), (None, Some ''README'')])\<rparr>,
     \<lparr>gm_Hash = ''c1'', gm_Content = ChangeCommit (Inr [(None, Some ''litmus/p1/a.yaml'')])\<rparr>, \<lparr>gm_Hash = ''c0'', gm_Content = InitialCommit (Inr [''litmus/p1/old.yaml''])\<rparr>]"

theorem changed_files_exact_witness:
  "\<exists>files. GetChanges mem_git git_sample_config ((git_sample [] [])\<lparr>st_log := git_sample_log\<rparr>) = Inr (''c0'', files) \<and> distinct (map fst files) \<and>
     fst ` set files = {''litmus/p1/a.yaml'', ''litmus/p1/b.yaml''}"
proof -
  let ?s = "(git_sample [] [])\<lparr>st_log := git_sample_log\<rparr>"
  have "GetChanges mem_git git_sample_config ?s = Inr (''c0'', [(''litmus/p1/a.yaml'', 2), (''litmus/p1/b.yaml'', 1)])" by code_simp
  moreover have "w_log mem_git (gf_LocalPath git_sample_config) ?s = Inr (map Inr git_sample_log)" by (simp add: mem_git_def)
  ultimately show ?thesis using changed_files_exact [of mem_git git_sample_config ?s] by auto
qed

end
