(* ===== verification/Gql_GitOps_Findings.thy ===== *)
theory Gql_GitOps_Findings
  imports Gql_Launch_Props
begin

text \<open>
  The settings of GitOps, and what the model shows of experiments and GitOps where the code does not do what it means to.
\<close>

section \<open>Settings\<close>

definition shown :: "string \<Rightarrow> git_config_input \<Rightarrow> git_config_response" where
  "shown projectID config =
     \<lparr>gr_Enabled = True, gr_ProjectID = projectID, gr_Branch = Some (gn_Branch config), gr_RepoURL = Some (gn_RepoURL config),
      gr_AuthType = Some (gn_AuthType config), gr_Token = (if gn_AuthType config = ''TOKEN'' then gn_Token config else None),
      gr_UserName = (if gn_AuthType config = ''BASIC'' then gn_UserName config else None),
      gr_Password = (if gn_AuthType config = ''BASIC'' then gn_Password config else None),
      gr_SSHPrivateKey = (if gn_AuthType config = ''SSH'' then gn_SSHPrivateKey config else None)\<rparr>"

lemma git_details_shown: "git_details ((GetGitConfigDB pid config)\<lparr>gd_LatestCommit := h\<rparr>) = shown pid config"
  by (simp add: git_details_def GetGitConfigDB_def shown_def)

lemma map_err_ok [simp]: "map_err f r = (Inr (Inr v), s, sg) \<longleftrightarrow> r = (Inr (Inr v), s, sg)"
  by (cases r; cases "fst r"; cases "projr (fst r)") (auto simp: map_err_def)

context git_db
begin

lemma GetGitConfig_ok: "GetGitConfig w pid s = Inr (Some d) \<Longrightarrow> d \<in># gdocs s \<and> gd_ProjectID d = pid"
  using configs.FindOne_ok [of "\<lambda>d. gd_ProjectID d = pid" s] by (auto simp: GetGitConfig_def split: sum.splits mongo_error.splits)

lemma GetGitConfig_none: "GetGitConfig w pid s = Inr None \<Longrightarrow> \<forall>d\<in>#gdocs s. gd_ProjectID d \<noteq> pid"
  using configs.FindOne_none [of "\<lambda>d. gd_ProjectID d = pid" s] by (auto simp: GetGitConfig_def split: sum.splits mongo_error.splits)

lemma enabled:
  assumes "EnableGitOpsHandler x w env c pid config s = (Inr (Inr True), s', sg)" "GetGitOpsDetails w pid s' = Inr d"
  shows "d = shown pid config"
proof -
  obtain h s1 where "AddGitConfig w ((GetGitConfigDB pid config)\<lparr>gd_LatestCommit := h\<rparr>) s1 = (None, s')"
    using assms(1) unfolding EnableGitOpsHandler_def Let_def
    by (auto split: option.splits)
  then have "InsertOne (git_configs w) ((GetGitConfigDB pid config)\<lparr>gd_LatestCommit := h\<rparr>) s1 = (None, s')"
    by (auto simp: AddGitConfig_def apfst_def map_prod_def split: prod.splits)
  from configs.InsertOne_ok [OF this]
  have ins: "gdocs s' = add_mset ((GetGitConfigDB pid config)\<lparr>gd_LatestCommit := h\<rparr>) (gdocs s1)" "\<forall>a\<in>#gdocs s1. gd_ProjectID a \<noteq> pid"
    by (auto simp: git_conflict_def GetGitConfigDB_def)
  then have "GetGitConfig w pid s' \<noteq> Inr None" using GetGitConfig_none [of pid s'] by (auto simp: GetGitConfigDB_def)
  with assms(2) obtain e where e: "GetGitConfig w pid s' = Inr (Some e)" "d = git_details e"
    by (auto simp: GetGitOpsDetails_def split: sum.splits option.splits)
  with GetGitConfig_ok [OF e(1)] ins have "e = (GetGitConfigDB pid config)\<lparr>gd_LatestCommit := h\<rparr>" by auto
  with e(2) show ?thesis by (simp add: git_details_shown)
qed

end

text \<open>
  The settings a project enables GitOps with are the ones shown afterwards: the repository, the branch, the kind of authentication and
  the credentials of that kind, and no other credentials.
\<close>

theorem gitops_settings_read_back:
  assumes "git_db x xdocs rundocs pbdocs idocs edocs udocs pdocs rdocs adocs cdocs w gdocs"
    and "EnableGitOpsHandler x w env c projectID config s = (Inr (Inr True), s', sg)"
    and "GetGitOpsDetails w projectID s' = Inr d"
  shows "gr_Enabled d \<and> gr_ProjectID d = projectID \<and> gr_Branch d = Some (gn_Branch config) \<and> gr_RepoURL d = Some (gn_RepoURL config) \<and>
    gr_AuthType d = Some (gn_AuthType config) \<and>
    (gr_Token d = (if gn_AuthType config = ''TOKEN'' then gn_Token config else None)) \<and>
    (gr_UserName d = (if gn_AuthType config = ''BASIC'' then gn_UserName config else None)) \<and>
    (gr_Password d = (if gn_AuthType config = ''BASIC'' then gn_Password config else None)) \<and>
    (gr_SSHPrivateKey d = (if gn_AuthType config = ''SSH'' then gn_SSHPrivateKey config else None))"
  using git_db.enabled [OF assms] by (simp add: shown_def)

definition sample_git_input :: git_config_input where
  "sample_git_input = \<lparr>gn_Branch = ''main'', gn_RepoURL = ''https://git/a/b.git'', gn_AuthType = ''TOKEN'', gn_Token = Some ''t'', gn_UserName = None,
     gn_Password = Some ''pw'', gn_SSHPrivateKey = None\<rparr>"

definition sample_enabled :: "(string + bool) go \<times> git_state \<times> signal list" where
  "sample_enabled = EnableGitOpsHandler mem_exp mem_git sample_exp_env sample_gctx ''p1'' sample_git_input (git_sample [] [])"

theorem gitops_settings_read_back_witness:
  "\<exists>d. GetGitOpsDetails mem_git ''p1'' (fst (snd sample_enabled)) = Inr d \<and> gr_Token d = Some ''t'' \<and> gr_Password d = None"
proof -
  have "(case fst sample_enabled of Inr (Inr b) \<Rightarrow> b | _ \<Rightarrow> False)" by code_simp
  then have "fst sample_enabled = Inr (Inr True)" by (auto split: sum.splits)
  then have e: "sample_enabled = (Inr (Inr True), fst (snd sample_enabled), snd (snd sample_enabled))" by (metis prod.collapse)
  have "\<not> isl (GetGitOpsDetails mem_git ''p1'' (fst (snd sample_enabled)))" by code_simp
  then obtain d where d: "GetGitOpsDetails mem_git ''p1'' (fst (snd sample_enabled)) = Inr d" by (metis sum.collapse(2))
  from gitops_settings_read_back [OF mem_git_db e [unfolded sample_enabled_def] d [unfolded sample_enabled_def]] d show ?thesis
    by (auto simp: sample_git_input_def)
qed

section \<open>Findings on GitOps\<close>

text \<open>The address of a repository without a colon or slash makes the lock panic.\<close>

lemma enable_panics:
  "fst (EnableGitOpsHandler x w env c pid (config\<lparr>gn_RepoURL := ''repository''\<rparr>) s) = Inl SliceBounds"
proof -
  have "getKey ''repository'' (Some b) = Inl SliceBounds" for b by (simp add: getKey_def) code_simp
  then show ?thesis by (simp add: EnableGitOpsHandler_def lock_repository_def sbind_def quiet_def lift_go_def)
qed

text \<open>A file that was deleted in the repository never deletes its experiment.\<close>

context exp_db
begin

lemma deleted_file_ignored: "fst (snd (deleteExperiment x env file config s)) = s" "\<not> (\<exists>u. fst (deleteExperiment x env file config s) = Inr (Inr u))"
  using experiments.FindOne_ok [of "\<lambda>e. False" s] by (auto simp: deleteExperiment_def op_GetExperiment_def split: sum.splits)

end

text \<open>A cron workflow in the repository is skipped: its kind is not among those that are looked for.\<close>

lemma cron_file_skipped:
  assumes "w_stat w (gf_LocalPath config @ ''/'' @ file) s = None" "w_read w (gf_LocalPath config @ ''/'' @ file) s = Inr t" "w_yaml_json w t = Inr data"
    and "x_gjson env data ''kind'' = ''CronWorkflow''"
  shows "sync_file x w env c config file s = (Inr (Inr False), s, [])"
proof -
  have "foldLower ''CronWorkflow'' = ''cronworkflow''" by code_simp
  then show ?thesis using assms by (simp add: sync_file_def PathExists_def)
qed

text \<open>A new file gives a second experiment of the same name: the synchronisation has no check for it.\<close>

definition named_env :: exp_env where
  "named_env = sample_exp_env\<lparr>x_gjson := (\<lambda>m p. if p = ''kind'' then ''Workflow'' else if p = ''metadata.name'' then ''exp''
     else if p = ''metadata.labels.infra_id'' then ''infra1'' else '''')\<rparr>"

lemma git_duplicates_names:
  "map (\<lambda>e. (ex_ProjectID e, ex_Name e, ex_IsRemoved e)) (st_experiments (fst (snd (createExperiment mem_exp mem_git named_env backgroundContext ''m'' ''exp.yaml'' git_sample_config
     ((git_sample [] [])\<lparr>st_experiments := [(sample_experiment ''e1'' [])\<lparr>ex_Name := ''exp''\<rparr>]\<rparr>))))) = [(''p1'', ''exp'', False), (''p1'', ''exp'', False)]"
  by code_simp

section \<open>Findings on experiments\<close>

text \<open>The experiment to run is looked up in all projects: an executor of one project runs an experiment of another.\<close>

definition foreign_state :: exp_state where
  "foreign_state = (sample_exp_state [] [] [sample_probe])\<lparr>st_experiments := [(sample_experiment ''e1'' [])\<lparr>ex_ProjectID := ''p9''\<rparr>]\<rparr>"

lemma foreign_experiment_runs:
  "(case r_RunChaosExperiment mem_exp probe_env sample_gctx ''e1'' ''p1'' foreign_state of
      (Inr (Inr n), s, sg) \<Rightarrow> map (\<lambda>r. (er_ExperimentID r, er_ProjectID r)) (st_runs s) = [(''e1'', ''p1'')] \<and> length sg = 1 | _ \<Rightarrow> False)"
  by code_simp

text \<open>A save without an identifier is acknowledged as an update, but nothing is stored.\<close>

lemma save_without_id:
  "(case SaveChaosExperiment mem_exp sample_exp_env (git_service_of mem_exp mem_git (\<lambda>i. sample_exp_env)) sample_gctx
      \<lparr>sv_ID = '''', sv_Type = None, sv_Name = ''exp'', sv_Description = '''', sv_Manifest = ''m'', sv_InfraID = ''infra1'', sv_Tags = []\<rparr> ''p1'' ''ann'' (git_sample [] []) of
      (Inr (Inr m), s, sg) \<Rightarrow> m = ''experiment updated successfully with ID '' \<and> map ex_ExperimentID (st_experiments s) = [''e1''] | _ \<Rightarrow> False)"
  by code_simp

text \<open>An update of an experiment that does not exist is acknowledged and sent; without an identifier it panics when the name is taken.\<close>

lemma update_unknown:
  "(case UpdateChaosExperiment mem_exp sample_exp_env (git_service_of mem_exp mem_git (\<lambda>i. sample_exp_env)) sample_gctx
      (weighted_request\<lparr>rx_ExperimentID := Some ''nowhere''\<rparr>) ''p1'' ''ann'' (git_sample [] []) of
      (Inr (Inr m), s, sg) \<Rightarrow> map ex_ExperimentID (st_experiments s) = [''e1''] \<and> length sg = 1 | _ \<Rightarrow> False)"
  by code_simp

lemma update_without_id:
  "fst (UpdateChaosExperiment mem_exp sample_exp_env (git_service_of mem_exp mem_git (\<lambda>i. sample_exp_env)) sample_gctx
      (weighted_request\<lparr>rx_ExperimentID := None, rx_ExperimentName := ''e1''\<rparr>) ''p1'' ''ann'' (git_sample [] [])) = Inl NilDereference"
proof -
  have "(case fst (UpdateChaosExperiment mem_exp sample_exp_env (git_service_of mem_exp mem_git (\<lambda>i. sample_exp_env)) sample_gctx
      (weighted_request\<lparr>rx_ExperimentID := None, rx_ExperimentName := ''e1''\<rparr>) ''p1'' ''ann'' (git_sample [] [])) of Inl NilDereference \<Rightarrow> True | _ \<Rightarrow> False)"
    by code_simp
  then show ?thesis by (auto split: sum.splits go_panic.splits)
qed

text \<open>A creation that names an existing experiment never succeeds: it ends with the duplicate key, after the probes were stored and the file was pushed.\<close>

context git_db
begin

lemma create_existing_fails:
  assumes "rx_ExperimentID rq = Some i" "i \<noteq> ''''" "gdocs s = {#}"
  shows "fst (CreateChaosExperiment x env (git_service_of x w envs) c rq pid u s) \<noteq> Inr (Inr v)"
proof
  assume "fst (CreateChaosExperiment x env (git_service_of x w envs) c rq pid u s) = Inr (Inr v)"
  then obtain s' sg where "CreateChaosExperiment x env (git_service_of x w envs) c rq pid u s = (Inr (Inr v), s', sg)" by (metis prod.collapse)
  then obtain rq' t k s1 s2 sg2 sg3 where c: "creation_check x env rq pid s = Inr rq" and p: "ProcessExperiment x env c rq pid (new_uuid (g_auth (x_gql env)) 0) 2 s = (Inr (Inr (rq', t, k)), s1)"
    and up: "git_UpsertExperimentToGit x w envs c pid rq' s1 = (Inr (Inr ()), s2, sg2)"
    and cr: "ProcessExperimentCreation x (later k env) rq' u pid t (new_uuid (g_auth (x_gql env)) 0) False s2 = (Inr (Inr ()), s', sg3)"
    using assms(1) by (auto simp: CreateChaosExperiment_def Let_def git_service_of_def creation_check_def split: sum.splits if_splits)
  have "probe_closed x (\<lambda>s'. gdocs s' = gdocs s)" by (rule probe_closedI) (simp add: pg.InsertOne_rest)
  then have "gdocs s1 = {#}" using oendsI [OF ProcessExperiment_keeps [of x "\<lambda>s'. gdocs s' = gdocs s" s] p] assms(3) by simp
  then have s2: "s2 = s1" using upsert_disabled(1) [of s1 envs c pid rq'] up by simp
  let ?q = "\<lambda>e. ex_ExperimentID e = i \<and> ex_ProjectID e = pid \<and> \<not> ex_IsRemoved e"
  obtain e where "FindOne (experiments x) ?q s = Inr e"
    using c assms(1) by (auto simp: creation_check_def op_GetExperiment_def split: sum.splits)
  from experiments.FindOne_ok [OF this] have "e \<in># xdocs s" "ex_ExperimentID e = i" by auto
  moreover have "rx_ExperimentID rq' = Some i" "xdocs s1 = xdocs s" using processed(1,4) [OF p] assms(1,2) by auto
  ultimately show False using creation_cases(2) [OF cr] unfolding s2 by simp
qed

end

end
