(* ===== verification/Go_Path.thy ===== *)
theory Go_Path
  imports Go_Strings
begin

text \<open>
  The lexical part of Go's \<^verbatim>\<open>path/filepath\<close> on Unix: \<^verbatim>\<open>Clean\<close>, \<^verbatim>\<open>Join\<close> and \<^verbatim>\<open>Dir\<close>, and what a cleaned path that starts with a
  cleaned directory and a separator is: a path strictly below that directory.
\<close>

section \<open>Clean, Join and Dir\<close>

text \<open>The elements kept so far are reversed. A \<^verbatim>\<open>..\<close> removes the last of them; at the root it is dropped.\<close>

fun clean_elements :: "bool \<Rightarrow> string list \<Rightarrow> string list \<Rightarrow> string list" where
  "clean_elements rooted out [] = rev out"
| "clean_elements rooted out (x # xs) =
     (if x = '''' \<or> x = ''.'' then clean_elements rooted out xs
      else if x = ''..'' then
        (case out of
           [] \<Rightarrow> clean_elements rooted (if rooted then [] else [''..'']) xs
         | y # ys \<Rightarrow> if y = ''..'' then clean_elements rooted (''..'' # out) xs else clean_elements rooted ys xs)
      else clean_elements rooted (x # out) xs)"

definition path_clean :: "string \<Rightarrow> string" where
  "path_clean p =
     (let rooted = prefix ''/'' p; t = go_join ''/'' (clean_elements rooted [] (go_split p ''/'')) in
      if rooted then ''/'' @ t else if t = '''' then ''.'' else t)"

definition path_join :: "string list \<Rightarrow> string" where
  "path_join xs = (let ys = dropWhile (\<lambda>x. x = '''') xs in if ys = [] then '''' else path_clean (go_join ''/'' ys))"

definition path_dir :: "string \<Rightarrow> string" where
  "path_dir p = path_clean (rev (dropWhile (\<lambda>c. c \<noteq> CHR ''/'') (rev p)))"

section \<open>Elements of a path\<close>

definition path_element :: "string \<Rightarrow> bool" where
  "path_element x \<longleftrightarrow> x \<noteq> '''' \<and> x \<noteq> ''.'' \<and> x \<noteq> ''..'' \<and> CHR ''/'' \<notin> set x"

definition below :: "string \<Rightarrow> string \<Rightarrow> bool" where
  "below dir p \<longleftrightarrow> (\<exists>ys. ys \<noteq> [] \<and> list_all path_element ys \<and> p = dir @ ''/'' @ go_join ''/'' ys)"

lemma go_join_Cons: "xs \<noteq> [] \<Longrightarrow> go_join sep (x # xs) = x @ sep @ go_join sep xs"
  by (cases xs) simp_all

lemma go_join_append: "xs \<noteq> [] \<Longrightarrow> ys \<noteq> [] \<Longrightarrow> go_join sep (xs @ ys) = go_join sep xs @ sep @ go_join sep ys"
proof (induction xs)
  case (Cons x xs)
  then show ?case by (cases "xs = []") (simp_all add: go_join_Cons)
qed simp

lemma split_on_slash:
  "split_on ''/'' acc (c # cs) = (if c = CHR ''/'' then rev acc # split_on ''/'' [] cs else split_on ''/'' (c # acc) cs)"
  by (auto simp: prefix_def)

lemma split_on_noslash: "CHR ''/'' \<notin> set acc \<Longrightarrow> list_all (\<lambda>x. CHR ''/'' \<notin> set x) (split_on ''/'' acc p)"
  by (induction p arbitrary: acc) (auto simp: split_on_slash simp del: split_on.simps(2))

lemma split_nonempty [simp]: "go_split p ''/'' \<noteq> []"
proof -
  have "split_on ''/'' acc p \<noteq> []" for acc by (induction p arbitrary: acc) (auto simp: split_on_slash simp del: split_on.simps(2))
  then show ?thesis by (simp add: go_split_def)
qed

lemma split_noslash: "list_all (\<lambda>x. CHR ''/'' \<notin> set x) (go_split p ''/'')"
  by (simp add: go_split_def split_on_noslash)

lemma join_split: "go_join ''/'' (go_split p ''/'') = p"
proof -
  have "split_on ''/'' acc p \<noteq> [] \<and> go_join ''/'' (split_on ''/'' acc p) = rev acc @ p" for acc
    by (induction p arbitrary: acc) (auto simp: split_on_slash go_join_Cons simp del: split_on.simps(2))
  then show ?thesis by (simp add: go_split_def)
qed

lemma split_slash: "CHR ''/'' \<notin> set x \<Longrightarrow> go_split (x @ ''/'' @ t) ''/'' = x # go_split t ''/''"
  using split_on_append [of "''/''" "CHR ''/''" "[]" x "[]" t] by (simp add: go_split_def)

lemma split_join_append:
  "xs \<noteq> [] \<Longrightarrow> list_all (\<lambda>x. CHR ''/'' \<notin> set x) xs \<Longrightarrow> go_split (go_join ''/'' xs @ ''/'' @ t) ''/'' = xs @ go_split t ''/''"
proof (induction xs)
  case (Cons x xs)
  show ?case
  proof (cases "xs = []")
    case True
    with Cons.prems show ?thesis using split_slash [of x t] by simp
  next
    case False
    with Cons have "go_split (go_join ''/'' xs @ ''/'' @ t) ''/'' = xs @ go_split t ''/''" by simp
    with False Cons.prems show ?thesis using split_slash [of x "go_join ''/'' xs @ ''/'' @ t"] by (simp add: go_join_Cons)
  qed
qed simp

lemma split_join:
  assumes "xs \<noteq> []" "list_all (\<lambda>x. CHR ''/'' \<notin> set x) xs"
  shows "go_split (go_join ''/'' xs) ''/'' = xs"
proof -
  obtain ys x where xs: "xs = ys @ [x]" using assms(1) by (metis rev_exhaust)
  have x: "go_split x ''/'' = [x]" using assms(2) split_on_nosep [of "CHR ''/''" "''/''" x "[]"] by (simp add: xs go_split_def)
  show ?thesis
  proof (cases "ys = []")
    case False
    then show ?thesis using split_join_append [of ys x] assms(2) x by (simp add: xs go_join_append)
  qed (simp add: xs x)
qed

section \<open>Cleaned paths\<close>

lemma clean_elements_ok:
  assumes "list_all (\<lambda>x. CHR ''/'' \<notin> set x) xs" "list_all path_element out"
  shows "list_all path_element (clean_elements True out xs)"
  using assms
proof (induction "True" out xs rule: clean_elements.induct)
  case (1 out)
  then show ?case by (simp add: list_all_iff)
next
  case (2 out x xs)
  then show ?case by (auto simp: path_element_def split: list.splits)
qed

lemma clean_elements_id:
  "list_all path_element xs \<Longrightarrow> clean_elements True out (xs @ ys) = clean_elements True (rev xs @ out) ys"
  by (induction xs arbitrary: out) (auto simp: path_element_def)

lemma path_clean_rooted: "\<exists>xs. list_all path_element xs \<and> path_clean (''/'' @ p) = ''/'' @ go_join ''/'' xs"
proof (intro exI conjI)
  show "list_all path_element (clean_elements True [] (go_split (''/'' @ p) ''/''))" by (rule clean_elements_ok [OF split_noslash]) simp
qed (simp add: path_clean_def Let_def)

lemma elements_noslash: "list_all path_element xs \<Longrightarrow> list_all (\<lambda>x. CHR ''/'' \<notin> set x) xs"
  by (auto simp: list_all_iff path_element_def)

text \<open>A rooted path that was cleaned and starts with a cleaned directory and a separator is strictly below the directory.\<close>

lemma clean_prefix_below:
  assumes "path_clean (''/'' @ p) = q" "path_clean (''/'' @ d) = dir" "prefix (dir @ ''/'') q"
  shows "below dir q" "dir \<noteq> ''/''"
proof -
  obtain bs where bs: "list_all path_element bs" "q = ''/'' @ go_join ''/'' bs" using path_clean_rooted [of p] assms(1) by auto
  obtain as where as: "list_all path_element as" "dir = ''/'' @ go_join ''/'' as" using path_clean_rooted [of d] assms(2) by auto
  obtain t where t: "go_join ''/'' bs = go_join ''/'' as @ ''/'' @ t" using assms(3) bs(2) as(2) by (auto simp: prefix_def)
  then have "bs \<noteq> []" by auto
  then have split: "go_split (go_join ''/'' as @ ''/'' @ t) ''/'' = bs" using split_join [OF _ elements_noslash [OF bs(1)]] t by simp
  have ne: "as \<noteq> []"
  proof
    assume "as = []"
    then have "go_split (''/'' @ t) ''/'' = bs" using split by simp
    then have "'''' \<in> set bs" using split_slash [of "''''" t] by auto
    then show False using bs(1) by (auto simp: list_all_iff path_element_def)
  qed
  then have "bs = as @ go_split t ''/''" using split split_join_append [OF _ elements_noslash [OF as(1)], of t] by simp
  then show "below dir q" using bs as join_split [of t] t by (auto simp: below_def intro!: exI [of _ "go_split t ''/''"])
  obtain a as' where "as = a # as'" "a \<noteq> ''''" using ne as(1) by (cases as) (auto simp: path_element_def)
  then show "dir \<noteq> ''/''" using as(2) by (cases as') auto
qed

text \<open>The directory of a path below a cleaned directory is that directory or below it.\<close>

lemma dropWhile_last_element:
  assumes "CHR ''/'' \<notin> set x"
  shows "rev (dropWhile (\<lambda>c. c \<noteq> CHR ''/'') (rev (p @ ''/'' @ x))) = p @ ''/''"
proof -
  have "dropWhile (\<lambda>c. c \<noteq> CHR ''/'') (rev x @ CHR ''/'' # rev p) = CHR ''/'' # rev p"
    using assms by (subst dropWhile_append2) auto
  then show ?thesis by simp
qed

lemma path_dir_below:
  assumes "below dir p" "path_clean (''/'' @ d) = dir" "dir \<noteq> ''/''"
  shows "path_dir p = dir \<or> below dir (path_dir p)"
proof -
  obtain as where as: "list_all path_element as" "dir = ''/'' @ go_join ''/'' as" using path_clean_rooted [of d] assms(2) by auto
  obtain ys y where ys: "list_all path_element (ys @ [y])" "p = dir @ ''/'' @ go_join ''/'' (ys @ [y])"
    using assms(1) by (metis below_def rev_exhaust)
  have ne: "as \<noteq> []" using assms(3) as(2) by auto
  let ?e = "if ys = [] then '''' else go_join ''/'' ys @ ''/''"
  have y: "CHR ''/'' \<notin> set y" using ys(1) by (simp add: path_element_def)
  have "rev (dropWhile (\<lambda>c. c \<noteq> CHR ''/'') (rev p)) = dir @ ''/'' @ ?e"
  proof (cases "ys = []")
    case True
    then show ?thesis using dropWhile_last_element [OF y, of dir] by (simp add: ys(2))
  next
    case False
    then show ?thesis using dropWhile_last_element [OF y, of "dir @ ''/'' @ go_join ''/'' ys"] by (simp add: ys(2) go_join_append)
  qed
  then have d: "path_dir p = path_clean (''/'' @ go_join ''/'' as @ ''/'' @ ?e)" by (simp add: path_dir_def as(2))
  have ws: "list_all path_element ys" using ys(1) by simp
  have "go_split ?e ''/'' = ys @ ['''']"
    using split_join_append [OF _ elements_noslash [OF ws], of "''''"] by (auto simp: go_split_def)
  then have "go_split (''/'' @ go_join ''/'' as @ ''/'' @ ?e) ''/'' = '''' # as @ ys @ ['''']"
    using split_slash [of "''''" "go_join ''/'' as @ ''/'' @ ?e"] split_join_append [OF ne elements_noslash [OF as(1)], of ?e] by simp
  moreover have "clean_elements True [] ('''' # as @ ys @ ['''']) = as @ ys"
    using clean_elements_id [OF as(1), of "[]" "ys @ ['''']"] clean_elements_id [OF ws, of "rev as" "['''']"] by simp
  ultimately have "path_dir p = ''/'' @ go_join ''/'' (as @ ys)" by (simp add: d path_clean_def Let_def)
  then show ?thesis using ws ne by (cases "ys = []") (auto simp: below_def as(2) go_join_append)
qed

end
