(* ===== verification/Gql_Hubs.thy ===== *)
theory Gql_Hubs
  imports Gql_GitOps Go_Path
begin

text \<open>
  Chaos hubs: the documents and their database operations, the git operations of \<^verbatim>\<open>pkg/chaoshub/ops\<close>, the charts and downloaded archives
  of \<^verbatim>\<open>pkg/chaoshub/handler\<close>, the service \<^verbatim>\<open>pkg/chaoshub/service.go\<close> and its resolvers. The driver, the file system, the git and
  archive libraries and the network are the record \<^verbatim>\<open>hub_world\<close>. Log lines are left out.
\<close>

section \<open>Documents and requests\<close>

record chaos_hub =
  hb_ID :: string
  hb_ProjectID :: string
  hb_Name :: string
  hb_Description :: string
  hb_Tags :: "string list"
  hb_CreatedAt :: int
  hb_UpdatedAt :: int
  hb_CreatedBy :: string
  hb_UpdatedBy :: string
  hb_IsRemoved :: bool
  hb_RepoURL :: string
  hb_RepoBranch :: string
  hb_RemoteHub :: string
  hb_IsPrivate :: bool
  hb_AuthType :: string
  hb_HubType :: string
  hb_Token :: "string option"
  hb_UserName :: "string option"
  hb_Password :: "string option"
  hb_SSHPrivateKey :: "string option"
  hb_SSHPublicKey :: "string option"
  hb_LastSyncedAt :: int
  hb_IsDefault :: bool

record create_hub_request =
  kr_Name :: string
  kr_Tags :: "string list"
  kr_Description :: "string option"
  kr_RepoURL :: string
  kr_RepoBranch :: string
  kr_RemoteHub :: string
  kr_IsPrivate :: bool
  kr_AuthType :: string
  kr_Token :: "string option"
  kr_UserName :: "string option"
  kr_Password :: "string option"
  kr_SSHPrivateKey :: "string option"
  kr_SSHPublicKey :: "string option"

record update_hub_request = create_hub_request +
  kr_ID :: string

record remote_hub_request =
  rh_Name :: string
  rh_Tags :: "string list"
  rh_Description :: "string option"
  rh_RepoURL :: string
  rh_RemoteHub :: string

record cloning_input =
  cn_Name :: string
  cn_RepoBranch :: string
  cn_RepoURL :: string
  cn_RemoteHub :: string
  cn_IsPrivate :: bool
  cn_AuthType :: string
  cn_Token :: "string option"
  cn_UserName :: "string option"
  cn_Password :: "string option"
  cn_SSHPrivateKey :: "string option"
  cn_IsDefault :: bool

text \<open>\<^verbatim>\<open>model.ChaosHub\<close>, the answer of most requests. Of the user details only the name is ever set.\<close>

record hub_view =
  hv_ID :: string
  hv_RepoURL :: string
  hv_RepoBranch :: string
  hv_RemoteHub :: string
  hv_ProjectID :: string
  hv_IsDefault :: bool
  hv_Name :: string
  hv_Tags :: "string list"
  hv_CreatedBy :: "string option"
  hv_UpdatedBy :: "string option"
  hv_Description :: "string option"
  hv_HubType :: string
  hv_IsPrivate :: bool
  hv_AuthType :: string
  hv_Token :: "string option"
  hv_UserName :: "string option"
  hv_Password :: "string option"
  hv_SSHPrivateKey :: "string option"
  hv_IsRemoved :: bool
  hv_CreatedAt :: string
  hv_UpdatedAt :: string
  hv_LastSyncedAt :: string

section \<open>Charts, archives and downloads\<close>

record chart_fault =
  cf_Name :: string
  cf_DisplayName :: string
  cf_Description :: string
  cf_Plan :: "string list"

record chart_annotation =
  ca_Categories :: string
  ca_Vendor :: string
  ca_CreatedAt :: string
  ca_Repository :: string
  ca_Support :: string
  ca_ChartDescription :: string

text \<open>Maintainers are name and address, links name and URL.\<close>

record chart_spec =
  cs_DisplayName :: string
  cs_CategoryDescription :: string
  cs_Plan :: "string list"
  cs_Keywords :: "string list"
  cs_Maturity :: string
  cs_Maintainers :: "(string \<times> string) list"
  cs_MinKubeVersion :: string
  cs_Scenarios :: "string list"
  cs_Provider :: string
  cs_Links :: "(string \<times> string) list"
  cs_Experiments :: "string list"
  cs_Faults :: "chart_fault list"
  cs_ChaosExpCRDLink :: string
  cs_Platforms :: "string list"
  cs_ChaosType :: string

text \<open>The experiments of the package are name, file and description.\<close>

record chaos_chart =
  cc_APIVersion :: string
  cc_Kind :: string
  cc_Name :: string
  cc_Version :: string
  cc_Annotations :: chart_annotation
  cc_Spec :: chart_spec
  cc_PackageName :: string
  cc_PackageExperiments :: "(string \<times> string \<times> string) list"

text \<open>An entry of an archive: its name, whether it is a directory, and its content or the error of opening it.\<close>

record zip_entry =
  ze_Name :: string
  ze_IsDir :: bool
  ze_Open :: "string + (string + string)"

text \<open>The answer to a download; its body is read to the end or fails.\<close>

record http_answer =
  hr_StatusCode :: int
  hr_Status :: string
  hr_ContentLength :: string
  hr_ContentType :: string
  hr_Body :: "string + string"

text \<open>
  \<^verbatim>\<open>hw_copy\<close> copies a stream to an open file; \<^verbatim>\<open>hw_chart\<close> is what the YAML decoder leaves in the chart, whether it reports an error or not,
  and \<^verbatim>\<open>hw_no_chart\<close> the zero value; \<^verbatim>\<open>hw_copy_hub\<close> is the \<^verbatim>\<open>copier\<close> package. A reference is a branch or a tag. \<^verbatim>\<open>hw_open\<close>, \<^verbatim>\<open>hw_worktree\<close> and
  \<^verbatim>\<open>hw_head\<close> give the error of opening a repository, its working tree and its head.
\<close>

datatype git_reference = BranchReference string | TagReference string

record 's hub_world =
  hubs :: "('s, chaos_hub) collection"
  hw_stat :: "string \<Rightarrow> 's \<Rightarrow> file_error option"
  hw_read :: "string \<Rightarrow> 's \<Rightarrow> string + string"
  hw_read_dir :: "string \<Rightarrow> 's \<Rightarrow> string + string list"
  hw_remove_all :: "string \<Rightarrow> 's \<Rightarrow> string option \<times> 's"
  hw_remove :: "string \<Rightarrow> 's \<Rightarrow> string option \<times> 's"
  hw_mkdir :: "string \<Rightarrow> 's \<Rightarrow> string option \<times> 's"
  hw_create :: "string \<Rightarrow> 's \<Rightarrow> string option \<times> 's"
  hw_copy :: "string \<Rightarrow> string + string \<Rightarrow> 's \<Rightarrow> string option \<times> 's"
  hw_clone :: "string \<Rightarrow> git_auth \<Rightarrow> string \<Rightarrow> git_reference \<Rightarrow> 's \<Rightarrow> string option \<times> 's"
  hw_open :: "string \<Rightarrow> 's \<Rightarrow> string option"
  hw_worktree :: "string \<Rightarrow> 's \<Rightarrow> string option"
  hw_head :: "string \<Rightarrow> 's \<Rightarrow> string option"
  hw_pull :: "string \<Rightarrow> git_auth \<Rightarrow> git_reference \<Rightarrow> 's \<Rightarrow> git_error option \<times> 's"
  hw_get :: "string \<Rightarrow> string + http_answer"
  hw_sanitize :: "string \<Rightarrow> string"
  hw_zip :: "string \<Rightarrow> 's \<Rightarrow> string + zip_entry list"
  hw_ssh :: "string \<Rightarrow> string + unit"
  hw_chart :: "string \<Rightarrow> chaos_chart"
  hw_no_chart :: chaos_chart
  hw_copy_hub :: "update_hub_request \<Rightarrow> hub_view"
  hw_GitUsername :: string
  hw_RemoteHubMaxSize :: string
  hw_DefaultHubName :: string
  hw_DefaultHubGitURL :: string
  hw_DefaultHubBranchName :: string
  hw_DefaultHubIsPrivate :: bool
  hw_DefaultHubAuthType :: string
  hw_DefaultHubToken :: string
  hw_DefaultHubUserName :: string
  hw_DefaultHubPassword :: string
  hw_DefaultHubSshPrivateKey :: string
  hw_CustomChaosHubPath :: string
  hw_DefaultChaosHubPath :: string

section \<open>Hubs in the database\<close>

definition CreateChaosHub :: "'s hub_world \<Rightarrow> chaos_hub \<Rightarrow> 's \<Rightarrow> string option \<times> 's" where
  "CreateChaosHub h hub s = apfst (map_option (\<lambda>e. ''error creating chaoshub : '' @ driver_text e)) (InsertOne (hubs h) hub s)"

definition GetChaosHubByProjectID :: "'s hub_world \<Rightarrow> string \<Rightarrow> 's \<Rightarrow> string + chaos_hub list" where
  "GetChaosHubByProjectID h projectID s =
     map_sum (\<lambda>e. ''error getting chaoshubs : '' @ driver_text e) id
       (Find (hubs h) (\<lambda>d. hb_ProjectID d = projectID \<and> \<not> hb_IsRemoved d) s)"

definition GetHubs :: "'s hub_world \<Rightarrow> 's \<Rightarrow> string + chaos_hub list" where
  "GetHubs h s = map_sum (\<lambda>e. ''error getting chaosHubs: '' @ driver_text e) id (Find (hubs h) (\<lambda>_. True) s)"

definition GetHubByID :: "'s hub_world \<Rightarrow> string \<Rightarrow> string \<Rightarrow> 's \<Rightarrow> string + chaos_hub" where
  "GetHubByID h hubID projectID s =
     map_sum driver_text id (FindOne (hubs h) (\<lambda>d. hb_ID d = hubID \<and> hb_ProjectID d = projectID) s)"

definition op_UpdateChaosHub :: "'s hub_world \<Rightarrow> (chaos_hub \<Rightarrow> bool) \<Rightarrow> (chaos_hub \<Rightarrow> chaos_hub) \<Rightarrow> 's \<Rightarrow> string option \<times> 's" where
  "op_UpdateChaosHub h query update s =
     (case UpdateOne (hubs h) query (Some update) s of
        (Inl e, s') \<Rightarrow> (Some (driver_text e), s')
      | (Inr n, s') \<Rightarrow> (if n = 0 then Some ''ChaosHub collection query didn't match'' else None, s'))"

definition GetAggregateChaosHubs :: "'s hub_world \<Rightarrow> chaos_hub stage list \<Rightarrow> 's \<Rightarrow> string + chaos_hub list" where
  "GetAggregateChaosHubs h stages s =
     map_sum (\<lambda>e. ''error on getting the chaos hubs : '' @ driver_text e) id (Aggregate (hubs h) stages s)"

definition GetOutputChaosHub :: "chaos_hub \<Rightarrow> hub_view" where
  "GetOutputChaosHub d =
     \<lparr>hv_ID = hb_ID d, hv_RepoURL = hb_RepoURL d, hv_RepoBranch = hb_RepoBranch d, hv_RemoteHub = hb_RemoteHub d, hv_ProjectID = hb_ProjectID d,
      hv_IsDefault = hb_IsDefault d, hv_Name = hb_Name d, hv_Tags = hb_Tags d, hv_CreatedBy = None, hv_UpdatedBy = None,
      hv_Description = Some (hb_Description d), hv_HubType = hb_HubType d, hv_IsPrivate = hb_IsPrivate d, hv_AuthType = hb_AuthType d,
      hv_Token = hb_Token d, hv_UserName = hb_UserName d, hv_Password = hb_Password d, hv_SSHPrivateKey = hb_SSHPrivateKey d,
      hv_IsRemoved = hb_IsRemoved d, hv_CreatedAt = itoa (hb_CreatedAt d), hv_UpdatedAt = itoa (hb_UpdatedAt d),
      hv_LastSyncedAt = itoa (hb_LastSyncedAt d)\<rparr>"

section \<open>Git operations\<close>

text \<open>The remote is always \<^verbatim>\<open>origin\<close>, and the commits of the configuration are never read.\<close>

record chaos_hub_config =
  hc_ProjectID :: string
  hc_RepositoryURL :: string
  hc_HubName :: string
  hc_Branch :: string
  hc_IsPrivate :: bool
  hc_IsDefault :: bool
  hc_UserName :: "string option"
  hc_Password :: "string option"
  hc_AuthType :: string
  hc_Token :: "string option"
  hc_SSHPrivateKey :: "string option"

definition GetClonePath :: "chaos_hub_config \<Rightarrow> string" where
  "GetClonePath c = (if hc_IsDefault c then ''/tmp/default/'' @ hc_HubName c else ''/tmp/'' @ hc_ProjectID c @ ''/'' @ hc_HubName c)"

definition GitConfigConstruct :: "cloning_input \<Rightarrow> string \<Rightarrow> chaos_hub_config" where
  "GitConfigConstruct inp projectID =
     \<lparr>hc_ProjectID = projectID, hc_RepositoryURL = cn_RepoURL inp, hc_HubName = cn_Name inp, hc_Branch = cn_RepoBranch inp,
      hc_IsPrivate = cn_IsPrivate inp, hc_IsDefault = cn_IsDefault inp, hc_UserName = cn_UserName inp, hc_Password = cn_Password inp,
      hc_AuthType = cn_AuthType inp, hc_Token = cn_Token inp, hc_SSHPrivateKey = cn_SSHPrivateKey inp\<rparr>"

text \<open>The access to a private repository; other kinds of authentication leave it out.\<close>

definition generateAuthMethod :: "'s hub_world \<Rightarrow> chaos_hub_config \<Rightarrow> (string + git_auth) go" where
  "generateAuthMethod h c =
     (if hc_AuthType c = ''TOKEN'' then
        (case hc_Token c of None \<Rightarrow> Inl NilDereference | Some t \<Rightarrow> Inr (Inr (BasicAuth (hw_GitUsername h) t)))
      else if hc_AuthType c = ''BASIC'' then
        (case (hc_UserName c, hc_Password c) of (Some u, Some p) \<Rightarrow> Inr (Inr (BasicAuth u p)) | _ \<Rightarrow> Inl NilDereference)
      else if hc_AuthType c = ''SSH'' then
        (case hc_SSHPrivateKey c of
           None \<Rightarrow> Inl NilDereference
         | Some k \<Rightarrow> Inr (case hw_ssh h k of Inl e \<Rightarrow> Inl e | Inr u \<Rightarrow> Inr (SshAuth k)))
      else Inr (Inr NoAuth))"

text \<open>Clone the branch, or the tag of that name.\<close>

definition clone_reference :: "'s hub_world \<Rightarrow> chaos_hub_config \<Rightarrow> git_auth \<Rightarrow> 's \<Rightarrow> ('s, unit) outcome" where
  "clone_reference h c auth s =
     (case hw_clone h (GetClonePath c) auth (hc_RepositoryURL c) (BranchReference (hc_Branch c)) s of
        (None, s') \<Rightarrow> (Inr (Inr ()), s')
      | (Some e, s') \<Rightarrow> of_error (hw_clone h (GetClonePath c) auth (hc_RepositoryURL c) (TagReference (hc_Branch c)) s'))"

definition getChaosChartRepo :: "'s hub_world \<Rightarrow> chaos_hub_config \<Rightarrow> 's \<Rightarrow> ('s, unit) outcome" where
  "getChaosChartRepo h c s = clone_reference h c NoAuth (snd (hw_remove_all h (GetClonePath c) s))"

definition getPrivateChaosChartRepo :: "'s hub_world \<Rightarrow> chaos_hub_config \<Rightarrow> 's \<Rightarrow> ('s, unit) outcome" where
  "getPrivateChaosChartRepo h c s =
     obind (lift_go (generateAuthMethod h c) (snd (hw_remove_all h (GetClonePath c) s))) (clone_reference h c)"

definition hub_GitClone :: "'s hub_world \<Rightarrow> cloning_input \<Rightarrow> string \<Rightarrow> 's \<Rightarrow> ('s, unit) outcome" where
  "hub_GitClone h inp projectID s =
     (let c = GitConfigConstruct inp projectID in
      if cn_IsPrivate inp then with_text ''error in cloning private repo: '' (getPrivateChaosChartRepo h c s)
      else with_text ''error in cloning public repo: '' (getChaosChartRepo h c s))"

definition isRepositoryExists :: "'s hub_world \<Rightarrow> chaos_hub_config \<Rightarrow> 's \<Rightarrow> string + bool" where
  "isRepositoryExists h c s =
     (case hw_stat h (GetClonePath c) s of None \<Rightarrow> Inr True | Some NotExist \<Rightarrow> Inr False | Some (FileError e) \<Rightarrow> Inl e)"

definition setterRepositoryWorktreeReference :: "'s hub_world \<Rightarrow> chaos_hub_config \<Rightarrow> 's \<Rightarrow> string + unit" where
  "setterRepositoryWorktreeReference h c s =
     (case hw_open h (GetClonePath c) s of
        Some e \<Rightarrow> Inl (''error in executing PlainOpen: '' @ e)
      | None \<Rightarrow>
          (case hw_worktree h (GetClonePath c) s of
             Some e \<Rightarrow> Inl (''error in executing Worktree: '' @ e)
           | None \<Rightarrow>
               (case hw_head h (GetClonePath c) s of Some e \<Rightarrow> Inl (''error in executing Head: '' @ e) | None \<Rightarrow> Inr ())))"

definition gitPullPrivateRepo :: "'s hub_world \<Rightarrow> chaos_hub_config \<Rightarrow> 's \<Rightarrow> ('s, unit) outcome" where
  "gitPullPrivateRepo h c s =
     obind (lift_go (Inr (setterRepositoryWorktreeReference h c s)) s) (\<lambda>_ s.
       case generateAuthMethod h c of
         Inl p \<Rightarrow> (Inl p, s)
       | Inr (Inl e) \<Rightarrow> (Inr (Inr ()), s)
       | Inr (Inr a) \<Rightarrow> git_done (hw_pull h (GetClonePath c) a (BranchReference (hc_Branch c)) s))"

definition hub_GitPull :: "'s hub_world \<Rightarrow> chaos_hub_config \<Rightarrow> 's \<Rightarrow> ('s, unit) outcome" where
  "hub_GitPull h c s =
     obind (lift_go (Inr (setterRepositoryWorktreeReference h c s)) s) (\<lambda>_ s.
       if \<not> hc_IsPrivate c then git_done (hw_pull h (GetClonePath c) NoAuth (BranchReference (hc_Branch c)) s)
       else gitPullPrivateRepo h c s)"

definition chaosChartSyncHandler :: "'s hub_world \<Rightarrow> chaos_hub_config \<Rightarrow> 's \<Rightarrow> ('s, unit) outcome" where
  "chaosChartSyncHandler h c s =
     (case isRepositoryExists h c s of
        Inl e \<Rightarrow> (Inr (Inl (''Error while checking repo exists, err: '' @ e)), s)
      | Inr False \<Rightarrow>
          hub_GitClone h \<lparr>cn_Name = hc_HubName c, cn_RepoBranch = hc_Branch c, cn_RepoURL = hc_RepositoryURL c, cn_RemoteHub = '''',
            cn_IsPrivate = hc_IsPrivate c, cn_AuthType = hc_AuthType c, cn_Token = hc_Token c, cn_UserName = hc_UserName c,
            cn_Password = hc_Password c, cn_SSHPrivateKey = hc_SSHPrivateKey c, cn_IsDefault = hc_IsDefault c\<rparr> (hc_ProjectID c) s
      | Inr True \<Rightarrow> hub_GitPull h c s)"

definition GitSyncHandlerForProjects :: "'s hub_world \<Rightarrow> cloning_input \<Rightarrow> string \<Rightarrow> 's \<Rightarrow> ('s, unit) outcome" where
  "GitSyncHandlerForProjects h inp projectID s = chaosChartSyncHandler h (GitConfigConstruct inp projectID) s"

definition GitSyncDefaultHub :: "'s hub_world \<Rightarrow> cloning_input \<Rightarrow> 's \<Rightarrow> ('s, unit) outcome" where
  "GitSyncDefaultHub h inp s = chaosChartSyncHandler h (GitConfigConstruct inp '''') s"

section \<open>Charts\<close>

definition GetChartsPath :: "cloning_input \<Rightarrow> string \<Rightarrow> bool \<Rightarrow> string" where
  "GetChartsPath inp projectID isDefault =
     (if isDefault then ''/tmp/default/'' @ cn_Name inp @ ''/faults/'' else ''/tmp/'' @ projectID @ ''/'' @ cn_Name inp @ ''/faults/'')"

text \<open>A chart that cannot be read is the zero value, since the error is dropped.\<close>

definition ReadExperimentFile :: "'s hub_world \<Rightarrow> string \<Rightarrow> 's \<Rightarrow> chaos_chart" where
  "ReadExperimentFile h path s = (case hw_read h path s of Inl e \<Rightarrow> hw_no_chart h | Inr t \<Rightarrow> hw_chart h t)"

text \<open>The charts are answered through JSON, which keeps the fields the two types share.\<close>

definition GetChartsData :: "'s hub_world \<Rightarrow> string \<Rightarrow> 's \<Rightarrow> string + chaos_chart list" where
  "GetChartsData h chartsPath s =
     map_sum id (\<lambda>names. map (\<lambda>n. ReadExperimentFile h (chartsPath @ n @ ''/'' @ n @ ''.chartserviceversion.yaml'') s) (filter (\<lambda>n. n \<noteq> ''icons'') names))
       (hw_read_dir h chartsPath s)"

section \<open>Remote hubs\<close>

text \<open>
  Errors of creating directories and files are logged. A failure to open the entry leaves a nil reader, which is closed at the end; writing to a
  file that could not be created fails and is logged.
\<close>

definition CopyZipItems :: "'s hub_world \<Rightarrow> zip_entry \<Rightarrow> string \<Rightarrow> string \<Rightarrow> 's \<Rightarrow> ('s, unit) outcome" where
  "CopyZipItems h entry extractPath chartsPath s =
     (let path = path_join [extractPath, chartsPath] in
      if \<not> prefix (path_clean extractPath @ ''/'') path then (Inr (Inl (''illegal file path: '' @ path)), s)
      else
        (let s1 = snd (hw_mkdir h (path_dir path) s) in
         if ze_IsDir entry then (case ze_Open entry of Inl e \<Rightarrow> (Inl NilDereference, s1) | Inr content \<Rightarrow> (Inr (Inr ()), s1))
         else
           (case hw_create h path s1 of
              (created, s2) \<Rightarrow>
                (case (ze_Open entry, created) of
                   (Inl e, _) \<Rightarrow> (Inl NilDereference, s2)
                 | (Inr content, Some e) \<Rightarrow> (Inr (Inr ()), s2)
                 | (Inr content, None) \<Rightarrow> (Inr (Inr ()), snd (hw_copy h path content s2))))))"

fun copy_entries :: "'s hub_world \<Rightarrow> string \<Rightarrow> zip_entry list \<Rightarrow> 's \<Rightarrow> ('s, unit) outcome" where
  "copy_entries h extractPath [] s = (Inr (Inr ()), s)"
| "copy_entries h extractPath (e # es) s = obind (CopyZipItems h e extractPath (ze_Name e) s) (\<lambda>_. copy_entries h extractPath es)"

definition UnzipRemoteHub :: "'s hub_world \<Rightarrow> string \<Rightarrow> string \<Rightarrow> 's \<Rightarrow> ('s, unit) outcome" where
  "UnzipRemoteHub h zipPath projectID s =
     (case hw_zip h zipPath s of
        Inl e \<Rightarrow> (Inr (Inl e), s)
      | Inr entries \<Rightarrow> copy_entries h (''/tmp/'' @ projectID) entries s)"

text \<open>The length that is compared with the maximum is that of the header; an error of reading it is dropped.\<close>

definition DownloadRemoteHub :: "'s hub_world \<Rightarrow> remote_hub_request \<Rightarrow> string \<Rightarrow> 's \<Rightarrow> ('s, unit) outcome" where
  "DownloadRemoteHub h rq projectID s =
     (let dirPath = ''/tmp/'' @ projectID; hubPath = dirPath @ ''/'' @ rh_Name rq @ ''.zip'' in
      obind (of_error (hw_mkdir h dirPath s)) (\<lambda>_ s.
      obind (of_error (hw_create h hubPath s)) (\<lambda>_ s.
      case hw_get h (hw_sanitize h (rh_RepoURL rq)) of
        Inl e \<Rightarrow> (Inr (Inl e), s)
      | Inr a \<Rightarrow>
          if hr_StatusCode a \<noteq> 200 then (Inr (Inl (''err: '' @ hr_Status a)), s)
          else
            (case atoi (hw_RemoteHubMaxSize h) of
               None \<Rightarrow> (Inr (Inl (''strconv.Atoi: parsing '' @ hw_RemoteHubMaxSize h)), s)
             | Some maxSize \<Rightarrow>
                 if atoi_value (hr_ContentLength a) > maxSize then
                   (Inr (Inl (''err: File size exceeded the threshold '' @ itoa (atoi_value (hr_ContentLength a)))), snd (hw_remove h hubPath s))
                 else if hr_ContentType a \<noteq> ''application/zip'' then
                   (Inr (Inl (''err: Invalid file type '' @ hr_ContentType a)), snd (hw_remove h hubPath s))
                 else
                   obind (of_error (hw_copy h hubPath (hr_Body a) s)) (\<lambda>_ s.
                   obind (UnzipRemoteHub h hubPath projectID s) (\<lambda>_ s. of_error (hw_remove h hubPath s)))))))"

definition SyncRemoteRepo :: "'s hub_world \<Rightarrow> cloning_input \<Rightarrow> string \<Rightarrow> 's \<Rightarrow> ('s, unit) outcome" where
  "SyncRemoteRepo h inp projectID s =
     obind (of_error (hw_remove_all h (''/tmp/'' @ projectID @ ''/'' @ cn_Name inp) s)) (\<lambda>_ s.
       DownloadRemoteHub h \<lparr>rh_Name = cn_Name inp, rh_Tags = [], rh_Description = None, rh_RepoURL = cn_RepoURL inp, rh_RemoteHub = ''''\<rparr> projectID s)"

definition ValidateLocalRepository :: "'s hub_world \<Rightarrow> chaos_hub \<Rightarrow> 's \<Rightarrow> bool" where
  "ValidateLocalRepository h hub s \<longleftrightarrow>
     hw_open h (if hb_IsDefault hub then ''/tmp/default/'' @ hb_Name hub else ''/tmp/'' @ hb_ProjectID hub @ ''/'' @ hb_Name hub) s = None"

section \<open>Icons\<close>

text \<open>
  The status and the body. The text of an error is written before the status is set, so the status is the default 200 in either case.
\<close>

definition icon_answer :: "'s hub_world \<Rightarrow> string \<Rightarrow> string \<Rightarrow> string \<Rightarrow> 's \<Rightarrow> nat \<times> string" where
  "icon_answer h base chartName iconName s =
     (case hw_read h (base @ (if foldLower chartName = ''predefined'' then ''/experiments/icons/'' else ''/faults/'' @ chartName @ ''/icons/'') @ iconName) s of
        Inl e \<Rightarrow> (200, ''icon cannot be fetched, err : '' @ e)
      | Inr img \<Rightarrow> (200, img))"

definition ChaosHubIconHandler :: "'s hub_world \<Rightarrow> string \<Rightarrow> string \<Rightarrow> string \<Rightarrow> string \<Rightarrow> 's \<Rightarrow> nat \<times> string" where
  "ChaosHubIconHandler h projectId hubName = icon_answer h (hw_CustomChaosHubPath h @ projectId @ ''/'' @ hubName)"

definition DefaultChaosHubIconHandler :: "'s hub_world \<Rightarrow> string \<Rightarrow> string \<Rightarrow> string \<Rightarrow> 's \<Rightarrow> nat \<times> string" where
  "DefaultChaosHubIconHandler h hubName = icon_answer h (hw_DefaultChaosHubPath h @ hubName)"

end
