(* ===== verification/Gql_Hub_Service.thy ===== *)
theory Gql_Hub_Service
  imports Gql_Hubs
begin

text \<open>
  The chaos hub service, \<^verbatim>\<open>pkg/chaoshub/service.go\<close>, and the resolvers of \<^verbatim>\<open>graph/chaoshub.resolvers.go\<close>. The two endless loops of the
  service are given by the number of their rounds.
\<close>

section \<open>Adding hubs\<close>

definition NewCloningInputFrom :: "'a create_hub_request_scheme \<Rightarrow> cloning_input" where
  "NewCloningInputFrom rq =
     \<lparr>cn_Name = kr_Name rq, cn_RepoBranch = kr_RepoBranch rq, cn_RepoURL = kr_RepoURL rq, cn_RemoteHub = kr_RemoteHub rq,
      cn_IsPrivate = kr_IsPrivate rq, cn_AuthType = kr_AuthType rq, cn_Token = kr_Token rq, cn_UserName = kr_UserName rq,
      cn_Password = kr_Password rq, cn_SSHPrivateKey = kr_SSHPrivateKey rq, cn_IsDefault = False\<rparr>"

definition IsChaosHubAvailable :: "'s hub_world \<Rightarrow> string \<Rightarrow> string \<Rightarrow> 's \<Rightarrow> string + bool" where
  "IsChaosHubAvailable h name projectID s = map_sum id (list_ex (\<lambda>d. hb_Name d = name)) (GetChaosHubByProjectID h projectID s)"

text \<open>The document of a new hub; \<^verbatim>\<open>SaveChaosHub\<close> leaves its type empty.\<close>

definition new_hub :: "gql_env \<Rightarrow> create_hub_request \<Rightarrow> string \<Rightarrow> string \<Rightarrow> string \<Rightarrow> chaos_hub" where
  "new_hub env rq projectID uname hubType =
     (let now = now_ms (g_auth env) 0 in
      \<lparr>hb_ID = new_uuid (g_auth env) 0, hb_ProjectID = projectID, hb_Name = kr_Name rq, hb_Description = deref '''' (kr_Description rq),
       hb_Tags = kr_Tags rq, hb_CreatedAt = now, hb_UpdatedAt = now, hb_CreatedBy = uname, hb_UpdatedBy = uname, hb_IsRemoved = False,
       hb_RepoURL = kr_RepoURL rq, hb_RepoBranch = kr_RepoBranch rq, hb_RemoteHub = kr_RemoteHub rq, hb_IsPrivate = kr_IsPrivate rq,
       hb_AuthType = kr_AuthType rq, hb_HubType = hubType, hb_Token = kr_Token rq, hb_UserName = kr_UserName rq, hb_Password = kr_Password rq,
       hb_SSHPrivateKey = kr_SSHPrivateKey rq, hb_SSHPublicKey = kr_SSHPublicKey rq, hb_LastSyncedAt = now_ms (g_auth env) 1, hb_IsDefault = False\<rparr>)"

definition new_remote_hub :: "gql_env \<Rightarrow> remote_hub_request \<Rightarrow> string \<Rightarrow> string \<Rightarrow> chaos_hub" where
  "new_remote_hub env rq projectID uname =
     (let now = now_ms (g_auth env) 0 in
      \<lparr>hb_ID = new_uuid (g_auth env) 0, hb_ProjectID = projectID, hb_Name = rh_Name rq, hb_Description = deref '''' (rh_Description rq),
       hb_Tags = rh_Tags rq, hb_CreatedAt = now, hb_UpdatedAt = now, hb_CreatedBy = uname, hb_UpdatedBy = uname, hb_IsRemoved = False,
       hb_RepoURL = rh_RepoURL rq, hb_RepoBranch = '''', hb_RemoteHub = rh_RemoteHub rq, hb_IsPrivate = False, hb_AuthType = ''NONE'',
       hb_HubType = ''REMOTE'', hb_Token = None, hb_UserName = None, hb_Password = None, hb_SSHPrivateKey = None, hb_SSHPublicKey = None,
       hb_LastSyncedAt = now_ms (g_auth env) 1, hb_IsDefault = False\<rparr>)"

definition when_name_free :: "'s hub_world \<Rightarrow> string \<Rightarrow> string \<Rightarrow> ('s \<Rightarrow> ('s, 'a) outcome) \<Rightarrow> 's \<Rightarrow> ('s, 'a) outcome" where
  "when_name_free h name projectID k s =
     (case IsChaosHubAvailable h name projectID s of
        Inl e \<Rightarrow> (Inr (Inl e), s)
      | Inr True \<Rightarrow> (Inr (Inl ''name already exists''), s)
      | Inr False \<Rightarrow> k s)"

text \<open>An error of the clone is only logged.\<close>

definition AddChaosHub :: "'s hub_world \<Rightarrow> 's gql_db \<Rightarrow> gql_env \<Rightarrow> gctx \<Rightarrow> create_hub_request \<Rightarrow> string \<Rightarrow> 's \<Rightarrow> ('s, hub_view) outcome" where
  "AddChaosHub h g env c rq projectID =
     when_name_free h (kr_Name rq) projectID (with_user g env c (\<lambda>uname s.
       (let hub = new_hub env rq projectID uname ''GIT'' in
        obind (of_error (CreateChaosHub h hub s)) (\<lambda>_ s.
          case hub_GitClone h (NewCloningInputFrom rq) projectID s of
            (Inl p, s') \<Rightarrow> (Inl p, s')
          | (Inr r, s') \<Rightarrow> (Inr (Inr (GetOutputChaosHub hub)), s')))))"

definition AddRemoteChaosHub :: "'s hub_world \<Rightarrow> 's gql_db \<Rightarrow> gql_env \<Rightarrow> gctx \<Rightarrow> remote_hub_request \<Rightarrow> string \<Rightarrow> 's \<Rightarrow> ('s, hub_view) outcome" where
  "AddRemoteChaosHub h g env c rq projectID =
     when_name_free h (rh_Name rq) projectID (with_user g env c (\<lambda>uname s.
       (let hub = new_remote_hub env rq projectID uname in
        obind (of_error (CreateChaosHub h hub s)) (\<lambda>_ s.
        obind (with_text ''Hub configurations saved successfully. Failed to connect the remote repo: '' (DownloadRemoteHub h rq projectID s)) (\<lambda>_ s.
          (Inr (Inr (GetOutputChaosHub hub)), s))))))"

definition SaveChaosHub :: "'s hub_world \<Rightarrow> 's gql_db \<Rightarrow> gql_env \<Rightarrow> gctx \<Rightarrow> create_hub_request \<Rightarrow> string \<Rightarrow> 's \<Rightarrow> ('s, hub_view) outcome" where
  "SaveChaosHub h g env c rq projectID =
     when_name_free h (kr_Name rq) projectID (with_user g env c (\<lambda>uname s.
       (let hub = new_hub env rq projectID uname '''' in
        obind (of_error (CreateChaosHub h hub s)) (\<lambda>_ s. (Inr (Inr (GetOutputChaosHub hub)), s)))))"

section \<open>Synchronising, updating and deleting\<close>

definition sync_input :: "chaos_hub \<Rightarrow> cloning_input" where
  "sync_input d =
     \<lparr>cn_Name = hb_Name d, cn_RepoBranch = hb_RepoBranch d, cn_RepoURL = hb_RepoURL d, cn_RemoteHub = hb_RemoteHub d, cn_IsPrivate = hb_IsPrivate d,
      cn_AuthType = hb_AuthType d, cn_Token = hb_Token d, cn_UserName = hb_UserName d, cn_Password = hb_Password d,
      cn_SSHPrivateKey = hb_SSHPrivateKey d, cn_IsDefault = False\<rparr>"

definition SyncChaosHub :: "'s hub_world \<Rightarrow> gql_env \<Rightarrow> string \<Rightarrow> string \<Rightarrow> 's \<Rightarrow> ('s, string) outcome" where
  "SyncChaosHub h env hubID projectID s =
     obind (lift_go (Inr (GetHubByID h hubID projectID s)) s) (\<lambda>d s.
     obind (if hb_HubType d = ''REMOTE'' then SyncRemoteRepo h (sync_input d) projectID s
            else GitSyncHandlerForProjects h (sync_input d) projectID s) (\<lambda>_ s.
     obind (of_error (op_UpdateChaosHub h (\<lambda>d. hb_ID d = hubID \<and> \<not> hb_IsRemoved d) (\<lambda>d. d\<lparr>hb_LastSyncedAt := now_ms (g_auth env) 0\<rparr>) s)) (\<lambda>_ s.
       (Inr (Inr ''Successfully synced ChaosHub''), s))))"

text \<open>The working copy of an update: downloaded or cloned again when the settings changed, otherwise pulled.\<close>

definition update_copy :: "'s hub_world \<Rightarrow> update_hub_request \<Rightarrow> chaos_hub \<Rightarrow> string \<Rightarrow> 's \<Rightarrow> ('s, unit) outcome" where
  "update_copy h rq prev projectID s =
     (let clonePath = ''/tmp/'' @ hb_ProjectID prev @ ''/'' @ hb_Name prev in
      if hb_HubType prev = ''REMOTE'' then
        (if hb_Name prev \<noteq> kr_Name rq \<or> hb_RepoURL prev \<noteq> kr_RepoURL rq \<or> hb_RemoteHub prev \<noteq> kr_RemoteHub rq then
           obind (of_error (hw_remove_all h clonePath s)) (\<lambda>_ s.
             DownloadRemoteHub h \<lparr>rh_Name = kr_Name rq, rh_Tags = [], rh_Description = None, rh_RepoURL = kr_RepoURL rq, rh_RemoteHub = kr_RemoteHub rq\<rparr> projectID s)
         else (Inr (Inr ()), s))
      else if hb_Name prev \<noteq> kr_Name rq \<or> hb_RepoURL prev \<noteq> kr_RepoURL rq \<or> hb_RepoBranch prev \<noteq> kr_RepoBranch rq \<or>
              hb_IsPrivate prev \<noteq> kr_IsPrivate rq \<or> hb_AuthType prev \<noteq> kr_AuthType rq \<or> hb_RemoteHub prev \<noteq> kr_RemoteHub rq then
        obind (of_error (hw_remove_all h clonePath s)) (\<lambda>_ s. hub_GitClone h (NewCloningInputFrom rq) projectID s)
      else GitSyncHandlerForProjects h (NewCloningInputFrom rq) projectID s)"

definition updated_hub :: "gql_env \<Rightarrow> update_hub_request \<Rightarrow> string \<Rightarrow> chaos_hub \<Rightarrow> chaos_hub" where
  "updated_hub env rq uname d =
     d\<lparr>hb_RepoURL := kr_RepoURL rq, hb_RepoBranch := kr_RepoBranch rq, hb_RemoteHub := kr_RemoteHub rq, hb_Name := kr_Name rq,
       hb_Description := deref '''' (kr_Description rq), hb_Tags := kr_Tags rq, hb_IsPrivate := kr_IsPrivate rq, hb_AuthType := kr_AuthType rq,
       hb_Token := kr_Token rq, hb_UserName := kr_UserName rq, hb_Password := kr_Password rq, hb_SSHPrivateKey := kr_SSHPrivateKey rq,
       hb_SSHPublicKey := kr_SSHPublicKey rq, hb_UpdatedAt := now_ms (g_auth env) 0, hb_UpdatedBy := uname\<rparr>"

text \<open>An error of \<^verbatim>\<open>GetUsername\<close> is dropped: the name is then empty.\<close>

definition UpdateChaosHub :: "'s hub_world \<Rightarrow> 's gql_db \<Rightarrow> gql_env \<Rightarrow> gctx \<Rightarrow> update_hub_request \<Rightarrow> string \<Rightarrow> 's \<Rightarrow> ('s, hub_view) outcome" where
  "UpdateChaosHub h g env c rq projectID s =
     obind (lift_go (Inr (GetHubByID h (kr_ID rq) projectID s)) s) (\<lambda>prev s.
     obind (update_copy h rq prev projectID s) (\<lambda>_ s.
       case GetUsername g env (gc_token c) s of
         Inl p \<Rightarrow> (Inl p, s)
       | Inr found \<Rightarrow>
           obind (of_error (op_UpdateChaosHub h (\<lambda>d. hb_ID d = kr_ID rq \<and> \<not> hb_IsRemoved d)
               (updated_hub env rq (case found of Inl e \<Rightarrow> '''' | Inr u \<Rightarrow> u)) s)) (\<lambda>_ s.
             (Inr (Inr ((hw_copy_hub h rq)\<lparr>hv_UpdatedAt := itoa (now_ms (g_auth env) 0)\<rparr>)), s))))"

definition removed_hub :: "gql_env \<Rightarrow> string \<Rightarrow> chaos_hub \<Rightarrow> chaos_hub" where
  "removed_hub env uname d = d\<lparr>hb_IsRemoved := True, hb_UpdatedAt := now_ms (g_auth env) 0, hb_UpdatedBy := uname\<rparr>"

definition DeleteChaosHub :: "'s hub_world \<Rightarrow> 's gql_db \<Rightarrow> gql_env \<Rightarrow> gctx \<Rightarrow> string \<Rightarrow> string \<Rightarrow> 's \<Rightarrow> ('s, bool) outcome" where
  "DeleteChaosHub h g env c hubID projectID =
     with_user g env c (\<lambda>uname s.
       obind (lift_go (Inr (GetHubByID h hubID projectID s)) s) (\<lambda>d s.
       obind (of_error (op_UpdateChaosHub h (\<lambda>d. hb_ID d = hubID \<and> hb_ProjectID d = projectID) (removed_hub env uname) s)) (\<lambda>_ s.
       obind (of_error (hw_remove_all h (''/tmp/'' @ projectID @ ''/'' @ hb_Name d) s)) (\<lambda>_ s. (Inr (Inr True), s)))))"

section \<open>Reading\<close>

definition listDefaultHubs :: "'s hub_world \<Rightarrow> hub_view" where
  "listDefaultHubs h =
     \<lparr>hv_ID = ''6f39cea9-6264-4951-83a8-29976b614289'', hv_RepoURL = hw_DefaultHubGitURL h, hv_RepoBranch = hw_DefaultHubBranchName h,
      hv_RemoteHub = '''', hv_ProjectID = '''', hv_IsDefault = True, hv_Name = hw_DefaultHubName h, hv_Tags = [], hv_CreatedBy = None,
      hv_UpdatedBy = None, hv_Description = None, hv_HubType = '''', hv_IsPrivate = hw_DefaultHubIsPrivate h, hv_AuthType = hw_DefaultHubAuthType h,
      hv_Token = Some (hw_DefaultHubToken h), hv_UserName = Some (hw_DefaultHubUserName h), hv_Password = Some (hw_DefaultHubPassword h),
      hv_SSHPrivateKey = Some (hw_DefaultHubSshPrivateKey h), hv_IsRemoved = False, hv_CreatedAt = '''', hv_UpdatedAt = '''', hv_LastSyncedAt = ''''\<rparr>"

definition getChaosHubDetails :: "'s hub_world \<Rightarrow> string \<Rightarrow> string \<Rightarrow> 's \<Rightarrow> string + hub_view" where
  "getChaosHubDetails h hubID projectID s =
     (if hv_ID (listDefaultHubs h) = hubID then Inr (listDefaultHubs h)
      else map_sum (\<lambda>e. ''DB fetch stage error: '' @ e) (\<lambda>d.
        (listDefaultHubs h)\<lparr>hv_ID := hb_ID d, hv_RepoURL := hb_RepoURL d, hv_RepoBranch := hb_RepoBranch d, hv_RemoteHub := hb_RemoteHub d,
          hv_ProjectID := hb_ProjectID d, hv_IsDefault := False, hv_Name := hb_Name d, hv_Tags := hb_Tags d, hv_CreatedBy := Some (hb_CreatedBy d),
          hv_UpdatedBy := Some (hb_UpdatedBy d), hv_Description := Some (hb_Description d), hv_IsPrivate := False, hv_AuthType := hb_AuthType d,
          hv_Token := None, hv_UserName := None, hv_Password := None, hv_SSHPrivateKey := None, hv_CreatedAt := itoa (hb_CreatedAt d),
          hv_UpdatedAt := itoa (hb_UpdatedAt d), hv_LastSyncedAt := itoa (hb_LastSyncedAt d)\<rparr>) (GetHubByID h hubID projectID s))"

definition hub_directory :: "hub_view \<Rightarrow> string \<Rightarrow> string" where
  "hub_directory v projectID = (if hv_IsDefault v then ''/tmp/default/'' @ hv_Name v else ''/tmp/'' @ projectID @ ''/'' @ hv_Name v)"

definition ListChaosFaults :: "'s hub_world \<Rightarrow> string \<Rightarrow> string \<Rightarrow> 's \<Rightarrow> string + chaos_chart list" where
  "ListChaosFaults h hubID projectID s =
     (case getChaosHubDetails h hubID projectID s of
        Inl e \<Rightarrow> Inl e
      | Inr v \<Rightarrow>
          GetChartsData h (GetChartsPath \<lparr>cn_Name = hv_Name v, cn_RepoBranch = hv_RepoBranch v, cn_RepoURL = hv_RepoURL v,
            cn_RemoteHub = hv_RemoteHub v, cn_IsPrivate = False, cn_AuthType = '''', cn_Token = None, cn_UserName = None, cn_Password = None,
            cn_SSHPrivateKey = None, cn_IsDefault = False\<rparr> projectID (hv_IsDefault v)) s)"

text \<open>A file that cannot be read is empty.\<close>

definition file_or_empty :: "'s hub_world \<Rightarrow> string \<Rightarrow> 's \<Rightarrow> string" where
  "file_or_empty h path s = (case hw_read h path s of Inl e \<Rightarrow> '''' | Inr t \<Rightarrow> t)"

record fault_details =
  fd_CSV :: string
  fd_Engine :: string
  fd_Fault :: string

definition GetChaosFault :: "'s hub_world \<Rightarrow> string \<Rightarrow> string \<Rightarrow> string \<Rightarrow> string \<Rightarrow> 's \<Rightarrow> string + fault_details" where
  "GetChaosFault h hubID category experimentName projectID s =
     map_sum id (\<lambda>v. (let basePath = hub_directory v projectID @ ''/faults/'' @ category @ ''/'' @ experimentName in
        \<lparr>fd_CSV = file_or_empty h (basePath @ ''/'' @ experimentName @ ''.chartserviceversion.yaml'') s,
         fd_Engine = file_or_empty h (basePath @ ''/engine.yaml'') s, fd_Fault = file_or_empty h (basePath @ ''/fault.yaml'') s\<rparr>))
       (getChaosHubDetails h hubID projectID s)"

record predefined_experiment =
  pl_ExperimentName :: string
  pl_ExperimentCSV :: string
  pl_ExperimentManifest :: string

definition getPredefinedExperimentDetails :: "'s hub_world \<Rightarrow> string \<Rightarrow> string \<Rightarrow> 's \<Rightarrow> predefined_experiment" where
  "getPredefinedExperimentDetails h experimentsPath experiment s =
     (let path = experimentsPath @ experiment @ ''/'' @ experiment @ ''.chartserviceversion.yaml'' in
      if hw_stat h path s \<noteq> None then \<lparr>pl_ExperimentName = '''', pl_ExperimentCSV = '''', pl_ExperimentManifest = ''''\<rparr>
      else \<lparr>pl_ExperimentName = experiment, pl_ExperimentCSV = file_or_empty h path s,
            pl_ExperimentManifest = file_or_empty h (experimentsPath @ experiment @ ''/experiment.yaml'') s\<rparr>)"

definition predefined_list :: "'s hub_world \<Rightarrow> string \<Rightarrow> string list \<Rightarrow> 's \<Rightarrow> predefined_experiment list" where
  "predefined_list h hubPath names s = filter (\<lambda>p. pl_ExperimentCSV p \<noteq> '''') (map (\<lambda>n. getPredefinedExperimentDetails h hubPath n s) names)"

definition ListPredefinedExperiments :: "'s hub_world \<Rightarrow> string \<Rightarrow> string \<Rightarrow> 's \<Rightarrow> string + predefined_experiment list" where
  "ListPredefinedExperiments h hubID projectID s =
     (case getChaosHubDetails h hubID projectID s of
        Inl e \<Rightarrow> Inl e
      | Inr v \<Rightarrow>
          (let hubPath = hub_directory v projectID @ ''/experiments/'' in
           map_sum id (\<lambda>names. predefined_list h hubPath (filter (\<lambda>n. n \<noteq> ''icons'') names) s) (hw_read_dir h hubPath s)))"

definition GetPredefinedExperiment :: "'s hub_world \<Rightarrow> string \<Rightarrow> string list \<Rightarrow> string \<Rightarrow> 's \<Rightarrow> string + predefined_experiment list" where
  "GetPredefinedExperiment h hubID names projectID s =
     map_sum id (\<lambda>v. predefined_list h (hub_directory v projectID @ ''/experiments/'') names s) (getChaosHubDetails h hubID projectID s)"

record hub_status =
  hs_ID :: string
  hs_RepoURL :: string
  hs_RepoBranch :: string
  hs_RemoteHub :: string
  hs_IsAvailable :: bool
  hs_TotalFaults :: string
  hs_TotalExperiments :: string
  hs_Name :: string
  hs_IsPrivate :: bool
  hs_AuthType :: string
  hs_Token :: "string option"
  hs_SSHPrivateKey :: "string option"
  hs_SSHPublicKey :: "string option"
  hs_LastSyncedAt :: string
  hs_Tags :: "string list"
  hs_CreatedBy :: string
  hs_UpdatedBy :: string
  hs_CreatedAt :: string
  hs_UpdatedAt :: string
  hs_Description :: string
  hs_IsDefault :: bool

text \<open>The faults of the charts in a directory and the predefined experiments; errors count as none.\<close>

definition count_hub_faults :: "'s hub_world \<Rightarrow> string \<Rightarrow> 's \<Rightarrow> nat" where
  "count_hub_faults h chartPath s = (case GetChartsData h chartPath s of Inl e \<Rightarrow> 0 | Inr charts \<Rightarrow> sum_list (map (\<lambda>ch. length (cs_Faults (cc_Spec ch))) charts))"

definition count_experiments :: "'s hub_world \<Rightarrow> string \<Rightarrow> string \<Rightarrow> 's \<Rightarrow> nat" where
  "count_experiments h hubID projectID s = (case ListPredefinedExperiments h hubID projectID s of Inl e \<Rightarrow> 0 | Inr ps \<Rightarrow> length ps)"

definition hub_status_of :: "'s hub_world \<Rightarrow> string \<Rightarrow> string \<Rightarrow> chaos_hub \<Rightarrow> 's \<Rightarrow> hub_status" where
  "hub_status_of h projectID chartPath d s =
     \<lparr>hs_ID = hb_ID d, hs_RepoURL = hb_RepoURL d, hs_RepoBranch = hb_RepoBranch d, hs_RemoteHub = hb_RemoteHub d,
      hs_IsAvailable = ValidateLocalRepository h d s, hs_TotalFaults = itoa (int (count_hub_faults h chartPath s)),
      hs_TotalExperiments = itoa (int (count_experiments h (hb_ID d) projectID s)), hs_Name = hb_Name d, hs_IsPrivate = hb_IsPrivate d,
      hs_AuthType = hb_AuthType d, hs_Token = hb_Token d, hs_SSHPrivateKey = hb_SSHPrivateKey d, hs_SSHPublicKey = hb_SSHPublicKey d,
      hs_LastSyncedAt = itoa (hb_LastSyncedAt d), hs_Tags = hb_Tags d, hs_CreatedBy = hb_CreatedBy d, hs_UpdatedBy = hb_UpdatedBy d,
      hs_CreatedAt = itoa (hb_CreatedAt d), hs_UpdatedAt = itoa (hb_UpdatedAt d), hs_Description = hb_Description d, hs_IsDefault = hb_IsDefault d\<rparr>"

record hub_filter =
  hf_ChaosHubName :: "string option"
  hf_Tags :: "string list"
  hf_Description :: "string option"

record list_hub_request =
  lh_ChaosHubIDs :: "string list"
  lh_Filter :: "hub_filter option"

definition hub_stages :: "gql_env \<Rightarrow> string \<Rightarrow> list_hub_request option \<Rightarrow> chaos_hub stage list" where
  "hub_stages env projectID request =
     Match (\<lambda>d. hb_ProjectID d = projectID \<and> \<not> hb_IsRemoved d) #
     (case request of
        None \<Rightarrow> []
      | Some rq \<Rightarrow>
          (if lh_ChaosHubIDs rq \<noteq> [] then [Match (\<lambda>d. hb_ID d \<in> set (lh_ChaosHubIDs rq))] else []) @
          (case lh_Filter rq of
             None \<Rightarrow> []
           | Some f \<Rightarrow>
               (case hf_ChaosHubName f of Some n \<Rightarrow> if n \<noteq> '''' then [Match (\<lambda>d. g_regex env n (hb_Name d))] else [] | None \<Rightarrow> []) @
               (case hf_Description f of Some n \<Rightarrow> if n \<noteq> '''' then [Match (\<lambda>d. g_regex env n (hb_Description d))] else [] | None \<Rightarrow> []) @
               (if hf_Tags f \<noteq> [] then [Match (\<lambda>d. set (hf_Tags f) \<subseteq> set (hb_Tags d))] else [])))"

text \<open>The default hub as a document: only these fields are set.\<close>

definition default_hub :: "'s hub_world \<Rightarrow> chaos_hub" where
  "default_hub h =
     (let v = listDefaultHubs h in
      \<lparr>hb_ID = hv_ID v, hb_ProjectID = '''', hb_Name = hv_Name v, hb_Description = '''', hb_Tags = [], hb_CreatedAt = 0, hb_UpdatedAt = 0,
       hb_CreatedBy = '''', hb_UpdatedBy = '''', hb_IsRemoved = False, hb_RepoURL = hv_RepoURL v, hb_RepoBranch = hv_RepoBranch v,
       hb_RemoteHub = hv_RemoteHub v, hb_IsPrivate = False, hb_AuthType = '''', hb_HubType = '''', hb_Token = None, hb_UserName = None,
       hb_Password = None, hb_SSHPrivateKey = None, hb_SSHPublicKey = None, hb_LastSyncedAt = 0, hb_IsDefault = True\<rparr>)"

definition chart_path :: "chaos_hub \<Rightarrow> string" where
  "chart_path d = (if hb_IsDefault d then ''/tmp/default/'' @ hb_Name d else ''/tmp/'' @ hb_ProjectID d @ ''/'' @ hb_Name d)"

definition ListChaosHubs :: "'s hub_world \<Rightarrow> gql_env \<Rightarrow> string \<Rightarrow> list_hub_request option \<Rightarrow> 's \<Rightarrow> string + hub_status list" where
  "ListChaosHubs h env projectID request s =
     map_sum id (\<lambda>ds. map (\<lambda>d. hub_status_of h projectID (chart_path d @ ''/faults/'') d s) (default_hub h # ds))
       (GetAggregateChaosHubs h (hub_stages env projectID request) s)"

text \<open>One hub: the directory of its charts lacks the last part, and the credentials and two flags are left out.\<close>

definition GetChaosHub :: "'s hub_world \<Rightarrow> string \<Rightarrow> string \<Rightarrow> 's \<Rightarrow> string + hub_status" where
  "GetChaosHub h hubID projectID s =
     map_sum (\<lambda>e. ''DB fetch stage error: '' @ e) (\<lambda>d.
       (hub_status_of h projectID (chart_path d) d s)\<lparr>hs_IsDefault := False, hs_IsPrivate := False, hs_Token := None, hs_SSHPrivateKey := None, hs_SSHPublicKey := None\<rparr>)
       (GetHubByID h hubID projectID s)"

definition GetChaosHubStats :: "'s hub_world \<Rightarrow> string \<Rightarrow> 's \<Rightarrow> string + int" where
  "GetChaosHubStats h projectID s =
     (case Facet (hubs h) [Match (\<lambda>d. hb_ProjectID d = projectID \<and> \<not> hb_IsRemoved d)] [] s of
        Inl e \<Rightarrow> Inl (''error on getting the chaos hubs : '' @ driver_text e)
      | Inr (None, ds) \<Rightarrow> Inr 1
      | Inr (Some n, ds) \<Rightarrow> Inr (int n + 1))"

section \<open>The background loops\<close>

definition GetAllHubs :: "'s hub_world \<Rightarrow> 's \<Rightarrow> string + hub_view list" where
  "GetAllHubs h s = map_sum id (map GetOutputChaosHub) (GetHubs h s)"

definition charts_input :: "hub_view \<Rightarrow> cloning_input" where
  "charts_input v =
     \<lparr>cn_Name = hv_Name v, cn_RepoBranch = hv_RepoBranch v, cn_RepoURL = hv_RepoURL v, cn_RemoteHub = hv_RemoteHub v, cn_IsPrivate = hv_IsPrivate v,
      cn_AuthType = hv_AuthType v, cn_Token = hv_Token v, cn_UserName = hv_UserName v, cn_Password = hv_Password v,
      cn_SSHPrivateKey = hv_SSHPrivateKey v, cn_IsDefault = False\<rparr>"

text \<open>The hubs of one round. Errors are logged; nothing recovers a panic, which ends the server.\<close>

fun sync_hubs :: "'s hub_world \<Rightarrow> hub_view list \<Rightarrow> 's \<Rightarrow> unit go \<times> 's" where
  "sync_hubs h [] s = (Inr (), s)"
| "sync_hubs h (v # vs) s =
     (if hv_IsRemoved v then sync_hubs h vs s
      else (case (if hv_HubType v \<noteq> ''REMOTE'' then GitSyncHandlerForProjects h (charts_input v) (hv_ProjectID v) s
                  else SyncRemoteRepo h (charts_input v) (hv_ProjectID v) s) of
          (Inl p, s') \<Rightarrow> (Inl p, s')
        | (Inr r, s') \<Rightarrow> sync_hubs h vs s'))"

fun RecurringHubSync :: "'s hub_world \<Rightarrow> nat \<Rightarrow> 's \<Rightarrow> unit go \<times> 's" where
  "RecurringHubSync h 0 s = (Inr (), s)"
| "RecurringHubSync h (Suc n) s =
     (case sync_hubs h (case GetAllHubs h s of Inl e \<Rightarrow> [] | Inr vs \<Rightarrow> vs) s of
        (Inl p, s') \<Rightarrow> (Inl p, s')
      | (Inr u, s') \<Rightarrow> RecurringHubSync h n s')"

fun SyncDefaultChaosHubs :: "'s hub_world \<Rightarrow> nat \<Rightarrow> 's \<Rightarrow> unit go \<times> 's" where
  "SyncDefaultChaosHubs h 0 s = (Inr (), s)"
| "SyncDefaultChaosHubs h (Suc n) s =
     (case GitSyncDefaultHub h ((charts_input (listDefaultHubs h))\<lparr>cn_IsDefault := True\<rparr>) s of
        (Inl p, s') \<Rightarrow> (Inl p, s')
      | (Inr r, s') \<Rightarrow> SyncDefaultChaosHubs h n s')"

section \<open>Resolvers\<close>

definition r_AddChaosHub where
  "r_AddChaosHub h g env c projectID rq = with_role g env c projectID ''AddChaosHub'' (AddChaosHub h g env c rq projectID)"

definition r_AddRemoteChaosHub where
  "r_AddRemoteChaosHub h g env c projectID rq = with_role g env c projectID ''SaveChaosHub'' (AddRemoteChaosHub h g env c rq projectID)"

definition r_SaveChaosHub where
  "r_SaveChaosHub h g env c projectID rq = with_role g env c projectID ''SaveChaosHub'' (SaveChaosHub h g env c rq projectID)"

definition r_SyncChaosHub where
  "r_SyncChaosHub h g env c hubID projectID = with_role g env c projectID ''UpdateChaosExperiment'' (SyncChaosHub h env hubID projectID)"

definition r_UpdateChaosHub where
  "r_UpdateChaosHub h g env c projectID rq = with_role g env c projectID ''UpdateChaosHub'' (UpdateChaosHub h g env c rq projectID)"

definition r_DeleteChaosHub where
  "r_DeleteChaosHub h g env c projectID hubID = with_role g env c projectID ''DeleteChaosHub'' (DeleteChaosHub h g env c hubID projectID)"

definition r_ListChaosFaults where
  "r_ListChaosFaults h g env c hubID projectID = with_role g env c projectID ''ListCharts'' (\<lambda>s. (Inr (ListChaosFaults h hubID projectID s), s))"

text \<open>The other queries have no role check, only the directive that asks for a valid token.\<close>

definition r_ListChaosHub where
  "r_ListChaosHub h g env c projectID rq s =
     (case Authorized g env c s of Inl e \<Rightarrow> Inl e | Inr c' \<Rightarrow> ListChaosHubs h env projectID rq s)"

definition r_GetChaosHub where
  "r_GetChaosHub h g env c projectID hubID s = (case Authorized g env c s of Inl e \<Rightarrow> Inl e | Inr c' \<Rightarrow> GetChaosHub h hubID projectID s)"

definition r_GetChaosFault where
  "r_GetChaosFault h g env c projectID hubID category name s =
     (case Authorized g env c s of Inl e \<Rightarrow> Inl e | Inr c' \<Rightarrow> GetChaosFault h hubID category name projectID s)"

definition r_GetChaosHubStats where
  "r_GetChaosHubStats h g env c projectID s = (case Authorized g env c s of Inl e \<Rightarrow> Inl e | Inr c' \<Rightarrow> GetChaosHubStats h projectID s)"

end
