(* ===== verification/Gql_Hub_Props.thy ===== *)
theory Gql_Hub_Props
  imports Gql_Hub_Service Gql_Exp_Laws
begin

text \<open>
  Properties of the chaos hubs: where a downloaded archive can write, who can change the stored hubs and which, what is listed and counted, the life
  of a hub, and when the background synchronisation keeps the server alive.
\<close>

section \<open>File operations\<close>

text \<open>A property of the state that no operation on a file or repository with a path in \<^verbatim>\<open>P\<close> breaks.\<close>

definition file_closed :: "'s hub_world \<Rightarrow> (string \<Rightarrow> bool) \<Rightarrow> ('s \<Rightarrow> bool) \<Rightarrow> bool" where
  "file_closed h P I \<longleftrightarrow> (\<forall>p s. P p \<longrightarrow> I s \<longrightarrow>
     I (snd (hw_mkdir h p s)) \<and> I (snd (hw_create h p s)) \<and> (\<forall>t. I (snd (hw_copy h p t s))) \<and> I (snd (hw_remove h p s)) \<and>
     I (snd (hw_remove_all h p s)) \<and> (\<forall>a u r. I (snd (hw_clone h p a u r s))) \<and> (\<forall>a r. I (snd (hw_pull h p a r s))))"

lemma file_closedD:
  assumes "file_closed h P I" "P p" "I s"
  shows "I (snd (hw_mkdir h p s))" "I (snd (hw_create h p s))" "I (snd (hw_copy h p t s))" "I (snd (hw_remove h p s))"
    "I (snd (hw_remove_all h p s))" "I (snd (hw_clone h p a u r s))" "I (snd (hw_pull h p a r s))"
  using assms by (auto simp: file_closed_def)

lemma oends_git_done [simp]: "oends I (git_done r) \<longleftrightarrow> I (snd r)"
  by (auto simp: git_done_def oends_def split: prod.splits option.splits git_error.splits)

declare of_error_ok [simp]

text \<open>An entry of an archive is written below the directory it is unpacked in, or not at all.\<close>

lemma CopyZipItems_keeps:
  assumes "file_closed h P I" "I s" "\<And>p. p = path_clean (''/tmp/'' @ pid) \<or> below (path_clean (''/tmp/'' @ pid)) p \<Longrightarrow> P p"
  shows "oends I (CopyZipItems h e (''/tmp/'' @ pid) name s)"
proof -
  define ep where "ep = ''/tmp/'' @ pid"
  define path where "path = path_join [ep, name]"
  have ep: "ep = ''/'' @ ''tmp/'' @ pid" by (simp add: ep_def)
  have path: "path_clean (''/'' @ ''tmp/'' @ pid @ ''/'' @ name) = path" by (simp add: path_def path_join_def ep_def)
  show ?thesis
  proof (cases "prefix (path_clean ep @ ''/'') path")
    case True
    note b = clean_prefix_below [OF path refl True [unfolded ep]]
    have ok: "P p" if "p = path_clean (''/'' @ ''tmp/'' @ pid) \<or> below (path_clean (''/'' @ ''tmp/'' @ pid)) p" for p
      by (rule assms(3)) (rule that [folded ep, unfolded ep_def])
    have pp: "P path" "P (path_dir path)" using ok [OF disjI2, OF b(1)] ok [OF path_dir_below [OF b(1) refl b(2)]] .
    define s1 where "s1 = snd (hw_mkdir h (path_dir path) s)"
    have s1: "I s1" unfolding s1_def by (rule file_closedD(1) [OF assms(1) pp(2) assms(2)])
    have s2: "I (snd (hw_create h path s1))" by (rule file_closedD(2) [OF assms(1) pp(1) s1])
    have s3: "I (snd (hw_copy h path t (snd (hw_create h path s1))))" for t by (rule file_closedD(3) [OF assms(1) pp(1) s2])
    have "CopyZipItems h e ep name s = (if ze_IsDir e then (case ze_Open e of Inl e \<Rightarrow> (Inl NilDereference, s1) | Inr content \<Rightarrow> (Inr (Inr ()), s1))
         else (case hw_create h path s1 of
              (created, s2) \<Rightarrow>
                (case (ze_Open e, created) of
                   (Inl e, _) \<Rightarrow> (Inl NilDereference, s2)
                 | (Inr content, Some e) \<Rightarrow> (Inr (Inr ()), s2)
                 | (Inr content, None) \<Rightarrow> (Inr (Inr ()), snd (hw_copy h path content s2)))))"
      using True by (simp only: CopyZipItems_def Let_def path_def [symmetric] s1_def [symmetric] if_False not_True_eq_False not_not if_True simp_thms)
    then show ?thesis using s1 s2 s3 unfolding ep_def [symmetric] by (auto split: prod.splits sum.splits option.splits)
  next
    case False
    then have "CopyZipItems h e ep name s = (Inr (Inl (''illegal file path: '' @ path)), s)"
      by (simp only: CopyZipItems_def Let_def path_def [symmetric] simp_thms if_True)
    then show ?thesis using assms(2) unfolding ep_def [symmetric] by simp
  qed
qed

lemma UnzipRemoteHub_keeps:
  assumes "file_closed h P I" "I s" "\<And>p. p = path_clean (''/tmp/'' @ pid) \<or> below (path_clean (''/tmp/'' @ pid)) p \<Longrightarrow> P p"
  shows "oends I (UnzipRemoteHub h zp pid s)"
proof -
  have "I s \<Longrightarrow> oends I (copy_entries h (''/tmp/'' @ pid) es s)" for es s
    by (induction es arbitrary: s) (auto simp del: append.simps intro!: oends_obind CopyZipItems_keeps [OF assms(1) _ assms(3)])
  then show ?thesis using assms(2) by (auto simp: UnzipRemoteHub_def split: sum.splits)
qed

lemma DownloadRemoteHub_keeps:
  assumes fc: "file_closed h P I" and i: "I s" and "\<And>p. p = path_clean (''/tmp/'' @ pid) \<or> below (path_clean (''/tmp/'' @ pid)) p \<Longrightarrow> P p"
    and "P (''/tmp/'' @ pid)" "P (''/tmp/'' @ pid @ ''/'' @ rh_Name rq @ ''.zip'')"
  shows "oends I (DownloadRemoteHub h rq pid s)"
  unfolding DownloadRemoteHub_def Let_def append_assoc
  by (auto simp del: append.simps intro!: oends_obind UnzipRemoteHub_keeps [OF fc _ assms(3)] file_closedD [OF fc] assms(4,5) i split: sum.splits option.splits)

lemma git_keeps:
  assumes fc: "file_closed h (\<lambda>p. True) I" and i: "I s"
  shows "oends I (hub_GitClone h inp pid s)" "oends I (GitSyncHandlerForProjects h inp pid s)" "oends I (GitSyncDefaultHub h inp s)"
proof -
  have c: "oends I (clone_reference h c a s)" if "I s" for c a s
  proof -
    let ?b = "hw_clone h (GetClonePath c) a (hc_RepositoryURL c) (BranchReference (hc_Branch c)) s"
    have b: "I (snd ?b)" using file_closedD(6) [OF fc _ that] by simp
    then have "I (snd (hw_clone h (GetClonePath c) a (hc_RepositoryURL c) (TagReference (hc_Branch c)) (snd ?b)))"
      using file_closedD(6) [OF fc _ b] by simp
    with b show ?thesis by (auto simp: clone_reference_def split: prod.splits option.splits)
  qed
  have r: "I (snd (hw_remove_all h p s))" if "I s" for p s using file_closedD(5) [OF fc] that by simp
  have cl: "oends I (hub_GitClone h inp pid s)" if "I s" for inp pid s
    using that by (auto simp: hub_GitClone_def getPrivateChaosChartRepo_def getChaosChartRepo_def Let_def intro!: oends_obind c r)
  have "oends I (gitPullPrivateRepo h c s)" if "I s" for c s
    using that file_closedD(7) [OF fc] by (auto simp: gitPullPrivateRepo_def intro!: oends_obind split: sum.splits)
  then have "oends I (hub_GitPull h c s)" if "I s" for c s
    using that file_closedD(7) [OF fc] by (auto simp: hub_GitPull_def intro!: oends_obind)
  then have "oends I (chaosChartSyncHandler h c s)" for c
    using i cl by (auto simp: chaosChartSyncHandler_def split: sum.splits bool.splits)
  then show "oends I (GitSyncHandlerForProjects h inp pid s)" "oends I (GitSyncDefaultHub h inp s)"
    by (simp_all add: GitSyncHandlerForProjects_def GitSyncDefaultHub_def)
  show "oends I (hub_GitClone h inp pid s)" using cl i .
qed

lemma copies_keep:
  assumes fc: "file_closed h (\<lambda>p. True) I" and i: "I s"
  shows "oends I (DownloadRemoteHub h rq pid s)" "oends I (SyncRemoteRepo h inp pid s)" "oends I (update_copy h ur prev pid s)"
proof -
  have d: "oends I (DownloadRemoteHub h rq pid s)" if "I s" for rq s by (rule DownloadRemoteHub_keeps [OF fc that]) simp_all
  show "oends I (SyncRemoteRepo h inp pid s)"
    unfolding SyncRemoteRepo_def using i by (auto intro!: oends_obind d file_closedD [OF fc])
  show "oends I (update_copy h ur prev pid s)"
    unfolding update_copy_def Let_def using i by (auto intro!: oends_obind d file_closedD [OF fc] git_keeps [OF fc])
  show "oends I (DownloadRemoteHub h rq pid s)" using d i .
qed

section \<open>The database of hubs\<close>

definition hub_conflict :: "chaos_hub \<Rightarrow> chaos_hub \<Rightarrow> bool" where
  "hub_conflict a b \<longleftrightarrow> hb_ID a = hb_ID b"

text \<open>What one request may do to the hubs: add one to its project or replace one of its project.\<close>

definition hub_change :: "string \<Rightarrow> chaos_hub multiset \<Rightarrow> chaos_hub multiset \<Rightarrow> bool" where
  "hub_change pid M M' \<longleftrightarrow> M' = M \<or>
     (\<exists>d. hb_ProjectID d = pid \<and> (\<forall>e\<in>#M. hb_ID e \<noteq> hb_ID d) \<and> M' = add_mset d M) \<or>
     (\<exists>d d'. d \<in># M \<and> hb_ProjectID d = pid \<and> hb_ProjectID d' = pid \<and> hb_ID d' = hb_ID d \<and> M' = replace_mset d d' M)"

lemma hub_change_refl [simp]: "hub_change pid M M"
  by (simp add: hub_change_def)

lemma hub_change_unique: "hub_change pid M M' \<Longrightarrow> unique_by hb_ID M \<Longrightarrow> unique_by hb_ID M'"
  unfolding hub_change_def by (auto simp: unique_by_replace intro: unique_by_add)

lemma hub_change_foreign:
  assumes "hub_change pid M M'"
  shows "filter_mset (\<lambda>d. hb_ProjectID d \<noteq> pid) M' = filter_mset (\<lambda>d. hb_ProjectID d \<noteq> pid) M"
  using assms unfolding hub_change_def by (auto simp: replace_mset_def)

text \<open>Operations on files do not touch the stored hubs.\<close>

locale hub_db =
  gql_db g idocs edocs udocs pdocs rdocs adocs cdocs +
  hubs: mongo_collection "hubs h" hdocs hub_conflict "\<lambda>s. (udocs s, pdocs s)"
  for g :: "'s gql_db" and idocs edocs udocs pdocs rdocs adocs cdocs
    and h :: "'s hub_world" and hdocs :: "'s \<Rightarrow> chaos_hub multiset" +
  assumes files_frame: "file_closed h (\<lambda>p. True) (\<lambda>s. hdocs s = D)"
begin

lemma files_keep: "file_closed h (\<lambda>p. True) (\<lambda>s. Q (hdocs s))"
  unfolding file_closed_def using files_frame by (fastforce simp: file_closed_def)

lemma GetHubByID_ok: "GetHubByID h i pid s = Inr d \<Longrightarrow> d \<in># hdocs s \<and> hb_ID d = i \<and> hb_ProjectID d = pid"
  by (auto simp: GetHubByID_def map_sum_def split: sum.splits dest: hubs.FindOne_ok)

lemma update_hub_cases:
  assumes "op_UpdateChaosHub h P f s = (r, s')"
  shows "hdocs s' = hdocs s \<or> updated_one P f (hdocs s) (hdocs s')" "r = None \<Longrightarrow> updated_one P f (hdocs s) (hdocs s')"
proof -
  obtain x where x: "UpdateOne (hubs h) P (Some f) s = (x, s')" using assms by (auto simp: op_UpdateChaosHub_def split: prod.splits sum.splits)
  from hubs.UpdateOne_cases [OF this] show "hdocs s' = hdocs s \<or> updated_one P f (hdocs s) (hdocs s')" .
  show "updated_one P f (hdocs s) (hdocs s')" if r: "r = None"
  proof -
    obtain n where "x = Inr n" "n \<noteq> 0" using assms x r by (auto simp: op_UpdateChaosHub_def split: sum.splits if_splits)
    then show ?thesis using hubs.UpdateOne_ok [of P f s n s'] x by simp
  qed
qed

text \<open>An update by the identifier of a hub of the project.\<close>

lemma update_hub_change:
  assumes "unique_by hb_ID (hdocs s)" "d \<in># hdocs s" "hb_ProjectID d = pid" "hdocs s1 = hdocs s"
    and "\<And>e. P e \<Longrightarrow> hb_ID e = hb_ID d" "\<And>e. hb_ProjectID (f e) = hb_ProjectID e \<and> hb_ID (f e) = hb_ID e"
  shows "hub_change pid (hdocs s) (hdocs (snd (op_UpdateChaosHub h P f s1)))"
proof -
  obtain r s2 where u: "op_UpdateChaosHub h P f s1 = (r, s2)" by fastforce
  from update_hub_cases(1) [OF u] show ?thesis
  proof
    assume "updated_one P f (hdocs s1) (hdocs s2)"
    then obtain e where e: "e \<in># hdocs s" "P e" "hdocs s2 = replace_mset e (f e) (hdocs s)" by (auto simp: updated_one_def assms(4))
    have "e = d" by (rule unique_byD [OF assms(1) e(1) assms(2)]) (rule assms(5) [OF e(2)])
    then have "hdocs s2 = replace_mset d (f d) (hdocs s)" using e(3) by simp
    moreover have "hb_ProjectID (f d) = pid" "hb_ID (f d) = hb_ID d" using assms(3) assms(6) [of d] by simp_all
    ultimately show ?thesis unfolding hub_change_def u snd_conv using assms(2,3) by blast
  qed (simp add: u assms(4))
qed

lemma create_hub_change:
  assumes "hb_ProjectID d = pid"
  shows "hub_change pid (hdocs s) (hdocs (snd (CreateChaosHub h d s)))"
proof -
  obtain r s1 where i: "InsertOne (hubs h) d s = (r, s1)" by fastforce
  then show ?thesis using hubs.InsertOne_cases [OF i] assms by (auto simp: CreateChaosHub_def hub_change_def hub_conflict_def)
qed

lemma CreateChaosHub_ok: "CreateChaosHub h d s = (None, s') \<Longrightarrow> hdocs s' = add_mset d (hdocs s) \<and> (\<forall>e\<in>#hdocs s. hb_ID e \<noteq> hb_ID d)"
  using hubs.InsertOne_ok [of d s s'] by (cases "InsertOne (hubs h) d s") (auto simp: CreateChaosHub_def hub_conflict_def)

end

lemma oends_mono: "oends I r \<Longrightarrow> (\<And>s. I s \<Longrightarrow> J s) \<Longrightarrow> oends J r"
  by (simp add: oends_def)

lemma oends_with_user: "I s \<Longrightarrow> (\<And>u. oends I (k u s)) \<Longrightarrow> oends I (with_user g env c k s)"
  by (auto simp: with_user_def split: sum.splits)

lemma oends_name_free: "I s \<Longrightarrow> oends I (k s) \<Longrightarrow> oends I (when_name_free h n pid k s)"
  by (auto simp: when_name_free_def split: sum.splits bool.splits)

lemma new_hub_simps [simp]:
  "hb_ProjectID (new_hub env rq pid u t) = pid" "hb_ProjectID (new_remote_hub env rr pid u) = pid" "hb_ID (new_hub env rq pid u t) = new_uuid (g_auth env) 0"
  "hb_Name (new_hub env rq pid u t) = kr_Name rq" "hb_IsRemoved (new_hub env rq pid u t) = False"
  by (simp_all add: new_hub_def new_remote_hub_def Let_def)

lemma updated_hub_simps [simp]:
  "hb_ProjectID (updated_hub env rq' u d) = hb_ProjectID d" "hb_ID (updated_hub env rq' u d) = hb_ID d"
  "hb_ProjectID (removed_hub env u d) = hb_ProjectID d" "hb_ID (removed_hub env u d) = hb_ID d"
  by (simp_all add: updated_hub_def removed_hub_def)

context hub_db
begin

abbreviation changes :: "string \<Rightarrow> 's \<Rightarrow> 's \<Rightarrow> bool" where
  "changes pid s s' \<equiv> hub_change pid (hdocs s) (hdocs s')"

lemmas keeps_hubs = git_keeps [OF files_keep] copies_keep [OF files_keep]

lemma add_changes:
  "oends (changes pid s) (AddChaosHub h g env c rq pid s)" "oends (changes pid s) (AddRemoteChaosHub h g env c rr pid s)"
  "oends (changes pid s) (SaveChaosHub h g env c rq pid s)"
proof -
  have c: "oends (changes pid s) (of_error (CreateChaosHub h d s))" if "hb_ProjectID d = pid" for d
    using create_hub_change [OF that] by simp
  show "oends (changes pid s) (AddChaosHub h g env c rq pid s)"
    unfolding AddChaosHub_def Let_def
  proof (intro oends_name_free oends_with_user oends_obind c)
    fix u v s1 assume "changes pid s s1"
    then have "oends (changes pid s) (hub_GitClone h (NewCloningInputFrom rq) pid s1)" by (rule keeps_hubs(1))
    then show "oends (changes pid s) (case hub_GitClone h (NewCloningInputFrom rq) pid s1 of (Inl p, s') \<Rightarrow> (Inl p, s')
          | (Inr r, s') \<Rightarrow> (Inr (Inr (GetOutputChaosHub (new_hub env rq pid u ''GIT''))), s'))"
      by (auto simp: oends_def split: prod.splits sum.splits)
  qed simp_all
  show "oends (changes pid s) (AddRemoteChaosHub h g env c rr pid s)"
    unfolding AddRemoteChaosHub_def Let_def
    by (intro oends_name_free oends_with_user oends_obind c) (simp_all add: keeps_hubs(4))
  show "oends (changes pid s) (SaveChaosHub h g env c rq pid s)"
    unfolding SaveChaosHub_def Let_def by (intro oends_name_free oends_with_user oends_obind c) simp_all
qed

lemma edit_changes:
  assumes u: "unique_by hb_ID (hdocs s)"
  shows "oends (changes pid s) (SyncChaosHub h env i pid s)" "oends (changes pid s) (UpdateChaosHub h g env c ur pid s)"
    "oends (changes pid s) (DeleteChaosHub h g env c i pid s)"
proof -
  note same = keeps_hubs [where Q = "\<lambda>M. M = hdocs s", OF refl]
  show "oends (changes pid s) (SyncChaosHub h env i pid s)"
    unfolding SyncChaosHub_def
  proof (intro oends_obind)
    fix d s0 v s1
    let ?r = "if hb_HubType d = ''REMOTE'' then SyncRemoteRepo h (sync_input d) pid s0 else GitSyncHandlerForProjects h (sync_input d) pid s0"
    assume d: "lift_go (Inr (GetHubByID h i pid s)) s = (Inr (Inr d), s0)"
    then have "oends (\<lambda>s1. hdocs s1 = hdocs s) ?r" using same(2,5) by auto
    then show "oends (changes pid s) ?r" by (rule oends_mono) simp
    assume "?r = (Inr (Inr v), s1)"
    with \<open>oends (\<lambda>s1. hdocs s1 = hdocs s) ?r\<close> have "hdocs s1 = hdocs s" by (rule oendsI)
    with d show "oends (changes pid s) (of_error (op_UpdateChaosHub h (\<lambda>d. hb_ID d = i \<and> \<not> hb_IsRemoved d)
        (\<lambda>d. d\<lparr>hb_LastSyncedAt := now_ms (g_auth env) 0\<rparr>) s1))"
      using GetHubByID_ok [of i pid s d] by (auto intro!: update_hub_change [OF u])
  qed auto
  show "oends (changes pid s) (UpdateChaosHub h g env c ur pid s)"
    unfolding UpdateChaosHub_def
  proof (intro oends_obind)
    fix d s0 v s1
    assume d: "lift_go (Inr (GetHubByID h (kr_ID ur) pid s)) s = (Inr (Inr d), s0)"
    then have k: "oends (\<lambda>s1. hdocs s1 = hdocs s) (update_copy h ur d pid s0)" using same(6) by auto
    then show "oends (changes pid s) (update_copy h ur d pid s0)" by (rule oends_mono) simp
    assume "update_copy h ur d pid s0 = (Inr (Inr v), s1)"
    with k have "hdocs s1 = hdocs s" by (rule oendsI)
    with d show "oends (changes pid s) (case GetUsername g env (gc_token c) s1 of Inl p \<Rightarrow> (Inl p, s1)
       | Inr found \<Rightarrow>
           obind (of_error (op_UpdateChaosHub h (\<lambda>d. hb_ID d = kr_ID ur \<and> \<not> hb_IsRemoved d)
               (updated_hub env ur (case found of Inl e \<Rightarrow> '''' | Inr u \<Rightarrow> u)) s1)) (\<lambda>_ s.
             (Inr (Inr ((hw_copy_hub h ur)\<lparr>hv_UpdatedAt := itoa (now_ms (g_auth env) 0)\<rparr>)), s)))"
      using GetHubByID_ok [of "kr_ID ur" pid s d] by (auto intro!: oends_obind update_hub_change [OF u] split: sum.splits)
  qed auto
  show "oends (changes pid s) (DeleteChaosHub h g env c i pid s)"
    unfolding DeleteChaosHub_def
  proof (intro oends_with_user oends_obind)
    fix un d s0
    assume "lift_go (Inr (GetHubByID h i pid s)) s = (Inr (Inr d), s0)"
    then show "oends (changes pid s) (of_error (op_UpdateChaosHub h (\<lambda>d. hb_ID d = i \<and> hb_ProjectID d = pid) (removed_hub env un) s0))"
      using GetHubByID_ok [of i pid s d] by (auto intro!: update_hub_change [OF u])
  next
    fix s1 p assume "changes pid s s1"
    then show "oends (changes pid s) (of_error (hw_remove_all h p s1))" using file_closedD(5) [OF files_keep] by simp
  qed auto
qed

end

section \<open>Requests that write\<close>

datatype hub_request =
    AddHub create_hub_request | AddRemoteHub remote_hub_request | SaveHub create_hub_request | SyncHub string
  | UpdateHub update_hub_request | DeleteHub string

definition no_answer :: "('s, 'a) outcome \<Rightarrow> ('s, unit) outcome" where
  "no_answer r = apfst (map_sum id (map_sum id (\<lambda>_. ()))) r"

fun hub_router :: "'s hub_world \<Rightarrow> 's gql_db \<Rightarrow> gql_env \<Rightarrow> gctx \<Rightarrow> string \<Rightarrow> hub_request \<Rightarrow> 's \<Rightarrow> ('s, unit) outcome" where
  "hub_router h g env c pid (AddHub rq) s = no_answer (r_AddChaosHub h g env c pid rq s)"
| "hub_router h g env c pid (AddRemoteHub rq) s = no_answer (r_AddRemoteChaosHub h g env c pid rq s)"
| "hub_router h g env c pid (SaveHub rq) s = no_answer (r_SaveChaosHub h g env c pid rq s)"
| "hub_router h g env c pid (SyncHub i) s = no_answer (r_SyncChaosHub h g env c i pid s)"
| "hub_router h g env c pid (UpdateHub rq) s = no_answer (r_UpdateChaosHub h g env c pid rq s)"
| "hub_router h g env c pid (DeleteHub i) s = no_answer (r_DeleteChaosHub h g env c pid i s)"

definition hub_roles :: "hub_request \<Rightarrow> string list" where
  "hub_roles rq = (case rq of SyncHub i \<Rightarrow> [RoleOwner, RoleEditor] | _ \<Rightarrow> [RoleOwner])"

lemma gql_rules_hubs:
  "gql_rules ''AddChaosHub'' = [RoleOwner]" "gql_rules ''SaveChaosHub'' = [RoleOwner]" "gql_rules ''UpdateChaosHub'' = [RoleOwner]"
  "gql_rules ''DeleteChaosHub'' = [RoleOwner]" "gql_rules ''UpdateChaosExperiment'' = [RoleOwner, RoleEditor]"
  by (simp_all add: gql_rules_def rbac_table_def)

lemma no_answer_snd [simp]: "snd (no_answer r) = snd r"
  by (simp add: no_answer_def)

context hub_db
begin

lemma role_guards:
  assumes "oends I (k s)" "I s"
  shows "I (snd (with_role g env c pid q k s)) \<and> (snd (with_role g env c pid q k s) = s \<or>
    (\<exists>u. token_user g env (gc_token c) s = Some u \<and> permitted (udocs s) (pdocs s) u pid (gql_rules q) AcceptedInvitation))"
  using assms ValidateRole_sound by (auto simp: with_role_def oends_def split: option.splits)

lemma hub_router_guards:
  assumes "unique_by hb_ID (hdocs s)"
  shows "changes pid s (snd (hub_router h g env c pid rq s)) \<and> (snd (hub_router h g env c pid rq s) = s \<or>
    (\<exists>u. token_user g env (gc_token c) s = Some u \<and> permitted (udocs s) (pdocs s) u pid (hub_roles rq) AcceptedInvitation))"
proof (cases rq)
  case (AddHub q)
  then show ?thesis using role_guards [of "changes pid s" "AddChaosHub h g env c q pid" s env c pid "''AddChaosHub''", OF add_changes(1) hub_change_refl] by (simp add: r_AddChaosHub_def hub_roles_def gql_rules_hubs)
next
  case (AddRemoteHub q)
  then show ?thesis using role_guards [of "changes pid s" "AddRemoteChaosHub h g env c q pid" s env c pid "''SaveChaosHub''", OF add_changes(2) hub_change_refl] by (simp add: r_AddRemoteChaosHub_def hub_roles_def gql_rules_hubs)
next
  case (SaveHub q)
  then show ?thesis using role_guards [of "changes pid s" "SaveChaosHub h g env c q pid" s env c pid "''SaveChaosHub''", OF add_changes(3) hub_change_refl] by (simp add: r_SaveChaosHub_def hub_roles_def gql_rules_hubs)
next
  case (SyncHub i)
  then show ?thesis using role_guards [of "changes pid s" "SyncChaosHub h env i pid" s env c pid "''UpdateChaosExperiment''", OF edit_changes(1) [OF assms] hub_change_refl] by (simp add: r_SyncChaosHub_def hub_roles_def gql_rules_hubs)
next
  case (UpdateHub q)
  then show ?thesis using role_guards [of "changes pid s" "UpdateChaosHub h g env c q pid" s env c pid "''UpdateChaosHub''", OF edit_changes(2) [OF assms] hub_change_refl] by (simp add: r_UpdateChaosHub_def hub_roles_def gql_rules_hubs)
next
  case (DeleteHub i)
  then show ?thesis using role_guards [of "changes pid s" "DeleteChaosHub h g env c i pid" s env c pid "''DeleteChaosHub''", OF edit_changes(3) [OF assms] hub_change_refl] by (simp add: r_DeleteChaosHub_def hub_roles_def gql_rules_hubs)
qed

section \<open>The life of a hub\<close>

lemma logged_clone:
  "(case r of (Inl p, s') \<Rightarrow> (Inl p, s') | (Inr x, s') \<Rightarrow> (Inr (Inr w), s')) = (Inr (Inr v), s1) \<longleftrightarrow> (\<exists>x. r = (Inr x, s1)) \<and> w = v"
  by (auto split: prod.splits sum.splits)

lemma AddChaosHub_ok:
  assumes "AddChaosHub h g env c rq pid s = (Inr (Inr v), s1)"
  shows "\<exists>u. v = GetOutputChaosHub (new_hub env rq pid u ''GIT'') \<and> hdocs s1 = add_mset (new_hub env rq pid u ''GIT'') (hdocs s) \<and>
    (\<forall>e\<in>#hdocs s. hb_ID e \<noteq> hb_ID (new_hub env rq pid u ''GIT'')) \<and>
    (\<forall>e\<in>#hdocs s. hb_ProjectID e = pid \<and> \<not> hb_IsRemoved e \<longrightarrow> hb_Name e \<noteq> kr_Name rq)"
proof -
  obtain ds where "Find (hubs h) (\<lambda>d. hb_ProjectID d = pid \<and> \<not> hb_IsRemoved d) s = Inr ds" and n: "\<not> list_ex (\<lambda>d. hb_Name d = kr_Name rq) ds"
    using assms by (auto simp: AddChaosHub_def when_name_free_def IsChaosHubAvailable_def GetChaosHubByProjectID_def map_sum_def split: sum.splits bool.splits)
  from hubs.Find_ok [OF this(1)] have "set ds = {d. d \<in># hdocs s \<and> hb_ProjectID d = pid \<and> \<not> hb_IsRemoved d}" by (metis set_mset_filter set_mset_mset)
  with n have free: "\<forall>e\<in>#hdocs s. hb_ProjectID e = pid \<and> \<not> hb_IsRemoved e \<longrightarrow> hb_Name e \<noteq> kr_Name rq" by (auto simp: list_ex_iff)
  obtain u where "with_user g env c (\<lambda>uname s.
       (let hub = new_hub env rq pid uname ''GIT'' in
        obind (of_error (CreateChaosHub h hub s)) (\<lambda>_ s.
          case hub_GitClone h (NewCloningInputFrom rq) pid s of
            (Inl p, s') \<Rightarrow> (Inl p, s')
          | (Inr r, s') \<Rightarrow> (Inr (Inr (GetOutputChaosHub hub)), s')))) s = (Inr (Inr v), s1)"
    using assms by (auto simp: AddChaosHub_def when_name_free_def split: sum.splits bool.splits)
  from with_user_ok [OF this] obtain u s0 where
    c: "CreateChaosHub h (new_hub env rq pid u ''GIT'') s = (None, s0)" and v: "v = GetOutputChaosHub (new_hub env rq pid u ''GIT'')"
    and s1: "snd (hub_GitClone h (NewCloningInputFrom rq) pid s0) = s1"
    by (auto simp: Let_def logged_clone)
  have "hdocs s1 = hdocs s0" using keeps_hubs(1) [of "\<lambda>M. M = hdocs s0" s0 "NewCloningInputFrom rq" pid] by (simp add: oends_def s1)
  with CreateChaosHub_ok [OF c] v free show ?thesis by auto
qed

lemma DeleteChaosHub_ok:
  assumes "DeleteChaosHub h g env c i pid s = (Inr (Inr b), s')"
  shows "\<exists>u d. d \<in># hdocs s \<and> hb_ID d = i \<and> hb_ProjectID d = pid \<and> hdocs s' = replace_mset d (removed_hub env u d) (hdocs s)"
proof -
  from with_user_ok [OF assms [unfolded DeleteChaosHub_def]] obtain u n s1 where
    u: "op_UpdateChaosHub h (\<lambda>d. hb_ID d = i \<and> hb_ProjectID d = pid) (removed_hub env u) s = (None, s1)" and s': "hw_remove_all h n s1 = (None, s')"
    by auto
  have "hdocs (snd (hw_remove_all h n s1)) = hdocs s1" by (rule file_closedD(5) [OF files_frame]) simp_all
  then have "hdocs s' = hdocs s1" using s' by simp
  with update_hub_cases(2) [OF u] show ?thesis by (auto simp: updated_one_def)
qed

end

section \<open>Listing\<close>

text \<open>The hubs a listing asks for.\<close>

definition hub_matches :: "gql_env \<Rightarrow> string \<Rightarrow> list_hub_request option \<Rightarrow> chaos_hub \<Rightarrow> bool" where
  "hub_matches env pid request d \<longleftrightarrow> hb_ProjectID d = pid \<and> \<not> hb_IsRemoved d \<and>
     (\<forall>rq. request = Some rq \<longrightarrow>
        (lh_ChaosHubIDs rq \<noteq> [] \<longrightarrow> hb_ID d \<in> set (lh_ChaosHubIDs rq)) \<and>
        (\<forall>f. lh_Filter rq = Some f \<longrightarrow>
           (\<forall>n. hf_ChaosHubName f = Some n \<and> n \<noteq> '''' \<longrightarrow> g_regex env n (hb_Name d)) \<and>
           (\<forall>n. hf_Description f = Some n \<and> n \<noteq> '''' \<longrightarrow> g_regex env n (hb_Description d)) \<and> set (hf_Tags f) \<subseteq> set (hb_Tags d)))"

lemma hub_stages_matches: "\<exists>Ps. hub_stages env pid request = map Match Ps \<and> (\<forall>d. (\<forall>P\<in>set Ps. P d) \<longleftrightarrow> hub_matches env pid request d)"
proof -
  define live where "live = (\<lambda>d :: chaos_hub. hb_ProjectID d = pid \<and> \<not> hb_IsRemoved d)"
  define ids where "ids rq = (if lh_ChaosHubIDs rq \<noteq> [] then [\<lambda>d. hb_ID d \<in> set (lh_ChaosHubIDs rq)] else [] :: (chaos_hub \<Rightarrow> bool) list)" for rq :: list_hub_request
  define names where "names f = (case hf_ChaosHubName f of Some n \<Rightarrow> if n \<noteq> '''' then [\<lambda>d :: chaos_hub. g_regex env n (hb_Name d)] else [] | None \<Rightarrow> [])" for f :: hub_filter
  define descs where "descs f = (case hf_Description f of Some n \<Rightarrow> if n \<noteq> '''' then [\<lambda>d :: chaos_hub. g_regex env n (hb_Description d)] else [] | None \<Rightarrow> [])" for f :: hub_filter
  define tags where "tags f = (if hf_Tags f \<noteq> [] then [\<lambda>d. set (hf_Tags f) \<subseteq> set (hb_Tags d)] else [] :: (chaos_hub \<Rightarrow> bool) list)" for f :: hub_filter
  note defs = live_def ids_def names_def descs_def tags_def
  let ?Ps = "live # (case request of None \<Rightarrow> [] | Some rq \<Rightarrow> ids rq @ (case lh_Filter rq of None \<Rightarrow> [] | Some f \<Rightarrow> names f @ descs f @ tags f))"
  have "hub_stages env pid request = map Match ?Ps"
    by (simp add: hub_stages_def defs split: option.split)
  have pieces: "(\<forall>P\<in>set (ids rq). P d) \<longleftrightarrow> (lh_ChaosHubIDs rq \<noteq> [] \<longrightarrow> hb_ID d \<in> set (lh_ChaosHubIDs rq))"
    "(\<forall>P\<in>set (names f). P d) \<longleftrightarrow> (\<forall>n. hf_ChaosHubName f = Some n \<and> n \<noteq> '''' \<longrightarrow> g_regex env n (hb_Name d))"
    "(\<forall>P\<in>set (descs f). P d) \<longleftrightarrow> (\<forall>n. hf_Description f = Some n \<and> n \<noteq> '''' \<longrightarrow> g_regex env n (hb_Description d))"
    "(\<forall>P\<in>set (tags f). P d) \<longleftrightarrow> set (hf_Tags f) \<subseteq> set (hb_Tags d)" for rq f d
    by (simp add: ids_def, cases "hf_ChaosHubName f", simp_all add: names_def, cases "hf_Description f", simp_all add: descs_def tags_def, cases "hf_Tags f", simp_all)
  have "(\<forall>P\<in>set ?Ps. P d) \<longleftrightarrow> hub_matches env pid request d" for d
  proof (cases request)
    case (Some rq)
    then show ?thesis by (cases "lh_Filter rq") (simp_all add: hub_matches_def live_def ball_Un pieces)
  qed (simp add: hub_matches_def live_def)
  with \<open>hub_stages env pid request = map Match ?Ps\<close> show ?thesis by blast
qed

context hub_db
begin

lemma listed_hubs:
  assumes "ListChaosHubs h env pid request s = Inr sts"
  shows "\<exists>ds. mset ds = filter_mset (hub_matches env pid request) (hdocs s) \<and>
    sts = map (\<lambda>d. hub_status_of h pid (chart_path d @ ''/faults/'') d s) (default_hub h # ds)"
proof -
  obtain ds where ds: "Aggregate (hubs h) (hub_stages env pid request) s = Inr ds"
    and sts: "sts = map (\<lambda>d. hub_status_of h pid (chart_path d @ ''/faults/'') d s) (default_hub h # ds)"
    using assms by (auto simp: ListChaosHubs_def GetAggregateChaosHubs_def map_sum_def split: sum.splits)
  obtain Ps where Ps: "hub_stages env pid request = map Match Ps" "\<forall>d. (\<forall>P\<in>set Ps. P d) \<longleftrightarrow> hub_matches env pid request d"
    using hub_stages_matches by blast
  from hubs.Aggregate_ok [OF ds] obtain es where "mset es = hdocs s" "ds = filter (hub_matches env pid request) es"
    using Ps by (auto simp: pipeline_matches)
  then have "mset ds = filter_mset (hub_matches env pid request) (hdocs s)" by (metis mset_filter)
  then show ?thesis using sts by blast
qed

lemma counted_hubs:
  assumes "GetChaosHubStats h pid s = Inr n"
  shows "n = int (size (filter_mset (hub_matches env pid None) (hdocs s))) + 1"
proof -
  obtain cnt ds where f: "Facet (hubs h) [Match (\<lambda>d. hb_ProjectID d = pid \<and> \<not> hb_IsRemoved d)] [] s = Inr (cnt, ds)"
    and n: "n = (case cnt of None \<Rightarrow> 1 | Some k \<Rightarrow> int k + 1)"
    using assms by (auto simp: GetChaosHubStats_def split: sum.splits option.splits)
  from hubs.Facet_ok [OF f] obtain es ms where e: "mset es = hdocs s" "ms = filter (\<lambda>d. hb_ProjectID d = pid \<and> \<not> hb_IsRemoved d) es"
    "cnt = (if ms = [] then None else Some (length ms))" by auto
  have "size (filter_mset (hub_matches env pid None) (hdocs s)) = length ms"
    unfolding e(1) [symmetric] e(2) hub_matches_def by (simp flip: mset_filter size_mset)
  then show ?thesis using n e(3) by simp
qed

end

section \<open>The background synchronisation\<close>

text \<open>The fields a private hub needs for its kind of authentication.\<close>

definition has_credentials :: "chaos_hub \<Rightarrow> bool" where
  "has_credentials d \<longleftrightarrow> (hb_AuthType d = ''TOKEN'' \<longrightarrow> hb_Token d \<noteq> None) \<and>
     (hb_AuthType d = ''BASIC'' \<longrightarrow> hb_UserName d \<noteq> None \<and> hb_Password d \<noteq> None) \<and> (hb_AuthType d = ''SSH'' \<longrightarrow> hb_SSHPrivateKey d \<noteq> None)"

definition returns :: "'a go \<times> 's \<Rightarrow> bool" where
  "returns r \<longleftrightarrow> \<not> isl (fst r)"

lemma returns_simps [simp]: "returns (Inr v, s)" "\<not> returns (Inl p, s)" "returns (of_error e)" "returns (git_done ge)" "returns (with_text t r) = returns r"
  by (auto simp: returns_def of_error_def git_done_def with_text_def isl_def map_sum_def split: prod.splits option.splits git_error.splits sum.splits)

lemma returns_obind: "returns r \<Longrightarrow> (\<And>v s. r = (Inr (Inr v), s) \<Longrightarrow> returns (k v s)) \<Longrightarrow> returns (obind r k)"
  by (auto simp: obind_def returns_def split: prod.splits sum.splits)

lemma returnsE: "returns r \<Longrightarrow> \<exists>x s. r = (Inr x, s)"
  by (cases r; cases "fst r") auto

text \<open>Every entry of a downloaded archive can be opened.\<close>

definition archives_open :: "'s hub_world \<Rightarrow> bool" where
  "archives_open h \<longleftrightarrow> (\<forall>p s es. hw_zip h p s = Inr es \<longrightarrow> list_all (\<lambda>e. \<not> isl (ze_Open e)) es)"

lemma sync_returns:
  assumes "hc_IsPrivate c \<Longrightarrow> \<not> isl (generateAuthMethod h c)"
  shows "returns (chaosChartSyncHandler h c s)"
proof -
  have cr: "returns (clone_reference h c a s)" for c a s by (auto simp: clone_reference_def split: prod.splits option.splits)
  have auth: "returns (lift_go (generateAuthMethod h (GitConfigConstruct inp pid)) s)"
    if "hc_IsPrivate c" "cn_AuthType inp = hc_AuthType c" "cn_Token inp = hc_Token c" "cn_UserName inp = hc_UserName c"
      "cn_Password inp = hc_Password c" "cn_SSHPrivateKey inp = hc_SSHPrivateKey c" for inp pid s
  proof -
    have "generateAuthMethod h (GitConfigConstruct inp pid) = generateAuthMethod h c"
      using that(2-) by (simp add: generateAuthMethod_def GitConfigConstruct_def)
    then show ?thesis using assms [OF that(1)] by (simp add: returns_def lift_go_def)
  qed
  have l: "returns (lift_go (Inr r) s)" for r s by (simp add: lift_go_def)
  have pull: "returns (hub_GitPull h c s)"
    using assms by (auto simp: hub_GitPull_def gitPullPrivateRepo_def isl_def intro!: returns_obind l split: sum.splits)
  show ?thesis
    using pull by (auto simp: chaosChartSyncHandler_def hub_GitClone_def getPrivateChaosChartRepo_def getChaosChartRepo_def Let_def
        intro!: returns_obind cr auth split: sum.splits bool.splits)
qed

lemma remote_returns:
  assumes "archives_open h"
  shows "returns (SyncRemoteRepo h inp pid s)"
proof -
  have c: "returns (CopyZipItems h e ep n s)" if "\<not> isl (ze_Open e)" for e ep n s
    using that by (auto simp: CopyZipItems_def Let_def isl_def split: prod.splits sum.splits option.splits)
  have "list_all (\<lambda>e. \<not> isl (ze_Open e)) es \<Longrightarrow> returns (copy_entries h ep es s)" for es ep s
    by (induction es arbitrary: s) (auto intro!: returns_obind c)
  then have "returns (UnzipRemoteHub h zp pid s)" for zp pid s
    using assms by (auto simp: UnzipRemoteHub_def archives_open_def split: sum.splits)
  then show ?thesis
    by (auto simp: SyncRemoteRepo_def DownloadRemoteHub_def Let_def simp del: append.simps intro!: returns_obind split: sum.splits option.splits)
qed

context hub_db
begin

lemma sync_hubs_returns:
  assumes "archives_open h"
    and "\<forall>d\<in>set ds. \<not> hb_IsRemoved d \<and> hb_HubType d \<noteq> ''REMOTE'' \<and> hb_IsPrivate d \<longrightarrow> has_credentials d"
  shows "\<exists>s'. sync_hubs h (map GetOutputChaosHub ds) s = (Inr (), s') \<and> hdocs s' = hdocs s"
  using assms(2)
proof (induction ds arbitrary: s)
  case (Cons d ds)
  let ?v = "GetOutputChaosHub d"
  let ?r = "if hv_HubType ?v \<noteq> ''REMOTE'' then GitSyncHandlerForProjects h (charts_input ?v) (hv_ProjectID ?v) s else SyncRemoteRepo h (charts_input ?v) (hv_ProjectID ?v) s"
  have keep: "hdocs (snd ?r) = hdocs s"
    using keeps_hubs(2,5) [of "\<lambda>M. M = hdocs s" s] by (simp add: oends_def)
  have "returns ?r" if "\<not> hb_IsRemoved d"
  proof (cases "hb_HubType d = ''REMOTE''")
    case False
    have "returns (GitSyncHandlerForProjects h (charts_input ?v) (hv_ProjectID ?v) s)"
      unfolding GitSyncHandlerForProjects_def
    proof (rule sync_returns)
      assume "hc_IsPrivate (GitConfigConstruct (charts_input ?v) (hv_ProjectID ?v))"
      then have "has_credentials d" using Cons.prems that False by (simp add: GitConfigConstruct_def charts_input_def GetOutputChaosHub_def)
      then show "\<not> isl (generateAuthMethod h (GitConfigConstruct (charts_input ?v) (hv_ProjectID ?v)))"
        by (auto simp: generateAuthMethod_def GitConfigConstruct_def charts_input_def GetOutputChaosHub_def has_credentials_def isl_def)
    qed
    then show ?thesis using False by (simp add: GetOutputChaosHub_def)
  next
    case True
    then show ?thesis using remote_returns [OF assms(1)] by (simp add: GetOutputChaosHub_def)
  qed
  then have step: "\<exists>x s1. ?r = (Inr x, s1)" if "\<not> hb_IsRemoved d" using that by (intro returnsE)
  show ?case
  proof (cases "hb_IsRemoved d")
    case True
    then show ?thesis using Cons by (simp add: GetOutputChaosHub_def)
  next
    case False
    then obtain x s1 where r: "?r = (Inr x, s1)" using step by blast
    have "hdocs s1 = hdocs s" using keep unfolding r by simp
    moreover obtain s' where "sync_hubs h (map GetOutputChaosHub ds) s1 = (Inr (), s')" "hdocs s' = hdocs s1" using Cons by auto
    moreover have "\<not> hv_IsRemoved ?v" using False by (simp add: GetOutputChaosHub_def)
    ultimately show ?thesis by (simp add: r)
  qed
qed simp

lemma recurring_returns:
  assumes "archives_open h"
    and "\<forall>d\<in>#hdocs s. \<not> hb_IsRemoved d \<and> hb_HubType d \<noteq> ''REMOTE'' \<and> hb_IsPrivate d \<longrightarrow> has_credentials d"
  shows "\<exists>s'. RecurringHubSync h n s = (Inr (), s') \<and> hdocs s' = hdocs s"
  using assms(2)
proof (induction n arbitrary: s)
  case (Suc n)
  obtain ds where ds: "(case GetAllHubs h s of Inl e \<Rightarrow> [] | Inr vs \<Rightarrow> vs) = map GetOutputChaosHub ds" "set ds \<subseteq> set_mset (hdocs s)"
  proof (cases "Find (hubs h) (\<lambda>d. True) s")
    case (Inl e)
    then show ?thesis using that [of "[]"] by (simp add: GetAllHubs_def GetHubs_def)
  next
    case (Inr ds)
    from hubs.Find_ok [OF this] have "mset ds = hdocs s" by simp
    then show ?thesis using that [of ds] Inr by (metis (no_types, lifting) GetAllHubs_def GetHubs_def id_apply map_sum.simps(2) order_refl set_mset_mset sum.case(2))
  qed
  have "\<forall>d\<in>set ds. \<not> hb_IsRemoved d \<and> hb_HubType d \<noteq> ''REMOTE'' \<and> hb_IsPrivate d \<longrightarrow> has_credentials d" using Suc.prems ds(2) by auto
  from sync_hubs_returns [OF assms(1) this, of s] obtain s1 where "sync_hubs h (map GetOutputChaosHub ds) s = (Inr (), s1)" "hdocs s1 = hdocs s" by auto
  moreover have "\<exists>s'. RecurringHubSync h n s1 = (Inr (), s') \<and> hdocs s' = hdocs s1"
    using Suc.prems \<open>hdocs s1 = hdocs s\<close> by (intro Suc.IH) simp
  ultimately show ?case using ds(1) by auto
qed simp

end

end
