(* ===== verification/Gql_Hub_Claims.thy ===== *)
theory Gql_Hub_Claims
  imports Gql_Hub_Props Gql_Runs_Props
begin

text \<open>
  The properties of the chaos hubs with an executable deployment they are evaluated on, and findings about the hubs.
\<close>

section \<open>An executable deployment\<close>

text \<open>Files are pairs of a path and a content; a repository is a directory with a file \<^verbatim>\<open>.git\<close>. The archive at the only address has two entries.\<close>

record hub_state = exp_state +
  st_hubs :: "chaos_hub list"
  st_disk :: "(string \<times> string) list"

definition no_annotation :: chart_annotation where
  "no_annotation = \<lparr>ca_Categories = '''', ca_Vendor = '''', ca_CreatedAt = '''', ca_Repository = '''', ca_Support = '''', ca_ChartDescription = ''''\<rparr>"

definition chart_with :: "string list \<Rightarrow> chaos_chart" where
  "chart_with faults =
     \<lparr>cc_APIVersion = ''v1'', cc_Kind = ''ChartServiceVersion'', cc_Name = ''generic'', cc_Version = '''', cc_Annotations = no_annotation,
      cc_Spec = \<lparr>cs_DisplayName = '''', cs_CategoryDescription = '''', cs_Plan = [], cs_Keywords = [], cs_Maturity = '''', cs_Maintainers = [],
        cs_MinKubeVersion = '''', cs_Scenarios = [], cs_Provider = '''', cs_Links = [], cs_Experiments = [],
        cs_Faults = map (\<lambda>n. \<lparr>cf_Name = n, cf_DisplayName = n, cf_Description = '''', cf_Plan = []\<rparr>) faults,
        cs_ChaosExpCRDLink = '''', cs_Platforms = [], cs_ChaosType = ''''\<rparr>,
      cc_PackageName = '''', cc_PackageExperiments = []\<rparr>"

definition disk_names :: "string \<Rightarrow> (string \<times> string) list \<Rightarrow> string + string list" where
  "disk_names p fs =
     (let q = (if suffix ''/'' p then p else p @ ''/'');
          names = remdups (map (\<lambda>f. takeWhile (\<lambda>c. c \<noteq> CHR ''/'') (drop (length q) (fst f))) (filter (\<lambda>f. prefix q (fst f)) fs))
      in if names = [] then Inl ''no such directory'' else Inr names)"

definition mem_hub :: "hub_state hub_world" where
  "mem_hub =
     \<lparr>hubs = mem_collection st_hubs (\<lambda>v s. s\<lparr>st_hubs := v\<rparr>) hub_conflict,
      hw_stat = (\<lambda>p s. if list_ex (\<lambda>f. prefix p (fst f)) (st_disk s) then None else Some NotExist),
      hw_read = (\<lambda>p s. case map_of (st_disk s) p of None \<Rightarrow> Inl ''no such file'' | Some t \<Rightarrow> Inr t),
      hw_read_dir = (\<lambda>p s. disk_names p (st_disk s)),
      hw_remove_all = (\<lambda>p s. (None, s\<lparr>st_disk := filter (\<lambda>f. \<not> prefix p (fst f)) (st_disk s)\<rparr>)),
      hw_remove = (\<lambda>p s. (None, s\<lparr>st_disk := AList.delete p (st_disk s)\<rparr>)),
      hw_mkdir = (\<lambda>p s. (None, s)),
      hw_create = (\<lambda>p s. (None, s\<lparr>st_disk := AList.update p '''' (st_disk s)\<rparr>)),
      hw_copy = (\<lambda>p t s. case t of Inl e \<Rightarrow> (Some e, s) | Inr c \<Rightarrow> (None, s\<lparr>st_disk := AList.update p c (st_disk s)\<rparr>)),
      hw_clone = (\<lambda>p a u r s. (None, s\<lparr>st_disk := AList.update (p @ ''/.git'') u (st_disk s)\<rparr>)),
      hw_open = (\<lambda>p s. if map_of (st_disk s) (p @ ''/.git'') = None then Some ''repository does not exist'' else None),
      hw_worktree = (\<lambda>p s. None), hw_head = (\<lambda>p s. None), hw_pull = (\<lambda>p a r s. (Some AlreadyUpToDate, s)),
      hw_get = (\<lambda>u. Inr \<lparr>hr_StatusCode = 200, hr_Status = ''200 OK'', hr_ContentLength = '''', hr_ContentType = ''application/zip'', hr_Body = Inr ''zip''\<rparr>),
      hw_sanitize = (\<lambda>u. u),
      hw_zip = (\<lambda>p s. Inr [\<lparr>ze_Name = ''hub/./a.yaml'', ze_IsDir = False, ze_Open = Inr (Inr ''chart'')\<rparr>,
                           \<lparr>ze_Name = ''../p2/hub/a.yaml'', ze_IsDir = False, ze_Open = Inr (Inr ''evil'')\<rparr>]),
      hw_ssh = (\<lambda>k. Inr ()), hw_chart = (\<lambda>t. chart_with [''pod-delete'']), hw_no_chart = chart_with [],
      hw_copy_hub = (\<lambda>rq. \<lparr>hv_ID = kr_ID rq, hv_RepoURL = kr_RepoURL rq, hv_RepoBranch = kr_RepoBranch rq, hv_RemoteHub = kr_RemoteHub rq,
         hv_ProjectID = '''', hv_IsDefault = False, hv_Name = kr_Name rq, hv_Tags = kr_Tags rq, hv_CreatedBy = None, hv_UpdatedBy = None,
         hv_Description = kr_Description rq, hv_HubType = '''', hv_IsPrivate = kr_IsPrivate rq, hv_AuthType = kr_AuthType rq, hv_Token = kr_Token rq,
         hv_UserName = kr_UserName rq, hv_Password = kr_Password rq, hv_SSHPrivateKey = kr_SSHPrivateKey rq, hv_IsRemoved = False,
         hv_CreatedAt = '''', hv_UpdatedAt = '''', hv_LastSyncedAt = ''''\<rparr>),
      hw_GitUsername = ''litmus'', hw_RemoteHubMaxSize = ''1000'', hw_DefaultHubName = ''Litmus ChaosHub'', hw_DefaultHubGitURL = ''charts'',
      hw_DefaultHubBranchName = ''master'', hw_DefaultHubIsPrivate = False, hw_DefaultHubAuthType = '''', hw_DefaultHubToken = '''',
      hw_DefaultHubUserName = '''', hw_DefaultHubPassword = '''', hw_DefaultHubSshPrivateKey = '''', hw_CustomChaosHubPath = ''/tmp/'',
      hw_DefaultChaosHubPath = ''/tmp/default/''\<rparr>"

interpretation mem_hub: hub_db "gql_handle mem_exp" "\<lambda>s. mset (st_infras s)" "\<lambda>s. mset (st_environments s)" "\<lambda>s. mset (st_users s)"
  "\<lambda>s. mset (st_projects s)" "\<lambda>s. mset (st_revoked s)" "\<lambda>s. mset (st_tokens s)" "\<lambda>s. mset (st_configs s)" mem_hub "\<lambda>s. mset (st_hubs s)"
  by (intro hub_db.intro hub_db_axioms.intro mem_exp.gql.gql_db_axioms)
    (auto simp: mem_hub_def file_closed_def split: sum.split intro!: mem_collection_ok)

lemmas mem_hub_db = mem_hub.hub_db_axioms

definition hub_sample :: "chaos_hub list \<Rightarrow> (string \<times> string) list \<Rightarrow> hub_state" where
  "hub_sample hs fs = exp_state.extend (sample_exp_state [] [] []) (hub_state.fields hs fs)"

definition sample_hub_request :: create_hub_request where
  "sample_hub_request =
     \<lparr>kr_Name = ''charts'', kr_Tags = [], kr_Description = None, kr_RepoURL = ''https://git/charts'', kr_RepoBranch = ''master'', kr_RemoteHub = '''',
      kr_IsPrivate = False, kr_AuthType = ''NONE'', kr_Token = None, kr_UserName = None, kr_Password = None, kr_SSHPrivateKey = None, kr_SSHPublicKey = None\<rparr>"

definition sample_hub :: "string \<Rightarrow> string \<Rightarrow> chaos_hub" where
  "sample_hub i pid = (new_hub sample_gql_env sample_hub_request pid ''ann'' ''GIT'')\<lparr>hb_ID := i\<rparr>"

lemma hub_sample_simps: "st_hubs (hub_sample hs fs) = hs" "st_disk (hub_sample hs fs) = fs"
  by (simp_all add: hub_sample_def exp_state.defs hub_state.defs)

section \<open>Archives\<close>

text \<open>
  C31: An archive cannot write outside the project. While a remote hub is downloaded and unpacked, directories and files are created, written and removed
  only in the directory of the project or below it, whatever the names of the entries of the archive are, with one exception: the downloaded
  archive itself, whose path has the name of the hub in it. For a project identifier that is an element of a path that directory is \<^verbatim>\<open>/tmp\<close> with the identifier, and
  the archive is below it too if the name of the hub has no separator. (No state property that operations on such paths keep is broken.)
\<close>

theorem download_stays_inside:
  assumes "file_closed h (\<lambda>p. p = ''/tmp/'' @ projectID \<or> p = ''/tmp/'' @ projectID @ ''/'' @ rh_Name rq @ ''.zip'' \<or>
      p = path_clean (''/tmp/'' @ projectID) \<or> below (path_clean (''/tmp/'' @ projectID)) p) I" "I s"
  shows "I (snd (DownloadRemoteHub h rq projectID s)) \<and>
    (path_element projectID \<longrightarrow> path_clean (''/tmp/'' @ projectID) = ''/tmp/'' @ projectID \<and>
      (CHR ''/'' \<notin> set (rh_Name rq) \<longrightarrow> below (''/tmp/'' @ projectID) (''/tmp/'' @ projectID @ ''/'' @ rh_Name rq @ ''.zip'')))"
proof (intro conjI impI)
  show "I (snd (DownloadRemoteHub h rq projectID s))"
    using DownloadRemoteHub_keeps [OF assms, of projectID rq] by (simp add: oends_def)
  assume "path_element projectID"
  then have split: "go_split (''/tmp/'' @ projectID) ''/'' = ['''', ''tmp'', projectID]"
    using split_slash [of "''''" "''tmp/'' @ projectID"] split_slash [of "''tmp''" projectID] split_on_nosep [of "CHR ''/''" "''/''" projectID "[]"]
    by (simp add: path_element_def go_split_def)
  show "path_clean (''/tmp/'' @ projectID) = ''/tmp/'' @ projectID"
    using \<open>path_element projectID\<close> by (simp add: path_clean_def Let_def split [simplified] path_element_def)
  assume "CHR ''/'' \<notin> set (rh_Name rq)"
  then have "path_element (rh_Name rq @ ''.zip'')" by (auto simp: path_element_def append_eq_Cons_conv)
  then show "below (''/tmp/'' @ projectID) (''/tmp/'' @ projectID @ ''/'' @ rh_Name rq @ ''.zip'')"
    unfolding below_def by (intro exI [of _ "[rh_Name rq @ ''.zip'']"]) simp
qed

text \<open>The second entry of the archive names a file of another project, which is refused; the first is unpacked.\<close>

theorem download_stays_inside_witness:
  "filter (\<lambda>f. \<not> prefix ''/tmp/p1'' (fst f)) (st_disk (snd (DownloadRemoteHub mem_hub \<lparr>rh_Name = ''hub'', rh_Tags = [], rh_Description = None,
     rh_RepoURL = ''u'', rh_RemoteHub = ''''\<rparr> ''p1'' (hub_sample [] [(''/tmp/p2/hub/a.yaml'', ''kept'')])))) = [(''/tmp/p2/hub/a.yaml'', ''kept'')] \<and>
   map_of (st_disk (snd (DownloadRemoteHub mem_hub \<lparr>rh_Name = ''hub'', rh_Tags = [], rh_Description = None, rh_RepoURL = ''u'', rh_RemoteHub = ''''\<rparr> ''p1''
     (hub_sample [] [(''/tmp/p2/hub/a.yaml'', ''kept'')])))) ''/tmp/p1/hub/a.yaml'' = Some ''chart''"
proof
  let ?I = "\<lambda>s. filter (\<lambda>f. \<not> prefix ''/tmp/p1'' (fst f)) (st_disk s) = [(''/tmp/p2/hub/a.yaml'', ''kept'')]"
  have u: "filter (\<lambda>f. \<not> prefix q (fst f)) (AList.update p t fs) = filter (\<lambda>f. \<not> prefix q (fst f)) fs" if "prefix q p" for p q t and fs :: "(string \<times> string) list"
    using that by (induction fs) auto
  have d: "filter (\<lambda>f. \<not> prefix q (fst f)) (AList.delete p fs) = filter (\<lambda>f. \<not> prefix q (fst f)) fs" if "prefix q p" for p q and fs :: "(string \<times> string) list"
    using that by (induction fs) (auto simp: AList.delete_eq)
  have f: "filter (\<lambda>f. \<not> prefix p (fst f) \<and> \<not> prefix q (fst f)) fs = filter (\<lambda>f. \<not> prefix q (fst f)) fs" if "prefix q p" for p q and fs :: "(string \<times> string) list"
    using that by (induction fs) (auto dest: prefix_order.trans)
  have pc: "path_clean (''/tmp/'' @ ''p1'') = ''/tmp/p1''" by code_simp
  have "prefix ''/tmp/p1'' p" if "p = ''/tmp/'' @ ''p1'' \<or> p = ''/tmp/'' @ ''p1'' @ ''/'' @ ''hub'' @ ''.zip'' \<or>
      p = path_clean (''/tmp/'' @ ''p1'') \<or> below (path_clean (''/tmp/'' @ ''p1'')) p" for p
    using that unfolding pc by (auto simp: below_def)
  then have c: "file_closed mem_hub (\<lambda>p. p = ''/tmp/'' @ ''p1'' \<or> p = ''/tmp/'' @ ''p1'' @ ''/'' @ ''hub'' @ ''.zip'' \<or>
      p = path_clean (''/tmp/'' @ ''p1'') \<or> below (path_clean (''/tmp/'' @ ''p1'')) p) ?I"
    unfolding file_closed_def by (intro allI impI conjI) (auto simp: mem_hub_def u d f split: sum.split)
  have "?I (hub_sample [] [(''/tmp/p2/hub/a.yaml'', ''kept'')])" by (simp add: hub_sample_simps)
  then show "?I (snd (DownloadRemoteHub mem_hub \<lparr>rh_Name = ''hub'', rh_Tags = [], rh_Description = None,
     rh_RepoURL = ''u'', rh_RemoteHub = ''''\<rparr> ''p1'' (hub_sample [] [(''/tmp/p2/hub/a.yaml'', ''kept'')])))"
    using download_stays_inside [of mem_hub "''p1''" "\<lparr>rh_Name = ''hub'', rh_Tags = [], rh_Description = None, rh_RepoURL = ''u'', rh_RemoteHub = ''''\<rparr>" ?I] c
    by simp
  show "map_of (st_disk (snd (DownloadRemoteHub mem_hub \<lparr>rh_Name = ''hub'', rh_Tags = [], rh_Description = None, rh_RepoURL = ''u'', rh_RemoteHub = ''''\<rparr> ''p1''
     (hub_sample [] [(''/tmp/p2/hub/a.yaml'', ''kept'')])))) ''/tmp/p1/hub/a.yaml'' = Some ''chart''"
    by code_simp
qed

section \<open>Who changes hubs\<close>

text \<open>
  C32: Hubs are changed by the owners of their project. A request that adds, saves, updates or deletes a hub changes the stored hubs only when its token belongs to an
  accepted owner of the project it names, a synchronisation also for an editor. It leaves the hubs of all other projects alone, although the
  update itself is by the identifier of the hub only, and identifiers stay unique.
\<close>

theorem hubs_changed_by_owners:
  assumes "hub_db g idocs edocs udocs pdocs rdocs adocs cdocs h hdocs"
    and "hub_router h g env c pid rq s = (r, s')" "unique_by hb_ID (hdocs s)"
  shows "unique_by hb_ID (hdocs s') \<and>
    filter_mset (\<lambda>d. hb_ProjectID d \<noteq> pid) (hdocs s') = filter_mset (\<lambda>d. hb_ProjectID d \<noteq> pid) (hdocs s) \<and>
    (hdocs s' \<noteq> hdocs s \<longrightarrow> (\<exists>u. token_user g env (gc_token c) s = Some u \<and>
       permitted (udocs s) (pdocs s) u pid (case rq of SyncHub i \<Rightarrow> [RoleOwner, RoleEditor] | _ \<Rightarrow> [RoleOwner]) AcceptedInvitation))"
proof -
  from hub_db.hub_router_guards [OF assms(1,3), of pid env c rq] assms(2)
  have c: "hub_change pid (hdocs s) (hdocs s')" and p: "s' = s \<or>
    (\<exists>u. token_user g env (gc_token c) s = Some u \<and> permitted (udocs s) (pdocs s) u pid (hub_roles rq) AcceptedInvitation)" by simp_all
  show ?thesis using hub_change_unique [OF c assms(3)] hub_change_foreign [OF c] p unfolding hub_roles_def by blast
qed

theorem hubs_changed_by_owners_witness:
  "map hb_ID (st_hubs (snd (hub_router mem_hub (gql_handle mem_exp) sample_gql_env sample_gctx ''p1'' (DeleteHub ''h1'') (hub_sample [sample_hub ''h1'' ''p1'', sample_hub ''h2'' ''p9''] [])))) = [''h1'', ''h2''] \<and>
   filter_mset (\<lambda>d. hb_ProjectID d \<noteq> ''p1'') (mset (st_hubs (snd (hub_router mem_hub (gql_handle mem_exp) sample_gql_env sample_gctx ''p1'' (DeleteHub ''h1'') (hub_sample [sample_hub ''h1'' ''p1'', sample_hub ''h2'' ''p9''] []))))) = {#sample_hub ''h2'' ''p9''#}"
proof -
  let ?s = "hub_sample [sample_hub ''h1'' ''p1'', sample_hub ''h2'' ''p9''] []"
  obtain r s' where "hub_router mem_hub (gql_handle mem_exp) sample_gql_env sample_gctx ''p1'' (DeleteHub ''h1'') ?s = (r, s')" by fastforce
  moreover have "map hb_ID (st_hubs (snd (hub_router mem_hub (gql_handle mem_exp) sample_gql_env sample_gctx ''p1'' (DeleteHub ''h1'') ?s))) = [''h1'', ''h2'']" by code_simp
  moreover have "unique_by hb_ID (mset (st_hubs ?s))" unfolding hub_sample_simps unique_by_mset by (simp add: sample_hub_def)
  ultimately show ?thesis using hubs_changed_by_owners [OF mem_hub_db, of sample_gql_env sample_gctx "''p1''" "DeleteHub ''h1''" ?s r s']
    by (simp add: hub_sample_simps sample_hub_def)
qed

section \<open>The life of a hub\<close>

text \<open>
  A hub that is added is stored as asked for, under a name no other hub of the project has, and after it was deleted the database holds it
  as removed and is otherwise as before it was added.
\<close>

theorem hub_life:
  assumes "hub_db g idocs edocs udocs pdocs rdocs adocs cdocs h hdocs"
    and "AddChaosHub h g env c rq pid s = (Inr (Inr v), s1)"
    and "DeleteChaosHub h g env' c' (hv_ID v) pid s1 = (Inr (Inr b), s2)"
  shows "\<exists>u u'. hdocs s1 = add_mset (new_hub env rq pid u ''GIT'') (hdocs s) \<and> v = GetOutputChaosHub (new_hub env rq pid u ''GIT'') \<and>
    filter_mset (\<lambda>d. hb_ProjectID d = pid \<and> hb_Name d = kr_Name rq \<and> \<not> hb_IsRemoved d) (hdocs s) = {#} \<and>
    hdocs s2 = add_mset (removed_hub env' u' (new_hub env rq pid u ''GIT'')) (hdocs s)"
proof -
  from hub_db.AddChaosHub_ok [OF assms(1,2)] obtain u where
    u: "v = GetOutputChaosHub (new_hub env rq pid u ''GIT'')" "hdocs s1 = add_mset (new_hub env rq pid u ''GIT'') (hdocs s)"
      "\<forall>e\<in>#hdocs s. hb_ID e \<noteq> hb_ID (new_hub env rq pid u ''GIT'')"
      "\<forall>e\<in>#hdocs s. hb_ProjectID e = pid \<and> \<not> hb_IsRemoved e \<longrightarrow> hb_Name e \<noteq> kr_Name rq" by blast
  from hub_db.DeleteChaosHub_ok [OF assms(1,3)] obtain u' d where
    d: "d \<in># hdocs s1" "hb_ID d = hv_ID v" "hdocs s2 = replace_mset d (removed_hub env' u' d) (hdocs s1)" by blast
  have "hv_ID v = hb_ID (new_hub env rq pid u ''GIT'')" by (simp add: u(1) GetOutputChaosHub_def)
  then have "d = new_hub env rq pid u ''GIT''" using d(1,2) u(2,3) by auto
  then have "hdocs s2 = add_mset (removed_hub env' u' (new_hub env rq pid u ''GIT'')) (hdocs s)" using d(3) u(2) by (simp add: replace_mset_def)
  moreover have "filter_mset (\<lambda>d. hb_ProjectID d = pid \<and> hb_Name d = kr_Name rq \<and> \<not> hb_IsRemoved d) (hdocs s) = {#}" using u(4) by auto
  ultimately show ?thesis using u(1,2) by blast
qed

definition added_hub :: "(string + hub_view) go \<times> hub_state" where
  "added_hub = AddChaosHub mem_hub (gql_handle mem_exp) sample_gql_env sample_gctx sample_hub_request ''p1'' (hub_sample [] [])"

definition deleted_hub :: "(string + bool) go \<times> hub_state" where
  "deleted_hub = DeleteChaosHub mem_hub (gql_handle mem_exp) sample_gql_env sample_gctx ''new'' ''p1'' (snd added_hub)"

theorem hub_life_witness: "map (\<lambda>d. (hb_Name d, hb_IsRemoved d)) (st_hubs (snd deleted_hub)) = [(''charts'', True)]"
proof -
  have "succeeded added_hub" "succeeded deleted_hub" by code_simp+
  then obtain v b where v: "added_hub = (Inr (Inr v), snd added_hub)" and b: "deleted_hub = (Inr (Inr b), snd deleted_hub)"
    using succeededE [of added_hub] succeededE [of deleted_hub] by auto
  have "(case fst added_hub of Inr (Inr v) \<Rightarrow> hv_ID v = ''new'' | _ \<Rightarrow> False)" by code_simp
  moreover have "fst added_hub = Inr (Inr v)" using v by (metis fst_conv)
  ultimately have "hv_ID v = ''new''" by simp
  from hub_life [OF mem_hub_db v [unfolded added_hub_def], folded added_hub_def, OF b [unfolded deleted_hub_def, folded this]]
  obtain u u' where "mset (st_hubs (snd deleted_hub)) = {#removed_hub sample_gql_env u' (new_hub sample_gql_env sample_hub_request ''p1'' u ''GIT'')#}"
    unfolding deleted_hub_def [symmetric] \<open>hv_ID v = ''new''\<close> by (auto simp: hub_sample_simps)
  then have "st_hubs (snd deleted_hub) = [removed_hub sample_gql_env u' (new_hub sample_gql_env sample_hub_request ''p1'' u ''GIT'')]" by (simp add: mset_single_iff)
  then show ?thesis by (simp add: removed_hub_def sample_hub_request_def)
qed

section \<open>Listing\<close>

text \<open>
  C33: A listing shows the default hub and then exactly the hubs of the project that are not removed and match all given filters, each once, and
  the number of hubs in the statistics is the length of the listing without filters.
\<close>

theorem hubs_listed:
  assumes "hub_db g idocs edocs udocs pdocs rdocs adocs cdocs h hdocs"
    and "ListChaosHubs h env pid request s = Inr sts" "ListChaosHubs h env pid None s = Inr every" "GetChaosHubStats h pid s = Inr n"
  shows "map hs_ID sts = hv_ID (listDefaultHubs h) # map hs_ID (tl sts) \<and>
    mset (map hs_ID (tl sts)) = image_mset hb_ID (filter_mset (hub_matches env pid request) (hdocs s)) \<and> n = int (length every)"
proof -
  from hub_db.listed_hubs [OF assms(1,2)] obtain ds where ds: "mset ds = filter_mset (hub_matches env pid request) (hdocs s)"
    "sts = map (\<lambda>d. hub_status_of h pid (chart_path d @ ''/faults/'') d s) (default_hub h # ds)" by blast
  from hub_db.listed_hubs [OF assms(1,3)] obtain es where es: "mset es = filter_mset (hub_matches env pid None) (hdocs s)" "length every = Suc (length es)" by auto
  have "map hs_ID (tl sts) = map hb_ID ds" by (simp add: ds(2) hub_status_of_def)
  then have "mset (map hs_ID (tl sts)) = image_mset hb_ID (mset ds)" by simp
  moreover have "map hs_ID sts = hv_ID (listDefaultHubs h) # map hs_ID (tl sts)"
    by (simp add: ds(2) hub_status_of_def default_hub_def Let_def)
  moreover have "n = int (length every)" using hub_db.counted_hubs [OF assms(1,4), of env] es by (metis size_mset of_nat_Suc add.commute)
  ultimately show ?thesis using ds(1) by simp
qed

definition listed_sample :: hub_state where
  "listed_sample = hub_sample [sample_hub ''h1'' ''p1'', (sample_hub ''h2'' ''p1'')\<lparr>hb_Name := ''other''\<rparr>, sample_hub ''h3'' ''p9'', (sample_hub ''h4'' ''p1'')\<lparr>hb_IsRemoved := True\<rparr>] []"

definition listed_request :: list_hub_request where
  "listed_request = \<lparr>lh_ChaosHubIDs = [], lh_Filter = Some \<lparr>hf_ChaosHubName = Some ''oth'', hf_Tags = [], hf_Description = None\<rparr>\<rparr>"

theorem hubs_listed_witness:
  "\<exists>sts every n. ListChaosHubs mem_hub sample_gql_env ''p1'' (Some listed_request) listed_sample = Inr sts \<and>
     ListChaosHubs mem_hub sample_gql_env ''p1'' None listed_sample = Inr every \<and> GetChaosHubStats mem_hub ''p1'' listed_sample = Inr n \<and>
     mset (map hs_ID (tl sts)) = {#''h2''#} \<and> n = int (length every)"
proof -
  have "\<not> isl (ListChaosHubs mem_hub sample_gql_env ''p1'' (Some listed_request) listed_sample)" "\<not> isl (ListChaosHubs mem_hub sample_gql_env ''p1'' None listed_sample)"
    "\<not> isl (GetChaosHubStats mem_hub ''p1'' listed_sample)" by code_simp+
  then obtain sts every n where l: "ListChaosHubs mem_hub sample_gql_env ''p1'' (Some listed_request) listed_sample = Inr sts"
    "ListChaosHubs mem_hub sample_gql_env ''p1'' None listed_sample = Inr every" "GetChaosHubStats mem_hub ''p1'' listed_sample = Inr n"
    by (metis sum.collapse(2))
  have "filter_mset (hub_matches sample_gql_env ''p1'' (Some listed_request)) (mset (st_hubs listed_sample)) = {#(sample_hub ''h2'' ''p1'')\<lparr>hb_Name := ''other''\<rparr>#}"
    by (simp add: listed_sample_def hub_sample_simps hub_matches_def listed_request_def sample_hub_def sample_hub_request_def sample_gql_env_def sublist_code)
  then show ?thesis using l hubs_listed [OF mem_hub_db l] by (simp add: sample_hub_def)
qed

section \<open>The background synchronisation\<close>

text \<open>
  C34: The background synchronisation never ends the server, for any number of rounds, as long as every private hub that is not removed has the
  fields its kind of authentication needs and the entries of downloaded archives can be opened; and it leaves the stored hubs alone.
\<close>

theorem hub_sync_keeps_running:
  assumes "hub_db g idocs edocs udocs pdocs rdocs adocs cdocs h hdocs" "archives_open h"
    and "\<forall>d\<in>#hdocs s. \<not> hb_IsRemoved d \<and> hb_HubType d \<noteq> ''REMOTE'' \<and> hb_IsPrivate d \<longrightarrow> has_credentials d"
  shows "\<exists>s'. RecurringHubSync h n s = (Inr (), s') \<and> hdocs s' = hdocs s"
  using hub_db.recurring_returns [OF assms] .

theorem hub_sync_keeps_running_witness:
  "\<exists>s'. RecurringHubSync mem_hub 3 (hub_sample [(sample_hub ''h1'' ''p1'')\<lparr>hb_IsPrivate := True, hb_AuthType := ''TOKEN'', hb_Token := Some ''t''\<rparr>,
     (sample_hub ''h2'' ''p1'')\<lparr>hb_HubType := ''REMOTE''\<rparr>] []) = (Inr (), s')"
proof -
  let ?s = "hub_sample [(sample_hub ''h1'' ''p1'')\<lparr>hb_IsPrivate := True, hb_AuthType := ''TOKEN'', hb_Token := Some ''t''\<rparr>, (sample_hub ''h2'' ''p1'')\<lparr>hb_HubType := ''REMOTE''\<rparr>] []"
  have "archives_open mem_hub" by (simp add: archives_open_def mem_hub_def)
  moreover have "\<forall>d\<in>#mset (st_hubs ?s). \<not> hb_IsRemoved d \<and> hb_HubType d \<noteq> ''REMOTE'' \<and> hb_IsPrivate d \<longrightarrow> has_credentials d"
    by (simp add: hub_sample_simps has_credentials_def)
  ultimately show ?thesis using hub_sync_keeps_running [OF mem_hub_db, of ?s 3] by blast
qed

section \<open>Findings\<close>

text \<open>A private hub without its token is stored although adding it panics, and the next round of the background synchronisation ends the server.\<close>

definition tokenless :: create_hub_request where
  "tokenless = sample_hub_request\<lparr>kr_IsPrivate := True, kr_AuthType := ''TOKEN''\<rparr>"

lemma hub_ends_server:
  "(case AddChaosHub mem_hub (gql_handle mem_exp) sample_gql_env sample_gctx tokenless ''p1'' (hub_sample [] []) of
      (Inl NilDereference, s) \<Rightarrow> map hb_Name (st_hubs s) = [''charts''] \<and> (case RecurringHubSync mem_hub 1 s of (Inl NilDereference, s') \<Rightarrow> True | _ \<Rightarrow> False) | _ \<Rightarrow> False)"
  by code_simp

text \<open>The name of a hub is part of the path of its copy: with \<^verbatim>\<open>..\<close> in it the copy is that of another project.\<close>

lemma hub_name_escapes:
  "path_clean (GetClonePath (GitConfigConstruct (NewCloningInputFrom (sample_hub_request\<lparr>kr_Name := ''../p2/charts''\<rparr>)) ''p1'')) = ''/tmp/p2/charts''"
  by code_simp

text \<open>Deleting a removed hub again removes the copy of a live hub of the same name.\<close>

lemma delete_again_removes_copy:
  "(case DeleteChaosHub mem_hub (gql_handle mem_exp) sample_gql_env sample_gctx ''h1'' ''p1''
      (hub_sample [(sample_hub ''h1'' ''p1'')\<lparr>hb_IsRemoved := True\<rparr>, sample_hub ''h2'' ''p1''] [(''/tmp/p1/charts/.git'', ''u'')]) of
      (Inr (Inr True), s) \<Rightarrow> st_disk s = [] \<and> map (\<lambda>d. (hb_ID d, hb_IsRemoved d)) (st_hubs s) = [(''h1'', True), (''h2'', False)] | _ \<Rightarrow> False)"
  by code_simp

text \<open>The details of a hub never count its faults, which the listing does.\<close>

lemma hub_faults_not_counted:
  "(let s = hub_sample [sample_hub ''h1'' ''p1''] [(''/tmp/p1/charts/faults/generic/generic.chartserviceversion.yaml'', ''chart'')] in
    map_sum id (map hs_TotalFaults) (ListChaosHubs mem_hub sample_gql_env ''p1'' None s) = Inr [''0'', ''1''] \<and>
    map_sum id hs_TotalFaults (GetChaosHub mem_hub ''h1'' ''p1'' s) = Inr ''0'')"
  by code_simp

text \<open>The listing has no role check and shows the credentials of private hubs to every user of the system.\<close>

lemma hub_secrets_listed:
  "map_sum id (map (\<lambda>st. (hs_ID st, hs_Token st))) (r_ListChaosHub mem_hub (gql_handle mem_exp) sample_gql_env sample_gctx ''p9'' None
     (hub_sample [(sample_hub ''h1'' ''p9'')\<lparr>hb_IsPrivate := True, hb_Token := Some ''secret''\<rparr>] [])) =
   Inr [(''6f39cea9-6264-4951-83a8-29976b614289'', None), (''h1'', Some ''secret'')] \<and>
   ValidateRole (gql_handle mem_exp) sample_gql_env sample_gctx ''p9'' [RoleOwner, RoleExecutor, RoleViewer, RoleEditor] AcceptedInvitation (hub_sample [] []) \<noteq> None"
  by code_simp

text \<open>An update is not checked for its name: two live hubs of a project get the same one, and with it the same copy.\<close>

lemma update_duplicates_name:
  "map hb_Name (st_hubs (snd (UpdateChaosHub mem_hub (gql_handle mem_exp) sample_gql_env sample_gctx
      \<lparr>kr_Name = ''charts'', kr_Tags = [], kr_Description = None, kr_RepoURL = ''u'', kr_RepoBranch = ''b'', kr_RemoteHub = '''', kr_IsPrivate = False,
       kr_AuthType = ''NONE'', kr_Token = None, kr_UserName = None, kr_Password = None, kr_SSHPrivateKey = None, kr_SSHPublicKey = None, kr_ID = ''h2''\<rparr> ''p1''
      (hub_sample [sample_hub ''h1'' ''p1'', (sample_hub ''h2'' ''p1'')\<lparr>hb_Name := ''other''\<rparr>] [])))) = [''charts'', ''charts'']"
  by code_simp

text \<open>A private hub whose key cannot be parsed is reported as synchronised without a pull.\<close>

lemma bad_key_synchronised:
  assumes "hc_IsPrivate c" "setterRepositoryWorktreeReference h c s = Inr ()" "generateAuthMethod h c = Inr (Inl e)"
  shows "hub_GitPull h c s = (Inr (Inr ()), s)"
  using assms by (simp add: hub_GitPull_def gitPullPrivateRepo_def obind_def lift_go_def)

end
