(* ===== verification/Subscriber_Cluster.thy ===== *)
theory Subscriber_Cluster
  imports Go_Outcome Go_Strings Go_Base64 Go_Float
begin

text \<open>
  The cluster a subscriber works on. The Kubernetes API is not part of the repository: it is a record of operations on an abstract
  state \<^verbatim>\<open>'s\<close>, and what the code relies on is the locale \<^verbatim>\<open>kube_cluster\<close>, the documented effect of each operation on the
  stored objects. Every operation may fail. An object is addressed by its resource, namespace and name; a cluster-wide object has the
  empty namespace, and a list request for the empty namespace selects every namespace.

  The locale speaks of objects without finalizers (a deleted object is gone) and of an API server without mutating admission (an object is
  stored with the content it was sent with).
\<close>

section \<open>Data\<close>

datatype kube_error = NotFound string | AlreadyExists string | Failed string

primrec error_text :: "kube_error \<Rightarrow> string" where
  "error_text (NotFound e) = e"
| "error_text (AlreadyExists e) = e"
| "error_text (Failed e) = e"

record gvr =
  g_Group :: string
  g_Version :: string
  g_Resource :: string

type_synonym obj_key = "gvr \<times> string \<times> string"

text \<open>An unstructured object, in the parts the code reads; \<^verbatim>\<open>None\<close> is the nil map of labels.\<close>

record kobject =
  ob_Kind :: string
  ob_APIVersion :: string
  ob_Name :: string
  ob_Namespace :: string
  ob_UID :: string
  ob_ResourceVersion :: string
  ob_Labels :: "(string \<times> string) list option"
  ob_CreationTimestamp :: int
  ob_DeletionGracePeriodSeconds :: "int option"
  ob_Spec :: "(string \<times> string) list"

definition ob_label :: "kobject \<Rightarrow> string \<Rightarrow> string option" where
  "ob_label o' = map_of (case ob_Labels o' of None \<Rightarrow> [] | Some ls \<Rightarrow> ls)"

record pod =
  po_Phase :: string
  po_Ready :: "bool list"

record config_map =
  cm_Data :: "(string \<times> string) list option"

text \<open>\<^verbatim>\<open>StringData\<close> is write-only: the server merges it into \<^verbatim>\<open>Data\<close>.\<close>

record secret =
  se_Data :: "(string \<times> string) list"
  se_StringData :: "(string \<times> string) list"

record 's kube_api =
  api_List :: "gvr \<Rightarrow> string \<Rightarrow> string \<Rightarrow> 's \<Rightarrow> (kube_error + kobject list) \<times> 's"
  api_Get :: "obj_key \<Rightarrow> 's \<Rightarrow> (kube_error + kobject) \<times> 's"
  api_Create :: "gvr \<Rightarrow> string \<Rightarrow> kobject \<Rightarrow> 's \<Rightarrow> (kube_error + kobject) \<times> 's"
  api_Update :: "gvr \<Rightarrow> string \<Rightarrow> kobject \<Rightarrow> 's \<Rightarrow> (kube_error + kobject) \<times> 's"
  api_Delete :: "obj_key \<Rightarrow> 's \<Rightarrow> kube_error option \<times> 's"
  api_DeleteCollection :: "gvr \<Rightarrow> string \<Rightarrow> string \<Rightarrow> 's \<Rightarrow> kube_error option \<times> 's"
  api_Patch :: "obj_key \<Rightarrow> string \<Rightarrow> 's \<Rightarrow> (kube_error + kobject) \<times> 's"
  api_RESTMapping :: "string \<times> string \<Rightarrow> string \<Rightarrow> 's \<Rightarrow> (string + gvr \<times> bool) \<times> 's"
  api_ListPods :: "string \<Rightarrow> string \<Rightarrow> 's \<Rightarrow> (kube_error + pod list) \<times> 's"
  api_PodLogs :: "string \<Rightarrow> string \<Rightarrow> string option \<Rightarrow> 's \<Rightarrow> (kube_error + string) \<times> 's"
  api_ListNamespaces :: "int \<Rightarrow> int \<Rightarrow> string \<Rightarrow> 's \<Rightarrow> (kube_error + string list \<times> string) \<times> 's"
  api_GetConfigMap :: "string \<Rightarrow> string \<Rightarrow> 's \<Rightarrow> (kube_error + config_map) \<times> 's"
  api_UpdateConfigMap :: "string \<Rightarrow> string \<Rightarrow> config_map \<Rightarrow> 's \<Rightarrow> kube_error option \<times> 's"
  api_GetSecret :: "string \<Rightarrow> string \<Rightarrow> 's \<Rightarrow> (kube_error + secret) \<times> 's"
  api_UpdateSecret :: "string \<Rightarrow> string \<Rightarrow> secret \<Rightarrow> 's \<Rightarrow> kube_error option \<times> 's"
  api_Sleep :: "int \<Rightarrow> 's \<Rightarrow> 's"
  api_Now :: "'s \<Rightarrow> int"

section \<open>Documented effects\<close>

text \<open>Equality-based label selectors: a comma-separated list of requirements; the empty selector selects everything.\<close>

definition selects :: "string \<Rightarrow> (string \<rightharpoonup> string) \<Rightarrow> bool" where
  "selects sel m \<longleftrightarrow> sel = '''' \<or> list_all (\<lambda>q. case go_split q ''='' of [k, v] \<Rightarrow> m k = Some v | _ \<Rightarrow> False) (go_split sel '','')"

definition same_content :: "kobject \<Rightarrow> kobject \<Rightarrow> bool" where
  "same_content o1 o2 \<longleftrightarrow> ob_Kind o1 = ob_Kind o2 \<and> ob_APIVersion o1 = ob_APIVersion o2 \<and> ob_Labels o1 = ob_Labels o2 \<and> ob_Spec o1 = ob_Spec o2"

definition in_collection :: "gvr \<Rightarrow> string \<Rightarrow> string \<Rightarrow> obj_key \<Rightarrow> kobject \<Rightarrow> bool" where
  "in_collection r ns sel k o' \<longleftrightarrow> fst k = r \<and> (ns = '''' \<or> fst (snd k) = ns) \<and> selects sel (ob_label o')"

text \<open>A merge patch that sets one field of the specification to a string: its text and its effect, in which the version changes too.\<close>

definition quote_sign :: string where "quote_sign = [CHR 0x22]"

definition plain :: "string \<Rightarrow> bool" where
  "plain v \<longleftrightarrow> list_all (\<lambda>c. c \<noteq> CHR 0x22 \<and> c \<noteq> CHR 0x5C) v"

definition in_quotes :: "string \<Rightarrow> string" where
  "in_quotes v = quote_sign @ v @ quote_sign"

definition spec_patch :: "string \<Rightarrow> string \<Rightarrow> string" where
  "spec_patch f v = ''{'' @ in_quotes ''spec'' @ '':{'' @ in_quotes f @ '':'' @ in_quotes v @ ''}}''"

definition patched :: "string \<Rightarrow> string \<Rightarrow> kobject \<Rightarrow> kobject \<Rightarrow> bool" where
  "patched f v old o' \<longleftrightarrow> (\<exists>version. o' = old\<lparr>ob_Spec := AList.update f v (ob_Spec old), ob_ResourceVersion := version\<rparr>)"

text \<open>Some of the objects of the collection are gone, nothing else is changed.\<close>

definition partly_deleted :: "(obj_key \<Rightarrow> kobject \<Rightarrow> bool) \<Rightarrow> (obj_key \<rightharpoonup> kobject) \<Rightarrow> (obj_key \<rightharpoonup> kobject) \<Rightarrow> bool" where
  "partly_deleted P M M' \<longleftrightarrow> (\<forall>k. M' k = M k \<or> M' k = None \<and> (\<exists>o'. M k = Some o' \<and> P k o'))"

definition all_deleted :: "(obj_key \<Rightarrow> kobject \<Rightarrow> bool) \<Rightarrow> (obj_key \<rightharpoonup> kobject) \<Rightarrow> (obj_key \<rightharpoonup> kobject)" where
  "all_deleted P M k = (case M k of None \<Rightarrow> None | Some o' \<Rightarrow> if P k o' then None else Some o')"

definition merged :: "secret \<Rightarrow> (string \<times> string) list" where
  "merged x = foldl (\<lambda>d (k, v). AList.update k v d) (se_Data x) (se_StringData x)"

text \<open>
  A failed write may have happened, unless the error says that the object is missing or exists already. A list of namespaces is served in
  chunks of one snapshot: \<^verbatim>\<open>rest\<close> is what a continue token still stands for. Time passes with every call, and a call after its deadline
  fails.
\<close>

locale kube_cluster =
  fixes api :: "'s kube_api"
    and objs :: "'s \<Rightarrow> obj_key \<rightharpoonup> kobject"
    and config_maps :: "'s \<Rightarrow> string \<times> string \<Rightarrow> (string \<times> string) list option option"
    and secrets :: "'s \<Rightarrow> string \<times> string \<Rightarrow> (string \<times> string) list option"
    and namespaces :: "'s \<Rightarrow> string list"
    and rest :: "'s \<Rightarrow> string \<Rightarrow> string list"
  assumes named: "objs s (r, ns, n) = Some o' \<Longrightarrow> ob_Namespace o' = ns \<and> ob_Name o' = n"
    and list_ok: "api_List api r ns sel s = (Inr xs, s') \<Longrightarrow>
      set xs = {o'. \<exists>k. objs s k = Some o' \<and> in_collection r ns sel k o'}"
    and list_same: "api_List api r ns sel s = (lq, s') \<Longrightarrow> objs s' = objs s"
    and get_ok: "api_Get api k s = (Inr o', s') \<Longrightarrow> objs s k = Some o'"
    and get_missing: "api_Get api k s = (Inl (NotFound e), s') \<Longrightarrow> objs s k = None"
    and get_same: "api_Get api k s = (g, s') \<Longrightarrow> objs s' = objs s"
    and create_ok: "api_Create api r ns ob s = (Inr o', s') \<Longrightarrow>
      objs s (r, ns, ob_Name o') = None \<and> objs s' = (objs s)((r, ns, ob_Name o') \<mapsto> o') \<and> same_content ob o' \<and>
      (ob_Name ob \<noteq> '''' \<longrightarrow> ob_Name o' = ob_Name ob)"
    and create_exists: "api_Create api r ns ob s = (Inl (AlreadyExists e), s') \<Longrightarrow> objs s' = objs s \<and> objs s (r, ns, ob_Name ob) \<noteq> None"
    and create_failed: "api_Create api r ns ob s = (Inl er, s') \<Longrightarrow>
      objs s' = objs s \<or> (\<exists>o'. objs s (r, ns, ob_Name o') = None \<and> objs s' = (objs s)((r, ns, ob_Name o') \<mapsto> o') \<and> same_content ob o' \<and>
      (ob_Name ob \<noteq> '''' \<longrightarrow> ob_Name o' = ob_Name ob))"
    and update_ok: "api_Update api r ns ob s = (Inr o', s') \<Longrightarrow>
      \<exists>old. objs s (r, ns, ob_Name ob) = Some old \<and> (ob_ResourceVersion ob = '''' \<or> ob_ResourceVersion ob = ob_ResourceVersion old) \<and>
        ob_Name o' = ob_Name ob \<and> objs s' = (objs s)((r, ns, ob_Name ob) \<mapsto> o') \<and> same_content ob o'"
    and update_failed: "api_Update api r ns ob s = (Inl er, s') \<Longrightarrow>
      objs s' = objs s \<or> (\<exists>o'. ob_Name o' = ob_Name ob \<and> objs s' = (objs s)((r, ns, ob_Name ob) \<mapsto> o') \<and> same_content ob o')"
    and delete_ok: "api_Delete api k s = (None, s') \<Longrightarrow> objs s k \<noteq> None \<and> objs s' = (objs s)(k := None)"
    and delete_missing: "api_Delete api k s = (Some (NotFound e), s') \<Longrightarrow> objs s' = objs s \<and> objs s k = None"
    and delete_failed: "api_Delete api k s = (Some er, s') \<Longrightarrow> objs s' = objs s \<or> objs s' = (objs s)(k := None)"
    and collection_ok: "api_DeleteCollection api r ns sel s = (None, s') \<Longrightarrow> objs s' = all_deleted (in_collection r ns sel) (objs s)"
    and collection_failed: "api_DeleteCollection api r ns sel s = (Some er, s') \<Longrightarrow> partly_deleted (in_collection r ns sel) (objs s) (objs s')"
    and collection_missing: "api_DeleteCollection api r ns sel s = (Some (NotFound e), s') \<Longrightarrow> objs s' = objs s \<and> (\<forall>ns n. objs s (r, ns, n) = None)"
    and patch_ok: "plain f \<Longrightarrow> plain v \<Longrightarrow> api_Patch api k (spec_patch f v) s = (Inr o', s') \<Longrightarrow>
      \<exists>old. objs s k = Some old \<and> patched f v old o' \<and> objs s' = (objs s)(k \<mapsto> o')"
    and patch_missing: "objs s k = None \<Longrightarrow> api_Patch api k p s = (pq, s') \<Longrightarrow> objs s' = objs s \<and> (\<exists>er. pq = Inl er)"
    and patch_failed: "plain f \<Longrightarrow> plain v \<Longrightarrow> api_Patch api k (spec_patch f v) s = (Inl er, s') \<Longrightarrow>
      objs s' = objs s \<or> (\<exists>old o'. objs s k = Some old \<and> patched f v old o' \<and> objs s' = (objs s)(k \<mapsto> o'))"
    and mapping_same: "api_RESTMapping api gk v s = (m, s') \<Longrightarrow> objs s' = objs s"
    and pods_same: "api_ListPods api ns sel s = (ps, s') \<Longrightarrow> objs s' = objs s \<and> config_maps s' = config_maps s \<and> secrets s' = secrets s"
    and sleep_same: "config_maps (api_Sleep api d s) = config_maps s \<and> secrets (api_Sleep api d s) = secrets s"
    and logs_same: "api_PodLogs api pd ns c s = (lg, s') \<Longrightarrow> objs s' = objs s"
    and namespaces_ok: "api_ListNamespaces api d l tok s = (Inr (nms, tok'), s') \<Longrightarrow>
      (if tok = '''' then namespaces s else rest s tok) = nms @ (if tok' = '''' then [] else rest s' tok')"
    and namespaces_same: "api_ListNamespaces api d l tok s = (nq, s') \<Longrightarrow> objs s' = objs s \<and> namespaces s' = namespaces s"
    and namespaces_time: "api_ListNamespaces api d l tok s = (nq, s') \<Longrightarrow> api_Now api s < api_Now api s'"
    and namespaces_deadline: "d \<le> api_Now api s \<Longrightarrow> api_ListNamespaces api d l tok s = (nq, s') \<Longrightarrow> \<exists>er. nq = Inl er"
    and get_config: "api_GetConfigMap api ns n s = (Inr cm, s') \<Longrightarrow> config_maps s (ns, n) = Some (cm_Data cm)"
    and get_config_same: "api_GetConfigMap api ns n s = (q1, s') \<Longrightarrow> config_maps s' = config_maps s \<and> secrets s' = secrets s"
    and update_config: "api_UpdateConfigMap api ns n cm s = (None, s') \<Longrightarrow>
      config_maps s' = (config_maps s)((ns, n) \<mapsto> cm_Data cm) \<and> secrets s' = secrets s"
    and get_secret: "api_GetSecret api ns n s = (Inr x, s') \<Longrightarrow> secrets s (ns, n) = Some (se_Data x)"
    and get_secret_same: "api_GetSecret api ns n s = (q2, s') \<Longrightarrow> config_maps s' = config_maps s \<and> secrets s' = secrets s"
    and update_secret: "api_UpdateSecret api ns n x s = (None, s') \<Longrightarrow>
      secrets s' = (secrets s)((ns, n) \<mapsto> merged x) \<and> config_maps s' = config_maps s"
    and update_secret_failed: "api_UpdateSecret api ns n x s = (Some er, s') \<Longrightarrow> config_maps s' = config_maps s"

end
