(* ===== verification/Go_Utf8.thy ===== *)
theory Go_Utf8
  imports Go_Strings
begin

text \<open>
  UTF-8 as Go's package \<^verbatim>\<open>unicode/utf8\<close> decodes it: a string is a sequence of bytes, a \<^verbatim>\<open>range\<close> over it or \<^verbatim>\<open>utf8.DecodeRuneInString\<close> goes through it rune by rune, and a byte
  that does not begin a valid encoding is a rune of its own, \<^verbatim>\<open>RuneError\<close> of width one.
\<close>

abbreviation byte :: "char \<Rightarrow> nat" where
  "byte c \<equiv> of_char c"

section \<open>Decoding\<close>

definition cont :: "char \<Rightarrow> bool" where
  "cont c \<longleftrightarrow> 0x80 \<le> byte c \<and> byte c \<le> 0xBF"

text \<open>The second byte: not all continuations are valid after the first and last first bytes of a length, and surrogates are excluded.\<close>

definition second :: "char \<Rightarrow> char \<Rightarrow> bool" where
  "second a b \<longleftrightarrow> cont b \<and> (byte a = 0xE0 \<longrightarrow> 0xA0 \<le> byte b) \<and> (byte a = 0xED \<longrightarrow> byte b \<le> 0x9F) \<and>
     (byte a = 0xF0 \<longrightarrow> 0x90 \<le> byte b) \<and> (byte a = 0xF4 \<longrightarrow> byte b \<le> 0x8F)"

text \<open>The encoding of one rune, of one to four bytes.\<close>

fun rune_ok :: "string \<Rightarrow> bool" where
  "rune_ok [a] = (byte a < 0x80)"
| "rune_ok [a, b] = (0xC2 \<le> byte a \<and> byte a \<le> 0xDF \<and> second a b)"
| "rune_ok [a, b, c] = (0xE0 \<le> byte a \<and> byte a \<le> 0xEF \<and> second a b \<and> cont c)"
| "rune_ok [a, b, c, d] = (0xF0 \<le> byte a \<and> byte a \<le> 0xF4 \<and> second a b \<and> cont c \<and> cont d)"
| "rune_ok _ = False"

definition rune_width :: "string \<Rightarrow> nat" where
  "rune_width s = (if rune_ok (take 1 s) then 1 else if rune_ok (take 2 s) then 2 else if rune_ok (take 3 s) then 3 else if rune_ok (take 4 s) then 4 else 1)"

function runes :: "string \<Rightarrow> string list" where
  "runes [] = []"
| "runes (c # cs) = take (rune_width (c # cs)) (c # cs) # runes (drop (rune_width (c # cs)) (c # cs))"
  by pat_completeness auto

termination
  by (relation "measure length") (auto simp: rune_width_def)

fun rune_val :: "string \<Rightarrow> nat" where
  "rune_val [a, b] = (byte a - 0xC0) * 64 + (byte b - 0x80)"
| "rune_val [a, b, c] = (byte a - 0xE0) * 4096 + (byte b - 0x80) * 64 + (byte c - 0x80)"
| "rune_val [a, b, c, d] = (byte a - 0xF0) * 262144 + (byte b - 0x80) * 4096 + (byte c - 0x80) * 64 + (byte d - 0x80)"
| "rune_val (a # _) = byte a"
| "rune_val [] = 0"

section \<open>Encoding\<close>

text \<open>\<^verbatim>\<open>utf8.EncodeRune\<close> of a code point of at most sixteen bits.\<close>

definition encode_rune :: "nat \<Rightarrow> string" where
  "encode_rune n =
     (if n < 0x80 then [char_of n]
      else if n < 0x800 then [char_of (0xC0 + n div 64), char_of (0x80 + n mod 64)]
      else [char_of (0xE0 + n div 4096), char_of (0x80 + n div 64 mod 64), char_of (0x80 + n mod 64)])"

section \<open>Laws\<close>

lemma rune_ok_cases:
  assumes "rune_ok r"
  obtains a where "r = [a]" "byte a < 0x80"
  | a b where "r = [a, b]" "0xC2 \<le> byte a" "byte a \<le> 0xDF" "second a b"
  | a b c where "r = [a, b, c]" "0xE0 \<le> byte a" "byte a \<le> 0xEF" "second a b" "cont c"
  | a b c d where "r = [a, b, c, d]" "0xF0 \<le> byte a" "byte a \<le> 0xF4" "second a b" "cont c" "cont d"
  using assms by (cases r rule: rune_ok.cases) auto

text \<open>The bytes of a rune of more than one byte are not ASCII.\<close>

lemma rune_bytes: "rune_ok r \<Longrightarrow> length r \<noteq> 1 \<Longrightarrow> c \<in> set r \<Longrightarrow> 0x80 \<le> byte c"
  by (erule rune_ok_cases) (auto simp: second_def cont_def)

text \<open>No encoding is the beginning of another, so the decoder finds the rune that was written.\<close>

lemma rune_length:
  "rune_ok (a # s) \<Longrightarrow> length (a # s) = (if byte a < 0x80 then 1 else if byte a \<le> 0xDF then 2 else if byte a \<le> 0xEF then 3 else 4)"
  by (erule rune_ok_cases) auto

lemma width_rune:
  assumes "rune_ok r"
  shows "rune_width (r @ t) = length r"
proof -
  obtain a s where r: "r = a # s" using assms by (cases r) auto
  have no: "\<not> rune_ok (take j (r @ t))" if "0 < j" "j < length r" for j
  proof
    obtain i where j: "j = Suc i" using \<open>0 < j\<close> by (cases j) auto
    assume "rune_ok (take j (r @ t))"
    then have "length (take j (r @ t)) = length r" using rune_length [of a s] rune_length [of a "take i (s @ t)"] assms by (simp add: r j)
    with that show False by simp
  qed
  have yes: "rune_ok (take (length r) (r @ t))" using assms by simp
  from assms show ?thesis
    using no [of 1] no [of 2] no [of 3] yes by (cases rule: rune_ok_cases) (simp_all add: rune_width_def)
qed

lemma runes_rune: "rune_ok r \<Longrightarrow> runes (r @ t) = r # runes t"
proof -
  assume r: "rune_ok r"
  then obtain c cs where "r = c # cs" by (cases r) auto
  then show ?thesis using width_rune [OF r, of t] by simp
qed

lemma concat_runes [simp]: "concat (runes t) = t"
  by (induction t rule: runes.induct) (simp_all del: take_Cons drop_Cons take_Cons' drop_Cons' add: append_take_drop_id)

lemma runes_append: "list_all rune_ok (runes a) \<Longrightarrow> runes (a @ b) = runes a @ runes b"
proof (induction a rule: runes.induct)
  case (2 c cs)
  let ?k = "rune_width (c # cs)"
  have r: "rune_ok (take ?k (c # cs))" and d: "list_all rune_ok (runes (drop ?k (c # cs)))" using "2.prems" by simp_all
  have "runes ((c # cs) @ b) = runes (take ?k (c # cs) @ drop ?k (c # cs) @ b)" by (metis append.assoc append_take_drop_id)
  also have "\<dots> = take ?k (c # cs) # runes (drop ?k (c # cs) @ b)" by (rule runes_rune [OF r])
  finally show ?case using "2.IH" [OF d] by simp
qed simp

lemma runes_ascii: "list_all (\<lambda>c. byte c < 0x80) t \<Longrightarrow> runes t = map (\<lambda>c. [c]) t"
proof (induction t)
  case (Cons c t)
  then show ?case using runes_rune [of "[c]" t] by simp
qed simp

text \<open>A chunk is a valid rune, or one byte that is not ASCII.\<close>

lemma runes_chunk: "r \<in> set (runes t) \<Longrightarrow> rune_ok r \<or> (\<exists>c. r = [c] \<and> 0x80 \<le> byte c)"
proof (induction t rule: runes.induct)
  case (2 c cs)
  then consider "r = take (rune_width (c # cs)) (c # cs)" | "r \<in> set (runes (drop (rune_width (c # cs)) (c # cs)))" by auto
  then show ?case
  proof cases
    case 1
    then show ?thesis by (auto simp: rune_width_def split: if_splits)
  qed (use "2.IH" in blast)
qed simp

lemma runes_subset: "r \<in> set (runes t) \<Longrightarrow> set r \<subseteq> set t"
  using concat_runes [of t] by (metis UN_upper set_concat)

text \<open>To change ASCII characters into ASCII characters does not change the runes otherwise.\<close>

lemma runes_map:
  assumes f: "\<And>c. 0x80 \<le> byte c \<Longrightarrow> f c = c" "\<And>c. byte c < 0x80 \<Longrightarrow> byte (f c) < 0x80"
  shows "runes (map f t) = map (map f) (runes t)"
proof (induction t rule: runes.induct)
  case (2 c cs)
  have c: "cont (f x) = cont x" for x using f [of x] by (cases "byte x < 0x80") (auto simp: cont_def)
  have s: "second x (f y) = second x y" for x y
    using f [of y] c [of y] by (cases "byte y < 0x80") (auto simp: second_def cont_def)
  have "rune_ok (map f (x # xs)) = rune_ok (x # xs)" for x xs
  proof (cases "byte x < 0x80")
    case True
    then show ?thesis using f(2) [OF True] by (cases "x # xs" rule: rune_ok.cases) auto
  next
    case False
    then have "f x = x" using f(1) [of x] by simp
    then show ?thesis using False c s by (cases "x # xs" rule: rune_ok.cases) auto
  qed
  then have "rune_ok (map f r) = rune_ok r" for r by (cases r) auto
  then have w: "rune_width (map f (c # cs)) = rune_width (c # cs)" by (simp add: rune_width_def take_map del: list.map)
  have "runes (map f (c # cs)) = take (rune_width (map f (c # cs))) (map f (c # cs)) # runes (drop (rune_width (map f (c # cs))) (map f (c # cs)))"
    by simp
  then show ?case unfolding w take_map drop_map 2 by simp
qed simp

lemma encode_rune_val:
  assumes "rune_ok r" "length r \<le> 3"
  shows "encode_rune (rune_val r) = r"
  using assms(1)
proof (cases rule: rune_ok_cases)
  case (2 a b)
  define x y where "x = byte a - 0xC0" "y = byte b - 0x80"
  have y: "y < 64" "byte b = 0x80 + y" using 2 by (auto simp: x_y_def second_def cont_def)
  have x: "2 \<le> x" "x < 32" "byte a = 0xC0 + x" using 2 by (auto simp: x_y_def)
  have "encode_rune (x * 64 + y) = [char_of (byte a), char_of (byte b)]" using x y by (simp add: encode_rune_def)
  then show ?thesis using 2 by (simp add: x_y_def)
next
  case (3 a b c)
  define x y z where "x = byte a - 0xE0" "y = byte b - 0x80" "z = byte c - 0x80"
  have y: "y < 64" "byte b = 0x80 + y" "z < 64" "byte c = 0x80 + z" using 3 by (auto simp: x_y_z_def second_def cont_def)
  have x: "x < 16" "byte a = 0xE0 + x" "x = 0 \<Longrightarrow> 32 \<le> y" using 3 by (auto simp: x_y_z_def second_def)
  let ?n = "x * 4096 + y * 64 + z"
  have e: "?n = z + 64 * (x * 64 + y)" by simp
  have n2: "?n div 4096 = x" "?n div 64 = x * 64 + y" using y by (auto intro!: div_nat_eqI)
  have n3: "?n mod 64 = z" unfolding e using y by (simp only: mod_mult_self2 mod_less)
  have n1: "0x800 \<le> ?n" using x(3) by (cases "x = 0") auto
  note n = n1 n2 n3
  have "encode_rune ?n = [char_of (byte a), char_of (byte b), char_of (byte c)]" using n x y unfolding encode_rune_def n(2-4) by simp
  then show ?thesis using 3 by (simp add: x_y_z_def)
qed (use assms(2) in \<open>auto simp: encode_rune_def\<close>)

text \<open>Three bytes are enough for a code point of sixteen bits, and it is not a surrogate.\<close>

lemma rune_val_16:
  assumes "rune_ok r" "rune_val r < 0x10000"
  shows "length r \<le> 3" "\<not> (0xD800 \<le> rune_val r \<and> rune_val r \<le> 0xDFFF)"
  using assms(1)
proof (atomize(full), cases rule: rune_ok_cases)
  case (3 a b c)
  define x y z where "x = byte a - 0xE0" "y = byte b - 0x80" "z = byte c - 0x80"
  have y: "y < 64" "z < 64" and x: "x = 13 \<Longrightarrow> y < 32" using 3 by (auto simp: x_y_z_def second_def cont_def)
  have "x * 4096 + y * 64 + z < 0xD800 \<or> 0xDFFF < x * 4096 + y * 64 + z"
  proof (cases x "13 :: nat" rule: linorder_cases)
    case equal
    then show ?thesis using x [OF equal] y by simp
  qed (use y in simp_all)
  then show "length r \<le> 3 \<and> \<not> (0xD800 \<le> rune_val r \<and> rune_val r \<le> 0xDFFF)" using 3 by (simp add: x_y_z_def not_le)
next
  case (4 a b c d)
  then show "length r \<le> 3 \<and> \<not> (0xD800 \<le> rune_val r \<and> rune_val r \<le> 0xDFFF)" using assms(2) by (auto simp: second_def cont_def)
qed (auto simp: second_def cont_def)

end
