(* ===== verification/Go_Quote.thy ===== *)
theory Go_Quote
  imports Go_Utf8
begin

text \<open>
  Quoted text: \<^verbatim>\<open>strconv.Quote\<close> and the strings of \<^verbatim>\<open>encoding/json\<close>, as Go's standard library writes them, rune by rune, and how a string literal of
  JSON or of GraphQL is read (the two grammars have the same escapes). The table of printable code points is a parameter of \<^verbatim>\<open>Quote\<close>.
\<close>

definition backslash :: char where "backslash = CHR 0x5C"
definition dquote :: char where "dquote = CHR 0x22"

definition hex_digit :: "nat \<Rightarrow> char" where
  "hex_digit d = (if d < 10 then char_of (48 + d) else char_of (87 + d))"

definition hex_byte :: "char \<Rightarrow> string" where
  "hex_byte c = (let n = (of_char c :: nat) in [hex_digit (n div 16), hex_digit (n mod 16)])"

text \<open>Four hexadecimal digits.\<close>

definition hex_word :: "nat \<Rightarrow> string" where
  "hex_word n = [hex_digit (n div 4096), hex_digit (n div 256 mod 16), hex_digit (n div 16 mod 16), hex_digit (n mod 16)]"

section \<open>Writing\<close>

text \<open>The quotation of an ASCII character.\<close>

definition quote_char :: "char \<Rightarrow> string" where
  "quote_char c = (let n = (of_char c :: nat) in
     if c = dquote \<or> c = backslash then [backslash, c]
     else if n = 7 then [backslash, CHR ''a''] else if n = 8 then [backslash, CHR ''b''] else if n = 12 then [backslash, CHR ''f'']
     else if n = 10 then [backslash, CHR ''n''] else if n = 13 then [backslash, CHR ''r''] else if n = 9 then [backslash, CHR ''t'']
     else if n = 11 then [backslash, CHR ''v'']
     else if n < 32 \<or> n = 127 then [backslash, CHR ''x''] @ hex_byte c
     else [c])"

text \<open>The quotation of one rune; \<^verbatim>\<open>pr\<close> says which code points that are not ASCII \<^verbatim>\<open>strconv.IsPrint\<close> takes as printable.\<close>

definition quote_rune :: "(nat \<Rightarrow> bool) \<Rightarrow> string \<Rightarrow> string" where
  "quote_rune pr r =
     (if \<not> rune_ok r then [backslash, CHR ''x''] @ hex_byte (hd r)
      else if length r = 1 then quote_char (hd r)
      else if pr (rune_val r) then r
      else if rune_val r < 0x10000 then [backslash, CHR ''u''] @ hex_word (rune_val r)
      else [backslash, CHR ''U''] @ hex_word (rune_val r div 0x10000) @ hex_word (rune_val r mod 0x10000))"

definition quote_body :: "(nat \<Rightarrow> bool) \<Rightarrow> string \<Rightarrow> string" where
  "quote_body pr s = concat (map (quote_rune pr) (runes s))"

definition Quote :: "(nat \<Rightarrow> bool) \<Rightarrow> string \<Rightarrow> string" where
  "Quote pr s = [dquote] @ quote_body pr s @ [dquote]"

definition json_char :: "char \<Rightarrow> string" where
  "json_char c = (let n = (of_char c :: nat) in
     if c = dquote \<or> c = backslash then [backslash, c]
     else if n = 8 then [backslash, CHR ''b''] else if n = 12 then [backslash, CHR ''f'']
     else if n = 10 then [backslash, CHR ''n''] else if n = 13 then [backslash, CHR ''r''] else if n = 9 then [backslash, CHR ''t'']
     else if n < 32 \<or> c = CHR ''<'' \<or> c = CHR ''>'' \<or> c = CHR ''&'' then [backslash] @ ''u00'' @ hex_byte c
     else [c])"

definition json_rune :: "string \<Rightarrow> string" where
  "json_rune r =
     (if \<not> rune_ok r then [backslash] @ ''ufffd''
      else if length r = 1 then json_char (hd r)
      else if rune_val r = 0x2028 \<or> rune_val r = 0x2029 then [backslash, CHR ''u''] @ hex_word (rune_val r)
      else r)"

definition json_string :: "string \<Rightarrow> string" where
  "json_string s = [dquote] @ concat (map json_rune (runes s)) @ [dquote]"

section \<open>Reading\<close>

definition hex_val :: "char \<Rightarrow> nat option" where
  "hex_val c = (let n = (of_char c :: nat) in
     if 48 \<le> n \<and> n \<le> 57 then Some (n - 48) else if 97 \<le> n \<and> n \<le> 102 then Some (n - 87)
     else if 65 \<le> n \<and> n \<le> 70 then Some (n - 55) else None)"

definition short_escape :: "char \<Rightarrow> char option" where
  "short_escape c =
     (if c = dquote \<or> c = backslash \<or> c = CHR ''/'' then Some c else if c = CHR ''b'' then Some (char_of (8::nat))
      else if c = CHR ''f'' then Some (char_of (12::nat)) else if c = CHR ''n'' then Some (char_of (10::nat))
      else if c = CHR ''r'' then Some (char_of (13::nat)) else if c = CHR ''t'' then Some (char_of (9::nat)) else None)"

text \<open>
  The text between the quotes of a literal: \<^verbatim>\<open>None\<close> when it is not well-formed, in particular when a quote ends the literal early. An escape by number stands for the
  encoding of its code point; those of surrogates are not read, \<^verbatim>\<open>Quote\<close> and \<^verbatim>\<open>json_string\<close> write none. What is not escaped is read as it is.
\<close>

fun unescape :: "string \<Rightarrow> string option" where
  "unescape [] = Some []"
| "unescape (c # cs) =
     (if c = backslash then
        (case cs of
           [] \<Rightarrow> None
         | e # ds \<Rightarrow>
             if e = CHR ''u'' then
               (case ds of
                  z1 # z2 # z3 # z4 # rest \<Rightarrow>
                    (case (hex_val z1, hex_val z2, hex_val z3, hex_val z4) of
                       (Some h1, Some h2, Some h3, Some h4) \<Rightarrow>
                         let n = 4096 * h1 + 256 * h2 + 16 * h3 + h4
                         in if 0xD800 \<le> n \<and> n \<le> 0xDFFF then None else map_option ((@) (encode_rune n)) (unescape rest)
                     | _ \<Rightarrow> None)
                | _ \<Rightarrow> None)
             else (case short_escape e of None \<Rightarrow> None | Some d \<Rightarrow> map_option ((#) d) (unescape ds)))
      else if c = dquote \<or> (of_char c :: nat) < 32 then None
      else map_option ((#) c) (unescape cs))"

section \<open>Laws\<close>

text \<open>ASCII characters that are their own quotation, and the bytes that are read as they are.\<close>

definition ordinary :: "char \<Rightarrow> bool" where
  "ordinary c \<longleftrightarrow> c \<noteq> dquote \<and> c \<noteq> backslash \<and> 32 \<le> byte c \<and> byte c < 127"

definition passed :: "char \<Rightarrow> bool" where
  "passed c \<longleftrightarrow> ordinary c \<or> 0x80 \<le> byte c"

lemma special_neq [simp]: "dquote \<noteq> backslash" "backslash \<noteq> dquote"
  by (simp_all add: dquote_def backslash_def)

lemma special_codes: "(of_char dquote :: nat) = 34" "(of_char backslash :: nat) = 92"
  by (simp_all add: dquote_def backslash_def)

lemma passed_neq [simp]: "\<not> passed dquote" "\<not> passed backslash"
  by (simp_all add: passed_def ordinary_def special_codes)

lemma ordinary_passed: "ordinary c \<Longrightarrow> passed c"
  by (simp add: passed_def)

lemma quote_passed [simp]: "passed c \<Longrightarrow> quote_char c = [c]"
  by (auto simp: passed_def ordinary_def quote_char_def Let_def special_codes)

lemma unescape_passed [simp]: "passed c \<Longrightarrow> unescape (c # cs) = map_option ((#) c) (unescape cs)"
  by (auto simp: passed_def ordinary_def special_codes unescape.simps(2))

lemma unescape_special [simp]:
  "unescape (backslash # backslash # cs) = map_option ((#) backslash) (unescape cs)"
  "unescape (backslash # dquote # cs) = map_option ((#) dquote) (unescape cs)"
  "unescape (dquote # cs) = None"
  by (simp_all add: short_escape_def backslash_def dquote_def)

declare unescape.simps(2) [simp del]

text \<open>Numbers are read as they were written.\<close>

lemma hex_read:
  assumes "n < 16"
  shows "hex_val (hex_digit n) = Some n" "ordinary (hex_digit n)"
proof -
  have c: "byte (hex_digit n) = (if n < 10 then 48 + n else 87 + n)" using assms by (simp add: hex_digit_def)
  show "hex_val (hex_digit n) = Some n" using assms unfolding hex_val_def Let_def c by simp
  have "hex_digit n \<noteq> dquote" "hex_digit n \<noteq> backslash" using c special_codes
    by (auto split: if_splits)
  then show "ordinary (hex_digit n)" using assms by (simp add: ordinary_def c)
qed

lemma unescape_word:
  assumes "n < 0x10000" "\<not> (0xD800 \<le> n \<and> n \<le> 0xDFFF)"
  shows "unescape (backslash # CHR ''u'' # hex_word n @ cs) = map_option ((@) (encode_rune n)) (unescape cs)"
proof -
  have d: "n div 4096 < 16" using assms(1) by (simp add: less_mult_imp_div_less)
  have "4096 * (n div 4096) + 256 * (n div 256 mod 16) + 16 * (n div 16 mod 16) + n mod 16 = n"
  proof -
    have "n div 256 = n div 16 div 16" "n div 4096 = n div 16 div 16 div 16" by (simp_all flip: div_mult2_eq)
    moreover have "n = 16 * m + r \<Longrightarrow> m = 16 * k + q \<Longrightarrow> k = 16 * j + p \<Longrightarrow> 4096 * j + 256 * p + 16 * q + r = n" for m k j r q p by simp
    ultimately show ?thesis by (metis mult_div_mod_eq)
  qed
  then show ?thesis using assms(2) unfolding hex_word_def
    by (subst unescape.simps(2)) (auto simp: Let_def hex_read(1) d)
qed

lemma hex_byte_word: "byte c < 0x80 \<Longrightarrow> ''u00'' @ hex_byte c = CHR ''u'' # hex_word (byte c)"
proof -
  have "hex_digit 0 = CHR ''0''" by code_simp
  then show "byte c < 0x80 \<Longrightarrow> ''u00'' @ hex_byte c = CHR ''u'' # hex_word (byte c)"
    by (simp add: hex_byte_def hex_word_def Let_def)
qed

text \<open>A text that is written character by character is read back when every character is.\<close>

lemma unescape_concat:
  assumes "\<And>c cs. c \<in> set s \<Longrightarrow> unescape (f c @ cs) = map_option ((@) (g c)) (unescape cs)"
  shows "unescape (concat (map f s) @ cs) = map_option ((@) (concat (map g s))) (unescape cs)"
  using assms by (induction s) (cases "unescape cs"; simp)+


text \<open>\<^verbatim>\<open>strings.Replace\<close> goes through the text from left to right.\<close>

lemma go_join_more: "xs \<noteq> [] \<Longrightarrow> go_join sep (x # xs) = x @ sep @ go_join sep xs"
  by (cases xs) simp_all

lemma split_on_ne [simp]: "split_on sep acc s \<noteq> []"
  by (induction sep acc s rule: split_on.induct) simp_all

lemma join_split_acc: "go_join new (split_on sep acc s) = rev acc @ go_join new (split_on sep [] s)"
proof (induction s arbitrary: acc)
  case (Cons c cs)
  show ?case
  proof (cases "prefix sep (c # cs)")
    case False
    then show ?thesis using Cons.IH [of "c # acc"] Cons.IH [of "[c]"] by simp
  qed (simp add: go_join_more)
qed simp

lemma replace_all_simps [simp]:
  "replace_all [] sep new = []"
  "replace_all (c # cs) sep new =
     (if prefix sep (c # cs) then new @ replace_all (drop (length sep - 1) cs) sep new else c # replace_all cs sep new)"
  using join_split_acc [of new sep "[c]" cs] by (simp_all add: replace_all_def go_split_def go_join_more)

lemma replace_byte: "replace_all s [c] [d] = map (\<lambda>x. if x = c then d else x) s"
  by (induction s) auto

end
