(* ===== verification/Subscriber_Requests.thy ===== *)
theory Subscriber_Requests
  imports Subscriber_Cluster Go_Quote
begin

text \<open>
  How the subscriber starts (\<^verbatim>\<open>subscriber.go\<close>), and how it executes the requests of the server (\<^verbatim>\<open>subscriber/pkg/requests\<close>,
  \<^verbatim>\<open>pkg/k8s\<close>, \<^verbatim>\<open>pkg/utils\<close>, \<^verbatim>\<open>pkg/graphql\<close> and the operations on workflows and engines of \<^verbatim>\<open>pkg/events\<close>). Log lines are left
  out. The cluster is a parameter (\<^verbatim>\<open>Subscriber_Cluster\<close>); the Kubernetes clients, JSON and YAML coding, URLs, the environment
  variables, HTTP and the web socket are fields of \<^verbatim>\<open>agent_env\<close>. The state has the package variables: the client set that is made once,
  and the resource interface \<^verbatim>\<open>dr\<close>. The requests are executed one after the other, in the goroutine of \<^verbatim>\<open>AgentConnect\<close>.
\<close>

section \<open>Data\<close>

record kube_config =
  kc_Host :: string
  kc_QPS :: rat
  kc_Burst :: int
  kc_Timeout :: int

record raw_action =
  ac_RequestID :: string
  ac_K8SManifest :: string
  ac_ExternalData :: string
  ac_RequestType :: string
  ac_Username :: string
  ac_Namespace :: string

record infra_confirm =
  ic_IsInfraConfirmed :: bool
  ic_NewAccessKey :: string
  ic_InfraID :: string

record payload =
  pl_Errors :: "string option"
  pl_InfraConfirm :: infra_confirm
  pl_Action :: raw_action

record raw_data =
  rd_Type :: string
  rd_Payload :: payload

record kube_obj_request =
  ko_RequestID :: string
  ko_InfraID :: string
  ko_Namespace :: string
  ko_ObjectType :: string
  ko_GVR :: gvr

record kube_namespace_request =
  kn_RequestID :: string
  kn_InfraID :: string

record object_data =
  od_Name :: string
  od_UID :: string
  od_Namespace :: string
  od_APIVersion :: string
  od_CreationTimestamp :: int
  od_TerminationGracePeriods :: "int option"
  od_Labels :: "string list"

record kube_object =
  kb_Namespace :: string
  kb_Data :: "object_data list"

record pod_log_request =
  pr_RequestID :: string
  pr_InfraID :: string
  pr_ExperimentRunID :: string
  pr_PodName :: string
  pr_PodNamespace :: string
  pr_PodType :: string
  pr_ExpPod :: "string option"
  pr_RunnerPod :: "string option"
  pr_ChaosNamespace :: "string option"

text \<open>\<^verbatim>\<open>None\<close> is the nil map, which the encoder leaves out.\<close>

record pod_log =
  lg_MainPod :: string
  lg_ChaosPod :: "(string \<times> string) list option"

text \<open>
  A constructor of a client answers with its error, if any. \<^verbatim>\<open>DoRequest\<close> is the exchange over HTTP, the body or the first error of sending and
  reading.
\<close>

record agent_env =
  Getenv :: "string \<Rightarrow> string"
  KubeConfig :: string
  InClusterConfig :: "string + kube_config"
  BuildConfigFromFlags :: "string \<Rightarrow> string + kube_config"
  ParseFloat32 :: "string \<Rightarrow> rat option"
  NewClientset :: "kube_config \<Rightarrow> string option"
  NewDiscoveryClient :: "kube_config \<Rightarrow> string option"
  NewDynamicClient :: "kube_config \<Rightarrow> string option"
  NewWorkflowClient :: "kube_config \<Rightarrow> string option"
  NewRequest :: "string \<Rightarrow> string option"
  DoRequest :: "string \<Rightarrow> string \<Rightarrow> string + string"
  JSONToYAML :: "string \<Rightarrow> string + string"
  IsPrint :: "nat \<Rightarrow> bool"
  DecodeObject :: "string \<Rightarrow> string + kobject \<times> (string \<times> string) \<times> string"
  FormatLabels :: "(string \<times> string) list \<Rightarrow> string"
  ReadComponents :: "string \<Rightarrow> string + string list"
  MarshalKubeObject :: "kube_object \<Rightarrow> string + string"
  UnmarshalKubeObject :: "string \<Rightarrow> string + kube_object option"
  UnmarshalKubeObjRequest :: "string \<Rightarrow> kube_obj_request \<Rightarrow> string + kube_obj_request"
  UnmarshalNamespaceRequest :: "string \<Rightarrow> kube_namespace_request \<Rightarrow> string + kube_namespace_request"
  UnmarshalPodLogRequest :: "string \<Rightarrow> pod_log_request \<Rightarrow> string + pod_log_request"
  UnmarshalRawData :: "string \<Rightarrow> string + raw_data"
  UnmarshalPayload :: "string \<Rightarrow> string + payload"
  ParseURL :: "string \<Rightarrow> string + string \<times> string \<times> string"
  Dial :: "string \<times> string \<times> string \<Rightarrow> string option"

record 's agent =
  ag_clientset :: "string option option"
  ag_dr :: "(gvr \<times> string) option"
  ag_posted :: "(string \<times> string) list"
  ag_cluster :: 's

section \<open>Talking to the server\<close>

definition SendRequest :: "agent_env \<Rightarrow> string \<Rightarrow> string \<Rightarrow> 's agent \<Rightarrow> ('s agent, string) outcome" where
  "SendRequest env server body s =
     (case NewRequest env server of
        Some err \<Rightarrow> (Inr (Inl err), s)
      | None \<Rightarrow> (Inr (DoRequest env server body), s\<lparr>ag_posted := ag_posted s @ [(server, body)]\<rparr>))"

text \<open>
  \<^verbatim>\<open>MarshalGQLData\<close>: the JSON text of a value is quoted, and the quotes in it are escaped once more, because the text stands in a string of
  the query, which stands in a string of the body. Callers cut off the outer quotes.
\<close>

definition MarshalGQLData :: "agent_env \<Rightarrow> string + string \<Rightarrow> string + string" where
  "MarshalGQLData env data = map_sum id (\<lambda>d. replace_all (Quote (IsPrint env) d) [backslash, dquote] [backslash, backslash, backslash, dquote]) data"

definition inner :: "string \<Rightarrow> string" where
  "inner processed = take (length processed - 2) (drop 1 processed)"

definition escaped :: "string \<Rightarrow> string" where
  "escaped v = [backslash, dquote] @ v @ [backslash, dquote]"

definition identity_text :: "string \<Rightarrow> string \<Rightarrow> string \<Rightarrow> string" where
  "identity_text cid accessKey version =
     ''{infraID: '' @ escaped cid @ '', version: '' @ escaped version @ '', accessKey: '' @ escaped accessKey @ ''}''"

definition query_body :: "string \<Rightarrow> string" where
  "query_body q = ''{'' @ in_quotes ''query'' @ '':'' @ in_quotes q @ ''}''"

section \<open>Clients\<close>

definition DefaultQPS :: rat where "DefaultQPS = 50"
definition DefaultBurst :: int where "DefaultBurst = 100"
definition DefaultTimeout :: int where "DefaultTimeout = 30"

definition getEnvAsFloat :: "agent_env \<Rightarrow> string \<Rightarrow> rat \<Rightarrow> rat" where
  "getEnvAsFloat env name defaultVal = (case ParseFloat32 env (Getenv env name) of Some v \<Rightarrow> v | None \<Rightarrow> defaultVal)"

definition getEnvAsInt :: "agent_env \<Rightarrow> string \<Rightarrow> int \<Rightarrow> int" where
  "getEnvAsInt env name defaultVal = (case atoi (Getenv env name) of Some v \<Rightarrow> v | None \<Rightarrow> defaultVal)"

definition GetKubeConfig :: "agent_env \<Rightarrow> string + kube_config" where
  "GetKubeConfig env =
     (case (if KubeConfig env = '''' then InClusterConfig env else BuildConfigFromFlags env (KubeConfig env)) of
        Inl err \<Rightarrow> Inl err
      | Inr config \<Rightarrow> Inr (config\<lparr>kc_QPS := getEnvAsFloat env ''K8S_CLIENT_QPS'' DefaultQPS,
          kc_Burst := getEnvAsInt env ''K8S_CLIENT_BURST'' DefaultBurst,
          kc_Timeout := wrap64 (getEnvAsInt env ''K8S_CLIENT_TIMEOUT'' DefaultTimeout * 10 ^ 9)\<rparr>))"

text \<open>The client set is made by the first call, and its error is the error of every later one.\<close>

definition GetGenericK8sClient :: "agent_env \<Rightarrow> 's agent \<Rightarrow> ('s agent, unit) outcome" where
  "GetGenericK8sClient env s =
     (let made = (case ag_clientset s of
            Some r \<Rightarrow> r
          | None \<Rightarrow> (case GetKubeConfig env of Inl err \<Rightarrow> Some err | Inr config \<Rightarrow> NewClientset env config))
      in of_error (made, s\<lparr>ag_clientset := Some made\<rparr>))"

definition GetDynamicAndDiscoveryClient :: "agent_env \<Rightarrow> string option" where
  "GetDynamicAndDiscoveryClient env =
     (case GetKubeConfig env of
        Inl err \<Rightarrow> Some err
      | Inr config \<Rightarrow> (case NewDiscoveryClient env config of Some err \<Rightarrow> Some err | None \<Rightarrow> NewDynamicClient env config))"

text \<open>A client of workflows: an error of the configuration is returned, \<^verbatim>\<open>NewForConfigOrDie\<close> panics.\<close>

definition workflow_client :: "agent_env \<Rightarrow> (string + unit) go" where
  "workflow_client env =
     (case GetKubeConfig env of
        Inl err \<Rightarrow> Inr (Inl err)
      | Inr config \<Rightarrow> (case NewWorkflowClient env config of Some _ \<Rightarrow> Inl ExplicitPanic | None \<Rightarrow> Inr (Inr ())))"

text \<open>A call of the API as a step of the agent; an error is given by its text.\<close>

definition on_cluster :: "('s \<Rightarrow> (kube_error + 'a) \<times> 's) \<Rightarrow> 's agent \<Rightarrow> (kube_error + 'a) \<times> 's agent" where
  "on_cluster f s = (case f (ag_cluster s) of (r, c) \<Rightarrow> (r, s\<lparr>ag_cluster := c\<rparr>))"

definition or_none :: "(kube_error option \<times> 's) \<Rightarrow> (kube_error + unit) \<times> 's" where
  "or_none r = (case r of (None, s) \<Rightarrow> (Inr (), s) | (Some e, s) \<Rightarrow> (Inl e, s))"

definition plain_error :: "(kube_error + 'a) \<times> 's \<Rightarrow> ('s, 'a) outcome" where
  "plain_error r = (case r of (v, s) \<Rightarrow> (Inr (map_sum error_text id v), s))"

section \<open>Health and confirmation of the agent\<close>

definition InfraConfigName :: string where "InfraConfigName = ''subscriber-config''"
definition InfraSecretName :: string where "InfraSecretName = ''subscriber-secret''"
definition LiveCheckMaxTries :: nat where "LiveCheckMaxTries = 6"

definition InfraNamespace :: "agent_env \<Rightarrow> string" where "InfraNamespace env = Getenv env ''INFRA_NAMESPACE''"
definition InfraScope :: "agent_env \<Rightarrow> string" where "InfraScope env = Getenv env ''INFRA_SCOPE''"

definition deploymentHealthy :: "'s kube_api \<Rightarrow> string \<Rightarrow> string \<Rightarrow> 's \<Rightarrow> bool \<times> 's" where
  "deploymentHealthy api ns labelSelector c =
     (case api_ListPods api ns labelSelector c of
        (Inl err, c') \<Rightarrow> (False, c')
      | (Inr pods, c') \<Rightarrow> (pods \<noteq> [] \<and> list_all (\<lambda>p. po_Phase p = ''Running'' \<and> list_all id (po_Ready p)) pods, c'))"

text \<open>The number of selectors that fail; one goroutine per selector, all of them are waited for.\<close>

fun failed_deployments :: "'s kube_api \<Rightarrow> string \<Rightarrow> string list \<Rightarrow> 's \<Rightarrow> nat \<times> 's" where
  "failed_deployments api ns [] c = (0, c)"
| "failed_deployments api ns (sel # sels) c =
     (case deploymentHealthy api ns sel c of
        (ok, c1) \<Rightarrow> (case failed_deployments api ns sels c1 of (n, c2) \<Rightarrow> ((if ok then 0 else 1) + n, c2)))"

definition allDeploymentsHealthy :: "'s kube_api \<Rightarrow> string \<Rightarrow> string list \<Rightarrow> 's \<Rightarrow> bool \<times> 's" where
  "allDeploymentsHealthy api ns selectors c =
     (if selectors = [] then (True, c) else case failed_deployments api ns selectors c of (n, c') \<Rightarrow> (n = 0, c'))"

text \<open>\<^verbatim>\<open>tries\<close> tries are left; there is a pause of 30 seconds between two tries.\<close>

fun live_check :: "'s kube_api \<Rightarrow> string \<Rightarrow> string list \<Rightarrow> nat \<Rightarrow> 's \<Rightarrow> bool \<times> 's" where
  "live_check api ns selectors 0 c = (False, c)"
| "live_check api ns selectors (Suc tries) c =
     (case allDeploymentsHealthy api ns selectors c of
        (True, c') \<Rightarrow> (True, c')
      | (False, c') \<Rightarrow> live_check api ns selectors tries (if tries = 0 then c' else api_Sleep api 30 c'))"

definition CheckComponentStatus :: "'s kube_api \<Rightarrow> agent_env \<Rightarrow> string \<Rightarrow> 's agent \<Rightarrow> ('s agent, unit) outcome" where
  "CheckComponentStatus api env componentEnv s =
     (if componentEnv = '''' then (Inr (Inl ''components not found in infra config''), s)
      else obind (GetGenericK8sClient env s) (\<lambda>_ s.
        case ReadComponents env (trimSpace componentEnv) of
          Inl err \<Rightarrow> (Inr (Inl err), s)
        | Inr deployments \<Rightarrow>
            (case live_check api (InfraNamespace env) deployments LiveCheckMaxTries (ag_cluster s) of
               (up, c) \<Rightarrow> (Inr (if up then Inr () else Inl ''all components failed to startup''), s\<lparr>ag_cluster := c\<rparr>))))"

definition lookup_or_empty :: "(string \<times> string) list \<Rightarrow> string \<Rightarrow> string" where
  "lookup_or_empty m k = (case map_of m k of None \<Rightarrow> '''' | Some v \<Rightarrow> v)"

definition isAgentConfirmedWithClientset :: "'s kube_api \<Rightarrow> agent_env \<Rightarrow> 's agent \<Rightarrow> ('s agent, bool \<times> string) outcome" where
  "isAgentConfirmedWithClientset api env s =
     (case on_cluster (api_GetConfigMap api (InfraNamespace env) InfraConfigName) s of
        (Inl (NotFound e), s) \<Rightarrow> (Inr (Inl (InfraConfigName @ '' configmap not found'')), s)
      | (Inl e, s) \<Rightarrow> (Inr (Inl (error_text e)), s)
      | (Inr getCM, s) \<Rightarrow>
          if lookup_or_empty (case cm_Data getCM of None \<Rightarrow> [] | Some d \<Rightarrow> d) ''IS_INFRA_CONFIRMED'' = ''true'' then
            obind (with_text (''failed to get '' @ InfraSecretName @ '' secret: '')
                     (plain_error (on_cluster (api_GetSecret api (InfraNamespace env) InfraSecretName) s)))
              (\<lambda>x s. (Inr (Inr (True, lookup_or_empty (se_Data x) ''ACCESS_KEY'')), s))
          else (Inr (Inr (False, '''')), s))"

definition IsAgentConfirmed :: "'s kube_api \<Rightarrow> agent_env \<Rightarrow> 's agent \<Rightarrow> ('s agent, bool \<times> string) outcome" where
  "IsAgentConfirmed api env s = obind (GetGenericK8sClient env s) (\<lambda>_. isAgentConfirmedWithClientset api env)"

definition AgentRegister :: "'s kube_api \<Rightarrow> agent_env \<Rightarrow> string \<Rightarrow> 's agent \<Rightarrow> ('s agent, bool) outcome" where
  "AgentRegister api env accessKey s =
     obind (GetGenericK8sClient env s) (\<lambda>_ s.
     obind (plain_error (on_cluster (api_GetConfigMap api (InfraNamespace env) InfraConfigName) s)) (\<lambda>getCM s.
     obind (plain_error (on_cluster (api_GetSecret api (InfraNamespace env) InfraSecretName) s)) (\<lambda>getSecret s.
       case cm_Data getCM of
         None \<Rightarrow> (Inl NilMapWrite, s)
       | Some d \<Rightarrow>
           obind (plain_error (on_cluster (or_none \<circ> api_UpdateConfigMap api (InfraNamespace env) InfraConfigName
             (getCM\<lparr>cm_Data := Some (AList.update ''IS_INFRA_CONFIRMED'' ''true'' d)\<rparr>)) s)) (\<lambda>_ s.
           obind (plain_error (on_cluster (or_none \<circ> api_UpdateSecret api (InfraNamespace env) InfraSecretName
             (getSecret\<lparr>se_StringData := [(''ACCESS_KEY'', accessKey)]\<rparr>)) s)) (\<lambda>_ s.
           (Inr (Inr True), s))))))"

definition AgentConfirm :: "agent_env \<Rightarrow> (string \<Rightarrow> string) \<Rightarrow> 's agent \<Rightarrow> ('s agent, string) outcome" where
  "AgentConfirm env infraData s =
     SendRequest env (infraData ''SERVER_ADDR'')
       (query_body (''mutation{ confirmInfraRegistration(request: '' @ identity_text (infraData ''INFRA_ID'') (infraData ''ACCESS_KEY'')
          (infraData ''VERSION'') @ ''){isInfraConfirmed newAccessKey infraID}}'')) s"

text \<open>
  \<^verbatim>\<open>init\<close> from the check of the components on: the result is the data of the infrastructure the agent goes on with; an error ends the
  process.
\<close>

definition or_fatal :: "('s, 'a) outcome \<Rightarrow> ('s, 'a) outcome" where
  "or_fatal r = (case r of (Inr (Inl e), s) \<Rightarrow> (Inl FatalExit, s) | _ \<Rightarrow> r)"

definition init_agent :: "'s kube_api \<Rightarrow> agent_env \<Rightarrow> (string \<Rightarrow> string) \<Rightarrow> 's agent \<Rightarrow> ('s agent, string \<Rightarrow> string) outcome" where
  "init_agent api env infraData s =
     obind (or_fatal (CheckComponentStatus api env (infraData ''COMPONENTS'') s)) (\<lambda>_ s.
     obind (or_fatal (IsAgentConfirmed api env s)) (\<lambda>(isConfirmed, newKey) s.
       if isConfirmed then (Inr (Inr (infraData(''ACCESS_KEY'' := newKey))), s)
       else
         obind (or_fatal (AgentConfirm env infraData s)) (\<lambda>body s.
         case UnmarshalPayload env body of
           Inl err \<Rightarrow> (Inl FatalExit, s)
         | Inr confirm \<Rightarrow>
             if ic_IsInfraConfirmed (pl_InfraConfirm confirm) then
               obind (or_fatal (AgentRegister api env (ic_NewAccessKey (pl_InfraConfirm confirm)) s)) (\<lambda>_ s.
                 (Inr (Inr (infraData(''ACCESS_KEY'' := ic_NewAccessKey (pl_InfraConfirm confirm), ''IS_INFRA_CONFIRMED'' := ''true''))), s))
             else (Inr (Inr infraData), s))))"

section \<open>Objects and namespaces\<close>

text \<open>The loop over the chunks of the list of namespaces; \<^verbatim>\<open>None\<close> when it does not end.\<close>

partial_function (option) namespace_chunks ::
  "'s kube_api \<Rightarrow> int \<Rightarrow> string \<Rightarrow> string list \<Rightarrow> 's \<Rightarrow> ((kube_error + string list) \<times> 's) option" where
  "namespace_chunks api deadline token found c =
     (case api_ListNamespaces api deadline 500 token c of
        (Inl e, c') \<Rightarrow> Some (Inl e, c')
      | (Inr (names, next), c') \<Rightarrow>
          if next = '''' then Some (Inr (found @ names), c') else namespace_chunks api deadline next (found @ names) c')"

declare namespace_chunks.simps [code]

definition GetKubernetesNamespaces :: "'s kube_api \<Rightarrow> agent_env \<Rightarrow> 's agent \<Rightarrow> ('s agent, string list) outcome option" where
  "GetKubernetesNamespaces api env s =
     (if foldLower (InfraScope env) = ''namespace'' then Some (Inr (Inr [InfraNamespace env]), s)
      else case GetGenericK8sClient env s of
        (Inr (Inr _), s) \<Rightarrow>
          (case namespace_chunks api (api_Now api (ag_cluster s) + 30 * 10 ^ 9) '''' [] (ag_cluster s) of
             None \<Rightarrow> None
           | Some (Inl e, c) \<Rightarrow> Some (Inr (Inl (error_text e)), s\<lparr>ag_cluster := c\<rparr>)
           | Some (Inr names, c) \<Rightarrow>
               Some (Inr (if names = [] then Inl ''No namespace available'' else Inr names), s\<lparr>ag_cluster := c\<rparr>))
      | (Inr (Inl err), s) \<Rightarrow> Some (Inr (Inl err), s)
      | (Inl p, s) \<Rightarrow> Some (Inl p, s))"

definition json_namespaces :: "string list \<Rightarrow> string" where
  "json_namespaces names = ''['' @ go_join '','' (map (\<lambda>n. ''{'' @ json_string ''name'' @ '':'' @ json_string n @ ''}'') names) @ '']''"

definition GenerateKubeNamespace ::
  "'s kube_api \<Rightarrow> agent_env \<Rightarrow> (string \<Rightarrow> string) \<Rightarrow> kube_namespace_request \<Rightarrow> 's agent \<Rightarrow> ('s agent, string) outcome option" where
  "GenerateKubeNamespace api env infraData req s =
     map_option (\<lambda>r. obind r (\<lambda>names s.
       case MarshalGQLData env (Inr (json_namespaces names)) of
         Inl err \<Rightarrow> (Inr (Inl err), s)
       | Inr processed \<Rightarrow> (Inr (Inr (query_body (''mutation { kubeNamespace(request:{ infraID: ''
           @ identity_text (infraData ''INFRA_ID'') (infraData ''ACCESS_KEY'') (infraData ''VERSION'') @ '', requestID:'' @ escaped (kn_RequestID req)
           @ '', kubeNamespace:'' @ escaped (inner processed) @ ''} )}''))), s)))
     (GetKubernetesNamespaces api env s)"

definition updateLabels :: "(string \<times> string) list \<Rightarrow> string list" where
  "updateLabels ls = map (\<lambda>(k, v). k @ ''='' @ v) ls"

definition object_data_of :: "kobject \<Rightarrow> object_data" where
  "object_data_of ob = \<lparr>od_Name = ob_Name ob, od_UID = ob_UID ob, od_Namespace = ob_Namespace ob, od_APIVersion = ob_APIVersion ob,
     od_CreationTimestamp = ob_CreationTimestamp ob, od_TerminationGracePeriods = ob_DeletionGracePeriodSeconds ob,
     od_Labels = updateLabels (case ob_Labels ob of None \<Rightarrow> [] | Some ls \<Rightarrow> ls)\<rparr>"

text \<open>An error of the list request is dropped: the answer is then an empty list.\<close>

definition GetObjectDataByNamespace :: "'s kube_api \<Rightarrow> string \<Rightarrow> gvr \<Rightarrow> 's agent \<Rightarrow> object_data list \<times> 's agent" where
  "GetObjectDataByNamespace api ns resourceType s =
     (case on_cluster (api_List api resourceType ns '''') s of
        (Inl e, s) \<Rightarrow> ([], s)
      | (Inr items, s) \<Rightarrow> (map object_data_of items, s))"

definition GetKubernetesObjects ::
  "'s kube_api \<Rightarrow> agent_env \<Rightarrow> kube_obj_request \<Rightarrow> 's agent \<Rightarrow> ('s agent, kube_object option) outcome" where
  "GetKubernetesObjects api env req s =
     (case GetDynamicAndDiscoveryClient env of
        Some err \<Rightarrow> (Inr (Inl err), s)
      | None \<Rightarrow>
          (case GetObjectDataByNamespace api (ko_Namespace req) (ko_GVR req) s of
             (dataList, s) \<Rightarrow>
               let kubeData = (case MarshalKubeObject env \<lparr>kb_Namespace = InfraNamespace env, kb_Data = dataList\<rparr> of
                                 Inl _ \<Rightarrow> '''' | Inr d \<Rightarrow> d)
               in (Inr (UnmarshalKubeObject env kubeData), s)))"

definition GenerateKubeObject ::
  "'s kube_api \<Rightarrow> agent_env \<Rightarrow> (string \<Rightarrow> string) \<Rightarrow> kube_obj_request \<Rightarrow> 's agent \<Rightarrow> ('s agent, string) outcome" where
  "GenerateKubeObject api env infraData req s =
     obind (GetKubernetesObjects api env req s) (\<lambda>kubeObj s.
       case MarshalGQLData env (case kubeObj of None \<Rightarrow> Inr ''null'' | Some k \<Rightarrow> MarshalKubeObject env k) of
         Inl err \<Rightarrow> (Inr (Inl err), s)
       | Inr processed \<Rightarrow> (Inr (Inr (query_body (''mutation { kubeObj(request:{ infraID: ''
           @ identity_text (infraData ''INFRA_ID'') (infraData ''ACCESS_KEY'') (infraData ''VERSION'') @ '', requestID:'' @ escaped (ko_RequestID req)
           @ '', kubeObj:'' @ escaped (inner processed) @ ''} )}''))), s))"

definition SendKubeNamespaces ::
  "'s kube_api \<Rightarrow> agent_env \<Rightarrow> (string \<Rightarrow> string) \<Rightarrow> kube_namespace_request \<Rightarrow> 's agent \<Rightarrow> ('s agent, unit) outcome option" where
  "SendKubeNamespaces api env infraData req s =
     map_option (\<lambda>r. obind r (\<lambda>body s. obind (SendRequest env (infraData ''SERVER_ADDR'') body s) (\<lambda>_ s. (Inr (Inr ()), s))))
       (GenerateKubeNamespace api env infraData req s)"

definition SendKubeObjects ::
  "'s kube_api \<Rightarrow> agent_env \<Rightarrow> (string \<Rightarrow> string) \<Rightarrow> kube_obj_request \<Rightarrow> 's agent \<Rightarrow> ('s agent, unit) outcome" where
  "SendKubeObjects api env infraData req s =
     obind (GenerateKubeObject api env infraData req s) (\<lambda>body s.
       obind (SendRequest env (infraData ''SERVER_ADDR'') body s) (\<lambda>_ s. (Inr (Inr ()), s)))"

section \<open>Logs of pods\<close>

definition GetLogs :: "'s kube_api \<Rightarrow> agent_env \<Rightarrow> string \<Rightarrow> string \<Rightarrow> string \<Rightarrow> 's agent \<Rightarrow> ('s agent, string) outcome" where
  "GetLogs api env podName ns container s =
     (case GetKubeConfig env of
        Inl err \<Rightarrow> (Inr (Inl err), s)
      | Inr conf \<Rightarrow>
          (case NewClientset env conf of
             Some err \<Rightarrow> (Inr (Inl err), s)
           | None \<Rightarrow> plain_error (on_cluster (api_PodLogs api podName ns (if container = '''' then None else Some container)) s)))"

definition clean_log :: "agent_env \<Rightarrow> string \<Rightarrow> string" where
  "clean_log env l = inner (Quote (IsPrint env) (replace_all l [dquote] [CHR 0x27]))"

text \<open>The log of one pod of the chaos engine, if it is asked for and can be read.\<close>

definition add_log ::
  "'s kube_api \<Rightarrow> agent_env \<Rightarrow> string option \<Rightarrow> string \<Rightarrow> (string \<times> string) list \<Rightarrow> 's agent \<Rightarrow> (string \<times> string) list go \<times> 's agent" where
  "add_log api env pod' ns logs s =
     (case pod' of
        None \<Rightarrow> (Inr logs, s)
      | Some name \<Rightarrow>
          (case GetLogs api env name ns '''' s of
             (Inl p, s) \<Rightarrow> (Inl p, s)
           | (Inr (Inl err), s) \<Rightarrow> (Inr logs, s)
           | (Inr (Inr l), s) \<Rightarrow> (Inr (AList.update name (clean_log env l) logs), s)))"

definition CreatePodLog :: "'s kube_api \<Rightarrow> agent_env \<Rightarrow> pod_log_request \<Rightarrow> 's agent \<Rightarrow> pod_log go \<times> 's agent" where
  "CreatePodLog api env req s =
     (case GetLogs api env (pr_PodName req) (pr_PodNamespace req) ''main'' s of
        (Inl p, s) \<Rightarrow> (Inl p, s)
      | (Inr r, s) \<Rightarrow>
          let main = (case r of Inl err \<Rightarrow> ''Failed to get argo pod logs'' | Inr l \<Rightarrow> clean_log env l)
          in case pr_ChaosNamespace req of
               None \<Rightarrow> (Inr \<lparr>lg_MainPod = main, lg_ChaosPod = None\<rparr>, s)
             | Some ns \<Rightarrow>
                 if foldLower (pr_PodType req) \<noteq> ''chaosengine'' then (Inr \<lparr>lg_MainPod = main, lg_ChaosPod = None\<rparr>, s)
                 else case add_log api env (pr_ExpPod req) ns [] s of
                   (Inl p, s) \<Rightarrow> (Inl p, s)
                 | (Inr logs, s) \<Rightarrow>
                     (case add_log api env (pr_RunnerPod req) ns logs s of
                        (Inl p, s) \<Rightarrow> (Inl p, s)
                      | (Inr logs, s) \<Rightarrow>
                          (Inr \<lparr>lg_MainPod = main,
                             lg_ChaosPod = (if pr_ExpPod req = None \<and> pr_RunnerPod req = None then None else Some logs)\<rparr>, s)))"

text \<open>The JSON text of the logs: keys in order, an empty map is left out.\<close>

definition json_members :: "(string \<times> string) list \<Rightarrow> string" where
  "json_members ms = go_join '','' (map (\<lambda>(k, v). json_string k @ '':'' @ json_string v) ms)"

definition json_pod_log :: "pod_log \<Rightarrow> string" where
  "json_pod_log l = ''{'' @ json_members [(''mainLogs'', lg_MainPod l)]
     @ (case lg_ChaosPod l of None \<Rightarrow> '''' | Some [] \<Rightarrow> ''''
        | Some (m # ms) \<Rightarrow> '','' @ json_string ''chaosLogs'' @ '':{'' @ json_members (sort_key fst (m # ms)) @ ''}'') @ ''}''"

definition GenerateLogPayload ::
  "'s kube_api \<Rightarrow> agent_env \<Rightarrow> (string \<Rightarrow> string) \<Rightarrow> pod_log_request \<Rightarrow> 's agent \<Rightarrow> string go \<times> 's agent" where
  "GenerateLogPayload api env infraData req s =
     (case CreatePodLog api env req s of
        (Inl p, s) \<Rightarrow> (Inl p, s)
      | (Inr logs, s) \<Rightarrow>
          let processed = (case MarshalGQLData env (Inr (json_pod_log logs)) of Inl err \<Rightarrow> '' Could not get logs '' | Inr t \<Rightarrow> t)
          in (Inr (query_body (''mutation { podLog(request:{ infraID: ''
                @ identity_text (infraData ''INFRA_ID'') (infraData ''ACCESS_KEY'') (infraData ''VERSION'') @ '', requestID:'' @ escaped (pr_RequestID req)
                @ '', experimentRunID: '' @ escaped (pr_ExperimentRunID req) @ '', podName: '' @ escaped (pr_PodName req)
                @ '', podType: '' @ escaped (pr_PodType req) @ '', log:'' @ escaped (inner processed) @ ''} )}'')), s))"

definition SendPodLogs ::
  "'s kube_api \<Rightarrow> agent_env \<Rightarrow> (string \<Rightarrow> string) \<Rightarrow> pod_log_request \<Rightarrow> 's agent \<Rightarrow> unit go \<times> 's agent" where
  "SendPodLogs api env infraData req s =
     (case GenerateLogPayload api env infraData req s of
        (Inl p, s) \<Rightarrow> (Inl p, s)
      | (Inr body, s) \<Rightarrow> (case SendRequest env (infraData ''SERVER_ADDR'') body s of (Inl p, s) \<Rightarrow> (Inl p, s) | (Inr _, s) \<Rightarrow> (Inr (), s)))"

section \<open>Workflows and chaos engines\<close>

definition workflows :: gvr where
  "workflows = \<lparr>g_Group = ''argoproj.io'', g_Version = ''v1alpha1'', g_Resource = ''workflows''\<rparr>"

definition chaosengines :: gvr where
  "chaosengines = \<lparr>g_Group = ''litmuschaos.io'', g_Version = ''v1alpha1'', g_Resource = ''chaosengines''\<rparr>"

text \<open>The workflow with the given UID, or nil.\<close>

definition GetWorkflowObj :: "'s kube_api \<Rightarrow> agent_env \<Rightarrow> string \<Rightarrow> 's agent \<Rightarrow> ('s agent, kobject option) outcome" where
  "GetWorkflowObj api env uid s =
     obind (lift_go (workflow_client env) s) (\<lambda>_ s.
     obind (plain_error (on_cluster (api_List api workflows (InfraNamespace env) '''') s)) (\<lambda>items s.
       (Inr (Inr (find (\<lambda>w. ob_UID w = uid) items)), s)))"

definition ListWorkflowObject :: "'s kube_api \<Rightarrow> agent_env \<Rightarrow> string \<Rightarrow> 's agent \<Rightarrow> ('s agent, kobject list) outcome" where
  "ListWorkflowObject api env wfid s =
     obind (lift_go (workflow_client env) s) (\<lambda>_ s.
       plain_error (on_cluster (api_List api workflows (InfraNamespace env) (''workflow_id='' @ wfid)) s))"

definition stop_patch :: string where "stop_patch = spec_patch ''engineState'' ''stop''"

fun stop_engines :: "'s kube_api \<Rightarrow> string \<Rightarrow> kobject list \<Rightarrow> 's agent \<Rightarrow> ('s agent, unit) outcome" where
  "stop_engines api ns [] s = (Inr (Inr ()), s)"
| "stop_engines api ns (e # es) s =
     obind (with_text ''failed to patch chaosengines: '' (plain_error (on_cluster (api_Patch api (chaosengines, ns, ob_Name e) stop_patch) s)))
       (\<lambda>_ s. stop_engines api ns es s)"

definition StopChaosEngineState ::
  "'s kube_api \<Rightarrow> agent_env \<Rightarrow> string \<Rightarrow> string option \<Rightarrow> 's agent \<Rightarrow> ('s agent, unit) outcome" where
  "StopChaosEngineState api env ns workflowRunID s =
     (case GetDynamicAndDiscoveryClient env of
        Some err \<Rightarrow> (Inr (Inl (''failed to get dynamic client, error: '' @ err)), s)
      | None \<Rightarrow>
          obind (with_text ''failed to list chaosengines: '' (plain_error (on_cluster (api_List api chaosengines ns
            (case workflowRunID of None \<Rightarrow> '''' | Some i \<Rightarrow> ''workflow_run_id='' @ i)) s)))
            (\<lambda>items s. stop_engines api ns items s))"

text \<open>The error of \<^verbatim>\<open>GetKubeConfig\<close> is not looked at; with a nil configuration \<^verbatim>\<open>NewForConfigOrDie\<close> panics.\<close>

definition StopWorkflow :: "'s kube_api \<Rightarrow> agent_env \<Rightarrow> string \<Rightarrow> string \<Rightarrow> 's agent \<Rightarrow> ('s agent, unit) outcome" where
  "StopWorkflow api env wfName ns s =
     (case GetKubeConfig env of
        Inl err \<Rightarrow> (Inl NilDereference, s)
      | Inr conf \<Rightarrow>
          (case NewWorkflowClient env conf of
             Some _ \<Rightarrow> (Inl ExplicitPanic, s)
           | None \<Rightarrow> obind (with_text ''error in patching workflow: ''
               (plain_error (on_cluster (api_Patch api (workflows, ns, wfName) (spec_patch ''shutdown'' ''Stop'')) s)))
               (\<lambda>_ s. (Inr (Inr ()), s))))"

definition DeleteWorkflow :: "'s kube_api \<Rightarrow> agent_env \<Rightarrow> string \<Rightarrow> (string \<Rightarrow> string) \<Rightarrow> 's agent \<Rightarrow> ('s agent, unit) outcome" where
  "DeleteWorkflow api env wfname agentData s =
     obind (lift_go (workflow_client env) s) (\<lambda>_ s.
       plain_error (on_cluster (or_none \<circ> api_Delete api (workflows, agentData ''INFRA_NAMESPACE'', wfname)) s))"

text \<open>A call whose error is only logged.\<close>

definition logged :: "('s, 'a) outcome \<Rightarrow> ('s, unit) outcome" where
  "logged r = (case r of (Inl p, s) \<Rightarrow> (Inl p, s) | (Inr _, s) \<Rightarrow> (Inr (Inr ()), s))"

fun delete_workflows :: "'s kube_api \<Rightarrow> agent_env \<Rightarrow> (string \<Rightarrow> string) \<Rightarrow> kobject list \<Rightarrow> 's agent \<Rightarrow> ('s agent, unit) outcome" where
  "delete_workflows api env agentData [] s = (Inr (Inr ()), s)"
| "delete_workflows api env agentData (w # ws) s =
     obind (logged (StopChaosEngineState api env (agentData ''AGENT_NAMESPACE'') (Some (ob_UID w)) s)) (\<lambda>_ s.
     obind (logged (DeleteWorkflow api env (ob_Name w) agentData s)) (\<lambda>_ s.
     delete_workflows api env agentData ws s))"

definition WorkflowRequest ::
  "'s kube_api \<Rightarrow> agent_env \<Rightarrow> (string \<Rightarrow> string) \<Rightarrow> string \<Rightarrow> string \<Rightarrow> 's agent \<Rightarrow> ('s agent, unit) outcome" where
  "WorkflowRequest api env agentData requestType externalData s =
     (if requestType = ''workflow_delete'' then
        obind (ListWorkflowObject api env externalData s) (\<lambda>items s. delete_workflows api env agentData items s)
      else if requestType = ''workflow_run_delete'' then
        obind (GetWorkflowObj api env externalData s) (\<lambda>wfOb s.
          case wfOb of None \<Rightarrow> (Inl NilDereference, s) | Some w \<Rightarrow> DeleteWorkflow api env (ob_Name w) agentData s)
      else if requestType = ''workflow_run_stop'' then
        obind (GetWorkflowObj api env externalData s) (\<lambda>wfOb s.
        obind (logged (StopChaosEngineState api env (agentData ''INFRA_NAMESPACE'') (Some externalData) s)) (\<lambda>_ s.
          case wfOb of None \<Rightarrow> (Inl NilDereference, s) | Some w \<Rightarrow> logged (StopWorkflow api env (ob_Name w) (ob_Namespace w) s)))
      else (Inr (Inr ()), s))"

section \<open>Operations on objects\<close>

definition empty_object :: kobject where
  "empty_object = \<lparr>ob_Kind = '''', ob_APIVersion = '''', ob_Name = '''', ob_Namespace = '''', ob_UID = '''', ob_ResourceVersion = '''',
     ob_Labels = None, ob_CreationTimestamp = 0, ob_DeletionGracePeriodSeconds = None, ob_Spec = []\<rparr>"

text \<open>What the branches do when the object exists already or is missing: nothing, and no error.\<close>

definition unless_exists :: "(kube_error + 'a) \<times> 's \<Rightarrow> ('s, 'a option) outcome" where
  "unless_exists r = (case r of
     (Inl (AlreadyExists _), s) \<Rightarrow> (Inr (Inr None), s) | (Inl e, s) \<Rightarrow> (Inr (Inl (error_text e)), s) | (Inr v, s) \<Rightarrow> (Inr (Inr (Some v)), s))"

definition unless_missing :: "(kube_error + 'a) \<times> 's \<Rightarrow> ('s, 'a option) outcome" where
  "unless_missing r = (case r of
     (Inl (NotFound _), s) \<Rightarrow> (Inr (Inr None), s) | (Inl e, s) \<Rightarrow> (Inr (Inl (error_text e)), s) | (Inr v, s) \<Rightarrow> (Inr (Inr (Some v)), s))"

definition applyRequest ::
  "'s kube_api \<Rightarrow> agent_env \<Rightarrow> gvr \<times> string \<Rightarrow> string \<Rightarrow> kobject \<Rightarrow> 's agent \<Rightarrow> ('s agent, kobject option) outcome" where
  "applyRequest api env dr requestType obj s =
     (case dr of (r, ns) \<Rightarrow>
        if requestType = ''create'' then unless_exists (on_cluster (api_Create api r ns obj) s)
        else if requestType = ''update'' then
          obind (unless_missing (on_cluster (api_Get api (r, ns, ob_Name obj)) s)) (\<lambda>getObj s.
            case getObj of
              None \<Rightarrow> (Inr (Inr None), s)
            | Some g \<Rightarrow> obind (plain_error (on_cluster (api_Update api r ns (obj\<lparr>ob_ResourceVersion := ob_ResourceVersion g\<rparr>)) s))
                (\<lambda>response s. (Inr (Inr (Some response)), s)))
        else if requestType = ''delete'' then
          if ob_Name obj \<noteq> '''' then
            obind (unless_missing (on_cluster (or_none \<circ> api_Delete api (r, ns, ob_Name obj)) s)) (\<lambda>d s.
              (Inr (Inr (map_option (\<lambda>_. empty_object) d)), s))
          else (case ob_Labels obj of
              None \<Rightarrow> (Inr (Inr (Some empty_object)), s)
            | Some objLabels \<Rightarrow>
                obind (unless_missing (on_cluster (or_none \<circ> api_DeleteCollection api r ns
                  (FormatLabels env (AList.delete ''updated_by'' objLabels))) s)) (\<lambda>d s.
                  (Inr (Inr (map_option (\<lambda>_. empty_object) d)), s)))
        else if requestType = ''get'' then unless_missing (on_cluster (api_Get api (r, ns, ob_Name obj)) s)
        else (Inr (Inl (''err: Invalid Request'' @ [CHR 0x0A])), s))"

definition addCustomLabels :: "kobject \<Rightarrow> (string \<times> string) list \<Rightarrow> kobject" where
  "addCustomLabels obj customLabels =
     obj\<lparr>ob_Labels := Some (foldl (\<lambda>ls (k, v). AList.update k v ls) (case ob_Labels obj of None \<Rightarrow> [] | Some ls \<Rightarrow> ls) customLabels)\<rparr>"

definition raw_url_encode :: "string \<Rightarrow> string" where
  "raw_url_encode t = remove_byte (CHR ''='') (base64_encode url_alphabet t)"

definition AgentOperations :: "'s kube_api \<Rightarrow> agent_env \<Rightarrow> raw_action \<Rightarrow> 's agent \<Rightarrow> ('s agent, kobject option) outcome" where
  "AgentOperations api env act s =
     (case JSONToYAML env (ac_K8SManifest act) of
        Inl err \<Rightarrow> (Inr (Inl err), s)
      | Inr yamlStr \<Rightarrow>
          (case GetDynamicAndDiscoveryClient env of
             Some err \<Rightarrow> (Inr (Inl err), s)
           | None \<Rightarrow>
               (case DecodeObject env yamlStr of
                  Inl err \<Rightarrow> (Inr (Inl err), s)
                | Inr (obj, gk, version) \<Rightarrow>
                    let obj = (if ac_RequestType act \<noteq> ''delete''
                               then addCustomLabels obj [(''updated_by'', raw_url_encode (ac_Username act))] else obj)
                    in case api_RESTMapping api gk version (ag_cluster s) of
                         (Inl err, c) \<Rightarrow> (Inr (Inl err), s\<lparr>ag_cluster := c\<rparr>)
                       | (Inr (r, namespaced), c) \<Rightarrow>
                           let dr = (r, if namespaced then ac_Namespace act else '''')
                           in applyRequest api env dr (ac_RequestType act) obj (s\<lparr>ag_cluster := c, ag_dr := Some dr\<rparr>))))"

section \<open>Requests\<close>

text \<open>\<^verbatim>\<open>strings.Index(words, strings.ToLower(t)) >= 0\<close>.\<close>

definition mentioned :: "string \<Rightarrow> string \<Rightarrow> bool" where
  "mentioned words t \<longleftrightarrow> contains words (foldLower t)"

definition zero_gvr :: gvr where "zero_gvr = \<lparr>g_Group = '''', g_Version = '''', g_Resource = ''''\<rparr>"

definition object_request :: "'s kube_api \<Rightarrow> agent_env \<Rightarrow> (string \<Rightarrow> string) \<Rightarrow> raw_action \<Rightarrow> 's agent \<Rightarrow> ('s agent, unit) outcome" where
  "object_request api env infraData act s =
     (if mentioned ''kubeobject kubeobjects'' (ac_RequestType act) then
        (case UnmarshalKubeObjRequest env (ac_ExternalData act)
                \<lparr>ko_RequestID = ac_RequestID act, ko_InfraID = '''', ko_Namespace = '''', ko_ObjectType = '''', ko_GVR = zero_gvr\<rparr> of
           Inl err \<Rightarrow> (Inr (Inl (''failed to json unmarshal: '' @ err)), s)
         | Inr req \<Rightarrow> with_text ''error getting kubernetes object data: '' (SendKubeObjects api env infraData req s))
      else (Inr (Inr ()), s))"

definition namespace_request ::
  "'s kube_api \<Rightarrow> agent_env \<Rightarrow> (string \<Rightarrow> string) \<Rightarrow> raw_action \<Rightarrow> 's agent \<Rightarrow> ('s agent, unit) outcome option" where
  "namespace_request api env infraData act s =
     (if mentioned ''kubenamespace kubenamespaces'' (ac_RequestType act) then
        (case UnmarshalNamespaceRequest env (ac_ExternalData act) \<lparr>kn_RequestID = ac_RequestID act, kn_InfraID = ''''\<rparr> of
           Inl err \<Rightarrow> Some (Inr (Inl (''failed to json unmarshal: '' @ err)), s)
         | Inr req \<Rightarrow> map_option (with_text ''error getting kubernetes namespace data: '') (SendKubeNamespaces api env infraData req s))
      else Some (Inr (Inr ()), s))"

definition other_request :: "'s kube_api \<Rightarrow> agent_env \<Rightarrow> (string \<Rightarrow> string) \<Rightarrow> raw_action \<Rightarrow> 's agent \<Rightarrow> ('s agent, unit) outcome" where
  "other_request api env infraData act s =
     (if foldLower (ac_RequestType act) = ''logs'' then
        (case UnmarshalPodLogRequest env (ac_ExternalData act)
                \<lparr>pr_RequestID = ac_RequestID act, pr_InfraID = '''', pr_ExperimentRunID = '''', pr_PodName = '''', pr_PodNamespace = '''',
                 pr_PodType = '''', pr_ExpPod = None, pr_RunnerPod = None, pr_ChaosNamespace = None\<rparr> of
           Inl err \<Rightarrow> (Inr (Inl (''error reading infra-action request [external-data]: '' @ err)), s)
         | Inr req \<Rightarrow> (case SendPodLogs api env infraData req s of (Inl p, s) \<Rightarrow> (Inl p, s) | (Inr _, s) \<Rightarrow> (Inr (Inr ()), s)))
      else if mentioned ''create update delete get'' (ac_RequestType act) then
        obind (with_text ''error performing infra operation: '' (AgentOperations api env act s)) (\<lambda>_ s. (Inr (Inr ()), s))
      else if mentioned ''workflow_delete workflow_run_delete workflow_run_stop '' (ac_RequestType act) then
        with_text ''error performing events operation: ''
          (WorkflowRequest api env infraData (ac_RequestType act) (ac_ExternalData act) s)
      else (Inr (Inr ()), s))"

definition RequestProcessor ::
  "'s kube_api \<Rightarrow> agent_env \<Rightarrow> (string \<Rightarrow> string) \<Rightarrow> raw_action \<Rightarrow> 's agent \<Rightarrow> ('s agent, unit) outcome option" where
  "RequestProcessor api env infraData act s =
     (case object_request api env infraData act s of
        (Inr (Inr _), s) \<Rightarrow>
          map_option (\<lambda>r. obind r (\<lambda>_ s. other_request api env infraData act s)) (namespace_request api env infraData act s)
      | r \<Rightarrow> Some r)"

text \<open>One message of the web socket: an error of reading panics, an error of the server only when it says that the agent is connected.\<close>

definition handle_message ::
  "'s kube_api \<Rightarrow> agent_env \<Rightarrow> (string \<Rightarrow> string) \<Rightarrow> string + string \<Rightarrow> 's agent \<Rightarrow> (unit go \<times> 's agent) option" where
  "handle_message api env infraData msg s =
     (case msg of
        Inl err \<Rightarrow> Some (Inl ExplicitPanic, s)
      | Inr message \<Rightarrow>
          (case UnmarshalRawData env message of
             Inl err \<Rightarrow> Some (Inr (), s)
           | Inr r \<Rightarrow>
               if rd_Type r \<noteq> ''data'' then Some (Inr (), s)
               else if pl_Errors (rd_Payload r) \<noteq> None then
                 Some (if contains message ''ALREADY CONNECTED'' then Inl ExplicitPanic else Inr (), s)
               else map_option (\<lambda>(v, s). (map_sum id (\<lambda>_. ()) v, s)) (RequestProcessor api env infraData (pl_Action (rd_Payload r)) s)))"

fun read_loop ::
  "'s kube_api \<Rightarrow> agent_env \<Rightarrow> (string \<Rightarrow> string) \<Rightarrow> (string + string) list \<Rightarrow> 's agent \<Rightarrow> (unit go \<times> 's agent) option" where
  "read_loop api env infraData [] s = Some (Inr (), s)"
| "read_loop api env infraData (msg # msgs) s =
     (case handle_message api env infraData msg s of
        None \<Rightarrow> None
      | Some (Inl p, s) \<Rightarrow> Some (Inl p, s)
      | Some (Inr _, s) \<Rightarrow> read_loop api env infraData msgs s)"

text \<open>
  \<^verbatim>\<open>AgentConnect\<close> on the messages that arrive: the result is the state in which it waits for the next one. The goroutine that sends the
  subscription shares no state with it.
\<close>

definition AgentConnect ::
  "'s kube_api \<Rightarrow> agent_env \<Rightarrow> (string \<Rightarrow> string) \<Rightarrow> (string + string) list \<Rightarrow> 's agent \<Rightarrow> (unit go \<times> 's agent) option" where
  "AgentConnect api env infraData msgs s =
     (case ParseURL env (infraData ''SERVER_ADDR'') of
        Inl err \<Rightarrow> Some (Inl FatalExit, s)
      | Inr (scheme, host, path) \<Rightarrow>
          (case Dial env (if scheme = ''https'' then ''wss'' else ''ws'', host, path) of
             Some err \<Rightarrow> Some (Inl FatalExit, s)
           | None \<Rightarrow> read_loop api env infraData msgs s))"

end
