(* ===== verification/Subscriber_Requests_Props.thy ===== *)
theory Subscriber_Requests_Props
  imports Subscriber_Requests
begin

text \<open>
  What the requests of the server do to the cluster: laws over any cluster that satisfies
  \<^verbatim>\<open>kube_cluster\<close>, and what a start of the agent stores.
\<close>

section \<open>Steps on the cluster\<close>

lemma on_cluster_eq: "on_cluster f s = (r, s') \<longleftrightarrow> (\<exists>c. f (ag_cluster s) = (r, c) \<and> s' = s\<lparr>ag_cluster := c\<rparr>)"
  by (auto simp: on_cluster_def split: prod.splits)

lemma or_none_eq [simp]: "or_none r = (Inr u, s) \<longleftrightarrow> r = (None, s)" "or_none r = (Inl e, s) \<longleftrightarrow> r = (Some e, s)"
  by (auto simp: or_none_def split: prod.splits option.splits)

lemma plain_error_ok [simp]: "plain_error r = (Inr (Inr v), s) \<longleftrightarrow> r = (Inr v, s)"
  by (cases r; cases "fst r") (auto simp: plain_error_def)

lemma plain_error_cases: "plain_error r = (w, s) \<Longrightarrow> (\<And>v. r = (v, s) \<Longrightarrow> w = Inr (map_sum error_text id v) \<Longrightarrow> P) \<Longrightarrow> P"
  by (cases r) (auto simp: plain_error_def)

lemma with_text_ok [simp]: "with_text t r = (Inr (Inr v), s) \<longleftrightarrow> r = (Inr (Inr v), s)"
  by (cases r; cases "fst r"; cases "projr (fst r)") (auto simp: with_text_def)

lemma with_text_panic [simp]: "with_text t r = (Inl p, s) \<longleftrightarrow> r = (Inl p, s)"
  by (cases r; cases "fst r") (auto simp: with_text_def)

lemma oends_logged [simp]: "oends I (logged r) \<longleftrightarrow> oends I r"
  by (cases r) (auto simp: logged_def split: sum.split)

lemma oends_plain [simp]: "oends I (plain_error r) \<longleftrightarrow> I (snd r)"
  by (cases r) (simp add: plain_error_def)

lemma logged_ok [simp]: "logged r = (Inr (Inr u), s) \<longleftrightarrow> (\<exists>v. r = (Inr v, s))"
  by (cases r) (auto simp: logged_def split: sum.splits)

lemma unless_exists_ok:
  "unless_exists r = (Inr (Inr v), s) \<longleftrightarrow> (\<exists>x. r = (Inr x, s) \<and> v = Some x) \<or> (\<exists>e. r = (Inl (AlreadyExists e), s) \<and> v = None)"
  by (cases r) (auto simp: unless_exists_def split: sum.splits kube_error.splits)

lemma unless_missing_ok:
  "unless_missing r = (Inr (Inr v), s) \<longleftrightarrow> (\<exists>x. r = (Inr x, s) \<and> v = Some x) \<or> (\<exists>e. r = (Inl (NotFound e), s) \<and> v = None)"
  by (cases r) (auto simp: unless_missing_def split: sum.splits kube_error.splits)

section \<open>Dispatch\<close>

text \<open>A request of one of the types the server uses reaches the operation of that name and no other.\<close>

lemma dispatch_operations:
  assumes "ac_RequestType act \<in> {''create'', ''update'', ''delete'', ''get''}"
  shows "RequestProcessor api env d act s =
    Some (obind (with_text ''error performing infra operation: '' (AgentOperations api env act s)) (\<lambda>_ s. (Inr (Inr ()), s)))"
proof -
  have "\<not> mentioned ''kubeobject kubeobjects'' (ac_RequestType act)" "\<not> mentioned ''kubenamespace kubenamespaces'' (ac_RequestType act)"
    "foldLower (ac_RequestType act) \<noteq> ''logs''" "mentioned ''create update delete get'' (ac_RequestType act)"
    using assms by (elim insertE emptyE; simp; code_simp)+
  then show ?thesis by (simp add: RequestProcessor_def object_request_def namespace_request_def other_request_def obind_def)
qed

lemma dispatch_workflows:
  assumes "ac_RequestType act \<in> {''workflow_delete'', ''workflow_run_delete'', ''workflow_run_stop''}"
  shows "RequestProcessor api env d act s = Some (with_text ''error performing events operation: ''
    (WorkflowRequest api env d (ac_RequestType act) (ac_ExternalData act) s))"
proof -
  have "\<not> mentioned ''kubeobject kubeobjects'' (ac_RequestType act)" "\<not> mentioned ''kubenamespace kubenamespaces'' (ac_RequestType act)"
    "foldLower (ac_RequestType act) \<noteq> ''logs''" "\<not> mentioned ''create update delete get'' (ac_RequestType act)"
    "mentioned ''workflow_delete workflow_run_delete workflow_run_stop '' (ac_RequestType act)"
    using assms by (elim insertE emptyE; simp; code_simp)+
  then show ?thesis by (simp add: RequestProcessor_def object_request_def namespace_request_def other_request_def obind_def)
qed

section \<open>Selectors and patches\<close>

text \<open>A value that can stand in a selector.\<close>

definition label_value :: "string \<Rightarrow> bool" where
  "label_value v \<longleftrightarrow> list_all (\<lambda>c. c \<noteq> CHR '','' \<and> c \<noteq> CHR ''='') v"

lemma selects_label:
  assumes "label_value k" "label_value v"
  shows "selects (k @ ''='' @ v) m \<longleftrightarrow> m k = Some v"
proof -
  have c: "CHR '','' \<notin> set (k @ ''='' @ v)" and k: "CHR ''='' \<notin> set k" and v: "CHR ''='' \<notin> set v"
    using assms by (auto simp: label_value_def list_all_iff)
  have "go_split (k @ ''='' @ v) '','' = [k @ ''='' @ v]"
    using split_on_nosep [of "CHR '',''" "'',''" "k @ ''='' @ v" "[]"] c by (simp add: go_split_def)
  moreover have "go_split (k @ ''='' @ v) ''='' = [k, v]"
    using split_on_append [of "''=''" "CHR ''=''" "[]" k "[]" v] k split_on_nosep [of "CHR ''=''" "''=''" v "[]"] v
    by (simp add: go_split_def)
  ultimately show ?thesis by (simp add: selects_def)
qed

lemma patched_refl_trans: "patched f v a b \<Longrightarrow> patched f v b c \<Longrightarrow> patched f v a c"
  by (auto simp: patched_def)

lemma patched_keeps [simp]:
  "patched f v a b \<Longrightarrow> ob_Name b = ob_Name a" "patched f v a b \<Longrightarrow> ob_Namespace b = ob_Namespace a"
  "patched f v a b \<Longrightarrow> ob_UID b = ob_UID a" "patched f v a b \<Longrightarrow> ob_Labels b = ob_Labels a"
  "patched f v a b \<Longrightarrow> map_of (ob_Spec b) f = Some v"
  by (auto simp: patched_def update_conv')

text \<open>Some of the objects with a key in \<^verbatim>\<open>K\<close> are patched, everything else is as before.\<close>

definition some_patched :: "(obj_key \<Rightarrow> bool) \<Rightarrow> string \<Rightarrow> string \<Rightarrow> (obj_key \<rightharpoonup> kobject) \<Rightarrow> (obj_key \<rightharpoonup> kobject) \<Rightarrow> bool" where
  "some_patched K f v M M' \<longleftrightarrow> (\<forall>k. M' k = M k \<or> K k \<and> (\<exists>o1 o2. M k = Some o1 \<and> M' k = Some o2 \<and> patched f v o1 o2))"

lemma some_patched_refl [simp]: "some_patched K f v M M"
  by (simp add: some_patched_def)

lemma some_patched_trans: "some_patched K f v M1 M2 \<Longrightarrow> some_patched K f v M2 M3 \<Longrightarrow> some_patched K f v M1 M3"
  unfolding some_patched_def by (metis option.inject patched_refl_trans)

lemma some_patched_one: "K k \<Longrightarrow> M k = Some o1 \<Longrightarrow> patched f v o1 o2 \<Longrightarrow> some_patched K f v M (M(k \<mapsto> o2))"
  by (auto simp: some_patched_def)

lemma some_patchedD: "some_patched K f v M M' \<Longrightarrow> M k = Some a \<Longrightarrow> \<exists>b. M' k = Some b \<and> (b = a \<or> patched f v a b)"
  unfolding some_patched_def by (metis option.inject)

lemma some_patchedB: "some_patched K f v M M' \<Longrightarrow> M' k = Some b \<Longrightarrow> \<exists>a. M k = Some a \<and> (b = a \<or> patched f v a b)"
  unfolding some_patched_def by (metis option.inject)

lemma plain_words [simp]: "plain ''engineState''" "plain ''stop''" "plain ''shutdown''" "plain ''Stop''"
  by (simp_all add: plain_def)

text \<open>An API server that is up: lists are answered, and only a missing object cannot be patched.\<close>

definition responsive :: "'s kube_api \<Rightarrow> ('s \<Rightarrow> obj_key \<rightharpoonup> kobject) \<Rightarrow> bool" where
  "responsive api objs \<longleftrightarrow> (\<forall>r ns sel s. \<exists>xs s'. api_List api r ns sel s = (Inr xs, s')) \<and>
     (\<forall>k f v s. plain f \<and> plain v \<and> objs s k \<noteq> None \<longrightarrow> (\<exists>o' s'. api_Patch api k (spec_patch f v) s = (Inr o', s')))"

text \<open>The chaos engines of a run.\<close>

definition engine_of_run :: "string \<Rightarrow> string \<Rightarrow> obj_key \<Rightarrow> kobject \<Rightarrow> bool" where
  "engine_of_run ns uid k ob \<longleftrightarrow> fst k = chaosengines \<and> fst (snd k) = ns \<and> ob_label ob ''workflow_run_id'' = Some uid"

text \<open>Every object of a class is patched, everything else is as before.\<close>

definition all_patched :: "(obj_key \<Rightarrow> kobject \<Rightarrow> bool) \<Rightarrow> string \<Rightarrow> string \<Rightarrow> (obj_key \<rightharpoonup> kobject) \<Rightarrow> (obj_key \<rightharpoonup> kobject) \<Rightarrow> bool" where
  "all_patched P f v M M' \<longleftrightarrow> (\<forall>k. case M k of None \<Rightarrow> M' k = None
     | Some o1 \<Rightarrow> \<exists>o2. M' k = Some o2 \<and> (if P k o1 then patched f v o1 o2 else o2 = o1))"

context kube_cluster
begin

abbreviation "cobjs s \<equiv> objs (ag_cluster s)"

lemma patch_step:
  assumes "plain f" "plain v" "plain_error (on_cluster (api_Patch api k (spec_patch f v)) s) = (w, s')" "K k"
  shows "some_patched K f v (cobjs s) (cobjs s')"
    and "w = Inr (Inr o') \<Longrightarrow> \<exists>o1. cobjs s k = Some o1 \<and> patched f v o1 o' \<and> cobjs s' k = Some o'"
proof -
  obtain r c where r: "api_Patch api k (spec_patch f v) (ag_cluster s) = (r, c)" "s' = s\<lparr>ag_cluster := c\<rparr>" "w = Inr (map_sum error_text id r)"
    using assms(3) by (auto elim!: plain_error_cases simp: on_cluster_eq)
  show "some_patched K f v (cobjs s) (cobjs s')"
  proof (cases r)
    case (Inl e)
    then show ?thesis using patch_failed [OF assms(1,2), of k "ag_cluster s"] r assms(4) by (auto intro: some_patched_one)
  next
    case (Inr ob)
    then show ?thesis using patch_ok [OF assms(1,2), of k "ag_cluster s"] r assms(4) by (auto intro: some_patched_one)
  qed
  show "\<exists>o1. cobjs s k = Some o1 \<and> patched f v o1 o' \<and> cobjs s' k = Some o'" if "w = Inr (Inr o')"
    using that patch_ok [OF assms(1,2), of k "ag_cluster s"] r by (cases r) auto
qed

lemma stop_engines_frame:
  assumes "stop_engines api ns es s = (w, s')" "\<forall>e\<in>set es. K (chaosengines, ns, ob_Name e)"
  shows "some_patched K ''engineState'' ''stop'' (cobjs s) (cobjs s')"
  using assms
proof (induction es arbitrary: s)
  case (Cons e es)
  obtain w1 s1 where p: "plain_error (on_cluster (api_Patch api (chaosengines, ns, ob_Name e) stop_patch) s) = (w1, s1)" by fastforce
  have f: "some_patched K ''engineState'' ''stop'' (cobjs s) (cobjs s1)"
    using patch_step(1) [OF _ _ p [unfolded stop_patch_def]] Cons.prems(2) by simp
  have "s' = s1 \<or> stop_engines api ns es s1 = (w, s')"
    using Cons.prems(1) by (auto simp: p obind_def with_text_def split: sum.splits)
  then show ?case using f Cons.IH [of s1] Cons.prems(2) by (auto intro: some_patched_trans)
qed simp

lemma stop_engines_done:
  assumes "responsive api objs" "\<forall>e\<in>set es. cobjs s (chaosengines, ns, ob_Name e) \<noteq> None" "stop_engines api ns es s = (w, s')"
  shows "w = Inr (Inr ()) \<and> (\<forall>e\<in>set es. \<exists>o1 o2. cobjs s (chaosengines, ns, ob_Name e) = Some o1 \<and>
    cobjs s' (chaosengines, ns, ob_Name e) = Some o2 \<and> patched ''engineState'' ''stop'' o1 o2)"
  using assms(2,3)
proof (induction es arbitrary: s)
  case (Cons e es)
  let ?k = "(chaosengines, ns, ob_Name e)"
  obtain o' c where a: "api_Patch api ?k stop_patch (ag_cluster s) = (Inr o', c)"
    using assms(1) Cons.prems(1) unfolding stop_patch_def responsive_def by (metis list.set_intros(1) plain_words(1,2))
  define s1 where "s1 = s\<lparr>ag_cluster := c\<rparr>"
  have p: "plain_error (on_cluster (api_Patch api ?k stop_patch) s) = (Inr (Inr o'), s1)"
    by (simp add: a on_cluster_def s1_def)
  have f: "some_patched (\<lambda>_. True) ''engineState'' ''stop'' (cobjs s) (cobjs s1)"
    by (rule patch_step(1) [OF _ _ p [unfolded stop_patch_def]]) simp_all
  obtain o1 where o1: "cobjs s ?k = Some o1" "patched ''engineState'' ''stop'' o1 o'" "cobjs s1 ?k = Some o'"
    using patch_step(2) [OF _ _ p [unfolded stop_patch_def], of "\<lambda>_. True" o'] by auto
  have n: "stop_engines api ns es s1 = (w, s')" using Cons.prems(2) by (simp add: p obind_def with_text_def)
  have ne: "\<forall>e\<in>set es. cobjs s1 (chaosengines, ns, ob_Name e) \<noteq> None"
    using Cons.prems(1) f unfolding some_patched_def by (metis list.set_intros(2) option.distinct(1))
  have g: "some_patched (\<lambda>_. True) ''engineState'' ''stop'' (cobjs s1) (cobjs s')" by (rule stop_engines_frame [OF n]) simp
  have IH: "w = Inr (Inr ())" "\<forall>e\<in>set es. \<exists>o1 o2. cobjs s1 (chaosengines, ns, ob_Name e) = Some o1 \<and>
    cobjs s' (chaosengines, ns, ob_Name e) = Some o2 \<and> patched ''engineState'' ''stop'' o1 o2" using Cons.IH [OF ne n] by auto
  have "\<exists>o2. cobjs s' ?k = Some o2 \<and> patched ''engineState'' ''stop'' o1 o2"
    using some_patchedD [OF g o1(3)] o1(2) patched_refl_trans by blast
  moreover have "\<exists>o1 o2. cobjs s (chaosengines, ns, ob_Name e') = Some o1 \<and>
    cobjs s' (chaosengines, ns, ob_Name e') = Some o2 \<and> patched ''engineState'' ''stop'' o1 o2" if "e' \<in> set es" for e'
  proof -
    from IH(2) that obtain p1 p2 where "cobjs s1 (chaosengines, ns, ob_Name e') = Some p1"
      "cobjs s' (chaosengines, ns, ob_Name e') = Some p2" "patched ''engineState'' ''stop'' p1 p2" by blast
    moreover from some_patchedB [OF f this(1)] obtain a where "cobjs s (chaosengines, ns, ob_Name e') = Some a"
      "p1 = a \<or> patched ''engineState'' ''stop'' a p1" by blast
    ultimately show ?thesis using patched_refl_trans by blast
  qed
  ultimately show ?case using o1(1) IH(1) by auto
qed simp

lemma listed_step:
  assumes "plain_error (on_cluster (api_List api r ns sel) s) = (Inr (Inr xs), s')"
  shows "set xs = {o'. \<exists>k. cobjs s k = Some o' \<and> in_collection r ns sel k o'}" "cobjs s' = cobjs s" "ag_posted s' = ag_posted s"
proof -
  obtain c where c: "api_List api r ns sel (ag_cluster s) = (Inr xs, c)" "s' = s\<lparr>ag_cluster := c\<rparr>" using assms by (auto simp: on_cluster_eq)
  show "set xs = {o'. \<exists>k. cobjs s k = Some o' \<and> in_collection r ns sel k o'}" by (rule list_ok [OF c(1)])
  show "cobjs s' = cobjs s" "ag_posted s' = ag_posted s" using list_same [OF c(1)] c(2) by simp_all
qed

lemma stop_state:
  assumes up: "responsive api objs" and cl: "GetDynamicAndDiscoveryClient env = None" and uid: "label_value uid" and ns: "ns \<noteq> ''''"
    and st: "StopChaosEngineState api env ns (Some uid) s = (w, s')"
  shows "all_patched (engine_of_run ns uid) ''engineState'' ''stop'' (cobjs s) (cobjs s')"
proof -
  let ?sel = "''workflow_run_id='' @ uid"
  obtain xs c where a: "api_List api chaosengines ns ?sel (ag_cluster s) = (Inr xs, c)" using up by (fastforce simp: responsive_def)
  define s1 where "s1 = s\<lparr>ag_cluster := c\<rparr>"
  have p: "plain_error (on_cluster (api_List api chaosengines ns ?sel) s) = (Inr (Inr xs), s1)"
    unfolding plain_error_ok on_cluster_eq using a s1_def by blast
  have se: "stop_engines api ns xs s1 = (w, s')"
    using st by (simp add: StopChaosEngineState_def cl p obind_def with_text_def del: append.simps)
  have sel: "selects ?sel m \<longleftrightarrow> m ''workflow_run_id'' = Some uid" for m
    using selects_label [of "''workflow_run_id''" uid m] uid by (simp add: label_value_def)
  have ic: "in_collection chaosengines ns ?sel k e \<longleftrightarrow> engine_of_run ns uid k e" for k e
    unfolding in_collection_def engine_of_run_def sel using ns by simp
  have xs: "e \<in> set xs \<longleftrightarrow> (\<exists>k. cobjs s1 k = Some e \<and> engine_of_run ns uid k e)" for e
    unfolding listed_step(1) [OF p] listed_step(2) [OF p] ic by blast
  have key: "\<exists>e\<in>set xs. k = (chaosengines, ns, ob_Name e) \<and> e = o1" if "cobjs s1 k = Some o1" "engine_of_run ns uid k o1" for k o1
    using that xs named [of "ag_cluster s1"] by (cases k) (fastforce simp: engine_of_run_def)
  have ne: "\<forall>e\<in>set xs. cobjs s1 (chaosengines, ns, ob_Name e) = Some e"
  proof
    fix e assume "e \<in> set xs"
    then obtain k where "cobjs s1 k = Some e" "engine_of_run ns uid k e" using xs by blast
    then show "cobjs s1 (chaosengines, ns, ob_Name e) = Some e" using key by blast
  qed
  have fr: "some_patched (\<lambda>k. \<exists>e\<in>set xs. k = (chaosengines, ns, ob_Name e)) ''engineState'' ''stop'' (cobjs s1) (cobjs s')"
    by (rule stop_engines_frame [OF se]) blast
  have dn: "\<forall>e\<in>set xs. \<exists>o2. cobjs s' (chaosengines, ns, ob_Name e) = Some o2 \<and> patched ''engineState'' ''stop'' e o2"
    using stop_engines_done [OF up _ se] ne by fastforce
  have "case cobjs s1 k of None \<Rightarrow> cobjs s' k = None
     | Some o1 \<Rightarrow> \<exists>o2. cobjs s' k = Some o2 \<and> (if engine_of_run ns uid k o1 then patched ''engineState'' ''stop'' o1 o2 else o2 = o1)" for k
  proof (cases "cobjs s1 k")
    case None
    have "cobjs s' k = None" using fr [unfolded some_patched_def, THEN spec, of k] None by auto
    then show ?thesis by (simp add: None)
  next
    case (Some o1)
    show ?thesis
    proof (cases "engine_of_run ns uid k o1")
      case True
      then show ?thesis using key [OF Some True] dn Some by auto
    next
      case False
      have "\<not> (\<exists>e\<in>set xs. k = (chaosengines, ns, ob_Name e))" using False ne xs Some by (force simp: engine_of_run_def)
      then have "cobjs s' k = cobjs s1 k" using fr [unfolded some_patched_def, THEN spec, of k] by blast
      then show ?thesis using Some False by simp
    qed
  qed
  then show ?thesis using listed_step(2) [OF p] by (simp add: all_patched_def)
qed

lemma run_stop:
  assumes up: "responsive api objs" and cl: "GetDynamicAndDiscoveryClient env = None" and uid: "label_value uid" and ns: "d ''INFRA_NAMESPACE'' \<noteq> ''''"
    and r: "WorkflowRequest api env d ''workflow_run_stop'' uid s = (Inr (Inr u), s')"
  obtains w where "cobjs s (workflows, ob_Namespace w, ob_Name w) = Some w" "ob_UID w = uid"
    "all_patched (engine_of_run (d ''INFRA_NAMESPACE'') uid) ''engineState'' ''stop'' (cobjs s)
      ((cobjs s')((workflows, ob_Namespace w, ob_Name w) \<mapsto> w))"
    "\<exists>o2. cobjs s' (workflows, ob_Namespace w, ob_Name w) = Some o2 \<and> patched ''shutdown'' ''Stop'' w o2"
proof -
  obtain wfOb s1 s2 v where g: "GetWorkflowObj api env uid s = (Inr (Inr wfOb), s1)"
    and st: "StopChaosEngineState api env (d ''INFRA_NAMESPACE'') (Some uid) s1 = (v, s2)" and x: "wfOb \<noteq> None"
    and sw: "logged (StopWorkflow api env (ob_Name (the wfOb)) (ob_Namespace (the wfOb)) s2) = (Inr (Inr u), s')"
    using r by (auto simp: WorkflowRequest_def split: option.splits)
  obtain items where wc: "workflow_client env = Inr (Inr ())"
    and li: "plain_error (on_cluster (api_List api workflows (InfraNamespace env) '''') s) = (Inr (Inr items), s1)"
    and f: "wfOb = find (\<lambda>w. ob_UID w = uid) items" using g by (auto simp: GetWorkflowObj_def)
  obtain w where w: "wfOb = Some w" using x by blast
  have wi: "w \<in> set items" "ob_UID w = uid" using f [symmetric] w by (auto simp: find_Some_iff)
  then obtain k where k: "cobjs s k = Some w" "fst k = workflows" using listed_step(1) [OF li] by (auto simp: in_collection_def)
  let ?k = "(workflows, ob_Namespace w, ob_Name w)"
  have kw: "cobjs s ?k = Some w" using k named [of "ag_cluster s"] by (cases k) fastforce
  have e: "all_patched (engine_of_run (d ''INFRA_NAMESPACE'') uid) ''engineState'' ''stop'' (cobjs s) (cobjs s2)"
    using stop_state [OF up cl uid ns st] listed_step(2) [OF li] by simp
  have ng: "\<not> engine_of_run (d ''INFRA_NAMESPACE'') uid ?k w" by (simp add: engine_of_run_def workflows_def chaosengines_def)
  have k2: "cobjs s2 ?k = Some w" using e [unfolded all_patched_def, THEN spec, of ?k] kw ng by simp
  obtain conf where conf: "GetKubeConfig env = Inr conf" "NewWorkflowClient env conf = None"
    using wc by (auto simp: workflow_client_def split: sum.splits option.splits)
  obtain o' c where a: "api_Patch api ?k (spec_patch ''shutdown'' ''Stop'') (ag_cluster s2) = (Inr o', c)"
    using up k2 unfolding responsive_def by (metis option.distinct(1) plain_words(3,4))
  have s': "s' = s2\<lparr>ag_cluster := c\<rparr>"
    using sw by (auto simp: w StopWorkflow_def conf a on_cluster_def obind_def with_text_def plain_error_def logged_def)
  obtain o1 where "cobjs s2 ?k = Some o1" "patched ''shutdown'' ''Stop'' o1 o'" "objs c = (cobjs s2)(?k \<mapsto> o')"
    using patch_ok [OF _ _ a] by auto
  then have "patched ''shutdown'' ''Stop'' w o'" "cobjs s' = (cobjs s2)(?k \<mapsto> o')" using k2 s' by auto
  then show thesis using that [OF kw wi(2)] e k2 by (simp add: fun_upd_idem)
qed

end

text \<open>
  What stopping a run may change, whether or not the API server answers: chaos engines of the run are set to stop, its workflow is shut
  down, and nothing else happens. And what it does when all is well.
\<close>

definition only_stopped :: "string \<Rightarrow> string \<Rightarrow> (obj_key \<rightharpoonup> kobject) \<Rightarrow> (obj_key \<rightharpoonup> kobject) \<Rightarrow> bool" where
  "only_stopped ns uid M M' \<longleftrightarrow> (\<forall>k. M' k = M k \<or> (\<exists>o1 o2. M k = Some o1 \<and> M' k = Some o2 \<and>
     (engine_of_run ns uid k o1 \<and> patched ''engineState'' ''stop'' o1 o2 \<or> fst k = workflows \<and> ob_UID o1 = uid \<and> patched ''shutdown'' ''Stop'' o1 o2)))"

definition run_stopped :: "string \<Rightarrow> string \<Rightarrow> (obj_key \<rightharpoonup> kobject) \<Rightarrow> (obj_key \<rightharpoonup> kobject) \<Rightarrow> bool" where
  "run_stopped ns uid M M' \<longleftrightarrow> (\<exists>w o2. M (workflows, ob_Namespace w, ob_Name w) = Some w \<and> ob_UID w = uid \<and>
     M' (workflows, ob_Namespace w, ob_Name w) = Some o2 \<and> patched ''shutdown'' ''Stop'' w o2 \<and>
     all_patched (engine_of_run ns uid) ''engineState'' ''stop'' M (M'((workflows, ob_Namespace w, ob_Name w) \<mapsto> w)))"

lemma only_stopped_engines:
  "some_patched (\<lambda>k. \<exists>o1. M k = Some o1 \<and> engine_of_run ns uid k o1) ''engineState'' ''stop'' M M' \<Longrightarrow> only_stopped ns uid M M'"
  unfolding some_patched_def only_stopped_def by fastforce

lemma only_stopped_workflow:
  assumes "only_stopped ns uid M M1" "some_patched (\<lambda>k. k = k0) ''shutdown'' ''Stop'' M1 M'" "fst k0 = workflows" "M k0 = Some w" "ob_UID w = uid"
  shows "only_stopped ns uid M M'"
  unfolding only_stopped_def
proof
  fix k
  have w: "workflows \<noteq> chaosengines" by (simp add: workflows_def chaosengines_def)
  consider "M' k = M1 k" | o1 o2 where "k = k0" "M1 k = Some o1" "M' k = Some o2" "patched ''shutdown'' ''Stop'' o1 o2"
    using assms(2) unfolding some_patched_def by blast
  then show "M' k = M k \<or> (\<exists>o1 o2. M k = Some o1 \<and> M' k = Some o2 \<and>
     (engine_of_run ns uid k o1 \<and> patched ''engineState'' ''stop'' o1 o2 \<or> fst k = workflows \<and> ob_UID o1 = uid \<and> patched ''shutdown'' ''Stop'' o1 o2))"
  proof cases
    case 1
    then show ?thesis using assms(1) [unfolded only_stopped_def, THEN spec, of k] by simp
  next
    case 2
    have "M1 k = M k \<or> (\<exists>o1 o2. M k = Some o1 \<and> M1 k = Some o2 \<and> patched ''shutdown'' ''Stop'' o1 o2)"
    proof -
      have "\<not> engine_of_run ns uid k ob" for ob using 2(1) assms(3) w by (simp add: engine_of_run_def)
      then show ?thesis using assms(1) [unfolded only_stopped_def, THEN spec, of k] by blast
    qed
    then have "patched ''shutdown'' ''Stop'' w o2" using 2 assms(4) by (auto intro: patched_refl_trans)
    then show ?thesis using 2 assms(3-5) by blast
  qed
qed

context kube_cluster
begin

lemma list_error_same:
  assumes "plain_error (on_cluster (api_List api r ns sel) s) = (v, s')"
  shows "cobjs s' = cobjs s"
  using assms list_same by (auto elim!: plain_error_cases simp: on_cluster_eq)

lemma stop_state_frame:
  assumes uid: "label_value uid" and ns: "ns \<noteq> ''''" and st: "StopChaosEngineState api env ns (Some uid) s = (v, s')"
  shows "only_stopped ns uid (cobjs s) (cobjs s')"
proof -
  let ?sel = "''workflow_run_id='' @ uid"
  have sel: "selects ?sel m \<longleftrightarrow> m ''workflow_run_id'' = Some uid" for m
    using selects_label [of "''workflow_run_id''" uid m] uid by (simp add: label_value_def)
  have ic: "in_collection chaosengines ns ?sel k e \<longleftrightarrow> engine_of_run ns uid k e" for k e
    unfolding in_collection_def engine_of_run_def sel using ns by simp
  obtain l s1 where p: "plain_error (on_cluster (api_List api chaosengines ns ?sel) s) = (l, s1)" by fastforce
  have s1: "cobjs s1 = cobjs s" by (rule list_error_same [OF p])
  consider "s' = s" | "s' = s1" | xs where "l = Inr (Inr xs)" "stop_engines api ns xs s1 = (v, s')"
    using st by (auto simp: StopChaosEngineState_def p obind_def with_text_def sum_map_Inr simp del: append.simps split: option.splits sum.splits)
  then have "some_patched (\<lambda>k. \<exists>o1. cobjs s k = Some o1 \<and> engine_of_run ns uid k o1) ''engineState'' ''stop'' (cobjs s) (cobjs s')"
  proof cases
    case 3
    have "\<exists>o1. cobjs s (chaosengines, ns, ob_Name e) = Some o1 \<and> engine_of_run ns uid (chaosengines, ns, ob_Name e) o1" if "e \<in> set xs" for e
    proof -
      from that obtain k where k: "cobjs s k = Some e" "engine_of_run ns uid k e"
        unfolding listed_step(1) [OF p [unfolded 3(1)]] ic by blast
      then have "k = (chaosengines, ns, ob_Name e)" using named [of "ag_cluster s"] by (cases k) (fastforce simp: engine_of_run_def)
      then show ?thesis using k by blast
    qed
    then show ?thesis using stop_engines_frame [OF 3(2), of "\<lambda>k. \<exists>o1. cobjs s k = Some o1 \<and> engine_of_run ns uid k o1"] s1 by simp
  qed (simp_all add: s1)
  then show ?thesis by (rule only_stopped_engines)
qed

lemma run_stop_frame:
  assumes uid: "label_value uid" and ns: "d ''INFRA_NAMESPACE'' \<noteq> ''''"
    and r: "WorkflowRequest api env d ''workflow_run_stop'' uid s = (v, s')"
  shows "only_stopped (d ''INFRA_NAMESPACE'') uid (cobjs s) (cobjs s')"
proof -
  obtain g s1 where g: "GetWorkflowObj api env uid s = (g, s1)" by fastforce
  obtain l s0 where li: "plain_error (on_cluster (api_List api workflows (InfraNamespace env) '''') s) = (l, s0)" by fastforce
  have s0: "cobjs s0 = cobjs s" by (rule list_error_same [OF li])
  have s1: "cobjs s1 = cobjs s" using g s0 by (auto simp: GetWorkflowObj_def li obind_def lift_go_def split: sum.splits prod.splits)
  obtain e s2 where st: "StopChaosEngineState api env (d ''INFRA_NAMESPACE'') (Some uid) s1 = (e, s2)" by fastforce
  have s2: "only_stopped (d ''INFRA_NAMESPACE'') uid (cobjs s) (cobjs s2)" using stop_state_frame [OF uid ns st] s1 by simp
  consider "s' = s1" | "s' = s2" | w where "g = Inr (Inr (Some w))" "logged (StopWorkflow api env (ob_Name w) (ob_Namespace w) s2) = (v, s')"
    using r by (auto simp: WorkflowRequest_def g st obind_def logged_def split: sum.splits option.splits prod.splits)
  then show ?thesis
  proof cases
    case 3
    obtain items where li: "plain_error (on_cluster (api_List api workflows (InfraNamespace env) '''') s) = (Inr (Inr items), s1)"
      and f: "find (\<lambda>w. ob_UID w = uid) items = Some w" using g 3(1) by (auto simp: GetWorkflowObj_def)
    have wi: "w \<in> set items" "ob_UID w = uid" using f by (auto simp: find_Some_iff)
    then obtain k where k: "cobjs s k = Some w" "fst k = workflows" using listed_step(1) [OF li] by (auto simp: in_collection_def)
    let ?k = "(workflows, ob_Namespace w, ob_Name w)"
    have kw: "cobjs s ?k = Some w" using k named [of "ag_cluster s"] by (cases k) fastforce
    obtain q s3 where q: "plain_error (on_cluster (api_Patch api ?k (spec_patch ''shutdown'' ''Stop'')) s2) = (q, s3)" by fastforce
    have "s' = s2 \<or> s' = s3" using 3(2) by (auto simp: StopWorkflow_def q obind_def with_text_def logged_def split: sum.splits option.splits prod.splits)
    moreover have "some_patched (\<lambda>k. k = ?k) ''shutdown'' ''Stop'' (cobjs s2) (cobjs s3)" by (rule patch_step(1) [OF _ _ q]) simp_all
    ultimately show ?thesis using s2 only_stopped_workflow [OF s2 _ _ kw wi(2)] by auto
  qed (use s1 s2 in \<open>simp_all add: only_stopped_def\<close>)
qed

end

section \<open>Operations on objects\<close>

text \<open>What \<^verbatim>\<open>labels.FormatLabels\<close> is documented to do: it prints a non-empty set of labels as the selector of the objects that have all of them.\<close>

definition selectable :: "(string \<times> string) list \<Rightarrow> bool" where
  "selectable ls \<longleftrightarrow> ls \<noteq> [] \<and> list_all (\<lambda>(k, v). label_value k \<and> label_value v) ls"

definition formats_labels :: "agent_env \<Rightarrow> bool" where
  "formats_labels env \<longleftrightarrow> (\<forall>ls m. selectable ls \<longrightarrow> (selects (FormatLabels env ls) m \<longleftrightarrow> (\<forall>(k, v)\<in>set ls. m k = Some v)))"

text \<open>The objects a request to delete without a name is about: those with all labels of the manifest but \<^verbatim>\<open>updated_by\<close>.\<close>

definition labels_of :: "kobject \<Rightarrow> (string \<times> string) list" where
  "labels_of obj = AList.delete ''updated_by'' (case ob_Labels obj of None \<Rightarrow> [] | Some ls \<Rightarrow> ls)"

definition deletes :: "gvr \<Rightarrow> string \<Rightarrow> kobject \<Rightarrow> obj_key \<Rightarrow> kobject \<Rightarrow> bool" where
  "deletes r ns obj k o' \<longleftrightarrow>
     (if ob_Name obj \<noteq> '''' then k = (r, ns, ob_Name obj)
      else ob_Labels obj \<noteq> None \<and> fst k = r \<and> (ns = '''' \<or> fst (snd k) = ns) \<and> (\<forall>(l, v)\<in>set (labels_of obj). ob_label o' l = Some v))"

definition stored_new :: "gvr \<Rightarrow> string \<Rightarrow> kobject \<Rightarrow> (obj_key \<rightharpoonup> kobject) \<Rightarrow> (obj_key \<rightharpoonup> kobject) \<Rightarrow> bool" where
  "stored_new r ns obj M M' \<longleftrightarrow> (\<exists>o'. M (r, ns, ob_Name o') = None \<and> M' = M((r, ns, ob_Name o') \<mapsto> o') \<and> same_content obj o' \<and>
     (ob_Name obj \<noteq> '''' \<longrightarrow> ob_Name o' = ob_Name obj))"

text \<open>The effect of a request on the stored objects, as its type promises.\<close>

definition carried_out :: "string \<Rightarrow> gvr \<Rightarrow> string \<Rightarrow> kobject \<Rightarrow> (obj_key \<rightharpoonup> kobject) \<Rightarrow> (obj_key \<rightharpoonup> kobject) \<Rightarrow> bool" where
  "carried_out t r ns obj M M' \<longleftrightarrow>
     (if t = ''create'' then stored_new r ns obj M M' \<or> M (r, ns, ob_Name obj) \<noteq> None \<and> M' = M
      else if t = ''update'' then
        (if M (r, ns, ob_Name obj) = None then M' = M else \<exists>o'. M' = M((r, ns, ob_Name obj) \<mapsto> o') \<and> same_content obj o')
      else if t = ''delete'' then M' = all_deleted (deletes r ns obj) M
      else M' = M)"

definition manifest_ok :: "kobject \<Rightarrow> bool" where
  "manifest_ok obj \<longleftrightarrow> (ob_Name obj = '''' \<and> ob_Labels obj \<noteq> None \<longrightarrow> selectable (labels_of obj))"

lemma all_deleted_none: "(\<And>k o'. M k = Some o' \<Longrightarrow> \<not> P k o') \<Longrightarrow> all_deleted P M = M"
  by (rule ext) (auto simp: all_deleted_def split: option.split)

lemma all_deleted_one: "all_deleted (\<lambda>k o'. k = k0) M = M(k0 := None)"
  by (rule ext) (auto simp: all_deleted_def split: option.split)

lemma all_deleted_cong: "(\<And>k o'. M k = Some o' \<Longrightarrow> P k o' \<longleftrightarrow> Q k o') \<Longrightarrow> all_deleted P M = all_deleted Q M"
  by (rule ext) (auto simp: all_deleted_def split: option.split)

context kube_cluster
begin

lemma create_carried_out:
  assumes "unless_exists (on_cluster (api_Create api r ns obj) s) = (Inr (Inr v), s')"
  shows "stored_new r ns obj (cobjs s) (cobjs s') \<or> cobjs s (r, ns, ob_Name obj) \<noteq> None \<and> cobjs s' = cobjs s"
  using assms create_ok [of r ns obj "ag_cluster s"] create_exists [of r ns obj "ag_cluster s"]
  unfolding unless_exists_ok on_cluster_eq stored_new_def by fastforce

lemma update_carried_out:
  assumes "applyRequest api env (r, ns) ''update'' obj s = (Inr (Inr v), s')"
  shows "if cobjs s (r, ns, ob_Name obj) = None then cobjs s' = cobjs s
    else \<exists>o'. cobjs s' = (cobjs s)((r, ns, ob_Name obj) \<mapsto> o') \<and> same_content obj o'"
proof -
  obtain g s1 where g: "unless_missing (on_cluster (api_Get api (r, ns, ob_Name obj)) s) = (Inr (Inr g), s1)"
    and u: "case g of None \<Rightarrow> s' = s1
      | Some x \<Rightarrow> \<exists>o'. on_cluster (api_Update api r ns (obj\<lparr>ob_ResourceVersion := ob_ResourceVersion x\<rparr>)) s1 = (Inr o', s')"
    using assms by (auto simp: applyRequest_def split: option.splits)
  have same: "cobjs s1 = cobjs s" using g get_same unfolding unless_missing_ok on_cluster_eq by fastforce
  show ?thesis
  proof (cases g)
    case None
    then have "cobjs s (r, ns, ob_Name obj) = None" using g get_missing unfolding unless_missing_ok on_cluster_eq by fastforce
    then show ?thesis using None u same by simp
  next
    case (Some x)
    have "cobjs s (r, ns, ob_Name obj) = Some x" using g Some get_ok unfolding unless_missing_ok on_cluster_eq by fastforce
    moreover obtain o' c where "api_Update api r ns (obj\<lparr>ob_ResourceVersion := ob_ResourceVersion x\<rparr>) (ag_cluster s1) = (Inr o', c)" "s' = s1\<lparr>ag_cluster := c\<rparr>"
      using u Some by (auto simp: on_cluster_eq)
    ultimately show ?thesis using update_ok same by (fastforce simp: same_content_def)
  qed
qed

lemma delete_carried_out:
  assumes f: "formats_labels env" and m: "manifest_ok obj" and a: "applyRequest api env (r, ns) ''delete'' obj s = (Inr (Inr v), s')"
  shows "cobjs s' = all_deleted (deletes r ns obj) (cobjs s)"
proof (cases "ob_Name obj = ''''")
  case False
  then obtain d where "unless_missing (on_cluster (or_none \<circ> api_Delete api (r, ns, ob_Name obj)) s) = (Inr (Inr d), s')"
    using a by (auto simp: applyRequest_def)
  then have "cobjs s' = (cobjs s)((r, ns, ob_Name obj) := None)"
    using delete_ok delete_missing unfolding unless_missing_ok on_cluster_eq by (fastforce simp: fun_upd_idem)
  moreover have "deletes r ns obj = (\<lambda>k o'. k = (r, ns, ob_Name obj))" using False by (intro ext) (simp add: deletes_def)
  ultimately show ?thesis by (simp add: all_deleted_one)
next
  case True
  show ?thesis
  proof (cases "ob_Labels obj")
    case None
    then have "s' = s" using a True by (simp add: applyRequest_def)
    then show ?thesis by (simp add: all_deleted_none deletes_def True None)
  next
    case (Some ls)
    let ?sel = "FormatLabels env (labels_of obj)"
    obtain d where d: "unless_missing (on_cluster (or_none \<circ> api_DeleteCollection api r ns ?sel) s) = (Inr (Inr d), s')"
      using a True Some by (auto simp: applyRequest_def labels_of_def)
    have "in_collection r ns ?sel k o' \<longleftrightarrow> deletes r ns obj k o'" for k o'
      using f m True Some by (auto simp: in_collection_def deletes_def formats_labels_def manifest_ok_def)
    then have P: "in_collection r ns ?sel = deletes r ns obj" by (intro ext) simp
    have "all_deleted (deletes r ns obj) (cobjs s) = cobjs s" if "\<forall>ns n. cobjs s (r, ns, n) = None"
    proof (rule all_deleted_none)
      fix k o' assume "cobjs s k = Some o'"
      then show "\<not> deletes r ns obj k o'" using that True by (cases k) (auto simp: deletes_def)
    qed
    then show ?thesis using d collection_ok collection_missing unfolding unless_missing_ok on_cluster_eq P [symmetric] by fastforce
  qed
qed

lemma get_carried_out:
  assumes "unless_missing (on_cluster (api_Get api k) s) = (Inr (Inr v), s')"
  shows "cobjs s' = cobjs s"
  using assms get_same unfolding unless_missing_ok on_cluster_eq by fastforce

lemma operation_carried_out:
  assumes "formats_labels env" "t = ''delete'' \<Longrightarrow> manifest_ok obj" "t \<in> {''create'', ''update'', ''delete'', ''get''}"
    and a: "applyRequest api env (r, ns) t obj s = (Inr (Inr v), s')"
  shows "carried_out t r ns obj (cobjs s) (cobjs s')"
  using assms(3)
proof (elim insertE emptyE)
  assume t: "t = ''create''"
  show ?thesis using create_carried_out [of r ns obj s v s'] a by (simp add: t applyRequest_def carried_out_def)
next
  assume t: "t = ''update''"
  show ?thesis using update_carried_out [OF a [unfolded t]] by (simp add: t carried_out_def)
next
  assume t: "t = ''delete''"
  show ?thesis using delete_carried_out [OF assms(1) assms(2) [OF t] a [unfolded t]] by (simp add: t carried_out_def)
next
  assume t: "t = ''get''"
  show ?thesis using get_carried_out [of "(r, ns, ob_Name obj)" s v s'] a by (simp add: t applyRequest_def carried_out_def)
qed

end

section \<open>Namespaces\<close>

context kube_cluster
begin

lemma chunks_return:
  "\<exists>r c'. namespace_chunks api deadline token found c = Some (r, c') \<and> objs c' = objs c \<and> namespaces c' = namespaces c \<and>
     (\<forall>names. r = Inr names \<longrightarrow> names = found @ (if token = '''' then namespaces c else rest c token))"
proof (induction "nat (deadline - api_Now api c)" arbitrary: token found c rule: less_induct)
  case less
  obtain q c1 where q: "api_ListNamespaces api deadline 500 token c = (q, c1)" by fastforce
  show ?case
  proof (cases q)
    case (Inl e)
    then show ?thesis using namespaces_same [OF q] by (subst namespace_chunks.simps) (simp add: q)
  next
    case (Inr p)
    obtain names next' where p: "p = (names, next')" by fastforce
    have t: "api_Now api c < api_Now api c1" "api_Now api c < deadline"
      using namespaces_time [OF q] namespaces_deadline [OF _ q] Inr by (auto simp: not_le [symmetric])
    have n: "(if token = '''' then namespaces c else rest c token) = names @ (if next' = '''' then [] else rest c1 next')"
      using namespaces_ok [of deadline 500 token c names next' c1] q Inr p by simp
    show ?thesis
    proof (cases "next' = ''''")
      case True
      then show ?thesis using namespaces_same [OF q] n by (subst namespace_chunks.simps) (simp add: q Inr p)
    next
      case False
      obtain r c' where r: "namespace_chunks api deadline next' (found @ names) c1 = Some (r, c')" "objs c' = objs c1"
        "namespaces c' = namespaces c1" "\<forall>ns. r = Inr ns \<longrightarrow> ns = (found @ names) @ rest c1 next'"
        using less [of c1 next' "found @ names"] t False by auto
      then show ?thesis using namespaces_same [OF q] n False by (subst namespace_chunks.simps) (simp add: q Inr p)
    qed
  qed
qed

end

section \<open>Confirmation of the agent\<close>

lemma client_ok: "GetGenericK8sClient env s = (Inr (Inr u), s') \<Longrightarrow> s' = s\<lparr>ag_clientset := Some None\<rparr>"
  by (auto simp: GetGenericK8sClient_def Let_def of_error_ok)

lemma or_fatal_ok [simp]: "or_fatal r = (Inr (Inr v), s) \<longleftrightarrow> r = (Inr (Inr v), s)"
  by (cases r; cases "fst r"; cases "projr (fst r)") (auto simp: or_fatal_def)

definition agent_confirmed :: "(string \<times> string \<Rightarrow> (string \<times> string) list option option) \<Rightarrow> agent_env \<Rightarrow> bool" where
  "agent_confirmed cms env \<longleftrightarrow> (\<exists>d. cms (InfraNamespace env, InfraConfigName) = Some (Some d) \<and> map_of d ''IS_INFRA_CONFIRMED'' = Some ''true'')"

definition stored_key :: "(string \<times> string \<Rightarrow> (string \<times> string) list option) \<Rightarrow> agent_env \<Rightarrow> string" where
  "stored_key ses env = (case ses (InfraNamespace env, InfraSecretName) of None \<Rightarrow> '''' | Some d \<Rightarrow> lookup_or_empty d ''ACCESS_KEY'')"

context kube_cluster
begin

abbreviation "settings s \<equiv> (config_maps (ag_cluster s), secrets (ag_cluster s))"

lemma healthy_same: "deploymentHealthy api ns sel c = (b, c') \<Longrightarrow> config_maps c' = config_maps c \<and> secrets c' = secrets c"
  using pods_same by (fastforce simp: deploymentHealthy_def split: prod.splits sum.splits)

lemma failed_same: "failed_deployments api ns sels c = (n, c') \<Longrightarrow> config_maps c' = config_maps c \<and> secrets c' = secrets c"
  by (induction sels arbitrary: c n) (fastforce dest: healthy_same split: prod.splits)+

lemma live_check_same: "live_check api ns sels n c = (b, c') \<Longrightarrow> config_maps c' = config_maps c \<and> secrets c' = secrets c"
proof (induction n arbitrary: c)
  case (Suc n)
  obtain b1 c1 where a: "allDeploymentsHealthy api ns sels c = (b1, c1)" by fastforce
  then have "config_maps c1 = config_maps c \<and> secrets c1 = secrets c"
    using failed_same by (fastforce simp: allDeploymentsHealthy_def split: if_splits prod.splits)
  then show ?case using Suc.prems Suc.IH sleep_same by (auto simp: a split: bool.splits if_splits)
qed simp

lemma components_same:
  assumes "CheckComponentStatus api env ce s = (Inr (Inr u), s')"
  shows "settings s' = settings s \<and> ag_posted s' = ag_posted s"
proof (cases "ReadComponents env (trimSpace ce)")
  case (Inr ds)
  obtain up c where l: "live_check api (InfraNamespace env) ds LiveCheckMaxTries (ag_cluster s) = (up, c)" by fastforce
  have "s' = s\<lparr>ag_clientset := Some None, ag_cluster := c\<rparr>"
    using assms by (auto simp: CheckComponentStatus_def Inr l dest!: client_ok split: if_splits)
  then show ?thesis using live_check_same [OF l] by simp
qed (use assms in \<open>auto simp: CheckComponentStatus_def split: if_splits\<close>)

lemma confirmed_ok:
  assumes "IsAgentConfirmed api env s = (Inr (Inr (b, k)), s')"
  shows "settings s' = settings s \<and> ag_posted s' = ag_posted s \<and> (b \<longleftrightarrow> agent_confirmed (config_maps (ag_cluster s)) env) \<and>
    (b \<longrightarrow> k = stored_key (secrets (ag_cluster s)) env)"
proof -
  obtain s1 where s1: "s1 = s\<lparr>ag_clientset := Some None\<rparr>" "isAgentConfirmedWithClientset api env s1 = (Inr (Inr (b, k)), s')"
    using assms by (auto simp: IsAgentConfirmed_def dest!: client_ok)
  obtain q c where q: "api_GetConfigMap api (InfraNamespace env) InfraConfigName (ag_cluster s) = (q, c)" by fastforce
  note same = get_config_same [OF q]
  obtain cm where cm: "q = Inr cm"
    using s1 q by (cases q) (auto simp: isAgentConfirmedWithClientset_def on_cluster_def split: kube_error.splits)
  have st: "config_maps (ag_cluster s) (InfraNamespace env, InfraConfigName) = Some (cm_Data cm)" using get_config q cm by blast
  let ?v = "lookup_or_empty (case cm_Data cm of None \<Rightarrow> [] | Some d \<Rightarrow> d) ''IS_INFRA_CONFIRMED''"
  have iff: "agent_confirmed (config_maps (ag_cluster s)) env \<longleftrightarrow> ?v = ''true''"
    using st by (auto simp: agent_confirmed_def lookup_or_empty_def split: option.splits)
  show ?thesis
  proof (cases "?v = ''true''")
    case True
    then obtain x where "plain_error (on_cluster (api_GetSecret api (InfraNamespace env) InfraSecretName) (s1\<lparr>ag_cluster := c\<rparr>)) = (Inr (Inr x), s')"
      and bk: "b" "k = lookup_or_empty (se_Data x) ''ACCESS_KEY''"
      using s1 q cm by (auto simp: isAgentConfirmedWithClientset_def on_cluster_def)
    then obtain c2 where x: "api_GetSecret api (InfraNamespace env) InfraSecretName c = (Inr x, c2)" "s' = s1\<lparr>ag_cluster := c2\<rparr>"
      by (auto simp: on_cluster_eq)
    have "secrets (ag_cluster s) (InfraNamespace env, InfraSecretName) = Some (se_Data x)"
      using get_secret [OF x(1)] same by simp
    then show ?thesis using True bk iff get_secret_same [OF x(1)] same x(2) s1(1) by (simp add: stored_key_def)
  next
    case False
    then show ?thesis using s1 q cm iff same by (auto simp: isAgentConfirmedWithClientset_def on_cluster_def)
  qed
qed

lemma register_ok:
  assumes "AgentRegister api env key s = (Inr (Inr b), s')"
  shows "agent_confirmed (config_maps (ag_cluster s')) env \<and> stored_key (secrets (ag_cluster s')) env = key"
proof -
  let ?n = "InfraNamespace env"
  obtain s1 s2 s3 s4 cm x d where
    a: "plain_error (on_cluster (api_GetConfigMap api ?n InfraConfigName) s1) = (Inr (Inr cm), s2)"
      "plain_error (on_cluster (api_GetSecret api ?n InfraSecretName) s2) = (Inr (Inr x), s3)" "cm_Data cm = Some d"
      "plain_error (on_cluster (or_none \<circ> api_UpdateConfigMap api ?n InfraConfigName
        (cm\<lparr>cm_Data := Some (AList.update ''IS_INFRA_CONFIRMED'' ''true'' d)\<rparr>)) s3) = (Inr (Inr ()), s4)"
      "plain_error (on_cluster (or_none \<circ> api_UpdateSecret api ?n InfraSecretName (x\<lparr>se_StringData := [(''ACCESS_KEY'', key)]\<rparr>)) s4) = (Inr (Inr ()), s')"
    using assms by (auto simp: AgentRegister_def split: option.splits)
  obtain c4 c5 where
    c4: "api_UpdateConfigMap api ?n InfraConfigName (cm\<lparr>cm_Data := Some (AList.update ''IS_INFRA_CONFIRMED'' ''true'' d)\<rparr>) (ag_cluster s3) = (None, c4)"
      "s4 = s3\<lparr>ag_cluster := c4\<rparr>"
    and c5: "api_UpdateSecret api ?n InfraSecretName (x\<lparr>se_StringData := [(''ACCESS_KEY'', key)]\<rparr>) c4 = (None, c5)" "s' = s4\<lparr>ag_cluster := c5\<rparr>"
    using a(4,5) by (auto simp: on_cluster_eq)
  show ?thesis using update_config [OF c4(1)] update_secret [OF c5(1)] c5(2)
    by (simp add: agent_confirmed_def stored_key_def merged_def lookup_or_empty_def update_conv')
qed

lemma init_ok:
  assumes "init_agent api env d s = (Inr (Inr d1), s1)"
  obtains "agent_confirmed (config_maps (ag_cluster s)) env" "settings s1 = settings s" "ag_posted s1 = ag_posted s"
      "d1 ''ACCESS_KEY'' = stored_key (secrets (ag_cluster s)) env"
  | "agent_confirmed (config_maps (ag_cluster s1)) env" "d1 ''ACCESS_KEY'' = stored_key (secrets (ag_cluster s1)) env"
      "\<not> agent_confirmed (config_maps (ag_cluster s)) env"
  | "settings s1 = settings s" "\<not> agent_confirmed (config_maps (ag_cluster s)) env"
proof -
  obtain s2 b k s3 where "CheckComponentStatus api env (d ''COMPONENTS'') s = (Inr (Inr ()), s2)"
    and co: "IsAgentConfirmed api env s2 = (Inr (Inr (b, k)), s3)"
    and r: "(if b then (Inr (Inr (d(''ACCESS_KEY'' := k))), s3)
       else obind (or_fatal (AgentConfirm env d s3)) (\<lambda>body s.
         case UnmarshalPayload env body of
           Inl err \<Rightarrow> (Inl FatalExit, s)
         | Inr confirm \<Rightarrow>
             if ic_IsInfraConfirmed (pl_InfraConfirm confirm) then
               obind (or_fatal (AgentRegister api env (ic_NewAccessKey (pl_InfraConfirm confirm)) s)) (\<lambda>_ s.
                 (Inr (Inr (d(''ACCESS_KEY'' := ic_NewAccessKey (pl_InfraConfirm confirm), ''IS_INFRA_CONFIRMED'' := ''true''))), s))
             else (Inr (Inr d), s))) = (Inr (Inr d1), s1)"
    using assms by (auto simp: init_agent_def)
  note same = components_same [OF this(1)] and conf = confirmed_ok [OF co]
  show thesis
  proof (cases b)
    case True
    then show thesis using r same conf by (intro that(1)) auto
  next
    case False
    obtain body s4 where m: "AgentConfirm env d s3 = (Inr (Inr body), s4)"
      and r': "(case UnmarshalPayload env body of
           Inl err \<Rightarrow> (Inl FatalExit, s4)
         | Inr confirm \<Rightarrow>
             if ic_IsInfraConfirmed (pl_InfraConfirm confirm) then
               obind (or_fatal (AgentRegister api env (ic_NewAccessKey (pl_InfraConfirm confirm)) s4)) (\<lambda>_ s.
                 (Inr (Inr (d(''ACCESS_KEY'' := ic_NewAccessKey (pl_InfraConfirm confirm), ''IS_INFRA_CONFIRMED'' := ''true''))), s))
             else (Inr (Inr d), s4)) = (Inr (Inr d1), s1)"
      using r False unfolding if_not_P [OF False] obind_ok or_fatal_ok by blast
    obtain confirm where c: "UnmarshalPayload env body = Inr confirm" using r' by (cases "UnmarshalPayload env body") simp_all
    have nc: "\<not> agent_confirmed (config_maps (ag_cluster s)) env" using conf same False by simp
    have s4: "settings s4 = settings s" using m conf same by (auto simp: AgentConfirm_def SendRequest_def split: option.splits)
    show thesis
    proof (cases "ic_IsInfraConfirmed (pl_InfraConfirm confirm)")
      case True
      then obtain b' where "AgentRegister api env (ic_NewAccessKey (pl_InfraConfirm confirm)) s4 = (Inr (Inr b'), s1)"
        "d1 ''ACCESS_KEY'' = ic_NewAccessKey (pl_InfraConfirm confirm)" using r' c by auto
      then show thesis using register_ok nc by (intro that(2)) auto
    next
      case False
      then show thesis using r' c s4 nc by (intro that(3)) auto
    qed
  qed
qed

end

end
