(* ===== verification/Subscriber_Texts.thy ===== *)
theory Subscriber_Texts
  imports Subscriber_Requests
begin

text \<open>
  The text of the answers of the subscriber: how the server reads the value of an argument of the query back, after \<^verbatim>\<open>MarshalGQLData\<close> and the two string literals it stands in,
  and how the logs of pods are read.
\<close>

section \<open>Values of the query\<close>

text \<open>How the server reads a value: the body is JSON, the query in it is GraphQL, the value stands in a string of the query.\<close>

definition read_value :: "string \<Rightarrow> string option" where
  "read_value t = Option.bind (unescape t) unescape"

definition text_char :: "char \<Rightarrow> bool" where
  "text_char c \<longleftrightarrow> passed c \<or> c = dquote \<or> c = backslash"

definition gql_char :: "char \<Rightarrow> string" where
  "gql_char c = (if c = dquote then [backslash, backslash, backslash, dquote] else quote_char c)"

definition esc :: "char \<Rightarrow> string" where
  "esc c = (if c = dquote then [backslash, dquote] else [c])"

lemma quote_special: "quote_char backslash = [backslash, backslash]" "quote_char dquote = [backslash, dquote]"
  by (simp_all add: quote_char_def)

lemma passed_special: "passed c \<Longrightarrow> c \<noteq> dquote" "passed c \<Longrightarrow> c \<noteq> backslash"
  by auto

lemma not_ordinary [simp]: "\<not> ordinary dquote" "\<not> ordinary backslash"
  by (simp_all add: ordinary_def)

lemma gql_char_simps:
  "gql_char dquote = [backslash, backslash, backslash, dquote]" "gql_char backslash = [backslash, backslash]" "passed c \<Longrightarrow> gql_char c = [c]"
  by (simp_all add: gql_char_def quote_special passed_special)

lemma quote_head:
  assumes "list_all text_char d" "d \<noteq> []"
  shows "\<exists>c cs. concat (map quote_char d) @ t = c # cs \<and> c \<noteq> dquote"
  using assms by (cases d) (auto simp: text_char_def quote_special passed_special)

lemma replace_quoted:
  assumes "list_all text_char d" "d \<noteq> [] \<Longrightarrow> last d \<noteq> backslash"
  shows "replace_all (concat (map quote_char d) @ [dquote]) [backslash, dquote] [backslash, backslash, backslash, dquote] = concat (map gql_char d) @ [dquote]"
  using assms
proof (induction d)
  case Nil
  then show ?case by (simp add: special_neq)
next
  case (Cons c d)
  have IH: "replace_all (concat (map quote_char d) @ [dquote]) [backslash, dquote] [backslash, backslash, backslash, dquote] = concat (map gql_char d) @ [dquote]"
    using Cons.IH Cons.prems by (cases "d = []") auto
  consider "passed c" | "c = dquote" | "c = backslash" using Cons.prems(1) by (auto simp: text_char_def)
  then show ?case
  proof cases
    case 3
    then have "d \<noteq> []" using Cons.prems(2) by auto
    then obtain e es where e: "concat (map quote_char d) @ [dquote] = e # es" "e \<noteq> dquote" using quote_head [of d "[dquote]"] Cons.prems(1) by auto
    then show ?thesis using IH 3 by (simp add: quote_special gql_char_simps)
  qed (use IH in \<open>auto simp: quote_special gql_char_simps passed_special\<close>)
qed

lemma read_gql:
  assumes "list_all text_char d"
  shows "unescape (concat (map gql_char d)) = Some (concat (map esc d))"
proof -
  have "unescape (gql_char c @ cs) = map_option ((@) (esc c)) (unescape cs)" if "c \<in> set d" for c cs
  proof -
    consider "passed c" | "c = dquote" | "c = backslash" using assms \<open>c \<in> set d\<close> by (auto simp: text_char_def list_all_iff)
    then show ?thesis by cases (cases "unescape cs"; simp add: gql_char_def esc_def quote_special passed_special)+
  qed
  from unescape_concat [of d gql_char esc "[]", OF this] show ?thesis by simp
qed

section \<open>Texts that are quoted byte by byte\<close>

text \<open>Text whose runes that are not ASCII are printable, and whose ASCII characters are too.\<close>

definition text_rune :: "agent_env \<Rightarrow> string \<Rightarrow> bool" where
  "text_rune env r \<longleftrightarrow> rune_ok r \<and> (if length r = 1 then text_char (hd r) else IsPrint env (rune_val r))"

definition text_ok :: "agent_env \<Rightarrow> string \<Rightarrow> bool" where
  "text_ok env t \<longleftrightarrow> list_all (text_rune env) (runes t)"

lemma text_ok_append: "text_ok env a \<Longrightarrow> text_ok env b \<Longrightarrow> text_ok env (a @ b)"
  using runes_append [of a b] by (auto simp: text_ok_def text_rune_def list_all_iff)

lemma text_ok_concat: "(\<And>t. t \<in> set ts \<Longrightarrow> text_ok env t) \<Longrightarrow> text_ok env (concat ts)"
proof (induction ts)
  case Nil
  then show ?case by (simp add: text_ok_def)
qed (auto intro: text_ok_append)

lemma text_ok_ascii: "list_all (\<lambda>c. ordinary c \<or> c = dquote \<or> c = backslash) t \<Longrightarrow> text_ok env t"
proof -
  assume t: "list_all (\<lambda>c. ordinary c \<or> c = dquote \<or> c = backslash) t"
  then have b: "list_all (\<lambda>c. byte c < 0x80) t" by (auto simp: list_all_iff ordinary_def special_codes)
  then show ?thesis
    using t unfolding text_ok_def runes_ascii [OF b] by (auto simp: list_all_iff text_rune_def text_char_def passed_def)
qed

lemma text_ok_rune: "rune_ok r \<Longrightarrow> length r \<noteq> 1 \<Longrightarrow> IsPrint env (rune_val r) \<Longrightarrow> text_ok env r"
  using runes_rune [of r "[]"] by (simp add: text_ok_def text_rune_def)

lemma rune_passed: "rune_ok r \<Longrightarrow> length r \<noteq> 1 \<Longrightarrow> list_all passed r"
  using rune_bytes [of r] by (auto simp: list_all_iff passed_def)

lemma text_rune_chars: "text_rune env r \<Longrightarrow> list_all text_char r \<and> quote_rune (IsPrint env) r = concat (map quote_char r)"
proof (cases "length r = 1")
  case True
  then obtain c where "r = [c]" by (cases r) auto
  then show "text_rune env r \<Longrightarrow> ?thesis" by (simp add: text_rune_def quote_rune_def)
next
  case False
  assume r: "text_rune env r"
  then have "list_all passed r" using rune_passed False by (simp add: text_rune_def)
  moreover from this have "concat (map quote_char r) = r" by (induction r) auto
  ultimately show ?thesis using r False by (auto simp: list_all_iff text_char_def text_rune_def quote_rune_def)
qed

lemma concat_map_concat: "concat (map f (concat xss)) = concat (map (\<lambda>xs. concat (map f xs)) xss)"
  by (induction xss) auto

lemma text_ok_quote:
  assumes "text_ok env t"
  shows "list_all text_char t" "quote_body (IsPrint env) t = concat (map quote_char t)"
proof -
  have r: "list_all text_char r \<and> quote_rune (IsPrint env) r = concat (map quote_char r)" if "r \<in> set (runes t)" for r
    using text_rune_chars that assms by (auto simp: text_ok_def list_all_iff)
  have "list_all text_char (concat (runes t))" using r by (auto simp: list_all_iff simp del: concat_runes)
  then show "list_all text_char t" by simp
  have "quote_body (IsPrint env) t = concat (map (\<lambda>r. concat (map quote_char r)) (runes t))"
    unfolding quote_body_def using r by (auto intro: arg_cong [of _ _ concat])
  then show "quote_body (IsPrint env) t = concat (map quote_char t)" by (metis concat_map_concat concat_runes)
qed

lemma marshalled:
  assumes "text_ok env d" "d \<noteq> []" "last d \<noteq> backslash"
  shows "\<exists>p. MarshalGQLData env (Inr d) = Inr p \<and> inner p = concat (map gql_char d)"
proof -
  have "MarshalGQLData env (Inr d) = Inr (dquote # concat (map gql_char d) @ [dquote])"
    using replace_quoted [OF text_ok_quote(1) [OF assms(1)]] assms(3) by (simp add: MarshalGQLData_def Quote_def text_ok_quote(2) [OF assms(1)] special_neq [symmetric])
  then show ?thesis by (simp add: inner_def)
qed

section \<open>What the server makes of a piece of JSON text\<close>

definition reads :: "agent_env \<Rightarrow> string \<Rightarrow> string \<Rightarrow> bool" where
  "reads env t v \<longleftrightarrow> text_ok env t \<and> (\<forall>cs. unescape (concat (map esc t) @ cs) = map_option ((@) v) (unescape cs))"

lemma reads_append: "reads env t v \<Longrightarrow> reads env t' v' \<Longrightarrow> reads env (t @ t') (v @ v')"
  by (auto simp: reads_def option.map_comp text_ok_append intro!: option.map_cong)

lemma reads_Nil: "reads env [] []"
  by (simp add: reads_def text_ok_def) (metis append_Nil option.map_ident option.map_cong0)

lemma reads_concat: "(\<And>x. x \<in> set xs \<Longrightarrow> reads env (f x) (g x)) \<Longrightarrow> reads env (concat (map f xs)) (concat (map g xs))"
  by (induction xs) (auto intro: reads_Nil reads_append)

lemma reads_char: "ordinary c \<or> c = dquote \<Longrightarrow> reads env [c] [c]"
  using text_ok_ascii [of "[c]" env] ordinary_passed [of c]
  unfolding reads_def by (auto simp: esc_def passed_special intro!: map_option_cong)

lemma reads_plain: "list_all (\<lambda>c. ordinary c \<or> c = dquote) t \<Longrightarrow> reads env t t"
  using reads_concat [of t env "\<lambda>c. [c]" "\<lambda>c. [c]"] reads_char by (simp add: list_all_iff)

lemma reads_join: "list_all2 (reads env) ts vs \<Longrightarrow> reads env sep sep \<Longrightarrow> reads env (go_join sep ts) (go_join sep vs)"
  by (induction sep ts arbitrary: vs rule: go_join.induct) (auto simp: list_all2_Cons1 intro!: reads_append reads_Nil)

lemma reads_value:
  assumes "reads env t v" "t \<noteq> []" "last t \<noteq> backslash"
  shows "\<exists>p. MarshalGQLData env (Inr t) = Inr p \<and> read_value (inner p) = Some v"
proof -
  have t: "text_ok env t" and u: "unescape (concat (map esc t) @ []) = map_option ((@) v) (unescape [])"
    using assms(1) unfolding reads_def by blast+
  show ?thesis using marshalled [OF t assms(2,3)] read_gql [OF text_ok_quote(1) [OF t]] u by (auto simp: read_value_def)
qed

text \<open>Text without a quote is not escaped again.\<close>

lemma esc_plain: "dquote \<notin> set t \<Longrightarrow> concat (map esc t) = t"
  by (induction t) (auto simp: esc_def)

lemma reads_unescaped:
  assumes "text_ok env t" "dquote \<notin> set t" "\<And>cs. unescape (t @ cs) = map_option ((@) v) (unescape cs)"
  shows "reads env t v"
  using assms by (simp add: reads_def esc_plain)

lemma unescape_all_passed: "list_all passed t \<Longrightarrow> unescape (t @ cs) = map_option ((@) t) (unescape cs)"
proof (induction t)
  case Nil
  then show ?case by (cases "unescape cs") simp_all
qed (auto simp: option.map_comp intro: option.map_cong)

section \<open>Logs\<close>

text \<open>The runes of a log as it is stored: those of a text, without quotes.\<close>

definition log_rune :: "agent_env \<Rightarrow> string \<Rightarrow> bool" where
  "log_rune env r \<longleftrightarrow> text_rune env r \<and> r \<noteq> [dquote]"

definition log_ok :: "agent_env \<Rightarrow> string \<Rightarrow> bool" where
  "log_ok env t \<longleftrightarrow> text_ok env t \<and> dquote \<notin> set t"

definition log_char :: "char \<Rightarrow> bool" where
  "log_char c \<longleftrightarrow> ordinary c \<or> c = backslash"

lemma log_ok_ascii: "list_all log_char t \<Longrightarrow> log_ok env t"
  using text_ok_ascii [of t env] by (auto simp: log_ok_def list_all_iff log_char_def)

lemma log_ok_append: "log_ok env a \<Longrightarrow> log_ok env b \<Longrightarrow> log_ok env (a @ b)"
  by (simp add: log_ok_def text_ok_append)

lemma log_ok_concat: "(\<And>t. t \<in> set ts \<Longrightarrow> log_ok env t) \<Longrightarrow> log_ok env (concat ts)"
  by (auto simp: log_ok_def intro: text_ok_concat)

lemma hex_log: "list_all log_char (hex_byte c)" "n < 0x10000 \<Longrightarrow> list_all log_char (hex_word n)"
proof -
  have "byte c < 256" by simp
  then show "list_all log_char (hex_byte c)" by (simp add: hex_byte_def Let_def log_char_def hex_read(2) less_mult_imp_div_less)
  show "n < 0x10000 \<Longrightarrow> list_all log_char (hex_word n)" by (simp add: hex_word_def log_char_def hex_read(2) less_mult_imp_div_less)
qed

lemma letters_log [simp]: "log_char backslash" "log_char (CHR ''u'')" "log_char (CHR ''U'')" "log_char (CHR ''x'')" "log_char (CHR ''0'')"
  by (simp_all add: log_char_def ordinary_def dquote_def backslash_def)

text \<open>A JSON string without quotes and control characters reads as itself, in quotes and without the escapes.\<close>

lemma reads_json_char:
  assumes "log_char c"
  shows "reads env (json_char c) [c]"
proof -
  consider "c = backslash" | "ordinary c" "c = CHR ''<'' \<or> c = CHR ''>'' \<or> c = CHR ''&''" | "ordinary c" "\<not> (c = CHR ''<'' \<or> c = CHR ''>'' \<or> c = CHR ''&'')"
    using assms by (auto simp: log_char_def)
  then show ?thesis
  proof cases
    case 1
    then have j: "json_char c = [backslash, backslash]" by (simp add: json_char_def)
    have "log_ok env [backslash, backslash]" by (rule log_ok_ascii) simp
    then show ?thesis unfolding j using 1 by (intro reads_unescaped) (auto simp: log_ok_def intro: option.map_cong)
  next
    case 2
    then have j: "json_char c = backslash # CHR ''u'' # hex_word (byte c)" and n: "byte c < 0x80"
      using hex_byte_word [of c] by (auto simp: json_char_def Let_def backslash_def dquote_def)
    have l: "log_ok env (backslash # CHR ''u'' # hex_word (byte c))" by (rule log_ok_ascii) (use n hex_log(2) in simp)
    have "encode_rune (byte c) = [c]" using n by (simp add: encode_rune_def)
    then show ?thesis unfolding j using l unescape_word [of "byte c"] n by (intro reads_unescaped) (auto simp: log_ok_def)
  next
    case 3
    then have "json_char c = [c]" by (auto simp: json_char_def Let_def ordinary_def)
    then show ?thesis using 3 reads_char by simp
  qed
qed

lemma reads_json_rune:
  assumes "log_rune env r"
  shows "reads env (json_rune r) r"
proof (cases "length r = 1")
  case True
  then obtain c where r: "r = [c]" by (cases r) auto
  then have "log_char c" using assms by (auto simp: log_rune_def text_rune_def text_char_def log_char_def passed_def)
  then show ?thesis using reads_json_char [of c env] assms by (simp add: json_rune_def r log_rune_def text_rune_def)
next
  case False
  have ok: "rune_ok r" "IsPrint env (rune_val r)" using assms False by (simp_all add: log_rune_def text_rune_def)
  have p: "list_all passed r" by (rule rune_passed [OF ok(1) False])
  then have q: "dquote \<notin> set r" by (auto simp: list_all_iff)
  show ?thesis
  proof (cases "rune_val r = 0x2028 \<or> rune_val r = 0x2029")
    case True
    then have n: "rune_val r < 0x10000" by auto
    have j: "json_rune r = backslash # CHR ''u'' # hex_word (rune_val r)" using True False ok by (simp add: json_rune_def)
    have "log_ok env (backslash # CHR ''u'' # hex_word (rune_val r))" by (rule log_ok_ascii) (use n hex_log(2) in simp)
    moreover have "encode_rune (rune_val r) = r" by (rule encode_rune_val [OF ok(1) rune_val_16(1) [OF ok(1) n]])
    ultimately show ?thesis unfolding j using unescape_word [OF n rune_val_16(2) [OF ok(1) n]] by (intro reads_unescaped) (auto simp: log_ok_def)
  next
    case no: False
    then have "json_rune r = r" using False ok by (auto simp: json_rune_def)
    then show ?thesis using text_ok_rune [OF ok(1) False ok(2)] q unescape_all_passed [OF p] by (simp add: reads_unescaped)
  qed
qed

lemma reads_json_string:
  assumes "log_ok env t"
  shows "reads env (json_string t) ([dquote] @ t @ [dquote])"
proof -
  have "log_rune env r" if "r \<in> set (runes t)" for r
    using assms that runes_subset [of r t] by (auto simp: log_ok_def text_ok_def log_rune_def list_all_iff)
  then have "reads env (concat (map json_rune (runes t))) (concat (map (\<lambda>r. r) (runes t)))" by (intro reads_concat reads_json_rune)
  then show ?thesis unfolding json_string_def by (intro reads_append reads_char) simp_all
qed

definition single_quoted :: "string \<Rightarrow> string" where
  "single_quoted l = map (\<lambda>c. if c = dquote then CHR 0x27 else c) l"

lemma clean_log_eq: "clean_log env l = concat (map (quote_rune (IsPrint env)) (runes (single_quoted l)))"
  by (simp add: clean_log_def Quote_def quote_body_def replace_byte inner_def single_quoted_def)

lemma single_quoted_chars: "dquote \<notin> set (single_quoted l)"
  by (auto simp: single_quoted_def dquote_def split: if_splits)

lemma quote_log: "c \<noteq> dquote \<Longrightarrow> byte c < 0x80 \<Longrightarrow> list_all log_char (quote_char c)"
  using hex_log(1) [of c] by (auto simp: quote_char_def Let_def) (auto simp: log_char_def ordinary_def dquote_def backslash_def)

lemma rune_val_bound: "rune_ok r \<Longrightarrow> rune_val r < 0x110000"
  by (erule rune_ok_cases) (auto simp: second_def cont_def)

lemma quote_rune_log:
  assumes "rune_ok r \<or> (\<exists>c. r = [c] \<and> 0x80 \<le> byte c)" "r \<noteq> [dquote]"
  shows "log_ok env (quote_rune (IsPrint env) r)"
proof -
  consider "\<not> rune_ok r" | c where "rune_ok r" "r = [c]" "byte c < 0x80" | "rune_ok r" "length r \<noteq> 1" "IsPrint env (rune_val r)"
    | "rune_ok r" "length r \<noteq> 1" "\<not> IsPrint env (rune_val r)"
    by (cases "rune_ok r"; cases "length r = 1"; cases r) auto
  then show ?thesis
  proof cases
    case 1
    then show ?thesis using hex_log(1) [of "hd r"] by (intro log_ok_ascii) (simp add: quote_rune_def)
  next
    case (2 c)
    then show ?thesis using quote_log [of c] assms(2) by (intro log_ok_ascii) (simp add: quote_rune_def)
  next
    case 3
    then have "dquote \<notin> set r" using rune_passed [of r] by (auto simp: list_all_iff)
    then show ?thesis using 3 text_ok_rune [of r env] by (simp add: quote_rune_def log_ok_def)
  next
    case 4
    have "rune_val r div 0x10000 < 0x10000" using rune_val_bound [OF 4(1)] by (simp add: less_mult_imp_div_less)
    then show ?thesis using 4 hex_log(2) [of "rune_val r"] hex_log(2) [of "rune_val r div 0x10000"] hex_log(2) [of "rune_val r mod 0x10000"]
      by (intro log_ok_ascii) (simp add: quote_rune_def)
  qed
qed

lemma clean_log_ok: "log_ok env (clean_log env l)"
proof -
  have "log_ok env (quote_rune (IsPrint env) r)" if "r \<in> set (runes (single_quoted l))" for r
    using quote_rune_log [OF runes_chunk [OF that], of env] runes_subset [OF that] single_quoted_chars [of l] by fastforce
  then show ?thesis unfolding clean_log_eq by (intro log_ok_concat) auto
qed

text \<open>
  What a JSON string can hold after \<^verbatim>\<open>strconv.Quote\<close>: valid UTF-8, no control characters of ASCII but the common ones, and nothing unprintable beyond the code points of sixteen bits.
\<close>

definition loggable :: "agent_env \<Rightarrow> string \<Rightarrow> bool" where
  "loggable env l \<longleftrightarrow> list_all (\<lambda>r. rune_ok r \<and>
     (if length r = 1 then ordinary (hd r) \<or> hd r = dquote \<or> hd r = backslash \<or> byte (hd r) \<in> {8, 9, 10, 12, 13}
      else IsPrint env (rune_val r) \<or> rune_val r < 0x10000)) (runes l)"

lemma quote_char_read:
  assumes "ordinary c \<or> c = backslash \<or> byte c \<in> {8, 9, 10, 12, 13}"
  shows "unescape (quote_char c @ cs) = map_option ((#) c) (unescape cs)"
proof (cases "ordinary c \<or> c = backslash")
  case True
  then show ?thesis by (auto simp: ordinary_passed quote_special)
next
  case False
  then have "c \<in> {char_of (8::nat), char_of (9::nat), char_of (10::nat), char_of (12::nat), char_of (13::nat)}"
    using assms char_of_char [of c] by (metis insert_iff empty_iff)
  then show ?thesis by (elim insertE emptyE) (simp_all add: quote_char_def dquote_def backslash_def unescape.simps(2) short_escape_def)
qed

lemma quote_rune_read:
  assumes "rune_ok r" "if length r = 1 then ordinary (hd r) \<or> hd r = backslash \<or> byte (hd r) \<in> {8, 9, 10, 12, 13}
      else IsPrint env (rune_val r) \<or> rune_val r < 0x10000"
  shows "unescape (quote_rune (IsPrint env) r @ cs) = map_option ((@) r) (unescape cs)"
proof (cases "length r = 1")
  case True
  then obtain c where r: "r = [c]" by (cases r) auto
  have "((@) [c]) = ((#) c)" by auto
  then show ?thesis using quote_char_read [of c cs] assms by (simp add: quote_rune_def r)
next
  case False
  show ?thesis
  proof (cases "IsPrint env (rune_val r)")
    case True
    then show ?thesis using unescape_all_passed [OF rune_passed [OF assms(1) False]] assms(1) False by (simp add: quote_rune_def)
  next
    case no: False
    then have n: "rune_val r < 0x10000" using assms(2) False by simp
    have "encode_rune (rune_val r) = r" by (rule encode_rune_val [OF assms(1) rune_val_16(1) [OF assms(1) n]])
    then show ?thesis using unescape_word [OF n rune_val_16(2) [OF assms(1) n]] assms(1) False no n by (simp add: quote_rune_def)
  qed
qed

lemma clean_log_read:
  assumes "loggable env l"
  shows "unescape (clean_log env l) = Some (single_quoted l)"
proof -
  let ?f = "\<lambda>c. if c = dquote then CHR 0x27 else c"
  have runes: "runes (single_quoted l) = map (map ?f) (runes l)"
    unfolding single_quoted_def by (rule runes_map) (auto simp: dquote_def)
  have "unescape (quote_rune (IsPrint env) r @ cs) = map_option ((@) r) (unescape cs)" if r: "r \<in> set (runes (single_quoted l))" for r cs
  proof -
    obtain q where q: "q \<in> set (runes l)" "r = map ?f q" using r by (auto simp: runes)
    have ok: "rune_ok q" "if length q = 1 then ordinary (hd q) \<or> hd q = dquote \<or> hd q = backslash \<or> byte (hd q) \<in> {8, 9, 10, 12, 13}
      else IsPrint env (rune_val q) \<or> rune_val q < 0x10000" using assms q(1) by (auto simp: loggable_def list_all_iff)
    show ?thesis
    proof (cases "length q = 1")
      case True
      then obtain c where c: "q = [c]" by (cases q) auto
      have "ordinary (CHR 0x27)" "byte (CHR 0x27) < 0x80" by (simp_all add: ordinary_def dquote_def backslash_def)
      then show ?thesis using ok by (intro quote_rune_read) (auto simp: q(2) c)
    next
      case False
      have "dquote \<notin> set q" using rune_passed [OF ok(1) False] by (auto simp: list_all_iff)
      then have "r = q" unfolding q(2) by (induction q) auto
      then show ?thesis using ok False by (intro quote_rune_read) simp_all
    qed
  qed
  from unescape_concat [of "runes (single_quoted l)" "quote_rune (IsPrint env)" "\<lambda>r. r" "[]", OF this] show ?thesis
    unfolding clean_log_eq by simp
qed

section \<open>The JSON text of the logs\<close>

text \<open>The logs as the server and the web client see them: the strings are not escaped again.\<close>

definition raw_members :: "(string \<times> string) list \<Rightarrow> string" where
  "raw_members ms = go_join '','' (map (\<lambda>(k, v). in_quotes k @ '':'' @ in_quotes v) ms)"

definition pod_log_text :: "pod_log \<Rightarrow> string" where
  "pod_log_text l = ''{'' @ raw_members [(''mainLogs'', lg_MainPod l)]
     @ (case lg_ChaosPod l of None \<Rightarrow> '''' | Some [] \<Rightarrow> ''''
        | Some (m # ms) \<Rightarrow> '','' @ in_quotes ''chaosLogs'' @ '':{'' @ raw_members (sort_key fst (m # ms)) @ ''}'') @ ''}''"

definition member_ok :: "agent_env \<Rightarrow> string \<times> string \<Rightarrow> bool" where
  "member_ok env m \<longleftrightarrow> log_ok env (fst m) \<and> log_ok env (snd m)"

lemma in_quotes_eq: "in_quotes v = [dquote] @ v @ [dquote]"
  by (simp add: in_quotes_def quote_sign_def dquote_def)

lemma plain_text_ok: "log_ok env ''mainLogs''" "log_ok env ''chaosLogs''" "log_ok env ''Failed to get argo pod logs''"
  by (rule log_ok_ascii, simp add: log_char_def ordinary_def dquote_def backslash_def)+

lemma reads_member: "member_ok env (k, v) \<Longrightarrow> reads env (json_string k @ '':'' @ json_string v) (in_quotes k @ '':'' @ in_quotes v)"
  unfolding in_quotes_eq member_ok_def
  by (intro reads_append reads_json_string reads_plain) (simp_all add: ordinary_def dquote_def backslash_def)

lemma reads_members:
  assumes "list_all (member_ok env) ms"
  shows "reads env (json_members ms) (raw_members ms)"
proof -
  have "list_all2 (reads env) (map (\<lambda>(k, v). json_string k @ '':'' @ json_string v) ms) (map (\<lambda>(k, v). in_quotes k @ '':'' @ in_quotes v) ms)"
    using assms by (induction ms) (auto intro: reads_member [simplified])
  then show ?thesis unfolding json_members_def raw_members_def
    by (rule reads_join) (simp add: reads_plain ordinary_def dquote_def backslash_def)
qed

lemma reads_pod_log:
  assumes "log_ok env (lg_MainPod l)" "\<forall>ms. lg_ChaosPod l = Some ms \<longrightarrow> list_all (member_ok env) ms"
  shows "reads env (json_pod_log l) (pod_log_text l)"
proof -
  have b: "reads env ''{'' ''{''" "reads env ''}'' ''}''" "reads env '','' '',''" "reads env '':{'' '':{''"
    by (simp_all add: reads_plain ordinary_def dquote_def backslash_def)
  have c: "reads env (case lg_ChaosPod l of None \<Rightarrow> '''' | Some [] \<Rightarrow> ''''
        | Some (m # ms) \<Rightarrow> '','' @ json_string ''chaosLogs'' @ '':{'' @ json_members (sort_key fst (m # ms)) @ ''}'')
     (case lg_ChaosPod l of None \<Rightarrow> '''' | Some [] \<Rightarrow> ''''
        | Some (m # ms) \<Rightarrow> '','' @ in_quotes ''chaosLogs'' @ '':{'' @ raw_members (sort_key fst (m # ms)) @ ''}'')"
  proof (cases "lg_ChaosPod l")
    case (Some ms)
    show ?thesis
    proof (cases ms)
      case (Cons m ms')
      have "list_all (member_ok env) (sort_key fst (m # ms'))" using assms(2) Some Cons unfolding list_all_iff set_sort by simp
      moreover have "reads env (json_string ''chaosLogs'') (in_quotes ''chaosLogs'')" unfolding in_quotes_eq by (rule reads_json_string plain_text_ok)+
      ultimately show ?thesis unfolding Some Cons option.case list.case by (intro reads_append reads_members b)
    qed (simp add: Some reads_Nil)
  qed (simp add: reads_Nil)
  have "reads env (json_members [(''mainLogs'', lg_MainPod l)]) (raw_members [(''mainLogs'', lg_MainPod l)])"
    by (rule reads_members) (use assms(1) plain_text_ok(1) in \<open>simp add: member_ok_def\<close>)
  then show ?thesis unfolding json_pod_log_def pod_log_text_def by (intro reads_append b c)
qed

text \<open>The names of the pods are plain ASCII, as those of all objects of the cluster.\<close>

definition pods_named :: "pod_log_request \<Rightarrow> bool" where
  "pods_named req \<longleftrightarrow> (\<forall>n. pr_ExpPod req = Some n \<or> pr_RunnerPod req = Some n \<longrightarrow> list_all ordinary n)"

text \<open>The logs of the pods that can be read, one after the other.\<close>

fun read_logs :: "'s kube_api \<Rightarrow> agent_env \<Rightarrow> string \<Rightarrow> string list \<Rightarrow> 's agent \<Rightarrow> (string \<times> string) list" where
  "read_logs api env ns [] s = []"
| "read_logs api env ns (n # names) s =
     (case GetLogs api env n ns '''' s of
        (Inr (Inr l), s') \<Rightarrow> (n, l) # read_logs api env ns names s'
      | (_, s') \<Rightarrow> read_logs api env ns names s')"

definition asked_pods :: "pod_log_request \<Rightarrow> string list" where
  "asked_pods req = (case pr_ExpPod req of None \<Rightarrow> [] | Some n \<Rightarrow> [n]) @ (case pr_RunnerPod req of None \<Rightarrow> [] | Some n \<Rightarrow> [n])"

definition cleaned :: "agent_env \<Rightarrow> (string \<times> string) list \<Rightarrow> string \<Rightarrow> string option" where
  "cleaned env raw = map_option (clean_log env) \<circ> map_of (rev raw)"

lemma add_log_eq:
  assumes "add_log api env p ns ms s = (Inr ms', s')"
  shows "map_of ms' = map_of ms ++ cleaned env (read_logs api env ns (case p of None \<Rightarrow> [] | Some n \<Rightarrow> [n]) s)"
    "read_logs api env ns ((case p of None \<Rightarrow> [] | Some n \<Rightarrow> [n]) @ names) s =
     read_logs api env ns (case p of None \<Rightarrow> [] | Some n \<Rightarrow> [n]) s @ read_logs api env ns names s'"
  using assms by (auto simp: add_log_def cleaned_def update_conv fun_eq_iff map_add_def split: option.splits prod.splits sum.splits)

lemma cleaned_append: "cleaned env (a @ b) = cleaned env a ++ cleaned env b"
  by (auto simp: cleaned_def fun_eq_iff map_add_def split: option.splits)

lemma cleaned_empty [simp]: "cleaned env [] = Map.empty"
  by (simp add: cleaned_def fun_eq_iff)

lemma add_log_distinct: "add_log api env p ns ms s = (Inr ms', s') \<Longrightarrow> distinct (map fst ms) \<Longrightarrow> distinct (map fst ms')"
  by (auto simp: add_log_def distinct_update split: option.splits prod.splits sum.splits)

lemma created_log:
  assumes c: "CreatePodLog api env req s = (Inr l, s')"
    and g: "GetLogs api env (pr_PodName req) (pr_PodNamespace req) ''main'' s = (g, s1)"
  shows "lg_MainPod l = (case g of Inr (Inr t) \<Rightarrow> clean_log env t | _ \<Rightarrow> ''Failed to get argo pod logs'')"
    "case lg_ChaosPod l of
       None \<Rightarrow> pr_ChaosNamespace req = None \<or> foldLower (pr_PodType req) \<noteq> ''chaosengine'' \<or> asked_pods req = []
     | Some ms \<Rightarrow> \<exists>ns. pr_ChaosNamespace req = Some ns \<and> foldLower (pr_PodType req) = ''chaosengine'' \<and> asked_pods req \<noteq> [] \<and>
         distinct (map fst ms) \<and> map_of ms = cleaned env (read_logs api env ns (asked_pods req) s1)"
proof -
  obtain h where h: "g = Inr h" using c g by (cases g) (simp_all add: CreatePodLog_def)
  show "lg_MainPod l = (case g of Inr (Inr t) \<Rightarrow> clean_log env t | _ \<Rightarrow> ''Failed to get argo pod logs'')"
    using c by (cases h) (auto simp: CreatePodLog_def g h Let_def split: option.splits if_splits prod.splits sum.splits)
  show "case lg_ChaosPod l of
       None \<Rightarrow> pr_ChaosNamespace req = None \<or> foldLower (pr_PodType req) \<noteq> ''chaosengine'' \<or> asked_pods req = []
     | Some ms \<Rightarrow> \<exists>ns. pr_ChaosNamespace req = Some ns \<and> foldLower (pr_PodType req) = ''chaosengine'' \<and> asked_pods req \<noteq> [] \<and>
         distinct (map fst ms) \<and> map_of ms = cleaned env (read_logs api env ns (asked_pods req) s1)"
  proof (cases "pr_ChaosNamespace req = None \<or> foldLower (pr_PodType req) \<noteq> ''chaosengine''")
    case True
    then have "lg_ChaosPod l = None" using c by (auto simp: CreatePodLog_def g h Let_def split: option.splits)
    with True show ?thesis by auto
  next
    case False
    then obtain ns where ns: "pr_ChaosNamespace req = Some ns" "foldLower (pr_PodType req) = ''chaosengine''" by auto
    obtain logs s2 ms where a: "add_log api env (pr_ExpPod req) ns [] s1 = (Inr logs, s2)" "add_log api env (pr_RunnerPod req) ns logs s2 = (Inr ms, s')"
      and l: "lg_ChaosPod l = (if pr_ExpPod req = None \<and> pr_RunnerPod req = None then None else Some ms)"
      using c ns by (auto simp: CreatePodLog_def g h Let_def split: prod.splits sum.splits)
    have "map_of ms = cleaned env (read_logs api env ns (asked_pods req) s1)"
      using add_log_eq(1) [OF a(1)] add_log_eq(1) [OF a(2)] add_log_eq(2) [OF a(1)] by (simp add: asked_pods_def cleaned_append)
    moreover have "distinct (map fst ms)" using add_log_distinct [OF a(1)] add_log_distinct [OF a(2)] by simp
    moreover have "pr_ExpPod req = None \<and> pr_RunnerPod req = None \<longleftrightarrow> asked_pods req = []" by (auto simp: asked_pods_def split: option.splits)
    ultimately show ?thesis using l ns by auto
  qed
qed

lemma read_logs_names: "(n, t) \<in> set (read_logs api env ns names s) \<Longrightarrow> n \<in> set names"
proof (induction names arbitrary: s)
  case (Cons a names)
  obtain g s' where "GetLogs api env a ns '''' s = (g, s')" by fastforce
  then show ?case using Cons by (cases g; cases "projr g") auto
qed simp

lemma created_log_ok:
  assumes c: "CreatePodLog api env req s = (Inr l, s')" and n: "pods_named req"
  shows "log_ok env (lg_MainPod l)" "\<forall>ms. lg_ChaosPod l = Some ms \<longrightarrow> list_all (member_ok env) ms"
proof -
  obtain g s1 where g: "GetLogs api env (pr_PodName req) (pr_PodNamespace req) ''main'' s = (g, s1)" by fastforce
  show "log_ok env (lg_MainPod l)"
    using created_log(1) [OF c g] clean_log_ok plain_text_ok(3) by (auto split: sum.splits)
  show "\<forall>ms. lg_ChaosPod l = Some ms \<longrightarrow> list_all (member_ok env) ms"
  proof (intro allI impI)
    fix ms assume "lg_ChaosPod l = Some ms"
    then obtain ns where ms: "distinct (map fst ms)" "map_of ms = cleaned env (read_logs api env ns (asked_pods req) s1)"
      using created_log(2) [OF c g] by auto
    have "member_ok env (n, v)" if nv: "(n, v) \<in> set ms" for n v
    proof -
      have "cleaned env (read_logs api env ns (asked_pods req) s1) n = Some v" using nv ms by (metis map_of_eq_Some_iff)
      then obtain t where "map_of (rev (read_logs api env ns (asked_pods req) s1)) n = Some t" "v = clean_log env t" by (auto simp: cleaned_def)
      then have "n \<in> set (asked_pods req)" and v: "v = clean_log env t" using read_logs_names map_of_SomeD by fastforce+
      then have "list_all ordinary n" using n by (auto simp: asked_pods_def pods_named_def split: option.splits)
      then have "log_ok env n" by (intro log_ok_ascii) (auto simp: list_all_iff log_char_def)
      then show ?thesis using v clean_log_ok by (simp add: member_ok_def)
    qed
    then show "list_all (member_ok env) ms" by (auto simp: list_all_iff)
  qed
qed

text \<open>What the map of chaos logs holds for a pod, when its log is loggable.\<close>

lemma cleaned_read:
  "cleaned env raw n = (case map_of (rev raw) n of None \<Rightarrow> None | Some t \<Rightarrow> Some (clean_log env t))"
  by (simp add: cleaned_def split: option.split)

end
