(* ===== verification/Subscriber_Requests_Claims.thy ===== *)
theory Subscriber_Requests_Claims
  imports Subscriber_Requests_Props Subscriber_Texts
begin

text \<open>
  The claims on starting the subscriber and on executing requests, an executable cluster that satisfies the laws, on which the witnesses
  run, and findings.
\<close>

section \<open>An executable cluster\<close>

record cluster =
  ks_objs :: "(gvr \<times> kobject) list"
  ks_config :: "((string \<times> string) \<times> (string \<times> string) list option) list"
  ks_secrets :: "((string \<times> string) \<times> (string \<times> string) list) list"
  ks_namespaces :: "string list"
  ks_mapping :: "(((string \<times> string) \<times> string) \<times> gvr \<times> bool) list"
  ks_pods :: "((string \<times> string) \<times> pod list) list"
  ks_logs :: "((string \<times> string) \<times> string) list"
  ks_now :: int

definition key_of :: "gvr \<times> kobject \<Rightarrow> obj_key" where
  "key_of e = (fst e, ob_Namespace (snd e), ob_Name (snd e))"

definition ks_find :: "cluster \<Rightarrow> obj_key \<Rightarrow> kobject option" where
  "ks_find c k = map_option snd (find (\<lambda>e. key_of e = k) (ks_objs c))"

definition parse_patch :: "string \<Rightarrow> (string \<times> string) option" where
  "parse_patch p = (case go_split p quote_sign of [_, _, _, f, _, v, _] \<Rightarrow> Some (f, v) | _ \<Rightarrow> None)"

definition not_found :: kube_error where "not_found = NotFound ''not found''"

definition put :: "gvr \<Rightarrow> kobject \<Rightarrow> cluster \<Rightarrow> (kube_error + kobject) \<times> cluster" where
  "put r ob c = (Inr ob, c\<lparr>ks_objs := (r, ob) # ks_objs c\<rparr>)"

definition mem_kube :: "cluster kube_api" where
  "mem_kube = \<lparr>
     api_List = (\<lambda>r ns sel c. (Inr (map snd (filter (\<lambda>e. ks_find c (key_of e) = Some (snd e) \<and> in_collection r ns sel (key_of e) (snd e)) (ks_objs c))), c)),
     api_Get = (\<lambda>k c. (case ks_find c k of None \<Rightarrow> Inl not_found | Some ob \<Rightarrow> Inr ob, c)),
     api_Create = (\<lambda>r ns ob c. if ks_find c (r, ns, ob_Name ob) \<noteq> None then (Inl (AlreadyExists ''exists''), c)
       else put r (ob\<lparr>ob_Namespace := ns, ob_ResourceVersion := ''1''\<rparr>) c),
     api_Update = (\<lambda>r ns ob c. case ks_find c (r, ns, ob_Name ob) of
         None \<Rightarrow> (Inl not_found, c)
       | Some old \<Rightarrow> if ob_ResourceVersion ob \<noteq> '''' \<and> ob_ResourceVersion ob \<noteq> ob_ResourceVersion old then (Inl (Failed ''conflict''), c)
           else put r (ob\<lparr>ob_Namespace := ns, ob_ResourceVersion := ob_ResourceVersion old @ ''1''\<rparr>) c),
     api_Delete = (\<lambda>k c. if ks_find c k = None then (Some not_found, c) else (None, c\<lparr>ks_objs := filter (\<lambda>e. key_of e \<noteq> k) (ks_objs c)\<rparr>)),
     api_DeleteCollection = (\<lambda>r ns sel c. (None, c\<lparr>ks_objs := filter (\<lambda>e. \<not> in_collection r ns sel (key_of e) (the (ks_find c (key_of e)))) (ks_objs c)\<rparr>)),
     api_Patch = (\<lambda>k p c. case (ks_find c k, parse_patch p) of
         (Some old, Some (f, v)) \<Rightarrow> put (fst k) (old\<lparr>ob_Spec := AList.update f v (ob_Spec old), ob_ResourceVersion := ob_ResourceVersion old @ ''1''\<rparr>) c
       | _ \<Rightarrow> (Inl not_found, c)),
     api_RESTMapping = (\<lambda>gk v c. (case map_of (ks_mapping c) (gk, v) of None \<Rightarrow> Inl ''no matches'' | Some m \<Rightarrow> Inr m, c)),
     api_ListPods = (\<lambda>ns sel c. (Inr (case map_of (ks_pods c) (ns, sel) of None \<Rightarrow> [] | Some ps \<Rightarrow> ps), c)),
     api_PodLogs = (\<lambda>p ns k c. (case map_of (ks_logs c) (p, ns) of None \<Rightarrow> Inl not_found | Some t \<Rightarrow> Inr t, c)),
     api_ListNamespaces = (\<lambda>d l tok c. (if d \<le> ks_now c then Inl (Failed ''context deadline exceeded'') else
         let off = nat_of_digits tok in
         Inr (take (min 1 (nat l)) (drop off (ks_namespaces c)), if off + min 1 (nat l) < length (ks_namespaces c) then nat_digits (off + min 1 (nat l)) else ''''),
         c\<lparr>ks_now := ks_now c + 1\<rparr>)),
     api_GetConfigMap = (\<lambda>ns n c. (case map_of (ks_config c) (ns, n) of None \<Rightarrow> Inl not_found | Some d \<Rightarrow> Inr \<lparr>cm_Data = d\<rparr>, c)),
     api_UpdateConfigMap = (\<lambda>ns n cm c. if map_of (ks_config c) (ns, n) = None then (Some not_found, c)
       else (None, c\<lparr>ks_config := AList.update (ns, n) (cm_Data cm) (ks_config c)\<rparr>)),
     api_GetSecret = (\<lambda>ns n c. (case map_of (ks_secrets c) (ns, n) of None \<Rightarrow> Inl not_found | Some d \<Rightarrow> Inr \<lparr>se_Data = d, se_StringData = []\<rparr>, c)),
     api_UpdateSecret = (\<lambda>ns n x c. if map_of (ks_secrets c) (ns, n) = None then (Some not_found, c)
       else (None, c\<lparr>ks_secrets := AList.update (ns, n) (merged x) (ks_secrets c)\<rparr>)),
     api_Sleep = (\<lambda>t c. c\<lparr>ks_now := ks_now c + t\<rparr>),
     api_Now = ks_now\<rparr>"

lemma ks_find_put: "ks_find (c\<lparr>ks_objs := (r, ob) # ks_objs c\<rparr>) = (ks_find c)((r, ob_Namespace ob, ob_Name ob) \<mapsto> ob)"
  by (rule ext) (simp add: ks_find_def key_of_def)

lemma find_in: "find P xs = Some x \<Longrightarrow> P x \<and> x \<in> set xs"
  by (induction xs) (auto split: if_splits)

lemma ks_find_in: "ks_find c k = Some ob \<Longrightarrow> (fst k, ob) \<in> set (ks_objs c) \<and> key_of (fst k, ob) = k"
  by (auto simp: ks_find_def key_of_def dest!: find_in)

lemma ks_find_named: "ks_find c (r, ns, n) = Some ob \<Longrightarrow> ob_Namespace ob = ns \<and> ob_Name ob = n"
  by (auto simp: key_of_def dest!: ks_find_in)

lemma ks_find_filter:
  assumes "\<And>e. P e \<longleftrightarrow> Q (key_of e)"
  shows "ks_find (c\<lparr>ks_objs := filter P (ks_objs c)\<rparr>) k = (if Q k then ks_find c k else None)"
proof -
  have "find (\<lambda>e. key_of e = k) (filter P xs) = (if Q k then find (\<lambda>e. key_of e = k) xs else None)" for xs
    using assms by (induction xs) auto
  then show ?thesis by (simp add: ks_find_def)
qed

lemma parse_spec_patch:
  assumes "plain f" "plain v"
  shows "parse_patch (spec_patch f v) = Some (f, v)"
proof -
  have q: "CHR 0x22 \<notin> set f" "CHR 0x22 \<notin> set v" using assms by (auto simp: plain_def list_all_iff)
  have s: "split_on [CHR 0x22] [] (a @ [CHR 0x22] @ t) = a # split_on [CHR 0x22] [] t" if "CHR 0x22 \<notin> set a" for a t
    using split_on_append [of "[CHR 0x22]" "CHR 0x22" "[]" a "[]" t] that by simp
  have "go_split (spec_patch f v) quote_sign = [''{'', ''spec'', '':{'', f, '':'', v, ''}}'']"
    using s [of "''{''"] s [of "''spec''"] s [of "'':{''"] s [OF q(1)] s [of "'':''"] s [OF q(2)]
    by (simp add: go_split_def spec_patch_def in_quotes_def quote_sign_def)
  then show ?thesis by (simp add: parse_patch_def)
qed

lemma mem_list: "set (map snd (filter (\<lambda>e. ks_find c (key_of e) = Some (snd e) \<and> in_collection r ns sel (key_of e) (snd e)) (ks_objs c))) =
  {ob. \<exists>k. ks_find c k = Some ob \<and> in_collection r ns sel k ob}"
proof (rule set_eqI, unfold set_map set_filter, intro iffI)
  fix ob assume "ob \<in> snd ` {e \<in> set (ks_objs c). ks_find c (key_of e) = Some (snd e) \<and> in_collection r ns sel (key_of e) (snd e)}"
  then obtain e where "ob = snd e" "ks_find c (key_of e) = Some (snd e)" "in_collection r ns sel (key_of e) (snd e)" by blast
  then show "ob \<in> {ob. \<exists>k. ks_find c k = Some ob \<and> in_collection r ns sel k ob}" by blast
next
  fix ob assume "ob \<in> {ob. \<exists>k. ks_find c k = Some ob \<and> in_collection r ns sel k ob}"
  then obtain k where k: "ks_find c k = Some ob" "in_collection r ns sel k ob" by blast
  show "ob \<in> snd ` {e \<in> set (ks_objs c). ks_find c (key_of e) = Some (snd e) \<and> in_collection r ns sel (key_of e) (snd e)}"
    using k ks_find_in [OF k(1)] by (intro image_eqI [where x = "(fst k, ob)"]) simp_all
qed

lemma mem_listed:
  assumes "api_List mem_kube r ns sel c = (Inr xs, c')"
  shows "set xs = {ob. \<exists>k. ks_find c k = Some ob \<and> in_collection r ns sel k ob}"
proof -
  have "xs = map snd (filter (\<lambda>e. ks_find c (key_of e) = Some (snd e) \<and> in_collection r ns sel (key_of e) (snd e)) (ks_objs c))"
    using assms by (auto simp: mem_kube_def)
  then show ?thesis by (simp only: mem_list)
qed

lemma mem_collection: "ks_find (c\<lparr>ks_objs := filter (\<lambda>e. \<not> in_collection r ns sel (key_of e) (the (ks_find c (key_of e)))) (ks_objs c)\<rparr>) =
  all_deleted (in_collection r ns sel) (ks_find c)"
  by (rule ext) (auto simp: ks_find_filter [where Q = "\<lambda>k. \<not> in_collection r ns sel k (the (ks_find c k))"] all_deleted_def split: option.split)

lemma mem_delete: "ks_find (c\<lparr>ks_objs := filter (\<lambda>e. key_of e \<noteq> k) (ks_objs c)\<rparr>) = (ks_find c)(k := None)"
  by (rule ext) (auto simp: ks_find_filter [where Q = "\<lambda>k'. k' \<noteq> k"])

lemma ks_find_other [simp]:
  "ks_find (c\<lparr>ks_now := t\<rparr>) = ks_find c" "ks_find (c\<lparr>ks_config := m\<rparr>) = ks_find c" "ks_find (c\<lparr>ks_secrets := x\<rparr>) = ks_find c"
  by (rule ext, simp add: ks_find_def)+

lemma mem_patched:
  assumes "api_Patch mem_kube k p c = (q, c')"
  obtains e where "q = Inl e" "c' = c" "ks_find c k = None \<or> parse_patch p = None"
  | old f v ob where "ks_find c k = Some old" "parse_patch p = Some (f, v)" "q = Inr ob" "patched f v old ob" "ks_find c' = (ks_find c)(k \<mapsto> ob)"
proof (cases "\<exists>old f v. ks_find c k = Some old \<and> parse_patch p = Some (f, v)")
  case True
  then obtain old f v where o: "ks_find c k = Some old" "parse_patch p = Some (f, v)" by blast
  let ?ob = "old\<lparr>ob_Spec := AList.update f v (ob_Spec old), ob_ResourceVersion := ob_ResourceVersion old @ ''1''\<rparr>"
  have q: "q = Inr ?ob" "c' = c\<lparr>ks_objs := (fst k, ?ob) # ks_objs c\<rparr>" using assms by (auto simp: mem_kube_def o put_def)
  have "(fst k, ob_Namespace ?ob, ob_Name ?ob) = k" using ks_find_in [OF o(1)] by (simp add: key_of_def)
  then have "ks_find c' = (ks_find c)(k \<mapsto> ?ob)" by (simp only: q ks_find_put)
  moreover have "patched f v old ?ob" unfolding patched_def by blast
  ultimately show thesis using that(2) [OF o q(1)] by blast
next
  case False
  then show thesis using assms that(1) by (auto simp: mem_kube_def split: option.splits)
qed

definition ks_rest :: "cluster \<Rightarrow> string \<Rightarrow> string list" where
  "ks_rest c tok = drop (nat_of_digits tok) (ks_namespaces c)"

lemma mem_chunk:
  assumes "api_ListNamespaces mem_kube d l tok c = (Inr (nms, tok'), c')"
  shows "(if tok = '''' then ks_namespaces c else ks_rest c tok) = nms @ (if tok' = '''' then [] else ks_rest c' tok')"
proof -
  let ?o = "nat_of_digits tok" and ?xs = "ks_namespaces c"
  have e: "nms = take (min 1 (nat l)) (drop ?o ?xs)" "tok' = (if ?o + min 1 (nat l) < length ?xs then nat_digits (?o + min 1 (nat l)) else '''')" "ks_namespaces c' = ?xs"
    using assms by (auto simp: mem_kube_def Let_def split: if_splits)
  have z: "tok = '''' \<Longrightarrow> ?o = 0" by (simp add: nat_of_digits_def)
  have "drop ?o ?xs = nms @ drop (?o + min 1 (nat l)) ?xs" unfolding e(1) by (metis append_take_drop_id drop_drop add.commute)
  moreover have "(if tok' = '''' then [] else ks_rest c' tok') = drop (?o + min 1 (nat l)) ?xs" by (simp add: e(2,3) ks_rest_def)
  ultimately show ?thesis using z by (auto simp: ks_rest_def)
qed

interpretation mem: kube_cluster mem_kube ks_find "\<lambda>c. map_of (ks_config c)" "\<lambda>c. map_of (ks_secrets c)" ks_namespaces ks_rest
  by (unfold_locales; (erule ks_find_named mem_listed mem_chunk)?;
    ((erule mem_patched, auto simp: parse_spec_patch)
    | auto simp: mem_kube_def mem_collection mem_delete put_def ks_find_put same_content_def not_found_def update_conv'
        dest: ks_find_named split: if_splits option.splits))

lemma mem_cluster: "kube_cluster mem_kube ks_find (\<lambda>c. map_of (ks_config c)) (\<lambda>c. map_of (ks_secrets c)) ks_namespaces ks_rest"
  by (rule mem.kube_cluster_axioms)

lemma mem_responsive: "responsive mem_kube ks_find"
proof -
  have "\<exists>xs s'. api_List mem_kube r ns sel s = (Inr xs, s')" for r ns sel s by (simp add: mem_kube_def)
  moreover have "\<exists>o' s'. api_Patch mem_kube k (spec_patch f v) s = (Inr o', s')" if "plain f" "plain v" "ks_find s k \<noteq> None" for k f v s
  proof -
    obtain q c where "api_Patch mem_kube k (spec_patch f v) s = (q, c)" by fastforce
    then show ?thesis using that by (auto elim!: mem_patched simp: parse_spec_patch)
  qed
  ultimately show ?thesis by (simp add: responsive_def)
qed

section \<open>A deployment\<close>

definition sample_action :: raw_action where
  "sample_action = \<lparr>ac_RequestID = ''q1'', ac_K8SManifest = ''engine'', ac_ExternalData = '''', ac_RequestType = ''create'', ac_Username = ''admin'',
     ac_Namespace = ''litmus''\<rparr>"

definition sample_engine :: "string \<Rightarrow> string \<Rightarrow> kobject" where
  "sample_engine name run = empty_object\<lparr>ob_Kind := ''ChaosEngine'', ob_APIVersion := ''litmuschaos.io/v1alpha1'', ob_Name := name,
     ob_Namespace := ''litmus'', ob_Labels := Some [(''workflow_run_id'', run), (''updated_by'', ''x'')], ob_Spec := [(''engineState'', ''active'')]\<rparr>"

definition sample_workflow :: "string \<Rightarrow> string \<Rightarrow> kobject" where
  "sample_workflow name uid = empty_object\<lparr>ob_Kind := ''Workflow'', ob_APIVersion := ''argoproj.io/v1alpha1'', ob_Name := name,
     ob_Namespace := ''litmus'', ob_UID := uid\<rparr>"

definition sample_config :: kube_config where
  "sample_config = \<lparr>kc_Host = ''api'', kc_QPS = 0, kc_Burst = 0, kc_Timeout = 0\<rparr>"

definition sample_payload :: payload where
  "sample_payload = \<lparr>pl_Errors = None, pl_InfraConfirm = \<lparr>ic_IsInfraConfirmed = True, ic_NewAccessKey = ''k2'', ic_InfraID = ''i1''\<rparr>, pl_Action = sample_action\<rparr>"

definition sample_agent_env :: agent_env where
  "sample_agent_env = \<lparr>
     Getenv = (\<lambda>n. if n = ''INFRA_NAMESPACE'' then ''litmus'' else if n = ''INFRA_SCOPE'' then ''cluster'' else ''''),
     KubeConfig = '''', InClusterConfig = Inr sample_config, BuildConfigFromFlags = (\<lambda>_. Inr sample_config), ParseFloat32 = (\<lambda>_. None),
     NewClientset = (\<lambda>_. None), NewDiscoveryClient = (\<lambda>_. None), NewDynamicClient = (\<lambda>_. None), NewWorkflowClient = (\<lambda>_. None),
     NewRequest = (\<lambda>_. None), DoRequest = (\<lambda>_ _. Inr ''ok''), JSONToYAML = Inr, IsPrint = (\<lambda>n. n \<noteq> 0xA0),
     DecodeObject = (\<lambda>t. if t = ''engine'' then Inr (sample_engine ''e3'' ''r2'', (''litmuschaos.io'', ''ChaosEngine''), ''v1alpha1'')
       else Inr ((sample_engine '''' ''r1''), (''litmuschaos.io'', ''ChaosEngine''), ''v1alpha1'')),
     FormatLabels = (\<lambda>ls. go_join '','' (map (\<lambda>(k, v). k @ ''='' @ v) ls)),
     ReadComponents = (\<lambda>_. Inr [''app=chaos-exporter'']), MarshalKubeObject = (\<lambda>_. Inr ''{}''), UnmarshalKubeObject = (\<lambda>_. Inr None),
     UnmarshalKubeObjRequest = (\<lambda>_ r. Inr r), UnmarshalNamespaceRequest = (\<lambda>_ r. Inr r), UnmarshalPodLogRequest = (\<lambda>_ r. Inr r),
     UnmarshalRawData = (\<lambda>_. Inl ''syntax''), UnmarshalPayload = (\<lambda>_. Inr sample_payload),
     ParseURL = (\<lambda>_. Inr (''http'', ''server'', '''')), Dial = (\<lambda>_. None)\<rparr>"

definition sample_data :: "string \<Rightarrow> string" where
  "sample_data n = (if n = ''INFRA_NAMESPACE'' then ''litmus'' else if n = ''ACCESS_KEY'' then ''k1'' else if n = ''COMPONENTS'' then ''c'' else '''')"

text \<open>Text with double quotes, a line feed, a backslash, a letter with an accent and a space that is not printable.\<close>

definition sample_log :: string where
  "sample_log = ''all '' @ [dquote] @ ''good'' @ [dquote, CHR 0x0A, CHR 0x5C, CHR 0xC3, CHR 0xA9, CHR 0xC2, CHR 0xA0]"

definition sample_cluster :: cluster where
  "sample_cluster = \<lparr>ks_objs = [(chaosengines, sample_engine ''e1'' ''r1''), (chaosengines, sample_engine ''e2'' ''r2''), (workflows, sample_workflow ''w1'' ''r1'')],
     ks_config = [((''litmus'', ''subscriber-config''), Some [(''IS_INFRA_CONFIRMED'', ''false'')])],
     ks_secrets = [((''litmus'', ''subscriber-secret''), [(''ACCESS_KEY'', ''k1'')])],
     ks_namespaces = [''default'', ''litmus''], ks_mapping = [(((''litmuschaos.io'', ''ChaosEngine''), ''v1alpha1''), chaosengines, True)],
     ks_pods = [((''litmus'', ''app=chaos-exporter''), [\<lparr>po_Phase = ''Running'', po_Ready = [True]\<rparr>])],
     ks_logs = [((''p1'', ''litmus''), sample_log)], ks_now = 0\<rparr>"

definition sample_agent :: "cluster agent" where
  "sample_agent = \<lparr>ag_clientset = None, ag_dr = None, ag_posted = [], ag_cluster = sample_cluster\<rparr>"

lemma split_join_comma:
  assumes "ts \<noteq> []" "list_all (\<lambda>t. CHR '','' \<notin> set t) ts"
  shows "go_split (go_join '','' ts) '','' = ts"
  using assms
proof (induction "'',''" ts rule: go_join.induct)
  case (2 x)
  then show ?case using split_on_nosep [of "CHR '',''" "'',''" x "[]"] by (simp add: go_split_def)
next
  case (3 x y ys)
  then show ?case using split_on_append [of "'',''" "CHR '',''" "[]" x "[]"] by (simp add: go_split_def)
qed simp

lemma sample_formats: "formats_labels sample_agent_env"
  unfolding formats_labels_def
proof (intro allI impI)
  fix ls :: "(string \<times> string) list" and m :: "string \<Rightarrow> string option"
  let ?t = "\<lambda>(k, v). k @ ''='' @ v"
  assume s: "selectable ls"
  have lv: "CHR '','' \<notin> set k" "CHR '','' \<notin> set v" "CHR ''='' \<notin> set k" "CHR ''='' \<notin> set v" if "(k, v) \<in> set ls" for k v
  proof -
    have "label_value k \<and> label_value v" using s that by (auto simp: selectable_def list_all_iff)
    then show "CHR '','' \<notin> set k" "CHR '','' \<notin> set v" "CHR ''='' \<notin> set k" "CHR ''='' \<notin> set v"
      unfolding label_value_def list_all_iff by blast+
  qed
  have c: "list_all (\<lambda>t. CHR '','' \<notin> set t) (map ?t ls)"
    unfolding list_all_iff using lv(1,2) by fastforce
  have e: "go_split (k @ ''='' @ v) ''='' = [k, v]" if "(k, v) \<in> set ls" for k v
    using split_on_append [of "''=''" "CHR ''=''" "[]" k "[]" v] split_on_nosep [of "CHR ''=''" "''=''" v "[]"] lv(3,4) [OF that] by (simp add: go_split_def)
  have n: "go_join '','' (map ?t ls) \<noteq> ''''" using s by (cases ls rule: list.exhaust [case_names Nil Cons]; cases "tl ls") (auto simp: selectable_def split: prod.splits)
  have "selects (go_join '','' (map ?t ls)) m \<longleftrightarrow> list_all (\<lambda>q. case go_split q ''='' of [k, v] \<Rightarrow> m k = Some v | _ \<Rightarrow> False) (map ?t ls)"
    using n split_join_comma [OF _ c] s by (simp add: selects_def selectable_def)
  also have "\<dots> \<longleftrightarrow> (\<forall>(k, v)\<in>set ls. m k = Some v)" using e by (fastforce simp: list_all_iff)
  finally show "selects (FormatLabels sample_agent_env ls) m \<longleftrightarrow> (\<forall>(k, v)\<in>set ls. m k = Some v)" by (simp add: sample_agent_env_def)
qed

section \<open>Claims\<close>

definition labelled :: "raw_action \<Rightarrow> kobject \<Rightarrow> kobject" where
  "labelled act obj = (if ac_RequestType act = ''delete'' then obj else addCustomLabels obj [(''updated_by'', raw_url_encode (ac_Username act))])"


definition delete_by_label :: raw_action where
  "delete_by_label = sample_action\<lparr>ac_K8SManifest := ''label'', ac_RequestType := ''delete''\<rparr>"

definition after_delete :: "(cluster agent, unit) outcome option" where
  "after_delete = RequestProcessor mem_kube sample_agent_env sample_data delete_by_label sample_agent"


text \<open>
  C39: The list of namespaces is answered: the loop over the chunks ends, whatever the API server does, at the latest when the time of the
  request is over; the names it answers with are all namespaces of the cluster, or in namespace scope the one of the infrastructure; nothing is changed.
\<close>

theorem namespaces_listed:
  assumes "kube_cluster api objs cms secs nss rest"
  shows "\<exists>r s'. GetKubernetesNamespaces api env s = Some (r, s') \<and> objs (ag_cluster s') = objs (ag_cluster s) \<and>
    (\<forall>names. r = Inr (Inr names) \<longrightarrow>
       names = (if foldLower (InfraScope env) = ''namespace'' then [InfraNamespace env] else nss (ag_cluster s)))"
proof (cases "foldLower (InfraScope env) = ''namespace''")
  case False
  obtain w s1 where w: "GetGenericK8sClient env s = (w, s1)" by fastforce
  have s1: "ag_cluster s1 = ag_cluster s" using w by (auto simp: GetGenericK8sClient_def Let_def of_error_def split: option.splits)
  obtain r c where "namespace_chunks api (api_Now api (ag_cluster s1) + 30 * 10 ^ 9) '''' [] (ag_cluster s1) = Some (r, c)" "objs c = objs (ag_cluster s1)"
    "\<forall>names. r = Inr names \<longrightarrow> names = nss (ag_cluster s1)"
    using kube_cluster.chunks_return [OF assms, of "api_Now api (ag_cluster s1) + 30 * 10 ^ 9" "''''" "[]" "ag_cluster s1"] by auto
  then show ?thesis using False s1 by (auto simp: GetKubernetesNamespaces_def w split: sum.splits)
qed (simp add: GetKubernetesNamespaces_def)

theorem namespaces_listed_witness:
  "(case GetKubernetesNamespaces mem_kube sample_agent_env sample_agent of Some (Inr (Inr names), _) \<Rightarrow> names = [''default'', ''litmus''] | _ \<Rightarrow> False)"
proof -
  have "(case GetKubernetesNamespaces mem_kube sample_agent_env sample_agent of Some (Inr (Inr names), _) \<Rightarrow> True | _ \<Rightarrow> False)" by code_simp
  then obtain names s' where r: "GetKubernetesNamespaces mem_kube sample_agent_env sample_agent = Some (Inr (Inr names), s')"
    by (auto split: option.splits prod.splits sum.splits)
  have "foldLower (InfraScope sample_agent_env) \<noteq> ''namespace''" by code_simp
  with namespaces_listed [OF mem_cluster, of sample_agent_env sample_agent] r have "names = ks_namespaces (ag_cluster sample_agent)" by auto
  then show ?thesis unfolding r by (simp add: sample_agent_def sample_cluster_def)
qed

text \<open>
  C38: An agent whose start was completed and left it confirmed keeps its access key: when it is started again, and that start is completed too, it goes on
  with the key of the first start and does not send another request to be confirmed, however its settings are. (A first start that fails between the two
  writes of the registration is another matter: see \<^verbatim>\<open>key_lost\<close>.)
\<close>

theorem confirmed_key_kept:
  assumes "kube_cluster api objs cms secs nss rest"
    and "init_agent api env d s = (Inr (Inr d1), s1)" and "agent_confirmed (cms (ag_cluster s1)) env"
    and "init_agent api env d' (s1\<lparr>ag_clientset := None\<rparr>) = (Inr (Inr d2), s2)"
  shows "d2 ''ACCESS_KEY'' = d1 ''ACCESS_KEY'' \<and> ag_posted s2 = ag_posted s1"
proof -
  have k: "d1 ''ACCESS_KEY'' = stored_key (secs (ag_cluster s1)) env"
    using assms(3) by (rule_tac kube_cluster.init_ok [OF assms(1,2)]) auto
  show ?thesis using assms(3) k by (rule_tac kube_cluster.init_ok [OF assms(1,4)]) auto
qed

definition first_start :: "(cluster agent, string \<Rightarrow> string) outcome" where
  "first_start = init_agent mem_kube sample_agent_env sample_data sample_agent"

definition second_start :: "(cluster agent, string \<Rightarrow> string) outcome" where
  "second_start = init_agent mem_kube sample_agent_env sample_data ((snd first_start)\<lparr>ag_clientset := None\<rparr>)"

theorem confirmed_key_kept_witness:
  "(case fst second_start of Inr (Inr d) \<Rightarrow> d ''ACCESS_KEY'' = ''k2'' | _ \<Rightarrow> False) \<and> length (ag_posted (snd second_start)) = 1"
proof -
  have "(case fst first_start of Inr (Inr d) \<Rightarrow> d ''ACCESS_KEY'' = ''k2'' | _ \<Rightarrow> False)" by code_simp
  then obtain d1 where d1: "first_start = (Inr (Inr d1), snd first_start)" "d1 ''ACCESS_KEY'' = ''k2''"
    by (cases first_start) (auto split: sum.splits dest: pairI)
  have "(case fst second_start of Inr (Inr d) \<Rightarrow> True | _ \<Rightarrow> False)" by code_simp
  then obtain d2 where d2: "second_start = (Inr (Inr d2), snd second_start)"
    by (cases second_start) (auto split: sum.splits dest: pairI)
  have "map_of (the (the (map_of (ks_config (ag_cluster (snd first_start))) (InfraNamespace sample_agent_env, InfraConfigName)))) ''IS_INFRA_CONFIRMED'' = Some ''true'' \<and>
    map_of (ks_config (ag_cluster (snd first_start))) (InfraNamespace sample_agent_env, InfraConfigName) =
      Some (Some (the (the (map_of (ks_config (ag_cluster (snd first_start))) (InfraNamespace sample_agent_env, InfraConfigName)))))" by code_simp
  then have "agent_confirmed (map_of (ks_config (ag_cluster (snd first_start)))) sample_agent_env" unfolding agent_confirmed_def by blast
  moreover have "init_agent mem_kube sample_agent_env sample_data sample_agent = (Inr (Inr d1), snd first_start)"
    "init_agent mem_kube sample_agent_env sample_data ((snd first_start)\<lparr>ag_clientset := None\<rparr>) = (Inr (Inr d2), snd second_start)"
    using d1(1) d2 by (metis first_start_def, metis second_start_def)
  ultimately
  have "d2 ''ACCESS_KEY'' = ''k2''" "ag_posted (snd second_start) = ag_posted (snd first_start)"
    using confirmed_key_kept [OF mem_cluster] d1(2) by metis+
  moreover have "length (ag_posted (snd first_start)) = 1" by code_simp
  moreover have "fst second_start = Inr (Inr d2)" using d2 by (metis fst_conv)
  ultimately show ?thesis by simp
qed

text \<open>
  C40: The logs of a pod reach the server as they were read. The value of the argument \<^verbatim>\<open>log\<close> of the query is, after the JSON of the body and the string of
  the query have been read, the JSON text of the logs. Its entry for the main container holds the log, or a fixed text if the log cannot be read; for a chaos engine with a
  chaos namespace it has an entry for the experiment pod and for the runner pod if they are asked for and their log can be read, and no other. Every
  entry whose log is loggable (valid UTF-8, no control characters but backspace, tab, line feed, form feed and carriage return, and no unprintable characters beyond sixteen bits) reads as that log with its
  double quotes made single ones. The names of the two pods are plain ASCII without quotes and backslashes.
\<close>

theorem log_read_back:
  assumes "GenerateLogPayload api env d req s = (Inr body, s')" "pods_named req"
    and "GetLogs api env (pr_PodName req) (pr_PodNamespace req) ''main'' s = (g, s1)"
  shows "\<exists>logs pre t. CreatePodLog api env req s = (Inr logs, s') \<and>
    body = pre @ ''log:'' @ escaped t @ ''} )}'' @ [dquote] @ ''}'' \<and> read_value t = Some (pod_log_text logs) \<and>
    (case g of
       Inr (Inr l) \<Rightarrow> loggable env l \<longrightarrow> unescape (lg_MainPod logs) = Some (single_quoted l)
     | _ \<Rightarrow> lg_MainPod logs = ''Failed to get argo pod logs'') \<and>
    (case lg_ChaosPod logs of
       None \<Rightarrow> pr_ChaosNamespace req = None \<or> foldLower (pr_PodType req) \<noteq> ''chaosengine'' \<or> asked_pods req = []
     | Some ms \<Rightarrow> \<exists>ns. pr_ChaosNamespace req = Some ns \<and> (\<forall>n. case map_of (rev (read_logs api env ns (asked_pods req) s1)) n of
           None \<Rightarrow> map_of ms n = None
         | Some l \<Rightarrow> \<exists>v. map_of ms n = Some v \<and> (loggable env l \<longrightarrow> unescape v = Some (single_quoted l))))"
proof -
  obtain logs where logs: "CreatePodLog api env req s = (Inr logs, s')"
    using assms(1) by (cases "CreatePodLog api env req s"; cases "fst (CreatePodLog api env req s)") (auto simp: GenerateLogPayload_def Let_def)
  have "json_pod_log logs \<noteq> [] \<and> last (json_pod_log logs) \<noteq> backslash" by (simp add: json_pod_log_def backslash_def)
  then obtain p where p: "MarshalGQLData env (Inr (json_pod_log logs)) = Inr p" "read_value (inner p) = Some (pod_log_text logs)"
    using reads_value [OF reads_pod_log [OF created_log_ok [OF logs assms(2)]]] by blast
  have "body = (''{'' @ in_quotes ''query'' @ '':'' @ [dquote] @ ''mutation { podLog(request:{ infraID: ''
      @ identity_text (d ''INFRA_ID'') (d ''ACCESS_KEY'') (d ''VERSION'') @ '', requestID:'' @ escaped (pr_RequestID req)
      @ '', experimentRunID: '' @ escaped (pr_ExperimentRunID req) @ '', podName: '' @ escaped (pr_PodName req)
      @ '', podType: '' @ escaped (pr_PodType req) @ '', '') @ ''log:'' @ escaped (inner p) @ ''} )}'' @ [dquote] @ ''}''"
    using assms(1) by (simp add: GenerateLogPayload_def logs p(1) query_body_def in_quotes_eq [of "_ @ _"] in_quotes_def quote_sign_def dquote_def)
  moreover have "case g of Inr (Inr l) \<Rightarrow> loggable env l \<longrightarrow> unescape (lg_MainPod logs) = Some (single_quoted l)
     | _ \<Rightarrow> lg_MainPod logs = ''Failed to get argo pod logs''"
    using created_log(1) [OF logs assms(3)] clean_log_read [of env] by (simp split: sum.split)
  moreover have "case lg_ChaosPod logs of
       None \<Rightarrow> pr_ChaosNamespace req = None \<or> foldLower (pr_PodType req) \<noteq> ''chaosengine'' \<or> asked_pods req = []
     | Some ms \<Rightarrow> \<exists>ns. pr_ChaosNamespace req = Some ns \<and> (\<forall>n. case map_of (rev (read_logs api env ns (asked_pods req) s1)) n of
           None \<Rightarrow> map_of ms n = None
         | Some l \<Rightarrow> \<exists>v. map_of ms n = Some v \<and> (loggable env l \<longrightarrow> unescape v = Some (single_quoted l)))"
    using created_log(2) [OF logs assms(3)] clean_log_read [of env] by (auto simp: cleaned_read split: option.splits)
  ultimately show ?thesis using logs p(2) by blast
qed

definition sample_log_request :: pod_log_request where
  "sample_log_request = \<lparr>pr_RequestID = ''q1'', pr_InfraID = ''i1'', pr_ExperimentRunID = ''r1'', pr_PodName = ''p1'', pr_PodNamespace = ''litmus'',
     pr_PodType = ''ChaosEngine'', pr_ExpPod = Some ''p1'', pr_RunnerPod = Some ''p2'', pr_ChaosNamespace = Some ''litmus''\<rparr>"

definition sample_logs :: "pod_log go \<times> cluster agent" where
  "sample_logs = CreatePodLog mem_kube sample_agent_env sample_log_request sample_agent"

theorem log_read_back_witness:
  "\<exists>logs ms v. fst sample_logs = Inr logs \<and> unescape (lg_MainPod logs) = Some (single_quoted sample_log) \<and>
     lg_ChaosPod logs = Some ms \<and> map_of ms ''p1'' = Some v \<and> unescape v = Some (single_quoted sample_log) \<and> map_of ms ''p2'' = None"
proof -
  let ?g = "GenerateLogPayload mem_kube sample_agent_env sample_data sample_log_request sample_agent"
  let ?m = "GetLogs mem_kube sample_agent_env (pr_PodName sample_log_request) (pr_PodNamespace sample_log_request) ''main'' sample_agent"
  have "\<not> isl (fst ?g)" by code_simp
  then obtain body where g: "?g = (Inr body, snd ?g)" by (cases ?g; cases "fst ?g") auto
  have n: "pods_named sample_log_request" by (auto simp: pods_named_def sample_log_request_def ordinary_def dquote_def backslash_def)
  have "fst ?m = Inr (Inr sample_log)" by code_simp
  then have m: "?m = (Inr (Inr sample_log), snd ?m)" by (metis prod.collapse)
  have c: "loggable sample_agent_env sample_log" by code_simp
  have r: "read_logs mem_kube sample_agent_env ''litmus'' (asked_pods sample_log_request) (snd ?m) = [(''p1'', sample_log)]"
    "asked_pods sample_log_request \<noteq> []" by code_simp+
  have q: "pr_ChaosNamespace sample_log_request = Some ''litmus''" "foldLower (pr_PodType sample_log_request) = ''chaosengine''" by code_simp+
  from log_read_back [OF g n m] obtain logs where l: "CreatePodLog mem_kube sample_agent_env sample_log_request sample_agent = (Inr logs, snd ?g)"
    "loggable sample_agent_env sample_log \<longrightarrow> unescape (lg_MainPod logs) = Some (single_quoted sample_log)"
    "case lg_ChaosPod logs of
       None \<Rightarrow> pr_ChaosNamespace sample_log_request = None \<or> foldLower (pr_PodType sample_log_request) \<noteq> ''chaosengine'' \<or> asked_pods sample_log_request = []
     | Some ms \<Rightarrow> \<exists>ns. pr_ChaosNamespace sample_log_request = Some ns \<and>
         (\<forall>n. case map_of (rev (read_logs mem_kube sample_agent_env ns (asked_pods sample_log_request) (snd ?m))) n of
           None \<Rightarrow> map_of ms n = None
         | Some l \<Rightarrow> \<exists>v. map_of ms n = Some v \<and> (loggable sample_agent_env l \<longrightarrow> unescape v = Some (single_quoted l)))"
    unfolding sum.case by blast
  obtain ms where ms: "lg_ChaosPod logs = Some ms" using l(3) q r(2) by (cases "lg_ChaosPod logs") auto
  have v: "\<forall>n. case map_of (rev (read_logs mem_kube sample_agent_env ''litmus'' (asked_pods sample_log_request) (snd ?m))) n of
           None \<Rightarrow> map_of ms n = None
         | Some l \<Rightarrow> \<exists>v. map_of ms n = Some v \<and> (loggable sample_agent_env l \<longrightarrow> unescape v = Some (single_quoted l))"
    using l(3) q(1) unfolding ms by simp
  show ?thesis using v [rule_format, of "''p1''"] v [rule_format, of "''p2''"] l(1,2) c ms unfolding r(1) by (simp add: sample_logs_def)
qed

section \<open>Findings\<close>

text \<open>A control character in a log, as in coloured output, makes a string that is not JSON, and so does a byte that is not UTF-8.\<close>

lemma coloured_log_unreadable:
  "unescape (clean_log sample_agent_env [CHR 0x1B, CHR ''['', CHR ''3'', CHR ''1'', CHR ''m'']) = None"
  "unescape (clean_log sample_agent_env [CHR 0xFF]) = None"
  by code_simp+

text \<open>A quote inside a JSON string is escaped once too little: the string of the query ends there.\<close>

lemma quote_ends_value:
  "(case MarshalGQLData sample_agent_env (Inr (json_string [dquote])) of Inr p \<Rightarrow> read_value (inner p) | _ \<Rightarrow> Some '''') = None"
  by code_simp

text \<open>To stop or delete a run whose workflow is not in the cluster (any more) ends the subscriber with a panic.\<close>

lemma missing_workflow_panics:
  "fst (WorkflowRequest mem_kube sample_agent_env sample_data ''workflow_run_stop'' ''r9'' sample_agent) = Inl NilDereference"
  "fst (WorkflowRequest mem_kube sample_agent_env sample_data ''workflow_run_delete'' ''r9'' sample_agent) = Inl NilDereference"
  by code_simp+

text \<open>
  When a workflow is deleted its engines are looked up under a namespace that is never set: no engine is stopped.
\<close>

definition labelled_workflow :: kobject where
  "labelled_workflow = (sample_workflow ''w1'' ''r1'')\<lparr>ob_Labels := Some [(''workflow_id'', ''e1'')]\<rparr>"

definition one_workflow :: "cluster agent" where
  "one_workflow = sample_agent\<lparr>ag_cluster := sample_cluster\<lparr>ks_objs := [(chaosengines, sample_engine ''e1'' ''r1''), (workflows, labelled_workflow)]\<rparr>\<rparr>"

lemma deleted_workflow_keeps_running:
  "(let r = WorkflowRequest mem_kube sample_agent_env sample_data ''workflow_delete'' ''e1'' one_workflow in
    fst r = Inr (Inr ()) \<and> ks_objs (ag_cluster (snd r)) = [(chaosengines, sample_engine ''e1'' ''r1'')])"
  by code_simp

text \<open>
  The confirmation is stored before the key: when the second write fails the agent ends, and after a restart it goes on with the old key, which
  the server does not accept any more.
\<close>

definition secret_fails :: "cluster kube_api" where
  "secret_fails = mem_kube\<lparr>api_UpdateSecret := (\<lambda>ns n x c. (Some (Failed ''timeout''), c))\<rparr>"

lemma key_lost:
  "(let r = init_agent secret_fails sample_agent_env sample_data sample_agent in
    (case fst r of Inl p \<Rightarrow> p = FatalExit | _ \<Rightarrow> False) \<and>
    (case fst (init_agent mem_kube sample_agent_env sample_data ((snd r)\<lparr>ag_clientset := None\<rparr>)) of
       Inr (Inr d) \<Rightarrow> d ''ACCESS_KEY'' = ''k1'' | _ \<Rightarrow> False))"
  by code_simp

text \<open>A request whose type is a piece of a word is taken for that word, and one type can be taken for several.\<close>

lemma type_is_fragment: "mentioned ''kubeobject kubeobjects'' ''e'' \<and> mentioned ''kubenamespace kubenamespaces'' ''e'' \<and> mentioned ''create update delete get'' ''e''"
  by code_simp

text \<open>The type is compared without regard to case, but executed with regard to it.\<close>

lemma upper_case_refused:
  "(case RequestProcessor mem_kube sample_agent_env sample_data (sample_action\<lparr>ac_RequestType := ''Create''\<rparr>) sample_agent of
      Some (Inr (Inl e), _) \<Rightarrow> e = ''error performing infra operation: err: Invalid Request'' @ [CHR 0x0A] | _ \<Rightarrow> False)"
  by code_simp

text \<open>An error of the list request is answered as an empty list.\<close>

lemma list_error_hidden:
  "fst (GetObjectDataByNamespace (mem_kube\<lparr>api_List := (\<lambda>r ns sel c. (Inl (Failed ''forbidden''), c))\<rparr>) ''litmus'' chaosengines sample_agent) = []"
  by code_simp

text \<open>The first error of making the client set is the answer for ever, even when the configuration has become valid.\<close>

lemma client_error_kept:
  assumes "GetGenericK8sClient env s = (Inr (Inl e), s')"
  shows "fst (GetGenericK8sClient env' s') = Inr (Inl e)"
  using assms by (auto simp: GetGenericK8sClient_def Let_def of_error_def split: option.splits sum.splits dest!: sym [of "Some _"])

end
