(* ===== verification/Stop_Run.thy ===== *)
theory Stop_Run
  imports Gql_Runs_Props Subscriber_Requests_Claims
begin

text \<open>
  Stopping a run, from the request of the user at the GraphQL server to the objects of the cluster: the request the server sends
  (\<^verbatim>\<open>StopExperimentRuns\<close>, \<^verbatim>\<open>SendRequestToSubscriber\<close>) and what the subscriber makes of it (\<^verbatim>\<open>RequestProcessor\<close>).
\<close>

text \<open>The action of a request as it arrives; an absent field is read as the empty string.\<close>

definition action_of :: "subscriber_request \<Rightarrow> raw_action" where
  "action_of r = \<lparr>ac_RequestID = '''', ac_K8SManifest = sr_K8sManifest r, ac_ExternalData = (case sr_ExternalData r of None \<Rightarrow> '''' | Some e \<Rightarrow> e),
     ac_RequestType = sr_RequestType r, ac_Username = (case sr_Username r of None \<Rightarrow> '''' | Some u \<Rightarrow> u), ac_Namespace = sr_Namespace r\<rparr>"

context exp_db
begin

lemma stop_signal:
  assumes "StopExperimentRuns x env p eid rid nid u s = (Inr (Inr b), s', sg)" "nonempty_id rid \<noteq> None \<or> nonempty_id nid \<noteq> None" "x_namespace env '''' = Inr ns"
  shows "case nonempty_id rid of None \<Rightarrow> sg = []
    | Some r \<Rightarrow> \<exists>rq. sg = [SubscriberRequest rq] \<and> sr_RequestType rq = ''workflow_run_stop'' \<and> sr_ExternalData rq = Some r"
proof -
  obtain e r n where p: "ProcessExperimentRunStop x env (stop_target p eid rid nid) r n e u p s = (None, s', sg)"
    and r: "r = (case nonempty_id rid of None \<Rightarrow> '''' | Some r \<Rightarrow> r)"
    by (rule stop_by_id [OF assms(1,2)])
  have "sg = (if r \<noteq> '''' then SendExperimentToSubscriber env p '''' (ex_InfraID e) (Some u) (Some r) ''workflow_run_stop'' else [])"
    using p by (auto simp: ProcessExperimentRunStop_def split: prod.splits option.splits if_splits)
  moreover have "nonempty_id rid = Some q \<Longrightarrow> q \<noteq> ''''" for q by (auto simp: nonempty_id_def split: option.splits if_splits)
  ultimately show ?thesis using assms(3) by (auto simp: SendExperimentToSubscriber_def r split: option.splits)
qed

end

text \<open>
  C36: What becomes of a request to stop a run that succeeds at the server. By a run identifier: one request is sent to the subscriber. Whatever becomes of it there, it
  changes at most chaos engines of the run in the namespace of the infrastructure, which are set to stop, and the workflow of the run, which is shut
  down; and if the subscriber executes it without an error or a panic, could make its client, and the API server answered every list and patch request, then all engines
  of the run are set to stop and its workflow is shut down. (Errors of these calls are only logged.) By a notification identifier alone: nothing is sent. The run
  identifier is a label value, the namespace of the infrastructure is set, and the server can decode an empty manifest.
\<close>

theorem stop_reaches_cluster:
  assumes "exp_db x xdocs rundocs pbdocs idocs edocs udocs pdocs rdocs adocs cdocs"
    and "StopExperimentRuns x env p eid rid nid u s = (Inr (Inr b), s', sg)" "nonempty_id rid \<noteq> None \<or> nonempty_id nid \<noteq> None"
    and "x_namespace env '''' = Inr ns" and "kube_cluster api objs cms secs nss rest" and "d ''INFRA_NAMESPACE'' \<noteq> ''''"
  shows "case nonempty_id rid of None \<Rightarrow> sg = []
    | Some r \<Rightarrow> \<exists>rq. sg = [SubscriberRequest rq] \<and>
       (\<forall>a a' res. label_value r \<and> RequestProcessor api aenv d (action_of rq) a = Some (res, a') \<longrightarrow>
          only_stopped (d ''INFRA_NAMESPACE'') r (objs (ag_cluster a)) (objs (ag_cluster a')) \<and>
          (res = Inr (Inr ()) \<and> responsive api objs \<and> GetDynamicAndDiscoveryClient aenv = None \<longrightarrow>
             run_stopped (d ''INFRA_NAMESPACE'') r (objs (ag_cluster a)) (objs (ag_cluster a'))))"
proof (cases "nonempty_id rid")
  case None
  then show ?thesis using exp_db.stop_signal [OF assms(1-4)] by simp
next
  case (Some r)
  then obtain rq where rq: "sg = [SubscriberRequest rq]" "sr_RequestType rq = ''workflow_run_stop''" "sr_ExternalData rq = Some r"
    using exp_db.stop_signal [OF assms(1-4)] by auto
  have t: "ac_RequestType (action_of rq) = ''workflow_run_stop''" "ac_ExternalData (action_of rq) = r" by (simp_all add: action_of_def rq)
  have "only_stopped (d ''INFRA_NAMESPACE'') r (objs (ag_cluster a)) (objs (ag_cluster a')) \<and>
          (res = Inr (Inr ()) \<and> responsive api objs \<and> GetDynamicAndDiscoveryClient aenv = None \<longrightarrow>
             run_stopped (d ''INFRA_NAMESPACE'') r (objs (ag_cluster a)) (objs (ag_cluster a')))"
    if l: "label_value r" and p: "RequestProcessor api aenv d (action_of rq) a = Some (res, a')" for a a' res
  proof -
    obtain v where v: "WorkflowRequest api aenv d ''workflow_run_stop'' r a = (v, a')" "res = Inr (Inr ()) \<longrightarrow> v = Inr (Inr ())"
    proof -
      obtain v a1 where v: "WorkflowRequest api aenv d ''workflow_run_stop'' r a = (v, a1)" by fastforce
      then have "a1 = a'" "res = map_sum id (map_sum ((@) ''error performing events operation: '') id) v"
        using p dispatch_workflows [of "action_of rq" api aenv d a] by (simp_all add: t with_text_def)
      then show thesis using v that by (cases v; cases "projr v") auto
    qed
    have "run_stopped (d ''INFRA_NAMESPACE'') r (objs (ag_cluster a)) (objs (ag_cluster a'))"
      if "res = Inr (Inr ())" "responsive api objs" "GetDynamicAndDiscoveryClient aenv = None"
      unfolding run_stopped_def
      by (rule kube_cluster.run_stop [where d = d, OF assms(5) that(2,3) l assms(6)]) (use v that(1) in blast)+
    then show ?thesis using kube_cluster.run_stop_frame [where d = d, OF assms(5) l assms(6) v(1)] by simp
  qed
  then show ?thesis using rq(1) by (simp add: Some)
qed

definition sent_stop :: "(string + bool) go \<times> exp_state \<times> signal list" where
  "sent_stop = StopExperimentRuns mem_exp sample_exp_env ''p1'' ''e1'' (Some ''run1'') None '''' (one_run_state False)"

definition run_cluster :: "cluster agent" where
  "run_cluster = sample_agent\<lparr>ag_cluster := sample_cluster\<lparr>ks_objs := [(chaosengines, Subscriber_Requests_Claims.sample_engine ''e1'' ''run1''),
     (chaosengines, Subscriber_Requests_Claims.sample_engine ''e2'' ''run2''), (workflows, Subscriber_Requests_Claims.sample_workflow ''w1'' ''run1'')]\<rparr>\<rparr>"

definition executed_stop :: "(cluster agent, unit) outcome option" where
  "executed_stop = (case snd (snd sent_stop) of
     SubscriberRequest rq # _ \<Rightarrow> RequestProcessor mem_kube sample_agent_env sample_data (action_of rq) run_cluster | _ \<Rightarrow> None)"

theorem stop_reaches_cluster_witness:
  "(case executed_stop of Some (_, a) \<Rightarrow>
     map_option (\<lambda>o'. map_of (ob_Spec o') ''engineState'') (ks_find (ag_cluster a) (chaosengines, ''litmus'', ''e1'')) = Some (Some ''stop'') \<and>
     map_option (\<lambda>o'. map_of (ob_Spec o') ''engineState'') (ks_find (ag_cluster a) (chaosengines, ''litmus'', ''e2'')) = Some (Some ''active'') | None \<Rightarrow> False)"
proof -
  have f: "fst sent_stop = Inr (Inr True)" by code_simp
  obtain s' sg where s': "sent_stop = (Inr (Inr True), s', sg)" using f by (metis prod.collapse)
  have w: "x_namespace sample_exp_env '''' = Inr ''litmus''" by (simp add: sample_exp_env_def)
  have c: "GetDynamicAndDiscoveryClient sample_agent_env = None" by code_simp
  have l: "label_value ''run1''" "sample_data ''INFRA_NAMESPACE'' \<noteq> ''''" by (simp_all add: label_value_def sample_data_def)
  have n: "nonempty_id (Some ''run1'') = Some ''run1''" by (simp add: nonempty_id_def)
  obtain rq where rq: "sg = [SubscriberRequest rq]" and e: "\<And>a a'. RequestProcessor mem_kube sample_agent_env sample_data (action_of rq) a = Some (Inr (Inr ()), a') \<Longrightarrow>
      run_stopped (sample_data ''INFRA_NAMESPACE'') ''run1'' (ks_find (ag_cluster a)) (ks_find (ag_cluster a'))"
    using stop_reaches_cluster [where d = sample_data and aenv = sample_agent_env, OF mem_exp_db s' [unfolded sent_stop_def] _ w mem_cluster l(2)] mem_responsive c l(1)
    by (auto simp: n)
  have x: "executed_stop = RequestProcessor mem_kube sample_agent_env sample_data (action_of rq) run_cluster" by (simp add: executed_stop_def s' rq)
  have "(case executed_stop of Some (r, _) \<Rightarrow> r = Inr (Inr ()) | None \<Rightarrow> False)" by code_simp
  then obtain a where a: "executed_stop = Some (Inr (Inr ()), a)" by (auto split: option.splits)
  obtain w where p: "all_patched (engine_of_run (sample_data ''INFRA_NAMESPACE'') ''run1'') ''engineState'' ''stop'' (ks_find (ag_cluster run_cluster))
          ((ks_find (ag_cluster a))((workflows, ob_Namespace w, ob_Name w) \<mapsto> w))" using e [of run_cluster a] a x by (auto simp: run_stopped_def)
  have k: "chaosengines \<noteq> workflows" by (simp add: chaosengines_def workflows_def)
  have f: "ks_find (ag_cluster run_cluster) (chaosengines, ''litmus'', ''e1'') = Some (Subscriber_Requests_Claims.sample_engine ''e1'' ''run1'')"
    "ks_find (ag_cluster run_cluster) (chaosengines, ''litmus'', ''e2'') = Some (Subscriber_Requests_Claims.sample_engine ''e2'' ''run2'')" by code_simp+
  have g: "engine_of_run (sample_data ''INFRA_NAMESPACE'') ''run1'' (chaosengines, ''litmus'', ''e1'') (Subscriber_Requests_Claims.sample_engine ''e1'' ''run1'')"
    "\<not> engine_of_run (sample_data ''INFRA_NAMESPACE'') ''run1'' (chaosengines, ''litmus'', ''e2'') (Subscriber_Requests_Claims.sample_engine ''e2'' ''run2'')"
    by (simp_all add: engine_of_run_def sample_data_def Subscriber_Requests_Claims.sample_engine_def ob_label_def empty_object_def)
  obtain o2 where "ks_find (ag_cluster a) (chaosengines, ''litmus'', ''e1'') = Some o2"
    "patched ''engineState'' ''stop'' (Subscriber_Requests_Claims.sample_engine ''e1'' ''run1'') o2"
    using p [unfolded all_patched_def, THEN spec, of "(chaosengines, ''litmus'', ''e1'')"] f(1) g(1) k by auto
  moreover have "ks_find (ag_cluster a) (chaosengines, ''litmus'', ''e2'') = Some (Subscriber_Requests_Claims.sample_engine ''e2'' ''run2'')"
    using p [unfolded all_patched_def, THEN spec, of "(chaosengines, ''litmus'', ''e2'')"] f(2) g(2) k by auto
  ultimately show ?thesis by (simp add: a Subscriber_Requests_Claims.sample_engine_def)
qed

text \<open>A run stopped by its notification identifier is marked as stopped, but its infrastructure hears nothing of it.\<close>

lemma stop_by_notification_silent:
  "(case StopExperimentRuns mem_exp sample_exp_env ''p1'' ''e1'' None (Some ''n1'') '''' queued_sample of
      (Inr (Inr b), s', sg) \<Rightarrow> map er_Phase (st_runs s') = [''Stopped''] \<and> sg = [] | _ \<Rightarrow> False)"
  by code_simp

end
