(* ===== verification/Gql_Images.thy ===== *)
theory Gql_Images
  imports Gql_Exp_Laws Gql_Runs_Props
begin

text \<open>
  Image registries: \<^verbatim>\<open>pkg/image_registry/service.go\<close>, the database operations of \<^verbatim>\<open>pkg/database/mongodb/image_registry\<close> and the
  resolvers, with their properties. The handle of the collection is the parameter \<^verbatim>\<open>im\<close>.
\<close>

section \<open>Documents and answers\<close>

text \<open>The input, the document and the answer share seven settings.\<close>

record image_info =
  ii_ImageRegistryName :: string
  ii_ImageRepoName :: string
  ii_ImageRegistryType :: string
  ii_SecretName :: "string option"
  ii_SecretNamespace :: "string option"
  ii_EnableRegistry :: "bool option"
  ii_IsDefault :: bool

record image_registry =
  ir_Info :: image_info
  ir_ImageRegistryID :: string
  ir_ProjectID :: string
  ir_CreatedAt :: int
  ir_UpdatedAt :: int
  ir_IsRemoved :: bool

record image_answer =
  iv_Info :: image_info
  iv_ImageRegistryID :: string
  iv_ProjectID :: string
  iv_UpdatedAt :: "string option"
  iv_CreatedAt :: "string option"
  iv_IsRemoved :: bool

section \<open>Database operations\<close>

definition InsertImageRegistry :: "('s, image_registry) collection \<Rightarrow> image_registry \<Rightarrow> 's \<Rightarrow> string option \<times> 's" where
  "InsertImageRegistry im d s = apfst (map_option driver_text) (InsertOne im d s)"

text \<open>That no registry matches is not an error.\<close>

definition op_UpdateImageRegistry :: "('s, image_registry) collection \<Rightarrow> (image_registry \<Rightarrow> bool) \<Rightarrow> (image_registry \<Rightarrow> image_registry) \<Rightarrow> 's \<Rightarrow> string option \<times> 's" where
  "op_UpdateImageRegistry im query update s =
     (case UpdateOne im query (Some update) s of (Inl e, s') \<Rightarrow> (Some (driver_text e), s') | (Inr n, s') \<Rightarrow> (None, s'))"

definition op_ListImageRegistries :: "('s, image_registry) collection \<Rightarrow> (image_registry \<Rightarrow> bool) \<Rightarrow> 's \<Rightarrow> string + image_registry list" where
  "op_ListImageRegistries im query s = map_sum driver_text id (Find im query s)"

definition op_GetImageRegistry :: "('s, image_registry) collection \<Rightarrow> (image_registry \<Rightarrow> bool) \<Rightarrow> 's \<Rightarrow> string + image_registry" where
  "op_GetImageRegistry im query s = map_sum driver_text id (FindOne im query s)"

section \<open>The service\<close>

definition new_registry :: "gql_env \<Rightarrow> string \<Rightarrow> image_info \<Rightarrow> image_registry" where
  "new_registry env projectID info =
     \<lparr>ir_Info = info, ir_ImageRegistryID = new_uuid (g_auth env) 0, ir_ProjectID = projectID, ir_CreatedAt = now_ms (g_auth env) 0,
      ir_UpdatedAt = now_ms (g_auth env) 0, ir_IsRemoved = False\<rparr>"

definition CreateImageRegistry :: "('s, image_registry) collection \<Rightarrow> gql_env \<Rightarrow> string \<Rightarrow> image_info \<Rightarrow> 's \<Rightarrow> ('s, image_answer) outcome" where
  "CreateImageRegistry im env projectID info s =
     obind (of_error (InsertImageRegistry im (new_registry env projectID info) s)) (\<lambda>_ s.
       (Inr (Inr \<lparr>iv_Info = info, iv_ImageRegistryID = new_uuid (g_auth env) 0, iv_ProjectID = projectID,
          iv_UpdatedAt = Some (itoa (now_ms (g_auth env) 0)), iv_CreatedAt = Some (itoa (now_ms (g_auth env) 0)), iv_IsRemoved = False\<rparr>), s))"

definition UpdateImageRegistry :: "('s, image_registry) collection \<Rightarrow> gql_env \<Rightarrow> string \<Rightarrow> string \<Rightarrow> image_info \<Rightarrow> 's \<Rightarrow> ('s, image_answer) outcome" where
  "UpdateImageRegistry im env imageRegistryID projectID info s =
     obind (of_error (op_UpdateImageRegistry im (\<lambda>d. ir_ImageRegistryID d = imageRegistryID \<and> ir_ProjectID d = projectID)
         (\<lambda>d. d\<lparr>ir_Info := info, ir_UpdatedAt := now_ms (g_auth env) 0\<rparr>) s)) (\<lambda>_ s.
       (Inr (Inr \<lparr>iv_Info = info, iv_ImageRegistryID = imageRegistryID, iv_ProjectID = projectID,
          iv_UpdatedAt = Some (itoa (now_ms (g_auth env) 0)), iv_CreatedAt = None, iv_IsRemoved = False\<rparr>), s))"

definition DeleteImageRegistry :: "('s, image_registry) collection \<Rightarrow> string \<Rightarrow> string \<Rightarrow> 's \<Rightarrow> ('s, string) outcome" where
  "DeleteImageRegistry im imageRegistryID projectID s =
     obind (of_error (op_UpdateImageRegistry im (\<lambda>d. ir_ImageRegistryID d = imageRegistryID \<and> ir_ProjectID d = projectID)
         (\<lambda>d. d\<lparr>ir_IsRemoved := True\<rparr>) s)) (\<lambda>_ s. (Inr (Inr ''image registry deleted''), s))"

definition registry_answer :: "string \<Rightarrow> image_registry \<Rightarrow> image_answer" where
  "registry_answer projectID d =
     \<lparr>iv_Info = ir_Info d, iv_ImageRegistryID = ir_ImageRegistryID d, iv_ProjectID = projectID, iv_UpdatedAt = Some (itoa (ir_UpdatedAt d)),
      iv_CreatedAt = Some (itoa (ir_CreatedAt d)), iv_IsRemoved = ir_IsRemoved d\<rparr>"

definition GetImageRegistry :: "('s, image_registry) collection \<Rightarrow> string \<Rightarrow> 's \<Rightarrow> string + image_answer" where
  "GetImageRegistry im projectID s = map_sum id (registry_answer projectID) (op_GetImageRegistry im (\<lambda>d. ir_ProjectID d = projectID) s)"

definition ListImageRegistries :: "('s, image_registry) collection \<Rightarrow> string \<Rightarrow> 's \<Rightarrow> string + image_answer list" where
  "ListImageRegistries im projectID s = map_sum id (map (registry_answer projectID)) (op_ListImageRegistries im (\<lambda>d. ir_ProjectID d = projectID) s)"

section \<open>Resolvers\<close>

definition r_CreateImageRegistry where
  "r_CreateImageRegistry im g env c projectID info = with_role g env c projectID ''CreateImageRegistry'' (CreateImageRegistry im env projectID info)"

definition r_UpdateImageRegistry where
  "r_UpdateImageRegistry im g env c i projectID info = with_role g env c projectID ''UpdateImageRegistry'' (UpdateImageRegistry im env i projectID info)"

definition r_DeleteImageRegistry where
  "r_DeleteImageRegistry im g env c i projectID = with_role g env c projectID ''DeleteImageRegistry'' (DeleteImageRegistry im i projectID)"

definition r_ListImageRegistry where
  "r_ListImageRegistry im g env c projectID = with_role g env c projectID ''ListImageRegistry'' (\<lambda>s. (Inr (ListImageRegistries im projectID s), s))"

definition r_GetImageRegistry where
  "r_GetImageRegistry im g env c projectID = with_role g env c projectID ''GetImageRegistry'' (\<lambda>s. (Inr (GetImageRegistry im projectID s), s))"

section \<open>Properties\<close>

definition image_conflict :: "image_registry \<Rightarrow> image_registry \<Rightarrow> bool" where
  "image_conflict a b \<longleftrightarrow> ir_ProjectID a = ir_ProjectID b"

locale image_db = mongo_collection im mdocs image_conflict "\<lambda>s. ()"
  for im :: "('s, image_registry) collection" and mdocs :: "'s \<Rightarrow> image_registry multiset"
begin

lemma create_ok:
  assumes "CreateImageRegistry im env pid info s = (Inr (Inr v), s')"
  shows "mdocs s' = add_mset (new_registry env pid info) (mdocs s)" "\<forall>d\<in>#mdocs s. ir_ProjectID d \<noteq> pid" "v = registry_answer pid (new_registry env pid info)"
proof -
  have i: "InsertOne im (new_registry env pid info) s = (None, s')" and v: "v = registry_answer pid (new_registry env pid info)"
    using assms by (auto simp: CreateImageRegistry_def InsertImageRegistry_def registry_answer_def new_registry_def of_error_def apfst_def map_prod_def split: prod.splits option.splits)
  from InsertOne_ok [OF i] show "mdocs s' = add_mset (new_registry env pid info) (mdocs s)" "\<forall>d\<in>#mdocs s. ir_ProjectID d \<noteq> pid"
    by (auto simp: image_conflict_def new_registry_def)
  show "v = registry_answer pid (new_registry env pid info)" by (rule v)
qed

lemma get_ok: "GetImageRegistry im pid s = Inr w \<Longrightarrow> \<exists>d. d \<in># mdocs s \<and> ir_ProjectID d = pid \<and> w = registry_answer pid d"
  using FindOne_ok by (auto simp: GetImageRegistry_def op_GetImageRegistry_def map_sum_def split: sum.splits)

lemma update_cases:
  assumes "op_UpdateImageRegistry im P f s = (r, s')"
  shows "mdocs s' = mdocs s \<or> updated_one P f (mdocs s) (mdocs s')" "r = None \<Longrightarrow> (\<forall>d\<in>#mdocs s. \<not> P d) \<and> mdocs s' = mdocs s \<or> updated_one P f (mdocs s) (mdocs s')"
proof -
  obtain x where x: "UpdateOne im P (Some f) s = (x, s')" using assms by (auto simp: op_UpdateImageRegistry_def split: prod.splits sum.splits)
  from UpdateOne_cases [OF this] show "mdocs s' = mdocs s \<or> updated_one P f (mdocs s) (mdocs s')" .
  show "(\<forall>d\<in>#mdocs s. \<not> P d) \<and> mdocs s' = mdocs s \<or> updated_one P f (mdocs s) (mdocs s')" if r: "r = None"
  proof -
    obtain n where "x = Inr n" using assms x r by (auto simp: op_UpdateImageRegistry_def split: sum.splits)
    then show ?thesis using UpdateOne_ok [of P f s n s'] x by auto
  qed
qed

text \<open>Updates keep the projects that have a registry.\<close>

lemma update_projects:
  assumes "op_UpdateImageRegistry im P f s = (r, s')" "\<And>d. ir_ProjectID (f d) = ir_ProjectID d"
  shows "image_mset ir_ProjectID (mdocs s') = image_mset ir_ProjectID (mdocs s)"
  using update_cases(1) [OF assms(1)] assms(2) by (auto simp: updated_one_def image_replace_mset)

end

text \<open>
  C35: What is stored for a project is what is shown. The registry a project creates is read back exactly as answered, with its times; after an update the new settings are
  shown under the same identifier and creation time. And there is at most one: while a registry of the project is stored, removed or not, creating another fails.
\<close>

theorem registry_read_back:
  assumes "image_db im mdocs"
    and "CreateImageRegistry im env pid info s = (Inr (Inr v), s1)" "GetImageRegistry im pid s1 = Inr w"
    and "UpdateImageRegistry im env' (iv_ImageRegistryID v) pid info' s1 = (Inr (Inr v'), s2)" "GetImageRegistry im pid s2 = Inr w'"
  shows "w = v \<and> w' = v\<lparr>iv_Info := info', iv_UpdatedAt := iv_UpdatedAt v'\<rparr> \<and> (\<nexists>v2. fst (CreateImageRegistry im env2 pid info2 s2) = Inr (Inr v2))"
proof -
  let ?d = "new_registry env pid info" and ?f = "\<lambda>d. d\<lparr>ir_Info := info', ir_UpdatedAt := now_ms (g_auth env') 0\<rparr>"
  note c = image_db.create_ok [OF assms(1,2)]
  have w: "w = v" using image_db.get_ok [OF assms(1,3)] c by auto
  have i: "iv_ImageRegistryID v = ir_ImageRegistryID ?d" "iv_UpdatedAt v' = Some (itoa (now_ms (g_auth env') 0))" "ir_ProjectID ?d = pid"
    using c(3) assms(4) by (auto simp: registry_answer_def UpdateImageRegistry_def new_registry_def)
  obtain u where u: "op_UpdateImageRegistry im (\<lambda>d. ir_ImageRegistryID d = iv_ImageRegistryID v \<and> ir_ProjectID d = pid) ?f s1 = (None, s2)"
    using assms(4) by (auto simp: UpdateImageRegistry_def of_error_def split: prod.splits option.splits)
  from image_db.update_cases(2) [OF assms(1) u refl] have "updated_one (\<lambda>d. ir_ImageRegistryID d = iv_ImageRegistryID v \<and> ir_ProjectID d = pid) ?f (mdocs s1) (mdocs s2)"
    using c(1) i(1,3) by auto
  then have s2: "mdocs s2 = add_mset (?f ?d) (mdocs s)" using c(1,2) by (auto simp: updated_one_def replace_mset_def)
  from image_db.get_ok [OF assms(1,5)] obtain e where "e \<in># mdocs s2" "ir_ProjectID e = pid" "w' = registry_answer pid e" by blast
  then have "w' = registry_answer pid (?f ?d)" using s2 c(2) by auto
  then have "w' = v\<lparr>iv_Info := info', iv_UpdatedAt := iv_UpdatedAt v'\<rparr>" using c(3) i(2) by (simp add: registry_answer_def)
  moreover have "fst (CreateImageRegistry im env2 pid info2 s2) \<noteq> Inr (Inr v2)" for v2
    using image_db.create_ok(2) [OF assms(1), of env2 pid info2 s2 v2] s2 i(3) by (metis image_registry.surjective image_registry.update_convs(1,5) image_registry.select_convs(3) prod.collapse union_single_eq_member)
  ultimately show ?thesis using w by blast
qed

section \<open>An executable collection\<close>

record image_state = exp_state +
  st_images :: "image_registry list"

definition mem_images :: "(image_state, image_registry) collection" where
  "mem_images = mem_collection st_images (\<lambda>v s. s\<lparr>st_images := v\<rparr>) image_conflict"

interpretation mem_images: image_db mem_images "\<lambda>s. mset (st_images s)"
  by (intro image_db.intro) (auto simp: mem_images_def intro!: mem_collection_ok)

definition image_sample :: image_state where
  "image_sample = exp_state.extend (sample_exp_state [] [] []) (image_state.fields [])"

definition sample_image :: "string \<Rightarrow> image_info" where
  "sample_image n = \<lparr>ii_ImageRegistryName = n, ii_ImageRepoName = ''litmus'', ii_ImageRegistryType = ''public'', ii_SecretName = None, ii_SecretNamespace = None,
     ii_EnableRegistry = Some True, ii_IsDefault = False\<rparr>"

definition created_image :: "(string + image_answer) go \<times> image_state" where
  "created_image = CreateImageRegistry mem_images sample_gql_env ''p1'' (sample_image ''docker.io'') image_sample"

definition updated_image :: "(string + image_answer) go \<times> image_state" where
  "updated_image = UpdateImageRegistry mem_images sample_gql_env ''new'' ''p1'' (sample_image ''quay.io'') (snd created_image)"

theorem registry_read_back_witness:
  "\<exists>w. GetImageRegistry mem_images ''p1'' (snd updated_image) = Inr w \<and> ii_ImageRegistryName (iv_Info w) = ''quay.io'' \<and> iv_ImageRegistryID w = ''new''"
proof -
  have "succeeded created_image" "succeeded updated_image" by code_simp+
  then obtain v v' where v: "created_image = (Inr (Inr v), snd created_image)" and v': "updated_image = (Inr (Inr v'), snd updated_image)"
    using succeededE [of created_image] succeededE [of updated_image] by auto
  have "(case fst created_image of Inr (Inr v) \<Rightarrow> iv_ImageRegistryID v = ''new'' | _ \<Rightarrow> False)" by code_simp
  moreover have "fst created_image = Inr (Inr v)" using v by (metis fst_conv)
  ultimately have i: "iv_ImageRegistryID v = ''new''" by simp
  have "\<not> isl (GetImageRegistry mem_images ''p1'' (snd created_image))" "\<not> isl (GetImageRegistry mem_images ''p1'' (snd updated_image))" by code_simp+
  then obtain w w' where g: "GetImageRegistry mem_images ''p1'' (snd created_image) = Inr w" "GetImageRegistry mem_images ''p1'' (snd updated_image) = Inr w'"
    by (metis sum.collapse(2))
  have "UpdateImageRegistry mem_images sample_gql_env (iv_ImageRegistryID v) ''p1'' (sample_image ''quay.io'') (snd created_image) = (Inr (Inr v'), snd updated_image)"
    using v' unfolding i updated_image_def by simp
  from registry_read_back [OF mem_images.image_db_axioms v [unfolded created_image_def], folded created_image_def, OF g(1) this g(2)] g(2) i show ?thesis
    by (simp add: sample_image_def)
qed

section \<open>Findings\<close>

text \<open>After its registry was deleted a project cannot create one again: the removed document keeps the key of the unique index.\<close>

lemma deleted_registry_blocks:
  "(case DeleteImageRegistry mem_images ''new'' ''p1'' (snd created_image) of
      (Inr (Inr m), s) \<Rightarrow> isl (projr (fst (CreateImageRegistry mem_images sample_gql_env ''p1'' (sample_image ''docker.io'') s))) \<and>
        map_sum id iv_IsRemoved (GetImageRegistry mem_images ''p1'' s) = Inr True | _ \<Rightarrow> False)"
  by code_simp

text \<open>An update of a registry that does not exist is answered as if it had been made.\<close>

lemma unknown_registry_updated: "succeeded (UpdateImageRegistry mem_images sample_gql_env ''none'' ''p1'' (sample_image ''quay.io'') image_sample)"
  by code_simp

end
