(* ===== verification/Upgrade_Manager.thy ===== *)
theory Upgrade_Manager
  imports Go_Strings
begin

text \<open>
  The control-plane upgrade agent, \<^verbatim>\<open>upgrade-agents/control-plane/versions/upgrade-manager.go\<close>:
  parsing and printing of versions, the sorted list of versions, the upgrade path and its
  execution. The key set of the version map is a list in Go's arbitrary iteration order.
  The version managers and the stored version are the effects of \<^verbatim>\<open>Run\<close> and act on a state
  type \<^verbatim>\<open>'s\<close>.
\<close>

record version =
  Major :: int
  Minor :: int
  Patch :: int
  Beta :: int

definition zero_version :: version where
  "zero_version = \<lparr>Major = 0, Minor = 0, Patch = 0, Beta = 0\<rparr>"

definition ParseVersion :: "string \<Rightarrow> version go" where
  "ParseVersion v =
     (let parts = go_split v ''-beta''; mainParts = go_split (hd parts) ''.''
      in case atoi (hd mainParts) of
           None \<Rightarrow> Inr zero_version
         | Some major \<Rightarrow>
             (if length mainParts \<le> 1 then Inl IndexOutOfRange
              else case atoi (mainParts ! 1) of
                None \<Rightarrow> Inr zero_version
              | Some minor \<Rightarrow>
                  (let patch = (if length mainParts > 2
                                then (case atoi (mainParts ! 2) of None \<Rightarrow> 0 | Some p \<Rightarrow> p)
                                else 0)
                   in if length parts > 1
                      then (case atoi (parts ! 1) of
                              None \<Rightarrow> Inr zero_version
                            | Some b \<Rightarrow> Inr \<lparr>Major = major, Minor = minor, Patch = patch, Beta = b\<rparr>)
                      else Inr \<lparr>Major = major, Minor = minor, Patch = patch, Beta = 0\<rparr>)))"

definition getVersion :: "version \<Rightarrow> string" where
  "getVersion v =
     (if Beta v \<noteq> 0
      then itoa (Major v) @ ''.'' @ itoa (Minor v) @ ''.'' @ itoa (Patch v) @ ''-beta'' @ itoa (Beta v)
      else itoa (Major v) @ ''.'' @ itoa (Minor v) @ ''.'' @ itoa (Patch v))"

text \<open>A row of the version matrix; \<^verbatim>\<open>arrayToVersion\<close> reads index 3 and panics on a shorter row.\<close>

definition arrayToVersion :: "int list \<Rightarrow> string go" where
  "arrayToVersion a =
     (if length a \<le> 3 then Inl IndexOutOfRange
      else if a ! 3 = 0 then Inr (itoa (a ! 0) @ ''.'' @ itoa (a ! 1) @ ''.'' @ itoa (a ! 2))
      else Inr (itoa (a ! 0) @ ''.'' @ itoa (a ! 1) @ ''.'' @ itoa (a ! 2) @ ''-beta'' @ itoa (a ! 3)))"

text \<open>The comparison closure passed to \<^verbatim>\<open>sort.Slice\<close>.\<close>

fun less_row :: "int list \<Rightarrow> int list \<Rightarrow> bool" where
  "less_row (x # xs) (y # ys) = (if x \<noteq> y then x < y else less_row xs ys)"
| "less_row xs ys = (length xs < length ys)"

definition version_row :: "version \<Rightarrow> int list" where
  "version_row v = [Major v, Minor v, Patch v, Beta v]"

text \<open>The first loop, which appends one row per string and stops at a panic.\<close>

fun version_matrix :: "string list \<Rightarrow> int list list go" where
  "version_matrix [] = Inr []"
| "version_matrix (v # vs) =
     (case ParseVersion v of Inl p \<Rightarrow> Inl p
      | Inr ver \<Rightarrow> (case version_matrix vs of Inl p \<Rightarrow> Inl p | Inr m \<Rightarrow> Inr (version_row ver # m)))"

fun arrays_to_versions :: "int list list \<Rightarrow> string list go" where
  "arrays_to_versions [] = Inr []"
| "arrays_to_versions (a # as) =
     (case arrayToVersion a of Inl p \<Rightarrow> Inl p
      | Inr s \<Rightarrow> (case arrays_to_versions as of Inl p \<Rightarrow> Inl p | Inr m \<Rightarrow> Inr (s # m)))"

text \<open>
  Rows that \<^verbatim>\<open>less_row\<close> does not order are equal, so every correct sort returns the same
  list: the sorted one.
\<close>

definition sortVersionArray :: "string list \<Rightarrow> string list go" where
  "sortVersionArray vs =
     (case version_matrix vs of Inl p \<Rightarrow> Inl p | Inr m \<Rightarrow> arrays_to_versions (sort m))"

definition parseVersionMap :: "string list \<Rightarrow> string \<Rightarrow> string \<Rightarrow> string list go" where
  "parseVersionMap keys previousVersion targetVersion =
     sortVersionArray
       (keys @ (if previousVersion \<in> set keys then [] else [previousVersion])
             @ (if targetVersion \<in> set keys then [] else [targetVersion]))"

definition linearSearchArray :: "string \<Rightarrow> string list \<Rightarrow> int" where
  "linearSearchArray v vs = (case find_index (\<lambda>x. x = v) vs of None \<Rightarrow> - 1 | Some i \<Rightarrow> int i)"

text \<open>A Go slice expression \<^verbatim>\<open>xs[lo:hi]\<close>.\<close>

definition go_slice :: "'a list \<Rightarrow> int \<Rightarrow> int \<Rightarrow> 'a list go" where
  "go_slice xs lo hi =
     (if 0 \<le> lo \<and> lo \<le> hi \<and> hi \<le> int (length xs)
      then Inr (drop (nat lo) (take (nat hi) xs)) else Inl SliceBounds)"

definition traceUpgradePath :: "version \<Rightarrow> version \<Rightarrow> string list \<Rightarrow> string list go" where
  "traceUpgradePath previousVersion targetVersion keys =
     (case parseVersionMap keys (getVersion previousVersion) (getVersion targetVersion) of
        Inl p \<Rightarrow> Inl p
      | Inr vs \<Rightarrow>
          (let startIndex = linearSearchArray (getVersion previousVersion) vs;
               endIndex = linearSearchArray (getVersion targetVersion) vs
           in go_slice vs (startIndex + 1) (endIndex + 1)))"

text \<open>
  \<^verbatim>\<open>NewUpgradeManager\<close>: the target comes from the environment, the previous version from the
  server-config collection. The value stored there is any BSON value.
\<close>

datatype config_value = NilValue | StringValue string | OtherValue

datatype manager_result = ManagerError string | NoUpgrade | Manager version version

definition NewUpgradeManager :: "string \<Rightarrow> string + config_value \<Rightarrow> manager_result go" where
  "NewUpgradeManager envVersion dbVersion =
     (if envVersion = '''' then Inr (ManagerError ''current version env data missing'')
      else case dbVersion of
        Inl e \<Rightarrow> Inr (ManagerError (''failed to get previous version data from db, error='' @ e))
      | Inr NilValue \<Rightarrow> Inr (ManagerError ''failed to get previous version data from db, value=<nil>'')
      | Inr OtherValue \<Rightarrow> Inl TypeAssertion
      | Inr (StringValue v) \<Rightarrow>
          (if v = '''' then Inr (ManagerError ''failed to get previous version data from db, value='')
           else if v = envVersion then Inr NoUpgrade
           else case ParseVersion v of Inl p \<Rightarrow> Inl p
             | Inr prev \<Rightarrow> (case ParseVersion envVersion of Inl p \<Rightarrow> Inl p
                            | Inr target \<Rightarrow> Inr (Manager prev target))))"

text \<open>An entry of the version map: the manager, when there is one, and the next version.\<close>

record 's upgrade_executor =
  NextVersion :: string
  VersionManager :: "('s \<Rightarrow> string option \<times> 's) option"

fun run_path :: "(string \<Rightarrow> 's upgrade_executor option) \<Rightarrow> (string \<Rightarrow> 's \<Rightarrow> 's) \<Rightarrow> string list \<Rightarrow> 's
    \<Rightarrow> string option \<times> 's" where
  "run_path versionMap updateVersion [] s = (None, s)"
| "run_path versionMap updateVersion (v # vs) s =
     (case versionMap v of
        None \<Rightarrow> run_path versionMap updateVersion vs s
      | Some ex \<Rightarrow>
          (case VersionManager ex of
             None \<Rightarrow> run_path versionMap updateVersion vs s
           | Some mgr \<Rightarrow>
               (case mgr s of
                  (Some err, s') \<Rightarrow> (Some (''failed to upgrade to version '' @ v @ '', error : '' @ err), s')
                | (None, s') \<Rightarrow> run_path versionMap updateVersion vs (updateVersion v s'))))"

text \<open>
  \<^verbatim>\<open>Run\<close>. The result is the returned error, if any, and the state; the last statement indexes
  the path and panics when it is empty.
\<close>

definition Run :: "(string \<Rightarrow> 's upgrade_executor option) \<Rightarrow> string list \<Rightarrow> (string \<Rightarrow> 's \<Rightarrow> 's)
    \<Rightarrow> version \<Rightarrow> version \<Rightarrow> 's \<Rightarrow> (string option \<times> 's) go" where
  "Run versionMap keys updateVersion previousVersion targetVersion s =
     (case traceUpgradePath previousVersion targetVersion keys of
        Inl p \<Rightarrow> Inl p
      | Inr path \<Rightarrow>
          (case run_path versionMap updateVersion path s of
             (Some e, s') \<Rightarrow> Inr (Some e, s')
           | (None, s') \<Rightarrow>
               (if path = [] then Inl IndexOutOfRange
                else Inr (None, updateVersion (path ! (length path - 1)) s'))))"

section \<open>Printing and parsing\<close>

definition version_ok :: "version \<Rightarrow> bool" where
  "version_ok v \<longleftrightarrow> in_int64 (Major v) \<and> in_int64 (Minor v) \<and> in_int64 (Patch v) \<and> in_int64 (Beta v)"

lemma split_main: "go_split (itoa a @ ''.'' @ itoa b @ ''.'' @ itoa c) ''.'' = [itoa a, itoa b, itoa c]"
proof -
  have dot: "CHR ''.'' \<notin> set (itoa i)" for i
    using itoa_chars is_digit_neq(3) by fastforce
  show ?thesis
    using split_on_append [of "''.''" "CHR ''.''" "[]" "itoa a" "[]" "itoa b @ ''.'' @ itoa c"]
      split_on_append [of "''.''" "CHR ''.''" "[]" "itoa b" "[]" "itoa c"]
      split_on_nosep [of "CHR ''.''" "''.''" "itoa c" "[]"] dot
    by (simp add: go_split_def)
qed

lemma itoa_no_b: "CHR ''b'' \<notin> set (itoa i)"
  using itoa_chars is_digit_neq(4) by fastforce

lemma split_no_beta:
  "go_split (itoa a @ ''.'' @ itoa b @ ''.'' @ itoa c) ''-beta'' = [itoa a @ ''.'' @ itoa b @ ''.'' @ itoa c]"
  using split_on_nosep [of "CHR ''b''" "''-beta''" "itoa a @ ''.'' @ itoa b @ ''.'' @ itoa c" "[]"] itoa_no_b
  by (simp add: go_split_def)

lemma split_beta:
  "go_split (itoa a @ ''.'' @ itoa b @ ''.'' @ itoa c @ ''-beta'' @ itoa d) ''-beta'' =
     [itoa a @ ''.'' @ itoa b @ ''.'' @ itoa c, itoa d]"
  using split_on_append_gen [of "''-beta''" "CHR ''-''" "''beta''" "CHR ''b''"
      "itoa a @ ''.'' @ itoa b @ ''.'' @ itoa c" "[]" "itoa d"]
    split_on_nosep [of "CHR ''b''" "''-beta''" "itoa d" "[]"] itoa_no_b
  by (simp add: go_split_def)

lemmas split_simps = split_no_beta [simplified] split_beta [simplified] split_main [simplified]

lemma ParseVersion_print: "version_ok v \<Longrightarrow> ParseVersion (getVersion v) = Inr v"
  by (cases "Beta v = 0")
    (simp_all add: ParseVersion_def getVersion_def version_ok_def split_simps Let_def)

text \<open>
  a version whose four numbers fit an \<^verbatim>\<open>int\<close> is read back from its printed form, with or
  without a beta number.
\<close>

theorem ParseVersion_getVersion: "version_ok v \<Longrightarrow> ParseVersion (getVersion v) = Inr v"
  by (rule ParseVersion_print)

theorem ParseVersion_getVersion_witness:
  "ParseVersion ''3.0.0-beta12'' = Inr \<lparr>Major = 3, Minor = 0, Patch = 0, Beta = 12\<rparr>"
proof -
  let ?v = "\<lparr>Major = 3, Minor = 0, Patch = 0, Beta = 12\<rparr>"
  have "version_ok ?v" by (simp add: version_ok_def in_int64_def)
  moreover have "getVersion ?v = ''3.0.0-beta12''" by code_simp
  ultimately show ?thesis using ParseVersion_getVersion [of ?v] by simp
qed

section \<open>The sorted version array\<close>

lemma less_row_less: "less_row xs ys = (xs < ys)"
proof (induction xs arbitrary: ys)
  case Nil
  then show ?case by (cases ys) simp_all
next
  case (Cons x xs)
  then show ?case by (cases ys) auto
qed

lemma version_row_inject [simp]: "version_row v = version_row w \<longleftrightarrow> v = w"
  by (cases v, cases w) (simp add: version_row_def)

lemma getVersion_inject: "version_ok v \<Longrightarrow> version_ok w \<Longrightarrow> getVersion v = getVersion w \<longleftrightarrow> v = w"
  by (metis ParseVersion_print Inr_inject)

lemma version_matrix_print:
  "list_all version_ok vs \<Longrightarrow> version_matrix (map getVersion vs) = Inr (map version_row vs)"
  by (induction vs) (simp_all add: ParseVersion_print)

lemma arrays_to_versions_rows: "arrays_to_versions (map version_row vs) = Inr (map getVersion vs)"
  by (induction vs) (simp_all add: arrayToVersion_def version_row_def getVersion_def)

lemma sort_map_row: "sort (map version_row vs) = map version_row (sort_key version_row vs)"
  by (rule properties_for_sort) simp_all

lemma sortVersionArray_print:
  "list_all version_ok vs \<Longrightarrow>
   sortVersionArray (map getVersion vs) = Inr (map getVersion (sort_key version_row vs))"
  by (simp add: sortVersionArray_def version_matrix_print sort_map_row arrays_to_versions_rows)

lemma parse_panic: "ParseVersion v = Inl p \<Longrightarrow> p = IndexOutOfRange"
  by (auto simp: ParseVersion_def Let_def split: option.splits if_splits)

lemma version_matrix_eq:
  "version_matrix vs =
     (if \<forall>v\<in>set vs. \<exists>w. ParseVersion v = Inr w
      then Inr (map (\<lambda>v. version_row (projr (ParseVersion v))) vs) else Inl IndexOutOfRange)"
proof (induction vs)
  case (Cons v vs)
  then show ?case
    by (cases "ParseVersion v") (auto dest: parse_panic)
qed simp

lemma sortVersionArray_mset_cong:
  assumes "mset vs = mset ws"
  shows "sortVersionArray vs = sortVersionArray ws"
proof -
  have "set vs = set ws" using assms by (rule mset_eq_setD)
  moreover have "sort (map f vs) = sort (map f ws)" for f :: "string \<Rightarrow> int list"
    using assms by (intro sort_mset_cong) simp
  ultimately show ?thesis
    unfolding sortVersionArray_def version_matrix_eq
    by (auto split: if_splits)
qed

text \<open>
  the upgrade path does not depend on the order in which Go iterates over the version map.
\<close>

theorem traceUpgradePath_order:
  assumes "mset keys = mset keys'"
  shows "traceUpgradePath p t keys = traceUpgradePath p t keys'"
proof -
  have "set keys = set keys'" using assms by (rule mset_eq_setD)
  then have "parseVersionMap keys a b = parseVersionMap keys' a b" for a b
    unfolding parseVersionMap_def using assms by (intro sortVersionArray_mset_cong) simp
  then show ?thesis by (simp add: traceUpgradePath_def)
qed

theorem traceUpgradePath_order_witness:
  "traceUpgradePath zero_version (zero_version\<lparr>Major := 4\<rparr>) [''0.0.0'', ''3.9.0''] =
   traceUpgradePath zero_version (zero_version\<lparr>Major := 4\<rparr>) [''3.9.0'', ''0.0.0'']"
  by (rule traceUpgradePath_order) simp

section \<open>The upgrade path\<close>

lemma slice_filter:
  fixes f :: "'a \<Rightarrow> 'b::linorder"
  assumes s: "sorted_wrt (\<lambda>x y. f x < f y) xs" and i: "i < length xs" and j: "j < length xs" and ij: "i \<le> j"
  shows "drop (Suc i) (take (Suc j) xs) = filter (\<lambda>x. f (xs ! i) < f x \<and> f x \<le> f (xs ! j)) xs"
proof -
  let ?Q = "\<lambda>x. f (xs ! i) < f x \<and> f x \<le> f (xs ! j)"
  let ?A = "take (Suc i) xs" and ?B = "drop (Suc i) (take (Suc j) xs)" and ?C = "drop (Suc j) xs"
  have xs: "xs = ?A @ ?B @ ?C"
    using ij by (metis Suc_le_mono append_assoc append_take_drop_id min.absorb_iff1 take_take)
  have lt: "a < b \<Longrightarrow> b < length xs \<Longrightarrow> f (xs ! a) < f (xs ! b)" for a b
    using s by (simp add: sorted_wrt_iff_nth_less)
  have le: "a \<le> b \<Longrightarrow> b < length xs \<Longrightarrow> f (xs ! a) \<le> f (xs ! b)" for a b
    using lt [of a b] by (cases "a = b") auto
  have "filter ?Q ?A = []"
    using i le by (auto simp: filter_empty_conv in_set_conv_nth not_less less_Suc_eq_le)
  moreover have "filter ?Q ?C = []"
    using j lt by (fastforce simp: filter_empty_conv in_set_conv_nth not_le)
  moreover have "filter ?Q ?B = ?B"
    using j lt le by (fastforce simp: filter_id_conv in_set_conv_nth)
  moreover have "filter ?Q xs = filter ?Q ?A @ filter ?Q ?B @ filter ?Q ?C"
    by (subst xs) (simp only: filter_append)
  ultimately show ?thesis by simp
qed

lemma linearSearch_nth:
  assumes "distinct vs" and "list_all version_ok vs" and "i < length vs"
  shows "linearSearchArray (getVersion (vs ! i)) (map getVersion vs) = int i"
proof -
  have "find_index (\<lambda>x. x = getVersion (vs ! i)) (map getVersion vs) = Some i"
  proof (rule find_index_eqI)
    fix j assume "j < i"
    then have "vs ! j \<noteq> vs ! i" using assms by (simp add: nth_eq_iff_index_eq)
    then show "map getVersion vs ! j \<noteq> getVersion (vs ! i)"
      using assms \<open>j < i\<close> by (simp add: getVersion_inject list_all_length)
  qed (use assms in simp_all)
  then show ?thesis by (simp add: linearSearchArray_def)
qed

lemma strict_sort_key:
  "distinct vs \<Longrightarrow> sorted_wrt (\<lambda>x y. version_row x < version_row y) (sort_key version_row vs)"
  using sorted_sort_key [of version_row vs]
  by (auto simp: sorted_wrt_map sorted_wrt_iff_nth_less nth_eq_iff_index_eq less_le)

text \<open>The version list the search runs over, and the positions of the two ends in it.\<close>

definition path_versions :: "version list \<Rightarrow> version \<Rightarrow> version \<Rightarrow> version list" where
  "path_versions ks p t =
     ks @ (if p \<in> set ks then [] else [p]) @ (if t \<in> set ks then [] else [t])"

lemma parseVersionMap_print:
  assumes "list_all version_ok ks" "version_ok p" "version_ok t"
  shows "parseVersionMap (map getVersion ks) (getVersion p) (getVersion t) =
     Inr (map getVersion (sort_key version_row (path_versions ks p t)))"
proof -
  have "getVersion v \<in> getVersion ` set ks \<longleftrightarrow> v \<in> set ks" if "version_ok v" for v
    using assms(1) that by (auto simp: list_all_iff getVersion_inject)
  then have "parseVersionMap (map getVersion ks) (getVersion p) (getVersion t) =
     sortVersionArray (map getVersion (path_versions ks p t))"
    using assms by (simp add: parseVersionMap_def path_versions_def)
  also have "\<dots> = Inr (map getVersion (sort_key version_row (path_versions ks p t)))"
    using assms by (intro sortVersionArray_print) (simp add: path_versions_def)
  finally show ?thesis .
qed

lemma traceUpgradePath_split:
  assumes ok: "list_all version_ok ks" "version_ok p" "version_ok t" and d: "distinct ks" and pt: "p \<noteq> t"
  obtains i j where "i < length (path_versions ks p t)" "j < length (path_versions ks p t)"
    "sort_key version_row (path_versions ks p t) ! i = p"
    "sort_key version_row (path_versions ks p t) ! j = t"
    "traceUpgradePath p t (map getVersion ks) =
       go_slice (map getVersion (sort_key version_row (path_versions ks p t))) (int i + 1) (int j + 1)"
    "i < j \<longleftrightarrow> version_row p < version_row t"
proof -
  let ?S = "sort_key version_row (path_versions ks p t)"
  have dS: "distinct ?S" and okS: "list_all version_ok ?S"
    using d pt ok by (auto simp: path_versions_def list_all_iff)
  have "p \<in> set ?S" "t \<in> set ?S" by (auto simp: path_versions_def)
  then obtain i j where ij: "i < length ?S" "?S ! i = p" "j < length ?S" "?S ! j = t"
    by (metis in_set_conv_nth)
  have "traceUpgradePath p t (map getVersion ks) = go_slice (map getVersion ?S) (int i + 1) (int j + 1)"
    using linearSearch_nth [OF dS okS ij(1)] linearSearch_nth [OF dS okS ij(3)] ij
    by (simp add: traceUpgradePath_def parseVersionMap_print [OF ok])
  moreover have "i < j \<longleftrightarrow> version_row p < version_row t"
    using strict_sort_key [of "path_versions ks p t"] dS ij
    by (metis distinct_sort linorder_neqE_nat order_less_asym order_less_irrefl sorted_wrt_nth_less)
  ultimately show ?thesis using that [of i j] ij by simp
qed

lemma upgrade_path_eq:
  assumes "list_all version_ok ks" "version_ok p" "version_ok t" "distinct ks"
    and "version_row p < version_row t"
  shows "traceUpgradePath p t (map getVersion ks) =
     Inr (map getVersion (sort_key version_row
       (filter (\<lambda>v. version_row p < version_row v \<and> version_row v \<le> version_row t)
         (ks @ (if t \<in> set ks then [] else [t])))))"
proof -
  let ?S = "sort_key version_row (path_versions ks p t)"
  let ?Q = "\<lambda>v. version_row p < version_row v \<and> version_row v \<le> version_row t"
  from assms have "p \<noteq> t" by auto
  with assms obtain i j where ij: "i < length ?S" "j < length ?S" "?S ! i = p" "?S ! j = t" "i < j"
    and tr: "traceUpgradePath p t (map getVersion ks) = go_slice (map getVersion ?S) (int i + 1) (int j + 1)"
    using traceUpgradePath_split [of ks p t] by (metis length_sort)
  have "distinct (path_versions ks p t)"
    using assms \<open>p \<noteq> t\<close> by (auto simp: path_versions_def)
  then have "drop (Suc i) (take (Suc j) ?S) = filter ?Q ?S"
    using slice_filter [OF strict_sort_key, of "path_versions ks p t" i j] ij by simp
  also have "\<dots> = sort_key version_row (filter ?Q (path_versions ks p t))"
    by (rule filter_sort)
  also have "filter ?Q (path_versions ks p t) = filter ?Q (ks @ (if t \<in> set ks then [] else [t]))"
    by (simp add: path_versions_def)
  finally show ?thesis
    using ij by (simp add: tr go_slice_def nat_add_distrib drop_map take_map)
qed

text \<open>
  C9: when the previous version is older than the target, the path is the ascending list of
  the versions of the map, and the target, that are newer than the previous version and not
  newer than the target.
\<close>

theorem traceUpgradePath_path:
  assumes "list_all version_ok ks" "version_ok p" "version_ok t" "distinct ks"
    and "version_row p < version_row t"
  shows "traceUpgradePath p t (map getVersion ks) =
     Inr (map getVersion (sort_key version_row
       (filter (\<lambda>v. version_row p < version_row v \<and> version_row v \<le> version_row t)
         (ks @ (if t \<in> set ks then [] else [t])))))"
  using assms by (rule upgrade_path_eq)

theorem traceUpgradePath_path_witness:
  "traceUpgradePath \<lparr>Major = 3, Minor = 0, Patch = 0, Beta = 0\<rparr> \<lparr>Major = 3, Minor = 10, Patch = 1, Beta = 0\<rparr>
     [''0.0.0'', ''3.9.0''] = Inr [''3.9.0'', ''3.10.1'']"
proof -
  let ?k = "[\<lparr>Major = 0, Minor = 0, Patch = 0, Beta = 0\<rparr>, \<lparr>Major = 3, Minor = 9, Patch = 0, Beta = 0\<rparr>]"
  let ?p = "\<lparr>Major = 3, Minor = 0, Patch = 0, Beta = 0\<rparr>"
  let ?t = "\<lparr>Major = 3, Minor = 10, Patch = 1, Beta = 0\<rparr>"
  have "list_all version_ok ?k" "version_ok ?p" "version_ok ?t" "distinct ?k"
    by (simp_all add: version_ok_def in_int64_def)
  moreover have "version_row ?p < version_row ?t" by (simp add: version_row_def)
  moreover have "map getVersion ?k = [''0.0.0'', ''3.9.0'']" by code_simp
  moreover have "map getVersion (sort_key version_row
       (filter (\<lambda>v. version_row ?p < version_row v \<and> version_row v \<le> version_row ?t)
         (?k @ (if ?t \<in> set ?k then [] else [?t])))) = [''3.9.0'', ''3.10.1'']" by code_simp
  ultimately show ?thesis using traceUpgradePath_path [of ?k ?p ?t] by simp
qed

section \<open>Running the path\<close>

lemma last_sort_key_max:
  assumes "t \<in> set vs" and "\<forall>v\<in>set vs. version_row v \<le> version_row t"
  shows "sort_key version_row vs \<noteq> [] \<and> last (sort_key version_row vs) = t"
proof -
  let ?S = "sort_key version_row vs"
  have ne: "?S \<noteq> []" using assms(1) by (metis empty_iff empty_set set_sort)
  obtain i where i: "i < length ?S" "?S ! i = t" using assms(1) by (metis in_set_conv_nth set_sort)
  then have "version_row t \<le> version_row (last ?S)"
    using sorted_nth_mono [OF sorted_sort_key [of version_row vs], of i "length ?S - 1"] ne
    by (simp add: last_conv_nth)
  moreover have "version_row (last ?S) \<le> version_row t"
    using assms(2) last_in_set [OF ne] by simp
  ultimately show ?thesis using ne by (metis antisym version_row_inject)
qed

text \<open>
  a target that is not newer than the stored version is never applied: \<^verbatim>\<open>Run\<close> panics, on
  the slice expression when the target is older and on the index of the empty path when both
  strings denote the same version, before any state is written.
\<close>

theorem Run_not_newer_panics:
  assumes "list_all version_ok ks" "version_ok p" "version_ok t" "distinct ks"
    and "version_row t \<le> version_row p"
  shows "Run vm (map getVersion ks) upd p t s = Inl (if p = t then IndexOutOfRange else SliceBounds)"
proof (cases "p = t")
  case True
  have "linearSearchArray (getVersion t) vs + 1 \<le> int (length vs)"
    "0 \<le> linearSearchArray (getVersion t) vs + 1" for vs
    by (auto simp: linearSearchArray_def dest: find_index_Some split: option.splits)
  then have "traceUpgradePath p t (map getVersion ks) = Inr []"
    using True assms
    by (simp add: traceUpgradePath_def parseVersionMap_print go_slice_def Let_def del: length_map length_sort)
  then show ?thesis using True by (simp add: Run_def)
next
  case False
  with assms obtain i j where ij: "j < length (path_versions ks p t)" "\<not> i < j"
    and at: "sort_key version_row (path_versions ks p t) ! i = p"
      "sort_key version_row (path_versions ks p t) ! j = t"
    and tr: "traceUpgradePath p t (map getVersion ks) =
       go_slice (map getVersion (sort_key version_row (path_versions ks p t))) (int i + 1) (int j + 1)"
    using traceUpgradePath_split [of ks p t] by (metis leD)
  from at False have "i \<noteq> j" by auto
  with ij tr show ?thesis using False by (simp add: Run_def go_slice_def)
qed

theorem Run_not_newer_panics_witness:
  "Run (\<lambda>_. None) [''3.9.0''] (\<lambda>v _. v) \<lparr>Major = 3, Minor = 10, Patch = 0, Beta = 0\<rparr>
     \<lparr>Major = 3, Minor = 9, Patch = 1, Beta = 0\<rparr> ''3.10.0'' = Inl SliceBounds"
proof -
  let ?k = "[\<lparr>Major = 3, Minor = 9, Patch = 0, Beta = 0\<rparr>]"
  let ?p = "\<lparr>Major = 3, Minor = 10, Patch = 0, Beta = 0\<rparr>"
  let ?t = "\<lparr>Major = 3, Minor = 9, Patch = 1, Beta = 0\<rparr>"
  have "list_all version_ok ?k" "version_ok ?p" "version_ok ?t" "distinct ?k" "version_row ?t \<le> version_row ?p"
    by (simp_all add: version_ok_def in_int64_def version_row_def)
  moreover have "map getVersion ?k = [''3.9.0'']" by code_simp
  ultimately show ?thesis using Run_not_newer_panics [of ?k ?p ?t] by simp
qed

text \<open>
  What the executed part of a path leaves in the version store: the version of the last
  manager that succeeded.
\<close>

lemma run_path_version:
  assumes upd: "\<And>v s. versionOf (upd v s) = v"
    and mgr: "\<And>v ex m s. vm v = Some ex \<Longrightarrow> VersionManager ex = Some m \<Longrightarrow> versionOf (snd (m s)) = versionOf s"
  shows "run_path vm upd path s = (r, s') \<Longrightarrow>
     versionOf s' = versionOf s \<or> (\<exists>v\<in>set path. vm v \<noteq> None \<and> versionOf s' = v)"
proof (induction path arbitrary: s)
  case (Cons v vs)
  show ?case
  proof (cases "\<exists>ex m. vm v = Some ex \<and> VersionManager ex = Some m")
    case False
    then have "run_path vm upd vs s = (r, s')"
      using Cons.prems by (auto split: option.splits)
    then show ?thesis using Cons.IH by auto
  next
    case True
    then obtain ex m where ex: "vm v = Some ex" "VersionManager ex = Some m" by blast
    obtain e s1 where m: "m s = (e, s1)" by (cases "m s")
    then have "versionOf s1 = versionOf s" using mgr [OF ex] by (metis snd_conv)
    then show ?thesis
      using Cons.prems Cons.IH [of "upd v s1"] ex m upd by (cases e) auto
  qed
qed simp

lemma Run_success:
  "traceUpgradePath p t ks = Inr path \<Longrightarrow> path \<noteq> [] \<Longrightarrow> run_path vm upd path s = (None, s1) \<Longrightarrow>
   Run vm ks upd p t s = Inr (None, upd (last path) s1)"
  by (simp add: Run_def last_conv_nth)

text \<open>
  an upgrade that succeeds records exactly the target version; one that fails in a manager
  leaves the previous version or a version of the map between it and the target, the last one
  reached. The stored version is read with \<^verbatim>\<open>versionOf\<close>: writing it makes it readable, and the
  managers do not touch it.
\<close>

theorem Run_records_version:
  assumes "list_all version_ok ks" "version_ok p" "version_ok t" "distinct ks"
    and "version_row p < version_row t"
    and "\<And>v s. versionOf (upd v s) = v"
    and "\<And>v ex m s. vm v = Some ex \<Longrightarrow> VersionManager ex = Some m \<Longrightarrow> versionOf (snd (m s)) = versionOf s"
  shows "\<exists>r s'. Run vm (map getVersion ks) upd p t s = Inr (r, s') \<and>
    (case r of None \<Rightarrow> versionOf s' = getVersion t
     | Some e \<Rightarrow> versionOf s' = versionOf s \<or>
         (\<exists>v\<in>set (t # ks). version_row p < version_row v \<and> version_row v \<le> version_row t \<and>
            versionOf s' = getVersion v))"
proof -
  let ?F = "filter (\<lambda>v. version_row p < version_row v \<and> version_row v \<le> version_row t)
      (ks @ (if t \<in> set ks then [] else [t]))"
  let ?P = "sort_key version_row ?F"
  have tr: "traceUpgradePath p t (map getVersion ks) = Inr (map getVersion ?P)"
    using assms(1-5) by (rule upgrade_path_eq)
  have set_F: "v \<in> set (t # ks) \<and> version_row p < version_row v \<and> version_row v \<le> version_row t"
    if "v \<in> set ?F" for v
    using that by (auto split: if_splits)
  have "t \<in> set ?F" using assms(5) by simp
  moreover have "\<forall>v\<in>set ?F. version_row v \<le> version_row t" using set_F by blast
  ultimately have ne: "?P \<noteq> []" and last: "last ?P = t"
    using last_sort_key_max [of t ?F] by blast+
  obtain r s1 where rp: "run_path vm upd (map getVersion ?P) s = (r, s1)"
    by (cases "run_path vm upd (map getVersion ?P) s")
  show ?thesis
  proof (cases r)
    case None
    then have "Run vm (map getVersion ks) upd p t s = Inr (None, upd (getVersion t) s1)"
      using Run_success [OF tr _ rp [unfolded None]] ne last by (simp only: last_map map_is_Nil_conv simp_thms)
    then show ?thesis using assms(6) by auto
  next
    case (Some e)
    then have run: "Run vm (map getVersion ks) upd p t s = Inr (Some e, s1)"
      using tr rp by (simp add: Run_def)
    have "versionOf s1 = versionOf s \<or> (\<exists>v\<in>set (map getVersion ?P). vm v \<noteq> None \<and> versionOf s1 = v)"
      using assms(6,7) rp by (rule run_path_version)
    then have "versionOf s1 = versionOf s \<or> (\<exists>v. v \<in> set ?F \<and> versionOf s1 = getVersion v)"
      unfolding set_map set_sort by blast
    then have "versionOf s1 = versionOf s \<or>
         (\<exists>v\<in>set (t # ks). version_row p < version_row v \<and> version_row v \<le> version_row t \<and>
            versionOf s1 = getVersion v)"
      using set_F by blast
    with run show ?thesis by (intro exI [of _ "Some e"] exI [of _ s1] conjI) simp_all
  qed
qed

theorem Run_records_version_witness:
  "\<exists>r s'. Run [''3.9.0'' \<mapsto> \<lparr>NextVersion = [], VersionManager = Some (\<lambda>s. (Some ''down'', s))\<rparr>]
       (map getVersion [\<lparr>Major = 3, Minor = 9, Patch = 0, Beta = 0\<rparr>])
       (\<lambda>v _. v) \<lparr>Major = 3, Minor = 8, Patch = 0, Beta = 0\<rparr>
       \<lparr>Major = 3, Minor = 10, Patch = 0, Beta = 0\<rparr> ''3.8.0'' = Inr (r, s') \<and>
     (case r of None \<Rightarrow> s' = getVersion \<lparr>Major = 3, Minor = 10, Patch = 0, Beta = 0\<rparr>
      | Some e \<Rightarrow> s' = ''3.8.0'' \<or>
         (\<exists>v\<in>set [\<lparr>Major = 3, Minor = 10, Patch = 0, Beta = 0\<rparr>, \<lparr>Major = 3, Minor = 9, Patch = 0, Beta = 0\<rparr>].
            version_row \<lparr>Major = 3, Minor = 8, Patch = 0, Beta = 0\<rparr> < version_row v \<and>
            version_row v \<le> version_row \<lparr>Major = 3, Minor = 10, Patch = 0, Beta = 0\<rparr> \<and> s' = getVersion v))"
  by (rule Run_records_version)
    (auto simp: version_ok_def in_int64_def version_row_def split: if_splits)

end
