(* ===== verification/Auth_Project_Handlers.thy ===== *)
theory Auth_Project_Handlers
  imports Auth_User_Repo
begin

text \<open>
  The REST handlers for projects (\<^verbatim>\<open>api/handlers/rest/project_handler.go\<close>). A handler takes the
  database, the libraries, the caller \<^verbatim>\<open>c\<close> (what the token says) and the request; the body of a
  request is \<^verbatim>\<open>None\<close> when \<^verbatim>\<open>BindJSON\<close> fails. Handlers that only read return a response, the
  others a response and the new state. Calls of \<^verbatim>\<open>time.Now\<close> and \<^verbatim>\<open>uuid.NewRandom\<close> are numbered in the
  order of the code.
\<close>

section \<open>Reading handlers\<close>

definition GetUserWithProject :: "'s db \<Rightarrow> env \<Rightarrow> ctx \<Rightarrow> string \<Rightarrow> (string \<Rightarrow> string) \<Rightarrow> 's \<Rightarrow> response" where
  "GetUserWithProject db env c name query s =
     (if username c \<noteq> name \<and> role c \<noteq> RoleAdmin then fails ErrUnauthorized
      else case FindUserByUsername db name s of
        Inl e \<Rightarrow> fails ErrUserNotFound
      | Inr u \<Rightarrow>
          (case GetProjectFilters (Some (uid c)) query of
             Inl e \<Rightarrow> (400, ErrorField (error_text e))
           | Inr rq \<Rightarrow>
               (case repo_GetProjectsByUserID db env (rq\<lparr>rq_user_id := u_id u\<rparr>) s of
                  Inl e \<Rightarrow> fails ErrServerError
                | Inr res \<Rightarrow>
                    (200, UserProjectBody \<lparr>uwp_id = u_id u, uwp_username = u_username u,
                       uwp_email = u_email u, uwp_name = u_name u, uwp_projects = lp_projects res\<rparr>))))"

definition GetProject :: "'s db \<Rightarrow> ctx \<Rightarrow> string \<Rightarrow> 's \<Rightarrow> response" where
  "GetProject db c pid s =
     (if role c \<noteq> RoleAdmin \<and>
         RbacValidator db (uid c) pid (MutationRbacRules ''getProject'') AcceptedInvitation s \<noteq> None
      then fails ErrUnauthorized
      else case GetProjectByProjectID db pid s of
        Inl e \<Rightarrow> fails ErrServerError
      | Inr p \<Rightarrow> (200, ProjectBody p))"

text \<open>The nil response of a failed query is tested before its error.\<close>

definition GetProjectsByUserID :: "'s db \<Rightarrow> env \<Rightarrow> ctx \<Rightarrow> (string \<Rightarrow> string) \<Rightarrow> 's \<Rightarrow> response" where
  "GetProjectsByUserID db env c query s =
     (case GetProjectFilters (Some (uid c)) query of
        Inl e \<Rightarrow> (400, ErrorField (error_text e))
      | Inr rq \<Rightarrow>
          (case repo_GetProjectsByUserID db env rq s of
             Inl e \<Rightarrow> (200, MessageBody ''No projects found'')
           | Inr res \<Rightarrow> if lp_total res = 0 then (200, MessageBody ''No projects found'')
                       else (200, ListProjectsBody res)))"

definition GetProjectStats :: "'s db \<Rightarrow> ctx \<Rightarrow> 's \<Rightarrow> response" where
  "GetProjectStats db c s =
     (if role c \<noteq> RoleAdmin then (400, MessageBody ''Permission denied, user is not admin'')
      else case repo_GetProjectStats db s of
        Inl e \<Rightarrow> fails ErrServerError
      | Inr ps \<Rightarrow> (200, StatsBody ps))"

definition GetActiveProjectMembers :: "'s db \<Rightarrow> ctx \<Rightarrow> string \<Rightarrow> string \<Rightarrow> 's \<Rightarrow> response" where
  "GetActiveProjectMembers db c pid state s =
     (if role c \<noteq> RoleAdmin \<and>
         RbacValidator db (uid c) pid (MutationRbacRules ''getActiveProjectMembers'') AcceptedInvitation s \<noteq> None
      then fails ErrUnauthorized
      else case GetProjectMembers db pid state s of
        Inl e \<Rightarrow> fails ErrServerError
      | Inr ms \<Rightarrow> (200, MembersBody ms))"

definition GetActiveProjectOwners :: "'s db \<Rightarrow> string \<Rightarrow> 's \<Rightarrow> response" where
  "GetActiveProjectOwners db pid s =
     (case repo_GetProjectOwners db pid s of
        Inl e \<Rightarrow> fails ErrServerError
      | Inr ms \<Rightarrow> (200, MembersBody ms))"

text \<open>The first entry of the user decides; no entry gives the empty string.\<close>

definition getInvitation :: "'s db \<Rightarrow> string \<Rightarrow> string \<Rightarrow> 's \<Rightarrow> go_error + string" where
  "getInvitation db pid u s =
     (case GetProjectByProjectID db pid s of
        Inl e \<Rightarrow> Inl e
      | Inr p \<Rightarrow> Inr (case List.find (\<lambda>m. m_user_id m = u) (p_members p) of
                        None \<Rightarrow> [] | Some m \<Rightarrow> m_invitation m))"

fun collect_invitation :: "member list \<Rightarrow> list_invitation_response \<Rightarrow> list_invitation_response" where
  "collect_invitation [] r = r"
| "collect_invitation (m # ms) r =
     collect_invitation ms
       (if m_role m = RoleOwner then r\<lparr>li_project_owner := m\<rparr> else r\<lparr>li_invitation_role := m_role m\<rparr>)"

definition invitation_response :: "project \<Rightarrow> list_invitation_response" where
  "invitation_response p =
     collect_invitation (p_members p)
       \<lparr>li_project_id = p_id p, li_project_name = p_name p, li_project_owner = empty_member, li_invitation_role = []\<rparr>"

definition ListInvitations :: "'s db \<Rightarrow> ctx \<Rightarrow> string \<Rightarrow> 's \<Rightarrow> response" where
  "ListInvitations db c invitationState s =
     (case repo_ListInvitations db (uid c) invitationState s of
        Inl e \<Rightarrow> fails ErrServerError
      | Inr ps \<Rightarrow> (200, InvitationsBody (map invitation_response ps)))"

definition GetOwnerProjects :: "'s db \<Rightarrow> ctx \<Rightarrow> 's \<Rightarrow> response" where
  "GetOwnerProjects db c s =
     (case repo_GetOwnerProjects db (uid c) s of
        Inl e \<Rightarrow> fails ErrServerError
      | Inr ps \<Rightarrow> (200, ProjectsBody ps))"

definition GetProjectRole :: "'s db \<Rightarrow> ctx \<Rightarrow> string \<Rightarrow> 's \<Rightarrow> response" where
  "GetProjectRole db c pid s =
     (case repo_GetProjectRole db pid (uid c) s of
        Inl e \<Rightarrow> if e = Driver ErrNoDocuments then fails ErrProjectNotFound else fails ErrServerError
      | Inr None \<Rightarrow> (200, RoleBody ''N/A'')
      | Inr (Some r) \<Rightarrow> (200, RoleBody r))"

section \<open>Creating a project\<close>

record create_project_input =
  cp_name :: string
  cp_description :: "string option"
  cp_tags :: "string option list option"

definition user_detail_of :: "user \<Rightarrow> user_detail" where
  "user_detail_of u = \<lparr>ud_user_id = u_id u, ud_username = u_username u, ud_email = u_email u\<rparr>"

definition created_project :: "env \<Rightarrow> create_project_input \<Rightarrow> user \<Rightarrow> project" where
  "created_project env rq u =
     \<lparr>p_audit = \<lparr>UpdatedAt = now_ms env 2, CreatedAt = now_ms env 1, CreatedBy = user_detail_of u,
                 UpdatedBy = user_detail_of u, IsRemoved = False\<rparr>,
      p_id = new_uuid env 0, p_name = cp_name rq,
      p_members = [empty_member\<lparr>m_user_id := u_id u, m_username := u_name u, m_email := u_email u,
                     m_role := RoleOwner, m_invitation := AcceptedInvitation, m_joined_at := now_ms env 0\<rparr>],
      p_state = Some ''active'',
      p_tags = (case cp_tags rq of None \<Rightarrow> [] | Some ts \<Rightarrow> ts),
      p_description = Some (case cp_description rq of None \<Rightarrow> [] | Some d \<Rightarrow> d)\<rparr>"

definition CreateProject :: "'s db \<Rightarrow> env \<Rightarrow> ctx \<Rightarrow> create_project_input option \<Rightarrow> 's \<Rightarrow> response \<times> 's" where
  "CreateProject db env c rq s =
     (case rq of None \<Rightarrow> (fails ErrInvalidRequest, s)
      | Some userRequest \<Rightarrow>
      case CheckInitialLogin db (uid c) s of
        Inl e \<Rightarrow> (fails ErrServerError, s)
      | Inr True \<Rightarrow> (error_json ErrServerError ErrPasswordNotUpdated, s)
      | Inr False \<Rightarrow>
      if cp_name userRequest = [] then (fails ErrEmptyProjectName, s)
      else case GetUser db (uid c) s of
        Inl e \<Rightarrow> (fails ErrServerError, s)
      | Inr u \<Rightarrow>
      (case GetProjects db (\<lambda>p. p_name p = cp_name userRequest) s of
        Inl e \<Rightarrow> ((200, NoBody), s)
      | Inr ps \<Rightarrow>
          if length ps > 0 then
            ((400, MessageBody (''project with name:'' @ cp_name userRequest @ '' already exists'')), s)
          else
            let newProject = created_project env userRequest u in
            (case repo_CreateProject db newProject s of
               (Some e, s') \<Rightarrow> (fails ErrServerError, s')
             | (None, s') \<Rightarrow> ((200, ProjectBody (GetProjectOutput newProject)), s'))))"

section \<open>Invitations and membership\<close>

record member_input =
  mi_project_id :: string
  mi_user_id :: string
  mi_role :: "string option"

definition valid_role :: "string option \<Rightarrow> bool" where
  "valid_role r \<longleftrightarrow> (case r of None \<Rightarrow> False
     | Some x \<Rightarrow> x = RoleExecutor \<or> x = RoleViewer \<or> x = RoleOwner \<or> x = RoleEditor)"

definition invited_member :: "env \<Rightarrow> user \<Rightarrow> string \<Rightarrow> member" where
  "invited_member env u r =
     \<lparr>m_user_id = u_id u, m_username = u_username u, m_email = u_email u, m_name = u_name u, m_role = r,
      m_invitation = PendingInvitation, m_joined_at = now_ms env 0, m_deactivated_at = None\<rparr>"

definition SendInvitation :: "'s db \<Rightarrow> env \<Rightarrow> ctx \<Rightarrow> member_input option \<Rightarrow> 's \<Rightarrow> response \<times> 's" where
  "SendInvitation db env c rq s =
     (case rq of None \<Rightarrow> (fails ErrInvalidRequest, s)
      | Some mb \<Rightarrow>
      if RbacValidator db (uid c) (mi_project_id mb) (MutationRbacRules ''sendInvitation'') AcceptedInvitation s \<noteq> None
      then (fails ErrUnauthorized, s)
      else case CheckInitialLogin db (uid c) s of
        Inl e \<Rightarrow> (fails ErrServerError, s)
      | Inr True \<Rightarrow> (error_json ErrServerError ErrPasswordNotUpdated, s)
      | Inr False \<Rightarrow>
      if \<not> valid_role (mi_role mb) then (fails ErrInvalidRole, s)
      else case GetUser db (mi_user_id mb) s of
        Inl e \<Rightarrow> ((if e = Driver ErrNoDocuments then fails ErrUserNotFound else fails ErrServerError), s)
      | Inr u \<Rightarrow>
      (case getInvitation db (mi_project_id mb) (mi_user_id mb) s of
        Inl e \<Rightarrow> ((if e = Driver ErrNoDocuments then fails ErrProjectNotFound else fails ErrServerError), s)
      | Inr invitation \<Rightarrow>
          if invitation = AcceptedInvitation then
            ((400, MessageBody ''user is already a member of this project''), s)
          else if invitation = PendingInvitation \<or> invitation = DeclinedInvitation \<or> invitation = ExitedProject then
            (case UpdateInvite db env (mi_project_id mb) (mi_user_id mb) PendingInvitation (mi_role mb) s of
               (Some e, s') \<Rightarrow> (fails ErrServerError, s')
             | (None, s') \<Rightarrow> ((200, MessageBody ''Invitation sent successfully''), s'))
          else
            let newMember = invited_member env u (role_value (mi_role mb)) in
            (case AddMember db (mi_project_id mb) newMember s of
               (Some e, s') \<Rightarrow> (fails ErrServerError, s')
             | (None, s') \<Rightarrow> ((200, MemberBody newMember), s'))))"

text \<open>The steps \<^verbatim>\<open>AcceptInvitation\<close>, \<^verbatim>\<open>DeclineInvitation\<close> and the end of \<^verbatim>\<open>LeaveProject\<close> share.\<close>

definition change_own_invitation ::
  "'s db \<Rightarrow> env \<Rightarrow> ctx \<Rightarrow> string \<Rightarrow> string \<Rightarrow> string \<Rightarrow> string \<Rightarrow> string \<Rightarrow> 's \<Rightarrow> response \<times> 's" where
  "change_own_invitation db env c pid rule required new message s =
     (case CheckInitialLogin db (uid c) s of
        Inl e \<Rightarrow> (fails ErrServerError, s)
      | Inr True \<Rightarrow> (error_json ErrServerError ErrPasswordNotUpdated, s)
      | Inr False \<Rightarrow>
      if RbacValidator db (uid c) pid (MutationRbacRules rule) required s \<noteq> None
      then (fails ErrUnauthorized, s)
      else case UpdateInvite db env pid (uid c) new None s of
        (Some e, s') \<Rightarrow> (fails ErrServerError, s')
      | (None, s') \<Rightarrow> ((200, MessageBody message), s'))"

definition AcceptInvitation :: "'s db \<Rightarrow> env \<Rightarrow> ctx \<Rightarrow> member_input option \<Rightarrow> 's \<Rightarrow> response \<times> 's" where
  "AcceptInvitation db env c rq s =
     (case rq of None \<Rightarrow> (fails ErrInvalidRequest, s)
      | Some mb \<Rightarrow> change_own_invitation db env c (mi_project_id mb) ''acceptInvitation''
          PendingInvitation AcceptedInvitation ''Successful'' s)"

definition DeclineInvitation :: "'s db \<Rightarrow> env \<Rightarrow> ctx \<Rightarrow> member_input option \<Rightarrow> 's \<Rightarrow> response \<times> 's" where
  "DeclineInvitation db env c rq s =
     (case rq of None \<Rightarrow> (fails ErrInvalidRequest, s)
      | Some mb \<Rightarrow> change_own_invitation db env c (mi_project_id mb) ''declineInvitation''
          PendingInvitation DeclinedInvitation ''successful'' s)"

definition LeaveProject :: "'s db \<Rightarrow> env \<Rightarrow> ctx \<Rightarrow> member_input option \<Rightarrow> 's \<Rightarrow> response \<times> 's" where
  "LeaveProject db env c rq s =
     (case rq of None \<Rightarrow> (fails ErrInvalidRequest, s)
      | Some mb \<Rightarrow>
          let rest = change_own_invitation db env c (mi_project_id mb) ''leaveProject''
                       AcceptedInvitation ExitedProject ''successful'' s
          in if mi_role mb = Some RoleOwner then
               (case repo_GetProjectOwners db (mi_project_id mb) s of
                  Inl e \<Rightarrow> (fails ErrServerError, s)
                | Inr owners \<Rightarrow>
                    if length owners = 1 then
                      ((400, MessageBody ''Cannot leave project. There must be at least one owner.''), s)
                    else rest)
             else rest)"

definition RemoveInvitation :: "'s db \<Rightarrow> ctx \<Rightarrow> member_input option \<Rightarrow> 's \<Rightarrow> response \<times> 's" where
  "RemoveInvitation db c rq s =
     (case rq of None \<Rightarrow> (fails ErrInvalidRequest, s)
      | Some mb \<Rightarrow>
      if mi_user_id mb = [] then (fails ErrInvalidRequest, s)
      else case CheckInitialLogin db (uid c) s of
        Inl e \<Rightarrow> (fails ErrServerError, s)
      | Inr True \<Rightarrow> (error_json ErrServerError ErrPasswordNotUpdated, s)
      | Inr False \<Rightarrow>
      if RbacValidator db (uid c) (mi_project_id mb) (MutationRbacRules ''removeInvitation'') AcceptedInvitation s \<noteq> None
      then (fails ErrUnauthorized, s)
      else if uid c = mi_user_id mb then
        ((400, MessageBody ''User cannot remove invitation of themselves use Leave Project.''), s)
      else case getInvitation db (mi_project_id mb) (mi_user_id mb) s of
        Inl e \<Rightarrow> (fails ErrServerError, s)
      | Inr invitation \<Rightarrow>
          if invitation = AcceptedInvitation \<or> invitation = PendingInvitation then
            (case repo_RemoveInvitation db (mi_project_id mb) (mi_user_id mb) invitation s of
               (Some e, s') \<Rightarrow> (fails ErrServerError, s')
             | (None, s') \<Rightarrow> ((200, MessageBody ''successful''), s'))
          else if invitation = DeclinedInvitation \<or> invitation = ExitedProject then
            ((400, MessageBody ''User is not a part of your project''), s)
          else ((200, MessageBody ''successful''), s))"

section \<open>Changing and deleting a project\<close>

definition UpdateProjectName :: "'s db \<Rightarrow> ctx \<Rightarrow> (string \<times> string) option \<Rightarrow> 's \<Rightarrow> response \<times> 's" where
  "UpdateProjectName db c rq s =
     (case rq of None \<Rightarrow> (fails ErrInvalidRequest, s)
      | Some (pid, name) \<Rightarrow>
      case CheckInitialLogin db (uid c) s of
        Inl e \<Rightarrow> (fails ErrServerError, s)
      | Inr True \<Rightarrow> (error_json ErrServerError ErrPasswordNotUpdated, s)
      | Inr False \<Rightarrow>
      if RbacValidator db (uid c) pid (MutationRbacRules ''updateProjectName'') AcceptedInvitation s \<noteq> None
      then (fails ErrUnauthorized, s)
      else case GetProjects db (\<lambda>p. p_name p = name \<and> list_ex (\<lambda>m. m_user_id m = uid c) (p_members p) \<and>
                 list_ex (\<lambda>m. m_role m = RoleOwner) (p_members p)) s of
        Inl e \<Rightarrow> ((200, NoBody), s)
      | Inr ps \<Rightarrow>
          if length ps > 0 then ((400, MessageBody (''project with name: '' @ name @ '' already exists'')), s)
          else (case repo_UpdateProjectName db pid name s of
                  (Some e, s') \<Rightarrow> (fails ErrServerError, s')
                | (None, s') \<Rightarrow> ((200, MessageBody ''successful''), s')))"

definition UpdateMemberRole :: "'s db \<Rightarrow> ctx \<Rightarrow> member_input option \<Rightarrow> 's \<Rightarrow> response \<times> 's" where
  "UpdateMemberRole db c rq s =
     (case rq of None \<Rightarrow> (fails ErrInvalidRequest, s)
      | Some mb \<Rightarrow>
      if \<not> valid_role (mi_role mb) then (fails ErrInvalidRole, s)
      else if RbacValidator db (uid c) (mi_project_id mb) (MutationRbacRules ''updateMemberRole'') AcceptedInvitation s \<noteq> None
      then (fails ErrUnauthorized, s)
      else if uid c = mi_user_id mb then ((400, MessageBody ''User cannot change their own role.''), s)
      else case repo_UpdateMemberRole db (mi_project_id mb) (mi_user_id mb) (mi_role mb) s of
        (Some e, s') \<Rightarrow> (fails ErrServerError, s')
      | (None, s') \<Rightarrow> ((200, MessageBody ''successful''), s'))"

definition DeleteProject :: "'s db \<Rightarrow> ctx \<Rightarrow> string \<Rightarrow> 's \<Rightarrow> response \<times> 's" where
  "DeleteProject db c pid s =
     (if RbacValidator db (uid c) pid (MutationRbacRules ''deleteProject'') AcceptedInvitation s \<noteq> None
      then (fails ErrUnauthorized, s)
      else case repo_DeleteProject db pid s of
        (Some e, s') \<Rightarrow> (fails ErrServerError, s')
      | (None, s') \<Rightarrow> ((200, MessageBody ''Successfully deleted project.''), s'))"

end
