(* ===== verification/Auth_User_Handlers.thy ===== *)
theory Auth_User_Handlers
  imports Auth_Session Auth_Project_Handlers
begin

text \<open>
  The REST handlers for users, tokens and OAuth (\<^verbatim>\<open>api/handlers/rest/user_handlers.go\<close>,
  \<^verbatim>\<open>dex_auth_handler.go\<close>, \<^verbatim>\<open>misc_handlers.go\<close>, \<^verbatim>\<open>capabilities_handler.go\<close>) and the setup of the
  administrator (\<^verbatim>\<open>api/main.go\<close>), in the form of the project handlers.
\<close>

section \<open>Users\<close>

text \<open>The body of a request to create a user can set any field of the document.\<close>

definition CreateUser :: "'s db \<Rightarrow> env \<Rightarrow> ctx \<Rightarrow> user option \<Rightarrow> 's \<Rightarrow> response \<times> 's" where
  "CreateUser db env c rq s =
     (if role c \<noteq> RoleAdmin then (fails ErrUnauthorized, s)
      else case rq of None \<Rightarrow> (fails ErrInvalidRequest, s)
      | Some u0 \<Rightarrow>
      if u_role u0 \<noteq> RoleUser \<and> u_role u0 \<noteq> RoleAdmin then (fails ErrInvalidRequest, s)
      else let u1 = u0\<lparr>u_username := SanitizeString (u_username u0)\<rparr> in
      if u_role u1 = [] \<or> u_username u1 = [] \<or> u_password u1 = [] then (fails ErrInvalidRequest, s)
      else if ValidateStrictUsername (u_username u1) \<noteq> None then (fails ErrStrictUsernamePolicyViolation, s)
      else case bcrypt_generate env (u_password u1) of
        Inl t \<Rightarrow> (fails ErrServerError, s)
      | Inr h \<Rightarrow>
      if u_email u1 \<noteq> [] \<and> \<not> mail_parses env (u_email u1) then (fails ErrInvalidEmail, s)
      else case repo_CreateUser db (u1\<lparr>u_id := new_uuid env 0, u_is_initial_login := True, u_password := h,
                  u_audit := (u_audit u1)\<lparr>CreatedAt := now_ms env 0\<rparr>\<rparr>) s of
        (Inl e, s') \<Rightarrow> ((if e = App ErrUserExists then fails ErrUserExists else fails ErrServerError), s')
      | (Inr u, s') \<Rightarrow> ((200, UserBody u), s'))"

definition UpdateUser :: "'s db \<Rightarrow> ctx \<Rightarrow> user_details option \<Rightarrow> 's \<Rightarrow> response \<times> 's" where
  "UpdateUser db c rq s =
     (case rq of None \<Rightarrow> (fails ErrInvalidRequest, s)
      | Some d \<Rightarrow>
      case CheckInitialLogin db (uid c) s of
        Inl e \<Rightarrow> (fails ErrServerError, s)
      | Inr True \<Rightarrow> (error_json ErrServerError ErrPasswordNotUpdated, s)
      | Inr False \<Rightarrow>
      (case repo_UpdateUser db (d\<lparr>de_id := uid c\<rparr>) s of
         (Some e, s') \<Rightarrow> (fails ErrServerError, s')
       | (None, s') \<Rightarrow> ((200, MessageBody ''User details updated successfully''), s')))"

definition GetUserHandler :: "'s db \<Rightarrow> ctx \<Rightarrow> string \<Rightarrow> 's \<Rightarrow> response" where
  "GetUserHandler db c i s =
     (if uid c \<noteq> i \<and> role c \<noteq> RoleAdmin then fails ErrUnauthorized
      else case GetUser db i s of Inl e \<Rightarrow> fails ErrUserNotFound | Inr u \<Rightarrow> (200, UserBody u))"

definition FetchUsers :: "'s db \<Rightarrow> ctx \<Rightarrow> 's \<Rightarrow> response" where
  "FetchUsers db c s =
     (if role c \<noteq> RoleAdmin then fails ErrUnauthorized
      else case GetUsers db s of Inl e \<Rightarrow> fails ErrServerError | Inr us \<Rightarrow> (200, UsersBody us))"

text \<open>The error of the member query is overwritten; it leaves no members.\<close>

definition InviteUsers :: "'s db \<Rightarrow> ctx \<Rightarrow> string \<Rightarrow> 's \<Rightarrow> response" where
  "InviteUsers db c pid s =
     (if pid = [] then fails ErrInvalidRequest
      else if RbacValidator db (uid c) pid (MutationRbacRules ''sendInvitation'') AcceptedInvitation s \<noteq> None
      then fails ErrUnauthorized
      else let ms = (case GetProjectMembers db pid ''all'' s of Inl e \<Rightarrow> [] | Inr ms \<Rightarrow> ms) in
        case repo_InviteUsers db (map m_user_id ms) s of
          Inl e \<Rightarrow> fails ErrServerError
        | Inr us \<Rightarrow> (200, UsersBody us))"

section \<open>The default project\<close>

text \<open>
  Shared by login, password change and the OAuth callback: the identifier of the first project the
  user owns; otherwise a project is created. \<^verbatim>\<open>k\<close> is the number of the first clock call. The error of
  the query is not looked at; a failed creation ends the handler without a response.
\<close>

definition default_project :: "env \<Rightarrow> nat \<Rightarrow> user \<Rightarrow> project" where
  "default_project env k u =
     \<lparr>p_audit = \<lparr>UpdatedAt = now_ms env (k + 2), CreatedAt = now_ms env (k + 1), CreatedBy = user_detail_of u,
                 UpdatedBy = user_detail_of u, IsRemoved = False\<rparr>,
      p_id = new_uuid env k, p_name = u_username u @ ''-project'',
      p_members = [\<lparr>m_user_id = u_id u, m_username = u_username u, m_email = u_email u, m_name = u_name u,
                    m_role = RoleOwner, m_invitation = AcceptedInvitation, m_joined_at = now_ms env k,
                    m_deactivated_at = None\<rparr>],
      p_state = Some ''active'', p_tags = [], p_description = None\<rparr>"

definition owned_projects :: "'s db \<Rightarrow> string \<Rightarrow> 's \<Rightarrow> project list" where
  "owned_projects db u s = (case repo_GetOwnerProjects db u s of Inl e \<Rightarrow> [] | Inr ps \<Rightarrow> ps)"

definition ensure_project :: "'s db \<Rightarrow> env \<Rightarrow> nat \<Rightarrow> user \<Rightarrow> 's \<Rightarrow> string option \<times> 's" where
  "ensure_project db env k u s =
     (case owned_projects db (u_id u) s of
        p # ps \<Rightarrow> (Some (p_id p), s)
      | [] \<Rightarrow> (case repo_CreateProject db (default_project env k u) s of
                (Some e, s') \<Rightarrow> (None, s')
              | (None, s') \<Rightarrow> (Some (p_id (default_project env k u)), s')))"

section \<open>Login and logout\<close>

definition login_body :: "env \<Rightarrow> string \<Rightarrow> string \<Rightarrow> body" where
  "login_body env t pid = LoginBody \<lparr>lr_access_token = t, lr_project_id = pid, lr_project_role = RoleOwner,
     lr_expires_in = wrap64 (JWTExpiryDuration env * 60)\<rparr>"

definition LoginUser :: "'s db \<Rightarrow> env \<Rightarrow> (string \<times> string) option \<Rightarrow> 's \<Rightarrow> response \<times> 's" where
  "LoginUser db env rq s =
     (case rq of None \<Rightarrow> (fails ErrInvalidRequest, s)
      | Some (name0, password) \<Rightarrow>
      let name = SanitizeString name0 in
      if name = [] \<or> password = [] then (fails ErrInvalidRequest, s)
      else case FindUserByUsername db name s of
        Inl e \<Rightarrow> (fails ErrInvalidCredentials, s)
      | Inr u \<Rightarrow>
      if u_deactivated_at u \<noteq> None then (fails ErrInvalidCredentials, s)
      else if CheckPasswordHash env (u_password u) password \<noteq> None then (fails ErrInvalidCredentials, s)
      else case GetConfig db ''salt'' s of
        Inl e \<Rightarrow> (fails ErrServerError, s)
      | Inr salt \<Rightarrow>
      (case GetSignedJWT env 0 u (ac_value salt) of
        Inl e \<Rightarrow> (fails ErrServerError, s)
      | Inr t \<Rightarrow>
          if owned_projects db (u_id u) s = [] \<and> u_is_initial_login u then ((200, login_body env t []), s)
          else (case ensure_project db env 1 u s of
                  (None, s') \<Rightarrow> ((200, NoBody), s')
                | (Some pid, s') \<Rightarrow> ((200, login_body env t pid), s'))))"

text \<open>An empty header is refused, a shorter one than the schema panics, as does a token without expiry.\<close>

definition LogoutUser :: "'s db \<Rightarrow> env \<Rightarrow> string \<Rightarrow> 's \<Rightarrow> response \<times> 's" where
  "LogoutUser db env header s =
     (if header = [] then (fails ErrUnauthorized, s)
      else if length header < length BearerSchema then ((500, NoBody), s)
      else case RevokeToken db env (drop (length BearerSchema) header) s of
        (Inl p, s') \<Rightarrow> ((500, NoBody), s')
      | (Inr (Some e), s') \<Rightarrow> (fails ErrServerError, s')
      | (Inr None, s') \<Rightarrow> ((200, MessageBody ''successfully logged out''), s'))"

section \<open>Passwords\<close>

definition UpdatePassword :: "'s db \<Rightarrow> env \<Rightarrow> ctx \<Rightarrow> user_password option \<Rightarrow> 's \<Rightarrow> response \<times> 's" where
  "UpdatePassword db env c rq s =
     (case rq of None \<Rightarrow> (fails ErrInvalidRequest, s)
      | Some up \<Rightarrow>
      case FindUserByUsername db (username c) s of
        Inl e \<Rightarrow> (error_json ErrUserNotFound ErrInvalidCredentials, s)
      | Inr u \<Rightarrow>
      if up_new up = [] then (fails ErrInvalidRequest, s)
      else if ValidateStrictPassword (up_new up) \<noteq> None then (fails ErrStrictPasswordPolicyViolation, s)
      else case repo_UpdatePassword db env (up\<lparr>up_username := username c\<rparr>) True s of
        (Some e, s') \<Rightarrow>
          ((if contains (error_text e) (''old and new passwords can'' @ [CHR 0x27] @ ''t be same'') then fails ErrOldPassword
            else if contains (error_text e) ''invalid credentials'' then fails ErrInvalidCredentials
            else fails ErrServerError), s')
      | (None, s') \<Rightarrow>
          (case ensure_project db env 0 u s' of
             (None, s'') \<Rightarrow> ((200, NoBody), s'')
           | (Some pid, s'') \<Rightarrow> ((200, ProjectIDBody ''password has been updated successfully'' pid), s'')))"

definition ResetPassword :: "'s db \<Rightarrow> env \<Rightarrow> ctx \<Rightarrow> user_password option \<Rightarrow> 's \<Rightarrow> response \<times> 's" where
  "ResetPassword db env c rq s =
     (if role c \<noteq> RoleAdmin then (fails ErrUnauthorized, s)
      else case rq of None \<Rightarrow> (fails ErrInvalidRequest, s)
      | Some up \<Rightarrow>
      case CheckInitialLogin db (uid c) s of
        Inl e \<Rightarrow> (fails ErrServerError, s)
      | Inr True \<Rightarrow> (error_json ErrServerError ErrPasswordNotUpdated, s)
      | Inr False \<Rightarrow>
      if up_new up \<noteq> [] \<and> ValidateStrictPassword (up_new up) \<noteq> None then (fails ErrStrictPasswordPolicyViolation, s)
      else if up_username up = [] \<or> up_new up = [] then (fails ErrInvalidRequest, s)
      else if IsAdministrator db (uid c) (username c) s \<noteq> None then (fails ErrUnauthorized, s)
      else case repo_UpdatePassword db env up False s of
        (Some e, s') \<Rightarrow> (fails ErrServerError, s')
      | (None, s') \<Rightarrow> ((200, MessageBody ''password has been reset successfully''), s'))"

section \<open>Deactivation\<close>

definition UpdateUserState :: "'s db \<Rightarrow> env \<Rightarrow> ctx \<Rightarrow> (string \<times> bool option) option \<Rightarrow> 's \<Rightarrow> response \<times> 's" where
  "UpdateUserState db env c rq s =
     (case CheckInitialLogin db (uid c) s of
        Inl e \<Rightarrow> (fails ErrServerError, s)
      | Inr True \<Rightarrow> (error_json ErrServerError ErrPasswordNotUpdated, s)
      | Inr False \<Rightarrow>
      if role c \<noteq> RoleAdmin then (fails ErrUnauthorized, s)
      else case rq of
        None \<Rightarrow> (fails ErrInvalidRequest, s)
      | Some (n, None) \<Rightarrow> (fails ErrInvalidRequest, s)
      | Some (n, Some isDeactivate) \<Rightarrow>
      if IsAdministrator db (uid c) (username c) s \<noteq> None then (fails ErrUnauthorized, s)
      else case UpdateStateTransaction db env n isDeactivate s of
        (Some e, s') \<Rightarrow> ((ErrorStatusCodes e, ErrorBody (CreateErrorResponse e)), s')
      | (None, s') \<Rightarrow> ((200, MessageBody (''user'' @ [CHR 0x27] @ ''s state updated successfully'')), s'))"

section \<open>API tokens\<close>

definition CreateApiToken :: "'s db \<Rightarrow> env \<Rightarrow> ctx \<Rightarrow> api_token_input option \<Rightarrow> 's \<Rightarrow> response \<times> 's" where
  "CreateApiToken db env c rq s =
     (case rq of None \<Rightarrow> (fails ErrInvalidRequest, s)
      | Some inp \<Rightarrow>
      if uid c \<noteq> ai_user_id inp then (fails ErrUnauthorized, s)
      else case CheckInitialLogin db (ai_user_id inp) s of
        Inl e \<Rightarrow> (fails ErrServerError, s)
      | Inr True \<Rightarrow> (error_json ErrServerError ErrPasswordNotUpdated, s)
      | Inr False \<Rightarrow>
      (case GetUser db (ai_user_id inp) s of
        Inl e \<Rightarrow> (fails ErrUserNotFound, s)
      | Inr u \<Rightarrow>
      (case CreateApiTokenService db env u inp s of
        (Inl e, s') \<Rightarrow> (fails ErrServerError, s')
      | (Inr t, s') \<Rightarrow> ((200, TokenBody t), s'))))"

definition GetApiTokens :: "'s db \<Rightarrow> ctx \<Rightarrow> string \<Rightarrow> 's \<Rightarrow> response" where
  "GetApiTokens db c i s =
     (if uid c \<noteq> i then fails ErrUnauthorized
      else case GetApiTokensByUserID db i s of Inl e \<Rightarrow> fails ErrServerError | Inr ts \<Rightarrow> (200, TokensBody ts))"

definition DeleteApiToken :: "'s db \<Rightarrow> env \<Rightarrow> ctx \<Rightarrow> (string \<times> string) option \<Rightarrow> 's \<Rightarrow> response \<times> 's" where
  "DeleteApiToken db env c rq s =
     (case rq of None \<Rightarrow> (fails ErrInvalidRequest, s)
      | Some (t, user) \<Rightarrow>
      if uid c \<noteq> user then (fails ErrUnauthorized, s)
      else case CheckInitialLogin db user s of
        Inl e \<Rightarrow> (fails ErrServerError, s)
      | Inr True \<Rightarrow> (error_json ErrServerError ErrPasswordNotUpdated, s)
      | Inr False \<Rightarrow>
      (case repo_DeleteApiToken db t s of
        (Some e, s1) \<Rightarrow> (fails ErrServerError, s1)
      | (None, s1) \<Rightarrow>
      (case RevokeToken db env t s1 of
        (Inl p, s2) \<Rightarrow> ((500, NoBody), s2)
      | (Inr (Some e), s2) \<Rightarrow> (fails ErrServerError, s2)
      | (Inr None, s2) \<Rightarrow> ((200, MessageBody ''api token deleted successfully''), s2))))"

section \<open>OAuth\<close>

text \<open>
  The exchange with the provider is an input: whether the state token was validated, and the claims
  the verified identity token carries (\<^verbatim>\<open>None\<close> when a step of the exchange failed).
\<close>

record oidc_claims =
  oc_name :: string
  oc_email :: string
  oc_verified :: bool

definition oauth_user :: "env \<Rightarrow> oidc_claims \<Rightarrow> user" where
  "oauth_user env cl =
     \<lparr>u_audit = empty_audit\<lparr>CreatedAt := now_ms env 0, UpdatedAt := now_ms env 0\<rparr>, u_id = [],
      u_username = oc_email cl, u_password = [], u_salt = [], u_email = oc_email cl, u_name = oc_name cl,
      u_role = RoleUser, u_deactivated_at = None, u_is_initial_login = False\<rparr>"

definition OAuthCallback :: "'s db \<Rightarrow> env \<Rightarrow> bool \<Rightarrow> oidc_claims option \<Rightarrow> 's \<Rightarrow> response \<times> 's" where
  "OAuthCallback db env validated cl s =
     (if \<not> validated then ((307, RedirectTo ''/''), s)
      else case cl of None \<Rightarrow> (fails ErrServerError, s)
      | Some k \<Rightarrow>
      if oc_email k = [] \<or> \<not> oc_verified k then (fails ErrUnauthorized, s)
      else case repo_LoginUser db env (oauth_user env k) s of
        (Inl e, s1) \<Rightarrow> (fails ErrServerError, s1)
      | (Inr u, s1) \<Rightarrow>
      (case GetConfig db ''salt'' s1 of
        Inl e \<Rightarrow> (fails ErrServerError, s1)
      | Inr salt \<Rightarrow>
      (case GetSignedJWT env 1 u (ac_value salt) of
        Inl e \<Rightarrow> (fails ErrServerError, s1)
      | Inr t \<Rightarrow>
      (case ensure_project db env 2 u s1 of
        (None, s2) \<Rightarrow> ((200, NoBody), s2)
      | (Some pid, s2) \<Rightarrow>
          ((308, RedirectTo (''/login?jwtToken='' @ t @ ''&projectID='' @ pid @ ''&projectRole='' @ RoleOwner)), s2)))))"

section \<open>Status and setup\<close>

definition Status :: "'s db \<Rightarrow> 's \<Rightarrow> response" where
  "Status db s = (case GetUsers db s of Inl e \<Rightarrow> (500, StatusBody ''down'') | Inr us \<Rightarrow> (200, StatusBody ''up''))"

definition Readiness :: "'s db \<Rightarrow> 's \<Rightarrow> response" where
  "Readiness db s =
     (case ListDatabaseNames db s of
        Inl e \<Rightarrow> (500, ReadinessBody ''down'' ''unknown'')
      | Inr dbs \<Rightarrow>
          let dbFlag = (if ''auth'' \<in> set dbs then ''up'' else ''down'') in
          (case ListCollectionNames db s of
             Inl e \<Rightarrow> (500, ReadinessBody dbFlag ''down'')
           | Inr cols \<Rightarrow>
               (200, ReadinessBody dbFlag (if ''project'' \<in> set cols \<and> ''users'' \<in> set cols then ''up'' else ''down''))))"

definition GetCapabilities :: "env \<Rightarrow> response" where
  "GetCapabilities env = (200, CapabilitiesBody (OAuthEnabled env))"

text \<open>The start-up ends the process when the administrator cannot be stored; a failed hash is only logged.\<close>

definition validatedAdminSetup :: "'s db \<Rightarrow> env \<Rightarrow> string \<Rightarrow> string \<Rightarrow> 's \<Rightarrow> bool \<times> 's" where
  "validatedAdminSetup db env name password s =
     (let h = (case bcrypt_generate env password of Inl t \<Rightarrow> [] | Inr h \<Rightarrow> h);
          admin = \<lparr>u_audit = empty_audit\<lparr>CreatedAt := now_ms env 0, UpdatedAt := now_ms env 1\<rparr>, u_id = new_uuid env 0,
            u_username = name, u_password = h, u_salt = [], u_email = [], u_name = [], u_role = RoleAdmin,
            u_deactivated_at = None, u_is_initial_login = True\<rparr>
      in case repo_CreateUser db admin s of
           (Inl e, s') \<Rightarrow> (e = App ErrUserExists, s')
         | (Inr u, s') \<Rightarrow> (True, s'))"

end
