(* ===== verification/Auth_Session_Props.thy ===== *)
theory Auth_Session_Props
  imports Auth_User_Handlers
begin

text \<open>
  Properties of sessions: what the middleware admits, that revoked tokens are refused, and that a token
  the server signs is read back. The library that signs and reads tokens is the locale \<^verbatim>\<open>jwt_library\<close>.
\<close>

section \<open>The token library\<close>

text \<open>
  What the server relies on: a token it signs is an HMAC token that decodes to the signed claims and
  verifies with the same key. (Expiry is part of verification; the law is about tokens that have not
  expired.)
\<close>

locale jwt_library =
  fixes env :: env
  assumes sign_decodes: "jwt_sign env cl key = Inr t \<Longrightarrow> jwt_decode env t = Some (True, cl)"
    and sign_verifies: "jwt_sign env cl key = Inr t \<Longrightarrow> jwt_verify env t key"
begin

lemma signed_claims_parse:
  assumes "GetSignedJWT env k u (ac_value salt) = Inr t" and "GetConfig db ''salt'' s = Inr salt"
  shows "\<exists>x. parseToken db env t s = Inr \<lparr>tk_raw = t, tk_claims = user_claims u x, tk_valid = True\<rparr>"
proof -
  obtain x where "jwt_sign env (user_claims u x) (ac_value salt) = Inr t"
    using assms(1) by (auto simp: GetSignedJWT_def split: sum.splits)
  then show ?thesis
    using sign_decodes sign_verifies assms(2) by (auto simp: parseToken_def)
qed

lemma signed_token_admitted:
  assumes "GetSignedJWT env k u (ac_value salt) = Inr t" and "GetConfig db ''salt'' s = Inr salt"
    and "\<not> IsTokenRevoked db t s"
  shows "\<exists>x. JwtMiddleware db env (''Bearer '' @ t) s = Admitted (user_claims u x)"
  using signed_claims_parse [OF assms(1,2)] assms(3) by (auto simp: JwtMiddleware_def ValidateToken_def)

end

lemma request_ctx_user_claims [simp]:
  "request_ctx (user_claims u x) = Inr \<lparr>uid = u_id u, username = u_username u, role = u_role u\<rparr>"
  by (simp add: request_ctx_def string_claim_def claim_of_def user_claims_def)

text \<open>A library that knows one user, for the witnesses.\<close>

definition ann_user :: user where
  "ann_user = sample_user ''u1'' ''ann''"

definition jwt_env :: env where
  "jwt_env = (let cl = user_claims ann_user (after_minutes 1000 1440) in
     sample_env\<lparr>jwt_sign := (\<lambda>c k. if c = cl then Inr (''t-'' @ k) else Inl ''unsupported claims''),
       jwt_decode := (\<lambda>t. Some (True, cl))\<rparr>)"

interpretation jwt_env: jwt_library jwt_env
  by unfold_locales (auto simp: jwt_env_def Let_def sample_env_def split: if_splits)

section \<open>Revocation\<close>

context auth_db
begin

lemma revoked_not_validated:
  assumes "RevokeToken db env t s = (Inr None, s')"
    and "\<And>e. FindOne (revoked_tokens db) (\<lambda>d. rt_token d = t) s' = Inl e \<Longrightarrow> e = ErrNoDocuments"
  shows "IsTokenRevoked db t s'"
proof -
  obtain d where d: "InsertOne (revoked_tokens db) d s = (None, s')" "rt_token d = t"
    using assms(1)
    by (auto simp: RevokeToken_def repo_RevokeToken_def split: sum.splits option.splits claim.splits prod.splits)
  have "d \<in># rdocs s'" using revoked.InsertOne_ok [OF d(1)] by simp
  then have "FindOne (revoked_tokens db) (\<lambda>d. rt_token d = t) s' \<noteq> Inl ErrNoDocuments"
    using revoked.FindOne_none d(2) by blast
  with assms(2) show ?thesis
    by (cases "FindOne (revoked_tokens db) (\<lambda>d. rt_token d = t) s'") (auto simp: IsTokenRevoked_def)
qed

end

lemma validate_revoked: "IsTokenRevoked db t s \<Longrightarrow> \<exists>e. ValidateToken db env t s = Inl e"
  by (auto simp: ValidateToken_def parseToken_def split: option.splits sum.splits prod.splits)

section \<open>Properties\<close>

text \<open>
  Logging out revokes the token. When \<^verbatim>\<open>LogoutUser\<close> answers with success, and as long as the
  database answers the look-up of the revoked token, the same header is turned away by the middleware
  with status 401, at any later time of the library's clock, whatever handler is behind it, and
  nothing changes.
\<close>

theorem logout_revokes:
  assumes "auth_db db udocs pdocs rdocs adocs cdocs" and "LogoutUser db env header s = (r, s')" and "http_ok r"
    and "\<forall>e. FindOne (revoked_tokens db) (\<lambda>d. rt_token d = drop 7 header) s' = Inl e \<longrightarrow> e = ErrNoDocuments"
  shows "guarded db env' header handler s' = (fails ErrUnauthorized, s')"
proof -
  have h: "header \<noteq> []" "\<not> length header < 7"
    and rv: "RevokeToken db env (drop 7 header) s = (Inr None, s')"
    using assms(2,3) by (auto simp: LogoutUser_def split: if_splits prod.splits sum.splits option.splits)
  have "IsTokenRevoked db (drop 7 header) s'"
    using auth_db.revoked_not_validated [OF assms(1) rv] assms(4) by blast
  from validate_revoked [OF this, of env'] obtain e where "ValidateToken db env' (drop 7 header) s' = Inl e" ..
  with h show ?thesis by (simp add: guarded_def JwtMiddleware_def)
qed

theorem logout_revokes_witness:
  "let s' = snd (LogoutUser mem_db jwt_env ''Bearer t-ABC'' sample_state) in
   guarded mem_db jwt_env ''Bearer t-ABC'' (\<lambda>c s. ((200, MessageBody ''in''), s)) s' = (fails ErrUnauthorized, s')"
proof -
  let ?r = "LogoutUser mem_db jwt_env ''Bearer t-ABC'' sample_state"
  have ok: "http_ok (fst ?r)" by code_simp
  have "\<forall>e. FindOne (revoked_tokens mem_db) (\<lambda>d. rt_token d = drop 7 ''Bearer t-ABC'') (snd ?r) = Inl e \<longrightarrow> e = ErrNoDocuments"
    by (auto simp: mem_eval split: option.splits)
  from logout_revokes [OF mem_auth_db surjective_pairing ok this] show ?thesis by (simp add: Let_def)
qed

text \<open>
  C7: What the middleware admits. A request reaches its handler, with the claims of its token, exactly if the header is as long as the
  scheme and continues with an HMAC token that verifies with the stored salt and either is not among the revoked tokens or could not be looked
  up there: a failed look-up counts as not revoked.
\<close>

theorem admitted_requests_authentic:
  assumes "auth_db db udocs pdocs rdocs adocs cdocs"
  shows "JwtMiddleware db env header s = Admitted cl \<longleftrightarrow>
    length header \<ge> length BearerSchema \<and> jwt_decode env (drop 7 header) = Some (True, cl) \<and>
    (\<exists>salt. GetConfig db ''salt'' s = Inr salt \<and> jwt_verify env (drop 7 header) (ac_value salt)) \<and>
    ((\<forall>d\<in>#rdocs s. rt_token d \<noteq> drop 7 header) \<or>
     (\<exists>e. FindOne (revoked_tokens db) (\<lambda>d. rt_token d = drop 7 header) s = Inl e \<and> e \<noteq> ErrNoDocuments))"
proof -
  let ?find = "FindOne (revoked_tokens db) (\<lambda>d. rt_token d = drop 7 header) s"
  note laws = mongo_collection.FindOne_ok [OF auth_db.axioms(3) [OF assms]] mongo_collection.FindOne_none [OF auth_db.axioms(3) [OF assms]]
  have f: "\<not> IsTokenRevoked db (drop 7 header) s \<longleftrightarrow> (\<forall>d\<in>#rdocs s. rt_token d \<noteq> drop 7 header) \<or> (\<exists>e. ?find = Inl e \<and> e \<noteq> ErrNoDocuments)"
  proof (cases ?find)
    case (Inl e)
    then show ?thesis using laws(2) by (cases e) (auto simp: IsTokenRevoked_def)
  next
    case (Inr d)
    then show ?thesis using laws(1) by (fastforce simp: IsTokenRevoked_def)
  qed
  have len: "length BearerSchema = 7" by (simp add: BearerSchema_def)
  have "JwtMiddleware db env header s = Admitted cl \<longleftrightarrow> length header \<ge> 7 \<and> jwt_decode env (drop 7 header) = Some (True, cl) \<and>
    (\<exists>salt. GetConfig db ''salt'' s = Inr salt \<and> jwt_verify env (drop 7 header) (ac_value salt)) \<and> \<not> IsTokenRevoked db (drop 7 header) s"
    by (auto simp: JwtMiddleware_def ValidateToken_def parseToken_def len split: option.splits sum.splits)
  then show ?thesis unfolding f len .
qed

theorem admitted_requests_authentic_witness:
  "JwtMiddleware mem_db jwt_env ''Bearer t-ABC'' sample_state = Admitted (user_claims ann_user (after_minutes 1000 1440)) \<and>
   (\<exists>salt. GetConfig mem_db ''salt'' sample_state = Inr salt \<and> jwt_verify jwt_env ''t-ABC'' (ac_value salt)) \<and>
   JwtMiddleware mem_db jwt_env ''Bearer t-ABC'' (sample_state\<lparr>st_revoked := [\<lparr>rt_token = ''t-ABC'', rt_expires_at = 0, rt_created_at = 0\<rparr>]\<rparr>)
     \<noteq> Admitted (user_claims ann_user (after_minutes 1000 1440))"
proof (intro conjI)
  let ?s = "sample_state\<lparr>st_revoked := [\<lparr>rt_token = ''t-ABC'', rt_expires_at = 0, rt_created_at = 0\<rparr>]\<rparr>"
  show a: "JwtMiddleware mem_db jwt_env ''Bearer t-ABC'' sample_state = Admitted (user_claims ann_user (after_minutes 1000 1440))" by code_simp
  then show "\<exists>salt. GetConfig mem_db ''salt'' sample_state = Inr salt \<and> jwt_verify jwt_env ''t-ABC'' (ac_value salt)"
    unfolding admitted_requests_authentic [OF mem_auth_db] by auto
  have "FindOne (revoked_tokens mem_db) (\<lambda>d. rt_token d = drop 7 ''Bearer t-ABC'') ?s = Inr \<lparr>rt_token = ''t-ABC'', rt_expires_at = 0, rt_created_at = 0\<rparr>"
    by code_simp
  then show "JwtMiddleware mem_db jwt_env ''Bearer t-ABC'' ?s \<noteq> Admitted (user_claims ann_user (after_minutes 1000 1440))"
    unfolding admitted_requests_authentic [OF mem_auth_db] by simp
qed

text \<open>
  The look-up of revoked tokens fails open: when the query for the token fails with a driver error, a
  token that verifies is admitted even if it is stored as revoked.
\<close>

theorem revocation_fails_open:
  assumes "FindOne (revoked_tokens db) (\<lambda>d. rt_token d = t) s = Inl e"
    and "GetConfig db ''salt'' s = Inr salt" and "jwt_decode env t = Some (True, cl)" and "jwt_verify env t (ac_value salt)"
  shows "JwtMiddleware db env (''Bearer '' @ t) s = Admitted cl"
  using assms by (simp add: JwtMiddleware_def ValidateToken_def parseToken_def IsTokenRevoked_def)

definition broken_db :: "mem_state db" where
  "broken_db = mem_db\<lparr>revoked_tokens := (revoked_tokens mem_db)\<lparr>FindOne := (\<lambda>P s. Inl (DriverError ''timeout''))\<rparr>\<rparr>"

theorem revocation_fails_open_witness:
  "JwtMiddleware broken_db jwt_env (''Bearer '' @ ''t-ABC'')
     (sample_state\<lparr>st_revoked := [\<lparr>rt_token = ''t-ABC'', rt_expires_at = 0, rt_created_at = 0\<rparr>]\<rparr>)
   = Admitted (user_claims ann_user (after_minutes 1000 1440))"
proof (rule revocation_fails_open)
  let ?s = "sample_state\<lparr>st_revoked := [\<lparr>rt_token = ''t-ABC'', rt_expires_at = 0, rt_created_at = 0\<rparr>]\<rparr>"
  show "FindOne (revoked_tokens broken_db) (\<lambda>d. rt_token d = ''t-ABC'') ?s = Inl (DriverError ''timeout'')" by code_simp
  show "GetConfig broken_db ''salt'' ?s = Inr \<lparr>ac_key = ''salt'', ac_value = ''ABC''\<rparr>" by code_simp
qed code_simp+

end
