(* ===== verification/Membership_Protocol.thy ===== *)
theory Membership_Protocol
  imports Auth_User_Repo
begin

text \<open>
  The abstract specification of project membership: which changes of a project one actor can cause,
  as a step relation \<^verbatim>\<open>project_step\<close> on a single project and \<^verbatim>\<open>projects_step\<close> on the stored
  projects. The handlers are shown to refine it in \<^verbatim>\<open>Auth_Project_Refinement\<close>; the safety properties
  are proved here once, by cases on the rules and by rule induction over runs.
\<close>

section \<open>Well-formed projects\<close>

definition project_roles :: "string list" where
  "project_roles = [RoleOwner, RoleViewer, RoleExecutor, RoleEditor]"

definition invitation_states :: "string list" where
  "invitation_states = [PendingInvitation, AcceptedInvitation, DeclinedInvitation, ExitedProject]"

definition member_ok :: "member \<Rightarrow> bool" where
  "member_ok m \<longleftrightarrow> m_role m \<in> set project_roles \<and> m_invitation m \<in> set invitation_states"

definition project_ok :: "project \<Rightarrow> bool" where
  "project_ok p \<longleftrightarrow> distinct (map m_user_id (p_members p)) \<and> (\<forall>m\<in>set (p_members p). member_ok m)"

abbreviation unique_ids :: "project multiset \<Rightarrow> bool" where
  "unique_ids P \<equiv> unique_by p_id P"

definition projects_ok :: "project multiset \<Rightarrow> bool" where
  "projects_ok P \<longleftrightarrow> unique_ids P \<and> (\<forall>p\<in>#P. project_ok p)"

text \<open>The entry of a user, and the accepted owners.\<close>

definition entry :: "string \<Rightarrow> project \<Rightarrow> member option" where
  "entry u p = List.find (\<lambda>m. m_user_id m = u) (p_members p)"

definition owner_of :: "string \<Rightarrow> project \<Rightarrow> bool" where
  "owner_of u p \<longleftrightarrow> (\<exists>m\<in>set (p_members p). m_user_id m = u \<and> accepted_owner m)"

definition has_owner :: "project \<Rightarrow> bool" where
  "has_owner p \<longleftrightarrow> list_ex accepted_owner (p_members p)"

section \<open>Steps\<close>

text \<open>\<^verbatim>\<open>a\<close> is the actor; \<^verbatim>\<open>lv\<close> says that the actor asked to leave, which the rule for leaving needs.\<close>

inductive project_step :: "string \<Rightarrow> bool \<Rightarrow> project \<Rightarrow> project \<Rightarrow> bool" for a lv where
  step_invite: "owner_of a p \<Longrightarrow> r \<in> set project_roles \<Longrightarrow> entry (m_user_id m) p = None \<Longrightarrow>
     m_role m = r \<Longrightarrow> m_invitation m = PendingInvitation \<Longrightarrow>
     project_step a lv p (p\<lparr>p_members := p_members p @ [m]\<rparr>)"
| step_reinvite: "owner_of a p \<Longrightarrow> r \<in> set project_roles \<Longrightarrow> entry u p = Some m \<Longrightarrow>
     m_invitation m \<noteq> AcceptedInvitation \<Longrightarrow>
     project_step a lv p (set_member u (\<lambda>m. m\<lparr>m_invitation := PendingInvitation, m_role := r\<rparr>) p)"
| step_accept: "entry a p = Some m \<Longrightarrow> m_invitation m = PendingInvitation \<Longrightarrow>
     project_step a lv p (set_member a (\<lambda>m. m\<lparr>m_invitation := AcceptedInvitation, m_joined_at := t\<rparr>) p)"
| step_decline: "entry a p = Some m \<Longrightarrow> m_invitation m = PendingInvitation \<Longrightarrow>
     project_step a lv p (set_member a (\<lambda>m. m\<lparr>m_invitation := DeclinedInvitation\<rparr>) p)"
| step_leave: "lv \<Longrightarrow> entry a p = Some m \<Longrightarrow> m_invitation m = AcceptedInvitation \<Longrightarrow>
     project_step a lv p (set_member a (\<lambda>m. m\<lparr>m_invitation := ExitedProject\<rparr>) p)"
| step_remove: "owner_of a p \<Longrightarrow> u \<noteq> a \<Longrightarrow> entry u p = Some m \<Longrightarrow>
     m_invitation m = AcceptedInvitation \<or> m_invitation m = PendingInvitation \<Longrightarrow>
     project_step a lv p (pull_member u p)"
| step_role: "owner_of a p \<Longrightarrow> u \<noteq> a \<Longrightarrow> r \<in> set project_roles \<Longrightarrow>
     project_step a lv p (set_member u (\<lambda>m. m\<lparr>m_role := r\<rparr>) p)"
| step_rename: "owner_of a p \<Longrightarrow> project_step a lv p (p\<lparr>p_name := n\<rparr>)"

inductive projects_step :: "string \<Rightarrow> bool \<Rightarrow> project multiset \<Rightarrow> project multiset \<Rightarrow> bool" for a lv where
  all_same: "projects_step a lv P P"
| one_changes: "p \<in># P \<Longrightarrow> project_step a lv p p' \<Longrightarrow> projects_step a lv P (replace_mset p p' P)"
| one_created: "\<forall>q\<in>#P. p_id q \<noteq> p_id p \<Longrightarrow> p_members p = [m] \<Longrightarrow> m_user_id m = a \<Longrightarrow> accepted_owner m \<Longrightarrow>
     projects_step a lv P (add_mset p P)"
| one_deleted: "p \<in># P \<Longrightarrow> owner_of a p \<Longrightarrow> projects_step a lv P (P - {#p#})"

inductive_cases projects_stepE: "projects_step a lv P P'"

section \<open>The rules keep projects well-formed\<close>

lemma set_member_simps [simp]:
  "p_id (set_member u f p) = p_id p" "p_name (set_member u f p) = p_name p"
  "p_audit (set_member u f p) = p_audit p"
  "p_members (set_member u f p) = map (\<lambda>m. if m_user_id m = u then f m else m) (p_members p)"
  by (simp_all add: set_member_def)

lemma pull_member_simps [simp]:
  "p_id (pull_member u p) = p_id p" "p_name (pull_member u p) = p_name p"
  "p_members (pull_member u p) = filter (\<lambda>m. m_user_id m \<noteq> u) (p_members p)"
  by (simp_all add: pull_member_def)

lemma entry_None: "entry u p = None \<longleftrightarrow> u \<notin> m_user_id ` set (p_members p)"
  by (auto simp: entry_def find_None_iff)

lemma entry_Some: "entry u p = Some m \<Longrightarrow> m \<in> set (p_members p) \<and> m_user_id m = u"
  by (auto simp: entry_def find_Some_iff)

lemma set_member_ok:
  assumes "project_ok p" and "\<And>m. m_user_id (f m) = m_user_id m"
    and "\<And>m. m \<in> set (p_members p) \<Longrightarrow> m_user_id m = u \<Longrightarrow> member_ok m \<Longrightarrow> member_ok (f m)"
  shows "project_ok (set_member u f p)"
proof -
  have "map m_user_id (p_members (set_member u f p)) = map m_user_id (p_members p)"
    using assms(2) by auto
  moreover have "\<forall>m\<in>set (p_members (set_member u f p)). member_ok m"
    using assms(1,3) by (auto simp: project_ok_def)
  ultimately show ?thesis using assms(1) by (simp only: project_ok_def)
qed

lemma pull_member_ok: "project_ok p \<Longrightarrow> project_ok (pull_member u p)"
  by (auto simp: project_ok_def distinct_map inj_on_def)

lemma project_step_ok: "project_step a lv p p' \<Longrightarrow> project_ok p \<Longrightarrow> project_ok p'"
proof (induction rule: project_step.induct)
  case (step_invite p r m)
  then show ?case
    by (auto simp: project_ok_def entry_None member_ok_def invitation_states_def)
next
  case (step_rename p n)
  then show ?case by (simp add: project_ok_def)
qed (auto intro!: set_member_ok pull_member_ok simp: member_ok_def invitation_states_def)

lemma project_step_id: "project_step a lv p p' \<Longrightarrow> p_id p' = p_id p"
  by (induction rule: project_step.induct) auto

lemma projects_ok_mset: "projects_ok (mset ps) \<longleftrightarrow> distinct (map p_id ps) \<and> list_all project_ok ps"
  by (simp add: projects_ok_def list_all_iff)

theorem projects_step_ok:
  "projects_step a lv P P' \<Longrightarrow> projects_ok P \<Longrightarrow> projects_ok P'"
proof (induction rule: projects_step.induct)
  case (one_changes p P p')
  then show ?case
    by (auto simp: projects_ok_def unique_by_replace project_step_id
        dest!: in_replace_mset_cases intro: project_step_ok)
next
  case (one_created P p m)
  then have "project_ok p"
    by (simp add: project_ok_def member_ok_def accepted_owner_def project_roles_def invitation_states_def)
  with one_created show ?case by (simp add: projects_ok_def unique_by_add)
next
  case (one_deleted p P)
  then show ?case by (auto simp: projects_ok_def unique_by_remove dest: in_diffD)
qed simp

section \<open>What a step can do to a member\<close>

text \<open>A change of a project touches the entry of one user at most.\<close>

lemma find_map_other:
  "(\<And>m. m_user_id (f m) = m_user_id m) \<Longrightarrow> v \<noteq> u \<Longrightarrow>
   List.find (\<lambda>m. m_user_id m = v) (map (\<lambda>m. if m_user_id m = u then f m else m) ms) =
   List.find (\<lambda>m. m_user_id m = v) ms"
  by (induction ms) auto

lemma find_map_same:
  "(\<And>m. m_user_id (f m) = m_user_id m) \<Longrightarrow>
   List.find (\<lambda>m. m_user_id m = u) (map (\<lambda>m. if m_user_id m = u then f m else m) ms) =
   map_option f (List.find (\<lambda>m. m_user_id m = u) ms)"
  by (induction ms) auto

lemma entry_set_member:
  "(\<And>m. m_user_id (f m) = m_user_id m) \<Longrightarrow>
   entry v (set_member u f p) = (if v = u then map_option f (entry v p) else entry v p)"
  by (simp add: entry_def find_map_other find_map_same)

lemma entry_pull: "entry v (pull_member u p) = (if v = u then None else entry v p)"
proof -
  have "List.find (\<lambda>m. m_user_id m = v) (filter (\<lambda>m. m_user_id m \<noteq> u) ms) =
        (if v = u then None else List.find (\<lambda>m. m_user_id m = v) ms)" for ms
    by (induction ms) auto
  then show ?thesis by (simp only: entry_def pull_member_simps)
qed

lemma entry_append: "entry v (p\<lparr>p_members := p_members p @ [m]\<rparr>) =
    (case entry v p of Some x \<Rightarrow> Some x | None \<Rightarrow> if m_user_id m = v then Some m else None)"
proof -
  have "List.find P (ms @ [m]) = (case List.find P ms of Some x \<Rightarrow> Some x | None \<Rightarrow> if P m then Some m else None)"
    for P :: "member \<Rightarrow> bool" and ms
    by (induction ms) auto
  then show ?thesis by (simp add: entry_def)
qed

lemma entry_name [simp]: "entry v (p\<lparr>p_name := n\<rparr>) = entry v p"
  by (simp add: entry_def)

lemmas entry_simps = entry_set_member entry_pull entry_append

lemma project_step_one_entry:
  "project_step a lv p p' \<Longrightarrow> \<exists>u. \<forall>v. v \<noteq> u \<longrightarrow> entry v p' = entry v p"
proof (induction rule: project_step.induct)
  case (step_invite p r m)
  then show ?case by (intro exI [of _ "m_user_id m"]) (auto simp: entry_append split: option.splits)
qed (auto simp: entry_simps)

text \<open>
  The life of a membership, read off the entry: only its own user accepts, declines and leaves,
  only from the right state; everything else is done by an owner.
\<close>

lemma project_step_invitation:
  assumes "project_step a lv p p'" and "\<not> owner_of a p" and "entry u p' \<noteq> entry u p"
  shows "u = a \<and> (\<exists>m m'. entry u p = Some m \<and> entry u p' = Some m' \<and> m_role m' = m_role m \<and>
    (m_invitation m, m_invitation m') \<in> {(PendingInvitation, AcceptedInvitation),
       (PendingInvitation, DeclinedInvitation), (AcceptedInvitation, ExitedProject)})"
  using assms
  by (induction rule: project_step.induct) (auto simp: entry_simps split: if_splits)

text \<open>Only leaving can cost a project its last owner.\<close>

lemma owner_kept:
  assumes "owner_of a p" "u \<noteq> a" "\<And>m. m_user_id (f m) = m_user_id m"
  shows "owner_of a (set_member u f p)"
  using assms by (force simp: owner_of_def)

lemma owner_of_has_owner: "owner_of a p \<Longrightarrow> has_owner p"
  by (auto simp: owner_of_def has_owner_def list_ex_iff)

lemma accepted_unowned_entry:
  "project_ok p \<Longrightarrow> entry u p = Some m \<Longrightarrow> m_invitation m \<noteq> AcceptedInvitation \<Longrightarrow>
   x \<in> set (p_members p) \<Longrightarrow> accepted_owner x \<Longrightarrow> m_user_id x \<noteq> u"
  by (metis accepted_owner_def distinct_map entry_Some inj_onD project_ok_def)

lemma has_owner_other:
  assumes "project_ok p" "has_owner p" "entry u p = Some m" "m_invitation m \<noteq> AcceptedInvitation"
  shows "has_owner (set_member u f p)"
proof -
  obtain x where x: "x \<in> set (p_members p)" "accepted_owner x"
    using assms(2) by (auto simp: has_owner_def list_ex_iff)
  with accepted_unowned_entry [OF assms(1,3,4)] have "m_user_id x \<noteq> u" by blast
  with x show ?thesis by (force simp: has_owner_def list_ex_iff)
qed

lemma project_step_has_owner:
  assumes "project_step a lv p p'" and "project_ok p" and "has_owner p" and "\<not> lv"
  shows "has_owner p'"
  using assms
proof (induction rule: project_step.induct)
  case (step_remove p u m)
  then obtain x where "x \<in> set (p_members p)" "m_user_id x = a" "accepted_owner x"
    by (auto simp: owner_of_def)
  with step_remove show ?case by (auto simp: has_owner_def list_ex_iff)
next
  case (step_role p u r)
  then show ?case by (intro owner_of_has_owner [of a] owner_kept) auto
next
  case (step_accept p m t)
  then show ?case by (intro has_owner_other) auto
next
  case (step_decline p m)
  then show ?case by (intro has_owner_other) auto
next
  case (step_reinvite p r u m)
  then show ?case by (intro has_owner_other) auto
qed (auto simp: has_owner_def)

theorem projects_step_has_owner:
  assumes "projects_step a lv P P'" and "projects_ok P" and "\<forall>p\<in>#P. has_owner p" and "\<not> lv"
  shows "\<forall>p\<in>#P'. has_owner p"
  using assms
proof (induction rule: projects_step.induct)
  case (one_changes p P p')
  then have "has_owner p'"
    by (auto simp: projects_ok_def intro: project_step_has_owner)
  with one_changes show ?case by (auto dest: in_replace_mset_cases)
next
  case (one_created P p m)
  then show ?case by (auto simp: has_owner_def)
next
  case (one_deleted p P)
  then show ?case by (auto dest: in_diffD)
qed simp

text \<open>Without being an owner the actor changes nothing but the own entry.\<close>

lemma project_step_not_owner:
  "project_step a lv p p' \<Longrightarrow> \<not> owner_of a p \<Longrightarrow>
   p_name p' = p_name p \<and> p_audit p' = p_audit p \<and> (\<forall>u. u \<noteq> a \<longrightarrow> entry u p' = entry u p)"
  by (induction rule: project_step.induct) (auto simp: entry_simps)

lemma projects_step_not_owner:
  assumes "projects_step a lv P P'" and "p \<in># P" and "\<not> owner_of a p"
  shows "\<exists>p'\<in>#P'. p_id p' = p_id p \<and> p_name p' = p_name p \<and> p_audit p' = p_audit p \<and>
    (\<forall>u. u \<noteq> a \<longrightarrow> entry u p' = entry u p)"
  using assms
proof (induction rule: projects_step.induct)
  case (one_changes q P q')
  show ?case
  proof (cases "q = p")
    case True
    with one_changes show ?thesis
      by (intro bexI [of _ q']) (auto simp: project_step_id project_step_not_owner)
  next
    case False
    with one_changes have "p \<in># replace_mset q q' P" by (auto intro: replace_mset_other)
    then show ?thesis by blast
  qed
next
  case (one_deleted q P)
  then have "p \<in># P - {#q#}" by (metis in_diff_count count_single in_diffD insert_DiffM insert_noteq_member)
  then show ?case by blast
qed auto

end
