(* ===== verification/Auth_Project_Refinement.thy ===== *)
theory Auth_Project_Refinement
  imports Auth_Project_Handlers Membership_Protocol
begin

text \<open>
  The state-changing project handlers refine the membership protocol: whatever a request does to
  the stored projects is a step of \<^verbatim>\<open>projects_step\<close> by its caller, and nothing else is stored.
\<close>

section \<open>The routes that change projects\<close>

datatype project_request =
    is_Create: Create "create_project_input option"
  | Send "member_input option"
  | Accept "member_input option"
  | Decline "member_input option"
  | is_Leave: Leave "member_input option"
  | Remove "member_input option"
  | Rename "(string \<times> string) option"
  | is_ChangeRole: ChangeRole "member_input option"
  | is_Delete: Delete string

fun project_router :: "'s db \<Rightarrow> env \<Rightarrow> ctx \<Rightarrow> project_request \<Rightarrow> 's \<Rightarrow> response \<times> 's" where
  "project_router db env c (Create rq) s = CreateProject db env c rq s"
| "project_router db env c (Send rq) s = SendInvitation db env c rq s"
| "project_router db env c (Accept rq) s = AcceptInvitation db env c rq s"
| "project_router db env c (Decline rq) s = DeclineInvitation db env c rq s"
| "project_router db env c (Remove rq) s = RemoveInvitation db c rq s"
| "project_router db env c (Leave rq) s = LeaveProject db env c rq s"
| "project_router db env c (Rename rq) s = UpdateProjectName db c rq s"
| "project_router db env c (ChangeRole rq) s = UpdateMemberRole db c rq s"
| "project_router db env c (Delete pid) s = DeleteProject db c pid s"

section \<open>When a handler reaches its write\<close>

lemmas handler_splits = option.splits sum.splits if_splits bool.splits prod.splits

lemma CreateProject_run:
  assumes "CreateProject db env c rq s = (r, s')"
  shows "s' = s \<and> \<not> http_ok r \<or>
    (\<exists>inp u e. rq = Some inp \<and> CheckInitialLogin db (uid c) s = Inr False \<and> cp_name inp \<noteq> [] \<and>
       GetUser db (uid c) s = Inr u \<and> GetProjects db (\<lambda>p. p_name p = cp_name inp) s = Inr [] \<and>
       repo_CreateProject db (created_project env inp u) s = (e, s') \<and>
       (if e = None then r = (200, ProjectBody (GetProjectOutput (created_project env inp u))) else \<not> http_ok r))"
  using assms by (auto simp: CreateProject_def Let_def split: handler_splits)

lemma SendInvitation_run:
  assumes "SendInvitation db env c rq s = (r, s')"
  shows "s' = s \<and> \<not> http_ok r \<or>
    (\<exists>mb u i e. rq = Some mb \<and>
       RbacValidator db (uid c) (mi_project_id mb) [RoleOwner] AcceptedInvitation s = None \<and>
       CheckInitialLogin db (uid c) s = Inr False \<and> valid_role (mi_role mb) \<and>
       GetUser db (mi_user_id mb) s = Inr u \<and>
       getInvitation db (mi_project_id mb) (mi_user_id mb) s = Inr i \<and> i \<noteq> AcceptedInvitation \<and>
       (http_ok r \<longleftrightarrow> e = None) \<and>
       (if i \<in> {PendingInvitation, DeclinedInvitation, ExitedProject}
        then UpdateInvite db env (mi_project_id mb) (mi_user_id mb) PendingInvitation (mi_role mb) s = (e, s')
        else AddMember db (mi_project_id mb) (invited_member env u (role_value (mi_role mb))) s = (e, s')))"
proof (cases "s' = s \<and> \<not> http_ok r")
  case False
  obtain mb where mb: "rq = Some mb"
    using assms False by (cases rq) (auto simp: SendInvitation_def)
  note run = assms [unfolded SendInvitation_def mb, simplified]
  have rbac: "RbacValidator db (uid c) (mi_project_id mb) [RoleOwner] AcceptedInvitation s = None"
    using run False by (auto split: if_splits)
  have init: "CheckInitialLogin db (uid c) s = Inr False"
    using run rbac False by (auto split: sum.splits bool.splits)
  have valid: "valid_role (mi_role mb)"
    using run rbac init False by (auto split: if_splits)
  obtain u where u: "GetUser db (mi_user_id mb) s = Inr u"
    using run rbac init valid False by (cases "GetUser db (mi_user_id mb) s") (auto split: if_splits)
  obtain i where i: "getInvitation db (mi_project_id mb) (mi_user_id mb) s = Inr i"
    using run rbac init valid u False
    by (cases "getInvitation db (mi_project_id mb) (mi_user_id mb) s") (auto split: if_splits)
  have na: "i \<noteq> AcceptedInvitation"
    using run rbac init valid u i False by (auto split: if_splits)
  have "\<exists>e. (http_ok r \<longleftrightarrow> e = None) \<and>
       (if i \<in> {PendingInvitation, DeclinedInvitation, ExitedProject}
        then UpdateInvite db env (mi_project_id mb) (mi_user_id mb) PendingInvitation (mi_role mb) s = (e, s')
        else AddMember db (mi_project_id mb) (invited_member env u (role_value (mi_role mb))) s = (e, s'))"
  proof (cases "i \<in> {PendingInvitation, DeclinedInvitation, ExitedProject}")
    case True
    obtain e t where e: "UpdateInvite db env (mi_project_id mb) (mi_user_id mb) PendingInvitation (mi_role mb) s = (e, t)"
      by fastforce
    have "i = PendingInvitation \<or> i = DeclinedInvitation \<or> i = ExitedProject" using True by simp
    with run rbac init valid u i na e have "(case e of Some e \<Rightarrow> (fails ErrServerError, t)
         | None \<Rightarrow> ((200, MessageBody ''Invitation sent successfully''), t)) = (r, s')"
      by simp
    with True e show ?thesis by (cases e) auto
  next
    case False
    obtain e t where e: "AddMember db (mi_project_id mb) (invited_member env u (role_value (mi_role mb))) s = (e, t)"
      by fastforce
    from False run rbac init valid u i na e have "(case e of Some e \<Rightarrow> (fails ErrServerError, t)
         | None \<Rightarrow> ((200, MemberBody (invited_member env u (role_value (mi_role mb)))), t)) = (r, s')"
      by (simp add: Let_def)
    with False e show ?thesis by (cases e) auto
  qed
  with mb rbac init valid u i na show ?thesis by blast
qed simp

lemma change_own_invitation_run:
  assumes "change_own_invitation db env c pid rule required new message s = (r, s')"
  shows "s' = s \<and> \<not> http_ok r \<or>
    (\<exists>e. CheckInitialLogin db (uid c) s = Inr False \<and>
       RbacValidator db (uid c) pid (MutationRbacRules rule) required s = None \<and>
       UpdateInvite db env pid (uid c) new None s = (e, s') \<and> (http_ok r \<longleftrightarrow> e = None))"
  using assms by (auto simp: change_own_invitation_def split: handler_splits)

lemma LeaveProject_run:
  assumes "LeaveProject db env c rq s = (r, s')"
  shows "s' = s \<and> \<not> http_ok r \<or>
    (\<exists>mb. rq = Some mb \<and> change_own_invitation db env c (mi_project_id mb) ''leaveProject''
       AcceptedInvitation ExitedProject ''successful'' s = (r, s') \<and>
       (mi_role mb = Some RoleOwner \<longrightarrow>
          (\<exists>os. repo_GetProjectOwners db (mi_project_id mb) s = Inr os \<and> length os \<noteq> 1)))"
  using assms by (auto simp: LeaveProject_def Let_def split: handler_splits)

lemma RemoveInvitation_run:
  assumes "RemoveInvitation db c rq s = (r, s')"
  shows "s' = s \<and> \<not> http_ok r \<or>
    (\<exists>mb i e. rq = Some mb \<and> CheckInitialLogin db (uid c) s = Inr False \<and>
       RbacValidator db (uid c) (mi_project_id mb) [RoleOwner] AcceptedInvitation s = None \<and>
       uid c \<noteq> mi_user_id mb \<and>
       getInvitation db (mi_project_id mb) (mi_user_id mb) s = Inr i \<and> (http_ok r \<longleftrightarrow> e = None) \<and>
       (if i = AcceptedInvitation \<or> i = PendingInvitation
        then repo_RemoveInvitation db (mi_project_id mb) (mi_user_id mb) i s = (e, s') else s' = s))"
  using assms by (auto simp: RemoveInvitation_def split: handler_splits)

lemma UpdateProjectName_run:
  assumes "UpdateProjectName db c rq s = (r, s')"
  shows "s' = s \<and> \<not> http_ok r \<or>
    (\<exists>pid n e. rq = Some (pid, n) \<and> CheckInitialLogin db (uid c) s = Inr False \<and>
       RbacValidator db (uid c) pid [RoleOwner] AcceptedInvitation s = None \<and>
       repo_UpdateProjectName db pid n s = (e, s') \<and> (http_ok r \<longleftrightarrow> e = None))"
  using assms by (auto simp: UpdateProjectName_def split: handler_splits)

lemma UpdateMemberRole_run:
  assumes "UpdateMemberRole db c rq s = (r, s')"
  shows "s' = s \<and> \<not> http_ok r \<or>
    (\<exists>mb e. rq = Some mb \<and> valid_role (mi_role mb) \<and>
       RbacValidator db (uid c) (mi_project_id mb) [RoleOwner] AcceptedInvitation s = None \<and>
       uid c \<noteq> mi_user_id mb \<and>
       repo_UpdateMemberRole db (mi_project_id mb) (mi_user_id mb) (mi_role mb) s = (e, s') \<and> (http_ok r \<longleftrightarrow> e = None))"
  using assms by (auto simp: UpdateMemberRole_def split: handler_splits)

lemma DeleteProject_run:
  assumes "DeleteProject db c pid s = (r, s')"
  shows "s' = s \<and> \<not> http_ok r \<or>
    (\<exists>e. RbacValidator db (uid c) pid [RoleOwner] AcceptedInvitation s = None \<and>
       repo_DeleteProject db pid s = (e, s') \<and> (http_ok r \<longleftrightarrow> e = None))"
  using assms by (auto simp: DeleteProject_def split: handler_splits)

section \<open>Every write is a step of the protocol\<close>

lemma unique_idsD_pid: "unique_ids P \<Longrightarrow> p \<in># P \<Longrightarrow> q \<in># P \<Longrightarrow> p_id q = p_id p \<Longrightarrow> q = p"
  by (auto dest: unique_byD)

lemma permitted_owner:
  assumes "permitted U P a pid [RoleOwner] AcceptedInvitation" "unique_ids P" "p \<in># P" "p_id p = pid"
  shows "owner_of a p"
  using assms unique_idsD_pid [OF assms(2,3)]
  by (fastforce simp: permitted_def owner_of_def holds_role_def accepted_owner_def)

lemma entry_of_member:
  assumes "project_ok p" "m \<in> set (p_members p)"
  shows "entry (m_user_id m) p = Some m"
proof (cases "entry (m_user_id m) p")
  case None
  with assms(2) show ?thesis by (simp add: entry_None)
next
  case (Some x)
  then have "x = m"
    using assms entry_Some [OF Some] by (meson distinct_map inj_onD project_ok_def)
  with Some show ?thesis by simp
qed

lemma permitted_entry:
  assumes "permitted U P a pid roles invitation" "projects_ok P" "p \<in># P" "p_id p = pid"
  shows "\<exists>m. entry a p = Some m \<and> m_invitation m = invitation \<and> m_role m \<in> set roles"
proof -
  obtain q m where q: "q \<in># P" "p_id q = pid" "m \<in> set (p_members q)" "holds_role a roles invitation m"
    using assms(1) by (auto simp: permitted_def)
  then have "q = p" using assms by (auto simp: projects_ok_def dest: unique_byD)
  with q assms(2,3) show ?thesis
    using entry_of_member [of p m] by (auto simp: projects_ok_def holds_role_def)
qed

lemma step_of_write:
  assumes "P' = P \<or> updated_one (has_id pid) f P P'"
    and "\<And>p. p \<in># P \<Longrightarrow> p_id p = pid \<Longrightarrow> project_step a lv p (f p)"
  shows "projects_step a lv P P'"
  using assms by (auto simp: updated_one_def has_id_def intro: all_same one_changes)

lemma valid_role_iff: "valid_role r \<longleftrightarrow> (\<exists>x. r = Some x \<and> x \<in> set project_roles)"
  by (auto simp: valid_role_def project_roles_def split: option.splits)

context auth_db
begin

definition others_same :: "'s \<Rightarrow> 's \<Rightarrow> bool" where
  "others_same s s' \<longleftrightarrow> udocs s' = udocs s \<and> rdocs s' = rdocs s \<and> adocs s' = adocs s \<and> cdocs s' = cdocs s"

lemma others_same_refl [simp]: "others_same s s"
  by (simp add: others_same_def)

lemma getInvitation_ok:
  assumes "getInvitation db pid u s = Inr i" "unique_ids (pdocs s)" "p \<in># pdocs s" "p_id p = pid"
  shows "i = (case entry u p of None \<Rightarrow> [] | Some m \<Rightarrow> m_invitation m)"
proof -
  obtain q where q: "FindOne (projects db) (has_id pid) s = Inr q"
    and i: "i = (case entry u q of None \<Rightarrow> [] | Some m \<Rightarrow> m_invitation m)"
    using assms(1)
    by (cases "FindOne (projects db) (has_id pid) s")
       (auto simp: getInvitation_def GetProjectByProjectID_def entry_def)
  then have "q = p"
    using projects.FindOne_ok [OF q] unique_idsD_pid [OF assms(2,3)] assms(4) by (simp add: has_id_def)
  with i show ?thesis by simp
qed

lemma UpdateInvite_effect:
  assumes "UpdateInvite db env pid u new r s = (e, s')" "invite_update env u new r = Some f"
  shows "others_same s s'" "pdocs s' = pdocs s \<or> updated_one (has_id pid) f (pdocs s) (pdocs s')"
    "e = None \<Longrightarrow> updated_one (has_id pid) f (pdocs s) (pdocs s')"
  using match_update [OF assms(1) [unfolded UpdateInvite_def assms(2)]] by (auto simp: others_same_def)

lemma AddMember_effect:
  assumes "AddMember db pid m s = (e, s')"
  shows "others_same s s'"
    "pdocs s' = pdocs s \<or> updated_one (has_id pid) (\<lambda>p. p\<lparr>p_members := p_members p @ [m]\<rparr>) (pdocs s) (pdocs s')"
    "e = None \<Longrightarrow> updated_one (has_id pid) (\<lambda>p. p\<lparr>p_members := p_members p @ [m]\<rparr>) (pdocs s) (pdocs s')"
  using match_update [OF assms [unfolded AddMember_def]] by (auto simp: others_same_def)

lemma repo_RemoveInvitation_effect:
  assumes "repo_RemoveInvitation db pid u i s = (e, s')"
  shows "others_same s s'" "pdocs s' = pdocs s \<or> updated_one (has_id pid) (pull_member u) (pdocs s) (pdocs s')"
    "e = None \<Longrightarrow> updated_one (has_id pid) (pull_member u) (pdocs s) (pdocs s')"
  using match_update [OF assms [unfolded repo_RemoveInvitation_def]] by (auto simp: others_same_def)

lemma CreateProject_step:
  assumes "CreateProject db env c rq s = (r, s')"
  shows "projects_step (uid c) lv (pdocs s) (pdocs s')" "others_same s s'"
proof -
  consider "s' = s" | inp u e where "GetUser db (uid c) s = Inr u"
      "repo_CreateProject db (created_project env inp u) s = (e, s')"
    using CreateProject_run [OF assms] by blast
  then have "projects_step (uid c) lv (pdocs s) (pdocs s') \<and> others_same s s'"
  proof cases
    case 2
    obtain x where x: "InsertOne (projects db) (created_project env inp u) s = (x, s')"
      using 2(2) by (auto simp: repo_CreateProject_def split: prod.splits option.splits mongo_error.splits)
    have "u_id u = uid c" using GetUser_ok [OF 2(1)] by auto
    then show ?thesis
      using projects.InsertOne_cases [OF x] projects_insert_frame [OF x]
      by (auto simp: others_same_def project_conflict_def created_project_def accepted_owner_def
          intro: all_same intro!: one_created)
  qed (simp add: all_same)
  then show "projects_step (uid c) lv (pdocs s) (pdocs s')" "others_same s s'" by auto
qed

lemma SendInvitation_step:
  assumes "SendInvitation db env c rq s = (r, s')" and ok: "projects_ok (pdocs s)"
  shows "projects_step (uid c) lv (pdocs s) (pdocs s') \<and> others_same s s'"
proof (cases "s' = s")
  case False
  then obtain mb :: member_input and u i e where
      rbac: "RbacValidator db (uid c) (mi_project_id mb) [RoleOwner] AcceptedInvitation s = None"
    and valid: "valid_role (mi_role mb)" and u: "GetUser db (mi_user_id mb) s = Inr u"
    and i: "getInvitation db (mi_project_id mb) (mi_user_id mb) s = Inr i" "i \<noteq> AcceptedInvitation"
    and w: "if i \<in> {PendingInvitation, DeclinedInvitation, ExitedProject}
        then UpdateInvite db env (mi_project_id mb) (mi_user_id mb) PendingInvitation (mi_role mb) s = (e, s')
        else AddMember db (mi_project_id mb) (invited_member env u (role_value (mi_role mb))) s = (e, s')"
    using SendInvitation_run [OF assms(1)] by blast
  obtain x where x: "mi_role mb = Some x" "x \<in> set project_roles" using valid by (auto simp: valid_role_iff)
  have uniq: "unique_ids (pdocs s)" using ok by (simp add: projects_ok_def)
  have uu: "u_id u = mi_user_id mb" using GetUser_ok [OF u] by auto
  note own = permitted_owner [OF RbacValidator_sound [OF rbac] uniq]
  note inv = getInvitation_ok [OF i(1) uniq]
  show ?thesis
  proof (cases "i \<in> {PendingInvitation, DeclinedInvitation, ExitedProject}")
    case True
    then have upd: "UpdateInvite db env (mi_project_id mb) (mi_user_id mb) PendingInvitation (mi_role mb) s = (e, s')"
      using w by simp
    note eff = UpdateInvite_effect [OF upd, unfolded invite_update_def x(1) role_value_def, simplified]
    have "project_step (uid c) lv p (set_member (mi_user_id mb) (\<lambda>m. m\<lparr>m_invitation := PendingInvitation, m_role := x\<rparr>) p)"
      if p: "p \<in># pdocs s" "p_id p = mi_project_id mb" for p
    proof -
      obtain m where "entry (mi_user_id mb) p = Some m" "m_invitation m = i"
        using inv [OF p] True by (cases "entry (mi_user_id mb) p") auto
      with own [OF p] x(2) i(2) show ?thesis by (auto intro: step_reinvite)
    qed
    with eff(1,2) show ?thesis
      using step_of_write by (auto simp: x(1))
  next
    case False
    then have add: "AddMember db (mi_project_id mb) (invited_member env u x) s = (e, s')"
      using w x(1) by (simp add: role_value_def)
    have st: "project_step (uid c) lv p (p\<lparr>p_members := p_members p @ [invited_member env u x]\<rparr>)"
      if p: "p \<in># pdocs s" "p_id p = mi_project_id mb" for p
    proof -
      have "entry (mi_user_id mb) p = None"
      proof (cases "entry (mi_user_id mb) p")
        case (Some m)
        then have "member_ok m" using ok p entry_Some [OF Some] by (auto simp: projects_ok_def project_ok_def)
        moreover have "m_invitation m = i" using Some inv [OF p] by simp
        ultimately have "i \<in> set invitation_states" by (simp add: member_ok_def)
        with False i(2) show ?thesis by (simp add: invitation_states_def)
      qed
      with own [OF p] x(2) uu show ?thesis by (auto intro!: step_invite simp: invited_member_def)
    qed
    show ?thesis
      using AddMember_effect(1) [OF add] step_of_write [OF AddMember_effect(2) [OF add] st] by blast
  qed
qed (simp add: all_same)

lemma change_own_invitation_step:
  assumes "change_own_invitation db env c pid rule required new message s = (r, s')" and ok: "projects_ok (pdocs s)"
    and new: "(required, new) \<in> {(PendingInvitation, AcceptedInvitation), (PendingInvitation, DeclinedInvitation),
      (AcceptedInvitation, ExitedProject)}" and lv: "new = ExitedProject \<longrightarrow> lv"
  shows "projects_step (uid c) lv (pdocs s) (pdocs s') \<and> others_same s s'"
proof (cases "s' = s")
  case False
  then obtain e where rbac: "RbacValidator db (uid c) pid (MutationRbacRules rule) required s = None"
    and upd: "UpdateInvite db env pid (uid c) new None s = (e, s')"
    using change_own_invitation_run [OF assms(1)] by blast
  obtain f where f: "invite_update env (uid c) new None = Some f"
    using new by (auto simp: invite_update_def)
  have "project_step (uid c) lv p (f p)" if p: "p \<in># pdocs s" "p_id p = pid" for p
    using permitted_entry [OF RbacValidator_sound [OF rbac] ok p] new lv f
    by (auto simp: invite_update_def intro: step_accept step_decline step_leave)
  with UpdateInvite_effect(1,2) [OF upd f] show ?thesis using step_of_write by blast
qed (simp add: all_same)

lemma RemoveInvitation_step:
  assumes "RemoveInvitation db c rq s = (r, s')" and ok: "projects_ok (pdocs s)"
  shows "projects_step (uid c) lv (pdocs s) (pdocs s') \<and> others_same s s'"
proof (cases "s' = s")
  case False
  then obtain mb :: member_input and i e where
      rbac: "RbacValidator db (uid c) (mi_project_id mb) [RoleOwner] AcceptedInvitation s = None"
    and ne: "uid c \<noteq> mi_user_id mb"
    and i: "getInvitation db (mi_project_id mb) (mi_user_id mb) s = Inr i" "i = AcceptedInvitation \<or> i = PendingInvitation"
    and w: "repo_RemoveInvitation db (mi_project_id mb) (mi_user_id mb) i s = (e, s')"
    using RemoveInvitation_run [OF assms(1)] by meson
  have uniq: "unique_ids (pdocs s)" using ok by (simp add: projects_ok_def)
  have "project_step (uid c) lv p (pull_member (mi_user_id mb) p)"
    if p: "p \<in># pdocs s" "p_id p = mi_project_id mb" for p
  proof -
    obtain m where "entry (mi_user_id mb) p = Some m" "m_invitation m = i"
      using getInvitation_ok [OF i(1) uniq p] i(2) by (cases "entry (mi_user_id mb) p") auto
    then show ?thesis
      using permitted_owner [OF RbacValidator_sound [OF rbac] uniq p] ne i(2) by (auto intro: step_remove)
  qed
  with repo_RemoveInvitation_effect(1,2) [OF w] show ?thesis using step_of_write by blast
qed (simp add: all_same)

lemma UpdateProjectName_step:
  assumes "UpdateProjectName db c rq s = (r, s')" and ok: "projects_ok (pdocs s)"
  shows "projects_step (uid c) lv (pdocs s) (pdocs s') \<and> others_same s s'"
proof (cases "s' = s")
  case False
  then obtain pid n e where rbac: "RbacValidator db (uid c) pid [RoleOwner] AcceptedInvitation s = None"
    and w: "repo_UpdateProjectName db pid n s = (e, s')"
    using UpdateProjectName_run [OF assms(1)] by blast
  have "project_step (uid c) lv p (p\<lparr>p_name := n\<rparr>)" if p: "p \<in># pdocs s" "p_id p = pid" for p
    using permitted_owner [OF RbacValidator_sound [OF rbac] _ p] ok
    by (auto simp: projects_ok_def intro: step_rename)
  with write_update(1-5) [OF w [unfolded repo_UpdateProjectName_def]] show ?thesis
    using step_of_write unfolding others_same_def by blast
qed (simp add: all_same)

lemma UpdateMemberRole_step:
  assumes "UpdateMemberRole db c rq s = (r, s')" and ok: "projects_ok (pdocs s)"
  shows "projects_step (uid c) lv (pdocs s) (pdocs s') \<and> others_same s s'"
proof (cases "s' = s")
  case False
  then obtain mb :: member_input and e where valid: "valid_role (mi_role mb)"
    and rbac: "RbacValidator db (uid c) (mi_project_id mb) [RoleOwner] AcceptedInvitation s = None"
    and ne: "uid c \<noteq> mi_user_id mb"
    and w: "repo_UpdateMemberRole db (mi_project_id mb) (mi_user_id mb) (mi_role mb) s = (e, s')"
    using UpdateMemberRole_run [OF assms(1)] by blast
  have "project_step (uid c) lv p (set_member (mi_user_id mb) (\<lambda>m. m\<lparr>m_role := role_value (mi_role mb)\<rparr>) p)"
    if p: "p \<in># pdocs s" "p_id p = mi_project_id mb" for p
    using permitted_owner [OF RbacValidator_sound [OF rbac] _ p] ok ne valid
    by (auto simp: projects_ok_def valid_role_iff role_value_def intro: step_role)
  with write_update(1-5) [OF w [unfolded repo_UpdateMemberRole_def]] show ?thesis
    using step_of_write unfolding others_same_def by blast
qed (simp add: all_same)

lemma DeleteProject_step:
  assumes "DeleteProject db c pid s = (r, s')" and ok: "projects_ok (pdocs s)"
  shows "projects_step (uid c) lv (pdocs s) (pdocs s') \<and> others_same s s'"
proof (cases "s' = s")
  case False
  then obtain e where rbac: "RbacValidator db (uid c) pid [RoleOwner] AcceptedInvitation s = None"
    and w: "repo_DeleteProject db pid s = (e, s')"
    using DeleteProject_run [OF assms(1)] by blast
  obtain x where x: "DeleteOne (projects db) (has_id pid) s = (x, s')"
    using w by (cases "DeleteOne (projects db) (has_id pid) s") (auto simp: repo_DeleteProject_def match_error_eq)
  have "owner_of (uid c) p" if "p \<in># pdocs s" "p_id p = pid" for p
    using permitted_owner [OF RbacValidator_sound [OF rbac] _ that] ok by (simp add: projects_ok_def)
  then show ?thesis
    using projects.DeleteOne_cases [OF x] projects_delete_frame [OF x]
    by (auto simp: others_same_def has_id_def intro: all_same intro!: one_deleted)
qed (simp add: all_same)

lemma project_router_step:
  assumes "project_router db env c rq s = (r, s')" and ok: "projects_ok (pdocs s)"
  shows "projects_step (uid c) (is_Leave rq) (pdocs s) (pdocs s') \<and> others_same s s'"
proof (cases rq)
  case (Leave x)
  then consider "s' = s" | mb :: member_input where "change_own_invitation db env c (mi_project_id mb) ''leaveProject''
       AcceptedInvitation ExitedProject ''successful'' s = (r, s')"
    using assms(1) LeaveProject_run [of db env c x s r s'] by auto
  then show ?thesis
    using Leave by cases (simp add: all_same, erule change_own_invitation_step [OF _ ok], simp_all)
next
  case (Accept x)
  then consider "s' = s" | mb :: member_input where "change_own_invitation db env c (mi_project_id mb) ''acceptInvitation''
       PendingInvitation AcceptedInvitation ''Successful'' s = (r, s')"
    using assms(1) by (auto simp: AcceptInvitation_def split: option.splits)
  then show ?thesis
    by cases (simp add: all_same, erule change_own_invitation_step [OF _ ok], simp_all)
next
  case (Decline x)
  then consider "s' = s" | mb :: member_input where "change_own_invitation db env c (mi_project_id mb) ''declineInvitation''
       PendingInvitation DeclinedInvitation ''successful'' s = (r, s')"
    using assms(1) by (auto simp: DeclineInvitation_def split: option.splits)
  then show ?thesis
    by cases (simp add: all_same, erule change_own_invitation_step [OF _ ok], simp_all)
next
  case (Create inp)
  then show ?thesis using assms CreateProject_step by simp
next
  case (Send mb)
  then show ?thesis using assms SendInvitation_step by simp
next
  case (Remove mb)
  then show ?thesis using assms RemoveInvitation_step by simp
next
  case (Rename x)
  then show ?thesis using assms UpdateProjectName_step by simp
next
  case (ChangeRole mb)
  then show ?thesis using assms UpdateMemberRole_step by simp
next
  case (Delete pid)
  then show ?thesis using assms DeleteProject_step by simp
qed

end

end
