(* ===== verification/Auth_Project_Props.thy ===== *)
theory Auth_Project_Props
  imports Auth_Project_Refinement
begin

text \<open>
  The properties of the project handlers, over any database that satisfies \<^verbatim>\<open>auth_db\<close>. They are
  consequences of the refinement of the membership protocol and of the effects of the repository
  operations.
\<close>

section \<open>Requests in sequence\<close>

text \<open>A sequence of requests, each with its own clock and caller.\<close>

fun run_requests :: "'s db \<Rightarrow> (env \<times> ctx \<times> project_request) list \<Rightarrow> 's \<Rightarrow> 's" where
  "run_requests db [] s = s"
| "run_requests db ((env, c, rq) # rqs) s = run_requests db rqs (snd (project_router db env c rq s))"

section \<open>What the initial-login and access checks exclude\<close>

definition must_change_password :: "user multiset \<Rightarrow> string \<Rightarrow> bool" where
  "must_change_password U i \<longleftrightarrow> (\<forall>u\<in>#U. u_id u = i \<longrightarrow> u_is_initial_login u)"

definition deactivated :: "user multiset \<Rightarrow> string \<Rightarrow> bool" where
  "deactivated U i \<longleftrightarrow> (\<forall>u\<in>#U. u_id u = i \<longrightarrow> u_deactivated_at u \<noteq> None)"

context auth_db
begin

lemma CheckInitialLogin_False:
  "CheckInitialLogin db i s = Inr False \<Longrightarrow> \<not> must_change_password (udocs s) i"
  using GetUser_ok [of i s] by (cases "GetUser db i s") (auto simp: CheckInitialLogin_def must_change_password_def)

lemma RbacValidator_active:
  "RbacValidator db i pid roles invitation s = None \<Longrightarrow> \<not> deactivated (udocs s) i"
  by (drule RbacValidator_sound) (auto simp: permitted_def deactivated_def)

lemma router_initial_login:
  assumes "project_router db env c rq s = (r, s')" and "must_change_password (udocs s) (uid c)"
    and "\<not> is_ChangeRole rq" "\<not> is_Delete rq"
  shows "s' = s \<and> \<not> http_ok r"
proof -
  have no: "CheckInitialLogin db (uid c) s \<noteq> Inr False"
    using assms(2) CheckInitialLogin_False by blast
  have own: "s' = s \<and> \<not> http_ok r"
    if "change_own_invitation db env c pid rule required new message s = (r, s')" for pid rule required new message
    using change_own_invitation_run [OF that] no by simp
  show ?thesis
  proof (cases rq)
    case (Create x)
    then show ?thesis using assms(1) CreateProject_run [of db env c x s r s'] no by simp
  next
    case (Send x)
    then show ?thesis using assms(1) SendInvitation_run [of db env c x s r s'] no by simp
  next
    case (Accept x)
    then show ?thesis using assms(1) own by (cases x) (auto simp: AcceptInvitation_def)
  next
    case (Decline x)
    then show ?thesis using assms(1) own by (cases x) (auto simp: DeclineInvitation_def)
  next
    case (Leave x)
    then show ?thesis using assms(1) LeaveProject_run [of db env c x s r s'] own by auto
  next
    case (Remove x)
    then show ?thesis using assms(1) RemoveInvitation_run [of db c x s r s'] no by simp
  next
    case (Rename x)
    then show ?thesis using assms(1) UpdateProjectName_run [of db c x s r s'] no by simp
  qed (use assms in auto)
qed

lemma router_deactivated:
  assumes "project_router db env c rq s = (r, s')" and "deactivated (udocs s) (uid c)" and "\<not> is_Create rq"
  shows "s' = s \<and> \<not> http_ok r"
proof -
  have no: "RbacValidator db (uid c) pid roles invitation s \<noteq> None" for pid roles invitation
    using assms(2) RbacValidator_active by blast
  have own: "s' = s \<and> \<not> http_ok r"
    if "change_own_invitation db env c pid rule required new message s = (r, s')" for pid rule required new message
    using change_own_invitation_run [OF that] no by simp
  show ?thesis
  proof (cases rq)
    case (Send x)
    then show ?thesis using assms(1) SendInvitation_run [of db env c x s r s'] no by simp
  next
    case (Accept x)
    then show ?thesis using assms(1) own by (cases x) (auto simp: AcceptInvitation_def)
  next
    case (Decline x)
    then show ?thesis using assms(1) own by (cases x) (auto simp: DeclineInvitation_def)
  next
    case (Leave x)
    then show ?thesis using assms(1) LeaveProject_run [of db env c x s r s'] own by auto
  next
    case (Remove x)
    then show ?thesis using assms(1) RemoveInvitation_run [of db c x s r s'] no by simp
  next
    case (Rename x)
    then show ?thesis using assms(1) UpdateProjectName_run [of db c x s r s'] no by simp
  next
    case (ChangeRole x)
    then show ?thesis using assms(1) UpdateMemberRole_run [of db c x s r s'] no by simp
  next
    case (Delete x)
    then show ?thesis using assms(1) DeleteProject_run [of db c x s r s'] no by simp
  qed (use assms in auto)
qed

lemma run_requests_ok:
  "projects_ok (pdocs s) \<Longrightarrow> projects_ok (pdocs (run_requests db rqs s))"
proof (induction rqs arbitrary: s)
  case (Cons x rqs)
  obtain env c rq where x: "x = (env, c, rq)" by (cases x)
  have "projects_step (uid c) (is_Leave rq) (pdocs s) (pdocs (snd (project_router db env c rq s)))"
    using project_router_step [OF surjective_pairing Cons.prems] by blast
  then show ?case using Cons projects_step_ok x by auto
qed simp

text \<open>What a successful invitation leaves behind.\<close>

lemma SendInvitation_success:
  assumes "SendInvitation db env c (Some mb) s = (r, s')" and ok: "projects_ok (pdocs s)" and "http_ok r"
  shows "\<exists>p p' m. p \<in># pdocs s \<and> p_id p = mi_project_id mb \<and> pdocs s' = replace_mset p p' (pdocs s) \<and>
    owner_of (uid c) p \<and> (\<forall>m0. entry (mi_user_id mb) p = Some m0 \<longrightarrow> m_invitation m0 \<noteq> AcceptedInvitation) \<and>
    entry (mi_user_id mb) p' = Some m \<and> m_invitation m = PendingInvitation \<and> Some (m_role m) = mi_role mb \<and>
    (\<forall>v. v \<noteq> mi_user_id mb \<longrightarrow> entry v p' = entry v p)"
proof -
  obtain u i where
      rbac: "RbacValidator db (uid c) (mi_project_id mb) [RoleOwner] AcceptedInvitation s = None"
    and valid: "valid_role (mi_role mb)" and u: "GetUser db (mi_user_id mb) s = Inr u"
    and i: "getInvitation db (mi_project_id mb) (mi_user_id mb) s = Inr i" "i \<noteq> AcceptedInvitation"
    and w: "if i \<in> {PendingInvitation, DeclinedInvitation, ExitedProject}
        then UpdateInvite db env (mi_project_id mb) (mi_user_id mb) PendingInvitation (mi_role mb) s = (None, s')
        else AddMember db (mi_project_id mb) (invited_member env u (role_value (mi_role mb))) s = (None, s')"
    using SendInvitation_run [OF assms(1)] assms(3) by auto
  obtain x where x: "mi_role mb = Some x" using valid by (auto simp: valid_role_iff)
  have uniq: "unique_ids (pdocs s)" using ok by (simp add: projects_ok_def)
  have uu: "u_id u = mi_user_id mb" using GetUser_ok [OF u] by auto
  note own = permitted_owner [OF RbacValidator_sound [OF rbac] uniq]
  note inv = getInvitation_ok [OF i(1) uniq]
  show ?thesis
  proof (cases "i \<in> {PendingInvitation, DeclinedInvitation, ExitedProject}")
    case True
    let ?f = "\<lambda>m. m\<lparr>m_invitation := PendingInvitation, m_role := x\<rparr>"
    have "UpdateInvite db env (mi_project_id mb) (mi_user_id mb) PendingInvitation (Some x) s = (None, s')"
      using w True x by simp
    from UpdateInvite_effect(3) [OF this, unfolded invite_update_def role_value_def, simplified]
    obtain p where p: "p \<in># pdocs s" "p_id p = mi_project_id mb"
      and s': "pdocs s' = replace_mset p (set_member (mi_user_id mb) ?f p) (pdocs s)"
      by (auto simp: updated_one_def has_id_def)
    obtain m where "entry (mi_user_id mb) p = Some m" "m_invitation m = i"
      using inv [OF p] True by (cases "entry (mi_user_id mb) p") auto
    with p s' own [OF p] i(2) x show ?thesis
      by (intro exI [of _ p] exI [of _ "set_member (mi_user_id mb) ?f p"] exI [of _ "?f m"])
         (simp add: entry_set_member)
  next
    case False
    let ?m = "invited_member env u x"
    have "AddMember db (mi_project_id mb) ?m s = (None, s')" using w False x by (simp add: role_value_def)
    from AddMember_effect(3) [OF this]
    obtain p where p: "p \<in># pdocs s" "p_id p = mi_project_id mb"
      and s': "pdocs s' = replace_mset p (p\<lparr>p_members := p_members p @ [?m]\<rparr>) (pdocs s)"
      by (auto simp: updated_one_def has_id_def)
    have "entry (mi_user_id mb) p = None"
      using inv [OF p] False i(2) ok p(1) entry_Some [of "mi_user_id mb" p]
      by (cases "entry (mi_user_id mb) p")
         (auto simp: projects_ok_def project_ok_def member_ok_def invitation_states_def)
    with p s' own [OF p] x uu show ?thesis
      by (intro exI [of _ p] exI [of _ "p\<lparr>p_members := p_members p @ [?m]\<rparr>"] exI [of _ ?m])
         (auto simp: entry_append invited_member_def split: option.splits)
  qed
qed

lemma LeaveProject_without_role:
  assumes "LeaveProject db env c (Some mb) s = (r, s')" and ok: "projects_ok (pdocs s)" and "http_ok r"
    and p: "p \<in># pdocs s" "p_id p = mi_project_id mb" and sole: "\<And>m. m \<in> set (p_members p) \<Longrightarrow> accepted_owner m \<Longrightarrow> m_user_id m = uid c"
  shows "\<exists>p'\<in>#pdocs s'. p_id p' = p_id p \<and> \<not> has_owner p'"
proof -
  have "UpdateInvite db env (mi_project_id mb) (uid c) ExitedProject None s = (None, s')"
    using LeaveProject_run [OF assms(1)] change_own_invitation_run assms(3) by fastforce
  from UpdateInvite_effect(3) [OF this, unfolded invite_update_def, simplified]
  obtain q where q: "q \<in># pdocs s" "p_id q = mi_project_id mb"
    and s': "pdocs s' = replace_mset q (set_member (uid c) (\<lambda>m. m\<lparr>m_invitation := ExitedProject\<rparr>) q) (pdocs s)"
    by (auto simp: updated_one_def has_id_def)
  have "q = p" using ok p q by (auto simp: projects_ok_def dest: unique_byD)
  moreover have "\<not> has_owner (set_member (uid c) (\<lambda>m. m\<lparr>m_invitation := ExitedProject\<rparr>) p)"
    using sole by (auto simp: has_owner_def list_ex_iff accepted_owner_def)
  ultimately show ?thesis using s' by (intro bexI [of _ "set_member (uid c) (\<lambda>m. m\<lparr>m_invitation := ExitedProject\<rparr>) p"]) auto
qed

end

section \<open>Listing projects\<close>

text \<open>
  \<^verbatim>\<open>visible\<close> says which projects a listing is about, \<^verbatim>\<open>list_order\<close> how they are ordered.
\<close>

lemma find_accepted:
  "distinct (map m_user_id ms) \<Longrightarrow>
   List.find (\<lambda>m. m_user_id m = u \<and> Q m) ms =
   (case List.find (\<lambda>m. m_user_id m = u) ms of Some m \<Rightarrow> if Q m then Some m else None | None \<Rightarrow> None)"
proof (induction ms)
  case (Cons m ms)
  show ?case
  proof (cases "m_user_id m = u")
    case True
    with Cons.prems have "List.find (\<lambda>m. m_user_id m = u \<and> Q m) ms = None"
      by (auto simp: find_None_iff image_iff)
    with True show ?thesis by simp
  next
    case False
    with Cons show ?thesis by simp
  qed
qed simp

definition visible :: "env \<Rightarrow> list_request \<Rightarrow> project \<Rightarrow> bool" where
  "visible env rq p \<longleftrightarrow> \<not> IsRemoved (p_audit p) \<and>
     (\<exists>m\<in>set (p_members p). m_user_id m = rq_user_id rq \<and>
        m_invitation m \<notin> {PendingInvitation, DeclinedInvitation, ExitedProject}) \<and>
     (\<forall>f. rq_filter rq = Some f \<longrightarrow>
        (\<forall>b. lf_created_by_me f = Some b \<longrightarrow> (ud_user_id (CreatedBy (p_audit p)) = rq_user_id rq) = b) \<and>
        (\<forall>n. lf_project_name f = Some n \<longrightarrow> regex_matches env n (p_name p)))"

lemma filter_stages_are_matches:
  "\<exists>Ps. CreateMatchStage (rq_user_id rq) # CreateFilterStages env (rq_filter rq) (rq_user_id rq) = map Match Ps \<and>
     (\<forall>p. (\<forall>P\<in>set Ps. P p) \<longleftrightarrow> visible env rq p)"
proof -
  let ?a = "\<lambda>p. \<not> IsRemoved (p_audit p) \<and>
       list_ex (\<lambda>m. m_user_id m = rq_user_id rq \<and>
         m_invitation m \<notin> {PendingInvitation, DeclinedInvitation, ExitedProject}) (p_members p)"
  show ?thesis
  proof (cases "rq_filter rq")
    case None
    then show ?thesis
      by (intro exI [of _ "[?a]"]) (simp add: CreateMatchStage_def CreateFilterStages_def visible_def list_ex_iff)
  next
    case (Some f)
    define C :: "(project \<Rightarrow> bool) list" where "C = (case lf_project_name f of None \<Rightarrow> [] | Some n \<Rightarrow> [\<lambda>p. regex_matches env n (p_name p)])"
    have C: "(case lf_project_name f of None \<Rightarrow> [] | Some n \<Rightarrow> [Match (\<lambda>p. regex_matches env n (p_name p))]) = map Match C"
      "(\<forall>P\<in>set C. P p) \<longleftrightarrow> (\<forall>n. lf_project_name f = Some n \<longrightarrow> regex_matches env n (p_name p))" for p
      by (cases "lf_project_name f"; simp add: C_def)+
    define B :: "(project \<Rightarrow> bool) list" where "B = (case lf_created_by_me f of None \<Rightarrow> []
         | Some b \<Rightarrow> if b then [\<lambda>p. ud_user_id (CreatedBy (p_audit p)) = rq_user_id rq]
                     else [\<lambda>p. ud_user_id (CreatedBy (p_audit p)) \<noteq> rq_user_id rq])"
    have B: "(case lf_created_by_me f of None \<Rightarrow> []
         | Some True \<Rightarrow> [Match (\<lambda>p. ud_user_id (CreatedBy (p_audit p)) = rq_user_id rq)]
         | Some False \<Rightarrow> [Match (\<lambda>p. ud_user_id (CreatedBy (p_audit p)) \<noteq> rq_user_id rq)]) = map Match B"
      "(\<forall>P\<in>set B. P p) \<longleftrightarrow>
         (\<forall>b. lf_created_by_me f = Some b \<longrightarrow> (ud_user_id (CreatedBy (p_audit p)) = rq_user_id rq) = b)" for p
      by (cases "lf_created_by_me f"; simp add: B_def split: bool.splits)+
    show ?thesis
      by (intro exI [of _ "?a # B @ C"])
         (simp add: Some CreateMatchStage_def CreateFilterStages_def B C ball_Un visible_def list_ex_iff)
  qed
qed

definition list_order :: "list_request \<Rightarrow> project \<Rightarrow> project \<Rightarrow> bool" where
  "list_order rq a b \<longleftrightarrow> (case rq_sort rq of None \<Rightarrow> True | Some si \<Rightarrow> (case si_field si of None \<Rightarrow> True | Some fld \<Rightarrow>
     (if si_ascending si = Some True
      then if fld = ''NAME'' then p_name a \<le> p_name b else UpdatedAt (p_audit a) \<le> UpdatedAt (p_audit b)
      else if fld = ''NAME'' then p_name b \<le> p_name a else UpdatedAt (p_audit b) \<le> UpdatedAt (p_audit a))))"

lemma list_stages_pipeline:
  assumes "pipeline (list_stages env rq) ds ms"
  shows "mset ms = filter_mset (visible env rq) (mset ds) \<and> sorted_wrt (list_order rq) ms"
proof -
  obtain Ps where Ps: "CreateMatchStage (rq_user_id rq) # CreateFilterStages env (rq_filter rq) (rq_user_id rq) = map Match Ps"
    "\<forall>p. (\<forall>P\<in>set Ps. P p) \<longleftrightarrow> visible env rq p"
    using filter_stages_are_matches [of rq env] by (elim exE conjE) (rule that)
  have st: "list_stages env rq = map Match Ps @ (case CreateSortStage (rq_sort rq) of None \<Rightarrow> [] | Some st \<Rightarrow> [st])"
    by (simp add: list_stages_def flip: Ps(1))
  obtain ns where ns: "ns = filter (visible env rq) ds"
    "pipeline (case CreateSortStage (rq_sort rq) of None \<Rightarrow> [] | Some st \<Rightarrow> [st]) ns ms"
    using assms Ps(2) unfolding st pipeline_append pipeline_matches by simp
  show ?thesis
  proof (cases "CreateSortStage (rq_sort rq)")
    case None
    have "list_order rq = (\<lambda>a b. True)"
      using None by (auto simp: list_order_def CreateSortStage_def fun_eq_iff split: option.splits)
    with ns None show ?thesis by (simp add: sorted_wrt_true)
  next
    case (Some st)
    then have "st = Sort (list_order rq)"
      by (auto simp: CreateSortStage_def list_order_def fun_eq_iff split: option.splits if_splits)
    with ns Some show ?thesis by (auto elim: pipeline_SortE)
  qed
qed

section \<open>Properties\<close>

abbreviation ann :: ctx where "ann \<equiv> caller ''u1'' ''ann'' ''user''"
abbreviation bob :: ctx where "bob \<equiv> caller ''u2'' ''bob'' ''user''"
abbreviation cid :: ctx where "cid \<equiv> caller ''u3'' ''cid'' ''user''"

lemma sample_ok: "projects_ok (mem_projects sample_state)"
  unfolding projects_ok_mset by code_simp

text \<open>
  C1: Refinement. On well-formed projects (unique identifiers, one entry per user, known roles and
  invitation states) every request to a project route changes the stored projects by a step of the
  membership protocol made by the caller, and changes no user, token, revoked token or configuration.
  This holds on every branch, error responses and failed writes included.
\<close>

theorem project_request_refines:
  assumes "auth_db db udocs pdocs rdocs adocs cdocs" and "projects_ok (pdocs s)"
    and "project_router db env c rq s = (r, s')"
  shows "projects_step (uid c) (is_Leave rq) (pdocs s) (pdocs s') \<and> udocs s' = udocs s \<and> rdocs s' = rdocs s \<and>
    adocs s' = adocs s \<and> cdocs s' = cdocs s"
  using auth_db.project_router_step [OF assms(1,3,2)]
  unfolding auth_db.others_same_def [OF assms(1)] by blast

theorem project_request_refines_witness:
  "projects_step ''u1'' False (mem_projects sample_state)
     (mem_projects (snd (project_router mem_db sample_env ann
        (Send (Some \<lparr>mi_project_id = ''p1'', mi_user_id = ''u3'', mi_role = Some ''Viewer''\<rparr>)) sample_state)))"
  using project_request_refines [where env = sample_env and c = ann
      and rq = "Send (Some \<lparr>mi_project_id = ''p1'', mi_user_id = ''u3'', mi_role = Some ''Viewer''\<rparr>)",
      OF mem_auth_db sample_ok surjective_pairing]
  by (simp add: caller_def)

text \<open>
  C2: Invariant. Starting from well-formed projects, after any sequence of project requests by any
  callers the projects are well formed: identifiers are unique, no user has two entries in a project,
  and every role and invitation state is one of the known ones.
\<close>

theorem projects_stay_well_formed:
  assumes "auth_db db udocs pdocs rdocs adocs cdocs" and "projects_ok (pdocs s)"
  shows "projects_ok (pdocs (run_requests db rqs s))"
  by (rule auth_db.run_requests_ok [OF assms])

theorem projects_stay_well_formed_witness:
  "projects_ok (mem_projects (run_requests mem_db
     [(sample_env, ann, Send (Some \<lparr>mi_project_id = ''p1'', mi_user_id = ''u3'', mi_role = Some ''Owner''\<rparr>)),
      (sample_env, cid, Accept (Some \<lparr>mi_project_id = ''p1'', mi_user_id = [], mi_role = None\<rparr>))] sample_state))"
  by (rule projects_stay_well_formed [OF mem_auth_db sample_ok])

text \<open>
  C3: Safety. A caller who is not an accepted owner of a project can neither delete nor rename it nor
  change the entry of another user: after any project request the project is still stored, with the
  same name and audit data and with the same entries for everybody else.
\<close>

theorem non_owner_changes_only_own_entry:
  assumes "auth_db db udocs pdocs rdocs adocs cdocs" and "projects_ok (pdocs s)"
    and "project_router db env c rq s = (r, s')" and "p \<in># pdocs s" and "\<not> owner_of (uid c) p"
  shows "\<exists>p'\<in>#pdocs s'. p_id p' = p_id p \<and> p_name p' = p_name p \<and> p_audit p' = p_audit p \<and>
    (\<forall>u. u \<noteq> uid c \<longrightarrow> entry u p' = entry u p)"
  using auth_db.project_router_step [OF assms(1,3,2)] projects_step_not_owner assms(4,5) by blast

theorem non_owner_changes_only_own_entry_witness:
  "\<exists>p'\<in>#mem_projects (snd (project_router mem_db sample_env bob (Rename (Some (''p1'', ''beta''))) sample_state)).
     p_id p' = ''p1'' \<and> p_name p' = ''alpha''"
proof -
  let ?p = "hd (st_projects sample_state)"
  have p: "?p \<in># mem_projects sample_state" "\<not> owner_of (uid bob) ?p" "p_id ?p = ''p1''" "p_name ?p = ''alpha''"
    by (simp_all add: sample_state_def sample_project_def owner_of_def sample_member_def empty_member_def
        accepted_owner_def caller_def role_defs)
  from non_owner_changes_only_own_entry [where env = sample_env and rq = "Rename (Some (''p1'', ''beta''))",
      OF mem_auth_db sample_ok surjective_pairing p(1,2)] p(3,4)
  show ?thesis by auto
qed

text \<open>
  C4: Safety. If every stored project has an accepted owner, then it still has after any project
  request that is not a request to leave: inviting, accepting, declining, removing, changing roles,
  renaming, deleting and creating never leave a project without an owner.
\<close>

theorem projects_keep_an_owner:
  assumes "auth_db db udocs pdocs rdocs adocs cdocs" and "projects_ok (pdocs s)"
    and "project_router db env c rq s = (r, s')" and "\<not> is_Leave rq" and "\<forall>p\<in>#pdocs s. has_owner p"
  shows "\<forall>p\<in>#pdocs s'. has_owner p"
  using auth_db.project_router_step [OF assms(1,3,2)] projects_step_has_owner assms(2,4,5) by blast

theorem projects_keep_an_owner_witness:
  "list_all has_owner (st_projects (snd (project_router mem_db sample_env ann
     (Remove (Some \<lparr>mi_project_id = ''p1'', mi_user_id = ''u2'', mi_role = None\<rparr>)) sample_state)))"
proof -
  let ?rq = "Remove (Some \<lparr>mi_project_id = ''p1'', mi_user_id = ''u2'', mi_role = None\<rparr>)"
  have own: "\<forall>p\<in>#mem_projects sample_state. has_owner p"
    by (simp add: sample_state_def sample_project_def has_owner_def sample_member_def empty_member_def accepted_owner_def)
  have "\<forall>p\<in>#mem_projects (snd (project_router mem_db sample_env ann ?rq sample_state)). has_owner p"
    by (rule projects_keep_an_owner [OF mem_auth_db sample_ok surjective_pairing _ own]) simp
  then show ?thesis by (simp add: list_all_iff del: project_router.simps)
qed

text \<open>
  Leaving can cost a project its last owner. The check for the last owner looks at the role in the
  request body and not at the stored role, so when the only accepted owner leaves with a body that
  does not say \<^verbatim>\<open>Owner\<close>, the request is answered with success and the project has no owner. (The
  statement is for every successful leave by a sole owner; the witness runs one.)
\<close>

theorem sole_owner_can_leave:
  assumes "auth_db db udocs pdocs rdocs adocs cdocs" and "projects_ok (pdocs s)"
    and "LeaveProject db env c (Some mb) s = (r, s')" and "http_ok r"
    and "p \<in># pdocs s" and "p_id p = mi_project_id mb"
    and "\<forall>m\<in>set (p_members p). accepted_owner m \<longrightarrow> m_user_id m = uid c"
  shows "\<exists>p'\<in>#pdocs s'. p_id p' = p_id p \<and> \<not> has_owner p'"
  using auth_db.LeaveProject_without_role [OF assms(1,3,2,4,5,6)] assms(7) by blast

theorem sole_owner_can_leave_witness:
  "let s' = snd (LeaveProject mem_db sample_env ann
              (Some \<lparr>mi_project_id = ''p1'', mi_user_id = ''u1'', mi_role = None\<rparr>) sample_state)
   in \<exists>p'\<in>#mem_projects s'. p_id p' = ''p1'' \<and> \<not> has_owner p'"
proof -
  let ?mb = "\<lparr>mi_project_id = ''p1'', mi_user_id = ''u1'', mi_role = None\<rparr>"
  let ?p = "hd (st_projects sample_state)"
  have ok: "http_ok (fst (LeaveProject mem_db sample_env ann (Some ?mb) sample_state))" by code_simp
  have p: "?p \<in># mem_projects sample_state" "p_id ?p = mi_project_id ?mb"
    "\<forall>m\<in>set (p_members ?p). accepted_owner m \<longrightarrow> m_user_id m = uid ann"
    by (simp_all add: sample_state_def sample_project_def sample_member_def empty_member_def
        accepted_owner_def caller_def)
  from sole_owner_can_leave [OF mem_auth_db sample_ok surjective_pairing ok p] p(2)
  show ?thesis by (simp add: Let_def)
qed

text \<open>
  When the request body says \<^verbatim>\<open>Owner\<close> the check works: with exactly one accepted owner the request
  to leave is refused and nothing changes.
\<close>

theorem last_owner_refused:
  assumes "auth_db db udocs pdocs rdocs adocs cdocs" and "unique_ids (pdocs s)"
    and "p \<in># pdocs s" and "p_id p = mi_project_id mb" and "length (filter accepted_owner (p_members p)) = 1"
    and "mi_role mb = Some RoleOwner" and "repo_GetProjectOwners db (mi_project_id mb) s = Inr owners"
  shows "LeaveProject db env c (Some mb) s =
    ((400, MessageBody ''Cannot leave project. There must be at least one owner.''), s)"
proof -
  obtain q where q: "FindOne (projects db) (has_id (mi_project_id mb)) s = Inr q"
    and o: "owners = filter accepted_owner (p_members q)"
    using assms(7) by (cases "FindOne (projects db) (has_id (mi_project_id mb)) s") (auto simp: repo_GetProjectOwners_def)
  have "q \<in># pdocs s" "p_id q = mi_project_id mb"
    using mongo_collection.FindOne_ok [OF auth_db.axioms(2) [OF assms(1)] q] by (simp_all add: has_id_def)
  then have "q = p" using unique_byD [OF assms(2) _ assms(3)] assms(4) by simp
  with o assms show ?thesis by (simp add: LeaveProject_def Let_def)
qed

theorem last_owner_refused_witness:
  "LeaveProject mem_db sample_env ann (Some \<lparr>mi_project_id = ''p1'', mi_user_id = ''u1'', mi_role = Some RoleOwner\<rparr>)
     sample_state = ((400, MessageBody ''Cannot leave project. There must be at least one owner.''), sample_state)"
proof -
  let ?mb = "\<lparr>mi_project_id = ''p1'', mi_user_id = ''u1'', mi_role = Some RoleOwner\<rparr>"
  let ?p = "hd (st_projects sample_state)"
  have u: "unique_ids (mem_projects sample_state)" using sample_ok by (simp add: projects_ok_def)
  have p: "?p \<in># mem_projects sample_state" "p_id ?p = mi_project_id ?mb" 
    "length (filter accepted_owner (p_members ?p)) = 1" "mi_role ?mb = Some RoleOwner"
    by (simp_all add: sample_state_def sample_project_def sample_member_def empty_member_def accepted_owner_def)
  have "repo_GetProjectOwners mem_db (mi_project_id ?mb) sample_state = Inr [sample_member ''u1'' RoleOwner AcceptedInvitation]"
    by code_simp
  from last_owner_refused [OF mem_auth_db u p this] show ?thesis .
qed

text \<open>
  C5: The access check is exact. When the database answers its two queries, \<^verbatim>\<open>RbacValidator\<close> lets a
  caller through exactly if the user it read is active and the project has an entry of the caller with
  one of the required roles and the required invitation state.
\<close>

theorem RbacValidator_exact:
  assumes "auth_db db udocs pdocs rdocs adocs cdocs"
    and "GetUser db u s = Inr usr"
    and "GetProjects db (\<lambda>p. p_id p = pid \<and> list_ex (holds_role u roles invitation) (p_members p)) s = Inr ps"
  shows "RbacValidator db u pid roles invitation s = None \<longleftrightarrow>
    u_deactivated_at usr = None \<and>
    (\<exists>p\<in>#pdocs s. p_id p = pid \<and> (\<exists>m\<in>set (p_members p). m_user_id m = u \<and> m_role m \<in> set roles \<and> m_invitation m = invitation))"
    (is "?l \<longleftrightarrow> ?r")
proof
  assume ?l
  then have "u_deactivated_at usr = None" using assms(2) by (auto simp: RbacValidator_def split: if_splits)
  with auth_db.RbacValidator_sound [OF assms(1) \<open>?l\<close>] show ?r
    by (simp add: permitted_def holds_role_def)
next
  assume r: ?r
  have "\<exists>d\<in>#udocs s. u_id d = u \<and> usr = SanitizedUser d" by (rule auth_db.GetUser_ok [OF assms(1,2)])
  with r have "permitted (udocs s) (pdocs s) u pid roles invitation"
    by (auto simp: permitted_def holds_role_def)
  with auth_db.RbacValidator_complete [OF assms(1) _ assms(2) _ assms(3)] r show ?l by simp
qed

theorem RbacValidator_exact_witness:
  "RbacValidator mem_db ''u1'' ''p1'' [RoleOwner] AcceptedInvitation sample_state = None"
proof -
  have u: "GetUser mem_db ''u1'' sample_state = Inr (SanitizedUser (sample_user ''u1'' ''ann''))" by code_simp
  have ps: "GetProjects mem_db (\<lambda>p. p_id p = ''p1'' \<and> list_ex (holds_role ''u1'' [RoleOwner] AcceptedInvitation) (p_members p)) sample_state
      = Inr (st_projects sample_state)" by code_simp
  show ?thesis
    by (subst RbacValidator_exact [OF mem_auth_db u ps])
       (simp add: sample_state_def sample_project_def sample_member_def empty_member_def sample_user_def)
qed

text \<open>
  A user whose initial password is not changed can do nothing with projects except through two
  routes: any request other than a role change or a deletion is answered with an error and leaves the
  database as it is.
\<close>

theorem initial_login_blocked:
  assumes "auth_db db udocs pdocs rdocs adocs cdocs" and "must_change_password (udocs s) (uid c)"
    and "\<not> is_ChangeRole rq" and "\<not> is_Delete rq" and "project_router db env c rq s = (r, s')"
  shows "s' = s \<and> \<not> http_ok r"
  by (rule auth_db.router_initial_login [OF assms(1,5,2,3,4)])

definition fresh_state :: mem_state where
  "fresh_state = sample_state\<lparr>st_users := map (\<lambda>u. u\<lparr>u_is_initial_login := True\<rparr>) (st_users sample_state)\<rparr>"

theorem initial_login_blocked_witness:
  "snd (project_router mem_db sample_env ann (Rename (Some (''p1'', ''beta''))) fresh_state) = fresh_state"
proof -
  have "must_change_password (mem_users fresh_state) (uid ann)"
    by (simp add: must_change_password_def fresh_state_def)
  from initial_login_blocked [where rq = "Rename (Some (''p1'', ''beta''))" and env = sample_env,
      OF mem_auth_db this _ _ surjective_pairing]
  show ?thesis by simp
qed

text \<open>
  The two routes without the initial-login check let such a user through: the owner of the sample
  project, whose default password is not changed, changes a role and deletes the project.
\<close>

theorem initial_login_not_checked:
  "must_change_password (mem_users fresh_state) ''u1'' \<and>
   fst (UpdateMemberRole mem_db ann (Some \<lparr>mi_project_id = ''p1'', mi_user_id = ''u2'', mi_role = Some ''Editor''\<rparr>) fresh_state)
     = (200, MessageBody ''successful'') \<and>
   fst (DeleteProject mem_db ann ''p1'' fresh_state) = (200, MessageBody ''Successfully deleted project.'') \<and>
   st_projects (snd (DeleteProject mem_db ann ''p1'' fresh_state)) = []"
proof (intro conjI)
  show "must_change_password (mem_users fresh_state) ''u1''"
    by (simp add: must_change_password_def fresh_state_def)
qed code_simp+

text \<open>
  A deactivated user, even with a token that is still valid, changes no existing project: every
  project request other than the creation of a project is refused and leaves the database as it is.
\<close>

theorem deactivated_user_blocked:
  assumes "auth_db db udocs pdocs rdocs adocs cdocs" and "deactivated (udocs s) (uid c)"
    and "\<not> is_Create rq" and "project_router db env c rq s = (r, s')"
  shows "s' = s \<and> \<not> http_ok r"
  by (rule auth_db.router_deactivated [OF assms(1,4,2,3)])

definition deactivated_state :: mem_state where
  "deactivated_state = sample_state\<lparr>st_users := map (\<lambda>u. u\<lparr>u_deactivated_at := Some 5\<rparr>) (st_users sample_state)\<rparr>"

theorem deactivated_user_blocked_witness:
  "snd (project_router mem_db sample_env ann (Delete ''p1'') deactivated_state) = deactivated_state"
proof -
  have "deactivated (mem_users deactivated_state) (uid ann)"
    by (simp add: deactivated_def deactivated_state_def)
  from deactivated_user_blocked [where rq = "Delete ''p1''" and env = sample_env,
      OF mem_auth_db this _ surjective_pairing]
  show ?thesis by simp
qed

text \<open>
  Creating a project is not covered: a deactivated user creates one and becomes its owner.
\<close>

theorem deactivated_user_creates_project:
  "deactivated (mem_users deactivated_state) ''u3'' \<and>
   http_ok (fst (CreateProject mem_db sample_env cid
     (Some \<lparr>cp_name = ''gamma'', cp_description = None, cp_tags = None\<rparr>) deactivated_state)) \<and>
   list_ex (\<lambda>p. p_name p = ''gamma'' \<and> list_ex (\<lambda>m. m_user_id m = ''u3'' \<and> accepted_owner m) (p_members p))
     (st_projects (snd (CreateProject mem_db sample_env cid
        (Some \<lparr>cp_name = ''gamma'', cp_description = None, cp_tags = None\<rparr>) deactivated_state)))"
proof (intro conjI)
  show "deactivated (mem_users deactivated_state) ''u3''"
    by (simp add: deactivated_def deactivated_state_def)
qed code_simp+

text \<open>
  A successful invitation. When \<^verbatim>\<open>SendInvitation\<close> answers with success, the caller is an accepted
  owner of the project, the invited user was not an accepted member, and afterwards exactly this
  project is changed: the user has a pending entry with the requested role and all other entries are
  as before.
\<close>

theorem SendInvitation_invites:
  assumes "auth_db db udocs pdocs rdocs adocs cdocs" and "projects_ok (pdocs s)"
    and "SendInvitation db env c (Some mb) s = (r, s')" and "http_ok r"
  shows "\<exists>p p' m. p \<in># pdocs s \<and> p_id p = mi_project_id mb \<and> pdocs s' = replace_mset p p' (pdocs s) \<and>
    owner_of (uid c) p \<and> (\<forall>m0. entry (mi_user_id mb) p = Some m0 \<longrightarrow> m_invitation m0 \<noteq> AcceptedInvitation) \<and>
    entry (mi_user_id mb) p' = Some m \<and> m_invitation m = PendingInvitation \<and> Some (m_role m) = mi_role mb \<and>
    (\<forall>v. v \<noteq> mi_user_id mb \<longrightarrow> entry v p' = entry v p)"
  by (rule auth_db.SendInvitation_success [OF assms(1,3,2,4)])

theorem SendInvitation_invites_witness:
  "\<exists>p p' m. p \<in># mem_projects sample_state \<and> p_id p = ''p1'' \<and>
     mem_projects (snd (SendInvitation mem_db sample_env ann
        (Some \<lparr>mi_project_id = ''p1'', mi_user_id = ''u3'', mi_role = Some ''Viewer''\<rparr>) sample_state))
       = replace_mset p p' (mem_projects sample_state) \<and>
     entry ''u3'' p' = Some m \<and> m_invitation m = PendingInvitation \<and> m_role m = ''Viewer''"
proof -
  let ?mb = "\<lparr>mi_project_id = ''p1'', mi_user_id = ''u3'', mi_role = Some ''Viewer''\<rparr>"
  have "http_ok (fst (SendInvitation mem_db sample_env ann (Some ?mb) sample_state))" by code_simp
  from SendInvitation_invites [OF mem_auth_db sample_ok surjective_pairing this] show ?thesis
    by auto
qed

text \<open>
  A created project. When \<^verbatim>\<open>CreateProject\<close> answers with success, no stored project had the name, and
  the new project is added and nothing else changes: its only entry makes the caller an accepted
  owner, it is not removed, and missing tags and description are stored as empty.
\<close>

theorem CreateProject_creates:
  assumes "auth_db db udocs pdocs rdocs adocs cdocs" and "CreateProject db env c (Some inp) s = (r, s')" and "http_ok r"
  shows "cp_name inp \<noteq> [] \<and> (\<forall>q\<in>#pdocs s. p_name q \<noteq> cp_name inp) \<and>
    (\<exists>p m. pdocs s' = add_mset p (pdocs s) \<and> (\<forall>q\<in>#pdocs s. p_id q \<noteq> p_id p) \<and> p_name p = cp_name inp \<and>
       \<not> IsRemoved (p_audit p) \<and> p_members p = [m] \<and> m_user_id m = uid c \<and> accepted_owner m \<and>
       p_description p = Some (case cp_description inp of None \<Rightarrow> [] | Some d \<Rightarrow> d) \<and>
       p_tags p = (case cp_tags inp of None \<Rightarrow> [] | Some t \<Rightarrow> t))"
proof -
  obtain u where u: "GetUser db (uid c) s = Inr u" and n: "cp_name inp \<noteq> []"
    and ps: "GetProjects db (\<lambda>p. p_name p = cp_name inp) s = Inr []"
    and w: "repo_CreateProject db (created_project env inp u) s = (None, s')"
    using CreateProject_run [OF assms(2)] assms(3) by (auto split: if_splits)
  have "InsertOne (projects db) (created_project env inp u) s = (None, s')"
    using w by (auto simp: repo_CreateProject_def split: prod.splits option.splits mongo_error.splits)
  from mongo_collection.InsertOne_ok [OF auth_db.axioms(2) [OF assms(1)] this]
  have "pdocs s' = add_mset (created_project env inp u) (pdocs s)"
    "\<forall>q\<in>#pdocs s. p_id q \<noteq> p_id (created_project env inp u)"
    by (auto simp: project_conflict_def)
  moreover have "u_id u = uid c" using auth_db.GetUser_ok [OF assms(1) u] by auto
  moreover have "\<forall>q\<in>#pdocs s. p_name q \<noteq> cp_name inp" using auth_db.GetProjects_ok [OF assms(1) ps] by auto
  ultimately show ?thesis
    using n by (auto simp: created_project_def accepted_owner_def)
qed

theorem CreateProject_creates_witness:
  "\<exists>p. mem_projects (snd (CreateProject mem_db sample_env cid
       (Some \<lparr>cp_name = ''gamma'', cp_description = None, cp_tags = None\<rparr>) sample_state))
       = add_mset p (mem_projects sample_state) \<and> p_name p = ''gamma''"
proof -
  have "http_ok (fst (CreateProject mem_db sample_env cid
      (Some \<lparr>cp_name = ''gamma'', cp_description = None, cp_tags = None\<rparr>) sample_state))" by code_simp
  from CreateProject_creates [OF mem_auth_db surjective_pairing this] show ?thesis by auto
qed

text \<open>
  The role a user is told is the stored one: when \<^verbatim>\<open>GetProjectRole\<close> answers with a role on a
  well-formed store, the project exists, and the answer is the role of the caller's accepted entry,
  or \<^verbatim>\<open>N/A\<close> if there is none.
\<close>

theorem GetProjectRole_answers:
  assumes "auth_db db udocs pdocs rdocs adocs cdocs" and "projects_ok (pdocs s)"
    and "GetProjectRole db c pid s = (200, RoleBody r)"
  shows "\<exists>p\<in>#pdocs s. p_id p = pid \<and>
    r = (case entry (uid c) p of
           Some m \<Rightarrow> if m_invitation m = AcceptedInvitation then m_role m else ''N/A''
         | None \<Rightarrow> ''N/A'')"
proof -
  obtain p where p: "FindOne (projects db) (has_id pid) s = Inr p"
    and r: "r = (case List.find (\<lambda>m. m_user_id m = uid c \<and> m_invitation m = AcceptedInvitation) (p_members p) of
        Some m \<Rightarrow> m_role m | None \<Rightarrow> ''N/A'')"
    using assms(3) by (cases "FindOne (projects db) (has_id pid) s")
      (auto simp: GetProjectRole_def repo_GetProjectRole_def split: if_splits option.splits)
  then have pp: "p \<in># pdocs s" "p_id p = pid"
    using mongo_collection.FindOne_ok [OF auth_db.axioms(2) [OF assms(1)] p] by (simp_all add: has_id_def)
  with assms(2) have "project_ok p" by (simp add: projects_ok_def)
  then have "List.find (\<lambda>m. m_user_id m = uid c \<and> m_invitation m = AcceptedInvitation) (p_members p) =
      (case entry (uid c) p of Some m \<Rightarrow> if m_invitation m = AcceptedInvitation then Some m else None | None \<Rightarrow> None)"
    by (simp add: entry_def project_ok_def find_accepted)
  with r pp show ?thesis by (auto split: option.splits if_splits)
qed

theorem GetProjectRole_answers_witness:
  "\<exists>p\<in>#mem_projects sample_state. p_id p = ''p1'' \<and>
    ''Owner'' = (case entry ''u1'' p of
           Some m \<Rightarrow> if m_invitation m = AcceptedInvitation then m_role m else ''N/A''
         | None \<Rightarrow> ''N/A'')"
proof -
  have "GetProjectRole mem_db ann ''p1'' sample_state = (200, RoleBody ''Owner'')" by code_simp
  from GetProjectRole_answers [OF mem_auth_db sample_ok this] show ?thesis by (simp add: caller_def)
qed

text \<open>
  Listing. A page of the project list is cut out of one ordering of exactly the projects the request
  asks for: stored and not removed, with the user as a member whose invitation is not pending,
  declined or exited, and with the requested creator and name. The total is their number, the page
  starts at page times limit (in 64-bit arithmetic) and has at most the limit, which is capped at 50;
  an answer is only given when limit and start are in range.
\<close>

theorem list_projects_page:
  assumes "auth_db db udocs pdocs rdocs adocs cdocs"
    and "repo_GetProjectsByUserID db env rq s = Inr res" and "rq_pagination rq = Some pg"
  shows "\<exists>ms. mset ms = filter_mset (visible env rq) (pdocs s) \<and> sorted_wrt (list_order rq) ms \<and>
    lp_total res = length ms \<and> 0 < pg_limit pg \<and> 0 \<le> wrap64 (pg_page pg * min 50 (pg_limit pg)) \<and>
    lp_projects res = take (nat (min 50 (pg_limit pg))) (drop (nat (wrap64 (pg_page pg * min 50 (pg_limit pg)))) ms)"
proof -
  obtain n rs where f: "Facet (projects db) (list_stages env rq) (CreatePaginationStage (Some pg)) s = Inr (n, rs)"
    and res: "res = (case n of None \<Rightarrow> \<lparr>lp_projects = [], lp_total = 0\<rparr> | Some k \<Rightarrow> \<lparr>lp_projects = rs, lp_total = k\<rparr>)"
    using assms(2,3)
    by (cases "Facet (projects db) (list_stages env rq) (CreatePaginationStage (Some pg)) s")
       (auto simp: repo_GetProjectsByUserID_def split: option.splits)
  let ?l = "min 50 (pg_limit pg)"
  have pag: "CreatePaginationStage (Some pg) = [Skip (wrap64 (pg_page pg * ?l)), Limit ?l]"
    by (simp add: CreatePaginationStage_def Let_def min_def)
  from mongo_collection.Facet_ok [OF auth_db.axioms(2) [OF assms(1)] f, unfolded pag]
  obtain ds ms where ds: "mset ds = pdocs s" "pipeline (list_stages env rq) ds ms"
    and rs: "rs = take (nat ?l) (drop (nat (wrap64 (pg_page pg * ?l))) ms)"
    and n: "n = (if ms = [] then None else Some (length ms))"
    and rng: "0 < ?l" "0 \<le> wrap64 (pg_page pg * ?l)"
    by auto
  have "mset ms = filter_mset (visible env rq) (pdocs s)" "sorted_wrt (list_order rq) ms"
    using list_stages_pipeline [OF ds(2)] ds(1) by simp_all
  then show ?thesis using res rs n rng by (intro exI [of _ ms]) auto
qed

definition sample_request :: list_request where
  "sample_request = \<lparr>rq_user_id = ''u1'', rq_sort = None, rq_filter = None,
     rq_pagination = Some \<lparr>pg_page = 0, pg_limit = 70\<rparr>\<rparr>"

theorem list_projects_page_witness:
  "\<exists>ms. mset ms = filter_mset (visible sample_env sample_request) (mem_projects sample_state) \<and> length ms = 1"
proof -
  have "repo_GetProjectsByUserID mem_db sample_env sample_request sample_state =
      Inr \<lparr>lp_projects = st_projects sample_state, lp_total = 1\<rparr>" by code_simp
  from list_projects_page [OF mem_auth_db this] show ?thesis
    by (auto simp: sample_request_def)
qed

text \<open>
  Reading a project needs membership: when \<^verbatim>\<open>GetProject\<close> answers a caller who is not an admin with a
  project, the caller is an active user with an accepted entry in a project of that identifier, and
  the answer is a stored project with it.
\<close>

theorem GetProject_needs_membership:
  assumes "auth_db db udocs pdocs rdocs adocs cdocs" and "GetProject db c pid s = (200, ProjectBody p)"
    and "role c \<noteq> RoleAdmin"
  shows "p \<in># pdocs s \<and> p_id p = pid \<and>
    permitted (udocs s) (pdocs s) (uid c) pid [RoleOwner, RoleViewer, RoleExecutor, RoleEditor] AcceptedInvitation"
proof -
  have rbac: "RbacValidator db (uid c) pid [RoleOwner, RoleViewer, RoleExecutor, RoleEditor] AcceptedInvitation s = None"
    and p: "FindOne (projects db) (has_id pid) s = Inr p"
    using assms(2,3) by (auto simp: GetProject_def GetProjectByProjectID_def split: if_splits sum.splits)
  from mongo_collection.FindOne_ok [OF auth_db.axioms(2) [OF assms(1)] p]
    auth_db.RbacValidator_sound [OF assms(1) rbac]
  show ?thesis by (simp add: has_id_def)
qed

theorem GetProject_needs_membership_witness:
  "permitted (mem_users sample_state) (mem_projects sample_state) ''u1'' ''p1''
     [RoleOwner, RoleViewer, RoleExecutor, RoleEditor] AcceptedInvitation"
proof -
  have "GetProject mem_db ann ''p1'' sample_state = (200, ProjectBody (hd (st_projects sample_state)))" by code_simp
  from GetProject_needs_membership [OF mem_auth_db this] show ?thesis by (simp add: caller_def RoleAdmin_def)
qed

end
