(* ===== verification/Auth_User_Props.thy ===== *)
theory Auth_User_Props
  imports Auth_Session_Props Auth_Project_Props
begin

text \<open>
  Properties of the user handlers: login, passwords, deactivation and the tokens of the API, over any
  database that satisfies \<^verbatim>\<open>auth_db\<close>.
\<close>

section \<open>When a handler reaches its write\<close>

abbreviation unique_names :: "user multiset \<Rightarrow> bool" where
  "unique_names U \<equiv> unique_by u_username U"

lemma ErrorStatusCodes_not_ok [simp]: "ErrorStatusCodes e \<noteq> 200"
  by (cases e rule: ErrorStatusCodes.cases) simp_all

lemma LoginUser_run:
  assumes "LoginUser db env rq s = (r, s')" and "http_ok r"
  shows "\<exists>n p u salt t. rq = Some (n, p) \<and> FindUserByUsername db (SanitizeString n) s = Inr u \<and>
    u_deactivated_at u = None \<and> bcrypt_matches env (u_password u) p \<and>
    GetConfig db ''salt'' s = Inr salt \<and> GetSignedJWT env 0 u (ac_value salt) = Inr t \<and>
    (\<exists>pid. snd r = login_body env t pid) \<and>
    (s' = s \<or> (\<exists>pid. ensure_project db env 1 u s = (pid, s')))"
  using assms
  by (auto simp: LoginUser_def Let_def CheckPasswordHash_def
      split: option.splits prod.splits sum.splits if_splits)

lemma UpdatePassword_run:
  assumes "UpdatePassword db env c (Some up) s = (r, s')" and "http_ok r"
  shows "\<exists>u s1 pid. FindUserByUsername db (username c) s = Inr u \<and>
    ValidateStrictPassword (up_new up) = None \<and>
    repo_UpdatePassword db env (up\<lparr>up_username := username c\<rparr>) True s = (None, s1) \<and>
    ensure_project db env 0 u s1 = (Some pid, s')"
  using assms
  by (auto simp: UpdatePassword_def split: sum.splits if_splits option.splits prod.splits)

lemma ResetPassword_run:
  assumes "ResetPassword db env c rq s = (r, s')"
  shows "s' = s \<and> \<not> http_ok r \<or>
    (\<exists>up e. rq = Some up \<and> role c = RoleAdmin \<and> CheckInitialLogin db (uid c) s = Inr False \<and>
       ValidateStrictPassword (up_new up) = None \<and> IsAdministrator db (uid c) (username c) s = None \<and>
       repo_UpdatePassword db env up False s = (e, s') \<and> (http_ok r \<longleftrightarrow> e = None))"
  using assms
  by (auto simp: ResetPassword_def split: handler_splits)

lemma UpdateUserState_run:
  assumes "UpdateUserState db env c rq s = (r, s')"
  shows "s' = s \<and> \<not> http_ok r \<or>
    (\<exists>n b e. rq = Some (n, Some b) \<and> role c = RoleAdmin \<and> CheckInitialLogin db (uid c) s = Inr False \<and>
       IsAdministrator db (uid c) (username c) s = None \<and>
       UpdateStateTransaction db env n b s = (e, s') \<and> (http_ok r \<longleftrightarrow> e = None))"
  using assms
  by (auto simp: UpdateUserState_def split: handler_splits)

lemma CreateUser_run:
  assumes "CreateUser db env c rq s = (r, s')" and "http_ok r"
  shows "\<exists>u0 h u. rq = Some u0 \<and> role c = RoleAdmin \<and> (u_role u0 = RoleUser \<or> u_role u0 = RoleAdmin) \<and>
    ValidateStrictUsername (SanitizeString (u_username u0)) = None \<and> bcrypt_generate env (u_password u0) = Inr h \<and>
    u = u0\<lparr>u_username := SanitizeString (u_username u0), u_id := new_uuid env 0, u_is_initial_login := True,
           u_password := h, u_audit := (u_audit u0)\<lparr>CreatedAt := now_ms env 0\<rparr>\<rparr> \<and>
    repo_CreateUser db u s = (Inr (SanitizedUser u), s')"
  using assms
  by (auto simp: CreateUser_def Let_def repo_CreateUser_def
      split: option.splits prod.splits sum.splits if_splits mongo_error.splits)

lemma write_error_None: "write_error x = (None, s') \<longleftrightarrow> (\<exists>n. x = (Inr n, s'))"
  by (cases x) (auto simp: write_error_eq split: sum.splits)

lemma UpdateStateTransaction_run:
  assumes "UpdateStateTransaction db env n b s = (e, s')" and "\<not> (s' = s \<and> e \<noteq> None)"
  shows "\<exists>u s1 s2 x. FindUserByUsername db n s = Inr u \<and> u_role u \<noteq> RoleAdmin \<and> (b \<longrightarrow> u_deactivated_at u = None) \<and>
    repo_UpdateUserState db n b (if b then now_ms env 0 else 0) s = (None, s1) \<and>
    UpdateProjectState db (u_id u) (if b then now_ms env 0 else 0) b s1 = (None, s2) \<and>
    CommitTransaction db s s2 = (x, s') \<and> (e = None \<longleftrightarrow> x = None)"
proof -
  let ?t = "if b then now_ms env 0 else 0"
  note run = assms(1) [unfolded UpdateStateTransaction_def Let_def]
  have ss: "StartSession db s = None" using run assms(2) by (auto split: option.splits)
  obtain u where u: "FindUserByUsername db n s = Inr u"
    using run ss assms(2) by (cases "FindUserByUsername db n s") auto
  have ok: "u_role u \<noteq> RoleAdmin" "b \<longrightarrow> u_deactivated_at u = None"
    using run ss u assms(2) by (auto split: if_splits)
  obtain s1 where s1: "repo_UpdateUserState db n b ?t s = (None, s1)"
    using run ss u ok assms(2)
    by (cases "repo_UpdateUserState db n b ?t s"; cases "fst (repo_UpdateUserState db n b ?t s)") auto
  obtain s2 where s2: "UpdateProjectState db (u_id u) ?t b s1 = (None, s2)"
    using run ss u ok s1 assms(2)
    by (cases "UpdateProjectState db (u_id u) ?t b s1"; cases "fst (UpdateProjectState db (u_id u) ?t b s1)") auto
  obtain x y where x: "CommitTransaction db s s2 = (x, y)" by fastforce
  have "y = s' \<and> (e = None \<longleftrightarrow> x = None)"
    using run ss u ok s1 s2 x by (cases x) auto
  with u ok s1 s2 x show ?thesis by blast
qed

section \<open>Effects\<close>

context auth_db
begin

lemma FindUserByUsername_ok: "FindUserByUsername db n s = Inr u \<Longrightarrow> u \<in># udocs s \<and> u_username u = n"
  by (auto simp: FindUserByUsername_def dest: users.FindOne_ok)

lemma IsAdministrator_ok:
  "IsAdministrator db i n s = None \<Longrightarrow> \<exists>a\<in>#udocs s. u_id a = i \<and> u_username a = n \<and> u_role a = RoleAdmin"
  by (auto simp: IsAdministrator_def split: sum.splits if_splits dest: users.FindOne_ok)

lemma users_update:
  assumes "UpdateOne (users db) P (Some f) s = (r, s')"
  shows "pdocs s' = pdocs s" "rdocs s' = rdocs s" "adocs s' = adocs s" "cdocs s' = cdocs s"
  using users_frame [of P "Some f" s r s' f] assms by blast+

lemma ensure_project_effect:
  assumes "ensure_project db env k u s = (pid, s')"
  shows "udocs s' = udocs s" "rdocs s' = rdocs s" "adocs s' = adocs s" "cdocs s' = cdocs s"
    "pdocs s' = pdocs s \<or> pdocs s' = add_mset (default_project env k u) (pdocs s)"
proof -
  consider "s' = s" | x where "InsertOne (projects db) (default_project env k u) s = (x, s')"
    using assms
    by (auto simp: ensure_project_def repo_CreateProject_def
        split: list.splits prod.splits option.splits mongo_error.splits)
  then have "udocs s' = udocs s \<and> rdocs s' = rdocs s \<and> adocs s' = adocs s \<and> cdocs s' = cdocs s \<and>
      (pdocs s' = pdocs s \<or> pdocs s' = add_mset (default_project env k u) (pdocs s))"
  proof cases
    case (2 x)
    then show ?thesis using projects.InsertOne_cases [OF 2] projects_insert_frame [OF 2] by auto
  qed simp
  then show "udocs s' = udocs s" "rdocs s' = rdocs s" "adocs s' = adocs s" "cdocs s' = cdocs s"
    "pdocs s' = pdocs s \<or> pdocs s' = add_mset (default_project env k u) (pdocs s)" by auto
qed

text \<open>A successful change of a password, with the old one (\<^verbatim>\<open>own\<close>) or without.\<close>

lemma repo_UpdatePassword_ok:
  assumes "repo_UpdatePassword db env up own s = (None, s')" and "unique_names (udocs s)"
  shows "\<exists>u\<in>#udocs s. u_username u = up_username up \<and>
    (own \<longrightarrow> bcrypt_matches env (u_password u) (up_old up) \<and> \<not> bcrypt_matches env (u_password u) (up_new up)) \<and>
    udocs s' = replace_mset u (u\<lparr>u_password := (case bcrypt_generate env (up_new up) of Inl t \<Rightarrow> [] | Inr h \<Rightarrow> h),
        u_is_initial_login := (if own then False else u_is_initial_login u)\<rparr>) (udocs s) \<and>
    pdocs s' = pdocs s \<and> rdocs s' = rdocs s \<and> adocs s' = adocs s \<and> cdocs s' = cdocs s"
proof -
  let ?h = "case bcrypt_generate env (up_new up) of Inl t \<Rightarrow> [] | Inr h \<Rightarrow> h"
  let ?f = "if own then (\<lambda>u. u\<lparr>u_password := ?h, u_is_initial_login := False\<rparr>) else (\<lambda>u. u\<lparr>u_password := ?h\<rparr>)"
  obtain a where a: "FindOne (users db) (\<lambda>u. u_username u = up_username up) s = Inr a"
    and pw: "own \<longrightarrow> bcrypt_matches env (u_password a) (up_old up) \<and> \<not> bcrypt_matches env (u_password a) (up_new up)"
    and w: "match_error ''could not find matching username in database''
      (UpdateOne (users db) (\<lambda>u. u_username u = u_username a) (Some ?f) s) = (None, s')"
    using assms(1) by (auto simp: repo_UpdatePassword_def Let_def split: sum.splits if_splits)
  obtain n where n: "UpdateOne (users db) (\<lambda>u. u_username u = u_username a) (Some ?f) s = (Inr n, s')" "n \<noteq> 0"
    using w by (cases "UpdateOne (users db) (\<lambda>u. u_username u = u_username a) (Some ?f) s")
      (auto simp: match_error_eq split: sum.splits if_splits)
  have aa: "a \<in># udocs s" "u_username a = up_username up" using users.FindOne_ok [OF a] by auto
  obtain d where d: "d \<in># udocs s" "u_username d = u_username a" "udocs s' = replace_mset d (?f d) (udocs s)"
    using users.UpdateOne_ok [OF n(1)] n(2) by (auto simp: updated_one_def)
  have "d = a" using unique_byD [OF assms(2) d(1) aa(1) d(2)] .
  with d aa pw users_update [OF n(1)] show ?thesis
    by (intro bexI [of _ a]) (auto cong: if_cong)
qed

lemma UpdateProjectState_ok:
  assumes "UpdateProjectState db i t b s = (None, s')"
  shows "pdocs s' = updated_all (\<lambda>p. list_ex (owner_entry i) (p_members p)) (\<lambda>p. p\<lparr>p_audit := (p_audit p)\<lparr>IsRemoved := b\<rparr>\<rparr>)
      (updated_all (\<lambda>p. True) (set_member i (\<lambda>m. m\<lparr>m_deactivated_at := Some t\<rparr>)) (pdocs s))"
    "udocs s' = udocs s" "rdocs s' = rdocs s" "adocs s' = adocs s" "cdocs s' = cdocs s"
proof -
  obtain n s1 k where 1: "UpdateMany (projects db) (\<lambda>p. True) (set_member i (\<lambda>m. m\<lparr>m_deactivated_at := Some t\<rparr>)) s = (Inr n, s1)"
    and 2: "UpdateMany (projects db) (\<lambda>p. list_ex (owner_entry i) (p_members p))
            (\<lambda>p. p\<lparr>p_audit := (p_audit p)\<lparr>IsRemoved := b\<rparr>\<rparr>) s1 = (Inr k, s')"
    using assms by (auto simp: UpdateProjectState_def write_error_None split: prod.splits sum.splits)
  show "pdocs s' = updated_all (\<lambda>p. list_ex (owner_entry i) (p_members p)) (\<lambda>p. p\<lparr>p_audit := (p_audit p)\<lparr>IsRemoved := b\<rparr>\<rparr>)
      (updated_all (\<lambda>p. True) (set_member i (\<lambda>m. m\<lparr>m_deactivated_at := Some t\<rparr>)) (pdocs s))"
    using projects.UpdateMany_ok [OF 1] projects.UpdateMany_ok [OF 2] by simp
  show "udocs s' = udocs s" "rdocs s' = rdocs s" "adocs s' = adocs s" "cdocs s' = cdocs s"
    using projects_updates_frame [OF 1] projects_updates_frame [OF 2] by simp_all
qed

text \<open>Both halves of the transaction, or none.\<close>

definition both_updated :: "env \<Rightarrow> string \<Rightarrow> bool \<Rightarrow> 's \<Rightarrow> 's \<Rightarrow> bool" where
  "both_updated env n b s s' \<longleftrightarrow>
    (\<exists>u t. u \<in># udocs s \<and> u_username u = n \<and> u_role u \<noteq> RoleAdmin \<and> (b \<longrightarrow> u_deactivated_at u = None) \<and>
       t = (if b then now_ms env 0 else 0) \<and>
       udocs s' = replace_mset u (u\<lparr>u_deactivated_at := (if b then Some t else None),
                     u_audit := (u_audit u)\<lparr>IsRemoved := b\<rparr>\<rparr>) (udocs s) \<and>
       pdocs s' = updated_all (\<lambda>p. list_ex (owner_entry (u_id u)) (p_members p)) (\<lambda>p. p\<lparr>p_audit := (p_audit p)\<lparr>IsRemoved := b\<rparr>\<rparr>)
          (updated_all (\<lambda>p. True) (set_member (u_id u) (\<lambda>m. m\<lparr>m_deactivated_at := Some t\<rparr>)) (pdocs s)))"

lemma UpdateStateTransaction_atomic:
  assumes "UpdateStateTransaction db env n b s = (e, s')" and "unique_names (udocs s)"
  shows "(e \<noteq> None \<and> s' = s \<or> both_updated env n b s s') \<and> (e = None \<longrightarrow> both_updated env n b s s')"
proof (cases "s' = s \<and> e \<noteq> None")
  case False
  let ?t = "if b then now_ms env 0 else 0"
  obtain u s1 s2 where u: "FindUserByUsername db n s = Inr u" "u_role u \<noteq> RoleAdmin" "b \<longrightarrow> u_deactivated_at u = None"
    and w1: "repo_UpdateUserState db n b ?t s = (None, s1)"
    and w2: "UpdateProjectState db (u_id u) ?t b s1 = (None, s2)" and cm: "s' = s \<or> s' = s2" "e = None \<longrightarrow> s' = s2"
  proof -
    obtain u s1 s2 x where "FindUserByUsername db n s = Inr u" "u_role u \<noteq> RoleAdmin" "b \<longrightarrow> u_deactivated_at u = None"
      "repo_UpdateUserState db n b ?t s = (None, s1)" "UpdateProjectState db (u_id u) ?t b s1 = (None, s2)"
      and x: "CommitTransaction db s s2 = (x, s')" "e = None \<longleftrightarrow> x = None"
      using UpdateStateTransaction_run [OF assms(1) False] by (elim exE conjE) (rule that)
    moreover have "s' = s \<or> s' = s2" "e = None \<longrightarrow> s' = s2"
      using commit_ok [of s s2 s'] commit_err [of s s2 _ s'] x by (cases x; auto)+
    ultimately show ?thesis by (intro that)
  qed
  have uu: "u \<in># udocs s" "u_username u = n" using FindUserByUsername_ok [OF u(1)] by auto
  obtain f k where f: "f = (\<lambda>u. u\<lparr>u_deactivated_at := (if b then Some ?t else None), u_audit := (u_audit u)\<lparr>IsRemoved := b\<rparr>\<rparr>)"
    and upd: "UpdateOne (users db) (\<lambda>u. u_username u = n) (Some f) s = (Inr k, s1)"
    using w1 by (cases b) (auto simp: repo_UpdateUserState_def write_error_None)
  obtain d where "d \<in># udocs s" "u_username d = n" "udocs s1 = replace_mset d (f d) (udocs s)"
    using users.UpdateOne_ok [OF upd] uu by (auto simp: updated_one_def)
  moreover from this have "d = u" using unique_byD [OF assms(2) _ uu(1)] uu(2) by simp
  ultimately have "both_updated env n b s s2"
    using uu u UpdateProjectState_ok [OF w2] users_update [OF upd]
    unfolding both_updated_def f by (intro exI [of _ u]) auto
  with cm False show ?thesis by blast
qed auto

end

section \<open>Properties\<close>

lemma sample_names: "unique_names (mem_users sample_state)"
  unfolding unique_by_mset by code_simp

text \<open>
  C6: Login. A successful login is for a stored, active user whose password hash matches, and its token is
  the server's signature over that user's claims with the stored salt. It changes nothing but, if the
  user owned no project, the addition of a default project the user owns.
\<close>

theorem login_is_authentic:
  assumes "auth_db db udocs pdocs rdocs adocs cdocs" and "LoginUser db env (Some (n, p)) s = (r, s')" and "http_ok r"
  shows "\<exists>u salt t pid. u \<in># udocs s \<and> u_username u = SanitizeString n \<and> u_deactivated_at u = None \<and>
    bcrypt_matches env (u_password u) p \<and> GetConfig db ''salt'' s = Inr salt \<and>
    GetSignedJWT env 0 u (ac_value salt) = Inr t \<and> r = (200, login_body env t pid) \<and>
    udocs s' = udocs s \<and> rdocs s' = rdocs s \<and> adocs s' = adocs s \<and> cdocs s' = cdocs s \<and>
    (pdocs s' = pdocs s \<or> pdocs s' = add_mset (default_project env 1 u) (pdocs s))"
proof -
  obtain u salt t pid where u: "FindUserByUsername db (SanitizeString n) s = Inr u" "u_deactivated_at u = None"
      "bcrypt_matches env (u_password u) p" "GetConfig db ''salt'' s = Inr salt" "GetSignedJWT env 0 u (ac_value salt) = Inr t"
      "snd r = login_body env t pid" and st: "s' = s \<or> (\<exists>pid. ensure_project db env 1 u s = (pid, s'))"
    using LoginUser_run [OF assms(2,3)] by auto
  have "fst r = 200" using assms(3) by (simp add: http_ok_def)
  with u have "r = (200, login_body env t pid)" by (cases r) simp
  moreover have "udocs s' = udocs s \<and> rdocs s' = rdocs s \<and> adocs s' = adocs s \<and> cdocs s' = cdocs s \<and>
    (pdocs s' = pdocs s \<or> pdocs s' = add_mset (default_project env 1 u) (pdocs s))"
    using st auth_db.ensure_project_effect [OF assms(1)] by (metis (no_types))
  moreover have "u \<in># udocs s" "u_username u = SanitizeString n"
    using auth_db.FindUserByUsername_ok [OF assms(1) u(1)] by auto
  ultimately show ?thesis using u(2-5) by blast
qed

theorem login_is_authentic_witness:
  "\<exists>u. u \<in># mem_users sample_state \<and> u_username u = ''ann'' \<and> bcrypt_matches jwt_env (u_password u) ''pw''"
proof -
  have "http_ok (fst (LoginUser mem_db jwt_env (Some ('' ann '', ''pw'')) sample_state))" by code_simp
  from login_is_authentic [OF mem_auth_db surjective_pairing this] obtain u
    where "u \<in># mem_users sample_state" "u_username u = SanitizeString '' ann ''" "bcrypt_matches jwt_env (u_password u) ''pw''"
    by auto
  moreover have "SanitizeString '' ann '' = ''ann''" by code_simp
  ultimately show ?thesis by auto
qed

text \<open>
  A login token opens the guarded routes for the user who logged in: with a token library that reads
  back and verifies what it signs, the middleware passes a request with the token of a successful
  login to the handler with that user's identifier, name and role (as long as the salt is still
  served and the token is not revoked).
\<close>

theorem login_token_admits_user:
  assumes "auth_db db udocs pdocs rdocs adocs cdocs" and "jwt_library env"
    and "LoginUser db env (Some (n, p)) s = ((200, LoginBody b), s')"
    and "GetConfig db ''salt'' s' = GetConfig db ''salt'' s" and "\<not> IsTokenRevoked db (lr_access_token b) s'"
  shows "\<exists>u\<in>#udocs s. u_username u = SanitizeString n \<and> bcrypt_matches env (u_password u) p \<and>
    guarded db env (''Bearer '' @ lr_access_token b) handler s' =
      handler \<lparr>uid = u_id u, username = u_username u, role = u_role u\<rparr> s'"
proof -
  have "http_ok (200, LoginBody b)" by simp
  from LoginUser_run [OF assms(3) this] obtain u salt t pid where
      u: "FindUserByUsername db (SanitizeString n) s = Inr u" "bcrypt_matches env (u_password u) p"
        "GetConfig db ''salt'' s = Inr salt" "GetSignedJWT env 0 u (ac_value salt) = Inr t"
    and b: "LoginBody b = login_body env t pid" by auto
  have t: "lr_access_token b = t" using b by (simp add: login_body_def)
  obtain x where "JwtMiddleware db env (''Bearer '' @ t) s' = Admitted (user_claims u x)"
    using jwt_library.signed_token_admitted [OF assms(2) u(4)] u(3) assms(4,5) t by metis
  then have "guarded db env (''Bearer '' @ t) handler s' = handler \<lparr>uid = u_id u, username = u_username u, role = u_role u\<rparr> s'"
    by (simp add: guarded_def)
  with t u(2) auth_db.FindUserByUsername_ok [OF assms(1) u(1)] show ?thesis by blast
qed

theorem login_token_admits_user_witness:
  "guarded mem_db jwt_env ''Bearer t-ABC'' (\<lambda>c s. ((200, RoleBody (username c)), s)) sample_state
    = ((200, RoleBody ''ann''), sample_state)"
proof -
  let ?b = "\<lparr>lr_access_token = ''t-ABC'', lr_project_id = ''p1'', lr_project_role = RoleOwner, lr_expires_in = 86400\<rparr>"
  have l: "LoginUser mem_db jwt_env (Some (''ann'', ''pw'')) sample_state = ((200, LoginBody ?b), sample_state)" by code_simp
  have nr: "\<not> IsTokenRevoked mem_db (lr_access_token ?b) sample_state" by code_simp
  have n: "SanitizeString ''ann'' = ''ann''" by code_simp
  from login_token_admits_user [OF mem_auth_db jwt_env.jwt_library_axioms l refl nr,
      of "\<lambda>c s. ((200, RoleBody (username c)), s)"] n
  show ?thesis by auto
qed

text \<open>
  Changing the own password. A successful change had the right old password, a new one that differs
  from it and satisfies the policy; the caller's document, and no other, gets the hash of the new
  password and loses the initial-login mark.
\<close>

theorem password_change:
  assumes "auth_db db udocs pdocs rdocs adocs cdocs" and "unique_names (udocs s)"
    and "UpdatePassword db env c (Some up) s = (r, s')" and "http_ok r"
  shows "\<exists>u\<in>#udocs s. u_username u = username c \<and> bcrypt_matches env (u_password u) (up_old up) \<and>
    \<not> bcrypt_matches env (u_password u) (up_new up) \<and> ValidateStrictPassword (up_new up) = None \<and>
    udocs s' = replace_mset u (u\<lparr>u_password := (case bcrypt_generate env (up_new up) of Inl t \<Rightarrow> [] | Inr h \<Rightarrow> h),
      u_is_initial_login := False\<rparr>) (udocs s)"
proof -
  obtain u s1 pid where v: "ValidateStrictPassword (up_new up) = None"
    and w: "repo_UpdatePassword db env (up\<lparr>up_username := username c\<rparr>) True s = (None, s1)"
    and ep: "ensure_project db env 0 u s1 = (Some pid, s')"
    using UpdatePassword_run [OF assms(3,4)] by blast
  from auth_db.repo_UpdatePassword_ok [OF assms(1) w assms(2)] auth_db.ensure_project_effect(1) [OF assms(1) ep] v
  show ?thesis by auto
qed

theorem password_change_witness:
  "\<exists>u. u \<in># mem_users sample_state \<and> u_username u = ''ann'' \<and>
     mem_users (snd (UpdatePassword mem_db sample_env ann (Some \<lparr>up_username = [], up_old = ''pw'', up_new = ''Abcdef1!''\<rparr>) sample_state))
       = replace_mset u (u\<lparr>u_password := ''h-Abcdef1!'', u_is_initial_login := False\<rparr>) (mem_users sample_state)"
proof -
  let ?up = "\<lparr>up_username = [], up_old = ''pw'', up_new = ''Abcdef1!''\<rparr>"
  have "http_ok (fst (UpdatePassword mem_db sample_env ann (Some ?up) sample_state))" by code_simp
  from password_change [OF mem_auth_db sample_names surjective_pairing this] show ?thesis
    by (auto simp: caller_def sample_env_def)
qed

text \<open>
  Resetting a password is the administrator's: when \<^verbatim>\<open>ResetPassword\<close> answers with success the caller's
  token and stored document both have the administrator role, the caller is past the initial login,
  and exactly the named user gets the hash of a password that satisfies the policy. Everything else is
  unchanged.
\<close>

theorem password_reset:
  assumes "auth_db db udocs pdocs rdocs adocs cdocs" and "unique_names (udocs s)"
    and "ResetPassword db env c (Some up) s = (r, s')" and "http_ok r"
  shows "role c = RoleAdmin \<and> (\<exists>a\<in>#udocs s. u_id a = uid c \<and> u_username a = username c \<and> u_role a = RoleAdmin) \<and>
    \<not> must_change_password (udocs s) (uid c) \<and> ValidateStrictPassword (up_new up) = None \<and>
    (\<exists>u\<in>#udocs s. u_username u = up_username up \<and>
       udocs s' = replace_mset u (u\<lparr>u_password := (case bcrypt_generate env (up_new up) of Inl t \<Rightarrow> [] | Inr h \<Rightarrow> h)\<rparr>) (udocs s)) \<and>
    pdocs s' = pdocs s \<and> rdocs s' = rdocs s \<and> adocs s' = adocs s \<and> cdocs s' = cdocs s"
proof -
  have run: "role c = RoleAdmin" "CheckInitialLogin db (uid c) s = Inr False" "ValidateStrictPassword (up_new up) = None"
    "IsAdministrator db (uid c) (username c) s = None" "repo_UpdatePassword db env up False s = (None, s')"
    using ResetPassword_run [OF assms(3)] assms(4) by auto
  from auth_db.repo_UpdatePassword_ok [OF assms(1) run(5) assms(2)] obtain u where
      "u \<in># udocs s" "u_username u = up_username up"
      "udocs s' = replace_mset u (u\<lparr>u_password := (case bcrypt_generate env (up_new up) of Inl t \<Rightarrow> [] | Inr h \<Rightarrow> h)\<rparr>) (udocs s)"
      "pdocs s' = pdocs s" "rdocs s' = rdocs s" "adocs s' = adocs s" "cdocs s' = cdocs s"
    by auto
  then show ?thesis
    using run auth_db.IsAdministrator_ok [OF assms(1) run(4)] auth_db.CheckInitialLogin_False [OF assms(1) run(2)]
    by blast
qed

definition admin_state :: mem_state where
  "admin_state = sample_state\<lparr>st_users := (sample_user ''u0'' ''root'')\<lparr>u_role := RoleAdmin\<rparr> # st_users sample_state\<rparr>"

abbreviation root :: ctx where "root \<equiv> caller ''u0'' ''root'' ''admin''"

lemma admin_names: "unique_names (mem_users admin_state)"
  unfolding unique_by_mset by code_simp

theorem password_reset_witness:
  "\<exists>u. u \<in># mem_users admin_state \<and> u_username u = ''bob'' \<and>
     mem_users (snd (ResetPassword mem_db sample_env root (Some \<lparr>up_username = ''bob'', up_old = [], up_new = ''Abcdef1!''\<rparr>) admin_state))
       = replace_mset u (u\<lparr>u_password := ''h-Abcdef1!''\<rparr>) (mem_users admin_state)"
proof -
  let ?up = "\<lparr>up_username = ''bob'', up_old = [], up_new = ''Abcdef1!''\<rparr>"
  have "http_ok (fst (ResetPassword mem_db sample_env root (Some ?up) admin_state))" by code_simp
  from password_reset [OF mem_auth_db admin_names surjective_pairing this] show ?thesis
    by (auto simp: caller_def sample_env_def)
qed

text \<open>
  C8: Deactivation is atomic. A request to deactivate or reactivate a user either changes nothing and is
  not answered with success, or does all of it: the caller is an administrator, the named user is not
  one, and the user document, the user's entries in all projects and the removed mark of the projects
  with the user as an owner are updated together.
\<close>

theorem deactivation_atomic:
  assumes "auth_db db udocs pdocs rdocs adocs cdocs" and "unique_names (udocs s)"
    and "UpdateUserState db env c (Some (n, Some b)) s = (r, s')"
  shows "s' = s \<and> \<not> http_ok r \<or>
    role c = RoleAdmin \<and> (\<exists>a\<in>#udocs s. u_id a = uid c \<and> u_username a = username c \<and> u_role a = RoleAdmin) \<and>
    (\<exists>u t. u \<in># udocs s \<and> u_username u = n \<and> u_role u \<noteq> RoleAdmin \<and> (b \<longrightarrow> u_deactivated_at u = None) \<and>
       t = (if b then now_ms env 0 else 0) \<and>
       udocs s' = replace_mset u (u\<lparr>u_deactivated_at := (if b then Some t else None),
                     u_audit := (u_audit u)\<lparr>IsRemoved := b\<rparr>\<rparr>) (udocs s) \<and>
       pdocs s' = updated_all (\<lambda>p. list_ex (owner_entry (u_id u)) (p_members p)) (\<lambda>p. p\<lparr>p_audit := (p_audit p)\<lparr>IsRemoved := b\<rparr>\<rparr>)
          (updated_all (\<lambda>p. True) (set_member (u_id u) (\<lambda>m. m\<lparr>m_deactivated_at := Some t\<rparr>)) (pdocs s)))"
proof (cases "s' = s \<and> \<not> http_ok r")
  case False
  obtain e where run: "role c = RoleAdmin" "IsAdministrator db (uid c) (username c) s = None"
      "UpdateStateTransaction db env n b s = (e, s')" "http_ok r \<longrightarrow> e = None"
    using UpdateUserState_run [OF assms(3)] False by auto
  have "auth_db.both_updated udocs pdocs env n b s s'"
    using auth_db.UpdateStateTransaction_atomic [OF assms(1) run(3) assms(2)] run(4) False by blast
  then show ?thesis
    using run(1) auth_db.IsAdministrator_ok [OF assms(1) run(2)]
    unfolding auth_db.both_updated_def [OF assms(1)] by blast
qed simp

theorem deactivation_atomic_witness:
  "let s' = snd (UpdateUserState mem_db sample_env root (Some (''bob'', Some True)) admin_state) in
   \<exists>u. u \<in># mem_users admin_state \<and> u_username u = ''bob'' \<and>
     mem_users s' = replace_mset u (u\<lparr>u_deactivated_at := Some 1000, u_audit := (u_audit u)\<lparr>IsRemoved := True\<rparr>\<rparr>) (mem_users admin_state)"
proof -
  have "http_ok (fst (UpdateUserState mem_db sample_env root (Some (''bob'', Some True)) admin_state))" by code_simp
  with deactivation_atomic [OF mem_auth_db admin_names surjective_pairing,
      of sample_env root "''bob''" True]
  show ?thesis by (auto simp: Let_def sample_env_def)
qed

text \<open>
  A deactivated user cannot log in. After a successful deactivation, no login with that user name
  succeeds, whatever the password.
\<close>

theorem deactivated_cannot_login:
  assumes "auth_db db udocs pdocs rdocs adocs cdocs" and "unique_names (udocs s)"
    and "UpdateUserState db env c (Some (n, Some True)) s = (r, s')" and "http_ok r"
    and "SanitizeString n' = n"
  shows "\<not> http_ok (fst (LoginUser db env' (Some (n', p)) s'))"
proof
  assume ok: "http_ok (fst (LoginUser db env' (Some (n', p)) s'))"
  obtain e where "UpdateStateTransaction db env n True s = (e, s')" "e = None"
    using UpdateUserState_run [OF assms(3)] assms(4) by auto
  then obtain u t where u: "u \<in># udocs s" "u_username u = n"
      "udocs s' = replace_mset u (u\<lparr>u_deactivated_at := Some t, u_audit := (u_audit u)\<lparr>IsRemoved := True\<rparr>\<rparr>) (udocs s)"
    using auth_db.UpdateStateTransaction_atomic [OF assms(1) _ assms(2)]
    unfolding auth_db.both_updated_def [OF assms(1)] by fastforce
  obtain v where v: "FindUserByUsername db n s' = Inr v" "u_deactivated_at v = None"
    using LoginUser_run [OF surjective_pairing ok] assms(5) by auto
  have "v = u\<lparr>u_deactivated_at := Some t, u_audit := (u_audit u)\<lparr>IsRemoved := True\<rparr>\<rparr>"
    using unique_by_replaced [OF assms(2) u(1)] auth_db.FindUserByUsername_ok [OF assms(1) v(1)] u(2,3) by simp
  with v(2) show False by simp
qed

theorem deactivated_cannot_login_witness:
  "\<not> http_ok (fst (LoginUser mem_db sample_env (Some (''bob'', ''pw''))
      (snd (UpdateUserState mem_db sample_env root (Some (''bob'', Some True)) admin_state))))"
proof -
  have ok: "http_ok (fst (UpdateUserState mem_db sample_env root (Some (''bob'', Some True)) admin_state))" by code_simp
  have "SanitizeString ''bob'' = ''bob''" by code_simp
  from deactivated_cannot_login [OF mem_auth_db admin_names surjective_pairing ok this] show ?thesis .
qed

text \<open>
  Only administrators create users. A successful \<^verbatim>\<open>CreateUser\<close> adds exactly one document, with a
  user name and identifier no stored user has, a trimmed name that satisfies the policy, one of the two
  roles, the hash of the given password and the initial-login mark; the answer does not show the hash.
\<close>

theorem CreateUser_creates:
  assumes "auth_db db udocs pdocs rdocs adocs cdocs" and "CreateUser db env c (Some u0) s = (r, s')" and "http_ok r"
  shows "role c = RoleAdmin \<and> (\<exists>u. udocs s' = add_mset u (udocs s) \<and> u_username u = SanitizeString (u_username u0) \<and>
    ValidateStrictUsername (u_username u) = None \<and> (u_role u = RoleUser \<or> u_role u = RoleAdmin) \<and>
    bcrypt_generate env (u_password u0) = Inr (u_password u) \<and> u_is_initial_login u \<and>
    (\<forall>v\<in>#udocs s. u_id v \<noteq> u_id u \<and> u_username v \<noteq> u_username u) \<and> snd r = UserBody (u\<lparr>u_password := []\<rparr>)) \<and>
    pdocs s' = pdocs s \<and> rdocs s' = rdocs s \<and> adocs s' = adocs s \<and> cdocs s' = cdocs s"
proof -
  obtain h u where run: "role c = RoleAdmin" "u_role u0 = RoleUser \<or> u_role u0 = RoleAdmin"
    "ValidateStrictUsername (SanitizeString (u_username u0)) = None" "bcrypt_generate env (u_password u0) = Inr h"
    and u: "u = u0\<lparr>u_username := SanitizeString (u_username u0), u_id := new_uuid env 0, u_is_initial_login := True,
           u_password := h, u_audit := (u_audit u0)\<lparr>CreatedAt := now_ms env 0\<rparr>\<rparr>"
    and w: "repo_CreateUser db u s = (Inr (SanitizedUser u), s')"
    using CreateUser_run [OF assms(2,3)] by auto
  have ins: "InsertOne (users db) u s = (None, s')"
    using w by (auto simp: repo_CreateUser_def split: prod.splits option.splits mongo_error.splits)
  have "snd r = UserBody (u\<lparr>u_password := []\<rparr>)"
    using assms(2,3) run w
    by (auto simp: CreateUser_def Let_def u SanitizedUser_def split: if_splits)
  moreover have "udocs s' = add_mset u (udocs s)" "\<forall>v\<in>#udocs s. \<not> user_conflict v u"
    using mongo_collection.InsertOne_ok [OF auth_db.axioms(1) [OF assms(1)] ins] by auto
  ultimately show ?thesis
    using run auth_db.users_insert_frame [OF assms(1) ins]
    by (intro conjI exI [of _ u]) (auto simp: u user_conflict_def)
qed

theorem CreateUser_creates_witness:
  "\<exists>u. mem_users (snd (CreateUser mem_db sample_env root (Some ((sample_user [] '' dan ''))) admin_state))
     = add_mset u (mem_users admin_state) \<and> u_username u = ''dan''"
proof -
  have ok: "http_ok (fst (CreateUser mem_db sample_env root (Some ((sample_user [] '' dan ''))) admin_state))" by code_simp
  have "SanitizeString (u_username (sample_user [] '' dan '')) = ''dan''" by code_simp
  with CreateUser_creates [OF mem_auth_db surjective_pairing ok] show ?thesis by auto
qed

text \<open>
  Deleting an API token does not check whose it is: Bob deletes and revokes Ann's token by sending his
  own user identifier with it.
\<close>

theorem delete_foreign_token:
  "let s = sample_state\<lparr>st_tokens := [\<lparr>at_user_id = ''u1'', at_name = ''ci'', at_token = ''t-ABC'', at_expires_at = 0, at_created_at = 0\<rparr>]\<rparr>;
       (r, s') = DeleteApiToken mem_db jwt_env bob (Some (''t-ABC'', ''u2'')) s
   in r = (200, MessageBody ''api token deleted successfully'') \<and> st_tokens s' = [] \<and>
      map rt_token (st_revoked s') = [''t-ABC'']"
  by code_simp

definition oauth_state :: mem_state where
  "oauth_state = sample_state\<lparr>st_users := [(sample_user ''u1'' ''ann'')\<lparr>u_deactivated_at := Some 5\<rparr>]\<rparr>"

text \<open>
  The OAuth callback does not look at deactivation: a user who was deactivated and cannot log in with a
  password is redirected with a fresh token.
\<close>

theorem oauth_ignores_deactivation:
  "fst (OAuthCallback mem_db sample_env True (Some \<lparr>oc_name = ''Ann'', oc_email = ''ann'', oc_verified = True\<rparr>) oauth_state)
     = (308, RedirectTo ''/login?jwtToken=t-ABC&projectID=p1&projectRole=Owner'') \<and>
   fst (LoginUser mem_db sample_env (Some (''ann'', ''pw'')) oauth_state) = fails ErrInvalidCredentials"
  by (intro conjI) code_simp+

end
