(* ===== verification/Subscriber_Events.thy ===== *)
theory Subscriber_Events
  imports Go_Strings Go_Base64
begin

text \<open>
  The event pipeline of the subscriber (\<^verbatim>\<open>subscriber/pkg/events\<close>): the informer callbacks turn
  Argo workflows and chaos engines into \<^verbatim>\<open>WorkflowEvent\<close> values on a channel, and
  \<^verbatim>\<open>SendWorkflowUpdates\<close> merges each with the last event of the same run, kept in the package
  variable \<^verbatim>\<open>eventMap\<close>, computes the status of the experiment and posts it to the GraphQL server.

  The cluster, the pod logs, the YAML decoder, the JSON encoder, the HTTP client and the string
  constants of the Argo and chaos-operator packages are fields of the record \<^verbatim>\<open>sub_env\<close>. A time is a
  number of milliseconds since the epoch; the zero time is negative. A nil slice and an empty slice
  are both \<^verbatim>\<open>[]\<close>; a nil map is \<^verbatim>\<open>None\<close>, because writing to it panics.
\<close>

section \<open>Data\<close>

text \<open>The parts of the chaos-operator and Argo types that the code reads.\<close>

record chaos_result =
  cr_Annotations :: "(string \<times> string) list"
  cr_ProbeSuccessPercentage :: string
  cr_ErrorOutput :: "(string \<times> string) option"
  cr_Phase :: string

record experiment_status =
  ex_Name :: string
  ex_Runner :: string
  ex_ExpPod :: string
  ex_Verdict :: string
  ex_LastUpdateTime :: int

record chaos_engine =
  ce_Name :: string
  ce_Namespace :: string
  ce_UID :: string
  ce_Labels :: "string \<rightharpoonup> string"
  ce_CreationTimestamp :: int
  ce_EngineStatus :: string
  ce_Experiments :: "experiment_status list"

text \<open>An artifact of the inputs is given by the data of its raw source, if it has one.\<close>

record node_status =
  ns_ID :: string
  ns_DisplayName :: string
  ns_Type :: string
  ns_Phase :: string
  ns_Message :: string
  ns_StartedAt :: int
  ns_FinishedAt :: int
  ns_Children :: "string list"
  ns_Inputs :: "string option list option"

record workflow =
  wf_Name :: string
  wf_Namespace :: string
  wf_UID :: string
  wf_Labels :: "string \<rightharpoonup> string"
  wf_CreationTimestamp :: int
  wf_Parameters :: "(string \<times> string) list"
  wf_Phase :: string
  wf_Message :: string
  wf_StartedAt :: int
  wf_FinishedAt :: int
  wf_Nodes :: "(string \<times> node_status) list"
  wf_Shutdown :: bool

text \<open>The types of \<^verbatim>\<open>pkg/types/event.go\<close>.\<close>

record chaos_data =
  cd_EngineUID :: string
  cd_EngineContext :: string
  cd_EngineName :: string
  cd_Namespace :: string
  cd_ExperimentName :: string
  cd_ExperimentStatus :: string
  cd_LastUpdatedAt :: string
  cd_ExperimentVerdict :: string
  cd_ExperimentPod :: string
  cd_RunnerPod :: string
  cd_ProbeSuccessPercentage :: string
  cd_FailStep :: string
  cd_ChaosResult :: "chaos_result option"

record node =
  nd_Name :: string
  nd_Phase :: string
  nd_Message :: string
  nd_StartedAt :: string
  nd_FinishedAt :: string
  nd_Children :: "string list"
  nd_Type :: string
  nd_ChaosExp :: "chaos_data option"

type_synonym node_map = "(string \<times> node) list"

record workflow_event =
  we_WorkflowType :: string
  we_RevisionID :: string
  we_NotifyID :: "string option"
  we_WorkflowID :: string
  we_EventType :: string
  we_UID :: string
  we_Namespace :: string
  we_Name :: string
  we_CreationTimestamp :: string
  we_Phase :: string
  we_Message :: string
  we_StartedAt :: string
  we_FinishedAt :: string
  we_Nodes :: "node_map option"
  we_UpdatedBy :: string

definition zero_node :: node where
  "zero_node = \<lparr>nd_Name = '''', nd_Phase = '''', nd_Message = '''', nd_StartedAt = '''', nd_FinishedAt = '''',
     nd_Children = [], nd_Type = '''', nd_ChaosExp = None\<rparr>"

definition zero_event :: workflow_event where
  "zero_event = \<lparr>we_WorkflowType = '''', we_RevisionID = '''', we_NotifyID = None, we_WorkflowID = '''',
     we_EventType = '''', we_UID = '''', we_Namespace = '''', we_Name = '''', we_CreationTimestamp = '''',
     we_Phase = '''', we_Message = '''', we_StartedAt = '''', we_FinishedAt = '''', we_Nodes = None,
     we_UpdatedBy = ''''\<rparr>"

text \<open>The decoded manifest of an artifact.\<close>

record manifest =
  mf_Kind :: string
  mf_Name :: string
  mf_GenerateName :: string
  mf_Namespace :: string

record sub_env =
  GetKubeConfig :: "string option"
  NewChaosClient :: "string option"
  GetChaosEngine :: "string \<Rightarrow> string \<Rightarrow> string + chaos_engine"
  GetChaosResult :: "string \<Rightarrow> string \<Rightarrow> string + chaos_result"
  GetLogs :: "string \<Rightarrow> string \<Rightarrow> string \<Rightarrow> string + string"
  DecodeManifest :: "string \<Rightarrow> manifest option"
  Now :: int
  MarshalEvent :: "workflow_event \<Rightarrow> string + string"
  SendRequest :: "string \<Rightarrow> string \<Rightarrow> string + string"
  EngineStatusInitialized :: string
  EngineStatusCompleted :: string
  EngineStatusStopped :: string
  WorkflowRunning :: string
  WorkflowSucceeded :: string
  WorkflowFailed :: string
  WorkflowPending :: string
  WorkflowError :: string

text \<open>How a callback ends without returning: a panic, or \<^verbatim>\<open>logrus.Fatal\<close>, which exits.\<close>

datatype abort = Panicked go_panic | Exited string

definition unix :: "int \<Rightarrow> int" where
  "unix ms = ms div 1000"

definition label :: "(string \<rightharpoonup> string) \<Rightarrow> string \<Rightarrow> string" where
  "label m k = (case m k of None \<Rightarrow> '''' | Some v \<Rightarrow> v)"

section \<open>Extracting chaos data\<close>

definition StrConvTime :: "int \<Rightarrow> string" where
  "StrConvTime t = (if t < 0 then '''' else itoa t)"

definition resolveEngineNamespace :: "string \<Rightarrow> string \<Rightarrow> string" where
  "resolveEngineNamespace manifestNS fallbackNS =
     (let engineNS = trimSpace manifestNS
      in if engineNS = '''' \<or> contains engineNS ''{{'' then fallbackNS else engineNS)"

fun getAdminModeNamespace :: "(string \<times> string) list \<Rightarrow> string \<Rightarrow> string" where
  "getAdminModeNamespace [] fallbackNS = fallbackNS"
| "getAdminModeNamespace ((n, v) # ps) fallbackNS =
     (if n = ''adminModeNamespace'' then
        (let val = trimSpace v in if val \<noteq> '''' \<and> \<not> contains val ''{{'' then val else fallbackNS)
      else getAdminModeNamespace ps fallbackNS)"

definition word_char :: "char \<Rightarrow> bool" where
  "word_char c = (let n = (of_char c :: nat) in
     (48 \<le> n \<and> n \<le> 57) \<or> (65 \<le> n \<and> n \<le> 90) \<or> (97 \<le> n \<and> n \<le> 122) \<or> c = CHR ''_'' \<or> c = CHR ''-'')"

text \<open>The leftmost match of \<^verbatim>\<open>ChaosEngine Name : ([\w-]+)\<close>, its group; empty when there is none.\<close>

fun getNameFromLog :: "string \<Rightarrow> string" where
  "getNameFromLog [] = ''''"
| "getNameFromLog (c # cs) =
     (let name = takeWhile word_char (drop 19 (c # cs))
      in if prefix ''ChaosEngine Name : '' (c # cs) \<and> name \<noteq> '''' then name else getNameFromLog cs)"

definition new_chaos_data :: "string \<Rightarrow> string \<Rightarrow> chaos_data" where
  "new_chaos_data engineName engineNS =
     \<lparr>cd_EngineUID = '''', cd_EngineContext = '''', cd_EngineName = engineName, cd_Namespace = engineNS,
      cd_ExperimentName = '''', cd_ExperimentStatus = '''', cd_LastUpdatedAt = '''', cd_ExperimentVerdict = '''',
      cd_ExperimentPod = '''', cd_RunnerPod = '''', cd_ProbeSuccessPercentage = '''', cd_FailStep = '''',
      cd_ChaosResult = None\<rparr>"

definition getChaosData ::
  "sub_env \<Rightarrow> int \<Rightarrow> string \<Rightarrow> string \<Rightarrow> chaos_data option \<times> string option" where
  "getChaosData env startedAt engineName engineNS =
     (case GetChaosEngine env engineNS engineName of
        Inl err \<Rightarrow> (None, Some err)
      | Inr crd \<Rightarrow>
          if unix startedAt > unix (ce_CreationTimestamp crd) then (None, None)
          else
            let status = ce_EngineStatus crd;
                stopped = toLower status = ''stopped'';
                cd = (new_chaos_data engineName engineNS)\<lparr>cd_ProbeSuccessPercentage := ''0'', cd_FailStep := '''',
                       cd_EngineUID := ce_UID crd, cd_EngineContext := label (ce_Labels crd) ''context''\<rparr>;
                cd = (if stopped then cd\<lparr>cd_ExperimentVerdict := ''Fail'', cd_ExperimentStatus := status\<rparr> else cd)
            in case ce_Experiments crd of
                 [] \<Rightarrow> (Some cd, None)
               | ex # rest \<Rightarrow>
                   let cd = cd\<lparr>cd_ExperimentPod := ex_ExpPod ex, cd_RunnerPod := ex_Runner ex,
                              cd_ExperimentStatus := status, cd_ExperimentName := ex_Name ex,
                              cd_LastUpdatedAt := itoa (unix (ex_LastUpdateTime ex)),
                              cd_ExperimentVerdict := ex_Verdict ex\<rparr>;
                       cd = (if stopped \<or> toLower status = ''completed'' \<and> toLower (ex_Verdict ex) \<noteq> ''pass''
                             then cd\<lparr>cd_ExperimentVerdict := ''Fail'', cd_ExperimentStatus := status\<rparr> else cd)
                   in if rest \<noteq> [] then (Some cd, None)
                      else case GetChaosResult env engineNS (ce_Name crd @ ''-'' @ ex_Name ex) of
                        Inl err \<Rightarrow> (Some cd, Some err)
                      | Inr expRes \<Rightarrow>
                          let cd = cd\<lparr>cd_ChaosResult := Some (expRes\<lparr>cr_Annotations := []\<rparr>),
                                     cd_ProbeSuccessPercentage := cr_ProbeSuccessPercentage expRes\<rparr>;
                              cd = (case cr_ErrorOutput expRes of
                                      None \<Rightarrow> cd
                                    | Some (code, reason) \<Rightarrow> cd\<lparr>cd_FailStep := code @ '' : '' @ reason\<rparr>)
                          in (Some (cd\<lparr>cd_ExperimentStatus := cr_Phase expRes\<rparr>), None))"

definition CheckChaosData ::
  "sub_env \<Rightarrow> node_status \<Rightarrow> string \<Rightarrow> string \<Rightarrow> (string \<times> chaos_data option \<times> string option) go" where
  "CheckChaosData env nodeStatus workflowNS chaosEngineNS =
     (case ns_Inputs nodeStatus of
        None \<Rightarrow> Inl NilDereference
      | Some [] \<Rightarrow> Inl IndexOutOfRange
      | Some (None # _) \<Rightarrow> Inl NilDereference
      | Some (Some data # _) \<Rightarrow> Inr
          (case DecodeManifest env data of
             None \<Rightarrow> (ns_Type nodeStatus, None, None)
           | Some obj \<Rightarrow>
               if mf_Kind obj \<noteq> ''ChaosEngine'' then (ns_Type nodeStatus, None, None)
               else if ns_Phase nodeStatus = ''Pending'' then (''ChaosEngine'', None, None)
               else
                 let engineNS = resolveEngineNamespace (mf_Namespace obj) chaosEngineNS
                 in if mf_GenerateName obj = '''' then
                      (''ChaosEngine'', getChaosData env (ns_StartedAt nodeStatus) (mf_Name obj) engineNS)
                    else case GetLogs env (ns_ID nodeStatus) workflowNS ''main'' of
                      Inl err \<Rightarrow> (''ChaosEngine'', None, Some err)
                    | Inr log \<Rightarrow>
                        if getNameFromLog log = '''' then
                          (''ChaosEngine'', None, Some ''Chaos-Engine Generated Name couldn't be retrieved'')
                        else (''ChaosEngine'', getChaosData env (ns_StartedAt nodeStatus) (getNameFromLog log) engineNS)))"

section \<open>Workflow events\<close>

definition updateWorkflowStatus :: "sub_env \<Rightarrow> string \<Rightarrow> string" where
  "updateWorkflowStatus env status =
     (if status = WorkflowRunning env then ''Running''
      else if status = WorkflowSucceeded env then ''Completed''
      else if status = WorkflowFailed env then ''Completed''
      else if status = WorkflowPending env then ''Pending''
      else if status = WorkflowError env then ''Error''
      else ''Pending'')"

text \<open>The body of the loop over the nodes of the workflow: the entry for one node.\<close>

definition node_details ::
  "sub_env \<Rightarrow> workflow option \<Rightarrow> workflow \<Rightarrow> string \<Rightarrow> string \<Rightarrow> node_status \<Rightarrow> node go" where
  "node_details env oldObj workflowObj adminModeNS i ns =
     (case (if ns_Type ns = ''Pod'' \<and>
               (case ns_Inputs ns of Some [Some _] \<Rightarrow> True | _ \<Rightarrow> False)
            then CheckChaosData env ns (wf_Namespace workflowObj) adminModeNS
            else Inr (ns_Type ns, None, None)) of
        Inl p \<Rightarrow> Inl p
      | Inr (nodeType, cd, err) \<Rightarrow>
          let details = \<lparr>nd_Name = ns_DisplayName ns, nd_Phase = ns_Phase ns, nd_Message = ns_Message ns,
                         nd_StartedAt = StrConvTime (unix (ns_StartedAt ns)),
                         nd_FinishedAt = StrConvTime (unix (ns_FinishedAt ns)),
                         nd_Children = ns_Children ns, nd_Type = nodeType, nd_ChaosExp = cd\<rparr>
          in Inr
            (if nodeType \<noteq> ''ChaosEngine'' then details
             else case cd of
               None \<Rightarrow> details
             | Some c \<Rightarrow>
                 (case oldObj of
                    None \<Rightarrow> details\<lparr>nd_Phase := cd_ExperimentStatus c\<rparr>
                  | Some old \<Rightarrow>
                      (case map_of (wf_Nodes old) i of
                         None \<Rightarrow> details\<lparr>nd_Phase := cd_ExperimentStatus c\<rparr>
                       | Some oldNode \<Rightarrow>
                           if ns_Phase oldNode = ''Pending'' \<and> ns_Phase ns = ''Running''
                           then details\<lparr>nd_Phase := ''Running''\<rparr>
                           else details\<lparr>nd_Phase := cd_ExperimentStatus c\<rparr>))))"

fun collect_nodes ::
  "sub_env \<Rightarrow> workflow option \<Rightarrow> workflow \<Rightarrow> string \<Rightarrow> (string \<times> node_status) list \<Rightarrow> node_map \<Rightarrow> node_map go" where
  "collect_nodes env oldObj workflowObj adminModeNS [] nodes = Inr nodes"
| "collect_nodes env oldObj workflowObj adminModeNS ((i, ns) # rest) nodes =
     (case node_details env oldObj workflowObj adminModeNS i ns of
        Inl p \<Rightarrow> Inl p
      | Inr details \<Rightarrow> collect_nodes env oldObj workflowObj adminModeNS rest (AList.update (ns_ID ns) details nodes))"

definition node_at :: "node_map \<Rightarrow> string \<Rightarrow> node" where
  "node_at nodes k = (case map_of nodes k of None \<Rightarrow> zero_node | Some n \<Rightarrow> n)"

definition WorkflowEventHandler ::
  "sub_env \<Rightarrow> workflow option \<Rightarrow> workflow \<Rightarrow> string \<Rightarrow> int \<Rightarrow> abort + (workflow_event \<times> string option)" where
  "WorkflowEventHandler env oldObj workflowObj eventType startTime =
     (if label (wf_Labels workflowObj) ''workflow_id'' = '''' then Inr (zero_event, None)
      else if wf_CreationTimestamp workflowObj < startTime then
        Inr (zero_event, Some ''startTime of subscriber is greater than experiment creation timestamp'')
      else case GetKubeConfig env of
        Some err \<Rightarrow> Inl (Exited err)
      | None \<Rightarrow> (case NewChaosClient env of
          Some err \<Rightarrow> Inr (zero_event, Some (''could not get Chaos ClientSet: '' @ err))
        | None \<Rightarrow>
            (case collect_nodes env oldObj workflowObj (getAdminModeNamespace (wf_Parameters workflowObj) (wf_Namespace workflowObj)) (wf_Nodes workflowObj) [] of
               Inl p \<Rightarrow> Inl (Panicked p)
             | Inr nodes \<Rightarrow>
                 let finishedTime = (if wf_Shutdown workflowObj then StrConvTime (unix (Now env))
                                     else StrConvTime (unix (wf_FinishedAt workflowObj)));
                     status = (if wf_Shutdown workflowObj then ''Stopped'' else updateWorkflowStatus env (wf_Phase workflowObj));
                     nodes' = (if wf_Shutdown workflowObj then
                                 AList.update (wf_Name workflowObj)
                                   \<lparr>nd_Name = wf_Name workflowObj, nd_Phase = ''Stopped'', nd_Message = '''',
                                    nd_StartedAt = StrConvTime (unix (wf_CreationTimestamp workflowObj)),
                                    nd_FinishedAt = finishedTime,
                                    nd_Children = nd_Children (node_at nodes (wf_Name workflowObj)),
                                    nd_Type = nd_Type (node_at nodes (wf_Name workflowObj)), nd_ChaosExp = None\<rparr> nodes
                               else nodes)
                 in Inr (\<lparr>we_WorkflowType = ''events'', we_RevisionID = label (wf_Labels workflowObj) ''revision_id'',
                          we_NotifyID = wf_Labels workflowObj ''notify_id'', we_WorkflowID = label (wf_Labels workflowObj) ''workflow_id'',
                          we_EventType = eventType, we_UID = wf_UID workflowObj, we_Namespace = wf_Namespace workflowObj,
                          we_Name = wf_Name workflowObj,
                          we_CreationTimestamp = StrConvTime (unix (wf_CreationTimestamp workflowObj)),
                          we_Phase = status, we_Message = wf_Message workflowObj,
                          we_StartedAt = StrConvTime (unix (wf_StartedAt workflowObj)), we_FinishedAt = finishedTime,
                          we_Nodes = Some nodes', we_UpdatedBy = label (wf_Labels workflowObj) ''updated_by''\<rparr>, None))))"

section \<open>Events of stand-alone chaos engines\<close>

definition mapStatus :: "sub_env \<Rightarrow> string \<Rightarrow> string" where
  "mapStatus env status =
     (if status = EngineStatusInitialized env then ''Running''
      else if status = EngineStatusCompleted env then ''Succeeded''
      else if status = EngineStatusStopped env then ''Stopped''
      else ''Running'')"

text \<open>\<^verbatim>\<open>Inr None\<close>: the engine is ignored and nothing is streamed.\<close>

definition chaosEventHandler ::
  "sub_env \<Rightarrow> chaos_engine \<Rightarrow> string \<Rightarrow> int \<Rightarrow> abort + workflow_event option" where
  "chaosEventHandler env ce eventType startTime =
     (if label (ce_Labels ce) ''workflow_id'' = '''' then Inr None
      else if ce_CreationTimestamp ce < startTime then Inr None
      else case GetKubeConfig env of
        Some err \<Rightarrow> Inl (Exited err)
      | None \<Rightarrow> (case NewChaosClient env of
          Some err \<Rightarrow> Inl (Exited err)
        | None \<Rightarrow>
            let (cd, err) = getChaosData env (ce_CreationTimestamp ce) (ce_Name ce) (ce_Namespace ce);
                finTime = (if ce_EngineStatus ce = EngineStatusCompleted env \<or> ce_EngineStatus ce = EngineStatusStopped env
                           then (case ce_Experiments ce of [] \<Rightarrow> -1 | ex # _ \<Rightarrow> unix (ex_LastUpdateTime ex))
                           else -1);
                created = StrConvTime (unix (ce_CreationTimestamp ce));
                steps = \<lparr>nd_Name = ce_Name ce, nd_Phase = ''Succeeded'', nd_Message = '''', nd_StartedAt = created,
                         nd_FinishedAt = StrConvTime finTime, nd_Children = [ce_Name ce @ ''-engine''],
                         nd_Type = ''Steps'', nd_ChaosExp = None\<rparr>;
                details = \<lparr>nd_Name = ce_Name ce, nd_Phase = mapStatus env (ce_EngineStatus ce),
                           nd_Message = ce_EngineStatus ce, nd_StartedAt = created,
                           nd_FinishedAt = StrConvTime finTime, nd_Children = [],
                           nd_Type = ''ChaosEngine'', nd_ChaosExp = cd\<rparr>
            in Inr (Some (zero_event
                 \<lparr>we_WorkflowType := ''chaosengine'', we_WorkflowID := label (ce_Labels ce) ''workflow_id'',
                  we_EventType := eventType, we_UID := ce_UID ce, we_Namespace := ce_Namespace ce,
                  we_Name := ce_Name ce, we_CreationTimestamp := created, we_Phase := nd_Phase details,
                  we_Message := nd_Message details, we_StartedAt := nd_StartedAt details,
                  we_FinishedAt := nd_FinishedAt details,
                  we_Nodes := Some (AList.update (ce_Name ce @ ''-engine'') details
                                     (AList.update (ce_Name ce) steps []))\<rparr>))))"

section \<open>Sending updates\<close>

definition FaultCompletedWithProbeFailure :: string where
  "FaultCompletedWithProbeFailure = ''Completed_With_Probe_Failure''"

definition event_nodes :: "workflow_event \<Rightarrow> node_map" where
  "event_nodes e = (case we_Nodes e of None \<Rightarrow> [] | Some ns \<Rightarrow> ns)"

text \<open>The two counters of the loop over the nodes: errors, and completions with a failed probe.\<close>

fun count_faults :: "node_map \<Rightarrow> nat \<Rightarrow> nat \<Rightarrow> nat \<times> nat" where
  "count_faults [] errorCount probeCount = (errorCount, probeCount)"
| "count_faults ((k, n) # ns) errorCount probeCount =
     (if nd_Type n = ''ChaosEngine'' \<and> nd_ChaosExp n = None then count_faults ns (errorCount + 1) probeCount
      else if nd_Phase n = FaultCompletedWithProbeFailure then count_faults ns errorCount (probeCount + 1)
      else if nd_Phase n = ''Error'' then count_faults ns (errorCount + 1) probeCount
      else count_faults ns errorCount probeCount)"

definition getExperimentStatus :: "workflow_event \<Rightarrow> string \<times> string option" where
  "getExperimentStatus e =
     (if we_Phase e = '''' then ('''', Some ''status is invalid'')
      else if we_Phase e = ''Stopped'' \<or> we_FinishedAt e = '''' then (we_Phase e, None)
      else let (errorCount, probeCount) = count_faults (event_nodes e) 0 0
           in (if errorCount > 0 then ''Error''
               else if probeCount > 0 then FaultCompletedWithProbeFailure
               else we_Phase e, None))"

definition set_node :: "string \<Rightarrow> node \<Rightarrow> workflow_event \<Rightarrow> workflow_event go" where
  "set_node k n e =
     (case we_Nodes e of None \<Rightarrow> Inl NilMapWrite
      | Some ns \<Rightarrow> Inr (e\<lparr>we_Nodes := Some (AList.update k n ns)\<rparr>))"

text \<open>One round of the loop over the nodes of the stored event.\<close>

definition keep_chaos_data :: "string \<Rightarrow> node \<Rightarrow> workflow_event \<Rightarrow> workflow_event go" where
  "keep_chaos_data k n e =
     (let cur = node_at (event_nodes e) k
      in if nd_Type n = ''ChaosEngine'' \<and> nd_ChaosExp n \<noteq> None \<and> nd_ChaosExp cur = None
         then set_node k (cur\<lparr>nd_ChaosExp := nd_ChaosExp n, nd_Phase := nd_Phase n, nd_Message := nd_Message n\<rparr>) e
         else Inr e)"

definition stop_node :: "string \<Rightarrow> workflow_event \<Rightarrow> workflow_event go" where
  "stop_node k e =
     (let cur = node_at (event_nodes e) k
      in if we_Phase e = ''Stopped'' \<and> (nd_Phase cur = ''Running'' \<or> nd_Phase cur = ''Pending'')
         then set_node k (cur\<lparr>nd_Phase := ''Stopped''\<rparr>) e
         else Inr e)"

fun merge_nodes :: "node_map \<Rightarrow> workflow_event \<Rightarrow> workflow_event go" where
  "merge_nodes [] e = Inr e"
| "merge_nodes ((k, n) # ns) e =
     (case keep_chaos_data k n e of
        Inl p \<Rightarrow> Inl p
      | Inr e1 \<Rightarrow> (case stop_node k e1 of Inl p \<Rightarrow> Inl p | Inr e2 \<Rightarrow> merge_nodes ns e2))"

text \<open>\<^verbatim>\<open>GenerateWorkflowPayload\<close> writes through the node map it shares with its caller.\<close>

definition strip_messages :: "workflow_event \<Rightarrow> workflow_event" where
  "strip_messages e =
     e\<lparr>we_Nodes := map_option (map (\<lambda>(k, n). (k, n\<lparr>nd_Message := remove_byte (CHR 0x22) (nd_Message n)\<rparr>))) (we_Nodes e)\<rparr>"

definition quoted :: "string \<Rightarrow> string" where
  "quoted s = [CHR 0x5C, CHR 0x22] @ s @ [CHR 0x5C, CHR 0x22]"

definition GenerateWorkflowPayload ::
  "sub_env \<Rightarrow> string \<Rightarrow> string \<Rightarrow> string \<Rightarrow> string \<Rightarrow> workflow_event \<Rightarrow> (string + string) \<times> workflow_event" where
  "GenerateWorkflowPayload env cid accessKey version completed event =
     (let e = strip_messages event;
          infraID = ''{infraID: '' @ quoted cid @ '', version: '' @ quoted version @ '', accessKey: '' @ quoted accessKey @ ''}''
      in (case MarshalEvent env e of
            Inl err \<Rightarrow> Inl err
          | Inr data \<Rightarrow>
              let executionData = base64_encode std_alphabet data;
                  notify = (case we_NotifyID e of None \<Rightarrow> '''' | Some i \<Rightarrow> '', notifyID:'' @ quoted i);
                  mutation = ''{ experimentID: '' @ quoted (we_WorkflowID e) @ '', experimentRunID: '' @ quoted (we_UID e)
                    @ '', revisionID:'' @ quoted (we_RevisionID e) @ notify @ '', completed: '' @ completed
                    @ '', experimentName:'' @ quoted (we_Name e) @ '', infraID: '' @ infraID
                    @ '', updatedBy:'' @ quoted (we_UpdatedBy e) @ '', executionData:'' @ quoted executionData @ ''}''
              in Inr (''{'' @ [CHR 0x22] @ ''query'' @ [CHR 0x22] @ '':'' @ [CHR 0x22] @ ''mutation { chaosExperimentRun(request:''
                   @ mutation @ '' )}'' @ [CHR 0x22] @ ''}''),
          e))"

type_synonym event_map = "string \<rightharpoonup> workflow_event"

record send_result =
  sr_response :: "string + string"
  sr_request :: "(string \<times> string) option"
  sr_map :: event_map

text \<open>
  \<^verbatim>\<open>infraData\<close> is a map of strings, read with the zero default. The event stored in the map shares
  its nodes with the one the payload is generated from.
\<close>

definition SendWorkflowUpdates ::
  "sub_env \<Rightarrow> (string \<Rightarrow> string) \<Rightarrow> workflow_event \<Rightarrow> event_map \<Rightarrow> send_result go" where
  "SendWorkflowUpdates env infraData event m =
     (case (case m (we_UID event) of
              None \<Rightarrow> Inr event
            | Some wfEvent \<Rightarrow> merge_nodes (event_nodes wfEvent) event) of
        Inl p \<Rightarrow> Inl p
      | Inr merged \<Rightarrow>
          let (status, err) = getExperimentStatus merged;
              event1 = merged\<lparr>we_Phase := status\<rparr>;
              generate = GenerateWorkflowPayload env (infraData ''INFRA_ID'') (infraData ''ACCESS_KEY'') (infraData ''VERSION'');
              (payload, event2) = generate ''false'' event1;
              m1 = m(we_UID event2 \<mapsto> event2)
          in Inr (case payload of
               Inl err \<Rightarrow>
                 \<lparr>sr_response = Inl (''Error while generating graphql payload from the workflow event'' @ err),
                  sr_request = None, sr_map = m1\<rparr>
             | Inr p \<Rightarrow>
                 let (p', m2) = (if we_FinishedAt event2 \<noteq> '''' then
                                   ((case fst (generate ''true'' event2) of Inl _ \<Rightarrow> '''' | Inr p \<Rightarrow> p),
                                    m1(we_UID event2 := None))
                                 else (p, m1))
                 in \<lparr>sr_response = SendRequest env (infraData ''SERVER_ADDR'') p',
                     sr_request = Some (infraData ''SERVER_ADDR'', p'), sr_map = m2\<rparr>))"

section \<open>The watchers, the channel and the sender\<close>

text \<open>What the informers deliver; \<^verbatim>\<open>startWatchWorkflow\<close> and \<^verbatim>\<open>startWatchEngine\<close> are the callbacks.\<close>

datatype watch_event =
    WorkflowAdded workflow | WorkflowUpdated workflow workflow
  | EngineAdded chaos_engine | EngineUpdated chaos_engine chaos_engine

definition startWatchWorkflow ::
  "sub_env \<Rightarrow> int \<Rightarrow> workflow option \<Rightarrow> workflow \<Rightarrow> string \<Rightarrow> abort + workflow_event option" where
  "startWatchWorkflow env startTime oldObj workflowObj eventType =
     (case WorkflowEventHandler env oldObj workflowObj eventType startTime of
        Inl a \<Rightarrow> Inl a | Inr (workflow, err) \<Rightarrow> Inr (Some workflow))"

fun on_watch :: "sub_env \<Rightarrow> int \<Rightarrow> watch_event \<Rightarrow> abort + workflow_event option" where
  "on_watch env startTime (WorkflowAdded w) = startWatchWorkflow env startTime None w ''ADD''"
| "on_watch env startTime (WorkflowUpdated old w) = startWatchWorkflow env startTime (Some old) w ''UPDATE''"
| "on_watch env startTime (EngineAdded c) = chaosEventHandler env c ''ADD'' startTime"
| "on_watch env startTime (EngineUpdated old c) = chaosEventHandler env c ''UPDATE'' startTime"

fun watch_uid :: "watch_event \<Rightarrow> string" where
  "watch_uid (WorkflowAdded w) = wf_UID w"
| "watch_uid (WorkflowUpdated old w) = wf_UID w"
| "watch_uid (EngineAdded c) = ce_UID c"
| "watch_uid (EngineUpdated old c) = ce_UID c"

record sub_state =
  stream :: "workflow_event list"
  eventMap :: event_map
  posted :: "(string \<times> string) list"

definition init_state :: sub_state where
  "init_state = \<lparr>stream = [], eventMap = Map.empty, posted = []\<rparr>"

text \<open>
  The informer goroutines put events on the channel, and the goroutine of \<^verbatim>\<open>WorkflowUpdates\<close> takes them
  off in order; the two interleave freely, and the cluster and the server may answer differently at
  every step. Objects of the API server have a UID.
\<close>

inductive sub_step :: "(string \<Rightarrow> string) \<Rightarrow> int \<Rightarrow> sub_state \<Rightarrow> sub_state \<Rightarrow> bool"
  for infraData :: "string \<Rightarrow> string" and startTime :: int where
  watch: "watch_uid w \<noteq> '''' \<Longrightarrow> on_watch env startTime w = Inr (Some e) \<Longrightarrow>
    sub_step infraData startTime s (s\<lparr>stream := stream s @ [e]\<rparr>)"
| send: "stream s = e # es \<Longrightarrow> SendWorkflowUpdates env infraData e (eventMap s) = Inr r \<Longrightarrow>
    sub_step infraData startTime s
      \<lparr>stream = es, eventMap = sr_map r,
       posted = posted s @ (case sr_request r of None \<Rightarrow> [] | Some q \<Rightarrow> [q])\<rparr>"

inductive_cases sub_stepE: "sub_step infraData startTime s s'"

inductive sub_reachable :: "(string \<Rightarrow> string) \<Rightarrow> int \<Rightarrow> sub_state \<Rightarrow> bool"
  for infraData :: "string \<Rightarrow> string" and startTime :: int where
  init: "sub_reachable infraData startTime init_state"
| step: "sub_reachable infraData startTime s \<Longrightarrow> sub_step infraData startTime s s' \<Longrightarrow> sub_reachable infraData startTime s'"

end
