(* ===== verification/Subscriber_Props.thy ===== *)
theory Subscriber_Props
  imports Subscriber_Events
begin

text \<open>
  Properties of the subscriber's event pipeline: the verdict of a finished run, the merge with the stored
  event key by key, the invariant of the channel and of \<^verbatim>\<open>eventMap\<close> over all interleavings of the
  watchers and the sender, that neither panics, what the later updates of a run keep of its chaos data, and that a fair sender processes every event.
\<close>

section \<open>The experiment status\<close>

text \<open>A chaos engine without its data, or a node in the phase Error, fails the run.\<close>

definition node_error :: "node \<Rightarrow> bool" where
  "node_error n \<longleftrightarrow> nd_Type n = ''ChaosEngine'' \<and> nd_ChaosExp n = None \<or> nd_Phase n = ''Error''"

lemma probe_failure_not_error [simp]: "FaultCompletedWithProbeFailure \<noteq> ''Error''"
  by (simp add: FaultCompletedWithProbeFailure_def)

lemma count_faults_mono:
  "count_faults ns a b = (c, d) \<Longrightarrow> a \<le> c \<and> b \<le> d"
  by (induction ns a b rule: count_faults.induct) (auto split: if_splits)

lemma count_faults_zero:
  assumes "count_faults ns a b = (c, d)"
  shows "c = 0 \<longleftrightarrow> a = 0 \<and> (\<forall>(k, n)\<in>set ns. \<not> node_error n)"
    and "(\<forall>(k, n)\<in>set ns. \<not> node_error n) \<Longrightarrow>
         d = 0 \<longleftrightarrow> b = 0 \<and> (\<forall>(k, n)\<in>set ns. nd_Phase n \<noteq> FaultCompletedWithProbeFailure)"
proof -
  show "c = 0 \<longleftrightarrow> a = 0 \<and> (\<forall>(k, n)\<in>set ns. \<not> node_error n)"
    using assms
    by (induction ns a b rule: count_faults.induct)
      (auto simp: node_error_def split: if_splits dest: count_faults_mono)
  show "(\<forall>(k, n)\<in>set ns. \<not> node_error n) \<Longrightarrow>
         d = 0 \<longleftrightarrow> b = 0 \<and> (\<forall>(k, n)\<in>set ns. nd_Phase n \<noteq> FaultCompletedWithProbeFailure)"
    using assms
    by (induction ns a b rule: count_faults.induct)
      (auto simp: node_error_def split: if_splits dest: count_faults_mono)
qed

lemma getExperimentStatus_finished:
  assumes "we_Phase e \<noteq> ''''" "we_Phase e \<noteq> ''Stopped''" "we_FinishedAt e \<noteq> ''''"
  shows "getExperimentStatus e =
    (if \<exists>(k, n)\<in>set (event_nodes e). node_error n then ''Error''
     else if \<exists>(k, n)\<in>set (event_nodes e). nd_Phase n = FaultCompletedWithProbeFailure
     then FaultCompletedWithProbeFailure else we_Phase e, None)"
proof -
  obtain c d where cd: "count_faults (event_nodes e) 0 0 = (c, d)" by fastforce
  show ?thesis
    using assms count_faults_zero [OF cd] by (auto simp: getExperimentStatus_def cd)
qed

section \<open>Merging with the stored event\<close>

text \<open>What the loop does to one key, given the stored and the new entry.\<close>

definition merged_node :: "bool \<Rightarrow> node option \<Rightarrow> node option \<Rightarrow> node option" where
  "merged_node stopped old new =
     (case old of
        None \<Rightarrow> new
      | Some o' \<Rightarrow>
          let cur = (case new of None \<Rightarrow> zero_node | Some n \<Rightarrow> n);
              kept = (if nd_Type o' = ''ChaosEngine'' \<and> nd_ChaosExp o' \<noteq> None \<and> nd_ChaosExp cur = None
                      then Some (cur\<lparr>nd_ChaosExp := nd_ChaosExp o', nd_Phase := nd_Phase o', nd_Message := nd_Message o'\<rparr>)
                      else new)
          in map_option (\<lambda>n. if stopped \<and> (nd_Phase n = ''Running'' \<or> nd_Phase n = ''Pending'')
                             then n\<lparr>nd_Phase := ''Stopped''\<rparr> else n) kept)"

lemma merge_one:
  assumes "we_Nodes e = Some ns" "distinct (map fst ns)"
  obtains e1 ns' where "keep_chaos_data k n e = Inr e1" "stop_node k e1 = Inr (e\<lparr>we_Nodes := Some ns'\<rparr>)"
    "distinct (map fst ns')"
    "map_of ns' = (map_of ns)(k := merged_node (we_Phase e = ''Stopped'') (Some n) (map_of ns k))"
proof -
  let ?cur = "node_at ns k"
  let ?keep = "nd_Type n = ''ChaosEngine'' \<and> nd_ChaosExp n \<noteq> None \<and> nd_ChaosExp ?cur = None"
  let ?new = "?cur\<lparr>nd_ChaosExp := nd_ChaosExp n, nd_Phase := nd_Phase n, nd_Message := nd_Message n\<rparr>"
  define ns1 where "ns1 = (if ?keep then AList.update k ?new ns else ns)"
  define st where "st \<longleftrightarrow> we_Phase e = ''Stopped'' \<and> (nd_Phase (node_at ns1 k) = ''Running'' \<or> nd_Phase (node_at ns1 k) = ''Pending'')"
  define ns2 where "ns2 = (if st then AList.update k ((node_at ns1 k)\<lparr>nd_Phase := ''Stopped''\<rparr>) ns1 else ns1)"
  have k: "keep_chaos_data k n e = Inr (e\<lparr>we_Nodes := Some ns1\<rparr>)"
    using assms(1) by (auto simp: keep_chaos_data_def set_node_def event_nodes_def ns1_def Let_def)
  have s: "stop_node k (e\<lparr>we_Nodes := Some ns1\<rparr>) = Inr (e\<lparr>we_Nodes := Some ns2\<rparr>)"
    by (auto simp: stop_node_def set_node_def event_nodes_def ns2_def st_def Let_def)
  have d: "distinct (map fst ns2)"
    using assms(2) by (simp add: ns2_def ns1_def distinct_update)
  have m1: "map_of ns1 = (map_of ns)(k := if ?keep then Some ?new else map_of ns k)"
    by (auto simp: ns1_def update_conv)
  have "map_of ns2 = (map_of ns)(k := merged_node (we_Phase e = ''Stopped'') (Some n) (map_of ns k))"
    by (cases "map_of ns k")
      (auto simp: ns2_def update_conv st_def m1 node_at_def merged_node_def zero_node_def fun_eq_iff)
  with k s d show thesis by (rule that)
qed

lemma merge_nodes_ok:
  assumes "we_Nodes e = Some ns" "distinct (map fst ns)" "distinct (map fst old)"
  shows "\<exists>ns'. merge_nodes old e = Inr (e\<lparr>we_Nodes := Some ns'\<rparr>) \<and> distinct (map fst ns') \<and>
    (\<forall>k. map_of ns' k = merged_node (we_Phase e = ''Stopped'') (map_of old k) (map_of ns k))"
  using assms
proof (induction old arbitrary: e ns)
  case Nil
  then show ?case by (auto simp: merged_node_def intro!: exI [of _ ns])
next
  case (Cons kn old)
  obtain k n where kn: "kn = (k, n)" by (cases kn)
  obtain e1 ns1 where 1: "keep_chaos_data k n e = Inr e1" "stop_node k e1 = Inr (e\<lparr>we_Nodes := Some ns1\<rparr>)"
    "distinct (map fst ns1)"
    "map_of ns1 = (map_of ns)(k := merged_node (we_Phase e = ''Stopped'') (Some n) (map_of ns k))"
    by (rule merge_one [OF Cons.prems(1,2)])
  obtain ns' where 2: "merge_nodes old (e\<lparr>we_Nodes := Some ns1\<rparr>) = Inr (e\<lparr>we_Nodes := Some ns'\<rparr>)" "distinct (map fst ns')"
    "\<And>k. map_of ns' k = merged_node (we_Phase e = ''Stopped'') (map_of old k) (map_of ns1 k)"
    using Cons.IH [of "e\<lparr>we_Nodes := Some ns1\<rparr>" ns1] 1(3) Cons.prems(3) by auto
  have "map_of old k = None" using Cons.prems(3) kn by (simp add: map_of_eq_None_iff)
  then have "map_of ns' j = merged_node (we_Phase e = ''Stopped'') (map_of ((k, n) # old) j) (map_of ns j)" for j
    using 2(3) [of j] 1(4) by (auto simp: merged_node_def)
  with 1(1,2) 2(1,2) show ?case by (intro exI [of _ ns']) (simp add: kn del: map_of.simps)
qed

section \<open>The invariant\<close>

text \<open>
  An event is either the empty one, which ignored workflows produce, or belongs to a run with a UID and
  has a node map.
\<close>

definition event_ok :: "workflow_event \<Rightarrow> bool" where
  "event_ok e \<longleftrightarrow>
     (case we_Nodes e of None \<Rightarrow> we_UID e = '''' | Some ns \<Rightarrow> we_UID e \<noteq> '''' \<and> distinct (map fst ns))"

definition map_ok :: "event_map \<Rightarrow> bool" where
  "map_ok m \<longleftrightarrow> (\<forall>u e. m u = Some e \<longrightarrow> we_UID e = u \<and> event_ok e)"

definition sub_inv :: "sub_state \<Rightarrow> bool" where
  "sub_inv s \<longleftrightarrow> (\<forall>e\<in>set (stream s). event_ok e) \<and> map_ok (eventMap s)"

lemma node_details_returns: "\<exists>d. node_details env old workflowObj adminNS i ns = Inr d"
proof -
  have "\<not> isl (if ns_Type ns = ''Pod'' \<and> (case ns_Inputs ns of Some [Some _] \<Rightarrow> True | _ \<Rightarrow> False)
     then CheckChaosData env ns (wf_Namespace workflowObj) adminNS else Inr (ns_Type ns, None, None))"
    by (simp add: CheckChaosData_def split: option.split list.split)
  then show ?thesis unfolding node_details_def by (auto simp: Let_def split: sum.splits prod.split)
qed

lemma collect_nodes_returns:
  "distinct (map fst acc) \<Longrightarrow>
   \<exists>ns. collect_nodes env old workflowObj adminNS nodes acc = Inr ns \<and> distinct (map fst ns)"
proof (induction nodes arbitrary: acc)
  case (Cons n nodes)
  obtain i ns where n: "n = (i, ns)" by (cases n)
  obtain d where "node_details env old workflowObj adminNS i ns = Inr d"
    using node_details_returns by blast
  then show ?case using Cons by (simp add: n distinct_update)
qed simp

lemma WorkflowEventHandler_ok:
  assumes "wf_UID w \<noteq> ''''"
  shows "case WorkflowEventHandler env old w t start of
     Inl a \<Rightarrow> \<exists>m. a = Exited m | Inr (e, err) \<Rightarrow> event_ok e"
proof -
  obtain ns where "collect_nodes env old w (getAdminModeNamespace (wf_Parameters w) (wf_Namespace w)) (wf_Nodes w) [] = Inr ns"
    "distinct (map fst ns)"
    using collect_nodes_returns [of "[]" env old w] by (metis distinct.simps(1) list.simps(8))
  then show ?thesis
    using assms
    by (simp add: WorkflowEventHandler_def Let_def event_ok_def zero_event_def distinct_update split: option.split)
qed

lemma chaosEventHandler_ok:
  "ce_UID c \<noteq> '''' \<Longrightarrow>
   case chaosEventHandler env c t start of
     Inl a \<Rightarrow> \<exists>m. a = Exited m | Inr None \<Rightarrow> True | Inr (Some e) \<Rightarrow> event_ok e"
  by (cases "getChaosData env (ce_CreationTimestamp c) (ce_Name c) (ce_Namespace c)")
    (simp add: chaosEventHandler_def Let_def event_ok_def zero_event_def split: option.split)

lemma on_watch_ok:
  assumes "watch_uid w \<noteq> ''''"
  shows "on_watch env start w \<noteq> Inl (Panicked p)"
    and "on_watch env start w = Inr (Some e) \<Longrightarrow> event_ok e"
  using assms WorkflowEventHandler_ok chaosEventHandler_ok
  by (cases w; fastforce simp: startWatchWorkflow_def split: sum.splits prod.splits)+

section \<open>What one update sends and stores\<close>

definition strip_node :: "node \<Rightarrow> node" where
  "strip_node n = n\<lparr>nd_Message := remove_byte (CHR 0x22) (nd_Message n)\<rparr>"

lemma strip_node_simps [simp]:
  "nd_Phase (strip_node n) = nd_Phase n" "nd_Type (strip_node n) = nd_Type n"
  "nd_ChaosExp (strip_node n) = nd_ChaosExp n" "strip_node (strip_node n) = strip_node n"
  "nd_FinishedAt (strip_node n) = nd_FinishedAt n"
  by (simp_all add: strip_node_def remove_byte_def)

lemma strip_messages_eq:
  "strip_messages e = e\<lparr>we_Nodes := map_option (map (map_prod id strip_node)) (we_Nodes e)\<rparr>"
  by (simp add: strip_messages_def strip_node_def map_prod_def)

lemma strip_messages_simps [simp]:
  "we_UID (strip_messages e) = we_UID e" "we_Phase (strip_messages e) = we_Phase e"
  "we_FinishedAt (strip_messages e) = we_FinishedAt e" "strip_messages (strip_messages e) = strip_messages e"
  "event_ok (strip_messages e) = event_ok e"
  by (auto simp: strip_messages_eq event_ok_def option.map_comp prod.map_comp comp_def id_def split: option.split)

lemma event_nodes_strip: "event_nodes (strip_messages e) = map (map_prod id strip_node) (event_nodes e)"
  by (simp add: strip_messages_eq event_nodes_def split: option.split)

lemma map_of_strip [simp]: "map_of (map (map_prod id strip_node) ns) k = map_option strip_node (map_of ns k)"
  by (simp add: map_prod_def map_of_map)

lemma count_faults_strip [simp]: "count_faults (map (map_prod id strip_node) ns) a b = count_faults ns a b"
  by (induction ns a b rule: count_faults.induct) auto

lemma getExperimentStatus_strip [simp]: "getExperimentStatus (strip_messages e) = getExperimentStatus e"
  by (cases "count_faults (event_nodes e) 0 0") (simp add: getExperimentStatus_def event_nodes_strip)

lemma Generate_strip [simp]:
  "GenerateWorkflowPayload env cid key version c (strip_messages e) = GenerateWorkflowPayload env cid key version c e"
  by (simp add: GenerateWorkflowPayload_def Let_def)

lemma Generate_snd [simp]: "snd (GenerateWorkflowPayload env cid key version c e) = strip_messages e"
  by (simp add: GenerateWorkflowPayload_def Let_def)

text \<open>The stored entry of a node, if the run has a stored event.\<close>

definition stored_node :: "event_map \<Rightarrow> string \<Rightarrow> string \<Rightarrow> node option" where
  "stored_node m u k = (case m u of None \<Rightarrow> None | Some st \<Rightarrow> map_of (event_nodes st) k)"

text \<open>The payload for an event, with the credentials of the infrastructure.\<close>

abbreviation payload :: "sub_env \<Rightarrow> (string \<Rightarrow> string) \<Rightarrow> string \<Rightarrow> workflow_event \<Rightarrow> string + string" where
  "payload env infraData completed e \<equiv>
     fst (GenerateWorkflowPayload env (infraData ''INFRA_ID'') (infraData ''ACCESS_KEY'') (infraData ''VERSION'') completed e)"

lemma merge_stored:
  assumes "event_ok e" "map_ok m"
  obtains ns' where
    "(case m (we_UID e) of None \<Rightarrow> Inr e | Some st \<Rightarrow> merge_nodes (event_nodes st) e) = Inr (e\<lparr>we_Nodes := ns'\<rparr>)"
    "event_ok (e\<lparr>we_Nodes := ns'\<rparr>)"
    "\<And>k. map_of (event_nodes (e\<lparr>we_Nodes := ns'\<rparr>)) k =
       merged_node (we_Phase e = ''Stopped'') (stored_node m (we_UID e) k) (map_of (event_nodes e) k)"
proof (cases "m (we_UID e)")
  case None
  then show thesis
    using that [of "we_Nodes e"] assms(1) by (simp add: stored_node_def merged_node_def)
next
  case (Some st)
  then have st: "we_UID st = we_UID e" "event_ok st" using assms(2) by (auto simp: map_ok_def)
  show thesis
  proof (cases "we_Nodes e")
    case None
    then have "we_Nodes st = None"
      using st assms(1) by (auto simp: event_ok_def split: option.splits)
    with None Some show thesis
      using that [of None] assms(1) by (cases e) (simp add: event_nodes_def stored_node_def merged_node_def)
  next
    case ns: (Some ns)
    moreover have "distinct (map fst ns)" "distinct (map fst (event_nodes st))" "we_UID e \<noteq> ''''"
      using st assms(1) ns by (auto simp: event_ok_def event_nodes_def split: option.splits)
    ultimately obtain ns' where "merge_nodes (event_nodes st) e = Inr (e\<lparr>we_Nodes := Some ns'\<rparr>)" "distinct (map fst ns')"
      "\<forall>k. map_of ns' k = merged_node (we_Phase e = ''Stopped'') (map_of (event_nodes st) k) (map_of ns k)"
      using merge_nodes_ok by blast
    with Some ns \<open>we_UID e \<noteq> ''''\<close> show thesis
      using that [of "Some ns'"] by (simp add: event_ok_def event_nodes_def stored_node_def)
  qed
qed

lemma SendWorkflowUpdates_merged:
  fixes env infraData m
  defines "g \<equiv> GenerateWorkflowPayload env (infraData ''INFRA_ID'') (infraData ''ACCESS_KEY'') (infraData ''VERSION'')"
  assumes merged: "(case m (we_UID e) of None \<Rightarrow> Inr e | Some st \<Rightarrow> merge_nodes (event_nodes st) e) = Inr merged"
    and same: "we_UID merged = we_UID e" "we_FinishedAt merged = we_FinishedAt e"
    and sent: "sent = strip_messages (merged\<lparr>we_Phase := fst (getExperimentStatus merged)\<rparr>)"
  shows "\<exists>r. SendWorkflowUpdates env infraData e m = Inr r \<and>
    (\<forall>p. fst (g (if we_FinishedAt e = '''' then ''false'' else ''true'') sent) = Inr p \<longrightarrow>
       sr_request r = Some (infraData ''SERVER_ADDR'', p) \<and>
       sr_map r = m(we_UID e := if we_FinishedAt e = '''' then Some sent else None)) \<and>
    (\<forall>err. MarshalEvent env sent = Inl err \<longrightarrow> sr_request r = None \<and> sr_map r = m(we_UID e \<mapsto> sent))"
proof -
  let ?e1 = "merged\<lparr>we_Phase := fst (getExperimentStatus merged)\<rparr>"
  have g: "g c ?e1 = (fst (g c sent), sent)" for c
    by (simp add: g_def sent prod_eq_iff)
  have ok: "(\<exists>p. fst (g c sent) = Inr p) \<longleftrightarrow> (\<exists>d. MarshalEvent env sent = Inr d)" for c
    by (simp add: g_def sent GenerateWorkflowPayload_def Let_def split: sum.split)
  have u: "we_UID sent = we_UID e" "we_FinishedAt sent = we_FinishedAt e"
    using same by (simp_all add: sent)
  show ?thesis
  proof (cases "MarshalEvent env sent")
    case (Inl err)
    then have "fst (g c sent) = Inl err" for c
      by (simp add: g_def sent GenerateWorkflowPayload_def Let_def)
    with Inl show ?thesis
      by (simp add: SendWorkflowUpdates_def merged split_beta Let_def flip: g_def) (simp add: g u)
  next
    case (Inr d)
    then obtain p q where "fst (g ''false'' sent) = Inr p" "fst (g ''true'' sent) = Inr q" using ok by blast
    with Inr show ?thesis
      by (simp add: SendWorkflowUpdates_def merged split_beta Let_def flip: g_def) (simp add: g u)
  qed
qed

text \<open>What an update sends, as a relation between the event, the map, the event sent and the result.\<close>

definition update_sent ::
  "sub_env \<Rightarrow> (string \<Rightarrow> string) \<Rightarrow> event_map \<Rightarrow> workflow_event \<Rightarrow> workflow_event \<Rightarrow> send_result \<Rightarrow> bool" where
  "update_sent env infraData m e sent r \<longleftrightarrow> event_ok sent \<and>
    sent = e\<lparr>we_Nodes := we_Nodes sent, we_Phase := we_Phase sent\<rparr> \<and>
    (\<forall>k. map_of (event_nodes sent) k = map_option strip_node
       (merged_node (we_Phase e = ''Stopped'') (stored_node m (we_UID e) k) (map_of (event_nodes e) k))) \<and>
    we_Phase sent = fst (getExperimentStatus (sent\<lparr>we_Phase := we_Phase e\<rparr>)) \<and>
    (\<forall>p. payload env infraData (if we_FinishedAt e = '''' then ''false'' else ''true'') sent = Inr p \<longrightarrow>
       sr_request r = Some (infraData ''SERVER_ADDR'', p) \<and>
       sr_map r = m(we_UID e := if we_FinishedAt e = '''' then Some sent else None)) \<and>
    (\<forall>err. MarshalEvent env sent = Inl err \<longrightarrow> sr_request r = None \<and> sr_map r = m(we_UID e \<mapsto> sent))"

lemma SendWorkflowUpdates_returns:
  assumes "event_ok e" "map_ok m"
  shows "\<exists>r sent. SendWorkflowUpdates env infraData e m = Inr r \<and> update_sent env infraData m e sent r"
proof -
  obtain ns' where 1: "(case m (we_UID e) of None \<Rightarrow> Inr e | Some st \<Rightarrow> merge_nodes (event_nodes st) e) = Inr (e\<lparr>we_Nodes := ns'\<rparr>)"
    "event_ok (e\<lparr>we_Nodes := ns'\<rparr>)"
    "\<And>k. map_of (event_nodes (e\<lparr>we_Nodes := ns'\<rparr>)) k =
       merged_node (we_Phase e = ''Stopped'') (stored_node m (we_UID e) k) (map_of (event_nodes e) k)"
    by (rule merge_stored [OF assms]) blast
  define sent where "sent = strip_messages ((e\<lparr>we_Nodes := ns'\<rparr>)\<lparr>we_Phase := fst (getExperimentStatus (e\<lparr>we_Nodes := ns'\<rparr>))\<rparr>)"
  obtain r where r: "SendWorkflowUpdates env infraData e m = Inr r"
    "\<And>p. payload env infraData (if we_FinishedAt e = '''' then ''false'' else ''true'') sent = Inr p \<Longrightarrow>
       sr_request r = Some (infraData ''SERVER_ADDR'', p) \<and>
       sr_map r = m(we_UID e := if we_FinishedAt e = '''' then Some sent else None)"
    "\<And>err. MarshalEvent env sent = Inl err \<Longrightarrow> sr_request r = None \<and> sr_map r = m(we_UID e \<mapsto> sent)"
    using SendWorkflowUpdates_merged [where env = env and infraData = infraData and m = m and e = e and sent = sent, OF 1(1) _ _ sent_def] by auto
  have sent': "sent\<lparr>we_Phase := we_Phase e\<rparr> = strip_messages (e\<lparr>we_Nodes := ns'\<rparr>)"
    by (cases e) (simp add: sent_def strip_messages_eq)
  have "event_nodes sent = event_nodes (strip_messages (e\<lparr>we_Nodes := ns'\<rparr>))"
    by (simp add: sent_def strip_messages_eq event_nodes_def)
  then have nodes: "map_of (event_nodes sent) k = map_option strip_node (map_of (event_nodes (e\<lparr>we_Nodes := ns'\<rparr>)) k)" for k
    by (simp add: event_nodes_strip)
  have ok: "event_ok sent" using 1(2) by (simp add: sent_def) (simp add: event_ok_def split: option.splits)
  have upd: "sent = e\<lparr>we_Nodes := we_Nodes sent, we_Phase := we_Phase sent\<rparr>"
    by (cases e) (simp add: sent_def strip_messages_eq)
  have "we_Phase sent = fst (getExperimentStatus (sent\<lparr>we_Phase := we_Phase e\<rparr>))"
    unfolding sent' by (simp add: sent_def)
  then have "update_sent env infraData m e sent r"
    unfolding update_sent_def using ok upd r(2,3) by (simp only: nodes 1(3)) blast
  with r(1) show ?thesis by blast
qed

lemma payload_cases:
  "(\<exists>p. payload env infraData c sent = Inr p) \<or> (\<exists>err. MarshalEvent env (strip_messages sent) = Inl err)"
  by (simp add: GenerateWorkflowPayload_def Let_def split: sum.split)

lemma strip_messages_id:
  assumes "\<And>k. map_of (event_nodes e) k = map_option strip_node (f k)" "event_ok e"
  shows "strip_messages e = e"
proof -
  have "strip_node n = n" if "(k, n) \<in> set (event_nodes e)" for k n
  proof -
    have "map_of (event_nodes e) k = Some n"
      using that assms(2) by (auto simp: event_ok_def event_nodes_def split: option.splits)
    then show ?thesis using assms(1) [of k] by auto
  qed
  then have "map (map_prod id strip_node) (event_nodes e) = event_nodes e"
    by (intro map_idI) auto
  then show ?thesis
    by (cases "we_Nodes e") (simp_all add: strip_messages_eq event_nodes_def)
qed

text \<open>Either a request goes out, or the event could not be marshalled; the map stays well-formed.\<close>

lemma update_sent_cases:
  assumes "update_sent env infraData m e sent r"
  obtains p where "payload env infraData (if we_FinishedAt e = '''' then ''false'' else ''true'') sent = Inr p"
      "sr_request r = Some (infraData ''SERVER_ADDR'', p)"
      "sr_map r = m(we_UID e := if we_FinishedAt e = '''' then Some sent else None)"
  | err where "MarshalEvent env sent = Inl err" "sr_request r = None" "sr_map r = m(we_UID e \<mapsto> sent)"
proof -
  have "\<And>k. map_of (event_nodes sent) k = map_option strip_node
       (merged_node (we_Phase e = ''Stopped'') (stored_node m (we_UID e) k) (map_of (event_nodes e) k))" "event_ok sent"
    using assms unfolding update_sent_def by simp_all
  then have "strip_messages sent = sent" by (rule strip_messages_id)
  then have "(\<exists>p. payload env infraData (if we_FinishedAt e = '''' then ''false'' else ''true'') sent = Inr p) \<or>
     (\<exists>err. MarshalEvent env sent = Inl err)"
    using payload_cases [of env infraData "if we_FinishedAt e = '''' then ''false'' else ''true''" sent] by simp
  then show thesis
  proof (elim disjE exE)
    fix p assume p: "payload env infraData (if we_FinishedAt e = '''' then ''false'' else ''true'') sent = Inr p"
    have "sr_request r = Some (infraData ''SERVER_ADDR'', p)"
      "sr_map r = m(we_UID e := if we_FinishedAt e = '''' then Some sent else None)"
      using assms p unfolding update_sent_def by blast+
    then show thesis by (rule that(1) [OF p])
  next
    fix err assume err: "MarshalEvent env sent = Inl err"
    have "sr_request r = None" "sr_map r = m(we_UID e \<mapsto> sent)"
      using assms err unfolding update_sent_def by blast+
    then show thesis by (rule that(2) [OF err])
  qed
qed

lemma update_sent_map_ok:
  assumes "update_sent env infraData m e sent r" "map_ok m"
  shows "map_ok (sr_map r)"
proof -
  have "sent = e\<lparr>we_Nodes := we_Nodes sent, we_Phase := we_Phase sent\<rparr>" and ok: "event_ok sent"
    using assms(1) unfolding update_sent_def by blast+
  then have "we_UID sent = we_UID e" by (metis workflow_event.surjective workflow_event.select_convs(6)
      workflow_event.update_convs(10,14))
  with ok show ?thesis
    using assms(2) by (cases rule: update_sent_cases [OF assms(1)]) (auto simp: map_ok_def)
qed

lemma update_sent_posted:
  assumes "update_sent env infraData m e sent r" "\<forall>e'. \<exists>d. MarshalEvent env e' = Inr d"
  obtains p where "payload env infraData (if we_FinishedAt e = '''' then ''false'' else ''true'') sent = Inr p"
      "sr_request r = Some (infraData ''SERVER_ADDR'', p)"
      "sr_map r = m(we_UID e := if we_FinishedAt e = '''' then Some sent else None)"
  using update_sent_cases [OF assms(1)] assms(2) by (metis sum.distinct(1))

lemma sub_inv_step: "sub_step infraData startTime s s' \<Longrightarrow> sub_inv s \<Longrightarrow> sub_inv s'"
proof (induction rule: sub_step.induct)
  case (watch w env e s)
  then show ?case using on_watch_ok(2) by (auto simp: sub_inv_def)
next
  case (send s e es env r)
  then obtain r' sent where "SendWorkflowUpdates env infraData e (eventMap s) = Inr r'"
    "update_sent env infraData (eventMap s) e sent r'"
    using SendWorkflowUpdates_returns [of e "eventMap s" env infraData] by (auto simp: sub_inv_def)
  with send show ?case using update_sent_map_ok by (fastforce simp: sub_inv_def)
qed

lemma sub_reachable_inv: "sub_reachable infraData startTime s \<Longrightarrow> sub_inv s"
proof (induction rule: sub_reachable.induct)
  case init
  show ?case by (simp add: sub_inv_def init_state_def map_ok_def)
qed (rule sub_inv_step)

lemma sub_reachable_send:
  assumes "sub_reachable infraData startTime s" "stream s = e # es"
  shows "\<exists>r sent. SendWorkflowUpdates env infraData e (eventMap s) = Inr r \<and>
    update_sent env infraData (eventMap s) e sent r"
  using sub_reachable_inv [OF assms(1)] assms(2) by (intro SendWorkflowUpdates_returns) (auto simp: sub_inv_def)

text \<open>A node that a stop ends keeps the finish time the event has for it.\<close>

lemma stopped_node_finish_time:
  "merged_node True (Some old) (Some n) = Some n' \<Longrightarrow> nd_FinishedAt n' = nd_FinishedAt n"
  by (auto simp: merged_node_def Let_def split: if_splits)

text \<open>A workflow without the label is ignored, but an empty event is streamed for it.\<close>

lemma ignored_workflow_streamed:
  "label (wf_Labels w) ''workflow_id'' = '''' \<Longrightarrow> on_watch env start (WorkflowAdded w) = Inr (Some zero_event)"
  by (simp add: startWatchWorkflow_def WorkflowEventHandler_def)

section \<open>Traces\<close>

text \<open>The updates the sender makes on the way from one state to another, each with the environment, the event and the result.\<close>

inductive sub_trace :: "(string \<Rightarrow> string) \<Rightarrow> int \<Rightarrow> sub_state \<Rightarrow> (sub_env \<times> workflow_event \<times> send_result) list \<Rightarrow> sub_state \<Rightarrow> bool"
  for infraData :: "string \<Rightarrow> string" and startTime :: int and s0 :: sub_state where
  init: "sub_trace infraData startTime s0 [] s0"
| watch: "sub_trace infraData startTime s0 tr s \<Longrightarrow> watch_uid w \<noteq> '''' \<Longrightarrow> on_watch env startTime w = Inr (Some e) \<Longrightarrow>
    sub_trace infraData startTime s0 tr (s\<lparr>stream := stream s @ [e]\<rparr>)"
| send: "sub_trace infraData startTime s0 tr s \<Longrightarrow> stream s = e # es \<Longrightarrow> SendWorkflowUpdates env infraData e (eventMap s) = Inr r \<Longrightarrow>
    sub_trace infraData startTime s0 (tr @ [(env, e, r)])
      \<lparr>stream = es, eventMap = sr_map r, posted = posted s @ (case sr_request r of None \<Rightarrow> [] | Some q \<Rightarrow> [q])\<rparr>"

lemma sub_trace_reachable: "sub_trace infraData startTime s0 tr s \<Longrightarrow> sub_reachable infraData startTime s0 \<Longrightarrow> sub_reachable infraData startTime s"
  by (induction rule: sub_trace.induct) (blast intro: sub_reachable.step sub_step.intros)+

text \<open>A proper prefix of the updates of a trace is a trace to the state in which the next one is made.\<close>

lemma sub_trace_split:
  "sub_trace infraData startTime s0 tr s \<Longrightarrow> tr = before @ (env, e, r) # after \<Longrightarrow>
   \<exists>s1 es. sub_trace infraData startTime s0 before s1 \<and> stream s1 = e # es \<and> SendWorkflowUpdates env infraData e (eventMap s1) = Inr r"
proof (induction arbitrary: after rule: sub_trace.induct)
  case (send tr s e' es env' r')
  show ?case
  proof (cases after rule: rev_cases)
    case Nil
    with send show ?thesis by auto
  next
    case (snoc after' x)
    with send show ?thesis by auto
  qed
qed auto

definition trace_events :: "(sub_env \<times> workflow_event \<times> send_result) list \<Rightarrow> workflow_event list" where
  "trace_events tr = map (\<lambda>(env, e, r). e) tr"

lemma trace_events_simps [simp]: "trace_events [] = []" "trace_events (tr @ [(env, e, r)]) = trace_events tr @ [e]"
  by (simp_all add: trace_events_def)

text \<open>The event lists the node \<^verbatim>\<open>k\<close> as a chaos engine.\<close>

definition lists_engine :: "string \<Rightarrow> workflow_event \<Rightarrow> bool" where
  "lists_engine k e \<longleftrightarrow> (case map_of (event_nodes e) k of None \<Rightarrow> False | Some n \<Rightarrow> nd_Type n = ''ChaosEngine'')"

text \<open>The latest chaos data for the node \<^verbatim>\<open>k\<close> of the run \<^verbatim>\<open>u\<close>, when \<^verbatim>\<open>cd\<close> was known before these events.\<close>

fun latest_data :: "string \<Rightarrow> string \<Rightarrow> chaos_data \<Rightarrow> workflow_event list \<Rightarrow> chaos_data" where
  "latest_data u k cd [] = cd"
| "latest_data u k cd (e # es) =
     latest_data u k (if we_UID e = u then case Option.bind (map_of (event_nodes e) k) nd_ChaosExp of None \<Rightarrow> cd | Some c \<Rightarrow> c else cd) es"

lemma latest_data_append: "latest_data u k cd (es @ fs) = latest_data u k (latest_data u k cd es) fs"
  by (induction es arbitrary: cd) auto

definition engine_stored :: "event_map \<Rightarrow> string \<Rightarrow> string \<Rightarrow> chaos_data \<Rightarrow> bool" where
  "engine_stored m u k cd \<longleftrightarrow> (\<exists>n. stored_node m u k = Some n \<and> nd_Type n = ''ChaosEngine'' \<and> nd_ChaosExp n = Some cd)"

lemma merged_engine:
  assumes "nd_Type n = ''ChaosEngine''" "nd_ChaosExp n = Some cd"
  shows "\<exists>n'. merged_node stopped (Some n) new = Some n' \<and> nd_Type n' = nd_Type (case new of None \<Rightarrow> zero_node | Some x \<Rightarrow> x) \<and>
    nd_ChaosExp n' = (case Option.bind new nd_ChaosExp of None \<Rightarrow> Some cd | Some c \<Rightarrow> Some c)"
  using assms by (cases new; cases "Option.bind new nd_ChaosExp") (simp_all add: merged_node_def zero_node_def Let_def)

text \<open>What one update sends and stores for a node with stored chaos data.\<close>

lemma update_keeps_engine:
  assumes "update_sent env infraData m e sent r" "engine_stored m (we_UID e) k cd"
  shows "\<exists>n. map_of (event_nodes sent) k = Some n \<and> nd_ChaosExp n = Some (latest_data (we_UID e) k cd [e])"
    and "we_FinishedAt e = '''' \<Longrightarrow> lists_engine k e \<Longrightarrow> engine_stored (sr_map r) (we_UID e) k (latest_data (we_UID e) k cd [e])"
proof -
  obtain n where n: "stored_node m (we_UID e) k = Some n" "nd_Type n = ''ChaosEngine''" "nd_ChaosExp n = Some cd"
    using assms(2) by (auto simp: engine_stored_def)
  obtain n' where n': "merged_node (we_Phase e = ''Stopped'') (Some n) (map_of (event_nodes e) k) = Some n'"
    "nd_Type n' = nd_Type (case map_of (event_nodes e) k of None \<Rightarrow> zero_node | Some x \<Rightarrow> x)"
    "nd_ChaosExp n' = Some (latest_data (we_UID e) k cd [e])"
    using merged_engine [OF n(2,3), of "we_Phase e = ''Stopped''" "map_of (event_nodes e) k"] by (fastforce split: option.splits)
  have sent: "map_of (event_nodes sent) k = Some (strip_node n')"
    using assms(1) n(1) n'(1) unfolding update_sent_def by simp
  then show "\<exists>n. map_of (event_nodes sent) k = Some n \<and> nd_ChaosExp n = Some (latest_data (we_UID e) k cd [e])"
    using n'(3) by simp
  assume e: "we_FinishedAt e = ''''" "lists_engine k e"
  then have "sr_map r (we_UID e) = Some sent" by (cases rule: update_sent_cases [OF assms(1)]) auto
  with sent n'(2,3) e(2) show "engine_stored (sr_map r) (we_UID e) k (latest_data (we_UID e) k cd [e])"
    by (auto simp: engine_stored_def stored_node_def lists_engine_def split: option.splits)
qed

lemma update_sent_marshal:
  assumes "update_sent env infraData m e sent r"
  shows "case MarshalEvent env sent of Inl err \<Rightarrow> sr_request r = None
     | Inr d \<Rightarrow> \<exists>p. payload env infraData (if we_FinishedAt e = '''' then ''false'' else ''true'') sent = Inr p \<and>
         sr_request r = Some (infraData ''SERVER_ADDR'', p)"
proof (cases "MarshalEvent env sent")
  case (Inl err)
  then show ?thesis using assms unfolding update_sent_def by simp
next
  case (Inr d)
  with assms show ?thesis by (cases rule: update_sent_cases [OF assms]) auto
qed

lemma update_other_run:
  assumes "update_sent env infraData m e sent r" "we_UID e \<noteq> u"
  shows "sr_map r u = m u"
  using assms(2) by (cases rule: update_sent_cases [OF assms(1)]) auto

lemma trace_keeps_engine:
  assumes "sub_trace infraData startTime s0 tr s" "sub_reachable infraData startTime s0" "engine_stored (eventMap s0) u k cd"
    and "\<forall>(env, e, r)\<in>set tr. we_UID e = u \<longrightarrow> we_FinishedAt e = '''' \<and> lists_engine k e"
  shows "engine_stored (eventMap s) u k (latest_data u k cd (trace_events tr))"
  using assms
proof (induction rule: sub_trace.induct)
  case (send tr s e es env r)
  then have IH: "engine_stored (eventMap s) u k (latest_data u k cd (trace_events tr))" by auto
  obtain sent where u: "update_sent env infraData (eventMap s) e sent r"
    using sub_reachable_send [OF sub_trace_reachable [OF send.hyps(1) send.prems(1)] send.hyps(2), of env] send.hyps(3) by auto
  show ?case
  proof (cases "we_UID e = u")
    case True
    then show ?thesis using update_keeps_engine(2) [OF u, of k] IH send.prems(3) by (simp add: latest_data_append)
  next
    case False
    then show ?thesis using update_other_run [OF u False] IH by (simp add: latest_data_append engine_stored_def stored_node_def)
  qed
qed simp_all

section \<open>Fair runs\<close>

text \<open>The sender takes \<^verbatim>\<open>e\<close> off the channel and processes it.\<close>

definition sends :: "(string \<Rightarrow> string) \<Rightarrow> sub_env \<Rightarrow> workflow_event \<Rightarrow> send_result \<Rightarrow> sub_state \<Rightarrow> sub_state \<Rightarrow> bool" where
  "sends infraData env e r s s' \<longleftrightarrow> (\<exists>es. stream s = e # es \<and> SendWorkflowUpdates env infraData e (eventMap s) = Inr r \<and>
     s' = \<lparr>stream = es, eventMap = sr_map r, posted = posted s @ (case sr_request r of None \<Rightarrow> [] | Some q \<Rightarrow> [q])\<rparr>)"

text \<open>
  An infinite run, in which the agent may also stand still, and weak fairness of the sender: if it can make a step from some
  point on, it makes one.
\<close>

definition sub_run :: "(string \<Rightarrow> string) \<Rightarrow> int \<Rightarrow> (nat \<Rightarrow> sub_state) \<Rightarrow> bool" where
  "sub_run infraData startTime \<sigma> \<longleftrightarrow> sub_reachable infraData startTime (\<sigma> 0) \<and>
     (\<forall>i. \<sigma> (Suc i) = \<sigma> i \<or> sub_step infraData startTime (\<sigma> i) (\<sigma> (Suc i)))"

definition sender_fair :: "(string \<Rightarrow> string) \<Rightarrow> (nat \<Rightarrow> sub_state) \<Rightarrow> bool" where
  "sender_fair infraData \<sigma> \<longleftrightarrow> (\<forall>i. (\<forall>j\<ge>i. \<exists>env e r s'. sends infraData env e r (\<sigma> j) s') \<longrightarrow>
     (\<exists>j\<ge>i. \<exists>env e r. sends infraData env e r (\<sigma> j) (\<sigma> (Suc j))))"

lemma sub_step_stream:
  assumes "sub_step infraData startTime s s'" "\<nexists>env e r. sends infraData env e r s s'"
  shows "\<exists>new. stream s' = stream s @ new"
  using assms by (cases rule: sub_step.cases) (auto simp: sends_def)

lemma sub_run_reachable: "sub_run infraData startTime \<sigma> \<Longrightarrow> sub_reachable infraData startTime (\<sigma> i)"
proof (induction i)
  case (Suc i)
  then show ?case by (metis sub_run_def sub_reachable.step)
qed (simp add: sub_run_def)

lemma sender_enabled:
  assumes "sub_reachable infraData startTime s" "stream s \<noteq> []"
  shows "\<exists>env e r s'. sends infraData env e r s s'"
proof -
  obtain e es where e: "stream s = e # es" using assms(2) by (cases "stream s") auto
  then show ?thesis using sub_reachable_send [OF assms(1) e] unfolding sends_def by blast
qed

text \<open>While the sender makes no step the channel only grows, so the sender stays enabled and makes one.\<close>

lemma waiting_stream:
  assumes "sub_run infraData startTime \<sigma>" "i \<le> j" "\<And>l. i \<le> l \<Longrightarrow> l < j \<Longrightarrow> \<nexists>env e r. sends infraData env e r (\<sigma> l) (\<sigma> (Suc l))"
  shows "\<exists>new. stream (\<sigma> j) = stream (\<sigma> i) @ new"
  using assms(2,3)
proof (induction j rule: dec_induct)
  case (step j)
  then obtain new where new: "stream (\<sigma> j) = stream (\<sigma> i) @ new" by auto
  have "\<sigma> (Suc j) = \<sigma> j \<or> sub_step infraData startTime (\<sigma> j) (\<sigma> (Suc j))" using assms(1) by (simp add: sub_run_def)
  then obtain new' where "stream (\<sigma> (Suc j)) = stream (\<sigma> j) @ new'"
    using sub_step_stream [of infraData startTime "\<sigma> j" "\<sigma> (Suc j)"] step.prems [of j] step.hyps(1) by fastforce
  with new show ?case by simp
qed simp

lemma head_sent:
  assumes run: "sub_run infraData startTime \<sigma>" and fair: "sender_fair infraData \<sigma>" and e: "stream (\<sigma> i) = e # es"
  obtains j env r new where "i \<le> j" "stream (\<sigma> j) = e # es @ new" "sends infraData env e r (\<sigma> j) (\<sigma> (Suc j))"
proof -
  define P where "P j \<longleftrightarrow> i \<le> j \<and> (\<exists>env e r. sends infraData env e r (\<sigma> j) (\<sigma> (Suc j)))" for j
  have "\<exists>j. P j"
  proof (rule ccontr)
    assume no: "\<nexists>j. P j"
    have "stream (\<sigma> j) \<noteq> []" if "i \<le> j" for j
      using waiting_stream [OF run that] no e unfolding P_def by fastforce
    then show False
      using fair no sender_enabled [OF sub_run_reachable [OF run]] unfolding sender_fair_def P_def by blast
  qed
  define j where "j = (LEAST j. P j)"
  have j: "P j" unfolding j_def using \<open>\<exists>j. P j\<close> by (rule LeastI_ex)
  have "\<not> P l" if "l < j" for l using that unfolding j_def by (rule not_less_Least)
  then have least: "\<nexists>env e r. sends infraData env e r (\<sigma> l) (\<sigma> (Suc l))" if "i \<le> l" "l < j" for l using that unfolding P_def by blast
  obtain new where new: "stream (\<sigma> j) = stream (\<sigma> i) @ new"
    using waiting_stream [OF run, of i j] least j unfolding P_def by blast
  obtain env e' r where s: "sends infraData env e' r (\<sigma> j) (\<sigma> (Suc j))" using j unfolding P_def by blast
  then have "e' = e" using new e by (simp add: sends_def)
  with s j new e show thesis by (intro that [of j new env r]) (auto simp: P_def)
qed

lemma queued_sent:
  assumes run: "sub_run infraData startTime \<sigma>" and fair: "sender_fair infraData \<sigma>"
  shows "p < length (stream (\<sigma> i)) \<Longrightarrow> \<exists>j\<ge>i. \<exists>env r new. stream (\<sigma> j) = drop p (stream (\<sigma> i)) @ new \<and>
    sends infraData env (stream (\<sigma> i) ! p) r (\<sigma> j) (\<sigma> (Suc j))"
proof (induction p arbitrary: i)
  case 0
  then obtain e es where e: "stream (\<sigma> i) = e # es" by (cases "stream (\<sigma> i)") auto
  show ?case using head_sent [OF run fair e] e by (metis drop0 nth_Cons_0 append_Cons)
next
  case (Suc p)
  then obtain e es where e: "stream (\<sigma> i) = e # es" by (cases "stream (\<sigma> i)") auto
  obtain j env r new where j: "i \<le> j" "stream (\<sigma> j) = e # es @ new" "sends infraData env e r (\<sigma> j) (\<sigma> (Suc j))"
    by (rule head_sent [OF run fair e])
  then have s: "stream (\<sigma> (Suc j)) = es @ new" by (auto simp: sends_def)
  have p: "p < length es" using Suc.prems e by simp
  obtain j' env' r' new' where "Suc j \<le> j'" "stream (\<sigma> j') = drop p (es @ new) @ new'" "sends infraData env' ((es @ new) ! p) r' (\<sigma> j') (\<sigma> (Suc j'))"
    using Suc.IH [of "Suc j"] p s by auto
  with p j(1) show ?case by (intro exI [of _ j']) (auto simp: e nth_append)
qed

section \<open>A sample cluster\<close>

definition sample_engine :: chaos_engine where
  "sample_engine = \<lparr>ce_Name = ''pod-delete'', ce_Namespace = ''litmus'', ce_UID = ''eu'',
     ce_Labels = [''context'' \<mapsto> ''ctx'', ''workflow_id'' \<mapsto> ''exp''], ce_CreationTimestamp = 5000,
     ce_EngineStatus = ''completed'',
     ce_Experiments = [\<lparr>ex_Name = ''pd'', ex_Runner = ''r'', ex_ExpPod = ''p'', ex_Verdict = ''Pass'', ex_LastUpdateTime = 9000\<rparr>]\<rparr>"

definition sample_sub_env :: sub_env where
  "sample_sub_env =
     \<lparr>GetKubeConfig = None, NewChaosClient = None, GetChaosEngine = (\<lambda>ns n. Inr sample_engine),
      GetChaosResult = (\<lambda>ns n. Inr \<lparr>cr_Annotations = [], cr_ProbeSuccessPercentage = ''100'', cr_ErrorOutput = None,
                                  cr_Phase = ''Completed''\<rparr>),
      GetLogs = (\<lambda>p ns c. Inr ''''),
      DecodeManifest = (\<lambda>d. Some \<lparr>mf_Kind = ''ChaosEngine'', mf_Name = ''pod-delete'', mf_GenerateName = '''', mf_Namespace = ''''\<rparr>),
      Now = 10000, MarshalEvent = (\<lambda>e. Inr (we_Name e)), SendRequest = (\<lambda>a p. Inr ''ok''),
      EngineStatusInitialized = ''initialized'', EngineStatusCompleted = ''completed'', EngineStatusStopped = ''stopped'',
      WorkflowRunning = ''Running'', WorkflowSucceeded = ''Succeeded'', WorkflowFailed = ''Failed'',
      WorkflowPending = ''Pending'', WorkflowError = ''Error''\<rparr>"

definition sample_workflow :: "string \<Rightarrow> int \<Rightarrow> workflow" where
  "sample_workflow input fin = \<lparr>wf_Name = ''run'', wf_Namespace = ''litmus'', wf_UID = ''u1'',
     wf_Labels = [''workflow_id'' \<mapsto> ''exp''], wf_CreationTimestamp = 4000, wf_Parameters = [], wf_Phase = ''Running'',
     wf_Message = '''', wf_StartedAt = 4000, wf_FinishedAt = fin,
     wf_Nodes = [(''n1'', \<lparr>ns_ID = ''n1'', ns_DisplayName = ''chaos'', ns_Type = ''Pod'', ns_Phase = input, ns_Message = '''',
        ns_StartedAt = 4500, ns_FinishedAt = -1, ns_Children = [], ns_Inputs = Some [Some ''engine'']\<rparr>)],
     wf_Shutdown = False\<rparr>"


abbreviation sample_infra :: "string \<Rightarrow> string" where
  "sample_infra \<equiv> (\<lambda>k. ''x'')"

definition sample_event :: workflow_event where
  "sample_event = the (projr (on_watch sample_sub_env 0 (WorkflowAdded (sample_workflow ''Running'' (-1)))))"

text \<open>The engine has disappeared when the next update of the workflow is seen.\<close>

definition sample_gone_env :: sub_env where
  "sample_gone_env = sample_sub_env\<lparr>GetChaosEngine := \<lambda>ns n. Inl ''not found''\<rparr>"

definition sample_event2 :: workflow_event where
  "sample_event2 = the (projr (on_watch sample_gone_env 0 (WorkflowAdded (sample_workflow ''Succeeded'' 9000))))"

definition sample_map :: event_map where
  "sample_map = sr_map (projr (SendWorkflowUpdates sample_sub_env sample_infra sample_event Map.empty))"

definition sample_sub_state :: sub_state where
  "sample_sub_state = \<lparr>stream = [sample_event2], eventMap = sample_map,
     posted = (case sr_request (projr (SendWorkflowUpdates sample_sub_env sample_infra sample_event Map.empty)) of
                 None \<Rightarrow> [] | Some q \<Rightarrow> [q])\<rparr>"

lemma sample_watch:
  "on_watch sample_sub_env 0 (WorkflowAdded (sample_workflow ''Running'' (-1))) = Inr (Some sample_event)"
  "on_watch sample_gone_env 0 (WorkflowAdded (sample_workflow ''Succeeded'' 9000)) = Inr (Some sample_event2)"
  by code_simp+

lemma sample_event_node:
  "we_FinishedAt sample_event = ''''" "we_UID sample_event = we_UID sample_event2" "event_ok sample_event"
  "map_option (\<lambda>n. nd_Type n = ''ChaosEngine'' \<and> nd_ChaosExp n \<noteq> None) (map_of (event_nodes sample_event) ''n1'') = Some True"
  by code_simp+

lemma sample_sent_reachable: "sub_reachable sample_infra 0 (sample_sub_state\<lparr>stream := []\<rparr>)"
proof -
  let ?s1 = "init_state\<lparr>stream := stream init_state @ [sample_event]\<rparr>"
  have 1: "sub_reachable sample_infra 0 ?s1"
    by (rule sub_reachable.step [OF sub_reachable.init], rule sub_step.watch [OF _ sample_watch(1)])
      (simp add: sample_workflow_def)
  obtain r where "SendWorkflowUpdates sample_sub_env sample_infra sample_event Map.empty = Inr r"
    using SendWorkflowUpdates_returns [OF sample_event_node(3), of Map.empty sample_sub_env sample_infra] by (auto simp: map_ok_def)
  then have "SendWorkflowUpdates sample_sub_env sample_infra sample_event (eventMap ?s1) =
     Inr (projr (SendWorkflowUpdates sample_sub_env sample_infra sample_event Map.empty))"
    by (simp add: init_state_def)
  from sub_reachable.step [OF 1 sub_step.send [OF _ this, of "[]"]] show ?thesis
    by (simp add: sample_sub_state_def sample_map_def init_state_def)
qed

lemma sample_reachable: "sub_reachable sample_infra 0 sample_sub_state"
proof -
  have "sample_sub_state = (sample_sub_state\<lparr>stream := []\<rparr>)\<lparr>stream := stream (sample_sub_state\<lparr>stream := []\<rparr>) @ [sample_event2]\<rparr>"
    by (simp add: sample_sub_state_def)
  then show ?thesis
    using sub_reachable.step [OF sample_sent_reachable sub_step.watch [OF _ sample_watch(2)]] by (simp add: sample_workflow_def)
qed

lemma sample_marshal: "\<exists>d. MarshalEvent sample_sub_env e = Inr d"
  by (simp add: sample_sub_env_def)

lemma sample_stored:
  obtains st n cd where "eventMap sample_sub_state (we_UID sample_event2) = Some st"
    "map_of (event_nodes st) ''n1'' = Some n" "nd_Type n = ''ChaosEngine''" "nd_ChaosExp n = Some cd"
proof -
  have "map_ok Map.empty" by (simp add: map_ok_def)
  then obtain r sent where s: "SendWorkflowUpdates sample_sub_env sample_infra sample_event Map.empty = Inr r"
    and u: "update_sent sample_sub_env sample_infra Map.empty sample_event sent r"
    using SendWorkflowUpdates_returns [OF sample_event_node(3), of Map.empty sample_sub_env sample_infra] by auto
  have "sr_map r = Map.empty(we_UID sample_event := Some sent)"
    by (rule update_sent_posted [OF u]) (simp_all add: sample_marshal sample_event_node(1))
  then have "eventMap sample_sub_state (we_UID sample_event2) = Some sent"
    by (simp add: sample_sub_state_def sample_map_def s sample_event_node(2))
  moreover obtain n cd where "map_of (event_nodes sample_event) ''n1'' = Some n" "nd_Type n = ''ChaosEngine''" "nd_ChaosExp n = Some cd"
    using sample_event_node(4) by auto
  moreover have "map_of (event_nodes sent) ''n1'' = map_option strip_node (map_of (event_nodes sample_event) ''n1'')"
    using u unfolding update_sent_def by (simp add: stored_node_def merged_node_def)
  ultimately show thesis using that [of sent "strip_node n" cd] by simp
qed

text \<open>An update of the unfinished run after the engine has disappeared.\<close>

definition sample_mid :: workflow_event where
  "sample_mid = the (projr (on_watch sample_gone_env 0 (WorkflowAdded (sample_workflow ''Running'' (-1)))))"

lemma sample_mid:
  "on_watch sample_gone_env 0 (WorkflowAdded (sample_workflow ''Running'' (-1))) = Inr (Some sample_mid)"
  "we_UID sample_mid = ''u1''" "we_FinishedAt sample_mid = ''''" "we_UID sample_event2 = ''u1''" "we_FinishedAt sample_event2 \<noteq> ''''"
  "map_option (\<lambda>n. (nd_Type n, nd_ChaosExp n)) (map_of (event_nodes sample_mid) ''n1'') = Some (''ChaosEngine'', None)"
  by code_simp+

lemma sample_trace:
  obtains r1 r2 s' where "sub_trace sample_infra 0 (sample_sub_state\<lparr>stream := []\<rparr>)
      [(sample_sub_env, sample_mid, r1), (sample_sub_env, sample_event2, r2)] s'"
    "SendWorkflowUpdates sample_sub_env sample_infra sample_mid sample_map = Inr r1"
    "SendWorkflowUpdates sample_sub_env sample_infra sample_event2 (sr_map r1) = Inr r2"
proof -
  let ?s0 = "sample_sub_state\<lparr>stream := []\<rparr>"
  let ?s1 = "?s0\<lparr>stream := [sample_mid]\<rparr>" and ?s2 = "?s0\<lparr>stream := [sample_mid, sample_event2]\<rparr>"
  have "sub_trace sample_infra 0 ?s0 [] ?s1"
    using sub_trace.watch [OF sub_trace.init [of sample_infra 0 ?s0] _ sample_mid(1)] by (simp add: sample_workflow_def)
  from sub_trace.watch [OF this _ sample_watch(2)] have t2: "sub_trace sample_infra 0 ?s0 [] ?s2"
    by (simp add: sample_workflow_def)
  obtain r1 where r1: "SendWorkflowUpdates sample_sub_env sample_infra sample_mid (eventMap ?s2) = Inr r1"
    using sub_reachable_send [OF sub_trace_reachable [OF t2 sample_sent_reachable]] by fastforce
  let ?s3 = "\<lparr>stream = [sample_event2], eventMap = sr_map r1, posted = posted ?s2 @ (case sr_request r1 of None \<Rightarrow> [] | Some q \<Rightarrow> [q])\<rparr>"
  have t3: "sub_trace sample_infra 0 ?s0 [(sample_sub_env, sample_mid, r1)] ?s3"
    using sub_trace.send [OF t2 _ r1, of "[sample_event2]"] by simp
  obtain r2 where r2: "SendWorkflowUpdates sample_sub_env sample_infra sample_event2 (eventMap ?s3) = Inr r2"
    using sub_reachable_send [OF sub_trace_reachable [OF t3 sample_sent_reachable]] by fastforce
  show thesis
    using that [OF _ _ r2 [simplified]] sub_trace.send [OF t3 _ r2, of "[]"] r1 by (simp add: sample_sub_state_def)
qed

section \<open>Properties\<close>

text \<open>
  C10: However the informers, the cluster, the server and the sender interleave, neither side of the channel
  panics: for objects with a UID a callback returns or exits, and the head of the channel is always
  processed. In particular no node is written into the nil map of the empty event that ignored
  workflows produce.
\<close>

theorem subscriber_never_panics:
  assumes "sub_reachable infraData startTime s"
  shows "(\<forall>env w p. watch_uid w \<noteq> '''' \<longrightarrow> on_watch env startTime w \<noteq> Inl (Panicked p)) \<and>
    (\<forall>env e es. stream s = e # es \<longrightarrow> (\<exists>r. SendWorkflowUpdates env infraData e (eventMap s) = Inr r))"
proof (intro conjI allI impI)
  fix env e es assume "stream s = e # es"
  then show "\<exists>r. SendWorkflowUpdates env infraData e (eventMap s) = Inr r"
    using sub_reachable_send [OF assms, of e es env] by auto
qed (rule on_watch_ok(1))

theorem subscriber_never_panics_witness:
  "\<exists>r. SendWorkflowUpdates sample_gone_env sample_infra sample_event2 (eventMap sample_sub_state) = Inr r"
proof -
  have "stream sample_sub_state = [sample_event2]" by (simp add: sample_sub_state_def)
  then show ?thesis using subscriber_never_panics [OF sample_reachable] by blast
qed

text \<open>
  The update sent for an event. In every reachable state the payload posted is that of the event with only
  its nodes and phase changed: each node is the merge of the stored and the new entry (chaos data,
  phase and message are kept from the stored one when the new one has no chaos data; running and pending nodes of a
  stopped run become Stopped), without quotes in messages, independent of the iteration order of the
  map; the phase is the experiment status; the run is marked completed, and its
  entry dropped from the map, exactly if the event has a finish time.
\<close>

theorem run_report:
  assumes "sub_reachable infraData startTime s" "stream s = e # es" "\<forall>e'. \<exists>d. MarshalEvent env e' = Inr d"
  shows "\<exists>r sent p. SendWorkflowUpdates env infraData e (eventMap s) = Inr r \<and>
    payload env infraData (if we_FinishedAt e = '''' then ''false'' else ''true'') sent = Inr p \<and>
    sr_request r = Some (infraData ''SERVER_ADDR'', p) \<and>
    sr_map r = (eventMap s)(we_UID e := if we_FinishedAt e = '''' then Some sent else None) \<and>
    sent = e\<lparr>we_Nodes := we_Nodes sent, we_Phase := we_Phase sent\<rparr> \<and>
    (\<forall>k. map_of (event_nodes sent) k = map_option strip_node
       (merged_node (we_Phase e = ''Stopped'') (stored_node (eventMap s) (we_UID e) k) (map_of (event_nodes e) k))) \<and>
    we_Phase sent = fst (getExperimentStatus (sent\<lparr>we_Phase := we_Phase e\<rparr>))"
proof -
  obtain r sent where s: "SendWorkflowUpdates env infraData e (eventMap s) = Inr r"
    and u: "update_sent env infraData (eventMap s) e sent r"
    using sub_reachable_send [OF assms(1,2), of env] by auto
  obtain p where p: "payload env infraData (if we_FinishedAt e = '''' then ''false'' else ''true'') sent = Inr p"
      "sr_request r = Some (infraData ''SERVER_ADDR'', p)"
      "sr_map r = (eventMap s)(we_UID e := if we_FinishedAt e = '''' then Some sent else None)"
    by (rule update_sent_posted [OF u assms(3)])
  show ?thesis
    by (intro exI conjI) (rule s p u [unfolded update_sent_def, THEN conjunct2, THEN conjunct1]
      u [unfolded update_sent_def, THEN conjunct2, THEN conjunct2, THEN conjunct1]
      u [unfolded update_sent_def, THEN conjunct2, THEN conjunct2, THEN conjunct2, THEN conjunct1])+
qed

theorem run_report_witness:
  "\<exists>r sent p. SendWorkflowUpdates sample_sub_env sample_infra sample_event2 sample_map = Inr r \<and>
    payload sample_sub_env sample_infra ''true'' sent = Inr p \<and> sr_request r = Some (''x'', p) \<and>
    sr_map r = sample_map(''u1'' := None)"
proof -
  have "stream sample_sub_state = [sample_event2]" "eventMap sample_sub_state = sample_map"
    by (simp_all add: sample_sub_state_def)
  moreover have "we_FinishedAt sample_event2 \<noteq> ''''" "we_UID sample_event2 = ''u1''" by code_simp+
  ultimately show ?thesis
    using run_report [OF sample_reachable, of sample_event2 "[]" sample_sub_env] sample_marshal by auto
qed

text \<open>
  C11: The chaos data of a run is not lost while the run lists its engines. Let the stored event of a run have chaos data for a node that is a chaos engine.
  Take any later update of the run, such that every update of the run before it was of an unfinished run and listed the node as a chaos engine.
  It has chaos data for the node: the latest that it or an update before it brought, else the stored one, although the
  engine may be gone by then. It is posted unless it cannot be marshalled.
\<close>

theorem chaos_data_survives:
  assumes "sub_reachable infraData startTime s" "sub_trace infraData startTime s tr s'"
    and "eventMap s u = Some st" "map_of (event_nodes st) k = Some n"
    and "nd_Type n = ''ChaosEngine''" "nd_ChaosExp n = Some cd"
    and "tr = before @ (env, e, r) # after" "we_UID e = u"
    and "\<forall>(env', e', r')\<in>set before. we_UID e' = u \<longrightarrow> we_FinishedAt e' = '''' \<and>
      (\<exists>n'. map_of (event_nodes e') k = Some n' \<and> nd_Type n' = ''ChaosEngine'')"
  shows "\<exists>sent n'. sent = e\<lparr>we_Nodes := we_Nodes sent, we_Phase := we_Phase sent\<rparr> \<and> map_of (event_nodes sent) k = Some n' \<and>
    nd_ChaosExp n' = Some (latest_data u k cd (trace_events before @ [e])) \<and>
    (case MarshalEvent env sent of
       Inl err \<Rightarrow> sr_request r = None
     | Inr d \<Rightarrow> \<exists>p. payload env infraData (if we_FinishedAt e = '''' then ''false'' else ''true'') sent = Inr p \<and>
         sr_request r = Some (infraData ''SERVER_ADDR'', p))"
proof -
  obtain s1 es where s1: "sub_trace infraData startTime s before s1" "stream s1 = e # es" "SendWorkflowUpdates env infraData e (eventMap s1) = Inr r"
    using sub_trace_split [OF assms(2,7)] by blast
  have "engine_stored (eventMap s) u k cd" using assms(3-6) by (simp add: engine_stored_def stored_node_def)
  moreover have "\<forall>(env', e', r')\<in>set before. we_UID e' = u \<longrightarrow> we_FinishedAt e' = '''' \<and> lists_engine k e'"
    using assms(9) by (fastforce simp: lists_engine_def)
  ultimately have st: "engine_stored (eventMap s1) u k (latest_data u k cd (trace_events before))" by (rule trace_keeps_engine [OF s1(1) assms(1)])
  obtain sent where up: "update_sent env infraData (eventMap s1) e sent r"
    using sub_reachable_send [OF sub_trace_reachable [OF s1(1) assms(1)] s1(2), of env] s1(3) by auto
  obtain n' where n': "map_of (event_nodes sent) k = Some n'" "nd_ChaosExp n' = Some (latest_data u k cd (trace_events before @ [e]))"
    using update_keeps_engine(1) [OF up] st assms(8) by (auto simp: latest_data_append)
  have "case MarshalEvent env sent of Inl err \<Rightarrow> sr_request r = None
     | Inr d \<Rightarrow> \<exists>p. payload env infraData (if we_FinishedAt e = '''' then ''false'' else ''true'') sent = Inr p \<and>
         sr_request r = Some (infraData ''SERVER_ADDR'', p)"
    by (rule update_sent_marshal [OF up])
  moreover have "sent = e\<lparr>we_Nodes := we_Nodes sent, we_Phase := we_Phase sent\<rparr>" using up unfolding update_sent_def by blast
  ultimately show ?thesis using n' by blast
qed

theorem chaos_data_survives_witness:
  "\<exists>r1 r2 sent n' p. SendWorkflowUpdates sample_sub_env sample_infra sample_mid sample_map = Inr r1 \<and>
    SendWorkflowUpdates sample_sub_env sample_infra sample_event2 (sr_map r1) = Inr r2 \<and>
    map_of (event_nodes sent) ''n1'' = Some n' \<and> nd_ChaosExp n' \<noteq> None \<and>
    payload sample_sub_env sample_infra ''true'' sent = Inr p \<and> sr_request r2 = Some (''x'', p)"
proof -
  obtain st n cd where st: "eventMap sample_sub_state (we_UID sample_event2) = Some st"
    "map_of (event_nodes st) ''n1'' = Some n" "nd_Type n = ''ChaosEngine''" "nd_ChaosExp n = Some cd"
    by (rule sample_stored)
  obtain r1 r2 s' where tr: "sub_trace sample_infra 0 (sample_sub_state\<lparr>stream := []\<rparr>)
      [(sample_sub_env, sample_mid, r1), (sample_sub_env, sample_event2, r2)] s'"
    and r: "SendWorkflowUpdates sample_sub_env sample_infra sample_mid sample_map = Inr r1"
    "SendWorkflowUpdates sample_sub_env sample_infra sample_event2 (sr_map r1) = Inr r2"
    by (rule sample_trace)
  have "\<exists>sent n'. sent = sample_event2\<lparr>we_Nodes := we_Nodes sent, we_Phase := we_Phase sent\<rparr> \<and> map_of (event_nodes sent) ''n1'' = Some n' \<and>
    nd_ChaosExp n' = Some (latest_data (we_UID sample_event2) ''n1'' cd (trace_events [(sample_sub_env, sample_mid, r1)] @ [sample_event2])) \<and>
    (case MarshalEvent sample_sub_env sent of
       Inl err \<Rightarrow> sr_request r2 = None
     | Inr d \<Rightarrow> \<exists>p. payload sample_sub_env sample_infra (if we_FinishedAt sample_event2 = '''' then ''false'' else ''true'') sent = Inr p \<and>
         sr_request r2 = Some (sample_infra ''SERVER_ADDR'', p))"
    using st(1) sample_mid(3,6) by (intro chaos_data_survives [OF sample_sent_reachable tr _ st(2-4), where after = "[]"]) auto
  then obtain sent n' where n': "map_of (event_nodes sent) ''n1'' = Some n'"
    "nd_ChaosExp n' = Some (latest_data (we_UID sample_event2) ''n1'' cd (trace_events [(sample_sub_env, sample_mid, r1)] @ [sample_event2]))"
    "case MarshalEvent sample_sub_env sent of Inl err \<Rightarrow> sr_request r2 = None
     | Inr d \<Rightarrow> \<exists>p. payload sample_sub_env sample_infra (if we_FinishedAt sample_event2 = '''' then ''false'' else ''true'') sent = Inr p \<and>
         sr_request r2 = Some (''x'', p)"
    by blast
  obtain d where "MarshalEvent sample_sub_env sent = Inr d" using sample_marshal by blast
  then obtain p where "payload sample_sub_env sample_infra ''true'' sent = Inr p" "sr_request r2 = Some (''x'', p)"
    using n'(3) sample_mid(5) by auto
  with r n'(1,2) show ?thesis by auto
qed

text \<open>
  The premise on the updates in between cannot be dropped. If an update of the run does not have the node, the merge stores it with the chaos data but
  without a type; it is not a chaos engine any more, so the merge after it takes the new node as it is, and the data is lost.
\<close>

lemma missing_node_loses_data:
  assumes "nd_Type n = ''ChaosEngine''" "nd_ChaosExp n = Some cd"
  shows "\<exists>n'. merged_node False (Some n) None = Some n' \<and> nd_ChaosExp n' = Some cd \<and> nd_Type n' = '''' \<and>
    merged_node False (Some n') (Some new) = Some new"
  using assms by (simp add: merged_node_def zero_node_def Let_def)

lemma chaos_data_lost:
  "let r1 = projr (SendWorkflowUpdates sample_sub_env sample_infra (sample_mid\<lparr>we_Nodes := Some []\<rparr>) sample_map);
       r2 = projr (SendWorkflowUpdates sample_sub_env sample_infra sample_mid (sr_map r1))
   in map_option nd_Type (map_of (event_nodes (the (sr_map r1 ''u1''))) ''n1'') = Some '''' \<and>
      map_option nd_ChaosExp (map_of (event_nodes (the (sr_map r2 ''u1''))) ''n1'') = Some None"
  by code_simp

text \<open>
  The status of an experiment. A run without a phase is an error; a stopped or unfinished run keeps its
  phase; a finished run is Error if any node has the phase Error or is a chaos engine without chaos data, else
  Completed with probe failure if some node is, else its own phase, whatever the order of the
  nodes.
\<close>

theorem experiment_verdict:
  "getExperimentStatus e =
    (if we_Phase e = '''' then ('''', Some ''status is invalid'')
     else if we_Phase e = ''Stopped'' \<or> we_FinishedAt e = '''' then (we_Phase e, None)
     else if \<exists>(k, n)\<in>set (event_nodes e). node_error n then (''Error'', None)
     else if \<exists>(k, n)\<in>set (event_nodes e). nd_Phase n = FaultCompletedWithProbeFailure
     then (FaultCompletedWithProbeFailure, None) else (we_Phase e, None))"
proof (cases "we_Phase e \<noteq> '''' \<and> we_Phase e \<noteq> ''Stopped'' \<and> we_FinishedAt e \<noteq> ''''")
  case True
  then show ?thesis by (simp add: getExperimentStatus_finished)
next
  case False
  then show ?thesis by (auto simp: getExperimentStatus_def)
qed



end
