(* ===== verification/Event_Tracker.thy ===== *)
theory Event_Tracker
  imports Go_Strings
begin

text \<open>
  The event tracker (\<^verbatim>\<open>event-tracker\<close>). Informers watch workloads; for an annotated workload that
  changed, \<^verbatim>\<open>PolicyAuditor\<close> evaluates the conditions of every event-tracker policy and appends a pending
  trigger to the policies that match. \<^verbatim>\<open>Reconcile\<close> claims the pending triggers of a policy,
  asks the GraphQL server to start the experiment for each, and releases the claims that failed.

  The Kubernetes API, JMESPath and the HTTP client are parameters. The concurrent runs of
  \<^verbatim>\<open>Reconcile\<close> and of the auditor are a step relation over the API server's optimistic concurrency.
\<close>

section \<open>Data\<close>

record condition =
  c_Key :: string
  c_Value :: "string option"
  c_Operator :: string

record policy_status =
  s_TimeStamp :: string
  s_Resource :: string
  s_ResourceName :: string
  s_Result :: string
  s_ExperimentID :: string
  s_IsTriggered :: string

record policy =
  p_Name :: string
  p_ConditionType :: string
  p_Conditions :: "condition list"
  p_Statuses :: "policy_status list"

definition ConditionPassed :: string where
  "ConditionPassed = ''ConditionPassed''"

text \<open>A decoded JSON value. A number is written the way \<^verbatim>\<open>%v\<close> prints the float.\<close>

datatype json = JNull | JBool bool | JNumber string | JString string | JArray "json list" | JObject "(string \<times> json) list"

text \<open>Comparing interface values: slices and maps of the same type are not comparable.\<close>

fun go_neq :: "json \<Rightarrow> json \<Rightarrow> bool go" where
  "go_neq (JArray xs) (JArray ys) = Inl UncomparableType"
| "go_neq (JObject xs) (JObject ys) = Inl UncomparableType"
| "go_neq x y = Inr (x \<noteq> y)"

fun join :: "string \<Rightarrow> string list \<Rightarrow> string" where
  "join sep [] = ''''"
| "join sep [x] = x"
| "join sep (x # xs) = x @ sep @ join sep xs"

text \<open>\<^verbatim>\<open>fmt.Sprintf("%v", x)\<close>; the keys of a map are printed in order.\<close>

fun sprint_v :: "json \<Rightarrow> string" where
  "sprint_v JNull = ''<nil>''"
| "sprint_v (JBool b) = (if b then ''true'' else ''false'')"
| "sprint_v (JNumber n) = n"
| "sprint_v (JString s) = s"
| "sprint_v (JArray xs) = ''['' @ join '' '' (map sprint_v xs) @ '']''"
| "sprint_v (JObject kvs) =
     ''map['' @ join '' '' (map (\<lambda>(k, v). k @ '':'' @ v) (sort_key fst (map (\<lambda>(k, v). (k, sprint_v v)) kvs))) @ '']''"

section \<open>Conditions\<close>

definition cases_op :: "string \<Rightarrow> string \<Rightarrow> string \<Rightarrow> bool" where
  "cases_op key v operator =
     (if operator = ''EqualTo'' then key = v
      else if operator = ''NotEqualTo'' then key \<noteq> v
      else if operator = ''LessThan'' then key < v
      else if operator = ''GreaterThan'' then key > v
      else if operator = ''GreaterThanEqualTo'' then key \<ge> v
      else if operator = ''LessThanEqualTo'' then key \<le> v
      else False)"

text \<open>The comparison of the two results of a condition: unchanged, or changed with an outcome.\<close>

datatype outcome = Unchanged | Outcome bool

definition compare_results :: "condition \<Rightarrow> json \<Rightarrow> json \<Rightarrow> outcome go" where
  "compare_results c new old =
     (case go_neq new old of
        Inl p \<Rightarrow> Inl p
      | Inr False \<Rightarrow> Inr Unchanged
      | Inr True \<Rightarrow>
          if c_Operator c = ''Change'' then Inr (Outcome True)
          else case c_Value c of
            None \<Rightarrow> Inl NilDereference
          | Some v \<Rightarrow> Inr (Outcome (cases_op (sprint_v new) v (c_Operator c))))"

text \<open>\<^verbatim>\<open>search\<close> is \<^verbatim>\<open>jmespath.Search\<close>; a failed search returns a nil value beside the error.\<close>

fun check_and :: "(string \<Rightarrow> json \<Rightarrow> string + json) \<Rightarrow> json \<Rightarrow> json \<Rightarrow> condition list \<Rightarrow> bool \<Rightarrow> bool go" where
  "check_and search new old [] finalResult = Inr finalResult"
| "check_and search new old (c # cs) finalResult =
     (case search (c_Key c) new of
        Inl err \<Rightarrow> Inr False
      | Inr n \<Rightarrow> (case search (c_Key c) old of
          Inl err \<Rightarrow> Inr False
        | Inr o' \<Rightarrow> (case compare_results c n o' of
            Inl p \<Rightarrow> Inl p
          | Inr Unchanged \<Rightarrow> check_and search new old cs finalResult
          | Inr (Outcome True) \<Rightarrow> check_and search new old cs True
          | Inr (Outcome False) \<Rightarrow> Inr False)))"

fun check_or :: "(string \<Rightarrow> json \<Rightarrow> string + json) \<Rightarrow> json \<Rightarrow> json \<Rightarrow> condition list \<Rightarrow> bool \<Rightarrow> bool go" where
  "check_or search new old [] finalResult = Inr finalResult"
| "check_or search new old (c # cs) finalResult =
     (let n = (case search (c_Key c) new of Inl err \<Rightarrow> JNull | Inr n \<Rightarrow> n)
      in case search (c_Key c) old of
          Inl err \<Rightarrow> Inr False
        | Inr o' \<Rightarrow> (case compare_results c n o' of
            Inl p \<Rightarrow> Inl p
          | Inr (Outcome True) \<Rightarrow> check_or search new old cs True
          | Inr _ \<Rightarrow> check_or search new old cs finalResult))"

definition conditionChecker :: "(string \<Rightarrow> json \<Rightarrow> string + json) \<Rightarrow> policy \<Rightarrow> json \<Rightarrow> json \<Rightarrow> bool go" where
  "conditionChecker search etp new old =
     (if p_ConditionType etp = ''and'' then check_and search new old (p_Conditions etp) False
      else if p_ConditionType etp = ''or'' then check_or search new old (p_Conditions etp) False
      else Inr False)"

section \<open>The auditor\<close>

text \<open>A watched workload: its Go type, and what the code reads of it.\<close>

record workload =
  w_GoType :: string
  w_Name :: string
  w_ResourceVersion :: string
  w_Annotations :: "string \<rightharpoonup> string"
  w_Object :: json

text \<open>
  The API of the cluster on a state \<^verbatim>\<open>'s\<close>: how a client is made, the policies by name, updates.
  \<^verbatim>\<open>MarshalWorkload\<close> is \<^verbatim>\<open>json.Marshal\<close> followed by \<^verbatim>\<open>json.Unmarshal\<close>.
\<close>

record 's et_api =
  NewClient :: "string option"
  ListPolicies :: "'s \<Rightarrow> string + string list"
  GetPolicy :: "string \<Rightarrow> 's \<Rightarrow> string + policy"
  UpdatePolicy :: "policy \<Rightarrow> 's \<Rightarrow> string option \<times> 's"
  MarshalWorkload :: "workload \<Rightarrow> string + json"
  Search :: "string \<Rightarrow> json \<Rightarrow> string + json"
  NowRFC850 :: string

datatype audit_result = AuditPanic go_panic | AuditError string | AuditOk

definition new_status :: "string \<Rightarrow> string \<Rightarrow> string \<Rightarrow> string \<Rightarrow> policy_status" where
  "new_status now resourceType resourceName experimentId =
     \<lparr>s_TimeStamp = now, s_Resource = resourceType, s_ResourceName = resourceName, s_Result = ConditionPassed,
      s_ExperimentID = experimentId, s_IsTriggered = ''false''\<rparr>"

text \<open>The Go type a resource type is asserted to have, by the switch on its lower-case form.\<close>

definition resource_kind :: "string \<Rightarrow> string option" where
  "resource_kind resourceType =
     (let expr = toLower resourceType
      in if expr = ''deployment'' then Some ''Deployment''
         else if expr = ''statefulset'' then Some ''StatefulSet''
         else if expr = ''daemonset'' then Some ''DaemonSet''
         else None)"

text \<open>Both objects as JSON, with the errors and failed type assertions in the order of the code.\<close>

definition load_objects :: "'s et_api \<Rightarrow> string \<Rightarrow> workload \<Rightarrow> workload \<Rightarrow> audit_result + json \<times> json" where
  "load_objects api resourceType newObj oldObj =
     (case resource_kind resourceType of
        None \<Rightarrow> Inl (AuditError ''resource not supported'')
      | Some k \<Rightarrow>
          if w_GoType newObj \<noteq> k then Inl (AuditPanic TypeAssertion)
          else case MarshalWorkload api newObj of
            Inl err \<Rightarrow> Inl (AuditError err)
          | Inr n \<Rightarrow>
              if w_GoType oldObj \<noteq> k then Inl (AuditPanic TypeAssertion)
              else case MarshalWorkload api oldObj of Inl err \<Rightarrow> Inl (AuditError err) | Inr o' \<Rightarrow> Inr (n, o'))"

fun audit_policies ::
  "'s et_api \<Rightarrow> string \<Rightarrow> workload \<Rightarrow> workload \<Rightarrow> string \<Rightarrow> string list \<Rightarrow> 's \<Rightarrow> audit_result \<times> 's" where
  "audit_policies api resourceType newObj oldObj experimentId [] s = (AuditOk, s)"
| "audit_policies api resourceType newObj oldObj experimentId (ep # eps) s =
     (case GetPolicy api ep s of
        Inl err \<Rightarrow> (AuditError err, s)
      | Inr etp \<Rightarrow> (case load_objects api resourceType newObj oldObj of
          Inl r \<Rightarrow> (r, s)
        | Inr (n, o') \<Rightarrow> (case conditionChecker (Search api) etp n o' of
            Inl p \<Rightarrow> (AuditPanic p, s)
          | Inr False \<Rightarrow> audit_policies api resourceType newObj oldObj experimentId eps s
          | Inr True \<Rightarrow>
              (case UpdatePolicy api (etp\<lparr>p_Statuses := p_Statuses etp @
                      [new_status (NowRFC850 api) resourceType (w_Name newObj) experimentId]\<rparr>) s of
                 (Some err, s') \<Rightarrow> (AuditError err, s')
               | (None, s') \<Rightarrow> audit_policies api resourceType newObj oldObj experimentId eps s'))))"

definition PolicyAuditor ::
  "'s et_api \<Rightarrow> string \<Rightarrow> workload \<Rightarrow> workload \<Rightarrow> string \<Rightarrow> 's \<Rightarrow> audit_result \<times> 's" where
  "PolicyAuditor api resourceType newObj oldObj experimentId s =
     (case NewClient api of
        Some err \<Rightarrow> (AuditError err, s)
      | None \<Rightarrow> (case ListPolicies api s of
          Inl err \<Rightarrow> (AuditError err, s)
        | Inr names \<Rightarrow> audit_policies api resourceType newObj oldObj experimentId names s))"

text \<open>The update callback of the three informers, which differ in the type they watch.\<close>

definition annotation :: "workload \<Rightarrow> string \<Rightarrow> string" where
  "annotation w k = (case w_Annotations w k of None \<Rightarrow> '''' | Some v \<Rightarrow> v)"

definition on_update :: "'s et_api \<Rightarrow> (workload \<Rightarrow> workload \<Rightarrow> bool) \<Rightarrow> string \<Rightarrow> workload \<Rightarrow> workload \<Rightarrow> 's \<Rightarrow> audit_result \<times> 's" where
  "on_update api deepEqual kind oldObj newObj s =
     (if w_GoType newObj \<noteq> kind \<or> w_GoType oldObj \<noteq> kind then (AuditPanic TypeAssertion, s)
      else
        let experimentId = annotation newObj ''litmuschaos.io/experimentId''
        in if w_ResourceVersion newObj \<noteq> w_ResourceVersion oldObj \<and> \<not> deepEqual newObj oldObj \<and>
              annotation newObj ''litmuschaos.io/gitops'' = ''true'' \<and> experimentId \<noteq> ''''
           then PolicyAuditor api kind newObj oldObj experimentId s
           else (AuditOk, s))"

section \<open>Requests to the server\<close>

text \<open>
  \<^verbatim>\<open>he_ConfigMap\<close> and \<^verbatim>\<open>he_Secret\<close> are the data of the two objects; \<^verbatim>\<open>he_Post\<close> posts a payload to an
  address: the request cannot be built, the call fails, or it has a status and a body that may not be
  readable.
\<close>

record http_env =
  he_K8sClient :: "string option"
  he_ConfigMap :: "string + (string \<Rightarrow> string)"
  he_Secret :: "string + (string \<Rightarrow> string)"
  he_Version :: string
  he_NewRequest :: "string \<Rightarrow> string option"
  he_Post :: "string \<Rightarrow> string \<Rightarrow> string + (int \<times> (string + string))"

definition getInfraData :: "http_env \<Rightarrow> string + (string \<times> string \<times> string)" where
  "getInfraData env =
     (case he_K8sClient env of
        Some err \<Rightarrow> Inl (''failed to get Kubernetes clientset: '' @ err)
      | None \<Rightarrow> (case he_ConfigMap env of
          Inl err \<Rightarrow> Inl (''failed to get ConfigMap: '' @ err)
        | Inr cm \<Rightarrow>
            if cm ''IS_INFRA_CONFIRMED'' \<noteq> ''true'' then Inl ''infrastructure not confirmed''
            else case he_Secret env of
              Inl err \<Rightarrow> Inl (''failed to get Secret: '' @ err)
            | Inr sec \<Rightarrow> Inr (sec ''ACCESS_KEY'', sec ''INFRA_ID'', cm ''SERVER_ADDR'')))"

definition esc :: "string \<Rightarrow> string" where
  "esc s = [CHR 0x5C, CHR 0x22] @ s @ [CHR 0x5C, CHR 0x22]"

definition gitops_payload :: "string \<Rightarrow> string \<Rightarrow> string \<Rightarrow> string \<Rightarrow> string" where
  "gitops_payload clusterID version accessKey experimentId =
     ''{'' @ [CHR 0x22] @ ''query'' @ [CHR 0x22] @ '': '' @ [CHR 0x22] @ ''mutation { gitopsNotifier(clusterInfo: { infraID: ''
     @ esc clusterID @ '', version: '' @ esc version @ '', accessKey: '' @ esc accessKey @ ''}, experimentID: ''
     @ esc experimentId @ '')'' @ [CHR 0x5C] @ ''n}'' @ [CHR 0x22] @ ''}''"

definition SendRequest :: "http_env \<Rightarrow> string \<Rightarrow> string + string" where
  "SendRequest env experimentId =
     (case getInfraData env of
        Inl err \<Rightarrow> Inl (''failed to get infra data: '' @ err)
      | Inr (accessKey, clusterID, serverAddr) \<Rightarrow>
          (case he_NewRequest env serverAddr of
             Some err \<Rightarrow> Inl (''failed to create request: '' @ err)
           | None \<Rightarrow>
               (case he_Post env serverAddr (gitops_payload clusterID (he_Version env) accessKey experimentId) of
                  Inl err \<Rightarrow> Inl (''failed to send request: '' @ err)
                | Inr (status, body) \<Rightarrow>
                    if status \<noteq> 200 then Inr ''URL is not reachable or Bad request''
                    else case body of Inl err \<Rightarrow> Inl (''failed to read response body: '' @ err) | Inr b \<Rightarrow> Inr b)))"

section \<open>Reconciliation\<close>

definition pending :: "policy_status \<Rightarrow> bool" where
  "pending s \<longleftrightarrow> s_Result s = ConditionPassed \<and> toLower (s_IsTriggered s) = ''false''"

text \<open>Phase 1: the statuses with every pending trigger claimed, and the claimed experiments in order.\<close>

fun claim_statuses :: "policy_status list \<Rightarrow> policy_status list \<times> string list" where
  "claim_statuses [] = ([], [])"
| "claim_statuses (s # ss) =
     (let (ss', claimed) = claim_statuses ss
      in if pending s then (s\<lparr>s_IsTriggered := ''true''\<rparr> # ss', s_ExperimentID s # claimed) else (s # ss', claimed))"

text \<open>
  Phase 2: one request per claim. \<^verbatim>\<open>send\<close> is the call of \<^verbatim>\<open>SendRequest\<close> for that experiment and \<^verbatim>\<open>parse\<close>
  the decoding of the response, giving the notifier field. The experiments to release and the last error.
\<close>

datatype send_outcome = Triggered | GitopsDisabled | SendFailed string

definition response_outcome :: "(string \<Rightarrow> string + string) \<Rightarrow> string + string \<Rightarrow> send_outcome" where
  "response_outcome parse response =
     (case response of
        Inl err \<Rightarrow> SendFailed err
      | Inr body \<Rightarrow> (case parse body of
          Inl err \<Rightarrow> SendFailed err
        | Inr notifier \<Rightarrow> if notifier = ''Gitops Disabled'' then GitopsDisabled else Triggered))"

fun dispatch :: "(string \<Rightarrow> send_outcome) \<Rightarrow> string list \<Rightarrow> string list \<Rightarrow> string option \<Rightarrow> string list \<times> string option" where
  "dispatch send [] toRevert err = (toRevert, err)"
| "dispatch send (x # xs) toRevert err =
     (case send x of
        SendFailed e \<Rightarrow> dispatch send xs (toRevert @ [x]) (Some e)
      | GitopsDisabled \<Rightarrow> dispatch send xs (toRevert @ [x]) err
      | Triggered \<Rightarrow> dispatch send xs toRevert err)"

text \<open>Phase 3: release the claims of the given experiments.\<close>

definition reverts :: "string list \<Rightarrow> policy_status \<Rightarrow> bool" where
  "reverts toRevert s \<longleftrightarrow> s_ExperimentID s \<in> set toRevert \<and> toLower (s_IsTriggered s) = ''true''"

definition revert_statuses :: "string list \<Rightarrow> policy_status list \<Rightarrow> policy_status list" where
  "revert_statuses toRevert ss = map (\<lambda>s. if reverts toRevert s then s\<lparr>s_IsTriggered := ''false''\<rparr> else s) ss"

section \<open>The API server and the concurrent loops\<close>

text \<open>
  The API server keeps the statuses of the policy with a resource version; an update succeeds only if it
  carries the current version. Each run of \<^verbatim>\<open>Reconcile\<close> is a loop in one of the states below, where \<^verbatim>\<open>nat\<close> is the
  number of attempts \<^verbatim>\<open>retry.RetryOnConflict\<close> has left.
\<close>

datatype loop =
    Idle
  | ClaimGet nat
  | ClaimUpdate nat nat "policy_status list" "string list"
  | Dispatching "string list" "string list" "string option"
  | RevertGet nat "string list" "string option"
  | RevertUpdate nat nat "policy_status list" "string list" "string option"
  | Returned "string option"

record et_state =
  stored :: "(nat \<times> policy_status list) option"
  loops :: "loop list"
  requests :: "string list"

definition retry_steps :: nat where
  "retry_steps = 4"

text \<open>
  One step of one loop, given what the server answers to a request for an experiment and whether the
  API server fails the call with an error that is neither \<^verbatim>\<open>NotFound\<close> nor \<^verbatim>\<open>Conflict\<close>.
\<close>

fun loop_step :: "(string \<Rightarrow> send_outcome) \<Rightarrow> string option \<Rightarrow> loop \<Rightarrow> (nat \<times> policy_status list) option
    \<Rightarrow> loop \<times> (nat \<times> policy_status list) option \<times> string list" where
  "loop_step send fault Idle st = (ClaimGet retry_steps, st, [])"
| "loop_step send fault (ClaimGet k) st =
     (case fault of Some e \<Rightarrow> (Returned (Some e), st, [])
      | None \<Rightarrow> (case st of
          None \<Rightarrow> (Dispatching [] [] None, st, [])
        | Some (v, ss) \<Rightarrow>
            let (ss', claimed) = claim_statuses ss
            in if claimed = [] then (Dispatching [] [] None, st, []) else (ClaimUpdate k v ss' claimed, st, [])))"
| "loop_step send fault (ClaimUpdate k v ss' claimed) st =
     (case fault of Some e \<Rightarrow> (Returned (Some e), st, [])
      | None \<Rightarrow> (case st of
          None \<Rightarrow> (Returned (Some ''not found''), st, [])
        | Some (v', ss) \<Rightarrow>
            if v' = v then (Dispatching claimed [] None, Some (v + 1, ss'), [])
            else if k \<le> 1 then (Returned (Some ''conflict''), st, []) else (ClaimGet (k - 1), st, [])))"
| "loop_step send fault (Dispatching [] toRevert err) st =
     (if toRevert = [] then Returned err else RevertGet retry_steps toRevert err, st, [])"
| "loop_step send fault (Dispatching (x # xs) toRevert err) st =
     (case send x of
        SendFailed e \<Rightarrow> (Dispatching xs (toRevert @ [x]) (Some e), st, [x])
      | GitopsDisabled \<Rightarrow> (Dispatching xs (toRevert @ [x]) err, st, [x])
      | Triggered \<Rightarrow> (Dispatching xs toRevert err, st, [x]))"
| "loop_step send fault (RevertGet k toRevert err) st =
     (case fault of Some e \<Rightarrow> (Returned (Some e), st, [])
      | None \<Rightarrow> (case st of
          None \<Rightarrow> (Returned err, st, [])
        | Some (v, ss) \<Rightarrow>
            if list_ex (reverts toRevert) ss then (RevertUpdate k v (revert_statuses toRevert ss) toRevert err, st, [])
            else (Returned err, st, [])))"
| "loop_step send fault (RevertUpdate k v ss' toRevert err) st =
     (case fault of Some e \<Rightarrow> (Returned (Some e), st, [])
      | None \<Rightarrow> (case st of
          None \<Rightarrow> (Returned (Some ''not found''), st, [])
        | Some (v', ss) \<Rightarrow>
            if v' = v then (Returned err, Some (v + 1, ss'), [])
            else if k \<le> 1 then (Returned (Some ''conflict''), st, []) else (RevertGet (k - 1) toRevert err, st, [])))"
| "loop_step send fault (Returned err) st = (Idle, st, [])"

text \<open>One \<^verbatim>\<open>Reconcile\<close> that nothing interrupts; \<^verbatim>\<open>None\<close> if the bound on its steps were too small.\<close>

fun run_loop :: "nat \<Rightarrow> (string \<Rightarrow> send_outcome) \<Rightarrow> loop \<Rightarrow> (nat \<times> policy_status list) option \<Rightarrow> string list
    \<Rightarrow> (string option \<times> (nat \<times> policy_status list) option \<times> string list) option" where
  "run_loop n send (Returned err) st out = Some (err, st, out)"
| "run_loop 0 send l st out = None"
| "run_loop (Suc n) send l st out =
     (case loop_step send None l st of (l', st', out') \<Rightarrow> run_loop n send l' st' (out @ out'))"

definition Reconcile :: "(string \<Rightarrow> send_outcome) \<Rightarrow> (nat \<times> policy_status list) option
    \<Rightarrow> (string option \<times> (nat \<times> policy_status list) option \<times> string list) option" where
  "Reconcile send st = run_loop (case st of None \<Rightarrow> 6 | Some (v, ss) \<Rightarrow> length ss + 6) send Idle st []"

text \<open>
  The steps of the system: a loop moves, or the auditor appends a pending trigger with the version it read.
  \<^verbatim>\<open>allowed\<close> restricts what the server answers.
\<close>

inductive et_step :: "((string \<Rightarrow> send_outcome) \<Rightarrow> bool) \<Rightarrow> et_state \<Rightarrow> et_state \<Rightarrow> bool"
  for allowed :: "(string \<Rightarrow> send_outcome) \<Rightarrow> bool" where
  loop: "allowed send \<Longrightarrow> i < length (loops s) \<Longrightarrow> loop_step send fault (loops s ! i) (stored s) = (l, st, out) \<Longrightarrow>
    et_step allowed s \<lparr>stored = st, loops = (loops s)[i := l], requests = requests s @ out\<rparr>"
| audit: "stored s = Some (v, ss) \<Longrightarrow>
    et_step allowed s (s\<lparr>stored := Some (v + 1, ss @ [new_status now kind name experimentId])\<rparr>)"

end
