(* ===== verification/Event_Tracker_Props.thy ===== *)
theory Event_Tracker_Props
  imports Event_Tracker
begin

text \<open>
  Properties of the event tracker: when a policy matches a change, that concurrent reconcilers send one request for every
  claim of a trigger and release none the server accepts, what one
  reconciliation does, and how the release of a failed claim affects older triggers.
\<close>

section \<open>Conditions\<close>

lemma check_and_True:
  "check_and search new old cs b = Inr True \<longleftrightarrow>
     (\<forall>c\<in>set cs. \<exists>n o' r. search (c_Key c) new = Inr n \<and> search (c_Key c) old = Inr o' \<and>
        compare_results c n o' = Inr r \<and> r \<noteq> Outcome False) \<and>
     (b \<or> (\<exists>c\<in>set cs. \<exists>n o'. search (c_Key c) new = Inr n \<and> search (c_Key c) old = Inr o' \<and>
        compare_results c n o' = Inr (Outcome True)))"
  by (induction cs arbitrary: b) (auto split: sum.splits outcome.splits bool.splits)

lemma check_or_True:
  "check_or search new old cs b = Inr True \<longleftrightarrow>
     (\<forall>c\<in>set cs. \<exists>o' r. search (c_Key c) old = Inr o' \<and>
        compare_results c (case search (c_Key c) new of Inl _ \<Rightarrow> JNull | Inr n \<Rightarrow> n) o' = Inr r) \<and>
     (b \<or> (\<exists>c\<in>set cs. \<exists>o'. search (c_Key c) old = Inr o' \<and>
        compare_results c (case search (c_Key c) new of Inl _ \<Rightarrow> JNull | Inr n \<Rightarrow> n) o' = Inr (Outcome True)))"
proof (induction cs arbitrary: b)
  case (Cons c cs)
  let ?n = "case search (c_Key c) new of Inl _ \<Rightarrow> JNull | Inr n \<Rightarrow> n"
  show ?case
  proof (cases "search (c_Key c) old")
    case (Inr o')
    show ?thesis
      using Cons Inr by (cases "compare_results c ?n o'") (auto simp: Let_def split: outcome.splits bool.splits)
  qed (simp add: Let_def)
qed simp

section \<open>Claims\<close>

text \<open>The experiments of the statuses that are not pending.\<close>

definition claimed_ids :: "policy_status list \<Rightarrow> string multiset" where
  "claimed_ids ss = mset (map s_ExperimentID (filter (\<lambda>s. \<not> pending s) ss))"

lemma claimed_not_pending [simp]: "\<not> pending (s\<lparr>s_IsTriggered := ''true''\<rparr>)"
  by (simp add: pending_def toLower_def lower_char_def)

lemma new_status_pending [simp]: "pending (new_status now kind name e)"
  by (simp add: pending_def new_status_def toLower_def lower_char_def)

lemma claim_statuses_eq:
  "claim_statuses ss = (map (\<lambda>s. if pending s then s\<lparr>s_IsTriggered := ''true''\<rparr> else s) ss,
     map s_ExperimentID (filter pending ss))"
  by (induction ss) auto

text \<open>
  The experiments of the triggers a write changes: a trigger is a position in the list of statuses. A claim makes a pending trigger one that
  is not, a release the reverse.
\<close>

definition changed_ids :: "(policy_status \<Rightarrow> policy_status \<Rightarrow> bool) \<Rightarrow> policy_status list \<Rightarrow> policy_status list \<Rightarrow> string multiset" where
  "changed_ids P ss ss' = mset (map (s_ExperimentID \<circ> fst) (filter (\<lambda>(a, b). P a b) (zip ss ss')))"

definition claims :: "policy_status list \<Rightarrow> policy_status list \<Rightarrow> string multiset" where
  "claims = changed_ids (\<lambda>a b. pending a \<and> \<not> pending b)"

definition releases :: "policy_status list \<Rightarrow> policy_status list \<Rightarrow> string multiset" where
  "releases = changed_ids (\<lambda>a b. \<not> pending a \<and> pending b)"

lemmas change_defs = claims_def releases_def changed_ids_def

lemma changed_map:
  "changed_ids P ss (map f ss) = mset (map s_ExperimentID (filter (\<lambda>s. P s (f s)) ss))"
  by (induction ss) (auto simp: changed_ids_def)

lemma changed_same: "claims ss (ss @ ts) = {#}" "releases ss (ss @ ts) = {#}"
  by (induction ss) (auto simp: change_defs)

lemma claim_changes:
  assumes "claim_statuses ss = (ss', cl)"
  shows "claims ss ss' = mset cl" "releases ss ss' = {#}"
proof -
  have "ss' = map (\<lambda>s. if pending s then s\<lparr>s_IsTriggered := ''true''\<rparr> else s) ss" "cl = map s_ExperimentID (filter pending ss)"
    using assms by (simp_all add: claim_statuses_eq)
  then show "claims ss ss' = mset cl" "releases ss ss' = {#}" by (auto simp: claims_def releases_def changed_map intro!: arg_cong [of _ _ "\<lambda>p. mset (map _ (filter p ss))"])
qed

lemma revert_changes:
  "claims ss (revert_statuses rv ss) = {#}" "set_mset (releases ss (revert_statuses rv ss)) \<subseteq> set rv"
proof -
  have "\<not> (pending s \<and> reverts rv s)" for s by (auto simp: pending_def reverts_def)
  then show "claims ss (revert_statuses rv ss) = {#}" by (auto simp: claims_def revert_statuses_def changed_map)
  show "set_mset (releases ss (revert_statuses rv ss)) \<subseteq> set rv"
    by (auto simp: releases_def revert_statuses_def changed_map reverts_def split: if_splits)
qed

lemma changed_balance:
  assumes "\<And>s. s_ExperimentID (f s) = s_ExperimentID s"
  shows "claimed_ids (map f ss) + releases ss (map f ss) = claimed_ids ss + claims ss (map f ss)"
  unfolding claims_def releases_def changed_map claimed_ids_def using assms by (induction ss) auto

lemma claim_balance:
  assumes "claim_statuses ss = (ss', cl)"
  shows "claimed_ids ss' + releases ss ss' = claimed_ids ss + claims ss ss'"
  using assms changed_balance [of "\<lambda>s. if pending s then s\<lparr>s_IsTriggered := ''true''\<rparr> else s" ss] by (auto simp: claim_statuses_eq)

lemma revert_balance:
  "claimed_ids (revert_statuses rv ss) + releases ss (revert_statuses rv ss) = claimed_ids ss + claims ss (revert_statuses rv ss)"
  unfolding revert_statuses_def by (rule changed_balance) simp

section \<open>Exactly once\<close>

text \<open>The requests a loop still has to send.\<close>

fun in_flight :: "loop \<Rightarrow> string multiset" where
  "in_flight (Dispatching xs rv err) = mset xs"
| "in_flight _ = {#}"

text \<open>A loop holds a read of the current or an older version, and releases no claim of an experiment in \<^verbatim>\<open>T\<close>.\<close>

fun loop_ok :: "string set \<Rightarrow> nat \<Rightarrow> policy_status list \<Rightarrow> loop \<Rightarrow> bool" where
  "loop_ok T v ss (ClaimUpdate k v' ss' cl) = (v' \<le> v \<and> (v' = v \<longrightarrow> claim_statuses ss = (ss', cl)))"
| "loop_ok T v ss (Dispatching xs rv err) = (set rv \<inter> T = {})"
| "loop_ok T v ss (RevertGet k rv err) = (set rv \<inter> T = {})"
| "loop_ok T v ss (RevertUpdate k v' ss' rv err) = (set rv \<inter> T = {} \<and> v' \<le> v \<and> (v' = v \<longrightarrow> ss' = revert_statuses rv ss))"
| "loop_ok T v ss _ = True"

lemma loop_ok_newer: "loop_ok T v ss l \<Longrightarrow> v < v' \<Longrightarrow> loop_ok T v' ss' l"
  by (cases l) auto

lemma no_change [simp]: "claims ss ss = {#}" "releases ss ss = {#}"
  using changed_same [of ss "[]"] by simp_all

lemma loop_step_ok:
  assumes "loop_step send fault l (Some (v, ss)) = (l', st, out)" "loop_ok T v ss l" "\<forall>x\<in>T. send x = Triggered"
  shows "\<exists>v' ss'. st = Some (v', ss') \<and> (v' = v \<and> ss' = ss \<or> v < v') \<and> loop_ok T v' ss' l' \<and>
    mset out + in_flight l' = in_flight l + claims ss ss' \<and>
    claimed_ids ss' + releases ss ss' = claimed_ids ss + claims ss ss' \<and> set_mset (releases ss ss') \<inter> T = {}"
  using assms
proof (cases l)
  case (ClaimGet k)
  then show ?thesis using assms by (cases "claim_statuses ss") (auto split: option.splits if_splits)
next
  case (ClaimUpdate k w ss1 cl)
  then show ?thesis using assms claim_changes [of ss ss1 cl] claim_balance [of ss ss1 cl] by (auto split: option.splits if_splits)
next
  case (Dispatching xs rv err)
  then show ?thesis using assms by (cases xs) (auto split: send_outcome.splits if_splits)
next
  case (RevertGet k rv err)
  then show ?thesis using assms by (auto split: option.splits if_splits)
next
  case (RevertUpdate k w ss1 rv err)
  then show ?thesis using assms revert_changes [of ss rv] revert_balance [of rv ss] by (auto split: option.splits if_splits) blast
qed auto

text \<open>A run of the system, with the claims and the releases the writes of its steps made.\<close>

inductive et_run :: "((string \<Rightarrow> send_outcome) \<Rightarrow> bool) \<Rightarrow> et_state \<Rightarrow> string multiset \<Rightarrow> string multiset \<Rightarrow> et_state \<Rightarrow> bool"
  for allowed :: "(string \<Rightarrow> send_outcome) \<Rightarrow> bool" and s0 :: et_state where
  init: "et_run allowed s0 {#} {#} s0"
| step: "et_run allowed s0 C R s \<Longrightarrow> et_step allowed s s' \<Longrightarrow> stored s = Some (v, ss) \<Longrightarrow> stored s' = Some (v', ss') \<Longrightarrow>
    et_run allowed s0 (C + claims ss ss') (R + releases ss ss') s'"

text \<open>The experiments whose requests the server always accepts.\<close>

definition accepted :: "((string \<Rightarrow> send_outcome) \<Rightarrow> bool) \<Rightarrow> string set" where
  "accepted allowed = {x. \<forall>send. allowed send \<longrightarrow> send x = Triggered}"

definition et_inv :: "((string \<Rightarrow> send_outcome) \<Rightarrow> bool) \<Rightarrow> string multiset \<Rightarrow> string multiset \<Rightarrow> string multiset \<Rightarrow> et_state \<Rightarrow> bool" where
  "et_inv allowed c0 C R s \<longleftrightarrow> (\<exists>v ss. stored s = Some (v, ss) \<and> (\<forall>l\<in>set (loops s). loop_ok (accepted allowed) v ss l) \<and>
     mset (requests s) + sum_list (map in_flight (loops s)) = C \<and> claimed_ids ss + R = c0 + C \<and> set_mset R \<inter> accepted allowed = {})"

lemma sum_list_update_mset:
  fixes f :: "'a \<Rightarrow> 'b multiset"
  assumes "i < length xs"
  shows "sum_list (map f (xs[i := y])) + f (xs ! i) = sum_list (map f xs) + f y"
  using assms by (induction xs arbitrary: i) (auto split: nat.splits simp: ac_simps)

lemma et_inv_step:
  assumes "et_step allowed s s'" "et_inv allowed c0 C R s" "stored s = Some (v, ss)"
  shows "\<exists>v' ss'. stored s' = Some (v', ss') \<and> et_inv allowed c0 (C + claims ss ss') (R + releases ss ss') s'"
  using assms
proof (cases rule: et_step.cases)
  case (loop send i fault l st out)
  have s: "\<forall>l\<in>set (loops s). loop_ok (accepted allowed) v ss l" "mset (requests s) + sum_list (map in_flight (loops s)) = C"
    "claimed_ids ss + R = c0 + C" "set_mset R \<inter> accepted allowed = {}" using assms(2,3) by (auto simp: et_inv_def)
  have "loop_ok (accepted allowed) v ss (loops s ! i)" "\<forall>x\<in>accepted allowed. send x = Triggered" using s(1) loop(2,3) by (auto simp: accepted_def)
  then obtain v' ss' where st: "st = Some (v', ss')" "v' = v \<and> ss' = ss \<or> v < v'" "loop_ok (accepted allowed) v' ss' l"
    "mset out + in_flight l = in_flight (loops s ! i) + claims ss ss'"
    "claimed_ids ss' + releases ss ss' = claimed_ids ss + claims ss ss'" "set_mset (releases ss ss') \<inter> accepted allowed = {}"
    using loop_step_ok [OF loop(4) [unfolded assms(3)]] by blast
  have "\<forall>l'\<in>set ((loops s)[i := l]). loop_ok (accepted allowed) v' ss' l'"
    using s(1) st(2,3) loop_ok_newer [of _ v ss _ v' ss'] by (auto dest!: set_update_subset_insert [THEN subsetD])
  moreover have "mset (requests s @ out) + sum_list (map in_flight ((loops s)[i := l])) = C + claims ss ss'"
  proof -
    have "sum_list (map in_flight ((loops s)[i := l])) + in_flight (loops s ! i) = sum_list (map in_flight (loops s)) + in_flight l"
      by (rule sum_list_update_mset [OF loop(3)])
    then have "mset (requests s @ out) + sum_list (map in_flight ((loops s)[i := l])) + in_flight (loops s ! i) = C + claims ss ss' + in_flight (loops s ! i)"
      using st(4) s(2) by (metis mset_append add.assoc add.commute)
    then show ?thesis by simp
  qed
  moreover have "claimed_ids ss' + (R + releases ss ss') = c0 + (C + claims ss ss')" using st(5) s(3) by (metis add.assoc add.commute)
  moreover have "set_mset (R + releases ss ss') \<inter> accepted allowed = {}" using s(4) st(6) by auto
  ultimately show ?thesis unfolding loop(1) by (simp add: et_inv_def st(1))
next
  case (audit w ts now kind name x)
  then have eq: "w = v" "ts = ss" using assms(3) by simp_all
  have "claimed_ids (ss @ [new_status now kind name x]) = claimed_ids ss" by (simp add: claimed_ids_def)
  then show ?thesis unfolding audit(1) eq
    using assms(2,3) loop_ok_newer [of _ v ss _ "v + 1"] changed_same [of ss "[new_status now kind name x]"] by (auto simp: et_inv_def)
qed

lemma et_run_inv: "et_run allowed s0 C R s \<Longrightarrow> et_inv allowed c0 {#} {#} s0 \<Longrightarrow> et_inv allowed c0 C R s"
proof (induction rule: et_run.induct)
  case (step C R s s' v ss v' ss')
  then show ?case using et_inv_step [OF step.hyps(2) step.IH [OF step.prems] step.hyps(3)] by auto
qed

section \<open>One reconciliation\<close>

lemma dispatch_fst: "fst (dispatch send xs rv err) = rv @ filter (\<lambda>x. send x \<noteq> Triggered) xs"
  by (induction xs arbitrary: rv err) (auto split: send_outcome.splits)

lemma run_loop_dispatch:
  "run_loop (length xs + n) send (Dispatching xs rv err) st out =
   run_loop n send (Dispatching [] (fst (dispatch send xs rv err)) (snd (dispatch send xs rv err))) st (out @ xs)"
  by (induction xs arbitrary: rv err out) (auto split: send_outcome.splits)

lemma claimed_reverts:
  assumes "x \<in> set (snd (claim_statuses ss))" "x \<in> set rv"
  shows "list_ex (reverts rv) (fst (claim_statuses ss))"
proof -
  from assms(1) obtain s where "s \<in> set ss" "pending s" "x = s_ExperimentID s"
    by (auto simp: claim_statuses_eq)
  then show ?thesis
    using assms(2)
    by (auto simp: claim_statuses_eq list_ex_iff reverts_def toLower_def lower_char_def
        intro!: bexI [of _ "s\<lparr>s_IsTriggered := ''true''\<rparr>"] image_eqI [of _ _ s])
qed

lemma Reconcile_result:
  assumes cl: "claim_statuses ss = (ss', cl)" and d: "dispatch send cl [] None = (rv, err)"
  shows "Reconcile send (Some (v, ss)) = Some (err,
    Some (if cl = [] then (v, ss) else if rv = [] then (v + 1, ss') else (v + 2, revert_statuses rv ss')), cl)"
proof (cases "cl = []")
  case True
  obtain m where n: "length ss + 6 = Suc (Suc (Suc m))" using that [of "length ss + 3"] by simp
  show ?thesis
    unfolding Reconcile_def option.case prod.case n using assms True by simp
next
  case False
  have "length cl \<le> length ss" using cl by (auto simp: claim_statuses_eq)
  then have n: "length ss + 6 = Suc (Suc (Suc (length cl + Suc (Suc (Suc (length ss - length cl))))))" by simp
  have rv: "rv = filter (\<lambda>x. send x \<noteq> Triggered) cl" using dispatch_fst [of send cl "[]" None] d by simp
  have ex: "list_ex (reverts rv) ss'" if ne: "rv \<noteq> []"
  proof -
    obtain x where "x \<in> set rv" using ne by (cases rv) auto
    moreover from this have "x \<in> set cl" using rv by simp
    ultimately show ?thesis using claimed_reverts [of x ss rv] cl by simp
  qed
  have "Reconcile send (Some (v, ss)) =
     run_loop (length cl + Suc (Suc (Suc (length ss - length cl)))) send (Dispatching cl [] None) (Some (v + 1, ss')) []"
    unfolding Reconcile_def option.case prod.case n using cl False by simp
  also have "\<dots> = run_loop (Suc (Suc (Suc (length ss - length cl)))) send (Dispatching [] rv err) (Some (v + 1, ss')) cl"
    unfolding run_loop_dispatch using d by simp
  finally show ?thesis using False ex by (cases "rv = []") simp_all
qed

section \<open>Properties\<close>

text \<open>
  When a policy matches. With type \<^verbatim>\<open>and\<close> every condition must be evaluable and none may have changed to a value
  its operator rejects, and at least one must have changed to an accepted value: a condition whose value did
  not change is ignored. With type \<^verbatim>\<open>or\<close> the old object must be searchable for all conditions and one
  of them must have changed to an accepted value. Any other type never matches.
\<close>

theorem policy_conditions:
  "conditionChecker search etp new old = Inr True \<longleftrightarrow>
     p_ConditionType etp = ''and'' \<and>
       (\<forall>c\<in>set (p_Conditions etp). \<exists>n o' r. search (c_Key c) new = Inr n \<and> search (c_Key c) old = Inr o' \<and>
          compare_results c n o' = Inr r \<and> r \<noteq> Outcome False) \<and>
       (\<exists>c\<in>set (p_Conditions etp). \<exists>n o'. search (c_Key c) new = Inr n \<and> search (c_Key c) old = Inr o' \<and>
          compare_results c n o' = Inr (Outcome True)) \<or>
     p_ConditionType etp = ''or'' \<and>
       (\<forall>c\<in>set (p_Conditions etp). \<exists>o' r. search (c_Key c) old = Inr o' \<and>
          compare_results c (case search (c_Key c) new of Inl _ \<Rightarrow> JNull | Inr n \<Rightarrow> n) o' = Inr r) \<and>
       (\<exists>c\<in>set (p_Conditions etp). \<exists>o'. search (c_Key c) old = Inr o' \<and>
          compare_results c (case search (c_Key c) new of Inl _ \<Rightarrow> JNull | Inr n \<Rightarrow> n) o' = Inr (Outcome True))"
  by (auto simp: conditionChecker_def check_and_True check_or_True)

theorem policy_conditions_witness:
  "conditionChecker (\<lambda>k d. Inr d)
     \<lparr>p_Name = ''p'', p_ConditionType = ''and'',
      p_Conditions = [\<lparr>c_Key = ''spec.replicas'', c_Value = Some ''3'', c_Operator = ''GreaterThan''\<rparr>], p_Statuses = []\<rparr>
     (JNumber ''5'') (JNumber ''2'') = Inr True"
  by (subst policy_conditions) (simp add: compare_results_def cases_op_def less_list_code)

text \<open>
  Two loops reconcile a policy with a trigger of \<^verbatim>\<open>e1\<close>, which the server triggers, and one of \<^verbatim>\<open>e2\<close>, which it refuses. Both read the policy, one loses the
  update, the other sends both requests and releases the claim of \<^verbatim>\<open>e2\<close>.
\<close>

definition race_send :: "string \<Rightarrow> send_outcome" where
  "race_send x = (if x = ''e2'' then SendFailed ''timeout'' else Triggered)"

fun race_step :: "nat \<Rightarrow> et_state \<Rightarrow> et_state" where
  "race_step i s = (case loop_step race_send None (loops s ! i) (stored s) of (l, st, out) \<Rightarrow>
     \<lparr>stored = st, loops = (loops s)[i := l], requests = requests s @ out\<rparr>)"

definition race_start :: et_state where
  "race_start = \<lparr>stored = Some (0, [new_status ''t'' ''Deployment'' ''web'' ''e1'', new_status ''t'' ''Deployment'' ''web'' ''e2'']), loops = [Idle, Idle], requests = []\<rparr>"

fun race :: "nat list \<Rightarrow> et_state \<Rightarrow> string multiset \<Rightarrow> string multiset \<Rightarrow> string multiset \<times> string multiset \<times> et_state" where
  "race [] s C R = (C, R, s)"
| "race (i # is) s C R = (let s' = race_step i s in
     race is s' (C + claims (snd (the (stored s))) (snd (the (stored s')))) (R + releases (snd (the (stored s))) (snd (the (stored s')))))"

lemma loop_step_stored: "loop_step send fault l (Some w) = (l', st, out) \<Longrightarrow> \<exists>w'. st = Some w'"
  by (induction send fault l "Some w" rule: loop_step.induct) (auto split: option.splits prod.splits if_splits send_outcome.splits)

lemma race_run:
  "et_run ((=) race_send) s0 C R s \<Longrightarrow> stored s = Some w \<Longrightarrow> list_all (\<lambda>i. i < length (loops s)) is \<Longrightarrow>
   et_run ((=) race_send) s0 (fst (race is s C R)) (fst (snd (race is s C R))) (snd (snd (race is s C R)))"
proof (induction "is" arbitrary: s C R w)
  case (Cons i "is")
  obtain v ss where w: "w = (v, ss)" by (cases w)
  obtain l st out where l: "loop_step race_send None (loops s ! i) (stored s) = (l, st, out)" by (metis prod_cases3)
  have r: "race_step i s = \<lparr>stored = st, loops = (loops s)[i := l], requests = requests s @ out\<rparr>" by (simp add: l)
  have e: "et_step ((=) race_send) s (race_step i s)" unfolding r by (rule et_step.loop [OF refl _ l]) (use Cons.prems(3) in simp)
  obtain v' ss' where st: "stored (race_step i s) = Some (v', ss')"
    using l loop_step_stored [of race_send None "loops s ! i" w] unfolding r Cons.prems(2) by force
  have "et_run ((=) race_send) s0 (C + claims ss ss') (R + releases ss ss') (race_step i s)"
    by (rule et_run.step [OF Cons.prems(1) e _ st]) (simp add: Cons.prems(2) w)
  moreover have "length (loops (race_step i s)) = length (loops s)" unfolding r by simp
  ultimately show ?case using Cons.IH [OF _ st] Cons.prems(2,3) st by (simp add: w Let_def del: race_step.simps)
qed simp




text \<open>
  The release of a claim goes by the experiment and not by the trigger. If a policy has an older trigger of
  the same experiment, which was dispatched successfully, a later failed request makes it
  pending again, and the next reconciliation sends two requests for the experiment.
\<close>

theorem released_claim_redispatches:
  "let old = (new_status ''t0'' ''Deployment'' ''web'' ''e1'')\<lparr>s_IsTriggered := ''true''\<rparr>;
       new = new_status ''t1'' ''Deployment'' ''web'' ''e1''
   in case Reconcile (\<lambda>_. SendFailed ''timeout'') (Some (7, [old, new])) of
        Some (err, st, sent) \<Rightarrow> err = Some ''timeout'' \<and> sent = [''e1''] \<and>
          (case Reconcile (\<lambda>_. Triggered) st of Some (err', st', sent') \<Rightarrow> err' = None \<and> sent' = [''e1'', ''e1''] | None \<Rightarrow> False)
      | None \<Rightarrow> False"
  by code_simp

end
