(* ===== verification/Gql_Connections.thy ===== *)
theory Gql_Connections
  imports Gql_Infra
begin

text \<open>
  The connections of the subscribers (\<^verbatim>\<open>pkg/data-store/store.go\<close>, the resolver \<^verbatim>\<open>InfraConnect\<close> and
  \<^verbatim>\<open>SendRequestToSubscriber\<close>): several goroutines per connection around one mutex and channels of
  capacity 1, as a step relation. A connection is its channel; its number is its index.

  For each connection there is the resolver (register, mark active, announce, then the reader of
  gqlgen takes over), and a goroutine that waits for the end of the request context and takes the connection down.
  A sender locks the mutex and keeps it until the channel accepts the request. The verification of the identity
  and the registration under the mutex are one step.

  The second part is the channels by which the subscriber answers log and object requests.
\<close>

section \<open>State\<close>

datatype main_phase = Registered | Marked | Serving | Failed

datatype watch_phase = Waiting | CtxDone | Removed | Offline | Ended

record connection =
  c_InfraID :: string
  c_Version :: string
  c_main :: main_phase
  c_watch :: watch_phase
  c_reading :: bool
  c_buffer :: "subscriber_request list"

record 's server =
  sv_db :: 's
  sv_conns :: "connection list"
  ConnectedInfra :: "string \<rightharpoonup> nat"
  sv_mutex :: "(nat \<times> subscriber_request) option"

datatype conn_event =
    InfraConnect infra_identity
  | MarkActive nat
  | AnnounceLive nat
  | Cancel nat
  | StopReading nat
  | Disconnect nat
  | AnnounceOffline nat
  | MarkInactive nat
  | Lock subscriber_request
  | Deliver
  | Receive nat

section \<open>Steps\<close>

definition upd_conn :: "nat \<Rightarrow> (connection \<Rightarrow> connection) \<Rightarrow> 's server \<Rightarrow> 's server" where
  "upd_conn n f sv = sv\<lparr>sv_conns := (sv_conns sv)[n := f (sv_conns sv ! n)]\<rparr>"

definition new_connection :: "infra_identity \<Rightarrow> connection" where
  "new_connection rq = \<lparr>c_InfraID = id_InfraID rq, c_Version = id_Version rq, c_main = Registered, c_watch = Waiting,
     c_reading = False, c_buffer = []\<rparr>"

text \<open>\<^verbatim>\<open>None\<close>: the step is not enabled. Steps that lock the mutex need it to be free.\<close>

fun conn_step :: "'s gql_db \<Rightarrow> gql_env \<Rightarrow> conn_event \<Rightarrow> 's server \<Rightarrow> 's server option" where
  "conn_step g env (InfraConnect rq) sv =
     (case VerifyInfra g env rq (sv_db sv) of
        Inl e \<Rightarrow> Some sv
      | Inr infra \<Rightarrow>
          if sv_mutex sv = None
          then Some (sv\<lparr>sv_conns := sv_conns sv @ [new_connection rq],
                       ConnectedInfra := (ConnectedInfra sv)(id_InfraID rq \<mapsto> length (sv_conns sv))\<rparr>)
          else None)"
| "conn_step g env (MarkActive n) sv =
     (if n < length (sv_conns sv) \<and> c_main (sv_conns sv ! n) = Registered
      then let c = sv_conns sv ! n;
               (err, s') = op_UpdateInfra g (\<lambda>i. i_InfraID i = c_InfraID c)
                 (\<lambda>i. i\<lparr>i_IsActive := True, i_UpdatedAt := now_ms (g_auth env) 0, i_Version := c_Version c\<rparr>) (sv_db sv)
           in Some (upd_conn n (\<lambda>c. c\<lparr>c_main := if err = None then Marked else Failed\<rparr>) (sv\<lparr>sv_db := s'\<rparr>))
      else None)"
| "conn_step g env (AnnounceLive n) sv =
     (if n < length (sv_conns sv) \<and> c_main (sv_conns sv ! n) = Marked \<and> sv_mutex sv = None
      then Some (upd_conn n (\<lambda>c. c\<lparr>c_main := Serving, c_reading := True\<rparr>) sv)
      else None)"
| "conn_step g env (Cancel n) sv =
     (if n < length (sv_conns sv) \<and> c_watch (sv_conns sv ! n) = Waiting
      then Some (upd_conn n (\<lambda>c. c\<lparr>c_watch := CtxDone\<rparr>) sv) else None)"
| "conn_step g env (StopReading n) sv =
     (if n < length (sv_conns sv) \<and> c_watch (sv_conns sv ! n) \<noteq> Waiting \<and> c_reading (sv_conns sv ! n)
      then Some (upd_conn n (\<lambda>c. c\<lparr>c_reading := False\<rparr>) sv) else None)"
| "conn_step g env (Disconnect n) sv =
     (if n < length (sv_conns sv) \<and> c_watch (sv_conns sv ! n) = CtxDone \<and> sv_mutex sv = None
      then let infra = c_InfraID (sv_conns sv ! n) in
           if ConnectedInfra sv infra \<noteq> None \<and> ConnectedInfra sv infra \<noteq> Some n
           then Some (upd_conn n (\<lambda>c. c\<lparr>c_watch := Ended\<rparr>) sv)
           else Some (upd_conn n (\<lambda>c. c\<lparr>c_watch := Removed\<rparr>) (sv\<lparr>ConnectedInfra := (ConnectedInfra sv)(infra := None)\<rparr>))
      else None)"
| "conn_step g env (AnnounceOffline n) sv =
     (if n < length (sv_conns sv) \<and> c_watch (sv_conns sv ! n) = Removed \<and> sv_mutex sv = None
      then Some (upd_conn n (\<lambda>c. c\<lparr>c_watch := Offline\<rparr>) sv) else None)"
| "conn_step g env (MarkInactive n) sv =
     (if n < length (sv_conns sv) \<and> c_watch (sv_conns sv ! n) = Offline
      then let (err, s') = op_UpdateInfra g (\<lambda>i. i_InfraID i = c_InfraID (sv_conns sv ! n))
                 (\<lambda>i. i\<lparr>i_IsActive := False, i_UpdatedAt := now_ms (g_auth env) 0\<rparr>) (sv_db sv)
           in Some (upd_conn n (\<lambda>c. c\<lparr>c_watch := Ended\<rparr>) (sv\<lparr>sv_db := s'\<rparr>))
      else None)"
| "conn_step g env (Lock rq) sv =
     (if sv_mutex sv = None
      then (case ConnectedInfra sv (sr_InfraID rq) of None \<Rightarrow> Some sv | Some n \<Rightarrow> Some (sv\<lparr>sv_mutex := Some (n, rq)\<rparr>))
      else None)"
| "conn_step g env Deliver sv =
     (case sv_mutex sv of
        None \<Rightarrow> None
      | Some (n, rq) \<Rightarrow>
          if c_buffer (sv_conns sv ! n) = [] then Some (upd_conn n (\<lambda>c. c\<lparr>c_buffer := [rq]\<rparr>) (sv\<lparr>sv_mutex := None\<rparr>)) else None)"
| "conn_step g env (Receive n) sv =
     (if n < length (sv_conns sv) \<and> c_reading (sv_conns sv ! n) \<and> c_buffer (sv_conns sv ! n) \<noteq> []
      then Some (upd_conn n (\<lambda>c. c\<lparr>c_buffer := tl (c_buffer c)\<rparr>) sv) else None)"

text \<open>Requests of other components change the database between the steps.\<close>

inductive sv_reachable :: "'s gql_db \<Rightarrow> gql_env \<Rightarrow> 's server \<Rightarrow> 's server \<Rightarrow> bool" for g env sv0 where
  sv_start: "sv_reachable g env sv0 sv0"
| sv_conn: "sv_reachable g env sv0 sv \<Longrightarrow> conn_step g env e sv = Some sv' \<Longrightarrow> sv_reachable g env sv0 sv'"
| sv_other: "sv_reachable g env sv0 sv \<Longrightarrow> sv_reachable g env sv0 (sv\<lparr>sv_db := s'\<rparr>)"

fun run_conn :: "'s gql_db \<Rightarrow> gql_env \<Rightarrow> conn_event list \<Rightarrow> 's server \<Rightarrow> 's server option" where
  "run_conn g env [] sv = Some sv"
| "run_conn g env (e # es) sv = (case conn_step g env e sv of None \<Rightarrow> None | Some sv' \<Rightarrow> run_conn g env es sv')"

lemma run_conn_reachable:
  "run_conn g env es sv = Some sv' \<Longrightarrow> sv_reachable g env sv0 sv \<Longrightarrow> sv_reachable g env sv0 sv'"
  by (induction es arbitrary: sv) (auto split: option.splits intro: sv_conn)

definition empty_server :: "'s \<Rightarrow> 's server" where
  "empty_server s = \<lparr>sv_db = s, sv_conns = [], ConnectedInfra = Map.empty, sv_mutex = None\<rparr>"

section \<open>The registered connection is the newest\<close>

definition newest :: "'s server \<Rightarrow> nat \<Rightarrow> bool" where
  "newest sv n \<longleftrightarrow> (\<forall>m < length (sv_conns sv). c_InfraID (sv_conns sv ! m) = c_InfraID (sv_conns sv ! n) \<longrightarrow> m \<le> n)"

definition up :: "connection \<Rightarrow> bool" where
  "up c \<longleftrightarrow> c_watch c = Waiting \<or> c_watch c = CtxDone"

definition registry_ok :: "'s server \<Rightarrow> bool" where
  "registry_ok sv \<longleftrightarrow>
     (\<forall>infra n. ConnectedInfra sv infra = Some n \<longleftrightarrow>
        n < length (sv_conns sv) \<and> c_InfraID (sv_conns sv ! n) = infra \<and> newest sv n \<and> up (sv_conns sv ! n))"

definition buffer_ok :: "connection \<Rightarrow> bool" where
  "buffer_ok c \<longleftrightarrow> length (c_buffer c) \<le> 1 \<and> (\<forall>rq\<in>set (c_buffer c). sr_InfraID rq = c_InfraID c)"

definition buffers_ok :: "'s server \<Rightarrow> bool" where
  "buffers_ok sv \<longleftrightarrow>
     (\<forall>n < length (sv_conns sv). buffer_ok (sv_conns sv ! n)) \<and>
     (\<forall>n rq. sv_mutex sv = Some (n, rq) \<longrightarrow> n < length (sv_conns sv) \<and> c_InfraID (sv_conns sv ! n) = sr_InfraID rq)"

lemma upd_conn_simps [simp]:
  "length (sv_conns (upd_conn n f sv)) = length (sv_conns sv)" "ConnectedInfra (upd_conn n f sv) = ConnectedInfra sv"
  "sv_mutex (upd_conn n f sv) = sv_mutex sv" "sv_db (upd_conn n f sv) = sv_db sv"
  "n < length (sv_conns sv) \<Longrightarrow> sv_conns (upd_conn n f sv) ! m = (if m = n then f (sv_conns sv ! n) else sv_conns sv ! m)"
  "m < length (sv_conns sv) \<Longrightarrow> sv_conns (upd_conn n f sv) ! m = (if m = n then f (sv_conns sv ! n) else sv_conns sv ! m)"
  by (auto simp: upd_conn_def nth_list_update)

text \<open>A step that changes neither the infrastructure nor whether the connection is up.\<close>

lemma registry_same:
  assumes "registry_ok sv" "ConnectedInfra sv' = ConnectedInfra sv" "length (sv_conns sv') = length (sv_conns sv)"
    and "\<And>m. m < length (sv_conns sv) \<Longrightarrow> c_InfraID (sv_conns sv' ! m) = c_InfraID (sv_conns sv ! m)"
    and "\<And>m. m < length (sv_conns sv) \<Longrightarrow> up (sv_conns sv' ! m) = up (sv_conns sv ! m)"
  shows "registry_ok sv'"
  using assms unfolding registry_ok_def newest_def by (metis (no_types, lifting))

lemma newest_unique:
  "newest sv n \<Longrightarrow> newest sv m \<Longrightarrow> n < length (sv_conns sv) \<Longrightarrow> m < length (sv_conns sv) \<Longrightarrow>
     c_InfraID (sv_conns sv ! n) = c_InfraID (sv_conns sv ! m) \<Longrightarrow> n = m"
  by (metis dual_order.antisym newest_def)

lemma newest_same:
  assumes "length (sv_conns sv') = length (sv_conns sv)"
    and "\<And>m. m < length (sv_conns sv) \<Longrightarrow> c_InfraID (sv_conns sv' ! m) = c_InfraID (sv_conns sv ! m)"
    and "n < length (sv_conns sv)"
  shows "newest sv' n \<longleftrightarrow> newest sv n"
  using assms by (auto simp: newest_def)

lemma registry_connect:
  assumes ok: "registry_ok sv"
  shows "registry_ok (sv\<lparr>sv_conns := sv_conns sv @ [new_connection rq],
           ConnectedInfra := (ConnectedInfra sv)(id_InfraID rq \<mapsto> length (sv_conns sv))\<rparr>)" (is "registry_ok ?sv")
proof -
  let ?l = "length (sv_conns sv)"
  have nth: "sv_conns ?sv ! m = (if m < ?l then sv_conns sv ! m else new_connection rq)" if "m < Suc ?l" for m
    using that by (auto simp: nth_append)
  have last: "newest ?sv ?l" by (auto simp: newest_def)
  have new: "newest ?sv n \<longleftrightarrow> newest sv n \<and> c_InfraID (sv_conns sv ! n) \<noteq> id_InfraID rq" if "n < ?l" for n
    using that nth by (auto simp: newest_def new_connection_def less_Suc_eq nth_append)
  show ?thesis
    unfolding registry_ok_def
  proof (intro allI)
    fix infra n
    show "(ConnectedInfra ?sv infra = Some n) = (n < length (sv_conns ?sv) \<and> c_InfraID (sv_conns ?sv ! n) = infra \<and> newest ?sv n \<and> up (sv_conns ?sv ! n))"
    proof (cases "n < ?l")
      case True
      then show ?thesis using new nth ok unfolding registry_ok_def by auto
    next
      case False
      then show ?thesis using last nth ok unfolding registry_ok_def
        by (cases "n = ?l") (auto simp: new_connection_def up_def)
    qed
  qed
qed

text \<open>A connection that goes down leaves the registry if it is the one registered.\<close>

lemma registry_down:
  fixes f :: "connection \<Rightarrow> connection"
  assumes ok: "registry_ok sv" and n: "n < length (sv_conns sv)"
    and f: "\<And>c. c_InfraID (f c) = c_InfraID c" "\<And>c. \<not> up (f c)"
    and M: "M = (if ConnectedInfra sv (c_InfraID (sv_conns sv ! n)) = Some n
                 then (ConnectedInfra sv)(c_InfraID (sv_conns sv ! n) := None) else ConnectedInfra sv)"
  shows "registry_ok (upd_conn n f (sv\<lparr>ConnectedInfra := M\<rparr>))" (is "registry_ok ?sv")
  unfolding registry_ok_def
proof (intro allI)
  fix infra m
  have new: "newest ?sv m \<longleftrightarrow> newest sv m" if "m < length (sv_conns sv)" for m
    by (rule newest_same) (use n f that in \<open>auto\<close>)
  have old: "ConnectedInfra sv infra = Some m \<longleftrightarrow>
      m < length (sv_conns sv) \<and> c_InfraID (sv_conns sv ! m) = infra \<and> newest sv m \<and> up (sv_conns sv ! m)" for infra m
    using ok unfolding registry_ok_def by blast
  show "(ConnectedInfra ?sv infra = Some m) =
      (m < length (sv_conns ?sv) \<and> c_InfraID (sv_conns ?sv ! m) = infra \<and> newest ?sv m \<and> up (sv_conns ?sv ! m))"
  proof (cases "m = n")
    case True
    then show ?thesis using old [of infra n] n f(2) by (auto simp: M)
  next
    case False
    then show ?thesis using old [of infra m] new [of m] n by (auto simp: M)
  qed
qed

lemma conn_step_registry:
  assumes "conn_step g env e sv = Some sv'" "registry_ok sv"
  shows "registry_ok sv'"
proof (cases e)
  case (InfraConnect rq)
  with assms registry_connect [OF assms(2)] show ?thesis by (auto split: sum.splits if_splits)
next
  case (Disconnect n)
  let ?i = "c_InfraID (sv_conns sv ! n)"
  from Disconnect assms have n: "n < length (sv_conns sv)" by (auto split: if_splits)
  have "sv' = upd_conn n (\<lambda>c. c\<lparr>c_watch := if ConnectedInfra sv ?i \<noteq> None \<and> ConnectedInfra sv ?i \<noteq> Some n then Ended else Removed\<rparr>)
      (sv\<lparr>ConnectedInfra := if ConnectedInfra sv ?i = Some n then (ConnectedInfra sv)(?i := None) else ConnectedInfra sv\<rparr>)"
    using Disconnect assms(1) by (auto simp: Let_def fun_upd_idem split: if_splits)
  then show ?thesis using registry_down [OF assms(2) n _ _ refl] by (simp add: up_def)
qed (use assms in \<open>auto simp: Let_def up_def split: if_splits option.splits prod.splits intro!: registry_same [OF assms(2)]\<close>)

lemma buffers_same:
  assumes "buffers_ok sv" "sv_mutex sv' = sv_mutex sv \<or> sv_mutex sv' = None" "length (sv_conns sv') = length (sv_conns sv)"
    and "\<And>m. m < length (sv_conns sv) \<Longrightarrow> c_InfraID (sv_conns sv' ! m) = c_InfraID (sv_conns sv ! m)"
    and "\<And>m. m < length (sv_conns sv) \<Longrightarrow> buffer_ok (sv_conns sv ! m) \<Longrightarrow> buffer_ok (sv_conns sv' ! m)"
  shows "buffers_ok sv'"
  using assms(1,2) unfolding buffers_ok_def assms(3) by (auto simp: assms(4,5))

lemma buffer_ok_updates:
  "buffer_ok (c\<lparr>c_main := x\<rparr>) = buffer_ok c" "buffer_ok (c\<lparr>c_watch := y\<rparr>) = buffer_ok c" "buffer_ok (c\<lparr>c_reading := z\<rparr>) = buffer_ok c"
  "buffer_ok (c\<lparr>c_main := x, c_reading := z\<rparr>) = buffer_ok c"
  "buffer_ok c \<Longrightarrow> buffer_ok (c\<lparr>c_buffer := tl (c_buffer c)\<rparr>)"
  "buffer_ok (c\<lparr>c_buffer := [rq]\<rparr>) \<longleftrightarrow> sr_InfraID rq = c_InfraID c"
  by (cases "c_buffer c"; simp add: buffer_ok_def)+

lemma conn_step_buffers:
  assumes "conn_step g env e sv = Some sv'" "registry_ok sv" and ok: "buffers_ok sv"
  shows "buffers_ok sv'"
proof (cases e)
  case (InfraConnect rq)
  have "buffer_ok (new_connection rq)" by (simp add: buffer_ok_def new_connection_def)
  with InfraConnect assms(1) ok show ?thesis
    by (simp add: buffers_ok_def split: sum.splits if_splits) (auto simp: nth_append less_Suc_eq)
next
  case (Lock rq)
  then consider "sv' = sv" | n where "ConnectedInfra sv (sr_InfraID rq) = Some n" "sv' = sv\<lparr>sv_mutex := Some (n, rq)\<rparr>"
    using assms(1) by (auto split: if_splits option.splits)
  then show ?thesis
  proof cases
    case 2
    with assms(2) have "n < length (sv_conns sv)" "c_InfraID (sv_conns sv ! n) = sr_InfraID rq"
      unfolding registry_ok_def by blast+
    with 2 ok show ?thesis by (simp add: buffers_ok_def)
  qed (simp add: ok)
next
  case Deliver
  then obtain n rq where n: "sv_mutex sv = Some (n, rq)" "sv' = upd_conn n (\<lambda>c. c\<lparr>c_buffer := [rq]\<rparr>) (sv\<lparr>sv_mutex := None\<rparr>)"
    using assms(1) by (auto split: option.splits if_splits)
  with ok have "c_InfraID (sv_conns sv ! n) = sr_InfraID rq" by (auto simp: buffers_ok_def)
  then show ?thesis unfolding n(2) by (intro buffers_same [OF ok]) (auto simp: buffer_ok_updates)
qed (use assms(1) in \<open>auto simp: Let_def buffer_ok_updates split: if_splits option.splits prod.splits intro!: buffers_same [OF ok]\<close>)

definition conn_ok :: "'s server \<Rightarrow> bool" where
  "conn_ok sv \<longleftrightarrow> registry_ok sv \<and> buffers_ok sv"

lemma conn_ok_empty: "conn_ok (empty_server s)"
  by (simp add: conn_ok_def registry_ok_def buffers_ok_def empty_server_def)

lemma conn_ok_db: "conn_ok (sv\<lparr>sv_db := s\<rparr>) = conn_ok sv"
  by (simp add: conn_ok_def registry_ok_def buffers_ok_def newest_def)

lemma reachable_conn_ok: "sv_reachable g env (empty_server s) sv \<Longrightarrow> conn_ok sv"
proof (induction rule: sv_reachable.induct)
  case (sv_conn sv e sv')
  then show ?case using conn_step_registry conn_step_buffers unfolding conn_ok_def by blast
qed (simp_all add: conn_ok_empty conn_ok_db)

section \<open>A sender that waits for a reader that is gone\<close>

definition stuck :: "nat \<Rightarrow> subscriber_request \<Rightarrow> 's server \<Rightarrow> bool" where
  "stuck n rq sv \<longleftrightarrow> sv_mutex sv = Some (n, rq) \<and> n < length (sv_conns sv) \<and>
     c_buffer (sv_conns sv ! n) \<noteq> [] \<and> \<not> c_reading (sv_conns sv ! n)"

lemma stuck_step: "conn_step g env e sv = Some sv' \<Longrightarrow> stuck n rq sv \<Longrightarrow> stuck n rq sv'"
  by (cases e) (auto simp: stuck_def Let_def split: if_splits sum.splits prod.splits)

lemma stuck_forever: "sv_reachable g env sv sv' \<Longrightarrow> stuck n rq sv \<Longrightarrow> stuck n rq sv'"
proof (induction rule: sv_reachable.induct)
  case (sv_conn sv' e sv'')
  then show ?case using stuck_step by blast
qed (simp_all add: stuck_def)

section \<open>Answers of the subscriber\<close>

text \<open>
  \<^verbatim>\<open>ExperimentLog\<close>, \<^verbatim>\<open>KubeObjectData\<close> and \<^verbatim>\<open>KubeNamespaceData\<close>: by request identifier, a channel with
  its buffered answer and whether it is closed. The answer is sent outside the mutex and the channel is then closed,
  but stays registered until the listener goes away.
\<close>

record 'a answer_channel =
  ch_buffer :: "'a list"
  ch_closed :: bool

type_synonym 'a listeners = "string \<rightharpoonup> 'a answer_channel"

definition listen :: "string \<Rightarrow> 'a listeners \<Rightarrow> 'a listeners" where
  "listen reqID m = m(reqID \<mapsto> \<lparr>ch_buffer = [], ch_closed = False\<rparr>)"

definition unlisten :: "string \<Rightarrow> 'a listeners \<Rightarrow> 'a listeners" where
  "unlisten reqID m = m(reqID := None)"

text \<open>
  The tail of the three handlers; \<^verbatim>\<open>resp\<close> decodes the answer and \<^verbatim>\<open>sent\<close>, \<^verbatim>\<open>gone\<close> are their messages.
  \<^verbatim>\<open>None\<close> stands for a send that blocks.
\<close>

definition answer :: "string \<Rightarrow> (string + 'a) \<Rightarrow> string \<Rightarrow> string \<Rightarrow> 'a listeners \<Rightarrow> ((string + string) go \<times> 'a listeners) option" where
  "answer reqID resp sent gone m =
     (case m reqID of
        None \<Rightarrow> Some (Inr (Inr gone), m)
      | Some ch \<Rightarrow>
          (case resp of
             Inl e \<Rightarrow> Some (Inr (Inl e), m)
           | Inr x \<Rightarrow>
               if ch_closed ch then Some (Inl ClosedChannel, m)
               else if ch_buffer ch \<noteq> [] then None
               else Some (Inr (Inr sent), m(reqID \<mapsto> \<lparr>ch_buffer = [x], ch_closed = True\<rparr>))))"

definition with_verified :: "'s gql_db \<Rightarrow> gql_env \<Rightarrow> infra_identity \<Rightarrow> 's \<Rightarrow> ((string + string) go \<times> 'a listeners) option
    \<Rightarrow> 'a listeners \<Rightarrow> ((string + string) go \<times> 'a listeners) option" where
  "with_verified g env identity s k m = (case VerifyInfra g env identity s of Inl e \<Rightarrow> Some (Inr (Inl e), m) | Inr i \<Rightarrow> k)"

text \<open>An answer is the name, run, type and log of a pod, or the decoded objects of an infrastructure.\<close>

definition PodLog :: "'s gql_db \<Rightarrow> gql_env \<Rightarrow> infra_identity \<Rightarrow> string \<Rightarrow> (string \<times> string \<times> string \<times> string) \<Rightarrow> 's
    \<Rightarrow> (string \<times> string \<times> string \<times> string) listeners \<Rightarrow> ((string + string) go \<times> (string \<times> string \<times> string \<times> string) listeners) option" where
  "PodLog g env identity reqID log s m =
     with_verified g env identity s (answer reqID (Inr log) ''LOGS SENT SUCCESSFULLY'' ''LOG REQUEST CANCELLED'' m) m"

definition KubeObj :: "'s gql_db \<Rightarrow> gql_env \<Rightarrow> (string \<Rightarrow> string + 'o) \<Rightarrow> infra_identity \<Rightarrow> string \<Rightarrow> string \<Rightarrow> 's
    \<Rightarrow> (string \<times> 'o) listeners \<Rightarrow> ((string + string) go \<times> (string \<times> 'o) listeners) option" where
  "KubeObj g env unmarshal identity reqID kubeObj s m =
     with_verified g env identity s
       (answer reqID (map_sum (\<lambda>e. ''failed to unmarshal kubeObj data '' @ e) (\<lambda>v. (id_InfraID identity, v)) (unmarshal kubeObj))
          ''KubeData sent successfully'' ''KubeData sent successfully'' m) m"

definition KubeNamespace :: "'s gql_db \<Rightarrow> gql_env \<Rightarrow> (string \<Rightarrow> string + 'o) \<Rightarrow> infra_identity \<Rightarrow> string \<Rightarrow> string \<Rightarrow> 's
    \<Rightarrow> (string \<times> 'o) listeners \<Rightarrow> ((string + string) go \<times> (string \<times> 'o) listeners) option" where
  "KubeNamespace g env unmarshal identity reqID kubeNamespace s m =
     with_verified g env identity s
       (answer reqID (map_sum (\<lambda>e. ''failed to unmarshal kubeNamespace data '' @ e) (\<lambda>v. (id_InfraID identity, v)) (unmarshal kubeNamespace))
          ''KubeData sent successfully'' ''KubeData sent successfully'' m) m"

text \<open>Once a channel has been answered, every further answer panics until the listener has left.\<close>

lemma answer_twice:
  assumes "answer reqID (Inr x) sent gone m = Some (Inr (Inr sent), m')" "m reqID \<noteq> None"
  shows "answer reqID (Inr y) sent gone m' = Some (Inl ClosedChannel, m')"
  using assms by (auto simp: answer_def split: option.splits if_splits)

text \<open>A listener is never blocked on and never holds more than one answer.\<close>

definition listeners_ok :: "'a listeners \<Rightarrow> bool" where
  "listeners_ok m \<longleftrightarrow> (\<forall>r ch. m r = Some ch \<longrightarrow> length (ch_buffer ch) \<le> 1 \<and> (ch_buffer ch \<noteq> [] \<longrightarrow> ch_closed ch))"

lemma answer_returns:
  assumes "listeners_ok m"
  shows "\<exists>r m'. answer reqID resp sent gone m = Some (r, m') \<and> listeners_ok m'"
  using assms by (auto simp: answer_def listeners_ok_def split: option.splits sum.splits)

end
