(* ===== verification/Gql_Environment_Props.thy ===== *)
theory Gql_Environment_Props
  imports Gql_Environment
begin

text \<open>
  Properties of the environments: which requests may change them and what they leave alone, the life of an
  environment from creation to deletion, and the pages of a listing.
\<close>

section \<open>Writes keep what their filter excludes\<close>

lemma update_of_simps [simp]:
  "e_ProjectID (update_of env rq u e) = e_ProjectID e" "e_EnvironmentID (update_of env rq u e) = e_EnvironmentID e"
  "e_IsRemoved (update_of env rq u e) = e_IsRemoved e" "e_InfraIDs (update_of env rq u e) = e_InfraIDs e"
  by (simp_all add: update_of_def set_opt_def split: option.split)

context gql_db
begin

lemma op_UpdateEnvironment_other:
  assumes "op_UpdateEnvironment g P f s = (r, s')" "\<And>d. P d \<Longrightarrow> \<not> Q d \<and> \<not> Q (f d)"
  shows "filter_mset Q (edocs s') = filter_mset Q (edocs s)" "idocs s' = idocs s"
proof -
  obtain x where x: "UpdateMany (environments g) P f s = (x, s')"
    using assms(1) by (auto simp: op_UpdateEnvironment_def split: prod.splits sum.splits)
  show "idocs s' = idocs s" using envs_frame(2) [of P f s] x by simp
  show "filter_mset Q (edocs s') = filter_mset Q (edocs s)"
  proof (cases x)
    case (Inl e)
    then show ?thesis using envs.UpdateMany_err x partly_updated_other assms(2) by blast
  next
    case (Inr n)
    then show ?thesis using envs.UpdateMany_ok [of P f s n s'] x updated_all_other [of P Q f] assms(2) by simp
  qed
qed

lemma InsertEnvironment_ok:
  assumes "InsertEnvironment g e s = (None, s')"
  shows "edocs s' = add_mset e (edocs s)" "\<forall>x\<in>#edocs s. \<not> env_conflict x e" "idocs s' = idocs s"
  using assms envs.InsertOne_ok [of e s s'] envs_frame(1) [of e s]
  by (auto simp: InsertEnvironment_def split: prod.splits option.splits)

lemma InsertEnvironment_other:
  assumes "InsertEnvironment g e s = (r, s')" "\<not> Q e"
  shows "filter_mset Q (edocs s') = filter_mset Q (edocs s)" "idocs s' = idocs s"
proof -
  obtain x where x: "InsertOne (environments g) e s = (x, s')"
    using assms(1) by (auto simp: InsertEnvironment_def split: prod.splits option.splits)
  show "idocs s' = idocs s" using envs_frame(1) [of e s] x by simp
  show "filter_mset Q (edocs s') = filter_mset Q (edocs s)"
    using envs.InsertOne_cases [OF x] assms(2) by auto
qed

end

section \<open>The requests that write\<close>

datatype env_request =
    CreateEnv create_environment_request | UpdateEnv update_environment_request | DeleteEnv string

fun env_router :: "'s gql_db \<Rightarrow> gql_env \<Rightarrow> gctx \<Rightarrow> string \<Rightarrow> env_request \<Rightarrow> 's \<Rightarrow> (string + unit) go \<times> 's" where
  "env_router g env c pid (CreateEnv rq) s = apfst (map_sum id (map_sum id (\<lambda>_. ()))) (r_CreateEnvironment g env c pid rq s)"
| "env_router g env c pid (UpdateEnv rq) s = apfst (map_sum id (map_sum id (\<lambda>_. ()))) (r_UpdateEnvironment g env c pid rq s)"
| "env_router g env c pid (DeleteEnv i) s = apfst (map_sum id (map_sum id (\<lambda>_. ()))) (r_DeleteEnvironment g env c pid i s)"

lemma gql_rules_environment:
  "gql_rules ''CreateEnvironment'' = [RoleOwner]" "gql_rules ''UpdateEnvironment'' = [RoleOwner]"
  "gql_rules ''DeleteEnvironment'' = [RoleOwner]" "gql_rules ''userInfrastructureReg'' = [RoleOwner]"
  "gql_rules ''DeleteInfrastructures'' = [RoleOwner]"
  by (simp_all add: gql_rules_def rbac_table_def)

text \<open>The handlers alone: what they leave unchanged.\<close>

context gql_db
begin

abbreviation foreign :: "string \<Rightarrow> environment \<Rightarrow> bool" where
  "foreign pid e \<equiv> e_ProjectID e \<noteq> pid"

definition keeps :: "string \<Rightarrow> 's \<Rightarrow> 's \<Rightarrow> bool" where
  "keeps pid s s' \<longleftrightarrow> filter_mset (foreign pid) (edocs s') = filter_mset (foreign pid) (edocs s) \<and> idocs s' = idocs s"

lemma update_keeps:
  assumes "s' = s \<or> (\<exists>r. op_UpdateEnvironment g P f s = (r, s'))" "\<And>d. P d \<Longrightarrow> e_ProjectID d = pid \<and> e_ProjectID (f d) = pid"
  shows "keeps pid s s'"
  using assms(1)
proof (elim disjE exE)
  fix r assume "op_UpdateEnvironment g P f s = (r, s')"
  from op_UpdateEnvironment_other [OF this, of "foreign pid"] assms(2) show ?thesis by (simp add: keeps_def)
qed (simp add: keeps_def)

lemma handler_keeps:
  "CreateEnvironment g env pid rq u s = (r1, s') \<Longrightarrow> keeps pid s s'"
  "UpdateEnvironment g env pid rq' u s = (r2, s') \<Longrightarrow> keeps pid s s'"
  "DeleteEnvironment g env pid i u s = (r3, s') \<Longrightarrow> keeps pid s s'"
proof -
  show "keeps pid s s'" if "CreateEnvironment g env pid rq u s = (r1, s')"
  proof -
    from that obtain r where "InsertEnvironment g (new_environment env pid rq u) s = (r, s')"
      by (auto simp: CreateEnvironment_def split: prod.splits option.splits)
    from InsertEnvironment_other [OF this, of "foreign pid"] show ?thesis
      by (simp add: keeps_def new_environment_def Let_def)
  qed
  show "keeps pid s s'" if "UpdateEnvironment g env pid rq' u s = (r2, s')"
  proof -
    from that have "s' = s \<or> (\<exists>r. op_UpdateEnvironment g (live_environment pid (ue_EnvironmentID rq')) (update_of env rq' u) s = (r, s'))"
      by (auto simp: UpdateEnvironment_def split: prod.splits option.splits sum.splits)
    then show ?thesis by (rule update_keeps) (auto simp: live_environment_def)
  qed
  show "keeps pid s s'" if "DeleteEnvironment g env pid i u s = (r3, s')"
  proof -
    from that have "s' = s \<or> (\<exists>r. op_UpdateEnvironment g (live_environment pid i)
        (\<lambda>e. e\<lparr>e_IsRemoved := True, e_UpdatedAt := now_ms (g_auth env) 0, e_UpdatedBy := u\<rparr>) s = (r, s'))"
      by (auto simp: DeleteEnvironment_def split: prod.splits option.splits sum.splits)
    then show ?thesis by (rule update_keeps) (auto simp: live_environment_def)
  qed
qed

lemma guarded_keeps:
  assumes "with_role g env c pid q (with_user g env c k) s = (r, s')"
    and "\<And>u r. k u s = (r, s') \<Longrightarrow> I s'"
  shows "s' = s \<or> I s' \<and> (\<exists>u. token_user g env (gc_token c) s = Some u \<and> permitted (udocs s) (pdocs s) u pid (gql_rules q) AcceptedInvitation)"
proof (cases "ValidateRole g env c pid (gql_rules q) AcceptedInvitation s")
  case None
  then have "with_user g env c k s = (r, s')" using assms(1) by (simp add: with_role_def)
  from with_user_cases [OF this] assms(2) have "s' = s \<or> I s'" by auto
  with ValidateRole_sound [OF None] show ?thesis by blast
next
  case (Some err)
  then show ?thesis using assms(1) by (simp add: with_role_def)
qed

end

context gql_db
begin

lemma env_router_keeps:
  assumes "env_router g env c pid rq s = (r, s')"
  shows "s' = s \<or> keeps pid s s' \<and>
    (\<exists>u. token_user g env (gc_token c) s = Some u \<and> permitted (udocs s) (pdocs s) u pid [RoleOwner] AcceptedInvitation)"
proof (cases rq)
  case (CreateEnv q)
  with assms obtain r' where "r_CreateEnvironment g env c pid q s = (r', s')" by (auto simp: apfst_def map_prod_def split: prod.splits)
  from guarded_keeps [OF this [unfolded r_CreateEnvironment_def], of "keeps pid s"] show ?thesis
    using handler_keeps(1) by (simp add: gql_rules_environment)
next
  case (UpdateEnv q)
  with assms obtain r' where "r_UpdateEnvironment g env c pid q s = (r', s')" by (auto simp: apfst_def map_prod_def split: prod.splits)
  from guarded_keeps [OF this [unfolded r_UpdateEnvironment_def], of "keeps pid s"] show ?thesis
    using handler_keeps(2) by (simp add: gql_rules_environment)
next
  case (DeleteEnv q)
  with assms obtain r' where "r_DeleteEnvironment g env c pid q s = (r', s')" by (auto simp: apfst_def map_prod_def split: prod.splits)
  from guarded_keeps [OF this [unfolded r_DeleteEnvironment_def], of "keeps pid s"] show ?thesis
    using handler_keeps(3) by (simp add: gql_rules_environment)
qed

end

text \<open>
  A request that creates, updates or deletes an environment changes the database only if its token verifies,
  and the authentication server's database has its user as an active, accepted owner of the project named in the request.
  Even then no environment of another project and no infrastructure changes.
\<close>

theorem environments_changed_by_owners:
  assumes "gql_db g idocs edocs udocs pdocs rdocs adocs cdocs"
    and "env_router g env c pid rq s = (r, s')" and "s' \<noteq> s"
  shows "(\<exists>u. token_user g env (gc_token c) s = Some u \<and> permitted (udocs s) (pdocs s) u pid [RoleOwner] AcceptedInvitation) \<and>
    filter_mset (\<lambda>e. e_ProjectID e \<noteq> pid) (edocs s') = filter_mset (\<lambda>e. e_ProjectID e \<noteq> pid) (edocs s) \<and>
    idocs s' = idocs s"
  using gql_db.env_router_keeps [OF assms(1,2)] assms(3) by (simp add: gql_db.keeps_def [OF assms(1)])

definition sample_create :: create_environment_request where
  "sample_create = \<lparr>ce_env_EnvironmentID = ''env2'', ce_env_Name = ''two'', ce_env_Type = ''PROD'',
     ce_env_Description = None, ce_env_Tags = [''x'']\<rparr>"

theorem environments_changed_by_owners_witness:
  "\<exists>u. token_user mem_gql sample_gql_env ''t-ABC'' sample_gql_state = Some u \<and>
     permitted (mset (st_users sample_gql_state)) (mset (st_projects sample_gql_state)) u ''p1'' [RoleOwner] AcceptedInvitation"
proof -
  have changed: "snd (env_router mem_gql sample_gql_env sample_gctx ''p1'' (CreateEnv sample_create) sample_gql_state) \<noteq> sample_gql_state"
    by code_simp
  from environments_changed_by_owners [OF mem_gql_db surjective_pairing changed] show ?thesis
    by (simp add: sample_gctx_def)
qed

section \<open>The life of an environment\<close>

lemma new_environment_simps [simp]:
  "e_EnvironmentID (new_environment env pid rq u) = ce_env_EnvironmentID rq" "e_ProjectID (new_environment env pid rq u) = pid"
  "\<not> e_IsRemoved (new_environment env pid rq u)"
  by (simp_all add: new_environment_def Let_def)

context gql_db
begin

lemma GetEnvironment_ok:
  "GetEnvironment g pid i s = (Inr (Inr v), s') \<Longrightarrow> \<exists>e. e \<in># edocs s \<and> live_environment pid i e \<and> v = environment_out e"
  by (cases "FindOne (environments g) (live_environment pid i) s")
    (auto simp: GetEnvironment_def op_GetEnvironment_def dest!: envs.FindOne_ok)

lemma CreateEnvironment_ok:
  assumes "CreateEnvironment g env pid rq u s = (Inr (Inr v), s')"
  shows "edocs s' = add_mset (new_environment env pid rq u) (edocs s)"
    "\<forall>x\<in>#edocs s. \<not> env_conflict x (new_environment env pid rq u)"
  using assms InsertEnvironment_ok [of "new_environment env pid rq u" s s']
  by (auto simp: CreateEnvironment_def split: prod.splits option.splits)

lemma DeleteEnvironment_ok:
  assumes "DeleteEnvironment g env pid i u s = (Inr (Inr v), s')"
  shows "e \<in># edocs s' \<Longrightarrow> \<not> live_environment pid i e"
proof -
  let ?f = "\<lambda>e. e\<lparr>e_IsRemoved := True, e_UpdatedAt := now_ms (g_auth env) 0, e_UpdatedBy := u\<rparr>"
  from assms have "op_UpdateEnvironment g (live_environment pid i) ?f s = (None, s')"
    unfolding DeleteEnvironment_def by (auto split: prod.splits sum.splits option.splits)
  then obtain n where "UpdateMany (environments g) (live_environment pid i) ?f s = (Inr n, s')"
    unfolding op_UpdateEnvironment_def by (auto split: prod.splits sum.splits)
  from envs.UpdateMany_ok [OF this] have edocs: "edocs s' = updated_all (live_environment pid i) ?f (edocs s)" .
  show "\<not> live_environment pid i e" if e: "e \<in># edocs s'"
  proof -
    from e obtain d where "d \<in># edocs s" and d: "e = (if live_environment pid i d then ?f d else d)"
      unfolding edocs by (rule updated_allE)
    show ?thesis unfolding d by (simp add: live_environment_def)
  qed
qed

lemma created_found:
  assumes "CreateEnvironment g env pid rq u s = (Inr (Inr v), s1)"
    and "GetEnvironment g pid (ce_env_EnvironmentID rq) s1 = (Inr (Inr w), s1')"
  shows "w = environment_out (new_environment env pid rq u)"
  using GetEnvironment_ok [OF assms(2)] CreateEnvironment_ok [OF assms(1)] by (auto simp: live_environment_def env_conflict_def)

lemma created_taken:
  assumes "CreateEnvironment g env pid rq u s = (Inr (Inr v), s1)" "ce_env_EnvironmentID rq' = ce_env_EnvironmentID rq"
  shows "\<exists>err s1'. CreateEnvironment g env' pid' rq' u' s1 = (Inr (Inl err), s1')"
proof (cases "InsertEnvironment g (new_environment env' pid' rq' u') s1")
  case (Pair r s1')
  have "r \<noteq> None"
  proof
    assume "r = None"
    with InsertEnvironment_ok(2) Pair CreateEnvironment_ok(1) [OF assms(1)] assms(2) show False
      by (fastforce simp: env_conflict_def)
  qed
  with Pair show ?thesis by (auto simp: CreateEnvironment_def)
qed

lemma deleted_gone:
  assumes "DeleteEnvironment g env pid i u s = (Inr (Inr m), s')"
  shows "\<exists>err. GetEnvironment g pid i s' = (Inr (Inl err), s')"
proof (cases "op_GetEnvironment g (live_environment pid i) s'")
  case (Inr e)
  then have "GetEnvironment g pid i s' = (Inr (Inr (environment_out e)), s')" by (simp add: GetEnvironment_def)
  from GetEnvironment_ok [OF this] DeleteEnvironment_ok [OF assms] show ?thesis by blast
qed (simp add: GetEnvironment_def)

lemma pipeline_page:
  assumes "pipeline (Sort le # page_stages pg) ms es"
  shows "mset es \<subseteq># mset ms \<and> sorted_wrt le es \<and> length es \<le> (case pg of None \<Rightarrow> 15 | Some (page, limit) \<Rightarrow> nat limit)"
proof -
  from assms obtain qs where qs: "mset qs = mset ms" "sorted_wrt le qs" "pipeline (page_stages pg) qs es"
    by (elim pipeline_SortE) auto
  from qs(3) consider "pg = None" "es = take 15 qs"
    | page limit where "pg = Some (page, limit)" "es = take (nat limit) (drop (nat (wrap64 (page * limit))) qs)"
    by (auto simp: page_stages_def split: option.splits)
  then show ?thesis using qs(2) mset_slice [of _ 0] mset_slice by cases (auto simp: sorted_wrt_take sorted_wrt_drop simp flip: qs(1))
qed

lemma ListEnvironments_page:
  assumes "ListEnvironments g env pid request s = (Inr (Inr (cnt, vs)), s')"
    and sel: "selected = filter_mset (\<lambda>e. list_all (\<lambda>P. P e) (environment_filters env pid request)) (edocs s)"
  shows "\<exists>es. vs = map environment_out es \<and> mset es \<subseteq># selected \<and> sorted_wrt (environment_order request) es \<and>
      length es \<le> (case Option.bind request le_Pagination of None \<Rightarrow> 15 | Some (page, limit) \<Rightarrow> nat limit) \<and>
      cnt = (if es = [] then 0 else size selected)"
proof -
  let ?le = "environment_order request" and ?pg = "Option.bind request le_Pagination"
  obtain n es where f: "Facet (environments g) (map Match (environment_filters env pid request))
      (Sort ?le # page_stages ?pg) s = Inr (n, es)"
    and out: "vs = map environment_out es" "cnt = (if es = [] then 0 else case n of None \<Rightarrow> 0 | Some n \<Rightarrow> n)"
    using assms(1) by (auto simp: ListEnvironments_def split: sum.splits)
  from envs.Facet_ok [OF f] obtain ds ms where ds: "mset ds = edocs s" "pipeline (map Match (environment_filters env pid request)) ds ms"
    and ms: "pipeline (Sort ?le # page_stages ?pg) ms es" "n = (if ms = [] then None else Some (length ms))" by blast
  have sel_ms: "mset ms = selected"
    using ds by (auto simp: pipeline_matches sel list_all_iff simp flip: ds(1))
  show ?thesis
    using pipeline_page [OF ms(1)] out ms(2) by (auto simp: size_mset simp flip: sel_ms)
qed

end

text \<open>
  Once an environment has been created, looking it up in its project gives exactly what was created and its identifier
  is taken in every project; once it has been deleted, it cannot be looked up any more.
\<close>

theorem environment_life:
  assumes "gql_db g idocs edocs udocs pdocs rdocs adocs cdocs"
    and "CreateEnvironment g env pid rq u s = (Inr (Inr v), s1)"
    and "DeleteEnvironment g env' pid (ce_env_EnvironmentID rq) u' s1 = (Inr (Inr m), s2)"
  shows "(\<forall>w s1'. GetEnvironment g pid (ce_env_EnvironmentID rq) s1 = (Inr (Inr w), s1') \<longrightarrow>
           w = environment_out (new_environment env pid rq u)) \<and>
    (\<forall>env'' pid' rq' u''. ce_env_EnvironmentID rq' = ce_env_EnvironmentID rq \<longrightarrow>
           (\<exists>err s1'. CreateEnvironment g env'' pid' rq' u'' s1 = (Inr (Inl err), s1'))) \<and>
    (\<exists>err. GetEnvironment g pid (ce_env_EnvironmentID rq) s2 = (Inr (Inl err), s2))"
  using gql_db.created_found [OF assms(1,2)] gql_db.created_taken [OF assms(1,2)] gql_db.deleted_gone [OF assms(1,3)]
  by blast

theorem environment_life_witness:
  "\<exists>s1 s2 v m err. CreateEnvironment mem_gql sample_gql_env ''p1'' sample_create ''ann'' sample_gql_state = (Inr (Inr v), s1) \<and>
     DeleteEnvironment mem_gql sample_gql_env ''p1'' ''env2'' ''bob'' s1 = (Inr (Inr m), s2) \<and>
     GetEnvironment mem_gql ''p1'' ''env2'' s2 = (Inr (Inl err), s2)"
proof -
  let ?c = "CreateEnvironment mem_gql sample_gql_env ''p1'' sample_create ''ann'' sample_gql_state"
  let ?d = "DeleteEnvironment mem_gql sample_gql_env ''p1'' ''env2'' ''bob'' (snd ?c)"
  have "succeeded ?c" "succeeded ?d" by code_simp+
  then obtain v m where c: "?c = (Inr (Inr v), snd ?c)" and d: "?d = (Inr (Inr m), snd ?d)"
    by (auto dest!: succeededE)
  have i: "ce_env_EnvironmentID sample_create = ''env2''" by (simp add: sample_create_def)
  from environment_life [OF mem_gql_db c, unfolded i, OF d] c d show ?thesis by blast
qed

section \<open>Listing\<close>

text \<open>
  A listing shows only environments of the project that are not removed and that pass every filter of the request, in the
  requested order, at most as many as the requested page allows. The reported total is the number of such environments, except
  that it is 0 when the page is empty.
\<close>

theorem environment_page:
  assumes "gql_db g idocs edocs udocs pdocs rdocs adocs cdocs"
    and "ListEnvironments g env pid request s = (Inr (Inr (cnt, vs)), s')"
  shows "\<exists>es. vs = map environment_out es \<and> sorted_wrt (environment_order request) es \<and>
      mset es \<subseteq># filter_mset (\<lambda>e. list_all (\<lambda>P. P e) (environment_filters env pid request)) (edocs s) \<and>
      (\<forall>e\<in>set es. e_ProjectID e = pid \<and> \<not> e_IsRemoved e) \<and>
      length es \<le> (case Option.bind request le_Pagination of None \<Rightarrow> 15 | Some (page, limit) \<Rightarrow> nat limit) \<and>
      cnt = (if es = [] then 0
             else size (filter_mset (\<lambda>e. list_all (\<lambda>P. P e) (environment_filters env pid request)) (edocs s)))"
proof -
  from gql_db.ListEnvironments_page [OF assms refl] obtain es where es: "vs = map environment_out es"
    "mset es \<subseteq># filter_mset (\<lambda>e. list_all (\<lambda>P. P e) (environment_filters env pid request)) (edocs s)"
    "sorted_wrt (environment_order request) es"
    "length es \<le> (case Option.bind request le_Pagination of None \<Rightarrow> 15 | Some (page, limit) \<Rightarrow> nat limit)"
    "cnt = (if es = [] then 0
             else size (filter_mset (\<lambda>e. list_all (\<lambda>P. P e) (environment_filters env pid request)) (edocs s)))" by blast
  have "e_ProjectID e = pid \<and> \<not> e_IsRemoved e" if "e \<in> set es" for e
    using mset_subset_eqD [OF es(2), of e] that by (simp add: environment_filters_def)
  with es show ?thesis by blast
qed

theorem environment_page_witness:
  "\<exists>v. ListEnvironments mem_gql sample_gql_env ''p1'' None sample_gql_state = (Inr (Inr (1, [v])), sample_gql_state) \<and>
    ev_ProjectID v = ''p1''"
proof -
  let ?l = "ListEnvironments mem_gql sample_gql_env ''p1'' None sample_gql_state"
  have "?l = (Inr (Inr (1, [environment_out ((sample_environment ''env1'' ''p1'')\<lparr>e_InfraIDs := [''infra1'']\<rparr>)])), sample_gql_state)"
    by code_simp
  from environment_page [OF mem_gql_db this] this show ?thesis by (auto simp: environment_out_def)
qed

end
