(* ===== verification/Gql_Infra_Props.thy ===== *)
theory Gql_Infra_Props
  imports Gql_Connections Gql_Environment_Props
begin

text \<open>
  Properties of the infrastructures: what a registration stores, the exchange of access keys, who may change
  what, which version is the latest, and the connections of the subscribers.
\<close>

section \<open>The database operations\<close>

context gql_db
begin

lemma op_UpdateInfra_ok:
  assumes "op_UpdateInfra g P f s = (None, s')"
  shows "idocs s' = updated_all P f (idocs s)" "edocs s' = edocs s"
  using assms infras.UpdateMany_ok infras_frame(2) [of P f s]
  by (auto simp: op_UpdateInfra_def split: prod.splits sum.splits)

lemma op_UpdateInfra_other:
  assumes "op_UpdateInfra g P f s = (r, s')" "\<And>d. P d \<Longrightarrow> \<not> Q d \<and> \<not> Q (f d)"
  shows "filter_mset Q (idocs s') = filter_mset Q (idocs s)" "edocs s' = edocs s"
proof -
  obtain x where x: "UpdateMany (infras g) P f s = (x, s')"
    using assms(1) by (auto simp: op_UpdateInfra_def split: prod.splits sum.splits)
  show "edocs s' = edocs s" using infras_frame(2) [of P f s] x by simp
  show "filter_mset Q (idocs s') = filter_mset Q (idocs s)"
  proof (cases x)
    case (Inl e)
    then show ?thesis using infras.UpdateMany_err x partly_updated_other assms(2) by blast
  next
    case (Inr n)
    then show ?thesis using infras.UpdateMany_ok [of P f s n s'] x updated_all_other [of P Q f] assms(2) by simp
  qed
qed

lemma op_UpdateEnvironment_ok:
  assumes "op_UpdateEnvironment g P f s = (None, s')"
  shows "edocs s' = updated_all P f (edocs s)" "idocs s' = idocs s"
  using assms envs.UpdateMany_ok envs_frame(2) [of P f s]
  by (auto simp: op_UpdateEnvironment_def split: prod.splits sum.splits)

lemma InsertInfra_ok:
  assumes "InsertInfra g i s = (None, s')"
  shows "idocs s' = add_mset i (idocs s)" "\<forall>x\<in>#idocs s. i_InfraID x \<noteq> i_InfraID i" "edocs s' = edocs s"
  using assms infras.InsertOne_ok [of i s s'] infras_frame(1) [of i s]
  by (auto simp: InsertInfra_def infra_conflict_def split: prod.splits option.splits)

lemma InsertInfra_other:
  assumes "InsertInfra g i s = (r, s')" "\<not> Q i"
  shows "filter_mset Q (idocs s') = filter_mset Q (idocs s)" "edocs s' = edocs s"
proof -
  obtain x where x: "InsertOne (infras g) i s = (x, s')"
    using assms(1) by (auto simp: InsertInfra_def split: prod.splits option.splits)
  show "edocs s' = edocs s" using infras_frame(1) [of i s] x by simp
  show "filter_mset Q (idocs s') = filter_mset Q (idocs s)"
    using infras.InsertOne_cases [OF x] assms(2) by auto
qed

lemma op_GetInfra_ok: "op_GetInfra g infraID s = Inr i \<Longrightarrow> i \<in># idocs s \<and> i_InfraID i = infraID"
  by (cases "FindOne (infras g) (\<lambda>i. i_InfraID i = infraID) s") (auto simp: op_GetInfra_def dest!: infras.FindOne_ok)

end

section \<open>Registration\<close>

lemma stored_infra_simps [simp]:
  "i_InfraID (stored_infra i) = i_InfraID i" "i_ProjectID (stored_infra i) = i_ProjectID i" "i_AccessKey (stored_infra i) = i_AccessKey i"
  "i_IsRegistered (stored_infra i) = i_IsRegistered i"
  by (simp_all add: stored_infra_def)

lemma new_infra_simps [simp]:
  "i_InfraID (new_infra env p rq d u t k ts) = new_uuid (g_auth env) 0" "i_ProjectID (new_infra env p rq d u t k ts) = p"
  "i_AccessKey (new_infra env p rq d u t k ts) = k" "\<not> i_IsRegistered (new_infra env p rq d u t k ts)"
  "\<not> i_IsInfraConfirmed (new_infra env p rq d u t k ts)" "\<not> i_IsActive (new_infra env p rq d u t k ts)"
  "\<not> i_IsRemoved (new_infra env p rq d u t k ts)" "i_Name (new_infra env p rq d u t k ts) = ri_Name rq"
  "i_NodeSelector (new_infra env p rq d u t k ts) = ri_NodeSelector rq" "i_Token (new_infra env p rq d u t k ts) = t"
  "i_EnvironmentID (new_infra env p rq d u t k ts) = ri_EnvironmentID rq"
  by (simp_all add: new_infra_def Let_def)

text \<open>The document prepared is new and carries the generated key; an environment of the project is named.\<close>

definition prepared :: "'s gql_db \<Rightarrow> gql_env \<Rightarrow> string \<Rightarrow> register_infra_request \<Rightarrow> 's \<Rightarrow> chaos_infra \<Rightarrow> bool" where
  "prepared g env pid input s i \<longleftrightarrow>
     (\<exists>descr u t k ts. i = new_infra env pid input descr u t k ts \<and> GenerateAccessKey env 32 = Inr k \<and>
        InfraCreateJWT g env (new_uuid (g_auth env) 0) s = Inr t) \<and>
     (\<exists>e. GetEnvironmentDetails g (ri_EnvironmentID input) pid s = Inr e) \<and> selector_error (ri_NodeSelector input) = None"

lemma prepare_infra_ok: "prepare_infra g env c pid input s = Inr (Inr i) \<Longrightarrow> prepared g env pid input s i"
  unfolding prepare_infra_def prepared_def by (auto split: sum.splits if_splits option.splits)

lemma selector_list_returns: "selector_errors els = None \<Longrightarrow> \<exists>m'. selector_list m els = Inr m'"
  by (induction els arbitrary: m) (auto simp: Let_def split: if_splits)

lemma GetK8sInfraYaml_returns:
  assumes "selector_error (i_NodeSelector i) = None"
  shows "GetK8sInfraYaml env host i \<noteq> Inl p"
proof -
  have "node_selector_text env i \<noteq> Inl p" for p
  proof (cases "i_NodeSelector i")
    case (Some sel)
    with assms obtain m where "selector_list Map.empty (go_split sel '','') = Inr m"
      using selector_list_returns by (auto simp: selector_error_def)
    with Some show ?thesis by (simp add: node_selector_text_def split: sum.splits)
  qed (simp add: node_selector_text_def)
  then have "ManifestParser env i path endpoint \<noteq> Inl p" for path endpoint p
    unfolding ManifestParser_def by (auto split: sum.splits bool.splits)
  then show ?thesis
    by (simp add: GetK8sInfraYaml_def)
qed

text \<open>The stages of a registration after the document is prepared.\<close>

definition push_infra :: "string \<Rightarrow> environment \<Rightarrow> environment" where
  "push_infra i e = e\<lparr>e_InfraIDs := e_InfraIDs e @ [i]\<rparr>"

definition names_environment :: "string \<Rightarrow> string \<Rightarrow> environment \<Rightarrow> bool" where
  "names_environment pid ei e \<longleftrightarrow> e_ProjectID e = pid \<and> e_EnvironmentID e = ei"

lemma RegisterInfra_stages:
  "RegisterInfra g env c pid input s =
     (case prepare_infra g env c pid input s of
        Inl p \<Rightarrow> (Inl p, s, [])
      | Inr (Inl e) \<Rightarrow> (Inr (Inl e), s, [])
      | Inr (Inr infra) \<Rightarrow>
      (case InsertInfra g (stored_infra infra) s of
        (Some e, s1) \<Rightarrow> (Inr (Inl e), s1, [])
      | (None, s1) \<Rightarrow>
      (case op_UpdateEnvironment g (names_environment pid (ri_EnvironmentID input)) (push_infra (i_InfraID infra)) s1 of
        (Some e, s2) \<Rightarrow> (Inr (Inl e), s2, [])
      | (None, s2) \<Rightarrow>
      (case referer_host env c of
        Inl e \<Rightarrow> (Inr (Inl e), s2, [])
      | Inr host \<Rightarrow>
      (case GetK8sInfraYaml env host infra of
        Inl p \<Rightarrow> (Inl p, s2, [])
      | Inr (Inl e) \<Rightarrow> (Inr (Inl e), s2, [])
      | Inr (Inr yaml) \<Rightarrow>
          (Inr (Inr \<lparr>rr_Token = i_Token infra, rr_InfraID = i_InfraID infra, rr_Name = i_Name infra, rr_Manifest = yaml\<rparr>), s2, []))))))"
  unfolding RegisterInfra_def names_environment_def [abs_def] push_infra_def [abs_def] by (rule refl)

lemma RegisterInfra_success:
  assumes "RegisterInfra g env c pid input s = (Inr (Inr resp), s', sigs)"
  obtains i s1 host where "prepared g env pid input s i" "InsertInfra g (stored_infra i) s = (None, s1)"
    "op_UpdateEnvironment g (names_environment pid (ri_EnvironmentID input)) (push_infra (i_InfraID i)) s1 = (None, s')"
    "referer_host env c = Inr host" "GetK8sInfraYaml env host i = Inr (Inr (rr_Manifest resp))"
    "rr_InfraID resp = i_InfraID i" "rr_Token resp = i_Token i" "rr_Name resp = i_Name i" "sigs = []"
  using assms unfolding RegisterInfra_stages
  by (auto split: sum.splits prod.splits option.splits dest!: prepare_infra_ok)

context gql_db
begin

lemma GetEnvironmentDetails_ok:
  "GetEnvironmentDetails g ei pid s = Inr e \<Longrightarrow> e \<in># edocs s \<and> names_environment pid ei e"
  by (cases "FindOne (environments g) (\<lambda>e. e_ProjectID e = pid \<and> e_EnvironmentID e = ei) s")
    (auto simp: GetEnvironmentDetails_def names_environment_def dest!: envs.FindOne_ok)

lemma RegisterInfra_effect:
  assumes "RegisterInfra g env c pid input s = (Inr (Inr resp), s', sigs)"
  shows "\<exists>i. prepared g env pid input s i \<and> rr_InfraID resp = i_InfraID i \<and> rr_Token resp = i_Token i \<and>
      idocs s' = add_mset (stored_infra i) (idocs s) \<and> (\<forall>x\<in>#idocs s. i_InfraID x \<noteq> i_InfraID i) \<and>
      edocs s' = updated_all (names_environment pid (ri_EnvironmentID input)) (push_infra (i_InfraID i)) (edocs s) \<and>
      (\<exists>e\<in>#edocs s. names_environment pid (ri_EnvironmentID input) e) \<and>
      (\<exists>host. referer_host env c = Inr host \<and> GetK8sInfraYaml env host i = Inr (Inr (rr_Manifest resp)))"
proof (rule RegisterInfra_success [OF assms], goal_cases)
  case (1 i s1 host)
  from 1(1) obtain e where "GetEnvironmentDetails g (ri_EnvironmentID input) pid s = Inr e" by (auto simp: prepared_def)
  then have "\<exists>e\<in>#edocs s. names_environment pid (ri_EnvironmentID input) e" using GetEnvironmentDetails_ok by blast
  moreover have "idocs s' = add_mset (stored_infra i) (idocs s)" "\<forall>x\<in>#idocs s. i_InfraID x \<noteq> i_InfraID i"
    "edocs s' = updated_all (names_environment pid (ri_EnvironmentID input)) (push_infra (i_InfraID i)) (edocs s)"
    using InsertInfra_ok [OF 1(2)] op_UpdateEnvironment_ok [OF 1(3)] by auto
  ultimately show ?case using 1(1,4-7) by blast
qed

end

text \<open>
  A registration that succeeds stores exactly one new infrastructure, with an identifier no other has, unconfirmed,
  unregistered, inactive and with a fresh access key. It is entered into the environment the request names, which exists in the
  project; no other environment and no other infrastructure changes. The manifest returned is generated for it.
\<close>

theorem infra_registered:
  assumes "gql_db g idocs edocs udocs pdocs rdocs adocs cdocs"
    and "RegisterInfra g env c pid input s = (Inr (Inr resp), s', sigs)"
  shows "\<exists>i key host. idocs s' = add_mset (stored_infra i) (idocs s) \<and> (\<forall>x\<in>#idocs s. i_InfraID x \<noteq> i_InfraID i) \<and>
      i_InfraID i = rr_InfraID resp \<and> i_ProjectID i = pid \<and> i_Name i = ri_Name input \<and>
      GenerateAccessKey env 32 = Inr key \<and> i_AccessKey i = key \<and>
      \<not> i_IsRegistered i \<and> \<not> i_IsInfraConfirmed i \<and> \<not> i_IsActive i \<and> \<not> i_IsRemoved i \<and>
      edocs s' = image_mset (\<lambda>e. if e_ProjectID e = pid \<and> e_EnvironmentID e = ri_EnvironmentID input
                               then e\<lparr>e_InfraIDs := e_InfraIDs e @ [rr_InfraID resp]\<rparr> else e) (edocs s) \<and>
      (\<exists>e. e \<in># edocs s \<and> e_ProjectID e = pid \<and> e_EnvironmentID e = ri_EnvironmentID input) \<and>
      referer_host env c = Inr host \<and> GetK8sInfraYaml env host i = Inr (Inr (rr_Manifest resp))"
proof -
  from gql_db.RegisterInfra_effect [OF assms] obtain i host where i: "prepared g env pid input s i" "rr_InfraID resp = i_InfraID i"
    "idocs s' = add_mset (stored_infra i) (idocs s)" "\<forall>x\<in>#idocs s. i_InfraID x \<noteq> i_InfraID i"
    "edocs s' = updated_all (names_environment pid (ri_EnvironmentID input)) (push_infra (i_InfraID i)) (edocs s)"
    "\<exists>e\<in>#edocs s. names_environment pid (ri_EnvironmentID input) e"
    "referer_host env c = Inr host" "GetK8sInfraYaml env host i = Inr (Inr (rr_Manifest resp))" by blast
  from i(1) obtain descr u t key ts where n: "i = new_infra env pid input descr u t key ts" "GenerateAccessKey env 32 = Inr key"
    by (auto simp: prepared_def)
  have e: "edocs s' = image_mset (\<lambda>e. if e_ProjectID e = pid \<and> e_EnvironmentID e = ri_EnvironmentID input
      then e\<lparr>e_InfraIDs := e_InfraIDs e @ [rr_InfraID resp]\<rparr> else e) (edocs s)"
    unfolding i(2,5) updated_all_def names_environment_def push_infra_def ..
  show ?thesis
    by (intro exI [of _ i] exI [of _ key] exI [of _ host] conjI; (fact i e n)?)
      (use n i(2,6) in \<open>auto simp: names_environment_def\<close>)
qed

definition sample_register :: register_infra_request where
  "sample_register = \<lparr>ri_Name = ''k8s'', ri_EnvironmentID = ''env1'', ri_InfrastructureType = ''Kubernetes'', ri_Description = Some ''d'',
     ri_PlatformName = ''GKE'', ri_InfraNamespace = Some ''litmus'', ri_ServiceAccount = None, ri_InfraScope = ''cluster'',
     ri_InfraNsExists = Some False, ri_InfraSaExists = None, ri_SkipSsl = None, ri_NodeSelector = Some ''a=b'', ri_Tolerations = None,
     ri_Tags = []\<rparr>"

definition sample_registration where
  "sample_registration = RegisterInfra mem_gql sample_gql_env sample_gctx ''p1'' sample_register sample_gql_state"

lemma sample_registration_ok:
  "\<exists>resp. RegisterInfra mem_gql sample_gql_env sample_gctx ''p1'' sample_register sample_gql_state =
     (Inr (Inr resp), fst (snd sample_registration), []) \<and> rr_InfraID resp = ''new''"
proof -
  have "(case fst sample_registration of Inr (Inr resp) \<Rightarrow> rr_InfraID resp = ''new'' | _ \<Rightarrow> False) \<and> snd (snd sample_registration) = []"
    by code_simp
  then show ?thesis
    unfolding sample_registration_def [symmetric] by (auto split: sum.splits intro!: tripleI)
qed

theorem infra_registered_witness:
  "\<exists>i. mset (st_infras (fst (snd sample_registration))) = add_mset (stored_infra i) (mset (st_infras sample_gql_state)) \<and>
     i_InfraID i = ''new'' \<and> i_ProjectID i = ''p1''"
proof -
  obtain resp where r: "RegisterInfra mem_gql sample_gql_env sample_gctx ''p1'' sample_register sample_gql_state =
      (Inr (Inr resp), fst (snd sample_registration), [])" "rr_InfraID resp = ''new''"
    using sample_registration_ok by blast
  from infra_registered [OF mem_gql_db r(1)] r(2) show ?thesis by auto
qed

text \<open>
  Registering an infrastructure panics only on a request without \<^verbatim>\<open>infraNsExists\<close> or without a description, or on a
  token without a string user name, and then nothing has been stored. In particular the checks on the node selector rule
  out the index error of the manifest generator.
\<close>

theorem registration_panics:
  assumes "RegisterInfra g env c pid input s = (Inl p, s', sigs)"
  shows "s' = s \<and> sigs = [] \<and>
    (ri_InfraNsExists input = None \<or> ri_Description input = None \<or> GetUsername g env (gc_token c) s = Inl p)"
proof -
  have yaml: "GetK8sInfraYaml env host i \<noteq> Inl p" if "prepare_infra g env c pid input s = Inr (Inr i)" for host i
    using prepare_infra_ok [OF that] by (intro GetK8sInfraYaml_returns) (auto simp: prepared_def)
  have "prepare_infra g env c pid input s = Inl p \<and> s' = s \<and> sigs = []"
    using assms yaml unfolding RegisterInfra_stages by (auto split: sum.splits prod.splits option.splits)
  then show ?thesis
    unfolding prepare_infra_def by (auto split: sum.splits if_splits option.splits)
qed

theorem registration_panics_witness:
  "\<exists>s'. RegisterInfra mem_gql sample_gql_env sample_gctx ''p1'' (sample_register\<lparr>ri_Description := None\<rparr>) sample_gql_state =
     (Inl NilDereference, s', []) \<and> s' = sample_gql_state"
proof -
  let ?r = "RegisterInfra mem_gql sample_gql_env sample_gctx ''p1'' (sample_register\<lparr>ri_Description := None\<rparr>) sample_gql_state"
  have "fst ?r = Inl NilDereference" "snd (snd ?r) = []" by code_simp+
  from tripleI [OF this] registration_panics [OF tripleI [OF this]] show ?thesis by blast
qed

section \<open>Access keys\<close>

definition confirmed_infra :: "string \<Rightarrow> int \<Rightarrow> chaos_infra \<Rightarrow> chaos_infra" where
  "confirmed_infra key t i =
     i\<lparr>i_Token := '''', i_AccessKey := key, i_IsRegistered := True, i_IsInfraConfirmed := True, i_UpdatedAt := t\<rparr>"

context gql_db
begin

text \<open>The only infrastructure with this identifier is \<^verbatim>\<open>i\<close>.\<close>

definition sole :: "chaos_infra \<Rightarrow> 's \<Rightarrow> bool" where
  "sole i s \<longleftrightarrow> (\<forall>x\<in>#idocs s. i_InfraID x = i_InfraID i \<longrightarrow> x = i)"

lemma sole_GetInfra: "sole i s \<Longrightarrow> op_GetInfra g (i_InfraID i) s = Inr x \<Longrightarrow> x = i"
  using op_GetInfra_ok by (auto simp: sole_def)

lemma sole_VerifyInfra:
  assumes "sole i s" "id_InfraID ident = i_InfraID i" "VerifyInfra g env ident s = Inr x"
  shows "x = i \<and> id_AccessKey ident = i_AccessKey i \<and> i_IsRegistered i"
proof -
  have "op_GetInfra g (id_InfraID ident) s = Inr x" "i_AccessKey x = id_AccessKey ident" "i_IsRegistered x"
    using assms(3) by (auto simp: VerifyInfra_def Let_def split: option.splits sum.splits if_splits)
  with sole_GetInfra [OF assms(1)] assms(2) show ?thesis by auto
qed

lemma sole_update:
  assumes "op_UpdateInfra g (\<lambda>x. i_InfraID x = i_InfraID i) f s = (None, s')" "sole i s" "\<And>x. i_InfraID (f x) = i_InfraID x"
  shows "sole (f i) s'"
proof -
  have "x = f i" if "x \<in># updated_all (\<lambda>x. i_InfraID x = i_InfraID i) f (idocs s)" "i_InfraID x = i_InfraID (f i)" for x
  proof (rule updated_allE [OF that(1)])
    fix d assume "d \<in># idocs s" "x = (if i_InfraID d = i_InfraID i then f d else d)"
    with that(2) assms(2,3) show "x = f i" unfolding sole_def by (auto split: if_splits)
  qed
  then show ?thesis unfolding sole_def op_UpdateInfra_ok(1) [OF assms(1)] by blast
qed

lemma ConfirmInfraRegistration_effect:
  assumes "ConfirmInfraRegistration g env rq s = (Inr (Inr cr), s', evs)" "sole i s" "id_InfraID rq = i_InfraID i"
  shows "cr_IsInfraConfirmed cr \<longleftrightarrow> id_AccessKey rq = i_AccessKey i"
    and "\<not> cr_IsInfraConfirmed cr \<Longrightarrow> s' = s \<and> evs = []"
    and "cr_IsInfraConfirmed cr \<Longrightarrow> \<exists>key t. cr_NewAccessKey cr = Some key \<and> GenerateAccessKey env 32 = Inr key \<and>
           sole (confirmed_infra key t i) s'"
proof -
  let ?f = "\<lambda>key. confirmed_infra key (now_ms (g_auth env) 0)"
  obtain x where x: "op_GetInfra g (i_InfraID i) s = Inr x"
    using assms(1,3) by (auto simp: ConfirmInfraRegistration_def Let_def split: if_splits sum.splits)
  note [simp] = sole_GetInfra [OF assms(2) x]
  show "cr_IsInfraConfirmed cr \<longleftrightarrow> id_AccessKey rq = i_AccessKey i" "\<not> cr_IsInfraConfirmed cr \<Longrightarrow> s' = s \<and> evs = []"
    using assms(1,3) x by (auto simp: ConfirmInfraRegistration_def Let_def split: if_splits sum.splits prod.splits option.splits)
  assume "cr_IsInfraConfirmed cr"
  with assms(1,3) x obtain key where key: "GenerateAccessKey env 32 = Inr key" "cr_NewAccessKey cr = Some key"
    "op_UpdateInfra g (\<lambda>x. i_InfraID x = i_InfraID i) (?f key) s = (None, s')"
    by (auto simp: ConfirmInfraRegistration_def Let_def confirmed_infra_def [abs_def] split: if_splits sum.splits prod.splits option.splits)
  from sole_update [OF key(3) assms(2)] key show "\<exists>key t. cr_NewAccessKey cr = Some key \<and> GenerateAccessKey env 32 = Inr key \<and>
      sole (confirmed_infra key t i) s'"
    by (auto simp: confirmed_infra_def)
qed

end

text \<open>
  C15: The access keys of an infrastructure. Between registration and confirmation no identity with its identifier is verified.
  A confirmation succeeds exactly with the key of the registration; it replaces that key, and from then on only the new
  key is verified. A refused confirmation changes nothing.
\<close>

theorem access_key_handshake:
  assumes "gql_db g idocs edocs udocs pdocs rdocs adocs cdocs"
    and "RegisterInfra g env c pid input s = (Inr (Inr resp), s1, sigs)"
    and "ConfirmInfraRegistration g env' rq s1 = (Inr (Inr cr), s2, evs)" and "id_InfraID rq = rr_InfraID resp"
  shows "(\<forall>env'' ident i. id_InfraID ident = rr_InfraID resp \<longrightarrow> VerifyInfra g env'' ident s1 \<noteq> Inr i) \<and>
    (cr_IsInfraConfirmed cr \<longleftrightarrow> GenerateAccessKey env 32 = Inr (id_AccessKey rq)) \<and>
    (\<not> cr_IsInfraConfirmed cr \<longrightarrow> s2 = s1 \<and> evs = []) \<and>
    (cr_IsInfraConfirmed cr \<longrightarrow>
      (\<exists>key. cr_NewAccessKey cr = Some key \<and> GenerateAccessKey env' 32 = Inr key \<and>
        (\<forall>env'' ident i. id_InfraID ident = rr_InfraID resp \<longrightarrow> VerifyInfra g env'' ident s2 = Inr i \<longrightarrow>
           id_AccessKey ident = key \<and> i_IsInfraConfirmed i \<and> i_ProjectID i = pid)))"
proof -
  from gql_db.RegisterInfra_effect [OF assms(1,2)] obtain i where i: "prepared g env pid input s i" "rr_InfraID resp = i_InfraID i"
    "idocs s1 = add_mset (stored_infra i) (idocs s)" "\<forall>x\<in>#idocs s. i_InfraID x \<noteq> i_InfraID i" by blast
  let ?i = "stored_infra i"
  have new: "\<not> i_IsRegistered ?i" "i_ProjectID ?i = pid" "GenerateAccessKey env 32 = Inr (i_AccessKey ?i)"
    using i(1) by (auto simp: prepared_def)
  have sole: "gql_db.sole idocs ?i s1" using i(3,4) by (auto simp: gql_db.sole_def [OF assms(1)])
  have ids: "id_InfraID rq = i_InfraID ?i" using assms(4) i(2) by simp
  note confirm = gql_db.ConfirmInfraRegistration_effect [OF assms(1,3) sole ids]
  have before: "VerifyInfra g env'' ident s1 \<noteq> Inr x" if "id_InfraID ident = rr_InfraID resp" for env'' ident x
    using gql_db.sole_VerifyInfra [OF assms(1) sole, of ident env'' x] that i(2) new(1) by auto
  have after: "id_AccessKey ident = key \<and> i_IsInfraConfirmed x \<and> i_ProjectID x = pid"
    if "gql_db.sole idocs (confirmed_infra key t ?i) s2"
      "id_InfraID ident = rr_InfraID resp" "VerifyInfra g env'' ident s2 = Inr x" for key t env'' ident x
    using gql_db.sole_VerifyInfra [OF assms(1) that(1) _ that(3)] that(2) i(2) new(2) by (simp add: confirmed_infra_def)
  have keys: "cr_IsInfraConfirmed cr \<longleftrightarrow> GenerateAccessKey env 32 = Inr (id_AccessKey rq)"
    unfolding confirm(1) new(3) by auto
  have later: "\<exists>key. cr_NewAccessKey cr = Some key \<and> GenerateAccessKey env' 32 = Inr key \<and>
      (\<forall>env'' ident x. id_InfraID ident = rr_InfraID resp \<longrightarrow> VerifyInfra g env'' ident s2 = Inr x \<longrightarrow>
         id_AccessKey ident = key \<and> i_IsInfraConfirmed x \<and> i_ProjectID x = pid)" if "cr_IsInfraConfirmed cr"
  proof -
    from confirm(3) [OF that] obtain key t where key: "cr_NewAccessKey cr = Some key" "GenerateAccessKey env' 32 = Inr key"
      "gql_db.sole idocs (confirmed_infra key t ?i) s2" by (elim exE conjE)
    from after [OF key(3)] key(1,2) show ?thesis by blast
  qed
  from before keys later confirm(2) show ?thesis by blast
qed

theorem access_key_handshake_witness:
  "\<exists>cr s2 evs. ConfirmInfraRegistration mem_gql sample_gql_env
       \<lparr>id_InfraID = ''new'', id_AccessKey = ''no key'', id_Version = ''3.9.0''\<rparr> (fst (snd sample_registration)) = (Inr (Inr cr), s2, evs) \<and>
     \<not> cr_IsInfraConfirmed cr \<and> s2 = fst (snd sample_registration)"
proof -
  let ?rq = "\<lparr>id_InfraID = ''new'', id_AccessKey = ''no key'', id_Version = ''3.9.0''\<rparr>"
  let ?c = "ConfirmInfraRegistration mem_gql sample_gql_env ?rq (fst (snd sample_registration))"
  let ?cr = "\<lparr>cr_IsInfraConfirmed = False, cr_NewAccessKey = None, cr_InfraID = None\<rparr>"
  have c: "fst ?c = Inr (Inr ?cr)" "snd (snd ?c) = []" by code_simp+
  obtain resp where r: "RegisterInfra mem_gql sample_gql_env sample_gctx ''p1'' sample_register sample_gql_state =
      (Inr (Inr resp), fst (snd sample_registration), [])" "rr_InfraID resp = ''new''"
    using sample_registration_ok by blast
  from access_key_handshake [OF mem_gql_db r(1) tripleI [OF c]] r(2) tripleI [OF c] show ?thesis by auto
qed

text \<open>The other branch on the same registration: the manifest's key confirms, and the new key verifies.\<close>

lemma sample_confirmed:
  "let key = (case GenerateAccessKey sample_gql_env 32 of Inr k \<Rightarrow> k | Inl e \<Rightarrow> '''');
       (r, s2, evs) = ConfirmInfraRegistration mem_gql sample_gql_env
          \<lparr>id_InfraID = ''new'', id_AccessKey = key, id_Version = ''3.9.0''\<rparr> (fst (snd sample_registration))
   in (case r of Inr (Inr cr) \<Rightarrow> cr_IsInfraConfirmed cr | _ \<Rightarrow> False) \<and> length evs = 1 \<and>
      (case VerifyInfra mem_gql sample_gql_env \<lparr>id_InfraID = ''new'', id_AccessKey = key, id_Version = ''3.1.4''\<rparr> s2 of
         Inr i \<Rightarrow> i_IsInfraConfirmed i | Inl e \<Rightarrow> False)"
  by code_simp

section \<open>Who changes infrastructures\<close>

datatype infra_request = Register register_infra_request | Delete string

fun infra_router :: "'s gql_db \<Rightarrow> gql_env \<Rightarrow> gctx \<Rightarrow> string \<Rightarrow> infra_request \<Rightarrow> 's \<Rightarrow> 's \<times> signal list" where
  "infra_router g env c pid (Register rq) s = snd (r_RegisterInfra g env c pid rq s)"
| "infra_router g env c pid (Delete i) s = snd (r_DeleteInfra g env c pid i s)"

text \<open>\<^verbatim>\<open>DeleteInfra\<close> with its filters and updates named.\<close>

definition live_infra :: "string \<Rightarrow> string \<Rightarrow> chaos_infra \<Rightarrow> bool" where
  "live_infra pid i x \<longleftrightarrow> i_InfraID x = i \<and> i_ProjectID x = pid \<and> \<not> i_IsRemoved x"

definition removed_infra :: "gql_env \<Rightarrow> string \<Rightarrow> chaos_infra \<Rightarrow> chaos_infra" where
  "removed_infra env u i = i\<lparr>i_IsRemoved := True, i_UpdatedAt := now_ms (g_auth env) 0, i_UpdatedBy := u\<rparr>"

definition pull_infra :: "string \<Rightarrow> environment \<Rightarrow> environment" where
  "pull_infra i e = e\<lparr>e_InfraIDs := removeAll i (e_InfraIDs e)\<rparr>"

definition delete_signal :: "chaos_infra \<Rightarrow> string \<Rightarrow> string \<Rightarrow> string \<Rightarrow> signal" where
  "delete_signal infra ns u m = SubscriberRequest \<lparr>sr_K8sManifest = m, sr_RequestType = ''delete'', sr_ProjectID = i_ProjectID infra,
     sr_InfraID = i_InfraID infra, sr_Namespace = ns, sr_Username = Some u, sr_ExternalData = None\<rparr>"

lemma DeleteInfra_stages:
  "DeleteInfra g env c pid infraId s =
     (case GetUsername g env (gc_token c) s of
        Inl p \<Rightarrow> (Inl p, s, [])
      | Inr (Inl e) \<Rightarrow> (Inr (Inl e), s, [])
      | Inr (Inr u) \<Rightarrow>
      (case op_GetInfra g infraId s of
        Inl e \<Rightarrow> (Inr (Inl e), s, [])
      | Inr infra \<Rightarrow>
      (case op_UpdateInfra g (live_infra pid infraId) (removed_infra env u) s of
        (Some e, s1) \<Rightarrow> (Inr (Inl e), s1, [])
      | (None, s1) \<Rightarrow>
      (case op_UpdateEnvironment g (names_environment pid (i_EnvironmentID infra)) (pull_infra (i_InfraID infra)) s1 of
        (Some e, s2) \<Rightarrow> (Inr (Inl e), s2, [])
      | (None, s2) \<Rightarrow>
      (case i_InfraNamespace infra of
        None \<Rightarrow> (Inl NilDereference, s2, [])
      | Some ns \<Rightarrow> (Inr (Inr ''infra deleted successfully''), s2, map (delete_signal infra ns u) (delete_requests ns)))))))"
  unfolding DeleteInfra_def live_infra_def [abs_def] removed_infra_def [abs_def] names_environment_def [abs_def] pull_infra_def [abs_def]
    delete_signal_def [abs_def] by (rule refl)

context gql_db
begin

definition keeps_foreign :: "string \<Rightarrow> 's \<Rightarrow> 's \<Rightarrow> bool" where
  "keeps_foreign pid s s' \<longleftrightarrow>
     filter_mset (\<lambda>i. i_ProjectID i \<noteq> pid) (idocs s') = filter_mset (\<lambda>i. i_ProjectID i \<noteq> pid) (idocs s) \<and>
     filter_mset (\<lambda>e. e_ProjectID e \<noteq> pid) (edocs s') = filter_mset (\<lambda>e. e_ProjectID e \<noteq> pid) (edocs s)"

lemma keeps_foreign_refl: "keeps_foreign pid s s"
  by (simp add: keeps_foreign_def)

lemma keeps_foreign_trans: "keeps_foreign pid s s1 \<Longrightarrow> keeps_foreign pid s1 s2 \<Longrightarrow> keeps_foreign pid s s2"
  by (simp add: keeps_foreign_def)

lemma update_infra_foreign:
  "op_UpdateInfra g P f s = (r, s') \<Longrightarrow> (\<And>d. P d \<Longrightarrow> i_ProjectID d = pid \<and> i_ProjectID (f d) = pid) \<Longrightarrow> keeps_foreign pid s s'"
  using op_UpdateInfra_other [of P f s r s' "\<lambda>i. i_ProjectID i \<noteq> pid"] by (simp add: keeps_foreign_def)

lemma update_env_foreign:
  "op_UpdateEnvironment g P f s = (r, s') \<Longrightarrow> (\<And>d. P d \<Longrightarrow> e_ProjectID d = pid \<and> e_ProjectID (f d) = pid) \<Longrightarrow> keeps_foreign pid s s'"
  using op_UpdateEnvironment_other [of P f s r s' "\<lambda>e. e_ProjectID e \<noteq> pid"] by (simp add: keeps_foreign_def)

lemma insert_infra_foreign: "InsertInfra g i s = (r, s') \<Longrightarrow> i_ProjectID i = pid \<Longrightarrow> keeps_foreign pid s s'"
  using InsertInfra_other [of i s r s' "\<lambda>i. i_ProjectID i \<noteq> pid"] by (simp add: keeps_foreign_def)

lemma foreign_filters:
  "names_environment pid ei e \<Longrightarrow> e_ProjectID e = pid \<and> e_ProjectID (push_infra i e) = pid"
  "names_environment pid ei e \<Longrightarrow> e_ProjectID e = pid \<and> e_ProjectID (pull_infra i e) = pid"
  "live_infra pid j x \<Longrightarrow> i_ProjectID x = pid \<and> i_ProjectID (removed_infra env u x) = pid"
  by (simp_all add: names_environment_def push_infra_def pull_infra_def live_infra_def removed_infra_def)

lemma RegisterInfra_foreign:
  assumes "RegisterInfra g env c pid input s = (r, s', sigs)"
  shows "keeps_foreign pid s s'"
proof (cases "\<exists>i. prepare_infra g env c pid input s = Inr (Inr i)")
  case True
  then obtain i where i: "prepare_infra g env c pid input s = Inr (Inr i)" by blast
  obtain r1 s1 where ins: "InsertInfra g (stored_infra i) s = (r1, s1)" by fastforce
  have p: "i_ProjectID (stored_infra i) = pid" using prepare_infra_ok [OF i] by (auto simp: prepared_def)
  obtain r2 s2 where upd: "op_UpdateEnvironment g (names_environment pid (ri_EnvironmentID input)) (push_infra (i_InfraID i)) s1 = (r2, s2)"
    by fastforce
  have "s' = s1 \<or> s' = s2"
    using assms i ins upd unfolding RegisterInfra_stages by (auto split: option.splits sum.splits)
  moreover have "keeps_foreign pid s1 s2" by (rule update_env_foreign [OF upd]) (rule foreign_filters(1))
  ultimately show ?thesis using insert_infra_foreign [OF ins p] keeps_foreign_trans by blast
next
  case False
  then have "s' = s" using assms unfolding RegisterInfra_stages by (auto split: sum.splits)
  then show ?thesis by (simp add: keeps_foreign_refl)
qed

lemma DeleteInfra_foreign:
  assumes "DeleteInfra g env c pid i s = (r, s', sigs)"
  shows "keeps_foreign pid s s'"
proof (cases "\<exists>u infra. GetUsername g env (gc_token c) s = Inr (Inr u) \<and> op_GetInfra g i s = Inr infra")
  case True
  then obtain u infra where u: "GetUsername g env (gc_token c) s = Inr (Inr u)" "op_GetInfra g i s = Inr infra" by blast
  obtain r1 s1 where inf: "op_UpdateInfra g (live_infra pid i) (removed_infra env u) s = (r1, s1)" by fastforce
  obtain r2 s2 where upd: "op_UpdateEnvironment g (names_environment pid (i_EnvironmentID infra)) (pull_infra (i_InfraID infra)) s1 = (r2, s2)"
    by fastforce
  have "s' = s1 \<or> s' = s2"
    using assms u inf upd unfolding DeleteInfra_stages by (auto split: option.splits)
  moreover have "keeps_foreign pid s s1" by (rule update_infra_foreign [OF inf]) (rule foreign_filters(3))
  moreover have "keeps_foreign pid s1 s2" by (rule update_env_foreign [OF upd]) (rule foreign_filters(2))
  ultimately show ?thesis using keeps_foreign_trans by blast
next
  case False
  then have "s' = s" using assms unfolding DeleteInfra_stages by (auto split: sum.splits)
  then show ?thesis by (simp add: keeps_foreign_refl)
qed

lemma guarded_role:
  assumes "guarded g env c pid q k s = (r, s', sigs)"
  shows "r \<noteq> Inr (Inr x) \<and> s' = s \<and> sigs = [] \<or> k s = (r, s', sigs) \<and>
    (\<exists>u. token_user g env (gc_token c) s = Some u \<and> permitted (udocs s) (pdocs s) u pid (gql_rules q) AcceptedInvitation)"
  using assms ValidateRole_sound by (auto simp: guarded_def split: option.splits)

lemma infra_router_owner:
  assumes "infra_router g env c pid rq s = (s', sigs)"
  shows "s' = s \<and> sigs = [] \<or> keeps_foreign pid s s' \<and>
    (\<exists>u. token_user g env (gc_token c) s = Some u \<and> permitted (udocs s) (pdocs s) u pid [RoleOwner] AcceptedInvitation)"
proof (cases rq)
  case (Register q)
  then obtain r where "r_RegisterInfra g env c pid q s = (r, s', sigs)" using assms by (metis infra_router.simps(1) surjective_pairing)
  from guarded_role [OF this [unfolded r_RegisterInfra_def]] RegisterInfra_foreign show ?thesis
    unfolding gql_rules_environment by blast
next
  case (Delete q)
  then obtain r where "r_DeleteInfra g env c pid q s = (r, s', sigs)" using assms by (metis infra_router.simps(2) surjective_pairing)
  from guarded_role [OF this [unfolded r_DeleteInfra_def]] DeleteInfra_foreign show ?thesis
    unfolding gql_rules_environment by blast
qed

end

text \<open>
  C16: A request to register or delete an infrastructure changes the database or sends a signal only if its token verifies and
  the authentication server's database has its user as an active, accepted owner of the project it names. No
  infrastructure and no environment of another project changes.
\<close>

theorem infras_changed_by_owners:
  assumes "gql_db g idocs edocs udocs pdocs rdocs adocs cdocs"
    and "infra_router g env c pid rq s = (s', sigs)" and "s' \<noteq> s \<or> sigs \<noteq> []"
  shows "(\<exists>u. token_user g env (gc_token c) s = Some u \<and> permitted (udocs s) (pdocs s) u pid [RoleOwner] AcceptedInvitation) \<and>
    filter_mset (\<lambda>i. i_ProjectID i \<noteq> pid) (idocs s') = filter_mset (\<lambda>i. i_ProjectID i \<noteq> pid) (idocs s) \<and>
    filter_mset (\<lambda>e. e_ProjectID e \<noteq> pid) (edocs s') = filter_mset (\<lambda>e. e_ProjectID e \<noteq> pid) (edocs s)"
  using gql_db.infra_router_owner [OF assms(1,2)] assms(3) unfolding gql_db.keeps_foreign_def [OF assms(1)] by blast

theorem infras_changed_by_owners_witness:
  "\<exists>s' sigs u. infra_router mem_gql sample_gql_env sample_gctx ''p1'' (Delete ''infra1'') sample_gql_state = (s', sigs) \<and> sigs \<noteq> [] \<and>
     token_user mem_gql sample_gql_env ''t-ABC'' sample_gql_state = Some u"
proof -
  let ?r = "infra_router mem_gql sample_gql_env sample_gctx ''p1'' (Delete ''infra1'') sample_gql_state"
  have sent: "snd ?r \<noteq> []" by code_simp
  then have "fst ?r \<noteq> sample_gql_state \<or> snd ?r \<noteq> []" by simp
  from infras_changed_by_owners [OF mem_gql_db surjective_pairing this] sent show ?thesis
    by (metis (no_types, lifting) gctx.select_convs(1) sample_gctx_def surjective_pairing)
qed

section \<open>Deleting the infrastructure of another project\<close>

lemma updated_all_none: "(\<And>d. d \<in># M \<Longrightarrow> \<not> P d) \<Longrightarrow> updated_all P f M = M"
  unfolding updated_all_def by (induction M) auto

lemma DeleteInfra_success:
  assumes "DeleteInfra g env c pid i s = (Inr (Inr m), s', sigs)"
  obtains u infra s1 ns where "GetUsername g env (gc_token c) s = Inr (Inr u)" "op_GetInfra g i s = Inr infra"
    "op_UpdateInfra g (live_infra pid i) (removed_infra env u) s = (None, s1)"
    "op_UpdateEnvironment g (names_environment pid (i_EnvironmentID infra)) (pull_infra (i_InfraID infra)) s1 = (None, s')"
    "i_InfraNamespace infra = Some ns" "sigs = map (delete_signal infra ns u) (delete_requests ns)"
  using assms unfolding DeleteInfra_stages by (auto split: sum.splits prod.splits option.splits)

text \<open>
  The deletion does not check that the infrastructure belongs to the project of the request. For one of another project
  nothing is marked as removed, but the answer is the same success, and the delete requests go to the subscriber of that infrastructure.
\<close>

theorem foreign_infra_torn_down:
  assumes "gql_db g idocs edocs udocs pdocs rdocs adocs cdocs" and "unique_by i_InfraID (idocs s)"
    and "infra \<in># idocs s" "i_InfraID infra = infraId" "i_ProjectID infra \<noteq> pid"
    and "DeleteInfra g env c pid infraId s = (Inr (Inr m), s', sigs)"
  shows "m = ''infra deleted successfully'' \<and> idocs s' = idocs s \<and> length sigs = 2 \<and>
    (\<forall>sig\<in>set sigs. \<exists>rq. sig = SubscriberRequest rq \<and> sr_RequestType rq = ''delete'' \<and>
       sr_InfraID rq = infraId \<and> sr_ProjectID rq = i_ProjectID infra)"
proof (rule DeleteInfra_success [OF assms(6)], goal_cases)
  case (1 u infra' s1 ns)
  have same: "infra' = infra"
    using gql_db.op_GetInfra_ok [OF assms(1) 1(2)] unique_byD [OF assms(2) _ assms(3)] assms(4) by auto
  have "idocs s1 = idocs s"
    unfolding gql_db.op_UpdateInfra_ok(1) [OF assms(1) 1(3)]
    by (rule updated_all_none) (use unique_byD [OF assms(2) _ assms(3)] assms(4,5) in \<open>auto simp: live_infra_def\<close>)
  moreover have "idocs s' = idocs s1" by (rule gql_db.op_UpdateEnvironment_ok(2) [OF assms(1) 1(4)])
  moreover have "m = ''infra deleted successfully''"
    using assms(6) unfolding DeleteInfra_stages by (auto split: sum.splits prod.splits option.splits)
  ultimately show ?case
    unfolding 1(6) same using assms(4) by (auto simp: delete_signal_def delete_requests_def)
qed

theorem foreign_infra_torn_down_witness:
  "\<exists>s' sigs. DeleteInfra mem_gql sample_gql_env sample_gctx ''p1'' ''infra9'' sample_gql_state =
      (Inr (Inr ''infra deleted successfully''), s', sigs) \<and>
     mset (st_infras s') = mset (st_infras sample_gql_state) \<and> length sigs = 2"
proof -
  let ?r = "DeleteInfra mem_gql sample_gql_env sample_gctx ''p1'' ''infra9'' sample_gql_state"
  have "fst ?r = Inr (Inr ''infra deleted successfully'')" by code_simp
  from tripleI [OF this refl] have r: "?r = (Inr (Inr ''infra deleted successfully''), fst (snd ?r), snd (snd ?r))" .
  have "unique_by i_InfraID (mset (st_infras sample_gql_state))" "sample_infra_doc ''infra9'' ''p9'' \<in># mset (st_infras sample_gql_state)"
    "i_InfraID (sample_infra_doc ''infra9'' ''p9'') = ''infra9''" "i_ProjectID (sample_infra_doc ''infra9'' ''p9'') \<noteq> ''p1''"
    unfolding unique_by_mset by (simp_all add: sample_gql_state_def sample_infra_doc_def)
  from foreign_infra_torn_down [OF mem_gql_db this r] r show ?thesis by blast
qed

text \<open>The manifest of any infrastructure, with its access key, for whoever may read manifests of some project.\<close>

lemma foreign_manifest_read:
  "r_GetInfraManifest mem_gql sample_gql_env sample_gctx ''infra9'' ''p1'' sample_gql_state =
     GetK8sInfraYaml sample_gql_env ''http://litmus'' (sample_infra_doc ''infra9'' ''p9'')"
  "\<exists>pre. GetK8sInfraYaml sample_gql_env ''http://litmus'' (sample_infra_doc ''infra9'' ''p9'') = Inr (Inr (pre @ ''id: infra9 key: key''))"
proof -
  show "r_GetInfraManifest mem_gql sample_gql_env sample_gctx ''infra9'' ''p1'' sample_gql_state =
     GetK8sInfraYaml sample_gql_env ''http://litmus'' (sample_infra_doc ''infra9'' ''p9'')" by code_simp
  have "(case GetK8sInfraYaml sample_gql_env ''http://litmus'' (sample_infra_doc ''infra9'' ''p9'') of
      Inr (Inr y) \<Rightarrow> suffix ''id: infra9 key: key'' y | _ \<Rightarrow> False)" by code_simp
  then show "\<exists>pre. GetK8sInfraYaml sample_gql_env ''http://litmus'' (sample_infra_doc ''infra9'' ''p9'') = Inr (Inr (pre @ ''id: infra9 key: key''))"
    by (auto simp: suffix_def split: sum.splits)
qed

text \<open>The check for an infrastructure of the same name looks at a field no document has.\<close>

context gql_db
begin

lemma GetInfras_ok: "GetInfras g P s = Inr ds \<Longrightarrow> mset ds = filter_mset P (idocs s)"
  by (cases "Find (infras g) P s") (auto simp: GetInfras_def dest!: infras.Find_ok)

lemma infra_names_not_checked:
  "GetInfras g (\<lambda>i. infra_name_field i = Some (ri_Name input) \<and> \<not> i_IsRemoved i \<and> i_ProjectID i = pid) s = Inr ds \<Longrightarrow> ds = []"
  by (drule GetInfras_ok) (simp add: infra_name_field_def)

end

section \<open>Versions\<close>

fun version_text :: "int \<times> int \<times> int \<Rightarrow> string" where
  "version_text (a, b, c) = itoa a @ ''.'' @ itoa b @ ''.'' @ itoa c"

fun small_version :: "int \<times> int \<times> int \<Rightarrow> bool" where
  "small_version (a, b, c) \<longleftrightarrow> 0 \<le> a \<and> a < 10 ^ 16 \<and> 0 \<le> b \<and> b \<le> 9 \<and> 0 \<le> c \<and> c \<le> 9"

fun version_le :: "int \<times> int \<times> int \<Rightarrow> int \<times> int \<times> int \<Rightarrow> bool" where
  "version_le (a, b, c) (x, y, z) \<longleftrightarrow> a < x \<or> a = x \<and> (b < y \<or> b = y \<and> c \<le> z)"

fun version_key :: "int \<times> int \<times> int \<Rightarrow> int" where
  "version_key (a, b, c) = 100 * a + 10 * b + c"

lemma version_key_le: "small_version v \<Longrightarrow> small_version w \<Longrightarrow> version_key v \<le> version_key w \<longleftrightarrow> version_le v w"
  by (cases v; cases w) auto

lemma itoa_no_dot: "CHR ''.'' \<notin> set (itoa i)"
  using itoa_chars by (fastforce dest: is_digit_neq)

lemma split_version: "go_split (version_text (a, b, c)) ''.'' = [itoa a, itoa b, itoa c]"
  using split_on_append [of "''.''" "CHR ''.''" "[]" "itoa a" "[]" "itoa b @ ''.'' @ itoa c"]
    split_on_append [of "''.''" "CHR ''.''" "[]" "itoa b" "[]" "itoa c"] split_on_nosep [of "CHR ''.''" "''.''" "itoa c" "[]"]
  by (simp add: go_split_def itoa_no_dot)

lemma updateVersionFormat_key:
  assumes "small_version v"
  shows "updateVersionFormat (version_text v) = Some (version_key v)"
proof -
  obtain a b c where v: "v = (a, b, c)" by (cases v)
  have r: "0 \<le> a" "a < 10 ^ 16" "0 \<le> b" "b \<le> 9" "0 \<le> c" "c \<le> 9" using assms v by auto
  have n: "in_int64 a" "in_int64 b" "in_int64 c" "in_int64 (a * 100)" "in_int64 (b * 10)" "in_int64 (a * 100 + b * 10)"
    "in_int64 (a * 100 + b * 10 + c)"
    using r by (auto simp: in_int64_def)
  have "version_text v \<noteq> CIVersion"
  proof
    assume "version_text v = CIVersion"
    then have "CHR ''.'' \<in> set CIVersion" unfolding v by (metis in_set_conv_decomp append_Cons append_Nil append_assoc version_text.simps)
    then show False by (simp add: CIVersion_def)
  qed
  then show ?thesis
    using n by (simp add: updateVersionFormat_def v split_version pow10_def del: version_text.simps)
qed

lemma compatible_map_keys:
  "list_all small_version vs \<Longrightarrow>
     compatible_map (map version_text vs) m = Inr (rev (map (\<lambda>v. (version_key v, version_text v)) vs) @ m)"
  by (induction vs arbitrary: m) (simp_all add: updateVersionFormat_key)

lemma fetchLatestVersion_max: "fetchLatestVersion ks = Max (insert 0 (set ks))"
proof -
  have step: "(if k > a then k else a) = max a k" for a k :: int by (simp add: max_def)
  have "foldl (\<lambda>latest k. if k > latest then k else latest) a ks = Max (insert a (set ks))" for a
    using Max.set_eq_fold [of a ks] by (simp add: step foldl_conv_fold max.commute)
  then show ?thesis by (simp add: fetchLatestVersion_def)
qed

lemma version_key_inj:
  assumes "small_version v" "small_version w" "version_key v = version_key w"
  shows "v = w"
proof -
  have "version_le v w" "version_le w v" using version_key_le [OF assms(1,2)] version_key_le [OF assms(2,1)] assms(3) by simp_all
  then show ?thesis by (cases v; cases w) auto
qed

text \<open>
  If every compatible version has the form \<^verbatim>\<open>a.b.c\<close> with minor and patch numbers below 10, the latest version reported is one
  of them and no other is later. (The key \<^verbatim>\<open>100a + 10b + c\<close> stays within 64 bits for majors below 10 to the 16.)
\<close>

theorem latest_version:
  assumes "g_InfraCompatibleVersions env = Inr (map version_text vs)" "vs \<noteq> []" "list_all small_version vs"
  shows "\<exists>v. v \<in> set vs \<and> (\<forall>w. w \<in> set vs \<longrightarrow> version_le w v) \<and>
    GetVersionDetails env = Inr (version_text v, map version_text vs)"
proof -
  let ?m = "rev (map (\<lambda>v. (version_key v, version_text v)) vs)"
  have small: "v \<in> set vs \<Longrightarrow> small_version v" for v using assms(3) by (auto simp: list_all_iff)
  have pos: "0 \<le> version_key v" if "v \<in> set vs" for v using small [OF that] by (cases v) auto
  have "Max (version_key ` set vs) \<in> version_key ` set vs" using assms(2) by (intro Max_in) auto
  then obtain v where v: "v \<in> set vs" "version_key v = Max (version_key ` set vs)" by force
  have top: "version_key w \<le> version_key v" if "w \<in> set vs" for w
    unfolding v(2) using that by (intro Max_ge) auto
  have latest: "fetchLatestVersion (map fst ?m) = version_key v"
    unfolding fetchLatestVersion_max using v pos [OF v(1)] assms(2) by (auto simp: image_image)
  have "map_of ?m (version_key v) = Some (version_text v)"
  proof -
    have "(version_key v, version_text v) \<in> set ?m" using v(1) by auto
    then obtain t where t: "map_of ?m (version_key v) = Some t" using weak_map_of_SomeI by fastforce
    then obtain w where "w \<in> set vs" "version_key w = version_key v" "t = version_text w"
      using map_of_SomeD [OF t] by (auto simp del: version_text.simps version_key.simps)
    with version_key_inj [of w v] small v(1) t show ?thesis by auto
  qed
  with latest have "GetVersionDetails env = Inr (version_text v, map version_text vs)"
    by (simp add: GetVersionDetails_def assms(1) compatible_map_keys [OF assms(3)])
  moreover have "\<forall>w. w \<in> set vs \<longrightarrow> version_le w v" using top version_key_le small v(1) by blast
  ultimately show ?thesis using v(1) by blast
qed

theorem latest_version_witness:
  "GetVersionDetails (sample_gql_env\<lparr>g_InfraCompatibleVersions := Inr (map version_text [(3, 9, 0), (3, 0, 4)])\<rparr>) =
     Inr (version_text (3, 9, 0), map version_text [(3, 9, 0), (3, 0, 4)])"
  using latest_version [of "sample_gql_env\<lparr>g_InfraCompatibleVersions := Inr (map version_text [(3, 9, 0), (3, 0, 4)])\<rparr>"
      "[(3, 9, 0), (3, 0, 4)]"]
  by auto

text \<open>With a component above 9 the keys collide, and the version listed last wins.\<close>

lemma version_keys_collide:
  "updateVersionFormat ''1.10.0'' = updateVersionFormat ''2.0.0''"
  "GetVersionDetails (sample_gql_env\<lparr>g_InfraCompatibleVersions := Inr [''2.0.0'', ''1.10.0'']\<rparr>) = Inr (''1.10.0'', [''2.0.0'', ''1.10.0''])"
  by code_simp+

section \<open>Statistics\<close>

context gql_db
begin

lemma group_value_of: "map_of rs b = (case n of 0 \<Rightarrow> None | Suc k \<Rightarrow> Some (Suc k)) \<Longrightarrow> group_value rs b = int n"
  by (cases n) (simp_all add: group_value_def)

lemma GetInfraStats_counts:
  assumes "GetInfraStats g pid s = Inr st"
  defines "live \<equiv> filter_mset (\<lambda>i. i_ProjectID i = pid \<and> \<not> i_IsRemoved i) (idocs s)"
  shows "st_TotalActive st = int (size (filter_mset i_IsActive live))" "st_TotalActive st + st_TotalInactive st = int (size live)"
    "st_TotalConfirmed st + st_TotalNonConfirmed st = int (size live)" "st_TotalInfrastructures st = wrap64 (int (size live))"
proof -
  let ?P = "\<lambda>i. i_ProjectID i = pid \<and> \<not> i_IsRemoved i"
  obtain rss where r: "GroupCounts (infras g) ?P [i_IsActive, i_IsInfraConfirmed] s = Inr rss"
    using assms(1) by (auto simp: GetInfraStats_def split: sum.splits)
  from infras.GroupCounts_ok [OF r] obtain xs ys where xs: "rss = [xs, ys]"
    and m: "\<forall>b. map_of xs b = (case size (filter_mset (\<lambda>d. ?P d \<and> i_IsActive d = b) (idocs s)) of 0 \<Rightarrow> None | Suc n \<Rightarrow> Some (Suc n))"
      "\<forall>b. map_of ys b = (case size (filter_mset (\<lambda>d. ?P d \<and> i_IsInfraConfirmed d = b) (idocs s)) of 0 \<Rightarrow> None | Suc n \<Rightarrow> Some (Suc n))"
    by (auto simp only: list_all2_Cons1 list_all2_Nil)
  have counts: "group_value xs b = int (size (filter_mset (\<lambda>d. i_IsActive d = b) live))"
    "group_value ys b = int (size (filter_mset (\<lambda>d. i_IsInfraConfirmed d = b) live))" for b
    using m [THEN spec, THEN group_value_of, of b] by (simp_all add: live_def filter_filter_mset conj_commute)
  have split: "size (filter_mset (\<lambda>d. k d = True) live) + size (filter_mset (\<lambda>d. k d = False) live) = size live" for k
    by (induction live) auto
  show "st_TotalActive st = int (size (filter_mset i_IsActive live))" "st_TotalActive st + st_TotalInactive st = int (size live)"
    "st_TotalConfirmed st + st_TotalNonConfirmed st = int (size live)" "st_TotalInfrastructures st = wrap64 (int (size live))"
    using assms(1) split [of i_IsActive] split [of i_IsInfraConfirmed]
    by (auto simp: GetInfraStats_def r xs counts Let_def simp flip: of_nat_add)
qed

end

section \<open>Connections\<close>

definition sample_identity :: infra_identity where
  "sample_identity = \<lparr>id_InfraID = ''infra1'', id_AccessKey = ''key'', id_Version = ''3.9.0''\<rparr>"

definition sample_request :: subscriber_request where
  "sample_request = \<lparr>sr_K8sManifest = ''m'', sr_RequestType = ''create'', sr_ProjectID = ''p1'', sr_InfraID = ''infra1'', sr_Namespace = ''litmus'',
     sr_Username = None, sr_ExternalData = None\<rparr>"

definition registered_state :: gql_state where
  "registered_state = sample_gql_state\<lparr>st_infras := [(sample_infra_doc ''infra1'' ''p1'')\<lparr>i_IsRegistered := True\<rparr>]\<rparr>"

text \<open>A subscriber connects, and connects again after its first connection was cut.\<close>

definition reconnect_run :: "conn_event list" where
  "reconnect_run = [InfraConnect sample_identity, MarkActive 0, AnnounceLive 0, Cancel 0, InfraConnect sample_identity, Disconnect 0]"


text \<open>
  C17: Whatever the order in which subscribers connect and are disconnected, the connection registered for an infrastructure is
  the newest one, as long as it has not been taken down, and there is none otherwise: a stale connection never removes
  a newer one. A channel never holds more than one request, and only requests for the infrastructure it belongs to.
\<close>

theorem newest_connection_registered:
  assumes "sv_reachable g env (empty_server s) sv"
  shows "(\<forall>infra n. ConnectedInfra sv infra = Some n \<longleftrightarrow>
      n < length (sv_conns sv) \<and> c_InfraID (sv_conns sv ! n) = infra \<and>
      c_watch (sv_conns sv ! n) \<in> {Waiting, CtxDone} \<and>
      (\<forall>m < length (sv_conns sv). c_InfraID (sv_conns sv ! m) = infra \<longrightarrow> m \<le> n)) \<and>
    (\<forall>c\<in>set (sv_conns sv). length (c_buffer c) \<le> 1 \<and> (\<forall>rq\<in>set (c_buffer c). sr_InfraID rq = c_InfraID c))"
proof -
  have ok: "registry_ok sv" "buffers_ok sv" using reachable_conn_ok [OF assms] by (simp_all add: conn_ok_def)
  have "buffer_ok c" if "c \<in> set (sv_conns sv)" for c
    using ok(2) that by (auto simp: buffers_ok_def in_set_conv_nth)
  then show ?thesis using ok(1) by (auto simp: registry_ok_def newest_def up_def buffer_ok_def)
qed

theorem newest_connection_registered_witness:
  "\<exists>sv. run_conn mem_gql sample_gql_env reconnect_run (empty_server registered_state) = Some sv \<and> ConnectedInfra sv ''infra1'' = Some 1"
proof -
  let ?r = "run_conn mem_gql sample_gql_env reconnect_run (empty_server registered_state)"
  have "(case ?r of Some sv \<Rightarrow> length (sv_conns sv) = 2 \<and> c_InfraID (sv_conns sv ! 1) = ''infra1'' \<and> c_watch (sv_conns sv ! 1) = Waiting | None \<Rightarrow> False)"
    by code_simp
  then obtain sv where sv: "?r = Some sv" "length (sv_conns sv) = 2" "c_InfraID (sv_conns sv ! 1) = ''infra1''"
    "c_watch (sv_conns sv ! 1) = Waiting" by (auto split: option.splits)
  from newest_connection_registered [OF run_conn_reachable [OF sv(1) sv_start]] sv(2-4) have "ConnectedInfra sv ''infra1'' = Some 1"
    by auto
  with sv(1) show ?thesis by blast
qed

text \<open>
  Sending a request keeps the mutex until the channel accepts the request. Once a sender waits for a channel that is full
  and that nobody reads any more, it waits for ever and keeps the mutex: no connection can be registered or
  removed and no request can be sent to any infrastructure from then on.
\<close>

theorem lost_reader_blocks_server:
  assumes "sv_mutex sv = Some (n, rq)" "n < length (sv_conns sv)" "c_buffer (sv_conns sv ! n) \<noteq> []" "\<not> c_reading (sv_conns sv ! n)"
    and "sv_reachable g env sv sv'"
  shows "sv_mutex sv' = Some (n, rq) \<and> conn_step g env Deliver sv' = None \<and>
    (\<forall>rq'. conn_step g env (Lock rq') sv' = None) \<and> (\<forall>m. conn_step g env (Disconnect m) sv' = None) \<and>
    (\<forall>ident i. VerifyInfra g env ident (sv_db sv') = Inr i \<longrightarrow> conn_step g env (InfraConnect ident) sv' = None)"
proof -
  have "stuck n rq sv" using assms(1-4) by (simp add: stuck_def)
  then have "stuck n rq sv'" by (rule stuck_forever [OF assms(5)])
  then show ?thesis by (simp add: stuck_def)
qed

text \<open>The situation arises: the client goes away after a first request was buffered and before a second one is sent.\<close>

definition lost_reader_run :: "conn_event list" where
  "lost_reader_run = [InfraConnect sample_identity, MarkActive 0, AnnounceLive 0, Cancel 0, StopReading 0, Lock sample_request, Deliver,
     Lock sample_request]"

theorem lost_reader_blocks_server_witness:
  "\<exists>sv. run_conn mem_gql sample_gql_env lost_reader_run (empty_server registered_state) = Some sv \<and>
     (\<forall>sv'. sv_reachable mem_gql sample_gql_env sv sv' \<longrightarrow> sv_mutex sv' = Some (0, sample_request))"
proof -
  let ?r = "run_conn mem_gql sample_gql_env lost_reader_run (empty_server registered_state)"
  have "(case ?r of Some sv \<Rightarrow> sv_mutex sv = Some (0, sample_request) \<and> 0 < length (sv_conns sv) \<and> c_buffer (sv_conns sv ! 0) \<noteq> [] \<and>
      \<not> c_reading (sv_conns sv ! 0) | None \<Rightarrow> False)"
    by code_simp
  then obtain sv where sv: "?r = Some sv" "sv_mutex sv = Some (0, sample_request)" "0 < length (sv_conns sv)"
    "c_buffer (sv_conns sv ! 0) \<noteq> []" "\<not> c_reading (sv_conns sv ! 0)" by (auto split: option.splits)
  from lost_reader_blocks_server [OF sv(2-5)] sv(1) show ?thesis by blast
qed

text \<open>
  The database update of a connection that was taken down is not ordered with that of its successor: an infrastructure that
  is connected and served may stay marked as inactive.
\<close>

lemma connected_but_inactive:
  "(case run_conn mem_gql sample_gql_env
      [InfraConnect sample_identity, MarkActive 0, AnnounceLive 0, Cancel 0, StopReading 0, Disconnect 0, AnnounceOffline 0,
       InfraConnect sample_identity, MarkActive 1, AnnounceLive 1, MarkInactive 0] (empty_server registered_state) of
      None \<Rightarrow> False
    | Some sv \<Rightarrow> ConnectedInfra sv ''infra1'' = Some 1 \<and> c_main (sv_conns sv ! 1) = Serving \<and> c_watch (sv_conns sv ! 1) = Waiting \<and>
        c_watch (sv_conns sv ! 0) = Ended \<and> list_all (\<lambda>i. \<not> i_IsActive i) (st_infras (sv_db sv)))"
  by code_simp

end
