(* ===== verification/Spec2Isabelle.thy ===== *)
theory Spec2Isabelle
  imports Gql_GitOps_Findings Gql_Hub_Claims Stop_Run Gql_Images Upgrade_Manager Auth_User_Props Subscriber_Props Event_Tracker_Props Gql_Infra_Props
begin

text \<open>
  A verification development of LitmusChaos, the control plane and agents under \<^verbatim>\<open>src/chaoscenter\<close>.

  \<^bold>\<open>The program.\<close> Users log in at the authentication server, which keeps users, projects and their
  members, and tokens. The GraphQL server serves the web client and the agents; it asks the authentication
  server over gRPC whether a caller has a role in a project. Environments group chaos infrastructures;
  an infrastructure is a cluster with a subscriber, which confirms its registration, keeps a connection
  to the GraphQL server, executes requests and reports the runs of experiments. An experiment is a workflow of faults
  with probes and weights; faults come from chaos hubs, which are git repositories, and GitOps keeps experiments in step with a
  repository of the user. The event tracker watches workloads of a cluster and triggers experiments when the
  conditions of a policy hold. The upgrade agent migrates the database from version to version.

  \<^bold>\<open>Shared theories.\<close> \<^verbatim>\<open>Litmus_Prelude\<close>: panics, 64-bit integers, multiset and list lemmas.
  \<^verbatim>\<open>Go_Strings\<close>, \<^verbatim>\<open>Go_Base64\<close>, \<^verbatim>\<open>Go_Float\<close>, \<^verbatim>\<open>Go_Path\<close>, \<^verbatim>\<open>Go_Sort\<close>, \<^verbatim>\<open>Go_Utf8\<close>, \<^verbatim>\<open>Go_Quote\<close>: the parts of Go's standard library the code uses.
  \<^verbatim>\<open>Go_Outcome\<close>: operations that may fail or panic, their sequence, and rules for what they leave behind. \<^verbatim>\<open>Mongo\<close>: a collection of the
  MongoDB driver as a record of operations, the documented effect of each as the locale
  \<^verbatim>\<open>mongo_collection\<close>, and an executable collection that is proved to satisfy it.

  \<^bold>\<open>Authentication server\<close> (\<^verbatim>\<open>authentication\<close>). \<^verbatim>\<open>Auth_Entities\<close> (\<^verbatim>\<open>pkg/entities\<close>, \<^verbatim>\<open>pkg/utils/errors.go\<close>, presenters),
  \<^verbatim>\<open>Auth_Db\<close> (the database handle, locale \<^verbatim>\<open>auth_db\<close>, and the libraries), \<^verbatim>\<open>Auth_Project_Repo\<close>
  (\<^verbatim>\<open>pkg/project\<close>), \<^verbatim>\<open>Auth_User_Repo\<close> (\<^verbatim>\<open>pkg/user\<close>, \<^verbatim>\<open>pkg/validations\<close>, the transaction), \<^verbatim>\<open>Auth_Project_Handlers\<close>
  (\<^verbatim>\<open>project_handler.go\<close>), \<^verbatim>\<open>Auth_Sanitizers\<close>, \<^verbatim>\<open>Auth_Session\<close> (tokens, middleware, gRPC), \<^verbatim>\<open>Auth_User_Handlers\<close>.
  \<^verbatim>\<open>Membership_Protocol\<close> is an abstract specification of project membership as a step relation;
  \<^verbatim>\<open>Auth_Project_Refinement\<close> shows that every project request refines it, and \<^verbatim>\<open>Auth_Project_Props\<close>
  draws the conclusions (well-formed projects, who may change what, owners, pages). \<^verbatim>\<open>Auth_Session_Props\<close> and
  \<^verbatim>\<open>Auth_User_Props\<close> treat login, logout, deactivation, passwords and tokens.

  \<^bold>\<open>GraphQL server\<close> (\<^verbatim>\<open>graphql/server\<close>). \<^verbatim>\<open>Gql_Base\<close>: its database (locale \<^verbatim>\<open>gql_db\<close>, which extends \<^verbatim>\<open>auth_db\<close>), middleware
  and role check (\<^verbatim>\<open>pkg/authorization\<close>, \<^verbatim>\<open>pkg/grpc\<close>); the role check applies the model of the authentication
  server to the shared database, so its meaning is stated there.
  \<^item> Environments and infrastructures. \<^verbatim>\<open>Gql_Environment\<close>: \<^verbatim>\<open>pkg/environment\<close>,
    its operations and resolvers. \<^verbatim>\<open>Gql_Infra\<close>: \<^verbatim>\<open>pkg/chaos_infrastructure\<close>, registration, confirmation, verification,
    deletion, manifests, versions, statistics. \<^verbatim>\<open>Gql_Connections\<close>: the connections of the subscribers, with
    their goroutines, channels and the global mutex as a step relation. \<^verbatim>\<open>Gql_Environment_Props\<close> and \<^verbatim>\<open>Gql_Infra_Props\<close>:
    writes only by owners and only in their project, life of an environment, pages, what a registration
    stores, the exchange of access keys, the newest connection is the registered one, and
    how a lost reader blocks the server.
  \<^item> Runs. \<^verbatim>\<open>Run_Score\<close> (\<^verbatim>\<open>pkg/chaos_experiment_run/service.go\<close>, \<^verbatim>\<open>utils/misc.go\<close>): verdict counts and resiliency score of a run over the
    floating-point numbers of \<^verbatim>\<open>Go_Float\<close> (rationals rounded to 53 bits), independent of map iteration order and within
    0 and 100 under stated conditions. \<^verbatim>\<open>Gql_Exp_Base\<close>: documents of experiments, runs and probes, their database
    operations, the locale \<^verbatim>\<open>exp_db\<close>, which extends \<^verbatim>\<open>gql_db\<close>, and the parsed manifests. \<^verbatim>\<open>Gql_Runs\<close>: run events, stopping and
    deleting runs, statistics. \<^verbatim>\<open>Gql_Runs_Props\<close>: a completed run never changes, what an acknowledged event stores,
    how the first event is counted, and a stopped run stays stopped.
  \<^item> Probes. \<^verbatim>\<open>Gql_Probes\<close>: \<^verbatim>\<open>pkg/probe\<close>, the service, the resolvers and the manifests of probes. \<^verbatim>\<open>Gql_Probes_Props\<close>: stored probes
    stay readable and their names unique, what of a request reaches the manifest, and which probes an engine gets.
  \<^item> Experiments. \<^verbatim>\<open>Gql_Exp_Ops\<close>: \<^verbatim>\<open>pkg/chaos_experiment/ops\<close>, the processing of manifests and the stored documents.
    \<^verbatim>\<open>Gql_Experiments\<close>: the handlers, \<^verbatim>\<open>RunChaosWorkFlow\<close> and \<^verbatim>\<open>RunCronExperiment\<close> among them. \<^verbatim>\<open>Gql_Exp_Laws\<close>: what each operation leaves of
    the stored documents. \<^verbatim>\<open>Gql_Experiments_Props\<close>: invariants over any sequence of requests, events and synchronisations.
    \<^verbatim>\<open>Gql_Launch_Props\<close>: a run is queued and sent, how its first event finds it, a failed run sends nothing, every fault has a weight.
  \<^item> GitOps. \<^verbatim>\<open>Gql_GitOps\<close>: \<^verbatim>\<open>pkg/gitops\<close>, the settings, the repository and the synchronisation. \<^verbatim>\<open>Gql_GitOps_Props\<close>: the locale \<^verbatim>\<open>git_db\<close>
    and what a synchronisation leaves of the experiments; the files it looks at are treated in \<^verbatim>\<open>Gql_Launch_Props\<close>.
    \<^verbatim>\<open>Gql_GitOps_Findings\<close>: the settings are read back, and where the code does not do what it means to.
  \<^item> Chaos hubs. \<^verbatim>\<open>Gql_Hubs\<close> (documents, git operations, charts and archives), \<^verbatim>\<open>Gql_Hub_Service\<close> (\<^verbatim>\<open>pkg/chaoshub/service.go\<close>,
    resolvers, background synchronisation). \<^verbatim>\<open>Gql_Hub_Props\<close> and \<^verbatim>\<open>Gql_Hub_Claims\<close>: a downloaded archive writes only below its directory,
    who changes hubs, what is listed, the life of a hub, and that the synchronisation keeps running.
  \<^item> Image registries. \<^verbatim>\<open>Gql_Images\<close>: \<^verbatim>\<open>pkg/image_registry\<close>; the settings stored last are the ones read.

  \<^bold>\<open>Agents.\<close> \<^verbatim>\<open>Subscriber_Events\<close> (\<^verbatim>\<open>subscriber/pkg/events\<close>): handlers of workflow and chaos engine events, merging with the
  event seen before, verdict and report, and the loop over the stream. \<^verbatim>\<open>Subscriber_Props\<close>: no
  panic in any reachable state, the content of a report, chaos data is kept while the run lists its engines, the verdict, and a fair sender processes every
  event (runs are infinite sequences of states there). \<^verbatim>\<open>Subscriber_Cluster\<close>: the Kubernetes API as a record of operations and the locale \<^verbatim>\<open>kube_cluster\<close>.
  \<^verbatim>\<open>Subscriber_Requests\<close> (\<^verbatim>\<open>subscriber.go\<close>, \<^verbatim>\<open>subscriber/pkg/requests\<close>, \<^verbatim>\<open>k8s\<close>, \<^verbatim>\<open>utils\<close>, \<^verbatim>\<open>graphql\<close>): the start of the agent with its confirmation,
  and the requests for objects, namespaces, logs, workflows and operations. \<^verbatim>\<open>Subscriber_Requests_Props\<close>, \<^verbatim>\<open>Subscriber_Texts\<close> and \<^verbatim>\<open>Subscriber_Requests_Claims\<close>: a
  request changes what its type says and nothing else, the access key is kept, namespaces are listed, logs can be read back.
  \<^verbatim>\<open>Stop_Run\<close> joins the server and the subscriber: what a run stopped by a user becomes in the cluster.
  \<^verbatim>\<open>Event_Tracker\<close> (\<^verbatim>\<open>event-tracker\<close>): conditions, auditor, request, and the reconciler with several loops
  that update optimistically. \<^verbatim>\<open>Event_Tracker_Props\<close>: when a policy passes, every claim of a trigger is one request, a pass
  returns, released claims are sent again. \<^verbatim>\<open>Upgrade_Manager\<close> (\<^verbatim>\<open>upgrade-agents/control-plane/versions/upgrade-manager.go\<close>):
  versions, upgrade path, execution.

  \<^bold>\<open>Conventions.\<close> Structs are records, errors are values, a panic is an \<^verbatim>\<open>Inl\<close> of the type \<^verbatim>\<open>go_panic\<close>, state is
  passed explicitly. The database driver, bcrypt, JWT, mail and URL parsing, random bytes, clock and identifiers, the table of printable characters, regular
  expressions, JMESPath, JSON and YAML coding, git, archives, the file system, Kubernetes and HTTP are parameters: fields of a record that the
  operations take. What is assumed of them is stated as a locale or a premise; every such premise is shown to
  hold for a concrete deployment, on which the witnesses run. The driver may fail at every call, and a
  failed write may have happened. One request is handled at a time, except where interleaving is the point:
  the subscriber's stream, the reconciler loops and the connections are step relations.

  \<^bold>\<open>Bounds.\<close> Integers that are computed with are wrapped to 64 bits. The only fuel is that of a reconcile pass,
  the number of statuses plus six steps, and it is proved to be enough. The loop over the chunks of the namespaces is a partial function that is
  proved to return, at the latest at the deadline of the request. The endless loops of the server and the subscriber are given by what they process: the
  background synchronisations by the number of their rounds, the connection of the subscriber by the messages that arrive. All other
  loops are recursions that are shown to end.

  \<^bold>\<open>Not modelled.\<close> Of the GraphQL server: the queries that are aggregation pipelines over several collections (\<^verbatim>\<open>GetExperiment\<close>,
  \<^verbatim>\<open>ListExperiment\<close>, \<^verbatim>\<open>GetExperimentStats\<close>, \<^verbatim>\<open>GetExperimentRun\<close>, \<^verbatim>\<open>ListExperimentRun\<close>, \<^verbatim>\<open>ListProbes\<close>, \<^verbatim>\<open>GetProbeReference\<close>, \<^verbatim>\<open>GetInfra\<close>,
  \<^verbatim>\<open>ListInfras\<close>), which change nothing; the lists of event listeners; the generation of SSH keys; metrics; the gqlgen code, which is generated.
  Of the subscriber: TLS settings, \<^verbatim>\<open>main\<close> and the messages that open the subscription. Of the upgrade agent: the migrations, each a single update of the
  database. The start-up of the servers, CORS, mocks, the web client and deployment files contain no logic of this kind.
\<close>

end
